(* ===== verification/Prelude.thy ===== *)
theory Prelude
  imports Complex_Main "HOL-Library.AList" "HOL-Library.Char_ord" "HOL-Library.List_Lexorder"
begin

text \<open>
  What the component theories share: the JavaScript string helpers the sources call
  (\<open>includes\<close>, \<open>startsWith\<close>, \<open>endsWith\<close>, \<open>slice\<close>, \<open>join\<close>, decimal rendering of integers
  in template literals), the insertion-ordered \<open>Map\<close>, and the hint collections.

  Strings are character lists over the code units 0 to 255; the sources only
  build and compare such strings. A JavaScript \<open>Map\<close> is an association list
  whose order is the insertion order: \<open>set\<close> on a present key keeps its place and
  on a new key appends, which is what \<open>AList.update\<close> does.
\<close>

named_theorems js_string \<open>rewriting of the string helpers\<close>
named_theorems js_map \<open>lookups after updates of an insertion-ordered map\<close>

section \<open>Insertion-ordered maps\<close>

type_synonym ('k, 'v) jsmap = "('k \<times> 'v) list"

definition mget :: "('k, 'v) jsmap \<Rightarrow> 'k \<Rightarrow> 'v option" where
  "mget m k = map_of m k"

definition mset_at :: "'k \<Rightarrow> 'v \<Rightarrow> ('k, 'v) jsmap \<Rightarrow> ('k, 'v) jsmap" where
  "mset_at k v m = AList.update k v m"

definition mdelete :: "'k \<Rightarrow> ('k, 'v) jsmap \<Rightarrow> ('k, 'v) jsmap" where
  "mdelete k m = AList.delete k m"

definition mhas :: "('k, 'v) jsmap \<Rightarrow> 'k \<Rightarrow> bool" where
  "mhas m k \<longleftrightarrow> mget m k \<noteq> None"

lemma mget_Nil [simp, js_map]: "mget [] k = None"
  by (simp add: mget_def)

lemma mget_Cons [simp]: "mget ((a, b) # m) k = (if a = k then Some b else mget m k)"
  by (simp add: mget_def)

lemma mget_mset_at [simp, js_map]: "mget (mset_at k v m) l = (if k = l then Some v else mget m l)"
  by (simp add: mget_def mset_at_def update_conv)

lemma mget_mdelete [simp, js_map]: "mget (mdelete k m) l = (if k = l then None else mget m l)"
  by (simp add: mget_def mdelete_def delete_conv)

lemma mhas_mset_at [simp, js_map]: "mhas (mset_at k v m) l \<longleftrightarrow> k = l \<or> mhas m l"
  by (simp add: mhas_def)

lemma distinct_keys_mset_at [simp]:
  "distinct (map fst m) \<Longrightarrow> distinct (map fst (mset_at k v m))"
  by (simp add: mset_at_def distinct_update)

lemma distinct_keys_mdelete [simp]:
  "distinct (map fst m) \<Longrightarrow> distinct (map fst (mdelete k m))"
  by (simp add: mdelete_def distinct_delete)

section \<open>Strings\<close>

text \<open>\<open>s.startsWith(p)\<close>, \<open>s.endsWith(p)\<close> and \<open>s.includes(p)\<close>.\<close>

definition starts_with :: "string \<Rightarrow> string \<Rightarrow> bool" where
  "starts_with s p \<longleftrightarrow> take (length p) s = p"

definition ends_with :: "string \<Rightarrow> string \<Rightarrow> bool" where
  "ends_with s p \<longleftrightarrow> starts_with (rev s) (rev p)"

fun str_includes :: "string \<Rightarrow> string \<Rightarrow> bool" where
  "str_includes s p = (starts_with s p \<or> (case s of [] \<Rightarrow> False | _ # s' \<Rightarrow> str_includes s' p))"

declare str_includes.simps [simp del]

lemma starts_with_append [simp]: "starts_with (p @ s) p"
  by (simp add: starts_with_def)

lemma starts_with_iff: "starts_with s p \<longleftrightarrow> (\<exists>t. s = p @ t)"
  by (metis append_take_drop_id starts_with_def starts_with_append)

lemma ends_with_iff: "ends_with s p \<longleftrightarrow> (\<exists>t. s = t @ p)"
proof -
  have "ends_with s p \<longleftrightarrow> (\<exists>t. rev s = rev p @ t)"
    by (simp add: ends_with_def starts_with_iff)
  also have "\<dots> \<longleftrightarrow> (\<exists>t. s = t @ p)"
    by (metis rev_append rev_rev_ident)
  finally show ?thesis .
qed

lemma includes_iff: "str_includes s p \<longleftrightarrow> (\<exists>u v. s = u @ p @ v)"
proof (induction s)
  case Nil
  then show ?case
    by (subst str_includes.simps) (simp add: starts_with_iff)
next
  case (Cons c s)
  have "str_includes (c # s) p \<longleftrightarrow> starts_with (c # s) p \<or> str_includes s p"
    by (subst str_includes.simps) simp
  also have "\<dots> \<longleftrightarrow> (\<exists>u v. c # s = u @ p @ v)"
    unfolding Cons.IH starts_with_iff by (metis append_Cons append_Nil list.inject neq_Nil_conv)
  finally show ?case .
qed

text \<open>\<open>xs.join(sep)\<close>.\<close>

fun join :: "string \<Rightarrow> string list \<Rightarrow> string" where
  "join sep [] = []"
| "join sep [x] = x"
| "join sep (x # y # ys) = x @ sep @ join sep (y # ys)"

lemma join_Cons: "ys \<noteq> [] \<Longrightarrow> join sep (x # ys) = x @ sep @ join sep ys"
  by (cases ys) simp_all

text \<open>\<open>s.split(c)\<close>.\<close>

fun split_char :: "char \<Rightarrow> string \<Rightarrow> string list" where
  "split_char c [] = [[]]"
| "split_char c (x # xs) = (if x = c then [] # split_char c xs
     else (case split_char c xs of [] \<Rightarrow> [[x]] | p # ps \<Rightarrow> (x # p) # ps))"

text \<open>\<open>s.trim()\<close>, on the spaces among the code units 0 to 255.\<close>

definition js_space :: "char \<Rightarrow> bool" where
  "js_space c = (let n = of_char c :: nat in 9 \<le> n \<and> n \<le> 13 \<or> n = 32 \<or> n = 160)"

definition js_trim :: "string \<Rightarrow> string" where
  "js_trim s = rev (dropWhile js_space (rev (dropWhile js_space s)))"

text \<open>\<open>s.toLowerCase()\<close> on the letters A to Z.\<close>

definition lower_char :: "char \<Rightarrow> char" where
  "lower_char c = (let n = of_char c :: nat in if 65 \<le> n \<and> n \<le> 90 then char_of (n + 32) else c)"

definition to_lower :: "string \<Rightarrow> string" where
  "to_lower s = map lower_char s"

text \<open>\<open>s.toUpperCase()\<close> on the letters a to z.\<close>

definition upper_char :: "char \<Rightarrow> char" where
  "upper_char c = (let n = of_char c :: nat in if 97 \<le> n \<and> n \<le> 122 then char_of (n - 32) else c)"

definition to_upper :: "string \<Rightarrow> string" where
  "to_upper s = map upper_char s"

section \<open>Decimal rendering\<close>

text \<open>\<open>String(n)\<close> and \<open>`${n}`\<close> for an integer \<open>n\<close>.\<close>

definition digit_char :: "nat \<Rightarrow> char" where
  "digit_char d = char_of (48 + d)"

fun dec_nat :: "nat \<Rightarrow> string" where
  "dec_nat n = (if n < 10 then [digit_char n] else dec_nat (n div 10) @ [digit_char (n mod 10)])"

declare dec_nat.simps [simp del]

definition dec_int :: "int \<Rightarrow> string" where
  "dec_int i = (if i < 0 then CHR ''-'' # dec_nat (nat (- i)) else dec_nat (nat i))"

definition is_digit :: "char \<Rightarrow> bool" where
  "is_digit c \<longleftrightarrow> 48 \<le> (of_char c :: nat) \<and> (of_char c :: nat) \<le> 57"

lemma char_eqI: "(of_char c :: nat) = n \<Longrightarrow> c = char_of n"
  by (metis char_of_char)

lemma of_char_digit_char: "d < 10 \<Longrightarrow> (of_char (digit_char d) :: nat) = 48 + d"
  by (simp add: digit_char_def)

lemma is_digit_digit_char: "d < 10 \<Longrightarrow> is_digit (digit_char d)"
  by (simp add: is_digit_def of_char_digit_char)

lemma digit_char_inj: "d < 10 \<Longrightarrow> e < 10 \<Longrightarrow> digit_char d = digit_char e \<Longrightarrow> d = e"
  by (metis add_left_cancel of_char_digit_char)

lemma dec_nat_digits: "c \<in> set (dec_nat n) \<Longrightarrow> is_digit c"
proof (induction n rule: dec_nat.induct)
  case (1 n)
  show ?case
  proof (cases "n < 10")
    case True
    with "1.prems" show ?thesis by (subst (asm) dec_nat.simps) (simp add: is_digit_digit_char)
  next
    case False
    with "1.prems" have "c \<in> set (dec_nat (n div 10)) \<or> c = digit_char (n mod 10)"
      by (subst (asm) dec_nat.simps) auto
    with False "1.IH" show ?thesis by (auto intro: is_digit_digit_char)
  qed
qed

lemma dec_nat_nonempty [simp]: "dec_nat n \<noteq> []" "[] \<noteq> dec_nat n"
  by (subst dec_nat.simps; simp)+

lemma dec_nat_inj: "dec_nat m = dec_nat n \<Longrightarrow> m = n"
proof (induction m arbitrary: n rule: dec_nat.induct)
  case (1 m)
  note eq = "1.prems" [unfolded dec_nat.simps [of m] dec_nat.simps [of n]]
  show ?case
  proof (cases "m < 10")
    case True
    with eq show ?thesis
      by (cases "n < 10") (use dec_nat_nonempty [of "n div 10"] in \<open>auto dest: digit_char_inj\<close>)
  next
    case False
    with eq have n: "\<not> n < 10" by (auto split: if_splits)
    with False eq have "dec_nat (m div 10) = dec_nat (n div 10)"
      and "digit_char (m mod 10) = digit_char (n mod 10)" by auto
    with False "1.IH" have "m div 10 = n div 10" and "m mod 10 = n mod 10"
      using digit_char_inj [of "m mod 10" "n mod 10"] by simp_all
    then show ?thesis by (metis div_mult_mod_eq)
  qed
qed

lemma dec_int_nonempty [simp]: "dec_int i \<noteq> []"
  by (simp add: dec_int_def)

lemma dec_int_chars: "c \<in> set (dec_int i) \<Longrightarrow> is_digit c \<or> c = CHR ''-''"
  by (auto simp: dec_int_def dest: dec_nat_digits split: if_splits)

lemma not_digit_minus [simp]: "\<not> is_digit (CHR ''-'')"
  by (simp add: is_digit_def)

lemma dec_nat_not_minus [simp]: "dec_nat n \<noteq> CHR ''-'' # s" "CHR ''-'' # s \<noteq> dec_nat n"
  using dec_nat_digits [of "CHR ''-''" n] by (metis list.set_intros(1) not_digit_minus)+

lemma dec_int_inj: "dec_int i = dec_int j \<Longrightarrow> i = j"
  using dec_nat_inj [of "nat (- i)" "nat (- j)"] dec_nat_inj [of "nat i" "nat j"]
  by (auto simp: dec_int_def split: if_splits)

text \<open>Reading a decimal integer back (\<open>Number(s)\<close>, \<open>parseInt(s, 10)\<close>, Lua's \<open>tonumber\<close>, on the texts
  the programs themselves wrote); \<open>None\<close> stands for \<open>NaN\<close>.\<close>

definition digit_val :: "char \<Rightarrow> nat" where
  "digit_val c = of_char c - 48"

definition parse_nat :: "string \<Rightarrow> nat option" where
  "parse_nat s = (if s \<noteq> [] \<and> list_all is_digit s then Some (foldl (\<lambda>n c. n * 10 + digit_val c) 0 s) else None)"

definition parse_int :: "string \<Rightarrow> int option" where
  "parse_int s = (case s of
     [] \<Rightarrow> None
   | c # t \<Rightarrow> (if c = CHR ''-'' then map_option (\<lambda>n. - int n) (parse_nat t) else map_option int (parse_nat s)))"

lemma foldl_dec_nat: "foldl (\<lambda>n c. n * 10 + digit_val c) 0 (dec_nat n) = n"
proof (induction n rule: dec_nat.induct)
  case (1 n)
  show ?case
  proof (cases "n < 10")
    case True
    then show ?thesis by (subst dec_nat.simps) (simp add: digit_val_def of_char_digit_char)
  next
    case False
    with 1 show ?thesis by (subst dec_nat.simps) (simp add: digit_val_def of_char_digit_char)
  qed
qed

lemma parse_nat_dec_nat [simp]: "parse_nat (dec_nat n) = Some n"
  using dec_nat_digits by (auto simp: parse_nat_def foldl_dec_nat list_all_iff)

lemma parse_int_dec_int [simp]: "parse_int (dec_int i) = Some i"
proof (cases "i < 0")
  case True
  then show ?thesis by (simp add: parse_int_def dec_int_def)
next
  case False
  have "\<exists>c t. dec_nat (nat i) = c # t \<and> c \<noteq> CHR ''-''"
    by (metis dec_nat_nonempty(1) dec_nat_not_minus(1) list.exhaust)
  then obtain c t where "dec_nat (nat i) = c # t" "c \<noteq> CHR ''-''" by blast
  with False parse_nat_dec_nat [of "nat i"] show ?thesis by (simp add: parse_int_def dec_int_def)
qed

section \<open>Lists\<close>

text \<open>A character class ends where the two texts agree: used to read back printed tokens.\<close>

lemma span_unique:
  assumes "u @ x = v @ y"
    and "\<forall>c \<in> set u. P c" and "\<forall>c \<in> set v. P c"
    and "x = [] \<or> \<not> P (hd x)" and "y = [] \<or> \<not> P (hd y)"
  shows "u = v \<and> x = y"
proof -
  have tw: "takeWhile P (w @ z) = w" if "\<forall>c \<in> set w. P c" "z = [] \<or> \<not> P (hd z)" for w z
    using that by (cases z) (auto simp: takeWhile_append)
  from tw [OF assms(2,4)] tw [OF assms(3,5)] assms(1) have "u = v" by metis
  with assms(1) show ?thesis by simp
qed

end
