(* ===== verification/Json.thy ===== *)
theory Json
  imports Prelude
begin

text \<open>
  JSON values and the canonical serialisation of the event bus
  (\<open>canonicalize\<close> in \<open>packages/core/src/security/eventbus/envelope.ts\<close>),
  with \<open>JSON.stringify\<close> on strings and on integral numbers written out.
  The main result is that the canonical text determines the value up to key
  order and \<open>undefined\<close>, which is what makes a signature over the text a
  signature over the value.

  Numbers are the integral ones; an object is its list of own properties in
  insertion order; \<open>JUndef\<close> is \<open>undefined\<close>.
\<close>

datatype json =
    JUndef
  | JNull
  | JBool bool
  | JNum int
  | JStr string
  | JArr "json list"
  | JObj "(string \<times> json) list"

text \<open>\<open>obj[name]\<close> of a value that is neither \<open>null\<close> nor \<open>undefined\<close>, for a name no object inherits.\<close>

fun get_prop :: "string \<Rightarrow> json \<Rightarrow> json" where
  "get_prop f (JObj kvs) = (case map_of kvs f of None \<Rightarrow> JUndef | Some v \<Rightarrow> v)"
| "get_prop f _ = JUndef"

section \<open>Quoting\<close>

definition hex_char :: "nat \<Rightarrow> char" where
  "hex_char d = (if d < 10 then char_of (48 + d) else char_of (87 + d))"

definition esc_char :: "char \<Rightarrow> string" where
  "esc_char c =
     (let n = of_char c :: nat in
      if n = 34 then [CHR 0x5C, CHR 0x22]
      else if n = 92 then [CHR 0x5C, CHR 0x5C]
      else if n = 8 then [CHR 0x5C, CHR ''b'']
      else if n = 12 then [CHR 0x5C, CHR ''f'']
      else if n = 10 then [CHR 0x5C, CHR ''n'']
      else if n = 13 then [CHR 0x5C, CHR ''r'']
      else if n = 9 then [CHR 0x5C, CHR ''t'']
      else if n < 32 then [CHR 0x5C, CHR ''u'', CHR ''0'', CHR ''0'', hex_char (n div 16), hex_char (n mod 16)]
      else [c])"

definition quote :: "string \<Rightarrow> string" where
  "quote s = [CHR 0x22] @ concat (map esc_char s) @ [CHR 0x22]"

section \<open>Canonical serialisation\<close>

text \<open>
  \<open>Object.keys(record).sort()\<close> on the own properties: a stable sort of the
  property list by key, by code units.
\<close>

definition sorted_props :: "(string \<times> 'v) list \<Rightarrow> (string \<times> 'v) list" where
  "sorted_props kvs = sort_key fst kvs"

lemma set_sorted_props [simp]: "set (sorted_props kvs) = set kvs"
  by (simp add: sorted_props_def)

lemma json_size_prop:
  "(k, v) \<in> set kvs \<Longrightarrow> size v < Suc (size_list (size_prod (\<lambda>_. 0) size) kvs)"
  by (induction kvs) auto

lemma json_size_item: "(x :: json) \<in> set xs \<Longrightarrow> size x < Suc (size_list size xs)"
  by (induction xs) auto

function canonicalize :: "json \<Rightarrow> string" where
  "canonicalize JUndef = ''null''"
| "canonicalize JNull = ''null''"
| "canonicalize (JBool b) = (if b then ''true'' else ''false'')"
| "canonicalize (JNum i) = dec_int i"
| "canonicalize (JStr s) = quote s"
| "canonicalize (JArr xs) = ''['' @ join '','' (map canonicalize xs) @ '']''"
| "canonicalize (JObj kvs) =
     ''{'' @ join '',''
       (map (\<lambda>(k, v). quote k @ '':'' @ canonicalize v)
         (filter (\<lambda>(k, v). v \<noteq> JUndef) (sorted_props kvs))) @ ''}''"
  by pat_completeness auto
termination
  by (relation "measure size") (auto dest: json_size_prop json_size_item)

text \<open>
  What the text keeps of a value: keys sorted, \<open>undefined\<close> properties
  dropped, other \<open>undefined\<close> read as \<open>null\<close>.
\<close>

function norm_json :: "json \<Rightarrow> json" where
  "norm_json JUndef = JNull"
| "norm_json JNull = JNull"
| "norm_json (JBool b) = JBool b"
| "norm_json (JNum i) = JNum i"
| "norm_json (JStr s) = JStr s"
| "norm_json (JArr xs) = JArr (map norm_json xs)"
| "norm_json (JObj kvs) =
     JObj (map (\<lambda>(k, v). (k, norm_json v)) (filter (\<lambda>(k, v). v \<noteq> JUndef) (sorted_props kvs)))"
  by pat_completeness auto
termination
  by (relation "measure size") (auto dest: json_size_prop json_size_item)

section \<open>Reading the quoted text back\<close>

text \<open>One escaped character is read back by its first characters.\<close>

definition unhex :: "char \<Rightarrow> nat" where
  "unhex c = (let n = of_char c :: nat in if n < 58 then n - 48 else n - 87)"

fun unesc :: "string \<Rightarrow> (char \<times> string) option" where
  "unesc [] = None"
| "unesc (c # s) =
     (if of_char c = (34::nat) then None
      else if of_char c \<noteq> (92::nat) then Some (c, s)
      else (case s of
          [] \<Rightarrow> None
        | d # t \<Rightarrow>
            (if d = CHR ''b'' then Some (CHR 0x08, t)
             else if d = CHR ''f'' then Some (CHR 0x0C, t)
             else if d = CHR ''n'' then Some (CHR 0x0A, t)
             else if d = CHR ''r'' then Some (CHR 0x0D, t)
             else if d = CHR ''t'' then Some (CHR 0x09, t)
             else if d = CHR ''u'' then
               (case drop 2 t of
                  h # l # u \<Rightarrow> Some (char_of (unhex h * 16 + unhex l), u)
                | _ \<Rightarrow> None)
             else Some (d, t))))"

lemma unhex_hex_char: "d < 16 \<Longrightarrow> unhex (hex_char d) = d"
  by (simp add: unhex_def hex_char_def)

lemma unesc_esc_char: "unesc (esc_char c @ s) = Some (c, s)"
proof -
  have hex: "unhex (hex_char (of_char c div 16)) * 16 + unhex (hex_char (of_char c mod 16)) = of_char c"
    if "(of_char c :: nat) < 32" using that by (simp add: unhex_hex_char)
  show ?thesis
  proof (cases "(of_char c :: nat) \<in> {34, 92, 8, 12, 10, 13, 9}")
    case True
    then consider "c = CHR 0x22" | "c = CHR 0x5C" | "c = CHR 0x08"
      | "c = CHR 0x0C" | "c = CHR 0x0A" | "c = CHR 0x0D" | "c = CHR 0x09"
      by (auto simp flip: of_char_eq_iff [where 'a = nat])
    then show ?thesis by cases (simp_all add: esc_char_def)
  next
    case False
    then show ?thesis
    proof (cases "(of_char c :: nat) < 32")
      case True
      with False have "esc_char c @ s = CHR 0x5C # CHR ''u'' # CHR ''0'' # CHR ''0''
          # hex_char (of_char c div 16) # hex_char (of_char c mod 16) # s"
        by (simp add: esc_char_def Let_def)
      then show ?thesis using hex [OF True] by simp
    next
      case big: False
      with False have "esc_char c = [c]" by (simp add: esc_char_def)
      with False show ?thesis by simp
    qed
  qed
qed

lemma unesc_end: "unesc (CHR 0x22 # s) = None"
  by simp

lemma quoted_unique:
  "concat (map esc_char s) @ CHR 0x22 # x = concat (map esc_char t) @ CHR 0x22 # y
    \<Longrightarrow> s = t \<and> x = y"
proof (induction s arbitrary: t)
  case Nil
  then show ?case
    by (cases t) (simp_all, metis unesc_end unesc_esc_char append_assoc option.distinct(1))
next
  case (Cons c s)
  show ?case
  proof (cases t)
    case Nil
    with Cons.prems show ?thesis
      by (simp, metis unesc_end unesc_esc_char append_assoc option.distinct(1))
  next
    case (Cons d u)
    have "unesc (concat (map esc_char (c # s)) @ CHR 0x22 # x)
        = unesc (concat (map esc_char (d # u)) @ CHR 0x22 # y)"
      using Cons.prems \<open>t = d # u\<close> by presburger
    then have "c = d" and "concat (map esc_char s) @ CHR 0x22 # x = concat (map esc_char u) @ CHR 0x22 # y"
      by (simp_all add: unesc_esc_char)
    with Cons.IH [of u] Cons show ?thesis by blast
  qed
qed

lemma quote_unique: "quote s @ x = quote t @ y \<Longrightarrow> s = t \<and> x = y"
  using quoted_unique [of s x t y] by (simp add: quote_def)

section \<open>The canonical text determines the value\<close>

text \<open>What may follow a value inside a canonical text.\<close>

definition delim :: "string \<Rightarrow> bool" where
  "delim s \<longleftrightarrow> s = [] \<or> hd s \<in> {CHR '','', CHR '']'', CHR ''}''}"

lemma delim_simps [simp]:
  "delim []" "delim (c # s) \<longleftrightarrow> c \<in> {CHR '','', CHR '']'', CHR ''}''}"
  by (simp_all add: delim_def)

lemma join_unique:
  assumes item: "\<And>a b x y. a \<in> set as \<Longrightarrow> f a @ x = f b @ y \<Longrightarrow> delim x \<Longrightarrow> delim y \<Longrightarrow> r a = r b \<and> x = y"
    and first: "\<And>a. \<not> delim (f a)"
    and e: "e = CHR '']'' \<or> e = CHR ''}''"
    and eq: "join '','' (map f as) @ e # x = join '','' (map f bs) @ e # y"
  shows "map r as = map r bs \<and> x = y"
  using item eq
proof (induction as arbitrary: bs)
  case Nil
  then show ?case
  proof (cases bs)
    case (Cons b bs')
    from first [of b] obtain c s where "f b = c # s" "\<not> delim (c # s)" by (cases "f b") auto
    with Nil.prems(2) Cons e show ?thesis by (cases bs') auto
  qed simp
next
  case (Cons a as)
  let ?rest = "\<lambda>zs w. (if zs = [] then e # w else CHR '','' # join '','' (map f zs) @ e # w)"
  have split: "join '','' (map f (z # zs)) @ e # w = f z @ ?rest zs w" for z zs w
    by (cases zs) simp_all
  have dl: "delim (?rest zs w)" for zs w using e by auto
  show ?case
  proof (cases bs)
    case Nil
    from first [of a] obtain c s where "f a = c # s" "\<not> delim (c # s)" by (cases "f a") auto
    with Cons.prems(2) Nil e show ?thesis by (cases as) auto
  next
    case (Cons b bs')
    from Cons.prems(2) have "f a @ ?rest as x = f b @ ?rest bs' y"
      unfolding Cons split .
    from Cons.prems(1) [OF _ this dl dl] have ab: "r a = r b" and rest: "?rest as x = ?rest bs' y"
      by simp_all
    show ?thesis
    proof (cases "as = [] \<or> bs' = []")
      case True
      with rest e have "as = []" "bs' = []" "x = y" by (auto split: if_splits)
      with ab Cons show ?thesis by simp
    next
      case False
      with rest have "join '','' (map f as) @ e # x = join '','' (map f bs') @ e # y" by simp
      from Cons.IH [OF Cons.prems(1) this] ab Cons show ?thesis by simp
    qed
  qed
qed

lemma quote_first: "\<exists>s. quote t = CHR 0x22 # s"
  by (simp add: quote_def)

lemma dec_int_first: "\<exists>c s. dec_int i = c # s \<and> (is_digit c \<or> c = CHR ''-'')"
  using dec_int_nonempty [of i] dec_int_chars [of "hd (dec_int i)" i] by (cases "dec_int i") auto

lemma canonicalize_first: "\<not> delim (canonicalize j)"
proof (cases j)
  case (JNum i)
  with dec_int_first [of i] show ?thesis by (auto simp: is_digit_def)
next
  case (JStr s)
  with quote_first [of s] show ?thesis by auto
qed simp_all

lemma num_unique:
  assumes "dec_int i @ x = dec_int j @ y" "delim x" "delim y"
  shows "i = j \<and> x = y"
proof -
  have nd: "z = [] \<or> \<not> (is_digit (hd z) \<or> hd z = CHR ''-'')" if "delim z" for z
    using that by (cases z) (auto simp: is_digit_def)
  have "dec_int i = dec_int j \<and> x = y"
    by (rule span_unique [OF assms(1), where P = "\<lambda>c. is_digit c \<or> c = CHR ''-''"])
      (use nd assms(2,3) dec_int_chars in blast)+
  then show ?thesis using dec_int_inj by blast
qed

lemma prop_unique:
  assumes "(case p of (k, v) \<Rightarrow> quote k @ '':'' @ f v) @ x = (case q of (k, v) \<Rightarrow> quote k @ '':'' @ f v) @ y"
  obtains k v w where "p = (k, v)" "q = (k, w)" "f v @ x = f w @ y"
proof -
  obtain k v l w where pq: "p = (k, v)" "q = (l, w)" by fastforce
  with assms have "quote k @ (CHR '':'' # f v @ x) = quote l @ (CHR '':'' # f w @ y)" by simp
  from quote_unique [OF this] pq that show ?thesis by simp
qed

text \<open>The first character of a canonical text tells the kind of the value.\<close>

definition text_kind :: "string \<Rightarrow> nat" where
  "text_kind s =
     (if hd s = CHR ''n'' then 0 else if hd s = CHR ''t'' \<or> hd s = CHR ''f'' then 1
      else if hd s = CHR 0x22 then 3 else if hd s = CHR ''['' then 4 else if hd s = CHR ''{'' then 5
      else 2)"

fun json_kind :: "json \<Rightarrow> nat" where
  "json_kind JUndef = 0"
| "json_kind JNull = 0"
| "json_kind (JBool b) = 1"
| "json_kind (JNum i) = 2"
| "json_kind (JStr s) = 3"
| "json_kind (JArr xs) = 4"
| "json_kind (JObj kvs) = 5"

lemma text_kind_canonicalize: "text_kind (canonicalize j @ x) = json_kind j"
proof (cases j)
  case (JNum i)
  with dec_int_first [of i] show ?thesis by (auto simp: text_kind_def is_digit_def)
qed (simp_all add: text_kind_def quote_def)

theorem canonicalize_prefix:
  "canonicalize a @ x = canonicalize b @ y \<Longrightarrow> delim x \<Longrightarrow> delim y
    \<Longrightarrow> norm_json a = norm_json b \<and> x = y"
proof (induction a arbitrary: b x y rule: canonicalize.induct)
  case 1
  from arg_cong [OF "1.prems"(1), of text_kind] have k: "json_kind b = 0"
    by (simp only: text_kind_canonicalize json_kind.simps)
  from "1.prems" k show ?case by (cases b) simp_all
next
  case 2
  from arg_cong [OF "2.prems"(1), of text_kind] have k: "json_kind b = 0"
    by (simp only: text_kind_canonicalize json_kind.simps)
  from "2.prems" k show ?case by (cases b) simp_all
next
  case (3 t)
  from arg_cong [OF "3.prems"(1), of text_kind] have k: "json_kind b = 1"
    by (simp only: text_kind_canonicalize json_kind.simps)
  from "3.prems" k show ?case by (cases b) (simp_all split: if_splits)
next
  case (4 i)
  from arg_cong [OF "4.prems"(1), of text_kind] have k: "json_kind b = 2"
    by (simp only: text_kind_canonicalize json_kind.simps)
  from "4.prems" k num_unique [of i x _ y] show ?case by (cases b) simp_all
next
  case (5 s)
  from arg_cong [OF "5.prems"(1), of text_kind] have k: "json_kind b = 3"
    by (simp only: text_kind_canonicalize json_kind.simps)
  from "5.prems" k quote_unique [of s x _ y] show ?case by (cases b) simp_all
next
  case (6 xs)
  from arg_cong [OF "6.prems"(1), of text_kind] have "json_kind b = 4"
    by (simp only: text_kind_canonicalize json_kind.simps)
  then obtain ys where b: "b = JArr ys" by (cases b) simp_all
  with "6.prems" have "join '','' (map canonicalize xs) @ CHR '']'' # x
      = join '','' (map canonicalize ys) @ CHR '']'' # y" by simp
  from join_unique [where r = norm_json, OF "6.IH" canonicalize_first _ this] b
  show ?case by simp
next
  case (7 kvs)
  let ?sel = "\<lambda>kvs. filter (\<lambda>(k, v). v \<noteq> JUndef) (sorted_props kvs)"
  let ?pr = "\<lambda>(k, v). quote k @ '':'' @ canonicalize v"
  from arg_cong [OF "7.prems"(1), of text_kind] have "json_kind b = 5"
    by (simp only: text_kind_canonicalize json_kind.simps)
  then obtain kws where b: "b = JObj kws" by (cases b) simp_all
  with "7.prems" have eq: "join '','' (map ?pr (?sel kvs)) @ CHR ''}'' # x
      = join '','' (map ?pr (?sel kws)) @ CHR ''}'' # y" by simp
  have item: "(case p of (k, v) \<Rightarrow> (k, norm_json v)) = (case q of (k, v) \<Rightarrow> (k, norm_json v)) \<and> x = y"
    if p: "p \<in> set (?sel kvs)" and e: "?pr p @ x = ?pr q @ y" and d: "delim x" "delim y" for p q x y
  proof -
    from e obtain k v w where pq: "p = (k, v)" "q = (k, w)" "canonicalize v @ x = canonicalize w @ y"
      by (rule prop_unique)
    with "7.IH" [OF p pq(1) [symmetric] pq(3) d] show ?thesis by simp
  qed
  have first: "\<not> delim (?pr p)" for p by (cases p) (simp add: quote_def)
  from join_unique [where r = "\<lambda>(k, v). (k, norm_json v)", OF item first _ eq] b
  show ?case by simp
qed

fun show_norm :: "json \<Rightarrow> string" where
  "show_norm (JArr xs) = ''['' @ join '','' (map show_norm xs) @ '']''"
| "show_norm (JObj kvs) = ''{'' @ join '','' (map (\<lambda>(k, v). quote k @ '':'' @ show_norm v) kvs) @ ''}''"
| "show_norm j = canonicalize j"

lemma canonicalize_norm: "canonicalize j = show_norm (norm_json j)"
proof (induction j rule: canonicalize.induct)
  case (6 xs)
  then have "map canonicalize xs = map (show_norm \<circ> norm_json) xs" by simp
  then show ?case by (simp del: map_eq_conv)
next
  case (7 kvs)
  have "map (\<lambda>(k, v). quote k @ '':'' @ canonicalize v) (filter (\<lambda>(k, v). v \<noteq> JUndef) (sorted_props kvs))
    = map ((\<lambda>(k, v). quote k @ '':'' @ show_norm v) \<circ> (\<lambda>(k, v). (k, norm_json v)))
        (filter (\<lambda>(k, v). v \<noteq> JUndef) (sorted_props kvs))"
    using 7 by (intro map_cong) auto
  then show ?case by (simp only: canonicalize.simps norm_json.simps show_norm.simps map_map)
qed simp_all

lemma canonicalize_eq_iff: "canonicalize a = canonicalize b \<longleftrightarrow> norm_json a = norm_json b"
  using canonicalize_prefix [of a "[]" b "[]"] canonicalize_norm [of a] canonicalize_norm [of b] by auto

end
