(* ===== verification/Envelope.thy ===== *)
theory Envelope
  imports Json
begin

text \<open>
  The signed event envelope: \<open>envelope.ts\<close>, \<open>keys.ts\<close>, \<open>publisher.ts\<close> and
  \<open>projection.ts\<close> of \<open>packages/core/src/security/eventbus\<close>.

  The digest functions of Node's crypto library (HMAC-SHA256, HKDF and the
  base64url text of a digest) are the record \<open>crypto\<close>, an argument of the
  definitions; random identifiers, the nonce and the time stamp are arguments too.
  A buffer is a character list, so \<open>timingSafeEqual\<close> on buffers of equal
  length is equality.
\<close>

record eb_auth =
  alg :: string
  keyId :: string
  sig :: string

record envelope =
  env_id :: string
  env_type :: string
  env_source :: string
  env_subject :: json
  env_timestamp :: string
  env_nonce :: string
  env_schemaVersion :: string
  env_payload :: json
  env_auth :: eb_auth

record 'k crypto =
  hmac :: "'k \<Rightarrow> string \<Rightarrow> string"
  b64url :: "string \<Rightarrow> string"
  unb64url :: "string \<Rightarrow> string"
  hkdf :: "string \<Rightarrow> string \<Rightarrow> 'k"

text \<open>What the code relies on: decoding undoes encoding, and (the idealised
  security of HMAC) a digest is produced by one key and one text only.\<close>

definition b64_law :: "'k crypto \<Rightarrow> bool" where
  "b64_law C \<longleftrightarrow> (\<forall>d. unb64url C (b64url C d) = d)"

definition mac_law :: "'k crypto \<Rightarrow> bool" where
  "mac_law C \<longleftrightarrow> (\<forall>k m k' m'. hmac C k m = hmac C k' m' \<longrightarrow> k = k' \<and> m = m')"

section \<open>Signing and verifying\<close>

definition signableContent :: "envelope \<Rightarrow> string" where
  "signableContent e = canonicalize (JObj
     [(''id'', JStr (env_id e)),
      (''nonce'', JStr (env_nonce e)),
      (''payload'', env_payload e),
      (''schemaVersion'', JStr (env_schemaVersion e)),
      (''source'', JStr (env_source e)),
      (''subject'', if env_subject e = JUndef then JNull else env_subject e),
      (''timestamp'', JStr (env_timestamp e)),
      (''type'', JStr (env_type e))])"

definition signEvent ::
  "'k crypto \<Rightarrow> string \<Rightarrow> string \<Rightarrow> json \<Rightarrow> 'k \<Rightarrow> string \<Rightarrow> string option \<Rightarrow>
     string \<Rightarrow> string \<Rightarrow> string \<Rightarrow> envelope" where
  "signEvent C type source payload secret kid subject uuid iso_now nonce =
     (let partial = \<lparr>env_id = uuid, env_type = type, env_source = source,
            env_subject = (case subject of None \<Rightarrow> JUndef | Some s \<Rightarrow> JStr s),
            env_timestamp = iso_now, env_nonce = nonce, env_schemaVersion = ''1.0'',
            env_payload = payload, env_auth = \<lparr>alg = [], keyId = [], sig = []\<rparr>\<rparr>;
          content = signableContent partial;
          sg = b64url C (hmac C secret content)
      in partial\<lparr>env_auth := \<lparr>alg = ''hmac-sha256'', keyId = kid, sig = sg\<rparr>\<rparr>)"

definition verifyEvent :: "'k crypto \<Rightarrow> envelope \<Rightarrow> 'k \<Rightarrow> bool" where
  "verifyEvent C e secret =
     (if alg (env_auth e) \<noteq> ''hmac-sha256'' then False
      else let content = signableContent e;
               expectedBuf = hmac C secret content;
               sigBuf = unb64url C (sig (env_auth e))
           in if length expectedBuf \<noteq> length sigBuf then False
              else expectedBuf = sigBuf)"

section \<open>Keys\<close>

definition key_id :: "string \<Rightarrow> int \<Rightarrow> string" where
  "key_id agentId version = ''kid_'' @ agentId @ ''_v'' @ dec_int version"

definition deriveAgentKey :: "'k crypto \<Rightarrow> string \<Rightarrow> string \<Rightarrow> int \<Rightarrow> 'k \<times> string" where
  "deriveAgentKey C masterSecret agentId version =
     (hkdf C masterSecret (''yclaw-eventbus-'' @ agentId @ ''-v'' @ dec_int version),
      key_id agentId version)"

text \<open>The constructor's loop over the agents, and \<open>resolve\<close> and \<open>has\<close>.\<close>

definition set_key :: "'k \<times> string \<Rightarrow> (string, 'k) jsmap \<Rightarrow> (string, 'k) jsmap" where
  "set_key dk m = mset_at (snd dk) (fst dk) m"

fun keyResolver :: "'k crypto \<Rightarrow> string \<Rightarrow> string list \<Rightarrow> int \<Rightarrow> (string, 'k) jsmap \<Rightarrow> (string, 'k) jsmap" where
  "keyResolver C masterSecret [] currentVersion m = m"
| "keyResolver C masterSecret (a # as) currentVersion m =
     (let m1 = set_key (deriveAgentKey C masterSecret a currentVersion) m;
          m2 = (if currentVersion > 1
                then set_key (deriveAgentKey C masterSecret a (currentVersion - 1)) m1 else m1)
      in keyResolver C masterSecret as currentVersion m2)"

definition resolve_key :: "(string, 'k) jsmap \<Rightarrow> string \<Rightarrow> 'k option" where
  "resolve_key m kid = mget m kid"

definition has_key :: "(string, 'k) jsmap \<Rightarrow> string \<Rightarrow> bool" where
  "has_key m kid = mhas m kid"

section \<open>Publisher and projection\<close>

record 'k publisher =
  pub_key :: 'k
  pub_keyId :: string
  pub_source :: string

definition securePublisher :: "'k crypto \<Rightarrow> string \<Rightarrow> string \<Rightarrow> int \<Rightarrow> 'k publisher" where
  "securePublisher C agentId masterSecret version =
     (let derived = deriveAgentKey C masterSecret agentId version in
      \<lparr>pub_key = fst derived, pub_keyId = snd derived, pub_source = ''agent:'' @ agentId\<rparr>)"

text \<open>\<open>JSON.stringify(envelope)\<close>: the properties in the order the object was
  built; an \<open>undefined\<close> subject is dropped by the serialiser.\<close>

definition envelope_json :: "envelope \<Rightarrow> json" where
  "envelope_json e = JObj
     ([(''id'', JStr (env_id e)), (''type'', JStr (env_type e)), (''source'', JStr (env_source e))]
      @ (if env_subject e = JUndef then [] else [(''subject'', env_subject e)])
      @ [(''timestamp'', JStr (env_timestamp e)), (''nonce'', JStr (env_nonce e)),
         (''schemaVersion'', JStr (env_schemaVersion e)), (''payload'', env_payload e),
         (''auth'', JObj [(''alg'', JStr (alg (env_auth e))), (''keyId'', JStr (keyId (env_auth e))),
                          (''sig'', JStr (sig (env_auth e)))])])"

text \<open>\<open>publish\<close>: the channel and message handed to the client, and the id returned.\<close>

definition publish_event ::
  "'k crypto \<Rightarrow> (json \<Rightarrow> string) \<Rightarrow> 'k publisher \<Rightarrow> string \<Rightarrow> json \<Rightarrow> string option \<Rightarrow>
     string \<Rightarrow> string \<Rightarrow> string \<Rightarrow> (string \<times> string) \<times> string" where
  "publish_event C stringify p eventType payload subject uuid iso_now nonce =
     (let e = signEvent C eventType (pub_source p) payload (pub_key p) (pub_keyId p) subject
                uuid iso_now nonce
      in ((''yclaw:events:'' @ eventType, stringify (envelope_json e)), env_id e))"

record safe_context =
  eventType :: string
  verifiedSource :: string
  verified :: bool
  ctx_subject :: json
  facts :: json

definition projectToAgentContext :: "envelope \<Rightarrow> safe_context" where
  "projectToAgentContext e =
     \<lparr>eventType = env_type e, verifiedSource = env_source e, verified = True,
      ctx_subject = env_subject e, facts = env_payload e\<rparr>"

section \<open>Properties\<close>

lemma signable_keys_sorted:
  "sorted [''id'', ''nonce'', ''payload'', ''schemaVersion'', ''source'', ''subject'', ''timestamp'', ''type'']"
  by code_simp

lemma signable_props_sorted:
  "sorted_props [(''id'', a), (''nonce'', b), (''payload'', c), (''schemaVersion'', d), (''source'', e),
      (''subject'', f), (''timestamp'', g), (''type'', h)]
   = [(''id'', a), (''nonce'', b), (''payload'', c), (''schemaVersion'', d), (''source'', e),
      (''subject'', f), (''timestamp'', g), (''type'', h)]"
  unfolding sorted_props_def
  by (rule sort_key_id_if_sorted) (simp only: list.map fst_conv signable_keys_sorted)

lemma norm_subject: "norm_json (if j = JUndef then JNull else j) = norm_json j"
  by simp

lemma subject_defined: "(if j = JUndef then JNull else j) \<noteq> JUndef"
  by simp

lemma signable_norm:
  assumes "env_payload e \<noteq> JUndef"
  shows "signableContent e = show_norm (JObj
     [(''id'', JStr (env_id e)), (''nonce'', JStr (env_nonce e)),
      (''payload'', norm_json (env_payload e)), (''schemaVersion'', JStr (env_schemaVersion e)),
      (''source'', JStr (env_source e)), (''subject'', norm_json (env_subject e)),
      (''timestamp'', JStr (env_timestamp e)), (''type'', JStr (env_type e))])"
  unfolding signableContent_def canonicalize_norm norm_json.simps(7) signable_props_sorted
  by (simp only: filter.simps prod.case list.map norm_subject subject_defined assms json.distinct
      not_False_eq_True if_True norm_json.simps)

lemma signableContent_eq_iff:
  assumes "env_payload e \<noteq> JUndef" "env_payload e' \<noteq> JUndef"
  shows "signableContent e = signableContent e' \<longleftrightarrow>
     env_id e = env_id e' \<and> env_nonce e = env_nonce e'
     \<and> norm_json (env_payload e) = norm_json (env_payload e')
     \<and> env_schemaVersion e = env_schemaVersion e' \<and> env_source e = env_source e'
     \<and> norm_json (env_subject e) = norm_json (env_subject e')
     \<and> env_timestamp e = env_timestamp e' \<and> env_type e = env_type e'"
  (is "_ \<longleftrightarrow> ?R")
proof
  assume "signableContent e = signableContent e'"
  then have eq: "norm_json (JObj
     [(''id'', JStr (env_id e)), (''nonce'', JStr (env_nonce e)), (''payload'', env_payload e),
      (''schemaVersion'', JStr (env_schemaVersion e)), (''source'', JStr (env_source e)),
      (''subject'', if env_subject e = JUndef then JNull else env_subject e),
      (''timestamp'', JStr (env_timestamp e)), (''type'', JStr (env_type e))])
    = norm_json (JObj
     [(''id'', JStr (env_id e')), (''nonce'', JStr (env_nonce e')), (''payload'', env_payload e'),
      (''schemaVersion'', JStr (env_schemaVersion e')), (''source'', JStr (env_source e')),
      (''subject'', if env_subject e' = JUndef then JNull else env_subject e'),
      (''timestamp'', JStr (env_timestamp e')), (''type'', JStr (env_type e'))])"
    unfolding signableContent_def canonicalize_eq_iff .
  have "norm_json (env_payload e) = norm_json (env_payload e') \<and>
      norm_json (env_subject e) = norm_json (env_subject e') \<and> env_id e = env_id e'
      \<and> env_nonce e = env_nonce e' \<and> env_schemaVersion e = env_schemaVersion e'
      \<and> env_source e = env_source e' \<and> env_timestamp e = env_timestamp e' \<and> env_type e = env_type e'"
    using eq unfolding norm_json.simps(7) signable_props_sorted
    by (simp only: filter.simps prod.case list.map norm_subject subject_defined assms json.distinct
        not_False_eq_True if_True norm_json.simps json.inject list.inject prod.inject simp_thms)
  then show ?R by blast
next
  assume ?R
  then show "signableContent e = signableContent e'"
    by (simp only: signable_norm [OF assms(1)] signable_norm [OF assms(2)])
qed

lemma verifyEvent_iff:
  "verifyEvent C e k \<longleftrightarrow> alg (env_auth e) = ''hmac-sha256''
     \<and> unb64url C (sig (env_auth e)) = hmac C k (signableContent e)"
  by (auto simp: verifyEvent_def Let_def)

lemma signEvent_sel [simp]:
  "env_id (signEvent C t s p k kid sj u n nc) = u"
  "env_type (signEvent C t s p k kid sj u n nc) = t"
  "env_source (signEvent C t s p k kid sj u n nc) = s"
  "env_payload (signEvent C t s p k kid sj u n nc) = p"
  "env_timestamp (signEvent C t s p k kid sj u n nc) = n"
  "env_nonce (signEvent C t s p k kid sj u n nc) = nc"
  "keyId (env_auth (signEvent C t s p k kid sj u n nc)) = kid"
  by (simp_all add: signEvent_def Let_def)

lemma sign_verify: "b64_law C \<Longrightarrow> verifyEvent C (signEvent C t s p k kid sj u n nc) k"
  by (simp add: verifyEvent_iff signEvent_def Let_def b64_law_def signableContent_def)

end
