(* ===== verification/EventBus.thy ===== *)
theory EventBus
  imports Envelope
begin

text \<open>
  The receiving side of the event bus: \<open>errors.ts\<close>, \<open>policy.ts\<close>, the registry of
  \<open>schemas.ts\<close> and the validation pipeline of \<open>middleware.ts\<close>
  (\<open>packages/core/src/security/eventbus\<close>).

  Parameters of the pipeline, because their code is not in the repository: the
  JSON parser and the date parser of the runtime, the schema library's
  \<open>safeParse\<close>, and the replay store, an external key-value server reached
  through the interface \<open>ReplayStore\<close> (\<open>SET key value EX ttl NX\<close>).  A store call
  that rejects (server down) is the value \<open>None\<close>.  The text of error messages
  is left out; the error code of each rejection is kept.
\<close>

section \<open>Errors\<close>

datatype eb_code =
    EVENT_TOO_LARGE | MISSING_FIELD | INVALID_AUTH | UNKNOWN_KEY | INVALID_SIGNATURE
  | FUTURE_EVENT | EXPIRED_EVENT | REPLAY_DETECTED | NONCE_REPLAY | UNKNOWN_SOURCE
  | UNAUTHORIZED_EVENT_TYPE | NO_SCHEMA | SCHEMA_VIOLATION | DENIED_FIELD

text \<open>\<open>UntypedError\<close> is any other exception (a \<open>SyntaxError\<close>, a \<open>TypeError\<close>, a failed
  store call).\<close>

datatype eb_error = EventBusError eb_code | UntypedError

section \<open>Policy\<close>

record source_policy =
  allowedEventTypes :: "string list"

record replay_policy =
  maxAgeSeconds :: int
  maxClockSkewSeconds :: int
  cacheTtlSeconds :: int

record event_policy =
  policyVersion :: string
  sources :: "(string, source_policy) jsmap"
  globalDeniedFields :: "string list"
  replay :: replay_policy

definition DEFAULT_POLICY :: event_policy where
  "DEFAULT_POLICY = \<lparr>policyVersion = ''1.0'', sources = [],
     globalDeniedFields = [''sourcing_rule_update'', ''multiplier_table_rule'',
       ''system_prompt_override'', ''memory_write'', ''memory_update'', ''tool_instruction'',
       ''post_publication_audit'', ''prompt_override'', ''status_override'', ''gate_bypass'',
       ''audit_confirmed_clean''],
     replay = \<lparr>maxAgeSeconds = 120, maxClockSkewSeconds = 30, cacheTtlSeconds = 600\<rparr>\<rparr>"

text \<open>The parsed YAML file: every field may be missing.\<close>

record partial_replay =
  p_maxAgeSeconds :: "int option"
  p_maxClockSkewSeconds :: "int option"
  p_cacheTtlSeconds :: "int option"

record partial_policy =
  p_schemaVersion :: "string option"
  p_sources :: "(string, source_policy) jsmap option"
  p_globalDeniedFields :: "string list option"
  p_replay :: "partial_replay option"

text \<open>\<open>[...new Set(xs)]\<close> keeps the first occurrence of each element.\<close>

definition js_set :: "'a list \<Rightarrow> 'a list" where
  "js_set xs = rev (remdups (rev xs))"

definition or_default :: "'a option \<Rightarrow> 'a \<Rightarrow> 'a" where
  "or_default x d = (case x of None \<Rightarrow> d | Some v \<Rightarrow> v)"

definition loadEventPolicy :: "partial_policy option \<Rightarrow> event_policy" where
  "loadEventPolicy file = (case file of
     None \<Rightarrow> DEFAULT_POLICY
   | Some parsed \<Rightarrow>
       \<lparr>policyVersion = or_default (p_schemaVersion parsed) (policyVersion DEFAULT_POLICY),
        sources = or_default (p_sources parsed) (sources DEFAULT_POLICY),
        globalDeniedFields = js_set (or_default (p_globalDeniedFields parsed) []
                                     @ globalDeniedFields DEFAULT_POLICY),
        replay = (case p_replay parsed of
            None \<Rightarrow> replay DEFAULT_POLICY
          | Some r \<Rightarrow>
              \<lparr>maxAgeSeconds = or_default (p_maxAgeSeconds r) (maxAgeSeconds (replay DEFAULT_POLICY)),
               maxClockSkewSeconds = or_default (p_maxClockSkewSeconds r) (maxClockSkewSeconds (replay DEFAULT_POLICY)),
               cacheTtlSeconds = or_default (p_cacheTtlSeconds r) (cacheTtlSeconds (replay DEFAULT_POLICY))\<rparr>)\<rparr>)"

section \<open>Schema registry\<close>

type_synonym 'z registry = "(string, 'z) jsmap"

definition schema_get :: "'z registry \<Rightarrow> string \<Rightarrow> 'z option" where
  "schema_get reg t = mget reg t"

definition schema_has :: "'z registry \<Rightarrow> string \<Rightarrow> bool" where
  "schema_has reg t = mhas reg t"

definition schema_register :: "'z registry \<Rightarrow> string \<Rightarrow> 'z \<Rightarrow> 'z registry" where
  "schema_register reg t z = mset_at t z reg"

fun schemaRegistry :: "(string \<times> 'z) list \<Rightarrow> 'z registry \<Rightarrow> 'z registry" where
  "schemaRegistry [] reg = reg"
| "schemaRegistry ((k, z) # es) reg = schemaRegistry es (mset_at k z reg)"

section \<open>Pipeline\<close>

record ('k, 'z) bus_env =
  be_crypto :: "'k crypto"
  be_keys :: "(string, 'k) jsmap"
  be_policy :: event_policy
  be_registry :: "'z registry"
  be_safeParse :: "'z \<Rightarrow> json \<Rightarrow> bool"
  be_parse :: "string \<Rightarrow> json option"
  be_date :: "string \<Rightarrow> int option"

datatype audit_entry =
    AuditVerified string string string
  | AuditRejected eb_error string

text \<open>The store call: \<open>None\<close> for a rejected promise, else whether the key was set.\<close>

type_synonym 's set_nx = "string \<Rightarrow> int \<Rightarrow> int \<Rightarrow> 's \<Rightarrow> bool option \<times> 's"

definition MAX_EVENT_SIZE :: nat where
  "MAX_EVENT_SIZE = 64 * 1024"

text \<open>Names every object inherits: \<open>name in obj\<close> and \<open>obj[name]\<close> find them.\<close>

definition inherited_names :: "string list" where
  "inherited_names = [''constructor'', ''__defineGetter__'', ''__defineSetter__'', ''hasOwnProperty'',
     ''__lookupGetter__'', ''__lookupSetter__'', ''isPrototypeOf'', ''propertyIsEnumerable'',
     ''toString'', ''valueOf'', ''__proto__'', ''toLocaleString'']"

definition in_object :: "string \<Rightarrow> (string \<times> json) list \<Rightarrow> bool" where
  "in_object f kvs \<longleftrightarrow> f \<in> set (map fst kvs) \<or> f \<in> set inherited_names"

definition required_fields :: "string list" where
  "required_fields = [''id'', ''type'', ''source'', ''timestamp'', ''nonce'', ''schemaVersion'', ''payload'', ''auth'']"

fun is_str :: "json \<Rightarrow> bool" where
  "is_str (JStr _) = True"
| "is_str _ = False"

fun str_val :: "json \<Rightarrow> string" where
  "str_val (JStr s) = s"
| "str_val _ = []"

fun is_obj :: "json \<Rightarrow> bool" where
  "is_obj (JObj _) = True"
| "is_obj _ = False"

fun is_arr :: "json \<Rightarrow> bool" where
  "is_arr (JArr _) = True"
| "is_arr _ = False"

text \<open>Stage 1: size, parsing, presence of the fields, their types.\<close>

definition envelope_of :: "json \<Rightarrow> envelope" where
  "envelope_of p = \<lparr>env_id = str_val (get_prop ''id'' p), env_type = str_val (get_prop ''type'' p),
     env_source = str_val (get_prop ''source'' p), env_subject = get_prop ''subject'' p,
     env_timestamp = str_val (get_prop ''timestamp'' p), env_nonce = str_val (get_prop ''nonce'' p),
     env_schemaVersion = str_val (get_prop ''schemaVersion'' p), env_payload = get_prop ''payload'' p,
     env_auth = (let a = get_prop ''auth'' p in
       \<lparr>alg = str_val (get_prop ''alg'' a), keyId = str_val (get_prop ''keyId'' a),
        sig = str_val (get_prop ''sig'' a)\<rparr>)\<rparr>"

definition validateEnvelope :: "('k, 'z) bus_env \<Rightarrow> string \<Rightarrow> eb_error + envelope" where
  "validateEnvelope E raw =
     (if length raw > MAX_EVENT_SIZE then Inl (EventBusError EVENT_TOO_LARGE)
      else case be_parse E raw of
        None \<Rightarrow> Inl UntypedError
      | Some p \<Rightarrow>
          (case p of
             JArr _ \<Rightarrow> Inl (EventBusError MISSING_FIELD)
           | JObj kvs \<Rightarrow>
               (if \<exists>f \<in> set required_fields. \<not> in_object f kvs then Inl (EventBusError MISSING_FIELD)
                else if \<not> is_str (get_prop ''id'' p) then Inl (EventBusError MISSING_FIELD)
                else if \<not> is_str (get_prop ''type'' p) then Inl (EventBusError MISSING_FIELD)
                else if \<not> is_str (get_prop ''source'' p) then Inl (EventBusError MISSING_FIELD)
                else if \<not> is_str (get_prop ''nonce'' p) then Inl (EventBusError MISSING_FIELD)
                else if \<not> is_str (get_prop ''schemaVersion'' p) then Inl (EventBusError MISSING_FIELD)
                else if \<not> is_obj (get_prop ''payload'' p) then Inl (EventBusError MISSING_FIELD)
                else if \<not> is_str (get_prop ''timestamp'' p) then Inl (EventBusError MISSING_FIELD)
                else if be_date E (str_val (get_prop ''timestamp'' p)) = None then Inl (EventBusError MISSING_FIELD)
                else let a = get_prop ''auth'' p in
                  if \<not> is_obj a \<and> \<not> is_arr a then Inl (EventBusError INVALID_AUTH)
                  else if \<not> is_str (get_prop ''alg'' a) \<or> \<not> is_str (get_prop ''keyId'' a)
                          \<or> \<not> is_str (get_prop ''sig'' a)
                  then Inl (EventBusError INVALID_AUTH)
                  else Inr (envelope_of p))
           | _ \<Rightarrow> Inl UntypedError))"

text \<open>Stage 2.\<close>

definition verifySignature :: "('k, 'z) bus_env \<Rightarrow> envelope \<Rightarrow> eb_error option" where
  "verifySignature E e = (case resolve_key (be_keys E) (keyId (env_auth e)) of
     None \<Rightarrow> Some (EventBusError UNKNOWN_KEY)
   | Some secret \<Rightarrow>
       (if verifyEvent (be_crypto E) e secret then None else Some (EventBusError INVALID_SIGNATURE)))"

text \<open>Stage 3: the two time checks (comparisons with an invalid date are false), then the two
  atomic reservations in the replay store.\<close>

definition id_key :: "envelope \<Rightarrow> string" where
  "id_key e = ''yclaw:replay:id:'' @ env_id e"

definition nonce_key :: "envelope \<Rightarrow> string" where
  "nonce_key e = ''yclaw:replay:nonce:'' @ env_source e @ '':'' @ env_nonce e"

definition time_check :: "replay_policy \<Rightarrow> int option \<Rightarrow> int \<Rightarrow> eb_error option" where
  "time_check r eventTime now = (case eventTime of
     None \<Rightarrow> None
   | Some t \<Rightarrow>
       (let maxAgeMs = maxAgeSeconds r * 1000; maxSkewMs = maxClockSkewSeconds r * 1000; age = now - t in
        if t > now + maxSkewMs then Some (EventBusError FUTURE_EVENT)
        else if age > maxAgeMs then Some (EventBusError EXPIRED_EVENT)
        else None))"

definition checkFreshness ::
  "('k, 'z) bus_env \<Rightarrow> 's set_nx \<Rightarrow> int \<Rightarrow> envelope \<Rightarrow> 's \<Rightarrow> eb_error option \<times> 's" where
  "checkFreshness E set_nx now e s =
     (let r = replay (be_policy E); ttl = cacheTtlSeconds r in
      case time_check r (be_date E (env_timestamp e)) now of
        Some err \<Rightarrow> (Some err, s)
      | None \<Rightarrow>
          (case set_nx (id_key e) ttl now s of
             (None, s1) \<Rightarrow> (Some UntypedError, s1)
           | (Some False, s1) \<Rightarrow> (Some (EventBusError REPLAY_DETECTED), s1)
           | (Some True, s1) \<Rightarrow>
               (case set_nx (nonce_key e) ttl now s1 of
                  (None, s2) \<Rightarrow> (Some UntypedError, s2)
                | (Some False, s2) \<Rightarrow> (Some (EventBusError NONCE_REPLAY), s2)
                | (Some True, s2) \<Rightarrow> (None, s2))))"

text \<open>Stage 4.  A source named like an inherited property is found on the prototype and has no
  list of types, which raises a \<open>TypeError\<close>.\<close>

definition type_matches :: "string \<Rightarrow> string \<Rightarrow> bool" where
  "type_matches t pattern =
     (if ends_with pattern '':*'' then starts_with t (butlast pattern) else t = pattern)"

definition authorizeSource :: "('k, 'z) bus_env \<Rightarrow> envelope \<Rightarrow> eb_error option" where
  "authorizeSource E e = (case mget (sources (be_policy E)) (env_source e) of
     None \<Rightarrow> (if env_source e \<in> set inherited_names then Some UntypedError
              else Some (EventBusError UNKNOWN_SOURCE))
   | Some sp \<Rightarrow>
       (if \<exists>p \<in> set (allowedEventTypes sp). type_matches (env_type e) p then None
        else Some (EventBusError UNAUTHORIZED_EVENT_TYPE)))"

text \<open>Stage 5.\<close>

definition has_field :: "string \<Rightarrow> json \<Rightarrow> bool" where
  "has_field f j = (case j of JObj kvs \<Rightarrow> in_object f kvs | _ \<Rightarrow> False)"

definition validateSchema :: "('k, 'z) bus_env \<Rightarrow> envelope \<Rightarrow> eb_error option" where
  "validateSchema E e = (case schema_get (be_registry E) (env_type e) of
     None \<Rightarrow> Some (EventBusError NO_SCHEMA)
   | Some z \<Rightarrow>
       (if \<not> be_safeParse E z (env_payload e) then Some (EventBusError SCHEMA_VIOLATION)
        else if \<exists>f \<in> set (globalDeniedFields (be_policy E)). has_field f (env_payload e)
        then Some (EventBusError DENIED_FIELD)
        else None))"

text \<open>All stages in order, with the audit entry each outcome writes.\<close>

definition run_stages ::
  "('k, 'z) bus_env \<Rightarrow> 's set_nx \<Rightarrow> int \<Rightarrow> string \<Rightarrow> 's \<Rightarrow> (eb_error + envelope) \<times> 's" where
  "run_stages E set_nx now raw s = (case validateEnvelope E raw of
     Inl err \<Rightarrow> (Inl err, s)
   | Inr e \<Rightarrow>
       (case verifySignature E e of
          Some err \<Rightarrow> (Inl err, s)
        | None \<Rightarrow>
            (case checkFreshness E set_nx now e s of
               (Some err, s1) \<Rightarrow> (Inl err, s1)
             | (None, s1) \<Rightarrow>
                 (case authorizeSource E e of
                    Some err \<Rightarrow> (Inl err, s1)
                  | None \<Rightarrow>
                      (case validateSchema E e of
                         Some err \<Rightarrow> (Inl err, s1)
                       | None \<Rightarrow> (Inr e, s1))))))"

definition validateEvent ::
  "('k, 'z) bus_env \<Rightarrow> 's set_nx \<Rightarrow> int \<Rightarrow> string \<Rightarrow> 's \<Rightarrow> audit_entry list \<Rightarrow>
     (eb_error + safe_context) \<times> 's \<times> audit_entry list" where
  "validateEvent E set_nx now raw s aud = (case run_stages E set_nx now raw s of
     (Inl err, s1) \<Rightarrow> (Inl err, s1, aud @ [AuditRejected err (take 4096 raw)])
   | (Inr e, s1) \<Rightarrow> (Inr (projectToAgentContext e), s1,
                      aud @ [AuditVerified (env_id e) (env_type e) (env_source e)]))"

text \<open>A receiver's life: inputs with their arrival times; the envelopes it accepts.\<close>

fun bus_run :: "('k, 'z) bus_env \<Rightarrow> 's set_nx \<Rightarrow> 's \<Rightarrow> (int \<times> string) list \<Rightarrow> envelope list" where
  "bus_run E set_nx s [] = []"
| "bus_run E set_nx s ((now, raw) # ins) = (case run_stages E set_nx now raw s of
     (Inl err, s1) \<Rightarrow> bus_run E set_nx s1 ins
   | (Inr e, s1) \<Rightarrow> e # bus_run E set_nx s1 ins)"

section \<open>What acceptance means\<close>

lemma validateEnvelope_date:
  "validateEnvelope E raw = Inr e \<Longrightarrow> \<exists>t. be_date E (env_timestamp e) = Some t"
  by (auto simp: validateEnvelope_def envelope_of_def Let_def split: if_splits option.splits json.splits)

lemma validateEnvelope_shape:
  "validateEnvelope E raw = Inr e \<Longrightarrow>
     length raw \<le> MAX_EVENT_SIZE \<and> is_obj (env_payload e)
     \<and> (\<exists>p. be_parse E raw = Some p \<and> e = envelope_of p)"
  by (auto simp: validateEnvelope_def envelope_of_def Let_def split: if_splits option.splits json.splits)

lemma time_check_None_iff:
  "time_check r (Some t) now = None \<longleftrightarrow>
     t \<le> now + maxClockSkewSeconds r * 1000 \<and> now \<le> t + maxAgeSeconds r * 1000"
  by (auto simp: time_check_def Let_def)

lemma checkFreshness_None:
  "checkFreshness E set_nx now e s = (None, s') \<longleftrightarrow>
     time_check (replay (be_policy E)) (be_date E (env_timestamp e)) now = None
     \<and> (\<exists>s1. set_nx (id_key e) (cacheTtlSeconds (replay (be_policy E))) now s = (Some True, s1)
          \<and> set_nx (nonce_key e) (cacheTtlSeconds (replay (be_policy E))) now s1 = (Some True, s'))"
  by (auto simp: checkFreshness_def Let_def split: option.splits prod.splits bool.splits)

lemma run_stages_accept:
  "run_stages E set_nx now raw s = (Inr e, s') \<longleftrightarrow>
     validateEnvelope E raw = Inr e \<and> verifySignature E e = None
     \<and> checkFreshness E set_nx now e s = (None, s')
     \<and> authorizeSource E e = None \<and> validateSchema E e = None"
  by (auto simp: run_stages_def split: sum.splits option.splits prod.splits)

lemma validateEvent_accept:
  "validateEvent E set_nx now raw s aud = (Inr c, s', aud') \<longleftrightarrow>
     (\<exists>e. run_stages E set_nx now raw s = (Inr e, s') \<and> c = projectToAgentContext e
        \<and> aud' = aud @ [AuditVerified (env_id e) (env_type e) (env_source e)])"
  by (auto simp: validateEvent_def split: sum.splits prod.splits)

section \<open>The replay store\<close>

text \<open>
  The interface \<open>ReplayStore\<close>: \<open>live s t\<close> is the set of keys present at time \<open>t\<close> if
  nothing more is written.  The laws are the documented ones of
  \<open>SET key value EX ttl NX\<close>: the key is set exactly when absent, then lives
  \<open>ttl\<close> seconds, and a call removes no key.
\<close>

locale replay_store =
  fixes set_nx :: "'s set_nx"
    and live :: "'s \<Rightarrow> int \<Rightarrow> string set"
  assumes set_absent: "set_nx k ttl now s = (Some b, s') \<Longrightarrow> b \<longleftrightarrow> k \<notin> live s now"
    and set_lives: "set_nx k ttl now s = (Some True, s') \<Longrightarrow> now \<le> t \<Longrightarrow> t < now + ttl * 1000 \<Longrightarrow> k \<in> live s' t"
    and set_keeps: "set_nx k ttl now s = (r, s') \<Longrightarrow> now \<le> t \<Longrightarrow> l \<in> live s t \<Longrightarrow> l \<in> live s' t"
begin

lemma freshness_keeps:
  assumes "checkFreshness E set_nx now e s = (r, s')" "now \<le> t" "l \<in> live s t"
  shows "l \<in> live s' t"
  using assms set_keeps
  by (auto simp: checkFreshness_def Let_def split: option.splits prod.splits bool.splits)

lemma stages_keep:
  assumes "run_stages E set_nx now raw s = (r, s')" "now \<le> t" "l \<in> live s t"
  shows "l \<in> live s' t"
  using assms freshness_keeps
  by (auto simp: run_stages_def split: sum.splits option.splits prod.splits)

lemma accept_reserves:
  assumes acc: "run_stages E set_nx now raw s = (Inr e, s')"
    and date: "be_date E (env_timestamp e) = Some T"
    and pol: "maxAgeSeconds (replay (be_policy E)) + maxClockSkewSeconds (replay (be_policy E))
                < cacheTtlSeconds (replay (be_policy E))"
    and t: "now \<le> t" "t \<le> T + maxAgeSeconds (replay (be_policy E)) * 1000"
  shows "id_key e \<in> live s' t"
proof -
  let ?r = "replay (be_policy E)"
  from acc have fr: "checkFreshness E set_nx now e s = (None, s')" by (simp add: run_stages_accept)
  with date have T: "T \<le> now + maxClockSkewSeconds ?r * 1000"
    by (auto simp: checkFreshness_None time_check_None_iff)
  from fr obtain s1 where s1: "set_nx (id_key e) (cacheTtlSeconds ?r) now s = (Some True, s1)"
    "set_nx (nonce_key e) (cacheTtlSeconds ?r) now s1 = (Some True, s')"
    by (auto simp: checkFreshness_None)
  have "t < now + cacheTtlSeconds ?r * 1000" using T t pol by simp
  from set_lives [OF s1(1) t(1) this] set_keeps [OF s1(2) t(1)] show ?thesis by blast
qed

lemma reserved_rejects:
  assumes live: "\<And>t. now \<le> t \<Longrightarrow> t \<le> T + maxAgeSeconds (replay (be_policy E)) * 1000 \<Longrightarrow> id_key e \<in> live s t"
    and date: "be_date E (env_timestamp e) = Some T"
  shows "run_stages E set_nx now raw s \<noteq> (Inr e, s')"
proof
  assume "run_stages E set_nx now raw s = (Inr e, s')"
  then have fr: "checkFreshness E set_nx now e s = (None, s')" by (simp add: run_stages_accept)
  with date have "now \<le> T + maxAgeSeconds (replay (be_policy E)) * 1000"
    by (auto simp: checkFreshness_None time_check_None_iff)
  with live have "id_key e \<in> live s now" by simp
  with fr set_absent show False by (fastforce simp: checkFreshness_None)
qed

end

context replay_store begin

abbreviation event_tag :: "envelope \<Rightarrow> string \<times> string" where
  "event_tag e \<equiv> (env_id e, env_timestamp e)"

lemma run_times:
  "e \<in> set (bus_run E set_nx s ins) \<Longrightarrow> \<exists>T. be_date E (env_timestamp e) = Some T"
proof (induction ins arbitrary: s)
  case (Cons i ins)
  obtain now raw where i: "i = (now, raw)" by fastforce
  obtain r s1 where st: "run_stages E set_nx now raw s = (r, s1)" by fastforce
  show ?case
  proof (cases r)
    case (Inr e1)
    with st have "validateEnvelope E raw = Inr e1" by (simp add: run_stages_accept)
    with Cons st i Inr show ?thesis using validateEnvelope_date by auto
  qed (use Cons st i in auto)
qed simp

lemma run_reserved:
  assumes "sorted (map fst ins)" and "\<forall>i \<in> set ins. now \<le> fst i"
    and "\<And>t. now \<le> t \<Longrightarrow> t \<le> T + maxAgeSeconds (replay (be_policy E)) * 1000 \<Longrightarrow> id_key e0 \<in> live s t"
    and date: "be_date E (env_timestamp e0) = Some T"
  shows "event_tag e0 \<notin> event_tag ` set (bus_run E set_nx s ins)"
  using assms(1-3)
proof (induction ins arbitrary: s now)
  case (Cons i ins)
  obtain n raw where i: "i = (n, raw)" by fastforce
  obtain r s1 where st: "run_stages E set_nx n raw s = (r, s1)" by fastforce
  have n: "now \<le> n" using Cons.prems(2) i by simp
  have keep: "id_key e0 \<in> live s1 t" if "n \<le> t" "t \<le> T + maxAgeSeconds (replay (be_policy E)) * 1000" for t
    using stages_keep [OF st that(1)] Cons.prems(3) [of t] n that by simp
  have tail: "event_tag e0 \<notin> event_tag ` set (bus_run E set_nx s1 ins)"
    by (rule Cons.IH [of n]) (use Cons.prems(1) i keep in auto)
  show ?case
  proof (cases r)
    case (Inr e)
    have "event_tag e \<noteq> event_tag e0"
    proof
      assume same: "event_tag e = event_tag e0"
      then have k: "id_key e = id_key e0" and d: "be_date E (env_timestamp e) = Some T"
        using date by (simp_all add: id_key_def)
      have "run_stages E set_nx n raw s \<noteq> (Inr e, s1)"
        by (rule reserved_rejects [OF _ d]) (use Cons.prems(3) n k in auto)
      with st Inr show False by simp
    qed
    with tail st i Inr show ?thesis by auto
  qed (use tail st i in auto)
qed simp

lemma run_distinct:
  assumes "sorted (map fst ins)"
    and pol: "maxAgeSeconds (replay (be_policy E)) + maxClockSkewSeconds (replay (be_policy E))
                < cacheTtlSeconds (replay (be_policy E))"
  shows "distinct (map event_tag (bus_run E set_nx s ins))"
  using assms(1)
proof (induction ins arbitrary: s)
  case (Cons i ins)
  obtain now raw where i: "i = (now, raw)" by fastforce
  obtain r s1 where st: "run_stages E set_nx now raw s = (r, s1)" by fastforce
  show ?case
  proof (cases r)
    case (Inr e)
    with st have acc: "run_stages E set_nx now raw s = (Inr e, s1)" by simp
    then have "validateEnvelope E raw = Inr e" by (simp add: run_stages_accept)
    then obtain T where T: "be_date E (env_timestamp e) = Some T" using validateEnvelope_date by blast
    have "event_tag e \<notin> event_tag ` set (bus_run E set_nx s1 ins)"
      by (rule run_reserved [OF _ _ _ T]) (use Cons.prems i accept_reserves [OF acc T pol] in auto)
    with Cons st i Inr show ?thesis by auto
  qed (use Cons st i in auto)
qed simp

end

text \<open>A reference store with expiry times, the instance the witnesses use: keys with the time
  they expire; \<open>SET NX\<close> succeeds where no unexpired entry is present.\<close>

type_synonym ref_store = "string \<Rightarrow> int option"

definition ref_live :: "ref_store \<Rightarrow> int \<Rightarrow> string set" where
  "ref_live s t = {k. \<exists>x. s k = Some x \<and> t < x}"

definition ref_set_nx :: "ref_store set_nx" where
  "ref_set_nx k ttl now s = (case s k of
     None \<Rightarrow> (Some True, s(k \<mapsto> now + ttl * 1000))
   | Some x \<Rightarrow> (if now < x then (Some False, s) else (Some True, s(k \<mapsto> now + ttl * 1000))))"

interpretation ref_replay: replay_store ref_set_nx ref_live
  by unfold_locales (auto simp: ref_set_nx_def ref_live_def split: option.splits if_splits)

section \<open>Key identifiers\<close>

lemma key_id_inj: "key_id a v = key_id b w \<longleftrightarrow> a = b \<and> v = w"
proof
  assume eq: "key_id a v = key_id b w"
  let ?P = "\<lambda>c. is_digit c \<or> c = CHR ''-''"
  from arg_cong [OF eq, of rev]
  have "rev (dec_int v) @ ''v_'' @ rev a @ ''_dik'' = rev (dec_int w) @ ''v_'' @ rev b @ ''_dik''"
    by (simp add: key_id_def)
  then have "rev (dec_int v) = rev (dec_int w) \<and> ''v_'' @ rev a @ ''_dik'' = ''v_'' @ rev b @ ''_dik''"
    by (rule span_unique [where P = ?P]) (auto dest: dec_int_chars simp: is_digit_def)
  then show "a = b \<and> v = w" using dec_int_inj by auto
qed simp

lemma mget_set_key [simp]:
  "mget (set_key (deriveAgentKey C ms a w) m) kid
     = (if kid = key_id a w then Some (fst (deriveAgentKey C ms a w)) else mget m kid)"
  by (auto simp: set_key_def deriveAgentKey_def)

lemma resolver_keeps:
  assumes "mget m kid = Some k" and "\<And>a. a \<in> set as \<Longrightarrow> kid \<noteq> key_id a v \<and> kid \<noteq> key_id a (v - 1)"
  shows "mget (keyResolver C ms as v m) kid = Some k"
  using assms
  by (induction as arbitrary: m) (simp_all add: Let_def)

lemma resolver_member:
  assumes "mget (keyResolver C ms as v m) kid = Some k"
  shows "mget m kid = Some k \<or>
    (\<exists>a \<in> set as. \<exists>w \<in> {v, v - 1}. kid = key_id a w \<and> (w = v \<or> 1 < v) \<and> k = fst (deriveAgentKey C ms a w))"
  using assms
proof (induction as arbitrary: m)
  case (Cons a as)
  let ?m1 = "set_key (deriveAgentKey C ms a v) m"
  let ?m2 = "if v > 1 then set_key (deriveAgentKey C ms a (v - 1)) ?m1 else ?m1"
  from Cons.prems have "mget (keyResolver C ms as v ?m2) kid = Some k" by (simp add: Let_def)
  from Cons.IH [OF this] show ?case
    by (auto split: if_splits)
qed simp

lemma resolver_current:
  assumes "a \<in> set as"
  shows "resolve_key (keyResolver C ms as v m) (key_id a v) = Some (fst (deriveAgentKey C ms a v))"
  using assms
proof (induction as arbitrary: m)
  case (Cons b as)
  show ?case
  proof (cases "a \<in> set as")
    case True
    with Cons.IH show ?thesis by (simp add: Let_def)
  next
    case False
    with Cons.prems have "b = a" by simp
    moreover have "key_id a v \<noteq> key_id c v \<and> key_id a v \<noteq> key_id c (v - 1)" if "c \<in> set as" for c
      using that False by (auto simp: key_id_inj)
    ultimately show ?thesis
      by (auto simp: Let_def resolve_key_def key_id_inj intro!: resolver_keeps)
  qed
qed simp

end
