(* ===== verification/EventBus_Correct.thy ===== *)
theory EventBus_Correct
  imports EventBus
begin

text \<open>
  The properties of the event bus: what the canonical text and a signature pin down,
  what acceptance means, that an event is accepted once, and that a published
  event is accepted; with a concrete instance of the pipeline's parameters for the witnesses.
\<close>

section \<open>A concrete instance\<close>

definition ex_crypto :: "string crypto" where
  "ex_crypto = \<lparr>hmac = (\<lambda>k m. quote k @ m), b64url = (\<lambda>d. d), unb64url = (\<lambda>t. t),
     hkdf = (\<lambda>ms info. quote ms @ info)\<rparr>"

lemma ex_b64_law [simp]: "b64_law ex_crypto"
  by (simp add: b64_law_def ex_crypto_def)

lemma ex_mac_law [simp]: "mac_law ex_crypto"
  unfolding mac_law_def ex_crypto_def by (auto dest: quote_unique)

definition ex_publisher :: "string publisher" where
  "ex_publisher = securePublisher ex_crypto ''reviewer'' ''secret'' 1"

definition ex_event :: envelope where
  "ex_event = signEvent ex_crypto ''reviewer:flagged'' ''agent:reviewer'' (JObj [(''severity'', JStr ''low'')])
     (fst (deriveAgentKey ex_crypto ''secret'' ''reviewer'' 1)) (key_id ''reviewer'' 1) None ''u1'' ''t1'' ''n1''"

definition ex_env :: "(string, unit) bus_env" where
  "ex_env = \<lparr>be_crypto = ex_crypto,
     be_keys = keyResolver ex_crypto ''secret'' [''deployer'', ''reviewer''] 1 [],
     be_policy = DEFAULT_POLICY\<lparr>sources :=
        [(''agent:reviewer'', \<lparr>allowedEventTypes = [''reviewer:*'']\<rparr>),
         (''agent:deployer'', \<lparr>allowedEventTypes = [''deploy:*'']\<rparr>)]\<rparr>,
     be_registry = schemaRegistry [(''reviewer:flagged'', ()), (''deploy:execute'', ())] [],
     be_safeParse = (\<lambda>_ _. True),
     be_parse = (\<lambda>raw. Some (envelope_json ex_event)),
     be_date = (\<lambda>_. Some 1000)\<rparr>"

definition ref_empty :: ref_store where
  "ref_empty = (\<lambda>_. None)"

lemma ex_env_sel [simp]:
  "be_crypto ex_env = ex_crypto" "be_safeParse ex_env = (\<lambda>_ _. True)"
  "be_keys ex_env = keyResolver ex_crypto ''secret'' [''deployer'', ''reviewer''] 1 []"
  "be_parse ex_env = (\<lambda>raw. Some (envelope_json ex_event))" "be_date ex_env = (\<lambda>_. Some 1000)"
  "replay (be_policy ex_env) = \<lparr>maxAgeSeconds = 120, maxClockSkewSeconds = 30, cacheTtlSeconds = 600\<rparr>"
  by (simp_all add: ex_env_def DEFAULT_POLICY_def)

section \<open>Canonical text and signatures\<close>

text \<open>
  C7: the canonical text of a JSON value whose numbers are integral determines it: two values have the same
  text exactly when they agree after sorting keys, dropping the undefined properties of objects and
  reading \<open>undefined\<close> elsewhere (in arrays, or alone) as \<open>null\<close>.
\<close>
theorem canonical_text_determines_value:
  "canonicalize a = canonicalize b \<longleftrightarrow> norm_json a = norm_json b"
  by (rule canonicalize_eq_iff)

text \<open>An undefined property is dropped and not read as \<open>null\<close>; an undefined element of an array is.\<close>

lemma undefined_property_dropped:
  "canonicalize (JObj [(k, JUndef)]) = canonicalize (JObj [])"
  "canonicalize (JObj [(k, JUndef)]) \<noteq> canonicalize (JObj [(k, JNull)])"
  "canonicalize (JArr [JUndef]) = canonicalize (JArr [JNull])"
  by (simp_all add: canonicalize_eq_iff sorted_props_def)

text \<open>
  C3: no tampering: two envelopes that verify with the same signature text were signed with
  one key over the same identifier, type, source, subject, time stamp, nonce,
  version and payload (up to key order), for an ideal MAC.
\<close>
theorem signature_pins_content:
  assumes "mac_law C"
    and "verifyEvent C e k" and "verifyEvent C e' k'"
    and "sig (env_auth e) = sig (env_auth e')"
    and "is_obj (env_payload e)" and "is_obj (env_payload e')"
  shows "k = k' \<and> env_id e = env_id e' \<and> env_type e = env_type e' \<and> env_source e = env_source e'
    \<and> env_timestamp e = env_timestamp e' \<and> env_nonce e = env_nonce e'
    \<and> env_schemaVersion e = env_schemaVersion e'
    \<and> norm_json (env_subject e) = norm_json (env_subject e')
    \<and> norm_json (env_payload e) = norm_json (env_payload e')"
proof -
  have def: "env_payload e \<noteq> JUndef" "env_payload e' \<noteq> JUndef" using assms(5,6) by auto
  from assms(2-4) have "hmac C k (signableContent e) = hmac C k' (signableContent e')"
    by (simp add: verifyEvent_iff)
  with assms(1) have "k = k'" and "signableContent e = signableContent e'"
    unfolding mac_law_def by blast+
  with def show ?thesis by (simp add: signableContent_eq_iff)
qed

lemma ex_event_sel [simp]:
  "env_id ex_event = ''u1''" "env_type ex_event = ''reviewer:flagged''" "env_source ex_event = ''agent:reviewer''"
  "env_payload ex_event = JObj [(''severity'', JStr ''low'')]" "env_timestamp ex_event = ''t1''"
  "env_nonce ex_event = ''n1''" "keyId (env_auth ex_event) = key_id ''reviewer'' 1"
  by (simp_all add: ex_event_def)

lemma ex_event_verifies: "verifyEvent ex_crypto ex_event (fst (deriveAgentKey ex_crypto ''secret'' ''reviewer'' 1))"
  unfolding ex_event_def by (rule sign_verify) simp

theorem signature_pins_content_witness:
  "mac_law ex_crypto \<and> is_obj (env_payload ex_event) \<and> env_id ex_event = ''u1''
    \<and> norm_json (env_payload ex_event) = norm_json (JObj [(''severity'', JStr ''low'')])"
  using signature_pins_content [OF ex_mac_law ex_event_verifies ex_event_verifies] by simp

section \<open>Acceptance\<close>

text \<open>
  C2: whatever the pipeline accepts has passed every stage: it parsed to a well-formed envelope of
  at most 64 KiB, its signature verifies under the registered key it names, its time stamp
  is in the policy's window, its source may emit its type, its payload satisfies the
  registered schema and has no globally denied field; and the agent sees the projection
  without the auth block, with the audit entry written.
\<close>
theorem accepted_event_passed_all_stages:
  assumes "validateEvent E set_nx now raw s aud = (Inr c, s', aud')"
  shows "\<exists>e p k t sp z. be_parse E raw = Some p \<and> e = envelope_of p \<and> length raw \<le> MAX_EVENT_SIZE
    \<and> resolve_key (be_keys E) (keyId (env_auth e)) = Some k \<and> verifyEvent (be_crypto E) e k
    \<and> be_date E (env_timestamp e) = Some t
    \<and> t \<le> now + maxClockSkewSeconds (replay (be_policy E)) * 1000
    \<and> now \<le> t + maxAgeSeconds (replay (be_policy E)) * 1000
    \<and> mget (sources (be_policy E)) (env_source e) = Some sp
    \<and> (\<exists>q \<in> set (allowedEventTypes sp). type_matches (env_type e) q)
    \<and> schema_get (be_registry E) (env_type e) = Some z \<and> be_safeParse E z (env_payload e)
    \<and> (\<forall>f \<in> set (globalDeniedFields (be_policy E)). \<not> has_field f (env_payload e))
    \<and> c = projectToAgentContext e
    \<and> aud' = aud @ [AuditVerified (env_id e) (env_type e) (env_source e)]"
proof -
  from assms obtain e where e: "run_stages E set_nx now raw s = (Inr e, s')"
    "c = projectToAgentContext e" "aud' = aud @ [AuditVerified (env_id e) (env_type e) (env_source e)]"
    by (auto simp: validateEvent_accept)
  then have st: "validateEnvelope E raw = Inr e" "verifySignature E e = None"
    "checkFreshness E set_nx now e s = (None, s')" "authorizeSource E e = None" "validateSchema E e = None"
    by (simp_all add: run_stages_accept)
  from validateEnvelope_date [OF st(1)] obtain t where t: "be_date E (env_timestamp e) = Some t" ..
  moreover from t st(3) have "t \<le> now + maxClockSkewSeconds (replay (be_policy E)) * 1000
      \<and> now \<le> t + maxAgeSeconds (replay (be_policy E)) * 1000"
    by (simp add: checkFreshness_None time_check_None_iff)
  moreover from validateEnvelope_shape [OF st(1)] obtain p where "be_parse E raw = Some p" "e = envelope_of p"
    "length raw \<le> MAX_EVENT_SIZE" by blast
  moreover from st(2) obtain k where "resolve_key (be_keys E) (keyId (env_auth e)) = Some k"
    "verifyEvent (be_crypto E) e k" by (auto simp: verifySignature_def split: option.splits if_splits)
  moreover from st(4) obtain sp where "mget (sources (be_policy E)) (env_source e) = Some sp"
    "\<exists>q \<in> set (allowedEventTypes sp). type_matches (env_type e) q"
    by (auto simp: authorizeSource_def split: option.splits if_splits)
  moreover from st(5) obtain z where "schema_get (be_registry E) (env_type e) = Some z"
    "be_safeParse E z (env_payload e)"
    "\<forall>f \<in> set (globalDeniedFields (be_policy E)). \<not> has_field f (env_payload e)"
    by (auto simp: validateSchema_def split: option.splits if_splits)
  ultimately show ?thesis using e(2,3) by blast
qed

text \<open>The stages on the example event.\<close>

lemma ex_subject [simp]: "env_subject ex_event = JUndef"
  by (simp add: ex_event_def signEvent_def Let_def)

lemma ex_auth [simp]: "alg (env_auth ex_event) = ''hmac-sha256''"
  by (simp add: ex_event_def signEvent_def Let_def)

lemma envelope_of_json:
  assumes "is_obj (env_payload e)"
    and "env_subject e \<noteq> JUndef \<Longrightarrow> is_str (env_subject e)"
  shows "envelope_of (envelope_json e) = e"
  using assms by (cases e) (auto simp: envelope_of_def envelope_json_def Let_def)

lemma validateEnvelope_json:
  assumes "be_parse E raw = Some (envelope_json e)" and "length raw \<le> MAX_EVENT_SIZE"
    and "is_obj (env_payload e)" and "env_subject e \<noteq> JUndef \<Longrightarrow> is_str (env_subject e)"
    and "be_date E (env_timestamp e) = Some t"
  shows "validateEnvelope E raw = Inr e"
proof -
  let ?j = "envelope_json e"
  have props [simp]: "get_prop ''id'' ?j = JStr (env_id e)" "get_prop ''type'' ?j = JStr (env_type e)"
    "get_prop ''source'' ?j = JStr (env_source e)" "get_prop ''nonce'' ?j = JStr (env_nonce e)"
    "get_prop ''schemaVersion'' ?j = JStr (env_schemaVersion e)" "get_prop ''payload'' ?j = env_payload e"
    "get_prop ''timestamp'' ?j = JStr (env_timestamp e)"
    "get_prop ''auth'' ?j = JObj [(''alg'', JStr (alg (env_auth e))), (''keyId'', JStr (keyId (env_auth e))),
       (''sig'', JStr (sig (env_auth e)))]"
    by (simp_all add: envelope_json_def)
  obtain kvs where kvs: "?j = JObj kvs" by (simp add: envelope_json_def)
  moreover have "\<forall>f \<in> set required_fields. in_object f kvs"
    using kvs by (auto simp: envelope_json_def required_fields_def in_object_def)
  ultimately show ?thesis
    using assms envelope_of_json [OF assms(3,4)] props unfolding validateEnvelope_def
    by (simp del: props)
qed

lemma signEvent_subject:
  "env_subject (signEvent C t s p k kid sj u n nc) = (case sj of None \<Rightarrow> JUndef | Some x \<Rightarrow> JStr x)"
  by (simp add: signEvent_def Let_def)

text \<open>
  C10: an event sent by the secure publisher of a registered agent is accepted by a receiver
  that derives its keys from the same master secret, when the policy lets the agent emit the
  type, the payload satisfies its schema, the clocks agree within the policy and its
  identifiers are new to the replay store.
\<close>
theorem published_event_accepted:
  fixes stringify :: "json \<Rightarrow> string" and sa :: "'s"
  assumes "replay_store set_nx live" and law: "b64_law (be_crypto E)"
    and keys: "be_keys E = keyResolver (be_crypto E) ms agents v []" and agent: "a \<in> set agents"
    and pub: "publish_event (be_crypto E) stringify (securePublisher (be_crypto E) a ms v) ty payload sj u iso_now nc
               = ((chan, raw), eid)"
    and e: "e = signEvent (be_crypto E) ty (''agent:'' @ a) payload (fst (deriveAgentKey (be_crypto E) ms a v))
               (key_id a v) sj u iso_now nc"
    and parse: "be_parse E (stringify (envelope_json e)) = Some (envelope_json e)"
    and size: "length raw \<le> MAX_EVENT_SIZE" and obj: "is_obj payload"
    and date: "be_date E iso_now = Some t"
    and window: "t \<le> now + maxClockSkewSeconds (replay (be_policy E)) * 1000"
      "now \<le> t + maxAgeSeconds (replay (be_policy E)) * 1000"
    and src: "mget (sources (be_policy E)) (''agent:'' @ a) = Some sp"
      "\<exists>q \<in> set (allowedEventTypes sp). type_matches ty q"
    and schema: "schema_get (be_registry E) ty = Some z" "be_safeParse E z payload"
      "\<forall>f \<in> set (globalDeniedFields (be_policy E)). \<not> has_field f payload"
    and store: "set_nx (id_key e) (cacheTtlSeconds (replay (be_policy E))) now s = (Some b, sa)" "id_key e \<notin> live s now"
      "set_nx (nonce_key e) (cacheTtlSeconds (replay (be_policy E))) now sa = (Some b', sb)" "nonce_key e \<notin> live sa now"
  shows "validateEvent E set_nx now raw s aud
     = (Inr \<lparr>eventType = ty, verifiedSource = ''agent:'' @ a, verified = True,
             ctx_subject = (case sj of None \<Rightarrow> JUndef | Some x \<Rightarrow> JStr x), facts = payload\<rparr>,
        sb, aud @ [AuditVerified u ty (''agent:'' @ a)]) \<and> eid = u"
proof -
  have kid: "snd (deriveAgentKey (be_crypto E) ms a v) = key_id a v" by (simp add: deriveAgentKey_def)
  from pub e have raw: "raw = stringify (envelope_json e)" and eid: "eid = u"
    by (auto simp: publish_event_def securePublisher_def Let_def kid)
  have ve: "validateEnvelope E raw = Inr e"
    by (rule validateEnvelope_json) (use raw parse size obj date e in \<open>auto simp: signEvent_subject split: option.splits\<close>)
  have "verifySignature E e = None"
    by (simp add: verifySignature_def keys e sign_verify [OF law] resolver_current [OF agent])
  moreover have "b" "b'"
    using replay_store.set_absent [OF assms(1) store(1)] replay_store.set_absent [OF assms(1) store(3)] store(2,4)
    by simp_all
  then have "checkFreshness E set_nx now e s = (None, sb)"
    using store(1,3) date window by (auto simp: checkFreshness_None time_check_None_iff e)
  moreover have "authorizeSource E e = None" "validateSchema E e = None"
    using src schema by (simp_all add: authorizeSource_def validateSchema_def e)
  ultimately have "run_stages E set_nx now raw s = (Inr e, sb)" using ve by (simp add: run_stages_accept)
  then show ?thesis using eid
    by (simp add: validateEvent_def projectToAgentContext_def e signEvent_subject)
qed

lemma ex_set_id: "ref_set_nx (id_key ex_event) 600 1000 ref_empty
    = (Some True, ref_empty(id_key ex_event \<mapsto> 601000))"
  by (simp add: ref_set_nx_def ref_empty_def)

lemma ex_set_nonce: "ref_set_nx (nonce_key ex_event) 600 1000 (ref_empty(id_key ex_event \<mapsto> 601000))
    = (Some True, ref_empty(id_key ex_event \<mapsto> 601000, nonce_key ex_event \<mapsto> 601000))"
  by (simp add: ref_set_nx_def ref_empty_def id_key_def nonce_key_def)

lemma ex_source: "mget (sources (be_policy ex_env)) (''agent:'' @ ''reviewer'')
    = Some \<lparr>allowedEventTypes = [''reviewer:*'']\<rparr>"
  by (simp add: ex_env_def)

lemma ex_schema: "schema_get (be_registry ex_env) ''reviewer:flagged'' = Some ()"
  by (simp add: ex_env_def schema_get_def)

lemma ex_denied: "\<forall>f \<in> set (globalDeniedFields (be_policy ex_env)).
    \<not> has_field f (JObj [(''severity'', JStr ''low'')])"
  by (simp add: ex_env_def DEFAULT_POLICY_def has_field_def in_object_def inherited_names_def)

theorem published_event_accepted_witness:
  "fst (validateEvent ex_env ref_set_nx 1000 ''wire'' ref_empty [])
     = Inr \<lparr>eventType = ''reviewer:flagged'', verifiedSource = ''agent:'' @ ''reviewer'', verified = True,
             ctx_subject = JUndef, facts = JObj [(''severity'', JStr ''low'')]\<rparr>"
proof -
  have "validateEvent ex_env ref_set_nx 1000 ''wire'' ref_empty []
     = (Inr \<lparr>eventType = ''reviewer:flagged'', verifiedSource = ''agent:'' @ ''reviewer'', verified = True,
             ctx_subject = (case None of None \<Rightarrow> JUndef | Some x \<Rightarrow> JStr x),
             facts = JObj [(''severity'', JStr ''low'')]\<rparr>,
        ref_empty(id_key ex_event \<mapsto> 601000, nonce_key ex_event \<mapsto> 601000),
        [] @ [AuditVerified ''u1'' ''reviewer:flagged'' (''agent:'' @ ''reviewer'')]) \<and> ''u1'' = ''u1''"
    by (rule published_event_accepted [where e = ex_event and stringify = "\<lambda>_. ''wire''"
          and ms = "''secret''" and agents = "[''deployer'', ''reviewer'']" and v = 1
          and chan = "''yclaw:events:reviewer:flagged''" and iso_now = "''t1''" and nc = "''n1''" and z = "()"
          and t = 1000 and b = True and b' = True and sa = "ref_empty(id_key ex_event \<mapsto> 601000)", OF ref_replay.replay_store_axioms _ _ _ _ _ _ _ _ _ _ _ ex_source _ ex_schema])
      (simp_all only: ex_env_sel replay_policy.select_convs ex_set_id ex_set_nonce,
       simp_all add: ex_denied publish_event_def securePublisher_def Let_def
         MAX_EVENT_SIZE_def type_matches_def ends_with_def starts_with_def ex_event_def deriveAgentKey_def
         ref_live_def ref_empty_def id_key_def nonce_key_def)
  then show ?thesis by simp
qed

lemma ex_event_accepted:
  "run_stages ex_env ref_set_nx 1000 ''wire'' ref_empty
     = (Inr ex_event, ref_empty(id_key ex_event \<mapsto> 601000, nonce_key ex_event \<mapsto> 601000))"
proof -
  have "validateEnvelope ex_env ''wire'' = Inr ex_event"
    by (rule validateEnvelope_json) (simp_all add: MAX_EVENT_SIZE_def)
  moreover have "verifySignature ex_env ex_event = None"
    by (simp add: verifySignature_def resolve_key_def ex_event_verifies)
  moreover have "checkFreshness ex_env ref_set_nx 1000 ex_event ref_empty
      = (None, ref_empty(id_key ex_event \<mapsto> 601000, nonce_key ex_event \<mapsto> 601000))"
    by (simp add: checkFreshness_None time_check_None_iff ex_set_id ex_set_nonce)
  moreover have "authorizeSource ex_env ex_event = None"
    using ex_source by (simp add: authorizeSource_def type_matches_def ends_with_def starts_with_def)
  moreover have "validateSchema ex_env ex_event = None"
    using ex_schema ex_denied by (simp add: validateSchema_def)
  ultimately show ?thesis by (simp add: run_stages_accept)
qed

theorem accepted_event_passed_all_stages_witness:
  "\<exists>e p k t sp z. be_parse ex_env ''wire'' = Some p \<and> e = envelope_of p
    \<and> resolve_key (be_keys ex_env) (keyId (env_auth e)) = Some k \<and> verifyEvent ex_crypto e k
    \<and> mget (sources (be_policy ex_env)) (env_source e) = Some sp
    \<and> schema_get (be_registry ex_env) (env_type e) = Some z \<and> be_date ex_env (env_timestamp e) = Some t"
proof -
  obtain c s' aud' where "validateEvent ex_env ref_set_nx 1000 ''wire'' ref_empty [] = (Inr c, s', aud')"
    by (simp add: validateEvent_def ex_event_accepted)
  from accepted_event_passed_all_stages [OF this] show ?thesis by (simp only: ex_env_sel) blast
qed

section \<open>Replay, isolation, policy floor\<close>

text \<open>
  C1: an event is accepted at most once, ever: over any run of a receiver with
  non-decreasing arrival times, whatever the inputs, no two accepted envelopes have the same
  identifier and time stamp, provided the policy keeps identifiers longer than the age plus
  the clock skew it tolerates (the default policy does).
\<close>
theorem event_accepted_at_most_once:
  assumes "replay_store set_nx live"
    and "sorted (map fst ins)"
    and "maxAgeSeconds (replay (be_policy E)) + maxClockSkewSeconds (replay (be_policy E))
           < cacheTtlSeconds (replay (be_policy E))"
  shows "distinct (map (\<lambda>e. (env_id e, env_timestamp e)) (bus_run E set_nx s ins))"
  using assms by (rule replay_store.run_distinct)

theorem event_accepted_at_most_once_witness:
  "distinct (map (\<lambda>e. (env_id e, env_timestamp e))
      (bus_run ex_env ref_set_nx ref_empty [(1000, ''wire''), (1001, ''wire''), (900000, ''wire'')]))"
  by (rule event_accepted_at_most_once [OF ref_replay.replay_store_axioms]) simp_all

text \<open>
  An input that does not authenticate (no parse to a well-formed envelope, unknown key, or bad
  signature) is rejected without touching the replay store, so a sender without a key cannot use
  up the identifiers of genuine events.
\<close>
theorem unauthenticated_event_has_no_effect:
  assumes "\<And>e. validateEnvelope E raw = Inr e \<Longrightarrow> verifySignature E e \<noteq> None"
  shows "\<exists>err. validateEvent E set_nx now raw s aud = (Inl err, s, aud @ [AuditRejected err (take 4096 raw)])"
  using assms by (auto simp: validateEvent_def run_stages_def split: sum.splits option.splits)

theorem unauthenticated_event_has_no_effect_witness:
  "\<exists>err. validateEvent (ex_env\<lparr>be_keys := []\<rparr>) ref_set_nx 1000 ''wire'' ref_empty []
      = (Inl err, ref_empty, [] @ [AuditRejected err (take 4096 ''wire'')])"
  by (rule unauthenticated_event_has_no_effect) (simp add: verifySignature_def resolve_key_def)

text \<open>
  The signature stage does not bind the claimed source to the key: whoever holds the key of one
  registered agent signs events of any source and type that pass the signature stage. The
  comment of \<open>keys.ts\<close> promises that a compromised key of one agent cannot forge
  another agent's events.
\<close>
theorem signature_does_not_bind_source:
  assumes "b64_law (be_crypto E)"
    and "be_keys E = keyResolver (be_crypto E) ms agents v []" and "a \<in> set agents"
  shows "verifySignature E (signEvent (be_crypto E) ty forged_source payload
      (fst (deriveAgentKey (be_crypto E) ms a v)) (snd (deriveAgentKey (be_crypto E) ms a v)) sj u t nc) = None"
proof -
  have "snd (deriveAgentKey (be_crypto E) ms a v) = key_id a v" by (simp add: deriveAgentKey_def)
  then show ?thesis
    by (simp add: verifySignature_def assms(2) sign_verify [OF assms(1)] resolver_current [OF assms(3)])
qed

theorem signature_does_not_bind_source_witness:
  "verifySignature ex_env (signEvent (be_crypto ex_env) ''deploy:execute'' ''agent:deployer'' (JObj [])
      (fst (deriveAgentKey (be_crypto ex_env) ''secret'' ''reviewer'' 1))
      (snd (deriveAgentKey (be_crypto ex_env) ''secret'' ''reviewer'' 1)) None ''u'' ''t'' ''n'') = None"
  by (rule signature_does_not_bind_source [where agents = "[''deployer'', ''reviewer'']"]) simp_all

text \<open>
  The built-in deny list is a floor: whatever the policy file says, every field name of the default
  policy stays denied, and the list has no duplicates.
\<close>
theorem denied_fields_floor:
  "set (globalDeniedFields DEFAULT_POLICY) \<subseteq> set (globalDeniedFields (loadEventPolicy yaml))
    \<and> distinct (globalDeniedFields (loadEventPolicy yaml))"
proof (cases yaml)
  case None
  then show ?thesis by (simp add: loadEventPolicy_def DEFAULT_POLICY_def)
next
  case (Some parsed)
  then have "globalDeniedFields (loadEventPolicy yaml)
      = js_set (or_default (p_globalDeniedFields parsed) [] @ globalDeniedFields DEFAULT_POLICY)"
    by (simp add: loadEventPolicy_def)
  then show ?thesis by (simp add: js_set_def)
qed

end
