(* ===== verification/CircuitBreaker.thy ===== *)
theory CircuitBreaker
  imports Prelude
begin

text \<open>
  The per-agent circuit breaker (\<open>packages/core/src/security/circuit-breaker.ts\<close>):
  configuration, counters, and every method, each taking the current time in milliseconds.
  Amounts of money are rationals (the source uses doubles; rounding is not modelled);
  the reason of a trip is kept as data, its English rendering is left out.
\<close>

record cb_config =
  maxConsecutiveFailures :: int
  maxDailyPRs :: int
  maxDailyCostUSD :: rat
  maxDailyDeployments :: int
  cooldownMinutes :: int

definition DEFAULT_CIRCUIT_BREAKER :: cb_config where
  "DEFAULT_CIRCUIT_BREAKER = \<lparr>maxConsecutiveFailures = 3, maxDailyPRs = 10, maxDailyCostUSD = 50,
     maxDailyDeployments = 5, cooldownMinutes = 30\<rparr>"

datatype trip_reason =
    TripFailures int
  | TripPRs int int
  | TripCost rat rat
  | TripDeployments int int

record cb_state =
  consecutiveFailures :: int
  dailyPRs :: int
  dailyCostUSD :: rat
  dailyDeployments :: int
  lastFailureAt :: "int option"
  trippedAt :: "int option"
  trippedReason :: "trip_reason option"

definition cb_init :: cb_state where
  "cb_init = \<lparr>consecutiveFailures = 0, dailyPRs = 0, dailyCostUSD = 0, dailyDeployments = 0,
     lastFailureAt = None, trippedAt = None, trippedReason = None\<rparr>"

definition cb_trip :: "int \<Rightarrow> trip_reason \<Rightarrow> cb_state \<Rightarrow> cb_state" where
  "cb_trip now reason s = s\<lparr>trippedAt := Some now, trippedReason := Some reason\<rparr>"

definition cb_reset :: "cb_state \<Rightarrow> cb_state" where
  "cb_reset s = s\<lparr>consecutiveFailures := 0, trippedAt := None, trippedReason := None\<rparr>"

definition cb_resetDaily :: "cb_state \<Rightarrow> cb_state" where
  "cb_resetDaily s = s\<lparr>dailyPRs := 0, dailyCostUSD := 0, dailyDeployments := 0\<rparr>"

definition cooldown_ms :: "cb_config \<Rightarrow> int" where
  "cooldown_ms c = cooldownMinutes c * 60 * 1000"

definition cb_isOpen :: "cb_config \<Rightarrow> int \<Rightarrow> cb_state \<Rightarrow> bool \<times> cb_state" where
  "cb_isOpen c now s = (case trippedAt s of
     None \<Rightarrow> (False, s)
   | Some t \<Rightarrow> (let elapsed = now - t in
       if elapsed \<ge> cooldown_ms c then (False, cb_reset s) else (True, s)))"

definition cb_recordFailure :: "cb_config \<Rightarrow> int \<Rightarrow> cb_state \<Rightarrow> cb_state" where
  "cb_recordFailure c now s =
     (let s1 = s\<lparr>consecutiveFailures := consecutiveFailures s + 1, lastFailureAt := Some now\<rparr> in
      if consecutiveFailures s1 \<ge> maxConsecutiveFailures c
      then cb_trip now (TripFailures (consecutiveFailures s1)) s1 else s1)"

definition cb_recordSuccess :: "cb_state \<Rightarrow> cb_state" where
  "cb_recordSuccess s = s\<lparr>consecutiveFailures := 0\<rparr>"

definition cb_recordPR :: "cb_config \<Rightarrow> int \<Rightarrow> cb_state \<Rightarrow> bool \<times> cb_state" where
  "cb_recordPR c now s =
     (let s1 = s\<lparr>dailyPRs := dailyPRs s + 1\<rparr> in
      if dailyPRs s1 > maxDailyPRs c
      then (False, cb_trip now (TripPRs (dailyPRs s1) (maxDailyPRs c)) s1) else (True, s1))"

definition cb_recordCost :: "cb_config \<Rightarrow> int \<Rightarrow> rat \<Rightarrow> cb_state \<Rightarrow> bool \<times> cb_state" where
  "cb_recordCost c now usd s =
     (let s1 = s\<lparr>dailyCostUSD := dailyCostUSD s + usd\<rparr> in
      if dailyCostUSD s1 > maxDailyCostUSD c
      then (False, cb_trip now (TripCost (dailyCostUSD s1) (maxDailyCostUSD c)) s1) else (True, s1))"

definition cb_recordDeployment :: "cb_config \<Rightarrow> int \<Rightarrow> cb_state \<Rightarrow> bool \<times> cb_state" where
  "cb_recordDeployment c now s =
     (let s1 = s\<lparr>dailyDeployments := dailyDeployments s + 1\<rparr> in
      if dailyDeployments s1 > maxDailyDeployments c
      then (False, cb_trip now (TripDeployments (dailyDeployments s1) (maxDailyDeployments c)) s1)
      else (True, s1))"

text \<open>The methods as one step, and a run of timed calls with the answers they return.\<close>

datatype cb_call = IsOpen | RecordFailure | RecordSuccess | RecordPR | RecordCost rat
  | RecordDeployment | Reset | ResetDaily

fun cb_step :: "cb_config \<Rightarrow> int \<Rightarrow> cb_call \<Rightarrow> cb_state \<Rightarrow> bool option \<times> cb_state" where
  "cb_step c now IsOpen s = map_prod Some id (cb_isOpen c now s)"
| "cb_step c now RecordFailure s = (None, cb_recordFailure c now s)"
| "cb_step c now RecordSuccess s = (None, cb_recordSuccess s)"
| "cb_step c now RecordPR s = map_prod Some id (cb_recordPR c now s)"
| "cb_step c now (RecordCost usd) s = map_prod Some id (cb_recordCost c now usd s)"
| "cb_step c now RecordDeployment s = map_prod Some id (cb_recordDeployment c now s)"
| "cb_step c now Reset s = (None, cb_reset s)"
| "cb_step c now ResetDaily s = (None, cb_resetDaily s)"

fun cb_run :: "cb_config \<Rightarrow> cb_state \<Rightarrow> (int \<times> cb_call) list \<Rightarrow> (cb_call \<times> bool option) list \<times> cb_state" where
  "cb_run c s [] = ([], s)"
| "cb_run c s ((now, call) # calls) =
     (let (r, s1) = cb_step c now call s; (rs, s2) = cb_run c s1 calls in ((call, r) # rs, s2))"

lemmas cb_defs = cb_isOpen_def cb_recordFailure_def cb_recordSuccess_def cb_recordPR_def
  cb_recordCost_def cb_recordDeployment_def cb_trip_def cb_reset_def cb_resetDaily_def Let_def

section \<open>Budgets\<close>

text \<open>Between two daily resets, the calls a breaker let through stay within the counters.\<close>

abbreviation granted :: "cb_call \<Rightarrow> (cb_call \<times> bool option) list \<Rightarrow> nat" where
  "granted call rs \<equiv> length (filter (\<lambda>x. x = (call, Some True)) rs)"

lemma cb_step_prs:
  "cb_step c now call s = (r, s1) \<Longrightarrow> call \<noteq> ResetDaily \<Longrightarrow>
     dailyPRs s1 = dailyPRs s + (if call = RecordPR then 1 else 0)
     \<and> dailyDeployments s1 = dailyDeployments s + (if call = RecordDeployment then 1 else 0)"
  by (cases call) (auto simp: cb_defs split: option.splits if_splits)

lemma cb_run_prs:
  "cb_run c s calls = (rs, s2) \<Longrightarrow> ResetDaily \<notin> snd ` set calls \<Longrightarrow>
     int (granted RecordPR rs) \<le> max 0 (maxDailyPRs c - dailyPRs s)
     \<and> int (granted RecordDeployment rs) \<le> max 0 (maxDailyDeployments c - dailyDeployments s)"
proof (induction calls arbitrary: s rs)
  case (Cons nc calls)
  obtain now call where nc: "nc = (now, call)" by fastforce
  obtain r s1 where st: "cb_step c now call s = (r, s1)" by fastforce
  obtain rs' where run: "cb_run c s1 calls = (rs', s2)" and rs: "rs = (call, r) # rs'"
    using Cons.prems(1) nc st by (auto simp: Let_def split: prod.splits)
  have not_daily: "call \<noteq> ResetDaily" using Cons.prems(2) nc by auto
  from Cons.IH [OF run] Cons.prems(2) nc cb_step_prs [OF st not_daily] st rs
  show ?case by (cases call) (auto simp: cb_defs split: if_splits)
qed simp

section \<open>Staying open\<close>

definition open_until :: "cb_config \<Rightarrow> int \<Rightarrow> cb_state \<Rightarrow> bool" where
  "open_until c d s \<longleftrightarrow> (\<exists>t. trippedAt s = Some t \<and> d \<le> t + cooldown_ms c)"

lemma cb_step_open:
  assumes "open_until c d s" "now < d" "call \<noteq> Reset" "cb_step c now call s = (r, s1)"
    and "\<forall>t. trippedAt s = Some t \<longrightarrow> t \<le> now"
  shows "open_until c d s1 \<and> (call = IsOpen \<longrightarrow> r = Some True) \<and> (\<forall>t. trippedAt s1 = Some t \<longrightarrow> t \<le> now)"
proof -
  from assms(1,5) obtain t where "trippedAt s = Some t" "d \<le> t + cooldown_ms c" "t \<le> now"
    by (auto simp: open_until_def)
  with assms(2-4) show ?thesis
    by (cases call) (auto simp: cb_defs open_until_def split: if_splits)
qed

lemma cb_run_open:
  assumes "open_until c d s" "\<forall>t. trippedAt s = Some t \<longrightarrow> t \<le> t0"
    and "sorted (t0 # map fst calls)" "\<forall>nc \<in> set calls. fst nc < d \<and> snd nc \<noteq> Reset"
    and "cb_run c s calls = (rs, s2)" "(IsOpen, r) \<in> set rs"
  shows "r = Some True"
  using assms
proof (induction calls arbitrary: s rs t0)
  case (Cons nc calls)
  obtain now call where nc: "nc = (now, call)" by fastforce
  obtain r1 s1 where st: "cb_step c now call s = (r1, s1)" by fastforce
  obtain rs' where run: "cb_run c s1 calls = (rs', s2)" and rs: "rs = (call, r1) # rs'"
    using Cons.prems(5) nc st by (auto simp: Let_def split: prod.splits)
  have "open_until c d s1 \<and> (call = IsOpen \<longrightarrow> r1 = Some True) \<and> (\<forall>t. trippedAt s1 = Some t \<longrightarrow> t \<le> now)"
    by (rule cb_step_open [OF Cons.prems(1) _ _ st]) (use Cons.prems(2-4) nc in \<open>fastforce+\<close>)
  with Cons.IH [of s1 now rs'] Cons.prems(3,4,6) nc run rs show ?case by auto
qed simp

text \<open>
  Between two daily resets the breaker lets through at most the configured number of pull requests
  and deployments, whatever other calls (resets of the trip included) come in between.
\<close>
theorem breaker_daily_budget:
  assumes "cb_run c cb_init calls = (rs, s2)" and "ResetDaily \<notin> snd ` set calls"
    and "0 \<le> maxDailyPRs c" and "0 \<le> maxDailyDeployments c"
  shows "int (granted RecordPR rs) \<le> maxDailyPRs c
    \<and> int (granted RecordDeployment rs) \<le> maxDailyDeployments c"
  using cb_run_prs [OF assms(1,2)] assms(3,4) by (simp add: cb_init_def)

theorem breaker_daily_budget_witness:
  "int (granted RecordPR (fst (cb_run (DEFAULT_CIRCUIT_BREAKER\<lparr>maxDailyPRs := 1\<rparr>) cb_init
      [(0, RecordPR), (1, RecordPR), (2, Reset), (3, RecordPR)]))) \<le> 1"
  using breaker_daily_budget [of "DEFAULT_CIRCUIT_BREAKER\<lparr>maxDailyPRs := 1\<rparr>"
      "[(0, RecordPR), (1, RecordPR), (2, Reset), (3, RecordPR)]"]
  by (simp add: DEFAULT_CIRCUIT_BREAKER_def cb_defs cb_init_def)

text \<open>
  A breaker that trips answers open to every check before its cooldown has passed, whatever calls
  come in between short of an explicit reset (successes included).
\<close>
theorem tripped_breaker_stays_open:
  assumes "trippedAt s = Some t0"
    and "sorted (t0 # map fst calls)"
    and "\<forall>nc \<in> set calls. fst nc < t0 + cooldown_ms c \<and> snd nc \<noteq> Reset"
    and "cb_run c s calls = (rs, s2)" and "(IsOpen, r) \<in> set rs"
  shows "r = Some True"
  by (rule cb_run_open [of c "t0 + cooldown_ms c" s t0]) (use assms in \<open>auto simp: open_until_def\<close>)

theorem tripped_breaker_stays_open_witness:
  "snd (last (fst (cb_run DEFAULT_CIRCUIT_BREAKER (cb_init\<lparr>trippedAt := Some 5\<rparr>)
     [(6, RecordSuccess), (7, RecordPR), (8, IsOpen)]))) = Some True"
proof -
  let ?s = "cb_init\<lparr>trippedAt := Some 5\<rparr>"
  let ?calls = "[(6, RecordSuccess), (7, RecordPR), (8, IsOpen)]"
  obtain rs s2 where run: "cb_run DEFAULT_CIRCUIT_BREAKER ?s ?calls = (rs, s2)" by fastforce
  then obtain r where last: "last rs = (IsOpen, r)" "(IsOpen, r) \<in> set rs"
    by (auto simp: Let_def split: prod.splits)
  have "r = Some True"
    by (rule tripped_breaker_stays_open [OF _ _ _ run last(2)])
      (auto simp: cooldown_ms_def DEFAULT_CIRCUIT_BREAKER_def)
  with run last show ?thesis by simp
qed

end
