(* ===== verification/Permission.thy ===== *)
theory Permission
  imports Prelude
begin

text \<open>
  Operator permissions: the operator's authorization fields (\<open>operators/types.ts\<close>), roles and
  the default roles (\<open>operators/roles.ts\<close>) and the permission engine
  (\<open>operators/permission-engine.ts\<close>).  The role collection of the database is an
  insertion-ordered map from role ids to roles, its unique index being \<open>roleId\<close>;
  time stamps of roles are left out.
\<close>

datatype tier = Root | DepartmentHead | Contributor | Observer

datatype resource_type = RDepartment | RAgent | RTask | ROperator | RAudit

record grant =
  g_resourceType :: resource_type
  g_resourceId :: string
  g_actions :: "string list"

record role =
  roleId :: string
  role_name :: string
  grants :: "grant list"
  priorityClass :: int
  canManageOperators :: bool
  canApproveDeployments :: bool

record operator =
  op_id :: string
  op_tier :: tier
  op_departments :: "string list"

fun tier_hierarchy :: "tier \<Rightarrow> int" where
  "tier_hierarchy Root = 100"
| "tier_hierarchy DepartmentHead = 70"
| "tier_hierarchy Contributor = 50"
| "tier_hierarchy Observer = 10"

section \<open>Roles\<close>

definition DEFAULT_ROLES :: "role list" where
  "DEFAULT_ROLES =
     [\<lparr>roleId = ''role_ceo'', role_name = ''CEO / Org Admin'',
        grants = [\<lparr>g_resourceType = RDepartment, g_resourceId = ''*'', g_actions = [''*'']\<rparr>],
        priorityClass = 100, canManageOperators = True, canApproveDeployments = True\<rparr>,
      \<lparr>roleId = ''role_department_head'', role_name = ''Department Head'', grants = [],
        priorityClass = 70, canManageOperators = False, canApproveDeployments = False\<rparr>,
      \<lparr>roleId = ''role_contributor'', role_name = ''Contributor'', grants = [],
        priorityClass = 50, canManageOperators = False, canApproveDeployments = False\<rparr>,
      \<lparr>roleId = ''role_observer'', role_name = ''Observer'', grants = [],
        priorityClass = 10, canManageOperators = False, canApproveDeployments = False\<rparr>]"

type_synonym role_store = "(string, role) jsmap"

text \<open>\<open>$setOnInsert\<close> with \<open>upsert\<close>: a present role is left as it is.\<close>

fun seedDefaults :: "role list \<Rightarrow> role_store \<Rightarrow> role_store" where
  "seedDefaults [] st = st"
| "seedDefaults (r # rs) st = seedDefaults rs (if mhas st (roleId r) then st else mset_at (roleId r) r st)"

definition getByRoleId :: "role_store \<Rightarrow> string \<Rightarrow> role option" where
  "getByRoleId st rid = mget st rid"

text \<open>The argument is any text; a name that is no tier has no role.\<close>

definition tier_role :: "string \<Rightarrow> string option" where
  "tier_role t = map_of [(''root'', ''role_ceo''), (''department_head'', ''role_department_head''),
     (''contributor'', ''role_contributor''), (''observer'', ''role_observer'')] t"

definition getRoleForTier :: "role_store \<Rightarrow> string \<Rightarrow> role option" where
  "getRoleForTier st t = (case tier_role t of None \<Rightarrow> None | Some rid \<Rightarrow> getByRoleId st rid)"

definition listRoles :: "role_store \<Rightarrow> role list" where
  "listRoles st = map snd st"

section \<open>Permission evaluation\<close>

record perm_check =
  action :: string
  resourceType :: resource_type
  resourceId :: string

datatype perm_reason = Root_access | Role_grant | Department_match | Denied_no_grant | Denied_observer

record perm_result =
  allowed :: bool
  reason :: perm_reason
  effectiveGrants :: "grant list"

fun buildAgentDepartmentMap :: "(string \<times> string) list \<Rightarrow> (string, string) jsmap \<Rightarrow> (string, string) jsmap" where
  "buildAgentDepartmentMap [] m = m"
| "buildAgentDepartmentMap ((name, department) # cs) m = buildAgentDepartmentMap cs (mset_at name department m)"

definition WRITE_ACTIONS :: "string list" where
  "WRITE_ACTIONS = [''trigger'', ''cancel'', ''approve'', ''create'', ''update'', ''delete'']"

definition STANDARD_DEPARTMENT_ACTIONS :: "string list" where
  "STANDARD_DEPARTMENT_ACTIONS = [''read'', ''trigger'', ''cancel_own'']"

definition grant_matches :: "perm_check \<Rightarrow> grant \<Rightarrow> bool" where
  "grant_matches ck g =
     (if g_resourceType g \<noteq> resourceType ck then False
      else if g_resourceId g \<noteq> resourceId ck \<and> g_resourceId g \<noteq> ''*'' then False
      else if action ck \<notin> set (g_actions g) \<and> ''*'' \<notin> set (g_actions g) then False
      else True)"

definition deny :: "perm_reason \<Rightarrow> perm_result" where
  "deny r = \<lparr>allowed = False, reason = r, effectiveGrants = []\<rparr>"

definition allow :: "perm_reason \<Rightarrow> grant list \<Rightarrow> perm_result" where
  "allow r gs = \<lparr>allowed = True, reason = r, effectiveGrants = gs\<rparr>"

text \<open>The department a check is about; the empty name counts as none (it is falsy).\<close>

definition target_department :: "perm_check \<Rightarrow> (string, string) jsmap option \<Rightarrow> string option" where
  "target_department ck amap =
     (let d = (if resourceType ck = RDepartment then Some (resourceId ck)
               else if resourceType ck = RAgent
               then (case amap of None \<Rightarrow> None | Some m \<Rightarrow> mget m (resourceId ck))
               else None)
      in if d = Some [] then None else d)"

definition evaluatePermission ::
  "operator \<Rightarrow> role list \<Rightarrow> perm_check \<Rightarrow> (string, string) jsmap option \<Rightarrow> perm_result" where
  "evaluatePermission opr roles ck amap =
     (if op_tier opr = Root then allow Root_access []
      else if op_tier opr = Observer \<and> action ck \<in> set WRITE_ACTIONS then deny Denied_observer
      else
        (let allGrants = concat (map grants roles);
             matching = filter (grant_matches ck) allGrants in
         if allGrants \<noteq> [] \<and> matching \<noteq> [] then allow Role_grant matching
         else if ''*'' \<in> set (op_departments opr) then
           (if action ck \<in> set STANDARD_DEPARTMENT_ACTIONS then allow Department_match []
            else deny Denied_no_grant)
         else
           (case target_department ck amap of
              Some d \<Rightarrow>
                (if d \<in> set (op_departments opr) then
                   (if action ck \<in> set STANDARD_DEPARTMENT_ACTIONS then allow Department_match []
                    else deny Denied_no_grant)
                 else deny Denied_no_grant)
            | None \<Rightarrow> deny Denied_no_grant)))"

section \<open>Properties\<close>

text \<open>The policy the engine promises, as one predicate.\<close>

definition permitted :: "operator \<Rightarrow> role list \<Rightarrow> perm_check \<Rightarrow> (string, string) jsmap option \<Rightarrow> bool" where
  "permitted opr roles ck amap \<longleftrightarrow>
     op_tier opr = Root
     \<or> \<not> (op_tier opr = Observer \<and> action ck \<in> set WRITE_ACTIONS)
       \<and> ((\<exists>r \<in> set roles. \<exists>g \<in> set (grants r). g_resourceType g = resourceType ck
              \<and> g_resourceId g \<in> {resourceId ck, ''*''} \<and> set (g_actions g) \<inter> {action ck, ''*''} \<noteq> {})
          \<or> action ck \<in> set STANDARD_DEPARTMENT_ACTIONS
            \<and> (''*'' \<in> set (op_departments opr)
               \<or> (\<exists>d \<in> set (op_departments opr). d \<noteq> []
                    \<and> (resourceType ck = RDepartment \<and> resourceId ck = d
                       \<or> resourceType ck = RAgent \<and> (\<exists>m. amap = Some m \<and> mget m (resourceId ck) = Some d)))))"

lemma grant_matches_iff:
  "grant_matches ck g \<longleftrightarrow> g_resourceType g = resourceType ck \<and> g_resourceId g \<in> {resourceId ck, ''*''}
     \<and> set (g_actions g) \<inter> {action ck, ''*''} \<noteq> {}"
  by (auto simp: grant_matches_def)

lemma target_department_iff:
  "target_department ck amap = Some d \<longleftrightarrow> d \<noteq> []
     \<and> (resourceType ck = RDepartment \<and> resourceId ck = d
        \<or> resourceType ck = RAgent \<and> (\<exists>m. amap = Some m \<and> mget m (resourceId ck) = Some d))"
  by (auto simp: target_department_def Let_def split: option.splits)

lemma matching_empty_iff:
  "filter (grant_matches ck) (concat (map grants roles)) = []
     \<longleftrightarrow> \<not> (\<exists>r \<in> set roles. \<exists>g \<in> set (grants r). grant_matches ck g)"
  by (auto simp: filter_empty_conv)

lemma allow_deny_sel [simp]:
  "allowed (deny r)  = False" "allowed (allow r gs) = True" "reason (deny r) = r" "reason (allow r gs) = r"
  "effectiveGrants (deny r) = []" "effectiveGrants (allow r gs) = gs"
  by (simp_all add: deny_def allow_def)

lemma permitted_iff:
  "permitted opr roles ck amap \<longleftrightarrow> op_tier opr = Root
     \<or> \<not> (op_tier opr = Observer \<and> action ck \<in> set WRITE_ACTIONS)
       \<and> ((\<exists>r \<in> set roles. \<exists>g \<in> set (grants r). grant_matches ck g)
          \<or> action ck \<in> set STANDARD_DEPARTMENT_ACTIONS
            \<and> (''*'' \<in> set (op_departments opr)
               \<or> (\<exists>d \<in> set (op_departments opr). target_department ck amap = Some d)))"
  by (simp only: permitted_def grant_matches_iff target_department_iff)

lemma allowed_iff_permitted:
  "allowed (evaluatePermission opr roles ck amap) \<longleftrightarrow> permitted opr roles ck amap"
  unfolding evaluatePermission_def permitted_iff Let_def
  using matching_empty_iff [of ck roles] by (auto split: option.splits)

text \<open>
  C27: the permission engine decides exactly the declared policy: root always; otherwise no observer writes, and
  either a grant of some role matches resource and action, or the action is a standard one and
  the operator belongs to the target's department (or to all).
\<close>
theorem evaluatePermission_decides_policy:
  "allowed (evaluatePermission opr roles ck amap) \<longleftrightarrow> permitted opr roles ck amap"
  by (rule allowed_iff_permitted)

text \<open>
  No accumulation of roles, grants and departments lets an observer perform a write action, and the refusal
  names the observer rule.
\<close>
theorem observer_never_writes:
  assumes "op_tier opr = Observer" and "action ck \<in> set WRITE_ACTIONS"
  shows "evaluatePermission opr roles ck amap = \<lparr>allowed = False, reason = Denied_observer, effectiveGrants = []\<rparr>"
  using assms by (simp add: evaluatePermission_def deny_def)

theorem observer_never_writes_witness:
  "evaluatePermission \<lparr>op_id = ''o'', op_tier = Observer, op_departments = [''*'']\<rparr> DEFAULT_ROLES
      \<lparr>action = ''delete'', resourceType = RDepartment, resourceId = ''finance''\<rparr> None
    = \<lparr>allowed = False, reason = Denied_observer, effectiveGrants = []\<rparr>"
  by (rule observer_never_writes) (simp_all add: WRITE_ACTIONS_def)

text \<open>
  Permissions are monotone: more roles and more departments never take a permission away from an operator of the same tier.
\<close>
theorem permissions_monotone:
  assumes "allowed (evaluatePermission opr roles ck amap)"
    and "set roles \<subseteq> set roles'" and "op_tier opr' = op_tier opr"
    and "set (op_departments opr) \<subseteq> set (op_departments opr')"
  shows "allowed (evaluatePermission opr' roles' ck amap)"
proof -
  have "(\<exists>r \<in> set roles'. \<exists>g \<in> set (grants r). grant_matches ck g)"
    if "\<exists>r \<in> set roles. \<exists>g \<in> set (grants r). grant_matches ck g"
    using that assms(2) by blast
  moreover have "''*'' \<in> set (op_departments opr')" if "''*'' \<in> set (op_departments opr)"
    using that assms(4) by (rule subsetD [rotated])
  moreover have "\<exists>d \<in> set (op_departments opr'). target_department ck amap = Some d"
    if "\<exists>d \<in> set (op_departments opr). target_department ck amap = Some d"
    using that assms(4) by blast
  ultimately show ?thesis
    using assms(1) unfolding allowed_iff_permitted permitted_iff assms(3) by satx
qed

theorem permissions_monotone_witness:
  "allowed (evaluatePermission \<lparr>op_id = ''o'', op_tier = Contributor, op_departments = [''finance'', ''support'']\<rparr>
      DEFAULT_ROLES \<lparr>action = ''trigger'', resourceType = RDepartment, resourceId = ''finance''\<rparr> None)"
  by (rule permissions_monotone [of "\<lparr>op_id = ''o'', op_tier = Contributor, op_departments = [''finance'']\<rparr>" "[]"])
    (simp_all add: allowed_iff_permitted permitted_iff STANDARD_DEPARTMENT_ACTIONS_def target_department_def)

section \<open>Role store\<close>

lemma seed_keeps: "mget st rid = Some r \<Longrightarrow> mget (seedDefaults rs st) rid = Some r"
  by (induction rs arbitrary: st) (auto simp: mhas_def)

lemma seed_covers: "r \<in> set rs \<Longrightarrow> mhas (seedDefaults rs st) (roleId r)"
proof (induction rs arbitrary: st)
  case (Cons a rs)
  let ?st = "if mhas st (roleId a) then st else mset_at (roleId a) a st"
  have "mhas ?st (roleId a)" by (auto simp: mhas_def)
  then obtain x where "mget ?st (roleId a) = Some x" by (auto simp: mhas_def)
  from seed_keeps [OF this] have "mhas (seedDefaults rs ?st) (roleId a)" by (auto simp: mhas_def)
  with Cons show ?case by auto
qed simp

text \<open>
  Seeding the default roles never overwrites a customised role, afterwards every tier has a role,
  and seeding again changes nothing.
\<close>
theorem seeding_is_safe:
  "(\<forall>rid r. mget st rid = Some r \<longrightarrow> mget (seedDefaults DEFAULT_ROLES st) rid = Some r)
    \<and> (\<forall>t \<in> {''root'', ''department_head'', ''contributor'', ''observer''}.
         getRoleForTier (seedDefaults DEFAULT_ROLES st) t \<noteq> None)
    \<and> seedDefaults DEFAULT_ROLES (seedDefaults DEFAULT_ROLES st) = seedDefaults DEFAULT_ROLES st"
proof -
  have covered: "mhas (seedDefaults DEFAULT_ROLES st) (roleId r)" if "r \<in> set DEFAULT_ROLES" for r
    using seed_covers [OF that] .
  have idem: "seedDefaults rs st' = st'" if "\<forall>r \<in> set rs. mhas st' (roleId r)" for rs st'
    using that by (induction rs) auto
  have ids: "map roleId DEFAULT_ROLES = [''role_ceo'', ''role_department_head'', ''role_contributor'', ''role_observer'']"
    by (simp add: DEFAULT_ROLES_def)
  have "mhas (seedDefaults DEFAULT_ROLES st) rid" if "rid \<in> set (map roleId DEFAULT_ROLES)" for rid
    using covered that by auto
  then have "\<forall>t \<in> {''root'', ''department_head'', ''contributor'', ''observer''}.
      getRoleForTier (seedDefaults DEFAULT_ROLES st) t \<noteq> None"
    unfolding ids by (auto simp: getRoleForTier_def tier_role_def getByRoleId_def mhas_def)
  with idem covered show ?thesis using seed_keeps by blast
qed

theorem seeding_is_safe_witness:
  "getRoleForTier (seedDefaults DEFAULT_ROLES []) ''observer'' \<noteq> None"
  using seeding_is_safe [of "[]"] by blast

end
