(* ===== verification/Redis.thy ===== *)
theory Redis
  imports Prelude
begin

text \<open>
  The key-value server several components use, as a parameter: a record of the
  commands the sources call, over an abstract server state.  The locales state what the
  server's documentation promises of them (hashes, sorted sets, lists); the components prove their
  lemmas from these laws.  A reference server made of functions from keys to contents satisfies the
  laws and is the instance the witnesses evaluate.

  Expiry of keys is not part of the commands' laws: a component that depends on it models
  the disappearance of a key as a step of the environment, or puts a clock on the server as \<open>TaskLocks\<close> does.
\<close>

record 's redis =
  HGETALL :: "string \<Rightarrow> 's \<Rightarrow> (string \<times> string) list"
  HSET :: "string \<Rightarrow> (string \<times> string) list \<Rightarrow> 's \<Rightarrow> 's"
  DEL :: "string \<Rightarrow> 's \<Rightarrow> nat \<times> 's"
  EXPIRE :: "string \<Rightarrow> int \<Rightarrow> 's \<Rightarrow> 's"
  TTL :: "string \<Rightarrow> 's \<Rightarrow> int"
  KEYS :: "string \<Rightarrow> 's \<Rightarrow> string list"
  ZADD :: "string \<Rightarrow> int \<Rightarrow> string \<Rightarrow> 's \<Rightarrow> 's"
  ZRANGE :: "string \<Rightarrow> 's \<Rightarrow> (string \<times> int) list"
  ZPOPMIN :: "string \<Rightarrow> 's \<Rightarrow> (string \<times> int) option \<times> 's"
  ZREM :: "string \<Rightarrow> string \<Rightarrow> 's \<Rightarrow> nat \<times> 's"
  LRANGE :: "string \<Rightarrow> 's \<Rightarrow> string list"
  LPUSH :: "string \<Rightarrow> string \<Rightarrow> 's \<Rightarrow> 's"
  RPUSH :: "string \<Rightarrow> string list \<Rightarrow> 's \<Rightarrow> 's"
  LTRIM :: "string \<Rightarrow> nat \<Rightarrow> 's \<Rightarrow> 's"
  SETNX :: "string \<Rightarrow> int \<Rightarrow> 's \<Rightarrow> bool \<times> 's"
  EXISTS :: "string \<Rightarrow> 's \<Rightarrow> bool"
  GET :: "string \<Rightarrow> 's \<Rightarrow> string option"
  SETTEXT :: "string \<Rightarrow> string \<Rightarrow> 's \<Rightarrow> 's"
  INCRBY :: "string \<Rightarrow> int \<Rightarrow> 's \<Rightarrow> int \<times> 's"
  ZREMRANGE :: "string \<Rightarrow> int \<Rightarrow> int \<Rightarrow> 's \<Rightarrow> 's"

text \<open>
  \<open>KEYS R p\<close> lists the keys that start with \<open>p\<close>; \<open>ZRANGE\<close> and \<open>LRANGE\<close> are the whole ranges
  (with scores); \<open>LTRIM R k n\<close> keeps the first \<open>n\<close> elements; \<open>SETNX R k secs\<close> is the
  \<open>SET key '1' EX secs NX\<close> of the sources and answers whether the key was new; \<open>SETTEXT\<close> is the
  plain \<open>SET\<close>; \<open>ZREMRANGE R k lo hi\<close> removes the members with a score from \<open>lo\<close> to \<open>hi\<close>.
\<close>

definition HGET :: "'s redis \<Rightarrow> string \<Rightarrow> string \<Rightarrow> 's \<Rightarrow> string option" where
  "HGET R k f s = map_of (HGETALL R k s) f"

text \<open>A reply that may be missing, with the default the sources give it.\<close>

definition or_text :: "string option \<Rightarrow> string \<Rightarrow> string" where
  "or_text x d = (case x of None \<Rightarrow> d | Some v \<Rightarrow> v)"

definition ZSCORE :: "'s redis \<Rightarrow> string \<Rightarrow> string \<Rightarrow> 's \<Rightarrow> int option" where
  "ZSCORE R k m s = map_of (ZRANGE R k s) m"

definition ZCARD :: "'s redis \<Rightarrow> string \<Rightarrow> 's \<Rightarrow> nat" where
  "ZCARD R k s = length (ZRANGE R k s)"

section \<open>Sorted sets\<close>

text \<open>A sorted set is listed by score, then by member.\<close>

fun zins :: "int \<Rightarrow> string \<Rightarrow> (string \<times> int) list \<Rightarrow> (string \<times> int) list" where
  "zins sc m [] = [(m, sc)]"
| "zins sc m ((n, t) # zs) = (if sc < t \<or> sc = t \<and> m < n then (m, sc) # (n, t) # zs else (n, t) # zins sc m zs)"

definition zput :: "int \<Rightarrow> string \<Rightarrow> (string \<times> int) list \<Rightarrow> (string \<times> int) list" where
  "zput sc m zs = zins sc m (filter (\<lambda>x. fst x \<noteq> m) zs)"

lemma set_zins [simp]: "set (zins sc m zs) = insert (m, sc) (set zs)"
  by (induction sc m zs rule: zins.induct) auto

lemma length_zins [simp]: "length (zins sc m zs) = Suc (length zs)"
  by (induction sc m zs rule: zins.induct) auto

lemma zins_last: "\<forall>z \<in> set zs. snd z < sc \<Longrightarrow> zins sc m zs = zs @ [(m, sc)]"
  by (induction sc m zs rule: zins.induct) auto

lemma zput_last: "m \<notin> fst ` set zs \<Longrightarrow> \<forall>z \<in> set zs. snd z < sc \<Longrightarrow> zput sc m zs = zs @ [(m, sc)]"
proof -
  assume "m \<notin> fst ` set zs" "\<forall>z \<in> set zs. snd z < sc"
  moreover from this have "filter (\<lambda>x. fst x \<noteq> m) zs = zs" by (force intro: filter_True)
  ultimately show ?thesis by (simp add: zput_def zins_last)
qed

section \<open>Laws\<close>

locale redis_hashes =
  fixes R :: "'s redis"
  assumes hgetall_hset: "distinct (map fst fs) \<Longrightarrow> map_of (HGETALL R k (HSET R k' fs s))
      = (if k = k' then map_of (HGETALL R k s) ++ map_of fs else map_of (HGETALL R k s))"
    and hgetall_expire: "0 < secs \<Longrightarrow> HGETALL R k (EXPIRE R k' secs s) = HGETALL R k s"
    and hgetall_del: "DEL R k' s = (n, s') \<Longrightarrow> HGETALL R k s' = (if k = k' then [] else HGETALL R k s)"
    and del_count: "DEL R k s = (n, s') \<Longrightarrow> HGETALL R k s \<noteq> [] \<Longrightarrow> 0 < n"
begin

lemma hget_hset:
  "distinct (map fst fs) \<Longrightarrow> HGET R k f (HSET R k' fs s)
     = (if k = k' then (case map_of fs f of None \<Rightarrow> HGET R k f s | Some v \<Rightarrow> Some v) else HGET R k f s)"
  by (simp add: HGET_def hgetall_hset map_add_def split: option.splits)

lemma hset_present: "distinct (map fst fs) \<Longrightarrow> fs \<noteq> [] \<Longrightarrow> HGETALL R k (HSET R k fs s) \<noteq> []"
proof
  assume d: "distinct (map fst fs)" and ne: "fs \<noteq> []" and "HGETALL R k (HSET R k fs s) = []"
  then have "map_of (HGETALL R k s) ++ map_of fs = Map.empty"
    using hgetall_hset [OF d, of k k s] by simp
  with ne show False by (cases fs) (auto simp: fun_upd_def fun_eq_iff split: if_splits)
qed

lemma hget_expire: "0 < secs \<Longrightarrow> HGET R k f (EXPIRE R k' secs s) = HGET R k f s"
  by (simp add: HGET_def hgetall_expire)

end

locale redis_queues = redis_hashes +
  assumes zrange_zadd: "ZRANGE R k (ZADD R k' sc m s) = (if k = k' then zput sc m (ZRANGE R k s) else ZRANGE R k s)"
    and zpopmin: "ZPOPMIN R k s = (r, s') \<Longrightarrow>
      r = (case ZRANGE R k s of [] \<Rightarrow> None | z # _ \<Rightarrow> Some z)
      \<and> ZRANGE R k s' = tl (ZRANGE R k s) \<and> (\<forall>l. l \<noteq> k \<longrightarrow> ZRANGE R l s' = ZRANGE R l s)
      \<and> (\<forall>l. HGETALL R l s' = HGETALL R l s)"
    and zrem: "ZREM R k m s = (n, s') \<Longrightarrow>
      n = (if m \<in> fst ` set (ZRANGE R k s) then 1 else 0)
      \<and> ZRANGE R k s' = filter (\<lambda>z. fst z \<noteq> m) (ZRANGE R k s) \<and> (\<forall>l. l \<noteq> k \<longrightarrow> ZRANGE R l s' = ZRANGE R l s)"
    and zrange_hset: "ZRANGE R k (HSET R k' fs s) = ZRANGE R k s"
    and zrange_expire: "0 < secs \<Longrightarrow> ZRANGE R k (EXPIRE R k' secs s) = ZRANGE R k s"
    and hgetall_zadd: "HGETALL R k (ZADD R k' sc m s) = HGETALL R k s"

locale redis_lists = redis_queues +
  assumes lrange_lpush: "LRANGE R k (LPUSH R k' x s) = (if k = k' then x # LRANGE R k s else LRANGE R k s)"
    and lrange_rpush: "LRANGE R k (RPUSH R k' xs s) = (if k = k' then LRANGE R k s @ xs else LRANGE R k s)"
    and lrange_ltrim: "LRANGE R k (LTRIM R k' n s) = (if k = k' then take n (LRANGE R k s) else LRANGE R k s)"
    and lrange_del: "DEL R k' s = (n, s') \<Longrightarrow> LRANGE R k s' = (if k = k' then [] else LRANGE R k s)"
    and lrange_hset: "LRANGE R k (HSET R k' fs s) = LRANGE R k s"
    and lrange_zadd: "LRANGE R k (ZADD R k' sc m s) = LRANGE R k s"
    and lrange_expire: "0 < secs \<Longrightarrow> LRANGE R k (EXPIRE R k' secs s) = LRANGE R k s"

locale redis_keys = redis_lists +
  assumes setnx: "SETNX R k secs s = (b, s') \<Longrightarrow>
      b = (\<not> EXISTS R k s) \<and> (\<forall>l. EXISTS R l s' \<longleftrightarrow> l = k \<or> EXISTS R l s)
      \<and> (\<forall>l. ZRANGE R l s' = ZRANGE R l s \<and> HGETALL R l s' = HGETALL R l s \<and> LRANGE R l s' = LRANGE R l s)"
    and exists_hset: "EXISTS R l s \<Longrightarrow> EXISTS R l (HSET R k fs s)"
    and exists_zadd: "EXISTS R l s \<Longrightarrow> EXISTS R l (ZADD R k sc m s)"

text \<open>A counter is a text with an integer; an absent one counts as zero.\<close>

definition counter :: "'s redis \<Rightarrow> string \<Rightarrow> 's \<Rightarrow> int option" where
  "counter R k s = (case GET R k s of None \<Rightarrow> Some 0 | Some t \<Rightarrow> parse_int t)"

locale redis_counters =
  fixes R :: "'s redis"
  assumes incrby: "counter R k s = Some v \<Longrightarrow> INCRBY R k n s = (m, s') \<Longrightarrow>
      m = v + n \<and> GET R k s' = Some (dec_int (v + n)) \<and> (\<forall>l. l \<noteq> k \<longrightarrow> GET R l s' = GET R l s)"
    and get_expire: "0 < secs \<Longrightarrow> GET R k (EXPIRE R k' secs s) = GET R k s"
    and get_settext: "GET R k (SETTEXT R k' t s) = (if k = k' then Some t else GET R k s)"
    and get_setnx: "SETNX R k' secs s = (b, s') \<Longrightarrow> k \<noteq> k' \<Longrightarrow> GET R k s' = GET R k s"
begin

lemma counter_incrby:
  "counter R k s = Some v \<Longrightarrow> INCRBY R k n s = (m, s') \<Longrightarrow> counter R l s' = (if l = k then Some (v + n) else counter R l s)"
  using incrby [of k s v n m s'] by (auto simp: counter_def)

lemma counter_expire: "0 < secs \<Longrightarrow> counter R k (EXPIRE R k' secs s) = counter R k s"
  by (simp add: counter_def get_expire)

end

locale redis_windows = redis_queues +
  assumes zrange_zremrange: "ZRANGE R k (ZREMRANGE R k' lo hi s)
      = (if k = k' then filter (\<lambda>z. \<not> (lo \<le> snd z \<and> snd z \<le> hi)) (ZRANGE R k s) else ZRANGE R k s)"
    and zrange_incrby: "INCRBY R k' n s = (m, s') \<Longrightarrow> ZRANGE R k s' = ZRANGE R k s"
    and zrange_settext: "ZRANGE R k (SETTEXT R k' t s) = ZRANGE R k s"

text \<open>Locks that are set if absent and deleted by name.\<close>

locale redis_exec_locks = redis_keys +
  assumes exists_del: "DEL R k s = (n, s') \<Longrightarrow> EXISTS R l s' \<longleftrightarrow> l \<noteq> k \<and> EXISTS R l s"
    and exists_settext: "EXISTS R l s \<Longrightarrow> EXISTS R l (SETTEXT R k t s)"
    and exists_expire: "0 < secs \<Longrightarrow> EXISTS R l (EXPIRE R k secs s) = EXISTS R l s"

section \<open>A reference server\<close>

record ref_db =
  db_hashes :: "(string, (string \<times> string) list) jsmap"
  db_zsets :: "string \<Rightarrow> (string \<times> int) list"
  db_lists :: "string \<Rightarrow> string list"
  db_strings :: "(string, string) jsmap"

definition db_hash :: "ref_db \<Rightarrow> string \<Rightarrow> (string \<times> string) list" where
  "db_hash s k = (case mget (db_hashes s) k of None \<Rightarrow> [] | Some h \<Rightarrow> h)"

definition db_exists :: "string \<Rightarrow> ref_db \<Rightarrow> bool" where
  "db_exists k s \<longleftrightarrow> mhas (db_strings s) k \<or> mhas (db_hashes s) k \<or> db_zsets s k \<noteq> [] \<or> db_lists s k \<noteq> []"

definition ref_redis :: "ref_db redis" where
  "ref_redis = \<lparr>
     HGETALL = (\<lambda>k s. db_hash s k),
     HSET = (\<lambda>k fs s. s\<lparr>db_hashes := mset_at k (fold (\<lambda>(f, v) h. AList.update f v h) fs (db_hash s k)) (db_hashes s)\<rparr>),
     DEL = (\<lambda>k s. (if db_hash s k \<noteq> [] \<or> db_exists k s then 1 else 0,
        s\<lparr>db_hashes := mdelete k (db_hashes s), db_zsets := (db_zsets s)(k := []),
          db_lists := (db_lists s)(k := []), db_strings := mdelete k (db_strings s)\<rparr>)),
     EXPIRE = (\<lambda>k n s. s),
     TTL = (\<lambda>k s. - 1),
     KEYS = (\<lambda>p s. filter (\<lambda>k. starts_with k p) (map fst (db_hashes s))),
     ZADD = (\<lambda>k sc m s. s\<lparr>db_zsets := (db_zsets s)(k := zput sc m (db_zsets s k))\<rparr>),
     ZRANGE = (\<lambda>k s. db_zsets s k),
     ZPOPMIN = (\<lambda>k s. case db_zsets s k of [] \<Rightarrow> (None, s) | z # zs \<Rightarrow> (Some z, s\<lparr>db_zsets := (db_zsets s)(k := zs)\<rparr>)),
     ZREM = (\<lambda>k m s. (if m \<in> set (map fst (db_zsets s k)) then 1 else 0,
        s\<lparr>db_zsets := (db_zsets s)(k := filter (\<lambda>z. fst z \<noteq> m) (db_zsets s k))\<rparr>)),
     LRANGE = (\<lambda>k s. db_lists s k),
     LPUSH = (\<lambda>k x s. s\<lparr>db_lists := (db_lists s)(k := x # db_lists s k)\<rparr>),
     RPUSH = (\<lambda>k xs s. s\<lparr>db_lists := (db_lists s)(k := db_lists s k @ xs)\<rparr>),
     LTRIM = (\<lambda>k n s. s\<lparr>db_lists := (db_lists s)(k := take n (db_lists s k))\<rparr>),
     SETNX = (\<lambda>k secs s. if db_exists k s then (False, s) else (True, s\<lparr>db_strings := mset_at k ''1'' (db_strings s)\<rparr>)),
     EXISTS = db_exists,
     GET = (\<lambda>k s. mget (db_strings s) k),
     SETTEXT = (\<lambda>k t s. s\<lparr>db_strings := mset_at k t (db_strings s)\<rparr>),
     INCRBY = (\<lambda>k n s. let v = (case mget (db_strings s) k of None \<Rightarrow> 0 | Some t \<Rightarrow> (case parse_int t of None \<Rightarrow> 0 | Some v \<Rightarrow> v))
        in (v + n, s\<lparr>db_strings := mset_at k (dec_int (v + n)) (db_strings s)\<rparr>)),
     ZREMRANGE = (\<lambda>k lo hi s. s\<lparr>db_zsets := (db_zsets s)(k := filter (\<lambda>z. \<not> (lo \<le> snd z \<and> snd z \<le> hi)) (db_zsets s k))\<rparr>)\<rparr>"

definition db_empty :: ref_db where
  "db_empty = \<lparr>db_hashes = [], db_zsets = (\<lambda>_. []), db_lists = (\<lambda>_. []), db_strings = []\<rparr>"

lemma map_of_fold_update:
  "distinct (map fst fs) \<Longrightarrow> map_of (fold (\<lambda>(f, v) h. AList.update f v h) fs h) = map_of h ++ map_of fs"
proof (induction fs arbitrary: h)
  case (Cons p fs)
  obtain f v where p: "p = (f, v)" by fastforce
  with Cons.prems have "f \<notin> dom (map_of fs)" by (auto simp: dom_map_of_conv_image_fst)
  with Cons p show ?case
    by (auto simp: update_conv' map_add_def fun_eq_iff split: option.splits)
qed simp

lemma db_hash_simps [simp]:
  "db_hash (s\<lparr>db_hashes := mset_at k h (db_hashes s)\<rparr>) l = (if k = l then h else db_hash s l)"
  "db_hash (s\<lparr>db_zsets := z\<rparr>) l = db_hash s l"
  "db_hash (s\<lparr>db_lists := y\<rparr>) l = db_hash s l"
  "db_hash (s\<lparr>db_hashes := mdelete k (db_hashes s)\<rparr>) l = (if k = l then [] else db_hash s l)"
  "db_hash (s\<lparr>db_strings := v\<rparr>) l = db_hash s l"
  "db_hash (s\<lparr>db_hashes := mdelete k (db_hashes s), db_zsets := z, db_lists := y, db_strings := v\<rparr>) l = (if k = l then [] else db_hash s l)"
  by (simp_all add: db_hash_def)

lemma zins_nonempty [simp]: "zins sc m zs \<noteq> []"
  using length_zins [of sc m zs] by (metis length_0_conv nat.distinct(1))

interpretation ref_server: redis_keys ref_redis
  by unfold_locales
    (auto simp: ref_redis_def map_of_fold_update zput_def db_exists_def split: list.splits if_splits)

interpretation ref_counters: redis_counters ref_redis
  by unfold_locales (auto simp: ref_redis_def counter_def Let_def split: option.splits if_splits)

interpretation ref_locks: redis_exec_locks ref_redis
  by unfold_locales (auto simp: ref_redis_def db_exists_def mhas_def split: if_splits)

interpretation ref_windows: redis_windows ref_redis
  by unfold_locales (auto simp: ref_redis_def Let_def)

end
