(* ===== verification/TaskLocks.thy ===== *)
theory TaskLocks
  imports Redis
begin

text \<open>
  Priority locks of operator tasks (\<open>packages/core/src/operators/task-locks.ts\<close>): the three server-side
  scripts and the methods of \<open>TaskLockManager\<close>, over the server interface of \<open>Redis\<close>.
  A script error (a stored priority that is no number) is \<open>None\<close>.  Time stamps are texts
  produced by the function \<open>iso\<close> from milliseconds.

  The lock of a resource is abstracted to its task, operator, priority and deadline; every operation, at its time, is shown
  to refine the abstract priority lock.  The expiries are those of the server with its clock below.
\<close>

definition LOCK_PREFIX :: string where
  "LOCK_PREFIX = ''lock:''"

definition DEFAULT_TTL_SECONDS :: int where
  "DEFAULT_TTL_SECONDS = 3600"

record task_lock =
  lk_resourceKey :: string
  lk_taskId :: string
  lk_operatorId :: string
  lk_priority :: "int option"
  lk_acquiredAt :: string
  lk_expiresAt :: string

record acquire_result =
  acquired :: bool
  preempted :: "task_lock option"
  currentHolder :: "task_lock option"

section \<open>Scripts\<close>

datatype script_status = SAcquired | SPreempted | SBlocked

definition lock_fields :: "string \<Rightarrow> string \<Rightarrow> int \<Rightarrow> string \<Rightarrow> string \<Rightarrow> (string \<times> string) list" where
  "lock_fields taskId operatorId priority acquiredAt expiresAt =
     [(''taskId'', taskId), (''operatorId'', operatorId), (''priority'', dec_int priority),
      (''acquiredAt'', acquiredAt), (''expiresAt'', expiresAt)]"

definition field_texts :: "(string \<rightharpoonup> string) \<Rightarrow> string list" where
  "field_texts m = [or_text (m ''taskId'') '''', or_text (m ''operatorId'') '''', or_text (m ''priority'') '''',
     or_text (m ''acquiredAt'') '''', or_text (m ''expiresAt'') '''']"

definition acquire_script ::
  "'s redis \<Rightarrow> string \<Rightarrow> string \<Rightarrow> string \<Rightarrow> int \<Rightarrow> string \<Rightarrow> string \<Rightarrow> int \<Rightarrow> 's \<Rightarrow> (script_status \<times> string list) option \<times> 's" where
  "acquire_script R key taskId operatorId priority acquiredAt expiresAt ttl s =
     (let existing = HGETALL R key s; data = map_of existing;
          put = (\<lambda>s. EXPIRE R key ttl (HSET R key (lock_fields taskId operatorId priority acquiredAt expiresAt) s))
      in if existing = [] then (Some (SAcquired, ['''', '''', '''', '''', '''']), put s)
         else case parse_int (or_text (data ''priority'') ''0'') of
            None \<Rightarrow> (None, s)
          | Some existingPriority \<Rightarrow>
              (if priority > existingPriority then (Some (SPreempted, field_texts data), put s)
               else (Some (SBlocked, field_texts data), s)))"

definition release_script :: "'s redis \<Rightarrow> string \<Rightarrow> string \<Rightarrow> 's \<Rightarrow> int \<times> 's" where
  "release_script R key operatorId s = (case HGET R key ''operatorId'' s of
     None \<Rightarrow> (0, s)
   | Some holder \<Rightarrow> (if holder \<noteq> operatorId then (-1, s) else (1, snd (DEL R key s))))"

definition extend_script :: "'s redis \<Rightarrow> string \<Rightarrow> string \<Rightarrow> int \<Rightarrow> string \<Rightarrow> 's \<Rightarrow> int \<times> 's" where
  "extend_script R key operatorId additionalSeconds newExpiresAt s = (case HGET R key ''operatorId'' s of
     None \<Rightarrow> (0, s)
   | Some holder \<Rightarrow>
       (if holder \<noteq> operatorId then (-1, s)
        else let s1 = HSET R key [(''expiresAt'', newExpiresAt)] s;
                 currentTtl = TTL R key s1
             in (1, EXPIRE R key (if currentTtl > 0 then currentTtl + additionalSeconds else additionalSeconds) s1)))"

section \<open>Manager\<close>

definition lock_key :: "string \<Rightarrow> string" where
  "lock_key resourceKey = LOCK_PREFIX @ resourceKey"

definition lock_of_texts :: "string \<Rightarrow> string list \<Rightarrow> task_lock" where
  "lock_of_texts resourceKey r = \<lparr>lk_resourceKey = resourceKey, lk_taskId = r ! 0, lk_operatorId = r ! 1,
     lk_priority = parse_int (r ! 2), lk_acquiredAt = r ! 3, lk_expiresAt = r ! 4\<rparr>"

definition acquireLock ::
  "'s redis \<Rightarrow> (int \<Rightarrow> string) \<Rightarrow> int \<Rightarrow> string \<Rightarrow> string \<Rightarrow> string \<Rightarrow> int \<Rightarrow> int option \<Rightarrow> 's \<Rightarrow> acquire_result option \<times> 's" where
  "acquireLock R iso_of now resourceKey taskId operatorId priority ttlSeconds s =
     (let ttl = (case ttlSeconds of None \<Rightarrow> DEFAULT_TTL_SECONDS | Some t \<Rightarrow> t) in
      case acquire_script R (lock_key resourceKey) taskId operatorId priority (iso_of now) (iso_of (now + ttl * 1000)) ttl s of
        (None, s1) \<Rightarrow> (None, s1)
      | (Some (status, texts), s1) \<Rightarrow>
          (case status of
             SAcquired \<Rightarrow> (Some \<lparr>acquired = True, preempted = None, currentHolder = None\<rparr>, s1)
           | SPreempted \<Rightarrow> (Some \<lparr>acquired = True, preempted = Some (lock_of_texts resourceKey texts), currentHolder = None\<rparr>, s1)
           | SBlocked \<Rightarrow> (Some \<lparr>acquired = False, preempted = None, currentHolder = Some (lock_of_texts resourceKey texts)\<rparr>, s1)))"

definition releaseLock :: "'s redis \<Rightarrow> string \<Rightarrow> string \<Rightarrow> 's \<Rightarrow> bool \<times> 's" where
  "releaseLock R resourceKey operatorId s =
     (let (r, s1) = release_script R (lock_key resourceKey) operatorId s in (r = 1, s1))"

definition extendLock :: "'s redis \<Rightarrow> (int \<Rightarrow> string) \<Rightarrow> int \<Rightarrow> string \<Rightarrow> string \<Rightarrow> int \<Rightarrow> 's \<Rightarrow> bool \<times> 's" where
  "extendLock R iso_of now resourceKey operatorId additionalSeconds s =
     (let (r, s1) = extend_script R (lock_key resourceKey) operatorId additionalSeconds
                      (iso_of (now + additionalSeconds * 1000)) s in (r = 1, s1))"

text \<open>An absent or empty \<open>taskId\<close> is falsy and counts as no lock.\<close>

definition getLock :: "'s redis \<Rightarrow> string \<Rightarrow> 's \<Rightarrow> task_lock option" where
  "getLock R resourceKey s =
     (let m = map_of (HGETALL R (lock_key resourceKey) s) in
      if or_text (m ''taskId'') '''' = '''' then None
      else Some (lock_of_texts resourceKey (field_texts m)))"

definition listLocks :: "'s redis \<Rightarrow> 's \<Rightarrow> task_lock list" where
  "listLocks R s = List.map_filter (\<lambda>key. getLock R (drop (length LOCK_PREFIX) key) s) (KEYS R LOCK_PREFIX s)"

definition forceRelease :: "'s redis \<Rightarrow> string \<Rightarrow> 's \<Rightarrow> bool \<times> 's" where
  "forceRelease R resourceKey s = (let (n, s1) = DEL R (lock_key resourceKey) s in (n > 0, s1))"

section \<open>The abstract priority lock\<close>

type_synonym lock_table = "string \<Rightarrow> (string \<times> string \<times> int) option"

definition abs_acquire :: "string \<Rightarrow> string \<Rightarrow> string \<Rightarrow> int \<Rightarrow> lock_table \<Rightarrow> bool \<times> lock_table" where
  "abs_acquire key task opr prio t = (case t key of
     None \<Rightarrow> (True, t(key := Some (task, opr, prio)))
   | Some (task', opr', prio') \<Rightarrow>
       (if prio > prio' then (True, t(key := Some (task, opr, prio))) else (False, t)))"

definition abs_release :: "string \<Rightarrow> string \<Rightarrow> lock_table \<Rightarrow> bool \<times> lock_table" where
  "abs_release key opr t = (case t key of
     Some (task', opr', prio') \<Rightarrow> (if opr' = opr then (True, t(key := None)) else (False, t))
   | None \<Rightarrow> (False, t))"

definition abs_force :: "string \<Rightarrow> lock_table \<Rightarrow> lock_table" where
  "abs_force key t = t(key := None)"

text \<open>A stored lock has all its fields, and a readable priority.\<close>

definition lock_wf :: "'s redis \<Rightarrow> 's \<Rightarrow> bool" where
  "lock_wf R s \<longleftrightarrow> (\<forall>key. HGETALL R (lock_key key) s = [] \<or>
     (\<exists>t opr p a e. HGET R (lock_key key) ''taskId'' s = Some t \<and> HGET R (lock_key key) ''operatorId'' s = Some opr
        \<and> HGET R (lock_key key) ''priority'' s = Some (dec_int p)
        \<and> HGET R (lock_key key) ''acquiredAt'' s = Some a \<and> HGET R (lock_key key) ''expiresAt'' s = Some e))"

definition lock_table_of :: "'s redis \<Rightarrow> 's \<Rightarrow> lock_table" where
  "lock_table_of R s key =
     (case (HGET R (lock_key key) ''taskId'' s, HGET R (lock_key key) ''operatorId'' s, HGET R (lock_key key) ''priority'' s) of
        (Some t, Some opr, Some p) \<Rightarrow> map_option (\<lambda>i. (t, opr, i)) (parse_int p)
      | _ \<Rightarrow> None)"

lemma lock_key_inj [simp]: "lock_key a = lock_key b \<longleftrightarrow> a = b"
  by (simp add: lock_key_def)

lemma lock_fields_distinct [simp]: "distinct (map fst (lock_fields t opr p a e))"
  by (simp add: lock_fields_def)

lemma lock_fields_nonempty [simp]: "lock_fields t opr p a e \<noteq> []"
  by (simp add: lock_fields_def)

lemma lock_wf_cases:
  assumes "lock_wf R s"
  obtains (free) "HGETALL R (lock_key key) s = []" "lock_table_of R s key = None"
  | (held) t opr p where "HGETALL R (lock_key key) s \<noteq> []" "lock_table_of R s key = Some (t, opr, p)"
      "HGET R (lock_key key) ''operatorId'' s = Some opr" "HGET R (lock_key key) ''taskId'' s = Some t"
      "HGET R (lock_key key) ''priority'' s = Some (dec_int p)"
proof (cases "HGETALL R (lock_key key) s = []")
  case True
  then show ?thesis by (intro free) (simp_all add: lock_table_of_def HGET_def)
next
  case False
  with assms obtain t opr p where "HGET R (lock_key key) ''taskId'' s = Some t"
    "HGET R (lock_key key) ''operatorId'' s = Some opr" "HGET R (lock_key key) ''priority'' s = Some (dec_int p)"
    unfolding lock_wf_def by blast
  with False show ?thesis by (intro held) (simp_all add: lock_table_of_def)
qed

context redis_hashes begin

lemma put_lock:
  assumes "0 < ttl"
    and s1_def: "s1 = EXPIRE R (lock_key key) ttl (HSET R (lock_key key) (lock_fields t opr p a e) s)"
  shows "lock_table_of R s1 = (lock_table_of R s)(key := Some (t, opr, p))"
    and "lock_wf R s \<Longrightarrow> lock_wf R s1"
proof -
  have g: "HGET R (lock_key l) f s1 = (if l = key then (case map_of (lock_fields t opr p a e) f of
      None \<Rightarrow> HGET R (lock_key l) f s | Some v \<Rightarrow> Some v) else HGET R (lock_key l) f s)" for l f
    using assms by (simp add: hget_expire hget_hset s1_def)
  have h: "HGETALL R (lock_key l) s1 = [] \<longleftrightarrow> l \<noteq> key \<and> HGETALL R (lock_key l) s = []" for l
  proof (cases "l = key")
    case True
    with assms(1) hset_present show ?thesis by (simp add: s1_def hgetall_expire)
  next
    case False
    then have "map_of (HGETALL R (lock_key l) s1) = map_of (HGETALL R (lock_key l) s)"
      using assms(1) by (simp add: s1_def hgetall_expire hgetall_hset)
    with False show ?thesis by (metis map_of_eq_empty_iff)
  qed
  show "lock_table_of R s1 = (lock_table_of R s)(key := Some (t, opr, p))"
    by (rule ext) (simp add: lock_table_of_def g lock_fields_def)
  show "lock_wf R s1" if "lock_wf R s"
    unfolding lock_wf_def
  proof
    fix l
    from that show "HGETALL R (lock_key l) s1 = [] \<or> (\<exists>t opr p a e. HGET R (lock_key l) ''taskId'' s1 = Some t
        \<and> HGET R (lock_key l) ''operatorId'' s1 = Some opr \<and> HGET R (lock_key l) ''priority'' s1 = Some (dec_int p)
        \<and> HGET R (lock_key l) ''acquiredAt'' s1 = Some a \<and> HGET R (lock_key l) ''expiresAt'' s1 = Some e)"
      unfolding lock_wf_def g h by (cases "l = key") (auto simp: lock_fields_def)
  qed
qed

lemma del_lock:
  assumes "DEL R (lock_key key) s = (n, s1)"
  shows "lock_table_of R s1 = (lock_table_of R s)(key := None)" and "lock_wf R s \<Longrightarrow> lock_wf R s1"
  using hgetall_del [OF assms]
  by (auto simp: lock_table_of_def lock_wf_def HGET_def fun_eq_iff)

lemma acquire_refines:
  assumes wf: "lock_wf R s" and ttl: "0 < (case ttlSeconds of None \<Rightarrow> DEFAULT_TTL_SECONDS | Some t \<Rightarrow> t)"
  shows "\<exists>res s1. acquireLock R iso_of now key task opr prio ttlSeconds s = (Some res, s1) \<and> lock_wf R s1
    \<and> (acquired res, lock_table_of R s1) = abs_acquire key task opr prio (lock_table_of R s)"
  using wf
proof (cases rule: lock_wf_cases [where key = key])
  case free
  then show ?thesis using put_lock [OF ttl refl] wf
    by (simp add: acquireLock_def acquire_script_def Let_def abs_acquire_def)
next
  case (held t opr' p)
  then have "map_of (HGETALL R (lock_key key) s) ''priority'' = Some (dec_int p)" by (simp add: HGET_def)
  with held show ?thesis using put_lock [OF ttl refl] wf
    by (simp add: acquireLock_def acquire_script_def Let_def abs_acquire_def or_text_def)
qed

lemma release_refines:
  assumes wf: "lock_wf R s" and rel: "releaseLock R key opr s = (b, s1)"
  shows "lock_wf R s1 \<and> (b, lock_table_of R s1) = abs_release key opr (lock_table_of R s)"
  using wf
proof (cases rule: lock_wf_cases [where key = key])
  case free
  then show ?thesis using rel wf by (simp add: releaseLock_def release_script_def HGET_def abs_release_def)
next
  case (held t opr' p)
  obtain n s2 where del: "DEL R (lock_key key) s = (n, s2)" by fastforce
  from held rel wf del_lock [OF del] del show ?thesis
    by (auto simp: releaseLock_def release_script_def abs_release_def split: if_splits)
qed

lemma force_refines:
  assumes "lock_wf R s" and "forceRelease R key s = (b, s1)"
  shows "lock_wf R s1 \<and> lock_table_of R s1 = abs_force key (lock_table_of R s)"
  using assms del_lock [of key s] by (auto simp: forceRelease_def abs_force_def split: prod.splits)

lemma extend_lock:
  assumes wf: "lock_wf R s" and pos: "0 < secs" and run: "extendLock R iso_of now key opr secs s = (b, s1)"
  shows "lock_wf R s1 \<and> lock_table_of R s1 = lock_table_of R s
    \<and> b = (case lock_table_of R s key of None \<Rightarrow> False | Some (_, opr', _) \<Rightarrow> opr' = opr)"
  using wf
proof (cases rule: lock_wf_cases [where key = key])
  case free
  then show ?thesis using run wf by (simp add: extendLock_def extend_script_def HGET_def)
next
  case (held t opr' p)
  show ?thesis
  proof (cases "opr' = opr")
    case False
    with held run wf show ?thesis by (auto simp: extendLock_def extend_script_def)
  next
    case True
    let ?new = "iso_of (now + secs * 1000)"
    let ?s' = "HSET R (lock_key key) [(''expiresAt'', ?new)] s"
    let ?ttl = "if TTL R (lock_key key) ?s' > 0 then TTL R (lock_key key) ?s' + secs else secs"
    have ttl: "0 < ?ttl" using pos by simp
    have s1: "s1 = EXPIRE R (lock_key key) ?ttl ?s'" and b: "b"
      using True held run by (auto simp: extendLock_def extend_script_def Let_def)
    have g: "HGET R (lock_key l) f s1
        = (if l = key \<and> f = ''expiresAt'' then Some ?new else HGET R (lock_key l) f s)" for l f
      unfolding s1 hget_expire [OF ttl] by (simp add: hget_hset)
    have h: "HGETALL R (lock_key l) s1 = [] \<longleftrightarrow> l \<noteq> key \<and> HGETALL R (lock_key l) s = []" for l
    proof (cases "l = key")
      case True
      then show ?thesis unfolding s1 hgetall_expire [OF ttl] using hset_present [of "[(''expiresAt'', ?new)]"] by simp
    next
      case False
      then have "map_of (HGETALL R (lock_key l) s1) = map_of (HGETALL R (lock_key l) s)"
        unfolding s1 hgetall_expire [OF ttl] by (simp add: hgetall_hset)
      with False show ?thesis by (metis map_of_eq_empty_iff)
    qed
    have "lock_wf R s1"
      using wf held(1) unfolding lock_wf_def g h by auto
    moreover have "lock_table_of R s1 = lock_table_of R s"
      by (rule ext) (simp add: lock_table_of_def g)
    ultimately show ?thesis using b True held(2) by simp
  qed
qed

text \<open>What the calls leave, given what they answer.\<close>

lemma acquire_state:
  assumes "acquireLock R iso_of now key task opr prio ttlSeconds s = (Some res, s1)"
    and "ttl = (case ttlSeconds of None \<Rightarrow> DEFAULT_TTL_SECONDS | Some t \<Rightarrow> t)"
  shows "s1 = (if acquired res
    then EXPIRE R (lock_key key) ttl (HSET R (lock_key key) (lock_fields task opr prio (iso_of now) (iso_of (now + ttl * 1000))) s) else s)"
  using assms by (auto simp: acquireLock_def acquire_script_def Let_def split: if_splits option.splits)

lemma release_state:
  "releaseLock R key opr s = (b, s1) \<Longrightarrow> s1 = (if b then snd (DEL R (lock_key key) s) else s)"
  by (auto simp: releaseLock_def release_script_def Let_def split: if_splits option.splits)

lemma extend_state:
  assumes "extendLock R iso_of now key opr secs s = (b, s1)"
    and "s2 = HSET R (lock_key key) [(''expiresAt'', iso_of (now + secs * 1000))] s"
  shows "s1 = (if b then EXPIRE R (lock_key key) (if TTL R (lock_key key) s2 > 0 then TTL R (lock_key key) s2 + secs else secs) s2 else s)"
  using assms by (auto simp: extendLock_def extend_script_def Let_def split: if_splits option.splits)

end

section \<open>Calls\<close>

datatype lock_op =
    OAcquire string string string int "int option"
  | ORelease string string
  | OExtend string string int
  | OForce string

fun lock_op_ok :: "lock_op \<Rightarrow> bool" where
  "lock_op_ok (OAcquire key task opr prio ttl) = (case ttl of None \<Rightarrow> True | Some t \<Rightarrow> 0 < t)"
| "lock_op_ok (OExtend key opr secs) = (0 < secs)"
| "lock_op_ok _ = True"

text \<open>The answer of each call: whether the lock was taken, released, extended.  A forced release
  answers whether there was anything to delete; the abstract lock does not tell, so it is not compared.\<close>

fun lock_step :: "'s redis \<Rightarrow> (int \<Rightarrow> string) \<Rightarrow> int \<Rightarrow> lock_op \<Rightarrow> 's \<Rightarrow> bool option \<times> 's" where
  "lock_step R iso_of now (OAcquire key task opr prio ttl) s =
     map_prod (map_option acquired) id (acquireLock R iso_of now key task opr prio ttl s)"
| "lock_step R iso_of now (ORelease key opr) s = map_prod Some id (releaseLock R key opr s)"
| "lock_step R iso_of now (OExtend key opr secs) s = map_prod Some id (extendLock R iso_of now key opr secs s)"
| "lock_step R iso_of now (OForce key) s = (None, snd (forceRelease R key s))"

fun abs_step :: "lock_op \<Rightarrow> lock_table \<Rightarrow> bool option \<times> lock_table" where
  "abs_step (OAcquire key task opr prio ttl) t = map_prod Some id (abs_acquire key task opr prio t)"
| "abs_step (ORelease key opr) t = map_prod Some id (abs_release key opr t)"
| "abs_step (OExtend key opr secs) t =
     (Some (case t key of None \<Rightarrow> False | Some (_, opr', _) \<Rightarrow> opr' = opr), t)"
| "abs_step (OForce key) t = (None, abs_force key t)"

context redis_hashes begin

lemma step_refines:
  assumes "lock_wf R s" "lock_op_ok x" "lock_step R iso_of now x s = (r, s1)"
  shows "lock_wf R s1 \<and> abs_step x (lock_table_of R s) = (r, lock_table_of R s1)"
proof (cases x)
  case (OAcquire key task opr prio ttl)
  with assms(2) have "0 < (case ttl of None \<Rightarrow> DEFAULT_TTL_SECONDS | Some t \<Rightarrow> t)"
    by (auto simp: DEFAULT_TTL_SECONDS_def split: option.splits)
  from acquire_refines [OF assms(1) this, of iso_of now key task opr prio] OAcquire assms(3)
  show ?thesis by (auto dest: sym)
next
  case (ORelease key opr)
  with release_refines [OF assms(1), of key opr] assms(3) show ?thesis
    by (cases "releaseLock R key opr s") (auto dest: sym)
next
  case (OExtend key opr secs)
  with extend_lock [OF assms(1), of secs iso_of now key opr] assms(2,3) show ?thesis
    by (cases "extendLock R iso_of now key opr secs s") auto
next
  case (OForce key)
  with force_refines [OF assms(1), of key] assms(3) show ?thesis
    by (cases "forceRelease R key s") auto
qed

end

section \<open>The server with its clock\<close>

text \<open>
  Every lock is written with an expiry.  The server of the calls at a time \<open>now\<close> (milliseconds, of one clock) is the server \<open>R\<close> together
  with the times at which keys expire: a key whose time is over is absent, writing to it starts anew, and \<open>TTL\<close> tells the rest in
  seconds, rounded, as the server documents.  Commands that the lock scripts do not use are passed on.
\<close>

type_synonym 's clocked = "'s \<times> (string \<Rightarrow> int option)"

definition due :: "int \<Rightarrow> int option \<Rightarrow> bool" where
  "due now d \<longleftrightarrow> (\<exists>d \<in> set_option d. d \<le> now)"

definition with_clock :: "'s redis \<Rightarrow> int \<Rightarrow> 's clocked redis" where
  "with_clock R now = \<lparr>
     HGETALL = (\<lambda>k (s, dl). if due now (dl k) then [] else HGETALL R k s),
     HSET = (\<lambda>k fs (s, dl). if due now (dl k) then (HSET R k fs (snd (DEL R k s)), dl(k := None)) else (HSET R k fs s, dl)),
     DEL = (\<lambda>k (s, dl). (if due now (dl k) then 0 else fst (DEL R k s), (snd (DEL R k s), dl(k := None)))),
     EXPIRE = (\<lambda>k secs (s, dl). if due now (dl k) \<or> HGETALL R k s = [] then (s, dl)
        else (EXPIRE R k secs s, dl(k := Some (now + secs * 1000)))),
     TTL = (\<lambda>k (s, dl). if due now (dl k) \<or> HGETALL R k s = [] then -2
        else case dl k of None \<Rightarrow> -1 | Some d \<Rightarrow> (d - now + 500) div 1000),
     KEYS = (\<lambda>p (s, dl). filter (\<lambda>k. \<not> due now (dl k)) (KEYS R p s)),
     ZADD = (\<lambda>k sc m (s, dl). (ZADD R k sc m s, dl)), ZRANGE = (\<lambda>k (s, dl). ZRANGE R k s),
     ZPOPMIN = (\<lambda>k (s, dl). let (r, s1) = ZPOPMIN R k s in (r, (s1, dl))),
     ZREM = (\<lambda>k m (s, dl). let (n, s1) = ZREM R k m s in (n, (s1, dl))), LRANGE = (\<lambda>k (s, dl). LRANGE R k s),
     LPUSH = (\<lambda>k x (s, dl). (LPUSH R k x s, dl)), RPUSH = (\<lambda>k xs (s, dl). (RPUSH R k xs s, dl)),
     LTRIM = (\<lambda>k n (s, dl). (LTRIM R k n s, dl)), SETNX = (\<lambda>k n (s, dl). let (b, s1) = SETNX R k n s in (b, (s1, dl))),
     EXISTS = (\<lambda>k (s, dl). EXISTS R k s), GET = (\<lambda>k (s, dl). GET R k s), SETTEXT = (\<lambda>k t (s, dl). (SETTEXT R k t s, dl)),
     INCRBY = (\<lambda>k n (s, dl). let (m, s1) = INCRBY R k n s in (m, (s1, dl))),
     ZREMRANGE = (\<lambda>k lo hi (s, dl). (ZREMRANGE R k lo hi s, dl))\<rparr>"

lemma with_clock_hashes:
  assumes "redis_hashes R"
  shows "redis_hashes (with_clock R now)"
proof -
  note laws = redis_hashes.hgetall_hset [OF assms] redis_hashes.hgetall_expire [OF assms]
    redis_hashes.hgetall_del [OF assms prod.collapse [symmetric]]
  show ?thesis
    by unfold_locales
      (auto simp: with_clock_def due_def laws redis_hashes.del_count [OF assms prod.collapse [symmetric]] split: if_splits)
qed

fun lock_run :: "'s redis \<Rightarrow> (int \<Rightarrow> string) \<Rightarrow> (int \<times> lock_op) list \<Rightarrow> 's clocked \<Rightarrow> bool option list \<times> 's clocked" where
  "lock_run R iso_of [] st = ([], st)"
| "lock_run R iso_of ((now, x) # xs) st =
     (let (r, st1) = lock_step (with_clock R now) iso_of now x st; (rs, st2) = lock_run R iso_of xs st1 in (r # rs, st2))"

text \<open>
  The abstract lock with its deadlines: a lock is its task, operator, priority and the time at which it is free again.  An extension
  adds to the time left, in whole seconds.
\<close>

type_synonym timed_locks = "string \<Rightarrow> (string \<times> string \<times> int \<times> int option) option"

definition alive :: "int \<Rightarrow> timed_locks \<Rightarrow> timed_locks" where
  "alive now t key = (case t key of Some (task, opr, prio, d) \<Rightarrow> if due now d then None else Some (task, opr, prio, d) | None \<Rightarrow> None)"

definition seconds_left :: "int \<Rightarrow> int option \<Rightarrow> int" where
  "seconds_left now d = (case d of None \<Rightarrow> 0 | Some d \<Rightarrow> (d - now + 500) div 1000)"

fun timed_step :: "int \<Rightarrow> lock_op \<Rightarrow> timed_locks \<Rightarrow> bool option \<times> timed_locks" where
  "timed_step now (OAcquire key task opr prio ttl) t =
     (if (case t key of None \<Rightarrow> True | Some (_, _, held, _) \<Rightarrow> held < prio)
      then (Some True, t(key := Some (task, opr, prio, Some (now + 1000 * (case ttl of None \<Rightarrow> 3600 | Some secs \<Rightarrow> secs)))))
      else (Some False, t))"
| "timed_step now (ORelease key opr) t =
     (if (case t key of None \<Rightarrow> False | Some (_, holder, _) \<Rightarrow> holder = opr) then (Some True, t(key := None)) else (Some False, t))"
| "timed_step now (OExtend key opr secs) t = (case t key of
     Some (task, holder, prio, d) \<Rightarrow>
       (if holder = opr then (Some True, t(key := Some (task, holder, prio, Some (now + 1000 * (seconds_left now d + secs)))))
        else (Some False, t))
   | None \<Rightarrow> (Some False, t))"
| "timed_step now (OForce key) t = (None, t(key := None))"

fun timed_run :: "(int \<times> lock_op) list \<Rightarrow> timed_locks \<Rightarrow> bool option list \<times> timed_locks" where
  "timed_run [] t = ([], t)"
| "timed_run ((now, x) # xs) t = (let (r, t1) = timed_step now x (alive now t); (rs, t2) = timed_run xs t1 in (r # rs, t2))"

text \<open>The table a server holds at a time, with the deadlines.\<close>

definition clock_table :: "'s redis \<Rightarrow> int \<Rightarrow> 's clocked \<Rightarrow> timed_locks" where
  "clock_table R now st key =
     map_option (\<lambda>(task, opr, prio). (task, opr, prio, snd st (lock_key key))) (lock_table_of (with_clock R now) st key)"

lemma hget_with_clock:
  "HGET (with_clock R now) k f (s, dl) = (if due now (dl k) then None else HGET R k f s)"
  by (simp add: HGET_def with_clock_def)

lemma due_later: "due now d \<Longrightarrow> now \<le> later \<Longrightarrow> due later d"
  by (auto simp: due_def)

lemma alive_clock_table: "now \<le> later \<Longrightarrow> alive later (clock_table R now st) = clock_table R later st"
  by (cases st) (auto simp: fun_eq_iff alive_def clock_table_def lock_table_of_def hget_with_clock due_later
    split: option.splits)

lemma lock_wf_later:
  assumes "lock_wf (with_clock R now) st" and le: "now \<le> later"
  shows "lock_wf (with_clock R later) st"
proof -
  obtain s dl where st: "st = (s, dl)" by fastforce
  show ?thesis unfolding lock_wf_def
  proof
    fix key
    let ?k = "lock_key key"
    show "HGETALL (with_clock R later) ?k st = [] \<or> (\<exists>t opr p a e. HGET (with_clock R later) ?k ''taskId'' st = Some t
        \<and> HGET (with_clock R later) ?k ''operatorId'' st = Some opr \<and> HGET (with_clock R later) ?k ''priority'' st = Some (dec_int p)
        \<and> HGET (with_clock R later) ?k ''acquiredAt'' st = Some a \<and> HGET (with_clock R later) ?k ''expiresAt'' st = Some e)"
    proof (cases "due later (dl ?k)")
      case True
      then show ?thesis by (simp add: st with_clock_def)
    next
      case False
      with le have "\<not> due now (dl ?k)" by (auto dest: due_later)
      with assms(1) [unfolded lock_wf_def, rule_format, of key] False show ?thesis unfolding st hget_with_clock
        by (auto simp: with_clock_def)
    qed
  qed
qed

text \<open>What each command does to the deadlines.\<close>

lemma deadline_put:
  assumes "redis_hashes R" "distinct (map fst fs)" "fs \<noteq> []"
  shows "snd (EXPIRE (with_clock R now) k n (HSET (with_clock R now) k fs st)) = (snd st)(k := Some (now + n * 1000))"
  using redis_hashes.hset_present [OF assms] by (cases st) (auto simp: with_clock_def due_def)

lemma deadline_del: "snd (snd (DEL (with_clock R now) k st)) = (snd st)(k := None)"
  by (cases st) (simp add: with_clock_def)

lemma ttl_after_put:
  assumes "redis_hashes R" "distinct (map fst fs)" "fs \<noteq> []" "\<not> due now (snd st k)"
  shows "(if TTL (with_clock R now) k (HSET (with_clock R now) k fs st) > 0
      then TTL (with_clock R now) k (HSET (with_clock R now) k fs st) + n else n) = seconds_left now (snd st k) + n"
  using redis_hashes.hset_present [OF assms(1-3)] assms(4)
  by (cases st) (auto simp: with_clock_def seconds_left_def due_def split: option.splits)

lemma clock_table_held:
  assumes "clock_table R now st key = Some (task, opr, prio, d)"
  shows "\<not> due now (snd st (lock_key key))" and "d = snd st (lock_key key)"
  using assms by (cases st; auto simp: clock_table_def lock_table_of_def hget_with_clock split: if_splits option.splits)+

lemma clock_table_eq:
  "lock_table_of (with_clock R now) st key = map_option (\<lambda>(a, b, c, d). (a, b, c)) (clock_table R now st key)"
  by (auto simp: clock_table_def option.map_comp comp_def case_prod_beta option.map_ident)

lemma step_follows_timed:
  assumes R: "redis_hashes R" and wf: "lock_wf (with_clock R now) st" and ok: "lock_op_ok x"
    and step: "lock_step (with_clock R now) iso_of now x st = (r, st1)"
  shows "lock_wf (with_clock R now) st1 \<and> timed_step now x (clock_table R now st) = (r, clock_table R now st1)"
proof -
  note C = with_clock_hashes [OF R, of now]
  let ?C = "with_clock R now"
  from redis_hashes.step_refines [OF C wf ok step]
  have wf1: "lock_wf ?C st1" and eff: "abs_step x (lock_table_of ?C st) = (r, lock_table_of ?C st1)" by auto
  have "timed_step now x (clock_table R now st) = (r, clock_table R now st1)"
  proof (cases x)
    case (OAcquire key task opr prio ttlSeconds)
    let ?ttl = "case ttlSeconds of None \<Rightarrow> DEFAULT_TTL_SECONDS | Some t \<Rightarrow> t"
    have "r = Some (fst (abs_acquire key task opr prio (lock_table_of ?C st)))"
      using eff OAcquire by (cases "abs_acquire key task opr prio (lock_table_of ?C st)") simp
    then obtain res where acq: "acquireLock ?C iso_of now key task opr prio ttlSeconds st = (Some res, st1)" and r: "r = Some (acquired res)"
      using step OAcquire by (cases "acquireLock ?C iso_of now key task opr prio ttlSeconds st") auto
    from redis_hashes.acquire_state [OF C acq refl]
    have "snd st1 = (if acquired res then (snd st)(lock_key key := Some (now + ?ttl * 1000)) else snd st)"
      by (simp add: deadline_put [OF R])
    then have d: "snd st1 = (if acquired res then (snd st)(lock_key key := Some (now + 1000 * (case ttlSeconds of None \<Rightarrow> 3600 | Some secs \<Rightarrow> secs)))
        else snd st)" by (cases ttlSeconds) (simp_all add: DEFAULT_TTL_SECONDS_def mult.commute)
    show ?thesis
    proof (cases "case clock_table R now st key of None \<Rightarrow> True | Some (_, _, held, _) \<Rightarrow> held < prio")
      case True
      then have "abs_acquire key task opr prio (lock_table_of ?C st) = (True, (lock_table_of ?C st)(key := Some (task, opr, prio)))"
        by (auto simp: abs_acquire_def clock_table_eq split: option.splits)
      with eff OAcquire r have acqd: "acquired res" and "lock_table_of ?C st1 = (lock_table_of ?C st)(key := Some (task, opr, prio))" by auto
      with d have "clock_table R now st1
          = (clock_table R now st)(key := Some (task, opr, prio, Some (now + 1000 * (case ttlSeconds of None \<Rightarrow> 3600 | Some secs \<Rightarrow> secs))))"
        by (simp add: fun_eq_iff clock_table_def)
      with True r acqd OAcquire show ?thesis by simp
    next
      case False
      then have "abs_acquire key task opr prio (lock_table_of ?C st) = (False, lock_table_of ?C st)"
        by (auto simp: abs_acquire_def clock_table_eq split: option.splits)
      with eff OAcquire r have "\<not> acquired res" and "lock_table_of ?C st1 = lock_table_of ?C st" by auto
      with d have "clock_table R now st1 = clock_table R now st" by (simp add: fun_eq_iff clock_table_def)
      with False r \<open>\<not> acquired res\<close> OAcquire show ?thesis by simp
    qed
  next
    case (ORelease key opr)
    obtain b where rel: "releaseLock ?C key opr st = (b, st1)" and r: "r = Some b"
      using step ORelease by (cases "releaseLock ?C key opr st") auto
    from redis_hashes.release_state [OF C rel]
    have "snd st1 = (if b then (snd st)(lock_key key := None) else snd st)" by (simp add: deadline_del)
    moreover from eff ORelease r have "abs_release key opr (lock_table_of ?C st) = (b, lock_table_of ?C st1)"
      by (cases "abs_release key opr (lock_table_of ?C st)") auto
    then have "lock_table_of ?C st1 = (if b then (lock_table_of ?C st)(key := None) else lock_table_of ?C st)"
      and "b = (case clock_table R now st key of None \<Rightarrow> False | Some (_, holder, _) \<Rightarrow> holder = opr)"
      by (auto simp: abs_release_def clock_table_eq split: option.splits if_splits)
    ultimately have "clock_table R now st1 = (if b then (clock_table R now st)(key := None) else clock_table R now st)"
      by (simp add: fun_eq_iff clock_table_def)
    with \<open>b = _\<close> ORelease r show ?thesis by simp
  next
    case (OExtend key opr secs)
    obtain b where ext: "extendLock ?C iso_of now key opr secs st = (b, st1)" and r: "r = Some b"
      using step OExtend by (cases "extendLock ?C iso_of now key opr secs st") auto
    show ?thesis
    proof (cases b)
      case False
      with redis_hashes.extend_state [OF C ext refl] eff OExtend r show ?thesis
        by (auto simp: clock_table_def split: option.splits)
    next
      case True
      let ?st2 = "HSET ?C (lock_key key) [(''expiresAt'', iso_of (now + secs * 1000))] st"
      from True eff OExtend r obtain task prio d where held: "clock_table R now st key = Some (task, opr, prio, d)"
        by (auto simp: clock_table_eq split: option.splits)
      from redis_hashes.extend_state [OF C ext refl] True
      have "st1 = EXPIRE ?C (lock_key key) (seconds_left now (snd st (lock_key key)) + secs) ?st2"
        using clock_table_held(1) [OF held] ttl_after_put [OF R, where n = secs] by simp
      then have "snd st1 = (snd st)(lock_key key := Some (now + 1000 * (seconds_left now d + secs)))"
        using clock_table_held(2) [OF held] by (simp add: deadline_put [OF R] mult.commute)
      then show ?thesis using eff OExtend r True held
        by (auto simp: fun_eq_iff clock_table_def)
    qed
  next
    case (OForce key)
    have "snd st1 = (snd st)(lock_key key := None)" using step OForce deadline_del [of R now "lock_key key" st]
      by (auto simp: forceRelease_def split: prod.splits)
    moreover have "lock_table_of ?C st1 = (lock_table_of ?C st)(key := None)" and "r = None" using eff OForce by (auto simp: abs_force_def)
    ultimately have "clock_table R now st1 = (clock_table R now st)(key := None)" by (simp add: fun_eq_iff clock_table_def)
    with OForce \<open>r = None\<close> show ?thesis by simp
  qed
  with wf1 show ?thesis by simp
qed

lemma run_follows_timed:
  assumes R: "redis_hashes R" and "lock_wf (with_clock R now) st" and "sorted (now # map fst xs)"
    and "list_all (\<lambda>x. lock_op_ok (snd x)) xs" and "lock_run R iso_of xs st = (rs, st1)"
  shows "lock_wf (with_clock R (last (now # map fst xs))) st1
    \<and> timed_run xs (clock_table R now st) = (rs, clock_table R (last (now # map fst xs)) st1)"
  using assms(2-)
proof (induction xs arbitrary: now st rs)
  case (Cons tx xs)
  obtain t x where tx: "tx = (t, x)" by fastforce
  obtain r st2 where step: "lock_step (with_clock R t) iso_of t x st = (r, st2)" by (meson surj_pair)
  obtain rs' where run: "lock_run R iso_of xs st2 = (rs', st1)" and rs: "rs = r # rs'"
    using Cons.prems(4) tx step by (auto simp: Let_def split: prod.splits)
  from Cons.prems(2,3) tx have le: "now \<le> t" and rest: "sorted (t # map fst xs)" "lock_op_ok x" "list_all (\<lambda>x. lock_op_ok (snd x)) xs"
    by auto
  from step_follows_timed [OF R lock_wf_later [OF Cons.prems(1) le] rest(2) step] alive_clock_table [OF le, of R st]
  have "lock_wf (with_clock R t) st2" and 1: "timed_step t x (alive t (clock_table R now st)) = (r, clock_table R t st2)" by simp_all
  from Cons.IH [OF this(1) rest(1) rest(3) run] 1 tx rs show ?case by simp
qed simp

text \<open>
  An extension adds to the time left but writes the text \<open>expiresAt\<close> as if it started now: \<open>getLock\<close> then reports an expiry that is
  earlier than the one the server applies (the deadline of the abstract lock).
\<close>

lemma extension_writes_from_now:
  assumes R: "redis_hashes R" and wf: "lock_wf (with_clock R now) st" and pos: "0 < secs"
    and ext: "extendLock (with_clock R now) iso_of now key opr secs st = (True, st1)"
    and held: "clock_table R now st key = Some (task, holder, prio, Some d)"
  shows "HGET (with_clock R now) (lock_key key) ''expiresAt'' st1 = Some (iso_of (now + secs * 1000))
    \<and> clock_table R now st1 key = Some (task, holder, prio, Some (now + 1000 * ((d - now + 500) div 1000 + secs)))"
proof -
  note C = with_clock_hashes [OF R, of now]
  have left: "0 \<le> (d - now + 500) div 1000"
    using clock_table_held(1) [OF held] clock_table_held(2) [OF held, symmetric] by (simp add: due_def)
  have "timed_step now (OExtend key opr secs) (clock_table R now st) = (Some True, clock_table R now st1)"
    using step_follows_timed [OF R wf, of "OExtend key opr secs" iso_of "Some True" st1] ext pos by simp
  then have table: "clock_table R now st1 key = Some (task, holder, prio, Some (now + 1000 * ((d - now + 500) div 1000 + secs)))"
    using held by (auto simp: seconds_left_def fun_eq_iff split: if_splits)
  from redis_hashes.extend_state [OF C ext refl]
  have "st1 = EXPIRE (with_clock R now) (lock_key key) ((d - now + 500) div 1000 + secs)
      (HSET (with_clock R now) (lock_key key) [(''expiresAt'', iso_of (now + secs * 1000))] st)"
    using clock_table_held(1) [OF held] clock_table_held(2) [OF held, symmetric]
      ttl_after_put [OF R, where n = secs and now = now and st = st and k = "lock_key key"]
    by (simp add: seconds_left_def)
  with left pos have "HGET (with_clock R now) (lock_key key) ''expiresAt'' st1 = Some (iso_of (now + secs * 1000))"
    by (simp add: redis_hashes.hget_expire [OF C] redis_hashes.hget_hset [OF C])
  with table show ?thesis by simp
qed

text \<open>
  C24: any sequence of lock calls in the order of time, on a server that keeps its documented contract and drops a key when its expiry is
  over, behaves as the abstract priority lock with deadlines: each call answers what the abstract lock answers.  An acquisition
  succeeds exactly when the resource is free, held past its deadline or held with a strictly lower priority, and is then held for its
  time to live (one hour when none is given); a release and an extension succeed exactly for the operator that holds the lock at that
  time, the extension adding to the whole seconds left.  The stored locks, with their deadlines, always are the abstract table.  The
  conditions: times to live and extensions are positive, and the server and its clients read one clock.
\<close>
theorem locks_refine_priority_lock:
  assumes "redis_hashes R" and "lock_wf (with_clock R now) st" and "sorted (now # map fst xs)"
    and "list_all (\<lambda>x. lock_op_ok (snd x)) xs" and "lock_run R iso_of xs st = (rs, st1)"
  shows "lock_wf (with_clock R (last (now # map fst xs))) st1
    \<and> timed_run xs (clock_table R now st) = (rs, clock_table R (last (now # map fst xs)) st1)"
  by (rule run_follows_timed [OF assms])

theorem locks_refine_priority_lock_witness:
  "fst (lock_run ref_redis (\<lambda>n. dec_int n)
     [(0, OAcquire ''repo'' ''t1'' ''alice'' 50 (Some 1)), (500, OAcquire ''repo'' ''t2'' ''bob'' 50 None),
      (10000, OAcquire ''repo'' ''t2'' ''bob'' 50 (Some 60)), (10001, OAcquire ''repo'' ''t3'' ''root'' 100 (Some 60)),
      (10002, ORelease ''repo'' ''bob''), (20000, OExtend ''repo'' ''root'' 5), (74000, ORelease ''repo'' ''alice''),
      (75000, OAcquire ''repo'' ''t1'' ''alice'' 10 None), (80000, ORelease ''repo'' ''root'')] (db_empty, \<lambda>_. None))
   = [Some True, Some False, Some True, Some True, Some False, Some True, Some False, Some True, Some False]"
   (is "fst (lock_run _ ?iso ?xs ?st) = ?rs")
proof -
  have wf: "lock_wf (with_clock ref_redis 0) ?st"
    by (simp add: lock_wf_def with_clock_def ref_redis_def db_empty_def db_hash_def)
  have t: "clock_table ref_redis 0 ?st = (\<lambda>_. None)"
    by (rule ext, simp add: clock_table_def lock_table_of_def hget_with_clock)
      (simp add: HGET_def ref_redis_def db_empty_def db_hash_def fun_eq_iff)
  obtain rs st1 where run: "lock_run ref_redis ?iso ?xs ?st = (rs, st1)" by (meson surj_pair)
  have "fst (timed_run ?xs (clock_table ref_redis 0 ?st)) = rs"
    using locks_refine_priority_lock [OF ref_server.redis_hashes_axioms wf _ _ run] by simp
  moreover have "fst (timed_run ?xs (\<lambda>_. None)) = ?rs"
    by (simp add: alive_def due_def seconds_left_def)
  ultimately show ?thesis using run t by simp
qed

end
