(* ===== verification/AgentQueue.thy ===== *)
theory AgentQueue
  imports Prelude
begin

text \<open>
  The per-agent serial priority queue (\<open>AgentTaskQueue\<close> in \<open>packages/core/src/operators/task-queue.ts\<close>).
  A task's \<open>execute\<close> is asynchronous: the model splits a call at the await, so the events of a queue
  are the calls of \<open>enqueue\<close> and the settlements of the running task (fulfilled or rejected alike), which
  run the \<open>finally\<close> block.  \<open>processNext\<close> has no recursion before the await, and after a settlement it is
  entered once.  The log of started tasks is a history the properties speak of.
\<close>

record queued_task =
  qt_taskId :: string
  qt_priority :: int

record agent_queues =
  queues :: "(string, queued_task list) jsmap"
  running :: "(string, string) jsmap"

definition aq_init :: agent_queues where
  "aq_init = \<lparr>queues = [], running = []\<rparr>"

definition queue_of :: "agent_queues \<Rightarrow> string \<Rightarrow> queued_task list" where
  "queue_of s a = (case mget (queues s) a of None \<Rightarrow> [] | Some q \<Rightarrow> q)"

definition by_priority :: "queued_task list \<Rightarrow> queued_task list" where
  "by_priority q = sort_key (\<lambda>t. - qt_priority t) q"

text \<open>\<open>processNext\<close> up to the await: the task it starts, if any.\<close>

definition processNext :: "string \<Rightarrow> agent_queues \<Rightarrow> queued_task option \<times> agent_queues" where
  "processNext a s = (case queue_of s a of
     [] \<Rightarrow> (None, s\<lparr>running := mdelete a (running s)\<rparr>)
   | t # rest \<Rightarrow> (Some t, s\<lparr>queues := mset_at a rest (queues s), running := mset_at a (qt_taskId t) (running s)\<rparr>))"

definition aq_enqueue :: "string \<Rightarrow> string \<Rightarrow> int \<Rightarrow> agent_queues \<Rightarrow> queued_task option \<times> agent_queues" where
  "aq_enqueue a taskId priority s =
     (let q = by_priority (queue_of s a @ [\<lparr>qt_taskId = taskId, qt_priority = priority\<rparr>]);
          s1 = s\<lparr>queues := mset_at a q (queues s)\<rparr>
      in if \<not> mhas (running s1) a then processNext a s1 else (None, s1))"

text \<open>The \<open>finally\<close> block of \<open>processNext\<close>.\<close>

definition task_settled :: "string \<Rightarrow> agent_queues \<Rightarrow> queued_task option \<times> agent_queues" where
  "task_settled a s = processNext a (s\<lparr>running := mdelete a (running s)\<rparr>)"

definition getQueueStatus :: "string \<Rightarrow> agent_queues \<Rightarrow> string option \<times> (string \<times> int) list" where
  "getQueueStatus a s = (mget (running s) a, map (\<lambda>t. (qt_taskId t, qt_priority t)) (queue_of s a))"

section \<open>Events\<close>

datatype aq_event = Enqueue string string int | Settled string

text \<open>A settlement needs a running task.\<close>

fun aq_step :: "aq_event \<Rightarrow> agent_queues \<Rightarrow> (string \<times> queued_task option) \<times> agent_queues" where
  "aq_step (Enqueue a t p) s = (let (x, s1) = aq_enqueue a t p s in ((a, x), s1))"
| "aq_step (Settled a) s = (if mhas (running s) a then let (x, s1) = task_settled a s in ((a, x), s1) else ((a, None), s))"

fun aq_run :: "aq_event list \<Rightarrow> agent_queues \<Rightarrow> (string \<times> queued_task option) list \<times> agent_queues" where
  "aq_run [] s = ([], s)"
| "aq_run (e # es) s = (let (x, s1) = aq_step e s; (xs, s2) = aq_run es s1 in (x # xs, s2))"

definition started :: "string \<Rightarrow> (string \<times> queued_task option) list \<Rightarrow> queued_task list" where
  "started a xs = List.map_filter (\<lambda>(b, x). if b = a then x else None) xs"

definition submitted :: "string \<Rightarrow> aq_event list \<Rightarrow> queued_task list" where
  "submitted a es = List.map_filter (\<lambda>e. case e of
     Enqueue b t p \<Rightarrow> if b = a then Some \<lparr>qt_taskId = t, qt_priority = p\<rparr> else None | Settled _ \<Rightarrow> None) es"

section \<open>Invariant\<close>

text \<open>Every queue is ordered, and an agent with nothing running has nothing waiting.\<close>

definition descending :: "queued_task list \<Rightarrow> bool" where
  "descending q \<longleftrightarrow> sorted (map (\<lambda>t. - qt_priority t) q)"

definition agent_ok :: "agent_queues \<Rightarrow> string \<Rightarrow> bool" where
  "agent_ok s a \<longleftrightarrow> descending (queue_of s a) \<and> (mget (running s) a = None \<longrightarrow> queue_of s a = [])"

lemma queue_of_update [simp]:
  "queue_of (s\<lparr>queues := mset_at a q (queues s)\<rparr>) b = (if a = b then q else queue_of s b)"
  "queue_of (s\<lparr>queues := mset_at a q (queues s), running := r\<rparr>) b = (if a = b then q else queue_of s b)"
  "queue_of (s\<lparr>running := r\<rparr>) b = queue_of s b"
  by (simp_all add: queue_of_def)

lemma descending_by_priority [simp]: "descending (by_priority q)"
  by (simp add: by_priority_def descending_def)

text \<open>The tasks of one priority keep their order: the sort is stable.\<close>

definition of_priority :: "int \<Rightarrow> queued_task list \<Rightarrow> queued_task list" where
  "of_priority p q = filter (\<lambda>t. qt_priority t = p) q"

lemma of_priority_simps [simp]:
  "of_priority p [] = []" "of_priority p (q @ r) = of_priority p q @ of_priority p r"
  "of_priority p (t # q) = (if qt_priority t = p then t # of_priority p q else of_priority p q)"
  by (simp_all add: of_priority_def)

lemma of_priority_by_priority [simp]: "of_priority p (by_priority q) = of_priority p q"
  using sort_key_stable [of "\<lambda>t. - qt_priority t" "- p" q] by (simp add: of_priority_def by_priority_def)

text \<open>What \<open>processNext\<close> does to its agent, and that it leaves the other agents alone.\<close>

abbreviation start_list :: "queued_task option \<Rightarrow> queued_task list" where
  "start_list x \<equiv> (case x of None \<Rightarrow> [] | Some t \<Rightarrow> [t])"

lemma descending_tl: "descending (xs @ ys) \<Longrightarrow> descending ys"
  by (simp add: descending_def sorted_append)

lemma processNext_own:
  assumes "processNext a s = (x, s1)"
  shows "start_list x @ queue_of s1 a = queue_of s a"
    and "mget (running s1) a = map_option qt_taskId x"
    and "x = None \<Longrightarrow> queue_of s1 a = []"
  using assms by (auto simp: processNext_def split: list.splits)

lemma processNext_ok:
  assumes "processNext a s = (x, s1)" "descending (queue_of s a)"
  shows "agent_ok s1 a"
  using processNext_own [OF assms(1)] assms(2) descending_tl [of "start_list x" "queue_of s1 a"]
  by (auto simp: agent_ok_def)

lemma processNext_other:
  "processNext a s = (x, s1) \<Longrightarrow> b \<noteq> a \<Longrightarrow>
     queue_of s1 b = queue_of s b \<and> mget (running s1) b = mget (running s) b"
  by (auto simp: processNext_def split: list.splits)

lemma agent_ok_cong: "queue_of s1 b = queue_of s b \<Longrightarrow> mget (running s1) b = mget (running s) b \<Longrightarrow> agent_ok s1 b = agent_ok s b"
  by (simp add: agent_ok_def)

section \<open>Steps\<close>

fun event_agent :: "aq_event \<Rightarrow> string" where
  "event_agent (Enqueue a t p) = a"
| "event_agent (Settled a) = a"

text \<open>What one event does: the tasks waiting before and submitted by it are, per priority and in order,
  those it starts and those waiting after it.\<close>

definition step_spec :: "aq_event \<Rightarrow> agent_queues \<Rightarrow> queued_task option \<Rightarrow> agent_queues \<Rightarrow> bool" where
  "step_spec e s x s1 \<longleftrightarrow> (let a = event_agent e in
     agent_ok s1 a
     \<and> (\<forall>p. of_priority p (start_list x @ queue_of s1 a) = of_priority p (queue_of s a @ submitted a [e]))
     \<and> (\<forall>t. x = Some t \<longrightarrow> list_all (\<lambda>u. qt_priority u \<le> qt_priority t) (queue_of s1 a)
            \<and> mget (running s1) a = Some (qt_taskId t) \<and> (mget (running s) a = None \<or> e = Settled a))
     \<and> (\<forall>b. b \<noteq> a \<longrightarrow> queue_of s1 b = queue_of s b \<and> mget (running s1) b = mget (running s) b))"

lemma started_is_first:
  assumes "processNext a s = (Some t, s1)" "descending (queue_of s a)"
  shows "list_all (\<lambda>u. qt_priority u \<le> qt_priority t) (queue_of s1 a)"
proof -
  from processNext_own(1) [OF assms(1)] have "queue_of s a = t # queue_of s1 a" by simp
  with assms(2) show ?thesis by (auto simp: descending_def list_all_iff)
qed

lemma enqueue_spec:
  assumes ok: "agent_ok s a" and run: "aq_enqueue a t p s = (x, s1)"
  shows "step_spec (Enqueue a t p) s x s1"
proof -
  let ?u = "\<lparr>qt_taskId = t, qt_priority = p\<rparr>"
  define q where "q = by_priority (queue_of s a @ [?u])"
  define s' where "s' = s\<lparr>queues := mset_at a q (queues s)\<rparr>"
  have q: "queue_of s' a = q" "\<And>b. b \<noteq> a \<Longrightarrow> queue_of s' b = queue_of s b" "running s' = running s"
    by (simp_all add: s'_def)
  have d: "descending (queue_of s' a)" by (simp add: q q_def)
  have sub: "submitted a [Enqueue a t p] = [?u]" by (simp add: submitted_def map_filter_simps)
  have pq: "of_priority k q = of_priority k (queue_of s a @ [?u])" for k by (simp add: q_def)
  have run': "(if \<not> mhas (running s') a then processNext a s' else (None, s')) = (x, s1)"
    using run unfolding aq_enqueue_def s'_def q_def Let_def by simp
  show ?thesis
  proof (cases "mhas (running s') a")
    case True
    with run' have "x = None" "s1 = s'" by auto
    with True d show ?thesis
      by (auto simp: step_spec_def q agent_ok_def mhas_def sub pq simp del: of_priority_simps)
  next
    case False
    with run' have pn: "processNext a s' = (x, s1)" by simp
    from processNext_own [OF pn] processNext_ok [OF pn d] processNext_other [OF pn] started_is_first [of a s' _ s1] pn d False
    show ?thesis by (auto simp: step_spec_def q sub pq mhas_def simp del: of_priority_simps)
  qed
qed

lemma settled_spec:
  assumes ok: "agent_ok s a" and run: "task_settled a s = (x, s1)"
  shows "step_spec (Settled a) s x s1"
proof -
  define s' where "s' = s\<lparr>running := mdelete a (running s)\<rparr>"
  have q: "queue_of s' b = queue_of s b" for b by (simp add: s'_def)
  have r: "b \<noteq> a \<Longrightarrow> mget (running s') b = mget (running s) b" for b by (simp add: s'_def)
  have pn: "processNext a s' = (x, s1)" using run by (simp add: task_settled_def s'_def)
  have d: "descending (queue_of s' a)" using ok by (simp add: q agent_ok_def)
  have sub: "submitted a [Settled a] = []" by (simp add: submitted_def map_filter_simps)
  from processNext_own [OF pn] processNext_ok [OF pn d] processNext_other [OF pn] started_is_first [of a s' _ s1] pn d r
  show ?thesis by (auto simp: step_spec_def q sub simp del: of_priority_simps)
qed

lemma aq_step_spec:
  assumes ok: "\<forall>a. agent_ok s a" and step: "aq_step e s = ((a, x), s1)"
  shows "a = event_agent e \<and> step_spec e s x s1"
proof (cases e)
  case (Enqueue b t p)
  with assms enqueue_spec [of s b t p] show ?thesis by (auto simp: split: prod.splits)
next
  case (Settled b)
  show ?thesis
  proof (cases "mhas (running s) b")
    case True
    with Settled assms settled_spec [of s b] show ?thesis by (auto split: prod.splits)
  next
    case False
    with Settled assms show ?thesis by (auto simp: step_spec_def submitted_def map_filter_simps)
  qed
qed

lemma step_spec_ok: "\<forall>a. agent_ok s a \<Longrightarrow> step_spec e s x s1 \<Longrightarrow> agent_ok s1 a"
  by (cases "a = event_agent e") (auto simp: step_spec_def Let_def cong: agent_ok_cong)

lemma started_one: "started a [(b, x)] = (if b = a then start_list x else [])"
  by (simp add: started_def map_filter_simps split: option.splits)

lemma submitted_other: "a \<noteq> event_agent e \<Longrightarrow> submitted a [e] = []"
  by (cases e) (simp_all add: submitted_def map_filter_simps)

lemma step_spec_account:
  assumes "step_spec e s x s1"
  shows "of_priority p (started a [(event_agent e, x)]) @ of_priority p (queue_of s1 a)
     = of_priority p (queue_of s a) @ of_priority p (submitted a [e])"
proof (cases "a = event_agent e")
  case True
  with assms have "of_priority p (start_list x @ queue_of s1 a) = of_priority p (queue_of s a @ submitted a [e])"
    unfolding step_spec_def Let_def by blast
  with True show ?thesis by (simp only: of_priority_simps(2) started_one if_True simp_thms)
next
  case False
  with assms have "queue_of s1 a = queue_of s a" unfolding step_spec_def Let_def by blast
  with False show ?thesis by (simp add: started_one submitted_other)
qed

section \<open>Runs\<close>

lemma started_Cons: "started a (x # xs) = started a [x] @ started a xs"
  by (simp add: started_def map_filter_simps split: option.splits)

lemma submitted_Cons: "submitted a (e # es) = submitted a [e] @ submitted a es"
  by (simp add: submitted_def map_filter_simps split: option.splits aq_event.splits)

lemma aq_run_account:
  assumes "\<forall>a. agent_ok s a" and "aq_run es s = (xs, s1)"
  shows "of_priority p (started a xs) @ of_priority p (queue_of s1 a)
      = of_priority p (queue_of s a) @ of_priority p (submitted a es) \<and> (\<forall>a. agent_ok s1 a)"
  using assms
proof (induction es arbitrary: s xs)
  case Nil
  then show ?case by (simp add: started_def submitted_def map_filter_simps)
next
  case (Cons e es)
  obtain b x s2 where st: "aq_step e s = ((b, x), s2)" by (metis prod.exhaust)
  obtain xs' where run: "aq_run es s2 = (xs', s1)" and xs: "xs = (b, x) # xs'"
    using Cons.prems(2) st by (auto simp: Let_def split: prod.splits)
  from aq_step_spec [OF Cons.prems(1) st] have b: "b = event_agent e" and spec: "step_spec e s x s2" by auto
  from step_spec_ok [OF Cons.prems(1) spec] have "\<forall>a. agent_ok s2 a" by blast
  from Cons.IH [OF this run] have IH: "of_priority p (started a xs') @ of_priority p (queue_of s1 a)
      = of_priority p (queue_of s2 a) @ of_priority p (submitted a es)" and ok: "\<forall>a. agent_ok s1 a" by auto
  have "of_priority p (started a xs) @ of_priority p (queue_of s1 a)
      = of_priority p (started a [(b, x)]) @ of_priority p (started a xs') @ of_priority p (queue_of s1 a)"
    by (simp only: xs started_Cons [of a "(b, x)" xs'] of_priority_simps(2) append_assoc)
  also have "\<dots> = (of_priority p (started a [(b, x)]) @ of_priority p (queue_of s2 a)) @ of_priority p (submitted a es)"
    by (simp only: IH append_assoc)
  also have "\<dots> = of_priority p (queue_of s a) @ of_priority p (submitted a (e # es))"
    by (simp only: b step_spec_account [OF spec] submitted_Cons [of a e es] of_priority_simps(2) append_assoc)
  finally show ?case using ok by blast
qed

lemma aq_init_ok: "agent_ok aq_init a"
  by (simp add: agent_ok_def aq_init_def queue_of_def descending_def)

text \<open>
  C29: an agent's tasks are never lost, duplicated or reordered within a priority: in any run, for every priority,
  the tasks started so far followed by those waiting are exactly the submitted ones in submission order, and an
  agent with nothing running has nothing waiting.
\<close>
theorem agent_queue_exactly_once:
  assumes "aq_run es aq_init = (xs, s1)"
  shows "of_priority p (started a xs) @ of_priority p (queue_of s1 a) = of_priority p (submitted a es)
    \<and> (mget (running s1) a \<noteq> None \<or> queue_of s1 a = [])"
proof -
  have "queue_of aq_init a = []" by (simp add: aq_init_def queue_of_def)
  with aq_run_account [OF _ assms, of p a] aq_init_ok show ?thesis by (auto simp: agent_ok_def)
qed

theorem agent_queue_exactly_once_witness:
  "of_priority 50 (started ''ada'' (fst (aq_run [Enqueue ''ada'' ''x'' 50, Enqueue ''ada'' ''y'' 50, Settled ''ada''] aq_init)))
    = [\<lparr>qt_taskId = ''x'', qt_priority = 50\<rparr>, \<lparr>qt_taskId = ''y'', qt_priority = 50\<rparr>]"
proof -
  let ?es = "[Enqueue ''ada'' ''x'' 50, Enqueue ''ada'' ''y'' 50, Settled ''ada'']"
  obtain xs s1 where run: "aq_run ?es aq_init = (xs, s1)" by fastforce
  moreover from this have "queue_of s1 ''ada'' = []"
    by (simp add: aq_enqueue_def task_settled_def processNext_def queue_of_def aq_init_def mhas_def by_priority_def)
      (auto simp: mget_def mset_at_def mdelete_def)
  ultimately show ?thesis using agent_queue_exactly_once [OF run, of 50 "''ada''"]
    by (simp add: submitted_def map_filter_simps)
qed

text \<open>
  An agent runs one task at a time, and always the most urgent one: from any state a run reaches, a task is started only when nothing is
  running or the running task has settled, and then no waiting task has a higher priority.
\<close>
theorem agent_queue_serial_and_urgent:
  assumes "aq_run es aq_init = (xs, s)" and "aq_step e s = ((a, Some t), s1)"
  shows "(mget (running s) a = None \<or> e = Settled a) \<and> mget (running s1) a = Some (qt_taskId t)
    \<and> list_all (\<lambda>u. qt_priority u \<le> qt_priority t) (queue_of s1 a)"
proof -
  have "\<forall>a. agent_ok s a" using aq_run_account [OF _ assms(1)] aq_init_ok by blast
  from aq_step_spec [OF this assms(2)] show ?thesis by (auto simp: step_spec_def Let_def)
qed

theorem agent_queue_serial_and_urgent_witness:
  "let s = snd (aq_run [Enqueue ''ada'' ''a'' 1, Enqueue ''ada'' ''b'' 50, Enqueue ''ada'' ''c'' 100] aq_init);
       s1 = snd (aq_step (Settled ''ada'') s)
   in mget (running s1) ''ada'' = Some ''c'' \<and> list_all (\<lambda>u. qt_priority u \<le> 100) (queue_of s1 ''ada'')"
proof -
  obtain xs s where run: "aq_run [Enqueue ''ada'' ''a'' 1, Enqueue ''ada'' ''b'' 50, Enqueue ''ada'' ''c'' 100] aq_init = (xs, s)"
    by fastforce
  obtain s1 where st: "aq_step (Settled ''ada'') s = ((''ada'', Some \<lparr>qt_taskId = ''c'', qt_priority = 100\<rparr>), s1)"
    using run by (simp add: aq_enqueue_def task_settled_def processNext_def queue_of_def aq_init_def mhas_def by_priority_def)
      (auto simp: mget_def mset_at_def mdelete_def task_settled_def processNext_def queue_of_def)
  from agent_queue_serial_and_urgent [OF run st] show ?thesis
    unfolding run Let_def snd_conv st queued_task.simps by blast
qed

end
