(* ===== verification/JsonText.thy ===== *)
theory JsonText
  imports Json
begin

text \<open>
  \<open>JSON.stringify\<close> and \<open>JSON.parse\<close> of the runtime, on values whose numbers are integral: the
  printer keeps the order of properties and leaves out \<open>undefined\<close> ones; the parser is a
  recursive descent over the text with a depth bound no text exceeds, skips the white space JSON allows, and
  lets a later property of the same name win.  Escapes above code unit 255 and fractional or exponent
  numbers are not read.  The result of the theory is the round trip.
\<close>

section \<open>Printing\<close>

function json_stringify :: "json \<Rightarrow> string" where
  "json_stringify JUndef = ''null''"
| "json_stringify JNull = ''null''"
| "json_stringify (JBool b) = (if b then ''true'' else ''false'')"
| "json_stringify (JNum i) = dec_int i"
| "json_stringify (JStr s) = quote s"
| "json_stringify (JArr xs) = ''['' @ join '','' (map json_stringify xs) @ '']''"
| "json_stringify (JObj kvs) =
     ''{'' @ join '','' (map (\<lambda>(k, v). quote k @ '':'' @ json_stringify v) (filter (\<lambda>(k, v). v \<noteq> JUndef) kvs)) @ ''}''"
  by pat_completeness auto
termination
  by (relation "measure size") (auto dest: json_size_prop json_size_item)

section \<open>Parsing\<close>

definition json_space :: "char \<Rightarrow> bool" where
  "json_space c \<longleftrightarrow> (of_char c :: nat) \<in> {32, 9, 10, 13}"

definition skip_ws :: "string \<Rightarrow> string" where
  "skip_ws s = dropWhile json_space s"

definition hex_val :: "char \<Rightarrow> nat option" where
  "hex_val c = (let n = of_char c :: nat in
     if 48 \<le> n \<and> n \<le> 57 then Some (n - 48)
     else if 97 \<le> n \<and> n \<le> 102 then Some (n - 87)
     else if 65 \<le> n \<and> n \<le> 70 then Some (n - 55) else None)"

definition simple_escape :: "char \<Rightarrow> char option" where
  "simple_escape d = map_of [(CHR 0x22, CHR 0x22), (CHR 0x5C, CHR 0x5C), (CHR ''/'', CHR ''/''),
     (CHR ''b'', CHR 0x08), (CHR ''f'', CHR 0x0C), (CHR ''n'', CHR 0x0A), (CHR ''r'', CHR 0x0D), (CHR ''t'', CHR 0x09)] d"

fun parse_chars :: "string \<Rightarrow> (string \<times> string) option" where
  "parse_chars [] = None"
| "parse_chars (c # s) =
     (if c = CHR 0x22 then Some ([], s)
      else if c = CHR 0x5C then (case s of
          CHR ''u'' # h3 # h2 # h1 # h0 # t \<Rightarrow> (case (hex_val h3, hex_val h2, hex_val h1, hex_val h0) of
              (Some 0, Some 0, Some a, Some b) \<Rightarrow> map_option (\<lambda>(r, u). (char_of (a * 16 + b) # r, u)) (parse_chars t)
            | _ \<Rightarrow> None)
        | d # t \<Rightarrow> (case simple_escape d of
              Some e \<Rightarrow> map_option (\<lambda>(r, u). (e # r, u)) (parse_chars t)
            | None \<Rightarrow> None)
        | [] \<Rightarrow> None)
      else if (of_char c :: nat) < 32 then None
      else map_option (\<lambda>(r, u). (c # r, u)) (parse_chars s))"

definition parse_number :: "string \<Rightarrow> (json \<times> string) option" where
  "parse_number s =
     (let tok = takeWhile (\<lambda>c. is_digit c \<or> c = CHR ''-'') s in
      map_option (\<lambda>i. (JNum i, drop (length tok) s)) (parse_int tok))"

fun parse_value :: "nat \<Rightarrow> string \<Rightarrow> (json \<times> string) option"
  and parse_items :: "nat \<Rightarrow> string \<Rightarrow> (json list \<times> string) option"
  and parse_members :: "nat \<Rightarrow> string \<Rightarrow> ((string \<times> json) list \<times> string) option" where
  "parse_value 0 s = None"
| "parse_value (Suc n) s = (let s = skip_ws s in
     if starts_with s ''null'' then Some (JNull, drop 4 s)
     else if starts_with s ''true'' then Some (JBool True, drop 4 s)
     else if starts_with s ''false'' then Some (JBool False, drop 5 s)
     else if starts_with s [CHR 0x22] then map_option (\<lambda>(r, u). (JStr r, u)) (parse_chars (tl s))
     else if starts_with s ''['' then
       (if starts_with (skip_ws (tl s)) '']'' then Some (JArr [], tl (skip_ws (tl s)))
        else map_option (\<lambda>(xs, u). (JArr xs, u)) (parse_items n (tl s)))
     else if starts_with s ''{'' then
       (if starts_with (skip_ws (tl s)) ''}'' then Some (JObj [], tl (skip_ws (tl s)))
        else map_option (\<lambda>(kvs, u). (JObj (fold (\<lambda>(k, v) m. mset_at k v m) kvs []), u)) (parse_members n (tl s)))
     else parse_number s)"
| "parse_items 0 s = None"
| "parse_items (Suc n) s = (case parse_value n s of None \<Rightarrow> None
     | Some (x, t) \<Rightarrow> (let t = skip_ws t in
         if starts_with t '','' then map_option (\<lambda>(xs, u). (x # xs, u)) (parse_items n (tl t))
         else if starts_with t '']'' then Some ([x], tl t) else None))"
| "parse_members 0 s = None"
| "parse_members (Suc n) s = (let s = skip_ws s in
     if \<not> starts_with s [CHR 0x22] then None else
     case parse_chars (tl s) of None \<Rightarrow> None
     | Some (k, t) \<Rightarrow> (let t = skip_ws t in
         if \<not> starts_with t '':'' then None else
         case parse_value n (tl t) of None \<Rightarrow> None
         | Some (v, u) \<Rightarrow> (let u = skip_ws u in
             if starts_with u '','' then map_option (\<lambda>(kvs, w). ((k, v) # kvs, w)) (parse_members n (tl u))
             else if starts_with u ''}'' then Some ([(k, v)], tl u) else None)))"

definition json_parse :: "string \<Rightarrow> json option" where
  "json_parse s = (case parse_value (2 * length s) s of
     Some (v, t) \<Rightarrow> if skip_ws t = [] then Some v else None
   | None \<Rightarrow> None)"

section \<open>Round trip\<close>

text \<open>Values a text can carry: no \<open>undefined\<close>, the keys of every object distinct.\<close>

fun json_plain :: "json \<Rightarrow> bool" where
  "json_plain JUndef = False"
| "json_plain (JArr xs) = (\<forall>x \<in> set xs. json_plain x)"
| "json_plain (JObj kvs) = (distinct (map fst kvs) \<and> (\<forall>kv \<in> set kvs. json_plain (snd kv)))"
| "json_plain _ = True"

lemma parse_chars_esc: "parse_chars (esc_char c @ s) = map_option (\<lambda>(r, u). (c # r, u)) (parse_chars s)"
proof (cases "(of_char c :: nat) \<in> {34, 92, 8, 12, 10, 13, 9}")
  case True
  then consider "c = CHR 0x22" | "c = CHR 0x5C" | "c = CHR 0x08"
    | "c = CHR 0x0C" | "c = CHR 0x0A" | "c = CHR 0x0D" | "c = CHR 0x09"
    by (auto simp flip: of_char_eq_iff [where 'a = nat])
  then show ?thesis by cases (simp_all add: esc_char_def simple_escape_def)
next
  case special: False
  show ?thesis
  proof (cases "(of_char c :: nat) < 32")
    case True
    have hex: "hex_val (hex_char d) = Some d" if "d < 16" for d
      using that by (simp add: hex_val_def hex_char_def)
    have z: "hex_val (CHR ''0'') = Some 0" by (simp add: hex_val_def)
    from True special have "esc_char c = [CHR 0x5C, CHR ''u'', CHR ''0'', CHR ''0'',
        hex_char (of_char c div 16), hex_char (of_char c mod 16)]"
      by (simp add: esc_char_def Let_def)
    moreover have "(of_char c div 16 :: nat) < 16" using True by simp
    moreover have "char_of ((of_char c div 16) * 16 + of_char c mod 16 :: nat) = c"
      by (simp only: div_mult_mod_eq char_of_char)
    ultimately show ?thesis by (simp add: hex z)
  next
    case False
    from special have "c \<noteq> CHR 0x22" "c \<noteq> CHR 0x5C" by auto
    with False special show ?thesis by (simp add: esc_char_def)
  qed
qed

lemma parse_chars_quote: "parse_chars (concat (map esc_char k) @ CHR 0x22 # s) = Some (k, s)"
  by (induction k) (simp_all add: parse_chars_esc)

lemma parse_number_dec:
  assumes "delim t"
  shows "parse_number (dec_int i @ t) = Some (JNum i, t)"
proof -
  have "takeWhile (\<lambda>c. is_digit c \<or> c = CHR ''-'') (dec_int i @ t) = dec_int i"
    using assms dec_int_chars by (cases t) (auto simp: takeWhile_append is_digit_def)
  then show ?thesis by (simp add: parse_number_def)
qed

lemma starts_with_Cons [simp]: "starts_with (c # s) (d # p) \<longleftrightarrow> c = d \<and> starts_with s p"
  by (auto simp: starts_with_def)

lemma starts_with_Nil [simp]: "starts_with s []" "starts_with [] (d # p) \<longleftrightarrow> False"
  by (auto simp: starts_with_def)

lemma skip_ws_Cons [simp]: "skip_ws (c # s) = (if json_space c then skip_ws s else c # s)"
  by (simp add: skip_ws_def)

lemma json_space_chars [simp]:
  "\<not> json_space (CHR ''n'')" "\<not> json_space (CHR ''t'')" "\<not> json_space (CHR ''f'')" "\<not> json_space (CHR 0x22)"
  "\<not> json_space (CHR ''['')" "\<not> json_space (CHR '']'')" "\<not> json_space (CHR ''{'')" "\<not> json_space (CHR ''}'')"
  "\<not> json_space (CHR '','')" "\<not> json_space (CHR '':'')"
  by (simp_all add: json_space_def)

lemma parse_value_num:
  assumes "delim t"
  shows "parse_value (Suc n) (dec_int i @ t) = Some (JNum i, t)"
proof -
  obtain c s where c: "dec_int i = c # s" "is_digit c \<or> c = CHR ''-''"
    using dec_int_nonempty [of i] dec_int_chars [of "hd (dec_int i)" i] by (cases "dec_int i") auto
  then have "\<not> json_space c" "c \<noteq> CHR ''n''" "c \<noteq> CHR ''t''" "c \<noteq> CHR ''f''" "c \<noteq> CHR 0x22" "c \<noteq> CHR ''[''" "c \<noteq> CHR ''{''"
    by (auto simp: json_space_def is_digit_def)
  with c(1) parse_number_dec [OF assms, of i] show ?thesis by simp
qed

text \<open>No printed value starts with a closing bracket or white space.\<close>

lemma stringify_first:
  obtains c s where "json_stringify v = c # s" "\<not> json_space c" "c \<noteq> CHR '']''" "c \<noteq> CHR ''}''"
proof (cases v)
  case (JNum i)
  obtain c s where "dec_int i = c # s" "is_digit c \<or> c = CHR ''-''"
    using dec_int_nonempty [of i] dec_int_chars [of "hd (dec_int i)" i] by (cases "dec_int i") auto
  moreover from this have "c \<noteq> CHR '']''" "c \<noteq> CHR ''}''" "\<not> json_space c"
    by (auto simp: json_space_def is_digit_def)
  ultimately show ?thesis using JNum that by simp
next
  case (JBool b)
  with that show ?thesis by (cases b) simp_all
qed (use that in \<open>simp_all add: quote_def\<close>)

lemma parse_value_skip: "skip_ws s = skip_ws t \<Longrightarrow> parse_value n s = parse_value n t"
  by (cases n) simp_all

definition reads_back :: "json \<Rightarrow> bool" where
  "reads_back v \<longleftrightarrow> (\<forall>n t. 2 * length (json_stringify v) \<le> n \<longrightarrow> delim t \<longrightarrow>
     parse_value n (json_stringify v @ t) = Some (v, t))"

lemma parse_items_ok:
  assumes "xs \<noteq> []" "\<forall>x \<in> set xs. reads_back x" "2 * length (join '','' (map json_stringify xs)) + 1 \<le> n"
  shows "parse_items n (join '','' (map json_stringify xs) @ CHR '']'' # t) = Some (xs, t)"
  using assms
proof (induction xs arbitrary: n)
  case (Cons x xs)
  obtain m where n: "n = Suc m" using Cons.prems(3) by (cases n) auto
  show ?case
  proof (cases "xs = []")
    case True
    with Cons.prems n show ?thesis by (simp add: reads_back_def)
  next
    case False
    then have j: "join '','' (map json_stringify (x # xs)) = json_stringify x @ '','' @ join '','' (map json_stringify xs)"
      by (simp add: join_Cons)
    from Cons.prems(3) n j have "2 * length (json_stringify x) \<le> m"
      and "2 * length (join '','' (map json_stringify xs)) + 1 \<le> m" by simp_all
    with Cons.IH [OF False _ this(2)] Cons.prems(2) n j show ?thesis by (simp add: reads_back_def)
  qed
qed simp

abbreviation prop_text :: "string \<times> json \<Rightarrow> string" where
  "prop_text \<equiv> (\<lambda>(k, v). quote k @ '':'' @ json_stringify v)"

lemma parse_members_ok:
  assumes "kvs \<noteq> []" "\<forall>kv \<in> set kvs. reads_back (snd kv)" "2 * length (join '','' (map prop_text kvs)) + 1 \<le> n"
  shows "parse_members n (join '','' (map prop_text kvs) @ CHR ''}'' # t) = Some (kvs, t)"
  using assms
proof (induction kvs arbitrary: n)
  case (Cons kv kvs)
  obtain m where n: "n = Suc m" using Cons.prems(3) by (cases n) auto
  obtain k v where kv: "kv = (k, v)" by fastforce
  have q: "quote k @ s = CHR 0x22 # concat (map esc_char k) @ CHR 0x22 # s" for s by (simp add: quote_def)
  have rb: "reads_back v" using Cons.prems(2) kv by simp
  show ?case
  proof (cases "kvs = []")
    case True
    with Cons.prems(3) n kv have "2 * length (json_stringify v) \<le> m" by simp
    with rb True n kv show ?thesis by (simp add: q parse_chars_quote reads_back_def)
  next
    case False
    then have j: "join '','' (map prop_text (kv # kvs)) = quote k @ '':'' @ json_stringify v @ '','' @ join '','' (map prop_text kvs)"
      by (simp add: join_Cons kv)
    from Cons.prems(3) n j have "2 * length (json_stringify v) \<le> m"
      and "2 * length (join '','' (map prop_text kvs)) + 1 \<le> m" by simp_all
    with Cons.IH [OF False _ this(2)] Cons.prems(2) n rb kv show ?thesis
      unfolding j by (simp add: q parse_chars_quote reads_back_def)
  qed
qed simp

lemma fold_mset_at: "distinct (map fst (m @ kvs)) \<Longrightarrow> fold (\<lambda>(k, v) m. mset_at k v m) kvs m = m @ kvs"
proof (induction kvs arbitrary: m)
  case (Cons kv kvs)
  obtain k v where kv: "kv = (k, v)" by fastforce
  with Cons.prems have "k \<notin> fst ` set m" by auto
  then have "AList.update k v m = m @ [(k, v)]" by (induction m) auto
  with kv Cons show ?case by (simp add: mset_at_def)
qed simp

lemma filter_defined: "\<forall>kv \<in> set kvs. json_plain (snd kv) \<Longrightarrow> filter (\<lambda>(k, v). v \<noteq> JUndef) kvs = kvs"
  by (intro filter_True) (auto simp: json_plain.simps)

lemma plain_reads_back: "json_plain v \<Longrightarrow> reads_back v"
proof (induction v rule: json_stringify.induct)
  case (4 i)
  show ?case unfolding reads_back_def
  proof (intro allI impI)
    fix n t assume "2 * length (json_stringify (JNum i)) \<le> n" "delim t"
    then show "parse_value n (json_stringify (JNum i) @ t) = Some (JNum i, t)"
      using parse_value_num [of t _ i] by (cases n) auto
  qed
next
  case (5 s)
  show ?case unfolding reads_back_def
  proof (intro allI impI)
    fix n t assume "2 * length (json_stringify (JStr s)) \<le> n" "delim t"
    then show "parse_value n (json_stringify (JStr s) @ t) = Some (JStr s, t)"
      by (cases n) (simp_all add: quote_def parse_chars_quote)
  qed
next
  case (6 xs)
  show ?case unfolding reads_back_def
  proof (intro allI impI)
    fix n t assume n: "2 * length (json_stringify (JArr xs)) \<le> n"
    then obtain m where m: "n = Suc m" by (cases n) auto
    show "parse_value n (json_stringify (JArr xs) @ t) = Some (JArr xs, t)"
    proof (cases xs)
      case Nil
      with m show ?thesis by simp
    next
      case (Cons x ys)
      obtain c s where "json_stringify x = c # s" "\<not> json_space c" "c \<noteq> CHR '']''" by (rule stringify_first)
      with Cons obtain u where "join '','' (map json_stringify xs) = c # u" by (cases ys) auto
      with \<open>\<not> json_space c\<close> \<open>c \<noteq> CHR '']''\<close> m n 6 Cons parse_items_ok [of xs m t] show ?thesis by simp
    qed
  qed
next
  case (7 kvs)
  then have fd: "filter (\<lambda>(k, v). v \<noteq> JUndef) kvs = kvs" by (intro filter_defined) simp
  have rb: "\<forall>kv \<in> set kvs. reads_back (snd kv)" using 7 unfolding fd by fastforce
  show ?case unfolding reads_back_def
  proof (intro allI impI)
    fix n t assume n: "2 * length (json_stringify (JObj kvs)) \<le> n"
    then obtain m where m: "n = Suc m" by (cases n) auto
    show "parse_value n (json_stringify (JObj kvs) @ t) = Some (JObj kvs, t)"
    proof (cases kvs)
      case Nil
      with m show ?thesis by simp
    next
      case (Cons kv ys)
      obtain k v where "kv = (k, v)" by fastforce
      with Cons obtain u where u: "join '','' (map prop_text kvs) = CHR 0x22 # u" by (cases ys) (auto simp: quote_def)
      from 7 have "fold (\<lambda>(k, v) m. mset_at k v m) kvs [] = kvs" using fold_mset_at [of "[]" kvs] by simp
      with u m n fd rb Cons parse_members_ok [of kvs m t] show ?thesis by simp
    qed
  qed
next
  case 2
  have "parse_value (Suc m) (''null'' @ t) = Some (JNull, t)" for m t by simp
  moreover have "\<exists>m. n = Suc m" if "2 * length (json_stringify JNull) \<le> n" for n
    using that by (cases n) simp_all
  ultimately show ?case unfolding reads_back_def by (metis json_stringify.simps(2))
next
  case (3 b)
  have "parse_value (Suc m) (json_stringify (JBool b) @ t) = Some (JBool b, t)" for m t by (cases b) simp_all
  moreover have "\<exists>m. n = Suc m" if "2 * length (json_stringify (JBool b)) \<le> n" for n
    using that by (cases n) (simp_all split: if_splits)
  ultimately show ?case unfolding reads_back_def by metis
qed simp

lemma json_parse_stringify: "json_plain v \<Longrightarrow> json_parse (json_stringify v) = Some v"
  using plain_reads_back [of v] by (auto simp: json_parse_def reads_back_def skip_ws_def dest!: spec [of _ "[]"])

end
