(* ===== verification/BuilderTypes.thy ===== *)
theory BuilderTypes
  imports Redis JsonText
begin

text \<open>
  The data of the builder's dispatcher (\<open>packages/core/src/builder/types.ts\<close>): priorities, task states,
  tasks, dead-letter entries, the configuration with its defaults and the event map.  Priorities and string
  enums are the numbers and texts the source gives them; an optional field is an option; objects that the
  builder only carries (payloads, model overrides) are JSON values.

  Also the small parts of the runtime the builder reads: \<open>Number(text)\<close> on decimal texts, and the
  runtime environment (identifiers, ISO rendering and parsing of dates) as a record of functions.
\<close>

section \<open>Enumerations\<close>

abbreviation P0_SAFETY :: int where "P0_SAFETY \<equiv> 0"
abbreviation P1_REVIEW :: int where "P1_REVIEW \<equiv> 1"
abbreviation P2_IMPLEMENTATION :: int where "P2_IMPLEMENTATION \<equiv> 2"
abbreviation P3_BACKGROUND :: int where "P3_BACKGROUND \<equiv> 3"

definition QUEUED :: string where "QUEUED = ''queued''"
definition ASSIGNED :: string where "ASSIGNED = ''assigned''"
definition RUNNING :: string where "RUNNING = ''running''"
definition COMPLETED :: string where "COMPLETED = ''completed''"
definition FAILED :: string where "FAILED = ''failed''"
definition TIMEOUT :: string where "TIMEOUT = ''timeout''"
definition SKIPPED :: string where "SKIPPED = ''skipped''"
definition REQUEUED :: string where "REQUEUED = ''requeued''"

lemmas task_state_defs = QUEUED_def ASSIGNED_def RUNNING_def COMPLETED_def FAILED_def TIMEOUT_def
  SKIPPED_def REQUEUED_def

section \<open>Tasks\<close>

record builder_task =
  bt_id :: string
  bt_priority :: int
  bt_state :: string
  bt_taskName :: string
  bt_triggerPayload :: json
  bt_sourceEvent :: string
  bt_correlationId :: string
  bt_workerId :: "string option"
  bt_createdAt :: string
  bt_assignedAt :: "string option"
  bt_completedAt :: "string option"
  bt_error :: "string option"
  bt_timeoutMs :: int
  bt_dlqRetryCount :: "int option"
  bt_timeoutRetryCount :: "int option"
  bt_modelOverride :: "json option"
  bt_sessionId :: "string option"
  bt_threadId :: "string option"
  bt_executorHint :: "string option"
  bt_harness :: "string option"
  bt_sessionModel :: "string option"
  bt_prompt :: "string option"
  bt_repoPath :: "string option"
  bt_steerInstruction :: "string option"
  bt_steerContext :: "json option"

record dlq_entry =
  e_taskId :: string
  e_taskName :: string
  e_correlationId :: string
  e_priority :: int
  e_sourceEvent :: string
  e_error :: "string option"
  e_failedAt :: "string option"
  e_durationMs :: "int option"
  e_retryCount :: "int option"
  e_nextRetryAt :: "string option"
  e_maxRetries :: "int option"
  e_permanent :: "bool option"
  e_triggerPayload :: "json option"

text \<open>Fields entries from before the retry feature lack are options, as the source reads them with \<open>??\<close>.\<close>

section \<open>Configuration\<close>

record dispatcher_config =
  maxConcurrentWorkers :: nat
  defaultTimeoutMs :: int
  queueKey :: string
  taskKeyPrefix :: string
  priorityMap :: "(string \<times> int) list"
  pollIntervalMs :: int
  completedTaskTtlSecs :: int
  promotionAgeMs :: int
  dlqKey :: string
  dlqMaxSize :: nat
  dlqRetryIntervalMs :: int
  dlqMaxRetries :: int
  maxQueueDepth :: nat
  backpressureThreshold :: nat
  correlationMaxAgeMs :: int

definition DEFAULT_DISPATCHER_CONFIG :: dispatcher_config where
  "DEFAULT_DISPATCHER_CONFIG = \<lparr>
     maxConcurrentWorkers = 3,
     defaultTimeoutMs = 10 * 60 * 1000,
     queueKey = ''builder:task_queue'',
     taskKeyPrefix = ''builder:task:'',
     priorityMap =
       [(''fix_ci_failure'', P0_SAFETY), (''address_review_feedback'', P1_REVIEW), (''address_human_review'', P1_REVIEW),
        (''implement_issue'', P2_IMPLEMENTATION), (''implement_directive'', P2_IMPLEMENTATION),
        (''daily_standup'', P3_BACKGROUND), (''self_reflection'', P3_BACKGROUND)],
     pollIntervalMs = 2000,
     completedTaskTtlSecs = 3600,
     promotionAgeMs = 30 * 60 * 1000,
     dlqKey = ''builder:dlq'',
     dlqMaxSize = 100,
     dlqRetryIntervalMs = 60 * 1000,
     dlqMaxRetries = 3,
     maxQueueDepth = 50,
     backpressureThreshold = 30,
     correlationMaxAgeMs = 2 * 60 * 60 * 1000\<rparr>"

definition EVENT_TASK_MAP :: "(string \<times> string) list" where
  "EVENT_TASK_MAP =
     [(''architect:build_directive'', ''implement_directive''),
      (''strategist:builder_directive'', ''implement_directive''),
      (''github:pr_review_comment'', ''address_review_feedback''),
      (''github:ci_fail'', ''fix_ci_failure''),
      (''github:pr_review_submitted'', ''address_human_review''),
      (''claudeception:reflect'', ''self_reflection'')]"

section \<open>Runtime\<close>

text \<open>\<open>Number(s)\<close>: the empty text is 0; \<open>None\<close> stands for \<open>NaN\<close>.\<close>

definition js_Number :: "string \<Rightarrow> int option" where
  "js_Number s = (if s = [] then Some 0 else parse_int s)"

lemma js_Number_dec_int [simp]: "js_Number (dec_int i) = Some i"
  by (simp add: js_Number_def)

record runtime =
  rt_uuid :: "nat \<Rightarrow> string"
  rt_iso :: "int \<Rightarrow> string"
  rt_date :: "string \<Rightarrow> int option"

text \<open>Identifiers are the successive values of \<open>rt_uuid\<close>; \<open>rt_date\<close> is \<open>new Date(s).getTime()\<close>,
  \<open>None\<close> for an invalid date.\<close>

text \<open>A text, or none when it is missing or empty: the truthy reading \<open>x ? \<dots> : \<dots>\<close> of an optional text.\<close>

definition truthy :: "string option \<Rightarrow> string option" where
  "truthy x = (case x of None \<Rightarrow> None | Some v \<Rightarrow> if v = [] then None else Some v)"

lemma truthy_simps [simp]: "truthy None = None" "truthy (Some v) = (if v = [] then None else Some v)"
  by (simp_all add: truthy_def)

lemma truthy_idem [simp]: "truthy (truthy x) = truthy x"
  by (simp add: truthy_def split: option.splits)

end
