(* ===== verification/TaskQueue.thy ===== *)
theory TaskQueue
  imports BuilderTypes "HOL-Library.Product_Lexorder"
begin

text \<open>
  The priority queue of the builder (\<open>TaskQueue\<close> in \<open>packages/core/src/builder/task-queue.ts\<close>): every
  method, with the Redis server as a parameter (\<open>None\<close> selects the in-memory fallback, as a null client
  does).  The state holds the server, the two in-memory containers, the score counter of the process and the
  number of identifiers drawn.  Each method takes the current time in milliseconds.

  A stored hash that does not deserialise makes the source throw; that is the result \<open>None\<close> of the
  methods that read tasks.  The pop loop of \<open>dequeue\<close> skips queue entries without a hash by calling itself,
  so it is a partial function; \<open>None\<close> outermost stands for not returning.
\<close>

record 's tq =
  server :: 's
  memQueue :: "(builder_task \<times> int) list"
  memTasks :: "(string, builder_task) jsmap"
  scoreCounter :: nat
  uuidsDrawn :: nat

definition PRIORITY_LEVELS :: "int list" where
  "PRIORITY_LEVELS = [P0_SAFETY, P1_REVIEW, P2_IMPLEMENTATION, P3_BACKGROUND]"

definition NON_RETRYABLE_ERRORS :: "string list" where
  "NON_RETRYABLE_ERRORS = [''model not found'', ''401'', ''403'', ''excluded_repo'', ''missing required'']"

definition isRetryable :: "string \<Rightarrow> bool" where
  "isRetryable err \<longleftrightarrow> \<not> list_ex (\<lambda>pattern. str_includes (to_lower err) pattern) NON_RETRYABLE_ERRORS"

definition priorityKey :: "dispatcher_config \<Rightarrow> int \<Rightarrow> string" where
  "priorityKey C priority = queueKey C @ '':P'' @ dec_int priority"

definition taskKey :: "dispatcher_config \<Rightarrow> string \<Rightarrow> string" where
  "taskKey C tid = taskKeyPrefix C @ tid"

definition computeScore :: "int \<Rightarrow> 's tq \<Rightarrow> int \<times> 's tq" where
  "computeScore now w = (now * 1000 + int (scoreCounter w), w\<lparr>scoreCounter := scoreCounter w + 1\<rparr>)"

definition randomUUID :: "runtime \<Rightarrow> 's tq \<Rightarrow> string \<times> 's tq" where
  "randomUUID E w = (rt_uuid E (uuidsDrawn w), w\<lparr>uuidsDrawn := uuidsDrawn w + 1\<rparr>)"

section \<open>Serialisation\<close>

definition text_field :: "string \<Rightarrow> string option \<Rightarrow> (string \<times> string) list" where
  "text_field k x = (case truthy x of None \<Rightarrow> [] | Some v \<Rightarrow> [(k, v)])"

definition number_field :: "string \<Rightarrow> int option \<Rightarrow> (string \<times> string) list" where
  "number_field k x = (case x of None \<Rightarrow> [] | Some n \<Rightarrow> [(k, dec_int n)])"

definition json_field :: "string \<Rightarrow> json option \<Rightarrow> (string \<times> string) list" where
  "json_field k x = (case x of None \<Rightarrow> [] | Some v \<Rightarrow> [(k, json_stringify v)])"

definition serializeTask :: "builder_task \<Rightarrow> (string \<times> string) list" where
  "serializeTask t =
     [(''id'', bt_id t), (''priority'', dec_int (bt_priority t)), (''state'', bt_state t), (''taskName'', bt_taskName t),
      (''triggerPayload'', json_stringify (bt_triggerPayload t)), (''sourceEvent'', bt_sourceEvent t),
      (''correlationId'', bt_correlationId t), (''createdAt'', bt_createdAt t), (''timeoutMs'', dec_int (bt_timeoutMs t))]
     @ text_field ''workerId'' (bt_workerId t)
     @ text_field ''assignedAt'' (bt_assignedAt t)
     @ text_field ''completedAt'' (bt_completedAt t)
     @ text_field ''error'' (bt_error t)
     @ number_field ''dlqRetryCount'' (bt_dlqRetryCount t)
     @ number_field ''timeoutRetryCount'' (bt_timeoutRetryCount t)
     @ json_field ''modelOverride'' (bt_modelOverride t)
     @ text_field ''sessionId'' (bt_sessionId t)
     @ text_field ''threadId'' (bt_threadId t)
     @ text_field ''executorHint'' (bt_executorHint t)
     @ text_field ''harness'' (bt_harness t)
     @ text_field ''sessionModel'' (bt_sessionModel t)
     @ text_field ''prompt'' (bt_prompt t)
     @ text_field ''repoPath'' (bt_repoPath t)
     @ text_field ''steerInstruction'' (bt_steerInstruction t)
     @ json_field ''steerContext'' (bt_steerContext t)"

text \<open>
  Reading a hash back.  \<open>None\<close>: a JSON text the parser rejects (the source throws), or a number text
  that is no decimal integer (the source goes on with \<open>NaN\<close>; no method writes such a text).  A missing
  mandatory text reads as the empty one.
\<close>

definition opt_number :: "string option \<Rightarrow> int option option" where
  "opt_number x = (case truthy x of None \<Rightarrow> Some None | Some v \<Rightarrow> map_option Some (js_Number v))"

definition opt_json :: "string option \<Rightarrow> json option option" where
  "opt_json x = (case truthy x of None \<Rightarrow> Some None | Some v \<Rightarrow> map_option Some (json_parse v))"

definition deserializeTask :: "(string \<rightharpoonup> string) \<Rightarrow> builder_task option" where
  "deserializeTask d =
     (case (js_Number (or_text (d ''priority'') ''NaN''),
            json_parse (or_text (truthy (d ''triggerPayload'')) ''{}''),
            js_Number (or_text (truthy (d ''timeoutMs'')) (dec_int (defaultTimeoutMs DEFAULT_DISPATCHER_CONFIG)))) of
        (Some priority, Some payload, Some timeout) \<Rightarrow>
          (case (opt_number (d ''dlqRetryCount''), opt_number (d ''timeoutRetryCount''),
                 opt_json (d ''modelOverride''), opt_json (d ''steerContext'')) of
             (Some dlq, Some trc, Some model, Some context) \<Rightarrow>
               Some \<lparr>bt_id = or_text (d ''id'') '''', bt_priority = priority, bt_state = or_text (d ''state'') '''',
                 bt_taskName = or_text (d ''taskName'') '''', bt_triggerPayload = payload,
                 bt_sourceEvent = or_text (d ''sourceEvent'') '''', bt_correlationId = or_text (d ''correlationId'') '''',
                 bt_workerId = truthy (d ''workerId''), bt_createdAt = or_text (d ''createdAt'') '''',
                 bt_assignedAt = truthy (d ''assignedAt''), bt_completedAt = truthy (d ''completedAt''),
                 bt_error = truthy (d ''error''), bt_timeoutMs = timeout,
                 bt_dlqRetryCount = dlq, bt_timeoutRetryCount = trc, bt_modelOverride = model,
                 bt_sessionId = truthy (d ''sessionId''), bt_threadId = truthy (d ''threadId''),
                 bt_executorHint = truthy (d ''executorHint''), bt_harness = truthy (d ''harness''),
                 bt_sessionModel = truthy (d ''sessionModel''), bt_prompt = truthy (d ''prompt''),
                 bt_repoPath = truthy (d ''repoPath''), bt_steerInstruction = truthy (d ''steerInstruction''),
                 bt_steerContext = context\<rparr>
           | _ \<Rightarrow> None)
      | _ \<Rightarrow> None)"

section \<open>Enqueue\<close>

record enqueue_params =
  p_taskName :: string
  p_priority :: int
  p_sourceEvent :: string
  p_triggerPayload :: json
  p_correlationId :: "string option"
  p_timeoutMs :: "int option"
  p_dlqRetryCount :: "int option"
  p_timeoutRetryCount :: "int option"
  p_modelOverride :: "json option"
  p_sessionId :: "string option"
  p_threadId :: "string option"
  p_executorHint :: "string option"
  p_harness :: "string option"
  p_sessionModel :: "string option"
  p_prompt :: "string option"
  p_repoPath :: "string option"
  p_steerInstruction :: "string option"
  p_steerContext :: "json option"

text \<open>Parameters with only the mandatory fields.\<close>

definition params :: "string \<Rightarrow> int \<Rightarrow> string \<Rightarrow> json \<Rightarrow> enqueue_params" where
  "params taskName priority sourceEvent triggerPayload = \<lparr>p_taskName = taskName, p_priority = priority,
     p_sourceEvent = sourceEvent, p_triggerPayload = triggerPayload, p_correlationId = None, p_timeoutMs = None,
     p_dlqRetryCount = None, p_timeoutRetryCount = None, p_modelOverride = None, p_sessionId = None,
     p_threadId = None, p_executorHint = None, p_harness = None, p_sessionModel = None, p_prompt = None,
     p_repoPath = None, p_steerInstruction = None, p_steerContext = None\<rparr>"

definition new_task :: "runtime \<Rightarrow> int \<Rightarrow> string \<Rightarrow> string \<Rightarrow> enqueue_params \<Rightarrow> builder_task" where
  "new_task E now tid corr p = \<lparr>bt_id = tid, bt_priority = p_priority p, bt_state = QUEUED,
     bt_taskName = p_taskName p, bt_triggerPayload = p_triggerPayload p, bt_sourceEvent = p_sourceEvent p,
     bt_correlationId = corr, bt_workerId = None, bt_createdAt = rt_iso E now, bt_assignedAt = None,
     bt_completedAt = None, bt_error = None,
     bt_timeoutMs = (case p_timeoutMs p of None \<Rightarrow> defaultTimeoutMs DEFAULT_DISPATCHER_CONFIG | Some t \<Rightarrow> t),
     bt_dlqRetryCount = p_dlqRetryCount p, bt_timeoutRetryCount = p_timeoutRetryCount p,
     bt_modelOverride = p_modelOverride p, bt_sessionId = truthy (p_sessionId p),
     bt_threadId = truthy (p_threadId p), bt_executorHint = truthy (p_executorHint p),
     bt_harness = truthy (p_harness p), bt_sessionModel = truthy (p_sessionModel p),
     bt_prompt = truthy (p_prompt p), bt_repoPath = truthy (p_repoPath p),
     bt_steerInstruction = truthy (p_steerInstruction p), bt_steerContext = p_steerContext p\<rparr>"

text \<open>The comparison of the in-memory queue: priority, then score; \<open>sort\<close> is stable.\<close>

definition mem_sort :: "(builder_task \<times> int) list \<Rightarrow> (builder_task \<times> int) list" where
  "mem_sort q = sort_key (\<lambda>(t, sc). (bt_priority t, sc)) q"

definition tq_enqueue ::
  "dispatcher_config \<Rightarrow> 's redis option \<Rightarrow> runtime \<Rightarrow> int \<Rightarrow> enqueue_params \<Rightarrow> 's tq \<Rightarrow> builder_task \<times> 's tq" where
  "tq_enqueue C R E now p w =
     (let (tid, w) = randomUUID E w;
          (corr, w) = (case p_correlationId p of Some c \<Rightarrow> (c, w) | None \<Rightarrow> randomUUID E w);
          task = new_task E now tid corr p;
          (score, w) = computeScore now w
      in case R of
        Some R \<Rightarrow> (task, w\<lparr>server := ZADD R (priorityKey C (bt_priority task)) score (bt_id task)
                          (HSET R (taskKey C (bt_id task)) (serializeTask task) (server w))\<rparr>)
      | None \<Rightarrow> (task, w\<lparr>memTasks := mset_at (bt_id task) task (memTasks w),
                        memQueue := mem_sort (memQueue w @ [(task, score)])\<rparr>))"

section \<open>Dequeue\<close>

text \<open>Marking a task popped from a set as assigned, in the returned task and in its hash; \<open>None\<close> if it throws.\<close>

definition assign_popped :: "dispatcher_config \<Rightarrow> 's redis \<Rightarrow> runtime \<Rightarrow> int \<Rightarrow> string \<Rightarrow> 's \<Rightarrow> builder_task option \<times> 's" where
  "assign_popped C R E now tid s =
     (case deserializeTask (map_of (HGETALL R (taskKey C tid) s)) of
        None \<Rightarrow> (None, s)
      | Some task \<Rightarrow>
          (Some (task\<lparr>bt_state := ASSIGNED, bt_assignedAt := Some (rt_iso E now)\<rparr>),
           HSET R (taskKey C tid) [(''state'', ASSIGNED), (''assignedAt'', rt_iso E now)] s))"

text \<open>
  The promotion check.  The age \<open>Date.now() - score / 1000\<close> is compared without the division.
  The result is \<open>None\<close> if the check throws, else the promoted task, if any.
\<close>

definition checkP3Promotion ::
  "dispatcher_config \<Rightarrow> 's redis \<Rightarrow> runtime \<Rightarrow> int \<Rightarrow> 's \<Rightarrow> builder_task option option \<times> 's" where
  "checkP3Promotion C R E now s =
     (if promotionAgeMs C = 0 then (Some None, s)
      else case ZRANGE R (priorityKey C P3_BACKGROUND) s of
        [] \<Rightarrow> (Some None, s)
      | (_, score) # _ \<Rightarrow>
          (if now * 1000 - score < promotionAgeMs C * 1000 then (Some None, s)
           else case ZPOPMIN R (priorityKey C P3_BACKGROUND) s of
             (None, s1) \<Rightarrow> (Some None, s1)
           | (Some (tid, _), s1) \<Rightarrow>
               (if tid = [] then (Some None, s1)
                else if HGETALL R (taskKey C tid) s1 = [] then (Some None, s1)
                else case assign_popped C R E now tid s1 of
                  (None, s2) \<Rightarrow> (None, s2)
                | (Some task, s2) \<Rightarrow> (Some (Some task), s2))))"

text \<open>The loop over the priority levels: the identifier popped from the first set that is not empty.\<close>

fun pop_levels :: "dispatcher_config \<Rightarrow> 's redis \<Rightarrow> int list \<Rightarrow> 's \<Rightarrow> string option \<times> 's" where
  "pop_levels C R [] s = (None, s)"
| "pop_levels C R (p # ps) s = (case ZPOPMIN R (priorityKey C p) s of
     (Some (tid, _), s1) \<Rightarrow> (Some tid, s1)
   | (None, s1) \<Rightarrow> pop_levels C R ps s1)"

partial_function (option) dequeueRedis ::
  "dispatcher_config \<Rightarrow> 's redis \<Rightarrow> runtime \<Rightarrow> int \<Rightarrow> 's \<Rightarrow> (builder_task option option \<times> 's) option" where
  "dequeueRedis C R E now s =
     (case checkP3Promotion C R E now s of
        (None, s1) \<Rightarrow> Some (None, s1)
      | (Some (Some task), s1) \<Rightarrow> Some (Some (Some task), s1)
      | (Some None, s1) \<Rightarrow>
          (case pop_levels C R PRIORITY_LEVELS s1 of
             (None, s2) \<Rightarrow> Some (Some None, s2)
           | (Some tid, s2) \<Rightarrow>
               (if HGETALL R (taskKey C tid) s2 = [] then dequeueRedis C R E now s2
                else case assign_popped C R E now tid s2 of
                  (None, s3) \<Rightarrow> Some (None, s3)
                | (Some task, s3) \<Rightarrow> Some (Some (Some task), s3))))"

definition dequeueMemory :: "runtime \<Rightarrow> int \<Rightarrow> 's tq \<Rightarrow> builder_task option \<times> 's tq" where
  "dequeueMemory E now w = (case memQueue w of
     [] \<Rightarrow> (None, w)
   | (t, score) # rest \<Rightarrow>
       (let task = t\<lparr>bt_state := ASSIGNED, bt_assignedAt := Some (rt_iso E now)\<rparr>
        in (Some task, w\<lparr>memQueue := rest, memTasks := mset_at (bt_id task) task (memTasks w)\<rparr>)))"

definition tq_dequeue ::
  "dispatcher_config \<Rightarrow> 's redis option \<Rightarrow> runtime \<Rightarrow> int \<Rightarrow> 's tq \<Rightarrow> (builder_task option option \<times> 's tq) option" where
  "tq_dequeue C R E now w = (case R of
     Some R \<Rightarrow> map_option (\<lambda>(r, s). (r, w\<lparr>server := s\<rparr>)) (dequeueRedis C R E now (server w))
   | None \<Rightarrow> (let (r, w1) = dequeueMemory E now w in Some (Some r, w1)))"

section \<open>Reading and updating\<close>

text \<open>\<open>getTask\<close> and \<open>peek\<close>: \<open>None\<close> if reading the hash throws.\<close>

definition getTask :: "dispatcher_config \<Rightarrow> 's redis option \<Rightarrow> string \<Rightarrow> 's tq \<Rightarrow> builder_task option option" where
  "getTask C R tid w = (case R of
     None \<Rightarrow> Some (mget (memTasks w) tid)
   | Some R \<Rightarrow> (let data = HGETALL R (taskKey C tid) (server w) in
       if data = [] then Some None else map_option Some (deserializeTask (map_of data))))"

fun first_queued :: "dispatcher_config \<Rightarrow> 's redis \<Rightarrow> int list \<Rightarrow> 's \<Rightarrow> string option" where
  "first_queued C R [] s = None"
| "first_queued C R (p # ps) s = (case ZRANGE R (priorityKey C p) s of
     [] \<Rightarrow> first_queued C R ps s | (tid, _) # _ \<Rightarrow> Some tid)"

definition peek :: "dispatcher_config \<Rightarrow> 's redis option \<Rightarrow> 's tq \<Rightarrow> builder_task option option" where
  "peek C R w = (case R of
     None \<Rightarrow> Some (case memQueue w of [] \<Rightarrow> None | (t, _) # _ \<Rightarrow> Some t)
   | Some R' \<Rightarrow> (case first_queued C R' PRIORITY_LEVELS (server w) of
       None \<Rightarrow> Some None | Some tid \<Rightarrow> getTask C R tid w))"

record task_updates =
  u_state :: "string option"
  u_workerId :: "string option"
  u_error :: "string option"
  u_assignedAt :: "string option"
  u_completedAt :: "string option"

definition or_else :: "'a option \<Rightarrow> 'a option \<Rightarrow> 'a option" where
  "or_else x y = (case x of None \<Rightarrow> y | Some v \<Rightarrow> Some v)"

definition apply_updates :: "task_updates \<Rightarrow> builder_task \<Rightarrow> builder_task" where
  "apply_updates u t = t\<lparr>bt_state := (case u_state u of None \<Rightarrow> bt_state t | Some v \<Rightarrow> v),
     bt_workerId := or_else (u_workerId u) (bt_workerId t), bt_error := or_else (u_error u) (bt_error t),
     bt_assignedAt := or_else (u_assignedAt u) (bt_assignedAt t),
     bt_completedAt := or_else (u_completedAt u) (bt_completedAt t)\<rparr>"

definition given_field :: "string \<Rightarrow> 'a option \<Rightarrow> (string \<times> 'a) list" where
  "given_field k x = (case x of None \<Rightarrow> [] | Some v \<Rightarrow> [(k, v)])"

definition update_fields :: "task_updates \<Rightarrow> (string \<times> string) list" where
  "update_fields u = given_field ''state'' (u_state u) @ given_field ''workerId'' (u_workerId u)
     @ given_field ''error'' (u_error u) @ given_field ''assignedAt'' (u_assignedAt u)
     @ given_field ''completedAt'' (u_completedAt u)"

definition updateTask :: "dispatcher_config \<Rightarrow> 's redis option \<Rightarrow> string \<Rightarrow> task_updates \<Rightarrow> 's tq \<Rightarrow> 's tq" where
  "updateTask C R tid u w = (case R of
     None \<Rightarrow> (case mget (memTasks w) tid of
         None \<Rightarrow> w
       | Some task \<Rightarrow> w\<lparr>memTasks := mset_at tid (apply_updates u task) (memTasks w)\<rparr>)
   | Some R \<Rightarrow>
       (let s = server w;
            s = (if update_fields u \<noteq> [] then HSET R (taskKey C tid) (update_fields u) s else s);
            isTerminal = u_state u \<in> {Some COMPLETED, Some FAILED, Some TIMEOUT};
            s = (if isTerminal then EXPIRE R (taskKey C tid) (completedTaskTtlSecs C) s else s)
        in w\<lparr>server := s\<rparr>))"

definition tq_size :: "dispatcher_config \<Rightarrow> 's redis option \<Rightarrow> 's tq \<Rightarrow> nat" where
  "tq_size C R w = (case R of
     None \<Rightarrow> length (memQueue w)
   | Some R \<Rightarrow> sum_list (map (\<lambda>p. ZCARD R (priorityKey C p) (server w)) PRIORITY_LEVELS))"

definition totalSize :: "dispatcher_config \<Rightarrow> 's redis option \<Rightarrow> 's tq \<Rightarrow> nat" where
  "totalSize C R w = tq_size C R w"

text \<open>Splicing out the first entry of a task.\<close>

fun remove_first :: "string \<Rightarrow> (builder_task \<times> int) list \<Rightarrow> (builder_task \<times> int) list" where
  "remove_first tid [] = []"
| "remove_first tid ((t, sc) # q) = (if bt_id t = tid then q else (t, sc) # remove_first tid q)"

fun zrem_levels :: "dispatcher_config \<Rightarrow> 's redis \<Rightarrow> string \<Rightarrow> int list \<Rightarrow> 's \<Rightarrow> bool \<times> 's" where
  "zrem_levels C R tid [] s = (False, s)"
| "zrem_levels C R tid (p # ps) s = (let (n, s1) = ZREM R (priorityKey C p) tid s in
     if n > 0 then (True, s1) else zrem_levels C R tid ps s1)"

definition tq_remove :: "dispatcher_config \<Rightarrow> 's redis option \<Rightarrow> string \<Rightarrow> 's tq \<Rightarrow> bool \<times> 's tq" where
  "tq_remove C R tid w = (case R of
     None \<Rightarrow> (if list_ex (\<lambda>e. bt_id (fst e) = tid) (memQueue w)
              then (True, w\<lparr>memQueue := remove_first tid (memQueue w)\<rparr>) else (False, w))
   | Some R \<Rightarrow> (let (b, s) = zrem_levels C R tid PRIORITY_LEVELS (server w) in (b, w\<lparr>server := s\<rparr>)))"

definition listQueued :: "dispatcher_config \<Rightarrow> 's redis option \<Rightarrow> 's tq \<Rightarrow> string list" where
  "listQueued C R w = (case R of
     None \<Rightarrow> map (\<lambda>e. bt_id (fst e)) (memQueue w)
   | Some R \<Rightarrow> concat (map (\<lambda>p. map fst (ZRANGE R (priorityKey C p) (server w))) PRIORITY_LEVELS))"

text \<open>The counts for the four levels, in order.\<close>

definition sizeByPriority :: "dispatcher_config \<Rightarrow> 's redis option \<Rightarrow> 's tq \<Rightarrow> nat list" where
  "sizeByPriority C R w = (case R of
     None \<Rightarrow> map (\<lambda>p. length (filter (\<lambda>e. bt_priority (fst e) = p) (memQueue w))) PRIORITY_LEVELS
   | Some R \<Rightarrow> map (\<lambda>p. ZCARD R (priorityKey C p) (server w)) PRIORITY_LEVELS)"

definition addToQueue :: "dispatcher_config \<Rightarrow> 's redis option \<Rightarrow> int \<Rightarrow> builder_task \<Rightarrow> 's tq \<Rightarrow> 's tq" where
  "addToQueue C R now task w =
     (let (score, w) = computeScore now w in
      case R of
        Some R \<Rightarrow> w\<lparr>server := ZADD R (priorityKey C (bt_priority task)) score (bt_id task) (server w)\<rparr>
      | None \<Rightarrow> w\<lparr>memQueue := mem_sort (memQueue w @ [(task, score)])\<rparr>)"

end
