(* ===== verification/DeadLetters.thy ===== *)
theory DeadLetters
  imports TaskQueue
begin

text \<open>
  The dead-letter queue, its retries and the recovery of orphaned tasks
  (\<open>packages/core/src/builder/task-queue.ts\<close>, lines 377 to 706 and 736 to 835).  Without Redis all of
  these do nothing, as in the source.

  An entry is stored as JSON text.  A stored text the parser rejects, or one that is no JSON object,
  counts as malformed.
\<close>

section \<open>Entries as text\<close>

definition opt_prop :: "string \<Rightarrow> ('a \<Rightarrow> json) \<Rightarrow> 'a option \<Rightarrow> (string \<times> json) list" where
  "opt_prop k f x = (case x of None \<Rightarrow> [] | Some v \<Rightarrow> [(k, f v)])"

definition entry_json :: "dlq_entry \<Rightarrow> json" where
  "entry_json e = JObj (
     [(''taskId'', JStr (e_taskId e)), (''taskName'', JStr (e_taskName e)), (''correlationId'', JStr (e_correlationId e)),
      (''priority'', JNum (e_priority e)), (''sourceEvent'', JStr (e_sourceEvent e))]
     @ opt_prop ''error'' JStr (e_error e) @ opt_prop ''failedAt'' JStr (e_failedAt e)
     @ [(''durationMs'', case e_durationMs e of None \<Rightarrow> JNull | Some n \<Rightarrow> JNum n)]
     @ opt_prop ''retryCount'' JNum (e_retryCount e) @ opt_prop ''nextRetryAt'' JStr (e_nextRetryAt e)
     @ opt_prop ''maxRetries'' JNum (e_maxRetries e) @ opt_prop ''permanent'' JBool (e_permanent e)
     @ opt_prop ''triggerPayload'' id (e_triggerPayload e))"

definition entry_text :: "dlq_entry \<Rightarrow> string" where
  "entry_text e = json_stringify (entry_json e)"

fun as_text :: "json option \<Rightarrow> string option" where
  "as_text (Some (JStr s)) = Some s"
| "as_text _ = None"

fun as_number :: "json option \<Rightarrow> int option" where
  "as_number (Some (JNum n)) = Some n"
| "as_number _ = None"

fun as_bool :: "json option \<Rightarrow> bool option" where
  "as_bool (Some (JBool b)) = Some b"
| "as_bool _ = None"

definition entry_of_props :: "(string \<rightharpoonup> json) \<Rightarrow> dlq_entry" where
  "entry_of_props d = \<lparr>e_taskId = or_text (as_text (d ''taskId'')) '''', e_taskName = or_text (as_text (d ''taskName'')) '''',
     e_correlationId = or_text (as_text (d ''correlationId'')) '''',
     e_priority = (case as_number (d ''priority'') of None \<Rightarrow> 0 | Some n \<Rightarrow> n),
     e_sourceEvent = or_text (as_text (d ''sourceEvent'')) '''', e_error = as_text (d ''error''),
     e_failedAt = as_text (d ''failedAt''), e_durationMs = as_number (d ''durationMs''),
     e_retryCount = as_number (d ''retryCount''), e_nextRetryAt = as_text (d ''nextRetryAt''),
     e_maxRetries = as_number (d ''maxRetries''), e_permanent = as_bool (d ''permanent''),
     e_triggerPayload = d ''triggerPayload''\<rparr>"

definition parse_entry :: "string \<Rightarrow> dlq_entry option" where
  "parse_entry raw = (case json_parse raw of Some (JObj kvs) \<Rightarrow> Some (entry_of_props (map_of kvs)) | _ \<Rightarrow> None)"

section \<open>Pushing and listing\<close>

text \<open>
  The ranges end at \<open>size - 1\<close>, and an end of \<open>-1\<close> is the last element: a size of zero selects the whole list.
\<close>

definition keep_first :: "'s redis \<Rightarrow> string \<Rightarrow> nat \<Rightarrow> 's \<Rightarrow> 's" where
  "keep_first R key n s = (if n = 0 then s else LTRIM R key n s)"

definition pushToDlq :: "dispatcher_config \<Rightarrow> 's redis option \<Rightarrow> dlq_entry \<Rightarrow> 's tq \<Rightarrow> 's tq" where
  "pushToDlq C R entry w = (case R of
     None \<Rightarrow> w
   | Some R \<Rightarrow> w\<lparr>server := keep_first R (dlqKey C) (dlqMaxSize C) (LPUSH R (dlqKey C) (entry_text entry) (server w))\<rparr>)"

definition getDlqEntries :: "dispatcher_config \<Rightarrow> 's redis option \<Rightarrow> nat \<Rightarrow> 's tq \<Rightarrow> dlq_entry list" where
  "getDlqEntries C R limit w = (case R of
     None \<Rightarrow> []
   | Some R \<Rightarrow> (let raw = LRANGE R (dlqKey C) (server w) in
       List.map_filter parse_entry (if limit = 0 then raw else take limit raw)))"

definition getDlqDepth :: "dispatcher_config \<Rightarrow> 's redis option \<Rightarrow> 's tq \<Rightarrow> nat" where
  "getDlqDepth C R w = (case R of None \<Rightarrow> 0 | Some R \<Rightarrow> length (LRANGE R (dlqKey C) (server w)))"

section \<open>Retrying\<close>

definition default_to :: "'a option \<Rightarrow> 'a \<Rightarrow> 'a" where
  "default_to x d = (case x of None \<Rightarrow> d | Some v \<Rightarrow> v)"

definition two_hours :: int where
  "two_hours = 2 * 60 * 60 * 1000"

text \<open>The number after the last colon.\<close>

definition last_part :: "string \<Rightarrow> string" where
  "last_part s = rev (takeWhile (\<lambda>c. c \<noteq> CHR '':'') (rev s))"

definition correlation_expired :: "int \<Rightarrow> dlq_entry \<Rightarrow> bool" where
  "correlation_expired now e \<longleftrightarrow> e_correlationId e \<noteq> [] \<and>
     (case js_Number (last_part (e_correlationId e)) of
        None \<Rightarrow> False
      | Some corrTs \<Rightarrow> corrTs > 1704067200000 \<and> corrTs < 1893456000000 \<and> now - corrTs > two_hours)"

definition failure_expired :: "runtime \<Rightarrow> int option \<Rightarrow> int \<Rightarrow> int \<Rightarrow> dlq_entry \<Rightarrow> bool" where
  "failure_expired E envMaxAge now retryCap e \<longleftrightarrow>
     (let maxAgeMs = (if retryCap > 0
            then (case envMaxAge of None \<Rightarrow> two_hours | Some n \<Rightarrow> if n = 0 then two_hours else n) else two_hours)
      in case truthy (e_failedAt e) of
           None \<Rightarrow> False
         | Some f \<Rightarrow> (case rt_date E f of None \<Rightarrow> False | Some failedAtMs \<Rightarrow> now - failedAtMs > maxAgeMs))"

text \<open>What the loop does with one stored text: keep it or its update (the flag tells that the
  list must be rebuilt), drop it, or retry it with the given count.\<close>

datatype dlq_action = DKeep string bool | DDrop | DRetry dlq_entry int

definition mark_permanent :: "int \<Rightarrow> int \<Rightarrow> dlq_entry \<Rightarrow> dlq_entry" where
  "mark_permanent retryCount maxRetries e =
     e\<lparr>e_permanent := Some True, e_retryCount := Some retryCount, e_maxRetries := Some maxRetries\<rparr>"

definition note_error :: "string \<Rightarrow> dlq_entry \<Rightarrow> dlq_entry" where
  "note_error note e = e\<lparr>e_error := Some (default_to (e_error e) ''unknown'' @ note)\<rparr>"

definition dlq_decide :: "runtime \<Rightarrow> int option \<Rightarrow> int \<Rightarrow> int \<Rightarrow> string \<Rightarrow> dlq_action" where
  "dlq_decide E envMaxAge now retryCap raw =
     (case parse_entry raw of
        None \<Rightarrow> DKeep raw False
      | Some e \<Rightarrow>
          (let retryCount = default_to (e_retryCount e) 0;
               maxRetries = default_to (e_maxRetries e) retryCap;
               nextRetryAt = or_else (e_nextRetryAt e) (e_failedAt e);
               permanent = default_to (e_permanent e) False;
               errorMessage = default_to (e_error e) ''unknown'';
               marked = mark_permanent retryCount maxRetries e
           in if permanent \<or> retryCount \<ge> maxRetries then
                (let failedAtMs = (case truthy (e_failedAt e) of None \<Rightarrow> Some 0 | Some f \<Rightarrow> rt_date E f);
                     ageMs = (case failedAtMs of None \<Rightarrow> 0 | Some f \<Rightarrow> if f > 0 then now - f else 0)
                 in if permanent \<and> ageMs > 24 * 60 * 60 * 1000 then DDrop
                    else if \<not> permanent then DKeep (entry_text (marked\<lparr>e_nextRetryAt := nextRetryAt\<rparr>)) True
                    else DKeep raw False)
              else if \<not> isRetryable errorMessage then DKeep (entry_text (marked\<lparr>e_nextRetryAt := nextRetryAt\<rparr>)) True
              else if correlation_expired now e
                then DKeep (entry_text (note_error '' [EXPIRED: correlation >2h old]'' marked)) True
              else if failure_expired E envMaxAge now retryCap e
                then DKeep (entry_text (note_error '' [EXPIRED: failedAt >2h old]'' marked)) True
              else (case nextRetryAt of
                  Some n \<Rightarrow> if n > rt_iso E now then DKeep raw False else DRetry e (retryCount + 1)
                | None \<Rightarrow> DRetry e (retryCount + 1))))"

text \<open>The parameters of the re-enqueued task.\<close>

definition retry_params :: "(string \<Rightarrow> int) option \<Rightarrow> dlq_entry \<Rightarrow> int \<Rightarrow> enqueue_params" where
  "retry_params getTimeoutForTask e retryCount =
     (params (e_taskName e) (e_priority e) (e_sourceEvent e) (default_to (e_triggerPayload e) (JObj [])))
       \<lparr>p_correlationId := Some (e_correlationId e), p_dlqRetryCount := Some retryCount,
        p_timeoutMs := map_option (\<lambda>f. f (e_taskName e)) getTimeoutForTask\<rparr>"

record dlq_pass =
  retried :: nat
  rebuildNeeded :: bool
  keep :: "string list"

fun retry_loop ::
  "dispatcher_config \<Rightarrow> 's redis \<Rightarrow> runtime \<Rightarrow> int option \<Rightarrow> int \<Rightarrow> int \<Rightarrow> (string \<Rightarrow> int) option \<Rightarrow> string list
     \<Rightarrow> dlq_pass \<Rightarrow> 's tq \<Rightarrow> dlq_pass \<times> 's tq" where
  "retry_loop C R E env now mr gt [] a w = (a, w)"
| "retry_loop C R E env now mr gt (raw # raws) a w = (case dlq_decide E env now mr raw of
     DKeep x rebuild \<Rightarrow> retry_loop C R E env now mr gt raws
       (a\<lparr>keep := keep a @ [x], rebuildNeeded := rebuildNeeded a \<or> rebuild\<rparr>) w
   | DDrop \<Rightarrow> retry_loop C R E env now mr gt raws (a\<lparr>rebuildNeeded := True\<rparr>) w
   | DRetry e n \<Rightarrow> retry_loop C R E env now mr gt raws (a\<lparr>retried := retried a + 1\<rparr>)
       (snd (tq_enqueue C (Some R) E now (retry_params gt e n) w)))"

definition rebuild_list :: "'s redis \<Rightarrow> string \<Rightarrow> string list \<Rightarrow> 's \<Rightarrow> 's" where
  "rebuild_list R key xs s = (let s1 = snd (DEL R key s) in if xs \<noteq> [] then RPUSH R key xs s1 else s1)"

definition retryEligibleDlqEntries ::
  "dispatcher_config \<Rightarrow> 's redis option \<Rightarrow> runtime \<Rightarrow> int option \<Rightarrow> int \<Rightarrow> int \<Rightarrow> (string \<Rightarrow> int) option \<Rightarrow> 's tq \<Rightarrow> nat \<times> 's tq" where
  "retryEligibleDlqEntries C R E envMaxAge now retryCap getTimeoutForTask w = (case R of
     None \<Rightarrow> (0, w)
   | Some R \<Rightarrow> (let allRaw = LRANGE R (dlqKey C) (server w) in
       if allRaw = [] then (0, w)
       else let (a, w1) = retry_loop C R E envMaxAge now retryCap getTimeoutForTask allRaw
                  \<lparr>retried = 0, rebuildNeeded = False, keep = []\<rparr> w
            in (retried a, if retried a > 0 \<or> rebuildNeeded a
                  then w1\<lparr>server := rebuild_list R (dlqKey C) (keep a) (server w1)\<rparr> else w1)))"

section \<open>Draining\<close>

record drain_options =
  retryAll :: bool
  purgeBefore :: "string option"
  dryRun :: bool
  drainMaxRetries :: "int option"
  getTimeoutForTask :: "(string \<Rightarrow> int) option"

definition permanent_error :: "string option \<Rightarrow> bool" where
  "permanent_error err = (case err of None \<Rightarrow> False | Some m \<Rightarrow>
     list_ex (str_includes (to_lower m)) [''missing repo'', ''auth fail'', ''not found'', ''forbidden''])"

definition timeout_error :: "string option \<Rightarrow> bool" where
  "timeout_error err = (case err of None \<Rightarrow> False | Some m \<Rightarrow> str_includes (to_lower m) ''timeout'')"

datatype drain_action = Archive | Retry dlq_entry | Leave

definition drain_decide :: "runtime \<Rightarrow> int option \<Rightarrow> drain_options \<Rightarrow> string \<Rightarrow> drain_action" where
  "drain_decide E purgeBeforeMs opts raw = (case parse_entry raw of
     None \<Rightarrow> Archive
   | Some e \<Rightarrow>
       (let failedAtMs = (case e_failedAt e of None \<Rightarrow> None | Some f \<Rightarrow> rt_date E f);
            retryCount = default_to (e_retryCount e) 0
        in if (case (failedAtMs, purgeBeforeMs) of (Some f, Some p) \<Rightarrow> f < p | _ \<Rightarrow> False) then Archive
           else if permanent_error (e_error e) \<or> default_to (e_permanent e) False then Archive
           else if (timeout_error (e_error e) \<or> retryAll opts) \<and> retryCount < default_to (drainMaxRetries opts) 3
             then Retry e
           else Leave))"

definition drain_params :: "drain_options \<Rightarrow> dlq_entry \<Rightarrow> enqueue_params" where
  "drain_params opts e =
     (params (e_taskName e) P3_BACKGROUND (e_sourceEvent e) (default_to (e_triggerPayload e) (JObj [])))
       \<lparr>p_correlationId := Some (e_correlationId e),
        p_timeoutMs := map_option (\<lambda>f. f (e_taskName e)) (getTimeoutForTask opts)\<rparr>"

record drain_pass =
  d_retried :: nat
  d_purged :: nat
  d_keep :: "string list"
  d_archive :: "string list"

fun drain_loop ::
  "dispatcher_config \<Rightarrow> 's redis \<Rightarrow> runtime \<Rightarrow> int \<Rightarrow> int option \<Rightarrow> drain_options \<Rightarrow> string list
     \<Rightarrow> drain_pass \<Rightarrow> 's tq \<Rightarrow> drain_pass \<times> 's tq" where
  "drain_loop C R E now pb opts [] a w = (a, w)"
| "drain_loop C R E now pb opts (raw # raws) a w = (case drain_decide E pb opts raw of
     Archive \<Rightarrow> drain_loop C R E now pb opts raws (a\<lparr>d_archive := d_archive a @ [raw], d_purged := d_purged a + 1\<rparr>) w
   | Retry e \<Rightarrow> drain_loop C R E now pb opts raws (a\<lparr>d_retried := d_retried a + 1\<rparr>)
       (if dryRun opts then w else snd (tq_enqueue C (Some R) E now (drain_params opts e) w))
   | Leave \<Rightarrow> drain_loop C R E now pb opts raws (a\<lparr>d_keep := d_keep a @ [raw]\<rparr>) w)"

definition archive_key :: "dispatcher_config \<Rightarrow> string" where
  "archive_key C = dlqKey C @ '':archive''"

definition drainDlq ::
  "dispatcher_config \<Rightarrow> 's redis option \<Rightarrow> runtime \<Rightarrow> int \<Rightarrow> drain_options \<Rightarrow> 's tq \<Rightarrow> (nat \<times> nat) \<times> 's tq" where
  "drainDlq C R E now opts w = (case R of
     None \<Rightarrow> ((0, 0), w)
   | Some R \<Rightarrow> (let allRaw = LRANGE R (dlqKey C) (server w) in
       if allRaw = [] then ((0, 0), w)
       else let purgeBeforeMs = (case truthy (purgeBefore opts) of
                  Some d \<Rightarrow> rt_date E d | None \<Rightarrow> Some (now - 48 * 60 * 60 * 1000));
                (a, w1) = drain_loop C R E now purgeBeforeMs opts allRaw
                  \<lparr>d_retried = 0, d_purged = 0, d_keep = [], d_archive = []\<rparr> w;
                s1 = rebuild_list R (dlqKey C) (d_keep a) (server w1);
                s2 = (if d_archive a \<noteq> []
                      then EXPIRE R (archive_key C) (7 * 24 * 60 * 60) (RPUSH R (archive_key C) (d_archive a) s1) else s1)
            in ((d_retried a, d_purged a),
                if \<not> dryRun opts \<and> (d_retried a > 0 \<or> d_purged a > 0) then w1\<lparr>server := s2\<rparr> else w1)))"

section \<open>Recovery of orphaned tasks\<close>

text \<open>
  One key the scan delivers.  The scan's keys are an argument of the recovery: a scan may deliver a key
  more than once.  The outcome tells whether a task was recovered; \<open>None\<close> if reading the hash throws.
\<close>

definition recover_one ::
  "dispatcher_config \<Rightarrow> 's redis \<Rightarrow> runtime \<Rightarrow> int \<Rightarrow> (string \<Rightarrow> int) option \<Rightarrow> string \<Rightarrow> 's tq \<Rightarrow> bool option \<times> 's tq" where
  "recover_one C R E now gt key w =
     (let data = HGETALL R key (server w); d = map_of data in
      if data = [] then (Some False, w)
      else case truthy (d ''state'') of
        None \<Rightarrow> (Some False, w)
      | Some state \<Rightarrow>
          (if state \<noteq> QUEUED \<and> state \<noteq> ASSIGNED \<and> state \<noteq> RUNNING then (Some False, w)
           else
             (let createdAt = (case truthy (d ''createdAt'') of None \<Rightarrow> Some 0 | Some c \<Rightarrow> rt_date E c);
                  stale = (case createdAt of None \<Rightarrow> False | Some c \<Rightarrow> now - c > completedTaskTtlSecs C * 1000)
              in if stale then (Some False, w\<lparr>server := EXPIRE R key 60 (server w)\<rparr>)
                 else case deserializeTask d of
                   None \<Rightarrow> (None, w)
                 | Some task \<Rightarrow>
                     (let zsetKey = priorityKey C (bt_priority task) in
                      if state = QUEUED \<and> ZSCORE R zsetKey (bt_id task) (server w) \<noteq> None then (Some False, w)
                      else
                        (let fields = [(''state'', QUEUED), (''workerId'', ''''), (''assignedAt'', '''')]
                               @ (case gt of None \<Rightarrow> [] | Some f \<Rightarrow> [(''timeoutMs'', dec_int (f (bt_taskName task)))]);
                             (score, w1) = computeScore now w
                         in (Some True, w1\<lparr>server := ZADD R zsetKey score (bt_id task) (HSET R key fields (server w1))\<rparr>))))))"

fun recover_keys ::
  "dispatcher_config \<Rightarrow> 's redis \<Rightarrow> runtime \<Rightarrow> int \<Rightarrow> (string \<Rightarrow> int) option \<Rightarrow> string list \<Rightarrow> nat \<Rightarrow> 's tq \<Rightarrow> nat option \<times> 's tq" where
  "recover_keys C R E now gt [] n w = (Some n, w)"
| "recover_keys C R E now gt (key # keys) n w = (case recover_one C R E now gt key w of
     (None, w1) \<Rightarrow> (None, w1)
   | (Some b, w1) \<Rightarrow> recover_keys C R E now gt keys (if b then n + 1 else n) w1)"

definition recoverOrphaned ::
  "dispatcher_config \<Rightarrow> 's redis option \<Rightarrow> runtime \<Rightarrow> int \<Rightarrow> (string \<Rightarrow> int) option \<Rightarrow> string list \<Rightarrow> 's tq \<Rightarrow> nat option \<times> 's tq" where
  "recoverOrphaned C R E now gt scanned w = (case R of
     None \<Rightarrow> (Some 0, w)
   | Some R \<Rightarrow> recover_keys C R E now gt scanned 0 w)"

end
