(* ===== verification/Worker.thy ===== *)
theory Worker
  imports DeadLetters
begin

text \<open>
  Drain classification and startup flush (\<open>packages/core/src/builder/deploy-state.ts\<close>) and the worker
  (\<open>packages/core/src/builder/worker.ts\<close>) as a state machine.  A worker's \<open>execute\<close> is split at its
  awaits: the events are a call of \<open>execute\<close>, the timer, the settlement of the executor, a call of
  \<open>stop\<close>, and the microtask in which an abort without a timeout returns.  The executor and the
  router behind it are outside the model; the number of executor promises not yet settled is part of the
  state, since the worker is meant to stay busy while one is.
\<close>

section \<open>Deploy state\<close>

datatype failure_reason = Sigterm | Timeout_reason | Error_reason | Circuit_breaker_reason

definition TERMINAL_STATES :: "string set" where
  "TERMINAL_STATES = {COMPLETED, FAILED, TIMEOUT, SKIPPED, REQUEUED}"

definition classifyDrainTermination :: "string \<Rightarrow> string \<times> failure_reason option" where
  "classifyDrainTermination currentState =
     (if currentState \<in> TERMINAL_STATES then (currentState, None) else (REQUEUED, Some Sigterm))"

definition isCountableFailure :: "string \<Rightarrow> failure_reason option \<Rightarrow> bool" where
  "isCountableFailure st reason =
     (if reason = Some Sigterm then False else st = FAILED \<or> st = TIMEOUT)"

text \<open>The scan of the startup flush: it deletes the stale unfinished hashes and collects their identifiers.\<close>

definition older_than :: "runtime \<Rightarrow> int \<Rightarrow> string option \<Rightarrow> bool" where
  "older_than E cutoff date = (case truthy date of None \<Rightarrow> False
     | Some d \<Rightarrow> (case rt_date E d of None \<Rightarrow> False | Some ms \<Rightarrow> ms > 0 \<and> ms < cutoff))"

fun flush_hashes :: "'s redis \<Rightarrow> runtime \<Rightarrow> string \<Rightarrow> int \<Rightarrow> string list \<Rightarrow> 's \<Rightarrow> string list \<times> 's" where
  "flush_hashes R E prefix cutoff [] s = ([], s)"
| "flush_hashes R E prefix cutoff (key # keys) s =
     (let d = map_of (HGETALL R key s) in
      case truthy (d ''state'') of
        None \<Rightarrow> flush_hashes R E prefix cutoff keys s
      | Some st \<Rightarrow>
          (if st \<in> TERMINAL_STATES then flush_hashes R E prefix cutoff keys s
           else if older_than E cutoff (d ''createdAt'') then
             (let (ids, s1) = flush_hashes R E prefix cutoff keys (snd (DEL R key s))
              in (drop (length prefix) key # ids, s1))
           else flush_hashes R E prefix cutoff keys s))"

fun zrem_all :: "'s redis \<Rightarrow> string \<Rightarrow> string list \<Rightarrow> 's \<Rightarrow> nat \<times> 's" where
  "zrem_all R key [] s = (0, s)"
| "zrem_all R key (m # ms) s = (let (n, s1) = ZREM R key m s; (k, s2) = zrem_all R key ms s1 in (n + k, s2))"

fun zrem_queues :: "'s redis \<Rightarrow> string list \<Rightarrow> string list \<Rightarrow> 's \<Rightarrow> nat \<times> 's" where
  "zrem_queues R [] ids s = (0, s)"
| "zrem_queues R (q # qs) ids s = (let (n, s1) = zrem_all R q ids s; (k, s2) = zrem_queues R qs ids s1 in (n + k, s2))"

record flush_result =
  tasksDeleted :: nat
  queueEntriesRemoved :: nat
  dlqEntriesRemoved :: nat

definition dlq_stale :: "runtime \<Rightarrow> int \<Rightarrow> string \<Rightarrow> bool" where
  "dlq_stale E cutoff raw = (case parse_entry raw of None \<Rightarrow> False | Some e \<Rightarrow> older_than E cutoff (e_failedAt e))"

definition flushStaleTaskState ::
  "'s redis \<Rightarrow> runtime \<Rightarrow> int \<Rightarrow> string list \<Rightarrow> string \<Rightarrow> string \<Rightarrow> string \<Rightarrow> int \<Rightarrow> 's \<Rightarrow> flush_result \<times> 's" where
  "flushStaleTaskState R E now scanned prefix queuePrefix dkey staleAgeMs s =
     (let cutoff = now - staleAgeMs;
          (ids, s1) = flush_hashes R E prefix cutoff scanned s;
          (removed, s2) = (if ids \<noteq> []
             then zrem_queues R (map (\<lambda>p. queuePrefix @ '':'' @ p) [''P0'', ''P1'', ''P2'', ''P3'']) ids s1 else (0, s1));
          raws = LRANGE R dkey s2;
          kept = filter (\<lambda>raw. \<not> dlq_stale E cutoff raw) raws;
          dropped = length raws - length kept;
          s3 = (if dropped > 0 then rebuild_list R dkey kept s2 else s2)
      in (\<lparr>tasksDeleted = length ids, queueEntriesRemoved = removed, dlqEntriesRemoved = dropped\<rparr>, s3))"

section \<open>The worker\<close>

datatype worker_status = Idle | Busy | Stopping

record worker_handle =
  wh_id :: string
  wh_state :: worker_status
  wh_currentTaskId :: "string option"
  wh_taskStartedAt :: "string option"
  wh_abort :: "bool option"

text \<open>\<open>wh_abort\<close>: no controller, or one with its aborted flag.\<close>

record worker_result =
  wr_taskId :: string
  wr_state :: string
  wr_error :: "string option"
  wr_failureReason :: "failure_reason option"

text \<open>Where \<open>execute\<close> is: not running, in the race of executor and abort signal, rejected by an abort that is
  no timeout, or (after the timeout) waiting for the executor to settle.\<close>

datatype worker_phase = NotRunning | Racing builder_task | Rejected builder_task | Draining builder_task

record worker =
  handle :: worker_handle
  phase :: worker_phase
  draining :: bool
  unsettled :: nat

definition new_worker :: "string \<Rightarrow> worker" where
  "new_worker uuid = \<lparr>handle = \<lparr>wh_id = ''worker-'' @ take 8 uuid, wh_state = Idle, wh_currentTaskId = None,
     wh_taskStartedAt = None, wh_abort = None\<rparr>, phase = NotRunning, draining = False, unsettled = 0\<rparr>"

definition isIdle :: "worker \<Rightarrow> bool" where
  "isIdle w \<longleftrightarrow> wh_state (handle w) = Idle"

definition isBusy :: "worker \<Rightarrow> bool" where
  "isBusy w \<longleftrightarrow> wh_state (handle w) = Busy"

text \<open>How an executor promise settles: with a record (its status and error), or rejected with a message.\<close>

datatype settlement = Resolved string "string option" | Thrown string

text \<open>\<open>execute\<close> up to the race; \<open>None\<close> is the error that the worker is not idle.\<close>

definition worker_execute :: "string \<Rightarrow> builder_task \<Rightarrow> worker \<Rightarrow> worker option" where
  "worker_execute now_iso task w =
     (if wh_state (handle w) \<noteq> Idle then None
      else Some (w\<lparr>handle := (handle w)\<lparr>wh_state := Busy, wh_currentTaskId := Some (bt_id task),
                    wh_taskStartedAt := Some now_iso, wh_abort := Some False\<rparr>,
                  phase := Racing task, unsettled := unsettled w + 1\<rparr>))"

text \<open>The \<open>finally\<close> block of \<open>execute\<close>.\<close>

definition release_worker :: "worker \<Rightarrow> worker" where
  "release_worker w = w\<lparr>handle := (handle w)\<lparr>wh_state := Idle, wh_currentTaskId := None, wh_taskStartedAt := None,
     wh_abort := None\<rparr>, phase := NotRunning\<rparr>"

definition timeout_message :: "builder_task \<Rightarrow> string" where
  "timeout_message task = ''Task timed out after '' @ dec_int (bt_timeoutMs task) @ ''ms''"

definition settled_result :: "builder_task \<Rightarrow> settlement \<Rightarrow> worker_result" where
  "settled_result task x = (case x of
     Resolved status err \<Rightarrow> \<lparr>wr_taskId = bt_id task, wr_state = (if status \<noteq> ''failed'' then COMPLETED else FAILED),
       wr_error = err, wr_failureReason = None\<rparr>
   | Thrown msg \<Rightarrow> \<lparr>wr_taskId = bt_id task, wr_state = FAILED, wr_error = Some msg, wr_failureReason = Some Error_reason\<rparr>)"

definition aborted_result :: "bool \<Rightarrow> builder_task \<Rightarrow> worker_result" where
  "aborted_result timedOut task = \<lparr>wr_taskId = bt_id task, wr_state = (if timedOut then TIMEOUT else FAILED),
     wr_error = Some (timeout_message task), wr_failureReason = Some (if timedOut then Timeout_reason else Error_reason)\<rparr>"

definition worker_stop :: "worker \<Rightarrow> worker" where
  "worker_stop w =
     (let w1 = (case wh_abort (handle w) of
            None \<Rightarrow> w
          | Some aborted \<Rightarrow> w\<lparr>handle := (handle w)\<lparr>wh_abort := Some True\<rparr>,
              phase := (case phase w of Racing task \<Rightarrow> if aborted then Racing task else Rejected task | p \<Rightarrow> p)\<rparr>)
      in w1\<lparr>handle := (handle w1)\<lparr>wh_state := Stopping\<rparr>\<rparr>)"

definition worker_shutdown :: "worker \<Rightarrow> worker_result option \<times> worker" where
  "worker_shutdown w =
     (let w1 = w\<lparr>draining := True\<rparr> in
      case wh_currentTaskId (handle w1) of
        None \<Rightarrow> (None, w1)
      | Some tid \<Rightarrow>
          (if tid = [] \<or> wh_state (handle w1) \<noteq> Busy then (None, w1)
           else let (newState, reason) = classifyDrainTermination RUNNING
                in (Some \<lparr>wr_taskId = tid, wr_state = newState, wr_error = Some ''Worker shutdown (SIGTERM)'',
                      wr_failureReason = reason\<rparr>, w1)))"

section \<open>The worker as a state machine\<close>

datatype worker_event =
    Execute builder_task
  | TimerFires
  | ExecutorSettles settlement
  | AbandonedSettles
  | StopCalled
  | RejectionReturns

text \<open>
  A step, with the result \<open>execute\<close> returns in it; \<open>None\<close> if the event cannot happen.  The timer rejects the
  race and the worker waits; a stop rejects it too, and the rejection returns without waiting.  An
  executor promise the worker no longer waits for settles as \<open>AbandonedSettles\<close>.
\<close>

fun worker_step :: "worker_event \<Rightarrow> worker \<Rightarrow> (worker_result option \<times> worker) option" where
  "worker_step (Execute task) w = map_option (\<lambda>w1. (None, w1)) (worker_execute '''' task w)"
| "worker_step TimerFires w = (case phase w of
     Racing task \<Rightarrow> Some (None, w\<lparr>handle := (handle w)\<lparr>wh_abort := Some True\<rparr>, phase := Draining task\<rparr>)
   | _ \<Rightarrow> None)"
| "worker_step (ExecutorSettles x) w = (case phase w of
     Racing task \<Rightarrow> Some (Some (settled_result task x), release_worker (w\<lparr>unsettled := unsettled w - 1\<rparr>))
   | Draining task \<Rightarrow> Some (Some (aborted_result True task), release_worker (w\<lparr>unsettled := unsettled w - 1\<rparr>))
   | _ \<Rightarrow> None)"
| "worker_step AbandonedSettles w =
     (if unsettled w > (case phase w of Racing _ \<Rightarrow> 1 | Draining _ \<Rightarrow> 1 | _ \<Rightarrow> 0) then Some (None, w\<lparr>unsettled := unsettled w - 1\<rparr>)
      else None)"
| "worker_step StopCalled w = Some (None, worker_stop w)"
| "worker_step RejectionReturns w = (case phase w of
     Rejected task \<Rightarrow> Some (Some (aborted_result False task), release_worker w)
   | _ \<Rightarrow> None)"

inductive worker_reach :: "bool \<Rightarrow> worker \<Rightarrow> bool" for stops :: bool where
  start: "worker_reach stops (new_worker uuid)"
| step: "worker_reach stops w \<Longrightarrow> worker_step ev w = Some (r, w1) \<Longrightarrow> ev = StopCalled \<longrightarrow> stops \<Longrightarrow> worker_reach stops w1"

inductive_cases worker_reachE: "worker_reach stops w"

text \<open>Without stops: idle exactly when not running, and an executor promise is pending exactly while busy.\<close>

definition worker_inv :: "worker \<Rightarrow> bool" where
  "worker_inv w \<longleftrightarrow> (case phase w of
     NotRunning \<Rightarrow> wh_state (handle w) = Idle \<and> unsettled w = 0 \<and> wh_currentTaskId (handle w) = None
   | Racing task \<Rightarrow> wh_state (handle w) = Busy \<and> unsettled w = 1 \<and> wh_currentTaskId (handle w) = Some (bt_id task)
       \<and> wh_abort (handle w) = Some False
   | Draining task \<Rightarrow> wh_state (handle w) = Busy \<and> unsettled w = 1 \<and> wh_currentTaskId (handle w) = Some (bt_id task)
   | Rejected task \<Rightarrow> False)"

lemma worker_step_inv:
  "worker_inv w \<Longrightarrow> worker_step ev w = Some (r, w1) \<Longrightarrow> ev \<noteq> StopCalled \<Longrightarrow> worker_inv w1"
  by (cases ev) (auto simp: worker_inv_def worker_execute_def release_worker_def split: worker_phase.splits if_splits)

lemma worker_reach_inv: "worker_reach False w \<Longrightarrow> worker_inv w"
proof (induction rule: worker_reach.induct)
  case (start uuid)
  show ?case by (simp add: worker_inv_def new_worker_def)
next
  case (step w ev r w1)
  then show ?case using worker_step_inv by blast
qed

section \<open>Properties\<close>

text \<open>
  As long as nobody stops it, a worker has at most one executor promise pending, and shows idle only when none is:
  a timed-out task keeps its worker busy until the executor has settled.
\<close>
theorem worker_busy_while_executing:
  assumes "worker_reach False w"
  shows "unsettled w \<le> 1 \<and> (isIdle w \<longleftrightarrow> unsettled w = 0) \<and> (isBusy w \<longleftrightarrow> unsettled w = 1)"
  using worker_reach_inv [OF assms]
  by (auto simp: worker_inv_def isIdle_def isBusy_def split: worker_phase.splits)

definition sample_task :: builder_task where
  "sample_task = \<lparr>bt_id = ''t1'', bt_priority = 2, bt_state = QUEUED, bt_taskName = ''implement_issue'',
     bt_triggerPayload = JObj [], bt_sourceEvent = ''manual'', bt_correlationId = ''c1'', bt_workerId = None,
     bt_createdAt = ''0'', bt_assignedAt = None, bt_completedAt = None, bt_error = None, bt_timeoutMs = 600000,
     bt_dlqRetryCount = None, bt_timeoutRetryCount = None, bt_modelOverride = None, bt_sessionId = None,
     bt_threadId = None, bt_executorHint = None, bt_harness = None, bt_sessionModel = None, bt_prompt = None,
     bt_repoPath = None, bt_steerInstruction = None, bt_steerContext = None\<rparr>"

definition after_timeout :: worker where
  "after_timeout = (let w = the (worker_execute '''' sample_task (new_worker ''abc''))
     in w\<lparr>handle := (handle w)\<lparr>wh_abort := Some True\<rparr>, phase := Draining sample_task\<rparr>)"

lemma after_timeout_reach: "worker_reach False after_timeout"
proof -
  have "worker_reach False (the (worker_execute '''' sample_task (new_worker ''abc'')))"
    by (rule worker_reach.step [OF worker_reach.start [of False "''abc''"], where ev = "Execute sample_task" and r = None])
      (simp_all add: worker_execute_def new_worker_def)
  from worker_reach.step [OF this, where ev = TimerFires and r = None] show ?thesis
    by (simp add: after_timeout_def worker_execute_def new_worker_def)
qed

theorem worker_busy_while_executing_witness:
  "unsettled after_timeout = 1 \<and> isBusy after_timeout \<and> \<not> isIdle after_timeout"
proof -
  have "unsettled after_timeout = 1" by (simp add: after_timeout_def worker_execute_def new_worker_def)
  with worker_busy_while_executing [OF after_timeout_reach] show ?thesis by simp
qed

text \<open>
  A stop breaks this: whatever task it runs, a stopped worker returns a failure and shows idle while its executor is
  still running, and accepts another task, so that two executors of one worker run at once.
\<close>
theorem stopped_worker_runs_two:
  assumes "worker_reach False w" and "phase w = Racing task"
  shows "\<exists>w1 w2. worker_step StopCalled w = Some (None, worker_stop w)
    \<and> worker_step RejectionReturns (worker_stop w) = Some (Some (aborted_result False task), w1)
    \<and> isIdle w1 \<and> unsettled w1 = 1
    \<and> worker_execute now_iso task2 w1 = Some w2 \<and> unsettled w2 = 2"
proof -
  from worker_reach_inv [OF assms(1)] assms(2) have w: "unsettled w = 1" "wh_abort (handle w) = Some False"
    by (simp_all add: worker_inv_def)
  let ?w1 = "release_worker (worker_stop w)"
  have ph: "phase (worker_stop w) = Rejected task" "unsettled (worker_stop w) = 1"
    using w assms(2) by (simp_all add: worker_stop_def Let_def)
  then have "isIdle ?w1" "unsettled ?w1 = 1"
    by (simp_all add: release_worker_def isIdle_def)
  moreover from this have "\<exists>w2. worker_execute now_iso task2 ?w1 = Some w2 \<and> unsettled w2 = 2"
    by (simp add: worker_execute_def isIdle_def)
  ultimately show ?thesis using ph by auto
qed

theorem stopped_worker_runs_two_witness:
  "\<exists>w1. worker_step RejectionReturns (worker_stop (the (worker_execute '''' sample_task (new_worker ''abc''))))
     = Some (Some (aborted_result False sample_task), w1) \<and> isIdle w1 \<and> unsettled w1 = 1"
proof -
  let ?w = "the (worker_execute '''' sample_task (new_worker ''abc''))"
  have "worker_reach False ?w"
    by (rule worker_reach.step [OF worker_reach.start [of False "''abc''"], where ev = "Execute sample_task" and r = None])
      (simp_all add: worker_execute_def new_worker_def)
  moreover have "phase ?w = Racing sample_task" by (simp add: worker_execute_def new_worker_def)
  ultimately show ?thesis using stopped_worker_runs_two by blast
qed

end
