(* ===== verification/ProjectCircuit.thy ===== *)
theory ProjectCircuit
  imports Worker
begin

text \<open>
  The project-level circuit breaker of the dispatcher (\<open>packages/core/src/builder/dispatcher.ts\<close>, lines 95 to 104
  and 1320 to 1545): which project a payload belongs to, the failure times per project with their caps, the
  check, the sweep, the manual reset and the list of open circuits.  Payloads are JSON objects.
\<close>

section \<open>Reading payloads\<close>

definition jprop :: "json \<Rightarrow> string \<Rightarrow> json" where
  "jprop j k = (case j of JObj kvs \<Rightarrow> (case map_of kvs k of Some v \<Rightarrow> v | None \<Rightarrow> JUndef) | _ \<Rightarrow> JUndef)"

definition nullish :: "json \<Rightarrow> bool" where
  "nullish j \<longleftrightarrow> j = JUndef \<or> j = JNull"

text \<open>\<open>a ?? b\<close>, truthiness and \<open>String(x)\<close>.\<close>

definition coalesce :: "json \<Rightarrow> json \<Rightarrow> json" where
  "coalesce a b = (if nullish a then b else a)"

fun jtruthy :: "json \<Rightarrow> bool" where
  "jtruthy JUndef = False"
| "jtruthy JNull = False"
| "jtruthy (JBool b) = b"
| "jtruthy (JNum n) = (n \<noteq> 0)"
| "jtruthy (JStr s) = (s \<noteq> [])"
| "jtruthy _ = True"

function js_String :: "json \<Rightarrow> string" where
  "js_String JUndef = ''undefined''"
| "js_String JNull = ''null''"
| "js_String (JBool b) = (if b then ''true'' else ''false'')"
| "js_String (JNum n) = dec_int n"
| "js_String (JStr s) = s"
| "js_String (JArr xs) = join '','' (map (\<lambda>x. if nullish x then '''' else js_String x) xs)"
| "js_String (JObj kvs) = ''[object Object]''"
  by pat_completeness auto
termination
  by (relation "measure size") (auto dest: json_size_item)

section \<open>Project keys\<close>

definition extractProjectKey :: "json \<Rightarrow> string option" where
  "extractProjectKey payload =
     (let projectId = jprop payload ''project_id'';
          repo = coalesce (coalesce (coalesce (jprop payload ''repo'') (jprop payload ''repository'')) (jprop payload ''repo_full'')) (JStr '''');
          issueNumber = coalesce (jprop payload ''issue_number'') (jprop payload ''issueNumber'');
          prNumber = coalesce (jprop payload ''pr_number'') (jprop payload ''prNumber'');
          branch = jprop payload ''branch''
      in if jtruthy projectId then Some (''project:'' @ js_String projectId)
         else if jtruthy repo \<and> jtruthy issueNumber then Some (''issue:'' @ js_String repo @ ''#'' @ js_String issueNumber)
         else if jtruthy repo \<and> jtruthy prNumber then Some (''pr:'' @ js_String repo @ ''#'' @ js_String prNumber)
         else if jtruthy repo \<and> jtruthy branch then Some (''ci:'' @ js_String repo @ '':'' @ js_String branch)
         else None)"

section \<open>Failure times\<close>

type_synonym circuits = "(string, int list) jsmap"

definition PROJECT_CB_WINDOW_MS :: int where "PROJECT_CB_WINDOW_MS = 2 * 60 * 60 * 1000"
definition PROJECT_CB_THRESHOLD :: nat where "PROJECT_CB_THRESHOLD = 3"
definition PROJECT_CB_MAX_TRACKED :: nat where "PROJECT_CB_MAX_TRACKED = 100"

definition recent_failures :: "int \<Rightarrow> int list \<Rightarrow> int list" where
  "recent_failures now ts = filter (\<lambda>t. now - t < PROJECT_CB_WINDOW_MS) ts"

definition isProjectCircuitOpen :: "int \<Rightarrow> json \<Rightarrow> circuits \<Rightarrow> bool \<times> circuits" where
  "isProjectCircuitOpen now payload m = (case extractProjectKey payload of
     None \<Rightarrow> (False, m)
   | Some key \<Rightarrow> (case mget m key of
       None \<Rightarrow> (False, m)
     | Some failures \<Rightarrow>
         (let recent = recent_failures now failures;
              m1 = (if length recent \<noteq> length failures
                    then (if recent = [] then mdelete key m else mset_at key recent m) else m)
          in (length recent \<ge> PROJECT_CB_THRESHOLD, m1))))"

text \<open>The key with the smallest latest time, the first of them in insertion order; an empty list counts as time 0.\<close>

definition latest :: "int list \<Rightarrow> int" where
  "latest ts = (if ts = [] then 0 else last ts)"

fun oldest_key :: "circuits \<Rightarrow> (string \<times> int) option \<Rightarrow> string option" where
  "oldest_key [] best = map_option fst best"
| "oldest_key ((k, ts) # m) best = oldest_key m (case best of
     None \<Rightarrow> Some (k, latest ts)
   | Some (b, t) \<Rightarrow> if latest ts < t then Some (k, latest ts) else best)"

definition cap_failures :: "int list \<Rightarrow> int list" where
  "cap_failures ts = (if length ts > 20 then drop (length ts - 20) ts else ts)"

definition recordProjectFailure :: "int \<Rightarrow> json \<Rightarrow> circuits \<Rightarrow> circuits" where
  "recordProjectFailure now payload m = (case extractProjectKey payload of
     None \<Rightarrow> m
   | Some key \<Rightarrow>
       (let failures = (case mget m key of None \<Rightarrow> [] | Some ts \<Rightarrow> ts) @ [now];
            m1 = mset_at key (cap_failures failures) m
        in if length m1 > PROJECT_CB_MAX_TRACKED
           then (case oldest_key m1 None of Some k \<Rightarrow> (if k \<noteq> [] then mdelete k m1 else m1) | None \<Rightarrow> m1)
           else m1))"

fun sweepProjectCircuits :: "int \<Rightarrow> circuits \<Rightarrow> circuits" where
  "sweepProjectCircuits now [] = []"
| "sweepProjectCircuits now ((k, ts) # m) =
     (let recent = recent_failures now ts in
      if recent = [] then sweepProjectCircuits now m else (k, recent) # sweepProjectCircuits now m)"

definition resetProjectCircuit :: "string \<Rightarrow> circuits \<Rightarrow> bool \<times> circuits" where
  "resetProjectCircuit key m = (mhas m key, mdelete key m)"

fun getOpenCircuits :: "int \<Rightarrow> circuits \<Rightarrow> (string \<times> nat \<times> int) list" where
  "getOpenCircuits now [] = []"
| "getOpenCircuits now ((k, ts) # m) =
     (let recent = recent_failures now ts; rest = getOpenCircuits now m in
      if length recent \<ge> PROJECT_CB_THRESHOLD then (k, length recent, now - fold min recent (hd recent)) # rest else rest)"

section \<open>Correlation age\<close>

definition correlationAgeMs :: "int \<Rightarrow> string \<Rightarrow> int option" where
  "correlationAgeMs now correlationId =
     (let lastPart = last_part correlationId in
      if lastPart = [] then None
      else case js_Number lastPart of
        None \<Rightarrow> None
      | Some ts \<Rightarrow> (if ts < 1704067200000 \<or> ts > 1893456000000 then None else Some (now - ts)))"

section \<open>Bounds\<close>

definition circuits_ok :: "circuits \<Rightarrow> bool" where
  "circuits_ok m \<longleftrightarrow> distinct (map fst m) \<and> length m \<le> PROJECT_CB_MAX_TRACKED
     \<and> list_all (\<lambda>(k, ts). k \<noteq> [] \<and> length ts \<le> 20) m"

lemma length_mset_at: "length (mset_at k v m) = (if mhas m k then length m else Suc (length m))"
  by (simp add: mset_at_def mhas_def mget_def) (induction m; auto)

lemma length_mdelete: "distinct (map fst m) \<Longrightarrow> mhas m k \<Longrightarrow> Suc (length (mdelete k m)) = length m"
proof (induction m)
  case (Cons a m)
  obtain l v where a: "a = (l, v)" by fastforce
  show ?case
  proof (cases "l = k")
    case True
    with Cons.prems a have "k \<notin> fst ` set m" by auto
    then have "AList.delete k m = m" by (simp add: delete_notin_dom)
    with a True show ?thesis by (simp add: mdelete_def)
  next
    case False
    with Cons a show ?thesis by (simp add: mdelete_def mhas_def)
  qed
qed (simp add: mhas_def)

lemma set_mset_at: "set (mset_at k v m) \<subseteq> insert (k, v) (set m)"
  by (simp add: mset_at_def) (induction m; auto)

lemma set_mdelete: "set (mdelete k m) \<subseteq> set m"
  by (simp add: mdelete_def) (induction m; auto)

lemma oldest_key_some: "m \<noteq> [] \<or> best \<noteq> None \<Longrightarrow> (\<forall>k t. best = Some (k, t) \<longrightarrow> k \<in> K) \<Longrightarrow> fst ` set m \<subseteq> K
    \<Longrightarrow> \<exists>k. oldest_key m best = Some k \<and> k \<in> K"
  by (induction m best rule: oldest_key.induct) (auto split: option.splits if_splits)

lemma record_ok:
  assumes ok: "circuits_ok m"
  shows "circuits_ok (recordProjectFailure now payload m)"
proof (cases "extractProjectKey payload")
  case (Some key)
  define m1 where "m1 = mset_at key (cap_failures ((case mget m key of None \<Rightarrow> [] | Some ts \<Rightarrow> ts) @ [now])) m"
  have key: "key \<noteq> []" using Some by (auto simp: extractProjectKey_def Let_def split: if_splits)
  have "length (cap_failures ts) \<le> 20" for ts by (simp add: cap_failures_def)
  with ok key have elems: "list_all (\<lambda>(k, ts). k \<noteq> [] \<and> length ts \<le> 20) m1" and d: "distinct (map fst m1)"
    using set_mset_at [of key _ m] by (fastforce simp: circuits_ok_def m1_def list_all_iff)+
  show ?thesis
  proof (cases "length m1 > PROJECT_CB_MAX_TRACKED")
    case False
    with Some elems d show ?thesis by (simp add: recordProjectFailure_def m1_def [symmetric] circuits_ok_def Let_def)
  next
    case True
    then have "m1 \<noteq> []" by auto
    with oldest_key_some [of m1 None "fst ` set m1"] obtain k where k: "oldest_key m1 None = Some k" "k \<in> fst ` set m1" by auto
    with elems have "k \<noteq> []" "mhas m1 k" by (auto simp: list_all_iff mhas_def mget_def map_of_eq_None_iff)
    with length_mdelete [OF d] have len: "Suc (length (mdelete k m1)) = length m1" by blast
    have "length m1 \<le> Suc PROJECT_CB_MAX_TRACKED" using ok by (simp add: m1_def length_mset_at circuits_ok_def)
    with len have "length (mdelete k m1) \<le> PROJECT_CB_MAX_TRACKED" by simp
    moreover have "list_all (\<lambda>(k, ts). k \<noteq> [] \<and> length ts \<le> 20) (mdelete k m1)"
      using elems set_mdelete [of k m1] by (auto simp: list_all_iff)
    ultimately have "circuits_ok (mdelete k m1)" using d by (simp add: circuits_ok_def)
    with True Some k \<open>k \<noteq> []\<close> show ?thesis by (simp add: recordProjectFailure_def m1_def [symmetric] Let_def)
  qed
qed (use ok in \<open>simp add: recordProjectFailure_def\<close>)

lemma check_ok: "circuits_ok m \<Longrightarrow> circuits_ok (snd (isProjectCircuitOpen now payload m))"
proof -
  assume ok: "circuits_ok m"
  have del: "circuits_ok (mdelete k m)" for k
  proof (cases "mhas m k")
    case True
    from ok have "distinct (map fst m)" by (simp add: circuits_ok_def)
    with length_mdelete [OF this True] ok set_mdelete [of k m] show ?thesis
      by (auto simp: circuits_ok_def list_all_iff)
  next
    case False
    then have "k \<notin> fst ` set m" by (auto simp: mhas_def mget_def map_of_eq_None_iff)
    with ok show ?thesis by (simp add: mdelete_def delete_notin_dom)
  qed
  have upd: "circuits_ok (mset_at k (recent_failures now ts) m)" if "mget m k = Some ts" for k ts
  proof -
    from that have "(k, ts) \<in> set m" by (simp add: mget_def map_of_SomeD)
    with ok have "k \<noteq> []" "length (recent_failures now ts) \<le> 20"
      using order_trans [OF length_filter_le] by (fastforce simp: circuits_ok_def list_all_iff recent_failures_def)+
    with ok that set_mset_at [of k "recent_failures now ts" m] show ?thesis
      by (fastforce simp: circuits_ok_def list_all_iff length_mset_at mhas_def)
  qed
  show ?thesis using ok del upd by (auto simp: isProjectCircuitOpen_def Let_def split: option.splits)
qed

lemma sweep_keys: "set (map fst (sweepProjectCircuits now m)) \<subseteq> set (map fst m)"
proof (induction m)
  case (Cons a m)
  obtain k ts where "a = (k, ts)" by fastforce
  with Cons show ?case unfolding set_map by (simp add: Let_def) blast
qed simp

lemma sweep_ok: "circuits_ok m \<Longrightarrow> circuits_ok (sweepProjectCircuits now m)"
proof -
  assume ok: "circuits_ok m"
  have "length (sweepProjectCircuits now m) \<le> length m"
    by (induction m) (auto simp: Let_def)
  moreover have "distinct (map fst m) \<Longrightarrow> distinct (map fst (sweepProjectCircuits now m))"
  proof (induction m)
    case (Cons a m)
    obtain k ts where "a = (k, ts)" by fastforce
    with Cons sweep_keys [of now m] show ?case by (simp add: Let_def) (metis set_map subsetD)
  qed simp
  moreover have "list_all (\<lambda>(k, ts). k \<noteq> [] \<and> length ts \<le> 20) m
      \<Longrightarrow> list_all (\<lambda>(k, ts). k \<noteq> [] \<and> length ts \<le> 20) (sweepProjectCircuits now m)"
    by (induction m) (auto simp: Let_def recent_failures_def intro: order_trans [OF length_filter_le])
  ultimately show ?thesis using ok by (simp add: circuits_ok_def)
qed

text \<open>The calls the dispatcher makes on the breaker.\<close>

datatype circuit_event = Check json | Failure json | Sweep | ResetKey string

fun circuit_step :: "int \<Rightarrow> circuit_event \<Rightarrow> circuits \<Rightarrow> circuits" where
  "circuit_step now (Check p) m = snd (isProjectCircuitOpen now p m)"
| "circuit_step now (Failure p) m = recordProjectFailure now p m"
| "circuit_step now Sweep m = sweepProjectCircuits now m"
| "circuit_step now (ResetKey k) m = snd (resetProjectCircuit k m)"

definition circuit_run :: "(int \<times> circuit_event) list \<Rightarrow> circuits" where
  "circuit_run evs = fold (\<lambda>(now, e) m. circuit_step now e m) evs []"

lemma circuit_step_ok: "circuits_ok m \<Longrightarrow> circuits_ok (circuit_step now e m)"
proof (cases e)
  case (ResetKey k)
  assume ok: "circuits_ok m"
  then have "length (mdelete k m) \<le> length m" "distinct (map fst (mdelete k m))"
    by (simp_all add: circuits_ok_def mdelete_def length_delete_le distinct_delete)
  with ok ResetKey set_mdelete [of k m] show ?thesis
    by (auto simp: circuits_ok_def list_all_iff resetProjectCircuit_def)
qed (simp_all add: check_ok record_ok sweep_ok)

text \<open>
  The memory of the project circuit breaker is bounded whatever the payloads and times: after any sequence of
  calls it tracks at most 100 projects, each once, with at most 20 failure times each.
\<close>
theorem circuit_memory_bounded:
  "circuits_ok (circuit_run evs)"
proof -
  have "circuits_ok m \<Longrightarrow> circuits_ok (fold (\<lambda>(now, e) m. circuit_step now e m) evs m)" for m
    by (induction evs arbitrary: m) (auto simp: circuit_step_ok)
  moreover have "circuits_ok []" by (simp add: circuits_ok_def)
  ultimately show ?thesis unfolding circuit_run_def by blast
qed

end
