(* ===== verification/Dispatcher.thy ===== *)
theory Dispatcher
  imports ProjectCircuit
begin

text \<open>
  The dispatcher (\<open>packages/core/src/builder/dispatcher.ts\<close>): event admission, dispatch to the worker
  pool, completion of a task, alert batching, flushing, metrics, shutdown.  Its state holds the queue (and in
  it the server), the pool, the flags and the histories.  A handler is one step: the model does not
  interleave two handlers at their awaits; \<open>dispatchNext\<close>, which the source starts without awaiting it, is
  a step of its own.  What the source sends out (alerts, registry updates, coordination events, the clean-up
  of a pull request) is appended to an output list; log lines and message texts are left out.
\<close>

datatype emission =
    Notify string string string "json option" "json option"
  | Slack string
  | Slack_batch "dlq_entry list"
  | Coord string string string
  | Cleanup json
  | Digest nat nat nat

text \<open>\<open>Notify\<close>: task, name, status, pull request and issue; \<open>Coord\<close>: event type, correlation and task.\<close>

record dispatcher_deps =
  dp_triggers :: "(string \<times> json option) list"
  dp_slack :: bool
  dp_registry :: bool
  dp_githubToken :: bool

record 's dispatcher =
  queue :: "'s tq"
  workers :: "worker list"
  d_running :: bool
  dispatching :: bool
  backpressureAlerted :: bool
  recentResults :: "worker_result list"
  recentTaskDurations :: "int list"
  dlqAlertBuffer :: "dlq_entry list"
  dlqAlertTimer :: bool
  dlqAlertHistory :: "(string \<times> int) list"
  projectFailures :: circuits
  outputs :: "emission list"

definition MAX_RECENT_RESULTS :: nat where "MAX_RECENT_RESULTS = 50"
definition MAX_DURATIONS :: nat where "MAX_DURATIONS = 50"
definition DLQ_BATCH_SIZE :: nat where "DLQ_BATCH_SIZE = 5"
definition DLQ_DEDUP_WINDOW_MS :: int where "DLQ_DEDUP_WINDOW_MS = 10 * 60 * 1000"
definition DLQ_DEDUP_THRESHOLD :: nat where "DLQ_DEDUP_THRESHOLD = 3"

definition new_dispatcher :: "dispatcher_config \<Rightarrow> (nat \<Rightarrow> string) \<Rightarrow> 's tq \<Rightarrow> 's dispatcher" where
  "new_dispatcher C worker_uuid q = \<lparr>queue = q, workers = map (\<lambda>i. new_worker (worker_uuid i)) [0..<maxConcurrentWorkers C],
     d_running = False, dispatching = False, backpressureAlerted = False, recentResults = [],
     recentTaskDurations = [], dlqAlertBuffer = [], dlqAlertTimer = False, dlqAlertHistory = [],
     projectFailures = [], outputs = []\<rparr>"

definition emit :: "emission \<Rightarrow> 's dispatcher \<Rightarrow> 's dispatcher" where
  "emit x d = d\<lparr>outputs := outputs d @ [x]\<rparr>"

section \<open>Small helpers\<close>

definition getTimeoutForTask :: "dispatcher_config \<Rightarrow> string \<Rightarrow> int" where
  "getTimeoutForTask C taskName = (case map_of
       [(''fix_ci_failure'', 30 * 60 * 1000), (''address_review_feedback'', 30 * 60 * 1000),
        (''address_human_review'', 30 * 60 * 1000), (''implement_issue'', 45 * 60 * 1000),
        (''implement_directive'', 45 * 60 * 1000), (''daily_standup'', 10 * 60 * 1000),
        (''self_reflection'', 10 * 60 * 1000)] taskName of
     Some t \<Rightarrow> t | None \<Rightarrow> defaultTimeoutMs C)"

definition resolveModelOverride :: "dispatcher_deps \<Rightarrow> string \<Rightarrow> json option" where
  "resolveModelOverride P taskName = (case find (\<lambda>t. fst t = taskName) (dp_triggers P) of
     None \<Rightarrow> None | Some t \<Rightarrow> snd t)"

definition notifyTaskRegistry :: "dispatcher_deps \<Rightarrow> string \<Rightarrow> string \<Rightarrow> string \<Rightarrow> json option \<Rightarrow> json option \<Rightarrow> 's dispatcher \<Rightarrow> 's dispatcher" where
  "notifyTaskRegistry P taskId taskName status pr issue d =
     (if dp_registry P then emit (Notify taskId taskName status pr issue) d else d)"

definition recordResult :: "worker_result \<Rightarrow> 's dispatcher \<Rightarrow> 's dispatcher" where
  "recordResult r d = (let rs = recentResults d @ [r] in
     d\<lparr>recentResults := (if length rs > MAX_RECENT_RESULTS then tl rs else rs)\<rparr>)"

definition record_duration :: "int \<Rightarrow> 's dispatcher \<Rightarrow> 's dispatcher" where
  "record_duration ms d = (let ds = recentTaskDurations d @ [ms] in
     d\<lparr>recentTaskDurations := (if length ds > MAX_DURATIONS then tl ds else ds)\<rparr>)"

definition issue_of :: "json \<Rightarrow> json" where
  "issue_of payload = coalesce (jprop payload ''issue_number'') (jprop payload ''issueNumber'')"

definition pr_of :: "json \<Rightarrow> json" where
  "pr_of payload = coalesce (jprop payload ''pr_number'') (jprop payload ''prNumber'')"

definition dedupKey :: "string \<Rightarrow> json \<Rightarrow> string option" where
  "dedupKey taskName payload =
     (let repo = coalesce (coalesce (jprop payload ''repo'') (jprop payload ''repository'')) (JStr '''');
          prNumber = js_String (coalesce (pr_of payload) (JStr ''''));
          issueNumber = js_String (coalesce (issue_of payload) (JStr ''''));
          sha = coalesce (coalesce (jprop payload ''sha'') (jprop payload ''head_sha'')) (JStr '''');
          identifier = (if prNumber \<noteq> [] then JStr prNumber else if issueNumber \<noteq> [] then JStr issueNumber else sha)
      in if \<not> jtruthy repo \<and> \<not> jtruthy identifier then None
         else Some (''dedup:'' @ taskName @ '':'' @ js_String repo @ '':'' @ js_String identifier))"

text \<open>\<open>SET key NX\<close> with an expiry, on the server inside the queue's state; without Redis everything is new.\<close>

definition set_new :: "'s redis option \<Rightarrow> string \<Rightarrow> int \<Rightarrow> 's dispatcher \<Rightarrow> bool \<times> 's dispatcher" where
  "set_new R key secs d = (case R of
     None \<Rightarrow> (True, d)
   | Some R \<Rightarrow> (let (isNew, s) = SETNX R key secs (server (queue d)) in (isNew, d\<lparr>queue := (queue d)\<lparr>server := s\<rparr>\<rparr>)))"

definition trySetDedup :: "'s redis option \<Rightarrow> string \<Rightarrow> 's dispatcher \<Rightarrow> bool \<times> 's dispatcher" where
  "trySetDedup R key d = set_new R key 3600 d"

section \<open>Backpressure\<close>

definition alertBackpressure :: "dispatcher_deps \<Rightarrow> 's dispatcher \<Rightarrow> 's dispatcher" where
  "alertBackpressure P d = (if backpressureAlerted d \<or> \<not> dp_slack P then d
     else emit (Slack ''backpressure'') (d\<lparr>backpressureAlerted := True\<rparr>))"

definition checkBackpressure ::
  "dispatcher_config \<Rightarrow> 's redis option \<Rightarrow> dispatcher_deps \<Rightarrow> int \<Rightarrow> 's dispatcher \<Rightarrow> bool \<times> 's dispatcher" where
  "checkBackpressure C R P priority d =
     (let depth = totalSize C R (queue d) in
      if depth \<ge> maxQueueDepth C then
        (if priority > P0_SAFETY then (True, alertBackpressure P d) else (False, d))
      else if depth \<ge> backpressureThreshold C then
        (if priority \<ge> P3_BACKGROUND then (True, alertBackpressure P d) else (False, d))
      else (False, d\<lparr>backpressureAlerted := False\<rparr>))"

section \<open>Admission of an event\<close>

record agent_event =
  ev_payload :: "json option"
  ev_correlationId :: "string option"

definition activeWorkers :: "'s dispatcher \<Rightarrow> nat" where
  "activeWorkers d = length (filter isBusy (workers d))"

text \<open>The guards before the queue, in order; each tells whether the event is rejected.\<close>

definition strategist_guard ::
  "dispatcher_config \<Rightarrow> 's redis option \<Rightarrow> dispatcher_deps \<Rightarrow> string \<Rightarrow> string \<Rightarrow> string \<Rightarrow> json \<Rightarrow> 's dispatcher \<Rightarrow> bool \<times> 's dispatcher" where
  "strategist_guard C R P eventKey taskName corr payload d =
     (if eventKey = ''strategist:builder_directive'' \<and> totalSize C R (queue d) + activeWorkers d \<ge> 5
      then (True, notifyTaskRegistry P corr taskName ''failed'' None (Some (issue_of payload))
                    (if dp_slack P then emit (Slack ''saturated'') d else d))
      else (False, d))"

definition review_guard :: "string \<Rightarrow> json \<Rightarrow> bool" where
  "review_guard taskName payload \<longleftrightarrow> taskName = ''address_review_feedback'' \<and>
     (jprop payload ''review_state'' = JStr ''approved''
      \<or> str_includes (js_String (coalesce (jprop payload ''comment_body'') (JStr ''''))) ''[APPROVED]''
      \<or> jprop payload ''pr_state'' = JStr ''closed'')"

definition stale_guard :: "dispatcher_config \<Rightarrow> int \<Rightarrow> string option \<Rightarrow> bool" where
  "stale_guard C now corr = (case truthy corr of None \<Rightarrow> False
     | Some c \<Rightarrow> (case correlationAgeMs now c of None \<Rightarrow> False | Some ms \<Rightarrow> ms > correlationMaxAgeMs C))"

definition corr_dedup_key :: "string \<Rightarrow> string" where
  "corr_dedup_key c = ''dedup:corr:'' @ c"

definition corr_dedup :: "'s redis option \<Rightarrow> string option \<Rightarrow> 's dispatcher \<Rightarrow> bool \<times> 's dispatcher" where
  "corr_dedup R corr d = (case truthy corr of
     Some c \<Rightarrow> (let (isNew, d1) = set_new R (corr_dedup_key c) 7200 d in (\<not> isNew, d1))
   | None \<Rightarrow> (False, d))"

definition task_dedup :: "'s redis option \<Rightarrow> string \<Rightarrow> json \<Rightarrow> 's dispatcher \<Rightarrow> bool \<times> 's dispatcher" where
  "task_dedup R taskName payload d = (case dedupKey taskName payload of
     Some k \<Rightarrow> (let (isNew, d1) = trySetDedup R k d in (\<not> isNew, d1))
   | None \<Rightarrow> (False, d))"

definition circuit_guard :: "dispatcher_deps \<Rightarrow> int \<Rightarrow> json \<Rightarrow> 's dispatcher \<Rightarrow> bool \<times> 's dispatcher" where
  "circuit_guard P now payload d =
     (let (isOpen, m) = isProjectCircuitOpen now payload (projectFailures d) in (isOpen, d\<lparr>projectFailures := m\<rparr>))"

definition cleanupCircuitBrokenPR :: "dispatcher_deps \<Rightarrow> json \<Rightarrow> 's dispatcher \<Rightarrow> 's dispatcher" where
  "cleanupCircuitBrokenPR P payload d =
     (if \<not> dp_githubToken P then d
      else if \<not> jtruthy (jprop payload ''owner'') \<or> \<not> jtruthy (coalesce (jprop payload ''repo'') (jprop payload ''repository''))
         \<or> \<not> jtruthy (pr_of payload) then d
      else emit (Cleanup payload) d)"

definition admission_params ::
  "dispatcher_config \<Rightarrow> dispatcher_deps \<Rightarrow> string \<Rightarrow> string \<Rightarrow> int \<Rightarrow> json \<Rightarrow> string option \<Rightarrow> enqueue_params" where
  "admission_params C P eventKey taskName priority payload corr =
     (params taskName priority eventKey payload)\<lparr>p_correlationId := corr,
        p_timeoutMs := Some (getTimeoutForTask C taskName), p_modelOverride := resolveModelOverride P taskName\<rparr>"

definition task_priority :: "dispatcher_config \<Rightarrow> string \<Rightarrow> int" where
  "task_priority C taskName = (case map_of (priorityMap C) taskName of Some p \<Rightarrow> p | None \<Rightarrow> P2_IMPLEMENTATION)"

definition handleEvent ::
  "dispatcher_config \<Rightarrow> 's redis option \<Rightarrow> runtime \<Rightarrow> dispatcher_deps \<Rightarrow> int \<Rightarrow> string \<Rightarrow> agent_event \<Rightarrow> 's dispatcher
     \<Rightarrow> builder_task option \<times> 's dispatcher" where
  "handleEvent C R E P now eventKey event d =
     (case map_of EVENT_TASK_MAP eventKey of
        None \<Rightarrow> (None, d)
      | Some taskName \<Rightarrow>
          (let priority = task_priority C taskName;
               payload = default_to (ev_payload event) (JObj []);
               corr = or_text (ev_correlationId event) '''';
               failed_issue = notifyTaskRegistry P corr taskName ''failed'' None (Some (issue_of payload));
               failed = notifyTaskRegistry P corr taskName ''failed'' None None;
               (saturated, d) = strategist_guard C R P eventKey taskName corr payload d
           in if saturated then (None, d)
           else if review_guard taskName payload then (None, d)
           else if stale_guard C now (ev_correlationId event) then (None, failed_issue d)
           else let (dup, d) = corr_dedup R (ev_correlationId event) d
           in if dup then (None, failed_issue d)
           else let (dup, d) = task_dedup R taskName payload d
           in if dup then (None, failed_issue d)
           else let (isOpen, d) = circuit_guard P now payload d
           in if isOpen then (None, cleanupCircuitBrokenPR P payload (failed d))
           else let (rejected, d) = checkBackpressure C R P priority d
           in if rejected then (None, failed d)
           else let (task, q) = tq_enqueue C R E now
                      (admission_params C P eventKey taskName priority payload (ev_correlationId event)) (queue d);
                    d = d\<lparr>queue := q\<rparr>
           in (Some task, emit (Coord ''requested'' (bt_correlationId task) (bt_id task)) d)))"

definition enqueueTask ::
  "dispatcher_config \<Rightarrow> 's redis option \<Rightarrow> runtime \<Rightarrow> dispatcher_deps \<Rightarrow> int \<Rightarrow> string \<Rightarrow> int option \<Rightarrow> json option
     \<Rightarrow> string option \<Rightarrow> int option \<Rightarrow> json option \<Rightarrow> string option \<Rightarrow> string option \<Rightarrow> 's dispatcher \<Rightarrow> builder_task \<times> 's dispatcher" where
  "enqueueTask C R E P now taskName priority triggerPayload corr timeoutMs modelOverride prompt executorHint d =
     (let p = (params taskName (default_to priority (task_priority C taskName)) ''manual'' (default_to triggerPayload (JObj [])))
            \<lparr>p_correlationId := corr, p_timeoutMs := Some (default_to timeoutMs (getTimeoutForTask C taskName)),
             p_modelOverride := or_else modelOverride (resolveModelOverride P taskName),
             p_prompt := prompt, p_executorHint := executorHint\<rparr>;
          (task, q) = tq_enqueue C R E now p (queue d)
      in (task, d\<lparr>queue := q\<rparr>))"

section \<open>Dispatch\<close>

text \<open>What a fleet pause re-enqueues of a task.\<close>

definition paused_params :: "builder_task \<Rightarrow> enqueue_params" where
  "paused_params t = (params (bt_taskName t) (bt_priority t) (bt_sourceEvent t) (bt_triggerPayload t))
     \<lparr>p_correlationId := Some (bt_correlationId t), p_timeoutMs := Some (bt_timeoutMs t),
      p_modelOverride := bt_modelOverride t, p_sessionId := bt_sessionId t, p_threadId := bt_threadId t,
      p_steerInstruction := bt_steerInstruction t\<rparr>"

definition state_update :: "string \<Rightarrow> task_updates" where
  "state_update st = \<lparr>u_state = Some st, u_workerId = None, u_error = None, u_assignedAt = None, u_completedAt = None\<rparr>"

text \<open>
  One pass of the loop: the first idle worker, if any, is given the next task, if any.  The flag tells
  whether the loop goes on; the started pair is the index of the worker and its task.  \<open>None\<close>: the dequeue
  throws, or does not return.
\<close>

fun first_idle :: "worker list \<Rightarrow> nat option" where
  "first_idle [] = None"
| "first_idle (w # ws) = (if isIdle w then Some 0 else map_option Suc (first_idle ws))"

datatype dispatch_outcome = Stop_loop | Started nat builder_task

definition dispatch_one ::
  "dispatcher_config \<Rightarrow> 's redis option \<Rightarrow> runtime \<Rightarrow> bool \<Rightarrow> int \<Rightarrow> 's dispatcher \<Rightarrow> (dispatch_outcome \<times> 's dispatcher) option" where
  "dispatch_one C R E paused now d = (case first_idle (workers d) of
     None \<Rightarrow> Some (Stop_loop, d)
   | Some i \<Rightarrow>
       (case tq_dequeue C R E now (queue d) of
          None \<Rightarrow> None
        | Some (None, q) \<Rightarrow> None
        | Some (Some None, q) \<Rightarrow> Some (Stop_loop, d\<lparr>queue := q\<rparr>)
        | Some (Some (Some task), q) \<Rightarrow>
            (if paused then Some (Stop_loop, d\<lparr>queue := snd (tq_enqueue C R E now (paused_params task) q)\<rparr>)
             else
               (let w = workers d ! i;
                    q1 = updateTask C R (bt_id task) ((state_update RUNNING)\<lparr>u_workerId := Some (wh_id (handle w))\<rparr>) q;
                    d1 = emit (Coord ''started'' (bt_correlationId task) (bt_id task)) (d\<lparr>queue := q1\<rparr>)
                in case worker_execute (rt_iso E now) task w of
                     None \<Rightarrow> None
                   | Some w1 \<Rightarrow> Some (Started i task, d1\<lparr>workers := (workers d1)[i := w1]\<rparr>)))))"

text \<open>The loop: it ends because every pass that goes on takes an idle worker; the bound is the size of the pool.\<close>

fun dispatch_loop ::
  "nat \<Rightarrow> dispatcher_config \<Rightarrow> 's redis option \<Rightarrow> runtime \<Rightarrow> bool \<Rightarrow> int \<Rightarrow> 's dispatcher
     \<Rightarrow> ((nat \<times> builder_task) list \<times> 's dispatcher) option" where
  "dispatch_loop 0 C R E paused now d = Some ([], d)"
| "dispatch_loop (Suc n) C R E paused now d = (case dispatch_one C R E paused now d of
     None \<Rightarrow> None
   | Some (Stop_loop, d1) \<Rightarrow> Some ([], d1)
   | Some (Started i task, d1) \<Rightarrow> map_option (\<lambda>(xs, d2). ((i, task) # xs, d2)) (dispatch_loop n C R E paused now d1))"

definition dispatchNext ::
  "dispatcher_config \<Rightarrow> 's redis option \<Rightarrow> runtime \<Rightarrow> bool \<Rightarrow> int \<Rightarrow> 's dispatcher \<Rightarrow> ((nat \<times> builder_task) list \<times> 's dispatcher) option" where
  "dispatchNext C R E paused now d =
     (if \<not> d_running d then Some ([], d)
      else if dispatching d then Some ([], d)
      else dispatch_loop (Suc (length (workers d))) C R E paused now d)"

section \<open>Alerts\<close>

definition flushDlqAlerts :: "dispatcher_deps \<Rightarrow> 's dispatcher \<Rightarrow> 's dispatcher" where
  "flushDlqAlerts P d =
     (let d1 = d\<lparr>dlqAlertTimer := False\<rparr>; entries = dlqAlertBuffer d1 in
      if entries = [] then d1
      else let d2 = d1\<lparr>dlqAlertBuffer := []\<rparr> in if dp_slack P then emit (Slack_batch entries) d2 else d2)"

definition bufferDlqAlert :: "dispatcher_deps \<Rightarrow> int \<Rightarrow> dlq_entry \<Rightarrow> 's dispatcher \<Rightarrow> 's dispatcher" where
  "bufferDlqAlert P now entry d =
     (let history = dropWhile (\<lambda>a. now - snd a > DLQ_DEDUP_WINDOW_MS) (dlqAlertHistory d);
          recentCount = length (filter (\<lambda>a. fst a = e_taskName entry) history);
          d1 = d\<lparr>dlqAlertHistory := history @ [(e_taskName entry, now)]\<rparr>
      in if recentCount \<ge> DLQ_DEDUP_THRESHOLD then d1
         else let d2 = d1\<lparr>dlqAlertBuffer := dlqAlertBuffer d1 @ [entry]\<rparr> in
           if length (dlqAlertBuffer d2) \<ge> DLQ_BATCH_SIZE then flushDlqAlerts P d2
           else d2\<lparr>dlqAlertTimer := True\<rparr>)"

section \<open>Completion of a task\<close>

text \<open>What an immediate retry after a timeout re-enqueues.\<close>

definition timeout_retry_params :: "builder_task \<Rightarrow> enqueue_params" where
  "timeout_retry_params t = (params (bt_taskName t) (bt_priority t) (bt_sourceEvent t) (bt_triggerPayload t))
     \<lparr>p_correlationId := Some (bt_correlationId t), p_timeoutMs := Some (bt_timeoutMs t),
      p_modelOverride := bt_modelOverride t, p_sessionId := bt_sessionId t, p_threadId := bt_threadId t,
      p_executorHint := bt_executorHint t, p_harness := bt_harness t, p_sessionModel := bt_sessionModel t,
      p_prompt := bt_prompt t, p_repoPath := bt_repoPath t, p_steerInstruction := bt_steerInstruction t,
      p_steerContext := bt_steerContext t, p_timeoutRetryCount := Some (default_to (bt_timeoutRetryCount t) 0 + 1)\<rparr>"

definition backoffMs :: "dispatcher_config \<Rightarrow> int \<Rightarrow> int" where
  "backoffMs C dlqRetryCount = min (dlqRetryIntervalMs C * 2 ^ nat dlqRetryCount) (30 * 60 * 1000)"

definition task_is_stale :: "dispatcher_config \<Rightarrow> int \<Rightarrow> builder_task \<Rightarrow> bool" where
  "task_is_stale C now t = (case truthy (Some (bt_correlationId t)) of None \<Rightarrow> False
     | Some c \<Rightarrow> (case correlationAgeMs now c of None \<Rightarrow> False | Some ms \<Rightarrow> ms > correlationMaxAgeMs C))"

definition failure_entry ::
  "dispatcher_config \<Rightarrow> runtime \<Rightarrow> int \<Rightarrow> int \<Rightarrow> builder_task \<Rightarrow> worker_result \<Rightarrow> dlq_entry" where
  "failure_entry C E now durationMs t r =
     (let dlqCount = default_to (bt_dlqRetryCount t) 0;
          isStale = task_is_stale C now t;
          message = default_to (wr_error r) ''timeout''
      in \<lparr>e_taskId = bt_id t, e_taskName = bt_taskName t, e_correlationId = bt_correlationId t,
          e_priority = bt_priority t, e_sourceEvent = bt_sourceEvent t,
          e_error = Some (if isStale then message @ '' [EXPIRED: correlation >2h old]'' else message),
          e_failedAt = Some (rt_iso E now), e_durationMs = Some durationMs, e_retryCount = Some dlqCount,
          e_nextRetryAt = Some (rt_iso E (now + backoffMs C dlqCount)), e_maxRetries = Some (dlqMaxRetries C),
          e_permanent = Some (isStale \<or> dlqCount \<ge> dlqMaxRetries C), e_triggerPayload = Some (bt_triggerPayload t)\<rparr>)"

definition clear_dedup :: "'s redis option \<Rightarrow> builder_task \<Rightarrow> 's dispatcher \<Rightarrow> 's dispatcher" where
  "clear_dedup R t d = (case (dedupKey (bt_taskName t) (bt_triggerPayload t), R) of
     (Some k, Some R) \<Rightarrow> d\<lparr>queue := (queue d)\<lparr>server := snd (DEL R k (server (queue d)))\<rparr>\<rparr>
   | _ \<Rightarrow> d)"

definition result_update :: "runtime \<Rightarrow> int \<Rightarrow> string \<Rightarrow> string option \<Rightarrow> task_updates" where
  "result_update E now st err = (state_update st)\<lparr>u_completedAt := Some (rt_iso E now), u_error := err\<rparr>"

text \<open>The failure branch: dead letter, project breaker, alert.\<close>

definition record_failure ::
  "dispatcher_config \<Rightarrow> 's redis option \<Rightarrow> runtime \<Rightarrow> dispatcher_deps \<Rightarrow> int \<Rightarrow> int \<Rightarrow> builder_task \<Rightarrow> worker_result
     \<Rightarrow> 's dispatcher \<Rightarrow> 's dispatcher" where
  "record_failure C R E P now durationMs t r d =
     (let entry = failure_entry C E now durationMs t r;
          d1 = d\<lparr>queue := pushToDlq C R entry (queue d)\<rparr>;
          d2 = (if isCountableFailure (wr_state r) (wr_failureReason r)
                then d1\<lparr>projectFailures := recordProjectFailure now (bt_triggerPayload t) (projectFailures d1)\<rparr> else d1)
      in bufferDlqAlert P now entry d2)"

definition runWorker_finished ::
  "dispatcher_config \<Rightarrow> 's redis option \<Rightarrow> runtime \<Rightarrow> dispatcher_deps \<Rightarrow> int \<Rightarrow> int \<Rightarrow> builder_task \<Rightarrow> worker_result
     \<Rightarrow> 's dispatcher \<Rightarrow> 's dispatcher" where
  "runWorker_finished C R E P startTime now t r d =
     (let d = d\<lparr>queue := updateTask C R (bt_id t) (result_update E now (wr_state r) (wr_error r)) (queue d)\<rparr>;
          d = recordResult r d;
          durationMs = now - startTime;
          d = record_duration durationMs d;
          d = clear_dedup R t d;
          issue = issue_of (bt_triggerPayload t);
          pr = pr_of (bt_triggerPayload t)
      in if wr_state r = SKIPPED then notifyTaskRegistry P (bt_id t) (bt_taskName t) ''completed'' None (Some issue) d
         else if wr_state r = TIMEOUT \<and> default_to (bt_timeoutRetryCount t) 0 < 1 \<and> \<not> task_is_stale C now t
             \<and> default_to (bt_dlqRetryCount t) 0 < dlqMaxRetries C
           then d\<lparr>queue := snd (tq_enqueue C R E now (timeout_retry_params t) (queue d))\<rparr>
         else
           (let d = (if wr_state r = FAILED \<or> wr_state r = TIMEOUT then record_failure C R E P now durationMs t r d else d);
                completed = (wr_state r = COMPLETED);
                d = emit (Coord (if completed then ''completed'' else ''failed'') (bt_correlationId t) (bt_id t)) d
            in notifyTaskRegistry P (bt_id t) (bt_taskName t) (if completed then ''completed'' else ''failed'') (Some pr) (Some issue) d))"

text \<open>The catch block: an unexpected error of the worker.\<close>

definition runWorker_threw ::
  "dispatcher_config \<Rightarrow> 's redis option \<Rightarrow> runtime \<Rightarrow> dispatcher_deps \<Rightarrow> int \<Rightarrow> builder_task \<Rightarrow> string \<Rightarrow> 's dispatcher \<Rightarrow> 's dispatcher" where
  "runWorker_threw C R E P now t errMsg d =
     (let d = d\<lparr>queue := updateTask C R (bt_id t) (result_update E now FAILED (Some errMsg)) (queue d)\<rparr>;
          d = emit (Coord ''failed'' (bt_correlationId t) (bt_id t)) d
      in notifyTaskRegistry P (bt_id t) (bt_taskName t) ''failed'' None (Some (issue_of (bt_triggerPayload t))) d)"

section \<open>Dead letters\<close>

definition retryDlqEntries ::
  "dispatcher_config \<Rightarrow> 's redis option \<Rightarrow> runtime \<Rightarrow> int option \<Rightarrow> int \<Rightarrow> 's dispatcher \<Rightarrow> 's dispatcher" where
  "retryDlqEntries C R E env now d =
     d\<lparr>queue := snd (retryEligibleDlqEntries C R E env now (dlqMaxRetries C) (Some (getTimeoutForTask C)) (queue d))\<rparr>"

definition dispatcher_drainDlq ::
  "dispatcher_config \<Rightarrow> 's redis option \<Rightarrow> runtime \<Rightarrow> int \<Rightarrow> bool \<Rightarrow> string option \<Rightarrow> bool \<Rightarrow> 's dispatcher \<Rightarrow> (nat \<times> nat) \<times> 's dispatcher" where
  "dispatcher_drainDlq C R E now everything before dry d =
     (let (n, q) = drainDlq C R E now \<lparr>retryAll = everything, purgeBefore = before, dryRun = dry,
          drainMaxRetries = Some (dlqMaxRetries C), getTimeoutForTask = Some (Dispatcher.getTimeoutForTask C)\<rparr> (queue d)
      in (n, d\<lparr>queue := q\<rparr>))"

section \<open>Flushing\<close>

definition flush_matches :: "string option \<Rightarrow> string option \<Rightarrow> string option \<Rightarrow> string option \<Rightarrow> bool" where
  "flush_matches wantName wantPattern name corr \<longleftrightarrow>
     (case truthy wantName of None \<Rightarrow> True | Some n \<Rightarrow> name = Some n)
     \<and> (case (truthy wantPattern, truthy corr) of (Some p, Some c) \<Rightarrow> str_includes c p | _ \<Rightarrow> True)"

fun flush_set ::
  "dispatcher_config \<Rightarrow> 's redis \<Rightarrow> string option \<Rightarrow> string option \<Rightarrow> string \<Rightarrow> string list \<Rightarrow> 's \<Rightarrow> nat \<times> 's" where
  "flush_set C R name pat key [] s = (0, s)"
| "flush_set C R name pat key (tid # tids) s =
     (let data = map_of (HGETALL R (taskKey C tid) s) in
      if truthy (data ''taskName'') = None then flush_set C R name pat key tids s
      else if flush_matches name pat (data ''taskName'') (data ''correlationId'') then
        (let s1 = snd (DEL R (taskKey C tid) (snd (ZREM R key tid s)));
             (n, s2) = flush_set C R name pat key tids s1 in (n + 1, s2))
      else flush_set C R name pat key tids s)"

fun flush_sets ::
  "dispatcher_config \<Rightarrow> 's redis \<Rightarrow> string option \<Rightarrow> string option \<Rightarrow> string list \<Rightarrow> 's \<Rightarrow> nat \<times> 's" where
  "flush_sets C R name pat [] s = (0, s)"
| "flush_sets C R name pat (p # ps) s =
     (let key = queueKey C @ '':'' @ p;
          (n, s1) = flush_set C R name pat key (map fst (ZRANGE R key s)) s;
          (m, s2) = flush_sets C R name pat ps s1 in (n + m, s2))"

definition flush_keeps :: "string option \<Rightarrow> string option \<Rightarrow> string \<Rightarrow> bool" where
  "flush_keeps name pat raw = (case parse_entry raw of None \<Rightarrow> True
     | Some e \<Rightarrow> \<not> flush_matches name pat (Some (e_taskName e)) (Some (e_correlationId e)))"

definition flushTasks ::
  "dispatcher_config \<Rightarrow> 's redis option \<Rightarrow> string option \<Rightarrow> string option \<Rightarrow> string option \<Rightarrow> bool \<Rightarrow> 's dispatcher
     \<Rightarrow> (nat \<times> nat) \<times> 's dispatcher" where
  "flushTasks C R name priority pat flushDlq d = (case R of
     None \<Rightarrow> ((0, 0), d)
   | Some R \<Rightarrow>
       (let priorities = (case truthy priority of Some p \<Rightarrow> [p] | None \<Rightarrow> [''P0'', ''P1'', ''P2'', ''P3'']);
            (n, s) = flush_sets C R name pat priorities (server (queue d));
            raws = LRANGE R (dlqKey C) s;
            keep = filter (flush_keeps name pat) raws;
            selective = (truthy name \<noteq> None \<or> truthy pat \<noteq> None);
            (m, s) = (if \<not> flushDlq then (0, s)
                      else if selective then
                        (length raws - length keep,
                         if length keep < length raws then rebuild_list R (dlqKey C) keep s else s)
                      else (length raws, snd (DEL R (dlqKey C) s)))
        in ((n, m), d\<lparr>queue := (queue d)\<lparr>server := s\<rparr>\<rparr>)))"

section \<open>Startup\<close>

text \<open>
  The clean-up before polling starts: recovery of orphans, then the flush of tasks older than four hours.  The two
  arguments are the keys that the two scans yield.  An exception of the recovery is caught, what it did until
  then stays.
\<close>

definition runStartupCleanup ::
  "dispatcher_config \<Rightarrow> 's redis option \<Rightarrow> runtime \<Rightarrow> int \<Rightarrow> string list \<Rightarrow> string list \<Rightarrow> 's dispatcher \<Rightarrow> 's dispatcher" where
  "runStartupCleanup C R E now scanned scanned2 d =
     (let q = snd (recoverOrphaned C R E now (Some (getTimeoutForTask C)) scanned (queue d)) in
      case R of
        None \<Rightarrow> d\<lparr>queue := q\<rparr>
      | Some R \<Rightarrow> d\<lparr>queue := q\<lparr>server := snd (flushStaleTaskState R E now scanned2 (taskKeyPrefix C) (queueKey C) (dlqKey C)
                                                  14400000 (server q))\<rparr>\<rparr>)"

text \<open>Starting, up to the installation of the timers.\<close>

definition dispatcher_start ::
  "dispatcher_config \<Rightarrow> 's redis option \<Rightarrow> runtime \<Rightarrow> int \<Rightarrow> string list \<Rightarrow> string list \<Rightarrow> 's dispatcher \<Rightarrow> 's dispatcher" where
  "dispatcher_start C R E now scanned scanned2 d =
     (if d_running d then d else runStartupCleanup C R E now scanned scanned2 (d\<lparr>d_running := True\<rparr>))"

section \<open>Shutdown\<close>

definition dispatcher_stop :: "dispatcher_deps \<Rightarrow> 's dispatcher \<Rightarrow> 's dispatcher" where
  "dispatcher_stop P d =
     (let d1 = flushDlqAlerts P (d\<lparr>d_running := False\<rparr>)
      in d1\<lparr>workers := map (\<lambda>w. if isBusy w then worker_stop w else w) (workers d1)\<rparr>)"

text \<open>
  The last phase of the graceful stop, one worker: a busy one has its task put back.  \<open>None\<close> if reading the
  task throws.
\<close>

definition drain_worker ::
  "dispatcher_config \<Rightarrow> 's redis option \<Rightarrow> int \<Rightarrow> worker \<Rightarrow> 's tq \<Rightarrow> (worker \<times> 's tq) option" where
  "drain_worker C R now w q =
     (if isBusy w then
        (case truthy (wh_currentTaskId (handle w)) of
           None \<Rightarrow> Some (w, q)
         | Some tid \<Rightarrow>
             (let (res, w1) = worker_shutdown w in
              case getTask C R tid q of
                None \<Rightarrow> None
              | Some None \<Rightarrow> Some (worker_stop w1, q)
              | Some (Some task) \<Rightarrow>
                  (let newState = (case res of Some r \<Rightarrow> (if wr_state r = REQUEUED then REQUEUED else QUEUED) | None \<Rightarrow> QUEUED);
                       task1 = task\<lparr>bt_state := newState, bt_workerId := None, bt_assignedAt := None\<rparr>;
                       q1 = updateTask C R (bt_id task1)
                              ((state_update newState)\<lparr>u_workerId := Some '''', u_assignedAt := Some ''''\<rparr>) q
                   in Some (w1, addToQueue C R now task1 q1))))
      else Some (w, q))"

fun drain_workers ::
  "dispatcher_config \<Rightarrow> 's redis option \<Rightarrow> int \<Rightarrow> worker list \<Rightarrow> 's tq \<Rightarrow> (worker list \<times> 's tq) option" where
  "drain_workers C R now [] q = Some ([], q)"
| "drain_workers C R now (w # ws) q = (case drain_worker C R now w q of
     None \<Rightarrow> None
   | Some (w1, q1) \<Rightarrow> map_option (\<lambda>(ws1, q2). (w1 # ws1, q2)) (drain_workers C R now ws q1))"

text \<open>The graceful stop before its wait for the workers, and after it.\<close>

definition stopGracefully_begin :: "dispatcher_deps \<Rightarrow> 's dispatcher \<Rightarrow> 's dispatcher" where
  "stopGracefully_begin P d = flushDlqAlerts P (d\<lparr>d_running := False\<rparr>)"

definition stopGracefully_end :: "dispatcher_config \<Rightarrow> 's redis option \<Rightarrow> int \<Rightarrow> 's dispatcher \<Rightarrow> 's dispatcher option" where
  "stopGracefully_end C R now d =
     map_option (\<lambda>(ws, q). d\<lparr>workers := ws, queue := q\<rparr>) (drain_workers C R now (workers d) (queue d))"

section \<open>Observability\<close>

record dispatcher_metrics =
  m_total :: nat
  m_idle :: nat
  m_busy :: nat
  m_queueTotal :: nat
  m_byPriority :: "nat list"
  m_completed :: nat
  m_failed :: nat
  m_timedOut :: nat
  m_requeued :: nat
  m_avg :: "int option"
  m_p95 :: "int option"
  m_dlqDepth :: nat
  m_dlqEntries :: "dlq_entry list"

definition count_results :: "string \<Rightarrow> 's dispatcher \<Rightarrow> nat" where
  "count_results st d = length (filter (\<lambda>r. wr_state r = st) (recentResults d))"

text \<open>\<open>Math.round\<close> of the mean, and the element at 95 percent of the sorted durations.\<close>

definition mean_round :: "int list \<Rightarrow> int" where
  "mean_round xs = (2 * sum_list xs + int (length xs)) div (2 * int (length xs))"

definition percentile_95 :: "int list \<Rightarrow> int option" where
  "percentile_95 xs = (let i = 95 * length xs div 100 in if i < length xs then Some (sort xs ! i) else None)"

definition getMetrics :: "dispatcher_config \<Rightarrow> 's redis option \<Rightarrow> 's dispatcher \<Rightarrow> dispatcher_metrics" where
  "getMetrics C R d =
     (let sizes = sizeByPriority C R (queue d); ds = recentTaskDurations d in
      \<lparr>m_total = length (workers d), m_idle = length (filter isIdle (workers d)), m_busy = activeWorkers d,
       m_queueTotal = sum_list sizes, m_byPriority = sizes, m_completed = count_results COMPLETED d,
       m_failed = count_results FAILED d, m_timedOut = count_results TIMEOUT d, m_requeued = count_results REQUEUED d,
       m_avg = (if ds = [] then None else Some (mean_round ds)), m_p95 = (if ds = [] then None else percentile_95 ds),
       m_dlqDepth = getDlqDepth C R (queue d), m_dlqEntries = getDlqEntries C R 10 (queue d)\<rparr>)"

definition calculateRecentTimeoutRate :: "'s dispatcher \<Rightarrow> rat" where
  "calculateRecentTimeoutRate d = (if recentResults d = [] then 0
     else of_nat (count_results TIMEOUT d) / of_nat (length (recentResults d)))"

definition isQueueHealthy :: "dispatcher_config \<Rightarrow> 's redis option \<Rightarrow> 's dispatcher \<Rightarrow> bool" where
  "isQueueHealthy C R d \<longleftrightarrow> totalSize C R (queue d) < backpressureThreshold C \<and> getDlqDepth C R (queue d) < 20
     \<and> calculateRecentTimeoutRate d < 1 / 2"

definition postDlqDigest :: "dispatcher_config \<Rightarrow> 's redis option \<Rightarrow> 's dispatcher \<Rightarrow> 's dispatcher" where
  "postDlqDigest C R d =
     (let m = getMetrics C R d in
      if m_dlqDepth m = 0 then d
      else let permanent = length (filter (\<lambda>e. e_permanent e = Some True) (m_dlqEntries m))
           in emit (Digest (m_dlqDepth m) (m_dlqDepth m - permanent) permanent) d)"

end
