(* ===== verification/TaskQueue_Levels.thy ===== *)
theory TaskQueue_Levels
  imports TaskQueue_Correct "HOL-Library.Multiset"
begin

text \<open>
  The contract of the builder's queue as a locale: one first-in-first-out list of task identifiers per
  priority level, an enqueue appends to its level, a dequeue takes the head of the most urgent level that
  is not empty.  Inside the locale whole runs are shown to follow a small specification; the
  in-memory queue and the Redis queue without promotion are instances.  A finer contract has the tasks themselves in the
  levels; the Redis queue keeps it in any configuration as long as no background task has waited for the promotion age.
\<close>

section \<open>Specification\<close>

type_synonym levels = "int \<Rightarrow> string list"

definition pop_spec :: "levels \<Rightarrow> (int \<times> string) option \<times> levels" where
  "pop_spec ids = (case find (\<lambda>p. ids p \<noteq> []) PRIORITY_LEVELS of
     None \<Rightarrow> (None, ids)
   | Some p \<Rightarrow> (Some (p, hd (ids p)), ids(p := tl (ids p))))"

datatype tq_event = Enq enqueue_params | Deq

text \<open>What \<open>enqueue\<close> accepts: a declared priority, and objects that are JSON data.\<close>

definition params_ok :: "enqueue_params \<Rightarrow> bool" where
  "params_ok p \<longleftrightarrow> p_priority p \<in> set PRIORITY_LEVELS \<and> json_plain (p_triggerPayload p)
     \<and> (case p_modelOverride p of None \<Rightarrow> True | Some j \<Rightarrow> json_plain j)
     \<and> (case p_steerContext p of None \<Rightarrow> True | Some j \<Rightarrow> json_plain j)"

fun event_ok :: "tq_event \<Rightarrow> bool" where
  "event_ok (Enq p) = params_ok p"
| "event_ok Deq = True"

definition draws :: "enqueue_params \<Rightarrow> nat" where
  "draws p = (if p_correlationId p = None then 2 else 1)"

text \<open>The answers of the dequeues of a run: the level and identifier of the task, or none.\<close>

fun spec_run :: "runtime \<Rightarrow> tq_event list \<Rightarrow> nat \<Rightarrow> levels \<Rightarrow> (int \<times> string) option list \<times> nat \<times> levels" where
  "spec_run E [] n ids = ([], n, ids)"
| "spec_run E (Enq p # es) n ids =
     spec_run E es (n + draws p) (ids(p_priority p := ids (p_priority p) @ [rt_uuid E n]))"
| "spec_run E (Deq # es) n ids =
     (let (x, ids1) = pop_spec ids; (xs, r) = spec_run E es n ids1 in (x # xs, r))"

fun q_run ::
  "(int \<Rightarrow> enqueue_params \<Rightarrow> 'q \<Rightarrow> builder_task \<times> 'q) \<Rightarrow> (int \<Rightarrow> 'q \<Rightarrow> (builder_task option option \<times> 'q) option)
     \<Rightarrow> (int \<times> tq_event) list \<Rightarrow> 'q \<Rightarrow> ((int \<times> string) option list \<times> 'q) option" where
  "q_run enq deq [] q = Some ([], q)"
| "q_run enq deq ((now, Enq p) # es) q = q_run enq deq es (snd (enq now p q))"
| "q_run enq deq ((now, Deq) # es) q = (case deq now q of
     Some (Some r, q1) \<Rightarrow> map_option (\<lambda>(xs, q2). (map_option (\<lambda>t. (bt_priority t, bt_id t)) r # xs, q2)) (q_run enq deq es q1)
   | _ \<Rightarrow> None)"

text \<open>The identifiers the enqueues of a run draw, and those its dequeues return, per level.\<close>

fun enqueued :: "runtime \<Rightarrow> int \<Rightarrow> tq_event list \<Rightarrow> nat \<Rightarrow> string list" where
  "enqueued E l [] n = []"
| "enqueued E l (Enq p # es) n = (if p_priority p = l then [rt_uuid E n] else []) @ enqueued E l es (n + draws p)"
| "enqueued E l (Deq # es) n = enqueued E l es n"

fun dequeued :: "int \<Rightarrow> (int \<times> string) option list \<Rightarrow> string list" where
  "dequeued l [] = []"
| "dequeued l (x # xs) = (case x of Some (p, m) \<Rightarrow> if p = l then [m] else [] | None \<Rightarrow> []) @ dequeued l xs"

lemma spec_run_account:
  "spec_run E es n ids = (xs, n', ids') \<Longrightarrow>
     dequeued l xs @ ids' l = ids l @ enqueued E l es n"
proof (induction E es n ids arbitrary: xs rule: spec_run.induct)
  case (3 E es n ids)
  obtain x ids1 where pop: "pop_spec ids = (x, ids1)" by fastforce
  obtain xs' where run: "spec_run E es n ids1 = (xs', n', ids')" and xs: "xs = x # xs'"
    using "3.prems" pop by (auto simp: Let_def split: prod.splits)
  from "3.IH" [OF pop [symmetric] refl run]
  have IH: "dequeued l xs' @ ids' l = ids1 l @ enqueued E l es n" .
  from pop have "(case x of Some (p, m) \<Rightarrow> if p = l then [m] else [] | None \<Rightarrow> []) @ ids1 l = ids l"
    by (auto simp: pop_spec_def find_Some_iff split: option.splits)
  with IH xs show ?case by (simp flip: append_assoc) simp
qed auto

section \<open>Contract\<close>

locale fifo_levels =
  fixes ok :: "int \<Rightarrow> 'q \<Rightarrow> bool"
    and ids :: "'q \<Rightarrow> levels"
    and drawn :: "'q \<Rightarrow> nat"
    and E :: runtime
    and enq :: "int \<Rightarrow> enqueue_params \<Rightarrow> 'q \<Rightarrow> builder_task \<times> 'q"
    and deq :: "int \<Rightarrow> 'q \<Rightarrow> (builder_task option option \<times> 'q) option"
  assumes ok_later: "ok t q \<Longrightarrow> t \<le> t' \<Longrightarrow> ok t' q"
    and enq_law: "ok now q \<Longrightarrow> params_ok p \<Longrightarrow> enq now p q = (task, q') \<Longrightarrow>
      ok now q' \<and> drawn q' = drawn q + draws p
      \<and> ids q' = (ids q)(p_priority p := ids q (p_priority p) @ [rt_uuid E (drawn q)])"
    and deq_law: "ok now q \<Longrightarrow> \<exists>r q'. deq now q = Some (Some r, q') \<and> ok now q' \<and> drawn q' = drawn q
      \<and> (map_option (\<lambda>t. (bt_priority t, bt_id t)) r, ids q') = pop_spec (ids q)"
begin

lemma run_follows_spec:
  assumes "ok t q" "sorted (t # map fst es)" "list_all (\<lambda>e. event_ok (snd e)) es"
  shows "\<exists>q'. q_run enq deq es q = Some (fst (spec_run E (map snd es) (drawn q) (ids q)), q')
    \<and> spec_run E (map snd es) (drawn q) (ids q) = (fst (spec_run E (map snd es) (drawn q) (ids q)), drawn q', ids q')"
  using assms
proof (induction es arbitrary: q t)
  case (Cons e es)
  obtain now ev where e: "e = (now, ev)" by fastforce
  from Cons.prems(1,2) e have ok: "ok now q" by (auto intro: ok_later)
  have srt: "sorted (now # map fst es)" using Cons.prems(2) e by auto
  have evs: "list_all (\<lambda>e. event_ok (snd e)) es" and ev: "event_ok ev" using Cons.prems(3) e by auto
  show ?case
  proof (cases ev)
    case (Enq p)
    obtain task q' where en: "enq now p q = (task, q')" by fastforce
    from ev Enq have "params_ok p" by simp
    from enq_law [OF ok this en] have ok': "ok now q'" and eq: "drawn q + draws p = drawn q'"
      "(ids q)(p_priority p := ids q (p_priority p) @ [rt_uuid E (drawn q)]) = ids q'" by simp_all
    from Cons.IH [OF ok' srt evs] show ?thesis
      unfolding e Enq list.map snd_conv q_run.simps spec_run.simps en eq .
  next
    case Deq
    from deq_law [OF ok] obtain r q' where dq: "deq now q = Some (Some r, q')" "ok now q'" "drawn q' = drawn q"
      and pop: "pop_spec (ids q) = (map_option (\<lambda>t. (bt_priority t, bt_id t)) r, ids q')" by (metis (no_types, lifting))
    from Cons.IH [OF dq(2) srt evs] e Deq dq pop show ?thesis
      by (auto simp: Let_def split: prod.splits)
  qed
qed simp

lemma run_fifo:
  assumes "ok t q" "sorted (t # map fst es)" "list_all (\<lambda>e. event_ok (snd e)) es"
  shows "\<exists>xs q'. q_run enq deq es q = Some (xs, q')
    \<and> (\<forall>l. dequeued l xs @ ids q' l = ids q l @ enqueued E l (map snd es) (drawn q))"
  using run_follows_spec [OF assms] spec_run_account by metis

end

section \<open>Whole tasks\<close>

text \<open>
  A finer contract: the levels hold the tasks themselves with their scores, and the answers are the tasks that an enqueue makes and
  a dequeue assigns.
\<close>

type_synonym task_levels = "int \<Rightarrow> (builder_task \<times> int) list"

definition made_task :: "runtime \<Rightarrow> int \<Rightarrow> enqueue_params \<Rightarrow> nat \<Rightarrow> builder_task" where
  "made_task E now p n = new_task E now (rt_uuid E n) (case p_correlationId p of Some c \<Rightarrow> c | None \<Rightarrow> rt_uuid E (n + 1)) p"

definition assigned :: "runtime \<Rightarrow> int \<Rightarrow> builder_task \<Rightarrow> builder_task" where
  "assigned E now t = t\<lparr>bt_state := ASSIGNED, bt_assignedAt := Some (rt_iso E now)\<rparr>"

definition pop_task :: "runtime \<Rightarrow> int \<Rightarrow> task_levels \<Rightarrow> builder_task option \<times> task_levels" where
  "pop_task E now lev = (case find (\<lambda>p. lev p \<noteq> []) PRIORITY_LEVELS of
     None \<Rightarrow> (None, lev)
   | Some p \<Rightarrow> (Some (assigned E now (fst (hd (lev p)))), lev(p := tl (lev p))))"

definition push_task :: "runtime \<Rightarrow> int \<Rightarrow> enqueue_params \<Rightarrow> nat \<Rightarrow> nat \<Rightarrow> task_levels \<Rightarrow> task_levels" where
  "push_task E now p n k lev = lev(p_priority p := lev (p_priority p) @ [(made_task E now p n, now * 1000 + int k)])"

text \<open>The answers of a run; \<open>n\<close> identifiers are drawn and \<open>k\<close> tasks scored before it.\<close>

fun task_spec :: "runtime \<Rightarrow> (int \<times> tq_event) list \<Rightarrow> nat \<Rightarrow> nat \<Rightarrow> task_levels \<Rightarrow> builder_task option list \<times> task_levels" where
  "task_spec E [] n k lev = ([], lev)"
| "task_spec E ((now, Enq p) # es) n k lev =
     map_prod ((#) (Some (made_task E now p n))) id (task_spec E es (n + draws p) (Suc k) (push_task E now p n k lev))"
| "task_spec E ((now, Deq) # es) n k lev =
     (let (r, lev1) = pop_task E now lev in map_prod ((#) r) id (task_spec E es n k lev1))"

text \<open>In a run no dequeue finds that a background task has waited the promotion age.\<close>

definition promotion_due :: "dispatcher_config \<Rightarrow> int \<Rightarrow> task_levels \<Rightarrow> bool" where
  "promotion_due C now lev \<longleftrightarrow> promotionAgeMs C \<noteq> 0
     \<and> (case lev P3_BACKGROUND of [] \<Rightarrow> False | (t, sc) # _ \<Rightarrow> promotionAgeMs C * 1000 \<le> now * 1000 - sc)"

fun never_due :: "dispatcher_config \<Rightarrow> runtime \<Rightarrow> (int \<times> tq_event) list \<Rightarrow> nat \<Rightarrow> nat \<Rightarrow> task_levels \<Rightarrow> bool" where
  "never_due C E [] n k lev \<longleftrightarrow> True"
| "never_due C E ((now, Enq p) # es) n k lev \<longleftrightarrow> never_due C E es (n + draws p) (Suc k) (push_task E now p n k lev)"
| "never_due C E ((now, Deq) # es) n k lev \<longleftrightarrow> \<not> promotion_due C now lev \<and> never_due C E es n k (snd (pop_task E now lev))"

fun task_run ::
  "(int \<Rightarrow> enqueue_params \<Rightarrow> 'q \<Rightarrow> builder_task \<times> 'q) \<Rightarrow> (int \<Rightarrow> 'q \<Rightarrow> (builder_task option option \<times> 'q) option)
     \<Rightarrow> (int \<times> tq_event) list \<Rightarrow> 'q \<Rightarrow> (builder_task option list \<times> 'q) option" where
  "task_run enq deq [] q = Some ([], q)"
| "task_run enq deq ((now, Enq p) # es) q = (let (t, q1) = enq now p q in map_option (map_prod ((#) (Some t)) id) (task_run enq deq es q1))"
| "task_run enq deq ((now, Deq) # es) q = (case deq now q of
     Some (Some r, q1) \<Rightarrow> map_option (map_prod ((#) r) id) (task_run enq deq es q1)
   | _ \<Rightarrow> None)"

text \<open>\<open>C\<close> is the configuration whose promotion the queue has to follow, if it is due.\<close>

locale task_fifo =
  fixes ok :: "int \<Rightarrow> 'q \<Rightarrow> bool"
    and lev :: "'q \<Rightarrow> task_levels"
    and drawn scored :: "'q \<Rightarrow> nat"
    and C :: dispatcher_config
    and E :: runtime
    and enq :: "int \<Rightarrow> enqueue_params \<Rightarrow> 'q \<Rightarrow> builder_task \<times> 'q"
    and deq :: "int \<Rightarrow> 'q \<Rightarrow> (builder_task option option \<times> 'q) option"
  assumes later: "ok t q \<Longrightarrow> t \<le> t' \<Longrightarrow> ok t' q"
    and push_law: "ok now q \<Longrightarrow> params_ok p \<Longrightarrow> enq now p q = (task, q') \<Longrightarrow>
      ok now q' \<and> drawn q' = drawn q + draws p \<and> scored q' = Suc (scored q) \<and> task = made_task E now p (drawn q)
      \<and> lev q' = push_task E now p (drawn q) (scored q) (lev q)"
    and pop_law: "ok now q \<Longrightarrow> \<not> promotion_due C now (lev q) \<Longrightarrow>
      \<exists>r q'. deq now q = Some (Some r, q') \<and> ok now q' \<and> drawn q' = drawn q \<and> scored q' = scored q \<and> (r, lev q') = pop_task E now (lev q)"
begin

lemma task_run_follows:
  assumes "ok t q" "sorted (t # map fst es)" "list_all (\<lambda>e. event_ok (snd e)) es" "never_due C E es (drawn q) (scored q) (lev q)"
  shows "\<exists>q'. task_run enq deq es q = Some (fst (task_spec E es (drawn q) (scored q) (lev q)), q')
    \<and> lev q' = snd (task_spec E es (drawn q) (scored q) (lev q))"
  using assms
proof (induction es arbitrary: q t)
  case (Cons e es)
  obtain now ev where e: "e = (now, ev)" by fastforce
  from Cons.prems(1,2) e have ok: "ok now q" by (auto intro: later)
  have srt: "sorted (now # map fst es)" using Cons.prems(2) e by auto
  have evs: "list_all (\<lambda>e. event_ok (snd e)) es" and ev: "event_ok ev" using Cons.prems(3) e by auto
  show ?case
  proof (cases ev)
    case (Enq p)
    obtain task q' where en: "enq now p q = (task, q')" by fastforce
    from ev Enq have "params_ok p" by simp
    note law = push_law [OF ok this en]
    with Cons.prems(4) e Enq have "never_due C E es (drawn q') (scored q') (lev q')" by simp
    from Cons.IH [OF conjunct1 [OF law] srt evs this] law show ?thesis by (auto simp: e Enq en)
  next
    case Deq
    with Cons.prems(4) e have "\<not> promotion_due C now (lev q)" by simp
    from pop_law [OF ok this] obtain r q' where dq: "deq now q = Some (Some r, q')" "ok now q'" "drawn q' = drawn q" "scored q' = scored q"
      and pop: "(r, lev q') = pop_task E now (lev q)" by blast
    from pop have "snd (pop_task E now (lev q)) = lev q'" by (metis snd_conv)
    with Cons.prems(4) e Deq dq have "never_due C E es (drawn q') (scored q') (lev q')" by simp
    from Cons.IH [OF dq(2) srt evs this] dq show ?thesis by (auto simp: e Deq pop [symmetric])
  qed
qed simp

end

section \<open>The in-memory queue\<close>

definition mem_ids :: "'s tq \<Rightarrow> levels" where
  "mem_ids w p = map (\<lambda>e. bt_id (fst e)) (filter (\<lambda>e. bt_priority (fst e) = p) (memQueue w))"

definition mem_ok :: "int \<Rightarrow> 's tq \<Rightarrow> bool" where
  "mem_ok t w \<longleftrightarrow> sorted (map (\<lambda>(t, sc). (bt_priority t, sc)) (memQueue w))
     \<and> (\<forall>(task, sc) \<in> set (memQueue w). bt_priority task \<in> set PRIORITY_LEVELS \<and> sc < t * 1000 + int (scoreCounter w))"

lemma pop_spec_some:
  "p \<in> set PRIORITY_LEVELS \<Longrightarrow> ids p = m # rest \<Longrightarrow> \<forall>l < p. ids l = [] \<Longrightarrow> pop_spec ids = (Some (p, m), ids(p := rest))"
  by (auto simp: pop_spec_def PRIORITY_LEVELS_def)

lemma pop_spec_none: "\<forall>p \<in> set PRIORITY_LEVELS. ids p = [] \<Longrightarrow> pop_spec ids = (None, ids)"
  by (auto simp: pop_spec_def PRIORITY_LEVELS_def)

lemma sorted_split: "sorted (map f q) \<Longrightarrow> filter (\<lambda>e. f e \<le> (k :: 'a :: linorder)) q @ filter (\<lambda>e. \<not> f e \<le> k) q = q"
proof (induction q)
  case (Cons e q)
  show ?case
  proof (cases "f e \<le> k")
    case True
    with Cons show ?thesis by simp
  next
    case False
    with Cons.prems have "\<forall>x \<in> set q. \<not> f x \<le> k" by auto
    then show ?thesis using False by (simp add: filter_True filter_empty_conv)
  qed
qed simp

abbreviation mem_key :: "builder_task \<times> int \<Rightarrow> int \<times> int" where
  "mem_key \<equiv> (\<lambda>(t, sc). (bt_priority t, sc))"

abbreviation entry_priority :: "builder_task \<times> int \<Rightarrow> int" where
  "entry_priority e \<equiv> bt_priority (fst e)"

lemma sorted_entry_priority: "sorted (map mem_key q) \<Longrightarrow> sorted (map entry_priority q)"
  by (induction q) (auto simp: less_eq_prod_def)

text \<open>An entry with the latest score goes behind those of its priority and before the less urgent ones.\<close>

lemma mem_sort_snoc:
  assumes srt: "sorted (map mem_key q)" and late: "\<forall>e \<in> set q. snd e < snd x"
  shows "mem_sort (q @ [x]) = filter (\<lambda>e. entry_priority e \<le> entry_priority x) q @ [x]
    @ filter (\<lambda>e. \<not> entry_priority e \<le> entry_priority x) q" (is "_ = ?A @ [x] @ ?B")
proof -
  have "sorted (map entry_priority q)" by (rule sorted_entry_priority [OF srt])
  from sorted_split [OF this] have split: "?A @ ?B = q" .
  have key: "mem_key e \<noteq> mem_key x" if "e \<in> set q" for e
    using late that by (cases e; cases x) auto
  show ?thesis unfolding mem_sort_def
  proof (rule properties_for_sort_key)
    have "mset (?A @ [x] @ ?B) = mset (?A @ ?B) + {#x#}" by simp
    then show "mset (?A @ [x] @ ?B) = mset (q @ [x])" unfolding split by simp
    have "sorted (map mem_key ?A)" "sorted (map mem_key ?B)" using srt by (auto intro: sorted_filter)
    moreover have "mem_key a \<le> mem_key x" if "a \<in> set ?A" for a
      using that late by (simp add: less_eq_prod_def case_prod_beta less_imp_le)
    moreover have "mem_key x \<le> mem_key b" if "b \<in> set ?B" for b
      using that by (simp add: less_eq_prod_def case_prod_beta)
    ultimately show "sorted (map mem_key (?A @ [x] @ ?B))"
      by (simp add: sorted_append)
  next
    fix k assume k: "k \<in> set (?A @ [x] @ ?B)"
    have "filter (\<lambda>e. mem_key k = mem_key e) (?A @ ?B) = filter (\<lambda>e. mem_key k = mem_key e) q" unfolding split ..
    moreover have none: "filter (\<lambda>e. mem_key x = mem_key e) zs = []" if "set zs \<subseteq> set q" for zs
      unfolding filter_empty_conv using key that by (metis subsetD)
    have "filter (\<lambda>e. mem_key x = mem_key e) ?A = []" "filter (\<lambda>e. mem_key x = mem_key e) ?B = []"
      "filter (\<lambda>e. mem_key x = mem_key e) q = []"
      by (rule none, simp)+
    ultimately show "filter (\<lambda>e. mem_key k = mem_key e) (?A @ [x] @ ?B) = filter (\<lambda>e. mem_key k = mem_key e) (q @ [x])"
      by (cases "mem_key k = mem_key x") (simp_all del: filter_filter)
  qed
qed


lemma set_mem_sort [simp]: "set (mem_sort q) = set q"
  by (simp add: mem_sort_def)

lemma sorted_mem_sort: "sorted (map mem_key (mem_sort q))"
  by (simp add: mem_sort_def)

lemma mem_enqueue_state:
  assumes ok: "mem_ok now w" and enq: "tq_enqueue C None E now p w = (task, w')"
  shows "task = made_task E now p (uuidsDrawn w)"
    "memQueue w' = mem_sort (memQueue w @ [(task, now * 1000 + int (scoreCounter w))])"
    "scoreCounter w' = scoreCounter w + 1" "uuidsDrawn w' = uuidsDrawn w + draws p"
    "filter (\<lambda>e. entry_priority e = l) (memQueue w') = filter (\<lambda>e. entry_priority e = l) (memQueue w)
       @ (if l = p_priority p then [(task, now * 1000 + int (scoreCounter w))] else [])"
proof -
  show task: "task = made_task E now p (uuidsDrawn w)"
    and w': "memQueue w' = mem_sort (memQueue w @ [(task, now * 1000 + int (scoreCounter w))])"
    "scoreCounter w' = scoreCounter w + 1" "uuidsDrawn w' = uuidsDrawn w + draws p"
    using enq by (auto simp: tq_enqueue_def randomUUID_def computeScore_def made_task_def draws_def Let_def split: option.splits)
  define x where "x = (task, now * 1000 + int (scoreCounter w))"
  have x: "entry_priority x = p_priority p" "snd x = now * 1000 + int (scoreCounter w)"
    by (simp_all add: x_def task made_task_def new_task_def)
  have "sorted (map mem_key (memQueue w))" and "\<forall>e \<in> set (memQueue w). snd e < snd x"
    using ok x(2) by (auto simp: mem_ok_def)
  from mem_sort_snoc [OF this] have q: "memQueue w' = filter (\<lambda>e. entry_priority e \<le> p_priority p) (memQueue w) @ [x]
    @ filter (\<lambda>e. \<not> entry_priority e \<le> p_priority p) (memQueue w)" unfolding w' x_def [symmetric] x(1) .
  have split: "filter (\<lambda>e. entry_priority e \<le> p_priority p) (memQueue w) @ filter (\<lambda>e. \<not> entry_priority e \<le> p_priority p) (memQueue w) = memQueue w"
    by (rule sorted_split [OF sorted_entry_priority]) (use ok in \<open>simp add: mem_ok_def\<close>)
  show "filter (\<lambda>e. entry_priority e = l) (memQueue w') = filter (\<lambda>e. entry_priority e = l) (memQueue w)
       @ (if l = p_priority p then [(task, now * 1000 + int (scoreCounter w))] else [])"
  proof (cases "l = p_priority p")
    case True
    have "filter (\<lambda>e. entry_priority e = l) (filter (\<lambda>e. entry_priority e \<le> p_priority p) (memQueue w))
        = filter (\<lambda>e. entry_priority e = l) (memQueue w)"
      unfolding filter_filter by (rule filter_cong) (auto simp: True)
    moreover have "filter (\<lambda>e. entry_priority e = l) (filter (\<lambda>e. \<not> entry_priority e \<le> p_priority p) (memQueue w)) = []"
      by (auto simp: filter_empty_conv True simp del: filter_filter)
    ultimately show ?thesis using True x by (simp add: q x_def del: filter_filter)
  next
    case False
    have "filter (\<lambda>e. entry_priority e = l) (memQueue w') = filter (\<lambda>e. entry_priority e = l)
      (filter (\<lambda>e. entry_priority e \<le> p_priority p) (memQueue w) @ filter (\<lambda>e. \<not> entry_priority e \<le> p_priority p) (memQueue w))"
      unfolding q using False x(1) by (simp del: filter_filter)
    with False show ?thesis unfolding split by simp
  qed
qed

lemma mem_enqueue_law:
  assumes ok: "mem_ok now w" and params: "params_ok p" and enq: "tq_enqueue C None E now p w = (task, w')"
  shows "mem_ok now w' \<and> uuidsDrawn w' = uuidsDrawn w + draws p
    \<and> mem_ids w' = (mem_ids w)(p_priority p := mem_ids w (p_priority p) @ [rt_uuid E (uuidsDrawn w)])"
proof -
  note st = mem_enqueue_state [OF ok enq]
  have task: "bt_id task = rt_uuid E (uuidsDrawn w)" "bt_priority task = p_priority p" by (simp_all add: st(1) made_task_def new_task_def)
  then have "mem_ids w' = (mem_ids w)(p_priority p := mem_ids w (p_priority p) @ [rt_uuid E (uuidsDrawn w)])"
    by (auto simp: fun_eq_iff mem_ids_def st(5))
  moreover have "mem_ok now w'"
    using ok params task sorted_mem_sort unfolding mem_ok_def st(2,3) by (fastforce simp: params_ok_def)
  ultimately show ?thesis using st(4) by blast
qed

definition mem_levels :: "'s tq \<Rightarrow> task_levels" where
  "mem_levels w p = (if p \<in> set PRIORITY_LEVELS then filter (\<lambda>e. entry_priority e = p) (memQueue w) else [])"

lemma mem_push_law:
  assumes ok: "mem_ok now w" and params: "params_ok p" and enq: "tq_enqueue C None E now p w = (task, w')"
  shows "mem_ok now w' \<and> uuidsDrawn w' = uuidsDrawn w + draws p \<and> scoreCounter w' = Suc (scoreCounter w)
    \<and> task = made_task E now p (uuidsDrawn w) \<and> mem_levels w' = push_task E now p (uuidsDrawn w) (scoreCounter w) (mem_levels w)"
proof -
  note st = mem_enqueue_state [OF ok enq]
  have "mem_levels w' = push_task E now p (uuidsDrawn w) (scoreCounter w) (mem_levels w)"
    using params by (auto simp: fun_eq_iff mem_levels_def push_task_def st(1) [symmetric] st(5) params_ok_def)
  with mem_enqueue_law [OF assms] st show ?thesis by simp
qed

lemma mem_pop_law:
  assumes ok: "mem_ok now w"
  shows "\<exists>r w'. tq_dequeue C None E now w = Some (Some r, w') \<and> mem_ok now w' \<and> uuidsDrawn w' = uuidsDrawn w
    \<and> scoreCounter w' = scoreCounter w \<and> (r, mem_levels w') = pop_task E now (mem_levels w)"
proof (cases "memQueue w")
  case Nil
  then have "mem_levels w p = []" for p by (simp add: mem_levels_def)
  then have "pop_task E now (mem_levels w) = (None, mem_levels w)" by (simp add: pop_task_def PRIORITY_LEVELS_def)
  with ok Nil show ?thesis by (simp add: tq_dequeue_def dequeueMemory_def)
next
  case (Cons e rest)
  obtain t sc where e: "e = (t, sc)" by fastforce
  let ?w = "w\<lparr>memQueue := rest, memTasks := mset_at (bt_id t) (assigned E now t) (memTasks w)\<rparr>"
  have deq: "tq_dequeue C None E now w = Some (Some (Some (assigned E now t)), ?w)"
    by (simp add: tq_dequeue_def dequeueMemory_def Cons e assigned_def Let_def)
  have level: "bt_priority t \<in> set PRIORITY_LEVELS" and least: "\<forall>x \<in> set rest. bt_priority t \<le> entry_priority x"
    using ok by (auto simp: mem_ok_def Cons e less_eq_prod_def)
  have head: "mem_levels w (bt_priority t) = (t, sc) # mem_levels ?w (bt_priority t)" using level by (simp add: mem_levels_def Cons e)
  have "mem_levels w l = []" if "l < bt_priority t" for l
    using that least by (auto simp: mem_levels_def Cons e filter_empty_conv)
  with head level have "find (\<lambda>p. mem_levels w p \<noteq> []) PRIORITY_LEVELS = Some (bt_priority t)"
    by (auto simp: PRIORITY_LEVELS_def)
  then have "pop_task E now (mem_levels w) = (Some (assigned E now t), (mem_levels w)(bt_priority t := mem_levels ?w (bt_priority t)))"
    by (simp add: pop_task_def head)
  moreover have "(mem_levels w)(bt_priority t := mem_levels ?w (bt_priority t)) = mem_levels ?w"
    by (auto simp: fun_eq_iff mem_levels_def Cons e)
  moreover have "mem_ok now ?w" using ok by (auto simp: mem_ok_def Cons e)
  ultimately show ?thesis using deq by simp
qed

lemma mem_dequeue_law:
  assumes ok: "mem_ok now w"
  shows "\<exists>r w'. tq_dequeue C None E now w = Some (Some r, w') \<and> mem_ok now w' \<and> uuidsDrawn w' = uuidsDrawn w
    \<and> (map_option (\<lambda>t. (bt_priority t, bt_id t)) r, mem_ids w') = pop_spec (mem_ids w)"
proof (cases "memQueue w")
  case Nil
  then have "mem_ids w p = []" for p by (simp add: mem_ids_def)
  with ok Nil show ?thesis by (simp add: tq_dequeue_def dequeueMemory_def pop_spec_none)
next
  case (Cons e rest)
  obtain t sc where e: "e = (t, sc)" by fastforce
  let ?t = "t\<lparr>bt_state := ASSIGNED, bt_assignedAt := Some (rt_iso E now)\<rparr>"
  let ?w = "w\<lparr>memQueue := rest, memTasks := mset_at (bt_id t) ?t (memTasks w)\<rparr>"
  have deq: "tq_dequeue C None E now w = Some (Some (Some ?t), ?w)"
    by (simp add: tq_dequeue_def dequeueMemory_def Cons e Let_def)
  have "mem_ok now ?w" using ok by (auto simp: mem_ok_def Cons e)
  moreover have "pop_spec (mem_ids w) = (Some (bt_priority t, bt_id t), (mem_ids w)(bt_priority t := mem_ids ?w (bt_priority t)))"
  proof (rule pop_spec_some)
    show "bt_priority t \<in> set PRIORITY_LEVELS" using ok by (simp add: mem_ok_def Cons e)
    show "mem_ids w (bt_priority t) = bt_id t # mem_ids ?w (bt_priority t)" by (simp add: mem_ids_def Cons e)
    have "\<forall>x \<in> set rest. bt_priority t \<le> entry_priority x"
      using ok by (auto simp: mem_ok_def Cons e less_eq_prod_def)
    then show "\<forall>l < bt_priority t. mem_ids w l = []" by (auto simp: mem_ids_def Cons e filter_empty_conv)
  qed
  moreover have "(mem_ids w)(bt_priority t := mem_ids ?w (bt_priority t)) = mem_ids ?w"
    by (auto simp: fun_eq_iff mem_ids_def Cons e)
  ultimately show ?thesis using deq by simp
qed

interpretation mem_queue: fifo_levels mem_ok mem_ids uuidsDrawn E "tq_enqueue C None E" "tq_dequeue C None E" for C E
proof unfold_locales
  show "mem_ok t' q" if "mem_ok t q" "t \<le> t'" for t t' and q :: "'a tq"
    using that by (fastforce simp: mem_ok_def)
qed (use mem_enqueue_law mem_dequeue_law in blast)+

interpretation mem_tasks: task_fifo mem_ok mem_levels uuidsDrawn scoreCounter C E "tq_enqueue D None E" "tq_dequeue D None E" for C D E
proof unfold_locales
  show "mem_ok t' q" if "mem_ok t q" "t \<le> t'" for t t' and q :: "'a tq"
    using that by (fastforce simp: mem_ok_def)
qed (use mem_push_law mem_pop_law in blast)+

end
