(* ===== verification/TaskQueue_Redis.thy ===== *)
theory TaskQueue_Redis
  imports TaskQueue_Levels
begin

text \<open>
  The Redis queue of the builder: a dequeue always returns; without promotion the queue keeps the contract of
  \<open>TaskQueue_Levels\<close> on any server that keeps its own; hence it answers like the in-memory queue while no promotion is due.
  With promotion, an old task of the lowest level is served before everything else.
\<close>

lemma priorityKey_inj [simp]: "priorityKey C p = priorityKey C q \<longleftrightarrow> p = q"
  by (auto simp: priorityKey_def dest: dec_int_inj)

lemma taskKey_inj [simp]: "taskKey C a = taskKey C b \<longleftrightarrow> a = b"
  by (simp add: taskKey_def)

definition red_ids :: "dispatcher_config \<Rightarrow> 's redis \<Rightarrow> 's tq \<Rightarrow> levels" where
  "red_ids C R w p = (if p \<in> set PRIORITY_LEVELS then map fst (ZRANGE R (priorityKey C p) (server w)) else [])"

text \<open>The task of an entry, as its hash reads back.\<close>

definition stored_task :: "dispatcher_config \<Rightarrow> 's redis \<Rightarrow> 's tq \<Rightarrow> string \<Rightarrow> builder_task" where
  "stored_task C R w m = the (deserializeTask (map_of (HGETALL R (taskKey C m) (server w))))"

definition red_levels :: "dispatcher_config \<Rightarrow> 's redis \<Rightarrow> 's tq \<Rightarrow> task_levels" where
  "red_levels C R w p = (if p \<in> set PRIORITY_LEVELS
     then map (\<lambda>z. (stored_task C R w (fst z), snd z)) (ZRANGE R (priorityKey C p) (server w)) else [])"

text \<open>The queue entries name tasks whose hashes read back, scores lie in the past, and the
  identifiers still to be drawn have no hash.\<close>

definition entry_stored :: "dispatcher_config \<Rightarrow> 's redis \<Rightarrow> runtime \<Rightarrow> 's tq \<Rightarrow> int \<Rightarrow> string \<Rightarrow> bool" where
  "entry_stored C R E w p m \<longleftrightarrow> (\<exists>n < uuidsDrawn w. m = rt_uuid E n)
     \<and> (\<exists>task. deserializeTask (map_of (HGETALL R (taskKey C m) (server w))) = Some task \<and> bt_id task = m \<and> bt_priority task = p)"

definition red_ok :: "dispatcher_config \<Rightarrow> 's redis \<Rightarrow> runtime \<Rightarrow> int \<Rightarrow> 's tq \<Rightarrow> bool" where
  "red_ok C R E t w \<longleftrightarrow>
     (\<forall>p \<in> set PRIORITY_LEVELS. distinct (map fst (ZRANGE R (priorityKey C p) (server w)))
        \<and> (\<forall>z \<in> set (ZRANGE R (priorityKey C p) (server w)).
             snd z < t * 1000 + int (scoreCounter w) \<and> entry_stored C R E w p (fst z)))
     \<and> (\<forall>n \<ge> uuidsDrawn w. HGETALL R (taskKey C (rt_uuid E n)) (server w) = [])"

lemma deserialize_empty [simp]: "deserializeTask Map.empty = None"
  by (simp add: deserializeTask_def or_text_def js_Number_def parse_int_def parse_nat_def is_digit_def)

lemma entry_stored_present:
  "entry_stored C R E w p m \<Longrightarrow> HGETALL R (taskKey C m) (server w) \<noteq> []"
  by (auto simp: entry_stored_def)

text \<open>A stored entry is at one level only, since its hash has one priority.\<close>

lemma entry_stored_level: "entry_stored C R E w p m \<Longrightarrow> entry_stored C R E w q m \<Longrightarrow> p = q"
  by (auto simp: entry_stored_def)

context redis_queues begin

lemma pop_levels_spec:
  assumes "pop_levels C R ps s = (r, s')"
  shows "(\<forall>l. HGETALL R l s' = HGETALL R l s)
    \<and> (case find (\<lambda>p. ZRANGE R (priorityKey C p) s \<noteq> []) ps of
         None \<Rightarrow> r = None \<and> (\<forall>l. ZRANGE R l s' = ZRANGE R l s)
       | Some p \<Rightarrow> r = Some (fst (hd (ZRANGE R (priorityKey C p) s)))
           \<and> (\<forall>l. ZRANGE R l s' = (if l = priorityKey C p then tl (ZRANGE R l s) else ZRANGE R l s)))"
  using assms
proof (induction ps arbitrary: s)
  case (Cons p ps)
  obtain x s1 where pop: "ZPOPMIN R (priorityKey C p) s = (x, s1)" by fastforce
  note law = zpopmin [OF pop]
  show ?case
  proof (cases "ZRANGE R (priorityKey C p) s")
    case Nil
    with law have x: "x = None" and same: "\<And>l. ZRANGE R l s1 = ZRANGE R l s" "\<And>l. HGETALL R l s1 = HGETALL R l s"
      by (simp_all, metis list.sel(2))
    from Cons.prems pop x have "pop_levels C R ps s1 = (r, s')" by simp
    from Cons.IH [OF this] show ?thesis using Nil same by (auto split: option.splits)
  next
    case (Cons z zs)
    with law have "x = Some z" by simp
    with \<open>pop_levels C R (p # ps) s = (r, s')\<close> pop have "r = Some (fst z)" "s' = s1" by (simp_all add: case_prod_beta)
    with law Cons show ?thesis by simp
  qed
qed simp

section \<open>A dequeue returns\<close>

definition queued_total :: "dispatcher_config \<Rightarrow> 'a \<Rightarrow> nat" where
  "queued_total C s = sum_list (map (\<lambda>p. length (ZRANGE R (priorityKey C p) s)) PRIORITY_LEVELS)"

lemma checkP3_total:
  assumes "checkP3Promotion C R E now s = (Some None, s1)"
  shows "queued_total C s1 \<le> queued_total C s"
proof (cases "s1 = s")
  case False
  with assms obtain z s2 where pop: "ZPOPMIN R (priorityKey C P3_BACKGROUND) s = (z, s2)" and s1: "s1 = s2"
    by (auto simp: checkP3Promotion_def assign_popped_def split: list.splits if_splits option.splits prod.splits)
  from zpopmin [OF pop] show ?thesis by (simp add: queued_total_def PRIORITY_LEVELS_def s1)
qed simp

lemma pop_levels_total:
  assumes "pop_levels C R PRIORITY_LEVELS s = (Some tid, s1)"
  shows "queued_total C s1 < queued_total C s"
proof -
  from pop_levels_spec [OF assms] obtain p where p: "find (\<lambda>p. ZRANGE R (priorityKey C p) s \<noteq> []) PRIORITY_LEVELS = Some p"
    and z: "\<And>l. ZRANGE R l s1 = (if l = priorityKey C p then tl (ZRANGE R l s) else ZRANGE R l s)"
    by (auto split: option.splits)
  from p have "p \<in> set PRIORITY_LEVELS" "ZRANGE R (priorityKey C p) s \<noteq> []"
    unfolding find_Some_iff by (metis nth_mem)+
  then show ?thesis by (auto simp: queued_total_def PRIORITY_LEVELS_def z)
qed

lemma dequeue_returns: "\<exists>r. dequeueRedis C R E now s = Some r"
proof (induction "queued_total C s" arbitrary: s rule: less_induct)
  case less
  obtain c s1 where chk: "checkP3Promotion C R E now s = (c, s1)" by fastforce
  obtain m s2 where pop: "pop_levels C R PRIORITY_LEVELS s1 = (m, s2)" by fastforce
  have "queued_total C s2 < queued_total C s" if "c = Some None" "m = Some tid" for tid
    using checkP3_total chk pop_levels_total pop that by fastforce
  with less have "\<exists>r. dequeueRedis C R E now s2 = Some r" if "c = Some None" "m = Some tid" for tid
    using that by blast
  then show ?case
    by (subst dequeueRedis.simps) (auto simp: chk pop split: option.splits prod.splits)
qed

section \<open>The Redis queue keeps the contract\<close>

lemma new_task_wf: "params_ok p \<Longrightarrow> task_wf (new_task E now tid corr p)"
  by (simp add: params_ok_def task_wf_def new_task_def)

lemma red_enqueue_law:
  assumes inj: "inj (rt_uuid E)" and ok: "red_ok C R E now w" and params: "params_ok p"
    and enq: "tq_enqueue C (Some R) E now p w = (task, w')"
  shows "red_ok C R E now w' \<and> uuidsDrawn w' = uuidsDrawn w + draws p
    \<and> red_ids C R w' = (red_ids C R w)(p_priority p := red_ids C R w (p_priority p) @ [rt_uuid E (uuidsDrawn w)])
    \<and> scoreCounter w' = Suc (scoreCounter w) \<and> task = made_task E now p (uuidsDrawn w)
    \<and> red_levels C R w' = push_task E now p (uuidsDrawn w) (scoreCounter w) (red_levels C R w)"
proof -
  let ?s = "server w"
  define corr where "corr = (case p_correlationId p of Some c \<Rightarrow> c | None \<Rightarrow> rt_uuid E (uuidsDrawn w + 1))"
  define tid where "tid = rt_uuid E (uuidsDrawn w)"
  define tk where "tk = new_task E now tid corr p"
  define sc where "sc = now * 1000 + int (scoreCounter w)"
  define s' where "s' = ZADD R (priorityKey C (p_priority p)) sc tid (HSET R (taskKey C tid) (serializeTask tk) ?s)"
  have w': "server w' = s'" "scoreCounter w' = scoreCounter w + 1" "uuidsDrawn w' = uuidsDrawn w + draws p"
    using enq by (auto simp: tq_enqueue_def randomUUID_def computeScore_def tk_def corr_def draws_def Let_def
        tid_def sc_def s'_def new_task_def split: option.splits)
  have tk: "bt_id tk = tid" "bt_priority tk = p_priority p" by (simp_all add: tk_def new_task_def)
  have level: "p_priority p \<in> set PRIORITY_LEVELS" using params by (simp add: params_ok_def)
  have new: "tid \<noteq> rt_uuid E n" if "n \<noteq> uuidsDrawn w" for n
    using that inj by (auto simp: tid_def inj_eq)
  have stored: "\<And>z q. q \<in> set PRIORITY_LEVELS \<Longrightarrow> z \<in> set (ZRANGE R (priorityKey C q) ?s) \<Longrightarrow> entry_stored C R E w q (fst z) \<and> snd z < sc"
    using ok by (simp add: red_ok_def sc_def)
  have fresh: "fst z \<noteq> tid" if "q \<in> set PRIORITY_LEVELS" "z \<in> set (ZRANGE R (priorityKey C q) ?s)" for z q
    using stored [OF that] new unfolding entry_stored_def by (metis less_irrefl)
  have "tid \<notin> fst ` set (ZRANGE R (priorityKey C (p_priority p)) ?s)" using fresh [OF level] by auto
  then have z: "ZRANGE R (priorityKey C q) s' = (if q = p_priority p then ZRANGE R (priorityKey C q) ?s @ [(tid, sc)]
      else ZRANGE R (priorityKey C q) ?s)" for q
    using stored [OF level] by (simp add: s'_def zrange_zadd zrange_hset zput_last)
  have h: "map_of (HGETALL R (taskKey C m) s') = (if m = tid then map_of (HGETALL R (taskKey C m) ?s) ++ map_of (serializeTask tk)
      else map_of (HGETALL R (taskKey C m) ?s))" for m
    by (simp add: s'_def hgetall_zadd hgetall_hset)
  have "HGETALL R (taskKey C tid) ?s = []" using ok by (simp add: red_ok_def tid_def)
  then have des: "deserializeTask (map_of (HGETALL R (taskKey C tid) s')) = Some tk"
    using task_roundtrip [OF new_task_wf [OF params]] by (simp add: h tk_def)
  have es: "entry_stored C R E w' q (fst z)"
    if q: "q \<in> set PRIORITY_LEVELS" and zin: "z \<in> set (ZRANGE R (priorityKey C q) s')" for q z
  proof (cases "fst z = tid")
    case True
    with fresh [OF q] zin have "q = p_priority p" by (auto simp: z split: if_splits)
    moreover have "\<exists>n < uuidsDrawn w + draws p. tid = rt_uuid E n"
      by (rule exI [of _ "uuidsDrawn w"]) (simp add: tid_def draws_def)
    ultimately show ?thesis unfolding entry_stored_def w' using True des tk by simp
  next
    case False
    with zin have "z \<in> set (ZRANGE R (priorityKey C q) ?s)" by (auto simp: z split: if_splits)
    with stored [OF q] have "entry_stored C R E w q (fst z)" by blast
    with False show ?thesis unfolding entry_stored_def w' h by (auto simp del: split_paired_Ex) (metis trans_less_add1)
  qed
  have "red_ok C R E now w'"
    unfolding red_ok_def
  proof (intro conjI ballI allI impI)
    fix q assume q: "q \<in> set PRIORITY_LEVELS"
    show "distinct (map fst (ZRANGE R (priorityKey C q) (server w')))"
      using ok q fresh [OF q] by (auto simp: red_ok_def w' z)
    fix y assume "y \<in> set (ZRANGE R (priorityKey C q) (server w'))"
    then have y: "y \<in> set (ZRANGE R (priorityKey C q) s')" by (simp only: w')
    show "entry_stored C R E w' q (fst y)" by (rule es [OF q y])
    from y have "y \<in> set (ZRANGE R (priorityKey C q) ?s) \<or> y = (tid, sc)" unfolding z by (auto split: if_splits)
    with stored [OF q, of y] have "snd y \<le> sc" by (metis less_imp_le order_refl snd_conv)
    then show "snd y < now * 1000 + int (scoreCounter w')" by (simp add: w' sc_def)
  next
    fix n assume n: "uuidsDrawn w' \<le> n"
    then have "n \<noteq> uuidsDrawn w" by (auto simp: w' draws_def split: if_splits)
    from new [OF this] have "rt_uuid E n \<noteq> tid" by simp
    moreover have "HGETALL R (taskKey C (rt_uuid E n)) ?s = []" using ok n by (simp add: red_ok_def w')
    ultimately have "map_of (HGETALL R (taskKey C (rt_uuid E n)) s') = Map.empty" by (simp add: h)
    then show "HGETALL R (taskKey C (rt_uuid E n)) (server w') = []" by (simp add: w')
  qed
  moreover have "red_ids C R w' = (red_ids C R w)(p_priority p := red_ids C R w (p_priority p) @ [tid])"
    using level by (auto simp: fun_eq_iff red_ids_def w' z)
  moreover have "task = made_task E now p (uuidsDrawn w)" and tk_made: "tk = made_task E now p (uuidsDrawn w)"
    using enq by (auto simp: tq_enqueue_def randomUUID_def computeScore_def made_task_def tk_def corr_def tid_def Let_def split: option.splits)
  moreover have "red_levels C R w' = push_task E now p (uuidsDrawn w) (scoreCounter w) (red_levels C R w)"
  proof
    fix q
    have "stored_task C R w' (fst y) = stored_task C R w (fst y)"
      if "q \<in> set PRIORITY_LEVELS" "y \<in> set (ZRANGE R (priorityKey C q) ?s)" for y
      using fresh [OF that] h [of "fst y"] by (simp add: stored_task_def w')
    moreover have "stored_task C R w' tid = tk" by (simp add: stored_task_def w' des)
    ultimately show "red_levels C R w' q = push_task E now p (uuidsDrawn w) (scoreCounter w) (red_levels C R w) q"
      using level by (auto simp: red_levels_def push_task_def w' z tk_made [symmetric] sc_def)
  qed
  ultimately show ?thesis using w' tid_def by simp
qed

lemma find_ids: "find (\<lambda>p. red_ids C R w p \<noteq> []) PRIORITY_LEVELS = find (\<lambda>p. ZRANGE R (priorityKey C p) (server w) \<noteq> []) PRIORITY_LEVELS"
  by (rule find_cong) (simp_all add: red_ids_def)

lemma find_levels: "find (\<lambda>p. red_levels C R w p \<noteq> []) PRIORITY_LEVELS = find (\<lambda>p. ZRANGE R (priorityKey C p) (server w) \<noteq> []) PRIORITY_LEVELS"
  by (rule find_cong) (simp_all add: red_levels_def)

lemma red_ok_server:
  assumes ok: "red_ok C R E now w"
    and z: "\<And>q. q \<in> set PRIORITY_LEVELS \<Longrightarrow> \<exists>pre. ZRANGE R (priorityKey C q) (server w) = pre @ ZRANGE R (priorityKey C q) s'"
    and h: "\<And>m. m \<in> M \<Longrightarrow> map_of (HGETALL R (taskKey C m) s') = map_of (HGETALL R (taskKey C m) (server w))"
    and M: "\<And>q z. q \<in> set PRIORITY_LEVELS \<Longrightarrow> z \<in> set (ZRANGE R (priorityKey C q) s') \<Longrightarrow> fst z \<in> M"
    and fresh: "\<And>n. uuidsDrawn w \<le> n \<Longrightarrow> rt_uuid E n \<in> M"
  shows "red_ok C R E now (w\<lparr>server := s'\<rparr>)"
  unfolding red_ok_def
proof (intro conjI ballI allI impI)
  fix q assume q: "q \<in> set PRIORITY_LEVELS"
  from z [OF q] obtain pre where pre: "ZRANGE R (priorityKey C q) (server w) = pre @ ZRANGE R (priorityKey C q) s'" by blast
  from ok q have "distinct (map fst (pre @ ZRANGE R (priorityKey C q) s'))" by (simp add: red_ok_def flip: pre)
  then show "distinct (map fst (ZRANGE R (priorityKey C q) (server (w\<lparr>server := s'\<rparr>))))" by simp
  fix y assume y: "y \<in> set (ZRANGE R (priorityKey C q) (server (w\<lparr>server := s'\<rparr>)))"
  then have "y \<in> set (ZRANGE R (priorityKey C q) (server w))" by (simp add: pre)
  with ok q have "snd y < now * 1000 + int (scoreCounter w)" "entry_stored C R E w q (fst y)" by (simp_all add: red_ok_def)
  then show "snd y < now * 1000 + int (scoreCounter (w\<lparr>server := s'\<rparr>))" "entry_stored C R E (w\<lparr>server := s'\<rparr>) q (fst y)"
    using h [OF M [OF q]] y by (simp_all add: entry_stored_def)
next
  fix n assume "uuidsDrawn (w\<lparr>server := s'\<rparr>) \<le> n"
  then have "HGETALL R (taskKey C (rt_uuid E n)) (server w) = []" "rt_uuid E n \<in> M"
    using ok fresh by (simp_all add: red_ok_def)
  from h [OF this(2)] this(1) have "map_of (HGETALL R (taskKey C (rt_uuid E n)) s') = Map.empty" by simp
  then show "HGETALL R (taskKey C (rt_uuid E n)) (server (w\<lparr>server := s'\<rparr>)) = []" by simp
qed

lemma red_dequeue_law:
  assumes inj: "inj (rt_uuid E)" and off: "\<not> promotion_due C now (red_levels C R w)" and ok: "red_ok C R E now w"
  shows "\<exists>r w'. tq_dequeue C (Some R) E now w = Some (Some r, w') \<and> red_ok C R E now w' \<and> uuidsDrawn w' = uuidsDrawn w
    \<and> (map_option (\<lambda>t. (bt_priority t, bt_id t)) r, red_ids C R w') = pop_spec (red_ids C R w)
    \<and> scoreCounter w' = scoreCounter w \<and> (r, red_levels C R w') = pop_task E now (red_levels C R w)"
proof -
  have chk: "checkP3Promotion C R E now (server w) = (Some None, server w)"
    using off by (auto simp: checkP3Promotion_def promotion_due_def red_levels_def PRIORITY_LEVELS_def split: list.splits)
  obtain m s1 where pop: "pop_levels C R PRIORITY_LEVELS (server w) = (m, s1)" by fastforce
  note spec = pop_levels_spec [OF pop]
  show ?thesis
  proof (cases "find (\<lambda>p. ZRANGE R (priorityKey C p) (server w) \<noteq> []) PRIORITY_LEVELS")
    case None
    with spec have m: "m = None" and same: "\<And>l. ZRANGE R l s1 = ZRANGE R l (server w)" "\<And>l. HGETALL R l s1 = HGETALL R l (server w)"
      by simp_all
    have "tq_dequeue C (Some R) E now w = Some (Some None, w\<lparr>server := s1\<rparr>)"
      by (simp add: tq_dequeue_def dequeueRedis.simps [of C R E now "server w"] chk pop m)
    moreover have "red_ok C R E now (w\<lparr>server := s1\<rparr>)"
      by (rule red_ok_server [OF ok, where M = UNIV]) (simp_all add: same)
    moreover have "pop_spec (red_ids C R w) = (None, red_ids C R w)"
      unfolding pop_spec_def find_ids None by simp
    moreover have "red_ids C R (w\<lparr>server := s1\<rparr>) = red_ids C R w" by (simp add: red_ids_def fun_eq_iff same)
    moreover have "red_levels C R (w\<lparr>server := s1\<rparr>) = red_levels C R w" by (simp add: red_levels_def stored_task_def fun_eq_iff same)
    moreover have "pop_task E now (red_levels C R w) = (None, red_levels C R w)"
      unfolding pop_task_def find_levels None by simp
    ultimately show ?thesis by simp
  next
    case (Some p)
    have p: "p \<in> set PRIORITY_LEVELS" "ZRANGE R (priorityKey C p) (server w) \<noteq> []"
      using Some unfolding find_Some_iff by (metis nth_mem)+
    then obtain tid sc rest where z: "ZRANGE R (priorityKey C p) (server w) = (tid, sc) # rest"
      by (metis list.exhaust surj_pair)
    from spec Some z have m: "m = Some tid" and h1: "\<And>l. HGETALL R l s1 = HGETALL R l (server w)"
      and z1: "\<And>l. ZRANGE R l s1 = (if l = priorityKey C p then rest else ZRANGE R l (server w))" by simp_all
    have "(tid, sc) \<in> set (ZRANGE R (priorityKey C p) (server w))" by (simp add: z)
    with ok p(1) have es: "entry_stored C R E w p tid" unfolding red_ok_def by fastforce
    then obtain task where task: "deserializeTask (map_of (HGETALL R (taskKey C tid) (server w))) = Some task"
      "bt_id task = tid" "bt_priority task = p" and drawn: "\<exists>n < uuidsDrawn w. tid = rt_uuid E n"
      by (auto simp: entry_stored_def)
    let ?task = "task\<lparr>bt_state := ASSIGNED, bt_assignedAt := Some (rt_iso E now)\<rparr>"
    define s2 where "s2 = HSET R (taskKey C tid) [(''state'', ASSIGNED), (''assignedAt'', rt_iso E now)] s1"
    have deq: "tq_dequeue C (Some R) E now w = Some (Some (Some ?task), w\<lparr>server := s2\<rparr>)"
      using entry_stored_present [OF es] task(1)
      by (simp add: tq_dequeue_def dequeueRedis.simps [of C R E now "server w"] chk pop m h1 assign_popped_def s2_def)
    have z2: "ZRANGE R l s2 = (if l = priorityKey C p then rest else ZRANGE R l (server w))" for l
      by (simp add: s2_def zrange_hset z1)
    have h2: "map_of (HGETALL R (taskKey C k) s2) = map_of (HGETALL R (taskKey C k) (server w))" if "k \<noteq> tid" for k
      using that by (simp add: s2_def hgetall_hset h1)
    have left: "fst y \<noteq> tid" if "q \<in> set PRIORITY_LEVELS" "y \<in> set (ZRANGE R (priorityKey C q) s2)" for q y
    proof (cases "q = p")
      case True
      have "distinct (map fst (ZRANGE R (priorityKey C p) (server w)))" using ok p(1) by (simp add: red_ok_def)
      with z that True show ?thesis by (auto simp: z2)
    next
      case False
      with that have "entry_stored C R E w q (fst y)" using ok by (simp add: red_ok_def z2)
      with es entry_stored_level False show ?thesis by fastforce
    qed
    have "red_ok C R E now (w\<lparr>server := s2\<rparr>)"
    proof (rule red_ok_server [OF ok, where M = "- {tid}"])
      show "\<exists>pre. ZRANGE R (priorityKey C q) (server w) = pre @ ZRANGE R (priorityKey C q) s2" for q
        by (rule exI [of _ "if q = p then [(tid, sc)] else []"]) (simp add: z2 z)
      show "map_of (HGETALL R (taskKey C k) s2) = map_of (HGETALL R (taskKey C k) (server w))" if "k \<in> - {tid}" for k
        using that h2 by simp
      show "fst y \<in> - {tid}" if "q \<in> set PRIORITY_LEVELS" "y \<in> set (ZRANGE R (priorityKey C q) s2)" for q y
        using left [OF that] by simp
      show "rt_uuid E n \<in> - {tid}" if "uuidsDrawn w \<le> n" for n
        using that drawn inj by (auto simp: inj_eq)
    qed
    moreover have "pop_spec (red_ids C R w) = (Some (p, tid), red_ids C R (w\<lparr>server := s2\<rparr>))"
      unfolding pop_spec_def find_ids Some using p by (auto simp: red_ids_def fun_eq_iff z z2)
    moreover have "pop_task E now (red_levels C R w) = (Some ?task, red_levels C R (w\<lparr>server := s2\<rparr>))"
    proof -
      have others: "stored_task C R (w\<lparr>server := s2\<rparr>) (fst y) = stored_task C R w (fst y)"
        if "q \<in> set PRIORITY_LEVELS" "y \<in> set (ZRANGE R (priorityKey C q) s2)" for q y
        using h2 left [OF that] by (simp add: stored_task_def)
      have "red_levels C R (w\<lparr>server := s2\<rparr>) = (red_levels C R w)(p := tl (red_levels C R w p))"
      proof
        fix q
        show "red_levels C R (w\<lparr>server := s2\<rparr>) q = ((red_levels C R w)(p := tl (red_levels C R w p))) q"
          using others [of q] p(1) by (auto simp: red_levels_def z2 z)
      qed
      moreover have "fst (hd (red_levels C R w p)) = task" using p(1) task(1) by (simp add: red_levels_def z stored_task_def)
      ultimately show ?thesis unfolding pop_task_def find_levels Some by (simp add: assigned_def)
    qed
    ultimately show ?thesis using deq task by simp
  qed
qed

lemma red_fifo_levels:
  assumes "inj (rt_uuid E)" "promotionAgeMs C = 0"
  shows "fifo_levels (red_ok C R E) (red_ids C R) uuidsDrawn E (tq_enqueue C (Some R) E) (tq_dequeue C (Some R) E)"
proof unfold_locales
  show "red_ok C R E t' q" if "red_ok C R E t q" "t \<le> t'" for t t' and q :: "'a tq"
    using that by (fastforce simp: red_ok_def)
  show "\<exists>r q'. tq_dequeue C (Some R) E now q = Some (Some r, q') \<and> red_ok C R E now q' \<and> uuidsDrawn q' = uuidsDrawn q
    \<and> (map_option (\<lambda>t. (bt_priority t, bt_id t)) r, red_ids C R q') = pop_spec (red_ids C R q)" if "red_ok C R E now q" for now q
    using red_dequeue_law [OF assms(1) _ that] assms(2) by (auto simp: promotion_due_def)
qed (use red_enqueue_law [OF assms(1)] in blast)+

lemma red_task_fifo:
  assumes "inj (rt_uuid E)"
  shows "task_fifo (red_ok C R E) (red_levels C R) uuidsDrawn scoreCounter C E (tq_enqueue C (Some R) E) (tq_dequeue C (Some R) E)"
proof unfold_locales
  show "red_ok C R E t' q" if "red_ok C R E t q" "t \<le> t'" for t t' and q :: "'a tq"
    using that by (fastforce simp: red_ok_def)
qed (use red_enqueue_law [OF assms] red_dequeue_law [OF assms] in blast)+

section \<open>Promotion\<close>

lemma promotion_first:
  assumes "promotionAgeMs C \<noteq> 0" and "ZRANGE R (priorityKey C P3_BACKGROUND) s = (tid, sc) # rest"
    and "promotionAgeMs C * 1000 \<le> now * 1000 - sc" and "tid \<noteq> []"
    and "deserializeTask (map_of (HGETALL R (taskKey C tid) s)) = Some task"
  shows "\<exists>s'. dequeueRedis C R E now s = Some (Some (Some (task\<lparr>bt_state := ASSIGNED, bt_assignedAt := Some (rt_iso E now)\<rparr>)), s')
    \<and> (\<forall>p. p \<noteq> P3_BACKGROUND \<longrightarrow> ZRANGE R (priorityKey C p) s' = ZRANGE R (priorityKey C p) s)"
proof -
  obtain x s1 where pop: "ZPOPMIN R (priorityKey C P3_BACKGROUND) s = (x, s1)" by fastforce
  from zpopmin [OF pop] assms(2) have x: "x = Some (tid, sc)" and h: "\<And>l. HGETALL R l s1 = HGETALL R l s"
    and z: "\<And>l. l \<noteq> priorityKey C P3_BACKGROUND \<Longrightarrow> ZRANGE R l s1 = ZRANGE R l s" by simp_all
  have "HGETALL R (taskKey C tid) s \<noteq> []" using assms(5) by auto
  with assms pop x h show ?thesis
    by (subst dequeueRedis.simps) (simp add: checkP3Promotion_def assign_popped_def zrange_hset z)
qed

end

text \<open>A runtime to evaluate with: numbered identifiers, dates as decimal milliseconds.\<close>

definition sample_runtime :: runtime where
  "sample_runtime = \<lparr>rt_uuid = (\<lambda>n. ''task-'' @ dec_nat n), rt_iso = dec_int, rt_date = js_Number\<rparr>"

lemma sample_runtime_inj: "inj (rt_uuid sample_runtime)"
  by (auto simp: sample_runtime_def inj_def dest: dec_nat_inj)

definition no_promotion :: dispatcher_config where
  "no_promotion = DEFAULT_DISPATCHER_CONFIG\<lparr>promotionAgeMs := 0\<rparr>"

interpretation ref_queue: fifo_levels "red_ok no_promotion ref_redis sample_runtime" "red_ids no_promotion ref_redis" uuidsDrawn
    sample_runtime "tq_enqueue no_promotion (Some ref_redis) sample_runtime" "tq_dequeue no_promotion (Some ref_redis) sample_runtime"
  by (rule ref_server.red_fifo_levels [OF sample_runtime_inj]) (simp add: no_promotion_def)

interpretation ref_tasks: task_fifo "red_ok C ref_redis sample_runtime" "red_levels C ref_redis" uuidsDrawn scoreCounter C
    sample_runtime "tq_enqueue C (Some ref_redis) sample_runtime" "tq_dequeue C (Some ref_redis) sample_runtime" for C
  by (rule ref_server.red_task_fifo [OF sample_runtime_inj])

end
