(* ===== verification/TaskQueue_Props.thy ===== *)
theory TaskQueue_Props
  imports TaskQueue_Redis
begin

text \<open>The properties of the builder's queue, as consequences of the contract and its instances.\<close>

definition new_queue :: "'s \<Rightarrow> 's tq" where
  "new_queue s = \<lparr>server = s, memQueue = [], memTasks = [], scoreCounter = 0, uuidsDrawn = 0\<rparr>"

abbreviation redis_run ::
  "dispatcher_config \<Rightarrow> 's redis \<Rightarrow> runtime \<Rightarrow> (int \<times> tq_event) list \<Rightarrow> 's tq \<Rightarrow> ((int \<times> string) option list \<times> 's tq) option" where
  "redis_run C R E \<equiv> q_run (tq_enqueue C (Some R) E) (tq_dequeue C (Some R) E)"

abbreviation memory_run ::
  "dispatcher_config \<Rightarrow> runtime \<Rightarrow> (int \<times> tq_event) list \<Rightarrow> 's tq \<Rightarrow> ((int \<times> string) option list \<times> 's tq) option" where
  "memory_run C E \<equiv> q_run (tq_enqueue C None E) (tq_dequeue C None E)"

lemma red_ok_empty: "red_ok C ref_redis E t (new_queue db_empty)"
  by (simp add: red_ok_def new_queue_def ref_redis_def db_empty_def db_hash_def)

lemma red_ids_empty: "red_ids C ref_redis (new_queue db_empty) l = []"
  by (simp add: red_ids_def new_queue_def ref_redis_def db_empty_def)

lemma new_queue_start [simp]: "red_ids C ref_redis (new_queue db_empty) = (\<lambda>_. [])" "mem_ids (new_queue s) = (\<lambda>_. [])"
  "uuidsDrawn (new_queue s) = 0" "promotionAgeMs no_promotion = 0"
  by (simp_all add: fun_eq_iff red_ids_empty) (simp_all add: new_queue_def mem_ids_def no_promotion_def)

lemma mem_ok_empty: "mem_ok t (new_queue s)"
  by (simp add: mem_ok_def new_queue_def)

definition sample_events :: "(int \<times> tq_event) list" where
  "sample_events =
     [(10, Enq (params ''daily_standup'' P3_BACKGROUND ''cron'' (JObj []))),
      (10, Enq (params ''implement_issue'' P2_IMPLEMENTATION ''github:issue'' (JObj [(''n'', JNum 7)]))),
      (11, Deq),
      (12, Enq (params ''fix_ci_failure'' P0_SAFETY ''github:ci_fail'' (JObj []))),
      (12, Deq), (13, Deq), (14, Deq)]"

lemma sample_events_ok:
  "sorted (0 # map fst sample_events)" "list_all (\<lambda>e. event_ok (snd e)) sample_events"
  by (simp_all add: sample_events_def params_def params_ok_def PRIORITY_LEVELS_def)

text \<open>
  C11: a task reads back from the hash it is stored as: for every task whose optional texts are not empty and whose
  objects are JSON data, deserialising the serialised fields gives the task, all of its 25 fields.
\<close>
theorem task_hash_roundtrip:
  assumes "task_wf t"
  shows "deserializeTask (map_of (serializeTask t)) = Some t"
  by (rule task_roundtrip [OF assms])

theorem task_hash_roundtrip_witness:
  "deserializeTask (map_of (serializeTask (new_task sample_runtime 5 ''t1'' ''c1''
       (params ''fix_ci_failure'' P0_SAFETY ''github:ci_fail'' (JObj [(''repo'', JStr ''yclaw''), (''pr'', JNum 12)])))))
   = Some (new_task sample_runtime 5 ''t1'' ''c1''
       (params ''fix_ci_failure'' P0_SAFETY ''github:ci_fail'' (JObj [(''repo'', JStr ''yclaw''), (''pr'', JNum 12)])))"
  by (rule task_hash_roundtrip) (simp add: task_wf_def new_task_def params_def)

text \<open>
  C36: a dequeue always returns: on any server that keeps its contract, whatever the sets and hashes hold, the pop loop
  that skips entries without a hash ends.
\<close>
theorem dequeue_always_returns:
  assumes "redis_queues R"
  shows "\<exists>r. tq_dequeue C (Some R) E now w = Some r"
  using redis_queues.dequeue_returns [OF assms, of C E now "server w"] by (auto simp: tq_dequeue_def)

theorem dequeue_always_returns_witness:
  "\<exists>r. tq_dequeue DEFAULT_DISPATCHER_CONFIG (Some ref_redis) sample_runtime 7
     (new_queue (db_empty\<lparr>db_zsets := \<lambda>_. [(''ghost'', 1), (''ghost2'', 2)]\<rparr>)) = Some r"
  by (rule dequeue_always_returns [OF ref_server.redis_queues_axioms])

text \<open>
  C15: with promotion off, the Redis queue follows its specification on every run with non-decreasing times: each enqueue
  appends to its level, each dequeue answers the oldest task of the most urgent level that has one (and
  fails or throws never); so per level the tasks returned followed by those left are those there followed by those enqueued.
\<close>
theorem redis_queue_follows_spec:
  assumes "redis_queues R" and "inj (rt_uuid E)" and "promotionAgeMs C = 0" and "red_ok C R E t w"
    and "sorted (t # map fst es)" and "list_all (\<lambda>e. event_ok (snd e)) es"
  shows "\<exists>xs w'. redis_run C R E es w = Some (xs, w')
    \<and> spec_run E (map snd es) (uuidsDrawn w) (red_ids C R w) = (xs, uuidsDrawn w', red_ids C R w')
    \<and> (\<forall>l. dequeued l xs @ red_ids C R w' l = red_ids C R w l @ enqueued E l (map snd es) (uuidsDrawn w))"
  using fifo_levels.run_follows_spec [OF redis_queues.red_fifo_levels [OF assms(1-3)] assms(4-6)] spec_run_account
  by metis

theorem redis_queue_follows_spec_witness:
  "\<exists>w'. redis_run no_promotion ref_redis sample_runtime sample_events (new_queue db_empty)
    = Some ([Some (2, ''task-2''), Some (0, ''task-4''), Some (3, ''task-0''), None], w')"
proof -
  from redis_queue_follows_spec [OF ref_server.redis_queues_axioms sample_runtime_inj _ red_ok_empty sample_events_ok, of no_promotion]
  obtain xs w' where run: "redis_run no_promotion ref_redis sample_runtime sample_events (new_queue db_empty) = Some (xs, w')"
    and spec: "fst (spec_run sample_runtime (map snd sample_events) 0 (\<lambda>_. [])) = xs"
    by auto
  have "fst (spec_run sample_runtime (map snd sample_events) 0 (\<lambda>_. []))
      = [Some (2, ''task-2''), Some (0, ''task-4''), Some (3, ''task-0''), None]"
    by code_simp
  with run spec show ?thesis by simp
qed

text \<open>
  C17: the in-memory fallback answers as Redis does as long as no background task waits for the promotion age (thirty minutes by
  default), which only Redis looks at: started with the same tasks, scores and counters, any run of enqueues and dequeues with
  non-decreasing times in which no dequeue finds such a task returns the same tasks from both, field by field, and leaves the
  same tasks at the same levels.
\<close>
theorem memory_queue_agrees_with_redis:
  assumes "redis_queues R" and "inj (rt_uuid E)" and "red_ok C R E t w" and "mem_ok t v"
    and "mem_levels v = red_levels C R w" and "uuidsDrawn v = uuidsDrawn w" and "scoreCounter v = scoreCounter w"
    and "sorted (t # map fst es)" and "list_all (\<lambda>e. event_ok (snd e)) es"
    and "never_due C E es (uuidsDrawn w) (scoreCounter w) (red_levels C R w)"
  shows "\<exists>answers w' v'. task_run (tq_enqueue C (Some R) E) (tq_dequeue C (Some R) E) es w = Some (answers, w')
    \<and> task_run (tq_enqueue C None E) (tq_dequeue C None E) es v = Some (answers, v')
    \<and> mem_levels v' = red_levels C R w'"
proof -
  from task_fifo.task_run_follows [OF redis_queues.red_task_fifo [OF assms(1,2)] assms(3,8-10)]
  obtain w' where w': "task_run (tq_enqueue C (Some R) E) (tq_dequeue C (Some R) E) es w
      = Some (fst (task_spec E es (uuidsDrawn w) (scoreCounter w) (red_levels C R w)), w')"
    "red_levels C R w' = snd (task_spec E es (uuidsDrawn w) (scoreCounter w) (red_levels C R w))" by blast
  moreover from mem_tasks.task_run_follows [OF assms(4,8,9), of C E C] assms(5-7,10)
  obtain v' where "task_run (tq_enqueue C None E) (tq_dequeue C None E) es v
      = Some (fst (task_spec E es (uuidsDrawn w) (scoreCounter w) (red_levels C R w)), v')"
    "mem_levels v' = snd (task_spec E es (uuidsDrawn w) (scoreCounter w) (red_levels C R w))" by auto
  ultimately show ?thesis by auto
qed

theorem memory_queue_agrees_with_redis_witness:
  "map_option fst (task_run (tq_enqueue DEFAULT_DISPATCHER_CONFIG (Some ref_redis) sample_runtime)
       (tq_dequeue DEFAULT_DISPATCHER_CONFIG (Some ref_redis) sample_runtime) sample_events (new_queue db_empty))
    = map_option fst (task_run (tq_enqueue DEFAULT_DISPATCHER_CONFIG None sample_runtime)
       (tq_dequeue DEFAULT_DISPATCHER_CONFIG None sample_runtime) sample_events (new_queue ()))"
proof -
  let ?C = DEFAULT_DISPATCHER_CONFIG
  have none: "red_levels ?C ref_redis (new_queue db_empty) = (\<lambda>_. [])" "mem_levels (new_queue ()) = (\<lambda>_. [])"
    by (auto simp: fun_eq_iff red_levels_def mem_levels_def new_queue_def ref_redis_def db_empty_def)
  have "never_due ?C sample_runtime sample_events 0 0 (\<lambda>_. [])" by code_simp
  then show ?thesis
    using memory_queue_agrees_with_redis [OF ref_server.redis_queues_axioms sample_runtime_inj red_ok_empty mem_ok_empty
        _ _ _ sample_events_ok, of "()" ?C] none
    by (auto simp: new_queue_def)
qed

text \<open>
  Promotion is checked before the loop over the levels: once the oldest background task has waited the promotion age, a
  dequeue returns it and leaves the other levels, safety tasks included, waiting.
\<close>
theorem promotion_overtakes_safety:
  assumes "redis_queues R" and "promotionAgeMs C \<noteq> 0"
    and "ZRANGE R (priorityKey C P3_BACKGROUND) (server w) = (tid, sc) # rest"
    and "promotionAgeMs C * 1000 \<le> now * 1000 - sc" and "tid \<noteq> []"
    and "deserializeTask (map_of (HGETALL R (taskKey C tid) (server w))) = Some task"
  shows "\<exists>t w'. tq_dequeue C (Some R) E now w = Some (Some (Some t), w') \<and> bt_id t = bt_id task \<and> bt_state t = ASSIGNED
    \<and> ZRANGE R (priorityKey C P0_SAFETY) (server w') = ZRANGE R (priorityKey C P0_SAFETY) (server w)"
  using redis_queues.promotion_first [OF assms, of E] by (auto simp: tq_dequeue_def)

definition old_task :: builder_task where
  "old_task = new_task sample_runtime 0 ''old'' ''c'' (params ''daily_standup'' P3_BACKGROUND ''cron'' (JObj []))"

definition sample_waiting :: "ref_db tq" where
  "sample_waiting = new_queue (db_empty\<lparr>
     db_zsets := (\<lambda>k. if k = priorityKey DEFAULT_DISPATCHER_CONFIG P3_BACKGROUND then [(''old'', 0)]
                      else if k = priorityKey DEFAULT_DISPATCHER_CONFIG P0_SAFETY then [(''urgent'', 1)] else []),
     db_hashes := [(taskKey DEFAULT_DISPATCHER_CONFIG ''old'',
       serializeTask old_task)]\<rparr>)"

theorem promotion_overtakes_safety_witness:
  "\<exists>t w'. tq_dequeue DEFAULT_DISPATCHER_CONFIG (Some ref_redis) sample_runtime 1800000 sample_waiting = Some (Some (Some t), w')
    \<and> bt_id t = ''old'' \<and> ZRANGE ref_redis (priorityKey DEFAULT_DISPATCHER_CONFIG P0_SAFETY) (server w') = [(''urgent'', 1)]"
proof -
  have task: "deserializeTask (map_of (serializeTask old_task)) = Some old_task" "bt_id old_task = ''old''"
    by (rule task_roundtrip) (simp_all add: old_task_def new_task_def params_def task_wf_def)
  have h: "HGETALL ref_redis (taskKey DEFAULT_DISPATCHER_CONFIG ''old'') (server sample_waiting)
      = serializeTask old_task"
    by (simp add: sample_waiting_def new_queue_def ref_redis_def db_hash_def)
  have z: "ZRANGE ref_redis (priorityKey DEFAULT_DISPATCHER_CONFIG P3_BACKGROUND) (server sample_waiting) = [(''old'', 0)]"
    "ZRANGE ref_redis (priorityKey DEFAULT_DISPATCHER_CONFIG P0_SAFETY) (server sample_waiting) = [(''urgent'', 1)]"
    by (simp_all add: sample_waiting_def new_queue_def ref_redis_def)
  have age: "promotionAgeMs DEFAULT_DISPATCHER_CONFIG = 1800000" by (simp add: DEFAULT_DISPATCHER_CONFIG_def)
  have "promotionAgeMs DEFAULT_DISPATCHER_CONFIG \<noteq> 0"
    "promotionAgeMs DEFAULT_DISPATCHER_CONFIG * 1000 \<le> 1800000 * 1000 - (0 :: int)" unfolding age by simp_all
  from promotion_overtakes_safety [OF ref_server.redis_queues_axioms this(1) z(1) this(2), of old_task sample_runtime] task h
  obtain t w' where "tq_dequeue DEFAULT_DISPATCHER_CONFIG (Some ref_redis) sample_runtime 1800000 sample_waiting = Some (Some (Some t), w')"
    "bt_id t = ''old''" "ZRANGE ref_redis (priorityKey DEFAULT_DISPATCHER_CONFIG P0_SAFETY) (server w') = [(''urgent'', 1)]"
    unfolding h z(2) by auto
  then show ?thesis by blast
qed

end
