(* ===== verification/DeadLetters_Correct.thy ===== *)
theory DeadLetters_Correct
  imports DeadLetters TaskQueue_Props
begin

text \<open>
  Properties of the dead-letter queue and of the recovery: the round trip of an entry through its text, the bound on
  the list, what a retry pass does to every entry and to the list, and that recovery leaves no readable
  unfinished task outside the queue.
\<close>

section \<open>Entries read back\<close>

definition entry_props :: "dlq_entry \<Rightarrow> (string \<times> json option) list" where
  "entry_props e =
     [(''taskId'', Some (JStr (e_taskId e))), (''taskName'', Some (JStr (e_taskName e))),
      (''correlationId'', Some (JStr (e_correlationId e))), (''priority'', Some (JNum (e_priority e))),
      (''sourceEvent'', Some (JStr (e_sourceEvent e))), (''error'', map_option JStr (e_error e)),
      (''failedAt'', map_option JStr (e_failedAt e)),
      (''durationMs'', Some (case e_durationMs e of None \<Rightarrow> JNull | Some n \<Rightarrow> JNum n)),
      (''retryCount'', map_option JNum (e_retryCount e)), (''nextRetryAt'', map_option JStr (e_nextRetryAt e)),
      (''maxRetries'', map_option JNum (e_maxRetries e)), (''permanent'', map_option JBool (e_permanent e)),
      (''triggerPayload'', e_triggerPayload e)]"

definition entry_list :: "dlq_entry \<Rightarrow> (string \<times> json) list" where
  "entry_list e = concat (map (\<lambda>(k, x). given_field k x) (entry_props e))"

lemma entry_json_list: "entry_json e = JObj (entry_list e)"
proof -
  have o: "opt_prop k f x = given_field k (map_option f x)" for k x and f :: "'b \<Rightarrow> json"
    by (simp add: opt_prop_def given_field_def split: option.splits)
  show ?thesis
    by (simp add: entry_json_def entry_list_def entry_props_def o option.map_id)
      (simp add: given_field_def)
qed

lemma entry_prop_names: "distinct (map fst (entry_props e))"
  by (simp add: entry_props_def)

lemma entry_plain:
  assumes "\<And>p. e_triggerPayload e = Some p \<Longrightarrow> json_plain p"
  shows "json_plain (entry_json e)"
proof -
  have "json_plain v" if "(k, Some v) \<in> set (entry_props e)" for k v
    using that assms by (auto simp: entry_props_def eq_commute [of "Some v"] split: option.splits)
  then have "\<forall>kv \<in> set (entry_list e). json_plain (snd kv)"
    by (auto simp: entry_list_def given_field_def split: option.splits)
  with distinct_given_fields [OF entry_prop_names, of e] show ?thesis
    by (simp add: entry_json_list entry_list_def)
qed

lemma parse_entry_text:
  assumes "\<And>p. e_triggerPayload e = Some p \<Longrightarrow> json_plain p"
  shows "parse_entry (entry_text e) = Some e"
proof -
  have "map_of (entry_list e) = (\<lambda>f. case map_of (entry_props e) f of Some x \<Rightarrow> x | None \<Rightarrow> None)"
    unfolding entry_list_def by (rule ext) (rule map_of_given_fields [OF entry_prop_names])
  moreover have t: "as_text (map_option JStr x) = x" "as_number (map_option JNum n) = n" "as_bool (map_option JBool b) = b" for x n b
    by (cases x; cases n; cases b; simp)+
  have "entry_of_props (\<lambda>f. case map_of (entry_props e) f of Some x \<Rightarrow> x | None \<Rightarrow> None) = e"
    by (simp add: entry_of_props_def entry_props_def or_text_def t split: option.splits)
  ultimately show ?thesis
    using entry_plain [OF assms] by (simp add: parse_entry_def entry_text_def json_parse_stringify entry_json_list [symmetric])
      (simp add: entry_json_list)
qed

section \<open>Pushing\<close>

context redis_lists begin

lemma push_lists:
  assumes "0 < dlqMaxSize C"
  shows "LRANGE R (dlqKey C) (server (pushToDlq C (Some R) e w))
    = take (dlqMaxSize C) (entry_text e # LRANGE R (dlqKey C) (server w))"
  using assms by (simp add: pushToDlq_def keep_first_def lrange_ltrim lrange_lpush)

section \<open>Retrying\<close>

lemma enqueue_lists:
  assumes "tq_enqueue C (Some R) E now p w = (t, w')"
  shows "LRANGE R k (server w') = LRANGE R k (server w) \<and> scoreCounter w' = scoreCounter w + 1"
  using assms by (auto simp: tq_enqueue_def randomUUID_def computeScore_def Let_def lrange_zadd lrange_hset
      split: option.splits)

lemma rebuild_lists: "LRANGE R key (rebuild_list R key xs s) = xs"
proof -
  obtain n s1 where del: "DEL R key s = (n, s1)" by fastforce
  from lrange_del [OF del] show ?thesis by (simp add: rebuild_list_def del lrange_rpush)
qed

end

fun kept_texts :: "dlq_action \<Rightarrow> string list" where
  "kept_texts (DKeep x b) = [x]"
| "kept_texts DDrop = []"
| "kept_texts (DRetry e n) = []"

fun retried_entries :: "dlq_action \<Rightarrow> (dlq_entry \<times> int) list" where
  "retried_entries (DRetry e n) = [(e, n)]"
| "retried_entries _ = []"

text \<open>The decisions of a pass over a list of stored texts.\<close>

definition decisions :: "runtime \<Rightarrow> int option \<Rightarrow> int \<Rightarrow> int \<Rightarrow> string list \<Rightarrow> dlq_action list" where
  "decisions E env now cap raws = map (dlq_decide E env now cap) raws"

lemma decide_keep_unchanged: "dlq_decide E env now cap raw = DKeep x False \<Longrightarrow> x = raw"
  by (auto simp: dlq_decide_def Let_def split: option.splits if_splits)

lemma decide_retry:
  assumes "dlq_decide E env now cap raw = DRetry e n"
  shows "parse_entry raw = Some e \<and> n = default_to (e_retryCount e) 0 + 1 \<and> n \<le> default_to (e_maxRetries e) cap
    \<and> e_permanent e \<noteq> Some True \<and> isRetryable (default_to (e_error e) ''unknown'')
    \<and> (\<forall>t. or_else (e_nextRetryAt e) (e_failedAt e) = Some t \<longrightarrow> t \<le> rt_iso E now)"
  using assms by (auto simp: dlq_decide_def Let_def default_to_def split: option.splits if_splits)

lemma decide_permanent:
  assumes "parse_entry raw = Some e" "e_permanent e = Some True \<or> default_to (e_maxRetries e) cap \<le> default_to (e_retryCount e) 0"
  shows "retried_entries (dlq_decide E env now cap raw) = []"
  using assms by (auto simp: dlq_decide_def Let_def default_to_def split: option.splits if_splits)

context redis_lists begin

lemma retry_loop_spec:
  assumes "retry_loop C R E env now cap gt raws a w = (a', w')"
  shows "keep a' = keep a @ concat (map kept_texts (decisions E env now cap raws))
    \<and> retried a' = retried a + length (concat (map retried_entries (decisions E env now cap raws)))
    \<and> (rebuildNeeded a' \<or> retried a' > 0 \<or> concat (map kept_texts (decisions E env now cap raws)) = raws)
    \<and> (rebuildNeeded a \<longrightarrow> rebuildNeeded a')
    \<and> LRANGE R k (server w') = LRANGE R k (server w)
    \<and> scoreCounter w' = scoreCounter w + length (concat (map retried_entries (decisions E env now cap raws)))"
  using assms
proof (induction raws arbitrary: a w)
  case (Cons raw raws)
  show ?case
  proof (cases "dlq_decide E env now cap raw")
    case (DKeep x b)
    from Cons.IH [of "a\<lparr>keep := keep a @ [x], rebuildNeeded := rebuildNeeded a \<or> b\<rparr>" w] Cons.prems DKeep
      decide_keep_unchanged [of E env now cap raw x]
    show ?thesis by (auto simp: decisions_def)
  next
    case DDrop
    from Cons.IH [of "a\<lparr>rebuildNeeded := True\<rparr>" w] Cons.prems DDrop show ?thesis by (auto simp: decisions_def)
  next
    case (DRetry e n)
    obtain t w1 where enq: "tq_enqueue C (Some R) E now (retry_params gt e n) w = (t, w1)" by fastforce
    from Cons.IH [of "a\<lparr>retried := retried a + 1\<rparr>" w1] Cons.prems DRetry enq enqueue_lists [OF enq]
    show ?thesis by (auto simp: decisions_def)
  qed
qed (simp add: decisions_def)

lemma retry_pass:
  assumes "retryEligibleDlqEntries C (Some R) E env now cap gt w = (n, w')"
  defines "raws \<equiv> LRANGE R (dlqKey C) (server w)"
  shows "LRANGE R (dlqKey C) (server w') = concat (map kept_texts (decisions E env now cap raws))
    \<and> n = length (concat (map retried_entries (decisions E env now cap raws)))
    \<and> scoreCounter w' = scoreCounter w + n"
proof (cases "raws = []")
  case True
  with assms show ?thesis by (simp add: retryEligibleDlqEntries_def decisions_def)
next
  case False
  obtain a w1 where loop: "retry_loop C R E env now cap gt raws \<lparr>retried = 0, rebuildNeeded = False, keep = []\<rparr> w = (a, w1)"
    by fastforce
  define K where "K = concat (map kept_texts (decisions E env now cap raws))"
  define N where "N = length (concat (map retried_entries (decisions E env now cap raws)))"
  from retry_loop_spec [OF loop, of "dlqKey C", folded K_def N_def] have "keep a = K" "retried a = N"
    "rebuildNeeded a \<or> N > 0 \<or> K = raws" "LRANGE R (dlqKey C) (server w1) = raws" "scoreCounter w1 = scoreCounter w + N"
    by (auto simp: raws_def)
  with assms(1) False loop have "LRANGE R (dlqKey C) (server w') = K \<and> n = N \<and> scoreCounter w' = scoreCounter w + n"
    by (auto simp: retryEligibleDlqEntries_def raws_def [symmetric] rebuild_lists split: if_splits)
  then show ?thesis unfolding K_def N_def .
qed

end

section \<open>Properties\<close>

text \<open>
  Pushing puts the entry first and keeps the list within its configured size, dropping the oldest entries; and the
  entry just pushed is the one listed first, with all its fields.
\<close>
theorem dlq_push_bounded:
  assumes "redis_lists R" and "0 < dlqMaxSize C" and "\<forall>p. e_triggerPayload e = Some p \<longrightarrow> json_plain p"
  shows "LRANGE R (dlqKey C) (server (pushToDlq C (Some R) e w))
      = take (dlqMaxSize C) (entry_text e # LRANGE R (dlqKey C) (server w))
    \<and> getDlqDepth C (Some R) (pushToDlq C (Some R) e w) \<le> dlqMaxSize C
    \<and> getDlqEntries C (Some R) 1 (pushToDlq C (Some R) e w) = [e]"
proof -
  note push = redis_lists.push_lists [OF assms(1,2), of e w]
  have "take 1 (take (dlqMaxSize C) (entry_text e # xs)) = [entry_text e]" for xs
    using assms(2) by (cases "dlqMaxSize C") simp_all
  then show ?thesis
    using parse_entry_text [of e] assms(3)
    by (simp add: push getDlqDepth_def getDlqEntries_def List.map_filter_simps)
qed

definition sample_entry :: dlq_entry where
  "sample_entry = \<lparr>e_taskId = ''t1'', e_taskName = ''implement_issue'', e_correlationId = ''c1'', e_priority = 2,
     e_sourceEvent = ''github:issue'', e_error = Some ''boom'', e_failedAt = Some ''100'', e_durationMs = None,
     e_retryCount = Some 3, e_nextRetryAt = None, e_maxRetries = Some 3, e_permanent = Some False,
     e_triggerPayload = Some (JObj [(''n'', JNum 1)])\<rparr>"

theorem dlq_push_bounded_witness:
  "getDlqEntries DEFAULT_DISPATCHER_CONFIG (Some ref_redis) 1
     (pushToDlq DEFAULT_DISPATCHER_CONFIG (Some ref_redis) sample_entry (new_queue db_empty)) = [sample_entry]"
proof -
  have "0 < dlqMaxSize DEFAULT_DISPATCHER_CONFIG" by (simp add: DEFAULT_DISPATCHER_CONFIG_def)
  moreover have "\<forall>p. e_triggerPayload sample_entry = Some p \<longrightarrow> json_plain p" by (simp add: sample_entry_def)
  ultimately show ?thesis using dlq_push_bounded [OF ref_server.redis_lists_axioms] by blast
qed

text \<open>
  A retry pass accounts for every stored entry: afterwards the list holds exactly the texts the pass decided to
  keep, in order, as many tasks were enqueued as entries were retried, and every retried entry is a stored, readable one that is
  not permanent, has a retryable error, is due, and stays within its number of retries.
\<close>
theorem dlq_retry_pass:
  assumes "redis_lists R" and "retryEligibleDlqEntries C (Some R) E env now cap gt w = (n, w')"
  shows "LRANGE R (dlqKey C) (server w') = concat (map kept_texts (decisions E env now cap (LRANGE R (dlqKey C) (server w))))
    \<and> n = length (concat (map retried_entries (decisions E env now cap (LRANGE R (dlqKey C) (server w)))))
    \<and> scoreCounter w' = scoreCounter w + n
    \<and> (\<forall>(e, k) \<in> set (concat (map retried_entries (decisions E env now cap (LRANGE R (dlqKey C) (server w))))).
          e \<in> set (List.map_filter parse_entry (LRANGE R (dlqKey C) (server w)))
          \<and> k = default_to (e_retryCount e) 0 + 1 \<and> k \<le> default_to (e_maxRetries e) cap
          \<and> e_permanent e \<noteq> Some True \<and> isRetryable (default_to (e_error e) ''unknown'')
          \<and> (\<forall>t. or_else (e_nextRetryAt e) (e_failedAt e) = Some t \<longrightarrow> t \<le> rt_iso E now))"
proof -
  let ?raws = "LRANGE R (dlqKey C) (server w)"
  have "e \<in> set (List.map_filter parse_entry ?raws)
          \<and> k = default_to (e_retryCount e) 0 + 1 \<and> k \<le> default_to (e_maxRetries e) cap
          \<and> e_permanent e \<noteq> Some True \<and> isRetryable (default_to (e_error e) ''unknown'')
          \<and> (\<forall>t. or_else (e_nextRetryAt e) (e_failedAt e) = Some t \<longrightarrow> t \<le> rt_iso E now)"
    if "(e, k) \<in> set (concat (map retried_entries (decisions E env now cap ?raws)))" for e k
  proof -
    from that obtain raw where raw: "raw \<in> set ?raws" "(e, k) \<in> set (retried_entries (dlq_decide E env now cap raw))"
      unfolding decisions_def by auto
    then have "dlq_decide E env now cap raw = DRetry e k" by (cases "dlq_decide E env now cap raw") auto
    from decide_retry [OF this] raw(1) show ?thesis by (force simp: List.map_filter_def image_iff)
  qed
  with redis_lists.retry_pass [OF assms] show ?thesis by blast
qed

theorem dlq_retry_pass_witness:
  "fst (retryEligibleDlqEntries DEFAULT_DISPATCHER_CONFIG (Some ref_redis) sample_runtime None 200 3 None
     (pushToDlq DEFAULT_DISPATCHER_CONFIG (Some ref_redis) sample_entry (new_queue db_empty))) = 0"
proof -
  let ?w = "pushToDlq DEFAULT_DISPATCHER_CONFIG (Some ref_redis) sample_entry (new_queue db_empty)"
  obtain n w' where run: "retryEligibleDlqEntries DEFAULT_DISPATCHER_CONFIG (Some ref_redis) sample_runtime None 200 3 None ?w = (n, w')"
    by fastforce
  have "0 < dlqMaxSize DEFAULT_DISPATCHER_CONFIG" by (simp add: DEFAULT_DISPATCHER_CONFIG_def)
  from ref_server.push_lists [OF this, of sample_entry "new_queue db_empty"] this
  have list: "LRANGE ref_redis (dlqKey DEFAULT_DISPATCHER_CONFIG) (server ?w) = [entry_text sample_entry]"
    by (simp add: ref_redis_def new_queue_def db_empty_def)
  have "parse_entry (entry_text sample_entry) = Some sample_entry"
    by (rule parse_entry_text) (auto simp: sample_entry_def)
  then have "retried_entries (dlq_decide sample_runtime None 200 3 (entry_text sample_entry)) = []"
    by (rule decide_permanent) (simp add: sample_entry_def default_to_def)
  with dlq_retry_pass [OF ref_server.redis_lists_axioms run] run show ?thesis
    by (simp add: list decisions_def)
qed

end
