(* ===== verification/Recovery_Correct.thy ===== *)
theory Recovery_Correct
  imports DeadLetters_Correct
begin

text \<open>
  After a recovery, every scanned hash of an unfinished task that is not stale stands for a task in state
  queued whose identifier is in the set of its priority.
\<close>

definition settled :: "dispatcher_config \<Rightarrow> 's redis \<Rightarrow> string \<Rightarrow> 's \<Rightarrow> bool" where
  "settled C R key s \<longleftrightarrow> (\<exists>t. deserializeTask (map_of (HGETALL R key s)) = Some t
     \<and> map_of (HGETALL R key s) ''state'' = Some QUEUED
     \<and> bt_id t \<in> fst ` set (ZRANGE R (priorityKey C (bt_priority t)) s))"

text \<open>What recovery takes for an unfinished task that is young enough.\<close>

definition recoverable :: "dispatcher_config \<Rightarrow> runtime \<Rightarrow> int \<Rightarrow> (string \<rightharpoonup> string) \<Rightarrow> bool" where
  "recoverable C E now d \<longleftrightarrow> (\<exists>st \<in> {QUEUED, ASSIGNED, RUNNING}. d ''state'' = Some st)
     \<and> (case truthy (d ''createdAt'') of
          None \<Rightarrow> now \<le> completedTaskTtlSecs C * 1000
        | Some c \<Rightarrow> (case rt_date E c of None \<Rightarrow> True | Some ms \<Rightarrow> now - ms \<le> completedTaskTtlSecs C * 1000))"

definition recovery_fields :: "(string \<Rightarrow> int) option \<Rightarrow> string \<Rightarrow> (string \<times> string) list" where
  "recovery_fields gt name = [(''state'', QUEUED), (''workerId'', ''''), (''assignedAt'', '''')]
     @ (case gt of None \<Rightarrow> [] | Some f \<Rightarrow> [(''timeoutMs'', dec_int (f name))])"

lemma recovery_fields_distinct: "distinct (map fst (recovery_fields gt name))"
  by (simp add: recovery_fields_def split: option.splits)

lemma recovery_fields_lookup:
  "map_of (recovery_fields gt name) f = (if f = ''state'' then Some QUEUED else if f = ''workerId'' \<or> f = ''assignedAt'' then Some ''''
     else if f = ''timeoutMs'' then map_option (\<lambda>g. dec_int (g name)) gt else None)"
  by (simp add: recovery_fields_def split: option.splits)

lemma deserialize_recovered:
  assumes "deserializeTask d = Some t"
  shows "\<exists>u. deserializeTask (d ++ map_of (recovery_fields gt name)) = Some u \<and> bt_id u = bt_id t \<and> bt_priority u = bt_priority t"
proof -
  define d' where "d' = d ++ map_of (recovery_fields gt name)"
  have same: "d' f = d f" if "f \<notin> {''state'', ''workerId'', ''assignedAt'', ''timeoutMs''}" for f
    using that by (simp add: d'_def map_add_def recovery_fields_lookup split: option.splits)
  have tm: "d' ''timeoutMs'' = (case gt of None \<Rightarrow> d ''timeoutMs'' | Some g \<Rightarrow> Some (dec_int (g name)))"
    by (simp add: d'_def map_add_def recovery_fields_lookup split: option.splits)
  let ?default = "dec_int (defaultTimeoutMs DEFAULT_DISPATCHER_CONFIG)"
  have "js_Number (or_text (truthy (d ''timeoutMs'')) ?default) \<noteq> None"
    using assms unfolding deserializeTask_def by (auto split: option.splits)
  then have "js_Number (or_text (truthy (d' ''timeoutMs'')) ?default) \<noteq> None"
    by (cases gt) (simp_all add: tm or_text_def)
  moreover have "d' ''id'' = d ''id''" "d' ''priority'' = d ''priority''" "d' ''triggerPayload'' = d ''triggerPayload''"
    "d' ''dlqRetryCount'' = d ''dlqRetryCount''" "d' ''timeoutRetryCount'' = d ''timeoutRetryCount''"
    "d' ''modelOverride'' = d ''modelOverride''" "d' ''steerContext'' = d ''steerContext''"
    by (rule same; simp)+
  ultimately have "\<exists>u. deserializeTask d' = Some u \<and> bt_id u = bt_id t \<and> bt_priority u = bt_priority t"
    using assms unfolding deserializeTask_def by (auto split: option.splits)
  then show ?thesis by (simp add: d'_def)
qed

lemma recover_one_cases:
  assumes "recover_one C R E now gt key w = (Some b, w1)"
  obtains (same) "w1 = w" "recoverable C E now (map_of (HGETALL R key (server w))) \<Longrightarrow> settled C R key (server w)"
  | (expire) "w1 = w\<lparr>server := EXPIRE R key 60 (server w)\<rparr>" "\<not> recoverable C E now (map_of (HGETALL R key (server w)))"
  | (requeue) t where "deserializeTask (map_of (HGETALL R key (server w))) = Some t"
      "\<not> settled C R key (server w)"
      "server w1 = ZADD R (priorityKey C (bt_priority t)) (now * 1000 + int (scoreCounter w)) (bt_id t)
         (HSET R key (recovery_fields gt (bt_taskName t)) (server w))"
proof -
  let ?d = "map_of (HGETALL R key (server w))"
  let ?created = "case truthy (?d ''createdAt'') of None \<Rightarrow> Some 0 | Some c \<Rightarrow> rt_date E c"
  let ?stale = "case ?created of None \<Rightarrow> False | Some c \<Rightarrow> now - c > completedTaskTtlSecs C * 1000"
  show thesis
  proof (cases "\<exists>st \<in> {QUEUED, ASSIGNED, RUNNING}. ?d ''state'' = Some st")
    case False
    then have "w1 = w" using assms unfolding recover_one_def Let_def truthy_def
      by (auto split: if_splits option.splits)
    moreover have "\<not> recoverable C E now ?d" using False by (simp add: recoverable_def)
    ultimately show ?thesis using same by blast
  next
    case True
    then obtain st where st: "?d ''state'' = Some st" and un: "st = QUEUED \<or> st = ASSIGNED \<or> st = RUNNING" by blast
    then have ne: "HGETALL R key (server w) \<noteq> []" and tr: "truthy (?d ''state'') = Some st"
      by (auto simp: task_state_defs)
    show ?thesis
    proof (cases ?stale)
      case True
      with assms ne tr un have "w1 = w\<lparr>server := EXPIRE R key 60 (server w)\<rparr>"
        unfolding recover_one_def Let_def by (simp split: if_splits)
      moreover have "\<not> recoverable C E now ?d"
        using True by (auto simp: recoverable_def split: option.splits)
      ultimately show ?thesis by (rule expire)
    next
      case not_stale: False
      obtain t where t: "deserializeTask ?d = Some t"
        using assms ne tr un not_stale unfolding recover_one_def Let_def by (auto split: if_splits option.splits)
      show ?thesis
      proof (cases "st = QUEUED \<and> ZSCORE R (priorityKey C (bt_priority t)) (bt_id t) (server w) \<noteq> None")
        case True
        then have "w1 = w" using assms ne tr un not_stale t unfolding recover_one_def Let_def by simp
        moreover have "settled C R key (server w)"
          using True t st by (auto simp: settled_def ZSCORE_def map_of_eq_None_iff)
        ultimately show ?thesis using same by blast
      next
        case False
        then have "server w1 = ZADD R (priorityKey C (bt_priority t)) (now * 1000 + int (scoreCounter w)) (bt_id t)
         (HSET R key (recovery_fields gt (bt_taskName t)) (server w))"
          using assms ne tr un not_stale t unfolding recover_one_def Let_def recovery_fields_def
          by (auto simp: computeScore_def split: if_splits)
        moreover have "\<not> settled C R key (server w)"
          using False t st by (auto simp: settled_def ZSCORE_def map_of_eq_None_iff)
        ultimately show ?thesis using requeue t by blast
      qed
    qed
  qed
qed

context redis_queues begin

lemma zput_names: "fst ` set (zput sc m zs) = insert m (fst ` set zs)"
  by (auto simp: zput_def)

lemma requeue_names: "fst ` set (ZRANGE R k (ZADD R k' sc m (HSET R key fs s)))
    = (if k = k' then insert m (fst ` set (ZRANGE R k s)) else fst ` set (ZRANGE R k s))"
  by (simp add: zrange_zadd zrange_hset zput_names)

lemma recover_one_grows:
  assumes "recover_one C R E now gt key w = (Some b, w1)"
  shows "fst ` set (ZRANGE R k (server w)) \<subseteq> fst ` set (ZRANGE R k (server w1))
    \<and> (l \<noteq> key \<longrightarrow> map_of (HGETALL R l (server w1)) = map_of (HGETALL R l (server w)))"
  using assms
proof (cases rule: recover_one_cases)
  case (requeue t)
  have "fst ` set (ZRANGE R k (server w)) \<subseteq> fst ` set (ZRANGE R k (server w1))"
    unfolding requeue(3) requeue_names by auto
  then show ?thesis unfolding requeue(3) hgetall_zadd hgetall_hset [OF recovery_fields_distinct] by simp
qed (simp_all add: zrange_expire hgetall_expire)

lemma recover_one_keeps_settled:
  assumes "recover_one C R E now gt key w = (Some b, w1)" "settled C R l (server w)"
  shows "settled C R l (server w1)"
proof (cases "l = key")
  case False
  then have same: "map_of (HGETALL R l (server w1)) = map_of (HGETALL R l (server w))"
    using recover_one_grows [OF assms(1)] by blast
  from assms(2) obtain t where t: "deserializeTask (map_of (HGETALL R l (server w))) = Some t"
    "map_of (HGETALL R l (server w)) ''state'' = Some QUEUED"
    and "bt_id t \<in> fst ` set (ZRANGE R (priorityKey C (bt_priority t)) (server w))" unfolding settled_def by blast
  from this(3) have "bt_id t \<in> fst ` set (ZRANGE R (priorityKey C (bt_priority t)) (server w1))"
    using recover_one_grows [OF assms(1)] by (metis subsetD)
  with t show ?thesis unfolding settled_def same by blast
next
  case True
  from assms(1) show ?thesis
  proof (cases rule: recover_one_cases)
    case expire
    with assms(2) show ?thesis by (simp add: settled_def hgetall_expire zrange_expire)
  qed (use assms(2) True in auto)
qed

lemma recover_one_settles:
  assumes one: "recover_one C R E now gt key w = (Some b, w1)" and rec: "recoverable C E now (map_of (HGETALL R key (server w)))"
  shows "settled C R key (server w1)"
  using one
proof (cases rule: recover_one_cases)
  case (requeue t)
  from deserialize_recovered [OF requeue(1)] obtain u where
    "deserializeTask (map_of (HGETALL R key (server w)) ++ map_of (recovery_fields gt (bt_taskName t))) = Some u"
    "bt_id u = bt_id t" "bt_priority u = bt_priority t" by blast
  with requeue(3) show ?thesis
    by (simp add: settled_def requeue_names hgetall_zadd hgetall_hset [OF recovery_fields_distinct])
      (simp add: map_add_def recovery_fields_lookup)
next
  case same
  with rec show ?thesis by blast
next
  case expire
  with rec show ?thesis by blast
qed

lemma recover_keys_settles:
  assumes "recover_keys C R E now gt keys n w = (Some m, w1)" "key \<in> set keys"
    and "recoverable C E now (map_of (HGETALL R key (server w))) \<or> settled C R key (server w)"
  shows "settled C R key (server w1)"
  using assms
proof (induction keys arbitrary: n w)
  case (Cons k keys)
  from Cons.prems(1) obtain b w2 where one: "recover_one C R E now gt k w = (Some b, w2)"
    and rest: "recover_keys C R E now gt keys (if b then n + 1 else n) w2 = (Some m, w1)"
    by (auto split: prod.splits option.splits)
  have keeps: "settled C R key (server w1)" if "settled C R key (server w2)"
    using rest that
  proof (induction keys arbitrary: w2 b n)
    case (Cons k' ks)
    from Cons.prems(1) obtain c w3 where "recover_one C R E now gt k' w2 = (Some c, w3)"
      "recover_keys C R E now gt ks (if c then (if b then n + 1 else n) + 1 else (if b then n + 1 else n)) w3 = (Some m, w1)"
      by (auto split: prod.splits option.splits)
    with Cons.IH [of c _ w3] recover_one_keeps_settled [OF this(1) Cons.prems(2)] show ?case by blast
  qed simp
  show ?case
  proof (cases "settled C R key (server w2)")
    case True
    then show ?thesis by (rule keeps)
  next
    case False
    with recover_one_keeps_settled [OF one] Cons.prems(3) have rec: "recoverable C E now (map_of (HGETALL R key (server w)))" by blast
    with recover_one_settles [OF one] False have "key \<noteq> k" by blast
    with recover_one_grows [OF one, of _ key] \<open>key \<noteq> k\<close> rec Cons.prems(2) Cons.IH [OF rest] show ?thesis by simp
  qed
qed simp

end

text \<open>
  C39: recovery leaves no orphan: after a recovery that completes, every scanned hash that held an unfinished task young enough (queued, assigned
  or running) holds a task in state queued whose identifier is in the set of its priority; a key delivered twice does no harm.
\<close>
theorem recovery_leaves_no_orphan:
  assumes "redis_queues R" and "recoverOrphaned C (Some R) E now gt scanned w = (Some n, w')"
    and "key \<in> set scanned" and "recoverable C E now (map_of (HGETALL R key (server w)))"
  shows "settled C R key (server w')"
  using redis_queues.recover_keys_settles [OF assms(1) _ assms(3)] assms(2,4) by (simp add: recoverOrphaned_def)

definition orphan_world :: "ref_db tq" where
  "orphan_world = new_queue (db_empty\<lparr>db_hashes := [(''builder:task:a'', serializeTask (old_task\<lparr>bt_id := ''a'', bt_state := RUNNING\<rparr>))]\<rparr>)"

theorem recovery_leaves_no_orphan_witness:
  "settled DEFAULT_DISPATCHER_CONFIG ref_redis ''builder:task:a''
     (server (snd (recoverOrphaned DEFAULT_DISPATCHER_CONFIG (Some ref_redis) sample_runtime 1000 None [''builder:task:a''] orphan_world)))"
proof -
  let ?t = "old_task\<lparr>bt_id := ''a'', bt_state := RUNNING\<rparr>"
  obtain m w' where run: "recoverOrphaned DEFAULT_DISPATCHER_CONFIG (Some ref_redis) sample_runtime 1000 None [''builder:task:a''] orphan_world = (m, w')"
    by fastforce
  have hash: "HGETALL ref_redis ''builder:task:a'' (server orphan_world) = serializeTask ?t"
    by (simp add: orphan_world_def new_queue_def ref_redis_def db_hash_def)
  have des: "deserializeTask (map_of (serializeTask ?t)) = Some ?t"
    by (rule task_roundtrip) (simp add: old_task_def new_task_def params_def task_wf_def)
  have "map_of (serializeTask ?t) ''state'' = Some RUNNING" "map_of (serializeTask ?t) ''createdAt'' = Some (dec_int 0)"
    by (simp_all add: serializeTask_lookup task_fields_def old_task_def new_task_def sample_runtime_def)
  then have rec: "recoverable DEFAULT_DISPATCHER_CONFIG sample_runtime 1000 (map_of (HGETALL ref_redis ''builder:task:a'' (server orphan_world)))"
    unfolding hash by (simp add: recoverable_def sample_runtime_def DEFAULT_DISPATCHER_CONFIG_def)
  have "m \<noteq> None" using run des
    by (auto simp: recoverOrphaned_def recover_one_def hash Let_def split: option.splits if_splits prod.splits)
  then obtain n where "m = Some n" by blast
  with recovery_leaves_no_orphan [OF ref_server.redis_queues_axioms, of DEFAULT_DISPATCHER_CONFIG sample_runtime 1000 None
      "[''builder:task:a'']" orphan_world n w' "''builder:task:a''"] rec run show ?thesis by simp
qed

end
