(* ===== verification/Dispatcher_Correct.thy ===== *)
theory Dispatcher_Correct
  imports Dispatcher Recovery_Correct
begin

text \<open>
  Properties of the dispatcher: dispatching never gives a worker two tasks and leaves no idle worker beside a
  queue that still answers; admission respects the queue bounds and suppresses duplicates; and two consequences of
  the code as written, on the retry budget after a timeout and on events rejected by backpressure.
\<close>

section \<open>Dispatch\<close>

definition idle_count :: "worker list \<Rightarrow> nat" where
  "idle_count ws = length (filter isIdle ws)"

lemma first_idle_some: "first_idle ws = Some i \<Longrightarrow> i < length ws \<and> isIdle (ws ! i)"
  by (induction ws arbitrary: i) (auto split: if_splits)

lemma first_idle_none: "first_idle ws = None \<longleftrightarrow> idle_count ws = 0"
  by (induction ws) (auto simp: idle_count_def)

lemma idle_count_update:
  "i < length ws \<Longrightarrow> isIdle (ws ! i) \<Longrightarrow> \<not> isIdle w \<Longrightarrow> Suc (idle_count (ws[i := w])) = idle_count ws"
  by (induction ws arbitrary: i) (auto simp: idle_count_def nth_Cons split: nat.splits)

lemma execute_busy: "worker_execute t task w = Some w1 \<Longrightarrow> isBusy w1 \<and> wh_currentTaskId (handle w1) = Some (bt_id task)"
  by (auto simp: worker_execute_def isBusy_def split: if_splits)

lemma busy_not_idle: "isBusy w \<Longrightarrow> \<not> isIdle w"
  by (simp add: isBusy_def isIdle_def)

lemma dispatch_one_started:
  assumes "dispatch_one C R E paused now d = Some (Started i task, d1)"
  shows "i < length (workers d) \<and> isIdle (workers d ! i)
    \<and> (\<exists>w. workers d1 = (workers d)[i := w] \<and> isBusy w \<and> wh_currentTaskId (handle w) = Some (bt_id task))"
proof -
  from assms obtain w where "first_idle (workers d) = Some i" "workers d1 = (workers d)[i := w]"
    "worker_execute (rt_iso E now) task (workers d ! i) = Some w"
    by (auto simp: dispatch_one_def emit_def Let_def split: option.splits if_splits)
  with first_idle_some execute_busy show ?thesis by blast
qed

lemma dispatch_one_stops:
  assumes "dispatch_one C R E False now d = Some (Stop_loop, d1)"
  shows "workers d1 = workers d \<and> (idle_count (workers d1) = 0 \<or> (\<exists>q. tq_dequeue C R E now q = Some (Some None, queue d1)))"
  using assms by (auto simp: dispatch_one_def first_idle_none [symmetric] Let_def split: option.splits if_splits)

lemma dispatch_loop_spec:
  assumes "dispatch_loop n C R E False now d = Some (xs, d1)" "idle_count (workers d) < n"
  shows "length (workers d1) = length (workers d) \<and> distinct (map fst xs)
    \<and> (\<forall>(i, t) \<in> set xs. i < length (workers d) \<and> isIdle (workers d ! i)
          \<and> isBusy (workers d1 ! i) \<and> wh_currentTaskId (handle (workers d1 ! i)) = Some (bt_id t))
    \<and> (\<forall>i < length (workers d). i \<notin> fst ` set xs \<longrightarrow> workers d1 ! i = workers d ! i)
    \<and> (idle_count (workers d1) = 0 \<or> (\<exists>q. tq_dequeue C R E now q = Some (Some None, queue d1)))"
  using assms
proof (induction n arbitrary: d xs)
  case (Suc n)
  then obtain out d2 where one: "dispatch_one C R E False now d = Some (out, d2)"
    by (cases "dispatch_one C R E False now d") auto
  show ?case
  proof (cases out)
    case Stop_loop
    with Suc.prems(1) one have "xs = []" "d1 = d2" by auto
    with dispatch_one_stops [of C R E now d d2] one Stop_loop show ?thesis by auto
  next
    case (Started j task)
    with Suc.prems(1) one obtain ys where loop: "dispatch_loop n C R E False now d2 = Some (ys, d1)" and xs: "xs = (j, task) # ys"
      by auto
    from dispatch_one_started [of C R E False now d j task d2] one Started obtain w where
      j: "j < length (workers d)" "isIdle (workers d ! j)" and w: "workers d2 = (workers d)[j := w]" "isBusy w"
      "wh_currentTaskId (handle w) = Some (bt_id task)" by auto
    have "idle_count (workers d2) < n"
      using idle_count_update [OF j busy_not_idle [OF w(2)]] Suc.prems(2) w(1) by simp
    note IH = Suc.IH [OF loop this]
    have nj: "j \<notin> fst ` set ys" using IH w busy_not_idle [OF w(2)] j(1) by fastforce
    with IH j(1) w have wj: "workers d1 ! j = w" by simp
    have eq: "workers d2 ! i = workers d ! i" if "i \<noteq> j" for i using that w(1) by simp
    show ?thesis
    proof (intro conjI ballI allI impI)
      show "length (workers d1) = length (workers d)" "distinct (map fst xs)" using IH w(1) xs nj by auto
      show "idle_count (workers d1) = 0 \<or> (\<exists>q. tq_dequeue C R E now q = Some (Some None, queue d1))" using IH by blast
      show "workers d1 ! i = workers d ! i" if "i < length (workers d)" "i \<notin> fst ` set xs" for i
        using IH that xs w(1) eq by auto
    next
      fix p assume p: "p \<in> set xs"
      show "case p of (i, t) \<Rightarrow> i < length (workers d) \<and> isIdle (workers d ! i)
          \<and> isBusy (workers d1 ! i) \<and> wh_currentTaskId (handle (workers d1 ! i)) = Some (bt_id t)"
      proof (cases "p = (j, task)")
        case True
        with j w wj show ?thesis by simp
      next
        case False
        with p xs obtain i t where it: "p = (i, t)" "(i, t) \<in> set ys" by (metis set_ConsD surj_pair)
        with nj have "i \<noteq> j" by force
        with IH it eq [of i] w(1) show ?thesis by auto
      qed
    qed
  qed
qed simp

text \<open>
  Dispatching is safe and leaves no work behind: each task it starts goes to a different worker that was idle and
  is now busy with exactly that task, the other workers are untouched, and it ends with no idle worker or with a
  queue that answered empty (the bound on the loop is never what ends it).
\<close>
theorem dispatch_fills_idle_workers:
  assumes "dispatchNext C R E False now d = Some (xs, d1)" and "d_running d" and "\<not> dispatching d"
  shows "length (workers d1) = length (workers d) \<and> distinct (map fst xs)
    \<and> (\<forall>(i, t) \<in> set xs. i < length (workers d) \<and> isIdle (workers d ! i)
          \<and> isBusy (workers d1 ! i) \<and> wh_currentTaskId (handle (workers d1 ! i)) = Some (bt_id t))
    \<and> (\<forall>i < length (workers d). i \<notin> fst ` set xs \<longrightarrow> workers d1 ! i = workers d ! i)
    \<and> (idle_count (workers d1) = 0 \<or> (\<exists>q. tq_dequeue C R E now q = Some (Some None, queue d1)))"
proof (rule dispatch_loop_spec)
  show "dispatch_loop (Suc (length (workers d))) C R E False now d = Some (xs, d1)"
    using assms by (simp add: dispatchNext_def)
  show "idle_count (workers d) < Suc (length (workers d))" by (simp add: idle_count_def less_Suc_eq_le)
qed

definition one_waiting :: "unit dispatcher" where
  "one_waiting = (new_dispatcher (DEFAULT_DISPATCHER_CONFIG\<lparr>maxConcurrentWorkers := 2\<rparr>) (\<lambda>i. dec_nat i)
      ((\<lparr>server = (), memQueue = [(sample_task, 0)], memTasks = [], scoreCounter = 1, uuidsDrawn = 1\<rparr>)))\<lparr>d_running := True\<rparr>"

theorem dispatch_fills_idle_workers_witness:
  "\<exists>d1. dispatchNext DEFAULT_DISPATCHER_CONFIG None sample_runtime False 5 one_waiting
      = Some ([(0, sample_task\<lparr>bt_state := ASSIGNED, bt_assignedAt := Some (dec_int 5)\<rparr>)], d1)
    \<and> isBusy (workers d1 ! 0) \<and> workers d1 ! 1 = workers one_waiting ! 1"
proof -
  let ?t = "sample_task\<lparr>bt_state := ASSIGNED, bt_assignedAt := Some (dec_int 5)\<rparr>"
  have len: "length (workers one_waiting) = 2" by (simp add: one_waiting_def new_dispatcher_def)
  have "\<exists>d1. dispatchNext DEFAULT_DISPATCHER_CONFIG None sample_runtime False 5 one_waiting = Some ([(0, ?t)], d1)"
    by (simp add: dispatchNext_def one_waiting_def new_dispatcher_def new_worker_def isIdle_def dispatch_one_def
        tq_dequeue_def dequeueMemory_def updateTask_def worker_execute_def emit_def sample_runtime_def upt_rec numeral_2_eq_2 Let_def)
  then obtain d1 where run: "dispatchNext DEFAULT_DISPATCHER_CONFIG None sample_runtime False 5 one_waiting = Some ([(0, ?t)], d1)" by blast
  have "d_running one_waiting" "\<not> dispatching one_waiting" by (simp_all add: one_waiting_def new_dispatcher_def)
  from dispatch_fills_idle_workers [OF run this] run len show ?thesis by auto
qed

section \<open>Admission\<close>

lemma emit_queue [simp]: "queue (emit x d) = queue d" "projectFailures (emit x d) = projectFailures d" "workers (emit x d) = workers d"
  by (simp_all add: emit_def)

lemma notify_queue [simp]: "queue (notifyTaskRegistry P t n st pr i d) = queue d"
  by (simp add: notifyTaskRegistry_def)

lemma cleanup_queue [simp]: "queue (cleanupCircuitBrokenPR P payload d) = queue d"
  by (simp add: cleanupCircuitBrokenPR_def)

lemma strategist_queue: "strategist_guard C R P k n c p d = (b, d1) \<Longrightarrow> queue d1 = queue d \<and> (\<not> b \<longrightarrow> d1 = d)"
  by (auto simp: strategist_guard_def split: if_splits)

lemma circuit_queue: "circuit_guard P now payload d = (b, d1) \<Longrightarrow> queue d1 = queue d"
  by (auto simp: circuit_guard_def split: prod.splits)

lemma backpressure_queue: "checkBackpressure C R P priority d = (b, d1) \<Longrightarrow> queue d1 = queue d"
  by (auto simp: checkBackpressure_def alertBackpressure_def Let_def split: if_splits)

text \<open>The stages of an admitted event.\<close>

lemma handleEvent_admitted:
  assumes "handleEvent C R E P now eventKey event d = (Some task, d1)"
  obtains taskName d2 d3 d4 d5 where
    "map_of EVENT_TASK_MAP eventKey = Some taskName"
    "corr_dedup R (ev_correlationId event) d = (False, d2)"
    "task_dedup R taskName (default_to (ev_payload event) (JObj [])) d2 = (False, d3)"
    "queue d4 = queue d3" "checkBackpressure C R P (task_priority C taskName) d4 = (False, d5)"
    "(task, queue d1) = tq_enqueue C R E now (admission_params C P eventKey taskName (task_priority C taskName)
       (default_to (ev_payload event) (JObj [])) (ev_correlationId event)) (queue d3)"
proof -
  let ?payload = "default_to (ev_payload event) (JObj [])"
  from assms obtain taskName where tn: "map_of EVENT_TASK_MAP eventKey = Some taskName"
    by (auto simp: handleEvent_def split: option.splits)
  obtain b1 d1' where g1: "strategist_guard C R P eventKey taskName (or_text (ev_correlationId event) '''') ?payload d = (b1, d1')" by fastforce
  obtain b2 d2 where g2: "corr_dedup R (ev_correlationId event) d1' = (b2, d2)" by fastforce
  obtain b3 d3 where g3: "task_dedup R taskName ?payload d2 = (b3, d3)" by fastforce
  obtain b4 d4 where g4: "circuit_guard P now ?payload d3 = (b4, d4)" by fastforce
  obtain b5 d5 where g5: "checkBackpressure C R P (task_priority C taskName) d4 = (b5, d5)" by fastforce
  obtain t q where g6: "tq_enqueue C R E now (admission_params C P eventKey taskName (task_priority C taskName) ?payload (ev_correlationId event)) (queue d5) = (t, q)" by fastforce
  have "\<not> b1 \<and> \<not> b2 \<and> \<not> b3 \<and> \<not> b4 \<and> \<not> b5 \<and> t = task \<and> queue d1 = q"
    using assms unfolding handleEvent_def Let_def
    by (auto simp: tn g1 g2 g3 g4 g5 g6 split: if_splits)
  with strategist_queue [OF g1] circuit_queue [OF g4] backpressure_queue [OF g5] g2 g3 g5 g6
  show ?thesis by (intro that [of taskName d2 d3 d4 d5]) (simp_all add: tn)
qed

definition depth_of :: "dispatcher_config \<Rightarrow> 's redis option \<Rightarrow> 's dispatcher \<Rightarrow> nat" where
  "depth_of C R d = totalSize C R (queue d)"

text \<open>A server, if there is one, that keeps its contract.\<close>

definition server_ok :: "'s redis option \<Rightarrow> bool" where
  "server_ok R \<longleftrightarrow> (\<forall>R'. R = Some R' \<longrightarrow> redis_keys R')"

lemma set_new_depth:
  assumes "server_ok R" "set_new R k secs d = (b, d1)"
  shows "depth_of C R d1 = depth_of C R d"
proof (cases R)
  case (Some R')
  with assms(1) have laws: "redis_keys R'" by (simp add: server_ok_def)
  obtain s where "SETNX R' k secs (server (queue d)) = (b, s)" and d1: "d1 = d\<lparr>queue := (queue d)\<lparr>server := s\<rparr>\<rparr>"
    using assms(2) Some by (auto simp: set_new_def split: prod.splits)
  from redis_keys.setnx [OF laws this(1)] d1 Some show ?thesis
    by (simp add: depth_of_def totalSize_def tq_size_def ZCARD_def)
qed (use assms in \<open>simp add: set_new_def\<close>)

lemma corr_dedup_depth: "server_ok R \<Longrightarrow> corr_dedup R c d = (b, d1) \<Longrightarrow> depth_of C R d1 = depth_of C R d"
  by (auto simp: corr_dedup_def split: option.splits prod.splits dest: set_new_depth)

lemma task_dedup_depth: "server_ok R \<Longrightarrow> task_dedup R n p d = (b, d1) \<Longrightarrow> depth_of C R d1 = depth_of C R d"
  by (auto simp: task_dedup_def trySetDedup_def split: option.splits prod.splits dest: set_new_depth)

text \<open>
  Admission respects the queue bounds: an event that is admitted became a task of its configured priority when the queue was below its
  maximal depth, or is a safety task; and a background task is admitted only below the backpressure threshold, too.
\<close>
theorem admission_respects_bounds:
  assumes "server_ok R" and "handleEvent C R E P now eventKey event d = (Some task, d1)"
  shows "(bt_priority task \<le> P0_SAFETY \<or> depth_of C R d < maxQueueDepth C)
    \<and> (P3_BACKGROUND \<le> bt_priority task \<longrightarrow> depth_of C R d < backpressureThreshold C)"
  using assms(2)
proof (cases rule: handleEvent_admitted)
  case (1 taskName d2 d3 d4 d5)
  from 1(2,3) corr_dedup_depth [OF assms(1)] task_dedup_depth [OF assms(1)] have "depth_of C R d3 = depth_of C R d" by metis
  then have "totalSize C R (queue d4) = depth_of C R d" using 1(4) by (simp add: depth_of_def)
  moreover have "bt_priority task = task_priority C taskName"
    using 1(6) by (auto simp: tq_enqueue_def new_task_def admission_params_def params_def Let_def split: prod.splits option.splits)
  ultimately show ?thesis
    using 1(5) by (auto simp: checkBackpressure_def Let_def split: if_splits)
qed

definition ci_event :: agent_event where
  "ci_event = \<lparr>ev_payload = Some (JObj [(''repo'', JStr ''yclaw''), (''pr_number'', JStr ''7'')]), ev_correlationId = None\<rparr>"

definition idle_dispatcher :: "ref_db dispatcher" where
  "idle_dispatcher = new_dispatcher DEFAULT_DISPATCHER_CONFIG (\<lambda>i. dec_nat i) (new_queue db_empty)"

definition no_deps :: dispatcher_deps where
  "no_deps = \<lparr>dp_triggers = [], dp_slack = False, dp_registry = False, dp_githubToken = False\<rparr>"

lemma ref_server_ok: "server_ok (Some ref_redis)"
  using ref_server.redis_keys_axioms by (simp add: server_ok_def)

text \<open>An event without correlation whose task has a dedup key, past the guards before the dedup.\<close>

definition plain_event :: "string \<Rightarrow> agent_event \<Rightarrow> string \<Rightarrow> bool" where
  "plain_event eventKey event k \<longleftrightarrow> eventKey \<noteq> ''strategist:builder_directive'' \<and> truthy (ev_correlationId event) = None
     \<and> (\<exists>taskName. map_of EVENT_TASK_MAP eventKey = Some taskName
          \<and> \<not> review_guard taskName (default_to (ev_payload event) (JObj []))
          \<and> dedupKey taskName (default_to (ev_payload event) (JObj [])) = Some k)"

lemma enqueue_exists:
  assumes "redis_keys R" "tq_enqueue C (Some R) E now p q = (t, q1)" "EXISTS R k (server q)"
  shows "EXISTS R k (server q1)"
  using assms(2,3) redis_keys.exists_hset [OF assms(1)] redis_keys.exists_zadd [OF assms(1)]
  by (auto simp: tq_enqueue_def randomUUID_def computeScore_def Let_def split: option.splits)

lemma set_new_exists:
  assumes "redis_keys R" "set_new (Some R) k secs d = (b, d1)"
  shows "b = (\<not> EXISTS R k (server (queue d)))
    \<and> (\<forall>l. EXISTS R l (server (queue d1)) \<longleftrightarrow> l = k \<or> EXISTS R l (server (queue d)))"
proof -
  obtain s where "SETNX R k secs (server (queue d)) = (b, s)" and d1: "d1 = d\<lparr>queue := (queue d)\<lparr>server := s\<rparr>\<rparr>"
    using assms(2) by (auto simp: set_new_def split: prod.splits)
  from redis_keys.setnx [OF assms(1) this(1)] d1 show ?thesis by simp
qed

lemma corr_dedup_exists:
  "redis_keys R \<Longrightarrow> corr_dedup (Some R) c d = (b, d1) \<Longrightarrow> EXISTS R k (server (queue d)) \<Longrightarrow> EXISTS R k (server (queue d1))"
  by (auto simp: corr_dedup_def split: option.splits prod.splits dest: set_new_exists)

lemma duplicate_suppressed:
  assumes R: "redis_keys R" and tn: "map_of EVENT_TASK_MAP eventKey = Some taskName"
    and k: "dedupKey taskName (default_to (ev_payload event) (JObj [])) = Some k" and ex: "EXISTS R k (server (queue d))"
  shows "fst (handleEvent C (Some R) E P now eventKey event d) = None"
proof (rule ccontr)
  assume "fst (handleEvent C (Some R) E P now eventKey event d) \<noteq> None"
  then obtain task d1 where "handleEvent C (Some R) E P now eventKey event d = (Some task, d1)"
    by (metis option.exhaust prod.collapse)
  then show False
  proof (cases rule: handleEvent_admitted)
    case (1 n d2 d3 d4 d5)
    with tn have n: "n = taskName" by simp
    from corr_dedup_exists [OF R 1(2) ex] 1(3) k show False
      unfolding n task_dedup_def trySetDedup_def by (auto split: prod.splits dest: set_new_exists [OF R])
  qed
qed

lemma admitted_exists:
  assumes R: "redis_keys R" and adm: "handleEvent C (Some R) E P now eventKey event d = (Some task, d1)"
    and tn: "map_of EVENT_TASK_MAP eventKey = Some taskName"
    and k: "dedupKey taskName (default_to (ev_payload event) (JObj [])) = Some k"
  shows "EXISTS R k (server (queue d1))"
  using adm
proof (cases rule: handleEvent_admitted)
  case (1 n d2 d3 d4 d5)
  with tn have n: "n = taskName" by simp
  have "EXISTS R k (server (queue d3))"
    using 1(3) k unfolding n task_dedup_def trySetDedup_def by (auto split: prod.splits dest: set_new_exists [OF R])
  from enqueue_exists [OF R 1(6) [symmetric] this] show ?thesis .
qed

lemma plain_event_admitted:
  assumes R: "redis_keys R" and plain: "plain_event eventKey event k" and new: "\<not> EXISTS R k (server (queue d))"
    and none: "projectFailures d = []" and room: "depth_of C (Some R) d < backpressureThreshold C" "depth_of C (Some R) d < maxQueueDepth C"
  shows "\<exists>task d1. handleEvent C (Some R) E P now eventKey event d = (Some task, d1)"
proof -
  let ?payload = "default_to (ev_payload event) (JObj [])"
  from plain obtain taskName where tn: "map_of EVENT_TASK_MAP eventKey = Some taskName"
    and rg: "\<not> review_guard taskName ?payload" and k: "dedupKey taskName ?payload = Some k"
    and corr: "truthy (ev_correlationId event) = None" and ek: "eventKey \<noteq> ''strategist:builder_directive''"
    by (auto simp: plain_event_def)
  have g1: "strategist_guard C (Some R) P eventKey taskName (or_text (ev_correlationId event) '''') ?payload d = (False, d)"
    using ek by (simp add: strategist_guard_def)
  have st: "\<not> stale_guard C now (ev_correlationId event)" using corr by (simp add: stale_guard_def)
  have g2: "corr_dedup (Some R) (ev_correlationId event) d = (False, d)" using corr by (simp add: corr_dedup_def)
  obtain b d3 where sn: "set_new (Some R) k 3600 d = (b, d3)" by fastforce
  then have b: "b" and pf: "projectFailures d3 = []"
    using set_new_exists [OF R sn] new none by (auto simp: set_new_def split: prod.splits)
  have "depth_of C (Some R) d3 = depth_of C (Some R) d"
    by (rule set_new_depth [OF _ sn]) (simp add: server_ok_def R)
  with room have bp: "checkBackpressure C (Some R) P (task_priority C taskName) d3 = (False, d3\<lparr>backpressureAlerted := False\<rparr>)"
    by (simp add: checkBackpressure_def depth_of_def Let_def)
  have g3: "task_dedup (Some R) taskName ?payload d = (False, d3)"
    using sn b by (simp add: task_dedup_def trySetDedup_def k)
  have g4: "circuit_guard P now ?payload d3 = (False, d3)"
    using pf by (simp add: circuit_guard_def isProjectCircuitOpen_def split: option.splits)
  show ?thesis
    unfolding handleEvent_def Let_def by (simp add: tn g1 rg st g2 g3 g4 bp split: prod.splits)
qed

lemma ci_event_plain: "plain_event ''github:ci_fail'' ci_event ''dedup:fix_ci_failure:yclaw:7''"
  by (simp add: plain_event_def ci_event_def EVENT_TASK_MAP_def review_guard_def dedupKey_def pr_of_def issue_of_def
      coalesce_def nullish_def jprop_def default_to_def Let_def)

lemma idle_dispatcher_facts:
  "projectFailures idle_dispatcher = []" "depth_of C (Some ref_redis) idle_dispatcher = 0"
  "\<not> EXISTS ref_redis k (server (queue idle_dispatcher))"
  by (simp_all add: idle_dispatcher_def new_dispatcher_def depth_of_def totalSize_def tq_size_def ZCARD_def
      PRIORITY_LEVELS_def new_queue_def db_empty_def ref_redis_def db_exists_def mhas_def)

lemma ci_event_admitted:
  "\<exists>task d1. handleEvent DEFAULT_DISPATCHER_CONFIG (Some ref_redis) sample_runtime no_deps 5 ''github:ci_fail'' ci_event idle_dispatcher = (Some task, d1)"
  by (rule plain_event_admitted [OF ref_server.redis_keys_axioms ci_event_plain])
    (simp_all add: idle_dispatcher_facts DEFAULT_DISPATCHER_CONFIG_def)

lemma ci_event_task: "map_of EVENT_TASK_MAP ''github:ci_fail'' = Some ''fix_ci_failure''"
  by (simp add: EVENT_TASK_MAP_def)

lemma ci_event_key: "dedupKey ''fix_ci_failure'' (default_to (ev_payload ci_event) (JObj [])) = Some ''dedup:fix_ci_failure:yclaw:7''"
  using ci_event_plain ci_event_task by (auto simp: plain_event_def)

theorem admission_respects_bounds_witness:
  "\<exists>task. fst (handleEvent DEFAULT_DISPATCHER_CONFIG (Some ref_redis) sample_runtime no_deps 5 ''github:ci_fail'' ci_event idle_dispatcher) = Some task
    \<and> (bt_priority task \<le> 0 \<or> depth_of DEFAULT_DISPATCHER_CONFIG (Some ref_redis) idle_dispatcher < 50)"
proof -
  obtain task d1 where adm: "handleEvent DEFAULT_DISPATCHER_CONFIG (Some ref_redis) sample_runtime no_deps 5 ''github:ci_fail'' ci_event idle_dispatcher = (Some task, d1)"
    using ci_event_admitted by blast
  have "maxQueueDepth DEFAULT_DISPATCHER_CONFIG = 50" by (simp add: DEFAULT_DISPATCHER_CONFIG_def)
  with admission_respects_bounds [OF ref_server_ok adm] adm show ?thesis by auto
qed

text \<open>
  The same work is admitted once: after an event was admitted, any event whose task has the same dedup key (same task, repository and
  pull request, issue or commit) is suppressed, until the key expires or the task finishes.
\<close>
theorem same_work_admitted_once:
  assumes "redis_keys R" and "handleEvent C (Some R) E P now eventKey event d = (Some task, d1)"
    and "map_of EVENT_TASK_MAP eventKey = Some taskName" and "map_of EVENT_TASK_MAP eventKey' = Some taskName'"
    and "dedupKey taskName (default_to (ev_payload event) (JObj [])) = Some k"
    and "dedupKey taskName' (default_to (ev_payload event') (JObj [])) = Some k"
  shows "fst (handleEvent C' (Some R) E P' now' eventKey' event' d1) = None"
  using duplicate_suppressed [OF assms(1,4,6) admitted_exists [OF assms(1,2,3,5)]] .

theorem same_work_admitted_once_witness:
  "fst (handleEvent DEFAULT_DISPATCHER_CONFIG (Some ref_redis) sample_runtime no_deps 6 ''github:ci_fail'' ci_event
     (snd (handleEvent DEFAULT_DISPATCHER_CONFIG (Some ref_redis) sample_runtime no_deps 5 ''github:ci_fail'' ci_event idle_dispatcher))) = None"
proof -
  obtain task d1 where adm: "handleEvent DEFAULT_DISPATCHER_CONFIG (Some ref_redis) sample_runtime no_deps 5 ''github:ci_fail'' ci_event idle_dispatcher = (Some task, d1)"
    using ci_event_admitted by blast
  from same_work_admitted_once [OF ref_server.redis_keys_axioms adm ci_event_task ci_event_task ci_event_key ci_event_key]
  show ?thesis unfolding adm snd_conv .
qed

lemma plain_event_recorded:
  assumes R: "redis_keys R" and plain: "plain_event eventKey event k"
  shows "EXISTS R k (server (queue (snd (handleEvent C (Some R) E P now eventKey event d))))"
proof -
  let ?payload = "default_to (ev_payload event) (JObj [])"
  from plain obtain taskName where tn: "map_of EVENT_TASK_MAP eventKey = Some taskName"
    and rg: "\<not> review_guard taskName ?payload" and k: "dedupKey taskName ?payload = Some k"
    and corr: "truthy (ev_correlationId event) = None" and ek: "eventKey \<noteq> ''strategist:builder_directive''"
    by (auto simp: plain_event_def)
  have g1: "strategist_guard C (Some R) P eventKey taskName (or_text (ev_correlationId event) '''') ?payload d = (False, d)"
    using ek by (simp add: strategist_guard_def)
  have st: "\<not> stale_guard C now (ev_correlationId event)" using corr by (simp add: stale_guard_def)
  have g2: "corr_dedup (Some R) (ev_correlationId event) d = (False, d)" using corr by (simp add: corr_dedup_def)
  obtain b3 d3 where g3: "task_dedup (Some R) taskName ?payload d = (b3, d3)" by fastforce
  then have ex: "EXISTS R k (server (queue d3))"
    using k unfolding task_dedup_def trySetDedup_def by (auto split: prod.splits dest: set_new_exists [OF R])
  obtain b4 d4 where g4: "circuit_guard P now ?payload d3 = (b4, d4)" by fastforce
  obtain b5 d5 where g5: "checkBackpressure C (Some R) P (task_priority C taskName) d4 = (b5, d5)" by fastforce
  obtain t q where g6: "tq_enqueue C (Some R) E now (admission_params C P eventKey taskName (task_priority C taskName) ?payload (ev_correlationId event)) (queue d5) = (t, q)" by fastforce
  from circuit_queue [OF g4] backpressure_queue [OF g5] have q: "queue d4 = queue d3" "queue d5 = queue d3" by simp_all
  from enqueue_exists [OF R g6, of k] ex q have "EXISTS R k (server q)" by simp
  with ex q show ?thesis
    unfolding handleEvent_def Let_def by (simp add: tn g1 rg st g2 g3 g4 g5 g6 [unfolded q(2)] q)
qed

text \<open>
  An event turned away by backpressure cannot come back: the dedup keys are set before the queue depth is looked at and not
  cleared on the rejection, so the same event is suppressed as a duplicate however empty the queue has become.
\<close>
theorem rejected_event_is_suppressed:
  assumes "redis_keys R" and "plain_event eventKey event k"
    and "map_of EVENT_TASK_MAP eventKey = Some taskName" and "0 < task_priority C taskName"
    and "maxQueueDepth C \<le> depth_of C (Some R) d"
  shows "fst (handleEvent C (Some R) E P now eventKey event d) = None
    \<and> fst (handleEvent C' (Some R) E P' now' eventKey event (snd (handleEvent C (Some R) E P now eventKey event d))) = None"
proof
  have ok: "server_ok (Some R)" using assms(1) by (simp add: server_ok_def)
  show "fst (handleEvent C (Some R) E P now eventKey event d) = None"
  proof (rule ccontr)
    assume "fst (handleEvent C (Some R) E P now eventKey event d) \<noteq> None"
    then obtain task d1 where adm: "handleEvent C (Some R) E P now eventKey event d = (Some task, d1)"
      by (metis option.exhaust prod.collapse)
    then show False
    proof (cases rule: handleEvent_admitted)
      case (1 n d2 d3 d4 d5)
      from 1(2,3) corr_dedup_depth [OF ok] task_dedup_depth [OF ok] have "depth_of C (Some R) d3 = depth_of C (Some R) d" by metis
      then have "maxQueueDepth C \<le> totalSize C (Some R) (queue d4)" using 1(4) assms(5) by (simp add: depth_of_def)
      with 1(1,5) assms(3,4) show False by (auto simp: checkBackpressure_def Let_def split: if_splits)
    qed
  qed
  from assms(2,3) have "dedupKey taskName (default_to (ev_payload event) (JObj [])) = Some k" by (auto simp: plain_event_def)
  from duplicate_suppressed [OF assms(1,3) this plain_event_recorded [OF assms(1,2)]]
  show "fst (handleEvent C' (Some R) E P' now' eventKey event (snd (handleEvent C (Some R) E P now eventKey event d))) = None" .
qed

definition review_event :: agent_event where
  "review_event = \<lparr>ev_payload = Some (JObj [(''repo'', JStr ''yclaw''), (''pr_number'', JStr ''7'')]), ev_correlationId = None\<rparr>"

definition full_config :: dispatcher_config where
  "full_config = DEFAULT_DISPATCHER_CONFIG\<lparr>maxQueueDepth := 0\<rparr>"

theorem rejected_event_is_suppressed_witness:
  "fst (handleEvent DEFAULT_DISPATCHER_CONFIG (Some ref_redis) sample_runtime no_deps 6 ''github:pr_review_comment'' review_event
     (snd (handleEvent full_config (Some ref_redis) sample_runtime no_deps 5 ''github:pr_review_comment'' review_event idle_dispatcher))) = None"
proof -
  have plain: "plain_event ''github:pr_review_comment'' review_event ''dedup:address_review_feedback:yclaw:7''"
    by (simp add: plain_event_def review_event_def EVENT_TASK_MAP_def review_guard_def dedupKey_def pr_of_def issue_of_def
        coalesce_def nullish_def jprop_def default_to_def Let_def str_includes.simps [of "''''"] starts_with_def)
  have tn: "map_of EVENT_TASK_MAP ''github:pr_review_comment'' = Some ''address_review_feedback''" by (simp add: EVENT_TASK_MAP_def)
  have "0 < task_priority full_config ''address_review_feedback''" "maxQueueDepth full_config \<le> depth_of full_config (Some ref_redis) idle_dispatcher"
    by (simp_all add: full_config_def task_priority_def DEFAULT_DISPATCHER_CONFIG_def)
  from rejected_event_is_suppressed [OF ref_server.redis_keys_axioms plain tn this] show ?thesis by blast
qed

section \<open>The retry budget after a timeout\<close>

text \<open>
  An immediate retry after a timeout forgets the retries already spent: the task it enqueues carries no dead-letter count, so when that
  one times out as well its dead-letter entry starts again at zero and is not permanent, whatever the count of the first was.
\<close>
theorem timeout_retry_resets_budget:
  assumes "wr_state r = TIMEOUT" and "default_to (bt_timeoutRetryCount t) 0 < 1" and "\<not> task_is_stale C now t"
    and "default_to (bt_dlqRetryCount t) 0 < dlqMaxRetries C"
  shows "\<exists>q t2. tq_enqueue C R E now (timeout_retry_params t) q = (t2, queue (runWorker_finished C R E P startTime now t r d))
    \<and> bt_taskName t2 = bt_taskName t \<and> bt_triggerPayload t2 = bt_triggerPayload t
    \<and> bt_correlationId t2 = bt_correlationId t \<and> bt_dlqRetryCount t2 = None
    \<and> e_retryCount (failure_entry C E later dur t2 r2) = Some 0
    \<and> e_permanent (failure_entry C E later dur t2 r2) = Some (task_is_stale C later t2 \<or> dlqMaxRetries C \<le> 0)"
proof -
  let ?d = "clear_dedup R t (record_duration (now - startTime) (recordResult r
    (d\<lparr>queue := updateTask C R (bt_id t) (result_update E now (wr_state r) (wr_error r)) (queue d)\<rparr>)))"
  obtain t2 q2 where enq: "tq_enqueue C R E now (timeout_retry_params t) (queue ?d) = (t2, q2)" by fastforce
  have "TIMEOUT \<noteq> SKIPPED" by (simp add: task_state_defs)
  with assms enq have "queue (runWorker_finished C R E P startTime now t r d) = q2"
    by (simp add: runWorker_finished_def Let_def)
  moreover from enq have "bt_taskName t2 = bt_taskName t" "bt_triggerPayload t2 = bt_triggerPayload t"
    "bt_correlationId t2 = bt_correlationId t" "bt_dlqRetryCount t2 = None"
    by (auto simp: tq_enqueue_def new_task_def timeout_retry_params_def params_def Let_def split: prod.splits option.splits)
  ultimately show ?thesis
    using enq by (intro exI [of _ "queue ?d"] exI [of _ t2]) (simp add: failure_entry_def default_to_def Let_def)
qed

text \<open>A task in its second round of dead-letter retries that times out.\<close>

theorem timeout_retry_resets_budget_witness:
  "\<exists>q t2. tq_enqueue DEFAULT_DISPATCHER_CONFIG None sample_runtime 9 (timeout_retry_params (sample_task\<lparr>bt_dlqRetryCount := Some 2\<rparr>)) q
      = (t2, queue (runWorker_finished DEFAULT_DISPATCHER_CONFIG None sample_runtime no_deps 5 9 (sample_task\<lparr>bt_dlqRetryCount := Some 2\<rparr>)
                      \<lparr>wr_taskId = ''t1'', wr_state = TIMEOUT, wr_error = None, wr_failureReason = None\<rparr> one_waiting))
    \<and> bt_dlqRetryCount t2 = None"
proof -
  let ?t = "sample_task\<lparr>bt_dlqRetryCount := Some 2\<rparr>"
  let ?r = "\<lparr>wr_taskId = ''t1'', wr_state = TIMEOUT, wr_error = None, wr_failureReason = None\<rparr>"
  have 1: "wr_state ?r = TIMEOUT" by simp
  have 2: "default_to (bt_timeoutRetryCount ?t) 0 < 1" by (simp add: sample_task_def default_to_def)
  have 3: "\<not> task_is_stale DEFAULT_DISPATCHER_CONFIG 9 ?t"
    by (auto simp: task_is_stale_def sample_task_def correlationAgeMs_def DEFAULT_DISPATCHER_CONFIG_def Let_def split: option.splits)
  have 4: "default_to (bt_dlqRetryCount ?t) 0 < dlqMaxRetries DEFAULT_DISPATCHER_CONFIG"
    by (simp add: default_to_def DEFAULT_DISPATCHER_CONFIG_def)
  from timeout_retry_resets_budget [OF 1 2 3 4] show ?thesis by blast
qed

end
