(* ===== verification/Mongo.thy ===== *)
theory Mongo
  imports Prelude "HOL-Library.Multiset"
begin

text \<open>
  A document collection with a unique index, as a parameter: a record of the driver calls the stores make,
  over an abstract collection state.  Filters are predicates and \<open>$set\<close> updates are functions on
  documents.  The locale \<open>mongo_collection\<close> states what the documentation of the driver promises,
  up to the order of the documents, which no store relies on; each call is one atomic step.  On top of
  it the collection is seen as a partial function from the indexed key to its document.

  The second locale is a contract of the model's own: stores in which a document, once resolved, is never
  resolved again.
\<close>

record ('c, 'd) mongo =
  find_all :: "('d \<Rightarrow> bool) \<Rightarrow> 'c \<Rightarrow> 'd list"
  findOne :: "('d \<Rightarrow> bool) \<Rightarrow> 'c \<Rightarrow> 'd option"
  insertOne :: "'d \<Rightarrow> 'c \<Rightarrow> 'c option"
  updateOne :: "('d \<Rightarrow> bool) \<Rightarrow> ('d \<Rightarrow> 'd) \<Rightarrow> 'c \<Rightarrow> nat \<times> 'c"
  updateMany :: "('d \<Rightarrow> bool) \<Rightarrow> ('d \<Rightarrow> 'd) \<Rightarrow> 'c \<Rightarrow> nat \<times> 'c"

text \<open>
  \<open>insertOne\<close> answers \<open>None\<close> when the unique index rejects the document; the number of the updates is
  \<open>modifiedCount\<close>, which does not count a document the update leaves as it was.
\<close>

definition docs :: "('c, 'd) mongo \<Rightarrow> 'c \<Rightarrow> 'd multiset" where
  "docs M c = mset (find_all M (\<lambda>_. True) c)"

text \<open>The indexed key is unique, and the document under a key.\<close>

definition ids_unique :: "('c, 'd) mongo \<Rightarrow> ('d \<Rightarrow> string) \<Rightarrow> 'c \<Rightarrow> bool" where
  "ids_unique M key c \<longleftrightarrow> (\<forall>k. size (filter_mset (\<lambda>d. key d = k) (docs M c)) \<le> 1)"

definition doc_at :: "('c, 'd) mongo \<Rightarrow> ('d \<Rightarrow> string) \<Rightarrow> 'c \<Rightarrow> string \<Rightarrow> 'd option" where
  "doc_at M key c k = findOne M (\<lambda>d. key d = k) c"

text \<open>The \<open>limit\<close> of a query: 0 is none, and a negative one is its amount in one batch.\<close>

definition mongo_limit :: "int \<Rightarrow> 'd list \<Rightarrow> 'd list" where
  "mongo_limit n ds = (if n = 0 then ds else take (nat \<bar>n\<bar>) ds)"

text \<open>The states of a request that waits for a decision.\<close>

datatype request_status = St_pending | St_approved | St_rejected | St_expired

section \<open>Laws\<close>

locale mongo_collection =
  fixes M :: "('c, 'd) mongo" and key :: "'d \<Rightarrow> string"
  assumes find: "mset (find_all M p c) = filter_mset p (docs M c)"
    and find_one: "findOne M p c = Some d \<Longrightarrow> d \<in># docs M c \<and> p d"
    and find_none: "findOne M p c = None \<Longrightarrow> d \<in># docs M c \<Longrightarrow> \<not> p d"
    and insert_one: "insertOne M d c = Some c' \<Longrightarrow> docs M c' = add_mset d (docs M c) \<and> key d \<notin> key ` set_mset (docs M c)"
    and insert_clash: "insertOne M d c = None \<Longrightarrow> key d \<in> key ` set_mset (docs M c)"
    and update_hit: "updateOne M p u c = (n, c') \<Longrightarrow> d \<in># docs M c \<Longrightarrow> p d \<Longrightarrow>
      \<exists>d \<in># docs M c. p d \<and> docs M c' = add_mset (u d) (docs M c - {#d#}) \<and> n = (if u d = d then 0 else 1)"
    and update_miss: "updateOne M p u c = (n, c') \<Longrightarrow> \<forall>d \<in># docs M c. \<not> p d \<Longrightarrow> n = 0 \<and> docs M c' = docs M c"
    and update_many: "updateMany M p u c = (n, c') \<Longrightarrow> docs M c' = image_mset (\<lambda>d. if p d then u d else d) (docs M c)
      \<and> n = size (filter_mset (\<lambda>d. p d \<and> u d \<noteq> d) (docs M c))"
begin

lemma unique_doc:
  assumes "ids_unique M key c" "d \<in># docs M c" "e \<in># docs M c" "key d = key e"
  shows "d = e"
proof (rule ccontr)
  assume ne: "d \<noteq> e"
  let ?F = "filter_mset (\<lambda>x. key x = key e) (docs M c)"
  from assms(2-4) have "d \<in># ?F" "e \<in># ?F" by auto
  with ne have "{#d, e#} \<subseteq># ?F" by (simp add: insert_subset_eq_iff in_diff_count)
  then have "2 \<le> size ?F" using size_mset_mono by fastforce
  moreover have "size ?F \<le> 1" using assms(1) by (simp add: ids_unique_def)
  ultimately show False by simp
qed

lemma lookup_some:
  assumes u: "ids_unique M key c"
  shows "doc_at M key c k = Some d \<longleftrightarrow> d \<in># docs M c \<and> key d = k"
proof
  assume "doc_at M key c k = Some d"
  then show "d \<in># docs M c \<and> key d = k" unfolding doc_at_def by (rule find_one)
next
  assume d: "d \<in># docs M c \<and> key d = k"
  then obtain e where e: "doc_at M key c k = Some e"
    using find_none [of "\<lambda>d. key d = k" c d] by (auto simp: doc_at_def)
  then have "e \<in># docs M c \<and> key e = k" unfolding doc_at_def by (rule find_one)
  with u d have "e = d" by (intro unique_doc) auto
  with e show "doc_at M key c k = Some d" by simp
qed

lemma lookup_key: "doc_at M key c k = Some d \<Longrightarrow> key d = k"
  using find_one unfolding doc_at_def by blast

lemma lookup_doc: "ids_unique M key c \<Longrightarrow> d \<in># docs M c \<Longrightarrow> doc_at M key c (key d) = Some d"
  by (simp add: lookup_some)

lemma lookup_none: "ids_unique M key c \<Longrightarrow> doc_at M key c k = None \<longleftrightarrow> (\<forall>d \<in># docs M c. key d \<noteq> k)"
  using lookup_some by (metis not_None_eq)

text \<open>Two collections with the same documents under each key.\<close>

lemma lookup_eqI:
  assumes "ids_unique M key c" "\<And>d. d \<in># docs M c \<and> key d = k \<longleftrightarrow> x = Some d"
  shows "doc_at M key c k = x"
  using assms lookup_some by (cases x) (metis not_Some_eq)+

lemma insert_lookup:
  assumes "ids_unique M key c" "insertOne M d c = Some c'"
  shows "ids_unique M key c' \<and> doc_at M key c (key d) = None \<and> doc_at M key c' = (doc_at M key c)(key d \<mapsto> d)"
proof -
  from insert_one [OF assms(2)] have D: "docs M c' = add_mset d (docs M c)" and new: "\<forall>e \<in># docs M c. key e \<noteq> key d"
    by (auto simp: image_iff)
  have none: "filter_mset (\<lambda>e. key e = key d) (docs M c) = {#}" using new by (auto simp: filter_mset_eq_conv)
  have u: "ids_unique M key c'"
    using assms(1) none by (auto simp: ids_unique_def D)
  moreover have "doc_at M key c' k = ((doc_at M key c)(key d \<mapsto> d)) k" for k
    using lookup_some [OF u] lookup_some [OF assms(1)] new
    by (intro lookup_eqI [OF u]) (auto simp: D)
  ultimately show ?thesis using lookup_none [OF assms(1)] new by auto
qed

lemma update_one_lookup:
  assumes "ids_unique M key c" "\<And>d. key (u d) = key d" "updateOne M (\<lambda>d. key d = k \<and> q d) u c = (n, c')"
  shows "ids_unique M key c'
    \<and> doc_at M key c' = (doc_at M key c)(k := map_option (\<lambda>d. if q d then u d else d) (doc_at M key c k))
    \<and> n = (case doc_at M key c k of None \<Rightarrow> 0 | Some d \<Rightarrow> if q d \<and> u d \<noteq> d then 1 else 0)"
proof (cases "\<exists>d \<in># docs M c. key d = k \<and> q d")
  case True
  then obtain d where d: "d \<in># docs M c" "key d = k" "q d" "docs M c' = add_mset (u d) (docs M c - {#d#})" "n = (if u d = d then 0 else 1)"
    using update_hit [OF assms(3)] by blast
  have u: "ids_unique M key c'" unfolding ids_unique_def
  proof
    fix j
    have "docs M c = add_mset d (docs M c - {#d#})" using d(1) by simp
    then have "size (filter_mset (\<lambda>x. key x = j) (docs M c')) = size (filter_mset (\<lambda>x. key x = j) (docs M c))"
      using d(4) assms(2) by (metis (no_types, lifting) filter_mset_add_mset size_add_mset)
    with assms(1) show "size (filter_mset (\<lambda>x. key x = j) (docs M c')) \<le> 1" by (simp add: ids_unique_def)
  qed
  have ud: "u d \<in># docs M c'" "key (u d) = k" using d assms(2) by simp_all
  have "doc_at M key c' j = doc_at M key c j" if "j \<noteq> k" for j
  proof -
    have "e \<in># docs M c' \<and> key e = j \<longleftrightarrow> e \<in># docs M c \<and> key e = j" for e
      using that d ud by (auto simp: in_diff_count dest: in_diffD)
    then show ?thesis using lookup_some [OF u] lookup_some [OF assms(1)] by (metis not_Some_eq)
  qed
  moreover have "doc_at M key c k = Some d" "doc_at M key c' k = Some (u d)"
    using lookup_some [OF u] lookup_some [OF assms(1)] d ud by simp_all
  ultimately show ?thesis using u d(3,5) by (auto simp: fun_eq_iff)
next
  case False
  with update_miss [OF assms(3)] have n: "n = 0" and D: "docs M c' = docs M c" by auto
  then have u: "ids_unique M key c'" using assms(1) by (simp add: ids_unique_def)
  have "doc_at M key c' j = doc_at M key c j" for j
    using lookup_some [OF u] lookup_some [OF assms(1)] D by (metis not_Some_eq)
  moreover have "\<not> q d" if "doc_at M key c k = Some d" for d
    using that lookup_some [OF assms(1)] False by blast
  ultimately show ?thesis using u n by (auto simp: fun_eq_iff map_option_case split: option.splits)
qed

lemma update_many_lookup:
  assumes "ids_unique M key c" "\<And>d. key (u d) = key d" "updateMany M p u c = (n, c')"
  shows "ids_unique M key c' \<and> doc_at M key c' = (\<lambda>k. map_option (\<lambda>d. if p d then u d else d) (doc_at M key c k))"
proof -
  let ?f = "\<lambda>d. if p d then u d else d"
  from update_many [OF assms(3)] have D: "docs M c' = image_mset ?f (docs M c)" by blast
  have fk: "key (?f d) = key d" for d using assms(2) by simp
  have u: "ids_unique M key c'" using assms(1) fk by (simp add: ids_unique_def D filter_mset_image_mset)
  have "doc_at M key c' k = map_option ?f (doc_at M key c k)" for k
  proof (rule lookup_eqI [OF u])
    fix e
    show "e \<in># docs M c' \<and> key e = k \<longleftrightarrow> map_option ?f (doc_at M key c k) = Some e"
    proof
      assume "e \<in># docs M c' \<and> key e = k"
      then obtain d where "d \<in># docs M c" "e = ?f d" "key d = k" using fk by (auto simp: D)
      then show "map_option ?f (doc_at M key c k) = Some e" using lookup_some [OF assms(1), of k d] by simp
    next
      assume "map_option ?f (doc_at M key c k) = Some e"
      then obtain d where "doc_at M key c k = Some d" "e = ?f d" by auto
      then show "e \<in># docs M c' \<and> key e = k" using fk by (auto simp: lookup_some [OF assms(1)] D)
    qed
  qed
  with u show ?thesis by blast
qed

end

section \<open>A reference collection\<close>

text \<open>Documents in a list; \<open>replace_first\<close> updates the first document a filter accepts.\<close>

fun replace_first :: "('d \<Rightarrow> bool) \<Rightarrow> ('d \<Rightarrow> 'd) \<Rightarrow> 'd list \<Rightarrow> nat \<times> 'd list" where
  "replace_first p u [] = (0, [])"
| "replace_first p u (d # ds) = (if p d then (if u d = d then 0 else 1, u d # ds)
     else (let (n, es) = replace_first p u ds in (n, d # es)))"

definition list_mongo :: "('d \<Rightarrow> string) \<Rightarrow> ('d list, 'd) mongo" where
  "list_mongo key = \<lparr>
     find_all = filter,
     findOne = List.find,
     insertOne = (\<lambda>d ds. if key d \<in> set (map key ds) then None else Some (ds @ [d])),
     updateOne = replace_first,
     updateMany = (\<lambda>p u ds. (length (filter (\<lambda>d. p d \<and> u d \<noteq> d) ds), map (\<lambda>d. if p d then u d else d) ds))\<rparr>"

lemma replace_first_hit:
  "replace_first p u ds = (n, es) \<Longrightarrow> d \<in> set ds \<Longrightarrow> p d \<Longrightarrow>
     \<exists>d \<in># mset ds. p d \<and> mset es = add_mset (u d) (mset ds - {#d#}) \<and> n = (if u d = d then 0 else 1)"
proof (induction ds arbitrary: n es)
  case (Cons a ds)
  show ?case
  proof (cases "p a")
    case True
    with Cons.prems(1) show ?thesis by (intro bexI [of _ a]) auto
  next
    case False
    with Cons.prems obtain fs where fs: "replace_first p u ds = (n, fs)" "es = a # fs" "d \<in> set ds"
      by (auto split: prod.splits)
    from Cons.IH [OF fs(1,3) Cons.prems(3)] obtain e where
      e: "e \<in># mset ds" "p e" "mset fs = add_mset (u e) (mset ds - {#e#})" "n = (if u e = e then 0 else 1)" by blast
    with False have "e \<noteq> a" by blast
    with e fs show ?thesis by (intro bexI [of _ e]) (auto simp: add_mset_commute)
  qed
qed simp

lemma replace_first_miss: "replace_first p u ds = (n, es) \<Longrightarrow> \<forall>d \<in> set ds. \<not> p d \<Longrightarrow> n = 0 \<and> es = ds"
  by (induction ds arbitrary: n es) (auto split: prod.splits)

lemma docs_list_mongo [simp]: "docs (list_mongo key) ds = mset ds"
  by (simp add: docs_def list_mongo_def)

interpretation list_store: mongo_collection "list_mongo key" key for key :: "'d \<Rightarrow> string"
proof
  show "updateOne (list_mongo key) p u c = (n, c') \<Longrightarrow> d \<in># docs (list_mongo key) c \<Longrightarrow> p d \<Longrightarrow>
      \<exists>d \<in># docs (list_mongo key) c. p d \<and> docs (list_mongo key) c' = add_mset (u d) (docs (list_mongo key) c - {#d#})
        \<and> n = (if u d = d then 0 else 1)" for p u c n c' d
    using replace_first_hit [of p u c n c' d] by (simp add: list_mongo_def docs_def)
next
  show "updateOne (list_mongo key) p u c = (n, c') \<Longrightarrow> \<forall>d \<in># docs (list_mongo key) c. \<not> p d \<Longrightarrow>
      n = 0 \<and> docs (list_mongo key) c' = docs (list_mongo key) c" for p u c n c'
    using replace_first_miss [of p u c n c'] by (simp add: list_mongo_def docs_def)
qed (auto simp: list_mongo_def docs_def find_Some_iff find_None_iff replace_first_miss size_mset [symmetric]
       simp del: size_mset split: if_splits)

section \<open>Documents that are resolved once\<close>

text \<open>The calls of a run with what they answered.\<close>

fun outcomes :: "('e \<Rightarrow> 's \<Rightarrow> bool \<times> 's) \<Rightarrow> 'e list \<Rightarrow> 's \<Rightarrow> ('e \<times> bool) list" where
  "outcomes step [] s = []"
| "outcomes step (e # es) s = (let (b, s1) = step e s in (e, b) # outcomes step es s1)"

text \<open>A call answers whether it resolved its subject.\<close>

locale resolution =
  fixes ok :: "'s \<Rightarrow> bool" and resolved :: "'s \<Rightarrow> string \<Rightarrow> bool"
    and step :: "'e \<Rightarrow> 's \<Rightarrow> bool \<times> 's" and subject :: "'e \<Rightarrow> string"
  assumes ok_step: "ok s \<Longrightarrow> step e s = (b, s') \<Longrightarrow> ok s'"
    and stays: "ok s \<Longrightarrow> step e s = (b, s') \<Longrightarrow> resolved s k \<Longrightarrow> resolved s' k"
    and wins: "ok s \<Longrightarrow> step e s = (True, s') \<Longrightarrow> \<not> resolved s (subject e) \<and> resolved s' (subject e)"
begin

lemma resolved_no_wins: "ok s \<Longrightarrow> resolved s k \<Longrightarrow> (e, True) \<in> set (outcomes step es s) \<Longrightarrow> subject e \<noteq> k"
proof (induction es arbitrary: s)
  case (Cons a es)
  obtain b s1 where st: "step a s = (b, s1)" by fastforce
  show ?case
  proof (cases "(e, True) = (a, b)")
    case True
    with wins [of s a s1] st Cons.prems show ?thesis by auto
  next
    case False
    with Cons.IH [OF ok_step [OF Cons.prems(1) st] stays [OF Cons.prems(1) st Cons.prems(2)]] Cons.prems(3) st
    show ?thesis by (auto simp: Let_def)
  qed
qed simp

lemma wins_once: "ok s \<Longrightarrow> length (filter (\<lambda>(e, b). subject e = k \<and> b) (outcomes step es s)) \<le> 1"
proof (induction es arbitrary: s)
  case (Cons a es)
  obtain b s1 where st: "step a s = (b, s1)" by fastforce
  from ok_step [OF Cons.prems st] have ok1: "ok s1" .
  show ?case
  proof (cases "subject a = k \<and> b")
    case True
    with wins [OF Cons.prems, of a s1] st have "resolved s1 k" by simp
    with resolved_no_wins [OF ok1] have "filter (\<lambda>(e, b). subject e = k \<and> b) (outcomes step es s1) = []"
      by (force simp: filter_empty_conv)
    with True st show ?thesis by simp
  next
    case False
    with Cons.IH [OF ok1] st show ?thesis by auto
  qed
qed simp

end

end
