(* ===== verification/CrossDept.thy ===== *)
theory CrossDept
  imports Mongo Json
begin

text \<open>
  Requests of one department to another (\<open>packages/core/src/operators/cross-dept.ts\<close>): the store's
  operations over the document collection of \<open>Mongo\<close>.  Times are milliseconds; the first twelve characters
  of the UUID a request is named by are an argument.  The store is shown to resolve a request at most once,
  whatever calls race for it: every write is one guarded update.
\<close>

definition DEFAULT_EXPIRY_HOURS :: int where "DEFAULT_EXPIRY_HOURS = 24"

record xd_params =
  requestingOperatorId :: string
  requestingOperatorName :: string
  requestingDepartment :: string
  requesterTier :: string
  requesterPriority :: int
  requesterDepartments :: "string list"
  targetDepartment :: string
  targetAgent :: string
  xd_task :: string
  xd_reason :: string
  xd_payload :: "json option"
  xd_resourceKey :: "string option"
  pendingTaskId :: "string option"

record cross_dept_request =
  xd_requestId :: string
  xd_of :: xd_params
  xd_status :: request_status
  xd_decidedBy :: "string option"
  xd_decidedAt :: "int option"
  xd_decisionNote :: "string option"
  resultingTaskId :: "string option"
  xd_createdAt :: int
  xd_expiresAt :: int

section \<open>Operations\<close>

text \<open>\<open>None\<close>: the unique index rejects the insertion.\<close>

definition xd_create ::
  "('c, cross_dept_request) mongo \<Rightarrow> int \<Rightarrow> string \<Rightarrow> xd_params \<Rightarrow> 'c \<Rightarrow> (cross_dept_request \<times> 'c) option" where
  "xd_create M now uuid12 ps c =
     (let request = \<lparr>xd_requestId = ''xdept_'' @ uuid12, xd_of = ps, xd_status = St_pending, xd_decidedBy = None,
            xd_decidedAt = None, xd_decisionNote = None, resultingTaskId = None, xd_createdAt = now,
            xd_expiresAt = now + DEFAULT_EXPIRY_HOURS * 60 * 60 * 1000\<rparr>
      in map_option (\<lambda>c1. (request, c1)) (insertOne M request c))"

definition xd_getById :: "('c, cross_dept_request) mongo \<Rightarrow> string \<Rightarrow> 'c \<Rightarrow> cross_dept_request option" where
  "xd_getById M rid c = findOne M (\<lambda>d. xd_requestId d = rid) c"

text \<open>Newest first; an empty department is no filter.\<close>

definition xd_listPending :: "('c, cross_dept_request) mongo \<Rightarrow> string option \<Rightarrow> 'c \<Rightarrow> cross_dept_request list" where
  "xd_listPending M dept c =
     sort_key (\<lambda>d. - xd_createdAt d)
       (find_all M (\<lambda>d. xd_status d = St_pending \<and> (dept = None \<or> dept = Some '''' \<or> dept = Some (targetDepartment (xd_of d)))) c)"

definition xd_approve ::
  "('c, cross_dept_request) mongo \<Rightarrow> int \<Rightarrow> string \<Rightarrow> string \<Rightarrow> string option \<Rightarrow> string option \<Rightarrow> 'c \<Rightarrow> bool \<times> 'c" where
  "xd_approve M now rid decidedBy note taskId c =
     (let (n, c1) = updateOne M (\<lambda>d. xd_requestId d = rid \<and> xd_status d = St_pending)
            (\<lambda>d. d\<lparr>xd_status := St_approved, xd_decidedBy := Some decidedBy, xd_decidedAt := Some now,
                    xd_decisionNote := note, resultingTaskId := taskId\<rparr>) c
      in (n \<noteq> 0, c1))"

definition xd_reject :: "('c, cross_dept_request) mongo \<Rightarrow> int \<Rightarrow> string \<Rightarrow> string \<Rightarrow> string option \<Rightarrow> 'c \<Rightarrow> bool \<times> 'c" where
  "xd_reject M now rid decidedBy note c =
     (let (n, c1) = updateOne M (\<lambda>d. xd_requestId d = rid \<and> xd_status d = St_pending)
            (\<lambda>d. d\<lparr>xd_status := St_rejected, xd_decidedBy := Some decidedBy, xd_decidedAt := Some now, xd_decisionNote := note\<rparr>) c
      in (n \<noteq> 0, c1))"

definition xd_expirePending :: "('c, cross_dept_request) mongo \<Rightarrow> int \<Rightarrow> 'c \<Rightarrow> nat \<times> 'c" where
  "xd_expirePending M now c =
     updateMany M (\<lambda>d. xd_status d = St_pending \<and> xd_expiresAt d < now) (\<lambda>d. d\<lparr>xd_status := St_expired\<rparr>) c"

section \<open>Runs\<close>

datatype xd_call = XCreate string xd_params | XApprove string string "string option" "string option"
  | XReject string string "string option" | XExpire

fun xd_subject :: "int \<times> xd_call \<Rightarrow> string" where
  "xd_subject (now, XApprove rid who msg taskId) = rid"
| "xd_subject (now, XReject rid who msg) = rid"
| "xd_subject (now, _) = ''''"

text \<open>A timed call and whether it resolved its request; a failing creation changes nothing.\<close>

fun xd_step :: "('c, cross_dept_request) mongo \<Rightarrow> int \<times> xd_call \<Rightarrow> 'c \<Rightarrow> bool \<times> 'c" where
  "xd_step M (now, XCreate uuid ps) c = (False, case xd_create M now uuid ps c of None \<Rightarrow> c | Some (r, c1) \<Rightarrow> c1)"
| "xd_step M (now, XApprove rid who msg taskId) c = xd_approve M now rid who msg taskId c"
| "xd_step M (now, XReject rid who msg) c = xd_reject M now rid who msg c"
| "xd_step M (now, XExpire) c = (False, snd (xd_expirePending M now c))"

definition xd_resolved :: "('c, cross_dept_request) mongo \<Rightarrow> 'c \<Rightarrow> string \<Rightarrow> bool" where
  "xd_resolved M c k \<longleftrightarrow> (\<exists>d. doc_at M xd_requestId c k = Some d \<and> xd_status d \<noteq> St_pending)"

section \<open>A request is resolved once\<close>

locale cross_dept_store = mongo_collection M xd_requestId for M :: "('c, cross_dept_request) mongo"
begin

lemma guarded_update:
  assumes "ids_unique M xd_requestId c" and "\<And>d. xd_requestId (u d) = xd_requestId d \<and> xd_status (u d) \<noteq> St_pending"
    and "updateOne M (\<lambda>d. xd_requestId d = rid \<and> xd_status d = St_pending) u c = (n, c1)"
  shows "ids_unique M xd_requestId c1 \<and> (\<forall>k. xd_resolved M c k \<longrightarrow> xd_resolved M c1 k)
    \<and> (n \<noteq> 0 \<longrightarrow> \<not> xd_resolved M c rid \<and> xd_resolved M c1 rid)"
  using update_one_lookup [OF assms(1) _ assms(3)] assms(2)
  by (auto simp: xd_resolved_def split: option.splits if_splits)

lemma create_step:
  assumes "ids_unique M xd_requestId c" "xd_create M now uuid ps c = Some (r, c1)"
  shows "ids_unique M xd_requestId c1 \<and> (\<forall>k. xd_resolved M c k \<longrightarrow> xd_resolved M c1 k)"
proof -
  from assms(2) have "insertOne M r c = Some c1" by (auto simp: xd_create_def Let_def)
  from insert_lookup [OF assms(1) this] show ?thesis by (auto simp: xd_resolved_def)
qed

lemma expire_step:
  assumes "ids_unique M xd_requestId c" "xd_expirePending M now c = (n, c1)"
  shows "ids_unique M xd_requestId c1 \<and> (\<forall>k. xd_resolved M c k \<longrightarrow> xd_resolved M c1 k)"
  using update_many_lookup [OF assms(1) _ assms(2) [unfolded xd_expirePending_def]]
  by (auto simp: xd_resolved_def)

lemma step_resolves:
  assumes "ids_unique M xd_requestId c" "xd_step M e c = (b, c1)"
  shows "ids_unique M xd_requestId c1 \<and> (\<forall>k. xd_resolved M c k \<longrightarrow> xd_resolved M c1 k)
    \<and> (b \<longrightarrow> \<not> xd_resolved M c (xd_subject e) \<and> xd_resolved M c1 (xd_subject e))"
proof -
  obtain now call where e: "e = (now, call)" by fastforce
  show ?thesis
  proof (cases call)
    case (XCreate uuid ps)
    with e assms create_step [OF assms(1)] show ?thesis by (auto split: option.splits)
  next
    case (XApprove rid who msg tid)
    with e assms(2) show ?thesis
      by (auto simp: xd_approve_def split: prod.splits dest!: guarded_update [OF assms(1), rotated])
  next
    case (XReject rid who msg)
    with e assms(2) show ?thesis
      by (auto simp: xd_reject_def split: prod.splits dest!: guarded_update [OF assms(1), rotated])
  next
    case XExpire
    with e assms(2) expire_step [OF assms(1)] show ?thesis by (metis prod.collapse prod.inject xd_step.simps(4))
  qed
qed

end

sublocale cross_dept_store \<subseteq> requests: resolution "ids_unique M xd_requestId" "xd_resolved M" "xd_step M" xd_subject
  by unfold_locales (use step_resolves in \<open>blast+\<close>)

context cross_dept_store
begin

lemmas decided_once = requests.wins_once

end

interpretation list_requests: cross_dept_store "list_mongo xd_requestId" ..

lemma cross_dept_storeI: "mongo_collection M xd_requestId \<Longrightarrow> cross_dept_store M"
  by (simp add: cross_dept_store_def)

text \<open>
  A request between departments is decided at most once: in any sequence of creations, approvals, rejections and expiries,
  however the callers raced, at most one approval or rejection of a request answers that it won.
\<close>
theorem cross_dept_decided_once:
  assumes "mongo_collection M xd_requestId" and "ids_unique M xd_requestId c"
  shows "length (filter (\<lambda>(e, b). xd_subject e = rid \<and> b) (outcomes (xd_step M) calls c)) \<le> 1"
  using cross_dept_store.decided_once [OF cross_dept_storeI [OF assms(1)] assms(2)] .

definition sample_params :: xd_params where
  "sample_params = \<lparr>requestingOperatorId = ''op1'', requestingOperatorName = ''Ann'', requestingDepartment = ''ops'',
     requesterTier = ''tier'', requesterPriority = 5, requesterDepartments = [''ops''], targetDepartment = ''dev'',
     targetAgent = ''builder'', xd_task = ''fix'', xd_reason = ''urgent'', xd_payload = None, xd_resourceKey = None, pendingTaskId = None\<rparr>"

theorem cross_dept_decided_once_witness:
  "length (filter (\<lambda>(e, b). xd_subject e = ''xdept_1'' \<and> b) (outcomes (xd_step (list_mongo xd_requestId))
     [(0, XCreate ''1'' sample_params), (1, XReject ''xdept_1'' ''ann'' None), (1, XApprove ''xdept_1'' ''bob'' None None)] [])) = 1"
proof -
  let ?M = "list_mongo xd_requestId"
  let ?calls = "[(0, XCreate ''1'' sample_params), (1, XReject ''xdept_1'' ''ann'' None), (1, XApprove ''xdept_1'' ''bob'' None None)]"
  have "ids_unique ?M xd_requestId []" by (simp add: ids_unique_def)
  from cross_dept_decided_once [OF list_store.mongo_collection_axioms this, of "''xdept_1''" ?calls]
  have "length (filter (\<lambda>(e, b). xd_subject e = ''xdept_1'' \<and> b) (outcomes (xd_step ?M) ?calls [])) \<le> 1" .
  moreover have "((1, XReject ''xdept_1'' ''ann'' None), True) \<in> set (outcomes (xd_step ?M) ?calls [])"
  proof -
    obtain r where r: "xd_create ?M 0 ''1'' sample_params [] = Some (r, [r])" "xd_requestId r = ''xdept_1''" "xd_status r = St_pending"
      by (auto simp: xd_create_def list_mongo_def Let_def)
    let ?u = "r\<lparr>xd_status := St_rejected, xd_decidedBy := Some ''ann'', xd_decidedAt := Some 1, xd_decisionNote := None\<rparr>"
    have "?u \<noteq> r"
    proof
      assume "?u = r"
      then have "xd_status ?u = xd_status r" by (rule arg_cong)
      with r(3) show False by simp
    qed
    with r(2,3) have "xd_reject ?M 1 ''xdept_1'' ''ann'' None [r] = (True, [?u])"
      by (simp add: xd_reject_def list_mongo_def)
    with r(1) have "outcomes (xd_step ?M) ?calls [] = ((0, XCreate ''1'' sample_params), False)
        # ((1, XReject ''xdept_1'' ''ann'' None), True) # outcomes (xd_step ?M) (drop 2 ?calls) [?u]"
      by (simp only: outcomes.simps xd_step.simps option.case prod.case Let_def drop_Suc_Cons numeral_2_eq_2 drop0)
    then show ?thesis by (simp only: set_simps) blast
  qed
  then have "((1, XReject ''xdept_1'' ''ann'' None), True)
      \<in> set (filter (\<lambda>(e, b). xd_subject e = ''xdept_1'' \<and> b) (outcomes (xd_step ?M) ?calls []))"
    by (simp only: set_filter mem_Collect_eq prod.case xd_subject.simps simp_thms)
  then have "0 < length (filter (\<lambda>(e, b). xd_subject e = ''xdept_1'' \<and> b) (outcomes (xd_step ?M) ?calls []))"
    by (rule length_pos_if_in_set)
  ultimately show ?thesis by linarith
qed

end
