(* ===== verification/Costs.thy ===== *)
theory Costs
  imports Redis
begin

text \<open>
  What an execution costs and how spending is counted: the pricing table
  (\<open>packages/core/src/costs/model-pricing.ts\<close>) and the counters of \<open>CostTracker\<close>
  (\<open>costs/cost-tracker.ts\<close>).  Dollars are rationals (the source computes with doubles); token counts
  and cents are integers.  The clock's ISO text is the argument \<open>iso_of\<close>; the keys a scan of the server
  yields are an argument, too.  The events written to the document store are returned; the report
  queries of the tracker, which only read, are left out.
\<close>

section \<open>Pricing\<close>

record pricing =
  pr_input :: rat
  pr_output :: rat
  pr_cacheRead :: rat
  pr_cacheWrite :: rat

definition sonnet_pricing :: pricing where
  "sonnet_pricing = \<lparr>pr_input = 3, pr_output = 15, pr_cacheRead = 3 / 10, pr_cacheWrite = 15 / 4\<rparr>"

definition opus_pricing :: pricing where
  "opus_pricing = \<lparr>pr_input = 15, pr_output = 75, pr_cacheRead = 3 / 2, pr_cacheWrite = 75 / 4\<rparr>"

definition haiku_pricing :: pricing where
  "haiku_pricing = \<lparr>pr_input = 4 / 5, pr_output = 4, pr_cacheRead = 2 / 25, pr_cacheWrite = 1\<rparr>"

definition MODEL_PRICING :: "(string \<times> pricing) list" where
  "MODEL_PRICING =
     [(''claude-sonnet-4-20250514'', sonnet_pricing), (''claude-opus-4-6'', opus_pricing),
      (''claude-haiku-4-5-20251001'', haiku_pricing),
      (''claude-sonnet-4'', sonnet_pricing), (''claude-opus-4'', opus_pricing), (''claude-haiku'', haiku_pricing)]"

definition DEFAULT_PRICING :: pricing where
  "DEFAULT_PRICING = \<lparr>pr_input = 3, pr_output = 15, pr_cacheRead = 3 / 10, pr_cacheWrite = 15 / 4\<rparr>"

definition getPricing :: "string \<Rightarrow> pricing" where
  "getPricing modelId = (case map_of MODEL_PRICING modelId of
     Some p \<Rightarrow> p
   | None \<Rightarrow> (case find (\<lambda>(prefix, p). starts_with modelId prefix)
                  (sort_key (\<lambda>(prefix, p). - int (length prefix)) MODEL_PRICING) of
       Some (prefix, p) \<Rightarrow> p | None \<Rightarrow> DEFAULT_PRICING))"

text \<open>\<open>Math.round\<close> and \<open>Math.ceil\<close>.\<close>

definition js_round :: "rat \<Rightarrow> int" where
  "js_round x = \<lfloor>x + 1 / 2\<rfloor>"

definition computeCostMillicents :: "string \<Rightarrow> int \<Rightarrow> int \<Rightarrow> int \<Rightarrow> int \<Rightarrow> int" where
  "computeCostMillicents modelId inputTokens outputTokens cacheReadTokens cacheWriteTokens =
     (let p = getPricing modelId;
          uncachedInput = max 0 (inputTokens - cacheReadTokens);
          costDollars = of_int uncachedInput / 1000000 * pr_input p + of_int outputTokens / 1000000 * pr_output p
            + of_int cacheReadTokens / 1000000 * pr_cacheRead p + of_int cacheWriteTokens / 1000000 * pr_cacheWrite p
      in js_round (costDollars * 100000))"

definition millicentsToDisplayCents :: "int \<Rightarrow> int" where
  "millicentsToDisplayCents millicents = \<lceil>of_int millicents / (1000 :: rat)\<rceil>"

section \<open>Recording\<close>

record cost_params =
  cp_agentId :: string
  cp_department :: string
  cp_taskType :: string
  cp_executionId :: string
  cp_modelId :: string
  cp_provider :: string
  cp_inputTokens :: int
  cp_outputTokens :: int
  cp_cacheReadTokens :: int
  cp_cacheWriteTokens :: int
  cp_latencyMs :: int

record agent_cost_event =
  ce_params :: cost_params
  costMillicents :: int
  costCents :: int
  ce_timestamp :: string

definition dayKey :: "string \<Rightarrow> string \<Rightarrow> string" where
  "dayKey agentId stamp = ''cost:daily:'' @ agentId @ '':'' @ take 10 stamp"

definition monthKey :: "string \<Rightarrow> string \<Rightarrow> string" where
  "monthKey agentId stamp = ''cost:monthly:'' @ agentId @ '':'' @ take 7 stamp"

definition cents_of :: "cost_params \<Rightarrow> int" where
  "cents_of p = millicentsToDisplayCents
     (computeCostMillicents (cp_modelId p) (cp_inputTokens p) (cp_outputTokens p) (cp_cacheReadTokens p) (cp_cacheWriteTokens p))"

definition record_cost ::
  "'s redis option \<Rightarrow> (int \<Rightarrow> string) \<Rightarrow> int \<Rightarrow> cost_params \<Rightarrow> 's \<Rightarrow> agent_cost_event \<times> 's" where
  "record_cost R iso_of now p s =
     (let millicents = computeCostMillicents (cp_modelId p) (cp_inputTokens p) (cp_outputTokens p) (cp_cacheReadTokens p) (cp_cacheWriteTokens p);
          cents = millicentsToDisplayCents millicents;
          event = \<lparr>ce_params = p, costMillicents = millicents, costCents = cents, ce_timestamp = iso_of now\<rparr>;
          s1 = (case R of
            None \<Rightarrow> s
          | Some R \<Rightarrow>
              (if cents > 0 then
                 (let dk = dayKey (cp_agentId p) (iso_of now); mk = monthKey (cp_agentId p) (iso_of now)
                  in EXPIRE R mk (35 * 86400) (snd (INCRBY R mk cents (EXPIRE R dk (48 * 3600) (snd (INCRBY R dk cents s))))))
               else s))
      in (event, s1))"

section \<open>Reading\<close>

text \<open>\<open>val ? parseInt(val, 10) : 0\<close> on the integers the counters hold.\<close>

definition spend_of :: "string option \<Rightarrow> int" where
  "spend_of v = (case v of None \<Rightarrow> 0 | Some t \<Rightarrow> (case parse_int t of None \<Rightarrow> 0 | Some n \<Rightarrow> n))"

definition getDailySpendCents :: "'s redis option \<Rightarrow> (int \<Rightarrow> string) \<Rightarrow> int \<Rightarrow> string \<Rightarrow> 's \<Rightarrow> int" where
  "getDailySpendCents R iso_of now agentId s = (case R of None \<Rightarrow> 0
     | Some R \<Rightarrow> spend_of (GET R (dayKey agentId (iso_of now)) s))"

definition getMonthlySpendCents :: "'s redis option \<Rightarrow> (int \<Rightarrow> string) \<Rightarrow> int \<Rightarrow> string \<Rightarrow> 's \<Rightarrow> int" where
  "getMonthlySpendCents R iso_of now agentId s = (case R of None \<Rightarrow> 0
     | Some R \<Rightarrow> spend_of (GET R (monthKey agentId (iso_of now)) s))"

text \<open>The fleet's spending: the cached sum, or the sum over the scanned keys, which is then cached.\<close>

definition fleet_spend :: "'s redis \<Rightarrow> string \<Rightarrow> string list \<Rightarrow> 's \<Rightarrow> int \<times> 's" where
  "fleet_spend R cacheKey scanned s = (case GET R cacheKey s of
     Some cached \<Rightarrow> (spend_of (Some cached), s)
   | None \<Rightarrow> (let total = sum_list (map (\<lambda>k. spend_of (GET R k s)) scanned)
             in (total, EXPIRE R cacheKey 60 (SETTEXT R cacheKey (dec_int total) s))))"

definition fleet_daily_key :: "string \<Rightarrow> string" where
  "fleet_daily_key stamp = ''cost:fleet_daily:'' @ take 10 stamp"

definition fleet_monthly_key :: "string \<Rightarrow> string" where
  "fleet_monthly_key stamp = ''cost:fleet_monthly:'' @ take 7 stamp"

definition getFleetDailySpendCents ::
  "'s redis option \<Rightarrow> (int \<Rightarrow> string) \<Rightarrow> int \<Rightarrow> string list \<Rightarrow> 's \<Rightarrow> int \<times> 's" where
  "getFleetDailySpendCents R iso_of now scanned s = (case R of None \<Rightarrow> (0, s)
     | Some R \<Rightarrow> fleet_spend R (fleet_daily_key (iso_of now)) scanned s)"

definition getFleetMonthlySpendCents ::
  "'s redis option \<Rightarrow> (int \<Rightarrow> string) \<Rightarrow> int \<Rightarrow> string list \<Rightarrow> 's \<Rightarrow> int \<times> 's" where
  "getFleetMonthlySpendCents R iso_of now scanned s = (case R of None \<Rightarrow> (0, s)
     | Some R \<Rightarrow> fleet_spend R (fleet_monthly_key (iso_of now)) scanned s)"

section \<open>Accounting\<close>

text \<open>A run of recorded calls.\<close>

fun record_all :: "'s redis \<Rightarrow> (int \<Rightarrow> string) \<Rightarrow> (int \<times> cost_params) list \<Rightarrow> 's \<Rightarrow> 's" where
  "record_all R iso_of [] s = s"
| "record_all R iso_of ((now, p) # ps) s = record_all R iso_of ps (snd (record_cost (Some R) iso_of now p s))"

text \<open>ISO texts begin with the date: ten characters for the day, seven for the month.\<close>

definition iso_texts :: "(int \<Rightarrow> string) \<Rightarrow> bool" where
  "iso_texts iso_of \<longleftrightarrow> (\<forall>t. 10 \<le> length (iso_of t))"

definition recorded_spend :: "(string \<Rightarrow> string) \<Rightarrow> (int \<times> cost_params) list \<Rightarrow> (int \<Rightarrow> string) \<Rightarrow> string \<Rightarrow> string \<Rightarrow> int" where
  "recorded_spend period ps iso_of agentId stamp = sum_list (map (\<lambda>(t, p). max 0 (cents_of p))
     (filter (\<lambda>(t, p). cp_agentId p = agentId \<and> period (iso_of t) = period stamp) ps))"

lemma key_split: "length d = length e \<Longrightarrow> a @ '':'' @ d = b @ '':'' @ e \<longleftrightarrow> a = b \<and> d = e"
  by (metis append_eq_append_conv append_assoc length_append same_append_eq)

lemma dayKey_eq:
  assumes "iso_texts iso_of"
  shows "dayKey a (iso_of t) = dayKey b (iso_of u) \<longleftrightarrow> a = b \<and> take 10 (iso_of t) = take 10 (iso_of u)"
proof -
  have "10 \<le> length (iso_of t)" "10 \<le> length (iso_of u)" using assms by (auto simp: iso_texts_def)
  then have "length (take 10 (iso_of t)) = length (take 10 (iso_of u))" by simp
  from key_split [OF this, of a b] show ?thesis unfolding dayKey_def by simp
qed

lemma monthKey_eq:
  assumes "iso_texts iso_of"
  shows "monthKey a (iso_of t) = monthKey b (iso_of u) \<longleftrightarrow> a = b \<and> take 7 (iso_of t) = take 7 (iso_of u)"
proof -
  have "7 \<le> length (iso_of t)" "7 \<le> length (iso_of u)" using assms by (auto simp: iso_texts_def intro: order_trans [of 7 10])
  then have "length (take 7 (iso_of t)) = length (take 7 (iso_of u))" by simp
  from key_split [OF this, of a b] show ?thesis unfolding monthKey_def by simp
qed

lemma day_month_differ [simp]: "dayKey a d \<noteq> monthKey b e" "monthKey b e \<noteq> dayKey a d"
  by (simp_all add: dayKey_def monthKey_def)

context redis_counters
begin

lemma record_cost_counters:
  assumes iso: "iso_texts iso_of" and d: "\<forall>a t. counter R (dayKey a (iso_of t)) s \<noteq> None"
    and m: "\<forall>a t. counter R (monthKey a (iso_of t)) s \<noteq> None"
  shows "counter R (dayKey a (iso_of u)) (snd (record_cost (Some R) iso_of now p s))
      = map_option (\<lambda>v. v + recorded_spend (take 10) [(now, p)] iso_of a (iso_of u)) (counter R (dayKey a (iso_of u)) s)
    \<and> counter R (monthKey a (iso_of u)) (snd (record_cost (Some R) iso_of now p s))
      = map_option (\<lambda>v. v + recorded_spend (take 7) [(now, p)] iso_of a (iso_of u)) (counter R (monthKey a (iso_of u)) s)"
proof (cases "0 < cents_of p")
  case False
  then have "snd (record_cost (Some R) iso_of now p s) = s" "max 0 (cents_of p) = 0"
    by (simp_all add: record_cost_def cents_of_def Let_def)
  then show ?thesis by (auto simp: recorded_spend_def option.map_ident cong: option.map_cong)
next
  case True
  let ?dk = "dayKey (cp_agentId p) (iso_of now)" and ?mk = "monthKey (cp_agentId p) (iso_of now)"
  obtain n1 s1 where i1: "INCRBY R ?dk (cents_of p) s = (n1, s1)" by fastforce
  define s2 where "s2 = EXPIRE R ?dk (48 * 3600) s1"
  obtain n3 s3 where i3: "INCRBY R ?mk (cents_of p) s2 = (n3, s3)" by fastforce
  define s4 where "s4 = EXPIRE R ?mk (35 * 86400) s3"
  have run: "snd (record_cost (Some R) iso_of now p s) = s4"
    using True i1 i3 by (simp add: record_cost_def cents_of_def s2_def s4_def Let_def)
  obtain v where v: "counter R ?dk s = Some v" using d by blast
  obtain w where w: "counter R ?mk s = Some w" using m by blast
  from counter_incrby [OF v i1] have c2: "counter R l s2 = (if l = ?dk then Some (v + cents_of p) else counter R l s)" for l
    by (simp add: s2_def counter_expire)
  with w have "counter R ?mk s2 = Some w" by simp
  from counter_incrby [OF this i3] have c4: "counter R l s4 = (if l = ?mk then Some (w + cents_of p) else counter R l s2)" for l
    by (simp add: s4_def counter_expire)
  have day: "recorded_spend (take 10) [(now, p)] iso_of a (iso_of u) = (if dayKey a (iso_of u) = ?dk then cents_of p else 0)"
    using True dayKey_eq [OF iso, of a u "cp_agentId p" now] by (auto simp: recorded_spend_def)
  have month: "recorded_spend (take 7) [(now, p)] iso_of a (iso_of u) = (if monthKey a (iso_of u) = ?mk then cents_of p else 0)"
    using True monthKey_eq [OF iso, of a u "cp_agentId p" now] by (auto simp: recorded_spend_def)
  show ?thesis
    unfolding run day month c4 c2 using v w by (auto simp: option.map_ident cong: option.map_cong)
qed

lemma record_all_counters:
  assumes iso: "iso_texts iso_of" and "\<forall>a t. counter R (dayKey a (iso_of t)) s \<noteq> None"
    and "\<forall>a t. counter R (monthKey a (iso_of t)) s \<noteq> None"
  shows "counter R (dayKey a (iso_of u)) (record_all R iso_of ps s)
      = map_option (\<lambda>v. v + recorded_spend (take 10) ps iso_of a (iso_of u)) (counter R (dayKey a (iso_of u)) s)
    \<and> counter R (monthKey a (iso_of u)) (record_all R iso_of ps s)
      = map_option (\<lambda>v. v + recorded_spend (take 7) ps iso_of a (iso_of u)) (counter R (monthKey a (iso_of u)) s)"
  using assms(2,3)
proof (induction ps arbitrary: s)
  case Nil
  show ?case by (simp add: recorded_spend_def option.map_ident)
next
  case (Cons x ps)
  obtain now p where x: "x = (now, p)" by fastforce
  note one = record_cost_counters [OF iso Cons.prems]
  have "\<forall>a t. counter R (dayKey a (iso_of t)) (snd (record_cost (Some R) iso_of now p s)) \<noteq> None"
    "\<forall>a t. counter R (monthKey a (iso_of t)) (snd (record_cost (Some R) iso_of now p s)) \<noteq> None"
    using one Cons.prems by simp_all
  from Cons.IH [OF this] one show ?case
    by (simp add: x recorded_spend_def option.map_comp comp_def algebra_simps)
qed

end

end
