(* ===== verification/Budget.thy ===== *)
theory Budget
  imports Costs Mongo
begin

text \<open>
  The budget enforcer (\<open>packages/core/src/costs/budget-enforcer.ts\<close>): its cache of per-agent budgets and
  the fleet configuration, seeding and reloading from the document store, and the check made before an
  execution.  Published events are appended to an output list; message texts and log lines are left out, a
  reason is kept as data.  Amounts are integers in cents.
\<close>

datatype budget_action = Alert | Pause | Hard_stop
datatype budget_mode = Enforcing | Tracking | Mode_off

record agent_budget =
  bg_agentId :: string
  dailyLimitCents :: int
  monthlyLimitCents :: int
  alertThresholdPercent :: int
  bg_action :: budget_action

record global_budget =
  gb_dailyLimitCents :: int
  gb_monthlyLimitCents :: int
  gb_action :: budget_action
  gb_alertThresholdPercent :: int

datatype limit_type = Daily | Monthly
datatype over_limit = Fleet_over limit_type int int | Agent_over string limit_type int int

text \<open>\<open>over_limit\<close>: whose limit, which, the limit and the amount spent.\<close>

record budget_check =
  allowed :: bool
  dailySpentCents :: int
  r_dailyLimitCents :: int
  dailyPercent :: int
  monthlySpentCents :: int
  r_monthlyLimitCents :: int
  monthlyPercent :: int
  r_reason :: "over_limit option"
  tracked :: bool

datatype budget_event = Budget_warning string int int int | Budget_exceeded string int int budget_action

record budget_enforcer =
  budgetCache :: "(string, agent_budget) jsmap"
  lastReloadAt :: int
  be_initialized :: bool
  systemMode :: budget_mode
  globalConfig :: "global_budget option"
  be_events :: "budget_event list"

definition BUDGET_RELOAD_INTERVAL_MS :: int where "BUDGET_RELOAD_INTERVAL_MS = 5 * 60 * 1000"

definition DEFAULT_BUDGETS :: "(string \<times> int) list" where
  "DEFAULT_BUDGETS =
     [(''strategist'', 1500), (''builder'', 2000), (''architect'', 500), (''deployer'', 500), (''designer'', 500),
      (''sentinel'', 500), (''reviewer'', 500), (''treasurer'', 500), (''scout'', 500), (''ember'', 500),
      (''forge'', 500), (''guide'', 500), (''keeper'', 500)]"

definition new_enforcer :: "string option \<Rightarrow> budget_enforcer" where
  "new_enforcer env = \<lparr>budgetCache = [], lastReloadAt = 0, be_initialized = False,
     systemMode = (if env = Some ''enforcing'' then Enforcing else if env = Some ''off'' then Mode_off else Tracking),
     globalConfig = None, be_events = []\<rparr>"

section \<open>Loading\<close>

text \<open>The document of the fleet configuration; every field may be absent.\<close>

record config_doc =
  cd_globalDailyLimitCents :: "int option"
  cd_globalMonthlyLimitCents :: "int option"
  cd_globalAction :: "budget_action option"
  cd_globalAlertThresholdPercent :: "int option"
  cd_mode :: "string option"

definition or_value :: "'a option \<Rightarrow> 'a \<Rightarrow> 'a" where
  "or_value x d = (case x of None \<Rightarrow> d | Some v \<Rightarrow> v)"

definition default_global :: global_budget where
  "default_global = \<lparr>gb_dailyLimitCents = 5000, gb_monthlyLimitCents = 100000, gb_action = Alert, gb_alertThresholdPercent = 80\<rparr>"

definition global_of :: "config_doc option \<Rightarrow> global_budget" where
  "global_of doc = (case doc of
     None \<Rightarrow> default_global
   | Some d \<Rightarrow> \<lparr>gb_dailyLimitCents = or_value (cd_globalDailyLimitCents d) 5000,
        gb_monthlyLimitCents = or_value (cd_globalMonthlyLimitCents d) 100000,
        gb_action = or_value (cd_globalAction d) Alert,
        gb_alertThresholdPercent = or_value (cd_globalAlertThresholdPercent d) 80\<rparr>)"

definition mode_of :: "config_doc option \<Rightarrow> budget_mode \<Rightarrow> budget_mode" where
  "mode_of doc m = (case doc of None \<Rightarrow> m | Some d \<Rightarrow>
     (if cd_mode d = Some ''enforcing'' then Enforcing else if cd_mode d = Some ''tracking'' then Tracking
      else if cd_mode d = Some ''off'' then Mode_off else m))"

text \<open>
  The reading of the configuration document: \<open>None\<close> when it throws, \<open>Some None\<close> when there is none.
\<close>

definition loadBudgetsFromDb ::
  "('c, agent_budget) mongo \<Rightarrow> config_doc option option \<Rightarrow> int \<Rightarrow> 'c \<Rightarrow> budget_enforcer \<Rightarrow> budget_enforcer" where
  "loadBudgetsFromDb M doc now c be =
     (let be1 = be\<lparr>budgetCache := fold (\<lambda>b m. mset_at (bg_agentId b) b m) (find_all M (\<lambda>_. True) c) []\<rparr>;
          be2 = (case doc of
            Some d \<Rightarrow> be1\<lparr>globalConfig := Some (global_of d), systemMode := mode_of d (systemMode be1)\<rparr>
          | None \<Rightarrow> be1\<lparr>globalConfig := Some (or_value (globalConfig be1) default_global)\<rparr>)
      in be2\<lparr>lastReloadAt := now\<rparr>)"

definition seed_budget :: "string \<Rightarrow> int \<Rightarrow> agent_budget" where
  "seed_budget agentId daily = \<lparr>bg_agentId = agentId, dailyLimitCents = daily, monthlyLimitCents = daily * 30,
     alertThresholdPercent = 80, bg_action = Alert\<rparr>"

text \<open>Seeding; an insertion the index rejects throws and ends it (\<open>False\<close>).\<close>

fun seed_budgets :: "('c, agent_budget) mongo \<Rightarrow> (string \<times> int) list \<Rightarrow> 'c \<Rightarrow> bool \<times> 'c" where
  "seed_budgets M [] c = (True, c)"
| "seed_budgets M ((agentId, daily) # ds) c = (case findOne M (\<lambda>b. bg_agentId b = agentId) c of
     Some b \<Rightarrow> seed_budgets M ds c
   | None \<Rightarrow> (case insertOne M (seed_budget agentId daily) c of
       None \<Rightarrow> (False, c)
     | Some c1 \<Rightarrow> seed_budgets M ds c1))"

definition be_initialize ::
  "('c, agent_budget) mongo \<Rightarrow> config_doc option option \<Rightarrow> int \<Rightarrow> 'c option \<Rightarrow> budget_enforcer \<Rightarrow> 'c option \<times> budget_enforcer" where
  "be_initialize M doc now db be =
     (if be_initialized be then (db, be)
      else case db of
        None \<Rightarrow> (None, be\<lparr>be_initialized := True\<rparr>)
      | Some c \<Rightarrow>
          (case seed_budgets M DEFAULT_BUDGETS c of
             (ok, c1) \<Rightarrow> (Some c1, (if ok then loadBudgetsFromDb M doc now c1 be else be)\<lparr>be_initialized := True\<rparr>)))"

definition reloadBudgets ::
  "('c, agent_budget) mongo \<Rightarrow> config_doc option option \<Rightarrow> int \<Rightarrow> 'c option \<Rightarrow> budget_enforcer \<Rightarrow> budget_enforcer" where
  "reloadBudgets M doc now db be = (case db of None \<Rightarrow> be | Some c \<Rightarrow> loadBudgetsFromDb M doc now c be)"

definition maybeReloadBudgets ::
  "('c, agent_budget) mongo \<Rightarrow> config_doc option option \<Rightarrow> int \<Rightarrow> 'c option \<Rightarrow> budget_enforcer \<Rightarrow> budget_enforcer" where
  "maybeReloadBudgets M doc now db be =
     (if now - lastReloadAt be > BUDGET_RELOAD_INTERVAL_MS then reloadBudgets M doc now db be else be)"

section \<open>Publishing\<close>

definition be_emit :: "budget_event \<Rightarrow> budget_enforcer \<Rightarrow> budget_enforcer" where
  "be_emit x be = be\<lparr>be_events := be_events be @ [x]\<rparr>"

definition warned_key :: "string \<Rightarrow> string \<Rightarrow> string" where
  "warned_key agentId stamp = ''budget:warned:'' @ agentId @ '':'' @ take 10 stamp"

definition publishBudgetWarningDeduped ::
  "'s redis option \<Rightarrow> string \<Rightarrow> string \<Rightarrow> int \<Rightarrow> int \<Rightarrow> int \<Rightarrow> budget_enforcer \<times> 's \<Rightarrow> budget_enforcer \<times> 's" where
  "publishBudgetWarningDeduped R stamp agentId spentCents limitCents percent w = (case w of (be, s) \<Rightarrow>
     (case R of
        None \<Rightarrow> (be_emit (Budget_warning agentId spentCents limitCents percent) be, s)
      | Some R \<Rightarrow> (let (isNew, s1) = SETNX R (warned_key agentId stamp) 86400 s in
          (if isNew then be_emit (Budget_warning agentId spentCents limitCents percent) be else be, s1))))"

section \<open>The check\<close>

definition percent_of :: "int \<Rightarrow> int \<Rightarrow> int" where
  "percent_of spentCents limit = (if limit > 0 then js_round (of_int spentCents / of_int limit * 100) else 0)"

definition blocking :: "budget_action \<Rightarrow> bool" where
  "blocking a \<longleftrightarrow> a = Pause \<or> a = Hard_stop"

definition no_check :: budget_check where
  "no_check = \<lparr>allowed = True, dailySpentCents = 0, r_dailyLimitCents = 0, dailyPercent = 0, monthlySpentCents = 0,
     r_monthlyLimitCents = 0, monthlyPercent = 0, r_reason = None, tracked = False\<rparr>"

text \<open>The fleet's budget: the result that ends the check, if it blocks.\<close>

definition check_fleet ::
  "'s redis option \<Rightarrow> string \<Rightarrow> global_budget \<Rightarrow> int \<Rightarrow> int \<Rightarrow> budget_enforcer \<times> 's \<Rightarrow> budget_check option \<times> budget_enforcer \<times> 's" where
  "check_fleet R stamp g fleetDaily fleetMonthly w =
     (let dp = percent_of fleetDaily (gb_dailyLimitCents g);
          mp = percent_of fleetMonthly (gb_monthlyLimitCents g);
          w1 = (if dp \<ge> gb_alertThresholdPercent g \<and> dp < 100
                then publishBudgetWarningDeduped R stamp ''__fleet__'' fleetDaily (gb_dailyLimitCents g) dp w else w);
          overDaily = (fleetDaily \<ge> gb_dailyLimitCents g);
          overMonthly = (fleetMonthly \<ge> gb_monthlyLimitCents g);
          tracking = (systemMode (fst w) = Tracking)
      in if overDaily \<or> overMonthly then
           (let spent = (if overDaily then fleetDaily else fleetMonthly);
                limit = (if overDaily then gb_dailyLimitCents g else gb_monthlyLimitCents g)
            in if blocking (gb_action g) \<and> \<not> tracking
               then (Some \<lparr>allowed = False, dailySpentCents = fleetDaily, r_dailyLimitCents = gb_dailyLimitCents g, dailyPercent = dp,
                       monthlySpentCents = fleetMonthly, r_monthlyLimitCents = gb_monthlyLimitCents g, monthlyPercent = mp,
                       r_reason = Some (Fleet_over (if overDaily then Daily else Monthly) limit spent), tracked = False\<rparr>,
                     map_prod (be_emit (Budget_exceeded ''__fleet__'' spent limit (gb_action g))) id w1)
               else (None, map_prod (be_emit (Budget_exceeded ''__fleet__'' spent limit (if tracking then Alert else gb_action g))) id w1))
         else (None, w1))"

definition check_agent ::
  "'s redis option \<Rightarrow> string \<Rightarrow> string \<Rightarrow> agent_budget \<Rightarrow> int \<Rightarrow> int \<Rightarrow> budget_enforcer \<times> 's \<Rightarrow> budget_check \<times> budget_enforcer \<times> 's" where
  "check_agent R stamp agentId b dailySpent monthlySpent w =
     (let dp = percent_of dailySpent (dailyLimitCents b);
          mp = percent_of monthlySpent (monthlyLimitCents b);
          result = \<lparr>allowed = True, dailySpentCents = dailySpent, r_dailyLimitCents = dailyLimitCents b, dailyPercent = dp,
            monthlySpentCents = monthlySpent, r_monthlyLimitCents = monthlyLimitCents b, monthlyPercent = mp,
            r_reason = None, tracked = False\<rparr>;
          w1 = (if dp \<ge> alertThresholdPercent b \<and> dp < 100
                then publishBudgetWarningDeduped R stamp agentId dailySpent (dailyLimitCents b) dp w else w);
          overDaily = (dailySpent \<ge> dailyLimitCents b);
          overMonthly = (monthlySpent \<ge> monthlyLimitCents b)
      in if overDaily \<or> overMonthly then
           (let spent = (if overDaily then dailySpent else monthlySpent);
                limit = (if overDaily then dailyLimitCents b else monthlyLimitCents b)
            in if blocking (bg_action b) then
                 (if systemMode (fst w) \<noteq> Tracking
                  then (result\<lparr>allowed := False, r_reason := Some (Agent_over agentId (if overDaily then Daily else Monthly) limit spent)\<rparr>,
                        map_prod (be_emit (Budget_exceeded agentId spent limit (bg_action b))) id w1)
                  else (result\<lparr>tracked := True\<rparr>, map_prod (be_emit (Budget_exceeded agentId spent limit Alert)) id w1))
               else (result, map_prod (be_emit (Budget_exceeded agentId spent limit Alert)) id w1))
         else (result, w1))"

text \<open>The check itself; \<open>scanned\<close> are the keys of the two fleet scans.\<close>

definition be_check ::
  "('c, agent_budget) mongo \<Rightarrow> config_doc option option \<Rightarrow> 's redis option \<Rightarrow> (int \<Rightarrow> string) \<Rightarrow> string list \<times> string list \<Rightarrow> int \<Rightarrow>
     string \<Rightarrow> 'c option \<Rightarrow> budget_enforcer \<times> 's \<Rightarrow> budget_check \<times> budget_enforcer \<times> 's" where
  "be_check M doc R iso_of scanned now agentId db w =
     (let be = maybeReloadBudgets M doc now db (fst w); stamp = iso_of now; s = snd w in
      if systemMode be = Mode_off then (no_check, be, s)
      else
        (let (fleet, be1, s1) = (case globalConfig be of
               None \<Rightarrow> (None, be, s)
             | Some g \<Rightarrow>
                 (let (fd, sd) = getFleetDailySpendCents R iso_of now (fst scanned) s;
                      (fm, sm) = getFleetMonthlySpendCents R iso_of now (snd scanned) sd
                  in check_fleet R stamp g fd fm (be, sm)))
         in case fleet of
              Some r \<Rightarrow> (r, be1, s1)
            | None \<Rightarrow> (case mget (budgetCache be1) agentId of
                None \<Rightarrow> (no_check, be1, s1)
              | Some b \<Rightarrow> check_agent R stamp agentId b (getDailySpendCents R iso_of now agentId s1)
                  (getMonthlySpendCents R iso_of now agentId s1) (be1, s1))))"

definition getBudget :: "string \<Rightarrow> budget_enforcer \<Rightarrow> agent_budget option" where
  "getBudget agentId be = mget (budgetCache be) agentId"

section \<open>What the check decides\<close>

lemma be_emit_simps [simp]:
  "systemMode (be_emit x be) = systemMode be" "budgetCache (be_emit x be) = budgetCache be" "globalConfig (be_emit x be) = globalConfig be"
  by (simp_all add: be_emit_def)

lemma spend_of_counter: "counter R k s = Some v \<Longrightarrow> spend_of (GET R k s) = v"
  by (auto simp: counter_def spend_of_def split: option.splits)

text \<open>
  When limits block, written apart from the check: the limits of the fleet, and those of an agent, if they are set.  The fleet's sum is the
  cached one if there is one.
\<close>

definition fleet_total :: "string option \<Rightarrow> int list \<Rightarrow> int" where
  "fleet_total cached spends = (case cached of None \<Rightarrow> sum_list spends | Some t \<Rightarrow> spend_of (Some t))"

definition fleet_blocks :: "global_budget option \<Rightarrow> int \<Rightarrow> int \<Rightarrow> bool" where
  "fleet_blocks g day month \<longleftrightarrow> (\<exists>g \<in> set_option g. gb_action g \<in> {Pause, Hard_stop} \<and> (gb_dailyLimitCents g \<le> day \<or> gb_monthlyLimitCents g \<le> month))"

definition agent_blocks :: "agent_budget option \<Rightarrow> int \<Rightarrow> int \<Rightarrow> bool" where
  "agent_blocks b day month \<longleftrightarrow> (\<exists>b \<in> set_option b. bg_action b \<in> {Pause, Hard_stop} \<and> (dailyLimitCents b \<le> day \<or> monthlyLimitCents b \<le> month))"

lemma blocking_iff: "blocking a \<longleftrightarrow> a \<in> {Pause, Hard_stop}"
  by (simp add: blocking_def)

text \<open>A warning or a cached fleet sum leaves the enforcer's configuration and an agent's counters alone.\<close>

definition same_counters :: "'s redis \<Rightarrow> budget_enforcer \<times> 's \<Rightarrow> budget_enforcer \<times> 's \<Rightarrow> bool" where
  "same_counters R w w1 \<longleftrightarrow> systemMode (fst w1) = systemMode (fst w) \<and> budgetCache (fst w1) = budgetCache (fst w)
     \<and> (\<forall>a d. GET R (dayKey a d) (snd w1) = GET R (dayKey a d) (snd w) \<and> GET R (monthKey a d) (snd w1) = GET R (monthKey a d) (snd w))"

lemma same_counters_refl [simp]: "same_counters R w w"
  by (simp add: same_counters_def)

lemma same_counters_emit [simp]: "same_counters R w (map_prod (be_emit x) id w1) \<longleftrightarrow> same_counters R w w1"
  by (simp add: same_counters_def)

lemma same_counters_mode: "same_counters R w w1 \<Longrightarrow> systemMode (fst w1) = systemMode (fst w)"
  by (simp add: same_counters_def)

lemma cost_keys_differ:
  "dayKey a d \<noteq> warned_key b e" "monthKey a d \<noteq> warned_key b e"
  "dayKey a d \<noteq> fleet_daily_key e" "monthKey a d \<noteq> fleet_daily_key e"
  "dayKey a d \<noteq> fleet_monthly_key e" "monthKey a d \<noteq> fleet_monthly_key e"
  by (simp_all add: dayKey_def monthKey_def warned_key_def fleet_daily_key_def fleet_monthly_key_def)

context redis_counters
begin

lemma warning_counters [simp]: "same_counters R w (publishBudgetWarningDeduped (Some R) stamp agentId spent limit percent w)"
proof -
  obtain be s where w: "w = (be, s)" by fastforce
  obtain b s1 where nx: "SETNX R (warned_key agentId stamp) 86400 s = (b, s1)" by fastforce
  with get_setnx [OF nx] cost_keys_differ show ?thesis
    by (simp add: w publishBudgetWarningDeduped_def same_counters_def)
qed

lemma fleet_spend_counters:
  "ck = fleet_daily_key k \<or> ck = fleet_monthly_key k \<Longrightarrow> fleet_spend R ck scanned s = (n, s1) \<Longrightarrow>
     GET R (dayKey a d) s1 = GET R (dayKey a d) s \<and> GET R (monthKey a d) s1 = GET R (monthKey a d) s"
  using cost_keys_differ by (auto simp: fleet_spend_def get_expire get_settext Let_def split: option.splits)

lemma fleet_spend_value:
  "fst (fleet_spend R ck scanned s) = fleet_total (GET R ck s) (map (\<lambda>k. spend_of (GET R k s)) scanned)"
  by (simp add: fleet_spend_def fleet_total_def Let_def split: option.split)

lemma fleet_check_decides:
  assumes "check_fleet (Some R) stamp g fd fm w = (r, w1)"
  shows "same_counters R w w1 \<and> (case r of
      None \<Rightarrow> systemMode (fst w) = Tracking \<or> \<not> fleet_blocks (Some g) fd fm
    | Some q \<Rightarrow> \<not> allowed q \<and> systemMode (fst w) \<noteq> Tracking \<and> fleet_blocks (Some g) fd fm)"
  using assms by (auto simp: check_fleet_def fleet_blocks_def blocking_iff Let_def split: if_splits)

lemma agent_check_decides:
  assumes "check_agent (Some R) stamp agentId b ds ms w = (r, w1)"
  shows "allowed r \<longleftrightarrow> systemMode (fst w) = Tracking \<or> \<not> agent_blocks (Some b) ds ms"
  using assms by (auto simp: check_agent_def agent_blocks_def blocking_iff Let_def split: if_splits)

text \<open>The stage of the fleet, for an enforcer with its configuration.\<close>

lemma fleet_stage:
  assumes stage: "stage = (case globalConfig be of
               None \<Rightarrow> (None, be, s)
             | Some g \<Rightarrow>
                 (let (fd, sd) = getFleetDailySpendCents (Some R) iso_of now (fst scanned) s;
                      (fm, sm) = getFleetMonthlySpendCents (Some R) iso_of now (snd scanned) sd
                  in check_fleet (Some R) (iso_of now) g fd fm (be, sm)))"
    and months: "\<forall>k \<in> set (snd scanned). \<exists>a d. k = monthKey a d"
  shows "same_counters R (be, s) (snd stage)
    \<and> (let fd = fleet_total (GET R (fleet_daily_key (iso_of now)) s) (map (\<lambda>k. spend_of (GET R k s)) (fst scanned));
           fm = fleet_total (GET R (fleet_monthly_key (iso_of now)) s) (map (\<lambda>k. spend_of (GET R k s)) (snd scanned))
       in case fst stage of
            None \<Rightarrow> systemMode be = Tracking \<or> \<not> fleet_blocks (globalConfig be) fd fm
          | Some q \<Rightarrow> \<not> allowed q \<and> systemMode be \<noteq> Tracking \<and> fleet_blocks (globalConfig be) fd fm)"
proof (cases "globalConfig be")
  case None
  then show ?thesis by (simp add: stage fleet_blocks_def)
next
  case (Some g)
  obtain fd sd where fd: "fleet_spend R (fleet_daily_key (iso_of now)) (fst scanned) s = (fd, sd)" by fastforce
  obtain fm sm where fm: "fleet_spend R (fleet_monthly_key (iso_of now)) (snd scanned) sd = (fm, sm)" by fastforce
  obtain r w1 where cf: "check_fleet (Some R) (iso_of now) g fd fm (be, sm) = (r, w1)" by (rule prod.exhaust)
  have run: "stage = (r, w1)"
    unfolding stage Some getFleetDailySpendCents_def getFleetMonthlySpendCents_def by (simp add: fd fm cf)
  note kept = fleet_spend_counters [OF disjI1 [OF refl] fd] fleet_spend_counters [OF disjI2 [OF refl] fm]
  have "GET R (fleet_monthly_key (iso_of now)) sd = GET R (fleet_monthly_key (iso_of now)) s"
    using fd by (auto simp: fleet_spend_def get_expire get_settext fleet_daily_key_def fleet_monthly_key_def Let_def split: option.splits)
  moreover have "map (\<lambda>k. spend_of (GET R k sd)) (snd scanned) = map (\<lambda>k. spend_of (GET R k s)) (snd scanned)"
    using months kept(1) by fastforce
  ultimately have "fm = fleet_total (GET R (fleet_monthly_key (iso_of now)) s) (map (\<lambda>k. spend_of (GET R k s)) (snd scanned))"
    using fleet_spend_value [of "fleet_monthly_key (iso_of now)" "snd scanned" sd] unfolding fm fst_conv by metis
  moreover have "fd = fleet_total (GET R (fleet_daily_key (iso_of now)) s) (map (\<lambda>k. spend_of (GET R k s)) (fst scanned))"
    using fleet_spend_value [of "fleet_daily_key (iso_of now)" "fst scanned" s] fd by simp
  ultimately show ?thesis
    using fleet_check_decides [OF cf] kept by (auto simp: run Some same_counters_def Let_def split: option.splits)
qed

lemma check_decides:
  assumes be1_def: "be1 = maybeReloadBudgets M doc now db be"
    and fd_def: "fd = fleet_total (GET R (fleet_daily_key (iso_of now)) s) (map (\<lambda>k. spend_of (GET R k s)) (fst scanned))"
    and fm_def: "fm = fleet_total (GET R (fleet_monthly_key (iso_of now)) s) (map (\<lambda>k. spend_of (GET R k s)) (snd scanned))"
    and months: "\<forall>k \<in> set (snd scanned). \<exists>a d. k = monthKey a d"
    and d: "counter R (dayKey agentId (iso_of now)) s = Some D" and m: "counter R (monthKey agentId (iso_of now)) s = Some N"
  shows "allowed (fst (be_check M doc (Some R) iso_of scanned now agentId db (be, s)))
    \<longleftrightarrow> systemMode be1 \<noteq> Enforcing \<or> \<not> fleet_blocks (globalConfig be1) fd fm \<and> \<not> agent_blocks (mget (budgetCache be1) agentId) D N"
proof (cases "systemMode be1 = Mode_off")
  case True
  then show ?thesis by (simp add: be_check_def be1_def no_check_def Let_def)
next
  case False
  define stage where "stage = (case globalConfig be1 of
               None \<Rightarrow> (None, be1, s)
             | Some g \<Rightarrow>
                 (let (fd, sd) = getFleetDailySpendCents (Some R) iso_of now (fst scanned) s;
                      (fm, sm) = getFleetMonthlySpendCents (Some R) iso_of now (snd scanned) sd
                  in check_fleet (Some R) (iso_of now) g fd fm (be1, sm)))"
  obtain r be2 s2 where stage: "stage = (r, be2, s2)" by (cases stage) auto
  note fleet = fleet_stage [OF stage_def months, unfolded stage Let_def fst_conv snd_conv, folded fd_def fm_def]
  then have kept: "systemMode be2 = systemMode be1" "budgetCache be2 = budgetCache be1"
    "GET R (dayKey agentId (iso_of now)) s2 = GET R (dayKey agentId (iso_of now)) s"
    "GET R (monthKey agentId (iso_of now)) s2 = GET R (monthKey agentId (iso_of now)) s"
    by (simp_all add: same_counters_def)
  with spend_of_counter [OF d] spend_of_counter [OF m]
  have sp: "getDailySpendCents (Some R) iso_of now agentId s2 = D" "getMonthlySpendCents (Some R) iso_of now agentId s2 = N"
    by (simp_all add: getDailySpendCents_def getMonthlySpendCents_def)
  have run: "be_check M doc (Some R) iso_of scanned now agentId db (be, s) = (case r of
      Some q \<Rightarrow> (q, be2, s2)
    | None \<Rightarrow> (case mget (budgetCache be1) agentId of
        None \<Rightarrow> (no_check, be2, s2) | Some b \<Rightarrow> check_agent (Some R) (iso_of now) agentId b D N (be2, s2)))"
  proof -
    have "be_check M doc (Some R) iso_of scanned now agentId db (be, s) = (case stage of
        (Some q, be1, s1) \<Rightarrow> (q, be1, s1)
      | (None, be1, s1) \<Rightarrow> (case mget (budgetCache be1) agentId of
          None \<Rightarrow> (no_check, be1, s1)
        | Some b \<Rightarrow> check_agent (Some R) (iso_of now) agentId b (getDailySpendCents (Some R) iso_of now agentId s1)
            (getMonthlySpendCents (Some R) iso_of now agentId s1) (be1, s1)))"
      unfolding be_check_def fst_conv snd_conv be1_def [symmetric] stage_def
      using False by (simp add: Let_def case_prod_beta split: option.split)
    with stage sp kept(2) show ?thesis by (simp split: option.split)
  qed
  show ?thesis
  proof (cases "mget (budgetCache be1) agentId")
    case None
    with fleet False show ?thesis
      by (cases "systemMode be1"; cases r) (simp_all add: run no_check_def agent_blocks_def)
  next
    case (Some b)
    obtain q w1 where q: "check_agent (Some R) (iso_of now) agentId b D N (be2, s2) = (q, w1)" by (metis surj_pair)
    from agent_check_decides [OF q] fleet False kept(1) show ?thesis
      by (cases "systemMode be1"; cases r) (simp_all add: run q Some)
  qed
qed

text \<open>Recording leaves the cached sums of the fleet alone.\<close>

lemma record_cost_other:
  assumes "\<forall>a t. counter R (dayKey a (iso_of t)) s \<noteq> None" "\<forall>a t. counter R (monthKey a (iso_of t)) s \<noteq> None"
    and l: "\<forall>a d. l \<noteq> dayKey a d \<and> l \<noteq> monthKey a d"
  shows "GET R l (snd (record_cost (Some R) iso_of now p s)) = GET R l s"
proof (cases "0 < cents_of p")
  case False
  then show ?thesis by (simp add: record_cost_def cents_of_def Let_def)
next
  case True
  let ?dk = "dayKey (cp_agentId p) (iso_of now)" and ?mk = "monthKey (cp_agentId p) (iso_of now)"
  obtain n1 s1 where i1: "INCRBY R ?dk (cents_of p) s = (n1, s1)" by fastforce
  define s2 where "s2 = EXPIRE R ?dk (48 * 3600) s1"
  obtain n3 s3 where i3: "INCRBY R ?mk (cents_of p) s2 = (n3, s3)" by fastforce
  obtain v w where v: "counter R ?dk s = Some v" and w: "counter R ?mk s = Some w" using assms(1,2) by blast
  from counter_incrby [OF v i1, of ?mk] w have "counter R ?mk s2 = Some w" by (simp add: s2_def counter_expire)
  from incrby [OF this i3] incrby [OF v i1] l have "GET R l s3 = GET R l s" by (simp add: s2_def get_expire)
  with True i1 i3 show ?thesis by (simp add: record_cost_def cents_of_def s2_def get_expire Let_def)
qed

lemma record_all_fleet:
  assumes iso: "iso_texts iso_of" and "\<forall>a t. counter R (dayKey a (iso_of t)) s \<noteq> None" "\<forall>a t. counter R (monthKey a (iso_of t)) s \<noteq> None"
  shows "GET R (fleet_daily_key k) (record_all R iso_of ps s) = GET R (fleet_daily_key k) s
    \<and> GET R (fleet_monthly_key k) (record_all R iso_of ps s) = GET R (fleet_monthly_key k) s"
  using assms(2,3)
proof (induction ps arbitrary: s)
  case (Cons x ps)
  obtain now p where x: "x = (now, p)" by fastforce
  let ?s1 = "snd (record_cost (Some R) iso_of now p s)"
  have "\<forall>a t. counter R (dayKey a (iso_of t)) ?s1 \<noteq> None" "\<forall>a t. counter R (monthKey a (iso_of t)) ?s1 \<noteq> None"
    using record_cost_counters [OF iso Cons.prems] Cons.prems by simp_all
  from Cons.IH [OF this] show ?case
    using record_cost_other [OF Cons.prems] cost_keys_differ by (metis x record_all.simps(2))
qed simp

end

text \<open>
  C16: budgets hold on what was recorded: after any sequence of recorded model calls, while the key-value server answers, the check lets
  an agent run exactly if the enforcer (after the reload that may be due) is not enforcing, or neither the fleet's nor the agent's limits
  block.  A limit blocks if its action pauses or stops and the cents of the day or of the month reach it.  The agent's cents are its recorded
  ones on top of what the counters held; the fleet's are the sum of these over the agents whose counters a scan finds, or a sum that was cached
  within the last minute.
\<close>
theorem budget_enforced_on_recorded_spend:
  assumes "redis_counters R" and "iso_texts iso_of"
    and "\<forall>a t. counter R (dayKey a (iso_of t)) s \<noteq> None" and "\<forall>a t. counter R (monthKey a (iso_of t)) s \<noteq> None"
    and "\<forall>a. counter R (dayKey a (iso_of now)) s = Some (D a)" and "\<forall>a. counter R (monthKey a (iso_of now)) s = Some (N a)"
    and "daily = (\<lambda>a. D a + recorded_spend (take 10) ps iso_of a (iso_of now))"
    and "monthly = (\<lambda>a. N a + recorded_spend (take 7) ps iso_of a (iso_of now))"
    and "be1 = maybeReloadBudgets M doc now db be"
  shows "allowed (fst (be_check M doc (Some R) iso_of
      (map (\<lambda>a. dayKey a (iso_of now)) found_day, map (\<lambda>a. monthKey a (iso_of now)) found_month) now agentId db
      (be, record_all R iso_of ps s)))
    \<longleftrightarrow> systemMode be1 \<noteq> Enforcing
      \<or> \<not> fleet_blocks (globalConfig be1) (fleet_total (GET R (fleet_daily_key (iso_of now)) s) (map daily found_day))
            (fleet_total (GET R (fleet_monthly_key (iso_of now)) s) (map monthly found_month))
        \<and> \<not> agent_blocks (mget (budgetCache be1) agentId) (daily agentId) (monthly agentId)"
proof -
  have c: "counter R (dayKey a (iso_of now)) (record_all R iso_of ps s) = Some (daily a)"
    "counter R (monthKey a (iso_of now)) (record_all R iso_of ps s) = Some (monthly a)" for a
    using redis_counters.record_all_counters [OF assms(1-4), of a now ps] assms(5-8) by simp_all
  have sums: "map ((\<lambda>k. spend_of (GET R k (record_all R iso_of ps s))) \<circ> (\<lambda>a. dayKey a (iso_of now))) found_day = map daily found_day"
    "map ((\<lambda>k. spend_of (GET R k (record_all R iso_of ps s))) \<circ> (\<lambda>a. monthKey a (iso_of now))) found_month = map monthly found_month"
    using c [THEN spend_of_counter] by simp_all
  let ?scanned = "(map (\<lambda>a. dayKey a (iso_of now)) found_day, map (\<lambda>a. monthKey a (iso_of now)) found_month)"
  have months: "\<forall>k \<in> set (snd ?scanned). \<exists>a d. k = monthKey a d" by auto
  note fleet = redis_counters.record_all_fleet [OF assms(1-4), of "iso_of now" ps]
  from redis_counters.check_decides [where agentId = agentId and iso_of = iso_of and now = now,
      OF assms(1) assms(9) refl refl months c(1) [of agentId] c(2) [of agentId]]
  show ?thesis unfolding fst_conv snd_conv map_map sums conjunct1 [OF fleet] conjunct2 [OF fleet] .
qed

text \<open>A builder with a daily limit of 20 dollars that has spent 21.\<close>

definition big_call :: cost_params where
  "big_call = \<lparr>cp_agentId = ''builder'', cp_department = ''development'', cp_taskType = ''implement_issue'', cp_executionId = ''e1'',
     cp_modelId = ''claude-opus-4-6'', cp_provider = ''anthropic'', cp_inputTokens = 1400000, cp_outputTokens = 0,
     cp_cacheReadTokens = 0, cp_cacheWriteTokens = 0, cp_latencyMs = 10\<rparr>"

lemma big_call_cents: "cents_of big_call = 2100"
proof -
  have "\<lfloor>4200001 / 2 :: rat\<rfloor> = 2100000" by (simp add: floor_eq_iff)
  then show ?thesis
  by (simp add: big_call_def cents_of_def computeCostMillicents_def getPricing_def MODEL_PRICING_def opus_pricing_def
      millicentsToDisplayCents_def js_round_def)
qed

definition builder_enforcer :: budget_enforcer where
  "builder_enforcer = (new_enforcer (Some ''enforcing''))\<lparr>budgetCache := [(''builder'', (seed_budget ''builder'' 2000)\<lparr>bg_action := Pause\<rparr>)],
     globalConfig := Some (default_global\<lparr>gb_action := Hard_stop\<rparr>)\<rparr>"

text \<open>The builder may not go on; once the fleet has spent its 50 dollars, the scout may not either.\<close>

theorem budget_enforced_on_recorded_spend_witness:
  "\<not> allowed (fst (be_check (list_mongo bg_agentId) None (Some ref_redis) (\<lambda>t. ''2026-01-01T00:00'')
      ([dayKey ''builder'' ''2026-01-01T00:00''], [monthKey ''builder'' ''2026-01-01T00:00'']) 5 ''builder'' None
      (builder_enforcer, record_all ref_redis (\<lambda>t. ''2026-01-01T00:00'') [(4, big_call)] db_empty)))
   \<and> allowed (fst (be_check (list_mongo bg_agentId) None (Some ref_redis) (\<lambda>t. ''2026-01-01T00:00'')
      ([dayKey ''builder'' ''2026-01-01T00:00''], [monthKey ''builder'' ''2026-01-01T00:00'']) 5 ''scout'' None
      (builder_enforcer, record_all ref_redis (\<lambda>t. ''2026-01-01T00:00'') [(4, big_call)] db_empty)))
   \<and> \<not> allowed (fst (be_check (list_mongo bg_agentId) None (Some ref_redis) (\<lambda>t. ''2026-01-01T00:00'')
      ([dayKey ''builder'' ''2026-01-01T00:00''], [monthKey ''builder'' ''2026-01-01T00:00'']) 5 ''scout'' None
      (builder_enforcer, record_all ref_redis (\<lambda>t. ''2026-01-01T00:00'') [(3, big_call), (4, big_call), (4, big_call)] db_empty)))"
proof -
  let ?iso_of = "\<lambda>t. ''2026-01-01T00:00''"
  have iso: "iso_texts ?iso_of" by (simp add: iso_texts_def)
  have zero: "counter ref_redis k db_empty = Some 0" for k by (simp add: counter_def ref_redis_def db_empty_def)
  have none: "GET ref_redis k db_empty = None" for k by (simp add: ref_redis_def db_empty_def)
  have same: "maybeReloadBudgets (list_mongo bg_agentId) None 5 None builder_enforcer = builder_enforcer"
    by (simp add: maybeReloadBudgets_def reloadBudgets_def)
  have be: "systemMode builder_enforcer = Enforcing" "globalConfig builder_enforcer = Some (default_global\<lparr>gb_action := Hard_stop\<rparr>)"
    "mget (budgetCache builder_enforcer) ''builder'' = Some ((seed_budget ''builder'' 2000)\<lparr>bg_action := Pause\<rparr>)"
    "mget (budgetCache builder_enforcer) ''scout'' = None"
    by (simp_all add: builder_enforcer_def new_enforcer_def)
  have agent: "cp_agentId big_call = ''builder''" by (simp add: big_call_def)
  have spend: "recorded_spend period [(t, big_call)] ?iso_of ''builder'' ''2026-01-01T00:00'' = 2100"
    "recorded_spend period [(t, big_call), (u, big_call), (v, big_call)] ?iso_of ''builder'' ''2026-01-01T00:00'' = 6300"
    for period :: "string \<Rightarrow> string" and t u v :: int
    by (simp_all add: recorded_spend_def agent big_call_cents)
  have read: "\<forall>a t. counter ref_redis (dayKey a (?iso_of t)) db_empty \<noteq> None" "\<forall>a t. counter ref_redis (monthKey a (?iso_of t)) db_empty \<noteq> None"
    "\<forall>a. counter ref_redis (dayKey a (?iso_of 5)) db_empty = Some 0" "\<forall>a. counter ref_redis (monthKey a (?iso_of 5)) db_empty = Some 0"
    using zero by simp_all
  have decides: "allowed (fst (be_check (list_mongo bg_agentId) None (Some ref_redis) ?iso_of
        ([dayKey ''builder'' ''2026-01-01T00:00''], [monthKey ''builder'' ''2026-01-01T00:00'']) 5 agentId None
        (builder_enforcer, record_all ref_redis ?iso_of ps db_empty)))
      \<longleftrightarrow> \<not> fleet_blocks (Some (default_global\<lparr>gb_action := Hard_stop\<rparr>))
            (recorded_spend (take 10) ps ?iso_of ''builder'' ''2026-01-01T00:00'') (recorded_spend (take 7) ps ?iso_of ''builder'' ''2026-01-01T00:00'')
        \<and> \<not> agent_blocks (mget (budgetCache builder_enforcer) agentId)
            (recorded_spend (take 10) ps ?iso_of agentId ''2026-01-01T00:00'') (recorded_spend (take 7) ps ?iso_of agentId ''2026-01-01T00:00'')"
    for agentId ps
    using budget_enforced_on_recorded_spend [OF ref_counters.redis_counters_axioms iso read refl refl same [symmetric],
        where agentId = agentId and found_day = "[''builder'']" and found_month = "[''builder'']" and ps = ps]
    by (simp add: be none fleet_total_def)
  show ?thesis unfolding decides be spend
    by (simp add: fleet_blocks_def agent_blocks_def default_global_def seed_budget_def)
qed

end
