(* ===== verification/Approvals.thy ===== *)
theory Approvals
  imports Budget Json "HOL-Library.Char_ord"
begin

text \<open>
  Approval of dangerous actions (\<open>packages/core/src/approvals\<close>): the gates and their modes
  (\<open>gates.ts\<close>), redaction (\<open>types.ts\<close>) and the life of a request in \<open>ApprovalManager\<close>
  (\<open>approval-manager.ts\<close>) over the document collection of \<open>Mongo\<close>.  A decision reads the request
  and, after an await, writes it, and expiry reads and then writes: the step relation \<open>approval_step\<close>
  interleaves these halves freely.  Published events and audit entries are appended to lists; message
  texts are left out.  Instants are ISO texts, compared as texts as the store does.
\<close>

section \<open>Gates\<close>

datatype risk_level = Low_risk | Medium_risk | High_risk | Critical_risk

record approval_gate =
  g_riskLevel :: risk_level
  g_channel :: string
  g_requiresHuman :: bool

datatype approval_mode = Strict | Lenient | Disabled

definition ALL_GATES :: "(string \<times> approval_gate) list" where
  "ALL_GATES =
     [(''deploy:execute'', \<lparr>g_riskLevel = High_risk, g_channel = ''#yclaw-alerts'', g_requiresHuman = False\<rparr>),
      (''safety:modify'', \<lparr>g_riskLevel = Critical_risk, g_channel = ''#yclaw-alerts'', g_requiresHuman = True\<rparr>),
      (''agent:config_change'', \<lparr>g_riskLevel = Medium_risk, g_channel = ''#yclaw-operations'', g_requiresHuman = False\<rparr>),
      (''cost:above_threshold'', \<lparr>g_riskLevel = High_risk, g_channel = ''#yclaw-alerts'', g_requiresHuman = True\<rparr>),
      (''github:delete_branch'', \<lparr>g_riskLevel = Medium_risk, g_channel = ''#yclaw-development'', g_requiresHuman = False\<rparr>),
      (''external:new_integration'', \<lparr>g_riskLevel = Medium_risk, g_channel = ''#yclaw-operations'', g_requiresHuman = True\<rparr>)]"

text \<open>The mode from the lower-cased environment variable.\<close>

definition approval_mode_of :: "string option \<Rightarrow> approval_mode" where
  "approval_mode_of env = (case map_option to_lower env of
     None \<Rightarrow> Strict
   | Some raw \<Rightarrow> (if raw = ''disabled'' then Disabled else if raw = ''lenient'' then Lenient else Strict))"

definition filterGatesByMode :: "(string \<times> approval_gate) list \<Rightarrow> approval_mode \<Rightarrow> (string \<times> approval_gate) list" where
  "filterGatesByMode gates mode = (case mode of
     Disabled \<Rightarrow> []
   | Strict \<Rightarrow> gates
   | Lenient \<Rightarrow> filter (\<lambda>(action, g). g_riskLevel g = High_risk \<or> g_riskLevel g = Critical_risk) gates)"

text \<open>The threshold; \<open>env\<close> is the integer the environment variable reads as, if any (zero is falsy).\<close>

definition cost_threshold :: "approval_mode \<Rightarrow> int option \<Rightarrow> int" where
  "cost_threshold mode env = (if mode = Disabled then 999999
     else case env of None \<Rightarrow> 10000 | Some n \<Rightarrow> (if n = 0 then 10000 else n))"

definition READ_ONLY_ACTIONS :: "string list" where
  "READ_ONLY_ACTIONS =
     [''github:list_issues'', ''github:list_prs'', ''github:get_contents'', ''github:get_multiple_files'', ''github:get_diff'',
      ''github:get_pr'', ''github:get_workflow_runs'', ''github:compare_commits'', ''task:summary'', ''task:query'', ''task:get'',
      ''memory:read'', ''memory:search'', ''discord:fetch_channel_history'', ''discord:fetch_messages'']"

definition KNOWN_AGENT_IDS :: "string list" where
  "KNOWN_AGENT_IDS =
     [''strategist'', ''reviewer'', ''ember'', ''scout'', ''forge'', ''architect'', ''deployer'', ''sentinel'', ''signal'',
      ''keeper'', ''treasurer'', ''guide'', ''designer'', ''builder'']"

definition isAgentIdentity :: "string \<Rightarrow> bool" where
  "isAgentIdentity decidedBy \<longleftrightarrow> to_lower decidedBy \<in> set KNOWN_AGENT_IDS"

text \<open>The list lacks two agents of the deployment (\<open>departments/\<close>).\<close>

lemma unlisted_agents_pass_as_human: "\<not> isAgentIdentity ''librarian'' \<and> \<not> isAgentIdentity ''mechanic''"
  by code_simp

definition getGate :: "approval_mode \<Rightarrow> string \<Rightarrow> approval_gate option" where
  "getGate mode actionType = map_of (filterGatesByMode ALL_GATES mode) actionType"

text \<open>\<open>budget\<close>: the mode of the budget enforcer, if one is wired in.\<close>

definition requiresApproval ::
  "approval_mode \<Rightarrow> int option \<Rightarrow> bool \<Rightarrow> budget_mode option \<Rightarrow> string \<Rightarrow> int option \<Rightarrow> approval_gate option" where
  "requiresApproval mode env hasPersistence budget actionType estimatedCostCents =
     (if \<not> hasPersistence then None
      else case getGate mode actionType of
        Some g \<Rightarrow> Some g
      | None \<Rightarrow>
          (if actionType \<in> set READ_ONLY_ACTIONS then None
           else if budget \<noteq> Some Enforcing then None
           else case estimatedCostCents of
             None \<Rightarrow> None
           | Some c \<Rightarrow> (if c > cost_threshold mode env then getGate mode ''cost:above_threshold'' else None)))"

section \<open>Redaction\<close>

definition SENSITIVE_FIELD_PATTERNS :: "string list" where
  "SENSITIVE_FIELD_PATTERNS =
     [''token'', ''secret'', ''password'', ''credential'', ''api_key'', ''apikey'', ''private_key'', ''privatekey'', ''auth'', ''bearer'']"

definition isSensitive :: "string \<Rightarrow> bool" where
  "isSensitive key \<longleftrightarrow> list_ex (\<lambda>p. str_includes (to_lower key) p) SENSITIVE_FIELD_PATTERNS"

text \<open>Only objects are entered; arrays are copied as they are.\<close>

function redact_value :: "string \<Rightarrow> json \<Rightarrow> json" where
  "redact_value key (JStr s) = (if isSensitive key then JStr ''[REDACTED]'' else JStr s)"
| "redact_value key (JObj kvs) = JObj (map (\<lambda>(k, v). (k, redact_value k v)) kvs)"
| "redact_value key JUndef = JUndef"
| "redact_value key JNull = JNull"
| "redact_value key (JBool b) = JBool b"
| "redact_value key (JNum n) = JNum n"
| "redact_value key (JArr xs) = JArr xs"
  by pat_completeness auto
termination
  by (relation "measure (size \<circ> snd)") (auto dest: json_size_prop)

definition redactPayload :: "(string \<times> json) list \<Rightarrow> (string \<times> json) list" where
  "redactPayload kvs = map (\<lambda>(k, v). (k, redact_value k v)) kvs"

section \<open>Requests\<close>

record approval_request =
  ap_id :: string
  ap_type :: string
  ap_requiresHuman :: bool
  ap_agentId :: string
  ap_department :: string
  ap_payload :: "(string \<times> json) list"
  ap_reasoning :: string
  ap_estimatedCostCents :: int
  ap_riskLevel :: risk_level
  ap_status :: request_status
  ap_decidedBy :: "string option"
  ap_decisionNote :: "string option"
  ap_slackMessageTs :: "string option"
  ap_slackChannel :: "string option"
  ap_requestedAt :: string
  ap_decidedAt :: "string option"
  ap_expiresAt :: string

record approval_decision =
  dc_approved :: bool
  dc_decidedBy :: string
  dc_note :: "string option"

datatype approval_error = No_persistence | Not_pending | Human_required string

datatype approval_event = Granted string string | Rejected_event string string | Expired_event string

text \<open>\<open>Granted\<close> and \<open>Rejected_event\<close>: the request and who decided.\<close>

record 'c approvals =
  am_collection :: "'c option"
  am_published :: "approval_event list"
  am_audit :: "(string \<times> string) list"

definition EXPIRY_HOURS :: int where "EXPIRY_HOURS = 24"

record request_opts =
  ro_actionType :: string
  ro_agentId :: string
  ro_department :: string
  ro_payload :: "(string \<times> json) list"
  ro_reasoning :: string
  ro_estimatedCostCents :: int
  ro_gate :: approval_gate

definition am_initialize :: "'c option \<Rightarrow> 'c approvals \<Rightarrow> 'c approvals" where
  "am_initialize db am = (case db of None \<Rightarrow> am | Some c \<Rightarrow> am\<lparr>am_collection := Some c\<rparr>)"

definition writeAuditEntry :: "string \<Rightarrow> string \<Rightarrow> 'c approvals \<Rightarrow> 'c approvals" where
  "writeAuditEntry action rid am = (case am_collection am of
     None \<Rightarrow> am | Some c \<Rightarrow> am\<lparr>am_audit := am_audit am @ [(action, rid)]\<rparr>)"

text \<open>The errors of a creation: no persistence, or an insertion that fails.\<close>

definition createRequest ::
  "('c, approval_request) mongo \<Rightarrow> (int \<Rightarrow> string) \<Rightarrow> int \<Rightarrow> string \<Rightarrow> request_opts \<Rightarrow> 'c approvals \<Rightarrow> string option \<times> 'c approvals" where
  "createRequest M iso_of now uuid opts am = (case am_collection am of
     None \<Rightarrow> (None, am)
   | Some c \<Rightarrow>
       (let request = \<lparr>ap_id = uuid, ap_type = ro_actionType opts, ap_requiresHuman = g_requiresHuman (ro_gate opts),
              ap_agentId = ro_agentId opts, ap_department = ro_department opts, ap_payload = redactPayload (ro_payload opts),
              ap_reasoning = ro_reasoning opts, ap_estimatedCostCents = ro_estimatedCostCents opts,
              ap_riskLevel = g_riskLevel (ro_gate opts), ap_status = St_pending, ap_decidedBy = None, ap_decisionNote = None,
              ap_slackMessageTs = None, ap_slackChannel = Some (g_channel (ro_gate opts)), ap_requestedAt = iso_of now,
              ap_decidedAt = None, ap_expiresAt = iso_of (now + EXPIRY_HOURS * 60 * 60 * 1000)\<rparr>
        in case insertOne M request c of
             None \<Rightarrow> (None, am)
           | Some c1 \<Rightarrow> (Some uuid, writeAuditEntry ''approval_requested'' uuid (am\<lparr>am_collection := Some c1\<rparr>))))"

text \<open>What posting to Slack records of the message.\<close>

definition notifySlack_posted ::
  "('c, approval_request) mongo \<Rightarrow> string \<Rightarrow> string \<Rightarrow> string \<Rightarrow> 'c approvals \<Rightarrow> 'c approvals" where
  "notifySlack_posted M rid ts channel am = (case am_collection am of
     None \<Rightarrow> am
   | Some c \<Rightarrow> am\<lparr>am_collection := Some (snd (updateOne M (\<lambda>d. ap_id d = rid)
        (\<lambda>d. d\<lparr>ap_slackMessageTs := Some ts, ap_slackChannel := Some channel\<rparr>) c))\<rparr>)"

section \<open>Decisions\<close>

text \<open>A decision up to its write, and the write with what follows.\<close>

definition decide_read ::
  "('c, approval_request) mongo \<Rightarrow> string \<Rightarrow> approval_decision \<Rightarrow> 'c approvals \<Rightarrow> approval_error + approval_request" where
  "decide_read M rid dec am = (case am_collection am of
     None \<Rightarrow> Inl No_persistence
   | Some c \<Rightarrow> (case findOne M (\<lambda>d. ap_id d = rid \<and> ap_status d = St_pending) c of
       None \<Rightarrow> Inl Not_pending
     | Some request \<Rightarrow> (if ap_requiresHuman request \<and> isAgentIdentity (dc_decidedBy dec)
                        then Inl (Human_required (dc_decidedBy dec)) else Inr request)))"

definition decision_update :: "string \<Rightarrow> approval_decision \<Rightarrow> approval_request \<Rightarrow> approval_request" where
  "decision_update stamp dec d = d\<lparr>ap_status := (if dc_approved dec then St_approved else St_rejected),
     ap_decidedBy := Some (dc_decidedBy dec), ap_decisionNote := dc_note dec, ap_decidedAt := Some stamp\<rparr>"

definition decide_write ::
  "('c, approval_request) mongo \<Rightarrow> string \<Rightarrow> string \<Rightarrow> approval_decision \<Rightarrow> approval_request \<Rightarrow> 'c approvals
     \<Rightarrow> approval_request \<times> 'c approvals" where
  "decide_write M stamp rid dec request am = (case am_collection am of
     None \<Rightarrow> (request, am)
   | Some c \<Rightarrow>
       (let am1 = am\<lparr>am_collection := Some (snd (updateOne M (\<lambda>d. ap_id d = rid) (decision_update stamp dec) c))\<rparr>;
            event = (if dc_approved dec then Granted rid (dc_decidedBy dec) else Rejected_event rid (dc_decidedBy dec));
            am2 = am1\<lparr>am_published := am_published am1 @ [event]\<rparr>
        in (decision_update stamp dec request,
            writeAuditEntry (if dc_approved dec then ''approval_granted'' else ''approval_rejected'') rid am2)))"

definition decide ::
  "('c, approval_request) mongo \<Rightarrow> string \<Rightarrow> string \<Rightarrow> approval_decision \<Rightarrow> 'c approvals
     \<Rightarrow> (approval_error + approval_request) \<times> 'c approvals" where
  "decide M stamp rid dec am = (case decide_read M rid dec am of
     Inl e \<Rightarrow> (Inl e, am)
   | Inr request \<Rightarrow> map_prod Inr id (decide_write M stamp rid dec request am))"

section \<open>Expiry\<close>

definition is_overdue :: "string \<Rightarrow> approval_request \<Rightarrow> bool" where
  "is_overdue stamp d \<longleftrightarrow> ap_status d = St_pending \<and> ap_expiresAt d \<le> stamp"

definition expire_doc :: "string \<Rightarrow> approval_request \<Rightarrow> approval_request" where
  "expire_doc stamp d = d\<lparr>ap_status := St_expired, ap_decidedAt := Some stamp\<rparr>"

definition expire_read :: "('c, approval_request) mongo \<Rightarrow> string \<Rightarrow> 'c approvals \<Rightarrow> approval_request list" where
  "expire_read M stamp am = (case am_collection am of None \<Rightarrow> [] | Some c \<Rightarrow> find_all M (is_overdue stamp) c)"

definition expire_write :: "('c, approval_request) mongo \<Rightarrow> string \<Rightarrow> approval_request list \<Rightarrow> 'c approvals \<Rightarrow> 'c approvals" where
  "expire_write M stamp expired am = (case am_collection am of
     None \<Rightarrow> am
   | Some c \<Rightarrow>
       (let am1 = am\<lparr>am_collection := Some (snd (updateMany M (is_overdue stamp) (expire_doc stamp) c))\<rparr>
        in am1\<lparr>am_published := am_published am1 @ map (\<lambda>r. Expired_event (ap_id r)) expired,
               am_audit := am_audit am1 @ map (\<lambda>r. (''approval_expired'', ap_id r)) expired\<rparr>))"

definition expirePending :: "('c, approval_request) mongo \<Rightarrow> string \<Rightarrow> 'c approvals \<Rightarrow> nat \<times> 'c approvals" where
  "expirePending M stamp am =
     (let expired = expire_read M stamp am in
      if expired = [] then (0, am) else (length expired, expire_write M stamp expired am))"

section \<open>Reading\<close>

definition getRequest :: "('c, approval_request) mongo \<Rightarrow> string \<Rightarrow> 'c approvals \<Rightarrow> approval_request option" where
  "getRequest M rid am = (case am_collection am of None \<Rightarrow> None | Some c \<Rightarrow> findOne M (\<lambda>d. ap_id d = rid) c)"

text \<open>Newest first.\<close>

definition newest_first :: "approval_request list \<Rightarrow> approval_request list" where
  "newest_first ds = rev (sort_key ap_requestedAt (rev ds))"

definition getPending :: "('c, approval_request) mongo \<Rightarrow> string option \<Rightarrow> 'c approvals \<Rightarrow> approval_request list" where
  "getPending M agentId am = (case am_collection am of None \<Rightarrow> []
     | Some c \<Rightarrow> newest_first (find_all M (\<lambda>d. ap_status d = St_pending
         \<and> (agentId = None \<or> agentId = Some '''' \<or> agentId = Some (ap_agentId d))) c))"

text \<open>A limit of zero is no limit.\<close>

definition getRecent :: "('c, approval_request) mongo \<Rightarrow> nat \<Rightarrow> 'c approvals \<Rightarrow> approval_request list" where
  "getRecent M limit am = (case am_collection am of None \<Rightarrow> []
     | Some c \<Rightarrow> (let ds = newest_first (find_all M (\<lambda>_. True) c) in if limit = 0 then ds else take limit ds))"

end
