(* ===== verification/Approvals_Correct.thy ===== *)
theory Approvals_Correct
  imports Approvals
begin

text \<open>
  What the approval workflow guarantees: a request that needs a human is never decided under the name of an agent, however
  decisions, expiries and creations interleave at their awaits; a request is decided at most once as long as
  no two operations overlap; and, since the write of a decision is not guarded by the status it read, two overlapping
  decisions both win.
\<close>

section \<open>Interleaved operations\<close>

record 'c approval_sys =
  sys_am :: "'c approvals"
  deciding :: "(string \<times> approval_decision \<times> approval_request) list"
  expiring :: "(string \<times> approval_request list) list"

inductive approval_step :: "('c, approval_request) mongo \<Rightarrow> (int \<Rightarrow> string) \<Rightarrow> 'c approval_sys \<Rightarrow> 'c approval_sys \<Rightarrow> bool"
  for M :: "('c, approval_request) mongo" and iso_of :: "int \<Rightarrow> string"
where
  create: "createRequest M iso_of now uuid opts (sys_am w) = (r, am) \<Longrightarrow> approval_step M iso_of w (w\<lparr>sys_am := am\<rparr>)"
| posted: "approval_step M iso_of w (w\<lparr>sys_am := notifySlack_posted M rid ts channel (sys_am w)\<rparr>)"
| begin_decision: "decide_read M rid dec (sys_am w) = Inr request \<Longrightarrow>
    approval_step M iso_of w (w\<lparr>deciding := (rid, dec, request) # deciding w\<rparr>)"
| end_decision: "(rid, dec, request) \<in> set (deciding w) \<Longrightarrow>
    approval_step M iso_of w (w\<lparr>sys_am := snd (decide_write M stamp rid dec request (sys_am w)),
      deciding := remove1 (rid, dec, request) (deciding w)\<rparr>)"
| begin_expiry: "expire_read M stamp (sys_am w) = ds \<Longrightarrow> ds \<noteq> [] \<Longrightarrow>
    approval_step M iso_of w (w\<lparr>expiring := (stamp, ds) # expiring w\<rparr>)"
| end_expiry: "(stamp, ds) \<in> set (expiring w) \<Longrightarrow>
    approval_step M iso_of w (w\<lparr>sys_am := expire_write M stamp ds (sys_am w), expiring := remove1 (stamp, ds) (expiring w)\<rparr>)"

definition approval_start :: "'c \<Rightarrow> 'c approval_sys" where
  "approval_start c = \<lparr>sys_am = \<lparr>am_collection = Some c, am_published = [], am_audit = []\<rparr>, deciding = [], expiring = []\<rparr>"

inductive approval_reach :: "('c, approval_request) mongo \<Rightarrow> (int \<Rightarrow> string) \<Rightarrow> 'c \<Rightarrow> 'c approval_sys \<Rightarrow> bool"
  for M :: "('c, approval_request) mongo" and iso_of :: "int \<Rightarrow> string" and c :: 'c
where
  start: "approval_reach M iso_of c (approval_start c)"
| step: "approval_reach M iso_of c w \<Longrightarrow> approval_step M iso_of w w1 \<Longrightarrow> approval_reach M iso_of c w1"

section \<open>The human gate\<close>

definition human_ok :: "approval_request \<Rightarrow> bool" where
  "human_ok d \<longleftrightarrow> (ap_requiresHuman d \<and> (ap_status d = St_approved \<or> ap_status d = St_rejected)
     \<longrightarrow> (\<exists>who. ap_decidedBy d = Some who \<and> \<not> isAgentIdentity who))"

definition gate_inv :: "('c, approval_request) mongo \<Rightarrow> 'c approval_sys \<Rightarrow> bool" where
  "gate_inv M w \<longleftrightarrow> (\<exists>c. am_collection (sys_am w) = Some c \<and> ids_unique M ap_id c
     \<and> (\<forall>k d. doc_at M ap_id c k = Some d \<longrightarrow> human_ok d)
     \<and> (\<forall>(rid, dec, request) \<in> set (deciding w). \<exists>d. doc_at M ap_id c rid = Some d
          \<and> (ap_requiresHuman d \<longrightarrow> \<not> isAgentIdentity (dc_decidedBy dec))))"

text \<open>The collection of a manager after each write, by key.\<close>

locale approval_store = mongo_collection M ap_id for M :: "('c, approval_request) mongo"
begin

lemma update_by_id:
  assumes "ids_unique M ap_id c" "\<And>d. ap_id (u d) = ap_id d"
  shows "ids_unique M ap_id (snd (updateOne M (\<lambda>d. ap_id d = rid) u c))
    \<and> doc_at M ap_id (snd (updateOne M (\<lambda>d. ap_id d = rid) u c))
      = (doc_at M ap_id c)(rid := map_option u (doc_at M ap_id c rid))"
proof -
  obtain n c1 where run: "updateOne M (\<lambda>d. ap_id d = rid \<and> True) u c = (n, c1)" by fastforce
  have "updateOne M (\<lambda>d. ap_id d = rid) u c = (n, c1)" using run by simp
  with update_one_lookup [OF assms(1,2) run] show ?thesis by simp
qed

lemma expiry_docs:
  assumes "ids_unique M ap_id c"
  shows "ids_unique M ap_id (snd (updateMany M (is_overdue stamp) (expire_doc stamp) c))
    \<and> doc_at M ap_id (snd (updateMany M (is_overdue stamp) (expire_doc stamp) c))
      = (\<lambda>k. map_option (\<lambda>d. if is_overdue stamp d then expire_doc stamp d else d) (doc_at M ap_id c k))"
proof -
  obtain n c1 where run: "updateMany M (is_overdue stamp) (expire_doc stamp) c = (n, c1)" by fastforce
  have "ap_id (expire_doc stamp d) = ap_id d" for d by (simp add: expire_doc_def)
  from update_many_lookup [OF assms this run] run show ?thesis by simp
qed

lemma created_docs:
  assumes "ids_unique M ap_id c" "am_collection am = Some c" "createRequest M iso_of now uuid opts am = (r, am1)"
  shows "am1 = am \<or> (\<exists>c1 d. am_collection am1 = Some c1 \<and> ids_unique M ap_id c1 \<and> doc_at M ap_id c uuid = None
    \<and> doc_at M ap_id c1 = (doc_at M ap_id c)(uuid \<mapsto> d) \<and> ap_status d = St_pending)"
proof (cases "am1 = am")
  case False
  with assms(2,3) obtain d c1 where "insertOne M d c = Some c1" "am_collection am1 = Some c1" "ap_id d = uuid" "ap_status d = St_pending"
    by (auto simp: createRequest_def writeAuditEntry_def Let_def split: option.splits)
  with insert_lookup [OF assms(1)] show ?thesis by metis
qed simp

lemma pending_read:
  assumes "ids_unique M ap_id c" "am_collection am = Some c" "decide_read M rid dec am = Inr request"
  shows "doc_at M ap_id c rid = Some request \<and> ap_status request = St_pending
    \<and> (ap_requiresHuman request \<longrightarrow> \<not> isAgentIdentity (dc_decidedBy dec))"
proof -
  from assms(2,3) have "findOne M (\<lambda>d. ap_id d = rid \<and> ap_status d = St_pending) c = Some request"
    and h: "ap_requiresHuman request \<longrightarrow> \<not> isAgentIdentity (dc_decidedBy dec)"
    by (auto simp: decide_read_def split: option.splits if_splits)
  from find_one [OF this(1)] have "request \<in># docs M c" "ap_id request = rid" "ap_status request = St_pending" by auto
  with lookup_some [OF assms(1)] h show ?thesis by simp
qed

lemma gate_invI:
  assumes "am_collection (sys_am w) = Some c" "ids_unique M ap_id c" "\<And>k d. doc_at M ap_id c k = Some d \<Longrightarrow> human_ok d"
    "\<And>rid dec request. (rid, dec, request) \<in> set (deciding w) \<Longrightarrow> \<exists>d. doc_at M ap_id c rid = Some d
          \<and> (ap_requiresHuman d \<longrightarrow> \<not> isAgentIdentity (dc_decidedBy dec))"
  shows "gate_inv M w"
  using assms unfolding gate_inv_def by auto

lemma gate_inv_step:
  assumes "approval_step M iso_of w w1" "gate_inv M w"
  shows "gate_inv M w1"
proof -
  from assms(2) obtain c where c: "am_collection (sys_am w) = Some c" "ids_unique M ap_id c"
    "\<And>k d. doc_at M ap_id c k = Some d \<Longrightarrow> human_ok d"
    "\<And>rid dec request. (rid, dec, request) \<in> set (deciding w) \<Longrightarrow> \<exists>d. doc_at M ap_id c rid = Some d
          \<and> (ap_requiresHuman d \<longrightarrow> \<not> isAgentIdentity (dc_decidedBy dec))"
    unfolding gate_inv_def by blast
  from assms(1) show ?thesis
  proof cases
    case (create now uuid opts r am)
    from created_docs [OF c(2,1) create(2)] show ?thesis
    proof
      assume "am = sys_am w"
      with create(1) assms(2) show ?thesis by simp
    next
      assume "\<exists>c1 d. am_collection am = Some c1 \<and> ids_unique M ap_id c1 \<and> doc_at M ap_id c uuid = None
        \<and> doc_at M ap_id c1 = (doc_at M ap_id c)(uuid \<mapsto> d) \<and> ap_status d = St_pending"
      then obtain c1 d where "am_collection am = Some c1" "ids_unique M ap_id c1" "doc_at M ap_id c uuid = None"
        "doc_at M ap_id c1 = (doc_at M ap_id c)(uuid \<mapsto> d)" "ap_status d = St_pending" by blast
      note new = this
      show ?thesis
      proof (rule gate_invI)
        show "am_collection (sys_am w1) = Some c1" "ids_unique M ap_id c1" using new create(1) by simp_all
        show "human_ok e" if "doc_at M ap_id c1 k = Some e" for k e
          using that new(4,5) c(3) by (auto simp: human_ok_def split: if_splits)
        show "\<exists>d. doc_at M ap_id c1 rid = Some d \<and> (ap_requiresHuman d \<longrightarrow> \<not> isAgentIdentity (dc_decidedBy dec))"
          if "(rid, dec, request) \<in> set (deciding w1)" for rid dec request
          using that c(4) [of rid dec request] new(3,4) create(1) by auto
      qed
    qed
  next
    case (posted rid ts channel)
    let ?u = "\<lambda>d. d\<lparr>ap_slackMessageTs := Some ts, ap_slackChannel := Some channel\<rparr>"
    let ?c = "snd (updateOne M (\<lambda>d. ap_id d = rid) ?u c)"
    have "\<And>d. ap_id (?u d) = ap_id d" by simp
    note up = update_by_id [OF c(2) this, of rid]
    have same: "human_ok (?u d) = human_ok d" "ap_requiresHuman (?u d) = ap_requiresHuman d" for d by (simp_all add: human_ok_def)
    show ?thesis
    proof (rule gate_invI)
      show "am_collection (sys_am w1) = Some ?c" using posted c(1) by (simp add: notifySlack_posted_def)
      show "ids_unique M ap_id ?c" using up by blast
      show "human_ok e" if "doc_at M ap_id ?c k = Some e" for k e
        using that up c(3) same(1) by (auto split: if_splits)
      show "\<exists>d. doc_at M ap_id ?c rid' = Some d \<and> (ap_requiresHuman d \<longrightarrow> \<not> isAgentIdentity (dc_decidedBy dec))"
        if "(rid', dec, request) \<in> set (deciding w1)" for rid' dec request
        using that c(4) [of rid' dec request] up posted same(2) by auto
    qed
  next
    case (begin_decision rid dec request)
    note read = pending_read [OF c(2,1) begin_decision(2)]
    show ?thesis
    proof (rule gate_invI)
      show "am_collection (sys_am w1) = Some c" using begin_decision c(1) by simp
      show "\<exists>d. doc_at M ap_id c rid' = Some d \<and> (ap_requiresHuman d \<longrightarrow> \<not> isAgentIdentity (dc_decidedBy dec'))"
        if "(rid', dec', request') \<in> set (deciding w1)" for rid' dec' request'
        using that c(4) [of rid' dec' request'] read begin_decision(1) by auto
    qed (use c in auto)
  next
    case (end_decision rid dec request stamp)
    let ?u = "decision_update stamp dec"
    let ?c = "snd (updateOne M (\<lambda>d. ap_id d = rid) ?u c)"
    have "\<And>d. ap_id (?u d) = ap_id d" by (simp add: decision_update_def)
    note up = update_by_id [OF c(2) this, of rid]
    from c(4) [OF end_decision(2)] obtain d where d: "doc_at M ap_id c rid = Some d" "ap_requiresHuman d \<longrightarrow> \<not> isAgentIdentity (dc_decidedBy dec)"
      by blast
    then have ok: "human_ok (?u d)" by (simp add: human_ok_def decision_update_def)
    have same: "ap_requiresHuman (?u e) = ap_requiresHuman e" for e by (simp add: decision_update_def)
    show ?thesis
    proof (rule gate_invI)
      show "am_collection (sys_am w1) = Some ?c" using end_decision c(1) by (simp add: decide_write_def writeAuditEntry_def Let_def)
      show "ids_unique M ap_id ?c" using up by blast
      show "human_ok e" if "doc_at M ap_id ?c k = Some e" for k e
        using that up c(3) ok d(1) by (auto split: if_splits)
      show "\<exists>d. doc_at M ap_id ?c rid' = Some d \<and> (ap_requiresHuman d \<longrightarrow> \<not> isAgentIdentity (dc_decidedBy dec'))"
        if "(rid', dec', request') \<in> set (deciding w1)" for rid' dec' request'
      proof -
        from that end_decision(1) have "(rid', dec', request') \<in> set (deciding w)" using set_remove1_subset by fastforce
        from c(4) [OF this] up same show ?thesis by auto
      qed
    qed
  next
  case (begin_expiry stamp ds)
    with assms(2) show ?thesis by (simp add: gate_inv_def)
  next
    case (end_expiry stamp ds)
    let ?c = "snd (updateMany M (is_overdue stamp) (expire_doc stamp) c)"
    have "am_collection (sys_am w1) = Some ?c" "deciding w1 = deciding w"
      using end_expiry c(1) by (simp_all add: expire_write_def Let_def)
    note new = this
    note up = expiry_docs [OF c(2), of stamp]
    have same: "human_ok d \<Longrightarrow> human_ok (if is_overdue stamp d then expire_doc stamp d else d)"
      "ap_requiresHuman (if is_overdue stamp d then expire_doc stamp d else d) = ap_requiresHuman d" for d
      by (simp_all add: human_ok_def expire_doc_def)
    show ?thesis
    proof (rule gate_invI)
      show "am_collection (sys_am w1) = Some ?c" by (rule new(1))
      show "ids_unique M ap_id ?c" using up by blast
      show "human_ok e" if "doc_at M ap_id ?c k = Some e" for k e
        using that up c(3) [of k] same(1) by auto
      show "\<exists>d. doc_at M ap_id ?c rid = Some d \<and> (ap_requiresHuman d \<longrightarrow> \<not> isAgentIdentity (dc_decidedBy dec))"
        if "(rid, dec, request) \<in> set (deciding w1)" for rid dec request
      proof -
        from that c(4) [of rid dec request] new(2) obtain d where
          d: "doc_at M ap_id c rid = Some d" "ap_requiresHuman d \<longrightarrow> \<not> isAgentIdentity (dc_decidedBy dec)" by auto
        then have "doc_at M ap_id ?c rid = Some (if is_overdue stamp d then expire_doc stamp d else d)" using up by simp
        with d(2) same(2) show ?thesis by metis
      qed
    qed
  qed
qed

lemma gate_inv_reach:
  assumes "approval_reach M iso_of c w" "ids_unique M ap_id c" "\<forall>d \<in># docs M c. human_ok d"
  shows "gate_inv M w"
  using assms(1)
proof induction
  case start
  with assms(2,3) lookup_some [OF assms(2)] show ?case by (auto simp: gate_inv_def approval_start_def)
qed (rule gate_inv_step)

end

interpretation list_approvals: approval_store "list_mongo ap_id" ..

lemma approval_storeI: "mongo_collection M ap_id \<Longrightarrow> approval_store M"
  by (simp add: approval_store_def)

text \<open>
  C12: a request that needs a human is never approved or rejected under the name of a known agent, in whatever order decisions, expiries,
  creations and Slack postings interleave at their awaits.
\<close>
theorem human_gate_holds:
  assumes "mongo_collection M ap_id" and "ids_unique M ap_id c" and "\<forall>d \<in># docs M c. human_ok d"
    and "approval_reach M iso_of c w" and "getRequest M rid (sys_am w) = Some d"
    and "ap_requiresHuman d" and "ap_status d = St_approved \<or> ap_status d = St_rejected"
  shows "\<exists>who. ap_decidedBy d = Some who \<and> \<not> isAgentIdentity who"
proof -
  from approval_store.gate_inv_reach [OF approval_storeI [OF assms(1)] assms(4,2,3)]
  obtain c1 where "am_collection (sys_am w) = Some c1" "\<forall>k d. doc_at M ap_id c1 k = Some d \<longrightarrow> human_ok d"
    unfolding gate_inv_def by blast
  with assms(5) have "human_ok d" by (auto simp: getRequest_def doc_at_def)
  with assms(6,7) show ?thesis by (simp add: human_ok_def)
qed

definition sample_request :: approval_request where
  "sample_request = \<lparr>ap_id = ''r1'', ap_type = ''safety:modify'', ap_requiresHuman = True, ap_agentId = ''builder'',
     ap_department = ''dev'', ap_payload = [], ap_reasoning = ''why'', ap_estimatedCostCents = 0, ap_riskLevel = Critical_risk,
     ap_status = St_pending, ap_decidedBy = None, ap_decisionNote = None, ap_slackMessageTs = None, ap_slackChannel = None,
     ap_requestedAt = ''2026'', ap_decidedAt = None, ap_expiresAt = ''2027''\<rparr>"

definition by_ann :: "bool \<Rightarrow> approval_decision" where
  "by_ann ok = \<lparr>dc_approved = ok, dc_decidedBy = ''ann'', dc_note = None\<rparr>"

text \<open>Ann is no agent, and reads the pending request.\<close>

lemma ann_is_human: "\<not> isAgentIdentity ''ann''"
  by (simp add: isAgentIdentity_def KNOWN_AGENT_IDS_def to_lower_def lower_char_def)

lemma ann_reads: "decide_read (list_mongo ap_id) ''r1'' (by_ann ok) (sys_am (approval_start [sample_request])) = Inr sample_request"
  using ann_is_human by (simp add: decide_read_def approval_start_def list_mongo_def sample_request_def by_ann_def)

theorem human_gate_holds_witness:
  "\<exists>w d. approval_reach (list_mongo ap_id) dec_int [sample_request] w
     \<and> getRequest (list_mongo ap_id) ''r1'' (sys_am w) = Some d \<and> ap_status d = St_approved
     \<and> (\<exists>who. ap_decidedBy d = Some who \<and> \<not> isAgentIdentity who)"
proof -
  let ?M = "list_mongo ap_id" and ?w0 = "approval_start [sample_request]"
  define w1 where "w1 = ?w0\<lparr>deciding := (''r1'', by_ann True, sample_request) # deciding ?w0\<rparr>"
  define w2 where "w2 = w1\<lparr>sys_am := snd (decide_write ?M ''2026'' ''r1'' (by_ann True) sample_request (sys_am w1)),
      deciding := remove1 (''r1'', by_ann True, sample_request) (deciding w1)\<rparr>"
  have "approval_step ?M dec_int ?w0 w1" unfolding w1_def by (rule approval_step.begin_decision [OF ann_reads])
  moreover have "approval_step ?M dec_int w1 w2" unfolding w2_def by (rule approval_step.end_decision) (simp add: w1_def)
  ultimately have reach: "approval_reach ?M dec_int [sample_request] w2"
    by (meson approval_reach.start approval_reach.step)
  have get: "getRequest ?M ''r1'' (sys_am w2) = Some (decision_update ''2026'' (by_ann True) sample_request)"
    by (simp add: w2_def w1_def getRequest_def decide_write_def writeAuditEntry_def approval_start_def list_mongo_def
        sample_request_def decision_update_def by_ann_def Let_def)
  have st: "ap_requiresHuman (decision_update ''2026'' (by_ann True) sample_request)"
    "ap_status (decision_update ''2026'' (by_ann True) sample_request) = St_approved"
    by (simp_all add: decision_update_def by_ann_def sample_request_def)
  have init: "ids_unique ?M ap_id [sample_request]" "\<forall>d \<in># docs ?M [sample_request]. human_ok d"
    by (simp_all add: ids_unique_def human_ok_def sample_request_def)
  from human_gate_holds [OF list_store.mongo_collection_axioms init reach get st(1)] st(2) reach get show ?thesis by blast
qed

section \<open>Decided once, without overlap\<close>

datatype ap_call = ApCreate string request_opts | ApDecide string approval_decision | ApExpire | ApPosted string string string

fun ap_subject :: "int \<times> ap_call \<Rightarrow> string" where
  "ap_subject (now, ApDecide rid dec) = rid"
| "ap_subject (now, _) = ''''"

fun ap_call_step :: "('c, approval_request) mongo \<Rightarrow> (int \<Rightarrow> string) \<Rightarrow> int \<times> ap_call \<Rightarrow> 'c approvals \<Rightarrow> bool \<times> 'c approvals" where
  "ap_call_step M iso_of (now, ApCreate uuid opts) am = (False, snd (createRequest M iso_of now uuid opts am))"
| "ap_call_step M iso_of (now, ApDecide rid dec) am = map_prod (\<lambda>r. \<not> isl r) id (decide M (iso_of now) rid dec am)"
| "ap_call_step M iso_of (now, ApExpire) am = (False, snd (expirePending M (iso_of now) am))"
| "ap_call_step M iso_of (now, ApPosted rid ts channel) am = (False, notifySlack_posted M rid ts channel am)"

definition ap_ok :: "('c, approval_request) mongo \<Rightarrow> 'c approvals \<Rightarrow> bool" where
  "ap_ok M am \<longleftrightarrow> (\<exists>c. am_collection am = Some c \<and> ids_unique M ap_id c)"

definition ap_resolved :: "('c, approval_request) mongo \<Rightarrow> 'c approvals \<Rightarrow> string \<Rightarrow> bool" where
  "ap_resolved M am k \<longleftrightarrow> (\<exists>d. getRequest M k am = Some d \<and> ap_status d \<noteq> St_pending)"

context approval_store
begin

lemma resolved_doc: "am_collection am = Some c \<Longrightarrow> ap_resolved M am k \<longleftrightarrow> (\<exists>d. doc_at M ap_id c k = Some d \<and> ap_status d \<noteq> St_pending)"
  by (simp add: ap_resolved_def getRequest_def doc_at_def)

lemma decide_resolves:
  assumes "am_collection am = Some c" "ids_unique M ap_id c" "decide M stamp rid dec am = (Inr r, am1)"
  shows "ap_ok M am1 \<and> (\<forall>k. ap_resolved M am k \<longrightarrow> ap_resolved M am1 k) \<and> \<not> ap_resolved M am rid \<and> ap_resolved M am1 rid"
proof -
  from assms(3) obtain request where read: "decide_read M rid dec am = Inr request"
    and am1: "am1 = snd (decide_write M stamp rid dec request am)"
    by (auto simp: decide_def map_prod_def split: sum.splits prod.splits)
  let ?c = "snd (updateOne M (\<lambda>d. ap_id d = rid) (decision_update stamp dec) c)"
  have c1: "am_collection am1 = Some ?c" using assms(1) by (simp add: am1 decide_write_def writeAuditEntry_def Let_def)
  have "\<And>d. ap_id (decision_update stamp dec d) = ap_id d" by (simp add: decision_update_def)
  note up = update_by_id [OF assms(2) this, of rid]
  have "ap_status (decision_update stamp dec d) \<noteq> St_pending" for d by (simp add: decision_update_def)
  with up pending_read [OF assms(2,1) read] c1 show ?thesis
    by (auto simp: ap_ok_def resolved_doc [OF assms(1)] resolved_doc [OF c1])
qed

lemma other_calls_keep:
  assumes "am_collection am = Some c" "ids_unique M ap_id c" "am_collection am1 = Some c1" "ids_unique M ap_id c1"
    and "\<And>k d. doc_at M ap_id c k = Some d \<Longrightarrow> ap_status d \<noteq> St_pending \<Longrightarrow> \<exists>e. doc_at M ap_id c1 k = Some e \<and> ap_status e \<noteq> St_pending"
  shows "ap_ok M am1 \<and> (\<forall>k. ap_resolved M am k \<longrightarrow> ap_resolved M am1 k)"
  using assms by (auto simp: ap_ok_def resolved_doc)

lemma call_resolves:
  assumes "ap_ok M am" "ap_call_step M iso_of e am = (b, am1)"
  shows "ap_ok M am1 \<and> (\<forall>k. ap_resolved M am k \<longrightarrow> ap_resolved M am1 k)
    \<and> (b \<longrightarrow> \<not> ap_resolved M am (ap_subject e) \<and> ap_resolved M am1 (ap_subject e))"
proof -
  from assms(1) obtain c where c: "am_collection am = Some c" "ids_unique M ap_id c" by (auto simp: ap_ok_def)
  obtain now call where e: "e = (now, call)" by fastforce
  show ?thesis
  proof (cases call)
    case (ApCreate uuid opts)
    then obtain r where cr: "createRequest M iso_of now uuid opts am = (r, am1)" and nb: "\<not> b"
      using assms(2) e by (cases "createRequest M iso_of now uuid opts am") auto
    from created_docs [OF c(2,1) cr] show ?thesis
    proof
      assume "am1 = am"
      with assms(1) nb show ?thesis by simp
    next
      assume "\<exists>c1 d. am_collection am1 = Some c1 \<and> ids_unique M ap_id c1 \<and> doc_at M ap_id c uuid = None
        \<and> doc_at M ap_id c1 = (doc_at M ap_id c)(uuid \<mapsto> d) \<and> ap_status d = St_pending"
      then obtain c1 d where "am_collection am1 = Some c1" "ids_unique M ap_id c1" "doc_at M ap_id c uuid = None"
        "doc_at M ap_id c1 = (doc_at M ap_id c)(uuid \<mapsto> d)" by blast
      note new = this
      have "\<exists>e. doc_at M ap_id c1 k = Some e \<and> ap_status e \<noteq> St_pending" if "doc_at M ap_id c k = Some d" "ap_status d \<noteq> St_pending" for k d
        using that new(3,4) by auto
      then show ?thesis using other_calls_keep [OF c, of am1 c1] new(1,2) nb by blast
    qed
  next
    case (ApDecide rid dec)
    obtain r am2 where run: "decide M (iso_of now) rid dec am = (r, am2)" by fastforce
    show ?thesis
    proof (cases r)
      case (Inl err)
      then have "am2 = am" using run by (auto simp: decide_def map_prod_def split: sum.splits prod.splits)
      with Inl run ApDecide e assms show ?thesis by simp
    next
      case (Inr request)
      from decide_resolves [OF c run [unfolded Inr]] run Inr ApDecide e assms(2) show ?thesis by auto
    qed
  next
    case ApExpire
    let ?c = "snd (updateMany M (is_overdue (iso_of now)) (expire_doc (iso_of now)) c)"
    note up = expiry_docs [OF c(2), of "iso_of now"]
    from ApExpire e assms(2) c(1) have "am1 = am \<or> am_collection am1 = Some ?c" and "\<not> b"
      by (auto simp: expirePending_def expire_write_def Let_def split: if_splits)
    moreover have "\<exists>e. doc_at M ap_id ?c k = Some e \<and> ap_status e \<noteq> St_pending"
      if "doc_at M ap_id c k = Some d" "ap_status d \<noteq> St_pending" for k d
      using that up by (simp add: is_overdue_def)
    ultimately show ?thesis using assms(1) other_calls_keep [OF c, of am1 ?c] up by blast
  next
    case (ApPosted rid ts channel)
    let ?u = "\<lambda>d. d\<lparr>ap_slackMessageTs := Some ts, ap_slackChannel := Some channel\<rparr>"
    let ?c = "snd (updateOne M (\<lambda>d. ap_id d = rid) ?u c)"
    have "\<And>d. ap_id (?u d) = ap_id d" by simp
    note up = update_by_id [OF c(2) this, of rid]
    from ApPosted e assms(2) c(1) have "am_collection am1 = Some ?c" and "\<not> b" by (auto simp: notifySlack_posted_def)
    moreover have "\<exists>e. doc_at M ap_id ?c k = Some e \<and> ap_status e \<noteq> St_pending"
      if "doc_at M ap_id c k = Some d" "ap_status d \<noteq> St_pending" for k d
      using that up by auto
    ultimately show ?thesis using other_calls_keep [OF c, of am1 ?c] up by blast
  qed
qed

end

sublocale approval_store \<subseteq> manager: resolution "ap_ok M" "ap_resolved M" "ap_call_step M iso_of" ap_subject for iso_of
  by unfold_locales (use call_resolves in \<open>blast+\<close>)

context approval_store
begin

lemmas decided_once = manager.wins_once

end

text \<open>
  As long as no two of its operations overlap, a request is decided at most once: in any sequence of creations, decisions, expiries and
  Slack postings at most one decision of a request succeeds.
\<close>
theorem approval_decided_once:
  assumes "mongo_collection M ap_id" and "ap_ok M am"
  shows "length (filter (\<lambda>(e, b). ap_subject e = rid \<and> b) (outcomes (ap_call_step M iso_of) calls am)) \<le> 1"
  using approval_store.decided_once [OF approval_storeI [OF assms(1)] assms(2)] .

theorem approval_decided_once_witness:
  "length (filter (\<lambda>(e, b). ap_subject e = ''r1'' \<and> b) (outcomes (ap_call_step (list_mongo ap_id) dec_int)
     [(1, ApDecide ''r1'' (by_ann True)), (2, ApDecide ''r1'' (by_ann False))] (sys_am (approval_start [sample_request])))) \<le> 1"
  by (rule approval_decided_once [OF list_store.mongo_collection_axioms])
    (simp add: ap_ok_def approval_start_def ids_unique_def)

section \<open>Overlapping decisions\<close>

text \<open>Both decisions read the pending request before either writes: both succeed, and the later write wins.\<close>

theorem overlapping_decisions_both_win:
  "\<exists>w d. approval_reach (list_mongo ap_id) dec_int [sample_request] w
     \<and> am_published (sys_am w) = [Rejected_event ''r1'' ''ann'', Granted ''r1'' ''ann'']
     \<and> getRequest (list_mongo ap_id) ''r1'' (sys_am w) = Some d \<and> ap_status d = St_approved"
proof -
  let ?M = "list_mongo ap_id" and ?w0 = "approval_start [sample_request]"
  let ?no = "(''r1'', by_ann False, sample_request)" and ?yes = "(''r1'', by_ann True, sample_request)"
  define w1 where "w1 = ?w0\<lparr>deciding := ?no # deciding ?w0\<rparr>"
  define w2 where "w2 = w1\<lparr>deciding := ?yes # deciding w1\<rparr>"
  define w3 where "w3 = w2\<lparr>sys_am := snd (decide_write ?M ''2026'' ''r1'' (by_ann False) sample_request (sys_am w2)),
      deciding := remove1 ?no (deciding w2)\<rparr>"
  define w4 where "w4 = w3\<lparr>sys_am := snd (decide_write ?M ''2026'' ''r1'' (by_ann True) sample_request (sys_am w3)),
      deciding := remove1 ?yes (deciding w3)\<rparr>"
  have diff: "by_ann True \<noteq> by_ann False" by (simp add: by_ann_def)
  have am1: "sys_am w1 = sys_am ?w0" by (simp add: w1_def)
  have "approval_step ?M dec_int ?w0 w1" unfolding w1_def by (rule approval_step.begin_decision [OF ann_reads])
  moreover have "approval_step ?M dec_int w1 w2" unfolding w2_def
    by (rule approval_step.begin_decision) (simp only: am1 ann_reads)
  moreover have "approval_step ?M dec_int w2 w3" unfolding w3_def by (rule approval_step.end_decision) (simp add: w1_def w2_def)
  moreover have "approval_step ?M dec_int w3 w4" unfolding w4_def
    by (rule approval_step.end_decision) (use diff in \<open>simp add: w1_def w2_def w3_def\<close>)
  ultimately have reach: "approval_reach ?M dec_int [sample_request] w4"
    by (meson approval_reach.start approval_reach.step)
  have rid: "ap_id (decision_update s dec r) = ap_id r" "ap_id sample_request = ''r1''" for s dec r
    by (simp_all add: decision_update_def sample_request_def)
  have c3: "am_collection (sys_am w3) = Some [decision_update ''2026'' (by_ann False) sample_request]"
    "am_published (sys_am w3) = [Rejected_event ''r1'' ''ann'']"
    by (simp_all add: w3_def w2_def w1_def decide_write_def writeAuditEntry_def approval_start_def list_mongo_def rid by_ann_def Let_def)
  have c4: "am_collection (sys_am w4) = Some [decision_update ''2026'' (by_ann True) (decision_update ''2026'' (by_ann False) sample_request)]"
    "am_published (sys_am w4) = [Rejected_event ''r1'' ''ann'', Granted ''r1'' ''ann'']"
    using c3 by (simp_all add: w4_def decide_write_def writeAuditEntry_def list_mongo_def rid by_ann_def Let_def)
  have "getRequest ?M ''r1'' (sys_am w4) = Some (decision_update ''2026'' (by_ann True) (decision_update ''2026'' (by_ann False) sample_request))"
    by (simp add: getRequest_def c4(1) list_mongo_def rid)
  with reach c4(2) show ?thesis
    by (intro exI [of _ w4] exI conjI) (auto simp: decision_update_def by_ann_def)
qed

end
