(* ===== verification/RateLimiter.thy ===== *)
theory RateLimiter
  imports Redis
begin

text \<open>
  The rate limiter of operators (\<open>packages/core/src/operators/rate-limiter.ts\<close>): the server-side script
  of the sliding window, the check that combines it with the two counters, and the counters' operations, over
  the server interface of \<open>Redis\<close>.  The random number in the members of the window is an argument, any number at all: the server
  is documented to begin the sequence anew for every run of a script, so that all runs draw the same one.  The ISO text of the clock is
  an argument too.  Over any sequence of calls it is shown what the window counts, and what it does not.
\<close>

definition RPM_PREFIX :: string where "RPM_PREFIX = ''ratelimit:rpm:''"
definition CONCURRENT_PREFIX :: string where "CONCURRENT_PREFIX = ''ratelimit:concurrent:''"
definition DAILY_PREFIX :: string where "DAILY_PREFIX = ''ratelimit:daily:''"

datatype limit_reason = Rpm_exceeded | Concurrent_exceeded | Daily_quota_exceeded

record rate_limit_result =
  rl_allowed :: bool
  rl_remaining :: int
  rl_retryAfterMs :: "int option"
  rl_reason :: "limit_reason option"

record rate_limits =
  requestsPerMinute :: int
  maxConcurrentTasks :: int
  dailyTaskQuota :: int

section \<open>The script\<close>

definition rpm_member :: "int \<Rightarrow> int \<Rightarrow> string" where
  "rpm_member now rnd = dec_int now @ '':'' @ dec_int rnd"

definition rpm_check_script :: "'s redis \<Rightarrow> string \<Rightarrow> int \<Rightarrow> int \<Rightarrow> int \<Rightarrow> 's \<Rightarrow> (int \<times> int \<times> int) \<times> 's" where
  "rpm_check_script R key now limit rnd s =
     (let s1 = ZREMRANGE R key 0 (now - 60000) s;
          count = int (ZCARD R key s1)
      in if count \<ge> limit then
           ((0, limit - count, case ZRANGE R key s1 of [] \<Rightarrow> 0 | (m, oldest) # _ \<Rightarrow> oldest + 60000 - now), s1)
         else ((1, limit - count - 1, 0), EXPIRE R key 120 (ZADD R key now (rpm_member now rnd) s1)))"

section \<open>Counters\<close>

text \<open>\<open>val ? parseInt(val, 10) : 0\<close> on the integers the counters hold.\<close>

definition count_of :: "string option \<Rightarrow> int" where
  "count_of v = (case v of None \<Rightarrow> 0 | Some t \<Rightarrow> (case parse_int t of None \<Rightarrow> 0 | Some n \<Rightarrow> n))"

definition getConcurrent :: "'s redis \<Rightarrow> string \<Rightarrow> 's \<Rightarrow> int" where
  "getConcurrent R operatorId s = count_of (GET R (CONCURRENT_PREFIX @ operatorId) s)"

definition daily_key :: "(int \<Rightarrow> string) \<Rightarrow> int \<Rightarrow> string \<Rightarrow> string" where
  "daily_key iso_of now operatorId = DAILY_PREFIX @ operatorId @ '':'' @ take 10 (iso_of now)"

definition getDailyCount :: "'s redis \<Rightarrow> (int \<Rightarrow> string) \<Rightarrow> int \<Rightarrow> string \<Rightarrow> 's \<Rightarrow> int" where
  "getDailyCount R iso_of now operatorId s = count_of (GET R (daily_key iso_of now operatorId) s)"

definition incrementConcurrent :: "'s redis \<Rightarrow> string \<Rightarrow> 's \<Rightarrow> int \<times> 's" where
  "incrementConcurrent R operatorId s = INCRBY R (CONCURRENT_PREFIX @ operatorId) 1 s"

definition decrementConcurrent :: "'s redis \<Rightarrow> string \<Rightarrow> 's \<Rightarrow> int \<times> 's" where
  "decrementConcurrent R operatorId s =
     (let (val, s1) = INCRBY R (CONCURRENT_PREFIX @ operatorId) (- 1) s
      in if val < 0 then (0, SETTEXT R (CONCURRENT_PREFIX @ operatorId) ''0'' s1) else (val, s1))"

definition incrementDaily :: "'s redis \<Rightarrow> (int \<Rightarrow> string) \<Rightarrow> int \<Rightarrow> string \<Rightarrow> 's \<Rightarrow> int \<times> 's" where
  "incrementDaily R iso_of now operatorId s =
     (let key = daily_key iso_of now operatorId; (count, s1) = INCRBY R key 1 s
      in (count, if count = 1 then EXPIRE R key (25 * 60 * 60) s1 else s1))"

section \<open>The check\<close>

definition checkLimit ::
  "'s redis \<Rightarrow> (int \<Rightarrow> string) \<Rightarrow> int \<Rightarrow> int \<Rightarrow> string \<Rightarrow> rate_limits \<Rightarrow> 's \<Rightarrow> rate_limit_result \<times> 's" where
  "checkLimit R iso_of now rnd operatorId limits s =
     (let ((ok, left, retryAfter), s1) = rpm_check_script R (RPM_PREFIX @ operatorId) now (requestsPerMinute limits) rnd s in
      if ok = 0 then (\<lparr>rl_allowed = False, rl_remaining = 0, rl_retryAfterMs = Some (max retryAfter 1000), rl_reason = Some Rpm_exceeded\<rparr>, s1)
      else
        (let concurrent = getConcurrent R operatorId s1 in
         if concurrent \<ge> maxConcurrentTasks limits
         then (\<lparr>rl_allowed = False, rl_remaining = 0, rl_retryAfterMs = None, rl_reason = Some Concurrent_exceeded\<rparr>, s1)
         else
           (let daily = getDailyCount R iso_of now operatorId s1 in
            if daily \<ge> dailyTaskQuota limits
            then (\<lparr>rl_allowed = False, rl_remaining = 0, rl_retryAfterMs = None, rl_reason = Some Daily_quota_exceeded\<rparr>, s1)
            else (\<lparr>rl_allowed = True,
                    rl_remaining = min left (min (maxConcurrentTasks limits - concurrent) (dailyTaskQuota limits - daily)),
                    rl_retryAfterMs = None, rl_reason = None\<rparr>, s1))))"

section \<open>Runs\<close>

datatype rl_call = Check string int | IncConcurrent string | DecConcurrent string | IncDaily string

text \<open>A timed call, and the operator whose check it was, if it passed the script: the quotas come after the script.\<close>

fun rl_step ::
  "'s redis \<Rightarrow> (int \<Rightarrow> string) \<Rightarrow> (string \<Rightarrow> rate_limits) \<Rightarrow> int \<Rightarrow> rl_call \<Rightarrow> 's \<Rightarrow> (string \<times> int) option \<times> 's" where
  "rl_step R iso_of limits now (Check opr rnd) s =
     (let (r, s1) = checkLimit R iso_of now rnd opr (limits opr) s in (if rl_reason r \<noteq> Some Rpm_exceeded then Some (opr, rnd) else None, s1))"
| "rl_step R iso_of limits now (IncConcurrent opr) s = (None, snd (incrementConcurrent R opr s))"
| "rl_step R iso_of limits now (DecConcurrent opr) s = (None, snd (decrementConcurrent R opr s))"
| "rl_step R iso_of limits now (IncDaily opr) s = (None, snd (incrementDaily R iso_of now opr s))"

text \<open>The checks of an operator that passed the script in a run: their times and random numbers.\<close>

fun rl_run ::
  "'s redis \<Rightarrow> (int \<Rightarrow> string) \<Rightarrow> (string \<Rightarrow> rate_limits) \<Rightarrow> string \<Rightarrow> (int \<times> rl_call) list \<Rightarrow> 's \<Rightarrow> (int \<times> int) list" where
  "rl_run R iso_of limits opr [] s = []"
| "rl_run R iso_of limits opr ((now, call) # calls) s =
     (let (r, s1) = rl_step R iso_of limits now call s; ps = rl_run R iso_of limits opr calls s1
      in case r of Some (o', rnd) \<Rightarrow> (if o' = opr then (now, rnd) # ps else ps) | None \<Rightarrow> ps)"

section \<open>The sliding window\<close>

text \<open>The members of a minute: checks of one millisecond that drew one number are one.\<close>

definition in_window :: "int \<Rightarrow> (int \<times> int) set \<Rightarrow> (int \<times> int) set" where
  "in_window T G = {g \<in> G. T - 60000 < fst g \<and> fst g \<le> T}"

text \<open>A check that passes when fewer members than the limit are younger than a minute keeps every window within the limit.\<close>

lemma in_window_extend:
  assumes "\<forall>T. card (in_window T G) \<le> L" "\<forall>g \<in> G. fst g \<le> now" "card {g \<in> G. now - 60000 < fst g} < L" "finite G"
  shows "card (in_window T (insert (now, r) G)) \<le> L"
proof (cases "now \<le> T \<and> T - 60000 < now")
  case True
  have "in_window T (insert (now, r) G) \<subseteq> insert (now, r) {g \<in> G. now - 60000 < fst g}"
    using True assms(2) by (auto simp: in_window_def)
  then have "card (in_window T (insert (now, r) G)) \<le> card (insert (now, r) {g \<in> G. now - 60000 < fst g})"
    using assms(4) by (intro card_mono) auto
  also have "\<dots> \<le> Suc (card {g \<in> G. now - 60000 < fst g})" by (rule card_insert_le_m1 [simplified]) auto
  finally show ?thesis using assms(3) by linarith
next
  case False
  then have "in_window T (insert (now, r) G) = in_window T G" by (auto simp: in_window_def)
  with assms(1) show ?thesis by simp
qed

lemma no_colon: "CHR '':'' \<notin> set (dec_int i)"
  using dec_int_chars [of "CHR '':''" i] by (auto simp: is_digit_def)

lemma rpm_member_inj: "rpm_member t r = rpm_member u q \<Longrightarrow> t = u \<and> r = q"
proof -
  assume eq: "rpm_member t r = rpm_member u q"
  have "dec_int t = dec_int u \<and> '':'' @ dec_int r = '':'' @ dec_int q"
    by (rule span_unique [where P = "\<lambda>c. c \<noteq> CHR '':''"])
      (use eq no_colon in \<open>auto simp: rpm_member_def\<close>)
  then show ?thesis using dec_int_inj by auto
qed

lemma rpm_member_eq [simp]: "rpm_member t r = rpm_member u q \<longleftrightarrow> t = u \<and> r = q"
  using rpm_member_inj by blast

text \<open>The checks that passed and are younger than \<open>old\<close> are members of the window.\<close>

definition window_holds :: "'s redis \<Rightarrow> string \<Rightarrow> (int \<times> int) set \<Rightarrow> int \<Rightarrow> 's \<Rightarrow> bool" where
  "window_holds R key G old s \<longleftrightarrow> finite G \<and> (\<forall>(t, r) \<in> G. old < t \<longrightarrow> (rpm_member t r, t) \<in> set (ZRANGE R key s))"

lemma window_count:
  assumes "window_holds R key G old s"
  shows "card {g \<in> G. old < fst g} \<le> length (ZRANGE R key s)"
proof -
  let ?m = "\<lambda>(t, r). (rpm_member t r, t)"
  have "inj_on ?m {g \<in> G. old < fst g}" by (auto simp: inj_on_def)
  moreover have "?m ` {g \<in> G. old < fst g} \<subseteq> set (ZRANGE R key s)" using assms by (auto simp: window_holds_def)
  ultimately have "card {g \<in> G. old < fst g} \<le> card (set (ZRANGE R key s))" by (rule card_inj_on_le) simp
  then show ?thesis using card_length [of "ZRANGE R key s"] by linarith
qed

lemma zput_again: "(m, sc) \<in> set zs \<Longrightarrow> length (zput sc m zs) \<le> length zs"
proof -
  assume "(m, sc) \<in> set zs"
  then have "length (filter (\<lambda>x. fst x \<noteq> m) zs) < length zs" by (intro length_filter_less [of "(m, sc)"]) auto
  then show ?thesis by (simp add: zput_def)
qed

text \<open>Checks of one millisecond that draw one number.\<close>

fun same_checks :: "'s redis \<Rightarrow> string \<Rightarrow> int \<Rightarrow> int \<Rightarrow> int \<Rightarrow> nat \<Rightarrow> 's \<Rightarrow> int list" where
  "same_checks R key now limit rnd 0 s = []"
| "same_checks R key now limit rnd (Suc n) s =
     (let ((okay, left, retry), s1) = rpm_check_script R key now limit rnd s in okay # same_checks R key now limit rnd n s1)"

context redis_windows
begin

lemma script_window:
  assumes h: "window_holds R key G old s" and old: "old \<le> now - 60000"
    and run: "rpm_check_script R key now limit rnd s = ((okay, left, retry), s1)"
  shows "window_holds R key G (now - 60000) s1
    \<and> (okay \<noteq> 0 \<longrightarrow> window_holds R key (insert (now, rnd) G) (now - 60000) s1
        \<and> int (card {g \<in> G. now - 60000 < fst g}) < limit)"
proof -
  define s0 where "s0 = ZREMRANGE R key 0 (now - 60000) s"
  have h0: "window_holds R key G (now - 60000) s0"
    using h old by (fastforce simp: window_holds_def s0_def zrange_zremrange)
  show ?thesis
  proof (cases "int (ZCARD R key s0) \<ge> limit")
    case True
    with run have "s1 = s0" "okay = 0" by (auto simp: rpm_check_script_def s0_def [symmetric] Let_def)
    with h0 show ?thesis by simp
  next
    case False
    with run have s1: "s1 = EXPIRE R key 120 (ZADD R key now (rpm_member now rnd) s0)"
      by (auto simp: rpm_check_script_def s0_def [symmetric] Let_def)
    have Z: "ZRANGE R key s1 = zput now (rpm_member now rnd) (ZRANGE R key s0)" by (simp add: s1 zrange_expire zrange_zadd)
    have "window_holds R key (insert (now, rnd) G) (now - 60000) s1"
      using h0 unfolding window_holds_def Z by (auto simp: zput_def)
    moreover have "int (card {g \<in> G. now - 60000 < fst g}) < limit"
      using window_count [OF h0] False by (simp add: ZCARD_def)
    ultimately show ?thesis by (auto simp: window_holds_def)
  qed
qed

text \<open>With two places left, any number of such checks pass.\<close>

lemma same_checks_pass:
  assumes "(rpm_member now rnd, now) \<in> set (ZRANGE R key s)" "int (length (ZRANGE R key s)) < limit"
  shows "same_checks R key now limit rnd n s = replicate n 1"
  using assms
proof (induction n arbitrary: s)
  case (Suc n)
  define s0 where "s0 = ZREMRANGE R key 0 (now - 60000) s"
  have in0: "(rpm_member now rnd, now) \<in> set (ZRANGE R key s0)" and "length (ZRANGE R key s0) \<le> length (ZRANGE R key s)"
    using Suc.prems(1) by (simp_all add: s0_def zrange_zremrange)
  with Suc.prems(2) have free: "\<not> limit \<le> int (length (ZRANGE R key s0))" by linarith
  let ?s1 = "EXPIRE R key 120 (ZADD R key now (rpm_member now rnd) s0)"
  have Z: "ZRANGE R key ?s1 = zput now (rpm_member now rnd) (ZRANGE R key s0)" by (simp add: zrange_expire zrange_zadd)
  have "same_checks R key now limit rnd n ?s1 = replicate n 1"
    by (rule Suc.IH) (use zput_again [OF in0] free in \<open>simp_all add: Z zput_def\<close>)
  with free show ?case by (simp add: rpm_check_script_def s0_def [symmetric] ZCARD_def Let_def)
qed simp

lemma burst_passes:
  assumes "ZRANGE R key s = []" "2 \<le> limit"
  shows "same_checks R key now limit rnd n s = replicate n 1"
proof (cases n)
  case (Suc m)
  let ?s1 = "EXPIRE R key 120 (ZADD R key now (rpm_member now rnd) (ZREMRANGE R key 0 (now - 60000) s))"
  have Z: "ZRANGE R key ?s1 = [(rpm_member now rnd, now)]"
    using assms(1) by (simp add: zrange_expire zrange_zadd zrange_zremrange zput_def)
  have "same_checks R key now limit rnd m ?s1 = replicate m 1"
    by (rule same_checks_pass) (use assms(2) in \<open>simp_all add: Z\<close>)
  with Suc assms show ?thesis by (simp add: rpm_check_script_def ZCARD_def zrange_zremrange Let_def)
qed simp

lemma script_other_key:
  "k \<noteq> key \<Longrightarrow> rpm_check_script R key now limit rnd s = (r, s1) \<Longrightarrow> ZRANGE R k s1 = ZRANGE R k s"
  by (auto simp: rpm_check_script_def zrange_expire zrange_zadd zrange_zremrange Let_def split: if_splits)

lemma counters_zrange:
  "ZRANGE R k (snd (incrementConcurrent R opr s)) = ZRANGE R k s"
  "ZRANGE R k (snd (decrementConcurrent R opr s)) = ZRANGE R k s"
  "ZRANGE R k (snd (incrementDaily R iso_of now opr s)) = ZRANGE R k s"
  by (auto simp: incrementConcurrent_def decrementConcurrent_def incrementDaily_def zrange_expire zrange_settext Let_def
      split: prod.splits dest: zrange_incrby) (metis prod.collapse zrange_incrby)+

lemma check_script:
  assumes "checkLimit R iso_of now rnd opr limits s = (r, s1)"
  obtains okay left retry where
    "rpm_check_script R (RPM_PREFIX @ opr) now (requestsPerMinute limits) rnd s = ((okay, left, retry), s1)"
    "rl_reason r \<noteq> Some Rpm_exceeded \<longleftrightarrow> okay \<noteq> 0"
proof -
  obtain okay left retry s2 where sc: "rpm_check_script R (RPM_PREFIX @ opr) now (requestsPerMinute limits) rnd s = ((okay, left, retry), s2)"
    by (metis surj_pair)
  with assms have "s1 = s2 \<and> (rl_reason r \<noteq> Some Rpm_exceeded \<longleftrightarrow> okay \<noteq> 0)"
    by (auto simp: checkLimit_def Let_def split: if_splits)
  with sc that show ?thesis by blast
qed

lemma step_other_window:
  assumes "rl_step R iso_of limits now call s = (r, s1)" and "\<nexists>rnd. call = Check opr rnd"
  shows "ZRANGE R (RPM_PREFIX @ opr) s1 = ZRANGE R (RPM_PREFIX @ opr) s \<and> (case r of None \<Rightarrow> True | Some (o', rnd) \<Rightarrow> o' \<noteq> opr)"
proof (cases call)
  case (Check opr' rnd)
  with assms(1) obtain q where q: "checkLimit R iso_of now rnd opr' (limits opr') s = (q, s1)" and r: "r = None \<or> r = Some (opr', rnd)"
    by (auto split: prod.splits if_splits)
  from q obtain okay left retry where
    sc: "rpm_check_script R (RPM_PREFIX @ opr') now (requestsPerMinute (limits opr')) rnd s = ((okay, left, retry), s1)"
    by (rule check_script)
  from Check assms(2) have "opr' \<noteq> opr" by blast
  with script_other_key [OF _ sc, of "RPM_PREFIX @ opr"] r show ?thesis by auto
qed (use assms(1) counters_zrange in auto)

lemma run_window:
  assumes "window_holds R (RPM_PREFIX @ opr) G old s" "\<forall>T. card (in_window T G) \<le> nat (requestsPerMinute (limits opr))"
    and "sorted (t0 # map fst calls)" "old \<le> t0 - 60000" "\<forall>g \<in> G. fst g \<le> t0"
  shows "card (in_window T (G \<union> set (rl_run R iso_of limits opr calls s))) \<le> nat (requestsPerMinute (limits opr))"
  using assms
proof (induction calls arbitrary: G old s t0)
  case (Cons x calls)
  let ?key = "RPM_PREFIX @ opr" and ?L = "nat (requestsPerMinute (limits opr))"
  obtain now call where x: "x = (now, call)" by fastforce
  obtain r s1 where st: "rl_step R iso_of limits now call s = (r, s1)" by fastforce
  from Cons.prems(3) x have t: "t0 \<le> now" "sorted (now # map fst calls)" by auto
  have G_now: "\<forall>g \<in> G. fst g \<le> now" using Cons.prems(5) t(1) by fastforce
  have old: "old \<le> now - 60000" using Cons.prems(4) t(1) by linarith
  show ?case
  proof (cases "\<exists>rnd. call = Check opr rnd")
    case False
    note other = step_other_window [OF st False]
    then have w: "window_holds R ?key G old s1" using Cons.prems(1) by (simp add: window_holds_def)
    from other have "rl_run R iso_of limits opr (x # calls) s = rl_run R iso_of limits opr calls s1"
      by (auto simp: x st split: option.splits)
    with Cons.IH [OF w Cons.prems(2) t(2) old G_now] show ?thesis by simp
  next
    case True
    then obtain rnd where call: "call = Check opr rnd" by blast
    obtain q where q: "checkLimit R iso_of now rnd opr (limits opr) s = (q, s1)"
      and r: "r = (if rl_reason q \<noteq> Some Rpm_exceeded then Some (opr, rnd) else None)"
      using st call by (auto split: prod.splits)
    from q obtain okay left retry where
      sc: "rpm_check_script R ?key now (requestsPerMinute (limits opr)) rnd s = ((okay, left, retry), s1)"
      and ok: "rl_reason q \<noteq> Some Rpm_exceeded \<longleftrightarrow> okay \<noteq> 0"
      by (rule check_script)
    note script = script_window [OF Cons.prems(1) old sc]
    show ?thesis
    proof (cases "okay = 0")
      case True
      with ok r have "rl_run R iso_of limits opr (x # calls) s = rl_run R iso_of limits opr calls s1" by (simp add: x st)
      with Cons.IH [OF conjunct1 [OF script] Cons.prems(2) t(2) _ G_now] show ?thesis by simp
    next
      case False
      with ok r have run: "rl_run R iso_of limits opr (x # calls) s = (now, rnd) # rl_run R iso_of limits opr calls s1" by (simp add: x st)
      from False script have w: "window_holds R ?key (insert (now, rnd) G) (now - 60000) s1"
        and "int (card {g \<in> G. now - 60000 < fst g}) < requestsPerMinute (limits opr)" by auto
      then have L: "card {g \<in> G. now - 60000 < fst g} < ?L" by linarith
      have "finite G" using w by (simp add: window_holds_def)
      from in_window_extend [OF Cons.prems(2) G_now L this]
      have "\<forall>T. card (in_window T (insert (now, rnd) G)) \<le> ?L" by blast
      from Cons.IH [OF w this t(2)] G_now show ?thesis unfolding run by simp
    qed
  qed
qed simp

end

lemma run_in_window:
  assumes "redis_windows R" and "ZRANGE R (RPM_PREFIX @ opr) s = []" and "sorted (map fst calls)"
  shows "card (in_window T (set (rl_run R iso_of limits opr calls s))) \<le> nat (requestsPerMinute (limits opr))"
proof -
  define t0 where "t0 = (case calls of [] \<Rightarrow> 0 | (t, c) # _ \<Rightarrow> t)"
  have "sorted (t0 # map fst calls)" using assms(3) by (cases calls) (auto simp: t0_def)
  moreover have "window_holds R (RPM_PREFIX @ opr) {} (t0 - 60000) s" by (simp add: window_holds_def)
  ultimately show ?thesis
    using redis_windows.run_window [OF assms(1), of opr "{}" "t0 - 60000" s limits t0 calls T iso_of] by (simp add: in_window_def)
qed

lemma in_window_pairs: "{(t, rnd) \<in> G. T - 60000 < t \<and> t \<le> T} = in_window T G"
  by (auto simp: in_window_def)

text \<open>
  C40: in any minute, wherever it begins, at most \<open>requestsPerMinute\<close> different pairs of a millisecond and a drawn number are those of
  checks of an operator that pass the script, whatever the limiter is asked in between for this or other operators and whatever the quotas
  that come after the script say, while times do not decrease.  The checks of one millisecond that draw the same number count as one.
\<close>
theorem rate_limit_sliding_window:
  assumes "redis_windows R" and "ZRANGE R (RPM_PREFIX @ opr) s = []" and "sorted (map fst calls)"
  shows "card {(t, rnd) \<in> set (rl_run R iso_of limits opr calls s). T - 60000 < t \<and> t \<le> T} \<le> nat (requestsPerMinute (limits opr))"
  unfolding in_window_pairs using assms by (rule run_in_window)

text \<open>So there is a bound on the milliseconds in which checks pass \<dots>\<close>

lemma rate_limit_in_milliseconds:
  assumes "redis_windows R" and "ZRANGE R (RPM_PREFIX @ opr) s = []" and "sorted (map fst calls)"
  shows "card {t \<in> fst ` set (rl_run R iso_of limits opr calls s). T - 60000 < t \<and> t \<le> T} \<le> nat (requestsPerMinute (limits opr))"
proof -
  let ?P = "set (rl_run R iso_of limits opr calls s)"
  have "{t \<in> fst ` ?P. T - 60000 < t \<and> t \<le> T} = fst ` in_window T ?P" by (force simp: in_window_def)
  moreover have "card (fst ` in_window T ?P) \<le> card (in_window T ?P)" by (rule card_image_le) (simp add: in_window_def)
  ultimately show ?thesis using run_in_window [OF assms, of T iso_of limits] by simp
qed

text \<open>\<dots> and on nothing else: in one millisecond, an operator with a limit of two a minute passes a thousand checks.\<close>

lemma burst_of_a_thousand:
  "redis_windows R \<Longrightarrow> ZRANGE R key s = [] \<Longrightarrow> same_checks R key now 2 rnd 1000 s = replicate 1000 1"
  by (rule redis_windows.burst_passes) simp_all

theorem rate_limit_sliding_window_witness:
  "card {(t, rnd) \<in> set (rl_run ref_redis (\<lambda>t. ''2026-01-01T00'')
     (\<lambda>opr. \<lparr>requestsPerMinute = 1, maxConcurrentTasks = 5, dailyTaskQuota = 5\<rparr>) ''ann''
     [(1000, Check ''ann'' 7), (1000, IncConcurrent ''ann''), (2000, Check ''ann'' 8), (60500, Check ''bob'' 8)] db_empty).
       60500 - 60000 < t \<and> t \<le> 60500} \<le> 1"
proof -
  let ?calls = "[(1000 :: int, Check ''ann'' 7), (1000, IncConcurrent ''ann''), (2000, Check ''ann'' 8), (60500, Check ''bob'' 8)]"
  have "ZRANGE ref_redis (RPM_PREFIX @ ''ann'') db_empty = []" by (simp add: ref_redis_def db_empty_def)
  moreover have "sorted (map fst ?calls)" by simp
  ultimately have "card {(t, rnd) \<in> set (rl_run ref_redis (\<lambda>t. ''2026-01-01T00'')
     (\<lambda>opr. \<lparr>requestsPerMinute = 1, maxConcurrentTasks = 5, dailyTaskQuota = 5\<rparr>) ''ann'' ?calls db_empty). 60500 - 60000 < t \<and> t \<le> 60500}
       \<le> nat (requestsPerMinute \<lparr>requestsPerMinute = 1, maxConcurrentTasks = 5, dailyTaskQuota = 5\<rparr>)"
    by (rule rate_limit_sliding_window [OF ref_windows.redis_windows_axioms])
  then show ?thesis by (simp only: rate_limits.simps nat_1)
qed

end
