(* ===== verification/AgentAcl.thy ===== *)
theory AgentAcl
  imports Json
begin

text \<open>
  Who may publish what on the agents' event bus (\<open>packages/core/src/triggers/event-acl.ts\<close>) and which
  fields a payload should carry (\<open>event-schemas.ts\<close>).  The tables are those of the sources, entry by entry, in
  their order; the descriptions of the schemas are left out.  Both tables are looked up with keys that
  contain a colon, so no inherited property of the JavaScript objects is ever found.
\<close>

type_synonym acl_map = "(string, string list) jsmap"

definition DEFAULT_ACL :: acl_map where
  "DEFAULT_ACL = [
    (''architect:build_directive'', [''architect'']), (''architect:mechanic_task'', [''architect'']),
    (''architect:pr_review'', [''architect'']), (''architect:design_directive'', [''architect'']),
    (''architect:task_complete'', [''architect'']), (''architect:deploy_review'', [''architect'']),
    (''architect:deploy_complete'', [''architect'']), (''architect:rebase_needed'', [''architect'']),
    (''architect:task_blocked'', [''architect'']), (''architect:spec_finalized'', [''architect'']),
    (''mechanic:task_completed'', [''mechanic'']), (''mechanic:task_failed'', [''mechanic'']),
    (''ao:task_completed'', [''ao'']), (''ao:task_failed'', [''ao'']), (''ao:pr_ready'', [''ao'']),
    (''ao:pr_merged'', [''ao'']), (''ao:task_blocked'', [''ao'']), (''ao:spawn_failed'', [''ao'']),
    (''builder:pr_ready'', [''ao-callback'']), (''builder:task_complete'', [''ao-callback'']),
    (''builder:task_blocked'', [''ao-callback'']), (''builder:task_failed'', [''ao-callback'']),
    (''builder:spawn_failed'', [''ao-callback'']), (''strategist:midweek_adjustment'', [''strategist'']),
    (''strategist:architect_directive'', [''strategist'']), (''strategist:builder_directive'', [''strategist'']),
    (''strategist:deployer_directive'', [''strategist'']), (''strategist:ember_directive'', [''strategist'']),
    (''strategist:designer_directive'', [''strategist'']), (''strategist:design_generate'', [''strategist'']),
    (''strategist:standup_synthesis'', [''strategist'']), (''strategist:sentinel_directive'', [''strategist'']),
    (''strategist:keeper_directive'', [''strategist'']), (''strategist:forge_directive'', [''strategist'']),
    (''strategist:scout_directive'', [''strategist'']), (''strategist:treasurer_directive'', [''strategist'']),
    (''strategist:guide_directive'', [''strategist'']), (''strategist:reviewer_directive'', [''strategist'']),
    (''strategist:librarian_directive'', [''strategist'']), (''strategist:weekly_directive'', [''strategist'']),
    (''ember:content_ready'', [''ember'']), (''ember:needs_asset'', [''ember'']),
    (''ember:asset_revision_requested'', [''ember'']), (''content:review_required'', [''content'']),
    (''review:pending'', [''ember'', ''scout'']), (''reviewer:approved'', [''reviewer'']),
    (''reviewer:flagged'', [''reviewer'']), (''reviewer:queue_stale'', [''reviewer'']),
    (''designer:design_review'', [''designer'']), (''designer:design_generated'', [''designer'']),
    (''forge:asset_ready'', [''forge'']), (''forge:asset_failed'', [''forge'']),
    (''keeper:support_case'', [''keeper'']), (''keeper:community_health'', [''keeper'']),
    (''guide:case_escalated'', [''guide'']), (''guide:case_resolved'', [''guide'']),
    (''librarian:curation_complete'', [''librarian'']), (''scout:intel_report'', [''scout'']),
    (''scout:outreach_ready'', [''scout'']), (''scout:pipeline_report'', [''scout'']),
    (''treasurer:low_balance'', [''treasurer'']), (''treasurer:spend_report'', [''treasurer'']),
    (''deploy:execute'', [''deploy-system'']), (''deploy:review'', [''deploy-system'']),
    (''deploy:approved'', [''deploy-system'']), (''deployer:deploy_complete'', [''deployer'']),
    (''github:pr_opened'', [''github'', ''github-webhook'']),
    (''github:pr_updated'', [''github'', ''github-webhook'']),
    (''github:issue_assigned'', [''github'', ''github-webhook'']),
    (''github:issue_opened'', [''github'', ''github-webhook'']),
    (''github:issue_labeled'', [''github'', ''github-webhook'']),
    (''github:pr_review_submitted'', [''github'', ''github-webhook'']),
    (''github:pr_review_comment'', [''github'', ''github-webhook'']),
    (''github:ci_pass'', [''github'', ''github-webhook'']), (''github:ci_fail'', [''github'', ''github-webhook'']),
    (''github:issue_closed'', [''github'', ''github-webhook'']),
    (''github:pr_merged'', [''github'', ''github-webhook'']),
    (''github:repository_created'', [''github'', ''github-webhook'']), (''ci:lockfile_drift'', [''ci'']),
    (''telegram:message'', [''telegram'']), (''vault:entry_created'', [''vault'']),
    (''vault:entry_updated'', [''vault'']),
    (''standup:report'', [''architect'', ''ember'', ''scout'', ''sentinel'', ''strategist'', ''reviewer'', ''designer'', ''forge'', ''keeper'', ''guide'', ''treasurer'', ''mechanic'', ''librarian'']),
    (''claudeception:reflect'', [''system'']), (''system:agent:budget_exceeded'', [''system'']),
    (''system:agent:budget_warning'', [''system'']), (''objective:budget_exceeded'', [''objective'']),
    (''sentinel:alert'', [''sentinel'']), (''sentinel:infra_alert'', [''sentinel'']),
    (''sentinel:status_report'', [''sentinel'']), (''sentinel:quality_report'', [''sentinel'']),
    (''sentinel:incident_report'', [''sentinel'']), (''discord:message'', [''discord'', ''discord-webhook'']),
    (''discord:mention'', [''discord'', ''discord-webhook'']),
    (''discord:thread_reply'', [''discord'', ''discord-webhook'']),
    (''discord:react'', [''discord'', ''discord-webhook''])]"

definition checkEventAcl :: "acl_map \<Rightarrow> string \<Rightarrow> string \<Rightarrow> bool" where
  "checkEventAcl acl eventKey sourceAgent =
     (case mget acl eventKey of None \<Rightarrow> False | Some allowed \<Rightarrow> sourceAgent \<in> set allowed)"

text \<open>The event key of the publications: \<open>source:type\<close>.\<close>

definition event_key :: "string \<Rightarrow> string \<Rightarrow> string" where
  "event_key source type = source @ '':'' @ type"

definition EVENT_SCHEMAS :: "(string, string list) jsmap" where
  "EVENT_SCHEMAS = [
    (''architect:pr_review'', [''pr_number'', ''status'']),
    (''github:ci_fail'', [''repo'', ''branch'', ''commit_sha'']),
    (''github:ci_pass'', [''repo'', ''branch'', ''commit_sha'']),
    (''github:pr_review_submitted'', [''pr_number'', ''review_state'']),
    (''github:pr_review_comment'', [''pr_number'', ''review_state'']),
    (''github:issue_assigned'', [''issue_number'']), (''github:issue_opened'', [''issue_number'']),
    (''github:issue_labeled'', [''issue_number'', ''label_added'']),
    (''keeper:support_case'', [''user_id'', ''message'']), (''architect:build_directive'', [''repo'']),
    (''architect:deploy_complete'', [''repo'', ''status'']), (''ao:task_failed'', [''error'']),
    (''ao:spawn_failed'', [''eventKey'', ''reason'']), (''ao:task_completed'', []),
    (''ao:pr_ready'', [''pr_number'', ''repo'']), (''ao:task_blocked'', [''reason'']),
    (''builder:pr_ready'', [''pr_number'', ''repo'']), (''builder:task_complete'', []),
    (''builder:task_blocked'', [''reason'']), (''builder:task_failed'', [''error'']),
    (''builder:spawn_failed'', [''eventKey'', ''reason'']),
    (''architect:mechanic_task'', [''repo'', ''task_type'', ''instructions'']),
    (''mechanic:task_completed'', [''repo'', ''task_type'']),
    (''mechanic:task_failed'', [''repo'', ''task_type'', ''error'']),
    (''deploy:review'', [''deployment_id'', ''repo'', ''environment'']),
    (''architect:deploy_review'', [''deployment_id'', ''decision'']),
    (''deploy:approved'', [''deployment_id'', ''repo'', ''environment''])]"

text \<open>The missing fields, or none when the payload is complete or the key is unknown.\<close>

definition validateEventPayload :: "string \<Rightarrow> (string \<times> json) list \<Rightarrow> string list option" where
  "validateEventPayload eventKey payload = (case mget EVENT_SCHEMAS eventKey of
     None \<Rightarrow> None
   | Some required \<Rightarrow>
       (let missing = filter (\<lambda>f. f \<notin> set (map fst payload)) required
        in if missing \<noteq> [] then Some missing else None))"

end
