(* ===== verification/AgentBus.thy ===== *)
theory AgentBus
  imports AgentAcl JsonText
begin

text \<open>
  The bus the agents talk over (\<open>packages/core/src/triggers/event.ts\<close>): publication behind the access
  list, delivery over the shared channel or locally, subscriptions by pattern, heartbeats and dead letters.

  A handler is a name \<open>'h\<close>; what it does is the parameter \<open>run\<close>, which changes the application's state and
  may fail with a message and a stack.  A handler that publishes or subscribes is a later call on the
  bus.  The commands the bus gives to Redis and to the event streams are recorded in their order; the
  fire-and-forget ones (heartbeats, dead letters, streams, channel subscriptions) only log their failures,
  so their replies are not modelled.  Log lines are left out.

  An event is the parsed JSON value, as in the source, which casts the text it receives without checking it.
\<close>

section \<open>Values as texts\<close>

text \<open>\<open>`${v}`\<close> and \<open>Boolean(v)\<close>.\<close>

fun js_text :: "json \<Rightarrow> string" where
  "js_text JUndef = ''undefined''"
| "js_text JNull = ''null''"
| "js_text (JBool b) = (if b then ''true'' else ''false'')"
| "js_text (JNum n) = dec_int n"
| "js_text (JStr s) = s"
| "js_text (JArr xs) = join '','' (map (\<lambda>x. if x = JNull \<or> x = JUndef then '''' else js_text x) xs)"
| "js_text (JObj _) = ''[object Object]''"

fun js_truthy :: "json \<Rightarrow> bool" where
  "js_truthy JUndef = False"
| "js_truthy JNull = False"
| "js_truthy (JBool b) = b"
| "js_truthy (JNum n) = (n \<noteq> 0)"
| "js_truthy (JStr s) = (s \<noteq> [])"
| "js_truthy _ = True"

definition part :: "nat \<Rightarrow> string list \<Rightarrow> string option" where
  "part n ps = (if n < length ps then Some (ps ! n) else None)"

section \<open>State\<close>

definition CHANNEL :: string where "CHANNEL = ''agent:events''"
definition DLQ_STREAM_PREFIX :: string where "DLQ_STREAM_PREFIX = ''yclaw:dlq:''"
definition HEARTBEAT_KEY_PREFIX :: string where "HEARTBEAT_KEY_PREFIX = ''yclaw:heartbeat:''"
definition HEARTBEAT_TTL_SEC :: int where "HEARTBEAT_TTL_SEC = 120"
definition DLQ_INITIAL_RETRY_DELAY_MS :: int where "DLQ_INITIAL_RETRY_DELAY_MS = 60000"

record 'h handler_entry =
  he_fn :: 'h
  he_agent :: "string option"

datatype bus_cmd =
    CPublish string string
  | CSubscribe string
  | CUnsubscribe string
  | CXadd string "(string \<times> json) list"
  | CBeat string int
  | CStream json
  | CDisconnect

record ('h, 'a) agent_bus =
  handlers :: "(string, 'h handler_entry list) jsmap"
  bus_publisher :: bool
  bus_subscriber :: bool
  bus_connected :: bool
  bus_closed :: bool
  bus_degraded :: bool
  eventStream :: bool
  bus_cmds :: "bus_cmd list"
  bus_app :: 'a

definition command :: "bus_cmd \<Rightarrow> ('h, 'a) agent_bus \<Rightarrow> ('h, 'a) agent_bus" where
  "command c b = b\<lparr>bus_cmds := bus_cmds b @ [c]\<rparr>"

text \<open>The delay before a reconnection attempt; \<open>None\<close> gives up.\<close>

definition retryStrategy :: "nat \<Rightarrow> int option" where
  "retryStrategy n = (if n > 20 then None else Some (min (100 * 2 ^ n) 30000))"

text \<open>
  The constructor: \<open>made\<close> tells which of the two clients the Redis library creates before it throws, if it
  throws.  \<open>Inl\<close> is the exception of a production process.
\<close>

definition new_bus ::
  "string option \<Rightarrow> string option \<Rightarrow> bool \<Rightarrow> bool \<times> bool \<Rightarrow> 'a \<Rightarrow> string + ('h, 'a) agent_bus" where
  "new_bus redisUrl envUrl isProduction made a =
     (let url = (case redisUrl of Some (c # u) \<Rightarrow> c # u | _ \<Rightarrow> (case envUrl of Some u \<Rightarrow> u | None \<Rightarrow> ''''));
          isValidUrl = (starts_with url ''redis://'' \<or> starts_with url ''rediss://'');
          b = \<lparr>handlers = [], bus_publisher = False, bus_subscriber = False, bus_connected = False, bus_closed = False,
               bus_degraded = False, eventStream = False, bus_cmds = [], bus_app = a\<rparr>
      in if \<not> isValidUrl then
           (if isProduction then Inl ''REDIS_URL is required in production but is missing or invalid''
            else Inr (b\<lparr>bus_degraded := True\<rparr>))
         else if fst made \<and> snd made then Inr (b\<lparr>bus_publisher := True, bus_subscriber := True\<rparr>)
         else if isProduction then Inl ''EventBus initialization failed''
         else Inr (b\<lparr>bus_publisher := fst made, bus_degraded := True\<rparr>))"

text \<open>What the connections tell the bus.\<close>

datatype connection_event = ConnectedBoth | PublisherReady | SubscriberReady | ConnectionClose | ConnectionEnd

fun on_connection :: "connection_event \<Rightarrow> ('h, 'a) agent_bus \<Rightarrow> ('h, 'a) agent_bus" where
  "on_connection ConnectedBoth b = b\<lparr>bus_connected := True\<rparr>"
| "on_connection PublisherReady b = (if \<not> bus_connected b then b\<lparr>bus_connected := True\<rparr> else b)"
| "on_connection SubscriberReady b = (if handlers b \<noteq> [] then command (CSubscribe CHANNEL) b else b)"
| "on_connection ConnectionClose b = (if bus_connected b then b\<lparr>bus_connected := False\<rparr> else b)"
| "on_connection ConnectionEnd b = b\<lparr>bus_connected := False\<rparr>"

definition isHealthy :: "bool \<Rightarrow> bool \<Rightarrow> ('h, 'a) agent_bus \<Rightarrow> bool" where
  "isHealthy publisherReady subscriberReady b =
     (if bus_degraded b \<or> bus_closed b then False
      else if bus_publisher b \<and> \<not> publisherReady then False
      else if bus_subscriber b \<and> \<not> subscriberReady then False
      else bus_connected b)"

definition setEventStream :: "('h, 'a) agent_bus \<Rightarrow> ('h, 'a) agent_bus" where
  "setEventStream b = b\<lparr>eventStream := True\<rparr>"

definition publishCoordEvent :: "json \<Rightarrow> ('h, 'a) agent_bus \<Rightarrow> ('h, 'a) agent_bus" where
  "publishCoordEvent event b = (if \<not> eventStream b then b else command (CStream event) b)"

section \<open>Patterns\<close>

definition matches :: "string \<Rightarrow> string \<Rightarrow> bool" where
  "matches eventKey pattern =
     (if pattern = ''*'' \<or> pattern = ''*:*'' then True
      else
        let patSource = part 0 (split_char CHR '':'' pattern); patType = part 1 (split_char CHR '':'' pattern);
            evtSource = part 0 (split_char CHR '':'' eventKey); evtType = part 1 (split_char CHR '':'' eventKey);
            sourceMatch = (patSource = Some ''*'' \<or> patSource = evtSource);
            typeMatch = (patType = None \<or> patType = Some '''' \<or> patType = Some ''*'' \<or> patType = evtType)
        in sourceMatch \<and> typeMatch)"

section \<open>Dispatch\<close>

definition linked :: "('h, 'a) agent_bus \<Rightarrow> bool" where
  "linked b \<longleftrightarrow> bus_publisher b \<and> bus_connected b"

definition dlq_fields :: "(int \<Rightarrow> string) \<Rightarrow> int \<Rightarrow> json \<Rightarrow> string \<times> string \<Rightarrow> (string \<times> json) list" where
  "dlq_fields iso_of now event err =
     [(''event_id'', get_prop ''id'' event), (''source'', get_prop ''source'' event), (''type'', get_prop ''type'' event),
      (''payload'', case get_prop ''payload'' event of JUndef \<Rightarrow> JUndef | p \<Rightarrow> JStr (json_stringify p)),
      (''error'', JStr (fst err)), (''stack'', JStr (snd err)), (''timestamp'', JStr (iso_of now)),
      (''retry_count'', JStr ''0''), (''retry_after'', JStr (dec_int (now + DLQ_INITIAL_RETRY_DELAY_MS)))]
     @ (if js_truthy (get_prop ''correlationId'' event) then [(''correlation_id'', get_prop ''correlationId'' event)] else [])"

text \<open>The key of an event, from its two fields.\<close>

definition key_of :: "json \<Rightarrow> string" where
  "key_of event = event_key (js_text (get_prop ''source'' event)) (js_text (get_prop ''type'' event))"

definition writeToDlq :: "(int \<Rightarrow> string) \<Rightarrow> int \<Rightarrow> json \<Rightarrow> string \<times> string \<Rightarrow> ('h, 'a) agent_bus \<Rightarrow> ('h, 'a) agent_bus" where
  "writeToDlq iso_of now event err b = (if \<not> linked b then b
     else command (CXadd (DLQ_STREAM_PREFIX @ key_of event) (dlq_fields iso_of now event err)) b)"

definition writeHeartbeat :: "string \<Rightarrow> ('h, 'a) agent_bus \<Rightarrow> ('h, 'a) agent_bus" where
  "writeHeartbeat agentName b = (if \<not> linked b then b
     else command (CBeat (HEARTBEAT_KEY_PREFIX @ agentName) HEARTBEAT_TTL_SEC) b)"

type_synonym ('h, 'a) handler_run = "'h \<Rightarrow> json \<Rightarrow> 'a \<Rightarrow> (string \<times> string) option \<times> 'a"

definition dispatch_entry ::
  "(int \<Rightarrow> string) \<Rightarrow> ('h, 'a) handler_run \<Rightarrow> int \<Rightarrow> json \<Rightarrow> 'h handler_entry \<Rightarrow> ('h, 'a) agent_bus \<Rightarrow> ('h, 'a) agent_bus" where
  "dispatch_entry iso_of run now event entry b =
     (let b1 = (case he_agent entry of Some (c # n) \<Rightarrow> writeHeartbeat (c # n) b | _ \<Rightarrow> b);
          (err, a) = run (he_fn entry) event (bus_app b1);
          b2 = b1\<lparr>bus_app := a\<rparr>
      in case err of None \<Rightarrow> b2 | Some e \<Rightarrow> writeToDlq iso_of now event e b2)"

text \<open>The flag: the returned promise is rejected, which reading a field of \<open>null\<close> does.\<close>

definition bus_dispatch ::
  "(int \<Rightarrow> string) \<Rightarrow> ('h, 'a) handler_run \<Rightarrow> int \<Rightarrow> string \<Rightarrow> ('h, 'a) agent_bus \<Rightarrow> bool \<times> ('h, 'a) agent_bus" where
  "bus_dispatch iso_of run now message b = (case json_parse message of
     None \<Rightarrow> (False, b)
   | Some JNull \<Rightarrow> (True, b)
   | Some event \<Rightarrow> (False,
       fold (\<lambda>(pattern, entries) b. if matches (key_of event) pattern then fold (dispatch_entry iso_of run now event) entries b else b)
         (handlers b) b))"

text \<open>The retry runs the handlers in order up to the first failure, which it passes on.\<close>

fun retry_entries :: "('h, 'a) handler_run \<Rightarrow> json \<Rightarrow> 'h handler_entry list \<Rightarrow> 'a \<Rightarrow> (string \<times> string) option \<times> 'a" where
  "retry_entries run event [] a = (None, a)"
| "retry_entries run event (e # es) a = (case run (he_fn e) event a of
     (Some err, a1) \<Rightarrow> (Some err, a1)
   | (None, a1) \<Rightarrow> retry_entries run event es a1)"

fun retry_patterns ::
  "('h, 'a) handler_run \<Rightarrow> json \<Rightarrow> (string \<times> 'h handler_entry list) list \<Rightarrow> 'a \<Rightarrow> (string \<times> string) option \<times> 'a" where
  "retry_patterns run event [] a = (None, a)"
| "retry_patterns run event ((pattern, entries) # ps) a =
     (if matches (key_of event) pattern
      then (case retry_entries run event entries a of
          (Some err, a1) \<Rightarrow> (Some err, a1)
        | (None, a1) \<Rightarrow> retry_patterns run event ps a1)
      else retry_patterns run event ps a)"

definition dispatchForRetry ::
  "('h, 'a) handler_run \<Rightarrow> json \<Rightarrow> ('h, 'a) agent_bus \<Rightarrow> (string \<times> string) option \<times> ('h, 'a) agent_bus" where
  "dispatchForRetry run event b =
     (let (err, a) = retry_patterns run event (handlers b) (bus_app b) in (err, b\<lparr>bus_app := a\<rparr>))"

section \<open>Publication\<close>

text \<open>What a publication takes from outside: two identifiers, the time, whether the channel accepts the text.\<close>

record publish_env =
  pe_id :: string
  pe_streamId :: string
  pe_now :: int
  pe_wireOk :: bool

definition opt_str :: "string option \<Rightarrow> json" where
  "opt_str x = (case x of None \<Rightarrow> JUndef | Some s \<Rightarrow> JStr s)"

definition agent_event ::
  "(int \<Rightarrow> string) \<Rightarrow> publish_env \<Rightarrow> string \<Rightarrow> string \<Rightarrow> (string \<times> json) list \<Rightarrow> string option \<Rightarrow> json" where
  "agent_event iso_of pe source type payload correlationId = JObj
     [(''id'', JStr (pe_id pe)), (''source'', JStr source), (''type'', JStr type), (''payload'', JObj payload),
      (''timestamp'', JStr (iso_of (pe_now pe))), (''correlationId'', opt_str correlationId)]"

text \<open>\<open>createEvent\<close> of \<open>types/events.ts\<close>, with the options the bus gives.\<close>

definition createEvent :: "string \<Rightarrow> string \<Rightarrow> string \<Rightarrow> string \<Rightarrow> string \<Rightarrow> (string \<times> json) list \<Rightarrow> json" where
  "createEvent uuid now_text type source correlation_id payload = JObj
     [(''id'', JStr uuid), (''type'', JStr type), (''source'', JStr source), (''target'', JNull),
      (''correlation_id'', JStr correlation_id), (''causation_id'', JNull), (''timestamp'', JStr now_text),
      (''schema_version'', JNum 1), (''payload'', JObj payload)]"

definition bus_publish ::
  "(int \<Rightarrow> string) \<Rightarrow> ('h, 'a) handler_run \<Rightarrow> publish_env \<Rightarrow> string \<Rightarrow> string \<Rightarrow> (string \<times> json) list \<Rightarrow> string option
    \<Rightarrow> ('h, 'a) agent_bus \<Rightarrow> bool \<times> ('h, 'a) agent_bus" where
  "bus_publish iso_of run pe source type payload correlationId b =
     (if bus_closed b then (False, b)
      else if \<not> checkEventAcl DEFAULT_ACL (event_key source type) source then (False, b)
      else
        let event = agent_event iso_of pe source type payload correlationId;
            (raised, b1) = (if linked b
              then (\<not> pe_wireOk pe, command (CPublish CHANNEL (json_stringify event)) b)
              else bus_dispatch iso_of run (pe_now pe) (json_stringify event) b)
        in if raised then (True, b1)
           else (False, if eventStream b1
             then command (CStream (createEvent (pe_streamId pe) (iso_of (pe_now pe)) (source @ ''.'' @ type) source
                    (case correlationId of Some (c # t) \<Rightarrow> c # t | _ \<Rightarrow> pe_id pe) payload)) b1
             else b1))"

section \<open>Subscription\<close>

definition subscribe :: "string \<Rightarrow> 'h \<Rightarrow> string option \<Rightarrow> ('h, 'a) agent_bus \<Rightarrow> ('h, 'a) agent_bus" where
  "subscribe eventPattern handler agentName b =
     (let isFirstSubscription = (handlers b = []);
          entry = \<lparr>he_fn = handler, he_agent = agentName\<rparr>;
          b1 = b\<lparr>handlers := (case mget (handlers b) eventPattern of
                 Some existing \<Rightarrow> mset_at eventPattern (existing @ [entry]) (handlers b)
               | None \<Rightarrow> mset_at eventPattern [entry] (handlers b))\<rparr>
      in if isFirstSubscription \<and> bus_subscriber b1 \<and> bus_connected b1 then command (CSubscribe CHANNEL) b1 else b1)"

text \<open>Only the first entry with the given handler goes.\<close>

fun remove_handler :: "'h \<Rightarrow> 'h handler_entry list \<Rightarrow> 'h handler_entry list" where
  "remove_handler h [] = []"
| "remove_handler h (e # es) = (if he_fn e = h then es else e # remove_handler h es)"

definition unsubscribe :: "string \<Rightarrow> 'h option \<Rightarrow> ('h, 'a) agent_bus \<Rightarrow> ('h, 'a) agent_bus" where
  "unsubscribe eventPattern handler b =
     (let hs = (case handler of
            Some h \<Rightarrow> (case mget (handlers b) eventPattern of
                Some existing \<Rightarrow> (let rest = remove_handler h existing in
                  if rest = [] then mdelete eventPattern (handlers b) else mset_at eventPattern rest (handlers b))
              | None \<Rightarrow> handlers b)
          | None \<Rightarrow> mdelete eventPattern (handlers b));
          b1 = b\<lparr>handlers := hs\<rparr>
      in if hs = [] \<and> bus_subscriber b then command (CUnsubscribe CHANNEL) b1 else b1)"

definition bus_close :: "('h, 'a) agent_bus \<Rightarrow> ('h, 'a) agent_bus" where
  "bus_close b =
     (let b1 = b\<lparr>bus_closed := True, handlers := []\<rparr>;
          b2 = (if bus_subscriber b1 then command CDisconnect (command (CUnsubscribe CHANNEL) b1) else b1);
          b3 = (if bus_publisher b2 then command CDisconnect b2 else b2)
      in b3\<lparr>bus_connected := False\<rparr>)"

end
