(* ===== verification/AgentBus_Correct.thy ===== *)
theory AgentBus_Correct
  imports AgentBus
begin

text \<open>
  What the bus delivers.  The specification runs the matching handlers one after the other and collects
  their outcomes, whatever they are; the dispatch of the code is shown to do exactly that, to add one
  heartbeat per named handler and one dead letter per failure, and a publication to reach a subscriber
  unchanged, over the channel as well as locally.  What the access list does not permit has no effect at all.
\<close>

section \<open>The specification\<close>

fun invoke_all ::
  "('h, 'a) handler_run \<Rightarrow> json \<Rightarrow> 'h handler_entry list \<Rightarrow> 'a
    \<Rightarrow> ('h handler_entry \<times> (string \<times> string) option) list \<times> 'a" where
  "invoke_all run event [] a = ([], a)"
| "invoke_all run event (e # es) a =
     (let (err, a1) = run (he_fn e) event a; (outcomes, a2) = invoke_all run event es a1
      in ((e, err) # outcomes, a2))"

definition matching_handlers :: "json \<Rightarrow> ('h, 'a) agent_bus \<Rightarrow> 'h handler_entry list" where
  "matching_handlers event b = concat (map snd (filter (\<lambda>(p, es). matches (key_of event) p) (handlers b)))"

definition outcome_cmds ::
  "(int \<Rightarrow> string) \<Rightarrow> int \<Rightarrow> json \<Rightarrow> bool \<Rightarrow> 'h handler_entry \<times> (string \<times> string) option \<Rightarrow> bus_cmd list" where
  "outcome_cmds iso_of now event link x = (if \<not> link then [] else
     (case he_agent (fst x) of Some (c # n) \<Rightarrow> [CBeat (HEARTBEAT_KEY_PREFIX @ c # n) HEARTBEAT_TTL_SEC] | _ \<Rightarrow> [])
     @ (case snd x of None \<Rightarrow> []
        | Some e \<Rightarrow> [CXadd (DLQ_STREAM_PREFIX @ key_of event) (dlq_fields iso_of now event e)]))"

definition delivered ::
  "(int \<Rightarrow> string) \<Rightarrow> ('h, 'a) handler_run \<Rightarrow> int \<Rightarrow> json \<Rightarrow> ('h, 'a) agent_bus \<Rightarrow> ('h, 'a) agent_bus" where
  "delivered iso_of run now event b =
     (let (outcomes, a) = invoke_all run event (matching_handlers event b) (bus_app b)
      in b\<lparr>bus_app := a, bus_cmds := bus_cmds b @ concat (map (outcome_cmds iso_of now event (linked b)) outcomes)\<rparr>)"

section \<open>Dispatch\<close>

lemma linked_simps [simp]:
  "linked (command c b) = linked b" "linked (b\<lparr>bus_app := a\<rparr>) = linked b" "linked (b\<lparr>bus_cmds := cs\<rparr>) = linked b"
  "linked (b\<lparr>bus_app := a, bus_cmds := cs\<rparr>) = linked b"
  by (simp_all add: linked_def command_def)

lemma handlers_command [simp]:
  "handlers (command c b) = handlers b" "bus_app (command c b) = bus_app b" "eventStream (command c b) = eventStream b"
  by (simp_all add: command_def)

lemma dispatch_entry_eq:
  "dispatch_entry iso_of run now event e b =
     (let (err, a) = run (he_fn e) event (bus_app b)
      in b\<lparr>bus_app := a, bus_cmds := bus_cmds b @ outcome_cmds iso_of now event (linked b) (e, err)\<rparr>)"
  by (simp add: dispatch_entry_def writeHeartbeat_def writeToDlq_def outcome_cmds_def command_def Let_def
      split: option.splits list.splits prod.splits)

lemma dispatch_entries:
  "fold (dispatch_entry iso_of run now event) es b =
     (let (outcomes, a) = invoke_all run event es (bus_app b)
      in b\<lparr>bus_app := a, bus_cmds := bus_cmds b @ concat (map (outcome_cmds iso_of now event (linked b)) outcomes)\<rparr>)"
proof (induction es arbitrary: b)
  case (Cons e es)
  obtain err a where r: "run (he_fn e) event (bus_app b) = (err, a)" by fastforce
  obtain os a2 where i: "invoke_all run event es a = (os, a2)" by fastforce
  have h: "dispatch_entry iso_of run now event e b
      = b\<lparr>bus_app := a, bus_cmds := bus_cmds b @ outcome_cmds iso_of now event (linked b) (e, err)\<rparr>"
    by (simp add: dispatch_entry_eq r)
  from r i show ?case by (simp add: h Cons.IH)
qed simp

lemma dispatch_patterns:
  "fold (\<lambda>(pattern, entries) b. if P pattern then fold f entries b else b) ps b
     = fold f (concat (map snd (filter (\<lambda>(p, es). P p) ps))) b"
  by (induction ps arbitrary: b) (auto simp: fold_append)

lemma dispatch_delivers:
  assumes "json_parse message = Some event" "event \<noteq> JNull"
  shows "bus_dispatch iso_of run now message b = (False, delivered iso_of run now event b)"
  using assms
  by (cases event) (simp_all add: bus_dispatch_def dispatch_patterns dispatch_entries delivered_def matching_handlers_def)

lemma invoke_all_append:
  "invoke_all run event (es @ fs) a =
     (let (os, a1) = invoke_all run event es a; (ps, a2) = invoke_all run event fs a1 in (os @ ps, a2))"
  by (induction es arbitrary: a) (auto simp: Let_def split: prod.splits)

text \<open>Every handler is run once, in order, whatever the others do.\<close>

lemma invoke_all_handlers: "map fst (fst (invoke_all run event es a)) = es"
  by (induction es arbitrary: a) (simp_all add: Let_def case_prod_beta)

text \<open>The retry runs a prefix of the same handlers, up to the first that fails.\<close>

lemma retry_entries_append:
  "retry_entries run event (es @ fs) a = (case retry_entries run event es a of
     (Some err, a1) \<Rightarrow> (Some err, a1)
   | (None, a1) \<Rightarrow> retry_entries run event fs a1)"
  by (induction es arbitrary: a) (auto split: prod.splits option.splits)

lemma retry_matching:
  "dispatchForRetry run event b =
     (let (err, a) = retry_entries run event (matching_handlers event b) (bus_app b) in (err, b\<lparr>bus_app := a\<rparr>))"
proof -
  have "retry_patterns run event ps a
      = retry_entries run event (concat (map snd (filter (\<lambda>(p, es). matches (key_of event) p) ps))) a" for ps a
    by (induction ps arbitrary: a) (auto simp: retry_entries_append split: prod.splits option.splits)
  then show ?thesis by (simp add: dispatchForRetry_def matching_handlers_def)
qed

text \<open>Only two parts of a key are compared, so each of the two budget subscriptions also gets the other's events.\<close>

lemma budget_patterns_overlap:
  "matches (event_key ''system'' ''agent:budget_exceeded'') ''system:agent:budget_warning''
   \<and> matches (event_key ''system'' ''agent:budget_warning'') ''system:agent:budget_exceeded''"
  by code_simp

section \<open>The text on the channel\<close>

text \<open>An undefined correlation is not written.\<close>

definition received_event ::
  "(int \<Rightarrow> string) \<Rightarrow> publish_env \<Rightarrow> string \<Rightarrow> string \<Rightarrow> (string \<times> json) list \<Rightarrow> string option \<Rightarrow> json" where
  "received_event iso_of pe source type payload correlationId = JObj
     ([(''id'', JStr (pe_id pe)), (''source'', JStr source), (''type'', JStr type), (''payload'', JObj payload),
       (''timestamp'', JStr (iso_of (pe_now pe)))]
      @ (case correlationId of None \<Rightarrow> [] | Some c \<Rightarrow> [(''correlationId'', JStr c)]))"

lemma stringify_event:
  "json_stringify (agent_event iso_of pe source type payload corr)
     = json_stringify (received_event iso_of pe source type payload corr)"
  by (simp add: agent_event_def received_event_def opt_str_def split: option.splits)

lemma received_plain: "json_plain (JObj payload) \<Longrightarrow> json_plain (received_event iso_of pe source type payload corr)"
  by (auto simp: received_event_def split: option.splits)

lemma key_received [simp]: "key_of (received_event iso_of pe source type payload corr) = event_key source type"
  by (simp add: key_of_def received_event_def)

lemma received_not_null: "received_event iso_of pe source type payload corr \<noteq> JNull"
  by (simp add: received_event_def)

lemma dispatch_published:
  "json_plain (JObj payload) \<Longrightarrow>
   bus_dispatch iso_of run now (json_stringify (received_event iso_of pe source type payload corr)) b
     = (False, delivered iso_of run now (received_event iso_of pe source type payload corr) b)"
  by (rule dispatch_delivers [OF json_parse_stringify [OF received_plain] received_not_null])

lemma delivered_fields [simp]:
  "handlers (delivered iso_of run now event b) = handlers b" "eventStream (delivered iso_of run now event b) = eventStream b"
  "bus_app (delivered iso_of run now event b) = snd (invoke_all run event (matching_handlers event b) (bus_app b))"
  by (simp_all add: delivered_def split: prod.splits)

definition streamed ::
  "(int \<Rightarrow> string) \<Rightarrow> publish_env \<Rightarrow> string \<Rightarrow> string \<Rightarrow> (string \<times> json) list \<Rightarrow> string option
    \<Rightarrow> ('h, 'a) agent_bus \<Rightarrow> ('h, 'a) agent_bus" where
  "streamed iso_of pe source type payload corr b = (if eventStream b
     then command (CStream (createEvent (pe_streamId pe) (iso_of (pe_now pe)) (source @ ''.'' @ type) source
            (case corr of Some (c # t) \<Rightarrow> c # t | _ \<Rightarrow> pe_id pe) payload)) b
     else b)"

lemma streamed_fields [simp]:
  "handlers (streamed iso_of pe source type payload corr b) = handlers b"
  "bus_app (streamed iso_of pe source type payload corr b) = bus_app b"
  "x \<in> set (bus_cmds b) \<Longrightarrow> x \<in> set (bus_cmds (streamed iso_of pe source type payload corr b))"
  by (simp_all add: streamed_def command_def)

lemma publish_permitted:
  assumes "json_plain (JObj payload)"
    and "checkEventAcl DEFAULT_ACL (event_key source type) source" and "\<not> bus_closed b"
  shows "bus_publish iso_of run pe source type payload corr b =
    (if linked b then
       (let b1 = command (CPublish CHANNEL (json_stringify (received_event iso_of pe source type payload corr))) b
        in if pe_wireOk pe then (False, streamed iso_of pe source type payload corr b1) else (True, b1))
     else (False, streamed iso_of pe source type payload corr
        (delivered iso_of run (pe_now pe) (received_event iso_of pe source type payload corr) b)))"
  using assms(2,3)
  by (simp add: bus_publish_def Let_def stringify_event streamed_def dispatch_published [OF assms(1)])

lemma publish_denied:
  "bus_closed b \<or> \<not> checkEventAcl DEFAULT_ACL (event_key source type) source \<Longrightarrow>
   bus_publish iso_of run pe source type payload corr b = (False, b)"
  by (auto simp: bus_publish_def)

section \<open>The properties\<close>

text \<open>
  C34: A permitted publication on an open bus reaches every handler whose pattern matches \<open>source:type\<close>.
  While Redis is connected the bus issues one channel message, and any subscriber that receives its text runs all
  its matching handlers, each once and in order, whether or not earlier ones fail, and issues a
  heartbeat per named handler and one dead letter per failed one; without Redis the publishing process
  does the same itself, and the publication never fails.
\<close>

theorem publication_reaches_every_handler:
  fixes b c :: "('h, 'a) agent_bus"
  assumes "json_plain (JObj payload)"
    and "checkEventAcl DEFAULT_ACL (event_key source type) source" and "\<not> bus_closed b"
  shows "let event = received_event iso_of pe source type payload corr;
             (raised, b1) = bus_publish iso_of run pe source type payload corr b
         in map fst (fst (invoke_all run event (matching_handlers event c) (bus_app c)))
              = concat (map snd (filter (\<lambda>(p, es). matches (event_key source type) p) (handlers c)))
          \<and> bus_dispatch iso_of run now (json_stringify event) c = (False, delivered iso_of run now event c)
          \<and> (if linked b then CPublish CHANNEL (json_stringify event) \<in> set (bus_cmds b1)
             else \<not> raised \<and> bus_app b1 = bus_app (delivered iso_of run (pe_now pe) event b))"
proof -
  let ?event = "received_event iso_of pe source type payload corr"
  have "bus_dispatch iso_of run now (json_stringify ?event) c = (False, delivered iso_of run now ?event c)"
    by (rule dispatch_published [OF assms(1)])
  then show ?thesis
    unfolding publish_permitted [OF assms]
    by (auto simp: Let_def invoke_all_handlers matching_handlers_def simp del: delivered_fields)
      (simp_all add: command_def)
qed

text \<open>A witness: one handler per pattern, the first of them failing.\<close>

definition sample_bus :: "(nat, nat) agent_bus" where
  "sample_bus = \<lparr>handlers = [(''scout:*'', [\<lparr>he_fn = 1, he_agent = Some ''ember''\<rparr>]), (''forge:asset_ready'', [\<lparr>he_fn = 2, he_agent = None\<rparr>])],
     bus_publisher = True, bus_subscriber = True, bus_connected = True, bus_closed = False, bus_degraded = False,
     eventStream = False, bus_cmds = [], bus_app = 0\<rparr>"

definition sample_env :: publish_env where
  "sample_env = \<lparr>pe_id = ''e1'', pe_streamId = ''e2'', pe_now = 5, pe_wireOk = True\<rparr>"

lemma scout_may_report: "checkEventAcl DEFAULT_ACL (event_key ''scout'' ''intel_report'') ''scout''"
  by (simp add: checkEventAcl_def event_key_def DEFAULT_ACL_def)

definition sample_run :: "(nat, nat) handler_run" where
  "sample_run = (\<lambda>h e a. (if h = 1 then Some (''boom'', '''') else None, a + h))"

theorem publication_reaches_every_handler_witness:
  "let event = received_event dec_int sample_env ''scout'' ''intel_report'' [(''n'', JNum 1)] None;
       (raised, b1) = bus_publish dec_int sample_run sample_env ''scout'' ''intel_report'' [(''n'', JNum 1)] None sample_bus
   in map fst (fst (invoke_all sample_run event (matching_handlers event sample_bus) (bus_app sample_bus)))
        = concat (map snd (filter (\<lambda>(p, es). matches (event_key ''scout'' ''intel_report'') p) (handlers sample_bus)))
    \<and> bus_dispatch dec_int sample_run 7 (json_stringify event) sample_bus = (False, delivered dec_int sample_run 7 event sample_bus)
    \<and> (if linked sample_bus then CPublish CHANNEL (json_stringify event) \<in> set (bus_cmds b1)
       else \<not> raised \<and> bus_app b1 = bus_app (delivered dec_int sample_run (pe_now sample_env) event sample_bus))"
  by (rule publication_reaches_every_handler) (simp_all add: scout_may_report sample_bus_def)

lemma publish_effect:
  assumes "bus_publish iso_of run pe source type payload corr b \<noteq> (False, b)"
  shows "\<not> bus_closed b \<and> checkEventAcl DEFAULT_ACL (event_key source type) source"
  using publish_denied [of b source type iso_of run pe payload corr] assms by blast

text \<open>Publications the sources make (source and type) for which the access list has no entry or another source.\<close>

definition refused_publications :: "(string \<times> string) list" where
  "refused_publications =
    [(''approval'', ''granted''), (''approval'', ''rejected''), (''approval'', ''expired''),
     (''objective'', ''created''), (''objective'', ''updated''), (''objective'', ''completed''),
     (''objective'', ''stale_loop_detected''), (''slack'', ''alert''), (''slack'', ''app_mention''),
     (''slack'', ''message''), (''deploy'', ''approved''), (''deploy'', ''review''), (''deploy'', ''blocked''),
     (''deployer'', ''canary_rollback''), (''vault'', ''proposal_created''), (''security'', ''write_blocked'')]"

lemma refused_denied: "list_all (\<lambda>(s, t). \<not> checkEventAcl DEFAULT_ACL (event_key s t) s) refused_publications"
  by code_simp

text \<open>
  C35: The bus is closed to what its access list does not name: a publication that has any effect (a command, a
  handler run, a raised error) was made on an open bus by a source listed for exactly that event, and is none of
  the refused publications of the sources themselves: the decisions of approvals, the life of
  objectives and their stale loops, Slack messages and alerts, deployment reviews, approvals and
  rollbacks, blocked deployments and memory writes, vault proposals.
\<close>

theorem only_listed_publications_have_effect:
  assumes "bus_publish iso_of run pe source type payload corr b \<noteq> (False, b)"
  shows "\<not> bus_closed b
    \<and> (\<exists>allowed. (event_key source type, allowed) \<in> set DEFAULT_ACL \<and> source \<in> set allowed)
    \<and> (source, type) \<notin> set refused_publications"
proof (intro conjI)
  note ok = publish_effect [OF assms]
  then show "\<not> bus_closed b" by simp
  from ok show "\<exists>allowed. (event_key source type, allowed) \<in> set DEFAULT_ACL \<and> source \<in> set allowed"
    by (auto simp: checkEventAcl_def mget_def split: option.splits dest: map_of_SomeD)
  from ok refused_denied show "(source, type) \<notin> set refused_publications"
    by (auto simp: list_all_iff)
qed

lemma sample_publish_effect:
  "bus_publish dec_int sample_run sample_env ''scout'' ''intel_report'' [] None sample_bus \<noteq> (False, sample_bus)"
proof -
  have "bus_publish dec_int sample_run sample_env ''scout'' ''intel_report'' [] None sample_bus
      = (False, command (CPublish CHANNEL (json_stringify
           (received_event dec_int sample_env ''scout'' ''intel_report'' [] None))) sample_bus)"
    using publish_permitted [of "[]" "''scout''" "''intel_report''" sample_bus] scout_may_report
    by (simp add: sample_bus_def linked_def sample_env_def streamed_def command_def)
  then show ?thesis by (simp add: command_def sample_bus_def)
qed

theorem only_listed_publications_have_effect_witness:
  "\<not> bus_closed sample_bus
   \<and> (\<exists>allowed. (event_key ''scout'' ''intel_report'', allowed) \<in> set DEFAULT_ACL \<and> ''scout'' \<in> set allowed)
   \<and> (''scout'', ''intel_report'') \<notin> set refused_publications"
  by (rule only_listed_publications_have_effect [OF sample_publish_effect])

end
