(* ===== verification/Regex.thy ===== *)
theory Regex
  imports Prelude
begin

text \<open>
  The regular expressions of the language, as far as the sources use them in \<open>r.test(s)\<close>: character
  classes, sequences, alternatives, repetition, the anchors \<open>^\<close> and \<open>$\<close> (without the \<open>m\<close> flag), the word boundary and
  the negative lookahead.  A test only asks whether a match exists, so greediness does not matter.

  A position is the preceding character, if any, and the rest of the text.  \<open>ends r x\<close> lists the positions where a
  match that starts at \<open>x\<close> may end; it is shown to be the relation \<open>rx_match\<close>.
\<close>

type_synonym position = "char option \<times> string"

datatype rx =
    Eps
  | One bool "(char \<times> char) list"
  | Cat rx rx
  | Or rx rx
  | Star rx
  | Bol
  | Eol
  | Wordb
  | NotAhead rx

section \<open>Characters\<close>

definition in_ranges :: "(char \<times> char) list \<Rightarrow> char \<Rightarrow> bool" where
  "in_ranges rs c = list_ex (\<lambda>(a, b). (of_char a :: nat) \<le> of_char c \<and> (of_char c :: nat) \<le> of_char b) rs"

definition word_ranges :: "(char \<times> char) list" where
  "word_ranges = [(CHR ''A'', CHR ''Z''), (CHR ''a'', CHR ''z''), (CHR ''0'', CHR ''9''), (CHR ''_'', CHR ''_'')]"

definition is_word :: "char option \<Rightarrow> bool" where
  "is_word c = (case c of None \<Rightarrow> False | Some c \<Rightarrow> in_ranges word_ranges c)"

text \<open>The spaces of \<open>\s\<close> among the code units 0 to 255: tab to carriage return, the space and the no-break space.\<close>

definition space_ranges :: "(char \<times> char) list" where
  "space_ranges = [(CHR 0x09, CHR 0x0D), (CHR '' '', CHR '' ''), (CHR 0xA0, CHR 0xA0)]"

section \<open>Matching\<close>

fun next_char :: "string \<Rightarrow> char option" where
  "next_char [] = None"
| "next_char (c # s) = Some c"

text \<open>Repetition: an iteration that consumes nothing is not taken.\<close>

fun star_ends :: "nat \<Rightarrow> (position \<Rightarrow> position list) \<Rightarrow> position \<Rightarrow> position list" where
  "star_ends 0 f x = [x]"
| "star_ends (Suc n) f x =
     x # concat (map (star_ends n f) (filter (\<lambda>y. length (snd y) < length (snd x)) (f x)))"

primrec ends :: "rx \<Rightarrow> position \<Rightarrow> position list" where
  "ends Eps = (\<lambda>x. [x])"
| "ends (One b rs) = (\<lambda>(p, s). case s of [] \<Rightarrow> [] | c # t \<Rightarrow> if in_ranges rs c = b then [(Some c, t)] else [])"
| "ends (Cat r q) = (\<lambda>x. concat (map (ends q) (ends r x)))"
| "ends (Or r q) = (\<lambda>x. ends r x @ ends q x)"
| "ends (Star r) = (\<lambda>x. star_ends (length (snd x)) (ends r) x)"
| "ends Bol = (\<lambda>(p, s). if p = None then [(p, s)] else [])"
| "ends Eol = (\<lambda>(p, s). if s = [] then [(p, s)] else [])"
| "ends Wordb = (\<lambda>(p, s). if is_word p \<noteq> is_word (next_char s) then [(p, s)] else [])"
| "ends (NotAhead r) = (\<lambda>x. if ends r x = [] then [x] else [])"

fun rx_search :: "rx \<Rightarrow> char option \<Rightarrow> string \<Rightarrow> bool" where
  "rx_search r p [] = (ends r (p, []) \<noteq> [])"
| "rx_search r p (c # s) = (ends r (p, c # s) \<noteq> [] \<or> rx_search r (Some c) s)"

text \<open>\<open>r.test(s)\<close>.\<close>

definition rx_test :: "rx \<Rightarrow> string \<Rightarrow> bool" where
  "rx_test r s = rx_search r None s"

section \<open>Building expressions\<close>

definition cats :: "rx list \<Rightarrow> rx" where
  "cats rs = foldr Cat rs Eps"

definition lit :: "string \<Rightarrow> rx" where
  "lit s = cats (map (\<lambda>c. One True [(c, c)]) s)"

definition both_cases :: "char \<Rightarrow> (char \<times> char) list" where
  "both_cases c = (let n = of_char c :: nat in
     if 97 \<le> n \<and> n \<le> 122 then [(c, c), (char_of (n - 32), char_of (n - 32))]
     else if 65 \<le> n \<and> n \<le> 90 then [(c, c), (char_of (n + 32), char_of (n + 32))] else [(c, c)])"

text \<open>A literal under the \<open>i\<close> flag.\<close>

definition lit_i :: "string \<Rightarrow> rx" where
  "lit_i s = cats (map (\<lambda>c. One True (both_cases c)) s)"

fun ors :: "rx list \<Rightarrow> rx" where
  "ors [] = NotAhead Eps"
| "ors [r] = r"
| "ors (r # q # rs) = Or r (ors (q # rs))"

definition opt_rx :: "rx \<Rightarrow> rx" where
  "opt_rx r = Or r Eps"

definition times_rx :: "nat \<Rightarrow> rx \<Rightarrow> rx" where
  "times_rx n r = cats (replicate n r)"

definition at_least :: "nat \<Rightarrow> rx \<Rightarrow> rx" where
  "at_least n r = Cat (times_rx n r) (Star r)"

definition plus_rx :: "rx \<Rightarrow> rx" where
  "plus_rx r = Cat r (Star r)"

text \<open>\<open>\s\<close>, \<open>\S\<close>, \<open>.\<close> and the one-character class.\<close>

definition space_rx :: rx where "space_rx = One True space_ranges"
definition nonspace_rx :: rx where "nonspace_rx = One False space_ranges"
definition dot_rx :: rx where "dot_rx = One False [(CHR 0x0A, CHR 0x0A), (CHR 0x0D, CHR 0x0D)]"
definition any_of :: "string \<Rightarrow> rx" where "any_of cs = One True (map (\<lambda>c. (c, c)) cs)"

section \<open>What a match is\<close>

inductive rx_match :: "rx \<Rightarrow> position \<Rightarrow> position \<Rightarrow> bool" where
  eps: "rx_match Eps x x"
| one: "in_ranges rs c = b \<Longrightarrow> rx_match (One b rs) (p, c # t) (Some c, t)"
| cat: "rx_match r x y \<Longrightarrow> rx_match q y z \<Longrightarrow> rx_match (Cat r q) x z"
| or1: "rx_match r x y \<Longrightarrow> rx_match (Or r q) x y"
| or2: "rx_match q x y \<Longrightarrow> rx_match (Or r q) x y"
| star0: "rx_match (Star r) x x"
| star1: "rx_match r x y \<Longrightarrow> rx_match (Star r) y z \<Longrightarrow> rx_match (Star r) x z"
| bol: "rx_match Bol (None, s) (None, s)"
| eol: "rx_match Eol (p, []) (p, [])"
| wordb: "is_word p \<noteq> is_word (next_char s) \<Longrightarrow> rx_match Wordb (p, s) (p, s)"
| not_ahead: "ends r x = [] \<Longrightarrow> rx_match (NotAhead r) x x"

inductive_cases eps_match: "rx_match Eps x y"
inductive_cases one_match: "rx_match (One b rs) x y"
inductive_cases cat_match: "rx_match (Cat r q) x y"
inductive_cases or_match: "rx_match (Or r q) x y"
inductive_cases bol_match: "rx_match Bol x y"
inductive_cases eol_match: "rx_match Eol x y"
inductive_cases wordb_match: "rx_match Wordb x y"
inductive_cases not_ahead_match: "rx_match (NotAhead r) x y"

text \<open>A match consumes characters from the left: the end is determined by what is left of the text.\<close>

lemma match_progress: "rx_match r x y \<Longrightarrow> y = x \<or> length (snd y) < length (snd x)"
  by (induction rule: rx_match.induct) auto

lemma star_ends_sound:
  assumes "\<And>x y. y \<in> set (f x) \<Longrightarrow> rx_match r x y"
  shows "y \<in> set (star_ends n f x) \<Longrightarrow> rx_match (Star r) x y"
proof (induction n arbitrary: x)
  case 0
  then show ?case by (simp add: rx_match.star0)
next
  case (Suc n)
  from Suc.prems have "y = x \<or> (\<exists>z. z \<in> set (f x) \<and> y \<in> set (star_ends n f z))" by auto
  with Suc.IH assms show ?case by (metis rx_match.star0 rx_match.star1)
qed

lemma star_ends_complete:
  assumes "\<And>x y. rx_match r x y \<Longrightarrow> y \<in> set (f x)"
  shows "rx_match (Star r) x y \<Longrightarrow> length (snd x) \<le> n \<Longrightarrow> y \<in> set (star_ends n f x)"
proof (induction "Star r" x y arbitrary: n rule: rx_match.induct)
  case (star0 x)
  then show ?case by (cases n) simp_all
next
  case (star1 x y z)
  show ?case
  proof (cases "y = x")
    case True
    with star1 show ?thesis by blast
  next
    case False
    with match_progress [OF star1.hyps(1)] have l: "length (snd y) < length (snd x)" by simp
    with star1.prems obtain m where n: "n = Suc m" and "length (snd y) \<le> m" by (cases n) auto
    with star1.hyps(4) have z: "z \<in> set (star_ends m f y)" by simp
    from l assms [OF star1.hyps(1)] have "y \<in> set (filter (\<lambda>y. length (snd y) < length (snd x)) (f x))" by simp
    with z have "z \<in> set (concat (map (star_ends m f) (filter (\<lambda>y. length (snd y) < length (snd x)) (f x))))"
      unfolding set_concat set_map by blast
    with n show ?thesis by simp
  qed
qed

lemma ends_are_matches: "y \<in> set (ends r x) \<longleftrightarrow> rx_match r x y"
proof (induction r arbitrary: x y)
  case Eps
  then show ?case by (auto intro: rx_match.eps elim: eps_match)
next
  case (One b rs)
  then show ?case by (auto intro: rx_match.one elim: one_match split: prod.splits list.splits if_splits)
next
  case (Cat r q)
  have "y \<in> set (ends (Cat r q) x) \<longleftrightarrow> (\<exists>z \<in> set (ends r x). y \<in> set (ends q z))" by simp
  also have "\<dots> \<longleftrightarrow> (\<exists>z. rx_match r x z \<and> rx_match q z y)" unfolding Bex_def Cat.IH ..
  also have "\<dots> \<longleftrightarrow> rx_match (Cat r q) x y" by (metis cat_match rx_match.cat)
  finally show ?case .
next
  case (Or r q)
  then show ?case by (auto intro: rx_match.or1 rx_match.or2 elim: or_match)
next
  case (Star r)
  have "y \<in> set (ends (Star r) x) \<longleftrightarrow> y \<in> set (star_ends (length (snd x)) (ends r) x)" by simp
  also have "\<dots> \<longleftrightarrow> rx_match (Star r) x y"
    using star_ends_sound [of "ends r" r y "length (snd x)" x] star_ends_complete [of r "ends r" x y "length (snd x)"]
    unfolding Star.IH by blast
  finally show ?case .
next
  case Bol
  then show ?case by (auto intro: rx_match.bol elim: bol_match split: prod.splits if_splits)
next
  case Eol
  then show ?case by (auto intro: rx_match.eol elim: eol_match split: prod.splits if_splits)
next
  case Wordb
  then show ?case by (auto intro: rx_match.wordb elim: wordb_match split: prod.splits if_splits)
next
  case (NotAhead r)
  then show ?case by (auto intro: rx_match.not_ahead elim: not_ahead_match)
qed

lemma ends_nonempty: "ends r x \<noteq> [] \<longleftrightarrow> (\<exists>y. rx_match r x y)"
  by (metis ends_are_matches last_in_set list.set_cases neq_Nil_conv list.set_intros(1))

section \<open>Tests\<close>

text \<open>The preceding character of a position after a prefix.\<close>

definition before :: "string \<Rightarrow> char option \<Rightarrow> char option" where
  "before u p = (if u = [] then p else Some (last u))"

lemma split_Cons: "(\<exists>u v. c # s = u @ v \<and> P u v) \<longleftrightarrow> P [] (c # s) \<or> (\<exists>u v. s = u @ v \<and> P (c # u) v)"
  by (auto simp: Cons_eq_append_conv)

lemma search_iff: "rx_search r p s \<longleftrightarrow> (\<exists>u v y. s = u @ v \<and> rx_match r (before u p, v) y)"
proof (induction s arbitrary: p)
  case Nil
  then show ?case by (simp add: ends_nonempty before_def)
next
  case (Cons c s)
  have step: "before (c # u) p = before u (Some c)" for u by (simp add: before_def)
  have "(\<exists>u v y. c # s = u @ v \<and> rx_match r (before u p, v) y)
      \<longleftrightarrow> (\<exists>u v. c # s = u @ v \<and> (\<exists>y. rx_match r (before u p, v) y))" by blast
  also have "\<dots> \<longleftrightarrow> (\<exists>y. rx_match r (p, c # s) y) \<or> (\<exists>u v. s = u @ v \<and> (\<exists>y. rx_match r (before u (Some c), v) y))"
    unfolding split_Cons step by (simp add: before_def)
  also have "\<dots> \<longleftrightarrow> rx_search r p (c # s)" unfolding rx_search.simps ends_nonempty Cons.IH by blast
  finally show ?case ..
qed

lemma rx_test_iff: "rx_test r s \<longleftrightarrow> (\<exists>u v y. s = u @ v \<and> rx_match r (before u None, v) y)"
  by (simp add: rx_test_def search_iff)

lemma in_ranges_self [simp]: "in_ranges ((c, c) # rs) c"
  by (simp add: in_ranges_def)

lemma match_lit: "rx_match (lit u) (p, u @ v) (before u p, v)"
proof (induction u arbitrary: p)
  case Nil
  then show ?case by (simp add: lit_def cats_def before_def rx_match.eps)
next
  case (Cons c u)
  have "before (c # u) p = before u (Some c)" by (simp add: before_def)
  with rx_match.cat [OF rx_match.one [of "[(c, c)]" c True p "u @ v"] Cons.IH [of "Some c"]]
  show ?case by (simp add: lit_def cats_def)
qed

lemma match_times_one:
  "list_all (\<lambda>c. in_ranges rs c = b) u \<Longrightarrow>
   rx_match (times_rx (length u) (One b rs)) (p, u @ v) (before u p, v)"
proof (induction u arbitrary: p)
  case Nil
  then show ?case by (simp add: times_rx_def cats_def before_def rx_match.eps)
next
  case (Cons c u)
  have "before (c # u) p = before u (Some c)" by (simp add: before_def)
  with Cons rx_match.cat [OF rx_match.one [of rs c b p "u @ v"] Cons.IH [of "Some c"]]
  show ?case by (simp add: times_rx_def cats_def)
qed

section \<open>Characters a match cannot do without\<close>

fun must :: "rx \<Rightarrow> (char \<times> char) list list" where
  "must (One True rs) = [rs]"
| "must (Cat r q) = must r @ must q"
| "must _ = []"

lemma match_suffix: "rx_match r x y \<Longrightarrow> set (snd y) \<subseteq> set (snd x)"
  by (induction rule: rx_match.induct) auto

lemma match_must: "rx_match r x y \<Longrightarrow> rs \<in> set (must r) \<Longrightarrow> \<exists>c \<in> set (snd x). in_ranges rs c"
proof (induction rule: rx_match.induct)
  case (one rs' c b p t)
  then show ?case by (cases b) auto
next
  case (cat r x y q z)
  then show ?case using match_suffix [OF cat.hyps(1)] by auto
qed auto

lemma test_must: "rx_test r s \<Longrightarrow> rs \<in> set (must r) \<Longrightarrow> \<exists>c \<in> set s. in_ranges rs c"
  unfolding rx_test_iff using match_must by fastforce

lemma test_misses: "list_ex (\<lambda>rs. \<not> list_ex (in_ranges rs) s) (must r) \<Longrightarrow> \<not> rx_test r s"
  using test_must by (fastforce simp: list_ex_iff)

lemma must_cats: "must (cats rs) = concat (map must rs)"
  by (induction rs) (simp_all add: cats_def)

lemma must_lit: "must (lit w) = map (\<lambda>c. [(c, c)]) w"
  by (simp add: lit_def must_cats comp_def)

lemma in_ranges_single: "in_ranges [(a, a)] c \<longleftrightarrow> c = a"
  by (auto simp: in_ranges_def dest: order_antisym)

lemma in_ranges_each: "in_ranges (map (\<lambda>c. (c, c)) cs) c \<longleftrightarrow> c \<in> set cs"
  by (induction cs) (auto simp: in_ranges_def dest: order_antisym)

end
