(* ===== verification/HardGates.thy ===== *)
theory HardGates
  imports Regex
begin

text \<open>
  The deterministic gates in front of critical deployments (\<open>packages/core/src/safety/hard-gate-runner.ts\<close>):
  the parser of unified diffs, the five tables of patterns, each expression translated as it is written, and the
  five scans.  The entropy of a candidate secret is computed over the reals; the rounding of floating-point
  numbers is not modelled.
\<close>

section \<open>Lines of a diff\<close>

record diff_line =
  dl_file :: string
  dl_line :: int
  dl_content :: string

definition digit_ranges :: "(char \<times> char) list" where
  "digit_ranges = [(CHR ''0'', CHR ''9'')]"

text \<open>\<open>/^@@ -\d+(?:,\d+)? \+(\d+)/\<close> and its group.\<close>

definition after_digits :: "string \<Rightarrow> (string \<times> string) option" where
  "after_digits s = (if takeWhile is_digit s = [] then None else Some (takeWhile is_digit s, dropWhile is_digit s))"

definition hunk_start :: "string \<Rightarrow> nat option" where
  "hunk_start raw =
     (if \<not> starts_with raw ''@@ -'' then None
      else case after_digits (drop 4 raw) of
        None \<Rightarrow> None
      | Some (_, s) \<Rightarrow>
          (let s1 = (if starts_with s '','' then (case after_digits (drop 1 s) of Some (_, t) \<Rightarrow> t | None \<Rightarrow> s) else s)
           in if \<not> starts_with s1 '' +'' then None
              else case after_digits (drop 2 s1) of None \<Rightarrow> None | Some (n, _) \<Rightarrow> parse_nat n))"

fun parse_lines :: "string list \<Rightarrow> string \<Rightarrow> int \<Rightarrow> diff_line list" where
  "parse_lines [] currentFile currentLine = []"
| "parse_lines (raw # raws) currentFile currentLine =
     (if starts_with raw ''+++ b/'' then parse_lines raws (js_trim (drop 6 raw)) 0
      else if starts_with raw ''+++ '' then parse_lines raws (js_trim (drop 4 raw)) 0
      else case hunk_start raw of
        Some n \<Rightarrow> parse_lines raws currentFile (int n - 1)
      | None \<Rightarrow>
          (if starts_with raw ''+'' \<and> \<not> starts_with raw ''+++''
           then \<lparr>dl_file = currentFile, dl_line = currentLine + 1, dl_content = drop 1 raw\<rparr>
             # parse_lines raws currentFile (currentLine + 1)
           else if \<not> starts_with raw ''-'' then parse_lines raws currentFile (currentLine + 1)
           else parse_lines raws currentFile currentLine))"

definition diff_raws :: "string \<Rightarrow> string list" where
  "diff_raws diff = split_char CHR 0x0A diff"

definition parseDiffLines :: "string \<Rightarrow> diff_line list" where
  "parseDiffLines diff = parse_lines (diff_raws diff) '''' 0"

section \<open>Entropy\<close>

definition shannonEntropy :: "string \<Rightarrow> real" where
  "shannonEntropy s = - (\<Sum>c \<leftarrow> remdups s. (let p = real (count_list s c) / real (length s) in p * log 2 p))"

definition token_ranges :: "(char \<times> char) list" where
  "token_ranges = [(CHR ''A'', CHR ''Z''), (CHR ''a'', CHR ''z''), (CHR ''0'', CHR ''9''), (CHR ''+'', CHR ''+''),
     (CHR ''/'', CHR ''/''), (CHR ''-'', CHR ''-''), (CHR ''_'', CHR ''_'')]"

definition quote_rx :: rx where "quote_rx = opt_rx (any_of [CHR 0x22, CHR 0x27])"

definition spaces_rx :: rx where "spaces_rx = Star space_rx"

definition assignment_rx :: rx where
  "assignment_rx = cats [any_of ''=:'', spaces_rx, quote_rx, at_least 32 (One True token_ranges), quote_rx]"

text \<open>The group of \<open>/["']?([A-Za-z0-9+/\-_]{32,})["']?/\<close>: the first run of such characters that is long enough.\<close>

function first_run :: "string \<Rightarrow> string option" where
  "first_run s = (if s = [] then None
     else let run = takeWhile (in_ranges token_ranges) s
          in if 32 \<le> length run then Some run else first_run (drop (Suc (length run)) s))"
  by auto
termination by (relation "measure length") auto

declare first_run.simps [simp del]

definition isHighEntropyAssignment :: "string \<Rightarrow> bool" where
  "isHighEntropyAssignment line =
     (if \<not> rx_test assignment_rx line then False
      else case first_run line of
        None \<Rightarrow> False
      | Some candidate \<Rightarrow>
          (if 11 \<le> length (takeWhile (\<lambda>c. c = hd candidate) candidate) then False
           else if rx_test (cats [Bol, plus_rx (One True digit_ranges), lit ''.'', plus_rx (One True digit_ranges),
                                  lit ''.'', plus_rx (One True digit_ranges)]) candidate then False
           else shannonEntropy candidate > 4.5))"

section \<open>The tables\<close>

definition upper_digit :: "(char \<times> char) list" where
  "upper_digit = [(CHR ''0'', CHR ''9''), (CHR ''A'', CHR ''Z'')]"

definition alnum :: "(char \<times> char) list" where
  "alnum = [(CHR ''A'', CHR ''Z''), (CHR ''a'', CHR ''z''), (CHR ''0'', CHR ''9'')]"

definition SECRET_PATTERNS :: "(rx \<times> string \<times> bool) list" where
  "SECRET_PATTERNS = [
     (cats [lit ''AKIA'', times_rx 16 (One True upper_digit)], ''aws-access-key'', True),
     (cats [lit ''ASIA'', times_rx 16 (One True upper_digit)], ''aws-session-key'', True),
     (cats [lit ''-----BEGIN '', opt_rx (ors [lit ''RSA '', lit ''EC '', lit ''DSA '', lit ''OPENSSH '']), lit ''PRIVATE KEY-----''],
      ''private-key-pem'', True),
     (cats [lit ''gh'', any_of ''ps'', lit ''_'', at_least 36 (One True word_ranges)], ''github-token'', True),
     (cats [lit ''github_pat_'', at_least 22 (One True word_ranges)], ''github-fine-grained-pat'', True),
     (cats [lit ''xox'', any_of ''baprs'', lit ''-'', plus_rx (One True ((CHR ''-'', CHR ''-'') # alnum))], ''slack-token'', True),
     (cats [Bol, plus_rx (One True [(CHR ''A'', CHR ''Z''), (CHR ''_'', CHR ''_'')]), lit ''='',
            NotAhead (cats [lit ''${'', ors [lit ''SSM'', lit ''sm'', lit ''secrets''], lit '':'']),
            One False ((CHR ''$'', CHR ''$'') # space_ranges), plus_rx nonspace_rx, Eol], ''env-literal-secret'', True)]"

definition tf_file :: rx where "tf_file = cats [lit ''.tf'', Eol]"

definition quoted_resource :: "string \<Rightarrow> rx" where
  "quoted_resource t = cats [lit ''resource'', plus_rx space_rx, lit ([CHR 0x22] @ t @ [CHR 0x22]), plus_rx space_rx]"

definition eq_rx :: rx where "eq_rx = cats [spaces_rx, lit ''='', spaces_rx]"

definition json_wildcard :: "string \<Rightarrow> rx" where
  "json_wildcard k = cats [lit ([CHR 0x22] @ k @ [CHR 0x22]), spaces_rx, lit '':'', spaces_rx, lit [CHR 0x22, CHR ''*'', CHR 0x22]]"

definition INFRA_DESTRUCTION_PATTERNS :: "(rx \<times> string \<times> rx option) list" where
  "INFRA_DESTRUCTION_PATTERNS = [
     (Or (quoted_resource ''aws_rds_cluster'') (quoted_resource ''aws_db_instance''), ''tf-rds-modified'', Some tf_file),
     (quoted_resource ''aws_vpc'', ''tf-vpc-modified'', Some tf_file),
     (quoted_resource ''aws_s3_bucket'', ''tf-s3-bucket-modified'', Some tf_file),
     (cats [lit ''desired_count'', eq_rx, lit ''0''], ''ecs-scale-to-zero'',
      Some (ors [tf_file, cats [lit ''.yaml'', Eol], cats [lit ''.yml'', Eol]])),
     (cats [lit ''min_capacity'', eq_rx, lit ''0''], ''autoscaling-min-zero'', Some tf_file),
     (json_wildcard ''Action'', ''iam-action-wildcard'', None),
     (json_wildcard ''Resource'', ''iam-resource-wildcard'', None),
     (cats [lit ''cidr_blocks'', eq_rx, opt_rx (lit ''[''), spaces_rx, lit ([CHR 0x22] @ ''0.0.0.0/0'' @ [CHR 0x22])],
      ''open-cidr-ingress'', Some tf_file),
     (cats [lit ''from_port'', eq_rx, ors [lit ''22'', lit ''3389'', lit ''5432'', lit ''3306'', lit ''6379'', lit ''27017''], Wordb],
      ''sensitive-port-exposed'', Some tf_file)]"

definition slug_rx :: rx where
  "slug_rx = plus_rx (One True ((CHR ''-'', CHR ''-'') # word_ranges))"

definition CICD_TAMPER_PATTERNS :: "(rx \<times> string) list" where
  "CICD_TAMPER_PATTERNS = [
     (cats [lit ''uses:'', plus_rx space_rx, slug_rx, lit ''/'', slug_rx, lit ''@'',
            NotAhead (cats [times_rx 40 (One True [(CHR ''0'', CHR ''9''), (CHR ''a'', CHR ''f'')]), Wordb]), plus_rx nonspace_rx],
      ''unpinned-action''),
     (cats [lit ''permissions:'', spaces_rx, lit ''write-all''], ''permissions-write-all''),
     (cats [lit ''permissions:'', spaces_rx, lit [CHR 0x0A], plus_rx space_rx, plus_rx (One True word_ranges), lit '':'', spaces_rx,
            lit ''write''], ''broad-permissions''),
     (cats [lit ''on:'', spaces_rx, Star (One False []), lit ''pull_request_target''], ''pull-request-target''),
     (cats [lit ''curl'', plus_rx space_rx, Star dot_rx, lit ''|'', spaces_rx, ors [lit ''bash'', lit ''sh'']], ''curl-pipe-shell''),
     (cats [lit ''wget'', plus_rx space_rx, Star dot_rx, lit ''|'', spaces_rx, ors [lit ''bash'', lit ''sh'']], ''wget-pipe-shell''),
     (cats [lit ''.github/workflows/'', Star dot_rx, lit ''.y'', opt_rx (lit ''a''), lit ''ml''], ''self-modifying-workflow'')]"

definition aws_rx :: "string \<Rightarrow> string \<Rightarrow> rx" where
  "aws_rx service verb = cats [lit ''aws'', plus_rx space_rx, Star (Cat (plus_rx nonspace_rx) (plus_rx space_rx)), lit service,
     plus_rx space_rx, lit verb]"

definition IAM_WRITE_COMMANDS :: "(rx \<times> string \<times> rx option) list" where
  "IAM_WRITE_COMMANDS =
     map (\<lambda>verb. (aws_rx ''iam'' (verb @ ''-''), ''iam-'' @ verb @ ''-operation'', None))
       [''create'', ''attach'', ''detach'', ''put'', ''delete'', ''add'', ''remove'', ''update'', ''set'', ''tag'', ''untag'', ''upload'']
     @ [(Cat (aws_rx ''sts'' ''assume-role'') Wordb, ''sts-assume-role'', None),
        (cats [lit ''CAPABILITY_'', opt_rx (lit ''NAMED_''), lit ''IAM'', Wordb], ''cfn-capability-iam'', None),
        (cats [lit ''resource'', plus_rx space_rx, lit (CHR 0x22 # ''aws_iam_'')], ''tf-iam-resource'', Some tf_file)]"

definition sep_rx :: rx where "sep_rx = cats [spaces_rx, any_of ''=:'', spaces_rx]"
definition colon_rx :: rx where "colon_rx = cats [spaces_rx, lit '':'', spaces_rx]"

definition SECURITY_REGRESSION_PATTERNS :: "(rx \<times> string) list" where
  "SECURITY_REGRESSION_PATTERNS = [
     (cats [lit_i ''SKIP_AUTH'', sep_rx, ors [lit_i ''true'', lit ''1'', lit_i ''yes'']], ''skip-auth-flag''),
     (cats [lit_i ''DISABLE_AUTH'', sep_rx, ors [lit_i ''true'', lit ''1'', lit_i ''yes'']], ''disable-auth-flag''),
     (cats [lit_i ''AUTH_BYPASS'', sep_rx, ors [lit_i ''true'', lit ''1'', lit_i ''yes'']], ''auth-bypass-flag''),
     (cats [lit ''skipAuth'', sep_rx, lit ''true''], ''skip-auth-code''),
     (cats [lit ''bypassAuth'', sep_rx, lit ''true''], ''bypass-auth-code''),
     (cats [lit ''rejectUnauthorized'', colon_rx, lit ''false''], ''tls-reject-unauthorized-disabled''),
     (cats [lit ''NODE_TLS_REJECT_UNAUTHORIZED'', eq_rx, quote_rx, lit ''0'', quote_rx], ''node-tls-disabled''),
     (cats [lit_i ''verify'', eq_rx, lit_i ''False''], ''ssl-verify-disabled''),
     (cats [lit ''privileged'', colon_rx, lit ''true''], ''container-privileged''),
     (cats [lit ''runAsUser'', colon_rx, lit ''0'', Wordb], ''container-run-as-root''),
     (lit ''CAP_SYS_ADMIN'', ''cap-sys-admin''),
     (cats [lit_i ''encryption_disabled'', sep_rx, ors [lit_i ''true'', lit ''1'']], ''encryption-disabled''),
     (cats [lit ''StorageEncrypted'', colon_rx, lit ''false''], ''rds-encryption-disabled'')]"

definition IAM_CLI_SCOPE :: rx where
  "IAM_CLI_SCOPE = ors [
     cats [lit ''.'', ors [lit ''sh'', lit ''yml'', lit ''yaml''], Eol],
     cats [Or Bol (lit ''/''), lit ''Dockerfile'', Or (lit ''.'') Eol],
     cats [Or Bol (lit ''/''), lit ''Makefile'', Or (lit ''.'') Eol]]"

section \<open>The gates\<close>

record violation =
  v_file :: string
  v_line :: int
  v_pattern :: string
  v_snippet :: string

record gate_result =
  gate_name :: string
  gate_passed :: bool
  gate_violations :: "violation list"

definition violates :: "string \<Rightarrow> string \<Rightarrow> diff_line \<Rightarrow> violation" where
  "violates pat snippet l = \<lparr>v_file = dl_file l, v_line = dl_line l, v_pattern = pat, v_snippet = snippet\<rparr>"

definition plain_violation :: "string \<Rightarrow> diff_line \<Rightarrow> violation" where
  "plain_violation pat l = violates pat (take 120 (dl_content l)) l"

definition gate :: "string \<Rightarrow> violation list \<Rightarrow> gate_result" where
  "gate n vs = \<lparr>gate_name = n, gate_passed = (vs = []), gate_violations = vs\<rparr>"

definition runSecretsGate :: "diff_line list \<Rightarrow> gate_result" where
  "runSecretsGate ls = gate ''secrets'' (concat (map (\<lambda>l.
     List.map_filter (\<lambda>(r, n, redact). if rx_test r (dl_content l)
         then Some (violates n (if redact then ''[REDACTED]'' else take 120 (dl_content l)) l) else None) SECRET_PATTERNS
     @ (if isHighEntropyAssignment (dl_content l) then [violates ''high-entropy-assignment'' ''[REDACTED]'' l] else [])) ls))"

definition runInfraDestructionGate :: "diff_line list \<Rightarrow> gate_result" where
  "runInfraDestructionGate ls = gate ''infra-destruction'' (concat (map (\<lambda>l.
     List.map_filter (\<lambda>(r, n, filter). if (case filter of Some f \<Rightarrow> \<not> rx_test f (dl_file l) | None \<Rightarrow> False) then None
         else if rx_test r (dl_content l) then Some (plain_violation n l) else None) INFRA_DESTRUCTION_PATTERNS) ls))"

definition remote_exec :: "string \<Rightarrow> bool" where
  "remote_exec n \<longleftrightarrow> n = ''curl-pipe-shell'' \<or> n = ''wget-pipe-shell''"

definition cicd_file :: "string \<Rightarrow> bool" where
  "cicd_file f \<longleftrightarrow> starts_with f ''.github/workflows/'' \<or> starts_with f ''.github/actions/''"

definition runCicdTamperGate :: "diff_line list \<Rightarrow> gate_result" where
  "runCicdTamperGate ls = gate ''cicd-tamper''
     (concat (map (\<lambda>l. List.map_filter (\<lambda>(r, n). if remote_exec n then None
          else if rx_test r (dl_content l) then Some (plain_violation n l) else None) CICD_TAMPER_PATTERNS)
        (filter (\<lambda>l. cicd_file (dl_file l)) ls))
      @ concat (map (\<lambda>l. List.map_filter (\<lambda>(r, n). if \<not> remote_exec n then None
          else if rx_test r (dl_content l) then Some (plain_violation n l) else None) CICD_TAMPER_PATTERNS) ls))"

definition runSecurityRegressionGate :: "diff_line list \<Rightarrow> gate_result" where
  "runSecurityRegressionGate ls = gate ''security-regression'' (concat (map (\<lambda>l.
     List.map_filter (\<lambda>(r, n). if rx_test r (dl_content l) then Some (plain_violation n l) else None)
       SECURITY_REGRESSION_PATTERNS) ls))"

definition runIamPrivilegeEscalationGate :: "diff_line list \<Rightarrow> gate_result" where
  "runIamPrivilegeEscalationGate ls = gate ''iam-privilege-escalation'' (concat (map (\<lambda>l.
     List.map_filter (\<lambda>(r, n, filter).
         if \<not> rx_test (case filter of Some f \<Rightarrow> f | None \<Rightarrow> IAM_CLI_SCOPE) (dl_file l) then None
         else if rx_test r (dl_content l) then Some (plain_violation n l) else None) IAM_WRITE_COMMANDS) ls))"

definition hard_gates :: "string \<Rightarrow> gate_result list" where
  "hard_gates diff = (let ls = parseDiffLines diff in
     [runSecretsGate ls, runInfraDestructionGate ls, runCicdTamperGate ls, runSecurityRegressionGate ls,
      runIamPrivilegeEscalationGate ls])"

definition hard_gates_passed :: "string \<Rightarrow> bool" where
  "hard_gates_passed diff = list_all gate_passed (hard_gates diff)"

end
