(* ===== verification/RiskClassifier.thy ===== *)
theory RiskClassifier
  imports Regex
begin

text \<open>
  The risk of a deployment from the paths it changes (\<open>packages/core/src/deploy/risk-classifier.ts\<close> and
  \<open>risk-integration.ts\<close>): the tables of expressions, the classification of one path, the loop over all of
  them with its short circuit, and what the assessment is told.  The loop is shown to compute the highest tier.
\<close>

datatype file_risk = LOW | MEDIUM | HIGH | CRITICAL

fun risk_value :: "file_risk \<Rightarrow> nat" where
  "risk_value LOW = 0"
| "risk_value MEDIUM = 1"
| "risk_value HIGH = 2"
| "risk_value CRITICAL = 3"

lemma risk_value_inj: "risk_value a = risk_value b \<Longrightarrow> a = b"
  by (cases a; cases b) auto

text \<open>The order of the enumeration's numbers.\<close>

instantiation file_risk :: linorder
begin

definition less_eq_file_risk :: "file_risk \<Rightarrow> file_risk \<Rightarrow> bool" where
  "less_eq_file_risk a b \<longleftrightarrow> risk_value a \<le> risk_value b"

definition less_file_risk :: "file_risk \<Rightarrow> file_risk \<Rightarrow> bool" where
  "less_file_risk a b \<longleftrightarrow> risk_value a < risk_value b"

instance
  by standard (auto simp: less_eq_file_risk_def less_file_risk_def dest: risk_value_inj)

end

definition RISK_TIER_LABELS :: "file_risk \<Rightarrow> string" where
  "RISK_TIER_LABELS t = (case t of LOW \<Rightarrow> ''low'' | MEDIUM \<Rightarrow> ''medium'' | HIGH \<Rightarrow> ''high'' | CRITICAL \<Rightarrow> ''critical'')"

section \<open>The tables\<close>

definition exactly :: "string \<Rightarrow> rx" where
  "exactly s = cats [Bol, lit s, Eol]"

definition under :: "string \<Rightarrow> rx" where
  "under s = Cat Bol (lit s)"

definition extension_i :: "string \<Rightarrow> rx" where
  "extension_i s = cats [lit ''.'', lit_i s, Eol]"

definition CRITICAL_PATTERNS :: "rx list" where
  "CRITICAL_PATTERNS = [extension_i ''pem'', extension_i ''key'', exactly ''.env'',
     cats [Bol, lit ''.env.'', NotAhead (Cat (lit ''example'') Eol)], lit_i ''secret'', lit_i ''credential'', under ''infrastructure/'']"

definition LOW_PATTERNS :: "rx list" where
  "LOW_PATTERNS = [extension_i ''md'', under ''docs/'', under ''prompts/'', under ''skills/'', exactly ''LICENSE'', exactly ''CODEOWNERS'',
     exactly ''.gitignore'', exactly ''CLAUDE.md'', under ''.claude/'']"

definition MEDIUM_PATTERNS :: "rx list" where
  "MEDIUM_PATTERNS = [exactly ''.env.example'', cats [Bol, lit ''departments/'', Star dot_rx, lit ''.yaml'', Eol],
     under ''.prettierrc'', under ''.eslintrc'']"

section \<open>Classification\<close>

definition classifyFile :: "string \<Rightarrow> file_risk" where
  "classifyFile path =
     (if list_ex (\<lambda>r. rx_test r path) CRITICAL_PATTERNS then CRITICAL
      else if list_ex (\<lambda>r. rx_test r path) LOW_PATTERNS then LOW
      else if list_ex (\<lambda>r. rx_test r path) MEDIUM_PATTERNS then MEDIUM
      else HIGH)"

fun highest_risk :: "file_risk \<Rightarrow> string list \<Rightarrow> file_risk" where
  "highest_risk highest [] = highest"
| "highest_risk highest (f # fs) =
     (let tier = classifyFile f; h = (if tier > highest then tier else highest)
      in if h = CRITICAL then h else highest_risk h fs)"

definition classifyDeploymentRisk :: "string list \<Rightarrow> file_risk" where
  "classifyDeploymentRisk files = (if files = [] then HIGH else highest_risk LOW files)"

datatype repo_tier = Tier_auto | Tier_guarded | Tier_critical

record risk_assessment =
  skipAssessment :: bool
  requireHuman :: bool
  ra_notify :: bool
  ra_approved :: bool
  ra_riskTier :: string
  repoRiskTier :: repo_tier

definition mapToRepoRiskTier :: "file_risk \<Rightarrow> repo_tier" where
  "mapToRepoRiskTier t = (case t of LOW \<Rightarrow> Tier_auto | MEDIUM \<Rightarrow> Tier_auto | HIGH \<Rightarrow> Tier_guarded | CRITICAL \<Rightarrow> Tier_critical)"

definition assessDeploymentRisk :: "string list \<Rightarrow> risk_assessment" where
  "assessDeploymentRisk files =
     (let tier = classifyDeploymentRisk files;
          result = (\<lambda>skip inform ok. \<lparr>skipAssessment = skip, requireHuman = False, ra_notify = inform, ra_approved = ok,
             ra_riskTier = RISK_TIER_LABELS tier, repoRiskTier = mapToRepoRiskTier tier\<rparr>)
      in case tier of
        LOW \<Rightarrow> result True False True
      | MEDIUM \<Rightarrow> result True True True
      | HIGH \<Rightarrow> result False False False
      | CRITICAL \<Rightarrow> result False False False)"

section \<open>The highest tier\<close>

lemma risk_le_CRITICAL [simp]: "t \<le> CRITICAL" "LOW \<le> t"
  by (cases t; simp add: less_eq_file_risk_def)+

lemma risk_max_CRITICAL [simp]: "max CRITICAL t = CRITICAL" "max LOW t = t"
  by (simp_all add: max_def order.antisym)

lemma highest_risk_max: "highest_risk h fs = fold max (map classifyFile fs) h"
proof (induction fs arbitrary: h)
  case Nil
  then show ?case by simp
next
  case (Cons f fs)
  have stays: "fold max ts CRITICAL = CRITICAL" for ts by (induction ts) simp_all
  have "(if classifyFile f > h then classifyFile f else h) = max (classifyFile f) h" by (auto simp: max_def)
  with Cons stays show ?case by (simp add: Let_def)
qed

lemma fold_max_Max: "fold max ts t = Max (insert t (set ts))" for t :: file_risk
  by (simp add: Max.set_eq_fold [symmetric])

lemma classify_is_Max: "files \<noteq> [] \<Longrightarrow> classifyDeploymentRisk files = Max (classifyFile ` set files)"
proof -
  assume ne: "files \<noteq> []"
  then have "classifyDeploymentRisk files = Max (insert LOW (classifyFile ` set files))"
    by (simp add: classifyDeploymentRisk_def highest_risk_max fold_max_Max)
  also have "\<dots> = max LOW (Max (classifyFile ` set files))" using ne by (intro Max_insert) auto
  finally show ?thesis by simp
qed

text \<open>
  The risk of a deployment is the highest tier among its files, in whatever order they are listed and although
  the loop stops at the first critical one; and the assessment approves on its own exactly when there are
  files and each of them is documentation or configuration, so that one source file or secret is enough to require a
  review.
\<close>

theorem deployment_risk_is_highest:
  assumes "files \<noteq> []"
  shows "classifyDeploymentRisk files = Max (classifyFile ` set files)
    \<and> (ra_approved (assessDeploymentRisk files) \<longleftrightarrow> (\<forall>f \<in> set files. classifyFile f = LOW \<or> classifyFile f = MEDIUM))"
proof
  show m: "classifyDeploymentRisk files = Max (classifyFile ` set files)" by (rule classify_is_Max [OF assms])
  have "ra_approved (assessDeploymentRisk files) \<longleftrightarrow> classifyDeploymentRisk files \<le> MEDIUM"
    by (cases "classifyDeploymentRisk files") (simp_all add: assessDeploymentRisk_def less_eq_file_risk_def Let_def)
  also have "\<dots> \<longleftrightarrow> (\<forall>f \<in> set files. classifyFile f \<le> MEDIUM)" unfolding m using assms by (subst Max_le_iff) auto
  also have "\<dots> \<longleftrightarrow> (\<forall>f \<in> set files. classifyFile f = LOW \<or> classifyFile f = MEDIUM)"
  proof (intro ball_cong refl)
    show "classifyFile f \<le> MEDIUM \<longleftrightarrow> classifyFile f = LOW \<or> classifyFile f = MEDIUM" for f
      by (cases "classifyFile f") (simp_all add: less_eq_file_risk_def)
  qed
  finally show "ra_approved (assessDeploymentRisk files)
    \<longleftrightarrow> (\<forall>f \<in> set files. classifyFile f = LOW \<or> classifyFile f = MEDIUM)" .
qed

theorem deployment_risk_is_highest_witness:
  "classifyDeploymentRisk [''docs/a.txt'', ''.env.example'', ''src/My-Secret.ts'']
      = Max (classifyFile ` set [''docs/a.txt'', ''.env.example'', ''src/My-Secret.ts''])
    \<and> (ra_approved (assessDeploymentRisk [''docs/a.txt'', ''.env.example'', ''src/My-Secret.ts''])
       \<longleftrightarrow> (\<forall>f \<in> set [''docs/a.txt'', ''.env.example'', ''src/My-Secret.ts'']. classifyFile f = LOW \<or> classifyFile f = MEDIUM))"
  by (rule deployment_risk_is_highest) simp

end
