(* ===== verification/Deploy.thy ===== *)
theory Deploy
  imports Mongo Redis RiskClassifier HardGates
begin

text \<open>
  Deployments (\<open>packages/core/src/actions/deploy/index.ts\<close>, \<open>types.ts\<close>, \<open>ecs.ts\<close> and the deployment records of
  \<open>logging/audit.ts\<close>): the assessment, the architect's decision, the execution and the canary.

  The assessment is split at its awaits, the architect's decision at the await between its read and its write, the execution at the awaits
  after its read and around the deployment itself, so that calls can be interleaved; the composition of the parts
  is the call alone.  Slack messages, log lines and the health check after a deployment are left out: nothing
  depends on them.  What the platforms answer is an argument.
\<close>

section \<open>Data\<close>

definition VALID_ENVIRONMENTS :: "string list" where
  "VALID_ENVIRONMENTS = [''dev'', ''staging'', ''production'']"

definition ASSESS_DEDUP_TTL :: int where "ASSESS_DEDUP_TTL = 30 * 60"
definition CRITICAL_ASSESS_DEDUP_TTL :: int where "CRITICAL_ASSESS_DEDUP_TTL = 2 * 60 * 60"
definition DEPLOY_LOCK_TTL :: int where "DEPLOY_LOCK_TTL = 15 * 60"
definition STALE_DEPLOYMENT_THRESHOLD_MS :: int where "STALE_DEPLOYMENT_THRESHOLD_MS = 2 * 60 * 60 * 1000"

definition DOCS_ONLY_EXACT :: "string list" where
  "DOCS_ONLY_EXACT = [''LICENSE'', ''CODEOWNERS'', ''.gitignore'']"

definition DOCS_ONLY_DIRS :: "string list" where
  "DOCS_ONLY_DIRS = [''docs/'', ''prompts/'', ''skills/'']"

definition isDocsOnlyFile :: "string \<Rightarrow> bool" where
  "isDocsOnlyFile filename \<longleftrightarrow> ends_with filename ''.md'' \<or> filename \<in> set DOCS_ONLY_EXACT
     \<or> list_ex (\<lambda>d. starts_with filename d) DOCS_ONLY_DIRS"

datatype deploy_status = Dep_pending | Dep_approved | Dep_rejected | Dep_deployed | Dep_failed | Dep_rolled_back

record deployment =
  dep_id :: string
  dep_repo :: string
  dep_environment :: string
  dep_risk_tier :: repo_tier
  dep_pr_url :: "string option"
  dep_commit_sha :: "string option"
  dep_status :: deploy_status
  dep_layer2_safe :: "bool option"
  dep_deployed_at :: "string option"
  dep_rolled_back_at :: "string option"
  dep_error :: "string option"
  dep_correlationId :: "string option"
  dep_storedAt :: string

record repo_config =
  rc_risk_tier :: repo_tier
  rc_type :: string
  rc_health_check_url :: "string option"

record assess_params =
  as_repo :: string
  as_environment :: string
  as_pr_url :: "string option"
  as_commit_sha :: "string option"
  as_diff_summary :: string
  as_diff_patches :: "string option"
  as_files_changed :: "string list"
  as_correlationId :: "string option"

record execute_params =
  ex_repo :: string
  ex_environment :: string
  ex_deployment_id :: string
  ex_commit_sha :: "string option"
  ex_skipDodChecks :: "string list"

text \<open>The events the executor publishes, with the deployment they name.\<close>

datatype deploy_event = Ev_review string | Ev_approved string | Ev_blocked string | Ev_canary_rollback string

record ('c, 's) deploys =
  ds_col :: 'c
  ds_redis :: 's
  ds_events :: "deploy_event list"

record ('c, 's) deploy_deps =
  dd_mongo :: "('c, deployment) mongo"
  dd_redis :: "'s redis option"
  dd_registry :: "string \<Rightarrow> repo_config option"
  dd_bus :: bool

datatype deploy_error =
    Missing_parameters
  | Invalid_environment string
  | Repo_not_found string
  | Deployment_not_found string
  | Not_pending_any_more deploy_status
  | Not_approved_yet deploy_status
  | Approved_for_other string string
  | Deploy_in_progress string
  | Dod_not_met "string list"
  | Hard_gates_blocked string
  | Type_none
  | Unknown_type string
  | Deployment_failed string
  | Store_rejected

datatype deploy_result =
    Duplicate_skipped string
  | Assessed_approved string
  | Awaiting_review string
  | Decided string bool
  | Deployed string

section \<open>Records\<close>

definition recordDeployment :: "('c, 's) deploy_deps \<Rightarrow> deployment \<Rightarrow> ('c, 's) deploys \<Rightarrow> ('c, 's) deploys option" where
  "recordDeployment D r w = map_option (\<lambda>c. w\<lparr>ds_col := c\<rparr>) (insertOne (dd_mongo D) r (ds_col w))"

definition updateDeployment ::
  "('c, 's) deploy_deps \<Rightarrow> string \<Rightarrow> (deployment \<Rightarrow> deployment) \<Rightarrow> ('c, 's) deploys \<Rightarrow> ('c, 's) deploys" where
  "updateDeployment D i u w = w\<lparr>ds_col := snd (updateOne (dd_mongo D) (\<lambda>d. dep_id d = i) u (ds_col w))\<rparr>"

definition getDeployment :: "('c, 's) deploy_deps \<Rightarrow> string \<Rightarrow> ('c, 's) deploys \<Rightarrow> deployment option" where
  "getDeployment D i w = findOne (dd_mongo D) (\<lambda>d. dep_id d = i) (ds_col w)"

definition getDeploymentHistory :: "('c, 's) deploy_deps \<Rightarrow> string \<Rightarrow> nat \<Rightarrow> ('c, 's) deploys \<Rightarrow> deployment list" where
  "getDeploymentHistory D repo limit w =
     take limit (rev (sort_key dep_storedAt (find_all (dd_mongo D) (\<lambda>d. dep_repo d = repo) (ds_col w))))"

text \<open>Texts of dates compare like the dates.\<close>

definition clearPendingDeployments :: "('c, 's) deploy_deps \<Rightarrow> string \<Rightarrow> string \<Rightarrow> ('c, 's) deploys \<Rightarrow> nat \<times> ('c, 's) deploys" where
  "clearPendingDeployments D reason cutoffIso w =
     (let (n, c) = updateMany (dd_mongo D) (\<lambda>d. dep_status d = Dep_pending \<and> dep_storedAt d < cutoffIso)
            (\<lambda>d. d\<lparr>dep_status := Dep_rejected, dep_error := Some reason\<rparr>) (ds_col w)
      in (n, w\<lparr>ds_col := c\<rparr>))"

definition clearStalePendingDeployments ::
  "('c, 's) deploy_deps \<Rightarrow> (int \<Rightarrow> string) \<Rightarrow> int \<Rightarrow> ('c, 's) deploys \<Rightarrow> nat \<times> ('c, 's) deploys" where
  "clearStalePendingDeployments D iso_of now w =
     clearPendingDeployments D ''Cancelled: stale pending deployment'' (iso_of (now - STALE_DEPLOYMENT_THRESHOLD_MS)) w"

definition deploy_publish :: "('c, 's) deploy_deps \<Rightarrow> deploy_event \<Rightarrow> ('c, 's) deploys \<Rightarrow> ('c, 's) deploys" where
  "deploy_publish D e w = (if dd_bus D then w\<lparr>ds_events := ds_events w @ [e]\<rparr> else w)"

definition set_with_ttl :: "'s redis option \<Rightarrow> string \<Rightarrow> string \<Rightarrow> int \<Rightarrow> ('c, 's) deploys \<Rightarrow> ('c, 's) deploys" where
  "set_with_ttl R k v ttl w = (case R of None \<Rightarrow> w | Some R \<Rightarrow> w\<lparr>ds_redis := EXPIRE R k ttl (SETTEXT R k v (ds_redis w))\<rparr>)"

section \<open>Assessment\<close>

definition assess_ttl :: "repo_tier \<Rightarrow> int" where
  "assess_ttl t = (if t = Tier_critical then CRITICAL_ASSESS_DEDUP_TTL else ASSESS_DEDUP_TTL)"

definition dedup_key :: "assess_params \<Rightarrow> string \<Rightarrow> string" where
  "dedup_key ps sha = ''deploy:dedup:'' @ as_repo ps @ '':'' @ as_environment ps @ '':'' @ sha"

definition latest_key :: "assess_params \<Rightarrow> string" where
  "latest_key ps = ''deploy:latest:'' @ as_repo ps @ '':'' @ as_environment ps"

definition truthy_text :: "string option \<Rightarrow> string option" where
  "truthy_text x = (case x of Some (c # s) \<Rightarrow> Some (c # s) | _ \<Rightarrow> None)"

text \<open>An earlier assessment of the same commit.\<close>

definition assessed_before :: "'s redis option \<Rightarrow> assess_params \<Rightarrow> 's \<Rightarrow> string option" where
  "assessed_before R ps s = (case (R, truthy_text (as_commit_sha ps)) of
     (Some R, Some sha) \<Rightarrow> truthy_text (GET R (dedup_key ps sha) s)
   | _ \<Rightarrow> None)"

definition docs_only :: "assess_params \<Rightarrow> bool" where
  "docs_only ps \<longleftrightarrow> as_files_changed ps \<noteq> [] \<and> list_all isDocsOnlyFile (as_files_changed ps)"

definition diff_content :: "assess_params \<Rightarrow> string" where
  "diff_content ps = (case truthy_text (as_diff_patches ps) of Some d \<Rightarrow> d | None \<Rightarrow> as_diff_summary ps)"

definition new_deployment :: "string \<Rightarrow> repo_tier \<Rightarrow> string \<Rightarrow> assess_params \<Rightarrow> deployment" where
  "new_deployment i tier stamp ps = \<lparr>dep_id = i, dep_repo = as_repo ps, dep_environment = as_environment ps, dep_risk_tier = tier,
     dep_pr_url = as_pr_url ps, dep_commit_sha = as_commit_sha ps, dep_status = Dep_pending, dep_layer2_safe = None,
     dep_deployed_at = None, dep_rolled_back_at = None, dep_error = None, dep_correlationId = as_correlationId ps,
     dep_storedAt = stamp\<rparr>"

text \<open>The decision by tier, once the record is stored.\<close>

definition assess_decide ::
  "('c, 's) deploy_deps \<Rightarrow> repo_tier \<Rightarrow> string \<Rightarrow> assess_params \<Rightarrow> ('c, 's) deploys \<Rightarrow> (deploy_error + deploy_result) \<times> ('c, 's) deploys" where
  "assess_decide D tier i ps w =
     (if tier = Tier_critical \<and> \<not> docs_only ps then
        (if \<not> hard_gates_passed (diff_content ps)
         then (Inl (Hard_gates_blocked i), updateDeployment D i (\<lambda>d. d\<lparr>dep_status := Dep_rejected\<rparr>) w)
         else (Inr (Awaiting_review i),
               deploy_publish D (Ev_review i) (updateDeployment D i (\<lambda>d. d\<lparr>dep_status := Dep_pending\<rparr>) w)))
      else (Inr (Assessed_approved i), updateDeployment D i (\<lambda>d. d\<lparr>dep_status := Dep_approved\<rparr>) w))"

text \<open>\<open>dep-<now>-<random>\<close>; the random part is an argument.\<close>

definition deployment_id :: "int \<Rightarrow> string \<Rightarrow> string" where
  "deployment_id now rnd = ''dep-'' @ dec_int now @ ''-'' @ rnd"

text \<open>
  An assessment is cut at its awaits: the checks up to the answer about an earlier assessment of the commit, the write of the key
  of the latest assessment, the insertion of the record, the note of the commit, and the gates with the decision.
\<close>

definition assess_check ::
  "('c, 's) deploy_deps \<Rightarrow> assess_params \<Rightarrow> ('c, 's) deploys \<Rightarrow> (deploy_error + deploy_result) + repo_tier" where
  "assess_check D ps w =
     (if as_repo ps = [] \<or> as_environment ps = [] then Inl (Inl Missing_parameters)
      else if as_environment ps \<notin> set VALID_ENVIRONMENTS then Inl (Inl (Invalid_environment (as_environment ps)))
      else case dd_registry D (as_repo ps) of
        None \<Rightarrow> Inl (Inl (Repo_not_found (as_repo ps)))
      | Some repoConfig \<Rightarrow>
          (case assessed_before (dd_redis D) ps (ds_redis w) of
             Some existing \<Rightarrow> Inl (Inr (Duplicate_skipped existing))
           | None \<Rightarrow> Inr (rc_risk_tier repoConfig)))"

definition assess_latest :: "('c, 's) deploy_deps \<Rightarrow> repo_tier \<Rightarrow> assess_params \<Rightarrow> int \<Rightarrow> ('c, 's) deploys \<Rightarrow> ('c, 's) deploys" where
  "assess_latest D tier ps now w = set_with_ttl (dd_redis D) (latest_key ps) (dec_int now) (assess_ttl tier) w"

definition assess_record ::
  "('c, 's) deploy_deps \<Rightarrow> (int \<Rightarrow> string) \<Rightarrow> repo_tier \<Rightarrow> string \<Rightarrow> assess_params \<Rightarrow> int \<Rightarrow> ('c, 's) deploys \<Rightarrow> ('c, 's) deploys option" where
  "assess_record D iso_of tier i ps now w = recordDeployment D (new_deployment i tier (iso_of now) ps) w"

definition note_dedup :: "('c, 's) deploy_deps \<Rightarrow> assess_params \<Rightarrow> string \<Rightarrow> int \<Rightarrow> ('c, 's) deploys \<Rightarrow> ('c, 's) deploys" where
  "note_dedup D ps i ttl w = (case truthy_text (as_commit_sha ps) of
     Some sha \<Rightarrow> set_with_ttl (dd_redis D) (dedup_key ps sha) i ttl w
   | None \<Rightarrow> w)"

definition assess ::
  "('c, 's) deploy_deps \<Rightarrow> (int \<Rightarrow> string) \<Rightarrow> int \<Rightarrow> string \<Rightarrow> assess_params \<Rightarrow> ('c, 's) deploys
    \<Rightarrow> (deploy_error + deploy_result) \<times> ('c, 's) deploys" where
  "assess D iso_of now rnd ps w = (case assess_check D ps w of
     Inl result \<Rightarrow> (result, w)
   | Inr tier \<Rightarrow>
       (let w1 = assess_latest D tier ps now w; i = deployment_id now rnd
        in case assess_record D iso_of tier i ps now w1 of
             None \<Rightarrow> (Inl Store_rejected, w1)
           | Some w2 \<Rightarrow> assess_decide D tier i ps (note_dedup D ps i (assess_ttl tier) w2)))"

section \<open>The architect's decision\<close>

definition approve_read :: "('c, 's) deploy_deps \<Rightarrow> string \<Rightarrow> string \<Rightarrow> ('c, 's) deploys \<Rightarrow> deploy_error + deployment" where
  "approve_read D i decision w =
     (if i = [] \<or> decision = [] then Inl Missing_parameters
      else case getDeployment D i w of
        None \<Rightarrow> Inl (Deployment_not_found i)
      | Some record \<Rightarrow> (if dep_status record \<noteq> Dep_pending then Inl (Not_pending_any_more (dep_status record)) else Inr record))"

definition is_approve :: "string \<Rightarrow> bool" where
  "is_approve decision \<longleftrightarrow> to_upper decision = ''APPROVE''"

definition approve_write :: "('c, 's) deploy_deps \<Rightarrow> string \<Rightarrow> string \<Rightarrow> ('c, 's) deploys \<Rightarrow> deploy_result \<times> ('c, 's) deploys" where
  "approve_write D i decision w =
     (if is_approve decision
      then (Decided i True, deploy_publish D (Ev_approved i) (updateDeployment D i (\<lambda>d. d\<lparr>dep_status := Dep_approved\<rparr>) w))
      else (Decided i False, updateDeployment D i (\<lambda>d. d\<lparr>dep_status := Dep_rejected\<rparr>) w))"

definition architectApprove ::
  "('c, 's) deploy_deps \<Rightarrow> string \<Rightarrow> string \<Rightarrow> ('c, 's) deploys \<Rightarrow> (deploy_error + deploy_result) \<times> ('c, 's) deploys" where
  "architectApprove D i decision w = (case approve_read D i decision w of
     Inl e \<Rightarrow> (Inl e, w)
   | Inr record \<Rightarrow> map_prod Inr id (approve_write D i decision w))"

section \<open>Execution\<close>

definition DEFAULT_SKIP_CHECKS :: "string list" where
  "DEFAULT_SKIP_CHECKS = [''review_comments'']"

text \<open>The failures of the definition of done; there are none when it is met.\<close>

definition checkDefinitionOfDone :: "deployment \<Rightarrow> string list \<Rightarrow> string list" where
  "checkDefinitionOfDone record skipChecks =
     (let skip = set (DEFAULT_SKIP_CHECKS @ skipChecks) in
      (if ''ci_check'' \<notin> skip \<and> dep_layer2_safe record = Some False then [''ci_check''] else [])
      @ (if ''pr_required'' \<notin> skip \<and> dep_environment record = ''production'' \<and> truthy_text (dep_pr_url record) = None
         then [''pr_required''] else []))"

definition exec_read :: "('c, 's) deploy_deps \<Rightarrow> execute_params \<Rightarrow> ('c, 's) deploys \<Rightarrow> deploy_error + deployment" where
  "exec_read D ps w =
     (if ex_repo ps = [] \<or> ex_environment ps = [] \<or> ex_deployment_id ps = [] then Inl Missing_parameters
      else if ex_environment ps \<notin> set VALID_ENVIRONMENTS then Inl (Invalid_environment (ex_environment ps))
      else case getDeployment D (ex_deployment_id ps) w of
        None \<Rightarrow> Inl (Deployment_not_found (ex_deployment_id ps))
      | Some record \<Rightarrow>
          (if dep_status record \<noteq> Dep_approved then Inl (Not_approved_yet (dep_status record))
           else if dep_repo record \<noteq> ex_repo ps \<or> dep_environment record \<noteq> ex_environment ps
           then Inl (Approved_for_other (dep_repo record) (dep_environment record))
           else Inr record))"

definition lock_key :: "string \<Rightarrow> string \<Rightarrow> string" where
  "lock_key repo environment = ''deploy:exec-lock:'' @ repo @ '':'' @ environment"

text \<open>A deployment under way: what it deploys, and the lock it holds.\<close>

record started =
  st_id :: string
  st_repo :: string
  st_environment :: string
  st_type :: string
  st_commit :: "string option"
  st_canary :: bool
  st_lock :: "string option"

definition acquire_lock :: "('c, 's) deploy_deps \<Rightarrow> execute_params \<Rightarrow> ('c, 's) deploys \<Rightarrow> (bool \<times> string option) \<times> ('c, 's) deploys" where
  "acquire_lock D ps w = (case dd_redis D of
     Some R \<Rightarrow> (if ex_environment ps = ''production'' then
         (let k = lock_key (ex_repo ps) (ex_environment ps); (ok, s) = SETNX R k DEPLOY_LOCK_TTL (ds_redis w)
          in ((ok, Some k), w\<lparr>ds_redis := s\<rparr>))
       else ((True, None), w))
   | None \<Rightarrow> ((True, None), w))"

definition release_lock :: "('c, 's) deploy_deps \<Rightarrow> string option \<Rightarrow> ('c, 's) deploys \<Rightarrow> ('c, 's) deploys" where
  "release_lock D l w = (case (dd_redis D, l) of
     (Some R, Some k) \<Rightarrow> w\<lparr>ds_redis := snd (DEL R k (ds_redis w))\<rparr>
   | _ \<Rightarrow> w)"

definition reject_dod :: "string list \<Rightarrow> deployment \<Rightarrow> deployment" where
  "reject_dod failures d = d\<lparr>dep_status := Dep_rejected, dep_error := Some (''DoD not met: '' @ join ''; '' failures)\<rparr>"

definition exec_begin ::
  "('c, 's) deploy_deps \<Rightarrow> execute_params \<Rightarrow> deployment \<Rightarrow> ('c, 's) deploys \<Rightarrow> (deploy_error + started) \<times> ('c, 's) deploys" where
  "exec_begin D ps record w =
     (let ((ok, l), w1) = acquire_lock D ps w in
      if \<not> ok then (Inl (Deploy_in_progress (ex_repo ps)), w1)
      else case dd_registry D (ex_repo ps) of
        None \<Rightarrow> (Inl (Repo_not_found (ex_repo ps)), release_lock D l w1)
      | Some repoConfig \<Rightarrow>
          (let failures = checkDefinitionOfDone record (ex_skipDodChecks ps) in
           if failures \<noteq> [] then
             (Inl (Dod_not_met failures),
              release_lock D l (updateDeployment D (ex_deployment_id ps) (reject_dod failures)
                (deploy_publish D (Ev_blocked (ex_deployment_id ps)) w1)))
           else if rc_type repoConfig = ''none'' then (Inl Type_none, release_lock D l w1)
           else if rc_type repoConfig \<notin> {''vercel'', ''ecs'', ''github-pages''}
           then (Inl (Unknown_type (rc_type repoConfig)), release_lock D l w1)
           else (Inr \<lparr>st_id = ex_deployment_id ps, st_repo = ex_repo ps, st_environment = ex_environment ps,
                      st_type = rc_type repoConfig, st_commit = ex_commit_sha ps,
                      st_canary = (rc_risk_tier repoConfig = Tier_critical \<and> rc_type repoConfig = ''ecs''), st_lock = l\<rparr>, w1)))"

text \<open>How the platform ended: it deployed, or it threw a message.\<close>

datatype platform_outcome = Platform_ok | Platform_threw string

definition exec_finish ::
  "('c, 's) deploy_deps \<Rightarrow> (int \<Rightarrow> string) \<Rightarrow> int \<Rightarrow> started \<Rightarrow> platform_outcome \<Rightarrow> ('c, 's) deploys
    \<Rightarrow> (deploy_error + deploy_result) \<times> ('c, 's) deploys" where
  "exec_finish D iso_of now s out w = (case out of
     Platform_ok \<Rightarrow> (Inr (Deployed (st_id s)),
       release_lock D (st_lock s)
         (updateDeployment D (st_id s) (\<lambda>d. d\<lparr>dep_status := Dep_deployed, dep_deployed_at := Some (iso_of now)\<rparr>) w))
   | Platform_threw msg \<Rightarrow> (Inl (Deployment_failed msg),
       release_lock D (st_lock s)
         (updateDeployment D (st_id s)
           (\<lambda>d. d\<lparr>dep_status := (if starts_with msg ''CANARY_ROLLBACK:'' then Dep_rolled_back else Dep_failed), dep_error := Some msg\<rparr>) w)))"

definition deployExecute ::
  "('c, 's) deploy_deps \<Rightarrow> (int \<Rightarrow> string) \<Rightarrow> int \<Rightarrow> (started \<Rightarrow> platform_outcome) \<Rightarrow> execute_params \<Rightarrow> ('c, 's) deploys
    \<Rightarrow> (deploy_error + deploy_result) \<times> ('c, 's) deploys" where
  "deployExecute D iso_of now platform ps w = (case exec_read D ps w of
     Inl e \<Rightarrow> (Inl e, w)
   | Inr record \<Rightarrow> (case exec_begin D ps record w of
        (Inl e, w1) \<Rightarrow> (Inl e, w1)
      | (Inr s, w1) \<Rightarrow> exec_finish D iso_of now s (platform s) w1))"

section \<open>Status\<close>

record pipeline_health =
  ph_recent :: nat
  ph_succeeded :: nat
  ph_failed :: nat
  ph_pending :: nat
  ph_status :: string

definition pipelineHealth :: "deployment list \<Rightarrow> pipeline_health" where
  "pipelineHealth history =
     (let recent = take 10 history;
          succeeded = length (filter (\<lambda>r. dep_status r = Dep_deployed) recent);
          failed = length (filter (\<lambda>r. dep_status r \<in> {Dep_failed, Dep_rejected, Dep_rolled_back}) recent);
          pending = length (filter (\<lambda>r. dep_status r \<in> {Dep_pending, Dep_approved}) recent)
      in \<lparr>ph_recent = length recent, ph_succeeded = succeeded, ph_failed = failed, ph_pending = pending,
          ph_status = (if failed > succeeded then ''unhealthy'' else if pending > 3 then ''degraded'' else ''healthy'')\<rparr>)"

text \<open>The limit of a status call.\<close>

definition status_limit :: "int option \<Rightarrow> int" where
  "status_limit l = min (max (case l of None \<Rightarrow> 5 | Some n \<Rightarrow> n) 1) 20"

section \<open>The platforms of ECS\<close>

definition CANARY_HEALTH_CHECK_INTERVAL_MS :: int where "CANARY_HEALTH_CHECK_INTERVAL_MS = 60000"
definition CANARY_HEALTH_CHECK_WINDOW_MS :: int where "CANARY_HEALTH_CHECK_WINDOW_MS = 10 * 60000"
definition MAX_HEALTH_FAILURES :: nat where "MAX_HEALTH_FAILURES = 3"

text \<open>
  What ECS answers to DescribeServices: the request is rejected, or the service is missing, or it is described by whether a rollout
  failed and whether it is stable.
\<close>

datatype service_answer = Describe_threw string | Described "(bool \<times> bool) option"

text \<open>
  One round of the canary's loop: how much longer than the interval the wait took, what ECS answers, whether the health check succeeds,
  and how long the two requests took (milliseconds).
\<close>

record canary_poll =
  cp_late :: nat
  cp_service :: service_answer
  cp_healthy :: bool
  cp_requests :: nat

datatype canary_outcome = Promoted_stable | Promoted_window | Rollback_rollout | Rollback_health | Canary_threw string

text \<open>
  Round \<open>n\<close> starts \<open>t\<close> milliseconds after the window, with \<open>k\<close> failed health checks in a row; the answer is the
  round that decided and its decision.
\<close>

function canary_loop :: "bool \<Rightarrow> (nat \<Rightarrow> canary_poll) \<Rightarrow> nat \<Rightarrow> nat \<Rightarrow> int \<Rightarrow> nat \<times> canary_outcome" where
  "canary_loop hasUrl polls n k t =
     (if \<not> t < CANARY_HEALTH_CHECK_WINDOW_MS then (n, Promoted_window)
      else let p = polls n; t1 = t + CANARY_HEALTH_CHECK_INTERVAL_MS + int (cp_late p); elapsed_s = (t1 + 500) div 1000;
               t2 = t1 + int (cp_requests p)
      in case cp_service p of
        Describe_threw msg \<Rightarrow> (n, Canary_threw msg)
      | Described svc \<Rightarrow>
          (if (case svc of Some (failed, steady) \<Rightarrow> failed | None \<Rightarrow> False) then (n, Rollback_rollout)
           else if (case svc of Some (failed, steady) \<Rightarrow> steady | None \<Rightarrow> False) \<and> elapsed_s > 120 \<and> k = 0 then (n, Promoted_stable)
           else if hasUrl then
             (let k1 = (if cp_healthy p then 0 else Suc k)
              in if k1 \<ge> MAX_HEALTH_FAILURES then (n, Rollback_health) else canary_loop hasUrl polls (Suc n) k1 t2)
           else canary_loop hasUrl polls (Suc n) k t2))"
  by pat_completeness auto

termination
  by (relation "measure (\<lambda>(hasUrl, polls, n, k, t). nat (CANARY_HEALTH_CHECK_WINDOW_MS - t))")
    (auto simp: CANARY_HEALTH_CHECK_INTERVAL_MS_def)

declare canary_loop.simps [simp del]

definition rollbackEcs :: "('c, 's) deploy_deps \<Rightarrow> (int \<Rightarrow> string) \<Rightarrow> int \<Rightarrow> string \<Rightarrow> ('c, 's) deploys \<Rightarrow> ('c, 's) deploys" where
  "rollbackEcs D iso_of now i w =
     deploy_publish D (Ev_canary_rollback i)
       (updateDeployment D i (\<lambda>d. d\<lparr>dep_status := Dep_rolled_back, dep_rolled_back_at := Some (iso_of now)\<rparr>) w)"

text \<open>The canary as the execution sees it.\<close>

definition canary_result :: "canary_outcome \<Rightarrow> platform_outcome" where
  "canary_result out = (case out of
     Promoted_stable \<Rightarrow> Platform_ok
   | Promoted_window \<Rightarrow> Platform_ok
   | Rollback_rollout \<Rightarrow> Platform_threw ''CANARY_ROLLBACK: ECS circuit breaker FAILED''
   | Rollback_health \<Rightarrow> Platform_threw ''CANARY_ROLLBACK: 3 consecutive health failures''
   | Canary_threw msg \<Rightarrow> Platform_threw msg)"

text \<open>Before the loop: the description of the service as it was, and the request for a new deployment, which may be rejected.\<close>

definition deployEcsCanary ::
  "('c, 's) deploy_deps \<Rightarrow> (int \<Rightarrow> string) \<Rightarrow> int \<Rightarrow> string \<Rightarrow> service_answer \<Rightarrow> string option \<Rightarrow> bool \<Rightarrow> (nat \<Rightarrow> canary_poll)
    \<Rightarrow> ('c, 's) deploys \<Rightarrow> platform_outcome \<times> ('c, 's) deploys" where
  "deployEcsCanary D iso_of now i initial update_error hasUrl polls w = (case (initial, update_error) of
     (Describe_threw msg, _) \<Rightarrow> (Platform_threw msg, w)
   | (Described None, _) \<Rightarrow> (Platform_threw ''ECS service not found'', w)
   | (Described (Some svc), Some msg) \<Rightarrow> (Platform_threw msg, w)
   | (Described (Some svc), None) \<Rightarrow>
       (let out = snd (canary_loop hasUrl polls 0 0 0)
        in (canary_result out, if out = Rollback_rollout \<or> out = Rollback_health then rollbackEcs D iso_of now i w else w)))"

text \<open>The plain rollout polls at most 40 times, and counts as a success when it never becomes stable.\<close>

fun ecs_loop :: "service_answer list \<Rightarrow> platform_outcome" where
  "ecs_loop [] = Platform_ok"
| "ecs_loop (Describe_threw msg # ps) = Platform_threw msg"
| "ecs_loop (Described None # ps) = ecs_loop ps"
| "ecs_loop (Described (Some (failed, steady)) # ps) =
     (if failed then Platform_threw ''ECS deployment rolled back'' else if steady then Platform_ok else ecs_loop ps)"

definition deployEcs :: "string option \<Rightarrow> service_answer list \<Rightarrow> platform_outcome" where
  "deployEcs update_error polls = (case update_error of Some msg \<Rightarrow> Platform_threw msg | None \<Rightarrow> ecs_loop (take 40 polls))"

end
