(* ===== verification/Deploy_Correct.thy ===== *)
theory Deploy_Correct
  imports Deploy HardGates_Correct
begin

text \<open>
  What the deployment pipeline guarantees when its calls interleave at their awaits: a deployment only starts for
  a repository and an environment it was assessed for, and for a critical repository, unless only documentation changed,
  only after the hard gates passed and the architect approved; at most one production deployment
  of a repository runs at a time, as long as no lock expires; the canary always decides.  And what it does not
  guarantee: an approval can be used twice.
\<close>

section \<open>Interleaved calls\<close>

text \<open>
  How far an assessment is: before it writes the key of the latest one, before it stores its record, before it notes the commit under
  the identifier, and before its gates and its decision.
\<close>

datatype assess_point = At_latest | At_record | At_dedup string | At_gates string

type_synonym assessment = "assess_point \<times> repo_tier \<times> assess_params"

text \<open>
  The calls between their awaits, and four histories: what was assessed under which tier, whom the architect approved,
  which of these approvals were decided on a record whose gates had not run yet, and the deployments that were started.
\<close>

record ('c, 's) deploy_run =
  run_w :: "('c, 's) deploys"
  assessing :: "assessment list"
  deciding :: "(string \<times> string) list"
  reading :: "(execute_params \<times> deployment) list"
  running :: "started list"
  assessed :: "string \<rightharpoonup> repo_tier \<times> assess_params"
  architect_ok :: "string set"
  overtaken :: "string set"
  started_ids :: "string list"

text \<open>The stored records whose assessment has not reached its gates.\<close>

definition ungated :: "('c, 's) deploy_run \<Rightarrow> string set" where
  "ungated r = {i. \<exists>(p, tier, ps) \<in> set (assessing r). p = At_dedup i \<or> p = At_gates i}"

inductive deploy_step ::
  "('c, 's) deploy_deps \<Rightarrow> (int \<Rightarrow> string) \<Rightarrow> ('c, 's) deploy_run \<Rightarrow> ('c, 's) deploy_run \<Rightarrow> bool"
  for D :: "('c, 's) deploy_deps" and iso_of :: "int \<Rightarrow> string"
where
  st_check: "assess_check D ps (run_w r) = Inr tier \<Longrightarrow>
    deploy_step D iso_of r (r\<lparr>assessing := (At_latest, tier, ps) # assessing r\<rparr>)"
| st_latest: "(At_latest, tier, ps) \<in> set (assessing r) \<Longrightarrow>
    deploy_step D iso_of r (r\<lparr>run_w := assess_latest D tier ps now (run_w r),
      assessing := (At_record, tier, ps) # remove1 (At_latest, tier, ps) (assessing r)\<rparr>)"
| st_record: "(At_record, tier, ps) \<in> set (assessing r) \<Longrightarrow>
    assess_record D iso_of tier (deployment_id now rnd) ps stamp (run_w r) = Some w \<Longrightarrow>
    deploy_step D iso_of r (r\<lparr>run_w := w, assessed := (assessed r)(deployment_id now rnd \<mapsto> (tier, ps)),
      assessing := (At_dedup (deployment_id now rnd), tier, ps) # remove1 (At_record, tier, ps) (assessing r)\<rparr>)"
| st_unrecorded: "(At_record, tier, ps) \<in> set (assessing r) \<Longrightarrow>
    assess_record D iso_of tier (deployment_id now rnd) ps stamp (run_w r) = None \<Longrightarrow>
    deploy_step D iso_of r (r\<lparr>assessing := remove1 (At_record, tier, ps) (assessing r)\<rparr>)"
| st_dedup: "(At_dedup i, tier, ps) \<in> set (assessing r) \<Longrightarrow>
    deploy_step D iso_of r (r\<lparr>run_w := note_dedup D ps i (assess_ttl tier) (run_w r),
      assessing := (At_gates i, tier, ps) # remove1 (At_dedup i, tier, ps) (assessing r)\<rparr>)"
| st_gates: "(At_gates i, tier, ps) \<in> set (assessing r) \<Longrightarrow>
    deploy_step D iso_of r (r\<lparr>run_w := snd (assess_decide D tier i ps (run_w r)),
      assessing := remove1 (At_gates i, tier, ps) (assessing r)\<rparr>)"
| st_decide: "approve_read D i decision (run_w r) = Inr d \<Longrightarrow>
    deploy_step D iso_of r (r\<lparr>deciding := (i, decision) # deciding r,
      overtaken := (if is_approve decision \<and> i \<in> ungated r then insert i (overtaken r) else overtaken r)\<rparr>)"
| st_decided: "(i, decision) \<in> set (deciding r) \<Longrightarrow>
    deploy_step D iso_of r (r\<lparr>run_w := snd (approve_write D i decision (run_w r)),
      deciding := remove1 (i, decision) (deciding r),
      architect_ok := (if is_approve decision then insert i (architect_ok r) else architect_ok r)\<rparr>)"
| st_read: "exec_read D ps (run_w r) = Inr d \<Longrightarrow>
    deploy_step D iso_of r (r\<lparr>reading := (ps, d) # reading r\<rparr>)"
| st_refused: "(ps, d) \<in> set (reading r) \<Longrightarrow> exec_begin D ps d (run_w r) = (Inl e, w) \<Longrightarrow>
    deploy_step D iso_of r (r\<lparr>run_w := w, reading := remove1 (ps, d) (reading r)\<rparr>)"
| st_begin: "(ps, d) \<in> set (reading r) \<Longrightarrow> exec_begin D ps d (run_w r) = (Inr s, w) \<Longrightarrow>
    deploy_step D iso_of r (r\<lparr>run_w := w, reading := remove1 (ps, d) (reading r), running := s # running r,
      started_ids := st_id s # started_ids r\<rparr>)"
| st_rollback: "s \<in> set (running r) \<Longrightarrow> st_canary s \<Longrightarrow>
    deploy_step D iso_of r (r\<lparr>run_w := rollbackEcs D iso_of now (st_id s) (run_w r)\<rparr>)"
| st_finish: "s \<in> set (running r) \<Longrightarrow> exec_finish D iso_of now s out (run_w r) = (res, w) \<Longrightarrow>
    deploy_step D iso_of r (r\<lparr>run_w := w, running := remove1 s (running r)\<rparr>)"
| st_clear: "deploy_step D iso_of r (r\<lparr>run_w := snd (clearPendingDeployments D reason cutoff (run_w r))\<rparr>)"

definition deploy_start :: "'c \<Rightarrow> 's \<Rightarrow> ('c, 's) deploy_run" where
  "deploy_start c s = \<lparr>run_w = \<lparr>ds_col = c, ds_redis = s, ds_events = []\<rparr>, assessing = [], deciding = [], reading = [], running = [],
     assessed = Map.empty, architect_ok = {}, overtaken = {}, started_ids = []\<rparr>"

inductive deploy_reach ::
  "('c, 's) deploy_deps \<Rightarrow> (int \<Rightarrow> string) \<Rightarrow> 'c \<Rightarrow> 's \<Rightarrow> ('c, 's) deploy_run \<Rightarrow> bool"
  for D :: "('c, 's) deploy_deps" and iso_of :: "int \<Rightarrow> string" and c :: 'c and s :: 's
where
  dr_start: "deploy_reach D iso_of c s (deploy_start c s)"
| dr_step: "deploy_reach D iso_of c s r \<Longrightarrow> deploy_step D iso_of r r1 \<Longrightarrow> deploy_reach D iso_of c s r1"

section \<open>The records under their identifiers\<close>

lemma col_unchanged [simp]:
  "ds_col (deploy_publish D e w) = ds_col w" "ds_col (set_with_ttl R k v ttl w) = ds_col w"
  "ds_col (note_dedup D ps i ttl w) = ds_col w" "ds_col (release_lock D l w) = ds_col w" "ds_col (snd (acquire_lock D eps w)) = ds_col w"
  by (simp_all add: deploy_publish_def note_dedup_def set_with_ttl_def release_lock_def acquire_lock_def Let_def
      split: option.splits prod.splits)

definition records :: "('c, 's) deploy_deps \<Rightarrow> ('c, 's) deploys \<Rightarrow> string \<rightharpoonup> deployment" where
  "records D w = doc_at (dd_mongo D) dep_id (ds_col w)"

definition records_ok :: "('c, 's) deploy_deps \<Rightarrow> ('c, 's) deploys \<Rightarrow> bool" where
  "records_ok D w \<longleftrightarrow> ids_unique (dd_mongo D) dep_id (ds_col w)"

lemma records_col [simp]:
  "records D (deploy_publish D e w) = records D w" "records D (set_with_ttl R k v ttl w) = records D w"
  "records D (release_lock D l w) = records D w" "records D (note_dedup D ps i ttl w) = records D w"
  "records_ok D (deploy_publish D e w) = records_ok D w" "records_ok D (set_with_ttl R k v ttl w) = records_ok D w"
  "records_ok D (release_lock D l w) = records_ok D w" "records_ok D (note_dedup D ps i ttl w) = records_ok D w"
  by (simp_all add: records_def records_ok_def)

lemma get_record: "getDeployment D i w = records D w i"
  by (simp add: getDeployment_def records_def doc_at_def)

text \<open>What the histories must say of an identifier before it may be deployed.\<close>

definition gate_ok :: "repo_tier \<Rightarrow> assess_params \<Rightarrow> bool" where
  "gate_ok tier ps \<longleftrightarrow> (tier = Tier_critical \<and> \<not> docs_only ps \<longrightarrow> hard_gates_passed (diff_content ps))"

definition registered :: "('c, 's) deploy_deps \<Rightarrow> repo_tier \<Rightarrow> assess_params \<Rightarrow> bool" where
  "registered D tier ps \<longleftrightarrow> map_option rc_risk_tier (dd_registry D (as_repo ps)) = Some tier"

definition gated :: "('c, 's) deploy_run \<Rightarrow> string \<Rightarrow> bool" where
  "gated r k \<longleftrightarrow> (\<exists>tier ps. assessed r k = Some (tier, ps) \<and> gate_ok tier ps)"

definition approvable :: "('c, 's) deploy_run \<Rightarrow> string \<Rightarrow> bool" where
  "approvable r k \<longleftrightarrow> (\<exists>tier ps. assessed r k = Some (tier, ps) \<and> (gate_ok tier ps \<or> k \<in> overtaken r))"

definition reviewed :: "('c, 's) deploy_run \<Rightarrow> string \<Rightarrow> bool" where
  "reviewed r k \<longleftrightarrow> (\<exists>tier ps. assessed r k = Some (tier, ps)
     \<and> (tier = Tier_critical \<and> \<not> docs_only ps \<longrightarrow> k \<in> architect_ok r \<and> (hard_gates_passed (diff_content ps) \<or> k \<in> overtaken r)))"

definition assessed_for :: "('c, 's) deploy_run \<Rightarrow> string \<Rightarrow> string \<Rightarrow> string \<Rightarrow> bool" where
  "assessed_for r k repo environment \<longleftrightarrow>
     (\<exists>tier ps. assessed r k = Some (tier, ps) \<and> as_repo ps = repo \<and> as_environment ps = environment)"

definition record_fine :: "('c, 's) deploy_run \<Rightarrow> string \<Rightarrow> deployment \<Rightarrow> bool" where
  "record_fine r k d \<longleftrightarrow> assessed_for r k (dep_repo d) (dep_environment d)
     \<and> (dep_status d = Dep_pending \<longrightarrow> gated r k \<or> k \<in> ungated r)
     \<and> (dep_status d \<noteq> Dep_pending \<and> dep_status d \<noteq> Dep_rejected \<longrightarrow> reviewed r k)"

text \<open>The assessments under way are those of the records they stored.\<close>

definition stages_ok :: "('c, 's) deploy_deps \<Rightarrow> ('c, 's) deploy_run \<Rightarrow> bool" where
  "stages_ok D r \<longleftrightarrow> (\<forall>(p, tier, ps) \<in> set (assessing r). registered D tier ps
     \<and> (\<forall>i. p = At_dedup i \<or> p = At_gates i \<longrightarrow> assessed r i = Some (tier, ps)))"

definition assessed_ok :: "('c, 's) deploy_deps \<Rightarrow> ('c, 's) deploy_run \<Rightarrow> bool" where
  "assessed_ok D r \<longleftrightarrow> (\<forall>k. assessed r k = None \<longleftrightarrow> records D (run_w r) k = None)
     \<and> (\<forall>k tier ps. assessed r k = Some (tier, ps) \<longrightarrow> registered D tier ps)"

definition deploy_inv :: "('c, 's) deploy_deps \<Rightarrow> ('c, 's) deploy_run \<Rightarrow> bool" where
  "deploy_inv D r \<longleftrightarrow> records_ok D (run_w r) \<and> assessed_ok D r \<and> stages_ok D r
     \<and> (\<forall>k d. records D (run_w r) k = Some d \<longrightarrow> record_fine r k d)
     \<and> (\<forall>(i, decision) \<in> set (deciding r). is_approve decision \<longrightarrow> approvable r i)
     \<and> (\<forall>(eps, d) \<in> set (reading r). reviewed r (ex_deployment_id eps)
          \<and> assessed_for r (ex_deployment_id eps) (ex_repo eps) (ex_environment eps))
     \<and> (\<forall>s \<in> set (running r). reviewed r (st_id s) \<and> assessed_for r (st_id s) (st_repo s) (st_environment s))"

text \<open>The histories only grow.\<close>

definition grows :: "('c, 's) deploy_run \<Rightarrow> ('c, 's) deploy_run \<Rightarrow> bool" where
  "grows r r1 \<longleftrightarrow> assessed r \<subseteq>\<^sub>m assessed r1 \<and> architect_ok r \<subseteq> architect_ok r1 \<and> overtaken r \<subseteq> overtaken r1"

lemma grows_some: "grows r r1 \<Longrightarrow> assessed r k = Some x \<Longrightarrow> assessed r1 k = Some x"
  unfolding grows_def map_le_def by (metis domI)

lemma reviewed_grows: "reviewed r k \<Longrightarrow> grows r r1 \<Longrightarrow> reviewed r1 k"
  unfolding reviewed_def using grows_some by (metis grows_def subsetD)

lemma approvable_grows: "approvable r k \<Longrightarrow> grows r r1 \<Longrightarrow> approvable r1 k"
  unfolding approvable_def using grows_some by (metis grows_def subsetD)

lemma gated_grows: "gated r k \<Longrightarrow> grows r r1 \<Longrightarrow> gated r1 k"
  unfolding gated_def using grows_some by metis

lemma assessed_for_grows: "assessed_for r k repo env \<Longrightarrow> grows r r1 \<Longrightarrow> assessed_for r1 k repo env"
  unfolding assessed_for_def using grows_some by metis

lemma record_fine_grows:
  "record_fine r k d \<Longrightarrow> grows r r1 \<Longrightarrow> (k \<in> ungated r \<Longrightarrow> k \<in> ungated r1) \<Longrightarrow> record_fine r1 k d"
  unfolding record_fine_def using reviewed_grows assessed_for_grows gated_grows by metis

lemma in_remove1: "x \<in> set (remove1 y xs) \<Longrightarrow> x \<in> set xs"
  by (metis notin_set_remove1)

locale deploy_store =
  fixes D :: "('c, 's) deploy_deps"
  assumes col: "mongo_collection (dd_mongo D) dep_id"
begin

lemma update_records:
  assumes "records_ok D w" "\<And>d. dep_id (u d) = dep_id d"
  shows "records_ok D (updateDeployment D i u w)"
    and "records D (updateDeployment D i u w) = (records D w)(i := map_option u (records D w i))"
proof -
  obtain n c1 where run: "updateOne (dd_mongo D) (\<lambda>d. dep_id d = i \<and> True) u (ds_col w) = (n, c1)" by fastforce
  then have "ds_col (updateDeployment D i u w) = c1" by (simp add: updateDeployment_def)
  with mongo_collection.update_one_lookup [OF col _ assms(2) run] assms(1)
  show "records_ok D (updateDeployment D i u w)"
    and "records D (updateDeployment D i u w) = (records D w)(i := map_option u (records D w i))"
    by (simp_all add: records_def records_ok_def)
qed

lemma insert_records:
  assumes "records_ok D w" "recordDeployment D d w = Some w1"
  shows "records_ok D w1 \<and> records D w (dep_id d) = None \<and> records D w1 = (records D w)(dep_id d \<mapsto> d)"
proof -
  from assms(2) obtain c where "insertOne (dd_mongo D) d (ds_col w) = Some c" "ds_col w1 = c"
    by (auto simp: recordDeployment_def)
  with mongo_collection.insert_lookup [OF col] assms(1) show ?thesis by (simp add: records_def records_ok_def)
qed

lemma clear_records:
  fixes reason cutoff :: string
  assumes "records_ok D w"
  defines "w1 \<equiv> snd (clearPendingDeployments D reason cutoff w)"
  shows "records_ok D w1 \<and> (\<forall>k. records D w1 k = records D w k
    \<or> (\<exists>d. records D w k = Some d \<and> records D w1 k = Some (d\<lparr>dep_status := Dep_rejected, dep_error := Some reason\<rparr>)))"
proof -
  let ?p = "\<lambda>d. dep_status d = Dep_pending \<and> dep_storedAt d < cutoff"
    and ?u = "\<lambda>d. d\<lparr>dep_status := Dep_rejected, dep_error := Some reason\<rparr>"
  obtain n c1 where run: "updateMany (dd_mongo D) ?p ?u (ds_col w) = (n, c1)" by fastforce
  then have "ds_col w1 = c1" by (simp add: w1_def clearPendingDeployments_def Let_def)
  with mongo_collection.update_many_lookup [OF col _ _ run] assms(1)
  have "records_ok D w1" "records D w1 = (\<lambda>k. map_option (\<lambda>d. if ?p d then ?u d else d) (records D w k))"
    by (simp_all add: records_def records_ok_def)
  note r = this
  have "records D w1 k = records D w k
    \<or> (\<exists>d. records D w k = Some d \<and> records D w1 k = Some (d\<lparr>dep_status := Dep_rejected, dep_error := Some reason\<rparr>))" for k
    by (cases "records D w k") (simp_all add: r(2))
  with r(1) show ?thesis by blast
qed

lemma record_records:
  assumes "records_ok D w" "assess_record D iso_of tier i ps now w = Some w1"
  shows "records_ok D w1 \<and> records D w i = None \<and> records D w1 = (records D w)(i \<mapsto> new_deployment i tier (iso_of now) ps)"
  using insert_records [OF assms(1) assms(2) [unfolded assess_record_def]] by (simp add: new_deployment_def)

text \<open>The status the gates lead to, by tier and files.\<close>

definition decided_status :: "repo_tier \<Rightarrow> assess_params \<Rightarrow> deploy_status" where
  "decided_status tier ps = (if tier = Tier_critical \<and> \<not> docs_only ps
     then (if hard_gates_passed (diff_content ps) then Dep_pending else Dep_rejected) else Dep_approved)"

lemma decide_records:
  assumes "records_ok D w"
  shows "records_ok D (snd (assess_decide D tier i ps w)) \<and> records D (snd (assess_decide D tier i ps w))
    = (records D w)(i := map_option (\<lambda>d. d\<lparr>dep_status := decided_status tier ps\<rparr>) (records D w i))"
  using update_records [OF assms, of "\<lambda>d. d\<lparr>dep_status := st\<rparr>" i for st]
  by (simp add: assess_decide_def decided_status_def)

lemma stage_of:
  assumes "deploy_inv D r" "(p, tier, ps) \<in> set (assessing r)"
  shows "registered D tier ps \<and> (\<forall>k. p = At_dedup k \<or> p = At_gates k \<longrightarrow> assessed r k = Some (tier, ps))"
  using assms unfolding deploy_inv_def stages_ok_def by fastforce

text \<open>A step keeps the invariant when it is kept for what the step changes.\<close>

lemma inv_update:
  assumes inv: "deploy_inv D r" and g: "grows r r1" and "records_ok D (run_w r1)" "assessed_ok D r1" "stages_ok D r1"
    and "\<And>k d. records D (run_w r1) k = Some d \<Longrightarrow> record_fine r1 k d"
    and dec: "\<And>i decision. (i, decision) \<in> set (deciding r1) \<Longrightarrow> (i, decision) \<in> set (deciding r) \<or> (is_approve decision \<longrightarrow> approvable r1 i)"
    and rd: "\<And>eps d. (eps, d) \<in> set (reading r1) \<Longrightarrow> (eps, d) \<in> set (reading r)
      \<or> reviewed r1 (ex_deployment_id eps) \<and> assessed_for r1 (ex_deployment_id eps) (ex_repo eps) (ex_environment eps)"
    and rn: "\<And>s. s \<in> set (running r1) \<Longrightarrow> s \<in> set (running r) \<or> reviewed r1 (st_id s) \<and> assessed_for r1 (st_id s) (st_repo s) (st_environment s)"
  shows "deploy_inv D r1"
proof -
  note inv = inv [unfolded deploy_inv_def]
  have "reviewed r1 (ex_deployment_id eps) \<and> assessed_for r1 (ex_deployment_id eps) (ex_repo eps) (ex_environment eps)"
    if "(eps, d) \<in> set (reading r1)" for eps d
    using rd [OF that] inv reviewed_grows [OF _ g] assessed_for_grows [OF _ g] by blast
  moreover have "reviewed r1 (st_id s) \<and> assessed_for r1 (st_id s) (st_repo s) (st_environment s)"
    if "s \<in> set (running r1)" for s
    using rn [OF that] inv reviewed_grows [OF _ g] assessed_for_grows [OF _ g] by blast
  moreover have "is_approve decision \<longrightarrow> approvable r1 i" if "(i, decision) \<in> set (deciding r1)" for i decision
    using dec [OF that] inv approvable_grows [OF _ g] by blast
  ultimately show ?thesis unfolding deploy_inv_def using assms(3-6) by auto
qed

text \<open>The steps after the assessment: they leave what is assessed and being assessed alone, and update at most one record, to a
  status that is not pending.\<close>

lemma inv_changed:
  assumes inv: "deploy_inv D r" and g: "grows r r1" and same: "assessed r1 = assessed r" "assessing r1 = assessing r"
    and w: "records_ok D (run_w r1)" "records D (run_w r1) = (records D (run_w r))(i := map_option u (records D (run_w r) i))"
    and u: "\<And>d. dep_repo (u d) = dep_repo d \<and> dep_environment (u d) = dep_environment d"
      "\<And>d. dep_status (u d) = Dep_rejected \<or> dep_status (u d) \<noteq> Dep_pending \<and> reviewed r1 i"
    and sub: "set (deciding r1) \<subseteq> set (deciding r)" "set (reading r1) \<subseteq> set (reading r)" "set (running r1) \<subseteq> set (running r)"
  shows "deploy_inv D r1"
proof (rule inv_update [OF inv g w(1)])
  have ung: "ungated r1 = ungated r" using same by (simp add: ungated_def)
  have fine: "record_fine r1 k d" if "records D (run_w r) k = Some d" for k d
    using that inv record_fine_grows [OF _ g] ung by (auto simp: deploy_inv_def)
  show "record_fine r1 k d" if d: "records D (run_w r1) k = Some d" for k d
  proof (cases "k = i")
    case True
    with w(2) d obtain e where e: "records D (run_w r) i = Some e" "d = u e" by auto
    from fine [OF e(1)] u(1) [of e] u(2) [of e] e(2) True show ?thesis by (auto simp: record_fine_def)
  next
    case False
    with w(2) d fine show ?thesis by simp
  qed
  show "assessed_ok D r1" "stages_ok D r1" using inv w(2) same by (auto simp: deploy_inv_def assessed_ok_def stages_ok_def)
qed (use sub in auto)

lemma inv_same:
  assumes inv: "deploy_inv D r" and r1: "assessed r1 = assessed r" "assessing r1 = assessing r" "architect_ok r1 = architect_ok r"
      "overtaken r \<subseteq> overtaken r1"
    and w: "records_ok D (run_w r1)" "records D (run_w r1) = records D (run_w r)"
    and new: "\<And>i decision. (i, decision) \<in> set (deciding r1) \<Longrightarrow> (i, decision) \<in> set (deciding r) \<or> (is_approve decision \<longrightarrow> approvable r1 i)"
      "\<And>eps d. (eps, d) \<in> set (reading r1) \<Longrightarrow> (eps, d) \<in> set (reading r)
        \<or> reviewed r1 (ex_deployment_id eps) \<and> assessed_for r1 (ex_deployment_id eps) (ex_repo eps) (ex_environment eps)"
      "\<And>s. s \<in> set (running r1) \<Longrightarrow> s \<in> set (running r) \<or> reviewed r1 (st_id s) \<and> assessed_for r1 (st_id s) (st_repo s) (st_environment s)"
  shows "deploy_inv D r1"
proof -
  have g: "grows r r1" and ung: "ungated r1 = ungated r" using r1 by (simp_all add: grows_def ungated_def)
  show ?thesis
  proof (rule inv_update [OF inv g w(1) _ _ _ new])
    show "record_fine r1 k d" if "records D (run_w r1) k = Some d" for k d
      using that w(2) inv record_fine_grows [OF _ g] ung by (auto simp: deploy_inv_def)
    show "assessed_ok D r1" "stages_ok D r1" using inv w(2) r1 by (auto simp: deploy_inv_def assessed_ok_def stages_ok_def)
  qed
qed

text \<open>A step of an assessment that stores or changes no record moves it from one point to the next.\<close>

lemma inv_moved:
  assumes inv: "deploy_inv D r" and x: "(p, tier, ps) \<in> set (assessing r)"
    and step: "set xs \<subseteq> {(q, tier, ps)}" "\<And>i. q = At_dedup i \<or> q = At_gates i \<Longrightarrow> assessed r i = Some (tier, ps)"
      "\<And>i. p = At_dedup i \<or> p = At_gates i \<Longrightarrow> (At_gates i, tier, ps) \<in> set xs"
    and w: "ds_col w = ds_col (run_w r)"
  shows "deploy_inv D (r\<lparr>run_w := w, assessing := xs @ remove1 (p, tier, ps) (assessing r)\<rparr>)" (is "deploy_inv D ?r1")
proof -
  have recs: "records D w = records D (run_w r)" "records_ok D w = records_ok D (run_w r)" using w by (simp_all add: records_def records_ok_def)
  have g: "grows r ?r1" by (simp add: grows_def)
  have ung: "k \<in> ungated ?r1" if "k \<in> ungated r" for k
  proof -
    from that obtain p2 t2 ps2 where y: "(p2, t2, ps2) \<in> set (assessing r)" "p2 = At_dedup k \<or> p2 = At_gates k" by (auto simp: ungated_def)
    show ?thesis
    proof (cases "(p2, t2, ps2) = (p, tier, ps)")
      case True
      with y(2) step(3) show ?thesis by (auto simp: ungated_def)
    next
      case False
      with y have "(p2, t2, ps2) \<in> set (remove1 (p, tier, ps) (assessing r))" by simp
      with y(2) show ?thesis by (fastforce simp: ungated_def)
    qed
  qed
  from stage_of [OF inv x] have reg: "registered D tier ps" by simp
  show ?thesis
  proof (rule inv_update [OF inv g])
    show "records_ok D (run_w ?r1)" "assessed_ok D ?r1" using inv recs by (simp_all add: deploy_inv_def assessed_ok_def)
    show "stages_ok D ?r1" unfolding stages_ok_def
    proof clarify
      fix p2 t2 ps2 assume "(p2, t2, ps2) \<in> set (assessing ?r1)"
      then consider "(p2, t2, ps2) = (q, tier, ps)" | "(p2, t2, ps2) \<in> set (assessing r)" using step(1) by (auto dest: in_remove1)
      then show "registered D t2 ps2 \<and> (\<forall>i. p2 = At_dedup i \<or> p2 = At_gates i \<longrightarrow> assessed ?r1 i = Some (t2, ps2))"
      proof cases
        case 1
        with reg step(2) show ?thesis by simp
      next
        case 2
        with stage_of [OF inv] show ?thesis by simp
      qed
    qed
    show "record_fine ?r1 k d" if "records D (run_w ?r1) k = Some d" for k d
      using that inv record_fine_grows [OF _ g ung] recs by (simp add: deploy_inv_def)
  qed simp_all
qed

lemma write_records:
  assumes "records_ok D w"
  shows "records_ok D (snd (approve_write D i decision w))
    \<and> records D (snd (approve_write D i decision w)) = (records D w)(i := map_option
        (\<lambda>d. d\<lparr>dep_status := (if is_approve decision then Dep_approved else Dep_rejected)\<rparr>) (records D w i))"
  using update_records [OF assms, of "\<lambda>d. d\<lparr>dep_status := st\<rparr>" i for st] by (simp add: approve_write_def)

lemma acquire_col [simp]: "acquire_lock D eps w = (x, w1) \<Longrightarrow> records D w1 = records D w \<and> records_ok D w1 = records_ok D w"
  using col_unchanged(5) [of D eps w] by (simp add: records_def records_ok_def)

lemma refused_records:
  assumes "records_ok D w" "exec_begin D eps d w = (Inl e, w1)"
  shows "records_ok D w1 \<and> (records D w1 = records D w \<or> (\<exists>fs. records D w1
    = (records D w)(ex_deployment_id eps := map_option (reject_dod fs) (records D w (ex_deployment_id eps)))))"
proof -
  obtain ok l w0 where a: "acquire_lock D eps w = ((ok, l), w0)" by (metis surj_pair)
  from acquire_col [OF a] assms(1) have w0: "records D w0 = records D w" "records_ok D w0" by simp_all
  have up: "records_ok D (updateDeployment D i (reject_dod fs) (deploy_publish D ev w0))
    \<and> records D (updateDeployment D i (reject_dod fs) (deploy_publish D ev w0)) = (records D w)(i := map_option (reject_dod fs) (records D w i))"
    for i fs ev
    using update_records [of "deploy_publish D ev w0" "reject_dod fs" i] w0 by (simp add: reject_dod_def)
  show ?thesis
    using assms(2) w0 up by (auto simp: exec_begin_def a Let_def split: if_splits option.splits)
qed

lemma begun_records:
  assumes "records_ok D w" "exec_begin D eps d w = (Inr s, w1)"
  shows "records_ok D w1 \<and> records D w1 = records D w
    \<and> st_id s = ex_deployment_id eps \<and> st_repo s = ex_repo eps \<and> st_environment s = ex_environment eps"
proof -
  obtain ok l w0 where a: "acquire_lock D eps w = ((ok, l), w0)" by (metis surj_pair)
  from acquire_col [OF a] assms(1) have w0: "records D w0 = records D w" "records_ok D w0" by simp_all
  then show ?thesis using assms(2) by (auto simp: exec_begin_def a Let_def split: if_splits option.splits)
qed

text \<open>The end of an execution, or a rollback, gives the record a final status.\<close>

lemma final_records:
  assumes "records_ok D w" "exec_finish D iso_of now s out w = (res, w1)"
  shows "\<exists>u. records_ok D w1 \<and> records D w1 = (records D w)(st_id s := map_option u (records D w (st_id s)))
    \<and> (\<forall>d. dep_repo (u d) = dep_repo d \<and> dep_environment (u d) = dep_environment d
        \<and> dep_status (u d) \<in> {Dep_deployed, Dep_rolled_back, Dep_failed})"
proof (cases out)
  case Platform_ok
  let ?u = "\<lambda>d. d\<lparr>dep_status := Dep_deployed, dep_deployed_at := Some (iso_of now)\<rparr>"
  show ?thesis using assms update_records [OF assms(1), of ?u "st_id s"] Platform_ok
    by (intro exI [of _ ?u]) (auto simp: exec_finish_def)
next
  case (Platform_threw msg)
  let ?u = "\<lambda>d. d\<lparr>dep_status := (if starts_with msg ''CANARY_ROLLBACK:'' then Dep_rolled_back else Dep_failed), dep_error := Some msg\<rparr>"
  show ?thesis using assms update_records [OF assms(1), of ?u "st_id s"] Platform_threw
    by (intro exI [of _ ?u]) (auto simp: exec_finish_def)
qed

text \<open>The steps of an assessment.\<close>

lemma inv_checked:
  assumes inv: "deploy_inv D r" and run: "assess_check D ps (run_w r) = Inr tier"
  shows "deploy_inv D (r\<lparr>assessing := (At_latest, tier, ps) # assessing r\<rparr>)" (is "deploy_inv D ?r1")
proof -
  have reg: "registered D tier ps" using run by (auto simp: assess_check_def registered_def split: if_splits option.splits)
  have g: "grows r ?r1" by (simp add: grows_def)
  show ?thesis
  proof (rule inv_update [OF inv g])
    show "stages_ok D ?r1" using inv reg by (auto simp: deploy_inv_def stages_ok_def)
    show "record_fine ?r1 k d" if "records D (run_w ?r1) k = Some d" for k d
      using that inv by (intro record_fine_grows [OF _ g]) (auto simp: deploy_inv_def ungated_def)
  qed (use inv in \<open>auto simp: deploy_inv_def assessed_ok_def\<close>)
qed

lemma inv_recorded:
  assumes inv: "deploy_inv D r" and x: "(At_record, tier, ps) \<in> set (assessing r)"
    and run: "assess_record D iso_of tier i ps stamp (run_w r) = Some w"
  shows "deploy_inv D (r\<lparr>run_w := w, assessed := (assessed r)(i \<mapsto> (tier, ps)),
      assessing := (At_dedup i, tier, ps) # remove1 (At_record, tier, ps) (assessing r)\<rparr>)" (is "deploy_inv D ?r1")
proof -
  from inv have ok: "records_ok D (run_w r)" by (simp add: deploy_inv_def)
  from record_records [OF ok run] have w: "records_ok D w" "records D (run_w r) i = None"
    "records D w = (records D (run_w r))(i \<mapsto> new_deployment i tier (iso_of stamp) ps)" by simp_all
  from inv w(2) have none: "assessed r i = None" by (simp add: deploy_inv_def assessed_ok_def)
  from stage_of [OF inv x] have reg: "registered D tier ps" by simp
  have g: "grows r ?r1" using none by (auto simp: grows_def map_le_def)
  have kept: "(p, t, qs) \<in> set (assessing ?r1)" if "(p, t, qs) \<in> set (assessing r)" "p = At_dedup k \<or> p = At_gates k" for p t qs k
    using that by auto
  have ung: "k \<in> ungated ?r1" if "k \<in> ungated r" for k
    using that kept unfolding ungated_def by fastforce
  show ?thesis
  proof (rule inv_update [OF inv g])
    show "records_ok D (run_w ?r1)" using w(1) by simp
    show "assessed_ok D ?r1" using inv w(3) reg by (auto simp: deploy_inv_def assessed_ok_def)
    show "stages_ok D ?r1" unfolding stages_ok_def
    proof clarify
      fix p t qs assume "(p, t, qs) \<in> set (assessing ?r1)"
      then consider "(p, t, qs) = (At_dedup i, tier, ps)" | "(p, t, qs) \<in> set (assessing r)" by (auto dest: in_remove1)
      then show "registered D t qs \<and> (\<forall>k. p = At_dedup k \<or> p = At_gates k \<longrightarrow> assessed ?r1 k = Some (t, qs))"
      proof cases
        case 1
        with reg show ?thesis by simp
      next
        case 2
        with stage_of [OF inv] have "registered D t qs \<and> (\<forall>k. p = At_dedup k \<or> p = At_gates k \<longrightarrow> assessed r k = Some (t, qs))" by simp
        with none show ?thesis by auto
      qed
    qed
    show "record_fine ?r1 k d" if d: "records D (run_w ?r1) k = Some d" for k d
    proof (cases "k = i")
      case True
      with d w(3) show ?thesis
        by (auto simp: record_fine_def assessed_for_def new_deployment_def ungated_def)
    next
      case False
      with d w(3) inv have "record_fine r k d" by (simp add: deploy_inv_def)
      then show ?thesis by (rule record_fine_grows [OF _ g ung])
    qed
  qed simp_all
qed

lemma inv_gated:
  assumes inv: "deploy_inv D r" and x: "(At_gates i, tier, ps) \<in> set (assessing r)"
  shows "deploy_inv D (r\<lparr>run_w := snd (assess_decide D tier i ps (run_w r)),
      assessing := remove1 (At_gates i, tier, ps) (assessing r)\<rparr>)" (is "deploy_inv D ?r1")
proof -
  let ?u = "\<lambda>d. d\<lparr>dep_status := decided_status tier ps\<rparr>"
  from inv have ok: "records_ok D (run_w r)" by (simp add: deploy_inv_def)
  have w: "records_ok D (run_w ?r1)" "records D (run_w ?r1) = (records D (run_w r))(i := map_option ?u (records D (run_w r) i))"
    using decide_records [OF ok, of tier i ps] by simp_all
  from stage_of [OF inv x] have a: "assessed r i = Some (tier, ps)" by simp
  have g: "grows r ?r1" by (simp add: grows_def)
  have ung: "k \<in> ungated ?r1" if "k \<in> ungated r" "k \<noteq> i" for k
  proof -
    from that obtain p t qs where y: "(p, t, qs) \<in> set (assessing r)" "p = At_dedup k \<or> p = At_gates k" by (auto simp: ungated_def)
    with that(2) have "(p, t, qs) \<in> set (remove1 (At_gates i, tier, ps) (assessing r))" by auto
    with y(2) show ?thesis by (fastforce simp: ungated_def)
  qed
  show ?thesis
  proof (rule inv_update [OF inv g w(1)])
    show "assessed_ok D ?r1" using inv w(2) by (auto simp: deploy_inv_def assessed_ok_def)
    show "stages_ok D ?r1" unfolding stages_ok_def
    proof clarify
      fix p t qs assume "(p, t, qs) \<in> set (assessing ?r1)"
      then have "(p, t, qs) \<in> set (assessing r)" by (auto dest: in_remove1)
      with stage_of [OF inv this] show "registered D t qs \<and> (\<forall>k. p = At_dedup k \<or> p = At_gates k \<longrightarrow> assessed ?r1 k = Some (t, qs))" by simp
    qed
    show "record_fine ?r1 k d" if d: "records D (run_w ?r1) k = Some d" for k d
    proof (cases "k = i")
      case True
      with w(2) d obtain e where e: "records D (run_w r) i = Some e" "d = ?u e" by auto
      with inv have "record_fine r i e" by (simp add: deploy_inv_def)
      then have "assessed_for ?r1 i (dep_repo e) (dep_environment e)" using assessed_for_grows [OF _ g] by (simp add: record_fine_def)
      with True e(2) a show ?thesis
        by (auto simp: record_fine_def gated_def reviewed_def gate_ok_def decided_status_def)
    next
      case False
      with d w(2) inv have "record_fine r k d" by (simp add: deploy_inv_def)
      then show ?thesis by (rule record_fine_grows [OF _ g ung]) (use False in simp_all)
    qed
  qed simp_all
qed

lemma inv_step:
  assumes "deploy_step D iso_of r r1" "deploy_inv D r"
  shows "deploy_inv D r1"
  using assms
proof cases
  case (st_check ps tier)
  with inv_checked [OF assms(2)] show ?thesis by simp
next
  case (st_latest tier ps now)
  have "ds_col (assess_latest D tier ps now (run_w r)) = ds_col (run_w r)" by (simp add: assess_latest_def)
  from inv_moved [OF assms(2) st_latest(2) _ _ _ this, of "[(At_record, tier, ps)]" At_record] st_latest(1) show ?thesis by simp
next
  case (st_record tier ps now rnd stamp w)
  with inv_recorded [OF assms(2) st_record(2,3)] show ?thesis by simp
next
  case (st_unrecorded tier ps now rnd stamp)
  from inv_moved [OF assms(2) st_unrecorded(2) _ _ _ refl, of "[]" At_record] st_unrecorded(1) show ?thesis by simp
next
  case (st_dedup i tier ps)
  have "ds_col (note_dedup D ps i (assess_ttl tier) (run_w r)) = ds_col (run_w r)" by simp
  moreover from stage_of [OF assms(2) st_dedup(2)] have "assessed r i = Some (tier, ps)" by simp
  ultimately show ?thesis
    using inv_moved [OF assms(2) st_dedup(2), of "[(At_gates i, tier, ps)]" "At_gates i"] st_dedup(1) by simp
next
  case (st_gates i tier ps)
  with inv_gated [OF assms(2)] show ?thesis by simp
next
  case (st_decide i decision d)
  then have rec: "records D (run_w r) i = Some d" "dep_status d = Dep_pending"
    by (auto simp: approve_read_def get_record split: if_splits option.splits)
  with assms(2) have "gated r i \<or> i \<in> ungated r" by (auto simp: deploy_inv_def record_fine_def)
  moreover have "assessed r i \<noteq> None" using assms(2) rec(1) unfolding deploy_inv_def assessed_ok_def by (metis option.distinct(1))
  ultimately have "is_approve decision \<longrightarrow> approvable r1 i" using st_decide(1) by (auto simp: gated_def approvable_def)
  moreover from assms(2) have "records_ok D (run_w r)" by (simp add: deploy_inv_def)
  ultimately show ?thesis using st_decide(1) by (intro inv_same [OF assms(2)]) auto
next
  case (st_decided i decision)
  from assms(2) have ok: "records_ok D (run_w r)" by (simp add: deploy_inv_def)
  from assms(2) st_decided(2) have app: "is_approve decision \<longrightarrow> approvable r i" by (fastforce simp: deploy_inv_def)
  have rev: "is_approve decision \<longrightarrow> reviewed r1 i"
    using app st_decided(1) by (auto simp: approvable_def reviewed_def gate_ok_def)
  show ?thesis
    by (rule inv_changed [OF assms(2), where i = i
        and u = "\<lambda>d. d\<lparr>dep_status := (if is_approve decision then Dep_approved else Dep_rejected)\<rparr>"])
      (use write_records [OF ok, of i decision] st_decided(1) rev
        in \<open>auto simp: grows_def dest: in_remove1\<close>)
next
  case (st_read ps d)
  then have "records D (run_w r) (ex_deployment_id ps) = Some d" "dep_status d = Dep_approved"
    "dep_repo d = ex_repo ps" "dep_environment d = ex_environment ps"
    by (auto simp: exec_read_def get_record split: if_splits option.splits)
  with assms(2) have "reviewed r (ex_deployment_id ps)
      \<and> assessed_for r (ex_deployment_id ps) (ex_repo ps) (ex_environment ps)"
    by (fastforce simp: deploy_inv_def record_fine_def)
  moreover from assms(2) have "records_ok D (run_w r)" by (simp add: deploy_inv_def)
  ultimately show ?thesis using st_read(1)
    by (intro inv_same [OF assms(2)]) (auto simp: reviewed_def assessed_for_def)
next
  case (st_refused ps d e w)
  from assms(2) have ok: "records_ok D (run_w r)" by (simp add: deploy_inv_def)
  have sub: "set (reading r1) \<subseteq> set (reading r)" using st_refused(1) set_remove1_subset by fastforce
  from refused_records [OF ok st_refused(3)] show ?thesis
  proof (elim conjE disjE exE)
    assume "records_ok D w" "records D w = records D (run_w r)"
    then show ?thesis using st_refused(1) sub by (intro inv_same [OF assms(2)]) auto
  next
    fix fs
    assume up: "records_ok D w" "records D w
      = (records D (run_w r))(ex_deployment_id ps := map_option (reject_dod fs) (records D (run_w r) (ex_deployment_id ps)))"
    show ?thesis
      by (rule inv_changed [OF assms(2), where i = "ex_deployment_id ps" and u = "reject_dod fs"])
        (use up st_refused(1) sub in \<open>auto simp: grows_def reject_dod_def\<close>)
  qed
next
  case (st_begin ps d s w)
  from assms(2) have ok: "records_ok D (run_w r)" by (simp add: deploy_inv_def)
  have sub: "set (reading r1) \<subseteq> set (reading r)" using st_begin(1) set_remove1_subset by fastforce
  from assms(2) st_begin(2) have "reviewed r (ex_deployment_id ps)
      \<and> assessed_for r (ex_deployment_id ps) (ex_repo ps) (ex_environment ps)"
    by (fastforce simp: deploy_inv_def)
  then have "reviewed r1 (ex_deployment_id ps) \<and> assessed_for r1 (ex_deployment_id ps) (ex_repo ps) (ex_environment ps)"
    using st_begin(1) by (simp add: reviewed_def assessed_for_def)
  with begun_records [OF ok st_begin(3)] st_begin(1) sub show ?thesis
    by (intro inv_same [OF assms(2)]) auto
next
  case (st_rollback s now)
  from assms(2) have ok: "records_ok D (run_w r)" by (simp add: deploy_inv_def)
  from assms(2) st_rollback(2) have rev: "reviewed r (st_id s)" by (simp add: deploy_inv_def)
  let ?u = "\<lambda>d. d\<lparr>dep_status := Dep_rolled_back, dep_rolled_back_at := Some (iso_of now)\<rparr>"
  show ?thesis
    by (rule inv_changed [OF assms(2), where i = "st_id s" and u = ?u])
      (use update_records [OF ok, of ?u "st_id s"] st_rollback(1) rev in \<open>auto simp: rollbackEcs_def grows_def reviewed_def\<close>)
next
  case (st_finish s now out res w)
  from assms(2) have ok: "records_ok D (run_w r)" by (simp add: deploy_inv_def)
  from assms(2) st_finish(2) have rev: "reviewed r (st_id s)" by (simp add: deploy_inv_def)
  from final_records [OF ok st_finish(3)] obtain u where
    u: "records_ok D w" "records D w = (records D (run_w r))(st_id s := map_option u (records D (run_w r) (st_id s)))"
      "\<And>d. dep_repo (u d) = dep_repo d \<and> dep_environment (u d) = dep_environment d"
      "\<And>d. dep_status (u d) \<in> {Dep_deployed, Dep_rolled_back, Dep_failed}" by blast
  have st: "dep_status (u d) \<noteq> Dep_pending" for d using u(4) [of d] by auto
  have rev1: "reviewed r1 (st_id s)" using rev st_finish(1) by (simp add: reviewed_def)
  show ?thesis
    by (rule inv_changed [OF assms(2), where i = "st_id s" and u = u])
      (use u(1-3) st rev1 st_finish(1) in \<open>auto simp: grows_def dest: in_remove1\<close>)
next
  case (st_clear reason cutoff)
  from assms(2) have ok: "records_ok D (run_w r)" by (simp add: deploy_inv_def)
  have w: "run_w r1 = snd (clearPendingDeployments D reason cutoff (run_w r))" using st_clear by simp
  note cl = clear_records [OF ok, of reason cutoff, folded w]
  show ?thesis
  proof (rule inv_update [OF assms(2)])
    show "records_ok D (run_w r1)" using cl by blast
    show "record_fine r1 k d" if d: "records D (run_w r1) k = Some d" for k d
    proof -
      from cl have "records D (run_w r1) k = records D (run_w r) k \<or> (\<exists>e. records D (run_w r) k = Some e
        \<and> records D (run_w r1) k = Some (e\<lparr>dep_status := Dep_rejected, dep_error := Some reason\<rparr>))" by blast
      with d obtain e where e: "records D (run_w r) k = Some e"
        and de: "d = e \<or> d = e\<lparr>dep_status := Dep_rejected, dep_error := Some reason\<rparr>" by (metis option.inject)
      from assms(2) e have "record_fine r k e" unfolding deploy_inv_def by blast
      with de have "record_fine r k d" by (elim disjE) (simp_all add: record_fine_def)
      then show ?thesis by (rule record_fine_grows) (simp_all add: grows_def ungated_def st_clear)
    qed
    have "records D (run_w r1) k = None \<longleftrightarrow> records D (run_w r) k = None" for k
      using cl by (metis option.distinct(1))
    then show "assessed_ok D r1" using assms(2) st_clear by (simp add: deploy_inv_def assessed_ok_def)
    show "stages_ok D r1" using assms(2) st_clear by (simp add: deploy_inv_def stages_ok_def)
  qed (simp_all add: st_clear grows_def)
qed

lemma inv_reach:
  assumes "deploy_reach D iso_of c s r" "docs (dd_mongo D) c = {#}"
  shows "deploy_inv D r"
  using assms(1)
proof induction
  case dr_start
  have ok: "ids_unique (dd_mongo D) dep_id c" using assms(2) by (simp add: ids_unique_def)
  have "doc_at (dd_mongo D) dep_id c k = None" for k
    using mongo_collection.lookup_none [OF col ok] assms(2) by simp
  with ok show ?case by (simp add: deploy_inv_def deploy_start_def records_ok_def records_def assessed_ok_def stages_ok_def)
next
  case (dr_step r r1)
  then show ?case by (blast intro: inv_step)
qed

end

section \<open>The production lock\<close>

lemma redis_unchanged [simp]:
  "ds_redis (updateDeployment D i u w) = ds_redis w" "ds_redis (deploy_publish D e w) = ds_redis w"
  "ds_redis (snd (approve_write D i decision w)) = ds_redis w" "ds_redis (rollbackEcs D iso_of now i w) = ds_redis w"
  "ds_redis (snd (clearPendingDeployments D reason cutoff w)) = ds_redis w" "ds_redis (snd (assess_decide D tier i ps w)) = ds_redis w"
  by (simp_all add: assess_decide_def updateDeployment_def deploy_publish_def approve_write_def rollbackEcs_def clearPendingDeployments_def
      Let_def split: prod.splits)

lemma recorded_redis: "assess_record D iso_of tier i ps now w = Some w1 \<Longrightarrow> ds_redis w1 = ds_redis w"
  by (auto simp: assess_record_def recordDeployment_def)

text \<open>Each production deployment under way holds the lock of its repository, and no two hold the same.\<close>

definition lock_inv :: "'s redis \<Rightarrow> ('c, 's) deploy_run \<Rightarrow> bool" where
  "lock_inv R r \<longleftrightarrow>
     (\<forall>s \<in> set (running r). st_lock s = (if st_environment s = ''production''
         then Some (lock_key (st_repo s) (st_environment s)) else None))
     \<and> (\<forall>s \<in> set (running r). \<forall>k. st_lock s = Some k \<longrightarrow> EXISTS R k (ds_redis (run_w r)))
     \<and> distinct (List.map_filter st_lock (running r))"

lemma map_filter_set: "k \<in> set (List.map_filter f xs) \<longleftrightarrow> (\<exists>x \<in> set xs. f x = Some k)"
  by (force simp: List.map_filter_def)

lemma map_filter_remove1:
  "distinct (List.map_filter f xs) \<Longrightarrow> distinct (List.map_filter f (remove1 x xs))
    \<and> (\<forall>k. f x = Some k \<longrightarrow> x \<in> set xs \<longrightarrow> k \<notin> set (List.map_filter f (remove1 x xs)))"
proof (induction xs)
  case (Cons a xs)
  have sub: "set (List.map_filter f (remove1 x xs)) \<subseteq> set (List.map_filter f xs)"
    by (auto simp: map_filter_set) (meson in_remove1)
  have mem: "k \<in> set (List.map_filter f xs)" if "x \<in> set xs" "f x = Some k" for k
    using that by (auto simp: map_filter_set)
  from Cons show ?case using sub mem by (auto simp: map_filter_simps split: option.splits if_splits)
qed (simp add: map_filter_simps)

locale deploy_locks =
  fixes D :: "('c, 's) deploy_deps" and R :: "'s redis"
  assumes server: "dd_redis D = Some R" and laws: "redis_exec_locks R"
begin

lemma ttl_keeps: "0 < ttl \<Longrightarrow> EXISTS R l (ds_redis w) \<Longrightarrow> EXISTS R l (ds_redis (set_with_ttl (dd_redis D) k v ttl w))"
  by (simp add: set_with_ttl_def server redis_exec_locks.exists_expire [OF laws] redis_exec_locks.exists_settext [OF laws])

lemma stages_keep:
  assumes "EXISTS R l (ds_redis w)"
  shows "EXISTS R l (ds_redis (assess_latest D tier ps now w))" "EXISTS R l (ds_redis (note_dedup D ps i (assess_ttl tier) w))"
proof -
  have pos: "0 < assess_ttl tier" by (simp add: assess_ttl_def CRITICAL_ASSESS_DEDUP_TTL_def ASSESS_DEDUP_TTL_def)
  show "EXISTS R l (ds_redis (assess_latest D tier ps now w))" "EXISTS R l (ds_redis (note_dedup D ps i (assess_ttl tier) w))"
    using ttl_keeps [OF pos assms] assms by (simp_all add: assess_latest_def note_dedup_def split: option.splits)
qed

lemma acquired:
  assumes "acquire_lock D eps w = ((ok, l), w1)"
  shows "if ex_environment eps = ''production'' then
       l = Some (lock_key (ex_repo eps) (ex_environment eps))
       \<and> ok = (\<not> EXISTS R (lock_key (ex_repo eps) (ex_environment eps)) (ds_redis w))
       \<and> (\<forall>k. EXISTS R k (ds_redis w1) \<longleftrightarrow> k = lock_key (ex_repo eps) (ex_environment eps) \<or> EXISTS R k (ds_redis w))
     else ok \<and> l = None \<and> ds_redis w1 = ds_redis w"
proof (cases "ex_environment eps = ''production''")
  case True
  let ?k = "lock_key (ex_repo eps) (ex_environment eps)"
  obtain b s1 where s: "SETNX R ?k DEPLOY_LOCK_TTL (ds_redis w) = (b, s1)" by fastforce
  with redis_keys.setnx [OF redis_exec_locks.axioms(1) [OF laws] s] True assms show ?thesis
    by (auto simp: acquire_lock_def server Let_def)
next
  case False
  with assms show ?thesis by (auto simp: acquire_lock_def server)
qed

lemma released: "EXISTS R k (ds_redis (release_lock D l w)) \<longleftrightarrow> l \<noteq> Some k \<and> EXISTS R k (ds_redis w)"
proof (cases l)
  case (Some j)
  obtain n s1 where "DEL R j (ds_redis w) = (n, s1)" by fastforce
  with redis_exec_locks.exists_del [OF laws this] Some show ?thesis by (auto simp: release_lock_def server)
qed (simp add: release_lock_def server)

lemma refused_keeps:
  assumes "exec_begin D eps d w = (Inl e, w1)" "EXISTS R k (ds_redis w)"
  shows "EXISTS R k (ds_redis w1)"
proof -
  obtain ok l w0 where a: "acquire_lock D eps w = ((ok, l), w0)" by (metis surj_pair)
  from acquired [OF a] assms(2) have keep: "EXISTS R k (ds_redis w0)" and l: "ok \<Longrightarrow> l \<noteq> Some k"
    by (auto split: if_splits)
  show ?thesis
    using assms(1) keep l by (auto simp: exec_begin_def a Let_def released split: if_splits option.splits)
qed

lemma begun_lock:
  assumes "exec_begin D eps d w = (Inr s, w1)"
  shows "if st_environment s = ''production'' then
       st_lock s = Some (lock_key (st_repo s) (st_environment s))
       \<and> \<not> EXISTS R (lock_key (st_repo s) (st_environment s)) (ds_redis w)
       \<and> (\<forall>k. EXISTS R k (ds_redis w1) \<longleftrightarrow> k = lock_key (st_repo s) (st_environment s) \<or> EXISTS R k (ds_redis w))
     else st_lock s = None \<and> ds_redis w1 = ds_redis w"
proof -
  obtain ok l w0 where a: "acquire_lock D eps w = ((ok, l), w0)" by (metis surj_pair)
  from assms have "ok" "w1 = w0" "st_lock s = l" "st_repo s = ex_repo eps" "st_environment s = ex_environment eps"
    by (auto simp: exec_begin_def a Let_def split: if_splits option.splits)
  with acquired [OF a] show ?thesis by (auto split: if_splits)
qed

lemma lock_inv_keep:
  assumes "lock_inv R r" "running r1 = running r" "\<And>k. EXISTS R k (ds_redis (run_w r)) \<Longrightarrow> EXISTS R k (ds_redis (run_w r1))"
  shows "lock_inv R r1"
  using assms by (auto simp: lock_inv_def)

lemma lock_inv_step:
  assumes "deploy_step D iso_of r r1" "lock_inv R r"
  shows "lock_inv R r1"
  using assms
proof cases
  case (st_check ps tier)
  then show ?thesis by (intro lock_inv_keep [OF assms(2)]) auto
next
  case (st_latest tier ps now)
  then show ?thesis using stages_keep by (intro lock_inv_keep [OF assms(2)]) auto
next
  case (st_record tier ps now rnd stamp w)
  then show ?thesis using recorded_redis [OF st_record(3)] by (intro lock_inv_keep [OF assms(2)]) auto
next
  case (st_unrecorded tier ps now rnd stamp)
  then show ?thesis by (intro lock_inv_keep [OF assms(2)]) auto
next
  case (st_dedup i tier ps)
  then show ?thesis using stages_keep by (intro lock_inv_keep [OF assms(2)]) auto
next
  case (st_gates i tier ps)
  then show ?thesis by (intro lock_inv_keep [OF assms(2)]) auto
next
  case (st_decide i decision d)
  then show ?thesis by (intro lock_inv_keep [OF assms(2)]) auto
next
  case (st_decided i decision)
  then show ?thesis by (intro lock_inv_keep [OF assms(2)]) auto
next
  case (st_read ps d)
  then show ?thesis by (intro lock_inv_keep [OF assms(2)]) auto
next
  case (st_refused ps d e w)
  then show ?thesis using refused_keeps by (intro lock_inv_keep [OF assms(2)]) auto
next
  case (st_begin ps d s w)
  note b = begun_lock [OF st_begin(3)]
  have new: "lock_key (st_repo s) (st_environment s) \<notin> set (List.map_filter st_lock (running r))"
    if "st_environment s = ''production''"
    using that b assms(2) by (auto simp: lock_inv_def map_filter_set)
  show ?thesis
    unfolding lock_inv_def st_begin(1)
  proof (intro conjI)
    show "\<forall>t \<in> set (running (r\<lparr>run_w := w, reading := remove1 (ps, d) (reading r), running := s # running r,
        started_ids := st_id s # started_ids r\<rparr>)). st_lock t = (if st_environment t = ''production''
         then Some (lock_key (st_repo t) (st_environment t)) else None)"
      using b assms(2) by (auto simp: lock_inv_def split: if_splits)
    show "\<forall>t \<in> set (running (r\<lparr>run_w := w, reading := remove1 (ps, d) (reading r), running := s # running r,
        started_ids := st_id s # started_ids r\<rparr>)). \<forall>k. st_lock t = Some k \<longrightarrow> EXISTS R k (ds_redis (run_w
          (r\<lparr>run_w := w, reading := remove1 (ps, d) (reading r), running := s # running r, started_ids := st_id s # started_ids r\<rparr>)))"
      using b assms(2) by (auto simp: lock_inv_def split: if_splits)
    show "distinct (List.map_filter st_lock (running (r\<lparr>run_w := w, reading := remove1 (ps, d) (reading r), running := s # running r,
        started_ids := st_id s # started_ids r\<rparr>)))"
      using b new assms(2) by (auto simp: lock_inv_def map_filter_simps split: if_splits)
  qed
next
  case (st_rollback s now)
  then show ?thesis by (intro lock_inv_keep [OF assms(2)]) auto
next
  case (st_finish s now out res w)
  have w: "EXISTS R k (ds_redis w) \<longleftrightarrow> st_lock s \<noteq> Some k \<and> EXISTS R k (ds_redis (run_w r))" for k
    using st_finish(3) by (cases out) (auto simp: exec_finish_def released)
  from assms(2) have d: "distinct (List.map_filter st_lock (running r))" by (simp add: lock_inv_def)
  note rm = map_filter_remove1 [OF d, of s]
  have other: "st_lock t \<noteq> st_lock s \<or> st_lock t = None" if "t \<in> set (remove1 s (running r))" for t
    using rm st_finish(2) that by (cases "st_lock s") (auto simp: map_filter_set)
  show ?thesis
    using assms(2) rm w other unfolding lock_inv_def st_finish(1)
    by (auto dest: in_remove1)
next
  case (st_clear reason cutoff)
  then show ?thesis by (intro lock_inv_keep [OF assms(2)]) auto
qed

lemma lock_inv_reach: "deploy_reach D iso_of c s r \<Longrightarrow> lock_inv R r"
proof (induction rule: deploy_reach.induct)
  case dr_start
  then show ?case by (simp add: lock_inv_def deploy_start_def map_filter_simps)
next
  case (dr_step r r1)
  then show ?case by (blast intro: lock_inv_step)
qed

end

interpretation list_deployments: deploy_store "\<lparr>dd_mongo = list_mongo dep_id, dd_redis = R, dd_registry = reg, dd_bus = b\<rparr>"
  for R :: "'s redis option" and reg b
  by (rule deploy_store.intro) (simp add: list_store.mongo_collection_axioms)

interpretation ref_deploy_locks: deploy_locks "\<lparr>dd_mongo = M, dd_redis = Some ref_redis, dd_registry = reg, dd_bus = b\<rparr>" ref_redis
  for M :: "('c, deployment) mongo" and reg b
  by (rule deploy_locks.intro) (simp_all add: ref_locks.redis_exec_locks_axioms)

lemma length_filter_mono: "(\<And>x. x \<in> set xs \<Longrightarrow> p x \<Longrightarrow> q x) \<Longrightarrow> length (filter p xs) \<le> length (filter q xs)"
  by (induction xs) auto

lemma locked_once:
  assumes "lock_inv R r"
  shows "length (filter (\<lambda>s. st_repo s = repo \<and> st_environment s = ''production'') (running r)) \<le> 1"
proof -
  let ?p = "\<lambda>s. st_repo s = repo \<and> st_environment s = ''production''" and ?k = "lock_key repo ''production''"
  have once: "length (filter (\<lambda>s. f s = Some k) ss) \<le> 1" if "distinct (List.map_filter f ss)" for f :: "started \<Rightarrow> string option" and k ss
    using that
  proof (induction ss)
    case (Cons s ss)
    show ?case
    proof (cases "f s = Some k")
      case True
      with Cons.prems have "filter (\<lambda>s. f s = Some k) ss = []"
        by (auto simp: map_filter_simps map_filter_set filter_empty_conv)
      then show ?thesis by simp
    next
      case False
      with Cons show ?thesis by (cases "f s") (auto simp: map_filter_simps)
    qed
  qed simp
  have "\<And>s. s \<in> set (running r) \<Longrightarrow> ?p s \<Longrightarrow> st_lock s = Some ?k"
    using assms by (simp add: lock_inv_def)
  then have "length (filter ?p (running r)) \<le> length (filter (\<lambda>s. st_lock s = Some ?k) (running r))"
    by (rule length_filter_mono)
  also have "\<dots> \<le> 1" using assms by (intro once) (simp add: lock_inv_def)
  finally show ?thesis .
qed

section \<open>Runs\<close>

definition sample_repo :: repo_config where
  "sample_repo = \<lparr>rc_risk_tier = Tier_critical, rc_type = ''ecs'', rc_health_check_url = None\<rparr>"

definition sample_deps :: "(deployment list, ref_db) deploy_deps" where
  "sample_deps = \<lparr>dd_mongo = list_mongo dep_id, dd_redis = Some ref_redis,
     dd_registry = (\<lambda>x. if x = ''core'' then Some sample_repo else None), dd_bus = True\<rparr>"

text \<open>A change of a critical repository, with any diff.\<close>

definition sample_change :: "string \<Rightarrow> assess_params" where
  "sample_change diff = \<lparr>as_repo = ''core'', as_environment = ''production'', as_pr_url = Some ''u'', as_commit_sha = None,
    as_diff_summary = diff, as_diff_patches = None, as_files_changed = [''a.ts''], as_correlationId = None\<rparr>"

definition sample_exec :: execute_params where
  "sample_exec = \<lparr>ex_repo = ''core'', ex_environment = ''production'', ex_deployment_id = ''dep-1-a'', ex_commit_sha = None,
     ex_skipDodChecks = []\<rparr>"

definition sample_waiting :: deployment where
  "sample_waiting = new_deployment ''dep-1-a'' Tier_critical ''1'' (sample_change [])"

definition sample_stored :: "deploy_event list \<Rightarrow> (deployment list, ref_db) deploys" where
  "sample_stored es = \<lparr>ds_col = [sample_waiting], ds_redis = EXPIRE ref_redis ''deploy:latest:core:production'' (assess_ttl Tier_critical)
      (SETTEXT ref_redis ''deploy:latest:core:production'' ''1'' db_empty), ds_events = es\<rparr>"

definition sample_approved :: "deploy_event list \<Rightarrow> (deployment list, ref_db) deploys" where
  "sample_approved es = snd (approve_write sample_deps ''dep-1-a'' ''approve'' (sample_stored es))"

definition sample_begun :: "deploy_event list \<Rightarrow> (deploy_error + started) \<times> (deployment list, ref_db) deploys" where
  "sample_begun es = exec_begin sample_deps sample_exec (projr (exec_read sample_deps sample_exec (sample_approved es))) (sample_approved es)"

definition sample_started :: started where
  "sample_started = \<lparr>st_id = ''dep-1-a'', st_repo = ''core'', st_environment = ''production'', st_type = ''ecs'', st_commit = None,
     st_canary = True, st_lock = Some (lock_key ''core'' ''production'')\<rparr>"

lemma empty_diff_passes: "hard_gates_passed []"
proof -
  have "\<not> added (diff_raws [] ! i)" if "i < length (diff_raws [])" for i
    using that by (cases i) (code_simp | simp add: diff_raws_def added_def)+
  with gates_block_iff [of "[]"] show ?thesis by blast
qed

lemma sample_deps_simps [simp]:
  "dd_mongo sample_deps = list_mongo dep_id" "dd_redis sample_deps = Some ref_redis" "dd_bus sample_deps"
  "dd_registry sample_deps ''core'' = Some sample_repo" "rc_risk_tier sample_repo = Tier_critical" "rc_type sample_repo = ''ecs''"
  by (simp_all add: sample_deps_def sample_repo_def)

lemma sample_change_simps [simp]:
  "as_repo (sample_change d) = ''core''" "as_environment (sample_change d) = ''production''" "as_commit_sha (sample_change d) = None"
  "\<not> docs_only (sample_change d)" "diff_content (sample_change d) = d" "latest_key (sample_change d) = ''deploy:latest:core:production''"
  "new_deployment ''dep-1-a'' Tier_critical ''1'' (sample_change d) = sample_waiting"
  by (simp_all add: sample_change_def sample_waiting_def docs_only_def isDocsOnlyFile_def DOCS_ONLY_EXACT_def DOCS_ONLY_DIRS_def diff_content_def
      truthy_text_def latest_key_def new_deployment_def ends_with_def starts_with_def split: list.splits)

lemma dep_waiting [simp]: "dep_id sample_waiting = ''dep-1-a''" "sample_waiting\<lparr>dep_status := Dep_pending\<rparr> = sample_waiting"
  by (simp_all add: sample_waiting_def new_deployment_def)

text \<open>Assessed up to its gates, whatever the diff is.\<close>

lemma sample_recorded:
  obtains r where "deploy_reach sample_deps dec_int [] db_empty r" "run_w r = sample_stored []"
    "assessing r = [(At_gates ''dep-1-a'', Tier_critical, sample_change d)]" "deciding r = []" "reading r = []" "running r = []"
    "assessed r = [''dep-1-a'' \<mapsto> (Tier_critical, sample_change d)]" "architect_ok r = {}" "overtaken r = {}"
proof -
  let ?D = "sample_deps" and ?i = "''dep-1-a''"
  have i: "deployment_id 1 ''a'' = ?i" "dec_int 1 = ''1''" "''production'' \<in> set VALID_ENVIRONMENTS" by code_simp+
  define r0 where "r0 = deploy_start ([] :: deployment list) db_empty"
  define r1 where "r1 = r0\<lparr>assessing := [(At_latest, Tier_critical, sample_change d)]\<rparr>"
  define r2 where "r2 = r1\<lparr>run_w := (sample_stored [])\<lparr>ds_col := []\<rparr>, assessing := [(At_record, Tier_critical, sample_change d)]\<rparr>"
  define r3 where "r3 = r2\<lparr>run_w := sample_stored [], assessed := [?i \<mapsto> (Tier_critical, sample_change d)],
     assessing := [(At_dedup ?i, Tier_critical, sample_change d)]\<rparr>"
  define r4 where "r4 = r3\<lparr>assessing := [(At_gates ?i, Tier_critical, sample_change d)]\<rparr>"
  have "deploy_step ?D dec_int r0 r1"
    using st_check [of ?D "sample_change d" r0 Tier_critical dec_int] i(3)
    by (simp add: assess_check_def assessed_before_def truthy_text_def r1_def r0_def deploy_start_def)
  moreover have "deploy_step ?D dec_int r1 r2"
    using st_latest [of Tier_critical "sample_change d" r1 ?D dec_int 1] i(2)
    by (simp add: assess_latest_def set_with_ttl_def r2_def r1_def r0_def deploy_start_def sample_stored_def)
  moreover have "deploy_step ?D dec_int r2 r3"
    using st_record [of Tier_critical "sample_change d" r2 ?D dec_int 1 "''a''" 1 "sample_stored []"] i
    by (simp add: assess_record_def recordDeployment_def list_mongo_def dep_waiting r3_def r2_def r1_def r0_def deploy_start_def sample_stored_def)
  moreover have "deploy_step ?D dec_int r3 r4"
    using st_dedup [of ?i Tier_critical "sample_change d" r3 ?D dec_int]
    by (simp add: note_dedup_def truthy_text_def r4_def r3_def r2_def r1_def r0_def deploy_start_def)
  moreover have "deploy_reach ?D dec_int [] db_empty r0" unfolding r0_def by (rule dr_start)
  ultimately have "deploy_reach ?D dec_int [] db_empty r4" by (meson dr_step)
  then show ?thesis by (rule that) (simp_all add: r4_def r3_def r2_def r1_def r0_def deploy_start_def)
qed

text \<open>Approved and begun.\<close>

lemma sample_begins:
  assumes "deploy_reach sample_deps dec_int [] db_empty r" "run_w r = sample_stored es" "deciding r = []" "reading r = []" "running r = []"
    and "overtaken r = {}" "architect_ok r = {}"
  obtains r1 where "deploy_reach sample_deps dec_int [] db_empty r1" "running r1 = [sample_started]" "assessed r1 = assessed r"
    "assessing r1 = assessing r" "overtaken r1 = {''dep-1-a''} \<inter> ungated r" "architect_ok r1 = {''dep-1-a''}"
proof -
  let ?D = "sample_deps" and ?i = "''dep-1-a''" and ?yes = "''approve''"
  have steps: "\<not> isl (approve_read ?D ?i ?yes (sample_stored es))" "\<not> isl (exec_read ?D sample_exec (sample_approved es))"
      "fst (sample_begun es) = Inr sample_started"
    by code_simp+
  define d where "d = projr (exec_read ?D sample_exec (sample_approved es))"
  define r2 where "r2 = r\<lparr>deciding := [(?i, ?yes)], overtaken := (if ?i \<in> ungated r then {?i} else {})\<rparr>"
  define r3 where "r3 = r2\<lparr>run_w := sample_approved es, deciding := [], architect_ok := {?i}\<rparr>"
  define r4 where "r4 = r3\<lparr>reading := [(sample_exec, d)]\<rparr>"
  define r5 where "r5 = r4\<lparr>run_w := snd (sample_begun es), reading := [], running := [sample_started], started_ids := ?i # started_ids r\<rparr>"
  have yes: "is_approve ?yes" by code_simp
  have "deploy_step ?D dec_int r r2"
    using steps(1) st_decide [of ?D ?i ?yes r] yes assms(2,3,6)
    by (cases "approve_read ?D ?i ?yes (sample_stored es)") (auto simp: r2_def)
  moreover have "deploy_step ?D dec_int r2 r3"
    using st_decided [of ?i ?yes r2 ?D dec_int] yes assms(2,7) by (simp add: r3_def r2_def sample_approved_def)
  moreover have "deploy_step ?D dec_int r3 r4"
    using steps(2) st_read [of ?D sample_exec r3 d] assms(4)
    by (cases "exec_read ?D sample_exec (sample_approved es)") (simp_all add: r4_def r3_def r2_def d_def)
  moreover have "deploy_step ?D dec_int r4 r5"
    using steps(3) st_begin [of sample_exec d r4 ?D sample_started "snd (sample_begun es)" dec_int] assms(5)
    by (cases "sample_begun es") (simp add: r5_def r4_def r3_def r2_def d_def sample_begun_def sample_started_def)
  ultimately have "deploy_reach ?D dec_int [] db_empty r5" using assms(1) by (meson dr_step)
  then show ?thesis by (rule that) (simp_all add: r5_def r4_def r3_def r2_def)
qed

text \<open>Assessed, gated, approved and begun.\<close>

lemma sample_run:
  obtains r where "deploy_reach sample_deps dec_int [] db_empty r" "running r = [sample_started]" "overtaken r = {}"
    "assessed r = [''dep-1-a'' \<mapsto> (Tier_critical, sample_change [])]"
proof -
  obtain r where r: "deploy_reach sample_deps dec_int [] db_empty r" "run_w r = sample_stored []"
    "assessing r = [(At_gates ''dep-1-a'', Tier_critical, sample_change [])]" "deciding r = []" "reading r = []" "running r = []"
    "assessed r = [''dep-1-a'' \<mapsto> (Tier_critical, sample_change [])]" "architect_ok r = {}" "overtaken r = {}"
    by (rule sample_recorded)
  have "snd (assess_decide sample_deps Tier_critical ''dep-1-a'' (sample_change []) (sample_stored [])) = sample_stored [Ev_review ''dep-1-a'']"
    by (simp add: assess_decide_def empty_diff_passes updateDeployment_def deploy_publish_def sample_stored_def list_mongo_def)
  with st_gates [of "''dep-1-a''" Tier_critical "sample_change []" r sample_deps dec_int] r
  have "deploy_step sample_deps dec_int r (r\<lparr>run_w := sample_stored [Ev_review ''dep-1-a''], assessing := []\<rparr>)" by simp
  with r(1) have gated: "deploy_reach sample_deps dec_int [] db_empty (r\<lparr>run_w := sample_stored [Ev_review ''dep-1-a''], assessing := []\<rparr>)"
    by (rule dr_step)
  show ?thesis
    by (rule sample_begins [OF gated]) (use r that in \<open>auto simp: ungated_def\<close>)
qed

text \<open>
  The pending record is visible before the gates run, and the architect's decision only asks for a pending record: a critical change with any
  diff, one that the gates would block included, can be approved and started before them.
\<close>

lemma approval_overtakes_the_gates:
  "\<exists>r. deploy_reach sample_deps dec_int [] db_empty r \<and> running r = [sample_started]
     \<and> assessed r ''dep-1-a'' = Some (Tier_critical, sample_change diff) \<and> \<not> docs_only (sample_change diff)
     \<and> diff_content (sample_change diff) = diff \<and> overtaken r = {''dep-1-a''}"
proof -
  obtain r where r: "deploy_reach sample_deps dec_int [] db_empty r" "run_w r = sample_stored []"
    "assessing r = [(At_gates ''dep-1-a'', Tier_critical, sample_change diff)]" "deciding r = []" "reading r = []" "running r = []"
    "assessed r = [''dep-1-a'' \<mapsto> (Tier_critical, sample_change diff)]" "architect_ok r = {}" "overtaken r = {}"
    by (rule sample_recorded)
  obtain r1 where "deploy_reach sample_deps dec_int [] db_empty r1" "running r1 = [sample_started]" "assessed r1 = assessed r"
    "overtaken r1 = {''dep-1-a''} \<inter> ungated r"
    by (rule sample_begins [OF r(1,2,4-6,9,8)])
  with r(3,7) show ?thesis by (intro exI [of _ r1]) (auto simp: ungated_def)
qed

section \<open>What holds of every deployment\<close>

text \<open>
  C8: however the calls interleave, a deployment that is running was assessed, for the same repository and
  environment, under the tier of that repository; and if the repository is critical and something else than documentation changed, the
  architect approved that deployment, and the hard gates passed on the diff of that assessment or else the architect's decision
  overtook the assessment, that is, it was taken on the record stored before the gates ran.
\<close>
theorem critical_deployments_are_reviewed:
  assumes "mongo_collection (dd_mongo D) dep_id" and "docs (dd_mongo D) c = {#}"
    and "deploy_reach D iso_of c s0 r" and "s \<in> set (running r)"
  shows "\<exists>tier ps. assessed r (st_id s) = Some (tier, ps) \<and> as_repo ps = st_repo s \<and> as_environment ps = st_environment s
    \<and> map_option rc_risk_tier (dd_registry D (as_repo ps)) = Some tier
    \<and> (tier = Tier_critical \<and> \<not> docs_only ps \<longrightarrow>
        st_id s \<in> architect_ok r \<and> (hard_gates_passed (diff_content ps) \<or> st_id s \<in> overtaken r))"
proof -
  have inv: "deploy_inv D r" using deploy_store.inv_reach [OF deploy_store.intro [OF assms(1)] assms(3,2)] .
  with assms(4) have r: "reviewed r (st_id s)" "assessed_for r (st_id s) (st_repo s) (st_environment s)"
    by (auto simp: deploy_inv_def)
  then obtain tier ps where a: "assessed r (st_id s) = Some (tier, ps)" by (auto simp: reviewed_def)
  with inv have "registered D tier ps" by (simp add: deploy_inv_def assessed_ok_def)
  with a r show ?thesis by (auto simp: reviewed_def assessed_for_def registered_def)
qed

theorem critical_deployments_are_reviewed_witness:
  "\<exists>r. deploy_reach sample_deps dec_int [] db_empty r \<and> running r = [sample_started] \<and> overtaken r = {}
    \<and> ''dep-1-a'' \<in> architect_ok r \<and> hard_gates_passed (diff_content (sample_change []))"
proof -
  obtain r where r: "deploy_reach sample_deps dec_int [] db_empty r" "running r = [sample_started]" "overtaken r = {}"
    "assessed r = [''dep-1-a'' \<mapsto> (Tier_critical, sample_change [])]"
    by (rule sample_run)
  have m: "mongo_collection (dd_mongo sample_deps) dep_id" "docs (dd_mongo sample_deps) [] = {#}"
    by (simp_all add: sample_deps_def list_store.mongo_collection_axioms)
  have "st_id sample_started = ''dep-1-a''" by (simp add: sample_started_def)
  then show ?thesis using critical_deployments_are_reviewed [OF m r(1), of sample_started] r by auto
qed

text \<open>
  C26: at most one production deployment of a repository runs at a time, however the calls interleave, while no lock
  expires.
\<close>
theorem one_production_deployment_per_repo:
  assumes "redis_exec_locks R" and "dd_redis D = Some R" and "deploy_reach D iso_of c s0 r"
  shows "length (filter (\<lambda>s. st_repo s = repo \<and> st_environment s = ''production'') (running r)) \<le> 1"
  using locked_once [OF deploy_locks.lock_inv_reach [OF deploy_locks.intro [OF assms(2,1)] assms(3)]] .

theorem one_production_deployment_per_repo_witness:
  "\<exists>r. deploy_reach sample_deps dec_int [] db_empty r \<and> running r \<noteq> []
     \<and> length (filter (\<lambda>s. st_repo s = ''core'' \<and> st_environment s = ''production'') (running r)) \<le> 1"
proof -
  obtain r where r: "deploy_reach sample_deps dec_int [] db_empty r" "running r = [sample_started]"
    by (rule sample_run)
  then show ?thesis
    using one_production_deployment_per_repo [OF ref_locks.redis_exec_locks_axioms _ r(1)] by (auto simp: sample_deps_def)
qed

text \<open>Outside production nothing stops two executions that both read the approval from using it.\<close>

lemma overlapping_executions_both_start:
  assumes "deploy_reach D iso_of c s0 r" "exec_read D ps (run_w r) = Inr d" "ex_environment ps \<noteq> ''production''"
    and "exec_begin D ps d (run_w r) = (Inr s, w)"
  shows "\<exists>r1. deploy_reach D iso_of c s0 r1 \<and> running r1 = s # s # running r \<and> started_ids r1 = st_id s # st_id s # started_ids r"
proof -
  have "acquire_lock D ps w = ((True, None), w)" for w :: "('a, 'b) deploys"
    using assms(3) by (simp add: acquire_lock_def split: option.splits)
  with assms(4) have w: "w = run_w r" and again: "exec_begin D ps d (run_w r) = (Inr s, run_w r)"
    by (auto simp: exec_begin_def Let_def split: option.splits if_splits)
  let ?a = "r\<lparr>reading := (ps, d) # reading r\<rparr>"
  let ?b = "?a\<lparr>reading := (ps, d) # reading ?a\<rparr>"
  let ?c = "?b\<lparr>run_w := run_w r, reading := remove1 (ps, d) (reading ?b), running := s # running ?b, started_ids := st_id s # started_ids ?b\<rparr>"
  let ?d = "?c\<lparr>run_w := run_w r, reading := remove1 (ps, d) (reading ?c), running := s # running ?c, started_ids := st_id s # started_ids ?c\<rparr>"
  have "deploy_step D iso_of r ?a" by (rule st_read [OF assms(2)])
  moreover have "deploy_step D iso_of ?a ?b" by (rule st_read) (simp add: assms(2))
  moreover have "deploy_step D iso_of ?b ?c" by (rule st_begin) (simp_all add: again)
  moreover have "deploy_step D iso_of ?c ?d" by (rule st_begin) (simp_all add: again)
  ultimately have "deploy_reach D iso_of c s0 ?d" using assms(1) by (meson dr_step)
  then show ?thesis by (intro exI [of _ ?d]) simp
qed


section \<open>The canary\<close>

text \<open>When a round starts, in milliseconds of the window: every round waits at least a minute.\<close>

fun round_start :: "(nat \<Rightarrow> canary_poll) \<Rightarrow> nat \<Rightarrow> int" where
  "round_start polls 0 = 0"
| "round_start polls (Suc n) = round_start polls n + 60000 + int (cp_late (polls n)) + int (cp_requests (polls n))"

text \<open>The service as a round saw it, in the time of the window: a rollout failed, or it is stable.\<close>

definition saw :: "(nat \<Rightarrow> canary_poll) \<Rightarrow> nat \<Rightarrow> service_answer \<Rightarrow> bool" where
  "saw polls n a \<longleftrightarrow> round_start polls n < 600000 \<and> cp_service (polls n) = a"

text \<open>What a round is a reason for.\<close>

fun reason_for :: "bool \<Rightarrow> (nat \<Rightarrow> canary_poll) \<Rightarrow> nat \<Rightarrow> canary_outcome \<Rightarrow> bool" where
  "reason_for url polls n Promoted_window \<longleftrightarrow> 600000 \<le> round_start polls n"
| "reason_for url polls n (Canary_threw msg) \<longleftrightarrow> saw polls n (Describe_threw msg)"
| "reason_for url polls n Rollback_rollout \<longleftrightarrow> saw polls n (Described (Some (True, True))) \<or> saw polls n (Described (Some (True, False)))"
| "reason_for url polls n Promoted_stable \<longleftrightarrow> saw polls n (Described (Some (False, True)))
     \<and> 120500 \<le> round_start polls n + 60000 + int (cp_late (polls n))
     \<and> \<not> (url \<and> 1 \<le> n \<and> \<not> cp_healthy (polls (n - 1)))"
| "reason_for url polls n Rollback_health \<longleftrightarrow>
     (saw polls n (Described None) \<or> saw polls n (Described (Some (False, True))) \<or> saw polls n (Described (Some (False, False))))
     \<and> url \<and> 2 \<le> n \<and> \<not> cp_healthy (polls (n - 2)) \<and> \<not> cp_healthy (polls (n - 1)) \<and> \<not> cp_healthy (polls n)"

definition streak_is :: "bool \<Rightarrow> (nat \<Rightarrow> canary_poll) \<Rightarrow> nat \<Rightarrow> nat \<Rightarrow> bool" where
  "streak_is url polls n k \<longleftrightarrow> k < 3 \<and> (if url then (k = 0 \<longleftrightarrow> \<not> (1 \<le> n \<and> \<not> cp_healthy (polls (n - 1))))
     \<and> (k = 2 \<longleftrightarrow> 2 \<le> n \<and> \<not> cp_healthy (polls (n - 1)) \<and> \<not> cp_healthy (polls (n - 2))) else k = 0)"

lemma streak_next:
  assumes "streak_is True polls n k" "k1 = (if cp_healthy (polls n) then 0 else Suc k)" "k1 < 3"
  shows "streak_is True polls (Suc n) k1"
  using assms by (cases n) (auto simp: streak_is_def numeral_2_eq_2 numeral_3_eq_3 split: if_splits)

lemma round_start_grows: "60000 * int n \<le> round_start polls n"
  by (induction n) auto

lemma canary_limits: "CANARY_HEALTH_CHECK_WINDOW_MS = 600000" "CANARY_HEALTH_CHECK_INTERVAL_MS = 60000" "MAX_HEALTH_FAILURES = 3"
  by (simp_all add: CANARY_HEALTH_CHECK_WINDOW_MS_def CANARY_HEALTH_CHECK_INTERVAL_MS_def MAX_HEALTH_FAILURES_def)

text \<open>A round decides as it has reason to, or has no reason and hands the streak on.\<close>

lemma canary_round:
  assumes t: "t = round_start polls n" and k: "streak_is url polls n k"
  shows "(\<exists>out. canary_loop url polls n k t = (n, out) \<and> reason_for url polls n out)
    \<or> (\<forall>out. \<not> reason_for url polls n out) \<and> t < 600000
      \<and> (\<exists>k1. streak_is url polls (Suc n) k1 \<and> canary_loop url polls n k t = canary_loop url polls (Suc n) k1 (round_start polls (Suc n)))"
proof (cases "t < 600000")
  case False
  then have "canary_loop url polls n k t = (n, Promoted_window)" by (simp add: canary_loop.simps [of url polls n k t] canary_limits)
  with False t show ?thesis by auto
next
  case early: True
  define t1 where "t1 = t + 60000 + int (cp_late (polls n))"
  have t2: "round_start polls (Suc n) = t1 + int (cp_requests (polls n))" using t by (simp add: t1_def)
  have late: "120 < (t1 + 500) div 1000 \<longleftrightarrow> 120500 \<le> t1" by arith
  have saw: "saw polls n a \<longleftrightarrow> cp_service (polls n) = a" for a using early t by (simp add: saw_def)
  have now: "\<not> reason_for url polls n Promoted_window" using early t by simp
  show ?thesis
  proof (cases "cp_service (polls n)")
    case (Describe_threw msg)
    then have "canary_loop url polls n k t = (n, Canary_threw msg)"
      using early by (simp add: canary_loop.simps [of url polls n k t] canary_limits Let_def)
    moreover have "reason_for url polls n (Canary_threw msg)" using Describe_threw saw by simp
    ultimately show ?thesis by blast
  next
    case (Described svc)
    consider (rollout) "\<exists>steady. svc = Some (True, steady)"
      | (promote) "svc = Some (False, True)" "120500 \<le> t1" "k = 0"
      | (check) "svc = None \<or> (\<exists>steady. svc = Some (False, steady))" "\<not> (svc = Some (False, True) \<and> 120500 \<le> t1 \<and> k = 0)"
      by (cases svc) auto
    then show ?thesis
    proof cases
      case rollout
      then have "canary_loop url polls n k t = (n, Rollback_rollout)"
        using early Described by (auto simp: canary_loop.simps [of url polls n k t] canary_limits Let_def)
      moreover have "reason_for url polls n Rollback_rollout" using Described saw rollout by (cases "svc = Some (True, True)") auto
      ultimately show ?thesis by blast
    next
      case promote
      then have "canary_loop url polls n k t = (n, Promoted_stable)"
        unfolding canary_loop.simps [of url polls n k t] using early Described late by (auto simp: canary_limits Let_def t1_def)
      moreover have "reason_for url polls n Promoted_stable"
        using Described saw promote k t by (auto simp: t1_def streak_is_def split: if_splits)
      ultimately show ?thesis by blast
    next
      case check
      let ?k1 = "if cp_healthy (polls n) then 0 else Suc k"
      have loop: "canary_loop url polls n k t = (if url then if 3 \<le> ?k1 then (n, Rollback_health)
          else canary_loop url polls (Suc n) ?k1 (round_start polls (Suc n)) else canary_loop url polls (Suc n) k (round_start polls (Suc n)))"
      proof -
        have f: "\<not> (case svc of Some (failed, steady) \<Rightarrow> failed | None \<Rightarrow> False)"
          "\<not> ((case svc of Some (failed, steady) \<Rightarrow> steady | None \<Rightarrow> False) \<and> 120 < (t1 + 500) div 1000 \<and> k = 0)"
          using check late by auto
        show ?thesis unfolding canary_loop.simps [of url polls n k t] canary_limits Let_def t1_def [symmetric] t2
          using early by (simp only: Described service_answer.case f if_False if_True not_True_eq_False simp_thms)
      qed
      have no_stable: "\<not> reason_for url polls n Promoted_stable"
        using check Described saw k t by (auto simp: t1_def streak_is_def split: if_splits)
      have others: "\<not> reason_for url polls n Rollback_rollout" "\<not> reason_for url polls n (Canary_threw msg)" for msg
        using check(1) Described saw by auto
      have health: "reason_for url polls n Rollback_health \<longleftrightarrow> url \<and> 3 \<le> ?k1"
      proof -
        have seen: "saw polls n (Described None) \<or> saw polls n (Described (Some (False, True))) \<or> saw polls n (Described (Some (False, False)))"
          unfolding saw using check(1) Described by (metis (full_types))
        have "3 \<le> ?k1 \<longleftrightarrow> \<not> cp_healthy (polls n) \<and> k = 2" using k by (auto simp: streak_is_def)
        moreover have "k = 2 \<longleftrightarrow> 2 \<le> n \<and> \<not> cp_healthy (polls (n - 1)) \<and> \<not> cp_healthy (polls (n - 2))" if url
          using k that by (simp add: streak_is_def)
        ultimately show ?thesis using seen by (simp only: reason_for.simps) blast
      qed
      show ?thesis
      proof (cases "url \<and> 3 \<le> ?k1")
        case True
        with loop have "canary_loop url polls n k t = (n, Rollback_health)" by simp
        with True health show ?thesis by blast
      next
        case False
        have "\<not> reason_for url polls n out" for out using no_stable others health False now by (cases out) auto
        moreover have "\<exists>k1. streak_is url polls (Suc n) k1 \<and> canary_loop url polls n k t = canary_loop url polls (Suc n) k1 (round_start polls (Suc n))"
        proof (cases url)
          case True
          with loop False streak_next [of polls n k ?k1] k show ?thesis by (intro exI [of _ ?k1]) auto
        next
          case no: False
          with loop k show ?thesis by (intro exI [of _ k]) (auto simp: streak_is_def)
        qed
        ultimately show ?thesis using early by blast
      qed
    qed
  qed
qed

lemma canary_run:
  assumes "streak_is url polls n k" "n \<le> 10"
  shows "\<exists>m out. canary_loop url polls n k (round_start polls n) = (m, out) \<and> n \<le> m \<and> m \<le> 10 \<and> reason_for url polls m out
     \<and> (\<forall>i out. n \<le> i \<and> i < m \<longrightarrow> \<not> reason_for url polls i out)"
  using assms
proof (induction "10 - n" arbitrary: n k rule: less_induct)
  case less
  from canary_round [OF refl less.prems(1)] show ?case
  proof (elim disjE exE conjE)
    fix out assume "canary_loop url polls n k (round_start polls n) = (n, out)" "reason_for url polls n out"
    with less.prems(2) show ?thesis by (intro exI [of _ n] exI [of _ out]) auto
  next
    fix k1 assume none: "\<forall>out. \<not> reason_for url polls n out" and t: "round_start polls n < 600000" and k1: "streak_is url polls (Suc n) k1"
      and eq: "canary_loop url polls n k (round_start polls n) = canary_loop url polls (Suc n) k1 (round_start polls (Suc n))"
    from t round_start_grows [of n polls] have n: "n < 10" by linarith
    then have "10 - Suc n < 10 - n" "Suc n \<le> 10" by simp_all
    from less.hyps [OF this(1) k1 this(2)] obtain m out where m: "canary_loop url polls (Suc n) k1 (round_start polls (Suc n)) = (m, out)"
      "Suc n \<le> m" "m \<le> 10" "reason_for url polls m out" "\<forall>i out. Suc n \<le> i \<and> i < m \<longrightarrow> \<not> reason_for url polls i out" by blast
    have "\<not> reason_for url polls i o2" if "n \<le> i" "i < m" for i o2
      using m(5) none that by (cases "i = n") auto
    with m eq show ?thesis by (intro exI [of _ m] exI [of _ out]) simp
  qed
qed

lemma reason_unique: "reason_for url polls n o1 \<Longrightarrow> reason_for url polls n o2 \<Longrightarrow> o1 = o2"
  by (cases o1; cases o2) (auto simp: saw_def)

text \<open>
  C38: the canary decides, after at most ten rounds, and it decides in the first round that gives a reason and as that
  round says, whatever ECS and the health checks answer and however late the answers come.  The reasons: a request to ECS that is
  rejected ends it with that exception; a failed rollout rolls back; a stable service after two minutes promotes unless the last
  health check failed; three failed health checks in a row roll back; the end of the window of ten minutes promotes.  A wait is never
  shorter than its interval.
\<close>
theorem canary_always_decides:
  "\<exists>n out. canary_loop url polls 0 0 0 = (n, out) \<and> n \<le> 10 \<and> (\<forall>o2. reason_for url polls n o2 \<longleftrightarrow> o2 = out)
     \<and> (\<forall>i o2. i < n \<longrightarrow> \<not> reason_for url polls i o2)"
proof -
  have "streak_is url polls 0 0" by (simp add: streak_is_def)
  from canary_run [OF this] obtain m out where "canary_loop url polls 0 0 0 = (m, out)" "m \<le> 10" "reason_for url polls m out"
    "\<forall>i out. i < m \<longrightarrow> \<not> reason_for url polls i out" by auto
  with reason_unique [of url polls m] show ?thesis by blast
qed

text \<open>The service is stable from the third minute, but a health check failed before: the canary waits, and rolls back.\<close>

definition bad_minute :: "nat \<Rightarrow> canary_poll" where
  "bad_minute i = \<lparr>cp_late = 5, cp_service = Described (Some (False, 2 \<le> i)), cp_healthy = (i = 0), cp_requests = 100\<rparr>"

theorem canary_always_decides_witness:
  "canary_loop True bad_minute 0 0 0 = (3, Rollback_health) \<and> \<not> reason_for True bad_minute 2 Promoted_stable"
proof -
  have out: "canary_loop True bad_minute 0 0 0 = (3, Rollback_health)"
    by (simp add: canary_loop.simps canary_limits bad_minute_def)
  with canary_always_decides [of True bad_minute] have "\<forall>i o2. i < 3 \<longrightarrow> \<not> reason_for True bad_minute i o2" by auto
  then have "\<not> reason_for True bad_minute 2 Promoted_stable" by (auto simp del: reason_for.simps)
  with out show ?thesis by simp
qed

end
