(* ===== verification/SelfMod.thy ===== *)
theory SelfMod
  imports JsonText
begin

text \<open>
  Self-modification: the safety gate (\<open>packages/core/src/self/safety.ts\<close>) and the tools that change
  files (\<open>self/tools.ts\<close>).  Paths follow \<open>node:path\<close> on POSIX.  The file system is a map from absolute paths to
  texts; the YAML library, the directory of an agent's configuration and its department are arguments.  Alerts, log lines, the
  copy of a change to a pull request and the texts of results are left out.  Arguments the tools cast to strings are strings here: other values
  count as an error of the tool.  The values of a configuration are those of \<open>Json\<close>: its numbers are integral, so a temperature of 0.7 is
not a value here; no operation below looks into a number.
\<close>

section \<open>Paths\<close>

text \<open>The segments of a normalised path, last first.\<close>

fun norm_segs :: "bool \<Rightarrow> string list \<Rightarrow> string list \<Rightarrow> string list" where
  "norm_segs up acc [] = acc"
| "norm_segs up acc (s # ss) =
     (if s = [] \<or> s = ''.'' then norm_segs up acc ss
      else if s = ''..'' then
        (case acc of
           a # as \<Rightarrow> (if a \<noteq> ''..'' then norm_segs up as ss
                       else if up then norm_segs up (''..'' # acc) ss else norm_segs up acc ss)
         | [] \<Rightarrow> (if up then norm_segs up [''..''] ss else norm_segs up [] ss))
      else norm_segs up (s # acc) ss)"

definition body_of :: "bool \<Rightarrow> string \<Rightarrow> string" where
  "body_of up path = join ''/'' (rev (norm_segs up [] (split_char (CHR ''/'') path)))"

definition normalize :: "string \<Rightarrow> string" where
  "normalize path =
     (if path = [] then ''.''
      else (let absolute = starts_with path ''/''; trailing = ends_with path ''/''; body = body_of (\<not> absolute) path
            in if body = [] then (if absolute then ''/'' else if trailing then ''./'' else ''.'')
               else (if absolute then ''/'' else []) @ body @ (if trailing then ''/'' else [])))"

definition join_path :: "string \<Rightarrow> string \<Rightarrow> string" where
  "join_path a b = normalize (join ''/'' (filter (\<lambda>s. s \<noteq> []) [a, b]))"

text \<open>\<open>resolve(base, input)\<close> for an absolute base.\<close>

definition resolve :: "string \<Rightarrow> string \<Rightarrow> string" where
  "resolve base input = ''/'' @ body_of False (if starts_with input ''/'' then input else base @ ''/'' @ input)"

section \<open>The safety gate\<close>

datatype safety_level = Auto_approved | Agent_reviewed | Human_reviewed

datatype mod_type = Mod_config | Mod_prompt | Mod_tool | Mod_code | Mod_schedule | Mod_model | Mod_memory | Mod_new_agent

record self_modification =
  sm_agent :: string
  sm_type :: mod_type
  sm_changes :: json
  sm_safetyLevel :: safety_level

definition AUTO_APPROVED_METHODS :: "string list" where
  "AUTO_APPROVED_METHODS = [''update_config'', ''update_schedule'', ''memory_write'']"

definition AGENT_REVIEWED_METHODS :: "string list" where
  "AGENT_REVIEWED_METHODS = [''update_prompt'', ''create_tool'', ''request_new_data_source'', ''update_model'', ''cross_write_memory'']"

definition HUMAN_REVIEWED_METHODS :: "string list" where
  "HUMAN_REVIEWED_METHODS = [''propose_code_change'']"

definition IMMUTABLE_PATHS :: "string list" where
  "IMMUTABLE_PATHS =
     [''/packages/core/src/self/safety.ts'', ''/packages/core/src/logging/audit.ts'', ''/packages/core/src/review/reviewer.ts'',
      ''/packages/core/src/review/outbound-safety.ts'', ''/packages/core/src/agent/executor.ts'', ''/prompts/review-rules.md'',
      ''/prompts/mission_statement.md'']"

definition PROTECTED_CONFIG_KEYS :: "string list" where
  "PROTECTED_CONFIG_KEYS =
     [''review_bypass'', ''department'', ''name'', ''actions'', ''triggers'', ''model'', ''system_prompts'', ''data_sources'']"

definition classify :: "string \<Rightarrow> safety_level" where
  "classify method =
     (if method \<in> set AUTO_APPROVED_METHODS then Auto_approved
      else if method \<in> set AGENT_REVIEWED_METHODS then Agent_reviewed
      else if method \<in> set HUMAN_REVIEWED_METHODS then Human_reviewed
      else Human_reviewed)"

function extractStrings :: "json \<Rightarrow> string list" where
  "extractStrings (JStr s) = [s]"
| "extractStrings (JArr xs) = concat (map extractStrings xs)"
| "extractStrings (JObj kvs) = concat (map (\<lambda>(k, v). extractStrings v) kvs)"
| "extractStrings JUndef = []"
| "extractStrings JNull = []"
| "extractStrings (JBool b) = []"
| "extractStrings (JNum n) = []"
  by pat_completeness auto
termination
  by (relation "measure size") (auto dest: json_size_prop json_size_item)

definition is_object :: "json \<Rightarrow> bool" where
  "is_object v = (case v of JArr xs \<Rightarrow> True | JObj kvs \<Rightarrow> True | _ \<Rightarrow> False)"

definition touchesImmutablePath :: "json \<Rightarrow> bool" where
  "touchesImmutablePath changes \<longleftrightarrow> is_object changes
     \<and> list_ex (\<lambda>s. list_ex (\<lambda>p. str_includes (normalize s) (normalize p)) IMMUTABLE_PATHS) (extractStrings changes)"

text \<open>Own enumerable properties; \<open>None\<close>: \<open>Object.keys\<close> throws.\<close>

definition own_props :: "json \<Rightarrow> (string \<times> json) list option" where
  "own_props v = (case v of
     JUndef \<Rightarrow> None
   | JNull \<Rightarrow> None
   | JObj kvs \<Rightarrow> Some kvs
   | JArr xs \<Rightarrow> Some (zip (map dec_nat [0..<length xs]) xs)
   | JStr s \<Rightarrow> Some (zip (map dec_nat [0..<length s]) (map (\<lambda>c. JStr [c]) s))
   | _ \<Rightarrow> Some [])"

definition truthy :: "json \<Rightarrow> bool" where
  "truthy v \<longleftrightarrow> v \<notin> {JUndef, JNull, JBool False, JNum 0, JStr []}"

definition touchesProtectedConfigKey :: "json \<Rightarrow> bool" where
  "touchesProtectedConfigKey changes \<longleftrightarrow> is_object changes
     \<and> (let inner = get_prop ''changes'' changes; actualChanges = (if truthy inner then inner else changes)
        in case own_props actualChanges of
             None \<Rightarrow> False
           | Some kvs \<Rightarrow> list_ex (\<lambda>(k, v). k \<in> set PROTECTED_CONFIG_KEYS) kvs)"

definition evaluate :: "self_modification \<Rightarrow> bool" where
  "evaluate m =
     (if touchesImmutablePath (sm_changes m) then False
      else if sm_type m = Mod_config \<and> touchesProtectedConfigKey (sm_changes m) then False
      else (case sm_safetyLevel m of
          Auto_approved \<Rightarrow> True
        | Agent_reviewed \<Rightarrow> True
        | Human_reviewed \<Rightarrow> sm_type m = Mod_code))"

section \<open>The executor's use of the gate\<close>

definition mapMethodToModType :: "string \<Rightarrow> mod_type" where
  "mapMethodToModType method = (case map_of
       [(''update_config'', Mod_config), (''update_prompt'', Mod_prompt), (''update_schedule'', Mod_schedule),
        (''update_model'', Mod_model), (''memory_write'', Mod_memory), (''cross_write_memory'', Mod_memory),
        (''request_new_data_source'', Mod_config)] method of
     Some t \<Rightarrow> t | None \<Rightarrow> Mod_config)"

definition readOnlyMethods :: "string list" where
  "readOnlyMethods = [''read_config'', ''read_prompt'', ''read_source'', ''read_history'', ''read_org_chart'', ''memory_read'', ''search_memory'']"

definition modification_of :: "string \<Rightarrow> string \<Rightarrow> json \<Rightarrow> self_modification" where
  "modification_of agent method args =
     \<lparr>sm_agent = agent, sm_type = mapMethodToModType method, sm_changes = args, sm_safetyLevel = classify method\<rparr>"

section \<open>Tools\<close>

datatype tool_result = Tool_ok | Tool_text string | Tool_error | Tool_throws

text \<open>What the tools use of the rest: the configuration file and the department of an agent, and YAML.\<close>

record self_env =
  se_root :: string
  se_prompts :: string
  se_config :: "string \<Rightarrow> (string \<times> string) option"
  se_parse :: "string \<Rightarrow> (string \<times> json) list option"
  se_print :: "(string \<times> json) list \<Rightarrow> string"

type_synonym files = "(string, string) jsmap"

definition text_arg :: "string \<Rightarrow> json \<Rightarrow> string option" where
  "text_arg f args = (case get_prop f args of JStr s \<Rightarrow> Some s | _ \<Rightarrow> None)"

definition assertWithinDir :: "string \<Rightarrow> string \<Rightarrow> string option" where
  "assertWithinDir baseDir userInput =
     (let resolved = resolve baseDir userInput; base = resolve baseDir []
      in if \<not> starts_with resolved (base @ ''/'') \<and> resolved \<noteq> base then None else Some resolved)"

text \<open>Properties that are objects on both sides are merged, others replaced.\<close>

function deepMerge :: "(string \<times> json) list \<Rightarrow> (string \<times> json) list \<Rightarrow> (string \<times> json) list" where
  "deepMerge target source =
     foldl (\<lambda>res (k, v). mset_at k
         (case (v, map_of target k) of
            (JObj s, Some (JObj t)) \<Rightarrow> JObj (deepMerge t s)
          | _ \<Rightarrow> v) res) target source"
  by pat_completeness auto
termination
  by (relation "measure (size_list (size_prod (\<lambda>_. 0) size) \<circ> snd)") (auto dest!: json_size_prop)

definition with_config ::
  "self_env \<Rightarrow> string \<Rightarrow> ((string \<times> json) list \<Rightarrow> (string \<times> json) list option) \<Rightarrow> files \<Rightarrow> tool_result \<times> files" where
  "with_config E agent change fs = (case se_config E agent of
     None \<Rightarrow> (Tool_error, fs)
   | Some (configPath, department) \<Rightarrow> (case mget fs configPath of
       None \<Rightarrow> (Tool_error, fs)
     | Some raw \<Rightarrow> (case se_parse E raw of
         None \<Rightarrow> (Tool_error, fs)
       | Some parsed \<Rightarrow> (case change parsed of
           None \<Rightarrow> (Tool_error, fs)
         | Some merged \<Rightarrow> (Tool_ok, mset_at configPath (se_print E merged) fs)))))"

definition updateConfig :: "self_env \<Rightarrow> string \<Rightarrow> json \<Rightarrow> files \<Rightarrow> tool_result \<times> files" where
  "updateConfig E agent changes = with_config E agent (\<lambda>parsed. map_option (deepMerge parsed) (own_props changes))"

text \<open>The first cron trigger of the task gets the new schedule.\<close>

definition is_cron :: "string \<Rightarrow> json \<Rightarrow> bool" where
  "is_cron task t \<longleftrightarrow> get_prop ''type'' t = JStr ''cron'' \<and> get_prop ''task'' t = JStr task"

fun set_schedule :: "string \<Rightarrow> string \<Rightarrow> json list \<Rightarrow> json list option" where
  "set_schedule task schedule [] = None"
| "set_schedule task schedule (t # ts) =
     (if is_cron task t then (case t of JObj kvs \<Rightarrow> Some (JObj (mset_at ''schedule'' (JStr schedule) kvs) # ts) | _ \<Rightarrow> None)
      else map_option ((#) t) (set_schedule task schedule ts))"

definition updateSchedule :: "self_env \<Rightarrow> string \<Rightarrow> string \<Rightarrow> string \<Rightarrow> files \<Rightarrow> tool_result \<times> files" where
  "updateSchedule E agent task schedule = with_config E agent (\<lambda>parsed.
     (case map_of parsed ''triggers'' of
        Some (JArr ts) \<Rightarrow> map_option (\<lambda>ts1. mset_at ''triggers'' (JArr ts1) parsed) (set_schedule task schedule ts)
      | _ \<Rightarrow> None))"

definition updateModel :: "self_env \<Rightarrow> string \<Rightarrow> string \<Rightarrow> string \<Rightarrow> files \<Rightarrow> tool_result \<times> files" where
  "updateModel E agent provider model = with_config E agent (\<lambda>parsed.
     (case map_of parsed ''model'' of
        Some (JObj m) \<Rightarrow> Some (mset_at ''model'' (JObj (mset_at ''model'' (JStr model) (mset_at ''provider'' (JStr provider) m))) parsed)
      | _ \<Rightarrow> None))"

definition IMMUTABLE_MARK :: string where "IMMUTABLE_MARK = ''<!-- IMMUTABLE -->''"

definition updatePrompt :: "self_env \<Rightarrow> string \<Rightarrow> string \<Rightarrow> string \<Rightarrow> files \<Rightarrow> tool_result \<times> files" where
  "updatePrompt E name content mode fs = (case assertWithinDir (se_prompts E) name of
     None \<Rightarrow> (Tool_error, fs)
   | Some promptPath \<Rightarrow>
       (case mget fs promptPath of
          Some existing \<Rightarrow>
            (if str_includes existing IMMUTABLE_MARK \<and> mode = ''replace'' then (Tool_error, fs)
             else if mode = ''append'' then (Tool_ok, mset_at promptPath (existing @ [CHR 0x0A, CHR 0x0A] @ content) fs)
             else (Tool_ok, mset_at promptPath content fs))
        | None \<Rightarrow>
            (if mode = ''append'' then (Tool_ok, mset_at promptPath ([CHR 0x0A, CHR 0x0A] @ content) fs)
             else (Tool_ok, mset_at promptPath content fs))))"

definition readPrompt :: "self_env \<Rightarrow> string \<Rightarrow> files \<Rightarrow> tool_result" where
  "readPrompt E name fs = (case assertWithinDir (se_prompts E) name of
     None \<Rightarrow> Tool_error
   | Some promptPath \<Rightarrow> (case mget fs promptPath of None \<Rightarrow> Tool_error | Some t \<Rightarrow> Tool_text t))"

definition readSource :: "self_env \<Rightarrow> string \<Rightarrow> files \<Rightarrow> tool_result" where
  "readSource E path fs =
     (let fullPath = join_path (se_root E) path in
      if \<not> starts_with fullPath (se_root E) then Tool_error
      else if str_includes path ''/self/safety.ts'' then Tool_error
      else (case mget fs fullPath of None \<Rightarrow> Tool_error | Some t \<Rightarrow> Tool_text t))"

text \<open>The methods over files; the others, over memories and histories, are \<open>rest\<close>.\<close>

definition self_execute ::
  "self_env \<Rightarrow> (string \<Rightarrow> string \<Rightarrow> json \<Rightarrow> tool_result) \<Rightarrow> string \<Rightarrow> string \<Rightarrow> json \<Rightarrow> files \<Rightarrow> tool_result \<times> files" where
  "self_execute E rest agent method args fs =
     (if method = ''read_prompt'' then
        ((case text_arg ''name'' args of None \<Rightarrow> Tool_error | Some n \<Rightarrow> readPrompt E n fs), fs)
      else if method = ''read_source'' then
        ((case text_arg ''path'' args of None \<Rightarrow> Tool_throws | Some p \<Rightarrow> readSource E p fs), fs)
      else if method = ''update_config'' then updateConfig E agent (get_prop ''changes'' args) fs
      else if method = ''update_prompt'' then
        (case (text_arg ''name'' args, text_arg ''content'' args) of
           (Some n, Some c) \<Rightarrow> updatePrompt E n c (case text_arg ''mode'' args of Some (m # ms) \<Rightarrow> m # ms | _ \<Rightarrow> ''append'') fs
         | _ \<Rightarrow> (Tool_error, fs))
      else if method = ''update_schedule'' then
        (case (text_arg ''task'' args, text_arg ''schedule'' args) of
           (Some t, Some s) \<Rightarrow> updateSchedule E agent t s fs
         | _ \<Rightarrow> (Tool_error, fs))
      else if method = ''update_model'' then
        (case (text_arg ''provider'' args, text_arg ''model'' args) of
           (Some p, Some m) \<Rightarrow> updateModel E agent p m fs
         | _ \<Rightarrow> (Tool_error, fs))
      else (rest agent method args, fs))"

text \<open>What the executor does with a call of \<open>self.<method>\<close>: the result, whether a
  modification was recorded and with which verdict.\<close>

definition handleSelfModTool ::
  "self_env \<Rightarrow> (string \<Rightarrow> string \<Rightarrow> json \<Rightarrow> tool_result) \<Rightarrow> string \<Rightarrow> string \<Rightarrow> json \<Rightarrow> files
     \<Rightarrow> (tool_result \<times> bool option) \<times> files" where
  "handleSelfModTool E rest agent method args fs =
     (if method \<in> set readOnlyMethods then
        (let (r, fs1) = self_execute E rest agent method args fs in ((r, None), fs1))
      else if \<not> evaluate (modification_of agent method args) then ((Tool_error, Some False), fs)
      else (let (r, fs1) = self_execute E rest agent method args fs
            in ((r, if r = Tool_throws then None else Some True), fs1)))"

end
