(* ===== verification/SelfMod_Correct.thy ===== *)
theory SelfMod_Correct
  imports SelfMod
begin

text \<open>
  What the safety gate achieves: which methods it approves, that a change of the configuration keeps the protected
  keys, and that the tools write nothing but the agent's configuration and prompts.  And what it does not: the
  files it calls immutable are named differently in the arguments of the tools, the marker of immutable
  prompts only stops one spelling of the mode, and the path checks of the readers can be walked around.
\<close>

section \<open>Which methods are approved\<close>

lemma classify_iff:
  "classify meth = Auto_approved \<longleftrightarrow> meth \<in> set AUTO_APPROVED_METHODS"
  "classify meth = Agent_reviewed \<longleftrightarrow> meth \<in> set AGENT_REVIEWED_METHODS"
  by (auto simp: classify_def AUTO_APPROVED_METHODS_def AGENT_REVIEWED_METHODS_def)

lemma no_code_method: "mapMethodToModType meth \<noteq> Mod_code"
  by (simp add: mapMethodToModType_def)

lemma gate_decides:
  "evaluate (modification_of agent meth args) \<longleftrightarrow>
     meth \<in> set AUTO_APPROVED_METHODS \<union> set AGENT_REVIEWED_METHODS
     \<and> \<not> touchesImmutablePath args
     \<and> (mapMethodToModType meth = Mod_config \<longrightarrow> \<not> touchesProtectedConfigKey args)"
  using no_code_method [of meth] classify_iff [of meth]
  by (cases "classify meth") (auto simp: evaluate_def modification_of_def)

text \<open>So the one method of the third layer is never approved, although the gate means to let it file proposals.\<close>

lemma proposals_are_denied: "\<not> evaluate (modification_of agent ''propose_code_change'' args)"
  by (simp add: gate_decides AUTO_APPROVED_METHODS_def AGENT_REVIEWED_METHODS_def)

section \<open>Merging keeps what it does not name\<close>

declare deepMerge.simps [simp del]

lemma map_of_mset_at [simp]: "map_of (mset_at k v m) = (map_of m)(k \<mapsto> v)"
  by (simp add: mset_at_def update_conv')

lemma foldl_keeps:
  "k \<notin> fst ` set ps \<Longrightarrow> map_of (foldl (\<lambda>res (j, v). mset_at j (f j v) res) m ps) k = map_of m k"
  by (induction ps arbitrary: m) auto

lemma deepMerge_keeps:
  assumes "k \<notin> fst ` set source"
  shows "map_of (deepMerge target source) k = map_of target k"
  unfolding deepMerge.simps [of target source]
  by (rule foldl_keeps [OF assms])

text \<open>And it sets what it names to what was asked, when the new value is no object.\<close>

lemma deepMerge_sets:
  assumes "source = ps @ (k, v) # qs" "k \<notin> fst ` set qs" "\<And>s. v \<noteq> JObj s"
  shows "map_of (deepMerge target source) k = Some v"
proof -
  let ?g = "\<lambda>j v. case (v, map_of target j) of (JObj s, Some (JObj t)) \<Rightarrow> JObj (deepMerge t s) | _ \<Rightarrow> v"
  have "map_of (deepMerge target source) k
      = map_of (foldl (\<lambda>res (j, v). mset_at j (?g j v) res) (mset_at k (?g k v) (foldl (\<lambda>res (j, v). mset_at j (?g j v) res) target ps)) qs) k"
    unfolding deepMerge.simps [of target source] unfolding assms(1) by simp
  also have "\<dots> = Some (?g k v)" by (subst foldl_keeps [OF assms(2)]) simp
  also have "?g k v = v" using assms(3) by (cases v) auto
  finally show ?thesis .
qed

lemma protected_not_named:
  assumes "\<not> touchesProtectedConfigKey args" "own_props (get_prop ''changes'' args) = Some kvs" "k \<in> set PROTECTED_CONFIG_KEYS"
  shows "k \<notin> fst ` set kvs"
proof (cases "is_object args \<and> truthy (get_prop ''changes'' args)")
  case True
  with assms show ?thesis by (fastforce simp: touchesProtectedConfigKey_def Let_def list_ex_iff)
next
  case False
  moreover have "get_prop ''changes'' args = JUndef" if "\<not> is_object args"
    using that by (cases args) (simp_all add: is_object_def)
  ultimately have "\<not> truthy (get_prop ''changes'' args)" by (auto simp: truthy_def)
  with assms(2) have "kvs = []" by (auto simp: truthy_def own_props_def)
  then show ?thesis by simp
qed

text \<open>Merging plain values gives a plain value, which is what a configuration file holds.\<close>

lemma in_mset_at: "p \<in> set (mset_at k v m) \<Longrightarrow> p = (k, v) \<or> p \<in> set m"
  unfolding mset_at_def by (induction m) (auto split: if_splits)

lemma foldl_plain:
  "json_plain (JObj m) \<Longrightarrow> (\<And>j v. (j, v) \<in> set ps \<Longrightarrow> json_plain (f j v)) \<Longrightarrow>
    json_plain (JObj (foldl (\<lambda>res (j, v). mset_at j (f j v) res) m ps))"
proof (induction ps arbitrary: m)
  case (Cons p ps)
  obtain j v where p: "p = (j, v)" by fastforce
  have "json_plain (JObj (mset_at j (f j v) m))"
    using Cons.prems(1) Cons.prems(2) [of j v] p by (auto dest!: in_mset_at)
  from Cons.IH [OF this] Cons.prems(2) p show ?case by simp
qed simp

lemma deepMerge_plain:
  "json_plain (JObj target) \<Longrightarrow> \<forall>p \<in> set source. json_plain (snd p) \<Longrightarrow> json_plain (JObj (deepMerge target source))"
proof (induction target source rule: deepMerge.induct)
  case (1 target source)
  have "json_plain (case (v, map_of target k) of (JObj s, Some (JObj t)) \<Rightarrow> JObj (deepMerge t s) | _ \<Rightarrow> v)"
    if kv: "(k, v) \<in> set source" for k v
  proof (cases "\<exists>s t. v = JObj s \<and> map_of target k = Some (JObj t)")
    case True
    then obtain s t where st: "v = JObj s" "map_of target k = Some (JObj t)" by blast
    from st(2) have "(k, JObj t) \<in> set target" by (rule map_of_SomeD)
    with "1.prems" kv st have "json_plain (JObj t)" "\<forall>p \<in> set s. json_plain (snd p)" by fastforce+
    with "1.IH" [OF kv refl refl st(1) st(2) refl] st show ?thesis by simp
  next
    case False
    then have "(case (v, map_of target k) of (JObj s, Some (JObj t)) \<Rightarrow> JObj (deepMerge t s) | _ \<Rightarrow> v) = v"
      by (auto split: json.split option.split)
    with "1.prems"(2) kv show ?thesis by fastforce
  qed
  with "1.prems"(1) show ?case unfolding deepMerge.simps [of target source] by (rule foldl_plain)
qed

lemma plain_prop: "json_plain args \<Longrightarrow> get_prop f args = JUndef \<or> json_plain (get_prop f args)"
  by (cases args) (auto split: option.split dest!: map_of_SomeD)

lemma plain_own_props:
  assumes "json_plain v" "own_props v = Some kvs" "p \<in> set kvs"
  shows "json_plain (snd p)"
proof (cases v)
  case (JStr s)
  with assms(2,3) have "snd p \<in> set (map (\<lambda>c. JStr [c]) s)"
    by (cases p) (auto simp: own_props_def simp del: set_map dest: set_zip_rightD)
  then show ?thesis by auto
next
  case (JArr xs)
  with assms(2,3) have "snd p \<in> set xs" by (cases p) (auto simp: own_props_def dest: set_zip_rightD)
  with assms(1) JArr show ?thesis by simp
qed (use assms in \<open>auto simp: own_props_def\<close>)

text \<open>
  C18: an agent that changes its own configuration through \<open>self.update_config\<close> keeps every protected key as it was, whatever
  it asks for.
\<close>
theorem protected_config_survives:
  assumes yaml: "\<And>kvs. json_plain (JObj kvs) \<Longrightarrow> se_parse E (se_print E kvs) = Some kvs"
    and "json_plain args" and "json_plain (JObj before)"
    and "se_config E agent = Some (path, department)" and "mget fs path = Some raw" and "se_parse E raw = Some before"
    and "k \<in> set PROTECTED_CONFIG_KEYS"
    and "handleSelfModTool E rest agent ''update_config'' args fs = (out, fs1)"
  shows "\<exists>after. Option.bind (mget fs1 path) (se_parse E) = Some after \<and> map_of after k = map_of before k"
proof (cases "evaluate (modification_of agent ''update_config'' args) \<and> own_props (get_prop ''changes'' args) \<noteq> None")
  case True
  then obtain kvs where kvs: "own_props (get_prop ''changes'' args) = Some kvs" and ok: "evaluate (modification_of agent ''update_config'' args)"
    by auto
  from ok have "\<not> touchesProtectedConfigKey args" by (auto simp: gate_decides mapMethodToModType_def)
  from protected_not_named [OF this kvs assms(7)] have keep: "map_of (deepMerge before kvs) k = map_of before k"
    by (rule deepMerge_keeps)
  have "\<forall>p \<in> set kvs. json_plain (snd p)"
    using plain_prop [OF assms(2), of "''changes''"] plain_own_props [OF _ kvs] kvs by (auto simp: own_props_def)
  from yaml [OF deepMerge_plain [OF assms(3) this]]
  have "se_parse E (se_print E (deepMerge before kvs)) = Some (deepMerge before kvs)" .
  moreover have "mget fs1 path = Some (se_print E (deepMerge before kvs))"
    using assms(4-6,8) kvs ok
    by (auto simp: handleSelfModTool_def readOnlyMethods_def self_execute_def updateConfig_def with_config_def)
  ultimately show ?thesis using keep by simp
next
  case False
  then have "fs1 = fs" using assms(8)
    by (auto simp: handleSelfModTool_def readOnlyMethods_def self_execute_def updateConfig_def with_config_def
        split: option.splits prod.splits if_splits)
  with assms(5,6) show ?thesis by simp
qed

text \<open>A document printed as its canonical text, and read back.\<close>

definition sample_env :: self_env where
  "sample_env = \<lparr>se_root = ''/app'', se_prompts = ''/app/prompts'', se_config = (\<lambda>a. Some (''/app/scout.yaml'', ''growth'')),
     se_parse = (\<lambda>t. case json_parse t of Some (JObj kvs) \<Rightarrow> Some kvs | _ \<Rightarrow> None), se_print = (\<lambda>kvs. json_stringify (JObj kvs))\<rparr>"

lemma sample_yaml: "json_plain (JObj kvs) \<Longrightarrow> se_parse sample_env (se_print sample_env kvs) = Some kvs"
  by (simp add: sample_env_def json_parse_stringify del: json_plain.simps json_stringify.simps)

definition sample_config :: "(string \<times> json) list" where
  "sample_config = [(''name'', JStr ''scout''), (''model'', JStr ''opus''), (''humanize'', JBool False)]"

theorem protected_config_survives_witness:
  "\<exists>after. Option.bind (mget (snd (handleSelfModTool sample_env (\<lambda>_ _ _. Tool_error) ''scout'' ''update_config''
      (JObj [(''changes'', JObj [(''humanize'', JBool True)])]) [(''/app/scout.yaml'', se_print sample_env sample_config)]))
      ''/app/scout.yaml'') (se_parse sample_env) = Some after \<and> map_of after ''model'' = Some (JStr ''opus'')"
proof -
  have plain: "json_plain (JObj sample_config)" by code_simp
  have "map_of sample_config ''model'' = Some (JStr ''opus'')" by code_simp
  moreover have "\<exists>after. Option.bind (mget (snd (handleSelfModTool sample_env (\<lambda>_ _ _. Tool_error) ''scout'' ''update_config''
      (JObj [(''changes'', JObj [(''humanize'', JBool True)])]) [(''/app/scout.yaml'', se_print sample_env sample_config)]))
      ''/app/scout.yaml'') (se_parse sample_env) = Some after \<and> map_of after ''model'' = map_of sample_config ''model''"
    by (rule protected_config_survives [OF sample_yaml _ plain, where path = "''/app/scout.yaml''" and department = "''growth''"
          and raw = "se_print sample_env sample_config" and agent = "''scout''"
          and args = "JObj [(''changes'', JObj [(''humanize'', JBool True)])]"
          and fs = "[(''/app/scout.yaml'', se_print sample_env sample_config)]" and rest = "\<lambda>_ _ _. Tool_error"
          and out = "fst (handleSelfModTool sample_env (\<lambda>_ _ _. Tool_error) ''scout'' ''update_config''
             (JObj [(''changes'', JObj [(''humanize'', JBool True)])]) [(''/app/scout.yaml'', se_print sample_env sample_config)])"])
      (simp_all add: sample_yaml [OF plain] PROTECTED_CONFIG_KEYS_def, simp add: sample_env_def)
  ultimately show ?thesis by simp
qed

section \<open>What the tools write\<close>

lemma with_config_writes:
  "with_config E agent change fs = (r, fs1) \<Longrightarrow> mget fs1 p \<noteq> mget fs p \<Longrightarrow> \<exists>d. se_config E agent = Some (p, d)"
  by (auto simp: with_config_def split: option.splits prod.splits if_splits)

lemma updatePrompt_writes:
  assumes "updatePrompt E n c m fs = (r, fs1)" "mget fs1 p \<noteq> mget fs p"
  shows "starts_with p (resolve (se_prompts E) [] @ ''/'') \<or> p = resolve (se_prompts E) []"
proof -
  have "p = q \<and> assertWithinDir (se_prompts E) n = Some q" if "assertWithinDir (se_prompts E) n = Some q" for q
    using assms that by (auto simp: updatePrompt_def split: option.splits if_splits)
  then have "assertWithinDir (se_prompts E) n = Some p"
    using assms by (cases "assertWithinDir (se_prompts E) n") (auto simp: updatePrompt_def)
  then show ?thesis by (auto simp: assertWithinDir_def Let_def split: if_splits)
qed

text \<open>
  No call of a self-modification tool over files changes anything but the configuration of the agent that calls it and files inside
  the directory of the prompts, whatever method and arguments it names.
\<close>
theorem self_tools_confined:
  assumes "handleSelfModTool E rest agent meth args fs = (out, fs1)" and "mget fs1 p \<noteq> mget fs p"
  shows "(\<exists>d. se_config E agent = Some (p, d)) \<or> starts_with p (resolve (se_prompts E) [] @ ''/'') \<or> p = resolve (se_prompts E) []"
proof -
  obtain r where "self_execute E rest agent meth args fs = (r, fs1)"
    using assms by (auto simp: handleSelfModTool_def split: prod.splits if_splits)
  then show ?thesis
    using assms(2) with_config_writes [of E agent _ fs r fs1 p] updatePrompt_writes [of E _ _ _ fs r fs1 p]
    by (auto simp: self_execute_def updateConfig_def updateSchedule_def updateModel_def split: option.splits if_splits)
qed

theorem self_tools_confined_witness:
  "starts_with ''/app/prompts/brand-voice.md'' (resolve (se_prompts sample_env) [] @ ''/'')"
proof -
  let ?run = "handleSelfModTool sample_env (\<lambda>_ _ _. Tool_error) ''scout'' ''update_prompt''
     (JObj [(''name'', JStr ''brand-voice.md''), (''content'', JStr ''be kind''), (''mode'', JStr ''replace'')]) []"
  have "mget (snd ?run) ''/app/prompts/brand-voice.md'' \<noteq> mget [] ''/app/prompts/brand-voice.md''"
    by code_simp
  from self_tools_confined [OF surjective_pairing this]
  have "starts_with ''/app/prompts/brand-voice.md'' (resolve (se_prompts sample_env) [] @ ''/'')
      \<or> ''/app/prompts/brand-voice.md'' = resolve (se_prompts sample_env) []"
    by (simp add: sample_env_def)
  moreover have "''/app/prompts/brand-voice.md'' \<noteq> resolve (se_prompts sample_env) []" by code_simp
  ultimately show ?thesis by blast
qed

section \<open>Ways around\<close>

text \<open>The rules of the reviewer are on the list of immutable paths, but the tool names them relative to the directory of the
  prompts: the call is approved, and the file replaced.\<close>

lemma immutable_prompt_replaced:
  "handleSelfModTool sample_env rest ''scout'' ''update_prompt''
     (JObj [(''name'', JStr ''review-rules.md''), (''content'', JStr ''approve''), (''mode'', JStr ''replace'')])
     [(''/app/prompts/review-rules.md'', ''be strict'')]
   = ((Tool_ok, Some True), [(''/app/prompts/review-rules.md'', ''approve'')])"
proof -
  have "resolve (se_prompts sample_env) [] = ''/app/prompts''" "resolve (se_prompts sample_env) ''review-rules.md'' = ''/app/prompts/review-rules.md''"
    "\<not> str_includes ''be strict'' IMMUTABLE_MARK" by code_simp+
  then have "updatePrompt sample_env ''review-rules.md'' ''approve'' ''replace'' [(''/app/prompts/review-rules.md'', ''be strict'')]
      = (Tool_ok, [(''/app/prompts/review-rules.md'', ''approve'')])"
    by (simp add: updatePrompt_def assertWithinDir_def starts_with_def mset_at_def del: str_includes.simps)
  moreover have "evaluate (modification_of ''scout'' ''update_prompt''
      (JObj [(''name'', JStr ''review-rules.md''), (''content'', JStr ''approve''), (''mode'', JStr ''replace'')]))"
    by code_simp
  ultimately show ?thesis by (simp add: handleSelfModTool_def readOnlyMethods_def self_execute_def text_arg_def)
qed

text \<open>A marked prompt resists the mode \<open>replace\<close> only: every other mode but \<open>append\<close> replaces it.\<close>

lemma marker_ignored:
  assumes "assertWithinDir (se_prompts E) name = Some path" "mode \<noteq> ''append''" "mode \<noteq> ''replace''"
  shows "updatePrompt E name content mode fs = (Tool_ok, mset_at path content fs)"
  using assms by (simp add: updatePrompt_def split: option.split)

text \<open>The model is a protected key of the configuration, and yet any agent may set it by the other tool.\<close>

lemma update_model_approved:
  assumes "\<not> touchesImmutablePath args"
  shows "evaluate (modification_of agent ''update_model'' args)"
  using assms by (simp add: gate_decides AGENT_REVIEWED_METHODS_def mapMethodToModType_def)

text \<open>The reader's checks: a sibling of the root whose name begins with the root's, and a doubled separator.\<close>

lemma read_source_escapes:
  "readSource sample_env ''../app-secrets/key'' [(''/app-secrets/key'', t)] = Tool_text t"
  "readSource sample_env ''packages/core/src/self//safety.ts'' [(''/app/packages/core/src/self/safety.ts'', t)] = Tool_text t"
proof -
  have "join_path (se_root sample_env) ''../app-secrets/key'' = ''/app-secrets/key''"
    "join_path (se_root sample_env) ''packages/core/src/self//safety.ts'' = ''/app/packages/core/src/self/safety.ts''"
    "starts_with ''/app-secrets/key'' (se_root sample_env)" "starts_with ''/app/packages/core/src/self/safety.ts'' (se_root sample_env)"
    "\<not> str_includes ''../app-secrets/key'' ''/self/safety.ts''" "\<not> str_includes ''packages/core/src/self//safety.ts'' ''/self/safety.ts''"
    by code_simp+
  then show "readSource sample_env ''../app-secrets/key'' [(''/app-secrets/key'', t)] = Tool_text t"
    "readSource sample_env ''packages/core/src/self//safety.ts'' [(''/app/packages/core/src/self/safety.ts'', t)] = Tool_text t"
    by (simp_all add: readSource_def del: str_includes.simps)
qed

end
