(* ===== verification/OutboundSafety.thy ===== *)
theory OutboundSafety
  imports JsonText Regex
begin

text \<open>
  The last check before an action reaches the outside: the gate of outbound actions
  (\<open>packages/core/src/review/outbound-safety.ts\<close>) and the memory of recent posts
  (\<open>review/content-dedup.ts\<close>).  The hash is an argument; a similarity is a fraction, compared without division.
  Alerts, log lines and the texts of the reasons are left out.
\<close>

section \<open>Recent posts\<close>

definition TTL_MS :: int where "TTL_MS = 12 * 60 * 60 * 1000"

text \<open>The threshold 0.85, as a fraction.\<close>

definition SIMILARITY_THRESHOLD :: "nat \<times> nat" where "SIMILARITY_THRESHOLD = (85, 100)"

record dedup_record =
  dr_hash :: string
  dr_bigrams :: "string list"
  dr_timestamp :: int

datatype dedup_result = Not_duplicate | Exact_duplicate | Fuzzy_duplicate "nat \<times> nat"

type_synonym dedup_gate = "(string, dedup_record list) jsmap"

text \<open>Runs of spaces become one blank.\<close>

fun collapse_spaces :: "bool \<Rightarrow> string \<Rightarrow> string" where
  "collapse_spaces seen [] = []"
| "collapse_spaces seen (c # s) =
     (if js_space c then (if seen then collapse_spaces True s else CHR '' '' # collapse_spaces True s)
      else c # collapse_spaces False s)"

text \<open>The distinct pairs of neighbours, in any order.\<close>

fun pairs_of :: "string \<Rightarrow> string list" where
  "pairs_of (a # b # s) = [a, b] # pairs_of (b # s)"
| "pairs_of _ = []"

definition getBigrams :: "string \<Rightarrow> string list" where
  "getBigrams text = remdups (pairs_of (js_trim (collapse_spaces False (to_lower text))))"

definition jaccardSimilarity :: "string list \<Rightarrow> string list \<Rightarrow> nat \<times> nat" where
  "jaccardSimilarity a b =
     (if a = [] \<and> b = [] then (1, 1)
      else if a = [] \<or> b = [] then (0, 1)
      else (let i = length (filter (\<lambda>x. x \<in> set b) a) in (i, length a + length b - i)))"

definition above_threshold :: "nat \<times> nat \<Rightarrow> bool" where
  "above_threshold s \<longleftrightarrow> fst s * snd SIMILARITY_THRESHOLD > fst SIMILARITY_THRESHOLD * snd s"

definition pruneExpired :: "int \<Rightarrow> string \<Rightarrow> dedup_gate \<Rightarrow> dedup_gate" where
  "pruneExpired now platform g = (case mget g platform of
     None \<Rightarrow> g
   | Some rs \<Rightarrow> mset_at platform (filter (\<lambda>r. dr_timestamp r > now - TTL_MS) rs) g)"

definition records_of :: "dedup_gate \<Rightarrow> string \<Rightarrow> dedup_record list" where
  "records_of g platform = (case mget g platform of None \<Rightarrow> [] | Some rs \<Rightarrow> rs)"

definition dedup_check :: "(string \<Rightarrow> string) \<Rightarrow> int \<Rightarrow> string \<Rightarrow> string \<Rightarrow> dedup_gate \<Rightarrow> dedup_result \<times> dedup_gate" where
  "dedup_check sha256 now content platform g =
     (let g1 = pruneExpired now platform g; hash = sha256 content; bigrams = getBigrams content; rs = records_of g1 platform
      in (if list_ex (\<lambda>r. dr_hash r = hash) rs then Exact_duplicate
          else (case List.find (\<lambda>r. above_threshold (jaccardSimilarity bigrams (dr_bigrams r))) rs of
                  Some r \<Rightarrow> Fuzzy_duplicate (jaccardSimilarity bigrams (dr_bigrams r))
                | None \<Rightarrow> Not_duplicate), g1))"

definition dedup_record_post :: "(string \<Rightarrow> string) \<Rightarrow> int \<Rightarrow> string \<Rightarrow> string \<Rightarrow> dedup_gate \<Rightarrow> dedup_gate" where
  "dedup_record_post sha256 now content platform g =
     mset_at platform (records_of g platform
       @ [\<lparr>dr_hash = sha256 content, dr_bigrams = getBigrams content, dr_timestamp = now\<rparr>]) g"

section \<open>Patterns\<close>

definition token_char :: rx where
  "token_char = One True [(CHR ''a'', CHR ''z''), (CHR ''A'', CHR ''Z''), (CHR ''0'', CHR ''9''), (CHR ''_'', CHR ''_''), (CHR ''-'', CHR ''-'')]"

definition alnum_char :: rx where
  "alnum_char = One True [(CHR ''a'', CHR ''z''), (CHR ''A'', CHR ''Z''), (CHR ''0'', CHR ''9'')]"

definition dash_char :: rx where
  "dash_char = One True [(CHR ''a'', CHR ''z''), (CHR ''A'', CHR ''Z''), (CHR ''0'', CHR ''9''), (CHR ''-'', CHR ''-'')]"

definition none_of :: "string \<Rightarrow> rx" where
  "none_of cs = One False (map (\<lambda>c. (c, c)) cs)"

text \<open>\<open>[^:]+:[^@]+@\<close>, the user and the password of a URI.\<close>

definition userinfo_rx :: rx where
  "userinfo_rx = cats [plus_rx (none_of '':''), lit '':'', plus_rx (none_of ''@''), lit ''@'']"

definition CREDENTIAL_PATTERNS :: "rx list" where
  "CREDENTIAL_PATTERNS =
     [cats [lit ''sk-ant-api'', at_least 20 token_char],
      cats [lit ''sk-'', at_least 20 alnum_char],
      cats [lit ''xoxb-'', plus_rx dash_char],
      cats [lit ''xoxp-'', plus_rx dash_char],
      cats [lit ''ghp_'', at_least 36 alnum_char],
      cats [lit ''ghs_'', at_least 36 alnum_char],
      cats [lit ''AKIA'', times_rx 16 (One True [(CHR ''A'', CHR ''Z''), (CHR ''0'', CHR ''9'')])],
      cats [lit ''mongodb'', opt_rx (lit ''+srv''), lit ''://'', userinfo_rx],
      cats [lit ''redis'', opt_rx (lit ''s''), lit ''://'', userinfo_rx],
      cats [lit ''-----BEGIN '', opt_rx (ors [lit ''RSA '', lit ''EC '', lit ''DSA '']), lit ''PRIVATE KEY''],
      cats [lit ''eyJ'', at_least 20 token_char, lit ''.'', at_least 20 token_char]]"

definition quote_class :: "string" where "quote_class = [CHR 0x27, CHR 0x22]"

text \<open>A quoted value of ten characters or more after \<open>:\<close> or \<open>=\<close>.\<close>

definition quoted_value :: rx where
  "quoted_value = cats [Star space_rx, any_of '':='', Star space_rx, any_of quote_class, at_least 10 (none_of quote_class), any_of quote_class]"

definition EXFIL_PATTERNS :: "rx list" where
  "EXFIL_PATTERNS =
     [cats [ors (map lit_i [''ANTHROPIC_API_KEY'', ''OPENAI_API_KEY'', ''SLACK_BOT_TOKEN'', ''SLACK_APP_TOKEN'', ''GITHUB_TOKEN'',
         ''MONGODB_URI'', ''REDIS_URL'', ''AWS_SECRET_ACCESS_KEY'', ''AWS_ACCESS_KEY_ID'', ''DATABASE_URL'', ''API_KEY'', ''SECRET_KEY'',
         ''PRIVATE_KEY'']), quoted_value],
      cats [opt_rx (any_of quote_class), ors (map lit_i [''secret'', ''token'', ''password'', ''api_key'', ''apikey'', ''access_key'']),
         opt_rx (any_of quote_class), quoted_value],
      cats [ors (map lit_i [''postgres'', ''mysql'', ''mongodb'', ''redis'', ''amqp'']),
         opt_rx (cats [lit ''+'', plus_rx (One True word_ranges)]), lit ''://'', userinfo_rx,
         plus_rx (One False (space_ranges @ map (\<lambda>c. (c, c)) quote_class))]]"

definition OUTBOUND_ACTIONS :: "string list" where
  "OUTBOUND_ACTIONS = [''twitter'', ''telegram'', ''email'', ''instagram'', ''tiktok'']"

definition INTERNAL_ACTIONS :: "string list" where
  "INTERNAL_ACTIONS = [''event'']"

definition SEMI_TRUSTED_ACTIONS :: "string list" where
  "SEMI_TRUSTED_ACTIONS = [''slack'', ''github'']"

section \<open>The gate\<close>

datatype safety_check =
    Safe_internal | Safe_semi_trusted | Safe_not_outbound | Safe_passed
  | Blocked_credentials | Blocked_exfiltration | Blocked_duplicate dedup_result

fun is_safe :: "safety_check \<Rightarrow> bool" where
  "is_safe Blocked_credentials = False"
| "is_safe Blocked_exfiltration = False"
| "is_safe (Blocked_duplicate d) = False"
| "is_safe _ = True"

definition action_prefix :: "string \<Rightarrow> string" where
  "action_prefix actionName = hd (split_char (CHR '':'') actionName)"

definition contentKeys :: "string list" where
  "contentKeys = [''text'', ''body'', ''htmlBody'', ''content'', ''message'', ''subject'', ''caption'', ''title'', ''description'']"

definition own_fields :: "json \<Rightarrow> string list" where
  "own_fields v = List.map_filter (\<lambda>k. case get_prop k v of JStr s \<Rightarrow> Some s | _ \<Rightarrow> None) contentKeys"

lemma size_get_prop: "get_prop f v = JObj kvs \<Longrightarrow> size (JObj kvs) < size v"
  by (cases v) (auto split: option.splits dest!: map_of_SomeD json_size_prop)

text \<open>Nested \<open>params\<close>; an array under that name has no content fields.\<close>

function extractContentFields :: "json \<Rightarrow> string list" where
  "extractContentFields params =
     own_fields params @ (case get_prop ''params'' params of JObj kvs \<Rightarrow> extractContentFields (JObj kvs) | _ \<Rightarrow> [])"
  by pat_completeness auto
termination
  by (relation "measure size") (auto dest: size_get_prop)

declare extractContentFields.simps [simp del]

definition has_credentials :: "json \<Rightarrow> bool" where
  "has_credentials params \<longleftrightarrow> list_ex (\<lambda>r. rx_test r (json_stringify params)) CREDENTIAL_PATTERNS"

definition has_exfiltration :: "json \<Rightarrow> bool" where
  "has_exfiltration params \<longleftrightarrow> list_ex (\<lambda>f. list_ex (\<lambda>r. rx_test r f) EXFIL_PATTERNS) (extractContentFields params)"

text \<open>\<open>None\<close>: passed.\<close>

definition deterministicCheck :: "string \<Rightarrow> json \<Rightarrow> safety_check option" where
  "deterministicCheck actionName params =
     (if has_credentials params then Some Blocked_credentials
      else if \<not> action_prefix actionName \<in> set SEMI_TRUSTED_ACTIONS \<and> has_exfiltration params then Some Blocked_exfiltration
      else None)"

definition post_content :: "json \<Rightarrow> string" where
  "post_content params = join '' '' (extractContentFields params)"

definition dedupCheck :: "(string \<Rightarrow> string) \<Rightarrow> int \<Rightarrow> string \<Rightarrow> json \<Rightarrow> dedup_gate \<Rightarrow> safety_check option \<times> dedup_gate" where
  "dedupCheck sha256 now actionName params g =
     (let platform = action_prefix actionName; content = post_content params in
      if js_trim content = [] then (None, g)
      else (case dedup_check sha256 now content platform g of
              (Not_duplicate, g1) \<Rightarrow> (None, g1)
            | (d, g1) \<Rightarrow> (Some (Blocked_duplicate d), g1)))"

definition outbound_check :: "(string \<Rightarrow> string) \<Rightarrow> int \<Rightarrow> string \<Rightarrow> json \<Rightarrow> dedup_gate \<Rightarrow> safety_check \<times> dedup_gate" where
  "outbound_check sha256 now actionName params g =
     (let p = action_prefix actionName in
      if p \<in> set INTERNAL_ACTIONS then (Safe_internal, g)
      else if p \<in> set SEMI_TRUSTED_ACTIONS then
        ((case deterministicCheck actionName params of Some b \<Rightarrow> b | None \<Rightarrow> Safe_semi_trusted), g)
      else if p \<notin> set OUTBOUND_ACTIONS then (Safe_not_outbound, g)
      else (case deterministicCheck actionName params of
              Some b \<Rightarrow> (b, g)
            | None \<Rightarrow> (case dedupCheck sha256 now actionName params g of
                (Some b, g1) \<Rightarrow> (b, g1)
              | (None, g1) \<Rightarrow> (Safe_passed, g1))))"

definition recordOutboundContent :: "(string \<Rightarrow> string) \<Rightarrow> int \<Rightarrow> string \<Rightarrow> json \<Rightarrow> dedup_gate \<Rightarrow> dedup_gate" where
  "recordOutboundContent sha256 now actionName params g =
     (let p = action_prefix actionName in
      if p \<notin> set OUTBOUND_ACTIONS then g
      else (let content = post_content params in
            if js_trim content = [] then g else dedup_record_post sha256 now content p g))"

end
