(* ===== verification/OutboundSafety_Correct.thy ===== *)
theory OutboundSafety_Correct
  imports OutboundSafety
begin

text \<open>
  What the outbound gate lets through, exactly, and which texts are not posted twice: a post checked within twelve hours of the recording
  of another to its platform agrees with it neither in the text nor, up to the threshold, in its pairs of letters.
\<close>

section \<open>The gate's decision\<close>

text \<open>A recent post to the platform that the text repeats.\<close>

definition repeats :: "(string \<Rightarrow> string) \<Rightarrow> string \<Rightarrow> dedup_record \<Rightarrow> bool" where
  "repeats sha256 content r \<longleftrightarrow> dr_hash r = sha256 content \<or> above_threshold (jaccardSimilarity (getBigrams content) (dr_bigrams r))"

lemma records_prune [simp]:
  "records_of (pruneExpired now p g) q = (if p = q then filter (\<lambda>r. now - dr_timestamp r < TTL_MS) (records_of g q) else records_of g q)"
  by (auto simp: records_of_def pruneExpired_def split: option.split intro!: filter_cong)

lemma records_post [simp]:
  "records_of (dedup_record_post H now c p g) q =
     (if p = q then records_of g q @ [\<lparr>dr_hash = H c, dr_bigrams = getBigrams c, dr_timestamp = now\<rparr>] else records_of g q)"
  by (simp add: dedup_record_post_def records_of_def)

lemma dedup_check_iff:
  "fst (dedup_check H now c p g) = Not_duplicate \<longleftrightarrow>
     (\<forall>r \<in> set (records_of g p). now - dr_timestamp r < TTL_MS \<longrightarrow> \<not> repeats H c r)"
proof -
  let ?rs = "records_of (pruneExpired now p g) p"
  let ?f = "List.find (\<lambda>r. above_threshold (jaccardSimilarity (getBigrams c) (dr_bigrams r))) ?rs"
  have "fst (dedup_check H now c p g) = Not_duplicate \<longleftrightarrow> \<not> list_ex (\<lambda>r. dr_hash r = H c) ?rs \<and> ?f = None"
    by (cases ?f) (simp_all add: dedup_check_def Let_def)
  then show ?thesis by (auto simp: list_ex_iff repeats_def find_None_iff)
qed

lemma dedup_check_gate: "snd (dedup_check H now c p g) = pruneExpired now p g"
  by (simp add: dedup_check_def Let_def)

lemma dedupCheck_iff:
  "fst (dedupCheck H now a params g) = None \<longleftrightarrow> js_trim (post_content params) = []
     \<or> (\<forall>r \<in> set (records_of g (action_prefix a)). now - dr_timestamp r < TTL_MS \<longrightarrow> \<not> repeats H (post_content params) r)"
  unfolding dedup_check_iff [of H now "post_content params" "action_prefix a" g, symmetric]
  by (auto simp: dedupCheck_def Let_def split: prod.splits dedup_result.splits)

lemma dedupCheck_blocks: "fst (dedupCheck H now a params g) = Some b \<Longrightarrow> \<not> is_safe b"
  by (auto simp: dedupCheck_def Let_def split: prod.splits dedup_result.splits if_splits)

lemma deterministic_blocks: "deterministicCheck a params = Some b \<Longrightarrow> \<not> is_safe b"
  by (auto simp: deterministicCheck_def split: if_splits)

lemma deterministic_none:
  "deterministicCheck a params = None \<longleftrightarrow> \<not> has_credentials params \<and> (action_prefix a \<in> set SEMI_TRUSTED_ACTIONS \<or> \<not> has_exfiltration params)"
  by (simp add: deterministicCheck_def)

lemma prefixes_disjoint:
  "p \<in> set SEMI_TRUSTED_ACTIONS \<Longrightarrow> p \<notin> set OUTBOUND_ACTIONS" "p \<in> set INTERNAL_ACTIONS \<Longrightarrow> p \<notin> set OUTBOUND_ACTIONS"
  "p \<in> set INTERNAL_ACTIONS \<Longrightarrow> p \<notin> set SEMI_TRUSTED_ACTIONS"
  by (auto simp: SEMI_TRUSTED_ACTIONS_def OUTBOUND_ACTIONS_def INTERNAL_ACTIONS_def)

lemma outbound_safe_iff:
  "is_safe (fst (outbound_check H now a params g)) \<longleftrightarrow>
     action_prefix a \<in> set INTERNAL_ACTIONS
     \<or> action_prefix a \<notin> set SEMI_TRUSTED_ACTIONS \<union> set OUTBOUND_ACTIONS
     \<or> (\<not> has_credentials params
        \<and> (action_prefix a \<in> set SEMI_TRUSTED_ACTIONS
           \<or> \<not> has_exfiltration params
             \<and> (js_trim (post_content params) = []
                \<or> \<not> (\<exists>r \<in> set (records_of g (action_prefix a)). now - dr_timestamp r < TTL_MS \<and> repeats H (post_content params) r))))"
proof -
  let ?p = "action_prefix a"
  consider "?p \<in> set INTERNAL_ACTIONS" | "?p \<notin> set INTERNAL_ACTIONS" "?p \<in> set SEMI_TRUSTED_ACTIONS"
    | "?p \<notin> set INTERNAL_ACTIONS" "?p \<notin> set SEMI_TRUSTED_ACTIONS" "?p \<notin> set OUTBOUND_ACTIONS"
    | "?p \<notin> set INTERNAL_ACTIONS" "?p \<notin> set SEMI_TRUSTED_ACTIONS" "?p \<in> set OUTBOUND_ACTIONS" by blast
  then show ?thesis
  proof cases
    case 2
    then show ?thesis
      using deterministic_none [of a params] deterministic_blocks [of a params]
      by (cases "deterministicCheck a params") (simp_all add: outbound_check_def Let_def)
  next
    case 4
    then show ?thesis
    proof (cases "deterministicCheck a params")
      case None
      obtain d g1 where d: "dedupCheck H now a params g = (d, g1)" by fastforce
      with 4 None deterministic_none [of a params] dedupCheck_iff [of H now a params g] dedupCheck_blocks [of H now a params g]
      show ?thesis by (cases d) (auto simp: outbound_check_def Let_def)
    next
      case (Some b)
      with 4 deterministic_none [of a params] deterministic_blocks [OF Some] show ?thesis
        by (auto simp: outbound_check_def Let_def)
    qed
  qed (simp_all add: outbound_check_def Let_def)
qed

text \<open>
  C31: the gate refuses an action exactly when its platform is outbound or semi-trusted and a pattern of credentials occurs anywhere in its
  parameters, or its platform is outbound and a text field matches a pattern of secrets or its text repeats a post of the last twelve hours.
  What a text says otherwise does not matter: advice, predictions, hype and internal matters pass, against the descriptions in the documents.
\<close>
theorem outbound_check_exactly:
  "\<not> is_safe (fst (outbound_check H now a params g)) \<longleftrightarrow>
     action_prefix a \<in> set SEMI_TRUSTED_ACTIONS \<union> set OUTBOUND_ACTIONS
     \<and> (has_credentials params
        \<or> action_prefix a \<in> set OUTBOUND_ACTIONS
          \<and> (has_exfiltration params
             \<or> js_trim (post_content params) \<noteq> []
               \<and> (\<exists>r \<in> set (records_of g (action_prefix a)). now - dr_timestamp r < TTL_MS \<and> repeats H (post_content params) r)))"
  using prefixes_disjoint by (auto simp: outbound_safe_iff)

section \<open>Posting\<close>

text \<open>
  The gate is shared by all executions, and each of them waits for the platform between the check of its text and the recording of its post.
  So the check of a call, the answer of its platform and the recording are not one step: calls are numbered, and the steps of several calls
  interleave in any order.  The post itself is made at some time between the call's check and its recording.
\<close>

datatype gate_event = Check_call nat int string json | Platform_took nat int | Platform_refused nat int

fun ev_time :: "gate_event \<Rightarrow> int" where
  "ev_time (Check_call i now a params) = now"
| "ev_time (Platform_took i now) = now"
| "ev_time (Platform_refused i now) = now"

text \<open>
  A call that passed, and the post it becomes: when it was checked, how many posts were recorded before that, and when it is recorded.
\<close>

record gate_call =
  gc_action :: string
  gc_params :: json
  gc_checked :: int
  gc_after :: nat

record gate_post = gate_call +
  gc_recorded :: int

record posting =
  pg_gate :: dedup_gate
  pg_pending :: "nat \<rightharpoonup> gate_call"
  pg_posts :: "gate_post list"

fun posting_step :: "(string \<Rightarrow> string) \<Rightarrow> gate_event \<Rightarrow> posting \<Rightarrow> posting" where
  "posting_step H (Check_call i now a params) s =
     (let (c, g) = outbound_check H now a params (pg_gate s)
      in s\<lparr>pg_gate := g,
           pg_pending := (pg_pending s)(i := if is_safe c
             then Some \<lparr>gc_action = a, gc_params = params, gc_checked = now, gc_after = length (pg_posts s)\<rparr> else None)\<rparr>)"
| "posting_step H (Platform_took i now) s = (case pg_pending s i of
     None \<Rightarrow> s
   | Some c \<Rightarrow> s\<lparr>pg_gate := recordOutboundContent H now (gc_action c) (gc_params c) (pg_gate s),
       pg_pending := (pg_pending s)(i := None),
       pg_posts := pg_posts s @ [gate_call.extend c \<lparr>gc_recorded = now\<rparr>]\<rparr>)"
| "posting_step H (Platform_refused i now) s = s\<lparr>pg_pending := (pg_pending s)(i := None)\<rparr>"

definition posting_start :: "dedup_gate \<Rightarrow> posting" where
  "posting_start g = \<lparr>pg_gate = g, pg_pending = (\<lambda>i. None), pg_posts = []\<rparr>"

definition posts_of :: "(string \<Rightarrow> string) \<Rightarrow> gate_event list \<Rightarrow> dedup_gate \<Rightarrow> gate_post list" where
  "posts_of H es g = pg_posts (fold (posting_step H) es (posting_start g))"

definition on_platform :: "string \<Rightarrow> string \<Rightarrow> json \<Rightarrow> bool" where
  "on_platform p a params \<longleftrightarrow> action_prefix a = p \<and> p \<in> set OUTBOUND_ACTIONS \<and> js_trim (post_content params) \<noteq> []"

lemma safe_not_repeating:
  assumes "is_safe (fst (outbound_check H now a params g))" "on_platform p a params"
    "r \<in> set (records_of g p)" "now - dr_timestamp r < TTL_MS"
  shows "\<not> repeats H (post_content params) r"
proof -
  from assms(2) have p: "action_prefix a = p" "p \<in> set OUTBOUND_ACTIONS" "p \<notin> set INTERNAL_ACTIONS" "p \<notin> set SEMI_TRUSTED_ACTIONS"
    using prefixes_disjoint by (auto simp: on_platform_def)
  with assms(1) [unfolded outbound_safe_iff p(1)] assms(2-4) show ?thesis by (auto simp: on_platform_def)
qed

text \<open>A check drops only what has expired, and a post adds.\<close>

lemma check_gate: "snd (outbound_check H now a params g) \<in> {g, pruneExpired now (action_prefix a) g}"
  by (auto simp: outbound_check_def dedupCheck_def Let_def dedup_check_gate split: option.splits prod.splits dedup_result.splits)
    (metis dedup_check_gate snd_conv)+

lemma check_keeps:
  assumes "r \<in> set (records_of g p)" "now - dr_timestamp r < TTL_MS"
  shows "r \<in> set (records_of (snd (outbound_check H now a params g)) p)"
  using assms check_gate [of H now a params g] by auto

lemma check_adds_none: "set (records_of (snd (outbound_check H now a params g)) p) \<subseteq> set (records_of g p)"
  using check_gate [of H now a params g] by (auto split: if_splits)

lemma record_keeps: "r \<in> set (records_of g p) \<Longrightarrow> r \<in> set (records_of (recordOutboundContent H now a params g) p)"
  by (simp add: recordOutboundContent_def Let_def)

definition record_of :: "(string \<Rightarrow> string) \<Rightarrow> gate_post \<Rightarrow> dedup_record" where
  "record_of H x = \<lparr>dr_hash = H (post_content (gc_params x)), dr_bigrams = getBigrams (post_content (gc_params x)), dr_timestamp = gc_recorded x\<rparr>"

lemma record_adds:
  "on_platform p (gc_action x) (gc_params x) \<Longrightarrow>
     record_of H x \<in> set (records_of (recordOutboundContent H (gc_recorded x) (gc_action x) (gc_params x) g) p)"
  by (simp add: recordOutboundContent_def on_platform_def record_of_def Let_def)

text \<open>A checked call repeats none of the recent posts that were recorded before its check.\<close>

definition fresh_call :: "(string \<Rightarrow> string) \<Rightarrow> gate_post list \<Rightarrow> 'a gate_call_scheme \<Rightarrow> bool" where
  "fresh_call H ps c \<longleftrightarrow> gc_after c \<le> length ps
     \<and> (\<forall>p. \<forall>x \<in> set (take (gc_after c) ps). on_platform p (gc_action x) (gc_params x) \<longrightarrow> on_platform p (gc_action c) (gc_params c) \<longrightarrow>
          gc_checked c - gc_recorded x < TTL_MS \<longrightarrow> \<not> repeats H (post_content (gc_params c)) (record_of H x))"

lemma fresh_later: "fresh_call H ps c \<Longrightarrow> fresh_call H (ps @ qs) c"
  by (simp add: fresh_call_def)

lemma fresh_extend [simp]: "fresh_call H ps (gate_call.extend c m) = fresh_call H ps c"
  by (simp add: fresh_call_def gate_call.extend_def)

text \<open>At a time \<open>t\<close>: the gate remembers the recent posts, and calls and posts are fresh.\<close>

definition posting_inv :: "(string \<Rightarrow> string) \<Rightarrow> int \<Rightarrow> posting \<Rightarrow> bool" where
  "posting_inv H t s \<longleftrightarrow>
     (\<forall>p. \<forall>x \<in> set (pg_posts s). on_platform p (gc_action x) (gc_params x) \<longrightarrow> t - gc_recorded x < TTL_MS \<longrightarrow>
        record_of H x \<in> set (records_of (pg_gate s) p))
     \<and> (\<forall>i c. pg_pending s i = Some c \<longrightarrow> fresh_call H (pg_posts s) c)
     \<and> (\<forall>x \<in> set (pg_posts s). fresh_call H (pg_posts s) x)"

lemma posting_inv_start: "posting_inv H t (posting_start g)"
  by (simp add: posting_inv_def posting_start_def)

lemma posting_inv_later:
  "posting_inv H t s \<Longrightarrow> t \<le> u \<Longrightarrow> posting_inv H u s"
proof -
  assume "posting_inv H t s" "t \<le> u"
  moreover from this have "u - r < TTL_MS \<Longrightarrow> t - r < TTL_MS" for r by simp
  ultimately show ?thesis unfolding posting_inv_def by blast
qed

lemma check_fresh:
  assumes "posting_inv H now s" "is_safe (fst (outbound_check H now a params (pg_gate s)))"
  shows "fresh_call H (pg_posts s) \<lparr>gc_action = a, gc_params = params, gc_checked = now, gc_after = length (pg_posts s)\<rparr>"
  using assms safe_not_repeating [OF assms(2)] by (auto simp: fresh_call_def posting_inv_def record_of_def)

lemma posting_inv_step:
  assumes "posting_inv H (ev_time e) s"
  shows "posting_inv H (ev_time e) (posting_step H e s)"
proof (cases e)
  case (Check_call i now a params)
  obtain c g where oc: "outbound_check H now a params (pg_gate s) = (c, g)" by fastforce
  have keep: "record_of H x \<in> set (records_of g p)" if "record_of H x \<in> set (records_of (pg_gate s) p)" "now - gc_recorded x < TTL_MS" for p x
    using check_keeps [OF that(1), of now H a params] that(2) by (simp add: oc record_of_def)
  with assms check_fresh [of H now s a params] show ?thesis
    by (auto simp: Check_call posting_inv_def oc)
next
  case (Platform_took i now)
  show ?thesis
  proof (cases "pg_pending s i")
    case (Some c)
    let ?x = "gate_call.extend c \<lparr>gc_recorded = now\<rparr>"
    have x: "gc_action ?x = gc_action c" "gc_params ?x = gc_params c" "gc_recorded ?x = now" by (simp_all add: gate_call.extend_def)
    have "fresh_call H (pg_posts s) c" using assms Some by (simp add: posting_inv_def)
    then have "fresh_call H (pg_posts s @ [?x]) ?x" by (simp add: fresh_later)
    with assms Some record_adds [of _ ?x H "pg_gate s", unfolded x] show ?thesis
      by (auto simp: Platform_took posting_inv_def fresh_later record_keeps x)
  qed (use assms in \<open>simp add: Platform_took\<close>)
qed (use assms in \<open>simp add: posting_inv_def\<close>)

lemma posting_inv_run:
  assumes "posting_inv H t s" "sorted (t # map ev_time es)"
  shows "\<exists>u. posting_inv H u (fold (posting_step H) es s)"
  using assms
proof (induction es arbitrary: s t)
  case (Cons e es)
  then have "posting_inv H (ev_time e) (posting_step H e s)" by (auto intro: posting_inv_step posting_inv_later)
  from Cons.IH [OF this] Cons.prems(2) show ?case by simp
qed auto

text \<open>
  C32: however the checks, posts and recordings of several calls interleave, while the clock does not go back: a post to an outbound
  platform whose check came after another post to it was recorded, less than twelve hours after, differs from that post in its text, and
  up to the threshold of similarity in its pairs of letters.  Nothing is said of calls that are checked before the other's post is recorded.
\<close>
theorem no_duplicate_posts:
  assumes "sorted (map ev_time es)" and "j < length (posts_of H es g)" and "i < gc_after (posts_of H es g ! j)"
    and "on_platform p (gc_action (posts_of H es g ! i)) (gc_params (posts_of H es g ! i))"
    and "on_platform p (gc_action (posts_of H es g ! j)) (gc_params (posts_of H es g ! j))"
    and "gc_checked (posts_of H es g ! j) - gc_recorded (posts_of H es g ! i) < TTL_MS"
  shows "post_content (gc_params (posts_of H es g ! i)) \<noteq> post_content (gc_params (posts_of H es g ! j))
    \<and> \<not> above_threshold (jaccardSimilarity (getBigrams (post_content (gc_params (posts_of H es g ! j))))
         (getBigrams (post_content (gc_params (posts_of H es g ! i)))))"
proof -
  let ?ps = "posts_of H es g"
  obtain t where "sorted (t # map ev_time es)"
    using assms(1) by (cases es) (auto intro: order_trans)
  from posting_inv_run [OF posting_inv_start this] have fresh: "fresh_call H ?ps (?ps ! j)"
    using assms(2) by (auto simp: posting_inv_def posts_of_def)
  then have "i < length (take (gc_after (?ps ! j)) ?ps)" using assms(3) by (simp add: fresh_call_def)
  then have "?ps ! i \<in> set (take (gc_after (?ps ! j)) ?ps)" using assms(3) by (metis nth_mem nth_take)
  with fresh assms(4-6) have "\<not> repeats H (post_content (gc_params (?ps ! j))) (record_of H (?ps ! i))"
    by (simp add: fresh_call_def)
  then show ?thesis by (auto simp: repeats_def record_of_def)
qed

text \<open>Two calls with one text that are both checked before either is recorded are both posted.\<close>

lemma overlapping_posts_repeat:
  assumes "is_safe (fst (outbound_check H t a params g))"
  shows "map (\<lambda>x. (gc_action x, gc_params x)) (posts_of H [Check_call 1 t a params, Check_call 2 t a params, Platform_took 1 u, Platform_took 2 u] g)
    = [(a, params), (a, params)]"
proof -
  obtain c g1 where one: "outbound_check H t a params g = (c, g1)" by fastforce
  obtain c2 g2 where two: "outbound_check H t a params g1 = (c2, g2)" by fastforce
  have "set (records_of g1 p) \<subseteq> set (records_of g p)" for p using check_adds_none [of H t a params g p] one by simp
  with assms have "is_safe (fst (outbound_check H t a params g1))" unfolding outbound_safe_iff by blast
  with assms one two show ?thesis by (simp add: posts_of_def posting_start_def gate_call.extend_def)
qed

definition sample_posts :: "gate_event list" where
  "sample_posts = [Check_call 1 0 ''twitter:post'' (JObj [(''text'', JStr ''aa'')]), Platform_took 1 5,
     Check_call 2 9 ''twitter:post'' (JObj [(''text'', JStr ''bb'')]), Platform_took 2 14]"

lemma lit_prefix_test:
  assumes "rx_test (cats (lit w # rs)) s" "c \<in> set w"
  shows "c \<in> set s"
proof -
  have "[(c, c)] \<in> set (must (cats (lit w # rs)))"
    using assms(2) by (simp add: must_cats must_lit)
  from test_must [OF assms(1) this] show ?thesis by (auto simp: in_ranges_single)
qed

lemma credential_letters:
  assumes "has_credentials v"
  shows "\<exists>c \<in> set ''kogAmrBJ''. c \<in> set (json_stringify v)"
proof -
  obtain r where r: "r \<in> set CREDENTIAL_PATTERNS" "rx_test r (json_stringify v)"
    using assms by (auto simp: has_credentials_def list_ex_iff)
  from r(1) obtain w rs where "r = cats (lit w # rs)" "\<exists>c \<in> set ''kogAmrBJ''. c \<in> set w"
    unfolding CREDENTIAL_PATTERNS_def by auto
  with lit_prefix_test r(2) show ?thesis by blast
qed

lemma exfiltration_letters:
  assumes "has_exfiltration v"
  shows "\<exists>f \<in> set (extractContentFields v). CHR '':'' \<in> set f \<or> CHR ''='' \<in> set f"
proof -
  obtain r f where r: "r \<in> set EXFIL_PATTERNS" "rx_test r f" "f \<in> set (extractContentFields v)"
    using assms by (auto simp: has_exfiltration_def list_ex_iff)
  have "map (\<lambda>c. (c, c)) '':='' \<in> set (must r) \<or> [(CHR '':'', CHR '':'')] \<in> set (must r)"
    using r(1) unfolding EXFIL_PATTERNS_def
    by (auto simp: must_cats must_lit quoted_value_def any_of_def simp del: list.map)
  with test_must [OF r(2)] have "\<exists>c \<in> set f. in_ranges (map (\<lambda>c. (c, c)) '':='') c \<or> in_ranges [(CHR '':'', CHR '':'')] c" by blast
  with r(3) show ?thesis by (auto simp: in_ranges_single in_ranges_each simp del: list.map)
qed

text \<open>A post of one text that has none of the letters that the patterns need.\<close>

abbreviation text_post :: "string \<Rightarrow> json" where
  "text_post s \<equiv> JObj [(''text'', JStr s)]"

lemma text_post_content: "extractContentFields (text_post s) = [s]" "post_content (text_post s) = s"
  by (simp_all add: post_content_def extractContentFields.simps own_fields_def contentKeys_def List.map_filter_def)

lemma text_post_harmless:
  assumes "quote s = [CHR 0x22] @ s @ [CHR 0x22]" and "\<forall>c \<in> set ''kogAmrBJ:=''. c \<notin> set s"
  shows "\<not> has_credentials (text_post s) \<and> \<not> has_exfiltration (text_post s)"
proof -
  have q: "quote ''text'' = [CHR 0x22] @ ''text'' @ [CHR 0x22]" by code_simp
  have "set (json_stringify (text_post s)) \<subseteq> set ''{text:}'' \<union> {CHR 0x22} \<union> set s" by (auto simp: q assms(1))
  with assms(2) have "\<not> (\<exists>c \<in> set ''kogAmrBJ''. c \<in> set (json_stringify (text_post s)))" by auto
  with credential_letters [of "text_post s"] have "\<not> has_credentials (text_post s)" by blast
  moreover have "\<not> has_exfiltration (text_post s)"
    using exfiltration_letters [of "text_post s"] assms(2) by (auto simp: text_post_content(1))
  ultimately show ?thesis ..
qed

text \<open>Advice and predictions of prices pass: the gate has no patterns for them.\<close>

lemma price_prediction_passes:
  "fst (outbound_check H now ''twitter:post'' (text_post ''buy this, it will 100x in days'') []) = Safe_passed"
proof -
  let ?s = "''buy this, it will 100x in days''"
  have "quote ?s = [CHR 0x22] @ ?s @ [CHR 0x22]" by code_simp
  then have c: "\<not> has_credentials (text_post ?s)" "\<not> has_exfiltration (text_post ?s)" using text_post_harmless [of ?s] by auto
  have "action_prefix ''twitter:post'' = ''twitter''" by code_simp
  with c show ?thesis
    by (simp add: outbound_check_def deterministicCheck_def dedupCheck_def dedup_check_def pruneExpired_def records_of_def
        OUTBOUND_ACTIONS_def SEMI_TRUSTED_ACTIONS_def INTERNAL_ACTIONS_def Let_def)
qed

theorem no_duplicate_posts_witness:
  "map (\<lambda>x. post_content (gc_params x)) (posts_of (\<lambda>s. s) sample_posts []) = [''aa'', ''bb'']
    \<and> \<not> above_threshold (jaccardSimilarity (getBigrams ''bb'') (getBigrams ''aa''))"
proof -
  note plain = text_post_content(2)
  have "quote ''aa'' = [CHR 0x22] @ ''aa'' @ [CHR 0x22]" "quote ''bb'' = [CHR 0x22] @ ''bb'' @ [CHR 0x22]" by code_simp+
  then have c: "\<not> has_credentials (text_post s) \<and> \<not> has_exfiltration (text_post s)" if "s = ''aa'' \<or> s = ''bb''" for s
    using text_post_harmless [of s] that by auto
  have prefix: "action_prefix ''twitter:post'' = ''twitter''" by code_simp
  have sets: "''twitter'' \<in> set OUTBOUND_ACTIONS" "''twitter'' \<notin> set SEMI_TRUSTED_ACTIONS" "''twitter'' \<notin> set INTERNAL_ACTIONS"
    by (simp_all add: OUTBOUND_ACTIONS_def SEMI_TRUSTED_ACTIONS_def INTERNAL_ACTIONS_def)
  have trim: "js_trim ''aa'' \<noteq> []" "js_trim ''bb'' \<noteq> []" by code_simp+
  have dup: "dedup_check (\<lambda>s. s) 0 ''aa'' ''twitter'' [] = (Not_duplicate, [])"
    "dedup_check (\<lambda>s. s) 9 ''bb'' ''twitter'' (dedup_record_post (\<lambda>s. s) 5 ''aa'' ''twitter'' [])
       = (Not_duplicate, dedup_record_post (\<lambda>s. s) 5 ''aa'' ''twitter'' [])" by code_simp+
  have run: "posts_of (\<lambda>s. s) sample_posts [] =
      [\<lparr>gc_action = ''twitter:post'', gc_params = JObj [(''text'', JStr ''aa'')], gc_checked = 0, gc_after = 0, gc_recorded = 5\<rparr>,
       \<lparr>gc_action = ''twitter:post'', gc_params = JObj [(''text'', JStr ''bb'')], gc_checked = 9, gc_after = 1, gc_recorded = 14\<rparr>]"
    by (simp add: posts_of_def sample_posts_def posting_start_def outbound_check_def prefix sets deterministicCheck_def c dedupCheck_def
        plain trim dup recordOutboundContent_def gate_call.extend_def Let_def)
  have "on_platform ''twitter'' ''twitter:post'' (JObj [(''text'', JStr s)])" if "s = ''aa'' \<or> s = ''bb''" for s
    using that prefix sets trim by (auto simp: on_platform_def plain)
  moreover have "sorted (map ev_time sample_posts)" by (simp add: sample_posts_def)
  ultimately have "\<not> above_threshold (jaccardSimilarity (getBigrams ''bb'') (getBigrams ''aa''))"
    using no_duplicate_posts [of sample_posts 1 "\<lambda>s. s" "[]" 0 "''twitter''"] by (simp add: run plain TTL_MS_def)
  with run plain show ?thesis by simp
qed

text \<open>Discord is registered as a platform but is neither outbound nor semi-trusted here: its messages pass unread.\<close>

lemma discord_unchecked: "outbound_check H now ''discord:send_message'' params g = (Safe_not_outbound, g)"
proof -
  have "action_prefix ''discord:send_message'' = ''discord''" by code_simp
  then show ?thesis
    by (simp add: outbound_check_def INTERNAL_ACTIONS_def SEMI_TRUSTED_ACTIONS_def OUTBOUND_ACTIONS_def)
qed

end
