(* ===== verification/Routing.thy ===== *)
theory Routing
  imports AgentBus SelfMod
begin

text \<open>
  Agents and where things go: the configuration of an agent (\<open>packages/core/src/config/schema.ts\<close>), the router
  of triggers (\<open>agent/router.ts\<close>), the registry of identities (\<open>notifications/AgentRegistry.ts\<close>), the channels of
  departments (\<open>utils/channel-routing.ts\<close>), the registry of action executors (\<open>actions/registry.ts\<close>) and the
  executor of event publications (\<open>actions/event.ts\<close>).  Of a configuration only the fields these and the agent executor read are kept.
  Environment variables are an argument; emoji are names, colours and avatars are left out.  The wait of the router's drain is
  the list of counts it sees.
\<close>

section \<open>Agents\<close>

record model_config =
  mc_provider :: string
  mc_model :: string

datatype trigger =
    Tr_cron string string "model_config option" "string list option"
  | Tr_event string string "model_config option"
  | Tr_webhook string string "model_config option"
  | Tr_manual string "model_config option"
  | Tr_batch_event "string list" string "model_config option"

text \<open>\<open>Tr_cron schedule task\<close>, \<open>Tr_event event task\<close>, \<open>Tr_webhook path task\<close>, \<open>Tr_manual task\<close>, \<open>Tr_batch_event events task\<close>.\<close>

fun trigger_task :: "trigger \<Rightarrow> string" where
  "trigger_task (Tr_cron s t m p) = t"
| "trigger_task (Tr_event e t m) = t"
| "trigger_task (Tr_webhook p t m) = t"
| "trigger_task (Tr_manual t m) = t"
| "trigger_task (Tr_batch_event es t m) = t"

record agent_config =
  ag_name :: string
  ag_department :: string
  ag_model :: model_config
  ag_triggers :: "trigger list"
  ag_actions :: "string list"
  ag_event_subscriptions :: "string list"
  ag_review_bypass :: "string list"
  ag_humanize :: bool

section \<open>The router\<close>

record agent_router =
  rt_configs :: "(string, agent_config) jsmap"
  inFlightExecutions :: "string list"
  rt_shuttingDown :: bool

record route_match =
  rm_agent :: agent_config
  rm_trigger :: trigger
  rm_taskName :: string

definition trackExecution :: "string \<Rightarrow> agent_router \<Rightarrow> agent_router" where
  "trackExecution i r = r\<lparr>inFlightExecutions :=
     (if i \<in> set (inFlightExecutions r) then inFlightExecutions r else inFlightExecutions r @ [i])\<rparr>"

definition untrackExecution :: "string \<Rightarrow> agent_router \<Rightarrow> agent_router" where
  "untrackExecution i r = r\<lparr>inFlightExecutions := filter (\<lambda>x. x \<noteq> i) (inFlightExecutions r)\<rparr>"

definition activeExecutionCount :: "agent_router \<Rightarrow> nat" where
  "activeExecutionCount r = length (inFlightExecutions r)"

definition beginShutdown :: "agent_router \<Rightarrow> agent_router" where
  "beginShutdown r = r\<lparr>rt_shuttingDown := True\<rparr>"

text \<open>The looks a drain takes until its deadline, half a second apart: whether it saw the last execution end.\<close>

fun drainExecutions :: "nat list \<Rightarrow> bool" where
  "drainExecutions [] = False"
| "drainExecutions (n # ns) = (if n > 0 then drainExecutions ns else True)"

definition getConfig :: "string \<Rightarrow> agent_router \<Rightarrow> agent_config option" where
  "getConfig name r = mget (rt_configs r) name"

definition routeCron :: "string \<Rightarrow> string \<Rightarrow> agent_router \<Rightarrow> route_match option" where
  "routeCron agentName taskName r = (case mget (rt_configs r) agentName of
     None \<Rightarrow> None
   | Some config \<Rightarrow> (case List.find (\<lambda>t. case t of Tr_cron s task m p \<Rightarrow> task = taskName | _ \<Rightarrow> False) (ag_triggers config) of
       None \<Rightarrow> None
     | Some t \<Rightarrow> Some \<lparr>rm_agent = config, rm_trigger = t, rm_taskName = taskName\<rparr>))"

definition event_triggers :: "string \<Rightarrow> agent_config \<Rightarrow> trigger list" where
  "event_triggers eventKey config = filter (\<lambda>t. case t of Tr_event e task m \<Rightarrow> e = eventKey | _ \<Rightarrow> False) (ag_triggers config)"

definition routeEvent :: "string \<Rightarrow> string \<Rightarrow> agent_router \<Rightarrow> route_match list" where
  "routeEvent eventSource eventType r = (let eventKey = event_key eventSource eventType in
     concat (map (\<lambda>(name, config).
       if eventKey \<in> set (ag_event_subscriptions config)
       then map (\<lambda>t. \<lparr>rm_agent = config, rm_trigger = t, rm_taskName = trigger_task t\<rparr>) (event_triggers eventKey config)
       else []) (rt_configs r)))"

fun find_webhook :: "string \<Rightarrow> (string \<times> agent_config) list \<Rightarrow> route_match option" where
  "find_webhook path [] = None"
| "find_webhook path ((name, config) # cs) =
     (case List.find (\<lambda>t. case t of Tr_webhook p task m \<Rightarrow> p = path | _ \<Rightarrow> False) (ag_triggers config) of
        Some t \<Rightarrow> Some \<lparr>rm_agent = config, rm_trigger = t, rm_taskName = trigger_task t\<rparr>
      | None \<Rightarrow> find_webhook path cs)"

definition routeWebhook :: "string \<Rightarrow> agent_router \<Rightarrow> route_match option" where
  "routeWebhook path r = find_webhook path (rt_configs r)"

definition routeManual :: "string \<Rightarrow> string \<Rightarrow> agent_router \<Rightarrow> route_match option" where
  "routeManual agentName taskName r = (case mget (rt_configs r) agentName of
     None \<Rightarrow> None
   | Some config \<Rightarrow> Some \<lparr>rm_agent = config, rm_trigger = Tr_manual taskName None, rm_taskName = taskName\<rparr>)"

definition getAllCronTriggers ::
  "agent_router \<Rightarrow> (string \<times> string \<times> string \<times> model_config option \<times> string list option) list" where
  "getAllCronTriggers r = concat (map (\<lambda>(name, config).
     List.map_filter (\<lambda>t. case t of Tr_cron s task m p \<Rightarrow> Some (name, task, s, m, p) | _ \<Rightarrow> None) (ag_triggers config)) (rt_configs r))"

definition add_sub :: "string \<Rightarrow> string \<Rightarrow> (string, string list) jsmap \<Rightarrow> (string, string list) jsmap" where
  "add_sub name event subs = (case mget subs event of None \<Rightarrow> mset_at event [name] subs | Some ns \<Rightarrow> mset_at event (ns @ [name]) subs)"

definition getAllEventSubscriptions :: "agent_router \<Rightarrow> (string, string list) jsmap" where
  "getAllEventSubscriptions r =
     fold (\<lambda>(name, config). fold (add_sub name) (ag_event_subscriptions config)) (rt_configs r) []"

definition getAllWebhookRoutes :: "agent_router \<Rightarrow> (string \<times> string \<times> string) list" where
  "getAllWebhookRoutes r = concat (map (\<lambda>(name, config).
     List.map_filter (\<lambda>t. case t of Tr_webhook p task m \<Rightarrow> Some (p, name, task) | _ \<Rightarrow> None) (ag_triggers config)) (rt_configs r))"

section \<open>Identities\<close>

definition SLACK_EMOJI_OVERRIDES :: "(string \<times> string) list" where
  "SLACK_EMOJI_OVERRIDES =
     [(''strategist'', '':chess_pawn:''), (''reviewer'', '':mag:''), (''ember'', '':fire:''), (''scout'', '':telescope:''),
      (''forge'', '':hammer_and_wrench:''), (''architect'', '':building_construction:''), (''sentinel'', '':shield:''),
      (''signal'', '':satellite:''), (''keeper'', '':key:''), (''treasurer'', '':bank:''), (''guide'', '':compass:''),
      (''designer'', '':art:''), (''librarian'', '':books:''), (''mechanic'', '':wrench:'')]"

record agent_identity =
  id_name :: string
  id_department :: string

type_synonym agent_registry = "(string, agent_identity) jsmap"

definition capitalized :: "string \<Rightarrow> string" where
  "capitalized s = (case s of [] \<Rightarrow> [] | c # cs \<Rightarrow> upper_char c # cs)"

definition initAgentRegistry :: "(string, agent_config) jsmap \<Rightarrow> agent_registry" where
  "initAgentRegistry configs = fold (\<lambda>(name, config).
     mset_at name \<lparr>id_name = capitalized name, id_department = ag_department config\<rparr>) configs []"

definition findAgentIdentity :: "agent_registry \<Rightarrow> string \<Rightarrow> agent_identity option" where
  "findAgentIdentity reg agentId = mget reg agentId"

definition getAgentIdentity :: "agent_registry \<Rightarrow> string \<Rightarrow> agent_identity" where
  "getAgentIdentity reg agentId = (case mget reg agentId of Some i \<Rightarrow> i
     | None \<Rightarrow> \<lparr>id_name = capitalized agentId, id_department = ''general''\<rparr>)"

definition getSlackEmoji :: "string \<Rightarrow> string" where
  "getSlackEmoji agentId = (case map_of SLACK_EMOJI_OVERRIDES agentId of Some e \<Rightarrow> e | None \<Rightarrow> '':bell:'')"

text \<open>The identity the Slack executor posts under: user name and emoji.\<close>

definition AGENT_IDENTITIES :: "agent_registry \<Rightarrow> string \<Rightarrow> (string \<times> string) option" where
  "AGENT_IDENTITIES reg agent = map_option (\<lambda>i. (id_name i, getSlackEmoji agent)) (findAgentIdentity reg agent)"

section \<open>Channels\<close>

definition SLACK_DEFAULT_CHANNELS :: "(string \<times> string) list" where
  "SLACK_DEFAULT_CHANNELS =
     [(''general'', ''#yclaw-general''), (''executive'', ''#yclaw-executive''), (''marketing'', ''#yclaw-marketing''),
      (''development'', ''#yclaw-development''), (''operations'', ''#yclaw-operations''), (''finance'', ''#yclaw-finance''),
      (''support'', ''#yclaw-support''), (''alerts'', ''#yclaw-alerts''), (''audit'', ''#yclaw-audit'')]"

definition envKey :: "string \<Rightarrow> string \<Rightarrow> string" where
  "envKey platform dept = to_upper platform @ ''_CHANNEL_'' @ to_upper dept"

text \<open>Channels are texts that are not empty, or \<open>None\<close>.\<close>

definition getChannelForDepartment :: "(string \<Rightarrow> string option) \<Rightarrow> string \<Rightarrow> string \<Rightarrow> string option" where
  "getChannelForDepartment getenv dept platform = (case map_option js_trim (getenv (envKey platform dept)) of
     Some (c # cs) \<Rightarrow> Some (c # cs)
   | _ \<Rightarrow> (if platform = ''slack'' then map_of SLACK_DEFAULT_CHANNELS dept else None))"

definition getChannelForAgent :: "(string \<Rightarrow> string option) \<Rightarrow> agent_registry \<Rightarrow> string \<Rightarrow> string \<Rightarrow> string option" where
  "getChannelForAgent getenv reg agent platform =
     (let dept = (case findAgentIdentity reg agent of Some i \<Rightarrow> id_department i | None \<Rightarrow> ''general'')
      in case getChannelForDepartment getenv dept platform of
           Some c \<Rightarrow> Some c
         | None \<Rightarrow> (if dept \<noteq> ''general'' then getChannelForDepartment getenv ''general'' platform else None))"

section \<open>Action executors\<close>

record action_result =
  ar_success :: bool
  ar_data :: json
  ar_error :: "string option"

definition failed_with :: "string \<Rightarrow> action_result" where
  "failed_with text = \<lparr>ar_success = False, ar_data = JUndef, ar_error = Some text\<rparr>"

text \<open>
  An executor answers an action with its parameters; \<open>Inl\<close>: it throws.  What it answers may depend on all the calls
  that any executor got before, which stand for the state of the outside world.
\<close>

type_synonym calls = "(string \<times> json) list"
type_synonym action_executor = "calls \<Rightarrow> string \<Rightarrow> json \<Rightarrow> string + action_result"
type_synonym action_registry = "(string, action_executor) jsmap"

definition register_executor :: "string \<Rightarrow> action_executor \<Rightarrow> action_registry \<Rightarrow> action_registry" where
  "register_executor prefix executor reg = mset_at prefix executor reg"

definition unregister_executor :: "string \<Rightarrow> action_registry \<Rightarrow> bool \<times> action_registry" where
  "unregister_executor prefix reg = (mhas reg prefix, mdelete prefix reg)"

definition listActions :: "action_registry \<Rightarrow> string list" where
  "listActions reg = map (\<lambda>(p, e). p @ '':*'') reg"

definition after_colon :: "string \<Rightarrow> string" where
  "after_colon s = tl (dropWhile (\<lambda>c. c \<noteq> CHR '':'') s)"

definition registry_execute :: "action_registry \<Rightarrow> string \<Rightarrow> json \<Rightarrow> calls \<Rightarrow> action_result \<times> calls" where
  "registry_execute reg actionName params cs =
     (if CHR '':'' \<notin> set actionName then
        (failed_with (''Invalid action name '' @ [CHR 0x22] @ actionName @ [CHR 0x22] @ '': expected ''
           @ [CHR 0x22] @ ''prefix:action'' @ [CHR 0x22] @ '' format''), cs)
      else
        (let prefix = takeWhile (\<lambda>c. c \<noteq> CHR '':'') actionName; action = after_colon actionName
         in case mget reg prefix of
              None \<Rightarrow> (failed_with (''No executor registered for prefix '' @ [CHR 0x22] @ prefix @ [CHR 0x22]
                 @ ''. Available: ['' @ join '', '' (map fst reg) @ '']''), cs)
            | Some executor \<Rightarrow> (case executor cs action params of
                Inr r \<Rightarrow> (r, cs @ [(actionName, params)])
              | Inl msg \<Rightarrow> (failed_with msg, cs @ [(actionName, params)]))))"

section \<open>Publishing events\<close>

text \<open>The action \<open>event:publish\<close>: the bus gets the source the parameters name.\<close>

definition event_execute ::
  "(string \<Rightarrow> string \<Rightarrow> (string \<times> json) list \<Rightarrow> string option \<Rightarrow> 'b \<Rightarrow> (string option) \<times> 'b) \<Rightarrow> string \<Rightarrow> json \<Rightarrow> 'b \<Rightarrow> action_result \<times> 'b" where
  "event_execute publish action params b =
     (if action \<noteq> ''publish'' then (failed_with (''Unknown event action: '' @ action), b)
      else (case (text_arg ''source'' params, text_arg ''type'' params) of
          (Some (s # source), Some (t # type)) \<Rightarrow>
            (let src = s # source; ty = t # type; corr = text_arg ''correlationId'' params;
                 eventType = (if starts_with ty (src @ '':'') then drop (length src + 1) ty else ty);
                 payload = (case get_prop ''payload'' params of JObj kvs \<Rightarrow> kvs | _ \<Rightarrow> [])
             in case publish src eventType payload corr b of
                  (None, b1) \<Rightarrow> (\<lparr>ar_success = True, ar_data = JObj [(''source'', JStr src), (''type'', JStr ty),
                      (''correlationId'', case corr of None \<Rightarrow> JUndef | Some c \<Rightarrow> JStr c)], ar_error = None\<rparr>, b1)
                | (Some msg, b1) \<Rightarrow> (failed_with (''Failed to publish event: '' @ msg), b1))
        | _ \<Rightarrow> (failed_with ''Missing required parameters: source, type'', b)))"

end
