(* ===== verification/ToolCalls.thy ===== *)
theory ToolCalls
  imports Routing Conversation OutboundSafety Approvals
begin

text \<open>
  What an agent's tool calls do (\<open>packages/core/src/agent/executor.ts\<close>, \<open>agent/tool-definitions.ts\<close>, the
  defaults of \<open>actions/schemas.ts\<close>): the names of tools, the dispatch of a call, the review of texts, the way of an action
  through permission, safety gate and approval gate to its executor, and what of a result goes back to the model.

  A call changes its arguments in place, and the conversation holds the same object, so a handler returns the arguments as it leaves
  them.  The reviewer, the humanizer, the running cost and the texts of self-modification results are arguments.  Clock readings and identifiers
  come from two sequences, read at \<open>ts_tick\<close>.  The audit log keeps the entries that \<open>te_audit\<close> names: without a database it
  discards all, and a write that fails is caught and passed over.
\<close>

section \<open>Tools and their names\<close>

definition SELF_MOD_TOOLS :: "string list" where
  "SELF_MOD_TOOLS =
     [''self.read_config'', ''self.read_prompt'', ''self.read_source'', ''self.read_history'', ''self.read_org_chart'',
      ''self.update_config'', ''self.update_prompt'', ''self.update_schedule'', ''self.update_model'',
      ''self.request_new_data_source'', ''self.memory_read'', ''self.memory_write'', ''self.search_memory'', ''self.cross_write_memory'']"

definition REVIEW_TOOL :: string where "REVIEW_TOOL = ''submit_for_review''"

type_synonym tool_names = "(string, string) jsmap"

definition api_safe :: "string \<Rightarrow> string" where
  "api_safe name = map (\<lambda>c. if c = CHR ''.'' \<or> c = CHR '':'' then CHR ''_'' else c) name"

definition sanitizeToolName :: "string \<Rightarrow> tool_names \<Rightarrow> string \<times> tool_names" where
  "sanitizeToolName name nm = (let sanitized = api_safe name in (sanitized, mset_at sanitized name nm))"

fun sanitize_all :: "string list \<Rightarrow> tool_names \<Rightarrow> string list \<times> tool_names" where
  "sanitize_all [] nm = ([], nm)"
| "sanitize_all (n # ns) nm =
     (let (s, nm1) = sanitizeToolName n nm; (ss, nm2) = sanitize_all ns nm1 in (s # ss, nm2))"

definition tools_of :: "agent_config \<Rightarrow> string list" where
  "tools_of config = SELF_MOD_TOOLS @ [REVIEW_TOOL] @ ag_actions config
     @ (if ''event:publish'' \<in> set (ag_actions config) then [] else [''event:publish''])"

text \<open>The names the model sees; descriptions and parameters of the tools are left out.\<close>

definition buildToolDefinitions :: "agent_config \<Rightarrow> tool_names \<Rightarrow> string list \<times> tool_names" where
  "buildToolDefinitions config nm = sanitize_all (tools_of config) nm"

definition tool_name :: "tool_names \<Rightarrow> string \<Rightarrow> string" where
  "tool_name nm called = (case mget nm called of Some (c # cs) \<Rightarrow> c # cs | _ \<Rightarrow> called)"

section \<open>State\<close>

type_synonym args = "(string \<times> json) list"

record taken_action =
  ta_action :: string
  ta_success :: bool
  ta_details :: json

datatype audit_entry = Audit_review json json | Audit_self_modification string string

record 'c tool_env =
  te_registry :: action_registry
  te_sha256 :: "string \<Rightarrow> string"
  te_now :: "nat \<Rightarrow> int"
  te_uuid :: "nat \<Rightarrow> string"
  te_iso :: "int \<Rightarrow> string"
  te_getenv :: "string \<Rightarrow> string option"
  te_agents :: agent_registry
  te_cost :: "nat \<Rightarrow> int option"
  te_mode :: approval_mode
  te_threshold :: "int option"
  te_budget_mode :: "budget_mode option"
  te_mongo :: "('c, approval_request) mongo"
  te_self :: self_env
  te_self_rest :: "string \<Rightarrow> string \<Rightarrow> json \<Rightarrow> tool_result"
  te_self_json :: "tool_result \<Rightarrow> json"
  te_reason :: "safety_check \<Rightarrow> string"
  te_humanize :: "(json \<Rightarrow> json) option"
  te_review :: "json \<Rightarrow> json option"
  te_audit :: "audit_entry \<Rightarrow> bool"

record 'c tool_state =
  ts_tick :: nat
  ts_calls :: calls
  ts_dedup :: dedup_gate
  ts_approvals :: "'c approvals option"
  ts_files :: files
  ts_audit :: "audit_entry list"
  ts_actions :: "taken_action list"
  ts_selfmods :: "(string \<times> bool) list"
  ts_review :: "json option"
  ts_cache :: "(string, action_result) jsmap"

definition tick :: "'c tool_state \<Rightarrow> 'c tool_state" where
  "tick st = st\<lparr>ts_tick := Suc (ts_tick st)\<rparr>"

definition took :: "string \<Rightarrow> bool \<Rightarrow> json \<Rightarrow> 'c tool_state \<Rightarrow> 'c tool_state" where
  "took name success details st = st\<lparr>ts_actions := ts_actions st @ [\<lparr>ta_action = name, ta_success = success, ta_details = details\<rparr>]\<rparr>"

definition err_json :: "string \<Rightarrow> json" where
  "err_json text = JObj [(''error'', JStr text)]"

definition arg :: "string \<Rightarrow> args \<Rightarrow> json" where
  "arg k a = get_prop k (JObj a)"

section \<open>Arguments\<close>

definition unwrap_params :: "args \<Rightarrow> args" where
  "unwrap_params a = (case arg ''params'' a of JObj kvs \<Rightarrow> kvs | _ \<Rightarrow> a)"

definition rewrap_params :: "args \<Rightarrow> args \<Rightarrow> args" where
  "rewrap_params a inner = (case arg ''params'' a of JObj kvs \<Rightarrow> mset_at ''params'' (JObj inner) a | _ \<Rightarrow> inner)"

definition or_default :: "string option \<Rightarrow> string \<Rightarrow> string" where
  "or_default v d = (case v of Some (c # cs) \<Rightarrow> c # cs | _ \<Rightarrow> d)"

definition ACTION_DEFAULTS :: "(string \<Rightarrow> string option) \<Rightarrow> (string \<times> args) list" where
  "ACTION_DEFAULTS getenv =
     (let org = [(''owner'', JStr (or_default (getenv ''GITHUB_OWNER'') ''YClawAI'')), (''repo'', JStr (or_default (getenv ''GITHUB_REPO'') ''YClaw''))]
      in [(''github:get_contents'', org), (''github:commit_file'', org), (''github:create_branch'', org),
          (''github:create_pr'', org @ [(''base'', JStr (or_default (getenv ''DEFAULT_BRANCH'') ''main''))]),
          (''github:merge_pr'', org @ [(''merge_method'', JStr ''squash'')]),
          (''github:pr_review'', org), (''github:pr_comment'', org), (''github:get_diff'', org), (''github:compare_commits'', org),
          (''github:create_issue'', org), (''github:get_issue'', org),
          (''github:list_issues'', org @ [(''state'', JStr ''open''), (''per_page'', JNum 30), (''page'', JNum 1)]),
          (''slack:get_channel_history'', [(''limit'', JNum 50)]),
          (''x:search'', [(''queryType'', JStr ''Latest'')]),
          (''telegram:announce'', [(''parseMode'', JStr ''HTML'')]),
          (''telegram:pin'', [(''disableNotification'', JBool False)])])"

definition inject_defaults :: "(string \<Rightarrow> string option) \<Rightarrow> string \<Rightarrow> args \<Rightarrow> args" where
  "inject_defaults getenv name a = (case map_of (ACTION_DEFAULTS getenv) name of
     None \<Rightarrow> a
   | Some ds \<Rightarrow> fold (\<lambda>(k, v) a. if arg k a = JUndef \<or> arg k a = JNull \<or> arg k a = JStr [] then mset_at k v a else a) ds a)"

definition set_if_falsy :: "string \<Rightarrow> json \<Rightarrow> args \<Rightarrow> args" where
  "set_if_falsy k v a = (if truthy (arg k a) then a else mset_at k v a)"

definition slack_args :: "'c tool_env \<Rightarrow> agent_config \<Rightarrow> args \<Rightarrow> args" where
  "slack_args E config a =
     (let a1 = (case AGENT_IDENTITIES (te_agents E) (ag_name config) of
            None \<Rightarrow> a | Some (username, emoji) \<Rightarrow> set_if_falsy ''icon_emoji'' (JStr emoji) (set_if_falsy ''username'' (JStr username) a))
      in if truthy (arg ''channel'' a1) then a1
         else (case getChannelForAgent (te_getenv E) (te_agents E) (ag_name config) ''slack'' of
            Some c \<Rightarrow> mset_at ''channel'' (JStr c) a1
          | None \<Rightarrow> (case map_of SLACK_DEFAULT_CHANNELS (ag_department config) of
              Some c \<Rightarrow> mset_at ''channel'' (JStr c) a1 | None \<Rightarrow> a1)))"

definition DISCORD_READ_ACTIONS :: "string list" where
  "DISCORD_READ_ACTIONS = [''discord:get_channel_history'', ''discord:get_thread'']"

definition SUPPORT_AGENTS :: "string list" where "SUPPORT_AGENTS = [''keeper'', ''guide'']"

definition support_channels :: "'c tool_env \<Rightarrow> string list" where
  "support_channels E = filter (\<lambda>v. v \<noteq> []) (List.map_filter (\<lambda>x. x)
     [getChannelForAgent (te_getenv E) (te_agents E) ''keeper'' ''discord'', te_getenv E ''DISCORD_CHANNEL_GENERAL'',
      te_getenv E ''DISCORD_CHANNEL_SUPPORT''])"

text \<open>\<open>None\<close>: no channel, the post is refused.\<close>

definition discord_args :: "'c tool_env \<Rightarrow> agent_config \<Rightarrow> args \<Rightarrow> args option" where
  "discord_args E config a =
     (let departmentChannel = getChannelForAgent (te_getenv E) (te_agents E) (ag_name config) ''discord'' in
      if ag_name config \<in> set SUPPORT_AGENTS then
        Some (if \<not> truthy (arg ''channel'' a) \<or> js_text (arg ''channel'' a) \<notin> set (support_channels E)
              then (case departmentChannel of Some c \<Rightarrow> mset_at ''channel'' (JStr c) a | None \<Rightarrow> a) else a)
      else map_option (\<lambda>c. mset_at ''channel'' (JStr c) a) departmentChannel)"

section \<open>Gates\<close>

definition hasPermission :: "agent_config \<Rightarrow> string \<Rightarrow> bool" where
  "hasPermission config actionName \<longleftrightarrow> list_ex (\<lambda>a. a = actionName \<or> a = action_prefix actionName @ '':*''
     \<or> starts_with a (action_prefix actionName @ '':'')) (ag_actions config)"

definition estimated_cost :: "'c tool_env \<Rightarrow> nat \<Rightarrow> args \<Rightarrow> int" where
  "estimated_cost E t a = (case arg ''estimatedCostCents'' a of JNum n \<Rightarrow> n
     | _ \<Rightarrow> (case te_cost E t of None \<Rightarrow> 0 | Some n \<Rightarrow> n))"

definition gate_for :: "'c tool_env \<Rightarrow> nat \<Rightarrow> 'c approvals option \<Rightarrow> string \<Rightarrow> args \<Rightarrow> approval_gate option" where
  "gate_for E t ap actionName a = (case ap of
     None \<Rightarrow> None
   | Some am \<Rightarrow> requiresApproval (te_mode E) (te_threshold E) (am_collection am \<noteq> None) (te_budget_mode E) actionName
       (Some (estimated_cost E t a)))"

definition pending_result :: "string \<Rightarrow> string \<Rightarrow> json" where
  "pending_result actionName requestId = JObj [(''success'', JBool True), (''data'', JObj [(''approvalPending'', JBool True),
     (''requestId'', JStr requestId),
     (''message'', JStr (''Your request for '' @ actionName @ '' is pending approval. Request ID: '' @ requestId))])]"

text \<open>A gated action: the request, or the refusal when it cannot be made.\<close>

definition ask_approval ::
  "'c tool_env \<Rightarrow> agent_config \<Rightarrow> string \<Rightarrow> args \<Rightarrow> approval_gate \<Rightarrow> 'c approvals \<Rightarrow> 'c tool_state \<Rightarrow> json \<times> 'c tool_state" where
  "ask_approval E config actionName a gate am st =
     (let opts = \<lparr>ro_actionType = actionName, ro_agentId = ag_name config, ro_department = ag_department config, ro_payload = a,
            ro_reasoning = (case arg ''reasoning'' a of JStr s \<Rightarrow> s | _ \<Rightarrow> ''Agent '' @ ag_name config @ '' requested '' @ actionName),
            ro_estimatedCostCents = estimated_cost E (ts_tick st) a, ro_gate = gate\<rparr>;
          (res, am1) = createRequest (te_mongo E) (te_iso E) (te_now E (ts_tick st)) (te_uuid E (ts_tick st)) opts am;
          st1 = tick st\<lparr>ts_approvals := Some am1\<rparr>
      in case res of
           Some requestId \<Rightarrow> (pending_result actionName requestId,
             took actionName False (JObj [(''approvalPending'', JBool True), (''requestId'', JStr requestId), (''gatedAction'', JStr actionName)]) st1)
         | None \<Rightarrow> (err_json ''Approval gate error'', took actionName False (err_json ''Approval gate error'') st1))"

section \<open>Actions\<close>

definition CACHEABLE_ACTIONS :: "string list" where "CACHEABLE_ACTIONS = [''github:get_contents'']"

text \<open>\<open>`${v ?? ''}`\<close>.\<close>

definition text_or_empty :: "json \<Rightarrow> string" where
  "text_or_empty v = (if v = JUndef \<or> v = JNull then [] else js_text v)"

definition cacheKey :: "string \<Rightarrow> args \<Rightarrow> string option" where
  "cacheKey actionName a = (if actionName \<in> set CACHEABLE_ACTIONS
     then Some (actionName @ '':'' @ text_or_empty (arg ''owner'' a) @ ''/'' @ text_or_empty (arg ''repo'' a) @ '':''
       @ text_or_empty (arg ''path'' a) @ '':'' @ text_or_empty (arg ''ref'' a))
     else None)"

definition result_json :: "action_result \<Rightarrow> json" where
  "result_json r = JObj [(''success'', JBool (ar_success r)), (''data'', ar_data r),
     (''error'', case ar_error r of None \<Rightarrow> JUndef | Some e \<Rightarrow> JStr e)]"

definition result_details :: "action_result \<Rightarrow> json" where
  "result_details r = (if truthy (ar_data r) then ar_data r
     else (case ar_error r of Some (c # cs) \<Rightarrow> err_json (c # cs) | _ \<Rightarrow> JUndef))"

text \<open>The arguments an executor gets, from those the gates saw; \<open>None\<close>: no Discord channel.\<close>

definition directed_args :: "'c tool_env \<Rightarrow> agent_config \<Rightarrow> string \<Rightarrow> args \<Rightarrow> args option" where
  "directed_args E config actionName a =
     (let a1 = (if starts_with actionName ''slack:'' then slack_args E config a else a)
      in if starts_with actionName ''discord:'' \<and> actionName \<notin> set DISCORD_READ_ACTIONS then discord_args E config a1 else Some a1)"

definition named_args :: "agent_config \<Rightarrow> string \<Rightarrow> args \<Rightarrow> args" where
  "named_args config actionName a = (if starts_with actionName ''discord:'' \<or> starts_with actionName ''slack:''
     then set_if_falsy ''agentName'' (JStr (ag_name config)) a else a)"

definition run_action :: "'c tool_env \<Rightarrow> string \<Rightarrow> args \<Rightarrow> string option \<Rightarrow> 'c tool_state \<Rightarrow> json \<times> 'c tool_state" where
  "run_action E actionName a key st =
     (let (r, cs) = registry_execute (te_registry E) actionName (JObj a) (ts_calls st);
          st1 = st\<lparr>ts_calls := cs\<rparr>;
          st2 = (case key of Some k \<Rightarrow> (if ar_success r then st1\<lparr>ts_cache := mset_at k r (ts_cache st1)\<rparr> else st1) | None \<Rightarrow> st1);
          st3 = (if ar_success r
                 then tick st2\<lparr>ts_dedup := recordOutboundContent (te_sha256 E) (te_now E (ts_tick st2)) actionName (JObj a) (ts_dedup st2)\<rparr>
                 else st2)
      in (result_json r, took actionName (ar_success r) (result_details r) st3))"

text \<open>After the gates.\<close>

definition perform ::
  "'c tool_env \<Rightarrow> agent_config \<Rightarrow> string \<Rightarrow> args \<Rightarrow> 'c tool_state \<Rightarrow> json \<times> args \<times> 'c tool_state" where
  "perform E config actionName a st = (case directed_args E config actionName a of
     None \<Rightarrow> (JObj [(''success'', JBool False), (''error'', JStr (''No department channel configured for agent '' @ ag_name config
        @ ''. Cannot post to Discord.''))], a, st)
   | Some a1 \<Rightarrow>
       (let key = cacheKey actionName a1 in
        case Option.bind key (mget (ts_cache st)) of
          Some r \<Rightarrow> (result_json r, a1, took actionName True (JObj [(''cached'', JBool True), (''path'', arg ''path'' a1)]) st)
        | None \<Rightarrow>
            (let a2 = named_args config actionName a1; (res, st1) = run_action E actionName a2 key st in (res, a2, st1))))"

definition handleAction ::
  "'c tool_env \<Rightarrow> agent_config \<Rightarrow> string \<Rightarrow> args \<Rightarrow> 'c tool_state \<Rightarrow> json \<times> args \<times> 'c tool_state" where
  "handleAction E config actionName a0 st =
     (let a = inject_defaults (te_getenv E) actionName (unwrap_params a0) in
      if \<not> hasPermission config actionName then
        (err_json (''Agent '' @ ag_name config @ '' is not authorized to execute '' @ actionName), rewrap_params a0 a,
         took actionName False (err_json ''Unauthorized action'') st)
      else
        (let (verdict, g) = outbound_check (te_sha256 E) (te_now E (ts_tick st)) actionName (JObj a) (ts_dedup st);
             st1 = tick st\<lparr>ts_dedup := g\<rparr>
         in if \<not> is_safe verdict then
              (err_json (''Action blocked by safety gate: '' @ te_reason E verdict), rewrap_params a0 a,
               took actionName False (err_json (''Blocked by outbound safety: '' @ te_reason E verdict)) st1)
            else (case (gate_for E (ts_tick st1) (ts_approvals st1) actionName a, ts_approvals st1) of
                (Some gate, Some am) \<Rightarrow>
                  (let (res, st2) = ask_approval E config actionName a gate am st1 in (res, rewrap_params a0 a, st2))
              | _ \<Rightarrow> (let (res, a1, st2) = perform E config actionName a st1 in (res, rewrap_params a0 a1, st2)))))"

section \<open>Reviews\<close>

definition spread :: "json \<Rightarrow> args" where
  "spread v = (case own_props v of None \<Rightarrow> [] | Some kvs \<Rightarrow> kvs)"

text \<open>\<open>None\<close>: the reviewer throws.\<close>

definition handleReviewSubmission ::
  "'c tool_env \<Rightarrow> agent_config \<Rightarrow> args \<Rightarrow> 'c tool_state \<Rightarrow> json option \<times> 'c tool_state" where
  "handleReviewSubmission E config a st =
     (if (case arg ''contentType'' a of JStr t \<Rightarrow> t \<in> set (ag_review_bypass config) | _ \<Rightarrow> False)
      then (Some (JObj [(''approved'', JBool True), (''bypassed'', JBool True)]), st)
      else
        (let content = arg ''content'' a;
             human = (case te_humanize E of
                 Some humanize \<Rightarrow> (if ag_humanize config then
                     (let h = humanize (JObj [(''content'', content), (''agent'', JStr (ag_name config)),
                           (''contentType'', arg ''contentType'' a), (''targetPlatform'', arg ''targetPlatform'' a), (''metadata'', arg ''metadata'' a)])
                      in if truthy (get_prop ''changed'' h) then Some h else None)
                   else None)
               | None \<Rightarrow> None);
             request = JObj [(''id'', JStr (te_uuid E (ts_tick st))), (''agent'', JStr (ag_name config)),
               (''contentType'', arg ''contentType'' a),
               (''content'', case human of Some h \<Rightarrow> get_prop ''humanized'' h | None \<Rightarrow> content),
               (''targetPlatform'', arg ''targetPlatform'' a),
               (''metadata'', JObj (case human of None \<Rightarrow> spread (arg ''metadata'' a)
                  | Some h \<Rightarrow> mset_at ''humanization'' (JObj [(''originalContent'', get_prop ''original'' h),
                      (''patternsFound'', get_prop ''patternsFound'' h), (''humanizedAt'', get_prop ''humanizedAt'' h)])
                      (spread (arg ''metadata'' a)))),
               (''timestamp'', JStr (te_iso E (te_now E (ts_tick st))))];
             st1 = tick st
         in case te_review E request of
              None \<Rightarrow> (None, st1)
            | Some verdict \<Rightarrow>
                (Some verdict, st1\<lparr>ts_review := Some (JObj (map (\<lambda>f. (f, get_prop f verdict)) [''approved'', ''flags'', ''severity'', ''rewrite''])),
                                   ts_audit := ts_audit st1 @ filter (te_audit E) [Audit_review request verdict]\<rparr>)))"

section \<open>Calls\<close>

definition self_call :: "'c tool_env \<Rightarrow> agent_config \<Rightarrow> string \<Rightarrow> args \<Rightarrow> 'c tool_state \<Rightarrow> json option \<times> 'c tool_state" where
  "self_call E config name a st =
     (let method = drop 5 name;
          ((r, verdict), fs) = handleSelfModTool (te_self E) (te_self_rest E) (ag_name config) method (JObj a) (ts_files st);
          st1 = tick st\<lparr>ts_files := fs,
            ts_selfmods := ts_selfmods st @ (case verdict of None \<Rightarrow> [] | Some v \<Rightarrow> [(method, v)]),
            ts_audit := ts_audit st @ (if verdict = Some True then filter (te_audit E) [Audit_self_modification (ag_name config) method] else [])\<rparr>
      in (if r = Tool_throws then None else Some (te_self_json E r), st1))"

definition handleToolCall ::
  "'c tool_env \<Rightarrow> agent_config \<Rightarrow> tool_names \<Rightarrow> tool_call \<Rightarrow> 'c tool_state \<Rightarrow> (json \<times> args) option \<times> 'c tool_state" where
  "handleToolCall E config nm tc st =
     (let name = tool_name nm (tc_name tc); a = tc_arguments tc in
      if starts_with name ''self.'' then
        (let (r, st1) = self_call E config name a st in (map_option (\<lambda>j. (j, a)) r, st1))
      else if name = ''submit_for_review'' then
        (let (r, st1) = handleReviewSubmission E config a st in (map_option (\<lambda>j. (j, a)) r, st1))
      else if CHR '':'' \<in> set name then
        (let (r, a1, st1) = handleAction E config name a st in (Some (r, a1), st1))
      else (Some (err_json (''Unknown tool: '' @ name), a), st))"

section \<open>Results\<close>

definition BINARY_FIELDS :: "string list" where "BINARY_FIELDS = [''imageBase64'', ''videoBase64'', ''audioBase64'']"

definition truncate_binary :: "string \<Rightarrow> args \<Rightarrow> args" where
  "truncate_binary f kvs = (case map_of kvs f of
     Some (JStr s) \<Rightarrow>
       (if length s > 500 then
          mset_at (f @ ''_size'') (JNum (int (length s))) (mset_at (f @ ''_generated'') (JBool True)
            (mset_at f (JStr (''[BASE64_DATA:'' @ dec_nat (length s) @ '' chars - use github:commit_file to save]'')) kvs))
        else kvs)
   | _ \<Rightarrow> kvs)"

definition truncate_images :: "args \<Rightarrow> args" where
  "truncate_images kvs = (case map_of kvs ''allImages'' of
     Some (JArr xs) \<Rightarrow> mset_at ''allImages'' (JStr (''['' @ dec_nat (length xs) @ '' images generated - truncated from context]'')) kvs
   | _ \<Rightarrow> kvs)"

definition truncate_text :: "string \<times> json \<Rightarrow> string \<times> json" where
  "truncate_text kv = (case kv of
     (k, JStr s) \<Rightarrow> (if length s > 10000 \<and> \<not> ends_with k ''_generated'' \<and> \<not> ends_with k ''_size''
                     then (k, JStr (''[TRUNCATED:'' @ dec_nat (length s) @ '' chars]'')) else kv)
   | _ \<Rightarrow> kv)"

definition truncateToolResult :: "json \<Rightarrow> json" where
  "truncateToolResult result =
     (let kvs = spread result in case map_of kvs ''data'' of
        Some data \<Rightarrow>
          (if is_object data
           then JObj (mset_at ''data'' (JObj (map truncate_text (truncate_images (fold truncate_binary BINARY_FIELDS (spread data))))) kvs)
           else JObj kvs)
      | None \<Rightarrow> JObj kvs)"

text \<open>
  All calls of a reply: the calls as they are left, with the contents that answer them; \<open>None\<close>: one threw.
\<close>

fun handle_calls ::
  "'c tool_env \<Rightarrow> agent_config \<Rightarrow> tool_names \<Rightarrow> tool_call list \<Rightarrow> 'c tool_state \<Rightarrow> (tool_call \<times> string) list option \<times> 'c tool_state" where
  "handle_calls E config nm [] st = (Some [], st)"
| "handle_calls E config nm (tc # tcs) st =
     (case handleToolCall E config nm tc st of
        (None, st1) \<Rightarrow> (None, st1)
      | (Some (r, a), st1) \<Rightarrow>
          (let (rest, st2) = handle_calls E config nm tcs st1
           in (map_option ((#) (tc\<lparr>tc_arguments := a\<rparr>, json_stringify (truncateToolResult r))) rest, st2)))"

end
