(* ===== verification/Checkpoint.thy ===== *)
theory Checkpoint
  imports JsonText Redis
begin

text \<open>
  Checkpoints of interrupted executions (\<open>packages/core/src/checkpoint\<close>): the texts a shutdown leaves in the key-value
  server and a later execution reads.  \<open>SET\<close> with an expiry is the plain \<open>SET\<close> and the expiry, which the server
  runs as one command; dates are read by an argument, \<open>None\<close> being an invalid date.  Only checkpoints the manager wrote are
  read as such: other texts count as unreadable.
\<close>

datatype checkpoint_state = Cp_started | Cp_in_progress | Cp_awaiting_tool | Cp_finalizing

record checkpoint =
  ck_agentId :: string
  ck_taskKey :: string
  ck_state :: checkpoint_state
  ck_toolCallsCompleted :: int
  ck_lastToolAction :: string
  ck_partialResult :: string
  ck_ecsTaskArn :: string
  ck_startedAt :: string
  ck_checkpointedAt :: string

definition CHECKPOINT_TTL_SECONDS :: int where "CHECKPOINT_TTL_SECONDS = 7200"
definition CHECKPOINT_MAX_PARTIAL_RESULT :: nat where "CHECKPOINT_MAX_PARTIAL_RESULT = 4096"

fun state_text :: "checkpoint_state \<Rightarrow> string" where
  "state_text Cp_started = ''started''"
| "state_text Cp_in_progress = ''in_progress''"
| "state_text Cp_awaiting_tool = ''awaiting_tool''"
| "state_text Cp_finalizing = ''finalizing''"

definition state_of_text :: "string \<Rightarrow> checkpoint_state option" where
  "state_of_text t = map_of (map (\<lambda>s. (state_text s, s)) [Cp_started, Cp_in_progress, Cp_awaiting_tool, Cp_finalizing]) t"

definition redisKey :: "string \<Rightarrow> string \<Rightarrow> string" where
  "redisKey agentId taskKey = ''checkpoint:'' @ agentId @ '':'' @ taskKey"

definition json_of_checkpoint :: "checkpoint \<Rightarrow> json" where
  "json_of_checkpoint c = JObj
     [(''agentId'', JStr (ck_agentId c)), (''taskKey'', JStr (ck_taskKey c)), (''state'', JStr (state_text (ck_state c))),
      (''toolCallsCompleted'', JNum (ck_toolCallsCompleted c)), (''lastToolAction'', JStr (ck_lastToolAction c)),
      (''partialResult'', JStr (ck_partialResult c)), (''ecsTaskArn'', JStr (ck_ecsTaskArn c)), (''startedAt'', JStr (ck_startedAt c)),
      (''checkpointedAt'', JStr (ck_checkpointedAt c))]"

definition str_prop :: "string \<Rightarrow> json \<Rightarrow> string option" where
  "str_prop f v = (case get_prop f v of JStr s \<Rightarrow> Some s | _ \<Rightarrow> None)"

definition num_prop :: "string \<Rightarrow> json \<Rightarrow> int option" where
  "num_prop f v = (case get_prop f v of JNum n \<Rightarrow> Some n | _ \<Rightarrow> None)"

definition checkpoint_of_json :: "json \<Rightarrow> checkpoint option" where
  "checkpoint_of_json v =
     Option.bind (str_prop ''agentId'' v) (\<lambda>agentId. Option.bind (str_prop ''taskKey'' v) (\<lambda>taskKey.
     Option.bind (Option.bind (str_prop ''state'' v) state_of_text) (\<lambda>state. Option.bind (num_prop ''toolCallsCompleted'' v) (\<lambda>n.
     Option.bind (str_prop ''lastToolAction'' v) (\<lambda>lastTool. Option.bind (str_prop ''partialResult'' v) (\<lambda>partial.
     Option.bind (str_prop ''ecsTaskArn'' v) (\<lambda>arn. Option.bind (str_prop ''startedAt'' v) (\<lambda>startedAt.
     Option.bind (str_prop ''checkpointedAt'' v) (\<lambda>checkpointedAt.
       Some \<lparr>ck_agentId = agentId, ck_taskKey = taskKey, ck_state = state, ck_toolCallsCompleted = n, ck_lastToolAction = lastTool,
             ck_partialResult = partial, ck_ecsTaskArn = arn, ck_startedAt = startedAt, ck_checkpointedAt = checkpointedAt\<rparr>)))))))))"

definition truncated :: "checkpoint \<Rightarrow> checkpoint" where
  "truncated c = c\<lparr>ck_partialResult := take CHECKPOINT_MAX_PARTIAL_RESULT (ck_partialResult c)\<rparr>"

definition checkpoint_save :: "'s redis option \<Rightarrow> checkpoint \<Rightarrow> 's \<Rightarrow> bool \<times> 's" where
  "checkpoint_save R c s = (case R of
     None \<Rightarrow> (False, s)
   | Some R \<Rightarrow> (let key = redisKey (ck_agentId c) (ck_taskKey c)
               in (True, EXPIRE R key CHECKPOINT_TTL_SECONDS (SETTEXT R key (json_stringify (json_of_checkpoint (truncated c))) s))))"

definition checkpoint_delete :: "'s redis option \<Rightarrow> string \<Rightarrow> string \<Rightarrow> 's \<Rightarrow> 's" where
  "checkpoint_delete R agentId taskKey s = (case R of None \<Rightarrow> s | Some R \<Rightarrow> snd (DEL R (redisKey agentId taskKey) s))"

definition checkpoint_stale :: "(string \<Rightarrow> int option) \<Rightarrow> int \<Rightarrow> checkpoint \<Rightarrow> bool" where
  "checkpoint_stale date_of now c \<longleftrightarrow> (case date_of (ck_checkpointedAt c) of
     None \<Rightarrow> True | Some t \<Rightarrow> now - t > CHECKPOINT_TTL_SECONDS * 1000)"

definition checkpoint_get ::
  "'s redis option \<Rightarrow> (string \<Rightarrow> int option) \<Rightarrow> int \<Rightarrow> string \<Rightarrow> string \<Rightarrow> 's \<Rightarrow> checkpoint option \<times> 's" where
  "checkpoint_get R date_of now agentId taskKey s = (case R of
     None \<Rightarrow> (None, s)
   | Some R \<Rightarrow> (case GET R (redisKey agentId taskKey) s of
       None \<Rightarrow> (None, s)
     | Some raw \<Rightarrow> (case Option.bind (json_parse raw) checkpoint_of_json of
         None \<Rightarrow> (None, s)
       | Some c \<Rightarrow> (if checkpoint_stale date_of now c then (None, checkpoint_delete (Some R) agentId taskKey s) else (Some c, s)))))"

section \<open>A checkpoint is found again\<close>

lemma checkpoint_json: "Option.bind (json_parse (json_stringify (json_of_checkpoint c))) checkpoint_of_json = Some c"
proof -
  have "json_plain (json_of_checkpoint c)" by (simp add: json_of_checkpoint_def)
  moreover have "state_of_text (state_text s) = Some s" for s by (cases s) (simp_all add: state_of_text_def)
  ultimately show ?thesis
    by (simp add: json_parse_stringify) (simp add: checkpoint_of_json_def json_of_checkpoint_def str_prop_def num_prop_def)
qed

locale redis_texts = redis_counters +
  assumes get_del: "DEL R k' s = (n, s') \<Longrightarrow> GET R k s' = (if k = k' then None else GET R k s)"
begin

lemma get_saved:
  "GET R k (snd (checkpoint_save (Some R) c s)) = (if k = redisKey (ck_agentId c) (ck_taskKey c)
     then Some (json_stringify (json_of_checkpoint (truncated c))) else GET R k s)"
  by (simp add: checkpoint_save_def Let_def get_expire get_settext CHECKPOINT_TTL_SECONDS_def)

lemma get_deleted: "GET R k (checkpoint_delete (Some R) a t s) = (if k = redisKey a t then None else GET R k s)"
  by (cases "DEL R (redisKey a t) s") (simp add: checkpoint_delete_def get_del)

lemma saved_is_read:
  assumes "date_of (ck_checkpointedAt c) = Some t"
  shows "fst (checkpoint_get (Some R) date_of now (ck_agentId c) (ck_taskKey c) (snd (checkpoint_save (Some R) c s)))
    = (if now - t \<le> 7200000 then Some (truncated c) else None)"
  using assms by (simp add: checkpoint_get_def get_saved checkpoint_json checkpoint_stale_def CHECKPOINT_TTL_SECONDS_def truncated_def)

end

interpretation ref_texts: redis_texts ref_redis
  by unfold_locales (auto simp: ref_redis_def Let_def split: option.splits if_splits)

text \<open>
  A checkpoint saved at a shutdown is read by the same agent's next execution of the task within two hours, whole but for its
  partial result, which is cut to 4096 characters; later it is gone, and so it is once deleted.
\<close>
theorem checkpoint_roundtrip:
  assumes "redis_texts R" and "date_of (ck_checkpointedAt c) = Some t"
    and "checkpoint_save (Some R) c s = (saved, s1)"
  shows "saved
    \<and> fst (checkpoint_get (Some R) date_of now (ck_agentId c) (ck_taskKey c) s1)
        = (if now - t \<le> 7200000 then Some (c\<lparr>ck_partialResult := take 4096 (ck_partialResult c)\<rparr>) else None)
    \<and> fst (checkpoint_get (Some R) date_of now (ck_agentId c) (ck_taskKey c)
          (checkpoint_delete (Some R) (ck_agentId c) (ck_taskKey c) s1)) = None"
proof -
  have s1: "s1 = snd (checkpoint_save (Some R) c s)" and b: "saved" using assms(3) by (auto simp: checkpoint_save_def Let_def)
  show ?thesis
    using b redis_texts.saved_is_read [where date_of = date_of and c = c, OF assms(1,2), of now s] redis_texts.get_deleted [OF assms(1)]
    unfolding s1 by (simp add: truncated_def CHECKPOINT_MAX_PARTIAL_RESULT_def checkpoint_get_def)
qed

definition sample_checkpoint :: checkpoint where
  "sample_checkpoint = \<lparr>ck_agentId = ''scout'', ck_taskKey = ''report'', ck_state = Cp_in_progress, ck_toolCallsCompleted = 7,
     ck_lastToolAction = ''slack:message'', ck_partialResult = ''half'', ck_ecsTaskArn = '''', ck_startedAt = ''t0'', ck_checkpointedAt = ''t1''\<rparr>"

lemma checkpoint_roundtrip_witness:
  "fst (checkpoint_get (Some ref_redis) (\<lambda>s. Some 5) 100 ''scout'' ''report''
     (snd (checkpoint_save (Some ref_redis) sample_checkpoint db_empty))) = Some sample_checkpoint"
proof -
  obtain b s1 where run: "checkpoint_save (Some ref_redis) sample_checkpoint db_empty = (b, s1)" by fastforce
  from checkpoint_roundtrip [where date_of = "\<lambda>s. Some 5" and t = 5, OF ref_texts.redis_texts_axioms _ run, of 100] run
  show ?thesis by (simp add: sample_checkpoint_def)
qed

end
