(* ===== verification/Objectives.thy ===== *)
theory Objectives
  imports Mongo OutboundSafety
begin

text \<open>
  Objectives and their tasks (\<open>packages/core/src/objectives\<close>): the manager over the document collection of
  \<open>Mongo\<close> (\<open>objective-manager.ts\<close>, \<open>types.ts\<close>) and the detector of agents that go round in circles
  (\<open>stale-loop-detector.ts\<close>).  \<open>findOneAndUpdate\<close> is one step of the driver.  Published events and
  audit entries are appended to lists, without their texts; the executions of the child tasks are an argument.
\<close>

section \<open>Data\<close>

datatype objective_status = Obj_active | Obj_paused | Obj_completed | Obj_failed

datatype objective_priority = P0 | P1 | P2 | P3

fun priority_rank :: "objective_priority \<Rightarrow> nat" where
  "priority_rank P0 = 0" | "priority_rank P1 = 1" | "priority_rank P2 = 2" | "priority_rank P3 = 3"

record kpi =
  kpi_metric :: string
  kpi_target :: int
  kpi_current :: int
  kpi_unit :: string

record kpi_input =
  ki_metric :: string
  ki_target :: int
  ki_current :: "int option"
  ki_unit :: string

record objective =
  ob_id :: string
  ob_title :: string
  ob_description :: string
  ob_department :: string
  ob_status :: objective_status
  ob_priority :: objective_priority
  ob_createdBy :: string
  ob_ownerAgentId :: string
  ob_kpis :: "kpi list"
  ob_costBudgetCents :: int
  ob_costSpentCents :: int
  ob_childTaskIds :: "string list"
  ob_createdAt :: string
  ob_updatedAt :: string

record objective_input =
  oi_title :: string
  oi_description :: string
  oi_department :: string
  oi_priority :: objective_priority
  oi_createdBy :: string
  oi_ownerAgentId :: string
  oi_kpis :: "kpi_input list option"
  oi_costBudgetCents :: "int option"

datatype objective_event =
    Obj_created string
  | Obj_updated string
  | Obj_done string
  | Obj_budget_exceeded string int int
  | Obj_stale_loop string string nat

record 'c objectives =
  om_collection :: "'c option"
  om_published :: "objective_event list"
  om_audit :: "(string \<times> string) list"

section \<open>The manager\<close>

definition find_and_update :: "('c, 'd) mongo \<Rightarrow> ('d \<Rightarrow> bool) \<Rightarrow> ('d \<Rightarrow> 'd) \<Rightarrow> 'c \<Rightarrow> 'd option \<times> 'c" where
  "find_and_update M p u c = (let c1 = snd (updateOne M p u c) in (findOne M p c1, c1))"

definition om_publish :: "objective_event \<Rightarrow> 'c objectives \<Rightarrow> 'c objectives" where
  "om_publish e om = om\<lparr>om_published := om_published om @ [e]\<rparr>"

definition om_writeAuditEntry :: "string \<Rightarrow> string \<Rightarrow> 'c objectives \<Rightarrow> 'c objectives" where
  "om_writeAuditEntry action i om = (case om_collection om of
     None \<Rightarrow> om | Some c \<Rightarrow> om\<lparr>om_audit := om_audit om @ [(action, i)]\<rparr>)"

definition om_initialize :: "'c option \<Rightarrow> 'c objectives \<Rightarrow> 'c objectives" where
  "om_initialize db om = (case db of None \<Rightarrow> om | Some c \<Rightarrow> om\<lparr>om_collection := Some c\<rparr>)"

definition new_objective :: "string \<Rightarrow> string \<Rightarrow> objective_input \<Rightarrow> objective" where
  "new_objective uuid now inp = \<lparr>ob_id = uuid, ob_title = oi_title inp, ob_description = oi_description inp,
     ob_department = oi_department inp, ob_status = Obj_active, ob_priority = oi_priority inp, ob_createdBy = oi_createdBy inp,
     ob_ownerAgentId = oi_ownerAgentId inp,
     ob_kpis = map (\<lambda>k. \<lparr>kpi_metric = ki_metric k, kpi_target = ki_target k,
        kpi_current = (case ki_current k of None \<Rightarrow> 0 | Some n \<Rightarrow> n), kpi_unit = ki_unit k\<rparr>)
        (case oi_kpis inp of None \<Rightarrow> [] | Some ks \<Rightarrow> ks),
     ob_costBudgetCents = (case oi_costBudgetCents inp of None \<Rightarrow> 0 | Some n \<Rightarrow> n), ob_costSpentCents = 0,
     ob_childTaskIds = [], ob_createdAt = now, ob_updatedAt = now\<rparr>"

text \<open>\<open>None\<close>: the creation throws.\<close>

definition om_create ::
  "('c, objective) mongo \<Rightarrow> string \<Rightarrow> string \<Rightarrow> objective_input \<Rightarrow> 'c objectives \<Rightarrow> objective option \<times> 'c objectives" where
  "om_create M uuid now inp om = (case om_collection om of
     None \<Rightarrow> (None, om)
   | Some c \<Rightarrow> (let obj = new_objective uuid now inp in
       case insertOne M obj c of
         None \<Rightarrow> (None, om)
       | Some c1 \<Rightarrow> (Some obj, om_writeAuditEntry ''objective_created'' uuid
            (om_publish (Obj_created uuid) (om\<lparr>om_collection := Some c1\<rparr>)))))"

definition om_get :: "('c, objective) mongo \<Rightarrow> string \<Rightarrow> 'c objectives \<Rightarrow> objective option" where
  "om_get M i om = (case om_collection om of None \<Rightarrow> None | Some c \<Rightarrow> findOne M (\<lambda>d. ob_id d = i) c)"

definition om_list ::
  "('c, objective) mongo \<Rightarrow> objective_status option \<Rightarrow> string option \<Rightarrow> string option \<Rightarrow> 'c objectives \<Rightarrow> objective list" where
  "om_list M status department owner om = (case om_collection om of None \<Rightarrow> []
     | Some c \<Rightarrow> sort_key (priority_rank \<circ> ob_priority) (rev (sort_key ob_createdAt (find_all M (\<lambda>d.
         (case status of None \<Rightarrow> True | Some s \<Rightarrow> ob_status d = s)
         \<and> (department = None \<or> department = Some [] \<or> department = Some (ob_department d))
         \<and> (owner = None \<or> owner = Some [] \<or> owner = Some (ob_ownerAgentId d))) c))))"

fun status_name :: "objective_status \<Rightarrow> string" where
  "status_name Obj_active = ''active''"
| "status_name Obj_paused = ''paused''"
| "status_name Obj_completed = ''completed''"
| "status_name Obj_failed = ''failed''"

definition updateStatus ::
  "('c, objective) mongo \<Rightarrow> string \<Rightarrow> string \<Rightarrow> objective_status \<Rightarrow> 'c objectives \<Rightarrow> objective option \<times> 'c objectives" where
  "updateStatus M now i status om = (case om_collection om of
     None \<Rightarrow> (None, om)
   | Some c \<Rightarrow>
       (let (res, c1) = find_and_update M (\<lambda>d. ob_id d = i) (\<lambda>d. d\<lparr>ob_status := status, ob_updatedAt := now\<rparr>) c;
            om1 = om\<lparr>om_collection := Some c1\<rparr>
        in case res of
             None \<Rightarrow> (None, om1)
           | Some r \<Rightarrow>
               (let om2 = om_publish (Obj_updated i) om1;
                    om3 = (if status = Obj_completed then om_publish (Obj_done i) om2 else om2)
                in (Some r, om_writeAuditEntry (''objective_'' @ status_name status) i om3))))"

text \<open>The indicators are read, changed and written back whole.\<close>

definition updateKPI ::
  "('c, objective) mongo \<Rightarrow> string \<Rightarrow> string \<Rightarrow> string \<Rightarrow> int \<Rightarrow> 'c objectives \<Rightarrow> objective option \<times> 'c objectives" where
  "updateKPI M now i metric current om = (case om_collection om of
     None \<Rightarrow> (None, om)
   | Some c \<Rightarrow> (case findOne M (\<lambda>d. ob_id d = i) c of
       None \<Rightarrow> (None, om)
     | Some obj \<Rightarrow>
         (let kpis = map (\<lambda>k. if kpi_metric k = metric then k\<lparr>kpi_current := current\<rparr> else k) (ob_kpis obj);
              (res, c1) = find_and_update M (\<lambda>d. ob_id d = i) (\<lambda>d. d\<lparr>ob_kpis := kpis, ob_updatedAt := now\<rparr>) c;
              om1 = om\<lparr>om_collection := Some c1\<rparr>
          in (res, if res = None then om1 else om_publish (Obj_updated i) om1))))"

definition addChildTask :: "('c, objective) mongo \<Rightarrow> string \<Rightarrow> string \<Rightarrow> string \<Rightarrow> 'c objectives \<Rightarrow> 'c objectives" where
  "addChildTask M now i taskId om = (case om_collection om of
     None \<Rightarrow> om
   | Some c \<Rightarrow> om\<lparr>om_collection := Some (snd (updateOne M (\<lambda>d. ob_id d = i)
        (\<lambda>d. d\<lparr>ob_childTaskIds := (if taskId \<in> set (ob_childTaskIds d) then ob_childTaskIds d else ob_childTaskIds d @ [taskId]),
               ob_updatedAt := now\<rparr>) c))\<rparr>)"

definition rollupCost :: "('c, objective) mongo \<Rightarrow> string \<Rightarrow> string \<Rightarrow> int \<Rightarrow> 'c objectives \<Rightarrow> 'c objectives" where
  "rollupCost M now i costCents om = (case om_collection om of
     None \<Rightarrow> om
   | Some c \<Rightarrow>
       (if costCents \<le> 0 then om
        else (let (res, c1) = find_and_update M (\<lambda>d. ob_id d = i)
                     (\<lambda>d. d\<lparr>ob_costSpentCents := ob_costSpentCents d + costCents, ob_updatedAt := now\<rparr>) c;
                  om1 = om\<lparr>om_collection := Some c1\<rparr>
              in case res of
                   Some r \<Rightarrow> (if 0 < ob_costBudgetCents r \<and> ob_costBudgetCents r < ob_costSpentCents r
                               then om_publish (Obj_budget_exceeded i (ob_costBudgetCents r) (ob_costSpentCents r)) om1 else om1)
                 | None \<Rightarrow> om1)))"

datatype task_outcome = Task_completed | Task_failed | Task_other

text \<open>\<open>executions\<close>: what the executions collection knows, by identifier.\<close>

definition checkAutoComplete ::
  "('c, objective) mongo \<Rightarrow> string \<Rightarrow> string \<Rightarrow> (string \<times> task_outcome) list option \<Rightarrow> 'c objectives \<Rightarrow> 'c objectives" where
  "checkAutoComplete M now i executions om = (case (om_collection om, executions) of
     (Some c, Some ex) \<Rightarrow>
       (case findOne M (\<lambda>d. ob_id d = i) c of
          None \<Rightarrow> om
        | Some obj \<Rightarrow>
            (if ob_status obj \<noteq> Obj_active \<or> ob_childTaskIds obj = [] then om
             else (let childTasks = filter (\<lambda>(k, s). k \<in> set (ob_childTaskIds obj)) ex in
                   if childTasks = [] then om
                   else if \<not> list_all (\<lambda>(k, s). s = Task_completed \<or> s = Task_failed) childTasks then om
                   else snd (updateStatus M now i
                          (if list_all (\<lambda>(k, s). s = Task_failed) childTasks then Obj_failed else Obj_completed) om))))
   | _ \<Rightarrow> om)"

definition om_pause :: "('c, objective) mongo \<Rightarrow> string \<Rightarrow> string \<Rightarrow> 'c objectives \<Rightarrow> objective option \<times> 'c objectives" where
  "om_pause M now i om = updateStatus M now i Obj_paused om"

definition om_resume :: "('c, objective) mongo \<Rightarrow> string \<Rightarrow> string \<Rightarrow> 'c objectives \<Rightarrow> objective option \<times> 'c objectives" where
  "om_resume M now i om = updateStatus M now i Obj_active om"

definition isPaused :: "('c, objective) mongo \<Rightarrow> string \<Rightarrow> 'c objectives \<Rightarrow> bool" where
  "isPaused M i om = (case om_collection om of None \<Rightarrow> False
     | Some c \<Rightarrow> (case findOne M (\<lambda>d. ob_id d = i) c of None \<Rightarrow> False | Some d \<Rightarrow> ob_status d = Obj_paused))"

text \<open>The trace of an objective: \<open>executions\<close> and \<open>activity\<close> are the contents of the two other collections.\<close>

record execution_doc =
  ex_id :: string
  ex_status :: string
  ex_agent :: string
  ex_task :: string
  ex_costCents :: "int option"
  ex_startedAt :: string
  ex_completedAt :: "string option"
  ex_objectiveId :: "string option"

record activity_doc =
  ac_action :: string
  ac_timestamp :: string
  ac_objectiveId :: "string option"
  ac_details :: json

record traced_task =
  tt_id :: string
  tt_status :: string
  tt_agent :: string
  tt_task :: string
  tt_costCents :: int
  tt_startedAt :: string
  tt_completedAt :: "string option"

record objective_trace =
  ot_objective :: objective
  ot_tasks :: "traced_task list"
  ot_totalCostCents :: int
  ot_events :: "(string \<times> string \<times> json) list"

definition traced :: "execution_doc \<Rightarrow> traced_task" where
  "traced t = \<lparr>tt_id = ex_id t, tt_status = ex_status t, tt_agent = ex_agent t, tt_task = ex_task t,
     tt_costCents = (case ex_costCents t of None \<Rightarrow> 0 | Some n \<Rightarrow> n), tt_startedAt = ex_startedAt t, tt_completedAt = ex_completedAt t\<rparr>"

definition om_trace ::
  "('c, objective) mongo \<Rightarrow> execution_doc list \<Rightarrow> activity_doc list option \<Rightarrow> string \<Rightarrow> 'c objectives \<Rightarrow> objective_trace option" where
  "om_trace M executions activity i om = (case om_collection om of
     None \<Rightarrow> None
   | Some c \<Rightarrow> (case findOne M (\<lambda>d. ob_id d = i) c of
       None \<Rightarrow> None
     | Some obj \<Rightarrow>
         (let tasks = take 200 (rev (sort_key ex_startedAt
                (filter (\<lambda>t. ex_id t \<in> set (ob_childTaskIds obj) \<or> ex_objectiveId t = Some i) executions)));
              events = (case activity of None \<Rightarrow> []
                | Some es \<Rightarrow> map (\<lambda>e. (ac_action e, ac_timestamp e, ac_details e)) (take 100 (rev (sort_key ac_timestamp
                    (filter (\<lambda>e. ac_objectiveId e = Some i) es)))))
          in Some \<lparr>ot_objective = obj, ot_tasks = map traced tasks, ot_totalCostCents = ob_costSpentCents obj, ot_events = events\<rparr>)))"

section \<open>Stale loops\<close>

definition STALE_THRESHOLD :: nat where "STALE_THRESHOLD = 3"
definition MAX_HISTORY_PER_KEY :: nat where "MAX_HISTORY_PER_KEY = 10"

type_synonym stale_history = "(string, string list) jsmap"

definition stale_key :: "string \<Rightarrow> string \<Rightarrow> string" where
  "stale_key objectiveId agentId = objectiveId @ '':'' @ agentId"

text \<open>\<open>sha16\<close>: the first sixteen digits of the hash.\<close>

definition hashOutput :: "(string \<Rightarrow> string) \<Rightarrow> string \<Rightarrow> string" where
  "hashOutput sha16 output = sha16 (collapse_spaces False (js_trim output))"

definition note_hash :: "string \<Rightarrow> string list \<Rightarrow> string list" where
  "note_hash h hashes = (let hs = hashes @ [h] in
     if length hs > MAX_HISTORY_PER_KEY then drop (length hs - MAX_HISTORY_PER_KEY) hs else hs)"

definition consecutive :: "string \<Rightarrow> string list \<Rightarrow> nat" where
  "consecutive h hashes = length (takeWhile (\<lambda>x. x = h) (rev hashes))"

definition stale_record ::
  "('c, objective) mongo \<Rightarrow> (string \<Rightarrow> string) \<Rightarrow> string \<Rightarrow> string \<Rightarrow> string \<Rightarrow> string
     \<Rightarrow> stale_history \<times> 'c objectives \<Rightarrow> bool \<times> stale_history \<times> 'c objectives" where
  "stale_record M sha16 now objectiveId agentId output st =
     (let (history, om) = st; key = stale_key objectiveId agentId; hash = hashOutput sha16 output;
          hashes = note_hash hash (case mget history key of None \<Rightarrow> [] | Some hs \<Rightarrow> hs);
          count = consecutive hash hashes
      in if count \<ge> STALE_THRESHOLD then
           (True, mdelete key history,
            om_publish (Obj_stale_loop objectiveId agentId count) (snd (om_pause M now objectiveId om)))
         else (False, mset_at key hashes history, om))"

definition clearObjective :: "string \<Rightarrow> stale_history \<Rightarrow> stale_history" where
  "clearObjective objectiveId history = filter (\<lambda>(k, hs). \<not> starts_with k (objectiveId @ '':'')) history"

definition getStats :: "stale_history \<Rightarrow> nat \<times> nat" where
  "getStats history = (length history, sum_list (map (length \<circ> snd) history))"

end
