(* ===== verification/Executor.thy ===== *)
theory Executor
  imports ToolCalls Checkpoint Objectives Budget
begin

text \<open>
  An execution of an agent (\<open>execute\<close> of \<open>packages/core/src/agent/executor.ts\<close>): the checks before it, the
  resumption from a checkpoint, the rounds of the language model and its tool calls, shutdown, and what follows the end.

  The model, the context of the prompt, the overlay of settings and the arrival of an abort or a termination signal are arguments; an
  answer of the model may depend on the round and on the whole conversation.  What the sources start without awaiting (the cost
  of a round, the status of the dashboard, the roll-up to the objective) happens at once.  The working memory and its checkpoints
  belong to another package and are left out; so are log lines and the frozen prompt, which in an execution's own store is the prompt itself.
\<close>

definition MAX_TOOL_ROUNDS :: int where "MAX_TOOL_ROUNDS = 25"

section \<open>State\<close>

record active_execution =
  ax_agentId :: string
  ax_taskKey :: string
  ax_toolCallsCompleted :: int
  ax_lastToolAction :: string
  ax_partialResult :: string
  ax_startedAt :: string

datatype exec_status = Running | Completed | Failed

datatype exec_error =
    Shutdown_in_progress
  | Objective_paused string
  | Over_budget "over_limit option"
  | No_context
  | Aborted
  | Model_failed
  | Tool_failed
  | Sigterm bool

record execution_record =
  er_id :: string
  er_agent :: string
  er_trigger :: string
  er_task :: string
  er_startedAt :: string
  er_completedAt :: "string option"
  er_status :: exec_status
  er_actionsTaken :: "taken_action list"
  er_reviewResult :: "json option"
  er_selfModifications :: "(string \<times> bool) list"
  er_error :: "exec_error option"
  er_tokenUsage :: "token_usage option"

text \<open>\<open>rn_chats\<close>: the conversations sent to the model, in order.\<close>

record ('c, 'o, 's) runtime =
  rn_tools :: "'c tool_state"
  rn_names :: tool_names
  rn_router :: "agent_router option"
  rn_objectives :: "'o objectives option"
  rn_stale :: "stale_history option"
  rn_budget :: "budget_enforcer option"
  rn_redis :: 's
  rn_costs :: "agent_cost_event list"
  rn_active :: "active_execution option"
  rn_shuttingDown :: bool
  rn_chats :: "llm_message list list"
  rn_audit :: "execution_record list"

record ('c, 'o, 's, 'b) exec_env =
  xe_tools :: "'c tool_env"
  xe_objectives :: "('o, objective) mongo"
  xe_budgets :: "('b, agent_budget) mongo"
  xe_budget_doc :: "config_doc option option"
  xe_budget_db :: "'b option"
  xe_scanned :: "string list \<times> string list"
  xe_redis :: "'s redis option"
  xe_status_redis :: bool
  xe_checkpoints :: bool
  xe_costs :: bool
  xe_date :: "string \<Rightarrow> int option"
  xe_sha16 :: "string \<Rightarrow> string"
  xe_ecsTaskArn :: string
  xe_overlay :: "string \<Rightarrow> string \<Rightarrow> (string option \<times> string option) option"
  xe_prompt :: "agent_config \<Rightarrow> string \<Rightarrow> args option \<Rightarrow> string option \<Rightarrow> (string \<times> string \<times> string option) option"
  xe_compression :: bool
  xe_haiku :: "string \<Rightarrow> string option"
  xe_blocked :: "string \<Rightarrow> bool"
  xe_audit :: "(execution_record \<Rightarrow> bool) option"

text \<open>\<open>xe_prompt\<close>: the texts of the system prompt and of the task, and the block of live data, if there is one.
  \<open>xe_audit\<close>: \<open>None\<close> is the audit log of a start without a database, which discards everything; otherwise it says which writes succeed.\<close>

record exec_request =
  xq_config :: agent_config
  xq_task :: string
  xq_trigger :: string
  xq_payload :: "args option"
  xq_model :: "model_config option"
  xq_directive :: "string option"
  xq_aborted :: "int \<Rightarrow> bool"
  xq_sigterm :: "int \<Rightarrow> bool"
  xq_chat :: "int \<Rightarrow> llm_message list \<Rightarrow> llm_response option"

definition clock :: "('c, 'o, 's, 'b) exec_env \<Rightarrow> ('c, 'o, 's) runtime \<Rightarrow> int" where
  "clock E rt = te_now (xe_tools E) (ts_tick (rn_tools rt))"

definition stamp :: "('c, 'o, 's, 'b) exec_env \<Rightarrow> ('c, 'o, 's) runtime \<Rightarrow> string" where
  "stamp E rt = te_iso (xe_tools E) (clock E rt)"

definition tick_rt :: "('c, 'o, 's) runtime \<Rightarrow> ('c, 'o, 's) runtime" where
  "tick_rt rt = rt\<lparr>rn_tools := tick (rn_tools rt)\<rparr>"

section \<open>A round\<close>

definition lines2 :: "string list \<Rightarrow> string" where
  "lines2 parts = join [CHR 0x0A, CHR 0x0A] parts"

definition record_round_cost ::
  "('c, 'o, 's, 'b) exec_env \<Rightarrow> exec_request \<Rightarrow> string \<Rightarrow> model_config \<Rightarrow> llm_usage \<Rightarrow> ('c, 'o, 's) runtime \<Rightarrow> ('c, 'o, 's) runtime" where
  "record_round_cost E q executionId model u rt =
     (if \<not> xe_costs E then rt
      else (let (ev, s) = record_cost (xe_redis E) (te_iso (xe_tools E)) (clock E rt)
                  \<lparr>cp_agentId = ag_name (xq_config q), cp_department = ag_department (xq_config q), cp_taskType = xq_task q,
                   cp_executionId = executionId, cp_modelId = mc_model model, cp_provider = mc_provider model,
                   cp_inputTokens = inputTokens u, cp_outputTokens = outputTokens u, cp_cacheReadTokens = or_zero (cacheReadInputTokens u),
                   cp_cacheWriteTokens = or_zero (cacheCreationInputTokens u), cp_latencyMs = 0\<rparr> (rn_redis rt)
            in rt\<lparr>rn_redis := s, rn_costs := rn_costs rt @ [ev]\<rparr>))"

definition assistant_msg :: "string \<Rightarrow> tool_call list \<Rightarrow> llm_message" where
  "assistant_msg content tcs = \<lparr>msg_role = Assistant, msg_content = content, msg_toolCallId = None, msg_toolCalls = Some tcs\<rparr>"

definition tool_msg :: "tool_call \<times> string \<Rightarrow> llm_message" where
  "tool_msg h = \<lparr>msg_role = Tool, msg_content = snd h, msg_toolCallId = Some (tc_id (fst h)), msg_toolCalls = None\<rparr>"

text \<open>The conversation after a reply and the answers to its calls.\<close>

definition extend_messages :: "llm_message list \<Rightarrow> string \<Rightarrow> (tool_call \<times> string) list \<Rightarrow> llm_message list" where
  "extend_messages msgs content handled = msgs @ assistant_msg content (map fst handled) # map tool_msg handled"

definition note_progress :: "tool_names \<Rightarrow> int \<Rightarrow> llm_response \<Rightarrow> active_execution \<Rightarrow> active_execution" where
  "note_progress nm n r ax = ax\<lparr>ax_toolCallsCompleted := n,
     ax_lastToolAction := (if rs_toolCalls r = [] then ax_lastToolAction ax else tool_name nm (tc_name (last (rs_toolCalls r)))),
     ax_partialResult := (if rs_content r = [] then ax_partialResult ax else drop (length (rs_content r) - 4096) (rs_content r))\<rparr>"

definition checkpoint_of_active :: "string \<Rightarrow> string \<Rightarrow> active_execution \<Rightarrow> checkpoint" where
  "checkpoint_of_active arn now ax = \<lparr>ck_agentId = ax_agentId ax, ck_taskKey = ax_taskKey ax, ck_state = Cp_in_progress,
     ck_toolCallsCompleted = ax_toolCallsCompleted ax, ck_lastToolAction = ax_lastToolAction ax,
     ck_partialResult = ax_partialResult ax, ck_ecsTaskArn = arn, ck_startedAt = ax_startedAt ax, ck_checkpointedAt = now\<rparr>"

text \<open>The checkpoint of a shutdown: whether it was saved.\<close>

definition sigterm_exit ::
  "('c, 'o, 's, 'b) exec_env \<Rightarrow> active_execution \<Rightarrow> ('c, 'o, 's) runtime \<Rightarrow> bool \<times> ('c, 'o, 's) runtime" where
  "sigterm_exit E ax rt =
     (let (saved, s) = (if xe_checkpoints E
            then checkpoint_save (xe_redis E) (checkpoint_of_active (xe_ecsTaskArn E) (stamp E rt) ax) (rn_redis rt)
            else (False, rn_redis rt))
      in (saved, rt\<lparr>rn_redis := s, rn_shuttingDown := False\<rparr>))"

datatype round_end = Stop exec_error | Finished cache_tracker | Again "llm_message list" cache_tracker

definition exec_round ::
  "('c, 'o, 's, 'b) exec_env \<Rightarrow> exec_request \<Rightarrow> string \<Rightarrow> model_config \<Rightarrow> int \<Rightarrow> llm_message list \<Rightarrow> cache_tracker
     \<Rightarrow> ('c, 'o, 's) runtime \<Rightarrow> round_end \<times> ('c, 'o, 's) runtime" where
  "exec_round E q executionId model n msgs tracker rt =
     (if xq_aborted q n then (Stop Aborted, rt)
      else
        (let msgs1 = (if xe_compression E then cr_messages (maybeCompress (xe_haiku E) (xe_blocked E) msgs (mc_model model)) else msgs);
             rt1 = rt\<lparr>rn_chats := rn_chats rt @ [msgs1]\<rparr>
         in case xq_chat q n msgs1 of
              None \<Rightarrow> (Stop Model_failed, rt1)
            | Some r \<Rightarrow>
                (let rt2 = record_round_cost E q executionId model (rs_usage r) rt1; tracker1 = recordRound (rs_usage r) tracker in
                 if rs_toolCalls r = [] then (Finished tracker1, rt2)
                 else (case handle_calls (xe_tools E) (xq_config q) (rn_names rt2) (rs_toolCalls r) (rn_tools rt2) of
                     (None, ts) \<Rightarrow> (Stop Tool_failed, rt2\<lparr>rn_tools := ts\<rparr>)
                   | (Some handled, ts) \<Rightarrow>
                       (let rt3 = rt2\<lparr>rn_tools := ts, rn_active := map_option (note_progress (rn_names rt2) (n + 1) r) (rn_active rt2),
                              rn_shuttingDown := rn_shuttingDown rt2 \<or> (xe_checkpoints E \<and> xq_sigterm q n)\<rparr>
                        in case rn_active rt3 of
                             Some ax \<Rightarrow>
                               (if rn_shuttingDown rt3
                                then (let (saved, rt4) = sigterm_exit E ax rt3 in (Stop (Sigterm saved), rt4))
                                else (Again (extend_messages msgs1 (rs_content r) handled) tracker1, rt3))
                           | None \<Rightarrow> (Again (extend_messages msgs1 (rs_content r) handled) tracker1, rt3))))))"

text \<open>The loop; \<open>n\<close> counts the rounds done.\<close>

function exec_rounds ::
  "('c, 'o, 's, 'b) exec_env \<Rightarrow> exec_request \<Rightarrow> string \<Rightarrow> model_config \<Rightarrow> int \<Rightarrow> llm_message list \<Rightarrow> cache_tracker
     \<Rightarrow> ('c, 'o, 's) runtime \<Rightarrow> (exec_error + cache_tracker) \<times> ('c, 'o, 's) runtime" where
  "exec_rounds E q executionId model n msgs tracker rt =
     (if n < MAX_TOOL_ROUNDS then
        (case exec_round E q executionId model n msgs tracker rt of
           (Stop err, rt1) \<Rightarrow> (Inl err, rt1)
         | (Finished tracker1, rt1) \<Rightarrow> (Inr tracker1, rt1)
         | (Again msgs1 tracker1, rt1) \<Rightarrow> exec_rounds E q executionId model (n + 1) msgs1 tracker1 rt1)
      else (Inr tracker, rt))"
  by pat_completeness auto
termination
  by (relation "measure (\<lambda>(E, q, i, model, n, msgs, tracker, rt). nat (MAX_TOOL_ROUNDS - n))") auto

declare exec_rounds.simps [simp del]

section \<open>After the rounds\<close>

definition execution_cents :: "string \<Rightarrow> agent_cost_event list \<Rightarrow> int" where
  "execution_cents executionId evs = sum_list (map costCents (filter (\<lambda>e. cp_executionId (ce_params e) = executionId) evs))"

text \<open>What the detector of stale loops compares.\<close>

definition fingerprint :: "taken_action list \<Rightarrow> string" where
  "fingerprint as = json_stringify (JArr (map (\<lambda>a. JObj [(''action'', JStr (ta_action a)),
     (''result'', JStr (if ta_success a then ''success'' else ''failure''))]) as))"

definition objective_of :: "args option \<Rightarrow> string option" where
  "objective_of payload = (case payload of None \<Rightarrow> None
     | Some kvs \<Rightarrow> (case arg ''objectiveId'' kvs of JStr (c # cs) \<Rightarrow> Some (c # cs) | _ \<Rightarrow> None))"

definition roll_up ::
  "('c, 'o, 's, 'b) exec_env \<Rightarrow> string \<Rightarrow> string \<Rightarrow> ('c, 'o, 's) runtime \<Rightarrow> ('c, 'o, 's) runtime" where
  "roll_up E executionId i rt = (case rn_objectives rt of
     None \<Rightarrow> rt
   | Some om \<Rightarrow>
       (if \<not> xe_costs E then rt
        else (let cents = execution_cents executionId (rn_costs rt) in
          if cents > 0 then rt\<lparr>rn_objectives := Some (rollupCost (xe_objectives E) (stamp E rt) i cents om)\<rparr> else rt)))"

definition detect_stale ::
  "('c, 'o, 's, 'b) exec_env \<Rightarrow> string \<Rightarrow> string \<Rightarrow> ('c, 'o, 's) runtime \<Rightarrow> ('c, 'o, 's) runtime" where
  "detect_stale E agent i rt = (case (rn_stale rt, rn_objectives rt) of
     (Some history, Some om) \<Rightarrow>
       (if ts_actions (rn_tools rt) = [] then rt
        else (let (b, history1, om1) = stale_record (xe_objectives E) (xe_sha16 E) (stamp E rt) i agent
                    (fingerprint (ts_actions (rn_tools rt))) (history, om)
              in rt\<lparr>rn_stale := Some history1, rn_objectives := Some om1\<rparr>))
   | _ \<Rightarrow> rt)"

definition write_status ::
  "('c, 'o, 's, 'b) exec_env \<Rightarrow> string \<Rightarrow> (string \<times> string) list \<Rightarrow> ('c, 'o, 's) runtime \<Rightarrow> ('c, 'o, 's) runtime" where
  "write_status E agent fs rt = (case xe_redis E of
     None \<Rightarrow> rt
   | Some R \<Rightarrow> (if xe_status_redis E then rt\<lparr>rn_redis := HSET R (''agent:status:'' @ agent) fs (rn_redis rt)\<rparr> else rt))"

definition count_execution ::
  "('c, 'o, 's, 'b) exec_env \<Rightarrow> string \<Rightarrow> string \<Rightarrow> ('c, 'o, 's) runtime \<Rightarrow> ('c, 'o, 's) runtime" where
  "count_execution E agent executionId rt = (case xe_redis E of
     None \<Rightarrow> rt
   | Some R \<Rightarrow> (if xe_status_redis E
       then rt\<lparr>rn_redis := ZADD R (''agent:executions:'' @ agent) (clock E rt) executionId (rn_redis rt)\<rparr> else rt))"

text \<open>A write that fails is logged and passed over.\<close>

definition recordExecution ::
  "('c, 'o, 's, 'b) exec_env \<Rightarrow> execution_record \<Rightarrow> ('c, 'o, 's) runtime \<Rightarrow> ('c, 'o, 's) runtime" where
  "recordExecution E rec rt = (case xe_audit E of
     None \<Rightarrow> rt
   | Some succeeds \<Rightarrow> (if succeeds rec then rt\<lparr>rn_audit := rn_audit rt @ [rec]\<rparr> else rt))"

text \<open>The end of every execution, whatever its outcome.\<close>

definition finish ::
  "('c, 'o, 's, 'b) exec_env \<Rightarrow> execution_record \<Rightarrow> ('c, 'o, 's) runtime \<Rightarrow> execution_record \<times> ('c, 'o, 's) runtime" where
  "finish E rec rt =
     (let ts = rn_tools rt;
          rec1 = rec\<lparr>er_completedAt := Some (stamp E rt), er_actionsTaken := ts_actions ts, er_reviewResult := ts_review ts,
            er_selfModifications := ts_selfmods ts\<rparr>;
          done = (er_status rec = Completed);
          rt1 = rt\<lparr>rn_active := None\<rparr>;
          rt2 = count_execution E (er_agent rec) (er_id rec) (write_status E (er_agent rec)
            [(''state'', if done then ''idle'' else ''error''), (if done then ''lastSuccessAt'' else ''lastErrorAt'', dec_int (clock E rt1))] rt1);
          rt3 = recordExecution E rec1 rt2
      in (rec1, rt3\<lparr>rn_router := map_option (untrackExecution (er_id rec)) (rn_router rt3)\<rparr>))"

definition fail_with ::
  "('c, 'o, 's, 'b) exec_env \<Rightarrow> exec_error \<Rightarrow> execution_record \<Rightarrow> ('c, 'o, 's) runtime \<Rightarrow> execution_record \<times> ('c, 'o, 's) runtime" where
  "fail_with E err rec rt = finish E (rec\<lparr>er_status := Failed, er_error := Some err\<rparr>) rt"

definition succeed ::
  "('c, 'o, 's, 'b) exec_env \<Rightarrow> exec_request \<Rightarrow> cache_tracker \<Rightarrow> execution_record \<Rightarrow> ('c, 'o, 's) runtime
     \<Rightarrow> execution_record \<times> ('c, 'o, 's) runtime" where
  "succeed E q tracker rec rt =
     (let rec1 = rec\<lparr>er_status := Completed, er_tokenUsage := Some (toTokenUsage tracker)\<rparr>;
          rt1 = (case objective_of (xq_payload q) of
              None \<Rightarrow> rt | Some i \<Rightarrow> detect_stale E (er_agent rec) i (roll_up E (er_id rec) i rt));
          rt2 = (if xe_checkpoints E
                 then rt1\<lparr>rn_redis := checkpoint_delete (xe_redis E) (er_agent rec) (er_task rec) (rn_redis rt1)\<rparr> else rt1)
      in finish E rec1 rt2)"

section \<open>An execution\<close>

definition resume_message :: "checkpoint \<Rightarrow> llm_message" where
  "resume_message c = plain_msg User (join '' ''
     ([''RESUME CONTEXT: You were previously working on this task and were interrupted.'',
       ''Here is where you left off: [state='' @ state_text (ck_state c) @ '', completed '' @ dec_int (ck_toolCallsCompleted c)
         @ '' tool calls, last action: '' @ ck_lastToolAction c @ ''].'']
      @ (if ck_partialResult c = [] then [] else [''Partial result so far: '' @ ck_partialResult c])
      @ [''Continue from where you left off. Do NOT repeat already-completed actions.'']))"

definition effective_model :: "('c, 'o, 's, 'b) exec_env \<Rightarrow> exec_request \<Rightarrow> model_config" where
  "effective_model E q = (case xq_model q of
     Some m \<Rightarrow> m
   | None \<Rightarrow> (case xe_overlay E (ag_department (xq_config q)) (ag_name (xq_config q)) of
       Some (directive, Some (c # cs)) \<Rightarrow> (ag_model (xq_config q))\<lparr>mc_model := c # cs\<rparr>
     | _ \<Rightarrow> ag_model (xq_config q)))"

definition combined_directive :: "('c, 'o, 's, 'b) exec_env \<Rightarrow> exec_request \<Rightarrow> string option" where
  "combined_directive E q =
     (let override = (case xe_overlay E (ag_department (xq_config q)) (ag_name (xq_config q)) of Some (d, m) \<Rightarrow> d | None \<Rightarrow> None);
          parts = filter (\<lambda>p. p \<noteq> []) (List.map_filter (\<lambda>x. x) [override, xq_directive q])
      in if lines2 parts = [] then None else Some (lines2 parts))"

text \<open>What speaks against an execution, in the order of the checks, with the enforcer's new state.\<close>

definition objective_paused :: "('c, 'o, 's, 'b) exec_env \<Rightarrow> exec_request \<Rightarrow> ('c, 'o, 's) runtime \<Rightarrow> string option" where
  "objective_paused E q rt = (case (objective_of (xq_payload q), rn_objectives rt) of
     (Some i, Some om) \<Rightarrow> (if isPaused (xe_objectives E) i om then Some i else None)
   | _ \<Rightarrow> None)"

definition check_budget ::
  "('c, 'o, 's, 'b) exec_env \<Rightarrow> string \<Rightarrow> ('c, 'o, 's) runtime \<Rightarrow> budget_check option \<times> ('c, 'o, 's) runtime" where
  "check_budget E agent rt = (case rn_budget rt of
     None \<Rightarrow> (None, rt)
   | Some be \<Rightarrow>
       (let (res, be1, s1) = be_check (xe_budgets E) (xe_budget_doc E) (xe_redis E) (te_iso (xe_tools E)) (xe_scanned E) (clock E rt) agent
              (xe_budget_db E) (be, rn_redis rt)
        in (Some res, rt\<lparr>rn_budget := Some be1, rn_redis := s1\<rparr>)))"

definition read_checkpoint ::
  "('c, 'o, 's, 'b) exec_env \<Rightarrow> string \<Rightarrow> string \<Rightarrow> ('c, 'o, 's) runtime \<Rightarrow> checkpoint option \<times> ('c, 'o, 's) runtime" where
  "read_checkpoint E agent task rt =
     (if \<not> xe_checkpoints E then (None, rt)
      else (let (c, s) = checkpoint_get (xe_redis E) (xe_date E) (clock E rt) agent task (rn_redis rt) in (c, rt\<lparr>rn_redis := s\<rparr>)))"

definition begin_execution ::
  "('c, 'o, 's, 'b) exec_env \<Rightarrow> exec_request \<Rightarrow> int \<Rightarrow> ('c, 'o, 's) runtime \<Rightarrow> ('c, 'o, 's) runtime" where
  "begin_execution E q resumeRound rt = tick_rt rt\<lparr>rn_active := Some \<lparr>ax_agentId = ag_name (xq_config q), ax_taskKey = xq_task q,
     ax_toolCallsCompleted = resumeRound, ax_lastToolAction = [], ax_partialResult = [], ax_startedAt = stamp E rt\<rparr>\<rparr>"

definition resume_round :: "checkpoint option \<Rightarrow> int" where
  "resume_round cp = (case cp of None \<Rightarrow> 0 | Some c \<Rightarrow> ck_toolCallsCompleted c)"

text \<open>The conversation a prompt opens (\<open>agent/context.ts\<close>).\<close>

definition buildMessages :: "string \<Rightarrow> string \<Rightarrow> llm_message list" where
  "buildMessages content taskInstruction = [plain_msg System content, plain_msg User taskInstruction]"

definition opening_messages :: "string \<Rightarrow> string \<Rightarrow> string option \<Rightarrow> checkpoint option \<Rightarrow> llm_message list" where
  "opening_messages content taskInstruction live cp = buildMessages content taskInstruction
     @ (case live of None \<Rightarrow> [] | Some d \<Rightarrow> [plain_msg User d]) @ (case cp of None \<Rightarrow> [] | Some c \<Rightarrow> [resume_message c])"

text \<open>An execution that passed the checks.\<close>

definition run_execution ::
  "('c, 'o, 's, 'b) exec_env \<Rightarrow> exec_request \<Rightarrow> execution_record \<Rightarrow> ('c, 'o, 's) runtime \<Rightarrow> execution_record \<times> ('c, 'o, 's) runtime" where
  "run_execution E q rec rt =
     (let (cp, rt1) = read_checkpoint E (ag_name (xq_config q)) (xq_task q) rt; rt2 = begin_execution E q (resume_round cp) rt1
      in case xe_prompt E (xq_config q) (xq_task q) (xq_payload q) (combined_directive E q) of
           None \<Rightarrow> fail_with E No_context rec rt2
         | Some (content, instruction, live) \<Rightarrow>
             (let msgs = opening_messages content instruction live cp;
                  rt3 = rt2\<lparr>rn_names := snd (buildToolDefinitions (xq_config q) (rn_names rt2))\<rparr>
              in case exec_rounds E q (er_id rec) (effective_model E q) (resume_round cp) msgs new_tracker rt3 of
                   (Inl err, rt4) \<Rightarrow> fail_with E err rec rt4
                 | (Inr tracker, rt4) \<Rightarrow> succeed E q tracker rec rt4))"

text \<open>An execution as it is entered: its record, and the state with nothing of it done yet.\<close>

definition new_record ::
  "('c, 'o, 's, 'b) exec_env \<Rightarrow> exec_request \<Rightarrow> ('c, 'o, 's) runtime \<Rightarrow> execution_record" where
  "new_record E q rt = \<lparr>er_id = te_uuid (xe_tools E) (ts_tick (rn_tools rt)), er_agent = ag_name (xq_config q), er_trigger = xq_trigger q,
     er_task = xq_task q, er_startedAt = stamp E rt, er_completedAt = None, er_status = Running, er_actionsTaken = [],
     er_reviewResult = None, er_selfModifications = [], er_error = None, er_tokenUsage = None\<rparr>"

definition entered :: "('c, 'o, 's, 'b) exec_env \<Rightarrow> exec_request \<Rightarrow> ('c, 'o, 's) runtime \<Rightarrow> ('c, 'o, 's) runtime" where
  "entered E q rt = tick_rt (rt\<lparr>rn_tools := (rn_tools rt)\<lparr>ts_actions := [], ts_selfmods := [], ts_review := None, ts_cache := []\<rparr>,
     rn_router := map_option (trackExecution (er_id (new_record E q rt))) (rn_router rt)\<rparr>)"

definition status_running :: "('c, 'o, 's, 'b) exec_env \<Rightarrow> string \<Rightarrow> ('c, 'o, 's) runtime \<Rightarrow> ('c, 'o, 's) runtime" where
  "status_running E agent rt = write_status E agent [(''state'', ''running''), (''lastRunAt'', dec_int (clock E rt))] rt"

definition shutting_down :: "('c, 'o, 's) runtime \<Rightarrow> bool" where
  "shutting_down rt = (case rn_router rt of None \<Rightarrow> False | Some r \<Rightarrow> rt_shuttingDown r)"

definition execute ::
  "('c, 'o, 's, 'b) exec_env \<Rightarrow> exec_request \<Rightarrow> ('c, 'o, 's) runtime \<Rightarrow> execution_record \<times> ('c, 'o, 's) runtime" where
  "execute E q rt0 =
     (let agent = ag_name (xq_config q); rec = new_record E q rt0; rt = entered E q rt0 in
      if shutting_down rt then fail_with E Shutdown_in_progress rec rt
      else (let rt1 = status_running E agent rt in
        case objective_paused E q rt1 of
          Some i \<Rightarrow> fail_with E (Objective_paused i) rec rt1
        | None \<Rightarrow>
            (case check_budget E agent rt1 of
               (Some res, rt2) \<Rightarrow> (if \<not> allowed res then fail_with E (Over_budget (r_reason res)) rec rt2 else run_execution E q rec rt2)
             | (None, rt2) \<Rightarrow> run_execution E q rec rt2)))"

end
