(* ===== verification/ToolCalls_Correct.thy ===== *)
theory ToolCalls_Correct
  imports ToolCalls
begin

text \<open>
  What reaches the action executors: only calls that passed the permission, the safety gate and the approval gate, with the
  arguments directed to the agent's own channels; and the names of the tools an agent is offered lead back to the tools.
\<close>

section \<open>Passing the gates\<close>

definition persistent :: "'c approvals option \<Rightarrow> bool" where
  "persistent ap = (case ap of None \<Rightarrow> False | Some am \<Rightarrow> am_collection am \<noteq> None)"

text \<open>The cost gate: what the action is estimated to cost at a tick is above the threshold, and the budgets are enforced.\<close>

definition costs_too_much :: "'c tool_env \<Rightarrow> nat \<Rightarrow> string \<Rightarrow> args \<Rightarrow> bool" where
  "costs_too_much E t name a \<longleftrightarrow> name \<notin> set READ_ONLY_ACTIONS \<and> te_budget_mode E = Some Enforcing
     \<and> getGate (te_mode E) ''cost:above_threshold'' \<noteq> None \<and> estimated_cost E t a > cost_threshold (te_mode E) (te_threshold E)"

text \<open>
  A call \<open>c\<close> that the gates let through for the tool call \<open>tc\<close> of an agent in a state: the permission, the safety gate with the state's clock
  and its memory of posts, the gates for approval when requests are stored, and the channels.
\<close>

definition passed ::
  "'c tool_env \<Rightarrow> agent_config \<Rightarrow> bool \<Rightarrow> 'c tool_state \<Rightarrow> tool_names \<Rightarrow> tool_call \<Rightarrow> string \<times> json \<Rightarrow> bool" where
  "passed E config gated st nm tc c \<longleftrightarrow>
     (let name = tool_name nm (tc_name tc); a = inject_defaults (te_getenv E) name (unwrap_params (tc_arguments tc))
      in fst c = name \<and> hasPermission config name
         \<and> is_safe (fst (outbound_check (te_sha256 E) (te_now E (ts_tick st)) name (JObj a) (ts_dedup st)))
         \<and> \<not> (gated \<and> (getGate (te_mode E) name \<noteq> None \<or> costs_too_much E (Suc (ts_tick st)) name a))
         \<and> map_option (\<lambda>a1. JObj (named_args config name a1)) (directed_args E config name a) = Some (snd c))"

text \<open>What happens to the state of the tools: the call of a tool, and a reading of the clock.\<close>

inductive tool_step :: "'c tool_env \<Rightarrow> agent_config \<Rightarrow> 'c tool_state \<Rightarrow> 'c tool_state \<Rightarrow> bool" for E config where
  tool_call: "handleToolCall E config nm tc st = (r, st1) \<Longrightarrow> tool_step E config st st1"
| tool_tick: "tool_step E config st (tick st)"

text \<open>\<open>c\<close> is the call with number \<open>k\<close>, and a step between two states made it and let it pass.\<close>

definition made_between ::
  "'c tool_env \<Rightarrow> agent_config \<Rightarrow> bool \<Rightarrow> 'c tool_state \<Rightarrow> 'c tool_state \<Rightarrow> nat \<times> string \<times> json \<Rightarrow> bool" where
  "made_between E config gated st0 st1 kc \<longleftrightarrow> (\<exists>st st' nm tc r. (tool_step E config)\<^sup>*\<^sup>* st0 st \<and> handleToolCall E config nm tc st = (r, st')
     \<and> (tool_step E config)\<^sup>*\<^sup>* st' st1 \<and> length (ts_calls st) = fst kc \<and> ts_calls st' = ts_calls st @ [snd kc]
     \<and> passed E config gated st nm tc (snd kc))"

text \<open>A sequence of steps.\<close>

definition grows :: "'c tool_env \<Rightarrow> agent_config \<Rightarrow> 'c tool_state \<Rightarrow> 'c tool_state \<Rightarrow> bool" where
  "grows E config = (tool_step E config)\<^sup>*\<^sup>*"

lemma grows_refl [simp, intro]: "grows E config st st"
  by (simp add: grows_def)

lemma grows_tick [intro]: "grows E config st (tick st)"
  by (auto simp: grows_def intro: tool_tick)

lemma grows_trans: "grows E config st st1 \<Longrightarrow> grows E config st1 st2 \<Longrightarrow> grows E config st st2"
  by (simp add: grows_def)

text \<open>One step makes at most one call, which passed.\<close>

definition passes ::
  "'c tool_env \<Rightarrow> agent_config \<Rightarrow> tool_names \<Rightarrow> tool_call \<Rightarrow> 'c tool_state \<Rightarrow> 'c tool_state \<Rightarrow> bool" where
  "passes E config nm tc st st1 \<longleftrightarrow> persistent (ts_approvals st1) = persistent (ts_approvals st)
     \<and> (ts_calls st1 = ts_calls st
        \<or> (\<exists>c. ts_calls st1 = ts_calls st @ [c] \<and> passed E config (persistent (ts_approvals st)) st nm tc c))"

lemma passes_refl: "ts_calls st1 = ts_calls st \<Longrightarrow> ts_approvals st1 = ts_approvals st \<Longrightarrow> passes E config nm tc st st1"
  by (simp add: passes_def)

lemma tool_state_simps [simp]:
  "ts_calls (tick st) = ts_calls st" "ts_approvals (tick st) = ts_approvals st"
  "ts_calls (took n b d st) = ts_calls st" "ts_approvals (took n b d st) = ts_approvals st"
  "ts_cache (tick st) = ts_cache st" "ts_cache (took n b d st) = ts_cache st"
  by (simp_all add: tick_def took_def)

lemma registry_calls: "registry_execute reg name params cs = (r, cs1) \<Longrightarrow> cs1 = cs \<or> cs1 = cs @ [(name, params)]"
  by (auto simp: registry_execute_def Let_def split: if_splits option.splits sum.splits)

lemma run_action_state:
  assumes "run_action E name a key st = (res, st1)"
  shows "ts_approvals st1 = ts_approvals st \<and> (ts_calls st1 = ts_calls st \<or> ts_calls st1 = ts_calls st @ [(name, JObj a)])"
proof -
  obtain r cs where reg: "registry_execute (te_registry E) name (JObj a) (ts_calls st) = (r, cs)" by fastforce
  from registry_calls [OF this] assms show ?thesis
    by (auto simp: run_action_def reg Let_def split: option.splits if_splits)
qed

lemma gate_none:
  "gate_for E t ap name a = None \<Longrightarrow> persistent ap \<Longrightarrow> getGate (te_mode E) name = None \<and> \<not> costs_too_much E t name a"
  by (auto simp: gate_for_def persistent_def requiresApproval_def costs_too_much_def split: option.splits if_splits)

lemma ask_approval_state:
  assumes "ask_approval E config name a gate am st = (res, st1)" and "ts_approvals st = Some am"
  shows "ts_calls st1 = ts_calls st \<and> persistent (ts_approvals st1) = persistent (ts_approvals st)"
  using assms by (auto simp: ask_approval_def createRequest_def persistent_def writeAuditEntry_def Let_def split: option.splits prod.splits)

lemma perform_calls:
  assumes "perform E config name a st = (res, a1, st1)"
  shows "ts_approvals st1 = ts_approvals st \<and> (ts_calls st1 = ts_calls st
    \<or> (\<exists>b. directed_args E config name a = Some b \<and> ts_calls st1 = ts_calls st @ [(name, JObj (named_args config name b))]))"
proof (cases "directed_args E config name a")
  case None
  with assms show ?thesis by (simp add: perform_def)
next
  case (Some b)
  show ?thesis
  proof (cases "Option.bind (cacheKey name b) (mget (ts_cache st))")
    case None
    obtain st2 where run: "run_action E name (named_args config name b) (cacheKey name b) st = (res, st2)" "st1 = st2"
      using assms Some None by (auto simp: perform_def Let_def split: prod.splits)
    with run_action_state [OF run(1)] Some show ?thesis by auto
  qed (use assms Some in \<open>auto simp: perform_def Let_def\<close>)
qed

lemma handleAction_passes:
  assumes "handleAction E config name a0 st = (res, a1, st1)" and name: "name = tool_name nm (tc_name tc)" "a0 = tc_arguments tc"
  shows "passes E config nm tc st st1"
proof -
  define a where "a = inject_defaults (te_getenv E) name (unwrap_params a0)"
  obtain verdict g where oc: "outbound_check (te_sha256 E) (te_now E (ts_tick st)) name (JObj a) (ts_dedup st) = (verdict, g)" by fastforce
  define sta where "sta = tick st\<lparr>ts_dedup := g\<rparr>"
  have sta: "ts_calls sta = ts_calls st" "ts_approvals sta = ts_approvals st" "ts_tick sta = Suc (ts_tick st)"
    by (simp_all add: sta_def) (simp add: tick_def)
  note run = assms(1) [unfolded handleAction_def Let_def, folded a_def, unfolded oc prod.case, folded sta_def]
  consider "\<not> hasPermission config name" | "hasPermission config name" "\<not> is_safe verdict" | gate am where "hasPermission config name" "is_safe verdict"
      "gate_for E (ts_tick sta) (ts_approvals sta) name a = Some gate" "ts_approvals sta = Some am"
    | "hasPermission config name" "is_safe verdict" "gate_for E (ts_tick sta) (ts_approvals sta) name a = None"
    by (cases "gate_for E (ts_tick sta) (ts_approvals sta) name a"; cases "ts_approvals sta")
      (auto simp: gate_for_def)
  then show ?thesis
  proof cases
    case (3 gate am)
    with run have "ask_approval E config name a gate am sta = (res, st1)" by (auto split: prod.splits)
    from ask_approval_state [OF this 3(4)] show ?thesis by (simp add: passes_def sta)
  next
    case 4
    with run obtain a2 where p: "perform E config name a sta = (res, a2, st1)" by (auto split: prod.splits)
    have "passed E config (persistent (ts_approvals st)) st nm tc (name, JObj (named_args config name b))"
      if "directed_args E config name a = Some b" for b
      using 4 oc gate_none [OF 4(3)] that name by (auto simp: passed_def sta a_def)
    with perform_calls [OF p] show ?thesis by (auto simp: passes_def sta)
  qed (use run in \<open>auto simp: sta intro!: passes_refl\<close>)
qed

lemma handleToolCall_passes:
  assumes "handleToolCall E config nm tc st = (r, st1)"
  shows "passes E config nm tc st st1"
proof -
  let ?n = "tool_name nm (tc_name tc)" and ?a = "tc_arguments tc"
  have "passes E config nm tc st (snd (self_call E config ?n ?a st))"
    by (auto simp: self_call_def Let_def passes_refl split: prod.splits)
  moreover have "passes E config nm tc st (snd (handleReviewSubmission E config ?a st))"
    by (auto simp: handleReviewSubmission_def Let_def passes_refl split: option.splits json.splits)
  moreover have "passes E config nm tc st (snd (snd (handleAction E config ?n ?a st)))"
    using handleAction_passes [of E config ?n ?a st] by (metis prod.collapse)
  ultimately show ?thesis using assms
    by (auto simp: handleToolCall_def Let_def passes_refl split: if_splits prod.splits)
qed

lemma handle_calls_grows: "handle_calls E config nm tcs st = (r, st1) \<Longrightarrow> grows E config st st1"
proof (induction tcs arbitrary: st r st1)
  case (Cons tc tcs)
  obtain x st2 where tc: "handleToolCall E config nm tc st = (x, st2)" by fastforce
  then have g: "grows E config st st2" unfolding grows_def by (blast intro: tool_call)
  show ?case
  proof (cases x)
    case (Some p)
    obtain rest st3 where "handle_calls E config nm tcs st2 = (rest, st3)" by fastforce
    with Cons.IH [OF this] Cons.prems tc Some g show ?thesis by (cases p) (auto intro: grows_trans)
  qed (use Cons.prems tc g in auto)
qed simp

lemma step_passes:
  assumes "tool_step E config st st1"
  shows "persistent (ts_approvals st1) = persistent (ts_approvals st)
    \<and> (ts_calls st1 = ts_calls st \<or> (\<exists>c nm tc r. handleToolCall E config nm tc st = (r, st1) \<and> ts_calls st1 = ts_calls st @ [c]
         \<and> passed E config (persistent (ts_approvals st)) st nm tc c))"
  using assms by cases (use handleToolCall_passes in \<open>fastforce simp: passes_def\<close>)+

text \<open>Every call of a sequence of steps was made by one of them.\<close>

lemma grows_calls:
  assumes "grows E config st0 st1"
  shows "persistent (ts_approvals st1) = persistent (ts_approvals st0)
    \<and> (\<exists>new. ts_calls st1 = ts_calls st0 @ new
         \<and> list_all (made_between E config (persistent (ts_approvals st0)) st0 st1) (enumerate (length (ts_calls st0)) new))"
  using assms unfolding grows_def
proof (induction rule: rtranclp_induct)
  case (step st1 st2)
  let ?g = "persistent (ts_approvals st0)"
  have later: "made_between E config ?g st0 st1 kc \<Longrightarrow> made_between E config ?g st0 st2 kc" for kc
    using step.hyps(2) unfolding made_between_def by (meson rtranclp.rtrancl_into_rtrancl)
  from step.IH obtain new where p: "persistent (ts_approvals st1) = ?g" and new1: "ts_calls st1 = ts_calls st0 @ new"
    and made: "list_all (made_between E config ?g st0 st1) (enumerate (length (ts_calls st0)) new)" by blast
  note new = new1 list.pred_mono_strong [OF made later]
  from step_passes [OF step.hyps(2)] show ?case
  proof (elim conjE disjE exE)
    fix c nm tc r
    assume s: "handleToolCall E config nm tc st1 = (r, st2)" "ts_calls st2 = ts_calls st1 @ [c]"
      "passed E config (persistent (ts_approvals st1)) st1 nm tc c" "persistent (ts_approvals st2) = persistent (ts_approvals st1)"
    then have "made_between E config ?g st0 st2 (length (ts_calls st0) + length new, c)"
      using step.hyps(1) p new(1) unfolding made_between_def by force
    with s new p show ?thesis by (simp add: enumerate_append_eq)
  qed (use new p in auto)
qed simp

lemma passed_named: "made_between E config gated st0 st1 kc \<Longrightarrow> \<exists>a a1. directed_args E config (fst (snd kc)) a = Some a1
  \<and> snd (snd kc) = JObj (named_args config (fst (snd kc)) a1)"
  by (force simp: made_between_def passed_def Let_def)

section \<open>Names of tools\<close>

lemma sanitize_all_offered: "fst (sanitize_all ns nm) = map api_safe ns"
  by (induction ns arbitrary: nm) (auto simp: sanitizeToolName_def Let_def split: prod.splits, metis fst_conv)

lemma sanitize_all_get:
  "mget (snd (sanitize_all ns nm)) k = (case List.find (\<lambda>n. api_safe n = k) (rev ns) of Some n \<Rightarrow> Some n | None \<Rightarrow> mget nm k)"
proof (induction ns arbitrary: nm)
  case (Cons n ns)
  have "snd (sanitize_all (n # ns) nm) = snd (sanitize_all ns (mset_at (api_safe n) n nm))"
    by (simp add: sanitizeToolName_def Let_def split: prod.splits)
  moreover have "List.find P (xs @ [x]) = (case List.find P xs of Some y \<Rightarrow> Some y | None \<Rightarrow> if P x then Some x else None)" for P xs and x :: string
    by (induction xs) auto
  ultimately show ?case using Cons.IH [of "mset_at (api_safe n) n nm"] by (simp split: option.splits)
qed simp

text \<open>Every entry is a tool under its own safe name, and every tool has an entry.\<close>

definition names_cover :: "string set \<Rightarrow> string set \<Rightarrow> tool_names \<Rightarrow> bool" where
  "names_cover S T nm \<longleftrightarrow> (\<forall>k v. mget nm k = Some v \<longrightarrow> v \<in> S \<and> k = api_safe v) \<and> (\<forall>n \<in> T. mget nm (api_safe n) \<noteq> None)"

lemma build_covers:
  assumes "names_cover S T nm" and "set (tools_of c) \<subseteq> S"
  shows "names_cover S (T \<union> set (tools_of c)) (snd (buildToolDefinitions c nm))"
proof -
  have found: "List.find P xs = Some x \<Longrightarrow> x \<in> set xs \<and> P x" "List.find P xs = None \<Longrightarrow> x \<in> set xs \<Longrightarrow> \<not> P x" for P xs and x :: string
    by (auto simp: find_Some_iff find_None_iff)
  show ?thesis
    using assms unfolding names_cover_def buildToolDefinitions_def sanitize_all_get
    by (auto split: option.splits dest!: found(1) dest: found(2) subsetD)
qed

lemma build_all_covers:
  "names_cover S T nm \<Longrightarrow> \<forall>c \<in> set cs. set (tools_of c) \<subseteq> S \<Longrightarrow>
     names_cover S (T \<union> (\<Union>c \<in> set cs. set (tools_of c))) (fold (\<lambda>c nm. snd (buildToolDefinitions c nm)) cs nm)"
proof (induction cs arbitrary: T nm)
  case (Cons c cs)
  from Cons.IH [OF build_covers [OF Cons.prems(1)]] Cons.prems(2) show ?case by (simp add: Un_assoc)
qed simp

text \<open>
  When no two tools of the agents share a safe name, every tool an agent is offered leads back to itself, whatever other agents
  have entered in the shared table, before or since.
\<close>
theorem offered_tools_resolve:
  assumes "inj_on api_safe (\<Union>c \<in> set cs. set (tools_of c))" and "config \<in> set cs"
  shows "map (tool_name (fold (\<lambda>c nm. snd (buildToolDefinitions c nm)) cs [])) (fst (buildToolDefinitions config nm)) = tools_of config"
proof -
  let ?S = "\<Union>c \<in> set cs. set (tools_of c)" and ?nm = "fold (\<lambda>c nm. snd (buildToolDefinitions c nm)) cs []"
  have cov: "names_cover ?S ?S ?nm"
    using build_all_covers [of ?S "{}" "[]" cs] by (auto simp: names_cover_def)
  have "tool_name ?nm (api_safe n) = n" if n: "n \<in> set (tools_of config)" for n
  proof -
    from n assms(2) have nS: "n \<in> ?S" by blast
    with cov obtain v where v: "mget ?nm (api_safe n) = Some v" unfolding names_cover_def by blast
    with cov have "v \<in> ?S" "api_safe n = api_safe v" unfolding names_cover_def by blast+
    with assms(1) nS have "v = n" by (auto dest: inj_onD)
    with v show ?thesis by (cases n) (auto simp: tool_name_def api_safe_def)
  qed
  then show ?thesis by (simp add: buildToolDefinitions_def sanitize_all_offered map_idI)
qed

text \<open>Two agents of the sources.\<close>

definition sentinel_actions :: "string list" where
  "sentinel_actions =
     [''deploy:status'', ''deploy:assess'', ''deploy:execute'', ''github:get_contents'', ''github:get_diff'', ''repo:list'',
      ''discord:message'', ''discord:thread_reply'', ''discord:get_channel_history'', ''discord:get_thread'', ''discord:react'',
      ''discord:alert'', ''event:publish'']"

definition strategist_actions :: "string list" where
  "strategist_actions =
     [''github:commit_file'', ''github:get_contents'', ''github:create_branch'', ''github:get_diff'', ''vault:read'', ''vault:search'',
      ''github:pr_review'', ''github:pr_comment'', ''github:get_issue'', ''github:list_issues'', ''x:search'', ''x:user'',
      ''telegram:announce'', ''telegram:set_title'', ''telegram:set_description'', ''discord:message'', ''discord:thread_reply'',
      ''discord:react'', ''event:publish'', ''deploy:assess'', ''task:query'', ''task:summary'']"

definition sample_agent :: "string \<Rightarrow> string \<Rightarrow> string list \<Rightarrow> agent_config" where
  "sample_agent name department actions = \<lparr>ag_name = name, ag_department = department,
     ag_model = \<lparr>mc_provider = ''anthropic'', mc_model = ''claude-sonnet-4-6''\<rparr>, ag_triggers = [], ag_actions = actions,
     ag_event_subscriptions = [], ag_review_bypass = [], ag_humanize = False\<rparr>"

lemma offered_tools_resolve_witness:
  "map (tool_name (fold (\<lambda>c nm. snd (buildToolDefinitions c nm))
       [sample_agent ''sentinel'' ''operations'' sentinel_actions, sample_agent ''strategist'' ''executive'' strategist_actions] []))
     (fst (buildToolDefinitions (sample_agent ''sentinel'' ''operations'' sentinel_actions) []))
   = tools_of (sample_agent ''sentinel'' ''operations'' sentinel_actions)"
proof (rule offered_tools_resolve)
  let ?cs = "[sample_agent ''sentinel'' ''operations'' sentinel_actions, sample_agent ''strategist'' ''executive'' strategist_actions]"
  have "distinct (map api_safe (remdups (concat (map tools_of ?cs))))" by code_simp
  then have "inj_on api_safe (set (remdups (concat (map tools_of ?cs))))" by (simp only: distinct_map)
  then show "inj_on api_safe (\<Union>c \<in> set ?cs. set (tools_of c))" by simp
qed simp

section \<open>Permissions\<close>

text \<open>The check of an action is a check of its prefix.\<close>

lemma permission_is_by_prefix:
  "hasPermission config name \<longleftrightarrow> (\<exists>a \<in> set (ag_actions config). starts_with a (action_prefix name @ '':'')) \<or> name \<in> set (ag_actions config)"
proof -
  have "starts_with (p @ '':*'') (p @ '':'')" for p by (auto simp: starts_with_iff)
  then show ?thesis by (auto simp: hasPermission_def list_ex_iff)
qed

text \<open>
  The deployments' separation of duties is in the lists only: who may assess may execute, and who may execute may approve.
\<close>

lemma duties_not_separated:
  "\<not> ''deploy:execute'' \<in> set strategist_actions \<and> \<not> ''deploy:architect_approve'' \<in> set sentinel_actions
   \<and> hasPermission (sample_agent ''strategist'' ''executive'' strategist_actions) ''deploy:execute''
   \<and> hasPermission (sample_agent ''strategist'' ''executive'' strategist_actions) ''github:merge_pr''
   \<and> hasPermission (sample_agent ''sentinel'' ''operations'' sentinel_actions) ''deploy:architect_approve''"
  by code_simp

text \<open>The tool for events is offered to all agents, and refused to those without an action on events.\<close>

lemma offered_but_refused:
  assumes "\<forall>a \<in> set (ag_actions config). \<not> starts_with a ''event:''"
  shows "''event:publish'' \<in> set (tools_of config)
    \<and> fst (handleAction E config ''event:publish'' a st) = err_json (''Agent '' @ ag_name config @ '' is not authorized to execute event:publish'')"
proof -
  have "action_prefix ''event:publish'' = ''event''" by code_simp
  moreover have "starts_with ''event:publish'' ''event:''" by code_simp
  ultimately have "\<not> hasPermission config ''event:publish''" using assms by (auto simp: hasPermission_def list_ex_iff)
  then show ?thesis by (simp add: handleAction_def Let_def tools_of_def)
qed

section \<open>Where posts go\<close>

lemma arg_set [simp]: "arg k (mset_at k' v a) = (if k = k' then v else arg k a)"
proof -
  have "arg k a = (case mget a k of None \<Rightarrow> JUndef | Some v \<Rightarrow> v)" for k a by (simp add: arg_def mget_def)
  then show ?thesis by simp
qed

lemma arg_set_if [simp]: "k \<noteq> k' \<Longrightarrow> arg k (set_if_falsy k' v a) = arg k a"
  by (simp add: set_if_falsy_def)

definition post_allowed :: "'c tool_env \<Rightarrow> agent_config \<Rightarrow> string \<times> json \<Rightarrow> bool" where
  "post_allowed E config c \<longleftrightarrow>
     (let department = getChannelForAgent (te_getenv E) (te_agents E) (ag_name config) ''discord''; channel = get_prop ''channel'' (snd c)
      in \<not> starts_with (fst c) ''discord:'' \<or> fst c \<in> set DISCORD_READ_ACTIONS
         \<or> (case department of
              Some d \<Rightarrow> channel = JStr d \<or> ag_name config \<in> set SUPPORT_AGENTS \<and> js_text channel \<in> set (support_channels E)
            | None \<Rightarrow> ag_name config \<in> set SUPPORT_AGENTS))"

lemma made_post:
  assumes made: "made_between E config gated st0 st1 kc"
  shows "post_allowed E config (snd kc)"
proof (cases "starts_with (fst (snd kc)) ''discord:'' \<and> fst (snd kc) \<notin> set DISCORD_READ_ACTIONS")
  case True
  with passed_named [OF made] obtain a a1 where d: "discord_args E config a = Some a1"
    and p: "snd (snd kc) = JObj (named_args config (fst (snd kc)) a1)"
    by (auto simp: directed_args_def starts_with_def Let_def split: if_splits)
  have ch: "get_prop ''channel'' (snd (snd kc)) = arg ''channel'' a1"
    unfolding p arg_def [symmetric] using True by (simp add: named_args_def)
  show ?thesis using d True unfolding post_allowed_def ch
    by (auto simp: discord_args_def Let_def split: option.splits if_splits)
qed (simp add: post_allowed_def Let_def)

text \<open>A support agent without any channel of its own posts where the model says.\<close>

lemma unconfined_support:
  assumes "getChannelForAgent (te_getenv E) (te_agents E) ''keeper'' ''discord'' = None" "ag_name config = ''keeper''"
  shows "discord_args E config a = Some a"
  using assms by (auto simp: discord_args_def SUPPORT_AGENTS_def)

text \<open>The name a post carries is the one the model gives, if it gives one.\<close>

lemma posting_under_another_name: "truthy (arg ''agentName'' a) \<Longrightarrow> named_args config name a = a"
  by (simp add: named_args_def set_if_falsy_def)

section \<open>Reviews and reads\<close>

text \<open>No action depends on a review.\<close>

lemma review_commutes:
  "tick (st\<lparr>ts_review := rv\<rparr>)\<lparr>ts_dedup := g\<rparr> = (tick st\<lparr>ts_dedup := g\<rparr>)\<lparr>ts_review := rv\<rparr>"
  "tick (st\<lparr>ts_review := rv\<rparr>)\<lparr>ts_approvals := ap\<rparr> = (tick st\<lparr>ts_approvals := ap\<rparr>)\<lparr>ts_review := rv\<rparr>"
  "took n b d (st\<lparr>ts_review := rv\<rparr>) = (took n b d st)\<lparr>ts_review := rv\<rparr>"
  by (simp_all add: tick_def took_def)

lemma run_action_review:
  "run_action E name a key (st\<lparr>ts_review := rv\<rparr>) = map_prod id (ts_review_update (\<lambda>_. rv)) (run_action E name a key st)"
  by (simp add: run_action_def tick_def took_def Let_def split: prod.splits option.splits)

lemma perform_review:
  "perform E config name a (st\<lparr>ts_review := rv\<rparr>) = map_prod id (map_prod id (ts_review_update (\<lambda>_. rv))) (perform E config name a st)"
  by (simp add: perform_def run_action_review review_commutes Let_def split: prod.splits option.splits)

lemma ask_approval_review:
  "ask_approval E config name a gate am (st\<lparr>ts_review := rv\<rparr>) = map_prod id (ts_review_update (\<lambda>_. rv)) (ask_approval E config name a gate am st)"
  by (simp add: ask_approval_def review_commutes Let_def split: prod.splits option.splits)

lemma posts_need_no_review:
  "handleAction E config name a (st\<lparr>ts_review := rv\<rparr>)
     = map_prod id (map_prod id (ts_review_update (\<lambda>_. rv))) (handleAction E config name a st)"
  by (simp add: handleAction_def perform_review ask_approval_review review_commutes Let_def map_prod_def split_def split: option.splits)


text \<open>A file read before a commit is read from the cache after it.\<close>

lemma cached_read:
  assumes "directed_args E config ''github:get_contents'' a = Some a1" "cacheKey ''github:get_contents'' a1 = Some k" "mget (ts_cache st) k = Some r"
  shows "perform E config ''github:get_contents'' a st
    = (result_json r, a1, took ''github:get_contents'' True (JObj [(''cached'', JBool True), (''path'', arg ''path'' a1)]) st)"
  using assms by (simp add: perform_def Let_def)

lemma commit_keeps_cache: "ts_cache (snd (snd (perform E config ''github:commit_file'' a st))) = ts_cache st"
  by (auto simp: perform_def run_action_def cacheKey_def CACHEABLE_ACTIONS_def Let_def split: option.split prod.splits)

text \<open>The bus checks the source that the parameters claim: whoever may publish may publish as another agent.\<close>

lemma any_agent_speaks_as_another:
  "event_execute publish ''publish'' (JObj [(''source'', JStr ''architect''), (''type'', JStr ''deploy_review''), (''payload'', JObj kvs)]) b
     = (case publish ''architect'' ''deploy_review'' kvs None b of
          (None, b1) \<Rightarrow> (\<lparr>ar_success = True, ar_data = JObj [(''source'', JStr ''architect''), (''type'', JStr ''deploy_review''),
             (''correlationId'', JUndef)], ar_error = None\<rparr>, b1)
        | (Some msg, b1) \<Rightarrow> (failed_with (''Failed to publish event: '' @ msg), b1))
   \<and> checkEventAcl DEFAULT_ACL (event_key ''architect'' ''deploy_review'') ''architect''"
proof
  show "checkEventAcl DEFAULT_ACL (event_key ''architect'' ''deploy_review'') ''architect''" by code_simp
qed (simp add: event_execute_def text_arg_def starts_with_def Let_def split: prod.split option.split)

end
