(* ===== verification/Conversation_Correct.thy ===== *)
theory Conversation_Correct
  imports Conversation
begin

text \<open>
  Conversations keep the shape a provider accepts: every call of a tool by the assistant is answered, in order, before anything else
  is said, and nothing else is an answer.  Compression keeps the shape, the first two messages and the last turns.
\<close>

section \<open>Answered calls\<close>

text \<open>\<open>pending\<close>: the identifiers of the calls still to be answered.\<close>

fun answered :: "string list \<Rightarrow> llm_message list \<Rightarrow> bool" where
  "answered pending [] \<longleftrightarrow> pending = []"
| "answered pending (m # ms) \<longleftrightarrow> (case msg_role m of
     Tool \<Rightarrow> (case pending of [] \<Rightarrow> False | i # is \<Rightarrow> msg_toolCallId m = Some i \<and> answered is ms)
   | Assistant \<Rightarrow> pending = [] \<and> answered (case msg_toolCalls m of None \<Rightarrow> [] | Some tcs \<Rightarrow> map tc_id tcs) ms
   | _ \<Rightarrow> pending = [] \<and> answered [] ms)"

lemma answered_append: "answered [] ys \<Longrightarrow> answered pending xs \<Longrightarrow> answered pending (xs @ ys)"
  by (induction pending xs rule: answered.induct) (auto split: msg_role.splits list.splits)

lemma answered_before_assistant:
  "msg_role a = Assistant \<Longrightarrow> answered pending (xs @ a # ys) \<longleftrightarrow> answered pending xs \<and> answered [] (a # ys)"
  by (induction pending xs rule: answered.induct) (auto split: msg_role.splits list.splits)

lemma answered_plain: "msg_role m \<noteq> Tool \<Longrightarrow> msg_role m \<noteq> Assistant \<Longrightarrow> answered [] (m # ms) \<longleftrightarrow> answered [] ms"
  by (cases "msg_role m") auto

lemma answered_calls:
  "msg_role a = Assistant \<Longrightarrow> msg_toolCalls a = Some tcs \<Longrightarrow> map msg_toolCallId rs = map (Some \<circ> tc_id) tcs \<Longrightarrow>
     \<forall>r \<in> set rs. msg_role r = Tool \<Longrightarrow> answered [] (a # rs)"
proof -
  have "map msg_toolCallId rs = map (Some \<circ> tc_id) tcs \<Longrightarrow> \<forall>r \<in> set rs. msg_role r = Tool \<Longrightarrow> answered (map tc_id tcs) rs" for rs
    by (induction tcs arbitrary: rs) auto
  then show "msg_role a = Assistant \<Longrightarrow> msg_toolCalls a = Some tcs \<Longrightarrow> map msg_toolCallId rs = map (Some \<circ> tc_id) tcs \<Longrightarrow>
     \<forall>r \<in> set rs. msg_role r = Tool \<Longrightarrow> answered [] (a # rs)" by simp
qed

section \<open>Turns\<close>

lemma concat_turns: "concat (group_turns cur ms) = cur @ ms"
  by (induction cur ms rule: group_turns.induct) auto

lemma turns_nonempty: "t \<in> set (group_turns cur ms) \<Longrightarrow> t \<noteq> []"
  by (induction cur ms rule: group_turns.induct) (auto split: if_splits)

lemma turns_answered: "answered [] (cur @ ms) \<Longrightarrow> t \<in> set (group_turns cur ms) \<Longrightarrow> answered [] t"
proof (induction cur ms rule: group_turns.induct)
  case (2 cur m ms)
  show ?case
  proof (cases "msg_role m = Assistant \<and> cur \<noteq> []")
    case True
    with 2 answered_before_assistant [of m "[]" cur ms] show ?thesis by auto
  qed (use 2 in auto)
qed (auto split: if_splits)

lemma concat_answered: "\<forall>t \<in> set ts. answered [] t \<Longrightarrow> answered [] (concat ts)"
  by (induction ts) (auto intro: answered_append)

text \<open>A message that opens a conversation: not an answer, not a turn.\<close>

definition opens :: "llm_message \<Rightarrow> bool" where
  "opens m \<longleftrightarrow> msg_role m = System \<or> msg_role m = User"

lemma answered_opens: "opens m \<Longrightarrow> answered [] (m # ms) \<longleftrightarrow> answered [] ms"
  by (auto simp: opens_def)

text \<open>A conversation that begins with \<open>os\<close>, and in which every call is answered.\<close>

definition well_formed :: "llm_message list \<Rightarrow> llm_message list \<Rightarrow> bool" where
  "well_formed os ms \<longleftrightarrow> take (length os) ms = os \<and> answered [] ms"

lemma answered_opening: "list_all opens os \<Longrightarrow> answered [] (os @ ms) \<longleftrightarrow> answered [] ms"
  by (induction os) (auto simp: answered_opens simp del: answered.simps)

lemma well_formed_iff: "list_all opens os \<Longrightarrow> well_formed os ms \<longleftrightarrow> (\<exists>rest. ms = os @ rest \<and> answered [] rest)"
  unfolding well_formed_def using answered_opening by (metis append_eq_conv_conj append_take_drop_id)

lemma well_formed_append: "list_all opens os \<Longrightarrow> well_formed os xs \<Longrightarrow> answered [] ys \<Longrightarrow> well_formed os (xs @ ys)"
  by (auto simp: well_formed_iff answered_append)

text \<open>The first turn begins with all messages that precede the assistant's first.\<close>

lemma opens_in_first_turn: "list_all opens us \<Longrightarrow> group_turns cur (us @ ms) = group_turns (cur @ us) ms"
  by (induction us arbitrary: cur) (auto simp: opens_def)

lemma first_turn: "group_turns cur ms = t # ts \<Longrightarrow> \<exists>r. t = cur @ r"
  by (induction cur ms rule: group_turns.induct) (auto split: if_splits)

lemma split_two: "2 \<le> length ms \<Longrightarrow> \<exists>a b. ms = a # b # drop 2 ms"
  by (cases ms; cases "tl ms") auto

lemma compressed_shape:
  assumes "cr_compressed (maybeCompress haiku blocked ms model)"
  obtains summary where "haiku (summary_request (concat (take (length (groupIntoTurns (drop 2 ms)) - 6) (drop 3 (groupIntoTurns (drop 2 ms)))))) = Some summary"
    "\<not> blocked summary" "2 \<le> length ms" "7 \<le> length (groupIntoTurns (drop 2 ms))"
    "cr_messages (maybeCompress haiku blocked ms model) = take 2 ms @ concat (take 3 (groupIntoTurns (drop 2 ms)))
       @ [summary_message (length (groupIntoTurns (drop 2 ms)) - 6) summary]
       @ concat (drop (length (groupIntoTurns (drop 2 ms)) - 3) (groupIntoTurns (drop 2 ms)))"
  using assms that by (auto simp: maybeCompress_def Let_def PROTECTED_TURNS_def min_def split: if_splits option.splits)

lemma not_compressed: "\<not> cr_compressed (maybeCompress haiku blocked ms model) \<Longrightarrow> cr_messages (maybeCompress haiku blocked ms model) = ms"
  by (auto simp: maybeCompress_def Let_def split: if_splits option.splits)

lemma first_turns:
  assumes "list_all opens us" "answered [] rest" "0 < k"
  shows "\<exists>more. concat (take k (groupIntoTurns (us @ rest))) = us @ more \<and> answered [] more"
proof (cases "groupIntoTurns (us @ rest)")
  case Nil
  with concat_turns [of "[]" "us @ rest"] show ?thesis by (simp add: groupIntoTurns_def)
next
  case (Cons t ts)
  have "groupIntoTurns (us @ rest) = group_turns us rest"
    using opens_in_first_turn [OF assms(1), of "[]" rest] by (simp add: groupIntoTurns_def)
  with Cons first_turn obtain r where r: "t = us @ r" by metis
  have "answered [] (us @ rest)" using assms by (simp add: answered_opening)
  then have all: "answered [] u" if "u \<in> set (t # ts)" for u
    using turns_answered [of "[]" "us @ rest" u] that Cons by (simp add: groupIntoTurns_def)
  obtain j where j: "k = Suc j" using assms(3) by (cases k) auto
  have "answered [] r" using all [of t] r answered_opening [OF assms(1)] by simp
  moreover have "answered [] (concat (take j ts))" using all by (auto intro!: concat_answered dest: in_set_takeD)
  ultimately show ?thesis using Cons r j by (auto intro: answered_append)
qed

lemma compress_well_formed:
  assumes "list_all opens os" "2 \<le> length os" and "well_formed os ms"
  shows "well_formed os (cr_messages (maybeCompress haiku blocked ms model))"
proof (cases "cr_compressed (maybeCompress haiku blocked ms model)")
  case False
  with assms(3) show ?thesis by (simp add: not_compressed)
next
  case True
  let ?ts = "groupIntoTurns (drop 2 ms)"
  from True obtain summary where sh: "cr_messages (maybeCompress haiku blocked ms model) = take 2 ms @ concat (take 3 ?ts)
      @ [summary_message (length ?ts - 6) summary] @ concat (drop (length ?ts - 3) ?ts)"
    by (rule compressed_shape)
  from split_two [OF assms(2)] obtain a b us where os: "os = a # b # us" by blast
  from assms(1,3) obtain rest where ms: "ms = os @ rest" "answered [] rest" by (auto simp: well_formed_iff)
  from os assms(1) have us: "list_all opens us" by simp
  have d: "drop 2 ms = us @ rest" "take 2 ms = [a, b]" by (simp_all add: ms os numeral_2_eq_2)
  from first_turns [OF us ms(2), of 3] obtain more where more: "concat (take 3 ?ts) = us @ more" "answered [] more" by (auto simp: d)
  have "answered [] (us @ rest)" using ms(2) us by (simp add: answered_opening)
  then have "answered [] (concat (drop (length ?ts - 3) ?ts))"
    using turns_answered [of "[]" "us @ rest"] by (auto simp: d groupIntoTurns_def intro!: concat_answered dest!: in_set_dropD)
  moreover have "answered [] [summary_message (length ?ts - 6) summary]" by (simp add: summary_message_def plain_msg_def)
  ultimately have "answered [] (more @ [summary_message (length ?ts - 6) summary] @ concat (drop (length ?ts - 3) ?ts))"
    using more(2) by (intro answered_append)
  moreover have "cr_messages (maybeCompress haiku blocked ms model)
      = os @ more @ [summary_message (length ?ts - 6) summary] @ concat (drop (length ?ts - 3) ?ts)"
    by (simp add: sh d(2) more(1) os)
  ultimately show ?thesis unfolding well_formed_iff [OF assms(1)] by blast
qed

end
