(* ===== verification/Objectives_Correct.thy ===== *)
theory Objectives_Correct
  imports Objectives
begin

text \<open>
  The detector of stale loops refines a counter per agent and objective, and a detection pauses the objective;
  whatever calls are made, the cost of an objective is the sum of what was rolled up, and the budget warnings are exactly the
  running totals above the budget.
\<close>

section \<open>Counting repetitions\<close>

type_synonym counters = "string \<Rightarrow> (string \<times> nat) option"

text \<open>The counter after an output: how often it came in a row.\<close>

definition count_up :: "string \<Rightarrow> (string \<times> nat) option \<Rightarrow> nat" where
  "count_up h c = (case c of Some (g, n) \<Rightarrow> if g = h then Suc n else 1 | None \<Rightarrow> 1)"

fun stale_spec :: "(string \<times> string) list \<Rightarrow> counters \<Rightarrow> bool list" where
  "stale_spec [] C = []"
| "stale_spec ((k, h) # es) C =
     (let n = count_up h (C k) in
      if n \<ge> STALE_THRESHOLD then True # stale_spec es (C(k := None)) else False # stale_spec es (C(k := Some (h, n))))"

text \<open>Records as the detector gets them: time, objective, agent, output.\<close>

fun stale_run ::
  "('c, objective) mongo \<Rightarrow> (string \<Rightarrow> string) \<Rightarrow> (string \<times> string \<times> string \<times> string) list \<Rightarrow> stale_history \<times> 'c objectives \<Rightarrow> bool list" where
  "stale_run M sha [] st = []"
| "stale_run M sha ((now, i, a, out) # es) st = (let (b, st1) = stale_record M sha now i a out st in b # stale_run M sha es st1)"

definition abs_hashes :: "string list option \<Rightarrow> (string \<times> nat) option" where
  "abs_hashes hs = (case hs of None \<Rightarrow> None | Some hs \<Rightarrow> if hs = [] then None else Some (last hs, consecutive (last hs) hs))"

definition history_ok :: "stale_history \<Rightarrow> bool" where
  "history_ok history \<longleftrightarrow> (\<forall>k hs. mget history k = Some hs \<longrightarrow> hs \<noteq> [] \<and> consecutive (last hs) hs < STALE_THRESHOLD)"

lemma consecutive_snoc: "consecutive h (hs @ [h]) = Suc (consecutive h hs)"
  by (simp add: consecutive_def)

lemma consecutive_drop: "consecutive h (drop k hs) = min (length hs - k) (consecutive h hs)"
proof -
  have "takeWhile P (take n xs) = take n (takeWhile P xs)" for P n and xs :: "string list"
    by (induction xs arbitrary: n) (auto simp: take_Cons split: nat.split)
  then show ?thesis by (simp add: consecutive_def rev_drop)
qed

lemma consecutive_last: "hs \<noteq> [] \<Longrightarrow> h \<noteq> last hs \<Longrightarrow> consecutive h hs = 0"
  by (cases hs rule: rev_cases) (simp_all add: consecutive_def)

lemma consecutive_note:
  assumes "consecutive h hs < STALE_THRESHOLD"
  shows "consecutive h (note_hash h hs) = Suc (consecutive h hs)"
  using assms by (simp add: note_hash_def Let_def consecutive_drop consecutive_snoc STALE_THRESHOLD_def MAX_HISTORY_PER_KEY_def)

lemma last_note: "note_hash h hs \<noteq> [] \<and> last (note_hash h hs) = h"
  by (simp add: note_hash_def Let_def MAX_HISTORY_PER_KEY_def last_drop)

lemma note_counts:
  assumes "history_ok history"
  shows "consecutive h (note_hash h (case mget history k of None \<Rightarrow> [] | Some hs \<Rightarrow> hs)) = count_up h (abs_hashes (mget history k))"
proof (cases "mget history k")
  case None
  then show ?thesis using consecutive_note [of h "[]"] by (simp add: abs_hashes_def count_up_def consecutive_def STALE_THRESHOLD_def)
next
  case (Some hs)
  with assms have hs: "hs \<noteq> []" "consecutive (last hs) hs < STALE_THRESHOLD" by (auto simp: history_ok_def)
  show ?thesis
  proof (cases "h = last hs")
    case True
    with hs Some consecutive_note [of h hs] show ?thesis by (simp add: abs_hashes_def count_up_def)
  next
    case False
    with hs(1) have "consecutive h hs = 0" by (rule consecutive_last)
    with consecutive_note [of h hs] hs(1) Some False show ?thesis
      by (simp add: abs_hashes_def count_up_def STALE_THRESHOLD_def)
  qed
qed

lemma stale_step:
  assumes "history_ok history" and run: "stale_record M sha now i a out (history, om) = (b, history1, om1)"
  defines "k \<equiv> stale_key i a" and "h \<equiv> hashOutput sha out" and "C \<equiv> \<lambda>k. abs_hashes (mget history k)"
  shows "history_ok history1 \<and> b = (count_up h (C k) \<ge> STALE_THRESHOLD)
    \<and> (\<lambda>k. abs_hashes (mget history1 k)) = C(k := (if b then None else Some (h, count_up h (C k))))"
proof -
  let ?hs = "note_hash h (case mget history k of None \<Rightarrow> [] | Some hs \<Rightarrow> hs)"
  have n: "consecutive h ?hs = count_up h (C k)" unfolding C_def by (rule note_counts [OF assms(1)])
  have l: "?hs \<noteq> []" "last ?hs = h" using last_note by blast+
  have b: "b = (count_up h (C k) \<ge> STALE_THRESHOLD)"
    using run n by (auto simp: stale_record_def Let_def k_def h_def split: if_splits)
  have hist: "history1 = (if b then mdelete k history else mset_at k ?hs history)"
    using run by (auto simp: stale_record_def Let_def k_def h_def split: if_splits)
  have "history_ok history1"
    using assms(1) l n b by (auto simp: history_ok_def hist)
  moreover have "abs_hashes (mget history1 j) = (C(k := (if b then None else Some (h, count_up h (C k))))) j" for j
    using l n by (auto simp: hist C_def abs_hashes_def)
  ultimately show ?thesis using b by blast
qed

lemma stale_run_counts:
  "history_ok history \<Longrightarrow> stale_run M sha es (history, om)
    = stale_spec (map (\<lambda>(now, i, a, out). (stale_key i a, hashOutput sha out)) es) (\<lambda>k. abs_hashes (mget history k))"
proof (induction es arbitrary: history om)
  case (Cons e es)
  obtain now i a out where e: "e = (now, i, a, out)" by (metis surj_pair)
  obtain b history1 om1 where run: "stale_record M sha now i a out (history, om) = (b, history1, om1)" by (metis surj_pair)
  note st = stale_step [OF Cons.prems run]
  with Cons.IH [of history1 om1] show ?case by (simp add: e run Let_def)
qed simp

text \<open>
  Over any sequence of outputs, of any agents under any objectives, the detector reports exactly the outputs with which an
  agent has given the same output three times in a row under an objective since its last report there.
\<close>
theorem stale_detector_counts:
  "stale_run M sha es ([], om)
    = stale_spec (map (\<lambda>(now, i, a, out). (stale_key i a, hashOutput sha out)) es) (\<lambda>k. None)"
proof -
  have "history_ok []" by (simp add: history_ok_def)
  from stale_run_counts [OF this] show ?thesis by (simp add: abs_hashes_def)
qed

section \<open>Calls of the manager\<close>

text \<open>The objective under an identifier.\<close>

definition ob_at :: "('c, objective) mongo \<Rightarrow> 'c objectives \<Rightarrow> string \<Rightarrow> objective option" where
  "ob_at M om k = (case om_collection om of None \<Rightarrow> None | Some c \<Rightarrow> doc_at M ob_id c k)"

definition om_ok :: "('c, objective) mongo \<Rightarrow> 'c objectives \<Rightarrow> bool" where
  "om_ok M om \<longleftrightarrow> (\<forall>c. om_collection om = Some c \<longrightarrow> ids_unique M ob_id c)"

lemma ob_at_simps [simp]:
  "ob_at M (om_publish e om) = ob_at M om" "ob_at M (om_writeAuditEntry x i om) = ob_at M om"
  "om_ok M (om_publish e om) = om_ok M om" "om_ok M (om_writeAuditEntry x i om) = om_ok M om"
  by (auto simp: ob_at_def om_ok_def om_publish_def om_writeAuditEntry_def fun_eq_iff split: option.split)

lemma om_get_at: "om_get M i om = ob_at M om i"
  by (simp add: om_get_def ob_at_def doc_at_def split: option.split)

lemma isPaused_at: "isPaused M i om = (case ob_at M om i of None \<Rightarrow> False | Some d \<Rightarrow> ob_status d = Obj_paused)"
  by (simp add: isPaused_def ob_at_def doc_at_def split: option.split)

datatype objective_call =
    Oc_create string objective_input
  | Oc_status string objective_status
  | Oc_kpi string string int
  | Oc_child string string
  | Oc_rollup string int
  | Oc_auto string "(string \<times> task_outcome) list option"
  | Oc_stale string string string stale_history

fun objective_step :: "('c, objective) mongo \<Rightarrow> (string \<Rightarrow> string) \<Rightarrow> string \<times> objective_call \<Rightarrow> 'c objectives \<Rightarrow> 'c objectives" where
  "objective_step M sha (now, Oc_create uuid inp) om = snd (om_create M uuid now inp om)"
| "objective_step M sha (now, Oc_status i s) om = snd (updateStatus M now i s om)"
| "objective_step M sha (now, Oc_kpi i m n) om = snd (updateKPI M now i m n om)"
| "objective_step M sha (now, Oc_child i t) om = addChildTask M now i t om"
| "objective_step M sha (now, Oc_rollup i cents) om = rollupCost M now i cents om"
| "objective_step M sha (now, Oc_auto i ex) om = checkAutoComplete M now i ex om"
| "objective_step M sha (now, Oc_stale i a out history) om = snd (snd (stale_record M sha now i a out (history, om)))"

text \<open>What a call rolls up to an objective.\<close>

fun rolled :: "string \<Rightarrow> objective_call \<Rightarrow> int" where
  "rolled k (Oc_rollup i cents) = (if i = k then max 0 cents else 0)"
| "rolled k _ = 0"

text \<open>The warnings among the published events.\<close>

fun warning_of :: "string \<Rightarrow> objective_event \<Rightarrow> (int \<times> int) option" where
  "warning_of k (Obj_budget_exceeded i b s) = (if i = k then Some (b, s) else None)"
| "warning_of k _ = None"

definition warnings :: "string \<Rightarrow> 'c objectives \<Rightarrow> (int \<times> int) list" where
  "warnings k om = List.map_filter (warning_of k) (om_published om)"

lemma warnings_simps [simp]:
  "warnings k (om_publish e om) = warnings k om @ (case warning_of k e of None \<Rightarrow> [] | Some w \<Rightarrow> [w])"
  "warnings k (om_writeAuditEntry x i om) = warnings k om" "warnings k (om\<lparr>om_collection := c\<rparr>) = warnings k om"
  by (auto simp: warnings_def om_publish_def om_writeAuditEntry_def List.map_filter_def split: option.split)

text \<open>The running totals above the budget.\<close>

fun overruns :: "int \<Rightarrow> int \<Rightarrow> int list \<Rightarrow> (int \<times> int) list" where
  "overruns budget spent [] = []"
| "overruns budget spent (x # xs) =
     (if 0 < x \<and> 0 < budget \<and> budget < spent + x then [(budget, spent + x)] else []) @ overruns budget (spent + x) xs"

locale objective_store =
  fixes M :: "('c, objective) mongo"
  assumes col: "mongo_collection M ob_id"
begin

lemma update_at:
  assumes "om_collection om = Some c" "om_ok M om" "\<And>d. ob_id (u d) = ob_id d"
    "find_and_update M (\<lambda>d. ob_id d = i) u c = (res, c1)"
  shows "res = map_option u (ob_at M om i) \<and> om_ok M (om\<lparr>om_collection := Some c1\<rparr>)
    \<and> ob_at M (om\<lparr>om_collection := Some c1\<rparr>) = (ob_at M om)(i := map_option u (ob_at M om i))"
proof -
  obtain n where run: "updateOne M (\<lambda>d. ob_id d = i \<and> True) u c = (n, c1)" and res: "res = findOne M (\<lambda>d. ob_id d = i) c1"
    using assms(4) by (cases "updateOne M (\<lambda>d. ob_id d = i) u c") (auto simp: find_and_update_def)
  from mongo_collection.update_one_lookup [OF col _ assms(3) run] assms(1,2)
  have "ids_unique M ob_id c1" "doc_at M ob_id c1 = (doc_at M ob_id c)(i := map_option u (doc_at M ob_id c i))"
    by (simp_all add: om_ok_def)
  then show ?thesis using res assms(1) by (auto simp: ob_at_def om_ok_def doc_at_def [symmetric] fun_eq_iff)
qed

text \<open>A call that neither creates nor rolls up changes at most the status, the indicators and the tasks.\<close>

definition same_costs :: "'c objectives \<Rightarrow> 'c objectives \<Rightarrow> bool" where
  "same_costs om om1 \<longleftrightarrow> om_ok M om1 \<and> (\<forall>k. warnings k om1 = warnings k om)
     \<and> (\<forall>k d. ob_at M om k = Some d \<longrightarrow> (\<exists>e. ob_at M om1 k = Some e
          \<and> ob_costSpentCents e = ob_costSpentCents d \<and> ob_costBudgetCents e = ob_costBudgetCents d))"

lemma same_refl: "om_ok M om \<Longrightarrow> same_costs om om"
  by (simp add: same_costs_def)

lemma same_update:
  assumes "om_collection om = Some c" "om_ok M om"
    "\<And>d. ob_id (u d) = ob_id d \<and> ob_costSpentCents (u d) = ob_costSpentCents d \<and> ob_costBudgetCents (u d) = ob_costBudgetCents d"
    "find_and_update M (\<lambda>d. ob_id d = i) u c = (res, c1)"
  shows "same_costs om (om\<lparr>om_collection := Some c1\<rparr>)"
  using update_at [OF assms(1,2) _ assms(4)] assms(3) by (auto simp: same_costs_def)

lemma same_publish:
  "same_costs om om1 \<Longrightarrow> (\<And>k. warning_of k e = None) \<Longrightarrow> same_costs om (om_publish e om1)"
  "same_costs om om1 \<Longrightarrow> same_costs om (om_writeAuditEntry x i om1)"
  by (auto simp: same_costs_def)

lemma same_status:
  assumes "om_ok M om"
  shows "same_costs om (snd (updateStatus M now i s om))"
proof (cases "om_collection om")
  case None
  then show ?thesis by (simp add: updateStatus_def same_refl [OF assms])
next
  case (Some c)
  obtain res c1 where fu: "find_and_update M (\<lambda>d. ob_id d = i) (\<lambda>d. d\<lparr>ob_status := s, ob_updatedAt := now\<rparr>) c = (res, c1)" by fastforce
  have "same_costs om (om\<lparr>om_collection := Some c1\<rparr>)" by (rule same_update [OF Some assms _ fu]) simp
  then show ?thesis by (auto simp: updateStatus_def Some fu Let_def intro!: same_publish split: option.split)
qed

lemma same_kpi:
  assumes "om_ok M om"
  shows "same_costs om (snd (updateKPI M now i m n om))"
proof (cases "om_collection om")
  case None
  then show ?thesis by (simp add: updateKPI_def same_refl [OF assms])
next
  case (Some c)
  show ?thesis
  proof (cases "findOne M (\<lambda>d. ob_id d = i) c")
    case None
    with Some show ?thesis by (simp add: updateKPI_def same_refl [OF assms])
  next
    case obj: (Some obj)
    let ?u = "\<lambda>d. d\<lparr>ob_kpis := map (\<lambda>k. if kpi_metric k = m then k\<lparr>kpi_current := n\<rparr> else k) (ob_kpis obj), ob_updatedAt := now\<rparr>"
    obtain res c1 where fu: "find_and_update M (\<lambda>d. ob_id d = i) ?u c = (res, c1)" by fastforce
    have "same_costs om (om\<lparr>om_collection := Some c1\<rparr>)" by (rule same_update [OF Some assms _ fu]) simp
    then show ?thesis by (auto simp: updateKPI_def Some obj fu Let_def intro!: same_publish)
  qed
qed

lemma same_child:
  assumes "om_ok M om"
  shows "same_costs om (addChildTask M now i t om)"
proof (cases "om_collection om")
  case (Some c)
  let ?u = "\<lambda>d. d\<lparr>ob_childTaskIds := (if t \<in> set (ob_childTaskIds d) then ob_childTaskIds d else ob_childTaskIds d @ [t]), ob_updatedAt := now\<rparr>"
  obtain res c1 where fu: "find_and_update M (\<lambda>d. ob_id d = i) ?u c = (res, c1)" by fastforce
  then have c1: "c1 = snd (updateOne M (\<lambda>d. ob_id d = i) ?u c)" by (auto simp: find_and_update_def Let_def)
  have "same_costs om (om\<lparr>om_collection := Some c1\<rparr>)" by (rule same_update [OF Some assms _ fu]) simp
  then show ?thesis by (simp add: addChildTask_def Some c1)
qed (simp add: addChildTask_def same_refl [OF assms])

lemma same_create:
  assumes "om_ok M om"
  shows "same_costs om (snd (om_create M uuid now inp om))"
proof (cases "om_collection om")
  case None
  then show ?thesis by (simp add: om_create_def same_refl [OF assms])
next
  case (Some c)
  show ?thesis
  proof (cases "insertOne M (new_objective uuid now inp) c")
    case None
    with Some show ?thesis by (simp add: om_create_def same_refl [OF assms])
  next
    case ins: (Some c1)
    from assms Some have "ids_unique M ob_id c" by (simp add: om_ok_def)
    from mongo_collection.insert_lookup [OF col this ins] Some
    have "same_costs om (om\<lparr>om_collection := Some c1\<rparr>)" by (auto simp: same_costs_def om_ok_def ob_at_def)
    then show ?thesis by (auto simp: om_create_def Some ins Let_def intro!: same_publish)
  qed
qed

lemma rollup_at:
  assumes "om_ok M om" "ob_at M om k = Some d"
  shows "om_ok M (rollupCost M now i x om)
    \<and> (\<exists>e. ob_at M (rollupCost M now i x om) k = Some e \<and> ob_costBudgetCents e = ob_costBudgetCents d
        \<and> ob_costSpentCents e = ob_costSpentCents d + rolled k (Oc_rollup i x))
    \<and> warnings k (rollupCost M now i x om) = warnings k om @ overruns (ob_costBudgetCents d) (ob_costSpentCents d) [rolled k (Oc_rollup i x)]"
proof (cases "x \<le> 0")
  case True
  then have "rollupCost M now i x om = om" by (simp add: rollupCost_def split: option.split)
  with assms True show ?thesis by auto
next
  case False
  from assms(2) obtain c where c: "om_collection om = Some c" by (cases "om_collection om") (auto simp: ob_at_def)
  let ?u = "\<lambda>d. d\<lparr>ob_costSpentCents := ob_costSpentCents d + x, ob_updatedAt := now\<rparr>"
  obtain res c1 where fu: "find_and_update M (\<lambda>d. ob_id d = i) ?u c = (res, c1)" by fastforce
  note up = update_at [OF c assms(1) _ fu, simplified]
  have run: "rollupCost M now i x om = (case res of
      Some r \<Rightarrow> (if 0 < ob_costBudgetCents r \<and> ob_costBudgetCents r < ob_costSpentCents r
          then om_publish (Obj_budget_exceeded i (ob_costBudgetCents r) (ob_costSpentCents r)) (om\<lparr>om_collection := Some c1\<rparr>)
          else om\<lparr>om_collection := Some c1\<rparr>)
    | None \<Rightarrow> om\<lparr>om_collection := Some c1\<rparr>)"
    using False by (simp add: rollupCost_def c fu Let_def)
  show ?thesis
  proof (cases "i = k")
    case True
    with up assms(2) False show ?thesis unfolding run by auto
  next
    case ne: False
    with up assms(2) False show ?thesis unfolding run by (auto split: option.split)
  qed
qed

lemma same_step:
  assumes "om_ok M om" "\<And>i x. e \<noteq> Oc_rollup i x"
  shows "same_costs om (objective_step M sha (now, e) om)"
proof (cases e)
  case (Oc_auto i ex)
  then show ?thesis
    using same_status [OF assms(1)] same_refl [OF assms(1)]
    by (auto simp: checkAutoComplete_def Let_def split: option.split)
next
  case (Oc_stale i a out history)
  then show ?thesis
    using same_status [OF assms(1)] same_refl [OF assms(1)]
    by (auto simp: stale_record_def om_pause_def Let_def intro!: same_publish)
qed (use assms same_status same_kpi same_child same_create in \<open>simp_all\<close>)

lemma costs_step:
  assumes "om_ok M om" "ob_at M om k = Some d" "objective_step M sha (now, e) om = om1"
  shows "om_ok M om1 \<and> (\<exists>e'. ob_at M om1 k = Some e' \<and> ob_costBudgetCents e' = ob_costBudgetCents d
        \<and> ob_costSpentCents e' = ob_costSpentCents d + rolled k e)
    \<and> warnings k om1 = warnings k om @ overruns (ob_costBudgetCents d) (ob_costSpentCents d) [rolled k e]"
proof (cases "\<exists>i x. e = Oc_rollup i x")
  case True
  with rollup_at [OF assms(1,2)] assms(3) show ?thesis by (auto simp del: overruns.simps rolled.simps)
next
  case False
  then have "rolled k e = 0" by (cases e) auto
  moreover from same_step [OF assms(1), of e sha now] False assms(3) have sc: "same_costs om om1" by blast
  moreover from sc assms(2) obtain e1 where "ob_at M om1 k = Some e1" "ob_costSpentCents e1 = ob_costSpentCents d"
    "ob_costBudgetCents e1 = ob_costBudgetCents d" unfolding same_costs_def by blast
  ultimately show ?thesis by (simp add: same_costs_def)
qed

lemma costs_run:
  assumes "om_ok M om" "ob_at M om k = Some d"
  shows "\<exists>e. ob_at M (fold (objective_step M sha) calls om) k = Some e
    \<and> ob_costSpentCents e = ob_costSpentCents d + (\<Sum>(now, e) \<leftarrow> calls. rolled k e)
    \<and> warnings k (fold (objective_step M sha) calls om)
        = warnings k om @ overruns (ob_costBudgetCents d) (ob_costSpentCents d) (map (rolled k \<circ> snd) calls)"
  using assms
proof (induction calls arbitrary: om d)
  case (Cons call calls)
  obtain now e where call: "call = (now, e)" by fastforce
  from costs_step [OF Cons.prems refl, of sha now e] obtain d1 where
    d1: "om_ok M (objective_step M sha call om)" "ob_at M (objective_step M sha call om) k = Some d1"
      "ob_costBudgetCents d1 = ob_costBudgetCents d" "ob_costSpentCents d1 = ob_costSpentCents d + rolled k e"
      "warnings k (objective_step M sha call om) = warnings k om @ overruns (ob_costBudgetCents d) (ob_costSpentCents d) [rolled k e]"
    unfolding call by blast
  from Cons.IH [OF d1(1,2)] d1(3-5) show ?case by (auto simp: call)
qed simp

end

interpretation list_objectives: objective_store "list_mongo ob_id" ..

text \<open>
  Whatever calls are made on a store, an objective's cost grows by exactly what is rolled up to it, its budget stays, and the
  warnings published for it are exactly the running totals above the budget, in order.
\<close>
theorem rollups_add_up:
  assumes "mongo_collection M ob_id" and "om_ok M om" and "om_get M k om = Some d"
  shows "\<exists>e. om_get M k (fold (objective_step M sha) calls om) = Some e
    \<and> ob_costSpentCents e = ob_costSpentCents d + (\<Sum>(now, e) \<leftarrow> calls. rolled k e)
    \<and> warnings k (fold (objective_step M sha) calls om)
        = warnings k om @ overruns (ob_costBudgetCents d) (ob_costSpentCents d) (map (rolled k \<circ> snd) calls)"
  using objective_store.costs_run [OF objective_store.intro [OF assms(1)] assms(2)] assms(3) unfolding om_get_at .

definition sample_objective :: objective where
  "sample_objective = new_objective ''o1'' ''t0'' \<lparr>oi_title = ''grow'', oi_description = '''', oi_department = ''growth'', oi_priority = P1,
     oi_createdBy = ''ann'', oi_ownerAgentId = ''scout'', oi_kpis = None, oi_costBudgetCents = Some 10\<rparr>"

definition sample_objectives :: "objective list objectives" where
  "sample_objectives = \<lparr>om_collection = Some [sample_objective], om_published = [], om_audit = []\<rparr>"

theorem rollups_add_up_witness:
  "warnings ''o1'' (fold (objective_step (list_mongo ob_id) (\<lambda>s. s))
      [(''t1'', Oc_rollup ''o1'' 7), (''t2'', Oc_status ''o1'' Obj_paused), (''t3'', Oc_rollup ''o1'' 5)] sample_objectives) = [(10, 12)]"
proof -
  have get: "om_get (list_mongo ob_id) ''o1'' sample_objectives = Some sample_objective"
    by (simp add: om_get_def sample_objectives_def list_mongo_def sample_objective_def new_objective_def)
  have ok: "om_ok (list_mongo ob_id) sample_objectives"
    by (simp add: om_ok_def sample_objectives_def ids_unique_def)
  have start: "warnings ''o1'' sample_objectives = []" "ob_costBudgetCents sample_objective = 10" "ob_costSpentCents sample_objective = 0"
    by (simp_all add: warnings_def sample_objectives_def sample_objective_def new_objective_def List.map_filter_def)
  from rollups_add_up [OF list_store.mongo_collection_axioms ok get, of "\<lambda>s. s"
      "[(''t1'', Oc_rollup ''o1'' 7), (''t2'', Oc_status ''o1'' Obj_paused), (''t3'', Oc_rollup ''o1'' 5)]"]
  show ?thesis by (auto simp: start)
qed

text \<open>A report pauses the objective, if it is stored.\<close>

lemma stale_report_pauses:
  assumes "mongo_collection M ob_id" "om_ok M om" "om_get M i om = Some d"
    and "stale_record M sha now i a out (history, om) = (True, history1, om1)"
  shows "isPaused M i om1"
proof -
  from assms(3) obtain c where c: "om_collection om = Some c" by (cases "om_collection om") (auto simp: om_get_def)
  let ?u = "\<lambda>d. d\<lparr>ob_status := Obj_paused, ob_updatedAt := now\<rparr>"
  obtain res c1 where fu: "find_and_update M (\<lambda>d. ob_id d = i) ?u c = (res, c1)" by fastforce
  have "ob_at M (om\<lparr>om_collection := Some c1\<rparr>) i = Some (?u d)"
    using objective_store.update_at [OF objective_store.intro [OF assms(1)] c assms(2) _ fu] assms(3) by (simp add: om_get_at)
  moreover have "ob_at M om1 = ob_at M (om\<lparr>om_collection := Some c1\<rparr>)"
    using assms(4) fu c by (auto simp: stale_record_def om_pause_def updateStatus_def Let_def split: if_splits option.splits)
  ultimately show ?thesis by (simp add: isPaused_at)
qed

end
