(* ===== verification/Executor_Correct.thy ===== *)
theory Executor_Correct
  imports Executor ToolCalls_Correct Conversation_Correct Objectives_Correct
begin

text \<open>
  Executions of agents: they end after at most twenty-five rounds and leave nothing behind, what they execute passed the gates, what they
  send to the model begins with the prompt and answers every call, and an execution that is refused does nothing.
\<close>

section \<open>What the parts leave alone\<close>

lemma cost_frame [simp]:
  "rn_tools (record_round_cost E q i m u rt) = rn_tools rt" "rn_chats (record_round_cost E q i m u rt) = rn_chats rt"
  "rn_active (record_round_cost E q i m u rt) = rn_active rt" "rn_names (record_round_cost E q i m u rt) = rn_names rt"
  "rn_audit (record_round_cost E q i m u rt) = rn_audit rt" "rn_router (record_round_cost E q i m u rt) = rn_router rt"
  "rn_shuttingDown (record_round_cost E q i m u rt) = rn_shuttingDown rt"
  by (simp_all add: record_round_cost_def Let_def split: prod.splits)

lemma sigterm_frame [simp]:
  "rn_tools (snd (sigterm_exit E ax rt)) = rn_tools rt" "rn_chats (snd (sigterm_exit E ax rt)) = rn_chats rt"
  "rn_audit (snd (sigterm_exit E ax rt)) = rn_audit rt" "rn_router (snd (sigterm_exit E ax rt)) = rn_router rt"
  by (simp_all add: sigterm_exit_def Let_def split: prod.splits)

lemma status_frame [simp]:
  "rn_tools (write_status E a fs rt) = rn_tools rt" "rn_chats (write_status E a fs rt) = rn_chats rt"
  "rn_audit (write_status E a fs rt) = rn_audit rt" "rn_router (write_status E a fs rt) = rn_router rt"
  "rn_active (write_status E a fs rt) = rn_active rt" "rn_objectives (write_status E a fs rt) = rn_objectives rt"
  "rn_costs (write_status E a fs rt) = rn_costs rt" "rn_names (write_status E a fs rt) = rn_names rt"
  by (simp_all add: write_status_def split: option.split)

lemma count_frame [simp]:
  "rn_tools (count_execution E a i rt) = rn_tools rt" "rn_chats (count_execution E a i rt) = rn_chats rt"
  "rn_audit (count_execution E a i rt) = rn_audit rt" "rn_router (count_execution E a i rt) = rn_router rt"
  "rn_active (count_execution E a i rt) = rn_active rt" "rn_objectives (count_execution E a i rt) = rn_objectives rt"
  "rn_costs (count_execution E a i rt) = rn_costs rt"
  by (simp_all add: count_execution_def split: option.split)

lemma after_frame [simp]:
  "rn_tools (roll_up E i k rt) = rn_tools rt" "rn_chats (roll_up E i k rt) = rn_chats rt" "rn_audit (roll_up E i k rt) = rn_audit rt"
  "rn_router (roll_up E i k rt) = rn_router rt"
  "rn_tools (detect_stale E a k rt) = rn_tools rt" "rn_chats (detect_stale E a k rt) = rn_chats rt" "rn_audit (detect_stale E a k rt) = rn_audit rt"
  "rn_router (detect_stale E a k rt) = rn_router rt"
  by (simp_all add: roll_up_def detect_stale_def Let_def split: option.split prod.splits)

text \<open>The audit log keeps a record: there is a database, and the write succeeds.\<close>

definition audited :: "('c, 'o, 's, 'b) exec_env \<Rightarrow> execution_record \<Rightarrow> bool" where
  "audited E rec \<longleftrightarrow> (\<exists>succeeds \<in> set_option (xe_audit E). succeeds rec)"

lemma finish_frame [simp]:
  "rn_tools (snd (finish E rec rt)) = rn_tools rt" "rn_chats (snd (finish E rec rt)) = rn_chats rt"
  "rn_active (snd (finish E rec rt)) = None" "rn_audit (snd (finish E rec rt)) = rn_audit rt @ filter (audited E) [fst (finish E rec rt)]"
  "rn_router (snd (finish E rec rt)) = map_option (untrackExecution (er_id rec)) (rn_router rt)"
  "rn_objectives (snd (finish E rec rt)) = rn_objectives rt" "rn_costs (snd (finish E rec rt)) = rn_costs rt"
  "er_status (fst (finish E rec rt)) = er_status rec" "er_id (fst (finish E rec rt)) = er_id rec" "er_error (fst (finish E rec rt)) = er_error rec"
  by (simp_all add: finish_def Let_def recordExecution_def audited_def split: option.split)

lemma tick_frame [simp]:
  "rn_tools (tick_rt rt) = tick (rn_tools rt)" "rn_chats (tick_rt rt) = rn_chats rt" "rn_audit (tick_rt rt) = rn_audit rt"
  "rn_router (tick_rt rt) = rn_router rt" "rn_names (tick_rt rt) = rn_names rt" "rn_objectives (tick_rt rt) = rn_objectives rt"
  "rn_costs (tick_rt rt) = rn_costs rt"
  by (simp_all add: tick_rt_def)

lemma budget_frame:
  assumes "check_budget E a rt = (r, rt1)"
  shows "rn_tools rt1 = rn_tools rt \<and> rn_chats rt1 = rn_chats rt \<and> rn_audit rt1 = rn_audit rt \<and> rn_router rt1 = rn_router rt
    \<and> rn_objectives rt1 = rn_objectives rt \<and> rn_costs rt1 = rn_costs rt"
  using assms by (auto simp: check_budget_def split: option.splits prod.splits)

lemma checkpoint_frame:
  assumes "read_checkpoint E a t rt = (c, rt1)"
  shows "rn_tools rt1 = rn_tools rt \<and> rn_chats rt1 = rn_chats rt \<and> rn_audit rt1 = rn_audit rt \<and> rn_router rt1 = rn_router rt
    \<and> rn_names rt1 = rn_names rt"
  using assms by (auto simp: read_checkpoint_def split: if_splits prod.splits)

section \<open>Rounds\<close>

text \<open>
  What holds of every state of the rounds: the calls passed the gates, and a property of conversations that the prompt has and the
  rounds keep holds of all that was sent.
\<close>

definition rounds_inv ::
  "('c, 'o, 's, 'b) exec_env \<Rightarrow> exec_request \<Rightarrow> (llm_message list \<Rightarrow> bool) \<Rightarrow> ('c, 'o, 's) runtime \<Rightarrow> ('c, 'o, 's) runtime \<Rightarrow> nat \<Rightarrow> bool" where
  "rounds_inv E q P rt rt1 n \<longleftrightarrow> grows (xe_tools E) (xq_config q) (rn_tools rt) (rn_tools rt1)
     \<and> rn_audit rt1 = rn_audit rt \<and> rn_router rt1 = rn_router rt
     \<and> (\<exists>sent. rn_chats rt1 = rn_chats rt @ sent \<and> list_all P sent \<and> length sent \<le> n)"

lemma rounds_inv_refl: "rounds_inv E q P rt rt 0"
  by (simp add: rounds_inv_def)

lemma rounds_inv_trans:
  "rounds_inv E q P rt rt1 m \<Longrightarrow> rounds_inv E q P rt1 rt2 n \<Longrightarrow> rounds_inv E q P rt rt2 (m + n)"
  unfolding rounds_inv_def by (fastforce intro: grows_trans)

definition sent_form :: "('c, 'o, 's, 'b) exec_env \<Rightarrow> string \<Rightarrow> llm_message list \<Rightarrow> llm_message list" where
  "sent_form E model msgs = (if xe_compression E then cr_messages (maybeCompress (xe_haiku E) (xe_blocked E) msgs model) else msgs)"

lemma exec_round_inv:
  assumes run: "exec_round E q i model n msgs tracker rt = (res, rt1)" and P: "P (sent_form E (mc_model model) msgs)"
  shows "rounds_inv E q P rt rt1 1"
proof (cases "xq_aborted q n")
  case True
  with run show ?thesis by (simp add: exec_round_def rounds_inv_def grows_refl)
next
  case False
  let ?msgs = "sent_form E (mc_model model) msgs"
  show ?thesis
  proof (cases "xq_chat q n ?msgs")
    case None
    with run False P show ?thesis by (auto simp: exec_round_def sent_form_def [symmetric] rounds_inv_def grows_refl Let_def)
  next
    case (Some r)
    let ?rt2 = "record_round_cost E q i model (rs_usage r) (rt\<lparr>rn_chats := rn_chats rt @ [?msgs]\<rparr>)"
    obtain hs ts where hc: "handle_calls (xe_tools E) (xq_config q) (rn_names ?rt2) (rs_toolCalls r) (rn_tools ?rt2) = (hs, ts)" by fastforce
    have g: "grows (xe_tools E) (xq_config q) (rn_tools rt) ts" using handle_calls_grows [OF hc] by simp
    have "rn_tools rt1 \<in> {rn_tools rt, ts} \<and> rn_chats rt1 = rn_chats rt @ [?msgs] \<and> rn_audit rt1 = rn_audit rt \<and> rn_router rt1 = rn_router rt"
      using run False Some hc
      by (auto simp: exec_round_def sent_form_def [symmetric] Let_def split_def split: if_splits option.splits)
    with g P show ?thesis by (auto simp: rounds_inv_def grows_refl)
  qed
qed

lemma exec_round_again:
  assumes "exec_round E q i model n msgs tracker rt = (Again msgs1 tracker1, rt1)"
  shows "\<exists>content handled. msgs1 = extend_messages (sent_form E (mc_model model) msgs) content handled"
  using assms by (auto simp: exec_round_def sent_form_def [symmetric] Let_def split_def split: if_splits option.splits)

text \<open>The loop, for a property of what is sent that replies and their answers preserve.\<close>

lemma exec_rounds_inv:
  assumes "Q msgs" and sent: "\<And>msgs. Q msgs \<Longrightarrow> Q (sent_form E (mc_model model) msgs)"
    and ext: "\<And>msgs content handled. Q msgs \<Longrightarrow> Q (extend_messages msgs content handled)"
    and run: "exec_rounds E q i model n msgs tracker rt = (res, rt1)"
  shows "rounds_inv E q Q rt rt1 (nat (MAX_TOOL_ROUNDS - n))"
  using assms(1) run
proof (induction "nat (MAX_TOOL_ROUNDS - n)" arbitrary: n msgs tracker rt)
  case 0
  then show ?case using rounds_inv_refl [of E q Q rt] by (simp add: exec_rounds.simps [of E q i model n])
next
  case (Suc k)
  then have n: "n < MAX_TOOL_ROUNDS" and k: "k = nat (MAX_TOOL_ROUNDS - (n + 1))" by simp_all
  obtain re rt2 where er: "exec_round E q i model n msgs tracker rt = (re, rt2)" by fastforce
  note one = exec_round_inv [OF er, where P = Q, OF sent [OF Suc.prems(1)]]
  have mono: "rounds_inv E q Q rt rt2 1 \<Longrightarrow> rounds_inv E q Q rt rt2 (nat (MAX_TOOL_ROUNDS - n))"
    using n by (force simp: rounds_inv_def)
  show ?case
  proof (cases re)
    case (Again msgs1 tracker1)
    with er n Suc.prems(2) have rest: "exec_rounds E q i model (n + 1) msgs1 tracker1 rt2 = (res, rt1)"
      by (simp add: exec_rounds.simps [of E q i model n])
    from exec_round_again [OF er [unfolded Again]] sent [OF Suc.prems(1)] ext have "Q msgs1" by blast
    from Suc.hyps(1) [OF k this rest] have "rounds_inv E q Q rt2 rt1 (nat (MAX_TOOL_ROUNDS - (n + 1)))" .
    moreover have "1 + nat (MAX_TOOL_ROUNDS - (n + 1)) = nat (MAX_TOOL_ROUNDS - n)" using n by simp
    ultimately show ?thesis using rounds_inv_trans [OF one] by metis
  qed (use er n Suc.prems(2) one mono in \<open>auto simp: exec_rounds.simps [of E q i model n]\<close>)
qed

section \<open>A whole execution\<close>

text \<open>The outcome of an execution: ended, entered in the audit log, and nothing active or tracked any more.\<close>

definition ended ::
  "('c, 'o, 's, 'b) exec_env \<Rightarrow> exec_request \<Rightarrow> (llm_message list \<Rightarrow> bool) \<Rightarrow> nat \<Rightarrow> ('c, 'o, 's) runtime
     \<Rightarrow> execution_record \<times> ('c, 'o, 's) runtime \<Rightarrow> bool" where
  "ended E q P n rt out \<longleftrightarrow> er_status (fst out) \<noteq> Running \<and> rn_active (snd out) = None \<and> rn_audit (snd out) = rn_audit rt @ filter (audited E) [fst out]
     \<and> rn_router (snd out) = map_option (untrackExecution (er_id (fst out))) (rn_router rt)
     \<and> grows (xe_tools E) (xq_config q) (rn_tools rt) (rn_tools (snd out))
     \<and> (\<exists>sent. rn_chats (snd out) = rn_chats rt @ sent \<and> list_all P sent \<and> length sent \<le> n)"

lemma fail_ended:
  assumes "rounds_inv E q P rt rt1 n"
  shows "ended E q P n rt (fail_with E err rec rt1) \<and> er_id (fst (fail_with E err rec rt1)) = er_id rec"
  using assms by (auto simp: fail_with_def ended_def rounds_inv_def)

lemma succeed_ended:
  assumes "rounds_inv E q P rt rt1 n"
  shows "ended E q P n rt (succeed E q tracker rec rt1) \<and> er_id (fst (succeed E q tracker rec rt1)) = er_id rec"
  using assms by (auto simp: succeed_def ended_def rounds_inv_def Let_def split: option.split)

lemma frame_inv:
  "rn_tools rt1 = rn_tools rt \<or> rn_tools rt1 = tick (rn_tools rt) \<Longrightarrow> rn_chats rt1 = rn_chats rt \<Longrightarrow> rn_audit rt1 = rn_audit rt \<Longrightarrow>
     rn_router rt1 = rn_router rt \<Longrightarrow> rounds_inv E q P rt rt1 0"
  by (auto simp: rounds_inv_def intro!: grows_refl)

lemma rounds_inv_start:
  "rounds_inv E q P rt rt1 0 \<Longrightarrow> ended E q P n rt1 out \<Longrightarrow> ended E q P n rt out"
  unfolding rounds_inv_def ended_def by (auto intro: grows_trans)

text \<open>\<open>P\<close> holds of what a prompt and a checkpoint open, and rounds keep it.\<close>

definition keeps_sending ::
  "('c, 'o, 's, 'b) exec_env \<Rightarrow> exec_request \<Rightarrow> checkpoint option \<Rightarrow> (llm_message list \<Rightarrow> bool) \<Rightarrow> bool" where
  "keeps_sending E q cp P \<longleftrightarrow>
     (\<forall>content instruction live.
        xe_prompt E (xq_config q) (xq_task q) (xq_payload q) (combined_directive E q) = Some (content, instruction, live)
          \<longrightarrow> P (opening_messages content instruction live cp))
     \<and> (\<forall>msgs. P msgs \<longrightarrow> P (sent_form E (mc_model (effective_model E q)) msgs))
     \<and> (\<forall>msgs content handled. P msgs \<longrightarrow> P (extend_messages msgs content handled))"

text \<open>The requests an execution has left that resumes from a checkpoint, or from none.\<close>

definition requests_left :: "checkpoint option \<Rightarrow> nat" where
  "requests_left cp = nat (case cp of None \<Rightarrow> 25 | Some c \<Rightarrow> 25 - ck_toolCallsCompleted c)"

lemma requests_left: "nat (MAX_TOOL_ROUNDS - resume_round cp) = requests_left cp"
  by (simp add: requests_left_def MAX_TOOL_ROUNDS_def resume_round_def split: option.split)

lemma run_execution_ended:
  assumes "read_checkpoint E (ag_name (xq_config q)) (xq_task q) rt = (cp, rt1)" and "keeps_sending E q cp P"
  shows "ended E q P (requests_left cp) rt (run_execution E q rec rt) \<and> er_id (fst (run_execution E q rec rt)) = er_id rec"
proof -
  note cp = assms(1)
  let ?rt2 = "begin_execution E q (resume_round cp) rt1"
  have start: "rounds_inv E q P rt ?rt2 0"
    using checkpoint_frame [OF cp] by (intro frame_inv) (simp_all add: begin_execution_def)
  show ?thesis
  proof (cases "xe_prompt E (xq_config q) (xq_task q) (xq_payload q) (combined_directive E q)")
    case None
    then have "run_execution E q rec rt = fail_with E No_context rec ?rt2" by (simp add: run_execution_def cp)
    moreover have "rounds_inv E q P rt ?rt2 (requests_left cp)" using start by (auto simp: rounds_inv_def)
    ultimately show ?thesis using fail_ended by simp
  next
    case (Some b)
    obtain content instruction live where b: "b = (content, instruction, live)" by (cases b) auto
    let ?msgs = "opening_messages content instruction live cp"
      and ?rt3 = "?rt2\<lparr>rn_names := snd (buildToolDefinitions (xq_config q) (rn_names ?rt2))\<rparr>"
    obtain res rt4 where rounds: "exec_rounds E q (er_id rec) (effective_model E q) (resume_round cp) ?msgs new_tracker ?rt3 = (res, rt4)"
      by fastforce
    have "rounds_inv E q P ?rt3 rt4 (nat (MAX_TOOL_ROUNDS - resume_round cp))"
      by (rule exec_rounds_inv [OF _ _ _ rounds]) (use assms(2) Some b in \<open>simp_all add: keeps_sending_def\<close>)
    moreover have "rounds_inv E q P rt ?rt3 0" using start by (simp add: rounds_inv_def)
    ultimately have "rounds_inv E q P rt rt4 (0 + nat (MAX_TOOL_ROUNDS - resume_round cp))" by (rule rounds_inv_trans [rotated])
    then have inv: "rounds_inv E q P rt rt4 (requests_left cp)" by (simp add: requests_left)
    have "run_execution E q rec rt = (case res of Inl err \<Rightarrow> fail_with E err rec rt4 | Inr tracker \<Rightarrow> succeed E q tracker rec rt4)"
      by (simp add: run_execution_def cp Some b Let_def rounds split: sum.split)
    with fail_ended [OF inv] succeed_ended [OF inv] show ?thesis by (cases res) simp_all
  qed
qed

lemma entered_frame:
  "ts_calls (rn_tools (entered E q rt)) = ts_calls (rn_tools rt)" "ts_approvals (rn_tools (entered E q rt)) = ts_approvals (rn_tools rt)"
  "rn_chats (entered E q rt) = rn_chats rt" "rn_audit (entered E q rt) = rn_audit rt" "rn_objectives (entered E q rt) = rn_objectives rt"
  "rn_router (entered E q rt) = map_option (trackExecution (er_id (new_record E q rt))) (rn_router rt)"
  by (simp_all add: entered_def)

lemma status_running_inv: "rounds_inv E q P rt (status_running E a rt) 0"
  by (rule frame_inv) (simp_all add: status_running_def)

text \<open>The checkpoint from which an execution resumes, if it gets that far.\<close>

definition found_checkpoint :: "('c, 'o, 's, 'b) exec_env \<Rightarrow> exec_request \<Rightarrow> ('c, 'o, 's) runtime \<Rightarrow> checkpoint option" where
  "found_checkpoint E q rt = (let agent = ag_name (xq_config q) in
     fst (read_checkpoint E agent (xq_task q) (snd (check_budget E agent (status_running E agent (entered E q rt))))))"

lemma execute_ended:
  fixes E :: "('c, 'o, 's, 'b) exec_env" and rt :: "('c, 'o, 's) runtime" and q :: exec_request
  defines "n \<equiv> requests_left (found_checkpoint E q rt)"
  assumes "keeps_sending E q (found_checkpoint E q rt) P"
  shows "ended E q P n (entered E q rt) (execute E q rt) \<and> er_id (fst (execute E q rt)) = er_id (new_record E q rt)"
proof (cases "shutting_down (entered E q rt)")
  case True
  then have "execute E q rt = fail_with E Shutdown_in_progress (new_record E q rt) (entered E q rt)" by (simp add: execute_def Let_def)
  moreover have "rounds_inv E q P (entered E q rt) (entered E q rt) n" by (simp add: rounds_inv_def grows_refl)
  ultimately show ?thesis using fail_ended by simp
next
  case False
  let ?rt1 = "status_running E (ag_name (xq_config q)) (entered E q rt)" and ?rec = "new_record E q rt"
  have one: "rounds_inv E q P (entered E q rt) ?rt1 n"
    using status_running_inv [of E q P "entered E q rt" "ag_name (xq_config q)"] by (auto simp: rounds_inv_def)
  obtain r rt2 where cb: "check_budget E (ag_name (xq_config q)) ?rt1 = (r, rt2)" by fastforce
  have two: "rounds_inv E q P (entered E q rt) rt2 0"
    using rounds_inv_trans [OF status_running_inv frame_inv] budget_frame [OF cb] by fastforce
  then have two_n: "rounds_inv E q P (entered E q rt) rt2 n" by (auto simp: rounds_inv_def)
  show ?thesis
  proof (cases "objective_paused E q ?rt1")
    case (Some i)
    with False have "execute E q rt = fail_with E (Objective_paused i) ?rec ?rt1" by (simp add: execute_def Let_def)
    with fail_ended [OF one] show ?thesis by simp
  next
    case None
    consider res where "r = Some res" "\<not> allowed res" | "r = None \<or> (\<exists>res. r = Some res \<and> allowed res)" by (cases r) auto
    then show ?thesis
    proof cases
      case (1 res)
      with None False cb have "execute E q rt = fail_with E (Over_budget (r_reason res)) ?rec rt2" by (simp add: execute_def Let_def)
      with fail_ended [OF two_n] show ?thesis by simp
    next
      case 2
      with None False cb have "execute E q rt = run_execution E q ?rec rt2" by (auto simp: execute_def Let_def)
      moreover obtain cp rt3 where c: "read_checkpoint E (ag_name (xq_config q)) (xq_task q) rt2 = (cp, rt3)" by fastforce
      moreover have "found_checkpoint E q rt = cp" using c cb by (simp add: found_checkpoint_def Let_def)
      ultimately show ?thesis
        using run_execution_ended [OF c, of P ?rec] rounds_inv_start [OF two] assms(2) by (simp add: n_def)
    qed
  qed
qed

lemma sends_anything: "keeps_sending E q cp (\<lambda>_. True)"
  by (simp add: keeps_sending_def)

text \<open>
  C9: every call that an execution makes on an action executor was made by the call of a tool, in a state on the way from the start of the
  execution to its end, and in that state passed the gates: the agent has an action with the prefix; the safety gate let the tool's arguments pass,
  with the clock and the memory of posts of that state; where requests for approval are stored, no approval gate is set on the action and the
  cost gate did not close; and the arguments of the call are those of the tool, directed to the agent's own channels.
\<close>
theorem executed_calls_passed_the_gates:
  "let start = rn_tools (entered E q rt); end = rn_tools (snd (execute E q rt)); n = length (ts_calls (rn_tools rt))
   in ts_dedup start = ts_dedup (rn_tools rt) \<and> ts_approvals start = ts_approvals (rn_tools rt)
      \<and> take n (ts_calls end) = ts_calls (rn_tools rt)
      \<and> list_all (made_between (xe_tools E) (xq_config q) (persistent (ts_approvals (rn_tools rt))) start end)
          (enumerate n (drop n (ts_calls end)))"
proof -
  have "ts_dedup (rn_tools (entered E q rt)) = ts_dedup (rn_tools rt)" by (simp add: entered_def tick_rt_def tick_def)
  moreover from execute_ended [OF sends_anything, of E q rt]
  have "grows (xe_tools E) (xq_config q) (rn_tools (entered E q rt)) (rn_tools (snd (execute E q rt)))" by (simp add: ended_def)
  ultimately show ?thesis using grows_calls by (fastforce simp: entered_frame Let_def)
qed

text \<open>
  An agent's posts to Discord go to its department's channel; those of the support agents go there or to a support channel, unless no
  channel is configured for them at all.
\<close>
theorem discord_posts_stay_in_department:
  "list_all (post_allowed (xe_tools E) (xq_config q))
     (drop (length (ts_calls (rn_tools rt))) (ts_calls (rn_tools (snd (execute E q rt)))))"
proof -
  from execute_ended [OF sends_anything, of E q rt]
  have "grows (xe_tools E) (xq_config q) (rn_tools (entered E q rt)) (rn_tools (snd (execute E q rt)))" by (simp add: ended_def)
  from grows_calls [OF this] obtain new where new: "ts_calls (rn_tools (snd (execute E q rt))) = ts_calls (rn_tools rt) @ new"
    "list_all (\<lambda>kc. post_allowed (xe_tools E) (xq_config q) (snd kc)) (enumerate (length (ts_calls (rn_tools rt))) new)"
    using made_post by (fastforce simp: entered_frame list_all_iff)
  from new(2) have "list_all (post_allowed (xe_tools E) (xq_config q)) (map snd (enumerate (length (ts_calls (rn_tools rt))) new))"
    by (simp only: list.pred_map comp_def)
  with new(1) show ?thesis by simp
qed

text \<open>
  C14: an execution ends, completed or failed, after at most twenty-five requests to the model, less the rounds that the checkpoint counts from which
  it resumes; then no execution is active, the router does not track it, and the audit log has its record added if the log has a database and the write
  succeeds, and is otherwise unchanged.
\<close>
theorem execution_always_ends:
  "let (rec, rt1) = execute E q rt
   in er_status rec \<noteq> Running \<and> er_id rec = er_id (new_record E q rt) \<and> rn_active rt1 = None
      \<and> rn_audit rt1 = rn_audit rt @ (if audited E rec then [rec] else [])
      \<and> (case rn_router rt1 of None \<Rightarrow> True | Some r \<Rightarrow> er_id rec \<notin> set (inFlightExecutions r))
      \<and> take (length (rn_chats rt)) (rn_chats rt1) = rn_chats rt
      \<and> length (rn_chats rt1) \<le> length (rn_chats rt) + requests_left (found_checkpoint E q rt)"
  using execute_ended [OF sends_anything, of E q rt]
  by (auto simp: ended_def entered_frame untrackExecution_def case_prod_beta split: option.split)

section \<open>Conversations\<close>

text \<open>
  What every conversation of an execution begins with: the system prompt, the task, the live data, and where the checkpoint left off;
  nothing if there is no prompt.
\<close>

definition first_messages :: "('c, 'o, 's, 'b) exec_env \<Rightarrow> exec_request \<Rightarrow> ('c, 'o, 's) runtime \<Rightarrow> llm_message list" where
  "first_messages E q rt = (case xe_prompt E (xq_config q) (xq_task q) (xq_payload q) (combined_directive E q) of
     None \<Rightarrow> []
   | Some (content, instruction, live) \<Rightarrow>
       [\<lparr>msg_role = System, msg_content = content, msg_toolCallId = None, msg_toolCalls = None\<rparr>,
        \<lparr>msg_role = User, msg_content = instruction, msg_toolCallId = None, msg_toolCalls = None\<rparr>]
       @ (case live of None \<Rightarrow> [] | Some d \<Rightarrow> [\<lparr>msg_role = User, msg_content = d, msg_toolCallId = None, msg_toolCalls = None\<rparr>])
       @ (case found_checkpoint E q rt of None \<Rightarrow> [] | Some c \<Rightarrow> [resume_message c]))"

lemma opening_first:
  "xe_prompt E (xq_config q) (xq_task q) (xq_payload q) (combined_directive E q) = Some (content, instruction, live) \<Longrightarrow>
     opening_messages content instruction live (found_checkpoint E q rt) = first_messages E q rt"
  by (simp add: first_messages_def opening_messages_def buildMessages_def plain_msg_def split: option.split)

lemma first_opens: "list_all opens (first_messages E q rt)"
  by (auto simp: first_messages_def opens_def resume_message_def plain_msg_def split: option.split)

lemma extend_well_formed:
  "list_all opens os \<Longrightarrow> well_formed os msgs \<Longrightarrow> well_formed os (extend_messages msgs content handled)"
  unfolding extend_messages_def
  by (intro well_formed_append answered_calls [where tcs = "map fst handled"]) (auto simp: assistant_msg_def tool_msg_def)

lemma sends_well_formed:
  "keeps_sending E q (found_checkpoint E q rt) (\<lambda>msgs. 2 \<le> length (first_messages E q rt) \<and> well_formed (first_messages E q rt) msgs)"
proof -
  have "well_formed (first_messages E q rt) (first_messages E q rt)"
    using answered_opening [OF first_opens, where ms = "[]"] by (simp add: well_formed_def)
  moreover have "2 \<le> length (first_messages E q rt)"
    if "xe_prompt E (xq_config q) (xq_task q) (xq_payload q) (combined_directive E q) = Some p" for p
    using that by (cases p) (simp add: first_messages_def)
  moreover have "well_formed (first_messages E q rt) (sent_form E m msgs)"
    if "2 \<le> length (first_messages E q rt)" "well_formed (first_messages E q rt) msgs" for m msgs
    using compress_well_formed [OF first_opens that] that(2) by (simp add: sent_form_def)
  ultimately show ?thesis using extend_well_formed [OF first_opens]
    unfolding keeps_sending_def by (auto simp: opening_first)
qed

text \<open>
  C30: every conversation that an execution sends to the model, compressed or not, resumed or not, begins with the system prompt and the
  task, followed by the live data and by the notice of the checkpoint if there are such, and every call of a tool in it is answered by the messages
  that follow the call, in order.  Without a prompt nothing is sent.
\<close>
theorem conversations_well_formed:
  "list_all (\<lambda>msgs. 2 \<le> length (first_messages E q rt) \<and> take (length (first_messages E q rt)) msgs = first_messages E q rt \<and> answered [] msgs)
     (drop (length (rn_chats rt)) (rn_chats (snd (execute E q rt))))"
  using execute_ended [OF sends_well_formed, of E q rt] by (auto simp: ended_def entered_frame list_all_iff well_formed_def)


section \<open>Refused executions\<close>

lemma entered_tools:
  "ts_files (rn_tools (entered E q rt)) = ts_files (rn_tools rt)" "ts_dedup (rn_tools (entered E q rt)) = ts_dedup (rn_tools rt)"
  "rn_costs (entered E q rt) = rn_costs rt" "shutting_down (entered E q rt) = shutting_down rt"
  by (simp_all add: entered_def tick_rt_def tick_def shutting_down_def trackExecution_def option.case_eq_if map_option_case)

lemma paused_entered:
  "objective_paused E q (status_running E a (entered E q rt)) = objective_paused E q rt"
  by (simp add: objective_paused_def status_running_def entered_frame)

definition untouched :: "('c, 'o, 's) runtime \<Rightarrow> ('c, 'o, 's) runtime \<Rightarrow> bool" where
  "untouched rt rt1 \<longleftrightarrow> rn_chats rt1 = rn_chats rt \<and> rn_costs rt1 = rn_costs rt \<and> rn_objectives rt1 = rn_objectives rt
     \<and> ts_calls (rn_tools rt1) = ts_calls (rn_tools rt) \<and> ts_files (rn_tools rt1) = ts_files (rn_tools rt)
     \<and> ts_dedup (rn_tools rt1) = ts_dedup (rn_tools rt) \<and> ts_approvals (rn_tools rt1) = ts_approvals (rn_tools rt)"

lemma untouched_fail:
  "untouched rt rt1 \<Longrightarrow> untouched rt (snd (fail_with E err rec rt1)) \<and> er_status (fst (fail_with E err rec rt1)) = Failed"
  by (simp add: untouched_def fail_with_def)

lemma untouched_entered: "untouched rt (entered E q rt)" "untouched rt (status_running E a (entered E q rt))"
  by (simp_all add: untouched_def entered_frame entered_tools status_running_def)

text \<open>
  C28: an execution that starts during a shutdown, for a paused objective, or for an agent that the budget enforcer denies, fails without a request
  to the model, a call of an executor, a change of a file or a cost.
\<close>
theorem refused_executions_do_nothing:
  assumes "execute E q rt = (rec, rt1)"
    and "shutting_down rt
      \<or> (\<exists>i om. objective_of (xq_payload q) = Some i \<and> rn_objectives rt = Some om \<and> isPaused (xe_objectives E) i om)
      \<or> (\<exists>res rt2. check_budget E (ag_name (xq_config q)) (status_running E (ag_name (xq_config q)) (entered E q rt)) = (Some res, rt2)
            \<and> \<not> allowed res)"
  shows "er_status rec = Failed \<and> untouched rt rt1"
proof -
  let ?rt1 = "status_running E (ag_name (xq_config q)) (entered E q rt)"
  obtain r rt2 where cb: "check_budget E (ag_name (xq_config q)) ?rt1 = (r, rt2)" by fastforce
  have u2: "untouched rt rt2"
    using budget_frame [OF cb] untouched_entered(2) [of rt E "ag_name (xq_config q)" q] by (simp add: untouched_def)
  have "\<exists>err rt0. execute E q rt = fail_with E err (new_record E q rt) rt0 \<and> untouched rt rt0"
  proof (cases "shutting_down rt")
    case True
    then have "execute E q rt = fail_with E Shutdown_in_progress (new_record E q rt) (entered E q rt)"
      by (simp add: execute_def Let_def entered_tools)
    with untouched_entered(1) show ?thesis by blast
  next
    case run: False
    show ?thesis
    proof (cases "objective_paused E q ?rt1")
      case (Some i)
      with run have "execute E q rt = fail_with E (Objective_paused i) (new_record E q rt) ?rt1"
        by (simp add: execute_def Let_def entered_tools)
      with untouched_entered(2) show ?thesis by blast
    next
      case None
      with assms(2) run obtain res where "r = Some res" "\<not> allowed res"
        unfolding paused_entered using cb by (auto simp: objective_paused_def)
      with None run cb have "execute E q rt = fail_with E (Over_budget (r_reason res)) (new_record E q rt) rt2"
        by (simp add: execute_def Let_def entered_tools)
      with u2 show ?thesis by blast
    qed
  qed
  then obtain err rt0 where "execute E q rt = fail_with E err (new_record E q rt) rt0" "untouched rt rt0" by blast
  with untouched_fail assms(1) show ?thesis by (metis fst_conv snd_conv)
qed

definition sample_tool_env :: "approval_request list tool_env" where
  "sample_tool_env = \<lparr>te_registry = [(''github'', \<lambda>cs a p. Inr \<lparr>ar_success = True, ar_data = JNum 1, ar_error = None\<rparr>)],
     te_sha256 = (\<lambda>s. s), te_now = int, te_uuid = (\<lambda>n. dec_nat n), te_iso = dec_int, te_getenv = (\<lambda>s. None), te_agents = [],
     te_cost = (\<lambda>n. None), te_mode = Strict, te_threshold = None, te_budget_mode = None, te_mongo = list_mongo ap_id,
     te_self = \<lparr>se_root = ''/app'', se_prompts = ''/app/prompts'', se_config = (\<lambda>a. None), se_parse = (\<lambda>s. None), se_print = (\<lambda>k. [])\<rparr>,
     te_self_rest = (\<lambda>a m j. Tool_error), te_self_json = (\<lambda>r. JNull), te_reason = (\<lambda>v. []), te_humanize = None, te_review = (\<lambda>j. None), te_audit = (\<lambda>e. False)\<rparr>"

definition sample_exec_env :: "(approval_request list, objective list, ref_db, agent_budget list) exec_env" where
  "sample_exec_env = \<lparr>xe_tools = sample_tool_env, xe_objectives = list_mongo ob_id, xe_budgets = list_mongo bg_agentId, xe_budget_doc = None,
     xe_budget_db = None, xe_scanned = ([], []), xe_redis = Some ref_redis, xe_status_redis = True, xe_checkpoints = True, xe_costs = True,
     xe_date = parse_int, xe_sha16 = (\<lambda>s. s), xe_ecsTaskArn = [], xe_overlay = (\<lambda>d a. None),
     xe_prompt = (\<lambda>c t p d. Some (''system'', ''task'', None)), xe_compression = False, xe_haiku = (\<lambda>s. None), xe_blocked = (\<lambda>s. False), xe_audit = None\<rparr>"

definition sample_runtime :: "objective list objectives \<Rightarrow> (approval_request list, objective list, ref_db) runtime" where
  "sample_runtime om = \<lparr>rn_tools = \<lparr>ts_tick = 0, ts_calls = [], ts_dedup = [], ts_approvals = None, ts_files = [], ts_audit = [], ts_actions = [],
     ts_selfmods = [], ts_review = None, ts_cache = []\<rparr>, rn_names = [], rn_router = None, rn_objectives = Some om, rn_stale = Some [],
     rn_budget = None, rn_redis = db_empty, rn_costs = [], rn_active = None, rn_shuttingDown = False, rn_chats = [], rn_audit = []\<rparr>"

definition silent_request :: exec_request where
  "silent_request = \<lparr>xq_config = sample_agent ''sentinel'' ''operations'' sentinel_actions, xq_task = ''audit'', xq_trigger = ''cron'',
     xq_payload = Some [(''objectiveId'', JStr ''o1'')], xq_model = None, xq_directive = None, xq_aborted = (\<lambda>n. False),
     xq_sigterm = (\<lambda>n. False), xq_chat = (\<lambda>n ms. None)\<rparr>"

lemma refused_executions_do_nothing_witness:
  "er_status (fst (execute sample_exec_env silent_request
       (sample_runtime (snd (om_pause (list_mongo ob_id) ''t1'' ''o1'' sample_objectives))))) = Failed"
proof -
  let ?om = "snd (om_pause (list_mongo ob_id) ''t1'' ''o1'' sample_objectives)"
  obtain rec rt1 where run: "execute sample_exec_env silent_request (sample_runtime ?om) = (rec, rt1)" by fastforce
  have "isPaused (list_mongo ob_id) ''o1'' ?om" by code_simp
  then have "objective_of (xq_payload silent_request) = Some ''o1''" "rn_objectives (sample_runtime ?om) = Some ?om"
    "isPaused (xe_objectives sample_exec_env) ''o1'' ?om"
    by (simp_all add: silent_request_def sample_runtime_def sample_exec_env_def objective_of_def arg_def)
  then have "er_status rec = Failed \<and> untouched (sample_runtime ?om) rt1"
    by (intro refused_executions_do_nothing [OF run]) blast
  with run show ?thesis by simp
qed

section \<open>Repetitions\<close>

text \<open>What an execution wrote or read does not count for the detector of stale loops.\<close>

lemma fingerprint_ignores_details:
  "map (\<lambda>a. (ta_action a, ta_success a)) as = map (\<lambda>a. (ta_action a, ta_success a)) bs \<Longrightarrow> fingerprint as = fingerprint bs"
proof -
  have "fingerprint as = json_stringify (JArr (map ((\<lambda>(n, s). JObj [(''action'', JStr n), (''result'', JStr (if s then ''success'' else ''failure''))])
     \<circ> (\<lambda>a. (ta_action a, ta_success a))) as))" for as
    by (simp add: fingerprint_def comp_def)
  then show "map (\<lambda>a. (ta_action a, ta_success a)) as = map (\<lambda>a. (ta_action a, ta_success a)) bs \<Longrightarrow> fingerprint as = fingerprint bs"
    by (simp del: map_map flip: map_map)
qed

text \<open>Three executions that take the same kinds of actions, with whatever contents, pause their objective.\<close>

lemma different_work_looks_stale:
  assumes "map (\<lambda>a. (ta_action a, ta_success a)) bs = map (\<lambda>a. (ta_action a, ta_success a)) as"
    and "map (\<lambda>a. (ta_action a, ta_success a)) cs = map (\<lambda>a. (ta_action a, ta_success a)) as"
  shows "stale_run M sha16 [(t1, i, agent, fingerprint as), (t2, i, agent, fingerprint bs), (t3, i, agent, fingerprint cs)] ([], om)
    = [False, False, True]"
proof -
  have "fingerprint bs = fingerprint as" "fingerprint cs = fingerprint as" using assms by (auto intro: fingerprint_ignores_details)
  moreover have "history_ok []" by (simp add: history_ok_def)
  ultimately show ?thesis by (simp add: stale_run_counts abs_hashes_def count_up_def STALE_THRESHOLD_def del: stale_run.simps)
qed

section \<open>Interruptions\<close>

text \<open>An execution resumed after its last round ends as completed without a request to the model.\<close>

lemma exhausted_resume_completes:
  assumes "read_checkpoint E (ag_name (xq_config q)) (xq_task q) rt = (Some c, rt1)" and "25 \<le> ck_toolCallsCompleted c"
    and "xe_prompt E (xq_config q) (xq_task q) (xq_payload q) (combined_directive E q) = Some p"
  shows "er_status (fst (run_execution E q rec rt)) = Completed \<and> rn_chats (snd (run_execution E q rec rt)) = rn_chats rt"
proof -
  have "\<not> ck_toolCallsCompleted c < MAX_TOOL_ROUNDS" using assms(2) by (simp add: MAX_TOOL_ROUNDS_def)
  with assms(1,3) checkpoint_frame [OF assms(1)] show ?thesis
    by (cases p) (simp add: run_execution_def resume_round_def exec_rounds.simps succeed_def begin_execution_def Let_def split: option.split)
qed

text \<open>
  The active execution is one for all executions: the one that began last names the checkpoint of any, and the first that ends
  leaves the others without one.
\<close>

lemma checkpoint_names_last_begun:
  assumes "rn_active rt = Some ax" "rn_shuttingDown rt" "\<not> xq_aborted q n" "xq_chat q n (sent_form E (mc_model model) msgs) = Some r"
    "rs_toolCalls r \<noteq> []"
    "fst (handle_calls (xe_tools E) (xq_config q) (rn_names rt) (rs_toolCalls r) (rn_tools rt)) \<noteq> None"
  shows "\<exists>saved. fst (exec_round E q i model n msgs tracker rt) = Stop (Sigterm saved)
    \<and> (\<exists>rt0 ax1. ax_agentId ax1 = ax_agentId ax \<and> ax_taskKey ax1 = ax_taskKey ax \<and> ax_toolCallsCompleted ax1 = n + 1
         \<and> snd (exec_round E q i model n msgs tracker rt) = snd (sigterm_exit E ax1 rt0))"
proof -
  have "\<exists>saved rt0. exec_round E q i model n msgs tracker rt
      = (Stop (Sigterm saved), snd (sigterm_exit E (note_progress (rn_names rt) (n + 1) r ax) rt0))"
    using assms by (fastforce simp: exec_round_def sent_form_def [symmetric] Let_def split_def)
  then obtain saved rt0 where "exec_round E q i model n msgs tracker rt
      = (Stop (Sigterm saved), snd (sigterm_exit E (note_progress (rn_names rt) (n + 1) r ax) rt0))" by blast
  then show ?thesis
    by (intro exI [of _ saved] conjI exI [of _ rt0] exI [of _ "note_progress (rn_names rt) (n + 1) r ax"]) (simp_all add: note_progress_def)
qed

lemma no_checkpoint_without_active:
  "rn_active rt = None \<Longrightarrow> fst (exec_round E q i model n msgs tracker rt) \<noteq> Stop (Sigterm saved)"
  by (auto simp: exec_round_def Let_def split_def split: option.splits if_splits)

lemma any_end_clears_active: "rn_active (snd (execute E q rt)) = None"
  using execute_ended [OF sends_anything, of E q rt] by (simp add: ended_def)

end
