(* ===== verification/OperatorAuth.thy ===== *)
theory OperatorAuth
  imports Permission RateLimiter Mongo Json
begin

text \<open>
  Who a request of the operator interface acts for: operators and invitations (\<open>operators/types.ts\<close>), API keys and
  invitation tokens (\<open>operators/api-keys.ts\<close>), their store (\<open>operators/operator-store.ts\<close>), the audit log
  (\<open>operators/audit-logger.ts\<close>), the gates in front of the routes (\<open>triggers/webhook.ts\<close>) and the middlewares
  (\<open>operators/middleware.ts\<close>).

  The hash functions, the check of a key against its hash, the recognition of e-mail addresses and the way the
  web framework compares the text of a path with its routes are fields of the environment; a request brings the clock
  reading and the random texts that its handling uses.  A failing call of Redis and the index of Tailscale addresses,
  which stays empty, are left out.
\<close>

section \<open>Operators and invitations\<close>

datatype op_status = Op_invited | Op_active | Op_suspended | Op_revoked
datatype cross_policy = Policy_request | Policy_none

record full_operator = operator +
  fo_displayName :: string
  fo_role :: string
  fo_email :: string
  fo_apiKeyHash :: string
  fo_apiKeyPrefix :: string
  fo_tailscaleNodeId :: "string option"
  fo_roleIds :: "string list"
  fo_priorityClass :: int
  fo_crossDeptPolicy :: cross_policy
  fo_limits :: rate_limits
  fo_status :: op_status
  fo_invitedBy :: "string option"
  fo_createdAt :: int
  fo_updatedAt :: int
  fo_lastActiveAt :: "int option"
  fo_revokedAt :: "int option"
  fo_revokedReason :: "string option"
  fo_slackUserId :: "string option"
  fo_slackChannelId :: "string option"
  fo_openClaw :: "(string \<times> string option) option"

datatype inv_status = Inv_pending | Inv_accepted | Inv_expired | Inv_revoked

record intended_limits =
  il_requestsPerMinute :: "int option"
  il_maxConcurrentTasks :: "int option"
  il_dailyTaskQuota :: "int option"

record invitation =
  inv_id :: string
  inv_email :: string
  inv_displayName :: string
  inv_role :: string
  inv_tier :: tier
  inv_departments :: "string list"
  inv_limits :: "intended_limits option"
  inv_tokenHash :: string
  inv_status :: inv_status
  inv_createdBy :: string
  inv_createdAt :: int
  inv_expiresAt :: int
  inv_acceptedAt :: "int option"
  inv_acceptedBy :: "string option"

section \<open>API keys and invitation tokens\<close>

definition API_KEY_PREFIX :: string where "API_KEY_PREFIX = ''gzop_live_''"
definition INVITE_TOKEN_PREFIX :: string where "INVITE_TOKEN_PREFIX = ''gzinv_''"

text \<open>The key, its prefix and its hash, from the random text of the key; the hash function comes with its salt.\<close>

definition generateApiKey :: "(string \<Rightarrow> string) \<Rightarrow> string \<Rightarrow> string \<times> string \<times> string" where
  "generateApiKey hashKey random = (let key = API_KEY_PREFIX @ random in (key, take 8 random, hashKey key))"

definition extractKeyPrefix :: "string \<Rightarrow> string option" where
  "extractKeyPrefix key =
     (if \<not> starts_with key API_KEY_PREFIX then None
      else let rest = drop (length API_KEY_PREFIX) key
           in if length rest < 8 then None else Some (take 8 rest))"

definition generateInviteToken :: "(string \<Rightarrow> string) \<Rightarrow> string \<Rightarrow> string \<times> string" where
  "generateInviteToken sha256 random = (let token = INVITE_TOKEN_PREFIX @ random in (token, sha256 token))"

section \<open>The environment, the requests and the world\<close>

record ('o, 'i, 's) op_env =
  oe_operators :: "('o, full_operator) mongo"
  oe_invitations :: "('i, invitation) mongo"
  oe_redis :: "'s redis option"
  oe_limiter :: "'s redis option"
  oe_iso :: "int \<Rightarrow> string"
  oe_sha256 :: "string \<Rightarrow> string"
  oe_hash :: "string \<Rightarrow> string \<Rightarrow> string"
  oe_verify :: "string \<Rightarrow> string \<Rightarrow> bool"
  oe_isEmail :: "string \<Rightarrow> bool"
  oe_fold :: "string \<Rightarrow> string"
  oe_roles :: role_store
  oe_rootOperatorId :: string
  oe_setupToken :: "string option"
  oe_apiKey :: string
  oe_production :: bool

text \<open>
  \<open>oe_hash salt key\<close> is a hash of a key, \<open>oe_verify key stored\<close> the check; \<open>oe_limiter\<close> is the server of the rate limiter.
  \<open>oe_fold\<close> is what the web framework does to a path before it compares it with a route: the identity when
  routing is case-sensitive, lower-casing by default.
\<close>

record http_request =
  rq_method :: string
  rq_path :: string
  rq_authorization :: "string option"
  rq_apiKey :: "string option"
  rq_forwardedFor :: "string option"
  rq_ip :: "string option"
  rq_body :: json
  rq_now :: int
  rq_random :: string
  rq_salt :: string
  rq_uuid8 :: string
  rq_rnd :: int

record op_audit_entry =
  oa_timestamp :: int
  oa_operatorId :: string
  oa_action :: string
  oa_resourceType :: string
  oa_resourceId :: string
  oa_method :: string
  oa_path :: string
  oa_ip :: string
  oa_allowed :: bool
  oa_reason :: "string option"

record bootstrap_state =
  boot_attempts :: nat
  boot_locked :: bool

record ('o, 'i, 's) op_world =
  ow_operators :: 'o
  ow_invitations :: 'i
  ow_redis :: 's
  ow_limits :: 's
  ow_root :: "full_operator option"
  ow_bootstrap :: bootstrap_state
  ow_audit :: "op_audit_entry list"

section \<open>The store\<close>

definition createOperator where
  "createOperator E (data :: full_operator) w = map_option (\<lambda>c. w\<lparr>ow_operators := c\<rparr>) (insertOne (oe_operators E) data (ow_operators w))"

definition getByOperatorId where
  "getByOperatorId E operatorId w = findOne (oe_operators E) (\<lambda>d :: full_operator. op_id d = operatorId) (ow_operators w)"

definition getByApiKeyPrefix where
  "getByApiKeyPrefix E prefix w = findOne (oe_operators E) (\<lambda>d. fo_apiKeyPrefix d = prefix) (ow_operators w)"

definition getByEmail where
  "getByEmail E email w = findOne (oe_operators E) (\<lambda>d. fo_email d = email) (ow_operators w)"

definition updateOperator :: "('o, 'i, 's) op_env \<Rightarrow> string \<Rightarrow> (full_operator \<Rightarrow> full_operator) \<Rightarrow> ('o, 'i, 's) op_world \<Rightarrow> ('o, 'i, 's) op_world" where
  "updateOperator E operatorId f w =
     w\<lparr>ow_operators := snd (updateOne (oe_operators E) (\<lambda>d. op_id d = operatorId) f (ow_operators w))\<rparr>"

definition op_updateStatus where
  "op_updateStatus E now operatorId status (why :: string option) w =
     updateOperator E operatorId (\<lambda>d.
       let d1 = d\<lparr>fo_status := status, fo_updatedAt := now\<rparr>
       in if status = Op_revoked
          then (let d2 = d1\<lparr>fo_revokedAt := Some now\<rparr>
                in if why \<noteq> None \<and> why \<noteq> Some '''' then d2\<lparr>fo_revokedReason := why\<rparr> else d2)
          else d1) w"

definition updateApiKey where
  "updateApiKey E now operatorId hash prefix w =
     updateOperator E operatorId (\<lambda>d. d\<lparr>fo_apiKeyHash := hash, fo_apiKeyPrefix := prefix, fo_updatedAt := now\<rparr>) w"

definition updateLastActive where
  "updateLastActive E now operatorId w = updateOperator E operatorId (\<lambda>d. d\<lparr>fo_lastActiveAt := Some now\<rparr>) w"

text \<open>The newest first; of those created at the same time the store may answer any order.\<close>

definition listOperators where
  "listOperators E status (t :: tier option) w =
     sort_key (\<lambda>d. - fo_createdAt d) (find_all (oe_operators E)
       (\<lambda>d. (status = None \<or> status = Some (fo_status d)) \<and> (t = None \<or> t = Some (op_tier d))) (ow_operators w))"

definition countByStatus where
  "countByStatus E status w = length (find_all (oe_operators E) (\<lambda>d. fo_status d = status) (ow_operators w))"

definition countOperators where
  "countOperators E w = length (find_all (oe_operators E) (\<lambda>d. True) (ow_operators w))"

definition createInvitation where
  "createInvitation E (data :: invitation) w = map_option (\<lambda>c. w\<lparr>ow_invitations := c\<rparr>) (insertOne (oe_invitations E) data (ow_invitations w))"

definition getInvitationByTokenHash where
  "getInvitationByTokenHash E tokenHash w = findOne (oe_invitations E) (\<lambda>d. inv_tokenHash d = tokenHash) (ow_invitations w)"

definition acceptInvitation where
  "acceptInvitation E now invitationId operatorId w =
     w\<lparr>ow_invitations := snd (updateOne (oe_invitations E) (\<lambda>d. inv_id d = invitationId)
        (\<lambda>d. d\<lparr>inv_status := Inv_accepted, inv_acceptedAt := Some now, inv_acceptedBy := Some operatorId\<rparr>) (ow_invitations w))\<rparr>"

definition expireInvitations where
  "expireInvitations E now w =
     (let (n, c) = updateMany (oe_invitations E) (\<lambda>d. inv_status d = Inv_pending \<and> inv_expiresAt d < now)
            (\<lambda>d. d\<lparr>inv_status := Inv_expired\<rparr>) (ow_invitations w)
      in (n, w\<lparr>ow_invitations := c\<rparr>))"

section \<open>Audit\<close>

text \<open>\<open>getIp\<close>; an empty header is falsy.\<close>

definition request_ip :: "http_request \<Rightarrow> string" where
  "request_ip q = (case rq_forwardedFor q of Some (c # cs) \<Rightarrow> c # cs
     | _ \<Rightarrow> (case rq_ip q of Some (c # cs) \<Rightarrow> c # cs | _ \<Rightarrow> ''unknown''))"

definition oa_log where
  "oa_log (entry :: op_audit_entry) w = w\<lparr>ow_audit := ow_audit w @ [entry]\<rparr>"

definition oa_allowed_entry :: "http_request \<Rightarrow> string \<Rightarrow> string \<Rightarrow> string \<Rightarrow> string \<Rightarrow> string \<Rightarrow> string option \<Rightarrow> op_audit_entry" where
  "oa_allowed_entry q operatorId act rtype rid path why = \<lparr>oa_timestamp = rq_now q, oa_operatorId = operatorId, oa_action = act,
     oa_resourceType = rtype, oa_resourceId = rid, oa_method = ''POST'', oa_path = path, oa_ip = request_ip q, oa_allowed = True, oa_reason = why\<rparr>"

definition logDenied where
  "logDenied operatorId q why w = oa_log \<lparr>oa_timestamp = rq_now q, oa_operatorId = operatorId, oa_action = ''auth.denied'',
     oa_resourceType = ''api'', oa_resourceId = rq_path q, oa_method = rq_method q, oa_path = rq_path q, oa_ip = request_ip q,
     oa_allowed = False, oa_reason = Some why\<rparr> w"

definition oa_getByOperator where
  "oa_getByOperator operatorId n w = mongo_limit n (rev (filter (\<lambda>e. oa_operatorId e = operatorId) (ow_audit w)))"

definition oa_getRecent where
  "oa_getRecent n w = mongo_limit n (rev (ow_audit w))"

text \<open>The log is in the order of its times.  No entry carries a department, so that a filter on one finds nothing.\<close>

definition oa_queryFiltered where
  "oa_queryFiltered operatorId act department from_at to_at n w = mongo_limit n (rev (filter (\<lambda>e.
      (operatorId \<in> {None, Some ''''} \<or> operatorId = Some (oa_operatorId e)) \<and> (act \<in> {None, Some ''''} \<or> act = Some (oa_action e))
      \<and> department \<in> {None, Some ('''' :: string)} \<and> (case from_at of None \<Rightarrow> True | Some t \<Rightarrow> t \<le> oa_timestamp e)
      \<and> (case to_at of None \<Rightarrow> True | Some t \<Rightarrow> oa_timestamp e \<le> t)) (ow_audit w)))"

section \<open>Gates in front of the routes\<close>

text \<open>\<open>parseInt(s, 10)\<close>: spaces, a sign, then the digits up to the first other character.\<close>

definition js_parseInt :: "string \<Rightarrow> int option" where
  "js_parseInt s =
     (let t = dropWhile js_space s;
          (neg, u) = (case t of [] \<Rightarrow> (False, t) | c # cs \<Rightarrow> if c = CHR ''-'' then (True, cs) else if c = CHR ''+'' then (False, cs) else (False, t))
      in case parse_nat (takeWhile is_digit u) of None \<Rightarrow> None | Some n \<Rightarrow> Some (if neg then - int n else int n))"

definition isInternalIp :: "string \<Rightarrow> bool" where
  "isInternalIp ip =
     (let addr = (if starts_with ip ''::ffff:'' then drop 7 ip else ip); second = takeWhile is_digit (drop 4 addr)
      in addr \<in> {''127.0.0.1'', ''::1'', ''localhost''} \<or> starts_with addr ''10.'' \<or> starts_with addr ''192.168.'' \<or> starts_with addr ''169.254.''
         \<or> (starts_with addr ''172.'' \<and> second \<noteq> [] \<and> starts_with (drop (4 + length second) addr) ''.''
            \<and> (case js_parseInt second of None \<Rightarrow> False | Some n \<Rightarrow> 16 \<le> n \<and> n \<le> 31))
         \<or> starts_with addr ''fc'' \<or> starts_with addr ''fd'')"

datatype gate_verdict = Gate_pass | Gate_refused nat

definition requireApiKey :: "('o, 'i, 's) op_env \<Rightarrow> http_request \<Rightarrow> gate_verdict" where
  "requireApiKey E q =
     (if oe_apiKey E = '''' then (if oe_production E then Gate_refused 503 else Gate_pass)
      else if rq_apiKey q \<noteq> Some (oe_apiKey E) then Gate_refused 401 else Gate_pass)"

text \<open>The two gates of the server: \<open>/api/migrate\<close> is internal, and the paths with an authentication of their own need no API key.\<close>

definition migrate_gate :: "http_request \<Rightarrow> gate_verdict" where
  "migrate_gate q = (if rq_path q \<noteq> ''/api/migrate'' then Gate_pass
     else if \<not> isInternalIp (case rq_ip q of None \<Rightarrow> '''' | Some i \<Rightarrow> i) then Gate_refused 403 else Gate_pass)"

definition api_key_gate :: "('o, 'i, 's) op_env \<Rightarrow> http_request \<Rightarrow> gate_verdict" where
  "api_key_gate E q =
     (let p = rq_path q in
      if p = ''/health'' \<or> p = ''/health/infra'' \<or> p = ''/telegram/webhook'' \<or> starts_with p ''/github/'' \<or> starts_with p ''/slack/''
         \<or> starts_with p ''/public/v1/'' \<or> starts_with p ''/v1/'' \<or> p = ''/api/ao/callback'' \<or> p = ''/api/migrate''
      then Gate_pass else requireApiKey E q)"

section \<open>Middlewares\<close>

definition CACHE_TTL_SECONDS :: int where "CACHE_TTL_SECONDS = 300"
definition CACHE_PREFIX :: string where "CACHE_PREFIX = ''op:prefix:''"

definition isExemptPath :: "string \<Rightarrow> bool" where
  "isExemptPath path \<longleftrightarrow> path \<in> {''/health'', ''/v1/health''} \<or> list_ex (starts_with path) [''/github/'', ''/slack/'', ''/telegram'']"

definition isTailscaleIP :: "string \<Rightarrow> bool" where
  "isTailscaleIP ip =
     (if ip = '''' then False
      else let parts = split_char (CHR ''.'') (js_trim (hd (split_char (CHR '','') ip)))
           in length parts = 4 \<and> js_parseInt (parts ! 0) = Some 100
              \<and> (case js_parseInt (parts ! 1) of None \<Rightarrow> False | Some second \<Rightarrow> 64 \<le> second \<and> second \<le> 127))"

definition tailscale_gate :: "('o, 'i, 's) op_env \<Rightarrow> http_request \<Rightarrow> gate_verdict" where
  "tailscale_gate E q =
     (if \<not> oe_production E then Gate_pass
      else if isExemptPath (rq_path q) then Gate_pass
      else if \<not> isTailscaleIP (case rq_forwardedFor q of Some (c # cs) \<Rightarrow> c # cs
                 | _ \<Rightarrow> (case rq_ip q of None \<Rightarrow> '''' | Some i \<Rightarrow> i)) then Gate_refused 403
      else Gate_pass)"

datatype auth_outcome = Auth_next "full_operator option" | Auth_refused nat

definition bearer_token :: "http_request \<Rightarrow> string option" where
  "bearer_token q = (case rq_authorization q of
     None \<Rightarrow> None
   | Some h \<Rightarrow> if starts_with h ''Bearer '' \<and> drop 7 h \<noteq> '''' then Some (drop 7 h) else None)"

text \<open>The operator a prefix belongs to: by the id the cache holds, else from the database.\<close>

definition find_operator where
  "find_operator E prefix w =
     (let cached = (case oe_redis E of
            None \<Rightarrow> None
          | Some R \<Rightarrow> (case GET R (CACHE_PREFIX @ prefix) (ow_redis w) of
               None \<Rightarrow> None | Some [] \<Rightarrow> None | Some (c # cs) \<Rightarrow> getByOperatorId E (c # cs) w))
      in case cached of None \<Rightarrow> getByApiKeyPrefix E prefix w | Some opr \<Rightarrow> Some opr)"

definition cache_operator where
  "cache_operator E prefix operatorId w = (case oe_redis E of
     None \<Rightarrow> w
   | Some R \<Rightarrow> w\<lparr>ow_redis := EXPIRE R (CACHE_PREFIX @ prefix) CACHE_TTL_SECONDS (SETTEXT R (CACHE_PREFIX @ prefix) operatorId (ow_redis w))\<rparr>)"

definition clearOperatorCache where
  "clearOperatorCache E prefix w = (case oe_redis E of
     None \<Rightarrow> w
   | Some R \<Rightarrow> w\<lparr>ow_redis := snd (DEL R (CACHE_PREFIX @ prefix) (ow_redis w))\<rparr>)"

text \<open>The check of the rate limiter, on the submission of tasks only, and not for root.\<close>

definition limit_refuses where
  "limit_refuses E q opr w = (case oe_limiter E of
     None \<Rightarrow> (False, w)
   | Some R \<Rightarrow> (if op_tier opr \<noteq> Root \<and> rq_path q = ''/v1/tasks'' \<and> rq_method q = ''POST''
       then (let (r, s) = checkLimit R (oe_iso E) (rq_now q) (rq_rnd q) (op_id opr) (fo_limits opr) (ow_limits w)
             in (\<not> rl_allowed r, w\<lparr>ow_limits := s\<rparr>))
       else (False, w)))"

definition authenticate_key ::
  "('o, 'i, 's) op_env \<Rightarrow> http_request \<Rightarrow> string \<Rightarrow> ('o, 'i, 's) op_world \<Rightarrow> auth_outcome \<times> ('o, 'i, 's) op_world" where
  "authenticate_key E q token w =
     (case extractKeyPrefix token of
        None \<Rightarrow> (Auth_refused 401, logDenied ''anonymous'' q ''Invalid API key format'' w)
      | Some prefix \<Rightarrow>
          (case find_operator E prefix w of
             None \<Rightarrow> (Auth_refused 401, logDenied ''unknown'' q ''API key prefix not found'' w)
           | Some opr \<Rightarrow>
               (if \<not> oe_verify E token (fo_apiKeyHash opr) then (Auth_refused 401, logDenied (op_id opr) q ''API key hash mismatch'' w)
                else if fo_status opr \<noteq> Op_active
                then (Auth_refused 403, logDenied (op_id opr) q
                        (if fo_status opr = Op_revoked then ''Operator revoked'' else ''Operator suspended'') w)
                else
                  (let w1 = cache_operator E prefix (op_id opr) w; (refused, w2) = limit_refuses E q opr w1
                   in if refused then (Auth_refused 429, w2)
                      else (Auth_next (Some opr), updateLastActive E (rq_now q) (op_id opr) w2)))))"

text \<open>
  A key is checked against its hash in one step with the lookup of its operator and with what follows; in the source the hash function
  is awaited between them, and a call that comes in that time is not interleaved here.
\<close>

definition authenticate ::
  "('o, 'i, 's) op_env \<Rightarrow> http_request \<Rightarrow> ('o, 'i, 's) op_world \<Rightarrow> auth_outcome \<times> ('o, 'i, 's) op_world" where
  "authenticate E q w =
     (if isExemptPath (rq_path q) then (Auth_next None, w)
      else if rq_path q = ''/v1/operators/accept-invite'' \<and> rq_method q = ''POST'' then (Auth_next None, w)
      else (case bearer_token q of
         None \<Rightarrow>
           (if starts_with (rq_path q) ''/v1/'' then (Auth_refused 401, logDenied ''anonymous'' q ''Missing Authorization header'' w)
            else (case ow_root w of
               Some r \<Rightarrow> (Auth_next (Some r), w)
             | None \<Rightarrow> (let r = getByOperatorId E (oe_rootOperatorId E) w in (Auth_next r, w\<lparr>ow_root := r\<rparr>))))
       | Some token \<Rightarrow> authenticate_key E q token w))"

definition requireTier :: "tier \<Rightarrow> full_operator option \<Rightarrow> gate_verdict" where
  "requireTier minimumTier opr = (case opr of
     None \<Rightarrow> Gate_refused 401
   | Some u \<Rightarrow> if tier_hierarchy (op_tier u) < tier_hierarchy minimumTier then Gate_refused 403 else Gate_pass)"

text \<open>\<open>requireDepartment\<close>; the department is the text of the parameter, and a missing or empty one is left to the handler.\<close>

definition requireDepartment :: "string option \<Rightarrow> full_operator option \<Rightarrow> gate_verdict" where
  "requireDepartment department opr = (case opr of
     None \<Rightarrow> Gate_refused 401
   | Some u \<Rightarrow>
       (if ''*'' \<in> set (op_departments u) then Gate_pass
        else if department \<in> {None, Some ''''} then Gate_pass
        else if the department \<notin> set (op_departments u) then Gate_refused 403 else Gate_pass))"

definition deriveAction :: "string \<Rightarrow> string \<Rightarrow> string" where
  "deriveAction meth path =
     (let segments = filter (\<lambda>s. s \<noteq> []) (split_char (CHR ''/'') path)
      in if 2 \<le> length segments then hd segments @ ''.'' @ join ''.'' (tl segments) else to_lower meth @ ''.'' @ path)"

definition deriveResourceType :: "string \<Rightarrow> string" where
  "deriveResourceType path =
     (if starts_with path ''/v1/operators'' then ''operator'' else if starts_with path ''/v1/tasks'' then ''task''
      else if starts_with path ''/api/agents'' then ''agent'' else if starts_with path ''/api/trigger'' then ''execution'' else ''api'')"

text \<open>What the audit middleware writes when a response is finished.\<close>

definition audit_response :: "http_request \<Rightarrow> full_operator option \<Rightarrow> nat \<Rightarrow> ('o, 'i, 's) op_world \<Rightarrow> ('o, 'i, 's) op_world" where
  "audit_response q opr statusCode w =
     (if isExemptPath (rq_path q) then w
      else case opr of
        None \<Rightarrow> w
      | Some u \<Rightarrow> oa_log \<lparr>oa_timestamp = rq_now q, oa_operatorId = op_id u, oa_action = deriveAction (rq_method q) (rq_path q),
          oa_resourceType = deriveResourceType (rq_path q), oa_resourceId = rq_path q, oa_method = rq_method q, oa_path = rq_path q,
          oa_ip = request_ip q, oa_allowed = (statusCode < 400), oa_reason = None\<rparr> w)"

end
