(* ===== verification/OperatorRoutes.thy ===== *)
theory OperatorRoutes
  imports OperatorAuth "HOL-Library.Monad_Syntax"
begin

text \<open>
  The routes that make and unmake operators: invitation, acceptance, revocation, rotation of keys and the reads
  (\<open>operators/routes.ts\<close>), the first root operator (\<open>operators/bootstrap.ts\<close>, \<open>operators/seed.ts\<close>), and a request on
  its way through the gates and middlewares to its route, as \<open>bootstrap/routes.ts\<close> mounts them.

  A handler answers the status of an error (\<open>Inl\<close>) or its reply; an insertion that the unique index rejects
  throws, which the handlers answer with 500.
\<close>

section \<open>Input\<close>

text \<open>The schemas of the bodies, for a value that must be an object.\<close>

definition body_text :: "string \<Rightarrow> json \<Rightarrow> string option" where
  "body_text k b = (case get_prop k b of JStr s \<Rightarrow> Some s | _ \<Rightarrow> None)"

definition opt_body_text :: "string \<Rightarrow> json \<Rightarrow> string option option" where
  "opt_body_text k b = (case get_prop k b of JUndef \<Rightarrow> Some None | JStr s \<Rightarrow> Some (Some s) | _ \<Rightarrow> None)"

definition opt_positive_field :: "string \<Rightarrow> json \<Rightarrow> int option option" where
  "opt_positive_field k b = (case get_prop k b of JUndef \<Rightarrow> Some None | JNum n \<Rightarrow> if 0 < n then Some (Some n) else None | _ \<Rightarrow> None)"

fun texts_of :: "json list \<Rightarrow> string list option" where
  "texts_of [] = Some []"
| "texts_of (JStr s # vs) = map_option (\<lambda>ss. s # ss) (texts_of vs)"
| "texts_of (_ # vs) = None"

definition texts_field :: "string \<Rightarrow> json \<Rightarrow> string list option" where
  "texts_field k b = (case get_prop k b of JArr vs \<Rightarrow> texts_of vs | _ \<Rightarrow> None)"

definition checked :: "('a \<Rightarrow> bool) \<Rightarrow> 'a option \<Rightarrow> 'a option" where
  "checked p x = (case x of None \<Rightarrow> None | Some v \<Rightarrow> if p v then Some v else None)"

definition object_body :: "json \<Rightarrow> json option" where
  "object_body b = (case b of JObj kvs \<Rightarrow> Some b | _ \<Rightarrow> None)"

definition tier_of_text :: "string \<Rightarrow> tier option" where
  "tier_of_text s = map_of [(''root'', Root), (''department_head'', DepartmentHead), (''contributor'', Contributor), (''observer'', Observer)] s"

fun tier_text :: "tier \<Rightarrow> string" where
  "tier_text Root = ''root''"
| "tier_text DepartmentHead = ''department_head''"
| "tier_text Contributor = ''contributor''"
| "tier_text Observer = ''observer''"

record invite_input =
  ii_email :: string
  ii_displayName :: string
  ii_role :: string
  ii_tier :: tier
  ii_departments :: "string list"
  ii_limits :: "intended_limits option"

definition parse_limits :: "json \<Rightarrow> intended_limits option option" where
  "parse_limits b = (case get_prop ''limits'' b of
     JUndef \<Rightarrow> Some None
   | JObj kvs \<Rightarrow>
       do { r \<leftarrow> opt_positive_field ''requestsPerMinute'' (JObj kvs); c \<leftarrow> opt_positive_field ''maxConcurrentTasks'' (JObj kvs);
            d \<leftarrow> opt_positive_field ''dailyTaskQuota'' (JObj kvs);
            Some (Some \<lparr>il_requestsPerMinute = r, il_maxConcurrentTasks = c, il_dailyTaskQuota = d\<rparr>) }
   | _ \<Rightarrow> None)"

definition InviteOperatorInput :: "(string \<Rightarrow> bool) \<Rightarrow> json \<Rightarrow> invite_input option" where
  "InviteOperatorInput isEmail body =
     do { b \<leftarrow> object_body body; email \<leftarrow> checked isEmail (body_text ''email'' b);
          name \<leftarrow> checked (\<lambda>s. 1 \<le> length s \<and> length s \<le> 100) (body_text ''displayName'' b);
          r \<leftarrow> checked (\<lambda>s. 1 \<le> length s \<and> length s \<le> 50) (body_text ''role'' b);
          t \<leftarrow> Option.bind (body_text ''tier'' b) tier_of_text; ds \<leftarrow> checked (\<lambda>xs. xs \<noteq> []) (texts_field ''departments'' b);
          l \<leftarrow> parse_limits b;
          Some \<lparr>ii_email = email, ii_displayName = name, ii_role = r, ii_tier = t, ii_departments = ds, ii_limits = l\<rparr> }"

record accept_input =
  ai_inviteToken :: string
  ai_agentName :: "string option"
  ai_tailscaleNodeId :: "string option"
  ai_instanceLabel :: "string option"

definition AcceptInviteInput :: "json \<Rightarrow> accept_input option" where
  "AcceptInviteInput body =
     do { b \<leftarrow> object_body body; token \<leftarrow> checked (\<lambda>s. 1 \<le> length s) (body_text ''inviteToken'' b);
          name \<leftarrow> checked (\<lambda>x. case x of None \<Rightarrow> True | Some s \<Rightarrow> 1 \<le> length s \<and> length s \<le> 50) (opt_body_text ''agentName'' b);
          node \<leftarrow> opt_body_text ''tailscaleNodeId'' b; label \<leftarrow> opt_body_text ''instanceLabel'' b;
          Some \<lparr>ai_inviteToken = token, ai_agentName = name, ai_tailscaleNodeId = node, ai_instanceLabel = label\<rparr> }"

definition RevokeOperatorInput :: "json \<Rightarrow> string option" where
  "RevokeOperatorInput body = do { b \<leftarrow> object_body body; checked (\<lambda>s. 1 \<le> length s \<and> length s \<le> 500) (body_text ''reason'' b) }"

section \<open>Handlers\<close>

datatype op_reply =
    Invited string string
  | Accepted string string
  | Me full_operator
  | Permissions full_operator "role list"
  | Operators "full_operator list"
  | Revoked string string
  | Rotated string string
  | Bootstrapped string string

definition INVITE_EXPIRY_HOURS :: int where "INVITE_EXPIRY_HOURS = 72"

definition new_invitation :: "full_operator \<Rightarrow> invite_input \<Rightarrow> string \<Rightarrow> http_request \<Rightarrow> invitation" where
  "new_invitation u i tokenHash q = \<lparr>inv_id = ''inv_'' @ rq_uuid8 q, inv_email = ii_email i, inv_displayName = ii_displayName i,
     inv_role = ii_role i, inv_tier = ii_tier i, inv_departments = ii_departments i, inv_limits = ii_limits i, inv_tokenHash = tokenHash,
     inv_status = Inv_pending, inv_createdBy = op_id u, inv_createdAt = rq_now q,
     inv_expiresAt = rq_now q + INVITE_EXPIRY_HOURS * 60 * 60 * 1000, inv_acceptedAt = None, inv_acceptedBy = None\<rparr>"

definition post_invite where
  "post_invite E opr q w = (case requireTier Root opr of
     Gate_refused n \<Rightarrow> (Inl n, w)
   | Gate_pass \<Rightarrow> (case InviteOperatorInput (oe_isEmail E) (rq_body q) of
       None \<Rightarrow> (Inl 400, w)
     | Some i \<Rightarrow> (case opr of
         None \<Rightarrow> (Inl 401, w)
       | Some u \<Rightarrow>
           (if (case getByEmail E (ii_email i) w of None \<Rightarrow> False | Some x \<Rightarrow> fo_status x = Op_active) then (Inl (409 :: nat), w)
            else let (token, tokenHash) = generateInviteToken (oe_sha256 E) (rq_random q); iv = new_invitation u i tokenHash q
                 in case createInvitation E iv w of
                      None \<Rightarrow> (Inl 500, w)
                    | Some w1 \<Rightarrow> (Inr (Invited (inv_id iv) token),
                        oa_log (oa_allowed_entry q (op_id u) ''operator.invite'' ''invitation'' (inv_id iv) ''/v1/operators/invite'' None) w1)))))"

text \<open>The id of the operator an invitation makes: from the local part of the address.\<close>

definition id_char :: "char \<Rightarrow> char" where
  "id_char c = (let n = of_char (lower_char c) :: nat in if is_digit c \<or> (97 \<le> n \<and> n \<le> 122) then lower_char c else CHR ''_'')"

definition operator_id_of :: "string \<Rightarrow> string \<Rightarrow> string" where
  "operator_id_of email uuid8 =
     (let local = map id_char (takeWhile (\<lambda>c. c \<noteq> CHR ''@'') email) in ''op_'' @ (if local = '''' then uuid8 else local))"

definition intended :: "int option \<Rightarrow> int \<Rightarrow> int" where
  "intended x d = (case x of None \<Rightarrow> d | Some n \<Rightarrow> n)"

definition operator_limits :: "intended_limits option \<Rightarrow> rate_limits" where
  "operator_limits l = (case l of
     None \<Rightarrow> \<lparr>requestsPerMinute = 60, maxConcurrentTasks = 5, dailyTaskQuota = 100\<rparr>
   | Some i \<Rightarrow> \<lparr>requestsPerMinute = intended (il_requestsPerMinute i) 60, maxConcurrentTasks = intended (il_maxConcurrentTasks i) 5,
        dailyTaskQuota = intended (il_dailyTaskQuota i) 100\<rparr>)"

definition invited_operator :: "invitation \<Rightarrow> accept_input \<Rightarrow> string \<Rightarrow> string \<Rightarrow> http_request \<Rightarrow> full_operator" where
  "invited_operator iv a hash prefix q = \<lparr>op_id = operator_id_of (inv_email iv) (rq_uuid8 q), op_tier = inv_tier iv,
     op_departments = inv_departments iv, fo_displayName = inv_displayName iv, fo_role = inv_role iv, fo_email = inv_email iv,
     fo_apiKeyHash = hash, fo_apiKeyPrefix = prefix, fo_tailscaleNodeId = ai_tailscaleNodeId a, fo_roleIds = [''role_'' @ tier_text (inv_tier iv)],
     fo_priorityClass = tier_hierarchy (inv_tier iv), fo_crossDeptPolicy = Policy_request, fo_limits = operator_limits (inv_limits iv),
     fo_status = Op_active, fo_invitedBy = Some (inv_createdBy iv), fo_createdAt = rq_now q, fo_updatedAt = rq_now q, fo_lastActiveAt = None,
     fo_revokedAt = None, fo_revokedReason = None, fo_slackUserId = None, fo_slackChannelId = None,
     fo_openClaw = map_option (\<lambda>n. (n, ai_instanceLabel a)) (ai_agentName a)\<rparr>"

text \<open>Acceptance, up to the creation of the key, which is asynchronous, and from there.\<close>

definition accept_read where
  "accept_read E q w = (case AcceptInviteInput (rq_body q) of
     None \<Rightarrow> Inl (400 :: nat)
   | Some a \<Rightarrow> (case getInvitationByTokenHash E (oe_sha256 E (ai_inviteToken a)) w of
       None \<Rightarrow> Inl 404
     | Some iv \<Rightarrow>
         (if inv_status iv \<noteq> Inv_pending then Inl 410
          else if inv_expiresAt iv < rq_now q then Inl 410
          else Inr (iv, a))))"

definition accept_write where
  "accept_write E q iv a w =
     (let (key, prefix, hash) = generateApiKey (oe_hash E (rq_salt q)) (rq_random q); opr = invited_operator iv a hash prefix q
      in case createOperator E opr w of
           None \<Rightarrow> (Inl (500 :: nat), w)
         | Some w1 \<Rightarrow> (Inr (Accepted (op_id opr) key),
             oa_log (oa_allowed_entry q (op_id opr) ''operator.accept_invite'' ''operator'' (op_id opr) ''/v1/operators/accept-invite'' None)
               (acceptInvitation E (rq_now q) (inv_id iv) (op_id opr) w1)))"

definition post_accept where
  "post_accept E q w = (case accept_read E q w of Inl n \<Rightarrow> (Inl n, w) | Inr (iv, a) \<Rightarrow> accept_write E q iv a w)"

definition get_me where
  "get_me opr = (case opr of None \<Rightarrow> Inl (401 :: nat) | Some u \<Rightarrow> Inr (Me u))"

text \<open>The roles of an operator: those assigned that exist, then that of the tier (\<open>resolveRoles\<close> of the task routes is the same).\<close>

definition resolved_roles :: "role_store \<Rightarrow> full_operator \<Rightarrow> role list" where
  "resolved_roles st u =
     (let rs = List.map_filter (getByRoleId st) (fo_roleIds u)
      in case getRoleForTier st (tier_text (op_tier u)) of
           None \<Rightarrow> rs
         | Some r \<Rightarrow> if list_ex (\<lambda>x. roleId x = roleId r) rs then rs else rs @ [r])"

definition get_permissions where
  "get_permissions E opr = (case opr of None \<Rightarrow> Inl (401 :: nat) | Some u \<Rightarrow> Inr (Permissions u (resolved_roles (oe_roles E) u)))"

definition get_operators where
  "get_operators E opr w = (case requireTier Root opr of
     Gate_refused n \<Rightarrow> Inl n | Gate_pass \<Rightarrow> Inr (Operators (listOperators E None None w)))"

definition post_revoke where
  "post_revoke E opr targetId q w = (case requireTier Root opr of
     Gate_refused n \<Rightarrow> (Inl n, w)
   | Gate_pass \<Rightarrow> (case RevokeOperatorInput (rq_body q) of
       None \<Rightarrow> (Inl 400, w)
     | Some why \<Rightarrow> (case opr of
         None \<Rightarrow> (Inl 401, w)
       | Some caller \<Rightarrow>
           (if targetId = op_id caller then (Inl 400, w)
            else (case getByOperatorId E targetId w of
               None \<Rightarrow> (Inl 404, w)
             | Some target \<Rightarrow>
                 (if fo_status target = Op_revoked then (Inl 409, w)
                  else (Inr (Revoked targetId why),
                    oa_log (oa_allowed_entry q (op_id caller) ''operator.revoke'' ''operator'' targetId
                        (''/v1/operators/'' @ targetId @ ''/revoke'') (Some why))
                      (clearOperatorCache E (fo_apiKeyPrefix target) (op_updateStatus E (rq_now q) targetId Op_revoked (Some why) w)))))))))"

definition post_rotate where
  "post_rotate E opr targetId q w = (case opr of
     None \<Rightarrow> (Inl 401, w)
   | Some caller \<Rightarrow>
       (if op_tier caller \<noteq> Root \<and> op_id caller \<noteq> targetId then (Inl 403, w)
        else (case getByOperatorId E targetId w of
           None \<Rightarrow> (Inl (404 :: nat), w)
         | Some target \<Rightarrow>
             (let (key, prefix, hash) = generateApiKey (oe_hash E (rq_salt q)) (rq_random q)
              in (Inr (Rotated targetId key),
                  oa_log (oa_allowed_entry q (op_id caller) ''operator.rotate_key'' ''operator'' targetId
                      (''/v1/operators/'' @ targetId @ ''/rotate-key'') None)
                    (updateApiKey E (rq_now q) targetId hash prefix (clearOperatorCache E (fo_apiKeyPrefix target) w)))))))"

section \<open>The first root operator\<close>

definition MAX_ATTEMPTS :: nat where "MAX_ATTEMPTS = 3"

definition bootstrap_enabled :: "('o, 'i, 's) op_env \<Rightarrow> bool" where
  "bootstrap_enabled E \<longleftrightarrow> (case oe_setupToken E of None \<Rightarrow> False | Some t \<Rightarrow> 32 \<le> length (js_trim t))"

definition failed_attempt where
  "failed_attempt w =
     (let n = Suc (boot_attempts (ow_bootstrap w))
      in w\<lparr>ow_bootstrap := \<lparr>boot_attempts = n, boot_locked = boot_locked (ow_bootstrap w) \<or> n \<ge> MAX_ATTEMPTS\<rparr>\<rparr>)"

definition text_or :: "string \<Rightarrow> json \<Rightarrow> string \<Rightarrow> string" where
  "text_or k b d = (case get_prop k b of JStr s \<Rightarrow> s | _ \<Rightarrow> d)"

definition bootstrap_operator :: "string \<Rightarrow> string \<Rightarrow> string \<Rightarrow> string \<Rightarrow> http_request \<Rightarrow> full_operator" where
  "bootstrap_operator name email hash prefix q = \<lparr>op_id = ''op_root'', op_tier = Root, op_departments = [''*''],
     fo_displayName = name, fo_role = ''root'', fo_email = email, fo_apiKeyHash = hash, fo_apiKeyPrefix = prefix, fo_tailscaleNodeId = None,
     fo_roleIds = [''role_root''], fo_priorityClass = tier_hierarchy Root, fo_crossDeptPolicy = Policy_request,
     fo_limits = \<lparr>requestsPerMinute = 120, maxConcurrentTasks = 10, dailyTaskQuota = 500\<rparr>,
     fo_status = Op_active, fo_invitedBy = None, fo_createdAt = rq_now q, fo_updatedAt = rq_now q, fo_lastActiveAt = None,
     fo_revokedAt = None, fo_revokedReason = None, fo_slackUserId = None, fo_slackChannelId = None, fo_openClaw = None\<rparr>"

definition post_bootstrap where
  "post_bootstrap E q w =
     (if boot_locked (ow_bootstrap w) then (Inl (429 :: nat), w)
      else (case rq_authorization q of
         None \<Rightarrow> (Inl 401, failed_attempt w)
       | Some h \<Rightarrow>
           (if \<not> starts_with h ''Bearer '' then (Inl 401, failed_attempt w)
            else if Some (drop 7 h) \<noteq> map_option js_trim (oe_setupToken E) then (Inl 403, failed_attempt w)
            else if 0 < countOperators E w then (Inl 409, w)
            else let name = text_or ''displayName'' (rq_body q) ''Root Operator''; email = text_or ''email'' (rq_body q) ''root@localhost'';
                     (key, prefix, hash) = generateApiKey (oe_hash E (rq_salt q)) (rq_random q)
                 in (case createOperator E (bootstrap_operator name email hash prefix q) w of
                       None \<Rightarrow> (Inl 409, w)
                     | Some w1 \<Rightarrow> (Inr (Bootstrapped ''op_root'' key), w1)))))"

text \<open>
  \<open>seedRootOperator\<close> at the start of the process; \<open>None\<close>: it throws, and the operator interface is disabled.
  The settings are \<open>ROOT_OPERATOR_NAME\<close>, \<open>ROOT_OPERATOR_EMAIL\<close> and \<open>ROOT_API_KEY\<close>.
\<close>

definition seed_operator :: "string \<Rightarrow> string \<Rightarrow> string \<Rightarrow> string \<Rightarrow> http_request \<Rightarrow> full_operator" where
  "seed_operator name email hash prefix q = (bootstrap_operator name email hash prefix q)\<lparr>fo_role := ''CEO'', fo_roleIds := [''role_ceo''],
     fo_limits := \<lparr>requestsPerMinute = 1000, maxConcurrentTasks = 50, dailyTaskQuota = 10000\<rparr>\<rparr>"

definition nonempty_or :: "string option \<Rightarrow> string \<Rightarrow> string" where
  "nonempty_or x d = (case x of Some (c # cs) \<Rightarrow> c # cs | _ \<Rightarrow> d)"

definition seedRootOperator where
  "seedRootOperator E name email envKey q w =
     (case listOperators E None (Some Root) w of
        d # ds \<Rightarrow> Some (op_id d, w)
      | [] \<Rightarrow>
          (if bootstrap_enabled E then Some (''op_root'', w)
           else (let create = (\<lambda>hash prefix. map_option (\<lambda>w1. (''op_root'', w1)) (createOperator E
                       (seed_operator (nonempty_or name ''Troy'') (nonempty_or email ''ceo@yclaw.ai'') hash prefix q) w))
                 in if nonempty_or envKey '''' \<noteq> ''''
                    then (case extractKeyPrefix (nonempty_or envKey '''') of
                       None \<Rightarrow> None
                     | Some prefix \<Rightarrow> create (oe_hash E (rq_salt q) (nonempty_or envKey '''')) prefix)
                    else (let (key, prefix, hash) = generateApiKey (oe_hash E (rq_salt q)) (rq_random q) in create hash prefix))))"

section \<open>Requests\<close>

definition path_segments :: "('o, 'i, 's) op_env \<Rightarrow> http_request \<Rightarrow> string list" where
  "path_segments E q = map (oe_fold E) (split_char (CHR ''/'') (rq_path q))"

definition operator_route where
  "operator_route E opr q w =
     (let segs = path_segments E q; targetId = split_char (CHR ''/'') (rq_path q) ! 3
      in if rq_method q = ''POST'' then
           (if segs = ['''', ''v1'', ''operators'', ''invite''] then post_invite E opr q w
            else if segs = ['''', ''v1'', ''operators'', ''accept-invite''] then post_accept E q w
            else if length segs = 5 \<and> take 3 segs = ['''', ''v1'', ''operators''] \<and> targetId \<noteq> '''' \<and> segs ! 4 = ''revoke''
            then post_revoke E opr targetId q w
            else if length segs = 5 \<and> take 3 segs = ['''', ''v1'', ''operators''] \<and> targetId \<noteq> '''' \<and> segs ! 4 = ''rotate-key''
            then post_rotate E opr targetId q w
            else (Inl 404, w))
         else if rq_method q = ''GET'' then
           (if segs = ['''', ''v1'', ''operators'', ''me''] then (get_me opr, w)
            else if segs = ['''', ''v1'', ''operators'', ''me'', ''permissions''] then (get_permissions E opr, w)
            else if segs = ['''', ''v1'', ''operators''] then (get_operators E opr w, w)
            else (Inl 404, w))
         else (Inl 404, w))"

definition response_status :: "nat + 'r \<Rightarrow> nat" where
  "response_status r = (case r of Inl n \<Rightarrow> n | Inr x \<Rightarrow> 200)"

text \<open>The gates of the server, the network boundary and the authentication in front of a route.\<close>

definition admitted where
  "admitted E q w = (case migrate_gate q of
     Gate_refused n \<Rightarrow> (Auth_refused n, w)
   | Gate_pass \<Rightarrow> (case api_key_gate E q of
       Gate_refused n \<Rightarrow> (Auth_refused n, w)
     | Gate_pass \<Rightarrow> (case tailscale_gate E q of
         Gate_refused n \<Rightarrow> (Auth_refused n, w)
       | Gate_pass \<Rightarrow> authenticate E q w)))"

definition is_bootstrap where
  "is_bootstrap E q \<longleftrightarrow> bootstrap_enabled E \<and> rq_method q = ''POST'' \<and> path_segments E q = ['''', ''v1'', ''operators'', ''bootstrap'']"

definition serve where
  "serve E q w =
     (if is_bootstrap E q then
        (case (migrate_gate q, api_key_gate E q, tailscale_gate E q) of
           (Gate_pass, Gate_pass, Gate_pass) \<Rightarrow> post_bootstrap E q w
         | (Gate_refused n, _, _) \<Rightarrow> (Inl n, w)
         | (_, Gate_refused n, _) \<Rightarrow> (Inl n, w)
         | (_, _, Gate_refused n) \<Rightarrow> (Inl n, w))
      else (case admitted E q w of
         (Auth_refused n, w1) \<Rightarrow> (Inl n, w1)
       | (Auth_next opr, w1) \<Rightarrow>
           (let (r, w2) = operator_route E opr q w1 in (r, audit_response q opr (response_status r) w2))))"

end
