(* ===== verification/OperatorAuth_Correct.thy ===== *)
theory OperatorAuth_Correct
  imports OperatorRoutes
begin

text \<open>
  Where authority comes from.  Every handler is shown to be a sequence of primitive writes, one relation on worlds; what the
  primitives keep holds of all that the routes, the clock and interleaved acceptances can reach: nobody has a tier
  that a root operator did not intend, revocation is final, a request under \<open>/v1/\<close> acts for the owner of a key that
  verifies.  The limits of the interface are stated too: an address enters once, and the key handed out opens the account.
\<close>

section \<open>What never changes of an operator and an invitation\<close>

definition op_core :: "full_operator \<Rightarrow> string \<times> tier \<times> string list \<times> string \<times> string option" where
  "op_core d = (op_id d, op_tier d, op_departments d, fo_email d, fo_invitedBy d)"

definition inv_core :: "invitation \<Rightarrow> string \<times> string \<times> tier \<times> string list \<times> string" where
  "inv_core iv = (inv_id iv, inv_email iv, inv_tier iv, inv_departments iv, inv_createdBy iv)"

definition is_revoked :: "full_operator \<Rightarrow> bool" where
  "is_revoked d \<longleftrightarrow> fo_status d = Op_revoked"

definition inv_at where
  "inv_at E i w = doc_at (oe_invitations E) inv_id (ow_invitations w) i"

text \<open>The operator an invitation makes, and the one a fresh deployment starts with.\<close>

definition from_invitation :: "invitation \<Rightarrow> full_operator \<Rightarrow> bool" where
  "from_invitation iv d \<longleftrightarrow> op_tier d = inv_tier iv \<and> op_departments d = inv_departments iv \<and> fo_email d = inv_email iv
     \<and> fo_invitedBy d = Some (inv_createdBy iv)"

definition first_root :: "full_operator \<Rightarrow> bool" where
  "first_root d \<longleftrightarrow> op_id d = ''op_root'' \<and> op_tier d = Root \<and> fo_invitedBy d = None"

section \<open>Primitive writes\<close>

definition untouched_stores where
  "untouched_stores w w1 \<longleftrightarrow> ow_operators w1 = ow_operators w \<and> ow_invitations w1 = ow_invitations w \<and> ow_root w1 = ow_root w"

inductive op_prim :: "('o, 'i, 's) op_env \<Rightarrow> ('o, 'i, 's) op_world \<Rightarrow> ('o, 'i, 's) op_world \<Rightarrow> bool" for E where
  touch: "(\<And>d. op_core (f d) = op_core d \<and> (is_revoked d \<longrightarrow> is_revoked (f d))) \<Longrightarrow> op_prim E w (updateOperator E i f w)"
| silent: "untouched_stores w w1 \<Longrightarrow> op_prim E w w1"
| load_root: "r = None \<or> r = getByOperatorId E i w \<Longrightarrow> op_prim E w (w\<lparr>ow_root := r\<rparr>)"
| mark: "op_prim E w (acceptInvitation E now j i w)"
| expire: "op_prim E w (snd (expireInvitations E now w))"
| admit: "inv_at E (inv_id iv) w = Some iv1 \<Longrightarrow> inv_core iv1 = inv_core iv \<Longrightarrow> from_invitation iv d \<Longrightarrow> createOperator E d w = Some w1
    \<Longrightarrow> op_prim E w w1"
| invite: "getByOperatorId E (inv_createdBy iv) w = Some r \<Longrightarrow> op_tier r = Root \<Longrightarrow> createInvitation E iv w = Some w1 \<Longrightarrow> op_prim E w w1"
| first: "first_root d \<Longrightarrow> createOperator E d w = Some w1 \<Longrightarrow> op_prim E w w1"

abbreviation op_prims where
  "op_prims E \<equiv> (op_prim E)\<^sup>*\<^sup>*"

section \<open>The invariant\<close>

definition ops_ok where
  "ops_ok E w \<longleftrightarrow> ids_unique (oe_operators E) op_id (ow_operators w) \<and> ids_unique (oe_invitations E) inv_id (ow_invitations w)
     \<and> (\<forall>i d. getByOperatorId E i w = Some d \<longrightarrow> first_root d \<or> (\<exists>j iv. inv_at E j w = Some iv \<and> from_invitation iv d))
     \<and> (\<forall>j iv. inv_at E j w = Some iv \<longrightarrow> (\<exists>r. getByOperatorId E (inv_createdBy iv) w = Some r \<and> op_tier r = Root))
     \<and> (\<forall>r. ow_root w = Some r \<longrightarrow> (\<exists>d. getByOperatorId E (op_id r) w = Some d \<and> op_tier d = op_tier r))"

text \<open>A later world: nobody and no invitation is lost, and what never changes has not changed.\<close>

definition later where
  "later E w w1 \<longleftrightarrow>
     (\<forall>i d. getByOperatorId E i w = Some d \<longrightarrow>
        (\<exists>d1. getByOperatorId E i w1 = Some d1 \<and> op_core d1 = op_core d \<and> (is_revoked d \<longrightarrow> is_revoked d1)))
     \<and> (\<forall>j iv. inv_at E j w = Some iv \<longrightarrow> (\<exists>iv1. inv_at E j w1 = Some iv1 \<and> inv_core iv1 = inv_core iv))"

lemma later_refl: "later E w w"
  by (simp add: later_def)

lemma later_trans: "later E w w1 \<Longrightarrow> later E w1 w2 \<Longrightarrow> later E w w2"
  unfolding later_def by metis

lemma core_from_invitation:
  "op_core d1 = op_core d \<Longrightarrow> inv_core iv1 = inv_core iv \<Longrightarrow> from_invitation iv1 d1 \<longleftrightarrow> from_invitation iv d"
  by (auto simp: op_core_def inv_core_def from_invitation_def)

lemma core_first_root: "op_core d1 = op_core d \<Longrightarrow> first_root d1 \<longleftrightarrow> first_root d"
  by (auto simp: op_core_def first_root_def)

lemma inv_core_createdBy: "inv_core iv1 = inv_core iv \<Longrightarrow> inv_createdBy iv1 = inv_createdBy iv"
  by (simp add: inv_core_def)

text \<open>The invariant survives when the old entries are kept and every new one is accounted for.\<close>

lemma ops_ok_later:
  assumes ok: "ops_ok E w" and l: "later E w w1"
    and u: "ids_unique (oe_operators E) op_id (ow_operators w1)" "ids_unique (oe_invitations E) inv_id (ow_invitations w1)"
    and ops: "\<And>i d. getByOperatorId E i w1 = Some d \<Longrightarrow> (\<exists>d0. getByOperatorId E i w = Some d0 \<and> op_core d = op_core d0)
        \<or> first_root d \<or> (\<exists>j iv. inv_at E j w1 = Some iv \<and> from_invitation iv d)"
    and invs: "\<And>j iv. inv_at E j w1 = Some iv \<Longrightarrow> (\<exists>iv0. inv_at E j w = Some iv0 \<and> inv_core iv = inv_core iv0)
        \<or> (\<exists>r. getByOperatorId E (inv_createdBy iv) w1 = Some r \<and> op_tier r = Root)"
    and root: "ow_root w1 = ow_root w \<or> ow_root w1 = None \<or> (\<exists>i. ow_root w1 = getByOperatorId E i w1)"
    and keys: "\<And>i d. getByOperatorId E i w1 = Some d \<Longrightarrow> op_id d = i"
  shows "ops_ok E w1"
  unfolding ops_ok_def
proof (intro conjI allI impI u)
  fix i d assume d: "getByOperatorId E i w1 = Some d"
  from ops [OF d] show "first_root d \<or> (\<exists>j iv. inv_at E j w1 = Some iv \<and> from_invitation iv d)"
  proof (elim disjE exE conjE)
    fix d0 assume d0: "getByOperatorId E i w = Some d0" "op_core d = op_core d0"
    with ok have "first_root d0 \<or> (\<exists>j iv. inv_at E j w = Some iv \<and> from_invitation iv d0)" by (simp add: ops_ok_def)
    then show ?thesis
    proof (elim disjE exE conjE)
      fix j iv assume "inv_at E j w = Some iv" "from_invitation iv d0"
      moreover from this(1) l obtain iv1 where "inv_at E j w1 = Some iv1" "inv_core iv1 = inv_core iv"
        unfolding later_def by blast
      ultimately show ?thesis using core_from_invitation [OF d0(2)] by blast
    qed (use core_first_root [OF d0(2)] in blast)
  qed blast+
next
  fix j iv assume iv: "inv_at E j w1 = Some iv"
  from invs [OF iv] show "\<exists>r. getByOperatorId E (inv_createdBy iv) w1 = Some r \<and> op_tier r = Root"
  proof (elim disjE exE conjE)
    fix iv0 assume iv0: "inv_at E j w = Some iv0" "inv_core iv = inv_core iv0"
    with ok obtain r where "getByOperatorId E (inv_createdBy iv) w = Some r" "op_tier r = Root"
      unfolding ops_ok_def inv_core_createdBy [OF iv0(2)] by blast
    with l show ?thesis unfolding later_def op_core_def by (metis prod.inject)
  qed blast
next
  fix r assume r: "ow_root w1 = Some r"
  show "\<exists>d. getByOperatorId E (op_id r) w1 = Some d \<and> op_tier d = op_tier r"
  proof (cases "ow_root w1 = ow_root w")
    case True
    with r ok obtain d where "getByOperatorId E (op_id r) w = Some d" "op_tier d = op_tier r" unfolding ops_ok_def by metis
    with l show ?thesis unfolding later_def op_core_def by (metis prod.inject)
  next
    case False
    with root r obtain i where "getByOperatorId E i w1 = Some r" by (metis option.distinct(1))
    with keys [OF this] show ?thesis by blast
  qed
qed

section \<open>Every handler is a sequence of primitive writes\<close>

lemma untouched_refl [simp]: "untouched_stores w w"
  by (simp add: untouched_stores_def)

lemma untouched_writes [simp]:
  "untouched_stores w (oa_log e w1) = untouched_stores w w1"
  "untouched_stores w (cache_operator E p i w1) = untouched_stores w w1"
  "untouched_stores w (clearOperatorCache E p w1) = untouched_stores w w1"
  "untouched_stores w (failed_attempt w1) = untouched_stores w w1"
  "untouched_stores w (logDenied i q y w1) = untouched_stores w w1"
  "untouched_stores w (audit_response q opr n w1) = untouched_stores w w1"
  by (auto simp: untouched_stores_def oa_log_def cache_operator_def clearOperatorCache_def failed_attempt_def logDenied_def
        audit_response_def Let_def split: option.splits)

lemma untouched_limits: "limit_refuses E q opr w = (b, w1) \<Longrightarrow> untouched_stores w w1"
  by (auto simp: limit_refuses_def untouched_stores_def split: option.splits if_splits prod.splits)

lemma prims_silent: "untouched_stores w w1 \<Longrightarrow> op_prims E w w1"
  by (blast intro: op_prim.silent)

lemma prims_silent_after: "op_prims E w w1 \<Longrightarrow> untouched_stores w1 w2 \<Longrightarrow> op_prims E w w2"
  by (blast intro: prims_silent rtranclp_trans)

lemma prims_touch: "(\<And>d. op_core (f d) = op_core d \<and> (is_revoked d \<longrightarrow> is_revoked (f d))) \<Longrightarrow> op_prims E w (updateOperator E i f w)"
  by (blast intro: op_prim.touch)

lemma prims_updates:
  "op_prims E w (op_updateStatus E now i Op_revoked why w)"
  "op_prims E w (updateApiKey E now i h p w)"
  "op_prims E w (updateLastActive E now i w)"
  unfolding op_updateStatus_def updateApiKey_def updateLastActive_def
  by (rule prims_touch; simp add: op_core_def is_revoked_def Let_def)+

lemma prims_authenticate: "op_prims E w (snd (authenticate E q w))"
proof -
  have key: "op_prims E w (snd (authenticate_key E q token w))" for token
  proof (cases "\<exists>prefix opr. extractKeyPrefix token = Some prefix \<and> find_operator E prefix w = Some opr
      \<and> oe_verify E token (fo_apiKeyHash opr) \<and> fo_status opr = Op_active")
    case True
    then obtain prefix opr where p: "extractKeyPrefix token = Some prefix" "find_operator E prefix w = Some opr"
      "oe_verify E token (fo_apiKeyHash opr)" "fo_status opr = Op_active" by blast
    obtain b w2 where lim: "limit_refuses E q opr (cache_operator E prefix (op_id opr) w) = (b, w2)" by fastforce
    have "untouched_stores w w2"
      using untouched_limits [OF lim] untouched_writes(2) [of w E prefix "op_id opr" w] by (simp add: untouched_stores_def)
    with p lim show ?thesis
      by (auto simp: authenticate_key_def Let_def intro: prims_silent prims_updates(3) rtranclp_trans [OF prims_silent])
  next
    case False
    then have "untouched_stores w (snd (authenticate_key E q token w))"
      by (auto simp: authenticate_key_def split: option.splits)
    then show ?thesis by (rule prims_silent)
  qed
  show ?thesis
    unfolding authenticate_def Let_def
    by (auto split: option.splits intro: key prims_silent op_prim.load_root)
qed

lemma prims_admitted: "op_prims E w (snd (admitted E q w))"
  using prims_authenticate [of E w q] by (simp add: admitted_def split: gate_verdict.splits)

lemma prims_revoke: "op_prims E w (snd (post_revoke E opr i q w))"
proof -
  have "op_prims E w (oa_log e (clearOperatorCache E pre (op_updateStatus E now i Op_revoked y w)))" for e now y pre
    by (rule prims_silent_after [OF prims_updates(1) [of E w now i y]]) simp
  then show ?thesis
    unfolding post_revoke_def by (auto simp: Let_def split: gate_verdict.splits option.splits)
qed

lemma prims_rotate: "op_prims E w (snd (post_rotate E opr i q w))"
proof -
  have "op_prims E w (oa_log e (updateApiKey E now i h p (clearOperatorCache E pre w)))" for e now h p pre
  proof (rule prims_silent_after)
    show "op_prims E w (updateApiKey E now i h p (clearOperatorCache E pre w))"
      by (rule rtranclp_trans [OF prims_silent prims_updates(2)]) simp
  qed simp
  then show ?thesis unfolding post_rotate_def by (auto simp: Let_def split: option.splits prod.splits)
qed

lemma first_root_bootstrap [simp]:
  "first_root (bootstrap_operator name email h p q)" "first_root (seed_operator name email h p q)"
  by (simp_all add: first_root_def bootstrap_operator_def seed_operator_def)

lemma prims_first: "createOperator E d w = Some w1 \<Longrightarrow> first_root d \<Longrightarrow> op_prims E w w1"
  by (blast intro: op_prim.first)

lemma prims_bootstrap: "op_prims E w (snd (post_bootstrap E q w))"
  unfolding post_bootstrap_def
  by (auto simp: Let_def split: option.splits prod.splits intro: prims_silent prims_first)

lemma prims_seed: "seedRootOperator E name email key q w = Some (i, w1) \<Longrightarrow> op_prims E w w1"
  unfolding seedRootOperator_def Let_def
  by (auto split: list.splits if_splits option.splits prod.splits elim!: prims_first)

section \<open>The system\<close>

text \<open>
  Requests, acceptances that are interrupted by the creation of the key, the periodic expiry, and restarts, which seed the root
  operator unless the bootstrap route is to make it.
\<close>

record ('o, 'i, 's) op_system =
  os_world :: "('o, 'i, 's) op_world"
  os_accepting :: "(http_request \<times> invitation \<times> accept_input) list"

inductive op_step :: "('o, 'i, 's) op_env \<Rightarrow> ('o, 'i, 's) op_system \<Rightarrow> ('o, 'i, 's) op_system \<Rightarrow> bool" for E where
  request: "op_step E s (s\<lparr>os_world := snd (serve E q (os_world s))\<rparr>)"
| accept_begins: "admitted E q (os_world s) = (Auth_next opr, w1) \<Longrightarrow> accept_read E q w1 = Inr (iv, a) \<Longrightarrow>
    op_step E s \<lparr>os_world = w1, os_accepting = (q, iv, a) # os_accepting s\<rparr>"
| accept_ends: "(q, iv, a) \<in> set (os_accepting s) \<Longrightarrow>
    op_step E s \<lparr>os_world = snd (accept_write E q iv a (os_world s)), os_accepting = remove1 (q, iv, a) (os_accepting s)\<rparr>"
| sweep: "op_step E s (s\<lparr>os_world := snd (expireInvitations E now (os_world s))\<rparr>)"
| restart: "seedRootOperator E name email key q (os_world s) = Some (i, w1) \<Longrightarrow>
    op_step E s \<lparr>os_world = w1\<lparr>ow_root := None, ow_bootstrap := \<lparr>boot_attempts = 0, boot_locked = False\<rparr>\<rparr>, os_accepting = []\<rparr>"

abbreviation op_steps where
  "op_steps E \<equiv> (op_step E)\<^sup>*\<^sup>*"

definition sys_ok where
  "sys_ok E s \<longleftrightarrow> ops_ok E (os_world s) \<and> (\<forall>(q, iv, a) \<in> set (os_accepting s).
     \<exists>iv1. inv_at E (inv_id iv) (os_world s) = Some iv1 \<and> inv_core iv1 = inv_core iv)"

text \<open>A deployment without operators and invitations.\<close>

definition fresh_deployment where
  "fresh_deployment E s \<longleftrightarrow> docs (oe_operators E) (ow_operators (os_world s)) = {#}
     \<and> docs (oe_invitations E) (ow_invitations (os_world s)) = {#} \<and> ow_root (os_world s) = None \<and> os_accepting s = []"

locale operator_stores =
  ops: mongo_collection "oe_operators E" op_id + invs: mongo_collection "oe_invitations E" inv_id
  for E :: "('o, 'i, 's) op_env"
begin

lemma opr_at: "getByOperatorId E i w = doc_at (oe_operators E) op_id (ow_operators w) i"
  by (simp add: getByOperatorId_def doc_at_def)

lemma opr_id: "getByOperatorId E i w = Some d \<Longrightarrow> op_id d = i"
  unfolding opr_at by (rule ops.lookup_key)

lemma opr_doc: "ids_unique (oe_operators E) op_id (ow_operators w) \<Longrightarrow> d \<in># docs (oe_operators E) (ow_operators w)
    \<Longrightarrow> getByOperatorId E (op_id d) w = Some d"
  unfolding opr_at by (rule ops.lookup_doc)

lemma update_opr:
  assumes "ids_unique (oe_operators E) op_id (ow_operators w)" "\<And>d. op_id (f d) = op_id d"
  shows "ids_unique (oe_operators E) op_id (ow_operators (updateOperator E i f w))"
    and "getByOperatorId E k (updateOperator E i f w) = (if k = i then map_option f (getByOperatorId E i w) else getByOperatorId E k w)"
proof -
  obtain n c where u: "updateOne (oe_operators E) (\<lambda>d. op_id d = i \<and> True) f (ow_operators w) = (n, c)" by fastforce
  from ops.update_one_lookup [OF assms u] u
  show "ids_unique (oe_operators E) op_id (ow_operators (updateOperator E i f w))"
    and "getByOperatorId E k (updateOperator E i f w) = (if k = i then map_option f (getByOperatorId E i w) else getByOperatorId E k w)"
    by (simp_all add: updateOperator_def opr_at)
qed

lemma create_opr:
  assumes "ids_unique (oe_operators E) op_id (ow_operators w)" "createOperator E d w = Some w1"
  shows "ids_unique (oe_operators E) op_id (ow_operators w1)" "getByOperatorId E (op_id d) w = None"
    "getByOperatorId E k w1 = (if k = op_id d then Some d else getByOperatorId E k w)"
    "ow_invitations w1 = ow_invitations w" "ow_root w1 = ow_root w"
proof -
  from assms(2) obtain c where c: "insertOne (oe_operators E) d (ow_operators w) = Some c" "w1 = w\<lparr>ow_operators := c\<rparr>"
    by (auto simp: createOperator_def)
  from ops.insert_lookup [OF assms(1) c(1)] c(2)
  show "ids_unique (oe_operators E) op_id (ow_operators w1)" "getByOperatorId E (op_id d) w = None"
    "getByOperatorId E k w1 = (if k = op_id d then Some d else getByOperatorId E k w)"
    "ow_invitations w1 = ow_invitations w" "ow_root w1 = ow_root w"
    by (simp_all add: opr_at)
qed

lemma create_inv:
  assumes "ids_unique (oe_invitations E) inv_id (ow_invitations w)" "createInvitation E iv w = Some w1"
  shows "ids_unique (oe_invitations E) inv_id (ow_invitations w1)" "inv_at E (inv_id iv) w = None"
    "inv_at E k w1 = (if k = inv_id iv then Some iv else inv_at E k w)"
    "ow_operators w1 = ow_operators w" "ow_root w1 = ow_root w"
proof -
  from assms(2) obtain c where c: "insertOne (oe_invitations E) iv (ow_invitations w) = Some c" "w1 = w\<lparr>ow_invitations := c\<rparr>"
    by (auto simp: createInvitation_def)
  from invs.insert_lookup [OF assms(1) c(1)] c(2)
  show "ids_unique (oe_invitations E) inv_id (ow_invitations w1)" "inv_at E (inv_id iv) w = None"
    "inv_at E k w1 = (if k = inv_id iv then Some iv else inv_at E k w)" "ow_operators w1 = ow_operators w" "ow_root w1 = ow_root w"
    by (simp_all add: inv_at_def)
qed

lemma same_operators: "ow_operators w1 = ow_operators w \<Longrightarrow> getByOperatorId E i w1 = getByOperatorId E i w"
  by (simp add: getByOperatorId_def)

lemma same_invitations: "ow_invitations w1 = ow_invitations w \<Longrightarrow> inv_at E i w1 = inv_at E i w"
  by (simp add: inv_at_def)

lemma updateOperator_rest [simp]:
  "ow_invitations (updateOperator E i f w) = ow_invitations w" "ow_root (updateOperator E i f w) = ow_root w"
  by (simp_all add: updateOperator_def)

lemma acceptInvitation_inv:
  assumes "ids_unique (oe_invitations E) inv_id (ow_invitations w)"
  shows "ids_unique (oe_invitations E) inv_id (ow_invitations (acceptInvitation E now j i w))"
    and "inv_at E k (acceptInvitation E now j i w) = (if k = j then map_option
           (\<lambda>d. d\<lparr>inv_status := Inv_accepted, inv_acceptedAt := Some now, inv_acceptedBy := Some i\<rparr>) (inv_at E j w) else inv_at E k w)"
    and "ow_operators (acceptInvitation E now j i w) = ow_operators w" "ow_root (acceptInvitation E now j i w) = ow_root w"
proof -
  let ?f = "\<lambda>d. d\<lparr>inv_status := Inv_accepted, inv_acceptedAt := Some now, inv_acceptedBy := Some i\<rparr>"
  obtain n c where u: "updateOne (oe_invitations E) (\<lambda>d. inv_id d = j \<and> True) ?f (ow_invitations w) = (n, c)" by fastforce
  from invs.update_one_lookup [OF assms _ u] u
  show "ids_unique (oe_invitations E) inv_id (ow_invitations (acceptInvitation E now j i w))"
    and "inv_at E k (acceptInvitation E now j i w) = (if k = j then map_option ?f (inv_at E j w) else inv_at E k w)"
    by (simp_all add: acceptInvitation_def inv_at_def)
qed (simp_all add: acceptInvitation_def)

lemma expireInvitations_inv:
  assumes "ids_unique (oe_invitations E) inv_id (ow_invitations w)"
  shows "ids_unique (oe_invitations E) inv_id (ow_invitations (snd (expireInvitations E now w)))"
    and "inv_at E k (snd (expireInvitations E now w)) =
      map_option (\<lambda>d. if inv_status d = Inv_pending \<and> inv_expiresAt d < now then d\<lparr>inv_status := Inv_expired\<rparr> else d) (inv_at E k w)"
    and "ow_operators (snd (expireInvitations E now w)) = ow_operators w" "ow_root (snd (expireInvitations E now w)) = ow_root w"
proof -
  obtain n c where u: "updateMany (oe_invitations E) (\<lambda>d. inv_status d = Inv_pending \<and> inv_expiresAt d < now)
      (\<lambda>d. d\<lparr>inv_status := Inv_expired\<rparr>) (ow_invitations w) = (n, c)" by fastforce
  from invs.update_many_lookup [OF assms _ u] u
  show "ids_unique (oe_invitations E) inv_id (ow_invitations (snd (expireInvitations E now w)))"
    and "inv_at E k (snd (expireInvitations E now w)) =
      map_option (\<lambda>d. if inv_status d = Inv_pending \<and> inv_expiresAt d < now then d\<lparr>inv_status := Inv_expired\<rparr> else d) (inv_at E k w)"
    and "ow_operators (snd (expireInvitations E now w)) = ow_operators w" "ow_root (snd (expireInvitations E now w)) = ow_root w"
    by (simp_all add: expireInvitations_def inv_at_def)
qed

lemma elsewhere [simp]:
  "inv_at E j (updateOperator E i f w) = inv_at E j w"
  "getByOperatorId E k (acceptInvitation E now j i w) = getByOperatorId E k w"
  "getByOperatorId E k (snd (expireInvitations E now w)) = getByOperatorId E k w"
  "getByOperatorId E k (w\<lparr>ow_root := r\<rparr>) = getByOperatorId E k w" "inv_at E j (w\<lparr>ow_root := r\<rparr>) = inv_at E j w"
  by (simp_all add: inv_at_def getByOperatorId_def acceptInvitation_def expireInvitations_def split: prod.splits)

text \<open>Every primitive write keeps the invariant, loses nothing and leaves a revoked operator revoked.\<close>

lemma prim_keeps:
  assumes "op_prim E w w1" "ops_ok E w"
  shows "ops_ok E w1 \<and> later E w w1"
proof -
  from assms(2) have u: "ids_unique (oe_operators E) op_id (ow_operators w)" "ids_unique (oe_invitations E) inv_id (ow_invitations w)"
    by (simp_all add: ops_ok_def)
  from assms(1) show ?thesis
  proof cases
    case (touch f i)
    then have f: "op_id (f d) = op_id d" for d by (simp add: op_core_def)
    note up = update_opr [OF u(1) f]
    have l: "later E w w1"
      using touch by (auto simp: later_def up(2))
    moreover from up(1) u(2) touch have "ops_ok E w1"
      by (intro ops_ok_later [OF assms(2) l]) (auto simp: up(2) f opr_id split: if_splits)
    ultimately show ?thesis by blast
  next
    case silent
    then have same: "ow_operators w1 = ow_operators w" "ow_invitations w1 = ow_invitations w" "ow_root w1 = ow_root w"
      by (simp_all add: untouched_stores_def)
    with assms(2) show ?thesis
      by (simp add: ops_ok_def later_def same_operators [OF same(1)] same_invitations [OF same(2)])
  next
    case (load_root r i)
    have l: "later E w w1" by (simp add: later_def load_root(1))
    moreover have "ops_ok E w1"
      using u by (intro ops_ok_later [OF assms(2) l]) (use load_root in \<open>auto simp: opr_id\<close>)
    ultimately show ?thesis by blast
  next
    case (mark now j i)
    note m = acceptInvitation_inv [OF u(2)]
    have l: "later E w w1" using mark m(2) by (auto simp: later_def inv_core_def)
    moreover have "ops_ok E w1"
      using mark m u by (intro ops_ok_later [OF assms(2) l]) (auto simp: inv_core_def opr_id split: if_splits)
    ultimately show ?thesis by blast
  next
    case (expire now)
    note m = expireInvitations_inv [OF u(2)]
    have l: "later E w w1" using expire m(2) by (auto simp: later_def inv_core_def)
    moreover have "ops_ok E w1"
      using expire m u by (intro ops_ok_later [OF assms(2) l]) (auto simp: inv_core_def opr_id)
    ultimately show ?thesis by blast
  next
    case (admit iv iv1 d)
    note c = create_opr [OF u(1) admit(4)]
    note si = same_invitations [OF c(4)]
    have l: "later E w w1" using c(2,3) by (auto simp: later_def si)
    moreover have "ops_ok E w1"
    proof (rule ops_ok_later [OF assms(2) l c(1)])
      fix k e assume "getByOperatorId E k w1 = Some e"
      with c(3) [of k] have "getByOperatorId E k w = Some e \<or> e = d" by (auto split: if_splits)
      moreover have "inv_at E (inv_id iv) w1 = Some iv1" "from_invitation iv1 d"
        using admit core_from_invitation [of d d iv1 iv] by (simp_all add: si)
      ultimately show "(\<exists>d0. getByOperatorId E k w = Some d0 \<and> op_core e = op_core d0) \<or> first_root e
          \<or> (\<exists>j iv. inv_at E j w1 = Some iv \<and> from_invitation iv e)" by blast
    qed (use u c in \<open>auto simp: si opr_id split: if_splits\<close>)
    ultimately show ?thesis by blast
  next
    case (invite iv r)
    note c = create_inv [OF u(2) invite(3)]
    note so = same_operators [OF c(4)]
    have l: "later E w w1" using c(2,3) by (auto simp: later_def so)
    moreover have "ops_ok E w1"
    proof (rule ops_ok_later [OF assms(2) l _ c(1)])
      fix k jv assume "inv_at E k w1 = Some jv"
      with c(3) [of k] have "inv_at E k w = Some jv \<or> jv = iv" by (auto split: if_splits)
      then show "(\<exists>iv0. inv_at E k w = Some iv0 \<and> inv_core jv = inv_core iv0)
          \<or> (\<exists>r. getByOperatorId E (inv_createdBy jv) w1 = Some r \<and> op_tier r = Root)"
        using invite by (auto simp: so)
    qed (use u c in \<open>auto simp: so opr_id\<close>)
    ultimately show ?thesis by blast
  next
    case (first d)
    note c = create_opr [OF u(1) first(2)]
    note si = same_invitations [OF c(4)]
    have l: "later E w w1" using c(2,3) by (auto simp: later_def si)
    moreover have "ops_ok E w1"
      using c u first by (intro ops_ok_later [OF assms(2) l c(1)]) (auto simp: si opr_id split: if_splits)
    ultimately show ?thesis by blast
  qed
qed

lemma prims_keep: "op_prims E w w1 \<Longrightarrow> ops_ok E w \<Longrightarrow> ops_ok E w1 \<and> later E w w1"
proof (induction rule: rtranclp_induct)
  case base
  then show ?case by (simp add: later_refl)
next
  case (step w1 w2)
  then show ?case using prim_keeps [of w1 w2] later_trans [of E w w1 w2] by blast
qed

text \<open>Who an admitted request acts for.\<close>

lemma find_operator_found:
  assumes "ids_unique (oe_operators E) op_id (ow_operators w)" "find_operator E p w = Some u"
  shows "getByOperatorId E (op_id u) w = Some u"
  using assms opr_id [of _ w u]
  by (auto simp: find_operator_def Let_def getByApiKeyPrefix_def split: option.splits list.splits dest!: ops.find_one intro: opr_doc)

lemma authenticate_key_next:
  assumes "ids_unique (oe_operators E) op_id (ow_operators w)" "authenticate_key E q token w = (Auth_next opr, w1)"
  obtains u where "opr = Some u" "getByOperatorId E (op_id u) w = Some u" "fo_status u = Op_active" "oe_verify E token (fo_apiKeyHash u)"
proof -
  from assms(2) have "\<exists>p u. find_operator E p w = Some u \<and> opr = Some u \<and> fo_status u = Op_active \<and> oe_verify E token (fo_apiKeyHash u)"
    by (simp add: authenticate_key_def Let_def split: option.splits if_splits prod.splits) metis
  with find_operator_found [OF assms(1)] that show thesis by blast
qed

lemma authenticate_acts_for:
  assumes ok: "ops_ok E w" and auth: "authenticate E q w = (Auth_next (Some u), w1)"
  shows "\<exists>d. getByOperatorId E (op_id u) w = Some d \<and> op_tier d = op_tier u"
proof (cases "bearer_token q")
  case None
  with auth ok opr_id [of "oe_rootOperatorId E" w u] show ?thesis
    by (auto simp: authenticate_def ops_ok_def Let_def split: if_splits option.splits)
next
  case (Some token)
  from ok have "ids_unique (oe_operators E) op_id (ow_operators w)" by (simp add: ops_ok_def)
  moreover from auth Some have "authenticate_key E q token w = (Auth_next (Some u), w1)" by (simp add: authenticate_def split: if_splits)
  ultimately show ?thesis by (rule authenticate_key_next) auto
qed

lemma prims_invite:
  assumes "\<And>u. opr = Some u \<Longrightarrow> \<exists>d. getByOperatorId E (op_id u) w = Some d \<and> op_tier d = op_tier u"
  shows "op_prims E w (snd (post_invite E opr q w))"
proof -
  have "op_prims E w (oa_log e w1)" if "opr = Some u" "requireTier Root (Some u) = Gate_pass"
    "createInvitation E (new_invitation u i h q) w = Some w1" for u i h w1 e
  proof (rule prims_silent_after)
    have "op_tier u = Root" using that(2) by (cases "op_tier u") (simp_all add: requireTier_def)
    with assms [OF that(1)] obtain d where "getByOperatorId E (op_id u) w = Some d" "op_tier d = Root" by auto
    with that(3) have "op_prim E w w1" by (intro op_prim.invite [of E "new_invitation u i h q"]) (simp_all add: new_invitation_def)
    then show "op_prims E w w1" by blast
  qed simp
  then show ?thesis unfolding post_invite_def
    by (auto simp: Let_def split: gate_verdict.splits option.splits prod.splits)
qed

lemma accept_read_found:
  assumes "ops_ok E w" "accept_read E q w = Inr (iv, a)"
  shows "inv_at E (inv_id iv) w = Some iv"
  using assms
  by (auto simp: accept_read_def getInvitationByTokenHash_def inv_at_def ops_ok_def split: option.splits if_splits
        dest!: invs.find_one intro: invs.lookup_doc)

lemma prims_accept_write:
  assumes "inv_at E (inv_id iv) w = Some iv1" "inv_core iv1 = inv_core iv"
  shows "op_prims E w (snd (accept_write E q iv a w))"
proof -
  have "op_prims E w (oa_log e (acceptInvitation E now j i w1))" if "createOperator E (invited_operator iv a h p q) w = Some w1"
    for e now j i h p w1
  proof (rule prims_silent_after)
    have "from_invitation iv (invited_operator iv a h p q)" by (simp add: from_invitation_def invited_operator_def)
    from op_prim.admit [OF assms this that] op_prim.mark
    show "op_prims E w (acceptInvitation E now j i w1)" by (meson r_into_rtranclp rtranclp.rtrancl_into_rtrancl)
  qed simp
  then show ?thesis unfolding accept_write_def by (auto simp: Let_def split: option.splits prod.splits)
qed

lemma prims_serve:
  assumes ok: "ops_ok E w"
  shows "op_prims E w (snd (serve E q w))"
proof (cases "is_bootstrap E q")
  case True
  then show ?thesis
    using prims_bootstrap [of E w q] by (auto simp: serve_def split: gate_verdict.splits)
next
  case False
  obtain r w1 where ad: "admitted E q w = (r, w1)" by fastforce
  have w1: "op_prims E w w1" using prims_admitted [of E w q] ad by simp
  with prims_keep ok have ok1: "ops_ok E w1" and l: "later E w w1" by blast+
  show ?thesis
  proof (cases r)
    case (Auth_refused n)
    with False ad w1 show ?thesis by (simp add: serve_def)
  next
    case (Auth_next opr)
    have acts: "\<exists>d. getByOperatorId E (op_id u) w1 = Some d \<and> op_tier d = op_tier u" if "opr = Some u" for u
    proof -
      from ad Auth_next that have "authenticate E q w = (Auth_next (Some u), w1)" by (simp add: admitted_def split: gate_verdict.splits)
      from authenticate_acts_for [OF ok this] l show ?thesis unfolding later_def op_core_def by (metis prod.inject)
    qed
    have accept: "op_prims E w1 (snd (post_accept E q w1))"
      unfolding post_accept_def
      using prims_accept_write [OF accept_read_found [OF ok1] refl] by (auto split: sum.splits)
    have "op_prims E w1 (snd (operator_route E opr q w1))"
      unfolding operator_route_def Let_def
      using prims_invite [OF acts] accept prims_revoke prims_rotate by auto
    with w1 have "op_prims E w (snd (operator_route E opr q w1))" by (rule rtranclp_trans)
    then show ?thesis
      using False ad Auth_next by (auto simp: serve_def Let_def split: prod.splits intro: prims_silent_after)
  qed
qed

lemma fresh_ok:
  assumes "fresh_deployment E s"
  shows "sys_ok E s"
proof -
  from assms have u: "ids_unique (oe_operators E) op_id (ow_operators (os_world s))"
    "ids_unique (oe_invitations E) inv_id (ow_invitations (os_world s))" by (simp_all add: fresh_deployment_def ids_unique_def)
  with assms show ?thesis
    by (simp add: sys_ok_def ops_ok_def fresh_deployment_def opr_at inv_at_def ops.lookup_some invs.lookup_some)
qed

lemma prims_restart:
  assumes "seedRootOperator E name email key q w = Some (i, w1)"
  shows "op_prims E w (w1\<lparr>ow_root := None, ow_bootstrap := b\<rparr>)"
proof (rule prims_silent_after)
  show "op_prims E w (w1\<lparr>ow_root := None\<rparr>)"
    using prims_seed [OF assms] op_prim.load_root [of None E _ w1] by (meson rtranclp.rtrancl_into_rtrancl)
qed (simp add: untouched_stores_def)

lemma op_step_keeps:
  assumes "op_step E s s1" "sys_ok E s"
  shows "sys_ok E s1 \<and> later E (os_world s) (os_world s1)"
proof -
  have world: "sys_ok E s1 \<and> later E (os_world s) (os_world s1)"
    if p: "op_prims E (os_world s) (os_world s1)" and sub: "set (os_accepting s1) \<subseteq> set (os_accepting s)" for s1
  proof -
    from prims_keep [OF p] assms(2) have k: "ops_ok E (os_world s1)" "later E (os_world s) (os_world s1)" by (simp_all add: sys_ok_def)
    have "\<exists>iv2. inv_at E (inv_id iv) (os_world s1) = Some iv2 \<and> inv_core iv2 = inv_core iv" if "(q, iv, a) \<in> set (os_accepting s1)" for q iv a
      using that sub assms(2) k(2) unfolding sys_ok_def later_def by fastforce
    with k show ?thesis by (auto simp: sys_ok_def)
  qed
  have ok: "ops_ok E (os_world s)" using assms(2) by (simp add: sys_ok_def)
  from assms(1) show ?thesis
  proof cases
    case (request q)
    with prims_serve [OF ok, of q] show ?thesis by (intro world) simp_all
  next
    case (accept_begins q opr w1 iv a)
    have "op_prims E (os_world s) w1" using prims_admitted [of E "os_world s" q] accept_begins(2) by simp
    with world [of "s\<lparr>os_world := w1\<rparr>"] have k: "sys_ok E (s\<lparr>os_world := w1\<rparr>)" "later E (os_world s) w1" by simp_all
    with accept_read_found [OF _ accept_begins(3)] accept_begins(1) show ?thesis by (auto simp: sys_ok_def)
  next
    case (accept_ends q iv a)
    then obtain iv1 where "inv_at E (inv_id iv) (os_world s) = Some iv1" "inv_core iv1 = inv_core iv"
      using assms(2) by (fastforce simp: sys_ok_def)
    from prims_accept_write [OF this] accept_ends set_remove1_subset [of "(q, iv, a)" "os_accepting s"] show ?thesis
      by (intro world) simp_all
  next
    case (sweep now)
    then show ?thesis by (intro world) (auto intro: op_prim.expire)
  next
    case restart
    then show ?thesis
      using prims_restart by (intro world) (auto simp del: op_world.simps)
  qed
qed

lemma steps_keep: "op_steps E s s1 \<Longrightarrow> sys_ok E s \<Longrightarrow> sys_ok E s1 \<and> later E (os_world s) (os_world s1)"
proof (induction rule: rtranclp_induct)
  case base
  then show ?case by (simp add: later_refl)
next
  case (step s1 s2)
  then show ?case using op_step_keeps [of s1 s2] later_trans [of E "os_world s" "os_world s1" "os_world s2"] by blast
qed

lemma origin:
  assumes "fresh_deployment E s0" "op_steps E s0 s" "getByOperatorId E i (os_world s) = Some d"
  shows "first_root d \<or> (\<exists>j iv r. inv_at E j (os_world s) = Some iv \<and> from_invitation iv d
      \<and> getByOperatorId E (inv_createdBy iv) (os_world s) = Some r \<and> op_tier r = Root)"
proof -
  have "ops_ok E (os_world s)" using steps_keep [OF assms(2) fresh_ok [OF assms(1)]] by (simp add: sys_ok_def)
  with assms(3) show ?thesis unfolding ops_ok_def by blast
qed

lemma acts_for_active:
  assumes "ids_unique (oe_operators E) op_id (ow_operators w)" "starts_with (rq_path q) ''/v1/''"
    and "authenticate E q w = (Auth_next (Some u), w1)"
  shows "getByOperatorId E (op_id u) w = Some u \<and> fo_status u = Op_active
    \<and> (\<exists>token. rq_authorization q = Some (''Bearer '' @ token) \<and> oe_verify E token (fo_apiKeyHash u))"
proof -
  from assms(2,3) obtain token where t: "bearer_token q = Some token" "authenticate_key E q token w = (Auth_next (Some u), w1)"
    by (auto simp: authenticate_def split: if_splits option.splits)
  from t(1) have "rq_authorization q = Some (''Bearer '' @ token)"
    by (auto simp: bearer_token_def starts_with_iff split: option.splits if_splits)
  with authenticate_key_next [OF assms(1) t(2)] show ?thesis by auto
qed

lemma revoked_for_good:
  assumes "fresh_deployment E s0" "op_steps E s0 s" "getByOperatorId E i (os_world s) = Some d" "fo_status d = Op_revoked"
    and "op_steps E s s1" "starts_with (rq_path q) ''/v1/''" "authenticate E q (os_world s1) = (Auth_next (Some u), w2)"
  shows "op_id u \<noteq> i"
proof
  assume i: "op_id u = i"
  from steps_keep [OF assms(2) fresh_ok [OF assms(1)]] have ok: "sys_ok E s" by blast
  from steps_keep [OF assms(5) ok] have ok1: "ids_unique (oe_operators E) op_id (ow_operators (os_world s1))"
    and l: "later E (os_world s) (os_world s1)" by (simp_all add: sys_ok_def ops_ok_def)
  from l assms(3,4) obtain d1 where "getByOperatorId E i (os_world s1) = Some d1" "fo_status d1 = Op_revoked"
    unfolding later_def is_revoked_def by blast
  with acts_for_active [OF ok1 assms(6,7)] i show False by simp
qed

text \<open>An address enters once: the id is made of its local part, and nobody ever leaves the collection.\<close>

lemma taken_id:
  assumes "ids_unique (oe_operators E) op_id (ow_operators w)" "takeWhile (\<lambda>c. c \<noteq> CHR ''@'') (inv_email iv) \<noteq> []"
    and "getByOperatorId E (operator_id_of (inv_email iv) []) w = Some d"
  shows "accept_write E q iv a w = (Inl 500, w)"
proof -
  have "operator_id_of (inv_email iv) (rq_uuid8 q) = operator_id_of (inv_email iv) []"
    using assms(2) by (simp add: operator_id_of_def Let_def)
  then have "createOperator E (invited_operator iv a h p q) w = None" for h p
    using create_opr(2) [OF assms(1), of "invited_operator iv a h p q"] assms(3)
    by (cases "createOperator E (invited_operator iv a h p q) w") (auto simp: invited_operator_def)
  then show ?thesis by (simp add: accept_write_def Let_def split: prod.splits)
qed

text \<open>The key that is shown once opens the account.\<close>

lemma key_opens:
  assumes u: "ids_unique (oe_operators E) op_id (ow_operators w)"
    and acc: "accept_write E q iv a w = (Inr (Accepted i key), w1)"
    and rnd: "8 \<le> length (rq_random q)" "\<forall>d \<in># docs (oe_operators E) (ow_operators w). fo_apiKeyPrefix d \<noteq> take 8 (rq_random q)"
    and cache: "\<And>R. oe_redis E = Some R \<Longrightarrow> GET R (CACHE_PREFIX @ take 8 (rq_random q)) (ow_redis w) = None"
    and verify: "oe_verify E key (oe_hash E (rq_salt q) key)"
    and q1: "rq_authorization q1 = Some (''Bearer '' @ key)" "\<not> isExemptPath (rq_path q1)"
      "rq_path q1 \<noteq> ''/v1/operators/accept-invite''" "rq_path q1 \<noteq> ''/v1/tasks''"
  shows "\<exists>u w2. authenticate E q1 w1 = (Auth_next (Some u), w2) \<and> op_id u = i \<and> op_tier u = inv_tier iv
    \<and> op_departments u = inv_departments iv"
proof -
  let ?prefix = "take 8 (rq_random q)"
  obtain hash w0 where k: "key = API_KEY_PREFIX @ rq_random q" "hash = oe_hash E (rq_salt q) key"
    and c: "createOperator E (invited_operator iv a hash ?prefix q) w = Some w0"
    and i: "i = op_id (invited_operator iv a hash ?prefix q)"
    and w1: "getByOperatorId E j w1 = getByOperatorId E j w0" "ow_operators w1 = ow_operators w0" "ow_redis w1 = ow_redis w0" for j
    using acc by (auto simp: accept_write_def generateApiKey_def Let_def oa_log_def acceptInvitation_def getByOperatorId_def split: option.splits)
  let ?u = "invited_operator iv a hash ?prefix q"
  from c obtain cs where cs: "insertOne (oe_operators E) ?u (ow_operators w) = Some cs" "ow_operators w0 = cs" "ow_redis w0 = ow_redis w"
    by (auto simp: createOperator_def)
  from ops.insert_one [OF cs(1)] have D: "docs (oe_operators E) cs = add_mset ?u (docs (oe_operators E) (ow_operators w))" by blast
  have p: "fo_apiKeyPrefix ?u = ?prefix" by (simp add: invited_operator_def)
  have "getByApiKeyPrefix E ?prefix w1 = Some ?u"
  proof (cases "getByApiKeyPrefix E ?prefix w1")
    case None
    with ops.find_none [of "\<lambda>d. fo_apiKeyPrefix d = ?prefix" cs ?u] D p w1(2) cs(2) show ?thesis by (auto simp: getByApiKeyPrefix_def)
  next
    case (Some d)
    with w1(2) cs(2) have "d \<in># docs (oe_operators E) cs" "fo_apiKeyPrefix d = ?prefix"
      using ops.find_one [of "\<lambda>d. fo_apiKeyPrefix d = ?prefix" cs d] by (auto simp: getByApiKeyPrefix_def)
    with D rnd(2) have "d = ?u" by auto
    with Some show ?thesis by simp
  qed
  then have find: "find_operator E ?prefix w1 = Some ?u"
    using cache w1(3) cs(3) by (auto simp: find_operator_def split: option.splits)
  have px: "extractKeyPrefix key = Some ?prefix" using rnd(1) by (simp add: extractKeyPrefix_def k(1) Let_def)
  have b: "bearer_token q1 = Some key" using q1(1) k(1) by (simp add: bearer_token_def starts_with_def API_KEY_PREFIX_def)
  have lim: "limit_refuses E q1 ?u w2 = (False, w2)" for w2
    using q1(4) by (simp add: limit_refuses_def split: option.splits)
  have v: "oe_verify E key (fo_apiKeyHash ?u)" "fo_status ?u = Op_active" using verify k(2) by (simp_all add: invited_operator_def)
  have "\<exists>w2. authenticate E q1 w1 = (Auth_next (Some ?u), w2)"
    using q1(2,3) b px find v by (simp add: authenticate_def authenticate_key_def lim Let_def)
  with i show ?thesis by (fastforce simp: invited_operator_def)
qed

end

section \<open>Guessing the setup token\<close>

text \<open>A request that reaches the bootstrap route with a token that is not the setup token, before the route is locked.\<close>

definition wrong_guess where
  "wrong_guess E q w \<longleftrightarrow> is_bootstrap E q \<and> migrate_gate q = Gate_pass \<and> api_key_gate E q = Gate_pass \<and> tailscale_gate E q = Gate_pass
     \<and> \<not> boot_locked (ow_bootstrap w) \<and> rq_authorization q \<noteq> map_option (\<lambda>t. ''Bearer '' @ js_trim t) (oe_setupToken E)"

fun wrong_guesses where
  "wrong_guesses E [] w = (0 :: nat)"
| "wrong_guesses E (q # qs) w = (if wrong_guess E q w then 1 else 0 :: nat) + wrong_guesses E qs (snd (serve E q w))"

lemma bootstrap_state_kept [simp]:
  "ow_bootstrap (oa_log e w) = ow_bootstrap w" "ow_bootstrap (updateOperator E i f w) = ow_bootstrap w"
  "ow_bootstrap (cache_operator E p i w) = ow_bootstrap w" "ow_bootstrap (clearOperatorCache E p w) = ow_bootstrap w"
  "ow_bootstrap (logDenied i q y w) = ow_bootstrap w" "ow_bootstrap (audit_response q opr n w) = ow_bootstrap w"
  "ow_bootstrap (acceptInvitation E now j i w) = ow_bootstrap w"
  by (auto simp: oa_log_def updateOperator_def cache_operator_def clearOperatorCache_def logDenied_def audit_response_def
      acceptInvitation_def split: option.splits)

lemma bootstrap_state_created: "createOperator E d w = Some w1 \<Longrightarrow> ow_bootstrap w1 = ow_bootstrap w"
  by (auto simp: createOperator_def)

lemma bootstrap_state_invited: "createInvitation E iv w = Some w1 \<Longrightarrow> ow_bootstrap w1 = ow_bootstrap w"
  by (auto simp: createInvitation_def)

lemma bootstrap_state_limits: "limit_refuses E q opr w = (b, w1) \<Longrightarrow> ow_bootstrap w1 = ow_bootstrap w"
  by (auto simp: limit_refuses_def split: option.splits if_splits prod.splits)

lemma bootstrap_state_admitted: "ow_bootstrap (snd (admitted E q w)) = ow_bootstrap w"
  by (auto simp: admitted_def authenticate_def authenticate_key_def Let_def updateLastActive_def
      split: gate_verdict.splits option.splits prod.splits dest: bootstrap_state_limits)

lemma bootstrap_state_handlers:
  "ow_bootstrap (snd (post_invite E opr q w)) = ow_bootstrap w" "ow_bootstrap (snd (accept_write E q iv a w)) = ow_bootstrap w"
  "ow_bootstrap (snd (post_revoke E opr i q w)) = ow_bootstrap w" "ow_bootstrap (snd (post_rotate E opr i q w)) = ow_bootstrap w"
  unfolding post_invite_def accept_write_def post_revoke_def post_rotate_def op_updateStatus_def updateApiKey_def
  by (simp_all add: Let_def bootstrap_state_created bootstrap_state_invited split: gate_verdict.splits option.splits prod.splits)

lemma bootstrap_state_route: "ow_bootstrap (snd (operator_route E opr q w)) = ow_bootstrap w"
  by (simp add: operator_route_def Let_def post_accept_def bootstrap_state_handlers split: sum.splits prod.splits)

lemma post_bootstrap_state:
  assumes "oe_setupToken E = Some t"
  shows "ow_bootstrap (snd (post_bootstrap E q w)) =
    (if \<not> boot_locked (ow_bootstrap w) \<and> rq_authorization q \<noteq> Some (''Bearer '' @ js_trim t) then ow_bootstrap (failed_attempt w)
     else ow_bootstrap w)"
proof (cases "\<exists>h. rq_authorization q = Some h \<and> starts_with h ''Bearer ''")
  case True
  then obtain x where x: "rq_authorization q = Some (''Bearer '' @ x)" by (auto simp: starts_with_iff)
  obtain key p h where g: "generateApiKey (oe_hash E (rq_salt q)) (rq_random q) = (key, p, h)" by (metis prod_cases3)
  show ?thesis
  proof (cases "x = js_trim t")
    case True
    with x g assms show ?thesis
      by (simp add: post_bootstrap_def Let_def starts_with_def bootstrap_state_created split: option.splits)
  next
    case False
    with x assms show ?thesis by (simp add: post_bootstrap_def starts_with_def)
  qed
next
  case False
  then show ?thesis by (auto simp: post_bootstrap_def starts_with_def split: option.splits)
qed

lemma serve_bootstrap_state:
  "ow_bootstrap (snd (serve E q w)) = (if wrong_guess E q w then ow_bootstrap (failed_attempt w) else ow_bootstrap w)"
proof (cases "is_bootstrap E q")
  case True
  then obtain t where t: "oe_setupToken E = Some t" by (auto simp: is_bootstrap_def bootstrap_enabled_def split: option.splits)
  with True post_bootstrap_state [OF t, of q w] show ?thesis
    by (simp add: serve_def wrong_guess_def split: gate_verdict.splits)
next
  case False
  obtain r w1 where a: "admitted E q w = (r, w1)" by fastforce
  with bootstrap_state_admitted [of E q w] have "ow_bootstrap w1 = ow_bootstrap w" by simp
  with False a bootstrap_state_route [of E _ q w1] show ?thesis
    by (cases r) (auto simp: serve_def wrong_guess_def Let_def split_beta)
qed

lemma guesses_bounded:
  "(MAX_ATTEMPTS \<le> boot_attempts (ow_bootstrap w) \<longrightarrow> boot_locked (ow_bootstrap w)) \<Longrightarrow>
     wrong_guesses E qs w \<le> MAX_ATTEMPTS - boot_attempts (ow_bootstrap w)"
proof (induction qs arbitrary: w)
  case (Cons q qs)
  show ?case
  proof (cases "wrong_guess E q w")
    case True
    then have "\<not> boot_locked (ow_bootstrap w)" by (simp add: wrong_guess_def)
    with Cons.prems have "boot_attempts (ow_bootstrap w) < MAX_ATTEMPTS" by (meson not_less)
    moreover have "wrong_guesses E qs (snd (serve E q w)) \<le> MAX_ATTEMPTS - boot_attempts (ow_bootstrap (snd (serve E q w)))"
      using True by (intro Cons.IH) (simp add: serve_bootstrap_state failed_attempt_def Let_def)
    ultimately show ?thesis using True by (simp add: serve_bootstrap_state failed_attempt_def Let_def)
  next
    case False
    have "wrong_guesses E qs (snd (serve E q w)) \<le> MAX_ATTEMPTS - boot_attempts (ow_bootstrap (snd (serve E q w)))"
      using False Cons.prems by (intro Cons.IH) (simp add: serve_bootstrap_state)
    with False show ?thesis by (simp add: serve_bootstrap_state)
  qed
qed simp

section \<open>Around the gates\<close>

text \<open>
  Under the default of the web framework a path in capitals reaches the same route, but is no \<open>/v1/\<close> path to the middlewares: a client
  with the shared API key and without an operator key is let in as the root operator.
\<close>

lemma capitals_need_no_key:
  assumes "oe_fold E = to_lower" "\<not> oe_production E" "rq_path q = ''/V1/operators/invite''" "rq_apiKey q = Some (oe_apiKey E)"
    and "rq_authorization q = None" "ow_root w = Some r"
  shows "admitted E q w = (Auth_next (Some r), w)" and "path_segments E q = [[], ''v1'', ''operators'', ''invite'']"
proof -
  have "map to_lower (split_char (CHR ''/'') ''/V1/operators/invite'') = [[], ''v1'', ''operators'', ''invite'']" by code_simp
  with assms show "path_segments E q = [[], ''v1'', ''operators'', ''invite'']" by (simp add: path_segments_def)
  show "admitted E q w = (Auth_next (Some r), w)"
    using assms by (simp add: admitted_def migrate_gate_def api_key_gate_def requireApiKey_def tailscale_gate_def authenticate_def
      isExemptPath_def bearer_token_def starts_with_def)
qed

text \<open>The root operator of the legacy paths is read once; that it has been revoked since makes no difference.\<close>

lemma legacy_root_survives_revocation:
  assumes "ow_root w = Some r" "rq_authorization q = None" "rq_path q = ''/api/trigger''"
  shows "authenticate E q w = (Auth_next (Some r), w)"
  using assms by (simp add: authenticate_def bearer_token_def isExemptPath_def starts_with_def)

text \<open>Whoever writes the forwarding header is inside the private network.\<close>

lemma header_passes_the_boundary:
  assumes "rq_forwardedFor q = Some ''100.64.anything.goes''"
  shows "tailscale_gate E q = Gate_pass"
proof -
  have "isTailscaleIP ''100.64.anything.goes''" by code_simp
  with assms show ?thesis by (simp add: tailscale_gate_def)
qed

section \<open>A sample deployment\<close>

text \<open>A small deployment: lists of documents, no Redis, keys that are their own hashes, the default routing.\<close>

definition sample_op_env :: "(full_operator list, invitation list, ref_db) op_env" where
  "sample_op_env = \<lparr>oe_operators = list_mongo op_id, oe_invitations = list_mongo inv_id, oe_redis = None, oe_limiter = None,
     oe_iso = dec_int, oe_sha256 = (\<lambda>s. s), oe_hash = (\<lambda>salt key. salt @ key), oe_verify = (\<lambda>key h. ends_with h key),
     oe_isEmail = (\<lambda>s. CHR ''@'' \<in> set s), oe_fold = to_lower, oe_roles = [], oe_rootOperatorId = ''op_root'',
     oe_setupToken = Some ''0123456789abcdef0123456789abcdef'', oe_apiKey = ''shared'', oe_production = False\<rparr>"

interpretation sample_ops: operator_stores sample_op_env
  by (rule operator_stores.intro) (simp_all add: sample_op_env_def list_store.mongo_collection_axioms)

definition sample_request_to :: "string \<Rightarrow> string option \<Rightarrow> string \<Rightarrow> json \<Rightarrow> http_request" where
  "sample_request_to path token random body = \<lparr>rq_method = ''POST'', rq_path = path, rq_authorization = map_option (\<lambda>t. ''Bearer '' @ t) token,
     rq_apiKey = None, rq_forwardedFor = None, rq_ip = None, rq_body = body, rq_now = 5, rq_random = random, rq_salt = ''$'',
     rq_uuid8 = ''00000000'', rq_rnd = 0\<rparr>"

definition op_start :: "(full_operator list, invitation list, ref_db) op_system" where
  "op_start = \<lparr>os_world = \<lparr>ow_operators = [], ow_invitations = [], ow_redis = db_empty, ow_limits = db_empty, ow_root = None,
     ow_bootstrap = \<lparr>boot_attempts = 0, boot_locked = False\<rparr>, ow_audit = []\<rparr>, os_accepting = []\<rparr>"

definition sample_requests :: "http_request list" where
  "sample_requests =
     [sample_request_to ''/v1/operators/bootstrap'' (Some ''0123456789abcdef0123456789abcdef'') ''rootkey1'' (JObj []),
      sample_request_to ''/v1/operators/invite'' (Some ''gzop_live_rootkey1'') ''token'' (JObj [(''email'', JStr ''ann@a.org''),
        (''displayName'', JStr ''Ann''), (''role'', JStr ''lead''), (''tier'', JStr ''contributor''), (''departments'', JArr [JStr ''finance''])]),
      sample_request_to ''/v1/operators/accept-invite'' None ''annskey1'' (JObj [(''inviteToken'', JStr ''gzinv_token'')]),
      sample_request_to ''/v1/operators/op_ann/revoke'' (Some ''gzop_live_rootkey1'') '''' (JObj [(''reason'', JStr ''left'')])]"

definition after_requests :: "nat \<Rightarrow> (full_operator list, invitation list, ref_db) op_system" where
  "after_requests n = fold (\<lambda>q s. s\<lparr>os_world := snd (serve sample_op_env q (os_world s))\<rparr>) (take n sample_requests) op_start"

lemma served_steps: "op_steps E s (fold (\<lambda>q s. s\<lparr>os_world := snd (serve E q (os_world s))\<rparr>) qs s)"
  by (induction qs arbitrary: s) (auto intro: op_step.request converse_rtranclp_into_rtranclp)

lemma after_steps: "m \<le> n \<Longrightarrow> op_steps sample_op_env (after_requests m) (after_requests n)"
proof -
  assume "m \<le> n"
  then have "take n sample_requests = take m sample_requests @ take (n - m) (drop m sample_requests)" by (simp add: take_add [symmetric])
  then show ?thesis using served_steps [of sample_op_env "after_requests m" "take (n - m) (drop m sample_requests)"]
    by (simp add: after_requests_def)
qed

lemma fresh_start: "fresh_deployment sample_op_env (after_requests 0)"
  by (simp add: fresh_deployment_def after_requests_def op_start_def sample_op_env_def)

definition the_ann :: "nat \<Rightarrow> full_operator" where
  "the_ann n = hd (filter (\<lambda>d. op_id d = ''op_ann'') (ow_operators (os_world (after_requests n))))"

lemma ann_in_and_out:
  "getByOperatorId sample_op_env ''op_ann'' (os_world (after_requests 3)) = Some (the_ann 3)" "op_tier (the_ann 3) = Contributor"
  "getByOperatorId sample_op_env ''op_ann'' (os_world (after_requests 4)) = Some (the_ann 4)" "fo_status (the_ann 4) = Op_revoked"
  by code_simp+

section \<open>Properties\<close>

text \<open>
  C4: whatever requests arrive, whichever acceptances overlap, and however often the process restarts, from a deployment without
  operators every operator is the first root operator or has the tier, the departments and the address of an invitation
  that an operator of the root tier made.
\<close>
theorem authority_has_an_origin:
  assumes "mongo_collection (oe_operators E) op_id" "mongo_collection (oe_invitations E) inv_id"
    and "fresh_deployment E s0" "op_steps E s0 s" "getByOperatorId E i (os_world s) = Some d"
  shows "op_id d = ''op_root'' \<and> op_tier d = Root \<and> fo_invitedBy d = None
    \<or> (\<exists>j iv r. inv_at E j (os_world s) = Some iv \<and> op_tier d = inv_tier iv \<and> op_departments d = inv_departments iv
        \<and> fo_email d = inv_email iv \<and> fo_invitedBy d = Some (inv_createdBy iv)
        \<and> getByOperatorId E (inv_createdBy iv) (os_world s) = Some r \<and> op_tier r = Root)"
  using operator_stores.origin [OF operator_stores.intro [OF assms(1,2)] assms(3-5)]
  unfolding first_root_def from_invitation_def by blast

theorem authority_has_an_origin_witness:
  "\<exists>j iv r. inv_at sample_op_env j (os_world (after_requests 3)) = Some iv \<and> inv_tier iv = Contributor
     \<and> getByOperatorId sample_op_env (inv_createdBy iv) (os_world (after_requests 3)) = Some r \<and> op_tier r = Root"
proof -
  note h = authority_has_an_origin [OF sample_ops.ops.mongo_collection_axioms sample_ops.invs.mongo_collection_axioms fresh_start
      after_steps [of 0 3] ann_in_and_out(1)]
  with ann_in_and_out(2) show ?thesis by fastforce
qed

text \<open>
  C5: revocation is final: once an operator is revoked, no request under \<open>/v1/\<close> acts for that operator, with whatever key, whatever the cache
  holds, and whatever happens in between.
\<close>
theorem revocation_is_final:
  assumes "mongo_collection (oe_operators E) op_id" "mongo_collection (oe_invitations E) inv_id"
    and "fresh_deployment E s0" "op_steps E s0 s" "getByOperatorId E i (os_world s) = Some d" "fo_status d = Op_revoked"
    and "op_steps E s s1" "starts_with (rq_path q) ''/v1/''" "op_id u = i"
  shows "fst (authenticate E q (os_world s1)) \<noteq> Auth_next (Some u)"
  using operator_stores.revoked_for_good [OF operator_stores.intro [OF assms(1,2)] assms(3-8)] assms(9) by (metis prod.collapse)

theorem revocation_is_final_witness:
  "fst (authenticate sample_op_env (sample_request_to ''/v1/operators/me'' (Some ''gzop_live_annskey1'') '''' JUndef)
     (os_world (after_requests 4))) \<noteq> Auth_next (Some (the_ann 4))"
proof (rule revocation_is_final [OF sample_ops.ops.mongo_collection_axioms sample_ops.invs.mongo_collection_axioms fresh_start
      after_steps [of 0 4] ann_in_and_out(3,4) rtranclp.rtrancl_refl])
  show "op_id (the_ann 4) = ''op_ann''" using ann_in_and_out(3) sample_ops.opr_id by blast
qed (simp_all add: sample_request_to_def starts_with_def)

text \<open>
  Under \<open>/v1/\<close>, a request that is let in acts for an active operator of the store whose hash the key in its header matches.
\<close>
theorem requests_act_for_key_holders:
  assumes "mongo_collection (oe_operators E) op_id" "mongo_collection (oe_invitations E) inv_id"
    and "ids_unique (oe_operators E) op_id (ow_operators w)" "starts_with (rq_path q) ''/v1/''"
    and "authenticate E q w = (Auth_next (Some u), w1)"
  shows "getByOperatorId E (op_id u) w = Some u \<and> fo_status u = Op_active
    \<and> (\<exists>token. rq_authorization q = Some (''Bearer '' @ token) \<and> oe_verify E token (fo_apiKeyHash u))"
  using operator_stores.acts_for_active [OF operator_stores.intro [OF assms(1,2)] assms(3-5)] .

definition ann_asks :: http_request where
  "ann_asks = sample_request_to ''/v1/operators/me'' (Some ''gzop_live_annskey1'') '''' JUndef"

theorem requests_act_for_key_holders_witness:
  "fo_status (the_ann 3) = Op_active \<and> oe_verify sample_op_env ''gzop_live_annskey1'' (fo_apiKeyHash (the_ann 3))"
proof -
  have "fst (authenticate sample_op_env ann_asks (os_world (after_requests 3))) = Auth_next (Some (the_ann 3))" by code_simp
  then obtain w1 where a: "authenticate sample_op_env ann_asks (os_world (after_requests 3)) = (Auth_next (Some (the_ann 3)), w1)"
    by (metis prod.collapse)
  have "ops_ok sample_op_env (os_world (after_requests 3))"
    using sample_ops.steps_keep [OF after_steps [of 0 3] sample_ops.fresh_ok [OF fresh_start]] by (simp add: sys_ok_def)
  then have u: "ids_unique (oe_operators sample_op_env) op_id (ow_operators (os_world (after_requests 3)))" by (simp add: ops_ok_def)
  have "starts_with (rq_path ann_asks) ''/v1/''" by code_simp
  from requests_act_for_key_holders [OF sample_ops.ops.mongo_collection_axioms sample_ops.invs.mongo_collection_axioms u this a]
  show ?thesis by (auto simp: ann_asks_def sample_request_to_def)
qed

text \<open>
  C33: the key that an acceptance shows once opens the account with the tier and the departments of the invitation, unless its first
  eight characters belong to another operator or to a stale entry of the cache.
\<close>
theorem accepted_key_opens_account:
  assumes "mongo_collection (oe_operators E) op_id" "mongo_collection (oe_invitations E) inv_id"
    and "ids_unique (oe_operators E) op_id (ow_operators w)" "accept_write E q iv a w = (Inr (Accepted i key), w1)"
    and "8 \<le> length (rq_random q)" "\<forall>d \<in># docs (oe_operators E) (ow_operators w). fo_apiKeyPrefix d \<noteq> take 8 (rq_random q)"
    and "\<And>R. oe_redis E = Some R \<Longrightarrow> GET R (CACHE_PREFIX @ take 8 (rq_random q)) (ow_redis w) = None"
    and "oe_verify E key (oe_hash E (rq_salt q) key)"
    and "rq_authorization q1 = Some (''Bearer '' @ key)" "\<not> isExemptPath (rq_path q1)"
      "rq_path q1 \<noteq> ''/v1/operators/accept-invite''" "rq_path q1 \<noteq> ''/v1/tasks''"
  shows "\<exists>u w2. authenticate E q1 w1 = (Auth_next (Some u), w2) \<and> op_id u = i \<and> op_tier u = inv_tier iv
    \<and> op_departments u = inv_departments iv"
  using operator_stores.key_opens [OF operator_stores.intro [OF assms(1,2)] assms(3-12)] .

definition ann_accepts :: http_request where
  "ann_accepts = sample_requests ! 2"

theorem accepted_key_opens_account_witness:
  "\<exists>u w2. authenticate sample_op_env ann_asks
     (snd (post_accept sample_op_env ann_accepts (os_world (after_requests 2)))) = (Auth_next (Some u), w2) \<and> op_id u = ''op_ann''"
proof -
  let ?w = "os_world (after_requests 2)"
  define r where "r = accept_read sample_op_env ann_accepts ?w"
  have "isl r = False" unfolding r_def by code_simp
  then obtain iv a where r: "accept_read sample_op_env ann_accepts ?w = Inr (iv, a)" unfolding r_def by (cases r) (auto simp: r_def)
  have "fst (post_accept sample_op_env ann_accepts ?w) = Inr (Accepted ''op_ann'' ''gzop_live_annskey1'')" by code_simp
  then obtain w1 where acc: "accept_write sample_op_env ann_accepts iv a ?w = (Inr (Accepted ''op_ann'' ''gzop_live_annskey1''), w1)"
    "snd (post_accept sample_op_env ann_accepts ?w) = w1"
    using r by (cases "accept_write sample_op_env ann_accepts iv a ?w") (simp add: post_accept_def)
  have "ops_ok sample_op_env ?w"
    using sample_ops.steps_keep [OF after_steps [of 0 2] sample_ops.fresh_ok [OF fresh_start]] by (simp add: sys_ok_def)
  then have u: "ids_unique (oe_operators sample_op_env) op_id (ow_operators ?w)" by (simp add: ops_ok_def)
  have 1: "8 \<le> length (rq_random ann_accepts)" by code_simp
  have "list_all (\<lambda>d. fo_apiKeyPrefix d \<noteq> take 8 (rq_random ann_accepts)) (ow_operators ?w)" by code_simp
  then have 2: "\<forall>d \<in># docs (oe_operators sample_op_env) (ow_operators ?w). fo_apiKeyPrefix d \<noteq> take 8 (rq_random ann_accepts)"
    by (simp add: list_all_iff sample_op_env_def)
  have 3: "GET R (CACHE_PREFIX @ take 8 (rq_random ann_accepts)) (ow_redis ?w) = None" if "oe_redis sample_op_env = Some R" for R
    using that by (simp add: sample_op_env_def)
  have 4: "oe_verify sample_op_env ''gzop_live_annskey1'' (oe_hash sample_op_env (rq_salt ann_accepts) ''gzop_live_annskey1'')" by code_simp
  have 5: "rq_authorization ann_asks = Some (''Bearer '' @ ''gzop_live_annskey1'')" "\<not> isExemptPath (rq_path ann_asks)"
    "rq_path ann_asks \<noteq> ''/v1/operators/accept-invite''" "rq_path ann_asks \<noteq> ''/v1/tasks''" by code_simp+
  from accepted_key_opens_account [OF sample_ops.ops.mongo_collection_axioms sample_ops.invs.mongo_collection_axioms u acc(1) 1 2 3 4 5]
  show ?thesis by (auto simp: acc(2))
qed

text \<open>
  Whose id is taken cannot enter: an acceptance for an address with the same local part as an operator's, be it of another domain or of
  somebody who has been revoked and invited again, answers 500 and changes nothing, however often it is tried.
\<close>
theorem taken_ids_stay_out:
  fixes E :: "('o, 'i, 's) op_env"
  assumes "mongo_collection (oe_operators E) op_id" "mongo_collection (oe_invitations E) inv_id"
    and "ids_unique (oe_operators E) op_id (ow_operators w)" "accept_read E q w = Inr (iv, a)"
    and "takeWhile (\<lambda>c. c \<noteq> CHR ''@'') (inv_email iv) \<noteq> []" "getByOperatorId E (operator_id_of (inv_email iv) []) w = Some d"
  shows "post_accept E q w = (Inl 500, w)"
  using operator_stores.taken_id [OF operator_stores.intro [OF assms(1,2)] assms(3,5,6)] assms(4) by (simp add: post_accept_def)

definition again :: "http_request list" where
  "again =
     [sample_request_to ''/v1/operators/invite'' (Some ''gzop_live_rootkey1'') ''again'' (JObj [(''email'', JStr ''ann@a.org''),
        (''displayName'', JStr ''Ann''), (''role'', JStr ''lead''), (''tier'', JStr ''contributor''), (''departments'', JArr [JStr ''finance''])])
        \<lparr>rq_uuid8 := ''00000001''\<rparr>,
      sample_request_to ''/v1/operators/accept-invite'' None ''annskey2'' (JObj [(''inviteToken'', JStr ''gzinv_again'')])]"

definition invited_again where
  "invited_again = snd (serve sample_op_env (again ! 0) (os_world (after_requests 4)))"

theorem taken_ids_stay_out_witness: "post_accept sample_op_env (again ! 1) invited_again = (Inl 500, invited_again)"
proof -
  define r where "r = accept_read sample_op_env (again ! 1) invited_again"
  have r: "isl r = False" "inv_email (fst (projr r)) = ''ann@a.org''" unfolding r_def by code_simp+
  then obtain iv a where iv: "accept_read sample_op_env (again ! 1) invited_again = Inr (iv, a)" "inv_email iv = ''ann@a.org''"
    by (cases r) (auto simp: r_def)
  have "op_steps sample_op_env (after_requests 0) (after_requests 4\<lparr>os_world := invited_again\<rparr>)"
    using after_steps [of 0 4] op_step.request [of sample_op_env "after_requests 4" "again ! 0"] by (simp add: invited_again_def)
  from sample_ops.steps_keep [OF this sample_ops.fresh_ok [OF fresh_start]]
  have u: "ids_unique (oe_operators sample_op_env) op_id (ow_operators invited_again)" by (simp add: sys_ok_def ops_ok_def)
  have "getByOperatorId sample_op_env ''op_ann'' invited_again \<noteq> None" by code_simp
  then obtain d where d: "getByOperatorId sample_op_env (operator_id_of ''ann@a.org'' []) invited_again = Some d"
    by (auto simp: operator_id_of_def id_char_def lower_char_def is_digit_def)
  show ?thesis
    by (rule taken_ids_stay_out [OF sample_ops.ops.mongo_collection_axioms sample_ops.invs.mongo_collection_axioms u iv(1)])
      (use iv(2) d in simp_all)
qed

text \<open>
  Until the process restarts at most three wrong setup tokens are compared with the real one, whatever other requests come between.
\<close>
theorem setup_token_guesses_bounded:
  assumes "ow_bootstrap w = \<lparr>boot_attempts = 0, boot_locked = False\<rparr>"
  shows "wrong_guesses E qs w \<le> 3"
  using guesses_bounded [of w E qs] assms by (simp add: MAX_ATTEMPTS_def)

theorem setup_token_guesses_bounded_witness:
  "wrong_guesses sample_op_env (replicate 4 (sample_request_to ''/v1/operators/bootstrap'' (Some ''guess'') '''' JUndef))
     (os_world op_start) \<le> 3"
  by (rule setup_token_guesses_bounded) (simp add: op_start_def)

end
