(* ===== verification/OperatorTasks.thy ===== *)
theory OperatorTasks
  imports OperatorRoutes TaskLocks AgentQueue CrossDept
begin

text \<open>
  Tasks that operators give to agents: their store (\<open>operators/task-model.ts\<close>), their execution on the queues of the agents
  (\<open>operators/task-executor.ts\<close>) and the routes that create, show and cancel them (\<open>operators/task-routes.ts\<close>) and decide on
  locks and requests between departments (\<open>operators/conflict-routes.ts\<close>).

  An execution is split where it waits for the agent: its start marks the task as running, its end comes with what the agent
  answered.  The closure a queue keeps is the record of its parameters, found by the id of its task.  Random texts are numbered
  within a request; a write of the store that throws ends the handler with 500 and leaves what was written before.
  Notifications on Slack are left out.
\<close>

section \<open>Tasks and their store\<close>

datatype target_type = Target_department | Target_agent

datatype ot_status = Ots_queued | Ots_running | Ots_completed | Ots_failed | Ots_cancelled | Ots_pending_approval | Ots_blocked | Ots_preempted

record cross_department =
  cd_requested :: bool
  cd_targetDepartment :: "string option"
  cd_reason :: "string option"
  cd_approvedBy :: "string option"
  cd_approvedAt :: "int option"

record operator_task =
  ot_taskId :: string
  ot_operatorId :: string
  ot_operatorName :: string
  ot_targetType :: target_type
  ot_targetId :: string
  ot_action :: string
  ot_payload :: "json option"
  ot_priority :: int
  ot_resourceKey :: "string option"
  ot_status :: ot_status
  ot_executionIds :: "string list"
  ot_realExecutionId :: "string option"
  ot_parentTaskId :: "string option"
  ot_childTaskIds :: "string list option"
  ot_crossDepartment :: cross_department
  ot_createdAt :: int
  ot_updatedAt :: int
  ot_completedAt :: "int option"
  ot_cancelledBy :: "string option"
  ot_cancelReason :: "string option"

text \<open>An event of the operators' stream, without its id and time.\<close>

record task_event =
  te_type :: string
  te_departmentId :: string
  te_agentId :: "string option"
  te_operatorId :: string
  te_taskId :: string

text \<open>\<open>ExecuteAgentTaskParams\<close>; the abort signal is found by the task's id.\<close>

record exec_params =
  ep_taskId :: string
  ep_agentName :: string
  ep_department :: string
  ep_task :: string
  ep_payload :: "json option"
  ep_operatorId :: string
  ep_preamble :: string
  ep_priority :: int
  ep_resourceKey :: "string option"

record ('t, 'x, 's) task_world =
  tw_tasks :: 't
  tw_requests :: 'x
  tw_redis :: 's
  tw_queues :: agent_queues
  tw_closures :: "(string, exec_params) jsmap"
  tw_controllers :: "string list"
  tw_aborted :: "string list"
  tw_events :: "task_event list"
  tw_audit :: "(string \<times> string \<times> string) list"

record ('t, 'x, 's) task_env =
  tn_tasks :: "('t, operator_task) mongo"
  tn_requests :: "('x, cross_dept_request) mongo option"
  tn_locks :: "'s redis option"
  tn_limiter :: "'s redis option"
  tn_events :: bool
  tn_iso :: "int \<Rightarrow> string"
  tn_roles :: role_store
  tn_agents :: "(string \<times> string) list"

text \<open>\<open>tn_agents\<close> are the configured agents with their departments, in the order of the router.\<close>

definition ots_create where
  "ots_create E (task :: operator_task) w = map_option (\<lambda>c. w\<lparr>tw_tasks := c\<rparr>) (insertOne (tn_tasks E) task (tw_tasks w))"

definition getByTaskId where
  "getByTaskId E taskId w = findOne (tn_tasks E) (\<lambda>d :: operator_task. ot_taskId d = taskId) (tw_tasks w)"

definition ots_update where
  "ots_update E taskId (f :: operator_task \<Rightarrow> operator_task) w =
     w\<lparr>tw_tasks := snd (updateOne (tn_tasks E) (\<lambda>d. ot_taskId d = taskId) f (tw_tasks w))\<rparr>"

definition set_status :: "int \<Rightarrow> ot_status \<Rightarrow> operator_task \<Rightarrow> operator_task" where
  "set_status now status d =
     (let d1 = d\<lparr>ot_status := status, ot_updatedAt := now\<rparr>
      in if status = Ots_completed \<or> status = Ots_failed then d1\<lparr>ot_completedAt := Some now\<rparr> else d1)"

definition ots_updateStatus where
  "ots_updateStatus E now taskId status w = ots_update E taskId (set_status now status) w"

definition updateStatusWithExecutionId where
  "updateStatusWithExecutionId E now taskId status realExecutionId w =
     ots_update E taskId (\<lambda>d. (set_status now status d)\<lparr>ot_realExecutionId := Some realExecutionId\<rparr>) w"

definition ots_cancel where
  "ots_cancel E now taskId cancelledBy why w = ots_update E taskId (\<lambda>d. d\<lparr>ot_status := Ots_cancelled, ot_cancelledBy := Some cancelledBy,
     ot_cancelReason := why, ot_updatedAt := now, ot_completedAt := Some now\<rparr>) w"

text \<open>A page of the tasks, newest first, with the number of all; an empty list of departments is no filter.\<close>

definition listTasks where
  "listTasks E operatorId status departmentIds agentIds amount offset w =
     (let ds = find_all (tn_tasks E) (\<lambda>d :: operator_task. (operatorId = None \<or> operatorId = Some (ot_operatorId d))
                 \<and> (status = None \<or> status = Some (ot_status d))
                 \<and> (departmentIds = [] \<or> ot_targetId d \<in> set departmentIds \<union> set agentIds)) (tw_tasks w);
          page = drop offset (sort_key (\<lambda>d. - ot_createdAt d) ds)
      in (mongo_limit amount page, length ds))"

definition countByOperatorAndStatus where
  "countByOperatorAndStatus E operatorId status w =
     length (find_all (tn_tasks E) (\<lambda>d :: operator_task. ot_operatorId d = operatorId \<and> ot_status d = status) (tw_tasks w))"

section \<open>Execution\<close>

definition emit where
  "emit E e w = (if tn_events E then w\<lparr>tw_events := tw_events w @ [e]\<rparr> else w)"

text \<open>What a queue does when it starts a task: up to the call of the agent.\<close>

definition task_started where
  "task_started E now (x :: queued_task option) w = (case x of None \<Rightarrow> w | Some t \<Rightarrow> ots_updateStatus E now (qt_taskId t) Ots_running w)"

definition executeAgentTask where
  "executeAgentTask E now p w =
     (case map_of (tn_agents E) (ep_agentName p) of
        None \<Rightarrow> ots_updateStatus E now (ep_taskId p) Ots_failed w
      | Some dept \<Rightarrow>
          (let (x, qs) = aq_enqueue (ep_agentName p) (ep_taskId p) (ep_priority p) (tw_queues w)
           in task_started E now x (w\<lparr>tw_queues := qs, tw_closures := mset_at (ep_taskId p) p (tw_closures w)\<rparr>)))"

text \<open>What the agent answered: a record with its status and id, or an exception.\<close>

datatype exec_answer = Answered bool string | Threw

definition settles_status :: "ot_status \<Rightarrow> bool" where
  "settles_status st \<longleftrightarrow> st \<notin> {Ots_cancelled, Ots_preempted}"

definition record_answer where
  "record_answer E now taskId ans w = (case getByTaskId E taskId w of
     None \<Rightarrow> w
   | Some current \<Rightarrow>
       (if settles_status (ot_status current)
        then (case ans of
            Answered failed i \<Rightarrow> updateStatusWithExecutionId E now taskId (if failed then Ots_failed else Ots_completed) i w
          | Threw \<Rightarrow> ots_updateStatus E now taskId Ots_failed w)
        else w))"

definition finish_cleanup where
  "finish_cleanup E p w =
     (let w1 = (case (ep_resourceKey p, tn_locks E) of
            (Some (c # cs), Some R) \<Rightarrow> w\<lparr>tw_redis := snd (releaseLock R (c # cs) (ep_operatorId p) (tw_redis w))\<rparr> | _ \<Rightarrow> w);
          w2 = (case tn_limiter E of None \<Rightarrow> w1 | Some R \<Rightarrow> w1\<lparr>tw_redis := snd (decrementConcurrent R (ep_operatorId p) (tw_redis w1))\<rparr>);
          final = getByTaskId E (ep_taskId p) w2
      in emit E \<lparr>te_type = (if map_option ot_status final = Some Ots_completed then ''task.completed'' else ''task.failed''),
           te_departmentId = ep_department p, te_agentId = Some (ep_agentName p), te_operatorId = ep_operatorId p, te_taskId = ep_taskId p\<rparr> w2)"

text \<open>The end of the running task of an agent, and the start of the next one.\<close>

definition agent_answers where
  "agent_answers E now agentName ans w =
     (case mget (running (tw_queues w)) agentName of
        None \<Rightarrow> w
      | Some taskId \<Rightarrow>
          (let w1 = (case mget (tw_closures w) taskId of
                 None \<Rightarrow> w | Some p \<Rightarrow> finish_cleanup E p (record_answer E now taskId ans w));
               (x, qs) = task_settled agentName (tw_queues w1)
           in task_started E now x (w1\<lparr>tw_queues := qs\<rparr>)))"

section \<open>Creation\<close>

definition buildOperatorPreamble :: "string \<Rightarrow> string \<Rightarrow> string \<Rightarrow> string list \<Rightarrow> string" where
  "buildOperatorPreamble name r t departments =
     ''[Operator Context]'' @ [CHR 0x0A] @ ''This task was requested by '' @ name @ '' ('' @ r @ ''), a '' @ t @ ''-level operator with access to ''
     @ (if ''*'' \<in> set departments then ''all departments'' else join '', '' departments) @ ''.'' @ [CHR 0x0A]
     @ ''If this task conflicts with a directive from a higher-priority operator, flag the conflict and do not proceed until resolved.''"

record task_request =
  tr_now :: int
  tr_uuid8 :: "nat \<Rightarrow> string"
  tr_uuid12 :: string
  tr_body :: json

record create_input =
  ci_agent :: "string option"
  ci_department :: "string option"
  ci_task :: string
  ci_payload :: "json option"
  ci_resourceKey :: "string option"

definition payload_field :: "json \<Rightarrow> json option option" where
  "payload_field b = (case get_prop ''payload'' b of JUndef \<Rightarrow> Some None | JObj kvs \<Rightarrow> Some (Some (JObj kvs)) | _ \<Rightarrow> None)"

text \<open>An empty text is falsy.\<close>

definition some_text :: "string option \<Rightarrow> string option" where
  "some_text x = (if x = Some '''' then None else x)"

definition CreateTaskInput :: "json \<Rightarrow> create_input option" where
  "CreateTaskInput body =
     do { b \<leftarrow> object_body body; agent \<leftarrow> opt_body_text ''agent'' b; department \<leftarrow> opt_body_text ''department'' b;
          task \<leftarrow> checked (\<lambda>s. 1 \<le> length s) (body_text ''task'' b); payload \<leftarrow> payload_field b; key \<leftarrow> opt_body_text ''resourceKey'' b;
          if some_text agent = None \<and> some_text department = None then None
          else Some \<lparr>ci_agent = some_text agent, ci_department = some_text department, ci_task = task, ci_payload = payload,
                 ci_resourceKey = key\<rparr> }"

definition task_id :: "task_request \<Rightarrow> nat \<Rightarrow> string" where
  "task_id q n = ''optask_'' @ dec_int (tr_now q) @ ''_'' @ tr_uuid8 q n"

definition no_cross :: cross_department where
  "no_cross = \<lparr>cd_requested = False, cd_targetDepartment = None, cd_reason = None, cd_approvedBy = None, cd_approvedAt = None\<rparr>"

definition new_optask :: "full_operator \<Rightarrow> create_input \<Rightarrow> task_request \<Rightarrow> string \<Rightarrow> target_type \<Rightarrow> string \<Rightarrow> ot_status \<Rightarrow> operator_task" where
  "new_optask u i q taskId ty target status = \<lparr>ot_taskId = taskId, ot_operatorId = op_id u, ot_operatorName = fo_displayName u,
     ot_targetType = ty, ot_targetId = target, ot_action = ci_task i, ot_payload = ci_payload i, ot_priority = fo_priorityClass u,
     ot_resourceKey = ci_resourceKey i, ot_status = status, ot_executionIds = [], ot_realExecutionId = None, ot_parentTaskId = None,
     ot_childTaskIds = None, ot_crossDepartment = no_cross, ot_createdAt = tr_now q, ot_updatedAt = tr_now q, ot_completedAt = None,
     ot_cancelledBy = None, ot_cancelReason = None\<rparr>"

datatype task_reply =
    Task_queued string string
  | Task_blocked string task_lock
  | Task_pending string string
  | Task_fanned_out string "string list"
  | Task_cancelled string bool
  | Request_approved string string
  | Request_rejected string

definition resolve_targets :: "('t, 'x, 's) task_env \<Rightarrow> create_input \<Rightarrow> (string \<times> string) list option" where
  "resolve_targets E i = (case ci_agent i of
     Some a \<Rightarrow> (case map_of (tn_agents E) a of None \<Rightarrow> None | Some dept \<Rightarrow> Some [(a, dept)])
   | None \<Rightarrow> (let ts = filter (\<lambda>(n, d). ci_department i = Some d) (tn_agents E) in if ts = [] then None else Some ts))"

definition department_map :: "('t, 'x, 's) task_env \<Rightarrow> (string, string) jsmap" where
  "department_map E = buildAgentDepartmentMap (tn_agents E) []"

definition creation_check :: "create_input \<Rightarrow> perm_check" where
  "creation_check i = (case ci_department i of
     Some d \<Rightarrow> \<lparr>action = ''trigger'', resourceType = RDepartment, resourceId = d\<rparr>
   | None \<Rightarrow> \<lparr>action = ''trigger'', resourceType = RAgent, resourceId = the (ci_agent i)\<rparr>)"

definition creation_permission where
  "creation_permission E u i =
     evaluatePermission (operator.truncate u) (resolved_roles (tn_roles E) u) (creation_check i) (Some (department_map E))"

text \<open>The request to another department that is made when an agent is out of scope.\<close>

definition submit_cross_department where
  "submit_cross_department E u i q agentName dept M w =
     (let why = text_or ''reason'' (tr_body q) ''''; why1 = (if why = '''' then ''Cross-department collaboration needed'' else why);
          pendingId = task_id q 0;
          pending = (new_optask u i q pendingId Target_agent agentName Ots_pending_approval)\<lparr>ot_crossDepartment :=
            no_cross\<lparr>cd_requested := True, cd_targetDepartment := Some dept, cd_reason := Some why1\<rparr>\<rparr>
      in case ots_create E pending w of
           None \<Rightarrow> (Inl (500 :: nat), w)
         | Some w1 \<Rightarrow>
             (case xd_create M (tr_now q) (tr_uuid12 q)
                \<lparr>requestingOperatorId = op_id u, requestingOperatorName = fo_displayName u,
                  requestingDepartment = (case op_departments u of d # ds \<Rightarrow> if d = '''' then ''unknown'' else d | [] \<Rightarrow> ''unknown''),
                  requesterTier = tier_text (op_tier u), requesterPriority = fo_priorityClass u, requesterDepartments = op_departments u,
                  targetDepartment = dept, targetAgent = agentName, xd_task = ci_task i, xd_reason = why1, xd_payload = ci_payload i,
                  xd_resourceKey = ci_resourceKey i, pendingTaskId = Some pendingId\<rparr> (tw_requests w1) of
                None \<Rightarrow> (Inl 500, w1)
              | Some (req, c) \<Rightarrow>
                  (Inr (Task_pending pendingId (xd_requestId req)),
                   emit E \<lparr>te_type = ''approval.requested'', te_departmentId = dept, te_agentId = Some agentName, te_operatorId = op_id u,
                     te_taskId = pendingId\<rparr> (w1\<lparr>tw_requests := c\<rparr>))))"

text \<open>The lock of the resource: what a refusal answers (\<open>Inl\<close>), or the world in which the task may go on.\<close>

definition take_lock where
  "take_lock E u i q parentId targets w = (case (some_text (ci_resourceKey i), tn_locks E) of
     (Some key, Some R) \<Rightarrow>
       (let (r, s) = acquireLock R (tn_iso E) (tr_now q) key parentId (op_id u) (fo_priorityClass u) None (tw_redis w); w1 = w\<lparr>tw_redis := s\<rparr>
        in case r of
             None \<Rightarrow> Inl (Inl (500 :: nat), w1)
           | Some res \<Rightarrow>
               (if \<not> acquired res
                then (case ots_create E (new_optask u i q parentId (if ci_agent i \<noteq> None then Target_agent else Target_department)
                         (case ci_agent i of Some a \<Rightarrow> a | None \<Rightarrow> the (ci_department i)) Ots_blocked) w1 of
                    None \<Rightarrow> Inl (Inl 500, w1)
                  | Some w2 \<Rightarrow> Inl (Inr (Task_blocked parentId (the (currentHolder res))), w2))
                else (case preempted res of
                    None \<Rightarrow> Inr w1
                  | Some old \<Rightarrow>
                      (let w2 = (if lk_taskId old \<noteq> '''' then ots_updateStatus E (tr_now q) (lk_taskId old) Ots_preempted w1 else w1)
                       in Inr (emit E \<lparr>te_type = ''lock.preempted'', te_departmentId = (case targets of (n, d) # ts \<Rightarrow> d | [] \<Rightarrow> ''''),
                            te_agentId = None, te_operatorId = op_id u, te_taskId = parentId\<rparr> w2)))))
   | _ \<Rightarrow> Inr w)"

definition count_submission where
  "count_submission E u q w = (case tn_limiter E of
     None \<Rightarrow> w
   | Some R \<Rightarrow> w\<lparr>tw_redis := snd (incrementDaily R (tn_iso E) (tr_now q) (op_id u) (snd (incrementConcurrent R (op_id u) (tw_redis w))))\<rparr>)"

definition exec_params_of :: "full_operator \<Rightarrow> create_input \<Rightarrow> string \<Rightarrow> string \<Rightarrow> string \<Rightarrow> string option \<Rightarrow> exec_params" where
  "exec_params_of u i taskId agentName dept key = \<lparr>ep_taskId = taskId, ep_agentName = agentName, ep_department = dept, ep_task = ci_task i,
     ep_payload = ci_payload i, ep_operatorId = op_id u,
     ep_preamble = buildOperatorPreamble (fo_displayName u) (fo_role u) (tier_text (op_tier u)) (op_departments u),
     ep_priority = fo_priorityClass u, ep_resourceKey = key\<rparr>"

definition launch where
  "launch E q p w = executeAgentTask E (tr_now q) p
     (w\<lparr>tw_controllers := (if ep_taskId p \<in> set (tw_controllers w) then tw_controllers w else tw_controllers w @ [ep_taskId p])\<rparr>)"

text \<open>One task for each agent of the department; the ids of the children so far, and whether a write threw.\<close>

fun fan_out where
  "fan_out E u i q parentId n [] w = (True, [], w)"
| "fan_out E u i q parentId n ((agentName, dept) # ts) w =
     (let child = task_id q n in
      case ots_create E ((new_optask u i q child Target_agent agentName Ots_queued)\<lparr>ot_resourceKey := None, ot_parentTaskId := Some parentId\<rparr>) w of
        None \<Rightarrow> (False, [], w)
      | Some w1 \<Rightarrow>
          (let (ok, cs, w2) = fan_out E u i q parentId (Suc n) ts (launch E q (exec_params_of u i child agentName dept None) w1)
           in (ok, child # cs, w2)))"

definition task_audit where
  "task_audit operatorId act i w = w\<lparr>tw_audit := tw_audit w @ [(operatorId, act, i)]\<rparr>"

definition start_tasks where
  "start_tasks E u i q parentId targets w = (case targets of
     [(agentName, dept)] \<Rightarrow>
       (case ots_create E (new_optask u i q parentId Target_agent agentName Ots_queued) w of
          None \<Rightarrow> (Inl (500 :: nat), w)
        | Some w1 \<Rightarrow>
            (Inr (Task_queued parentId agentName), task_audit (op_id u) ''task.create'' parentId
               (emit E \<lparr>te_type = ''task.created'', te_departmentId = dept, te_agentId = Some agentName, te_operatorId = op_id u, te_taskId = parentId\<rparr>
                  (launch E q (exec_params_of u i parentId agentName dept (ci_resourceKey i)) w1))))
   | _ \<Rightarrow>
       (let (ok, children, w1) = fan_out E u i q parentId 1 targets w in
        if \<not> ok then (Inl 500, w1)
        else (case ots_create E ((new_optask u i q parentId Target_department (the (ci_department i)) Ots_running)
                 \<lparr>ot_childTaskIds := Some children\<rparr>) w1 of
            None \<Rightarrow> (Inl 500, w1)
          | Some w2 \<Rightarrow>
              (Inr (Task_fanned_out parentId children), task_audit (op_id u) ''task.create'' parentId
                 (emit E \<lparr>te_type = ''task.created'', te_departmentId = the (ci_department i), te_agentId = None, te_operatorId = op_id u,
                    te_taskId = parentId\<rparr> w2)))))"

definition post_task where
  "post_task E opr q w = (case opr of
     None \<Rightarrow> (Inl (401 :: nat), w)
   | Some u \<Rightarrow> (case CreateTaskInput (tr_body q) of
       None \<Rightarrow> (Inl 400, w)
     | Some i \<Rightarrow> (case resolve_targets E i of
         None \<Rightarrow> (Inl 404, w)
       | Some targets \<Rightarrow>
           (let perm = creation_permission E u i in
            if \<not> allowed perm then
              (case (ci_department i, mget (department_map E) (the (ci_agent i)), tn_requests E) of
                 (None, Some (c # cs), Some M) \<Rightarrow>
                   (if reason perm \<noteq> Denied_no_grant then (Inl 403, w)
                    else if fo_crossDeptPolicy u = Policy_none then (Inl 403, w)
                    else submit_cross_department E u i q (the (ci_agent i)) (c # cs) M w)
               | _ \<Rightarrow> (Inl 403, w))
            else
              (case take_lock E u i q (task_id q 0) targets w of
                 Inl answer \<Rightarrow> answer
               | Inr w1 \<Rightarrow> start_tasks E u i q (task_id q 0) targets (count_submission E u q w1))))))"

section \<open>Reading and cancelling\<close>

definition sees_everything :: "full_operator \<Rightarrow> bool" where
  "sees_everything u \<longleftrightarrow> op_tier u = Root \<or> ''*'' \<in> set (op_departments u)"

definition canSeeTask :: "full_operator \<Rightarrow> operator_task \<Rightarrow> (string, string) jsmap \<Rightarrow> bool" where
  "canSeeTask u task amap \<longleftrightarrow> sees_everything u \<or> ot_operatorId task = op_id u
     \<or> (case some_text (case ot_targetType task of Target_department \<Rightarrow> Some (ot_targetId task) | Target_agent \<Rightarrow> mget amap (ot_targetId task)) of
          None \<Rightarrow> False | Some d \<Rightarrow> d \<in> set (op_departments u))"

definition get_task where
  "get_task E opr taskId w = (case opr of
     None \<Rightarrow> Inl (401 :: nat)
   | Some u \<Rightarrow> (case getByTaskId E taskId w of
       None \<Rightarrow> Inl 404 | Some t \<Rightarrow> if canSeeTask u t (department_map E) then Inr t else Inl 404))"

definition agents_in where
  "agents_in E ds = map fst (filter (\<lambda>(n, d). d \<in> set ds) (tn_agents E))"

text \<open>The list of tasks; \<open>department\<close>, the limit and the offset are the query's, the limit capped at 100.\<close>

definition get_tasks where
  "get_tasks E opr status department amount offset w = (case opr of
     None \<Rightarrow> Inl (401 :: nat)
   | Some u \<Rightarrow>
       (if \<not> sees_everything u
        then (case some_text department of
            Some d \<Rightarrow> if d \<notin> set (op_departments u) then Inl 403
              else Inr (listTasks E None status [d] (agents_in E [d]) (min amount 100) offset w)
          | None \<Rightarrow> Inr (listTasks E None status (op_departments u) (agents_in E (op_departments u)) (min amount 100) offset w))
        else (case some_text department of
            Some d \<Rightarrow> Inr (listTasks E None status [d] (agents_in E [d]) (min amount 100) offset w)
          | None \<Rightarrow> Inr (listTasks E None status [] [] (min amount 100) offset w))))"

text \<open>The departments an operator sees, with their agents and the number of running tasks, and the agents.\<close>

fun by_department :: "(string \<times> string) list \<Rightarrow> (string, string list) jsmap \<Rightarrow> (string, string list) jsmap" where
  "by_department [] m = m"
| "by_department ((n, d) # cs) m = by_department cs (mset_at d ((case mget m d of None \<Rightarrow> [] | Some ns \<Rightarrow> ns) @ [n]) m)"

definition get_departments where
  "get_departments E opr w = (case opr of
     None \<Rightarrow> Inl (401 :: nat)
   | Some u \<Rightarrow> Inr (map (\<lambda>(slug, ns). (slug, ns, snd (listTasks E None (Some Ots_running) [slug] ns 0 0 w)))
       (filter (\<lambda>(slug, ns). sees_everything u \<or> slug \<in> set (op_departments u)) (by_department (tn_agents E) []))))"

definition get_agents where
  "get_agents E opr = (case opr of
     None \<Rightarrow> Inl (401 :: nat)
   | Some u \<Rightarrow> Inr (filter (\<lambda>(n, d). sees_everything u \<or> d \<in> set (op_departments u)) (tn_agents E)))"

definition request_cross_department where
  "request_cross_department E opr taskId w = (case opr of
     None \<Rightarrow> (401 :: nat)
   | Some u \<Rightarrow> (case getByTaskId E taskId w of
       None \<Rightarrow> 404
     | Some t \<Rightarrow> if ot_operatorId t \<noteq> op_id u \<and> op_tier u \<noteq> Root then 403 else 501))"

definition CancelTaskInput :: "json \<Rightarrow> string option option" where
  "CancelTaskInput body = do { b \<leftarrow> object_body body;
     checked (\<lambda>x. case x of None \<Rightarrow> True | Some s \<Rightarrow> 1 \<le> length s \<and> length s \<le> 500) (opt_body_text ''reason'' b) }"

definition abort_task where
  "abort_task taskId w = (if taskId \<in> set (tw_controllers w)
     then w\<lparr>tw_controllers := filter (\<lambda>i. i \<noteq> taskId) (tw_controllers w), tw_aborted := tw_aborted w @ [taskId]\<rparr> else w)"

definition cancel_children where
  "cancel_children E now u why ids w = fold (\<lambda>i w. ots_cancel E now i (op_id (u :: full_operator)) why (abort_task i w)) ids w"

definition post_cancel where
  "post_cancel E opr taskId q w = (case opr of
     None \<Rightarrow> (Inl (401 :: nat), w)
   | Some u \<Rightarrow> (case CancelTaskInput (tr_body q) of
       None \<Rightarrow> (Inl 400, w)
     | Some why \<Rightarrow> (case getByTaskId E taskId w of
         None \<Rightarrow> (Inl 404, w)
       | Some t \<Rightarrow>
           (if op_tier u \<noteq> Root \<and> ot_operatorId t \<noteq> op_id u then (Inl 403, w)
            else if ot_status t \<in> {Ots_completed, Ots_failed, Ots_cancelled} then (Inl 409, w)
            else (let w1 = abort_task (ot_taskId t) w;
                      w2 = (case ot_childTaskIds t of None \<Rightarrow> w1 | Some ids \<Rightarrow> cancel_children E (tr_now q) u why ids w1)
                  in (Inr (Task_cancelled (ot_taskId t) (ot_taskId t \<in> set (tw_controllers w))),
                      ots_cancel E (tr_now q) (ot_taskId t) (op_id u) why w2))))))"

section \<open>Conflicts and requests between departments\<close>

definition get_locks where
  "get_locks E opr w = (case requireTier Root opr of
     Gate_refused n \<Rightarrow> Inl n
   | Gate_pass \<Rightarrow> Inr (case tn_locks E of None \<Rightarrow> [] | Some R \<Rightarrow> listLocks R (tw_redis w)))"

definition post_release_lock where
  "post_release_lock E opr key w = (case requireTier Root opr of
     Gate_refused n \<Rightarrow> (Inl n, w)
   | Gate_pass \<Rightarrow> (case tn_locks E of
       None \<Rightarrow> (Inl 503, w)
     | Some R \<Rightarrow> (case opr of
         None \<Rightarrow> (Inl 401, w)
       | Some u \<Rightarrow> (let (released, s) = forceRelease R key (tw_redis w)
           in (Inr released, task_audit (op_id u) ''lock.force_release'' key (w\<lparr>tw_redis := s\<rparr>))))))"

text \<open>The conflicts of a task: what it asked of another department, and the lock it waits for.\<close>

definition get_conflicts where
  "get_conflicts E opr taskId w = (case opr of
     None \<Rightarrow> Inl (401 :: nat)
   | Some u \<Rightarrow> (case getByTaskId E taskId w of
       None \<Rightarrow> Inl 404
     | Some t \<Rightarrow>
         (if op_tier u \<noteq> Root \<and> ot_operatorId t \<noteq> op_id u then Inl 404
          else Inr (ot_status t, if cd_requested (ot_crossDepartment t) then Some (ot_crossDepartment t) else None,
            case (ot_status t, some_text (ot_resourceKey t), tn_locks E) of
              (Ots_blocked, Some key, Some R) \<Rightarrow> getLock R key (tw_redis w) | _ \<Rightarrow> None))))"

definition get_cross_dept where
  "get_cross_dept M opr w = (case opr of
     None \<Rightarrow> Inl (401 :: nat)
   | Some u \<Rightarrow> (let pending = xd_listPending M None (tw_requests w) in
       Inr (if sees_everything u then pending
            else if op_tier u = DepartmentHead then filter (\<lambda>r. targetDepartment (xd_of r) \<in> set (op_departments u)) pending
            else filter (\<lambda>r. requestingOperatorId (xd_of r) = op_id u) pending)))"

text \<open>The note of a decision: at most 500 characters.\<close>

definition decision_note :: "json \<Rightarrow> string option option" where
  "decision_note body = do { b \<leftarrow> object_body body;
     checked (\<lambda>x. case x of None \<Rightarrow> True | Some s \<Rightarrow> length s \<le> 500) (opt_body_text ''note'' b) }"

definition may_decide :: "full_operator \<Rightarrow> cross_dept_request \<Rightarrow> bool" where
  "may_decide u r \<longleftrightarrow> sees_everything u \<or> op_tier u = DepartmentHead \<and> targetDepartment (xd_of r) \<in> set (op_departments u)"

text \<open>What both decisions check, in the order of the code.\<close>

definition decision_read where
  "decision_read M opr rid q w = (case opr of
     None \<Rightarrow> Inl (401 :: nat)
   | Some u \<Rightarrow> (case decision_note (tr_body q) of
       None \<Rightarrow> Inl 400
     | Some note \<Rightarrow> (case xd_getById M rid (tw_requests w) of
         None \<Rightarrow> Inl 404
       | Some r \<Rightarrow>
           (if xd_expiresAt r < tr_now q then Inl 410
            else if xd_status r \<noteq> St_pending then Inl 409
            else if \<not> may_decide u r then Inl 403
            else Inr (u, note, r)))))"

definition approved_task :: "full_operator \<Rightarrow> cross_dept_request \<Rightarrow> task_request \<Rightarrow> string \<Rightarrow> operator_task" where
  "approved_task u r q taskId = \<lparr>ot_taskId = taskId, ot_operatorId = requestingOperatorId (xd_of r),
     ot_operatorName = requestingOperatorName (xd_of r), ot_targetType = Target_agent, ot_targetId = targetAgent (xd_of r),
     ot_action = xd_task (xd_of r), ot_payload = xd_payload (xd_of r), ot_priority = requesterPriority (xd_of r),
     ot_resourceKey = xd_resourceKey (xd_of r), ot_status = Ots_queued, ot_executionIds = [tr_uuid12 q], ot_realExecutionId = None,
     ot_parentTaskId = None, ot_childTaskIds = None,
     ot_crossDepartment = \<lparr>cd_requested = True, cd_targetDepartment = Some (targetDepartment (xd_of r)), cd_reason = Some (xd_reason (xd_of r)),
        cd_approvedBy = Some (op_id u), cd_approvedAt = Some (tr_now q)\<rparr>,
     ot_createdAt = tr_now q, ot_updatedAt = tr_now q, ot_completedAt = None, ot_cancelledBy = None, ot_cancelReason = None\<rparr>"

definition approved_params :: "cross_dept_request \<Rightarrow> string \<Rightarrow> exec_params" where
  "approved_params r taskId = \<lparr>ep_taskId = taskId, ep_agentName = targetAgent (xd_of r), ep_department = targetDepartment (xd_of r),
     ep_task = xd_task (xd_of r), ep_payload = xd_payload (xd_of r), ep_operatorId = requestingOperatorId (xd_of r),
     ep_preamble = buildOperatorPreamble (requestingOperatorName (xd_of r)) (requesterTier (xd_of r)) (requesterTier (xd_of r))
       (requesterDepartments (xd_of r)),
     ep_priority = requesterPriority (xd_of r), ep_resourceKey = xd_resourceKey (xd_of r)\<rparr>"

text \<open>
  The routes that decide on requests are given the executor of the task routes, as \<open>bootstrap/routes.ts\<close> does once a store of roles is
  configured; without that store they are registered without it, and an approval then only marks its task as queued.
\<close>

definition post_approve where
  "post_approve E M opr rid q w = (case decision_read M opr rid q w of
     Inl n \<Rightarrow> (Inl n, w)
   | Inr (u, note, r) \<Rightarrow>
       (if map_of (tn_agents E) (targetAgent (xd_of r)) = None then (Inl 500, w)
        else let taskId = (case some_text (pendingTaskId (xd_of r)) of Some i \<Rightarrow> i | None \<Rightarrow> task_id q 0);
                 (ok, c) = xd_approve M (tr_now q) (xd_requestId r) (op_id u) note (Some taskId) (tw_requests w); w1 = w\<lparr>tw_requests := c\<rparr>
             in if \<not> ok then (Inl 409, w1)
                else (case (case some_text (pendingTaskId (xd_of r)) of
                         Some i \<Rightarrow> Some (ots_updateStatus E (tr_now q) i Ots_queued w1)
                       | None \<Rightarrow> ots_create E (approved_task u r q taskId) w1) of
                    None \<Rightarrow> (Inl 500, w1)
                  | Some w2 \<Rightarrow>
                      (Inr (Request_approved (xd_requestId r) taskId),
                       emit E \<lparr>te_type = ''approval.decided'', te_departmentId = targetDepartment (xd_of r), te_agentId = None,
                           te_operatorId = op_id u, te_taskId = taskId\<rparr>
                         (task_audit (op_id u) ''cross_dept.approve'' (xd_requestId r)
                           (executeAgentTask E (tr_now q) (approved_params r taskId) w2))))))"

definition post_reject where
  "post_reject E M opr rid q w = (case decision_read M opr rid q w of
     Inl n \<Rightarrow> (Inl n, w)
   | Inr (u, note, r) \<Rightarrow>
       (let (ok, c) = xd_reject M (tr_now q) (xd_requestId r) (op_id u) note (tw_requests w); w1 = w\<lparr>tw_requests := c\<rparr>
        in if \<not> ok then (Inl 409, w1)
           else (Inr (Request_rejected (xd_requestId r)), task_audit (op_id u) ''cross_dept.reject'' (xd_requestId r)
             (case some_text (pendingTaskId (xd_of r)) of
                None \<Rightarrow> w1 | Some i \<Rightarrow> ots_cancel E (tr_now q) i (op_id u) (Some ''Cross-dept request rejected'') w1))))"

end
