(* ===== verification/OperatorTasks_Correct.thy ===== *)
theory OperatorTasks_Correct
  imports OperatorTasks
begin

text \<open>
  What the routes and the queues do together: new work for an agent comes only from an operator the permission engine let through or
  from a decided request of another department, and no task that the store shows as queued is missing from the queues.  The
  sections at the end evaluate the interleavings in which the code does not do what it means to.
\<close>

section \<open>Calls\<close>

datatype ot_call =
    Create "full_operator option" task_request
  | Cancel "full_operator option" string task_request
  | Approve "full_operator option" string task_request
  | Reject "full_operator option" string task_request
  | Release_lock "full_operator option" string
  | Agent_answers int string exec_answer
  | Expire_requests int

fun ot_step :: "('t, 'x, 's) task_env \<Rightarrow> ('x, cross_dept_request) mongo \<Rightarrow> ot_call \<Rightarrow> ('t, 'x, 's) task_world \<Rightarrow> ('t, 'x, 's) task_world" where
  "ot_step E M (Create opr q) w = snd (post_task E opr q w)"
| "ot_step E M (Cancel opr i q) w = snd (post_cancel E opr i q w)"
| "ot_step E M (Approve opr rid q) w = snd (post_approve E M opr rid q w)"
| "ot_step E M (Reject opr rid q) w = snd (post_reject E M opr rid q w)"
| "ot_step E M (Release_lock opr key) w = snd (post_release_lock E opr key w)"
| "ot_step E M (Agent_answers now a ans) w = agent_answers E now a ans w"
| "ot_step E M (Expire_requests now) w = w\<lparr>tw_requests := snd (xd_expirePending M now (tw_requests w))\<rparr>"

definition ot_run :: "('t, 'x, 's) task_env \<Rightarrow> ('x, cross_dept_request) mongo \<Rightarrow> ot_call list \<Rightarrow> ('t, 'x, 's) task_world \<Rightarrow> ('t, 'x, 's) task_world" where
  "ot_run E M cs w = fold (ot_step E M) cs w"

section \<open>What the operations leave alone\<close>

lemma closures_kept [simp]:
  "tw_closures (ots_update E i f w) = tw_closures w" "tw_closures (emit E e w) = tw_closures w"
  "tw_closures (task_audit i a j w) = tw_closures w" "tw_closures (abort_task i w) = tw_closures w"
  by (simp_all add: ots_update_def emit_def task_audit_def abort_task_def)

lemma queues_kept [simp]:
  "tw_queues (ots_update E i f w) = tw_queues w" "tw_queues (emit E e w) = tw_queues w"
  "tw_queues (task_audit i a j w) = tw_queues w" "tw_queues (abort_task i w) = tw_queues w"
  by (simp_all add: ots_update_def emit_def task_audit_def abort_task_def)

lemma status_updates [simp]:
  "tw_closures (ots_updateStatus E now i st w) = tw_closures w" "tw_queues (ots_updateStatus E now i st w) = tw_queues w"
  "tw_closures (updateStatusWithExecutionId E now i st x w) = tw_closures w" "tw_queues (updateStatusWithExecutionId E now i st x w) = tw_queues w"
  "tw_closures (ots_cancel E now i who y w) = tw_closures w" "tw_queues (ots_cancel E now i who y w) = tw_queues w"
  by (simp_all add: ots_updateStatus_def updateStatusWithExecutionId_def ots_cancel_def)

lemma started_kept [simp]:
  "tw_closures (task_started E now x w) = tw_closures w" "tw_queues (task_started E now x w) = tw_queues w"
  by (simp_all add: task_started_def split: option.splits)

lemma answer_kept [simp]:
  "tw_closures (record_answer E now i ans w) = tw_closures w" "tw_queues (record_answer E now i ans w) = tw_queues w"
  by (simp_all add: record_answer_def split: option.splits exec_answer.splits)

lemma cleanup_kept [simp]:
  "tw_closures (finish_cleanup E p w) = tw_closures w" "tw_queues (finish_cleanup E p w) = tw_queues w"
  "tw_tasks (finish_cleanup E p w) = tw_tasks w"
  by (simp_all add: finish_cleanup_def Let_def emit_def split: option.splits list.splits)

lemma children_kept [simp]:
  "tw_closures (cancel_children E now u y ids w) = tw_closures w" "tw_queues (cancel_children E now u y ids w) = tw_queues w"
  by (induction ids arbitrary: w) (simp_all add: cancel_children_def)

lemma created_kept:
  "ots_create E d w = Some w1 \<Longrightarrow> tw_closures w1 = tw_closures w" "ots_create E d w = Some w1 \<Longrightarrow> tw_queues w1 = tw_queues w"
  by (auto simp: ots_create_def)

lemma counted_kept [simp]: "tw_closures (count_submission E u q w) = tw_closures w" "tw_queues (count_submission E u q w) = tw_queues w"
  "tw_tasks (count_submission E u q w) = tw_tasks w"
  by (simp_all add: count_submission_def split: option.splits)

lemma locked_kept:
  assumes "take_lock E u i q parentId targets w = r"
  shows "case r of Inl (x, w1) \<Rightarrow> tw_closures w1 = tw_closures w \<and> tw_queues w1 = tw_queues w
      | Inr w1 \<Rightarrow> tw_closures w1 = tw_closures w \<and> tw_queues w1 = tw_queues w"
  using assms [symmetric]
  by (auto simp: take_lock_def Let_def split: option.splits prod.splits if_splits dest: created_kept)

section \<open>New work is authorised\<close>

lemma closures_execute:
  "mget (tw_closures (executeAgentTask E now p w)) t =
    (if t = ep_taskId p \<and> map_of (tn_agents E) (ep_agentName p) \<noteq> None then Some p else mget (tw_closures w) t)"
  by (auto simp: executeAgentTask_def Let_def split: option.splits prod.splits)

text \<open>Whom an input names.\<close>

definition named_by :: "('t, 'x, 's) task_env \<Rightarrow> create_input \<Rightarrow> string \<Rightarrow> string \<Rightarrow> bool" where
  "named_by E i agentName dept \<longleftrightarrow> (agentName, dept) \<in> set (tn_agents E)
     \<and> (ci_agent i = Some agentName \<or> ci_agent i = None \<and> ci_department i = Some dept)"

lemma targets_named: "resolve_targets E i = Some ts \<Longrightarrow> (a, d) \<in> set ts \<Longrightarrow> named_by E i a d"
  by (auto simp: resolve_targets_def named_by_def Let_def split: option.splits if_splits dest: map_of_SomeD)

definition work_of :: "('t, 'x, 's) task_env \<Rightarrow> full_operator \<Rightarrow> create_input \<Rightarrow> exec_params \<Rightarrow> bool" where
  "work_of E u i p \<longleftrightarrow> ep_operatorId p = op_id u \<and> ep_task p = ci_task i \<and> named_by E i (ep_agentName p) (ep_department p)"

lemma closures_launch:
  assumes "mget (tw_closures (launch E q p w)) t = Some p1"
  shows "mget (tw_closures w) t = Some p1 \<or> p1 = p"
  using assms by (auto simp: launch_def closures_execute split: if_splits)

lemma work_of_params: "named_by E i a d \<Longrightarrow> work_of E u i (exec_params_of u i taskId a d key)"
  by (simp add: work_of_def exec_params_of_def)

lemma closures_fan_out:
  assumes "fan_out E u i q parentId n ts w = (ok, cs, w1)" "\<And>a d. (a, d) \<in> set ts \<Longrightarrow> named_by E i a d"
    and "mget (tw_closures w1) t = Some p"
  shows "mget (tw_closures w) t = Some p \<or> work_of E u i p"
  using assms
proof (induction ts arbitrary: n w ok cs)
  case (Cons x ts)
  obtain a d where x: "x = (a, d)" by fastforce
  let ?child = "task_id q n"
  let ?p = "exec_params_of u i ?child a d None"
  show ?case
  proof (cases "ots_create E ((new_optask u i q ?child Target_agent a Ots_queued)\<lparr>ot_resourceKey := None, ot_parentTaskId := Some parentId\<rparr>) w")
    case None
    with Cons.prems x show ?thesis by (simp add: Let_def)
  next
    case (Some w2)
    obtain ok1 cs1 w3 where f: "fan_out E u i q parentId (Suc n) ts (launch E q ?p w2) = (ok1, cs1, w3)" by (metis prod_cases3)
    with Cons.prems(1) x Some have w3: "w3 = w1" by (simp add: Let_def)
    have "mget (tw_closures (launch E q ?p w2)) t = Some p \<or> work_of E u i p"
      using Cons.IH [OF f [unfolded w3] _ Cons.prems(3)] Cons.prems(2) by auto
    then show ?thesis
      using closures_launch [of E q ?p w2 t p] work_of_params [of E i a d u ?child None] Cons.prems(2) [of a d] x created_kept(1) [OF Some] by auto
  qed
qed simp

lemma closures_start:
  assumes "\<And>a d. (a, d) \<in> set ts \<Longrightarrow> named_by E i a d" "mget (tw_closures (snd (start_tasks E u i q parentId ts w))) t = Some p"
  shows "mget (tw_closures w) t = Some p \<or> work_of E u i p"
proof (cases "\<exists>a d. ts = [(a, d)]")
  case True
  then obtain a d where ts: "ts = [(a, d)]" by blast
  show ?thesis
  proof (cases "ots_create E (new_optask u i q parentId Target_agent a Ots_queued) w")
    case None
    with ts assms(2) show ?thesis by (simp add: start_tasks_def)
  next
    case (Some w1)
    with ts assms(2) have "mget (tw_closures (launch E q (exec_params_of u i parentId a d (ci_resourceKey i)) w1)) t = Some p"
      by (simp add: start_tasks_def)
    from closures_launch [OF this] show ?thesis
      using work_of_params [of E i a d] assms(1) [of a d] ts created_kept(1) [OF Some] by auto
  qed
next
  case False
  obtain ok cs w1 where f: "fan_out E u i q parentId 1 ts w = (ok, cs, w1)" by (metis prod_cases3)
  have "tw_closures (snd (start_tasks E u i q parentId ts w)) = tw_closures w1"
    using False f by (cases ts; cases "tl ts") (auto simp: start_tasks_def Let_def split: option.splits dest: created_kept)
  with closures_fan_out [OF f assms(1)] assms(2) show ?thesis by simp
qed

lemma submit_kept [simp]:
  "tw_closures (snd (submit_cross_department E u i q a d M w)) = tw_closures w"
  "tw_queues (snd (submit_cross_department E u i q a d M w)) = tw_queues w"
  by (auto simp: submit_cross_department_def Let_def split: option.splits prod.splits dest: created_kept)

lemma closures_create:
  assumes "mget (tw_closures (snd (post_task E opr q w))) t = Some p"
  shows "mget (tw_closures w) t = Some p
    \<or> (\<exists>u i. opr = Some u \<and> CreateTaskInput (tr_body q) = Some i \<and> allowed (creation_permission E u i) \<and> work_of E u i p)"
proof (cases "\<exists>u i ts. opr = Some u \<and> CreateTaskInput (tr_body q) = Some i \<and> resolve_targets E i = Some ts \<and> allowed (creation_permission E u i)")
  case True
  then obtain u i ts where o: "opr = Some u" "CreateTaskInput (tr_body q) = Some i" "resolve_targets E i = Some ts" "allowed (creation_permission E u i)"
    by blast
  show ?thesis
  proof (cases "take_lock E u i q (task_id q 0) ts w")
    case (Inl x)
    with o assms locked_kept [OF Inl] show ?thesis by (cases x) (simp add: post_task_def Let_def)
  next
    case (Inr w1)
    with o assms have "mget (tw_closures (snd (start_tasks E u i q (task_id q 0) ts (count_submission E u q w1)))) t = Some p"
      by (simp add: post_task_def Let_def)
    from closures_start [OF targets_named [OF o(3)] this] o locked_kept [OF Inr] show ?thesis by auto
  qed
next
  case False
  then have "tw_closures (snd (post_task E opr q w)) = tw_closures w"
    by (auto simp: post_task_def Let_def split: option.splits list.splits)
  with assms show ?thesis by simp
qed

lemma decision_read_ok:
  "decision_read M opr rid q w = Inr (u, note, r) \<Longrightarrow> opr = Some u \<and> xd_getById M rid (tw_requests w) = Some r \<and> xd_status r = St_pending
     \<and> tr_now q \<le> xd_expiresAt r \<and> may_decide u r"
  by (auto simp: decision_read_def split: option.splits if_splits)

lemma closures_approve:
  assumes "mget (tw_closures (snd (post_approve E M opr rid q w))) t = Some p"
  shows "mget (tw_closures w) t = Some p
    \<or> (\<exists>u r. opr = Some u \<and> xd_getById M rid (tw_requests w) = Some r \<and> xd_status r = St_pending \<and> tr_now q \<le> xd_expiresAt r
        \<and> may_decide u r \<and> ep_agentName p = targetAgent (xd_of r) \<and> ep_operatorId p = requestingOperatorId (xd_of r) \<and> ep_task p = xd_task (xd_of r))"
proof (cases "decision_read M opr rid q w")
  case (Inr x)
  then obtain u nt r where d: "decision_read M opr rid q w = Inr (u, nt, r)" by (metis prod_cases3)
  have "mget (tw_closures w) t = Some p \<or> p = approved_params r (ep_taskId p)"
    using assms d
    by (auto simp: post_approve_def Let_def closures_execute approved_params_def split: if_splits prod.splits option.splits dest: created_kept)
  then show ?thesis
  proof
    assume "p = approved_params r (ep_taskId p)"
    then have "ep_agentName p = targetAgent (xd_of r)" "ep_operatorId p = requestingOperatorId (xd_of r)" "ep_task p = xd_task (xd_of r)"
      by (metis approved_params_def exec_params.select_convs)+
    with decision_read_ok [OF d] show ?thesis by blast
  qed blast
qed (use assms in \<open>simp add: post_approve_def\<close>)

lemma closures_other [simp]:
  "tw_closures (snd (post_cancel E opr i q w)) = tw_closures w" "tw_closures (snd (post_reject E M opr i q w)) = tw_closures w"
  "tw_closures (snd (post_release_lock E opr key w)) = tw_closures w" "tw_closures (agent_answers E now a ans w) = tw_closures w"
  by (auto simp: post_cancel_def post_reject_def post_release_lock_def agent_answers_def Let_def
      split: option.splits sum.splits prod.splits gate_verdict.splits)

text \<open>
  C6: whatever is called, new work on an agent's queue is either that of an operator whose creation the permission policy allows, on the
  department that the request names or else on its agent, or that of a pending, unexpired request between departments, decided by root, by an
  operator of all departments or by the head of the target department.
\<close>
theorem new_work_is_authorised:
  assumes "mget (tw_closures (ot_step E M c w)) t = Some p" "mget (tw_closures w) t \<noteq> Some p"
  shows "(\<exists>u q i. c = Create (Some u) q \<and> CreateTaskInput (tr_body q) = Some i
            \<and> permitted (operator.truncate u) (resolved_roles (tn_roles E) u) (creation_check i) (Some (department_map E))
            \<and> ep_operatorId p = op_id u \<and> ep_task p = ci_task i \<and> (ep_agentName p, ep_department p) \<in> set (tn_agents E)
            \<and> (ci_agent i = Some (ep_agentName p) \<or> ci_agent i = None \<and> ci_department i = Some (ep_department p)))
       \<or> (\<exists>u rid q r. c = Approve (Some u) rid q \<and> xd_getById M rid (tw_requests w) = Some r \<and> xd_status r = St_pending
            \<and> tr_now q \<le> xd_expiresAt r \<and> may_decide u r \<and> ep_agentName p = targetAgent (xd_of r)
            \<and> ep_operatorId p = requestingOperatorId (xd_of r) \<and> ep_task p = xd_task (xd_of r))"
proof (cases c)
  case (Create opr q)
  with closures_create [of E opr q w t p] assms show ?thesis
    by (auto simp: work_of_def named_by_def creation_permission_def allowed_iff_permitted)
next
  case (Approve opr rid q)
  with closures_approve [of E M opr rid q w t p] assms show ?thesis by auto
qed (use assms in simp_all)

section \<open>No queued task is lost\<close>

definition waits :: "agent_queues \<Rightarrow> string \<Rightarrow> bool" where
  "waits qs i \<longleftrightarrow> (\<exists>a. i \<in> qt_taskId ` set (queue_of qs a))"

lemma waits_next:
  assumes "processNext a qs = (x, qs1)" "waits qs i"
  shows "waits qs1 i \<or> (\<exists>t. x = Some t \<and> qt_taskId t = i)"
proof -
  from assms(2) obtain b where b: "i \<in> qt_taskId ` set (queue_of qs b)" by (auto simp: waits_def)
  show ?thesis
  proof (cases "queue_of qs a")
    case Nil
    with assms(1) have "queue_of qs1 b = queue_of qs b" by (auto simp: processNext_def)
    with b show ?thesis unfolding waits_def by metis
  next
    case (Cons t rest)
    with assms(1) have q: "x = Some t" "queue_of qs1 c = (if c = a then rest else queue_of qs c)" for c
      by (auto simp: processNext_def)
    show ?thesis
    proof (cases "b = a")
      case True
      with b Cons have "i = qt_taskId t \<or> i \<in> qt_taskId ` set rest" by auto
      with q show ?thesis unfolding waits_def by (metis (mono_tags))
    next
      case False
      with q(2) [of b] have "queue_of qs1 b = queue_of qs b" by simp
      with b show ?thesis unfolding waits_def by metis
    qed
  qed
qed

lemma waits_enqueue:
  assumes "aq_enqueue a j p qs = (x, qs1)" "waits qs i \<or> i = j"
  shows "waits qs1 i \<or> (\<exists>t. x = Some t \<and> qt_taskId t = i)"
proof -
  let ?q = "by_priority (queue_of qs a @ [\<lparr>qt_taskId = j, qt_priority = p\<rparr>])"
  let ?s1 = "qs\<lparr>queues := mset_at a ?q (queues qs)\<rparr>"
  have q: "queue_of ?s1 b = (if b = a then ?q else queue_of qs b)" for b by simp
  have "qt_taskId ` set ?q = insert j (qt_taskId ` set (queue_of qs a))" by (simp add: by_priority_def)
  with q have sub: "qt_taskId ` set (queue_of qs b) \<subseteq> qt_taskId ` set (queue_of ?s1 b)" and a: "j \<in> qt_taskId ` set (queue_of ?s1 a)" for b
    by auto
  from assms(2) sub a have "waits ?s1 i" unfolding waits_def by (meson subsetD)
  with assms(1) waits_next show ?thesis by (auto simp: aq_enqueue_def Let_def split: if_splits)
qed

lemma enqueue_agents: "\<forall>b. agent_ok qs b \<Longrightarrow> aq_enqueue a j p qs = (x, qs1) \<Longrightarrow> agent_ok qs1 b"
  using step_spec_ok [OF _ enqueue_spec] by blast

lemma settle_agents: "\<forall>b. agent_ok qs b \<Longrightarrow> task_settled a qs = (x, qs1) \<Longrightarrow> agent_ok qs1 b"
  using step_spec_ok [OF _ settled_spec] by blast

definition queued_except where
  "queued_except E j w \<longleftrightarrow> ids_unique (tn_tasks E) ot_taskId (tw_tasks w) \<and> (\<forall>a. agent_ok (tw_queues w) a)
     \<and> (\<forall>i d. getByTaskId E i w = Some d \<longrightarrow> ot_status d = Ots_queued \<longrightarrow> Some i \<noteq> j \<longrightarrow> waits (tw_queues w) i)"

abbreviation queued_ok where "queued_ok E \<equiv> queued_except E None"

locale operator_task_store = mongo_collection "tn_tasks E" ot_taskId for E :: "('t, 'x, 's) task_env"
begin

lemma task_at: "getByTaskId E i w = doc_at (tn_tasks E) ot_taskId (tw_tasks w) i"
  by (simp add: getByTaskId_def doc_at_def)

lemma update_task:
  assumes "ids_unique (tn_tasks E) ot_taskId (tw_tasks w)" "\<And>d. ot_taskId (f d) = ot_taskId d"
  shows "ids_unique (tn_tasks E) ot_taskId (tw_tasks (ots_update E i f w))"
    and "getByTaskId E k (ots_update E i f w) = (if k = i then map_option f (getByTaskId E i w) else getByTaskId E k w)"
proof -
  obtain n c where u: "updateOne (tn_tasks E) (\<lambda>d. ot_taskId d = i \<and> True) f (tw_tasks w) = (n, c)" by fastforce
  from update_one_lookup [OF assms u] u
  show "ids_unique (tn_tasks E) ot_taskId (tw_tasks (ots_update E i f w))"
    and "getByTaskId E k (ots_update E i f w) = (if k = i then map_option f (getByTaskId E i w) else getByTaskId E k w)"
    by (simp_all add: ots_update_def task_at)
qed

lemma create_task:
  assumes "ids_unique (tn_tasks E) ot_taskId (tw_tasks w)" "ots_create E d w = Some w1"
  shows "ids_unique (tn_tasks E) ot_taskId (tw_tasks w1)"
    and "getByTaskId E k w1 = (if k = ot_taskId d then Some d else getByTaskId E k w)"
proof -
  from assms(2) obtain c where c: "insertOne (tn_tasks E) d (tw_tasks w) = Some c" "w1 = w\<lparr>tw_tasks := c\<rparr>" by (auto simp: ots_create_def)
  from insert_lookup [OF assms(1) c(1)] c(2)
  show "ids_unique (tn_tasks E) ot_taskId (tw_tasks w1)"
    and "getByTaskId E k w1 = (if k = ot_taskId d then Some d else getByTaskId E k w)" by (simp_all add: task_at)
qed

lemma same_tasks: "tw_tasks w1 = tw_tasks w \<Longrightarrow> tw_queues w1 = tw_queues w \<Longrightarrow> queued_except E j w1 = queued_except E j w"
  by (simp add: queued_except_def task_at)

text \<open>An update that does not make a task queued keeps the invariant, and frees the exception if it is its task's.\<close>

lemma update_queued:
  assumes "queued_except E j w" "\<And>d. ot_taskId (f d) = ot_taskId d" "\<And>d. ot_status (f d) \<noteq> Ots_queued" "j = None \<or> j = Some i"
  shows "queued_ok E (ots_update E i f w)"
  unfolding queued_except_def
proof (intro conjI allI impI)
  show "agent_ok (tw_queues (ots_update E i f w)) a" for a using assms(1) by (simp add: queued_except_def)
  have u: "ids_unique (tn_tasks E) ot_taskId (tw_tasks w)" using assms(1) by (simp add: queued_except_def)
  show "ids_unique (tn_tasks E) ot_taskId (tw_tasks (ots_update E i f w))" by (rule update_task(1) [OF u assms(2)])
  fix k d assume "getByTaskId E k (ots_update E i f w) = Some d" "ot_status d = Ots_queued"
  then have "(if k = i then map_option f (getByTaskId E i w) else getByTaskId E k w) = Some d" "ot_status d = Ots_queued"
    by (simp_all add: update_task(2) [OF u assms(2)])
  with assms(3) have "k \<noteq> i" "getByTaskId E k w = Some d" by (auto split: if_splits)
  with assms(1,4) \<open>ot_status d = Ots_queued\<close> show "waits (tw_queues (ots_update E i f w)) k" by (auto simp: queued_except_def)
qed

lemma create_queued:
  assumes "queued_ok E w" "ots_create E d w = Some w1"
  shows "queued_except E (Some (ot_taskId d)) w1" "ot_status d \<noteq> Ots_queued \<Longrightarrow> queued_ok E w1"
  using assms create_task [OF _ assms(2)] created_kept(2) [OF assms(2)] by (auto simp: queued_except_def split: if_splits)

lemma status_queued:
  assumes "queued_except E j w" "st \<noteq> Ots_queued" "j = None \<or> j = Some i"
  shows "queued_ok E (ots_updateStatus E now i st w)" "queued_ok E (updateStatusWithExecutionId E now i st x w)"
    "queued_ok E (ots_cancel E now i who y w)"
  unfolding ots_updateStatus_def updateStatusWithExecutionId_def ots_cancel_def
  by (rule update_queued [OF assms(1)]; use assms in \<open>auto simp: set_status_def Let_def\<close>)+

lemmas cancel_keeps = status_queued(3) [where j = None and st = Ots_failed, simplified]

text \<open>The queue moves on: what leaves it is marked as running.\<close>

lemma move_queued:
  assumes "ids_unique (tn_tasks E) ot_taskId (tw_tasks w)" "\<forall>a. agent_ok qs a"
    and "\<And>i d. getByTaskId E i w = Some d \<Longrightarrow> ot_status d = Ots_queued \<Longrightarrow> waits qs i \<or> (\<exists>t. x = Some t \<and> qt_taskId t = i)"
  shows "queued_ok E (task_started E now x (w\<lparr>tw_queues := qs, tw_closures := cs\<rparr>))"
proof (cases x)
  case None
  with assms show ?thesis by (auto simp: task_started_def queued_except_def task_at)
next
  case (Some t)
  have "queued_except E (Some (qt_taskId t)) (w\<lparr>tw_queues := qs, tw_closures := cs\<rparr>)"
    using assms Some by (auto simp: queued_except_def task_at)
  from status_queued(1) [OF this] Some show ?thesis by (simp add: task_started_def)
qed

lemma execute_queued:
  assumes "queued_except E (Some (ep_taskId p)) w"
  shows "queued_ok E (executeAgentTask E now p w)"
proof (cases "map_of (tn_agents E) (ep_agentName p)")
  case None
  with status_queued(1) [OF assms] show ?thesis by (simp add: executeAgentTask_def)
next
  case (Some d)
  obtain x qs where q: "aq_enqueue (ep_agentName p) (ep_taskId p) (ep_priority p) (tw_queues w) = (x, qs)" by fastforce
  have "queued_ok E (task_started E now x (w\<lparr>tw_queues := qs, tw_closures := mset_at (ep_taskId p) p (tw_closures w)\<rparr>))"
  proof (rule move_queued)
    show "\<forall>a. agent_ok qs a" using enqueue_agents [OF _ q] assms by (simp add: queued_except_def)
    show "getByTaskId E i w = Some d \<Longrightarrow> ot_status d = Ots_queued \<Longrightarrow> waits qs i \<or> (\<exists>t. x = Some t \<and> qt_taskId t = i)" for i d
      using assms by (intro waits_enqueue [OF q]) (auto simp: queued_except_def)
  qed (use assms in \<open>simp add: queued_except_def\<close>)
  with Some q show ?thesis by (simp add: executeAgentTask_def)
qed

lemma answer_queued:
  assumes "queued_ok E w"
  shows "queued_ok E (agent_answers E now a ans w)"
proof (cases "mget (running (tw_queues w)) a")
  case None
  with assms show ?thesis by (simp add: agent_answers_def)
next
  case (Some i)
  define w1 where "w1 = (case mget (tw_closures w) i of None \<Rightarrow> w | Some p \<Rightarrow> finish_cleanup E p (record_answer E now i ans w))"
  have "queued_ok E (record_answer E now i ans w)"
    using assms status_queued [OF assms, of _ i] by (auto simp: record_answer_def split: option.splits exec_answer.splits)
  then have 1: "queued_ok E w1"
    using assms same_tasks [of "finish_cleanup E p (record_answer E now i ans w)" "record_answer E now i ans w" None for p]
    by (auto simp: w1_def split: option.splits)
  obtain x qs where q: "task_settled a (tw_queues w1) = (x, qs)" by fastforce
  have "queued_ok E (task_started E now x (w1\<lparr>tw_queues := qs, tw_closures := tw_closures w1\<rparr>))"
  proof (rule move_queued)
    show "\<forall>a. agent_ok qs a" using settle_agents [OF _ q] 1 by (auto simp: queued_except_def)
    fix k d assume "getByTaskId E k w1 = Some d" "ot_status d = Ots_queued"
    with 1 have "waits (tw_queues w1) k" by (auto simp: queued_except_def)
    then have "waits (tw_queues w1\<lparr>running := mdelete a (running (tw_queues w1))\<rparr>) k" by (simp add: waits_def)
    with q waits_next show "waits qs k \<or> (\<exists>t. x = Some t \<and> qt_taskId t = k)" by (auto simp: task_settled_def)
  qed (use 1 in \<open>simp add: queued_except_def\<close>)
  with Some q show ?thesis by (simp add: agent_answers_def w1_def [symmetric])
qed

lemma world_fields [simp]:
  "queued_except E j (emit E e w) = queued_except E j w" "queued_except E j (task_audit o1 a i w) = queued_except E j w"
  "queued_except E j (abort_task i w) = queued_except E j w" "queued_except E j (w\<lparr>tw_redis := s\<rparr>) = queued_except E j w"
  "queued_except E j (w\<lparr>tw_requests := c\<rparr>) = queued_except E j w" "queued_except E j (w\<lparr>tw_controllers := ks\<rparr>) = queued_except E j w"
  by (rule same_tasks; simp add: emit_def task_audit_def abort_task_def)+

lemma world_counted [simp]: "queued_except E j (count_submission E u q w) = queued_except E j w"
  by (rule same_tasks) simp_all

lemma launch_queued: "queued_except E (Some (ep_taskId p)) w \<Longrightarrow> queued_ok E (launch E q p w)"
  by (simp add: launch_def execute_queued)

lemma lock_queued:
  assumes "queued_ok E w" "take_lock E u i q parentId ts w = r"
  shows "case r of Inl (x, w1) \<Rightarrow> queued_ok E w1 | Inr w1 \<Rightarrow> queued_ok E w1"
  using assms
  by (auto simp: take_lock_def Let_def new_optask_def status_queued split: option.splits prod.splits if_splits dest!: create_queued(2) [rotated])

lemma fan_out_queued: "fan_out E u i q parentId n ts w = (ok, cs, w1) \<Longrightarrow> queued_ok E w \<Longrightarrow> queued_ok E w1"
proof (induction ts arbitrary: n w ok cs)
  case (Cons x ts)
  obtain a d where x: "x = (a, d)" by fastforce
  let ?t = "(new_optask u i q (task_id q n) Target_agent a Ots_queued)\<lparr>ot_resourceKey := None, ot_parentTaskId := Some parentId\<rparr>"
  let ?p = "exec_params_of u i (task_id q n) a d None"
  show ?case
  proof (cases "ots_create E ?t w")
    case None
    with Cons.prems x show ?thesis by (simp add: Let_def)
  next
    case (Some w2)
    obtain ok1 cs1 w3 where f: "fan_out E u i q parentId (Suc n) ts (launch E q ?p w2) = (ok1, cs1, w3)" by (metis prod_cases3)
    from Cons.prems(1) x Some f have "w3 = w1" by (simp add: Let_def)
    have "queued_ok E (launch E q ?p w2)"
      using create_queued(1) [OF Cons.prems(2) Some] by (intro launch_queued) (simp add: exec_params_of_def new_optask_def)
    from Cons.IH [OF f [unfolded \<open>w3 = w1\<close>] this] show ?thesis .
  qed
qed simp

lemma start_queued:
  assumes "queued_ok E w"
  shows "queued_ok E (snd (start_tasks E u i q parentId ts w))"
proof (cases "\<exists>a d. ts = [(a, d)]")
  case True
  then obtain a d where ts: "ts = [(a, d)]" by blast
  show ?thesis
  proof (cases "ots_create E (new_optask u i q parentId Target_agent a Ots_queued) w")
    case (Some w1)
    have "queued_ok E (launch E q (exec_params_of u i parentId a d (ci_resourceKey i)) w1)"
      using create_queued(1) [OF assms Some] by (intro launch_queued) (simp add: exec_params_of_def new_optask_def)
    with ts Some show ?thesis by (simp add: start_tasks_def)
  qed (use assms ts in \<open>simp add: start_tasks_def\<close>)
next
  case False
  obtain ok cs w1 where f: "fan_out E u i q parentId 1 ts w = (ok, cs, w1)" by (metis prod_cases3)
  from fan_out_queued [OF f assms] have 1: "queued_ok E w1" .
  let ?t = "(new_optask u i q parentId Target_department (the (ci_department i)) Ots_running)\<lparr>ot_childTaskIds := Some cs\<rparr>"
  have "queued_ok E w2" if "ots_create E ?t w1 = Some w2" for w2
    by (rule create_queued(2) [OF 1 that]) (simp add: new_optask_def)
  with False f 1 show ?thesis by (cases ts; cases "tl ts") (auto simp: start_tasks_def Let_def split: option.splits)
qed

lemma submit_queued:
  assumes "queued_ok E w"
  shows "queued_ok E (snd (submit_cross_department E u i q a d M w))"
  using assms
  by (auto simp: submit_cross_department_def Let_def new_optask_def split: option.splits prod.splits dest!: create_queued(2) [rotated])

lemma create_route_queued:
  assumes "queued_ok E w"
  shows "queued_ok E (snd (post_task E opr q w))"
proof -
  have left: "queued_ok E w1" if "take_lock E u i q parentId ts w = Inl (x, w1)" for u i parentId ts x w1
    using lock_queued [OF assms that] by simp
  have right: "queued_ok E (snd (start_tasks E u i q parentId ts (count_submission E u q w1)))"
    if "take_lock E u i q parentId ts w = Inr w1" for u i parentId ts w1
    using lock_queued [OF assms that] by (intro start_queued) simp
  show ?thesis
    using assms by (auto simp: post_task_def Let_def split: option.splits list.splits sum.splits intro!: submit_queued right dest: left)
qed

lemma children_queued: "queued_ok E w \<Longrightarrow> queued_ok E (cancel_children E now u why ids w)"
  by (induction ids arbitrary: w) (simp_all add: cancel_children_def cancel_keeps)

lemma cancel_queued:
  assumes "queued_ok E w"
  shows "queued_ok E (snd (post_cancel E opr i q w))"
  using assms by (auto simp: post_cancel_def Let_def cancel_keeps children_queued split: option.splits)

lemma approve_queued:
  assumes "queued_ok E w"
  shows "queued_ok E (snd (post_approve E M opr rid q w))"
proof -
  have upd: "queued_except E (Some i) (ots_updateStatus E now i st w1)" if "queued_ok E w1" for now i st w1
  proof -
    have id: "ot_taskId (set_status now st d) = ot_taskId d" for d by (simp add: set_status_def Let_def)
    have u: "ids_unique (tn_tasks E) ot_taskId (tw_tasks w1)" using that by (simp add: queued_except_def)
    show ?thesis
      using that update_task [where i = i and f = "set_status now st", OF u id]
      by (auto simp: queued_except_def ots_updateStatus_def split: if_splits)
  qed
  have exec: "queued_ok E (executeAgentTask E now (approved_params r i) w1)" if "queued_except E (Some i) w1" for now r i w1
    using that by (intro execute_queued) (simp add: approved_params_def)
  have crea: "queued_except E (Some i) w2" if "ots_create E (approved_task u r q i) w1 = Some w2" "queued_ok E w1" for u r i w1 w2
    using create_queued(1) [OF that(2,1)] by (simp add: approved_task_def)
  show ?thesis
    using assms by (auto simp: post_approve_def Let_def split: sum.splits prod.splits option.splits intro!: exec upd dest!: crea)
qed

lemma reject_queued:
  assumes "queued_ok E w"
  shows "queued_ok E (snd (post_reject E M opr rid q w))"
  using assms by (auto simp: post_reject_def Let_def cancel_keeps split: sum.splits prod.splits option.splits)

lemma release_queued:
  assumes "queued_ok E w"
  shows "queued_ok E (snd (post_release_lock E opr key w))"
  using assms by (auto simp: post_release_lock_def split: option.splits prod.splits gate_verdict.splits)

lemma ot_step_queued: "queued_ok E w \<Longrightarrow> queued_ok E (ot_step E M c w)"
  by (cases c) (simp_all add: create_route_queued cancel_queued approve_queued reject_queued release_queued answer_queued)

lemma ot_run_queued: "queued_ok E w \<Longrightarrow> queued_ok E (ot_run E M cs w)"
  unfolding ot_run_def by (induction cs arbitrary: w) (simp_all add: ot_step_queued)

lemma fresh_queued:
  assumes "docs (tn_tasks E) (tw_tasks w) = {#}" "tw_queues w = aq_init"
  shows "queued_ok E w"
proof -
  have "getByTaskId E i w = None" for i
    using find_one [of "\<lambda>d. ot_taskId d = i" "tw_tasks w"] assms(1) by (cases "getByTaskId E i w") (auto simp: getByTaskId_def)
  with assms show ?thesis by (simp add: queued_except_def ids_unique_def aq_init_ok)
qed

end

section \<open>A sample deployment\<close>

text \<open>Two departments with an agent each, and one with two; Ann contributes to finance, Hal is the head of support, Root is root.\<close>

definition sample_task_env :: "(operator_task list, cross_dept_request list, ref_db) task_env" where
  "sample_task_env = \<lparr>tn_tasks = list_mongo ot_taskId, tn_requests = Some (list_mongo xd_requestId), tn_locks = Some ref_redis,
     tn_limiter = Some ref_redis, tn_events = True, tn_iso = (\<lambda>t. ''2026-01-01T00:00''), tn_roles = [],
     tn_agents = [(''bob'', ''finance''), (''eve'', ''support''), (''kim'', ''sales''), (''lou'', ''sales'')]\<rparr>"

interpretation sample_tasks: operator_task_store sample_task_env
  by (rule operator_task_store.intro) (simp add: sample_task_env_def list_store.mongo_collection_axioms)

abbreviation sample_requests_db :: "(cross_dept_request list, cross_dept_request) mongo" where
  "sample_requests_db \<equiv> list_mongo xd_requestId"

definition no_tasks :: "(operator_task list, cross_dept_request list, ref_db) task_world" where
  "no_tasks = \<lparr>tw_tasks = [], tw_requests = [], tw_redis = db_empty, tw_queues = aq_init, tw_closures = [], tw_controllers = [],
     tw_aborted = [], tw_events = [], tw_audit = []\<rparr>"

definition sample_operator :: "string \<Rightarrow> tier \<Rightarrow> string list \<Rightarrow> int \<Rightarrow> full_operator" where
  "sample_operator i t ds p = \<lparr>op_id = i, op_tier = t, op_departments = ds, fo_displayName = i, fo_role = ''member'', fo_email = i @ ''@a.org'',
     fo_apiKeyHash = '''', fo_apiKeyPrefix = '''', fo_tailscaleNodeId = None, fo_roleIds = [], fo_priorityClass = p,
     fo_crossDeptPolicy = Policy_request, fo_limits = \<lparr>requestsPerMinute = 60, maxConcurrentTasks = 5, dailyTaskQuota = 100\<rparr>,
     fo_status = Op_active, fo_invitedBy = None, fo_createdAt = 0, fo_updatedAt = 0, fo_lastActiveAt = None, fo_revokedAt = None,
     fo_revokedReason = None, fo_slackUserId = None, fo_slackChannelId = None, fo_openClaw = None\<rparr>"

definition ann where "ann = sample_operator ''ann'' Contributor [''finance''] 50"
definition hal where "hal = sample_operator ''hal'' DepartmentHead [''support''] 70"
definition rex where "rex = sample_operator ''rex'' Root [''*''] 100"

text \<open>The texts a request draws: its number, and the count of the draw.\<close>

definition sample_draw :: "int \<Rightarrow> json \<Rightarrow> task_request" where
  "sample_draw now body = \<lparr>tr_now = now, tr_uuid8 = (\<lambda>n. replicate n CHR ''x''), tr_uuid12 = dec_int now, tr_body = body\<rparr>"

definition body_of :: "(string \<times> string) list \<Rightarrow> json" where
  "body_of kvs = JObj (map (\<lambda>(k, v). (k, JStr v)) kvs)"

definition run_sample :: "ot_call list \<Rightarrow> (operator_task list, cross_dept_request list, ref_db) task_world" where
  "run_sample cs = ot_run sample_task_env sample_requests_db cs no_tasks"

definition status_in :: "string \<Rightarrow> (operator_task list, cross_dept_request list, ref_db) task_world \<Rightarrow> ot_status option" where
  "status_in i w = map_option ot_status (getByTaskId sample_task_env i w)"

definition ann_to_bob :: "int \<Rightarrow> ot_call" where
  "ann_to_bob now = Create (Some ann) (sample_draw now (body_of [(''agent'', ''bob''), (''task'', ''close the books'')]))"

definition ann_to_eve :: "int \<Rightarrow> ot_call" where
  "ann_to_eve now = Create (Some ann) (sample_draw now (body_of [(''agent'', ''eve''), (''task'', ''ask a customer'')]))"

lemma two_for_bob:
  "status_in ''optask_1_'' (run_sample [ann_to_bob 1, ann_to_bob 2]) = Some Ots_running"
  "status_in ''optask_2_'' (run_sample [ann_to_bob 1, ann_to_bob 2]) = Some Ots_queued"
  by code_simp+

theorem new_work_is_authorised_witness:
  "permitted (operator.truncate ann) [] (creation_check \<lparr>ci_agent = Some ''bob'', ci_department = None, ci_task = ''close the books'',
     ci_payload = None, ci_resourceKey = None\<rparr>) (Some (department_map sample_task_env))"
proof -
  let ?p = "hd (map snd (tw_closures (run_sample [ann_to_bob 1])))"
  have "mget (tw_closures (ot_step sample_task_env sample_requests_db (ann_to_bob 1) no_tasks)) ''optask_1_'' = Some ?p"
    "mget (tw_closures no_tasks) ''optask_1_'' \<noteq> Some ?p" by code_simp+
  note new_work_is_authorised [OF this]
  moreover have "CreateTaskInput (body_of [(''agent'', ''bob''), (''task'', ''close the books'')])
    = Some \<lparr>ci_agent = Some ''bob'', ci_department = None, ci_task = ''close the books'', ci_payload = None, ci_resourceKey = None\<rparr>" by code_simp
  moreover have "resolved_roles (tn_roles sample_task_env) ann = []" by code_simp
  ultimately show ?thesis by (auto simp: ann_to_bob_def sample_draw_def)
qed

text \<open>
  C19: whatever operators create, cancel, approve, reject or release and agents answer, from an empty store, every task that the store shows as
  queued waits on the queue of an agent that is at work: nothing that was promised to run is forgotten.
\<close>
theorem queued_tasks_wait_in_a_queue:
  assumes "mongo_collection (tn_tasks E) ot_taskId" "docs (tn_tasks E) (tw_tasks w) = {#}" "tw_queues w = aq_init"
    and "getByTaskId E i (ot_run E M cs w) = Some d" "ot_status d = Ots_queued"
  shows "\<exists>a r. i \<in> qt_taskId ` set (queue_of (tw_queues (ot_run E M cs w)) a) \<and> mget (running (tw_queues (ot_run E M cs w))) a = Some r"
proof -
  note store = operator_task_store.intro [OF assms(1)]
  have "queued_ok E (ot_run E M cs w)"
    by (rule operator_task_store.ot_run_queued [OF store operator_task_store.fresh_queued [OF store assms(2,3)]])
  then have "waits (tw_queues (ot_run E M cs w)) i" "\<forall>a. agent_ok (tw_queues (ot_run E M cs w)) a"
    using assms(4,5) by (auto simp: queued_except_def)
  then show ?thesis by (force simp: waits_def agent_ok_def)
qed

theorem queued_tasks_wait_in_a_queue_witness:
  "\<exists>a r. ''optask_2_'' \<in> qt_taskId ` set (queue_of (tw_queues (run_sample [ann_to_bob 1, ann_to_bob 2])) a)
     \<and> mget (running (tw_queues (run_sample [ann_to_bob 1, ann_to_bob 2]))) a = Some r"
proof -
  let ?d = "the (getByTaskId sample_task_env ''optask_2_'' (run_sample [ann_to_bob 1, ann_to_bob 2]))"
  have d: "getByTaskId sample_task_env ''optask_2_'' (ot_run sample_task_env sample_requests_db [ann_to_bob 1, ann_to_bob 2] no_tasks) = Some ?d"
    "ot_status ?d = Ots_queued" by code_simp+
  have "docs (tn_tasks sample_task_env) (tw_tasks no_tasks) = {#}" "tw_queues no_tasks = aq_init"
    by (simp_all add: sample_task_env_def no_tasks_def)
  from queued_tasks_wait_in_a_queue [OF sample_tasks.mongo_collection_axioms this d] show ?thesis by (simp only: run_sample_def)
qed

lemma naming_a_department_opens_every_agent:
  "let q = sample_draw 1 (body_of [(''agent'', ''eve''), (''department'', ''finance''), (''task'', ''delete the tickets'')])
   in fst (post_task sample_task_env (Some ann) q no_tasks) = Inr (Task_queued ''optask_1_'' ''eve'')
    \<and> \<not> allowed (creation_permission sample_task_env ann (the (CreateTaskInput (body_of [(''agent'', ''eve''), (''task'', ''delete the tickets'')]))))"
  by code_simp

lemma cancelled_task_runs:
  "status_in ''optask_2_'' (run_sample [ann_to_bob 1, ann_to_bob 2, Cancel (Some ann) ''optask_2_'' (sample_draw 3 (JObj []))]) = Some Ots_cancelled"
  "status_in ''optask_2_'' (run_sample [ann_to_bob 1, ann_to_bob 2, Cancel (Some ann) ''optask_2_'' (sample_draw 3 (JObj [])),
     Agent_answers 4 ''bob'' (Answered False ''e1'')]) = Some Ots_running"
  "status_in ''optask_2_'' (run_sample [ann_to_bob 1, ann_to_bob 2, Cancel (Some ann) ''optask_2_'' (sample_draw 3 (JObj [])),
     Agent_answers 4 ''bob'' (Answered False ''e1''), Agent_answers 5 ''bob'' (Answered False ''e2'')]) = Some Ots_completed"
  by code_simp+

lemma approval_revives_cancelled_task:
  "status_in ''optask_1_'' (run_sample [ann_to_eve 1, Cancel (Some ann) ''optask_1_'' (sample_draw 2 (JObj []))]) = Some Ots_cancelled"
  "status_in ''optask_1_'' (run_sample [ann_to_eve 1, Cancel (Some ann) ''optask_1_'' (sample_draw 2 (JObj [])),
     Approve (Some hal) ''xdept_1'' (sample_draw 3 (JObj []))]) = Some Ots_running"
  by code_simp+

definition rex_to_bob :: "int \<Rightarrow> ot_call" where
  "rex_to_bob now = Create (Some rex) (sample_draw now (body_of [(''agent'', ''bob''), (''task'', ''audit'')]))"

definition sales_fan_out :: ot_call where
  "sales_fan_out = Create (Some rex) (sample_draw 2 (body_of [(''department'', ''sales''), (''task'', ''call'')]))"

lemma cancelled_parent_takes_completed_children:
  "status_in ''optask_2_x'' (run_sample [sales_fan_out, Agent_answers 2 ''kim'' (Answered False ''e1'')]) = Some Ots_completed"
  "status_in ''optask_2_x'' (run_sample [sales_fan_out, Agent_answers 2 ''kim'' (Answered False ''e1''),
     Cancel (Some rex) ''optask_2_'' (sample_draw 3 (JObj []))]) = Some Ots_cancelled"
  by code_simp+

lemma fanned_out_parent_never_ends:
  "status_in ''optask_2_'' (run_sample [sales_fan_out, Agent_answers 2 ''kim'' (Answered False ''e1''),
     Agent_answers 3 ''lou'' (Answered False ''e2'')]) = Some Ots_running"
  by code_simp

lemma fan_out_counts_once:
  "counter ref_redis (CONCURRENT_PREFIX @ ''rex'') (tw_redis (run_sample [rex_to_bob 1, sales_fan_out])) = Some 2"
  "counter ref_redis (CONCURRENT_PREFIX @ ''rex'') (tw_redis (run_sample [rex_to_bob 1, sales_fan_out,
     Agent_answers 3 ''kim'' (Answered False ''e1''), Agent_answers 4 ''lou'' (Answered False ''e2'')])) = Some 0"
  "status_in ''optask_1_'' (run_sample [rex_to_bob 1, sales_fan_out,
     Agent_answers 3 ''kim'' (Answered False ''e1''), Agent_answers 4 ''lou'' (Answered False ''e2'')]) = Some Ots_running"
  by code_simp+

lemma fan_out_keeps_its_lock:
  "map lk_taskId (listLocks ref_redis (tw_redis (run_sample [Create (Some rex) (sample_draw 1 (body_of
     [(''department'', ''sales''), (''task'', ''call''), (''resourceKey'', ''phone'')])),
     Agent_answers 2 ''kim'' (Answered False ''e1''), Agent_answers 3 ''lou'' (Answered False ''e2'')]))) = [''optask_1_'']"
  by code_simp

definition with_the_books :: "int \<Rightarrow> string \<Rightarrow> ot_call" where
  "with_the_books now agentName = Create (Some ann) (sample_draw now (body_of [(''agent'', agentName), (''task'', ''t''), (''resourceKey'', ''books'')]))"

lemma approved_task_drops_lock:
  "map lk_taskId (listLocks ref_redis (tw_redis (run_sample [with_the_books 1 ''bob'', with_the_books 2 ''eve'',
     Approve (Some hal) ''xdept_2'' (sample_draw 3 (JObj []))]))) = [''optask_1_'']"
  "listLocks ref_redis (tw_redis (run_sample [with_the_books 1 ''bob'', with_the_books 2 ''eve'',
     Approve (Some hal) ''xdept_2'' (sample_draw 3 (JObj [])), Agent_answers 4 ''eve'' (Answered False ''e1'')])) = []"
  "status_in ''optask_1_'' (run_sample [with_the_books 1 ''bob'', with_the_books 2 ''eve'',
     Approve (Some hal) ''xdept_2'' (sample_draw 3 (JObj [])), Agent_answers 4 ''eve'' (Answered False ''e1'')]) = Some Ots_running"
  by code_simp+

lemma no_limit_at_zero:
  "map_sum id (\<lambda>(ts, n). length ts) (get_tasks sample_task_env (Some ann) None None 0 0 (run_sample [ann_to_bob 1, ann_to_bob 2])) = Inr 2"
  by code_simp

end
