(* ===== verification/OperatorEvents.thy ===== *)
theory OperatorEvents
  imports OperatorTasks
begin

text \<open>
  The stream of the operators' events (\<open>operators/event-stream.ts\<close>) and the routes that show what happens
  (\<open>operators/visibility-routes.ts\<close>).  Ids are made of the clock and a counter, and a page of events is what comes after a cursor.
  An emission is not awaited: its document lands in the collection later, or never.  A page is one query.

  The collection has no unique index; what is used of it is stated in the locale \<open>event_collection\<close>.  Documents expire
  after seven days, which is left out.
\<close>

section \<open>Ids\<close>

record id_clock =
  ic_sequence :: nat
  ic_last :: int

definition padStart :: "nat \<Rightarrow> char \<Rightarrow> string \<Rightarrow> string" where
  "padStart n c s = replicate (n - length s) c @ s"

definition id_text :: "int \<Rightarrow> nat \<Rightarrow> string" where
  "id_text now n = ''evt_'' @ padStart 15 (CHR ''0'') (dec_int now) @ ''_'' @ padStart 6 (CHR ''0'') (dec_nat n)"

definition generateMonotonicId :: "int \<Rightarrow> id_clock \<Rightarrow> string \<times> id_clock" where
  "generateMonotonicId now s =
     (let s1 = (if now = ic_last s then s\<lparr>ic_sequence := ic_sequence s + 1\<rparr> else \<lparr>ic_sequence = 0, ic_last = now\<rparr>)
      in (id_text now (ic_sequence s1), s1))"

section \<open>The stream\<close>

record operator_event =
  oev_id :: string
  oev_timestamp :: int
  oev_body :: task_event
  oev_summary :: string
  oev_details :: json

record 'c event_log =
  el_find :: "(operator_event \<Rightarrow> bool) \<Rightarrow> 'c \<Rightarrow> operator_event list"
  el_insert :: "operator_event \<Rightarrow> 'c \<Rightarrow> 'c"

definition el_docs :: "'c event_log \<Rightarrow> 'c \<Rightarrow> operator_event multiset" where
  "el_docs L c = mset (el_find L (\<lambda>_. True) c)"

text \<open>The state: the counter of the process, the insertions under way, the collection.\<close>

record 'c event_world =
  ew_clock :: id_clock
  ew_pending :: "operator_event list"
  ew_log :: 'c

definition es_emit :: "int \<Rightarrow> task_event \<Rightarrow> string \<Rightarrow> json \<Rightarrow> 'c event_world \<Rightarrow> 'c event_world" where
  "es_emit now e summary details w =
     (let (i, s) = generateMonotonicId now (ew_clock w)
      in w\<lparr>ew_clock := s, ew_pending := ew_pending w @
             [\<lparr>oev_id = i, oev_timestamp = now, oev_body = e, oev_summary = summary, oev_details = details\<rparr>]\<rparr>)"

text \<open>The insertion at a place among those under way arrives, or is lost (a failure is only logged).\<close>

definition drop_nth :: "nat \<Rightarrow> 'a list \<Rightarrow> 'a list" where
  "drop_nth k xs = take k xs @ drop (Suc k) xs"

definition es_land :: "'c event_log \<Rightarrow> nat \<Rightarrow> 'c event_world \<Rightarrow> 'c event_world" where
  "es_land L k w = (if k < length (ew_pending w)
     then w\<lparr>ew_pending := drop_nth k (ew_pending w), ew_log := el_insert L (ew_pending w ! k) (ew_log w)\<rparr> else w)"

definition es_lose :: "nat \<Rightarrow> 'c event_world \<Rightarrow> 'c event_world" where
  "es_lose k w = w\<lparr>ew_pending := drop_nth k (ew_pending w)\<rparr>"

definition es_matches :: "string list \<Rightarrow> string option \<Rightarrow> operator_event \<Rightarrow> bool" where
  "es_matches departmentIds ty e \<longleftrightarrow> (departmentIds = [] \<or> te_departmentId (oev_body e) \<in> set departmentIds)
     \<and> (case some_text ty of None \<Rightarrow> True | Some t \<Rightarrow> te_type (oev_body e) = t)"

definition es_query :: "'c event_log \<Rightarrow> string option \<Rightarrow> string list \<Rightarrow> string option \<Rightarrow> int \<Rightarrow> 'c \<Rightarrow> operator_event list" where
  "es_query L since departmentIds ty n c =
     mongo_limit n (sort_key oev_id (el_find L (\<lambda>e. (case some_text since of None \<Rightarrow> True | Some c \<Rightarrow> c < oev_id e)
        \<and> es_matches departmentIds ty e) c))"

section \<open>The route of the events\<close>

text \<open>What the parameters of a request come to: the departments (none is no filter) and the limit, or the answer's status.\<close>

definition event_params :: "full_operator option \<Rightarrow> string option \<Rightarrow> string option \<Rightarrow> nat + (string list \<times> int)" where
  "event_params opr department limitText = (case opr of
     None \<Rightarrow> Inl 401
   | Some u \<Rightarrow>
       (let n = (case some_text limitText of None \<Rightarrow> Some 50 | Some t \<Rightarrow> map_option (\<lambda>k. min k 100) (js_parseInt t));
            scope = (if \<not> sees_everything u
              then (case some_text department of
                  Some d \<Rightarrow> if d \<in> set (op_departments u) then Inr [d] else Inl 403
                | None \<Rightarrow> Inr (op_departments u))
              else Inr (case some_text department of Some d \<Rightarrow> [d] | None \<Rightarrow> []))
        in case scope of
             Inl refused \<Rightarrow> Inl refused
           | Inr ds \<Rightarrow> (case n of None \<Rightarrow> Inl 500 | Some k \<Rightarrow> Inr (ds, k))))"

text \<open>A page and its cursor.\<close>

definition get_events ::
  "'c event_log \<Rightarrow> full_operator option \<Rightarrow> string option \<Rightarrow> string option \<Rightarrow> string option \<Rightarrow> string option \<Rightarrow> 'c event_world
     \<Rightarrow> nat + (operator_event list \<times> string option)" where
  "get_events L opr since department ty limitText w = (case event_params opr department limitText of
     Inl refused \<Rightarrow> Inl refused
   | Inr (ds, n) \<Rightarrow>
       (let es = es_query L since ds ty n (ew_log w) in Inr (es, if es = [] then since else Some (oev_id (last es)))))"

section \<open>The other routes\<close>

record activity_stats =
  as_operatorId :: string
  as_tasksToday :: nat
  as_tasksThisWeek :: nat
  as_deniedRequests :: nat
  as_pendingApprovals :: nat
  as_activeLocks :: nat

text \<open>
  The activity of an operator; the starts of the day and of the week in the time zone of the server are arguments, as is what
  the stores of requests and locks answer (none, when there is no store).
\<close>

definition operator_activity ::
  "('o, 'i, 's) op_world \<Rightarrow> int \<Rightarrow> int \<Rightarrow> int \<Rightarrow> cross_dept_request list \<Rightarrow> task_lock list \<Rightarrow> full_operator \<Rightarrow> activity_stats" where
  "operator_activity w now todayStart weekStart pending locks u =
     (let created = (\<lambda>from_at. oa_queryFiltered (Some (op_id u)) (Some ''task.create'') None (Some from_at) None 100 w);
          lastHour = oa_queryFiltered (Some (op_id u)) None None (Some (now - 60 * 60 * 1000)) None 100 w
      in \<lparr>as_operatorId = op_id u, as_tasksToday = length (created todayStart), as_tasksThisWeek = length (created weekStart),
          as_deniedRequests = length (filter (\<lambda>a. \<not> oa_allowed a) lastHour),
          as_pendingApprovals = length (filter (\<lambda>r. requestingOperatorId (xd_of r) = op_id u) pending),
          as_activeLocks = length (filter (\<lambda>l. lk_operatorId l = op_id u) locks)\<rparr>)"

definition high_denial_alerts :: "activity_stats list \<Rightarrow> (string \<times> nat) list" where
  "high_denial_alerts ss = map (\<lambda>s. (as_operatorId s, as_deniedRequests s)) (filter (\<lambda>s. as_deniedRequests s \<ge> 2) ss)"

definition get_activity where
  "get_activity E opr now todayStart weekStart pending locks w = (case requireTier Root opr of
     Gate_refused n \<Rightarrow> Inl n
   | Gate_pass \<Rightarrow> (let ss = map (operator_activity w now todayStart weekStart pending locks) (listOperators E (Some Op_active) None w)
       in Inr (ss, oa_getRecent 20 w, high_denial_alerts ss)))"

text \<open>The audit log; the times are the parsed parameters.\<close>

definition get_audit where
  "get_audit opr operatorId act department from_at to_at limitText w = (case requireTier Root opr of
     Gate_refused n \<Rightarrow> Inl n
   | Gate_pass \<Rightarrow> (case (case some_text limitText of None \<Rightarrow> Some 100 | Some t \<Rightarrow> map_option (\<lambda>k. min k 500) (js_parseInt t)) of
       None \<Rightarrow> Inl 500
     | Some k \<Rightarrow> Inr (oa_queryFiltered operatorId act department from_at to_at k w)))"

definition get_health where
  "get_health E w = (countByStatus E Op_active w, countByStatus E Op_invited w)"

end
