(* ===== verification/OperatorEvents_Correct.thy ===== *)
theory OperatorEvents_Correct
  imports OperatorEvents OperatorTasks_Correct
begin

text \<open>
  The ids of a process whose clock does not step back sort like the emissions, so a reader who follows the cursor receives
  every visible event exactly once and in order, as long as the insertions arrive in the order of the emissions.  The
  evaluated sections show what happens without that, and with a limit that is 0 or negative.
\<close>

section \<open>The order of padded numbers\<close>

lemma lex_append: "length xs = length ys \<Longrightarrow> xs @ us < ys @ vs \<longleftrightarrow> xs < ys \<or> xs = ys \<and> us < (vs :: string)"
  by (induction xs ys rule: list_induct2) auto

lemma digit_char_less: "d < e \<Longrightarrow> e < 10 \<Longrightarrow> digit_char d < digit_char e"
  by (simp add: less_char_def of_char_digit_char)

fun digits :: "nat \<Rightarrow> nat \<Rightarrow> string" where
  "digits 0 n = []"
| "digits (Suc w) n = digits w (n div 10) @ [digit_char (n mod 10)]"

lemma length_digits [simp]: "length (digits w n) = w"
  by (induction w arbitrary: n) auto

lemma digits_zero: "digits w 0 = replicate w (CHR ''0'')"
proof (induction w)
  case (Suc w)
  have "digit_char 0 = CHR ''0''" by code_simp
  with Suc show ?case by (simp add: replicate_append_same)
qed simp

lemma padded_digits: "n < 10 ^ Suc w \<Longrightarrow> padStart (Suc w) (CHR ''0'') (dec_nat n) = digits (Suc w) n"
proof (induction w arbitrary: n)
  case 0
  then show ?case by (subst dec_nat.simps) (simp add: padStart_def)
next
  case (Suc w)
  show ?case
  proof (cases "n < 10")
    case True
    then show ?thesis by (subst dec_nat.simps) (simp add: padStart_def digits_zero replicate_append_same)
  next
    case False
    with Suc.prems have "padStart (Suc w) (CHR ''0'') (dec_nat (n div 10)) = digits (Suc w) (n div 10)" by (intro Suc.IH) auto
    with False show ?thesis by (subst dec_nat.simps) (auto simp: padStart_def)
  qed
qed

lemma digits_less: "a < b \<Longrightarrow> b < 10 ^ w \<Longrightarrow> digits w a < digits w b"
proof (induction w arbitrary: a b)
  case (Suc w)
  have lt: "digits w (a div 10) < digits w (b div 10)" if "a div 10 < b div 10"
    using Suc.prems(2) that by (intro Suc.IH) auto
  show ?case
  proof (cases "a div 10 = b div 10")
    case True
    with Suc.prems(1) have "a mod 10 < b mod 10" by (metis div_mult_mod_eq nat_add_left_cancel_less)
    with True show ?thesis by (simp add: lex_append digit_char_less)
  next
    case False
    with Suc.prems(1) have "a div 10 < b div 10" by (simp add: div_le_mono le_neq_implies_less less_imp_le)
    from lt [OF this] show ?thesis by (simp add: lex_append)
  qed
qed simp

lemma id_text_less:
  assumes "0 \<le> t" "t \<le> u" "u < 10 ^ 15" "t = u \<longrightarrow> m < n" "n < 10 ^ 6"
  shows "id_text t m < id_text u n"
proof -
  have time: "padStart 15 (CHR ''0'') (dec_int k) = digits 15 (nat k)" if "0 \<le> k" "k < 10 ^ 15" for k
    using padded_digits [of "nat k" 14] that by (auto simp: dec_int_def nat_less_iff)
  have num: "padStart 6 (CHR ''0'') (dec_nat k) = digits 6 k" if "k < 10 ^ 6" for k using padded_digits [of k 5] that by simp
  have len: "length (digits 15 a) = length (digits 15 b)" for a b by simp
  show ?thesis
  proof (cases "t = u")
    case True
    with assms have "digits 6 m < digits 6 n" by (intro digits_less) auto
    with True assms num show ?thesis by (simp add: id_text_def lex_append [OF refl])
  next
    case False
    with assms have "digits 15 (nat t) < digits 15 (nat u)" by (intro digits_less) auto
    then have "digits 15 (nat t) @ ''_'' @ padStart 6 (CHR ''0'') (dec_nat m) < digits 15 (nat u) @ ''_'' @ padStart 6 (CHR ''0'') (dec_nat n)"
      by (simp only: lex_append [OF len]) simp
    with assms time [of t] time [of u] show ?thesis by (simp add: id_text_def)
  qed
qed

section \<open>A reader who follows the cursor\<close>

datatype ev_call =
    Ev_emit int task_event string json
  | Ev_land nat
  | Ev_lose nat
  | Ev_read

text \<open>The system with its histories: what has landed, in the order of the landings, and what the reader received.\<close>

record 'c reading =
  rd_world :: "'c event_world"
  rd_landed :: "operator_event list"
  rd_cursor :: "string option"
  rd_received :: "operator_event list"

definition ev_read ::
  "'c event_log \<Rightarrow> full_operator option \<Rightarrow> string option \<Rightarrow> string option \<Rightarrow> string option \<Rightarrow> 'c reading \<Rightarrow> 'c reading" where
  "ev_read L opr department ty limitText s =
     (case get_events L opr (rd_cursor s) department ty limitText (rd_world s) of
        Inl refused \<Rightarrow> s
      | Inr (es, c) \<Rightarrow> s\<lparr>rd_cursor := c, rd_received := rd_received s @ es\<rparr>)"

fun ev_step ::
  "'c event_log \<Rightarrow> full_operator option \<Rightarrow> string option \<Rightarrow> string option \<Rightarrow> string option \<Rightarrow> ev_call \<Rightarrow> 'c reading \<Rightarrow> 'c reading" where
  "ev_step L opr department ty limitText (Ev_emit now e summary details) s = s\<lparr>rd_world := es_emit now e summary details (rd_world s)\<rparr>"
| "ev_step L opr department ty limitText (Ev_land k) s = s\<lparr>rd_world := es_land L k (rd_world s),
     rd_landed := rd_landed s @ take 1 (drop k (ew_pending (rd_world s)))\<rparr>"
| "ev_step L opr department ty limitText (Ev_lose k) s = s\<lparr>rd_world := es_lose k (rd_world s)\<rparr>"
| "ev_step L opr department ty limitText Ev_read s = ev_read L opr department ty limitText s"

definition ev_run ::
  "'c event_log \<Rightarrow> full_operator option \<Rightarrow> string option \<Rightarrow> string option \<Rightarrow> string option \<Rightarrow> ev_call list \<Rightarrow> 'c reading \<Rightarrow> 'c reading" where
  "ev_run L opr department ty limitText cs s = fold (ev_step L opr department ty limitText) cs s"

definition ev_start :: "'c \<Rightarrow> 'c reading" where
  "ev_start c = \<lparr>rd_world = \<lparr>ew_clock = \<lparr>ic_sequence = 0, ic_last = 0\<rparr>, ew_pending = [], ew_log = c\<rparr>, rd_landed = [], rd_cursor = None,
     rd_received = []\<rparr>"

fun emission_times :: "ev_call list \<Rightarrow> int list" where
  "emission_times [] = []"
| "emission_times (Ev_emit now e summary details # cs) = now # emission_times cs"
| "emission_times (_ # cs) = emission_times cs"

text \<open>The clock does not step back, and the insertions arrive in the order of the emissions.\<close>

definition orderly :: "ev_call list \<Rightarrow> bool" where
  "orderly cs \<longleftrightarrow> sorted (emission_times cs) \<and> list_all (\<lambda>t. 0 \<le> t \<and> t < 10 ^ 15) (emission_times cs)
     \<and> length (emission_times cs) < 10 ^ 6 \<and> list_all (\<lambda>c. case c of Ev_land k \<Rightarrow> k = 0 | _ \<Rightarrow> True) cs"

abbreviation increasing :: "operator_event list \<Rightarrow> bool" where
  "increasing \<equiv> sorted_wrt (\<lambda>x y. oev_id x < oev_id y)"

lemma increasing_keys: "increasing es \<longleftrightarrow> sorted (map oev_id es) \<and> distinct (map oev_id es)"
  unfolding strict_sorted_iff [symmetric] by (simp only: sorted_wrt_map)

lemma increasing_inj: "increasing es \<Longrightarrow> inj_on oev_id (set es)"
  by (simp only: increasing_keys distinct_map)

lemma increasing_append: "increasing (xs @ ys) \<longleftrightarrow> increasing xs \<and> increasing ys \<and> (\<forall>x \<in> set xs. \<forall>y \<in> set ys. oev_id x < oev_id y)"
  by (rule sorted_wrt_append)

lemma drop_nth_subset: "set (drop_nth k es) \<subseteq> set es"
  by (simp add: drop_nth_def set_take_subset set_drop_subset)

lemma increasing_drop:
  assumes "increasing es"
  shows "increasing (drop_nth k es)"
proof -
  have inc: "increasing (take k es @ drop k es)" using assms by simp
  have "set (drop (Suc k) es) \<subseteq> set (drop k es)" by (rule set_drop_subset_set_drop) simp
  with inc have "\<forall>x \<in> set (take k es). \<forall>y \<in> set (drop (Suc k) es). oev_id x < oev_id y" unfolding increasing_append by blast
  moreover have "increasing (drop (Suc k) es)" using assms by (rule sorted_wrt_drop)
  ultimately show ?thesis using inc by (simp only: drop_nth_def increasing_append)
qed

lemma increasing_last: "increasing es \<Longrightarrow> e \<in> set es \<Longrightarrow> oev_id e \<le> oev_id (last es)"
proof (induction es)
  case (Cons x es)
  then show ?case by (cases "es = []") (auto simp: less_imp_le)
qed simp

lemma take_increasing:
  assumes "increasing es" "take n es \<noteq> []"
  shows "filter (\<lambda>e. oev_id e \<le> oev_id (last (take n es))) es = take n es"
proof -
  have inc: "increasing (take n es @ drop n es)" using assms(1) by simp
  have l: "last (take n es) \<in> set (take n es)" using assms(2) by (rule last_in_set)
  have 1: "oev_id e \<le> oev_id (last (take n es))" if "e \<in> set (take n es)" for e
    using increasing_last [OF _ that] inc unfolding increasing_append by blast
  have 2: "\<not> oev_id e \<le> oev_id (last (take n es))" if "e \<in> set (drop n es)" for e
    using inc l that unfolding increasing_append by (meson leD)
  have t: "filter (\<lambda>e. oev_id e \<le> oev_id (last (take n es))) (take n es) = take n es" using 1 by (intro filter_True) blast
  have d: "filter (\<lambda>e. oev_id e \<le> oev_id (last (take n es))) (drop n es) = []" using 2 by (intro filter_False) blast
  have "filter (\<lambda>e. oev_id e \<le> oev_id (last (take n es))) (take n es @ drop n es) = take n es"
    unfolding filter_append t d by simp
  then show ?thesis by simp
qed

locale event_collection =
  fixes L :: "'c event_log"
  assumes found: "mset (el_find L p c) = filter_mset p (el_docs L c)"
    and inserted: "el_docs L (el_insert L e c) = add_mset e (el_docs L c)"
begin

text \<open>A page is a piece of what landed, when that is in the order of its ids.\<close>

lemma query_page:
  assumes "el_docs L c = mset es" "increasing es"
  shows "es_query L since ds ty n c = mongo_limit n (filter (\<lambda>e. (case some_text since of None \<Rightarrow> True | Some c \<Rightarrow> c < oev_id e)
     \<and> es_matches ds ty e) es)"
proof -
  let ?P = "\<lambda>e. (case some_text since of None \<Rightarrow> True | Some c \<Rightarrow> c < oev_id e) \<and> es_matches ds ty e"
  have m: "mset (el_find L ?P c) = mset (filter ?P es)" by (simp add: found assms(1) mset_filter)
  have "sort_key oev_id (el_find L ?P c) = filter ?P es"
  proof (rule sort_key_inj_key_eq [OF m])
    have "set (el_find L ?P c) = set (filter ?P es)" using m by (rule mset_eq_setD)
    then have "set (el_find L ?P c) \<subseteq> set es" by (simp only: filter_is_subset)
    with increasing_inj [OF assms(2)] show "inj_on oev_id (set (el_find L ?P c))" by (rule inj_on_subset)
    show "sorted (map oev_id (filter ?P es))" using sorted_wrt_filter [OF assms(2)] by (simp only: increasing_keys)
  qed
  then show ?thesis by (simp add: es_query_def)
qed

definition ev_ok :: "string list \<Rightarrow> string option \<Rightarrow> 'c reading \<Rightarrow> bool" where
  "ev_ok ds ty s \<longleftrightarrow> (let w = rd_world s; es = rd_landed s @ ew_pending w in
     increasing es \<and> el_docs L (ew_log w) = mset (rd_landed s)
     \<and> (\<forall>e \<in> set es. oev_id e \<noteq> [] \<and> oev_id e \<le> id_text (ic_last (ew_clock w)) (ic_sequence (ew_clock w)))
     \<and> (case rd_cursor s of None \<Rightarrow> rd_received s = []
        | Some c \<Rightarrow> rd_received s = filter (\<lambda>e. es_matches ds ty e \<and> oev_id e \<le> c) (rd_landed s) \<and> c \<in> oev_id ` set (rd_landed s)))"

lemma start_ok: "el_docs L c = {#} \<Longrightarrow> ev_ok ds ty (ev_start c)"
  by (simp add: ev_ok_def ev_start_def)

lemma id_nonempty [simp]: "id_text t n \<noteq> []"
  by (simp add: id_text_def)

lemma emit_ok:
  assumes "ev_ok ds ty s" "0 \<le> ic_last (ew_clock (rd_world s))" "ic_last (ew_clock (rd_world s)) \<le> now" "now < 10 ^ 15"
    and "ic_sequence (ew_clock (rd_world s)) + 1 < 10 ^ 6"
  shows "ev_ok ds ty (s\<lparr>rd_world := es_emit now e summary details (rd_world s)\<rparr>)"
    and "ic_last (ew_clock (es_emit now e summary details (rd_world s))) = now"
    and "ic_sequence (ew_clock (es_emit now e summary details (rd_world s))) \<le> ic_sequence (ew_clock (rd_world s)) + 1"
proof -
  let ?w = "rd_world s"
  let ?w1 = "es_emit now e summary details ?w"
  let ?c = "ew_clock ?w" and ?c1 = "ew_clock ?w1"
  obtain ev where w1: "ew_pending ?w1 = ew_pending ?w @ [ev]" "ew_log ?w1 = ew_log ?w" "oev_id ev = id_text now (ic_sequence ?c1)"
      "ic_last ?c1 = now" "now = ic_last ?c \<longrightarrow> ic_sequence ?c < ic_sequence ?c1" "ic_sequence ?c1 \<le> ic_sequence ?c + 1"
    by (cases "now = ic_last ?c") (auto simp: es_emit_def generateMonotonicId_def Let_def)
  show "ic_last ?c1 = now" "ic_sequence ?c1 \<le> ic_sequence ?c + 1" using w1 by simp_all
  have new: "id_text (ic_last ?c) (ic_sequence ?c) < oev_id ev"
    unfolding w1(3) using assms(2-5) w1(5,6) by (intro id_text_less) auto
  have "oev_id x < oev_id ev" if "x \<in> set (rd_landed s @ ew_pending ?w)" for x
    using assms(1) that new unfolding ev_ok_def Let_def by (meson le_less_trans)
  with assms(1) w1 new show "ev_ok ds ty (s\<lparr>rd_world := ?w1\<rparr>)"
    by (auto simp: ev_ok_def Let_def increasing_append less_imp_le split: option.splits)
qed

lemma land_ok:
  assumes "ev_ok ds ty s"
  shows "ev_ok ds ty (ev_step L opr department ty limitText (Ev_land 0) s)"
proof (cases "ew_pending (rd_world s)")
  case (Cons e rest)
  have late: "\<not> oev_id e \<le> oev_id x" if "x \<in> set (rd_landed s)" for x
    using assms that Cons by (auto simp: ev_ok_def Let_def increasing_append)
  from Cons have w: "es_land L 0 (rd_world s) = (rd_world s)\<lparr>ew_pending := rest, ew_log := el_insert L e (ew_log (rd_world s))\<rparr>"
    by (simp add: es_land_def drop_nth_def)
  from assms Cons late show ?thesis
    by (auto simp: ev_ok_def Let_def w inserted filter_empty_conv split: option.splits)
qed (use assms in \<open>simp add: es_land_def\<close>)

lemma lose_ok:
  assumes "ev_ok ds ty s"
  shows "ev_ok ds ty (ev_step L opr department ty limitText (Ev_lose k) s)"
  using assms increasing_drop [of "ew_pending (rd_world s)" k] drop_nth_subset [of k "ew_pending (rd_world s)"]
  by (auto simp: ev_ok_def Let_def es_lose_def increasing_append split: option.splits)

text \<open>A read takes the next piece of what is visible.\<close>

definition unread :: "string list \<Rightarrow> string option \<Rightarrow> 'c reading \<Rightarrow> operator_event list" where
  "unread ds ty s = filter (\<lambda>e. es_matches ds ty e \<and> (case rd_cursor s of None \<Rightarrow> True | Some c \<Rightarrow> c < oev_id e)) (rd_landed s)"

lemma split_at:
  assumes "increasing es"
  shows "filter P es = filter (\<lambda>e. P e \<and> oev_id e \<le> c) es @ filter (\<lambda>e. P e \<and> c < oev_id e) es"
  using assms
proof (induction es)
  case (Cons x es)
  have "filter (\<lambda>e. P e \<and> oev_id e \<le> c) es = []" if "c < oev_id x" using Cons.prems that by (auto simp: filter_empty_conv)
  with Cons show ?case by auto
qed simp

lemma received_unread:
  assumes "ev_ok ds ty s"
  shows "filter (es_matches ds ty) (rd_landed s) = rd_received s @ unread ds ty s"
proof (cases "rd_cursor s")
  case None
  with assms show ?thesis by (simp add: ev_ok_def Let_def unread_def)
next
  case (Some c)
  with assms split_at [of "rd_landed s" "es_matches ds ty" c] show ?thesis
    by (simp add: ev_ok_def Let_def unread_def increasing_append)
qed

lemma read_page:
  assumes "ev_ok ds ty s" "event_params opr department limitText = Inr (ds, n)"
  shows "ev_read L opr department ty limitText s = (let es = mongo_limit n (unread ds ty s)
     in s\<lparr>rd_cursor := (if es = [] then rd_cursor s else Some (oev_id (last es))), rd_received := rd_received s @ es\<rparr>)"
proof -
  have c: "some_text (rd_cursor s) = rd_cursor s" using assms(1) by (auto simp: ev_ok_def Let_def some_text_def split: option.splits)
  have "es_query L (rd_cursor s) ds ty n (ew_log (rd_world s)) = mongo_limit n (unread ds ty s)"
    using assms(1) by (subst query_page [where es = "rd_landed s"]) (auto simp: ev_ok_def Let_def increasing_append c unread_def conj_commute)
  with assms(2) show ?thesis by (simp add: ev_read_def get_events_def Let_def)
qed

lemma read_ok:
  assumes "ev_ok ds ty s" "event_params opr department limitText = Inr (ds, n)"
  shows "ev_ok ds ty (ev_read L opr department ty limitText s)"
proof (cases "mongo_limit n (unread ds ty s) = []")
  case True
  with assms read_page [OF assms] show ?thesis by (simp add: ev_ok_def Let_def)
next
  case False
  let ?vs = "filter (es_matches ds ty) (rd_landed s)"
  obtain k where k: "mongo_limit n (unread ds ty s) = take k (unread ds ty s)"
    by (metis mongo_limit_def order.refl take_all)
  let ?m = "length (rd_received s) + k"
  have t: "rd_received s @ take k (unread ds ty s) = take ?m ?vs" by (simp add: received_unread [OF assms(1)])
  have "increasing (rd_landed s)" using assms(1) by (simp add: ev_ok_def Let_def increasing_append)
  then have "increasing ?vs" by (rule sorted_wrt_filter)
  moreover have ne: "take ?m ?vs \<noteq> []" using False k by (simp flip: t)
  ultimately have "filter (\<lambda>e. oev_id e \<le> oev_id (last (take ?m ?vs))) ?vs = take ?m ?vs" by (rule take_increasing)
  moreover have l: "last (take ?m ?vs) = last (take k (unread ds ty s))" using False k by (simp flip: t)
  moreover have "last (take ?m ?vs) \<in> set (rd_landed s)" using last_in_set [OF ne] by (auto dest: in_set_takeD)
  ultimately show ?thesis
    using assms(1) read_page [OF assms] False k t by (auto simp: ev_ok_def Let_def conj_commute)
qed

lemma run_ok:
  assumes "ev_ok ds ty s" "event_params opr department limitText = Inr (ds, n)" "0 \<le> ic_last (ew_clock (rd_world s))"
    and "sorted (ic_last (ew_clock (rd_world s)) # emission_times cs)" "list_all (\<lambda>t. 0 \<le> t \<and> t < 10 ^ 15) (emission_times cs)"
    and "ic_sequence (ew_clock (rd_world s)) + length (emission_times cs) < 10 ^ 6"
    and "list_all (\<lambda>c. case c of Ev_land k \<Rightarrow> k = 0 | _ \<Rightarrow> True) cs"
  shows "ev_ok ds ty (ev_run L opr department ty limitText cs s)"
  using assms
proof (induction cs arbitrary: s)
  case Nil
  then show ?case by (simp add: ev_run_def)
next
  case (Cons c cs)
  let ?s1 = "ev_step L opr department ty limitText c s"
  have "ev_ok ds ty (ev_run L opr department ty limitText cs ?s1)"
  proof (cases c)
    case (Ev_emit now e summary details)
    have "ev_ok ds ty ?s1" "ic_last (ew_clock (rd_world ?s1)) = now"
      "ic_sequence (ew_clock (rd_world ?s1)) \<le> ic_sequence (ew_clock (rd_world s)) + 1"
      using emit_ok [OF Cons.prems(1,3), of now e summary details] Cons.prems Ev_emit by auto
    with Cons.prems Ev_emit show ?thesis by (intro Cons.IH) auto
  next
    case (Ev_land k)
    with Cons.prems land_ok [of ds ty s] show ?thesis by (intro Cons.IH) (auto simp: es_land_def)
  next
    case (Ev_lose k)
    with Cons.prems lose_ok [of ds ty s] show ?thesis by (intro Cons.IH) (auto simp: es_lose_def)
  next
    case Ev_read
    with Cons.prems read_ok [of ds ty s] show ?thesis
      by (intro Cons.IH) (auto simp: read_page Let_def)
  qed
  then show ?case by (simp add: ev_run_def)
qed

end

section \<open>A reference collection\<close>

definition list_log :: "operator_event list event_log" where
  "list_log = \<lparr>el_find = filter, el_insert = (\<lambda>e es. es @ [e])\<rparr>"

interpretation list_events: event_collection list_log
  by unfold_locales (simp_all add: list_log_def el_docs_def)

section \<open>Properties\<close>

text \<open>
  C20: a reader who follows the cursor misses nothing and sees nothing twice: while the clock of the process does not step back and insertions
  arrive in the order of the emissions (some may be lost), whatever emissions, insertions and reads alternate, what was received is the beginning of what is visible of the
  events that landed, and the next read adds the rest, up to the limit.
\<close>
theorem cursor_misses_nothing:
  assumes "event_collection L" "el_docs L c = {#}" "event_params opr department limitText = Inr (ds, n)" "orderly cs"
    and "s = ev_run L opr department ty limitText cs (ev_start c)"
  shows "\<exists>rest. filter (es_matches ds ty) (rd_landed s) = rd_received s @ rest
     \<and> rd_received (ev_step L opr department ty limitText Ev_read s) = rd_received s @ mongo_limit n rest"
proof -
  have ok: "event_collection.ev_ok L ds ty s"
    unfolding assms(5) using assms(4)
    by (intro event_collection.run_ok [OF assms(1) event_collection.start_ok [OF assms(1,2)] assms(3)])
      (auto simp: orderly_def ev_start_def list_all_iff)
  from event_collection.received_unread [OF assms(1) ok] event_collection.read_page [OF assms(1) ok assms(3)] show ?thesis
    by (auto simp: Let_def)
qed

definition sample_event :: "string \<Rightarrow> task_event" where
  "sample_event i = \<lparr>te_type = ''task.created'', te_departmentId = ''finance'', te_agentId = None, te_operatorId = ''ann'', te_taskId = i\<rparr>"

definition sample_emit :: "int \<Rightarrow> string \<Rightarrow> ev_call" where
  "sample_emit now i = Ev_emit now (sample_event i) '''' JNull"

definition ann_reads :: "string option \<Rightarrow> ev_call list \<Rightarrow> operator_event list reading" where
  "ann_reads limitText cs = ev_run list_log (Some (sample_operator ''ann'' Contributor [''finance''] 50)) None None limitText cs (ev_start [])"

definition seen :: "operator_event list reading \<Rightarrow> string list" where
  "seen s = map (\<lambda>e. te_taskId (oev_body e)) (rd_received s)"

theorem cursor_misses_nothing_witness:
  "let s = ann_reads (Some ''1'') [sample_emit 7 ''a'', sample_emit 7 ''b'', Ev_land 0, Ev_read, sample_emit 8 ''c'', Ev_land 0, Ev_land 0]
   in \<exists>rest. filter (es_matches [''finance''] None) (rd_landed s) = rd_received s @ rest
     \<and> rd_received (ev_step list_log (Some (sample_operator ''ann'' Contributor [''finance''] 50)) None None (Some ''1'') Ev_read s)
       = rd_received s @ mongo_limit 1 rest"
proof -
  have p: "event_params (Some (sample_operator ''ann'' Contributor [''finance''] 50)) None (Some ''1'') = Inr ([''finance''], 1)" by code_simp
  have o: "orderly [sample_emit 7 ''a'', sample_emit 7 ''b'', Ev_land 0, Ev_read, sample_emit 8 ''c'', Ev_land 0, Ev_land 0]"
    by (simp add: orderly_def sample_emit_def)
  have e: "el_docs list_log [] = {#}" by (simp add: el_docs_def list_log_def)
  from cursor_misses_nothing [OF list_events.event_collection_axioms e p o refl, of None] show ?thesis by (simp add: ann_reads_def Let_def)
qed

section \<open>What the order is needed for\<close>

text \<open>An insertion that arrives late, and one after the clock stepped back, are never read.\<close>

lemma late_insertion_is_missed:
  "seen (ann_reads None [sample_emit 7 ''a'', sample_emit 7 ''b'', Ev_land 1, Ev_read, Ev_land 0, Ev_read, Ev_read]) = [''b'']"
  by code_simp

lemma clock_back_hides_event:
  "seen (ann_reads None [sample_emit 7 ''a'', Ev_land 0, Ev_read, sample_emit 6 ''b'', Ev_land 0, Ev_read, Ev_read]) = [''a'']"
  by code_simp

text \<open>A limit of 0 is none, and one of -150 passes the cap of 100.\<close>

lemma limit_cap_passed:
  "event_params (Some (sample_operator ''ann'' Contributor [''finance''] 50)) None (Some ''-150'') = Inr ([''finance''], -150)"
  "length (mongo_limit (-150) (replicate 200 ())) = 150" "length (mongo_limit 0 (replicate 200 ())) = 200"
  by code_simp+

text \<open>The counts of the activity page stop at 100, which is the daily quota of tasks.\<close>

lemma weekly_count_saturates: "as_tasksThisWeek (operator_activity w now todayStart weekStart pending locks u) \<le> 100"
  by (simp add: operator_activity_def oa_queryFiltered_def mongo_limit_def Let_def)

text \<open>A filter on the department finds no audit record.\<close>

lemma department_filter_finds_nothing:
  assumes "d \<noteq> ''''" "get_audit opr operatorId act (Some d) from_at to_at limitText w = Inr es"
  shows "es = []"
  using assms by (auto simp: get_audit_def oa_queryFiltered_def mongo_limit_def split: gate_verdict.splits option.splits if_splits)

end
