(* ===== verification/BatchCollector.thy ===== *)
theory BatchCollector
  imports Routing
begin

text \<open>
  Batches of events (\<open>triggers/batch-collector.ts\<close>) and the overlay of settings (\<open>config/settings-overlay.ts\<close>) that can
  switch an event off for an agent.

  A pending batch is an object that its map and its timer share, so batches have addresses; the map may forget one whose timer still
  runs.  The handling of an event awaits the overlay and the execution, so the turns of an event at the batches it
  matches are separate steps, and other events and timers come between them.  An execution is what is handed to the agent executor; whether it fails makes no
  difference here.  The day of a time is an argument.
\<close>

section \<open>The overlay\<close>

record agent_overrides =
  ao_model :: "string option"
  ao_cronEnabled :: "(string \<times> bool) list"
  ao_eventEnabled :: "(string \<times> bool) list"

record department_overrides =
  do_directive :: "string option"
  do_agents :: "(string \<times> agent_overrides) list"

definition OVERLAY_CACHE_TTL_MS :: int where "OVERLAY_CACHE_TTL_MS = 5 * 60 * 1000"

type_synonym overlay_cache = "(string, department_overrides \<times> int) jsmap"

text \<open>The database: no document, a document, or (\<open>None\<close> outside) a failure.\<close>

definition getDepartmentOverrides ::
  "(string \<Rightarrow> department_overrides option option) option \<Rightarrow> int \<Rightarrow> string \<Rightarrow> overlay_cache \<Rightarrow> department_overrides option \<times> overlay_cache" where
  "getDepartmentOverrides db now department cache = (case db of
     None \<Rightarrow> (None, cache)
   | Some load \<Rightarrow>
       (case mget cache department of
          Some (data, loadedAt) \<Rightarrow>
            (if now - loadedAt < OVERLAY_CACHE_TTL_MS then (Some data, cache)
             else (case load department of
                 Some (Some doc) \<Rightarrow> (Some doc, mset_at department (doc, now) cache)
               | _ \<Rightarrow> (None, cache)))
        | None \<Rightarrow> (case load department of
              Some (Some doc) \<Rightarrow> (Some doc, mset_at department (doc, now) cache)
            | _ \<Rightarrow> (None, cache))))"

text \<open>The directive and the overrides of an agent; an agent without any has undefined fields.\<close>

definition getAgentOverrides ::
  "(string \<Rightarrow> department_overrides option option) option \<Rightarrow> int \<Rightarrow> string \<Rightarrow> string \<Rightarrow> overlay_cache
     \<Rightarrow> (string option \<times> agent_overrides option) option \<times> overlay_cache" where
  "getAgentOverrides db now department agentName cache =
     (let (d, cache1) = getDepartmentOverrides db now department cache
      in (map_option (\<lambda>o'. (do_directive o', map_of (do_agents o') agentName)) d, cache1))"

definition event_disabled :: "(string option \<times> agent_overrides option) option \<Rightarrow> string \<Rightarrow> bool" where
  "event_disabled overrides eventKey = (case overrides of
     Some (d, Some a) \<Rightarrow> map_of (ao_eventEnabled a) eventKey = Some False | _ \<Rightarrow> False)"

section \<open>State\<close>

record batch_config =
  bt_agent :: agent_config
  bt_task :: string
  bt_events :: "string list"
  bt_minCount :: int
  bt_timeoutMs :: int
  bt_model :: "model_config option"

record batch_event =
  be_source :: string
  be_type :: string
  be_payload :: json
  be_timestamp :: string

record pending_batch =
  pb_config :: batch_config
  pb_collected :: "batch_event list"
  pb_timer :: "nat option"
  pb_dateKey :: string

record batch_timer =
  tm_id :: nat
  tm_batch :: nat
  tm_due :: int

record batch_run =
  br_batch :: nat
  br_agent :: string
  br_task :: string
  br_events :: "batch_event list"
  br_payload :: json
  br_model :: "model_config option"

datatype batch_outcome = Fired batch_run | Dropped nat "batch_event list"

text \<open>Besides the state, the history of what was executed and what was dropped, for the properties to speak of.\<close>

record collector =
  bc_batches :: "(string, nat) jsmap"
  bc_heap :: "pending_batch list"
  bc_timers :: "batch_timer list"
  bc_nextTimer :: nat
  bc_history :: "batch_outcome list"

definition new_collector :: collector where
  "new_collector = \<lparr>bc_batches = [], bc_heap = [], bc_timers = [], bc_nextTimer = 0, bc_history = []\<rparr>"

definition batch_at :: "nat \<Rightarrow> collector \<Rightarrow> pending_batch" where
  "batch_at a c = bc_heap c ! a"

definition put_batch :: "nat \<Rightarrow> pending_batch \<Rightarrow> collector \<Rightarrow> collector" where
  "put_batch a b c = c\<lparr>bc_heap := (bc_heap c)[a := b]\<rparr>"

section \<open>Operations\<close>

definition register_batch :: "(int \<Rightarrow> string) \<Rightarrow> int \<Rightarrow> batch_config \<Rightarrow> collector \<Rightarrow> string list \<times> collector" where
  "register_batch day now config c =
     (bt_events config, c\<lparr>bc_batches := mset_at (ag_name (bt_agent config) @ '':'' @ bt_task config) (length (bc_heap c)) (bc_batches c),
        bc_heap := bc_heap c @ [\<lparr>pb_config = config, pb_collected = [], pb_timer = None, pb_dateKey = day now\<rparr>]\<rparr>)"

definition matchesPattern :: "string \<Rightarrow> string \<Rightarrow> bool" where
  "matchesPattern eventKey pattern =
     (if pattern = ''*'' \<or> pattern = ''*:*'' then True
      else (let ps = split_char (CHR '':'') pattern; es = split_char (CHR '':'') eventKey;
                sourceMatch = (part 0 ps = Some ''*'' \<or> part 0 ps = part 0 es);
                typeMatch = (part 1 ps = None \<or> part 1 ps = Some '''' \<or> part 1 ps = Some ''*'' \<or> part 1 ps = part 1 es)
            in sourceMatch \<and> typeMatch))"

definition collector_key :: "batch_event \<Rightarrow> string" where
  "collector_key e = be_source e @ '':'' @ be_type e"

definition collects :: "batch_event \<Rightarrow> pending_batch \<Rightarrow> bool" where
  "collects e b = list_ex (matchesPattern (collector_key e)) (bt_events (pb_config b))"

definition clear_timer :: "nat option \<Rightarrow> collector \<Rightarrow> collector" where
  "clear_timer i c = (case i of None \<Rightarrow> c | Some k \<Rightarrow> c\<lparr>bc_timers := filter (\<lambda>t. tm_id t \<noteq> k) (bc_timers c)\<rparr>)"

definition resetBatch :: "nat \<Rightarrow> collector \<Rightarrow> collector" where
  "resetBatch a c =
     (let b = batch_at a c
      in put_batch a (b\<lparr>pb_timer := None, pb_collected := []\<rparr>)
           ((clear_timer (pb_timer b) c)\<lparr>bc_history := bc_history c @ (if pb_collected b = [] then [] else [Dropped a (pb_collected b)])\<rparr>))"

text \<open>The values of a list in the order of their first occurrence (\<open>new Set\<close>).\<close>

definition distinct_values :: "'a list \<Rightarrow> 'a list" where
  "distinct_values xs = rev (remdups (rev xs))"

definition batch_payload :: "string \<Rightarrow> batch_event list \<Rightarrow> json" where
  "batch_payload date es = JObj [(''batch'', JBool True), (''event_count'', JNum (int (length es))),
     (''events'', JArr (map (\<lambda>e. JObj [(''source'', JStr (be_source e)), (''type'', JStr (be_type e)), (''payload'', be_payload e),
        (''timestamp'', JStr (be_timestamp e))]) es)),
     (''collected_from'', JArr (map JStr (distinct_values (map be_source es)))), (''date'', JStr date)]"

definition fireBatch :: "(int \<Rightarrow> string) \<Rightarrow> int \<Rightarrow> nat \<Rightarrow> collector \<Rightarrow> collector" where
  "fireBatch day now a c =
     (let b = batch_at a c; es = pb_collected b;
          c1 = put_batch a (b\<lparr>pb_timer := None, pb_collected := []\<rparr>) (clear_timer (pb_timer b) c)
      in if es = [] then c1
         else c1\<lparr>bc_history := bc_history c1 @ [Fired \<lparr>br_batch = a, br_agent = ag_name (bt_agent (pb_config b)),
                br_task = bt_task (pb_config b), br_events = es, br_payload = batch_payload (day now) es, br_model = bt_model (pb_config b)\<rparr>]\<rparr>)"

definition start_timer :: "int \<Rightarrow> nat \<Rightarrow> collector \<Rightarrow> collector" where
  "start_timer now a c =
     (let b = batch_at a c
      in if length (pb_collected b) = 1 \<and> pb_timer b = None
         then put_batch a (b\<lparr>pb_timer := Some (bc_nextTimer c)\<rparr>)
           (c\<lparr>bc_timers := bc_timers c @ [\<lparr>tm_id = bc_nextTimer c, tm_batch = a, tm_due = now + bt_timeoutMs (pb_config b)\<rparr>],
               bc_nextTimer := bc_nextTimer c + 1\<rparr>)
         else c)"

definition day_change :: "(int \<Rightarrow> string) \<Rightarrow> int \<Rightarrow> nat \<Rightarrow> collector \<Rightarrow> collector" where
  "day_change day now a c =
     (if pb_dateKey (batch_at a c) \<noteq> day now
      then (let c1 = resetBatch a c in put_batch a ((batch_at a c1)\<lparr>pb_dateKey := day now\<rparr>) c1) else c)"

definition add_event :: "nat \<Rightarrow> batch_event \<Rightarrow> collector \<Rightarrow> collector" where
  "add_event a e c = put_batch a ((batch_at a c)\<lparr>pb_collected := pb_collected (batch_at a c) @ [e]\<rparr>) c"

text \<open>An event's turn at a batch it matches, after the look at the overlay.\<close>

definition offer_event :: "(int \<Rightarrow> string) \<Rightarrow> int \<Rightarrow> nat \<Rightarrow> batch_event \<Rightarrow> collector \<Rightarrow> collector" where
  "offer_event day now a e c =
     (let c1 = start_timer now a (add_event a e (day_change day now a c)); b = batch_at a c1
      in if int (length (pb_collected b)) \<ge> bt_minCount (pb_config b) then fireBatch day now a c1 else c1)"

text \<open>The whole of \<open>onEvent\<close>, when nothing comes between its turns; what the overlay answers for a batch is an argument.\<close>

definition onBatchEvent :: "(int \<Rightarrow> string) \<Rightarrow> int \<Rightarrow> (agent_config \<Rightarrow> string \<Rightarrow> bool) \<Rightarrow> batch_event \<Rightarrow> collector \<Rightarrow> collector" where
  "onBatchEvent day now disabled e c = fold (\<lambda>a c.
     if \<not> collects e (batch_at a c) then c
     else if disabled (bt_agent (pb_config (batch_at a c))) (collector_key e) then c
     else offer_event day now a e c) (map snd (bc_batches c)) c"

definition batch_timeout :: "(int \<Rightarrow> string) \<Rightarrow> int \<Rightarrow> nat \<Rightarrow> collector \<Rightarrow> collector" where
  "batch_timeout day now i c = (case List.find (\<lambda>t. tm_id t = i) (bc_timers c) of
     None \<Rightarrow> c
   | Some t \<Rightarrow> if tm_due t \<le> now then fireBatch day now (tm_batch t) (c\<lparr>bc_timers := filter (\<lambda>t. tm_id t \<noteq> i) (bc_timers c)\<rparr>) else c)"

definition close_collector :: "collector \<Rightarrow> collector" where
  "close_collector c = (fold (\<lambda>a c. clear_timer (pb_timer (batch_at a c)) c) (map snd (bc_batches c)) c)\<lparr>bc_batches := []\<rparr>"

end
