(* ===== verification/BatchCollector_Correct.thy ===== *)
theory BatchCollector_Correct
  imports BatchCollector
begin

text \<open>
  Every event a batch accepts ends in exactly one execution, or is dropped with its batch when the day changes, in the order of the
  arrivals; and as long as the collector is open, waiting events have a timer that fires them.
\<close>

section \<open>Calls\<close>

datatype bc_call =
    Bc_register int batch_config
  | Bc_offer int nat batch_event
  | Bc_timer int nat

type_synonym accepted = "(nat \<times> int \<times> batch_event) list"

text \<open>The state with the history of the accepted events and their times; an event has turns at existing batches only.\<close>

fun bc_step :: "(int \<Rightarrow> string) \<Rightarrow> bc_call \<Rightarrow> collector \<times> accepted \<Rightarrow> collector \<times> accepted" where
  "bc_step day (Bc_register now config) (c, acc) = (snd (register_batch day now config c), acc)"
| "bc_step day (Bc_offer now a e) (c, acc) =
     (if a < length (bc_heap c) then (offer_event day now a e c, acc @ [(a, now, e)]) else (c, acc))"
| "bc_step day (Bc_timer now i) (c, acc) = (batch_timeout day now i c, acc)"

definition bc_exec :: "(int \<Rightarrow> string) \<Rightarrow> bc_call list \<Rightarrow> collector \<times> accepted" where
  "bc_exec day cs = fold (bc_step day) cs (new_collector, [])"

definition at_batch :: "nat \<Rightarrow> accepted \<Rightarrow> (int \<times> batch_event) list" where
  "at_batch a acc = map snd (filter (\<lambda>x. fst x = a) acc)"

fun outcome_at :: "nat \<Rightarrow> batch_outcome \<Rightarrow> batch_event list" where
  "outcome_at a (Fired r) = (if br_batch r = a then br_events r else [])"
| "outcome_at a (Dropped k es) = (if k = a then es else [])"

definition settled_at :: "nat \<Rightarrow> collector \<Rightarrow> batch_event list" where
  "settled_at a c = concat (map (outcome_at a) (bc_history c))"

text \<open>The accepted events of a batch that still wait, with their times.\<close>

definition waiting_at :: "nat \<Rightarrow> collector \<Rightarrow> accepted \<Rightarrow> (int \<times> batch_event) list" where
  "waiting_at a c acc = drop (length (settled_at a c)) (at_batch a acc)"

section \<open>Invariant\<close>

definition timer_of :: "collector \<Rightarrow> nat \<Rightarrow> batch_timer \<Rightarrow> bool" where
  "timer_of c a t \<longleftrightarrow> t \<in> set (bc_timers c) \<and> tm_batch t = a \<and> pb_timer (batch_at a c) = Some (tm_id t)"

definition timers_ok :: "collector \<Rightarrow> bool" where
  "timers_ok c \<longleftrightarrow> distinct (map tm_id (bc_timers c))
     \<and> (\<forall>t \<in> set (bc_timers c). tm_batch t < length (bc_heap c) \<and> tm_id t < bc_nextTimer c \<and> timer_of c (tm_batch t) t)"

definition bound_of :: "pending_batch \<Rightarrow> int" where
  "bound_of b = max 1 (bt_minCount (pb_config b))"

definition batch_ok :: "collector \<Rightarrow> accepted \<Rightarrow> nat \<Rightarrow> bool" where
  "batch_ok c acc a \<longleftrightarrow> (let b = batch_at a c in
     settled_at a c @ pb_collected b = map snd (at_batch a acc)
     \<and> int (length (pb_collected b)) \<le> bound_of b
     \<and> (pb_collected b = [] \<longrightarrow> pb_timer b = None)
     \<and> (pb_collected b \<noteq> [] \<longrightarrow> (\<exists>t. timer_of c a t \<and> tm_due t = fst (hd (waiting_at a c acc)) + bt_timeoutMs (pb_config b))))"

definition bc_ok :: "collector \<Rightarrow> accepted \<Rightarrow> bool" where
  "bc_ok c acc \<longleftrightarrow> timers_ok c \<and> (\<forall>x \<in> set acc. fst x < length (bc_heap c))
     \<and> (\<forall>a \<ge> length (bc_heap c). settled_at a c = []) \<and> (\<forall>a < length (bc_heap c). batch_ok c acc a)"

definition below_bound :: "collector \<Rightarrow> nat \<Rightarrow> bool" where
  "below_bound c a \<longleftrightarrow> int (length (pb_collected (batch_at a c))) < bound_of (batch_at a c)"

lemma put_sel [simp]:
  "bc_heap (put_batch a b c) = (bc_heap c)[a := b]" "bc_timers (put_batch a b c) = bc_timers c" "bc_history (put_batch a b c) = bc_history c"
  "bc_nextTimer (put_batch a b c) = bc_nextTimer c"
  by (simp_all add: put_batch_def)

lemma batch_at_put: "a < length (bc_heap c) \<Longrightarrow> batch_at k (put_batch a b c) = (if k = a then b else batch_at k c)"
  by (simp add: batch_at_def nth_list_update)

lemma clear_sel [simp]: "bc_heap (clear_timer i c) = bc_heap c" "bc_history (clear_timer i c) = bc_history c"
  "bc_nextTimer (clear_timer i c) = bc_nextTimer c" "batch_at k (clear_timer i c) = batch_at k c"
  by (simp_all add: clear_timer_def batch_at_def split: option.splits)

lemma clear_timers: "set (bc_timers (clear_timer i c)) = {t \<in> set (bc_timers c). i \<noteq> Some (tm_id t)}"
  by (auto simp: clear_timer_def split: option.splits)

section \<open>Emptying a batch\<close>

text \<open>What firing and resetting have in common: the batch is empty, its timer is gone, its events are in the history.\<close>

definition emptied :: "nat \<Rightarrow> collector \<Rightarrow> collector \<Rightarrow> bool" where
  "emptied a c c1 \<longleftrightarrow> (\<exists>b1. bc_heap c1 = (bc_heap c)[a := b1] \<and> pb_config b1 = pb_config (batch_at a c) \<and> pb_collected b1 = [] \<and> pb_timer b1 = None)
     \<and> bc_timers c1 = bc_timers (clear_timer (pb_timer (batch_at a c)) c) \<and> bc_nextTimer c1 = bc_nextTimer c
     \<and> (\<forall>k. settled_at k c1 = settled_at k c @ (if k = a then pb_collected (batch_at a c) else []))"

lemma fire_emptied: "emptied a c (fireBatch day now a c)"
  by (auto simp: emptied_def fireBatch_def Let_def settled_at_def put_batch_def)

lemma reset_emptied: "emptied a c (resetBatch a c)"
  by (auto simp: emptied_def resetBatch_def Let_def settled_at_def put_batch_def clear_timer_def batch_at_def split: option.splits)

lemma timer_owner:
  assumes "bc_ok c acc" "a < length (bc_heap c)" "x \<in> set (bc_timers c)" "pb_timer (batch_at a c) = Some (tm_id x)"
  shows "tm_batch x = a"
proof -
  from assms obtain t where "timer_of c a t" by (fastforce simp: bc_ok_def batch_ok_def Let_def)
  with assms(4) have t: "t \<in> set (bc_timers c)" "tm_batch t = a" "tm_id t = tm_id x" by (auto simp: timer_of_def)
  with assms(1,3) have "t = x" by (auto simp: bc_ok_def timers_ok_def distinct_map dest: inj_onD)
  with t show ?thesis by simp
qed

lemma emptied_ok:
  assumes "bc_ok c acc" "a < length (bc_heap c)" "emptied a c c1"
  shows "bc_ok c1 acc" "below_bound c1 a"
proof -
  obtain b1 where b1: "bc_heap c1 = (bc_heap c)[a := b1]" "pb_config b1 = pb_config (batch_at a c)" "pb_collected b1 = []" "pb_timer b1 = None"
    and t: "bc_timers c1 = bc_timers (clear_timer (pb_timer (batch_at a c)) c)" "bc_nextTimer c1 = bc_nextTimer c"
    and s: "\<And>k. settled_at k c1 = settled_at k c @ (if k = a then pb_collected (batch_at a c) else [])"
    using assms(3) by (auto simp: emptied_def)
  have at: "batch_at k c1 = (if k = a then b1 else batch_at k c)" for k
    using assms(2) by (simp add: batch_at_def b1(1) nth_list_update)
  have tm: "timers_ok c" and ok: "batch_ok c acc k" if "k < length (bc_heap c)" for k using assms(1) that by (auto simp: bc_ok_def)
  have other: "timer_of c1 k x \<longleftrightarrow> timer_of c k x" if "k \<noteq> a" for k x
    using that timer_owner [OF assms(1,2)] by (auto simp: timer_of_def t clear_timers at)
  have gone: "tm_batch x \<noteq> a" if "x \<in> set (bc_timers c1)" for x
    using tm that assms(2) by (auto simp: t clear_timers timers_ok_def timer_of_def)
  have "distinct (map tm_id (bc_timers c1))" using tm assms(2)
    by (auto simp: t timers_ok_def clear_timer_def distinct_map_filter split: option.splits)
  then have "timers_ok c1"
    using tm assms(2) other gone by (auto simp: timers_ok_def b1(1) t(2)) (auto simp: t clear_timers)
  moreover have "batch_ok c1 acc k" if "k < length (bc_heap c)" for k
  proof (cases "k = a")
    case True
    with ok [OF assms(2)] show ?thesis by (simp add: batch_ok_def Let_def at b1 s bound_of_def)
  next
    case False
    with ok [OF that] other show ?thesis by (simp add: batch_ok_def Let_def at s waiting_at_def)
  qed
  ultimately show "bc_ok c1 acc" using assms(1,2) by (simp add: bc_ok_def b1(1) s)
  show "below_bound c1 a" by (simp add: below_bound_def at b1 bound_of_def)
qed

section \<open>Accepting an event\<close>

lemma settled_put [simp]: "settled_at k (put_batch a b c) = settled_at k c"
  by (simp add: settled_at_def)

lemma collect_ok:
  assumes "bc_ok c acc" "a < length (bc_heap c)" "below_bound c a"
  shows "bc_ok (start_timer now a (add_event a e c)) (acc @ [(a, now, e)])"
    and "length (bc_heap (start_timer now a (add_event a e c))) = length (bc_heap c)"
proof -
  let ?b = "batch_at a c"
  let ?b1 = "?b\<lparr>pb_collected := pb_collected ?b @ [e]\<rparr>"
  let ?c2 = "start_timer now a (add_event a e c)" and ?acc = "acc @ [(a, now, e)]"
  have tm: "timers_ok c" and ok: "batch_ok c acc k" if "k < length (bc_heap c)" for k using assms(1) that by (auto simp: bc_ok_def)
  have at1: "batch_at k (add_event a e c) = (if k = a then ?b1 else batch_at k c)" for k
    using assms(2) by (simp add: add_event_def batch_at_put)
  have acc: "at_batch k ?acc = at_batch k acc @ (if k = a then [(now, e)] else [])" for k by (simp add: at_batch_def)
  have set: "settled_at k ?c2 = settled_at k c" for k by (simp add: start_timer_def add_event_def settled_at_def Let_def)
  have len: "length (at_batch a acc) = length (settled_at a c) + length (pb_collected ?b)"
    using ok [OF assms(2)] by (metis batch_ok_def length_append length_map)
  show l: "length (bc_heap ?c2) = length (bc_heap c)" by (simp add: start_timer_def add_event_def Let_def)
  show "bc_ok ?c2 ?acc"
  proof (cases "pb_collected ?b = []")
    case True
    with ok [OF assms(2)] have none: "pb_timer ?b = None" by (simp add: batch_ok_def Let_def)
    let ?t = "\<lparr>tm_id = bc_nextTimer c, tm_batch = a, tm_due = now + bt_timeoutMs (pb_config ?b)\<rparr>"
    have c2: "bc_timers ?c2 = bc_timers c @ [?t]" "bc_nextTimer ?c2 = Suc (bc_nextTimer c)"
      "batch_at k ?c2 = (if k = a then ?b1\<lparr>pb_timer := Some (bc_nextTimer c)\<rparr> else batch_at k c)" for k
      using True none assms(2) at1 by (simp_all add: start_timer_def Let_def add_event_def batch_at_put batch_at_def nth_list_update)
    have other: "timer_of ?c2 k x \<longleftrightarrow> timer_of c k x" if "k \<noteq> a" for k x using that by (auto simp: timer_of_def c2)
    have own: "timer_of ?c2 a ?t" by (simp add: timer_of_def c2)
    have notown: "tm_batch x \<noteq> a" if "x \<in> set (bc_timers c)" for x using tm [OF assms(2)] that none by (auto simp: timers_ok_def timer_of_def)
    have "timers_ok ?c2"
      using tm [OF assms(2)] other own notown assms(2) unfolding timers_ok_def c2 l by (auto simp: less_Suc_eq)
    moreover have "batch_ok ?c2 ?acc k" if "k < length (bc_heap c)" for k
    proof (cases "k = a")
      case True': True
      have "drop (length (settled_at a c)) (at_batch a ?acc) = [(now, e)]" using len True by (simp add: acc)
      with ok [OF that] own assms(3) True True' show ?thesis
        by (auto simp: batch_ok_def Let_def c2 acc set waiting_at_def bound_of_def intro!: exI [of _ ?t])
    next
      case False
      with ok [OF that] other show ?thesis by (simp add: batch_ok_def Let_def c2 acc set waiting_at_def)
    qed
    ultimately show ?thesis using assms(1,2) l set by (auto simp: bc_ok_def)
  next
    case False
    have c2: "?c2 = add_event a e c" using False by (auto simp: start_timer_def Let_def at1)
    have t: "bc_timers (add_event a e c) = bc_timers c" "bc_nextTimer (add_event a e c) = bc_nextTimer c" by (simp_all add: add_event_def)
    have timer: "timer_of (add_event a e c) k x \<longleftrightarrow> timer_of c k x" for k x by (auto simp: timer_of_def t at1)
    have "timers_ok ?c2" using tm [OF assms(2)] l unfolding c2 timers_ok_def t timer by simp
    moreover have "batch_ok ?c2 ?acc k" if "k < length (bc_heap c)" for k
    proof (cases "k = a")
      case True
      from False len have "hd (drop (length (settled_at a c)) (at_batch a ?acc)) = hd (drop (length (settled_at a c)) (at_batch a acc))"
        by (simp add: acc hd_append)
      with ok [OF that] assms(3) True False show ?thesis
        using set [of a] unfolding c2 by (auto simp: batch_ok_def Let_def at1 acc timer waiting_at_def bound_of_def below_bound_def)
    next
      case False
      with ok [OF that] show ?thesis using set [of k] unfolding c2 by (simp add: batch_ok_def Let_def at1 acc timer waiting_at_def)
    qed
    ultimately show ?thesis using assms(1,2) l set by (auto simp: bc_ok_def)
  qed
qed

section \<open>Steps\<close>

definition bc_inv :: "collector \<Rightarrow> accepted \<Rightarrow> bool" where
  "bc_inv c acc \<longleftrightarrow> bc_ok c acc \<and> (\<forall>a < length (bc_heap c). below_bound c a)"

lemma emptied_heap:
  assumes "emptied a c c1" "a < length (bc_heap c)"
  shows "length (bc_heap c1) = length (bc_heap c)" "k \<noteq> a \<Longrightarrow> batch_at k c1 = batch_at k c"
  using assms by (auto simp: emptied_def batch_at_def nth_list_update)

lemma emptied_inv:
  assumes "bc_ok c acc" "\<forall>k < length (bc_heap c). k \<noteq> a \<longrightarrow> below_bound c k" "a < length (bc_heap c)" "emptied a c c1"
  shows "bc_inv c1 acc"
  unfolding bc_inv_def
proof (intro conjI allI impI)
  show "bc_ok c1 acc" by (rule emptied_ok(1) [OF assms(1,3,4)])
  fix k assume "k < length (bc_heap c1)"
  then show "below_bound c1 k"
    using emptied_ok(2) [OF assms(1,3,4)] emptied_heap [OF assms(4,3)] assms(2) by (cases "k = a") (simp_all add: below_bound_def)
qed

lemma day_emptied:
  assumes "pb_dateKey (batch_at a c) \<noteq> day now" "a < length (bc_heap c)"
  shows "emptied a c (day_change day now a c)"
proof -
  obtain b1 where "bc_heap (resetBatch a c) = (bc_heap c)[a := b1]" "pb_config b1 = pb_config (batch_at a c)" "pb_collected b1 = []" "pb_timer b1 = None"
    using reset_emptied [of a c] by (auto simp: emptied_def)
  with reset_emptied [of a c] assms show ?thesis
    by (auto simp: emptied_def day_change_def Let_def batch_at_def)
qed

lemma offer_inv:
  assumes "bc_inv c acc" "a < length (bc_heap c)"
  shows "bc_inv (offer_event day now a e c) (acc @ [(a, now, e)])"
proof -
  define c0 where "c0 = day_change day now a c"
  define c1 where "c1 = start_timer now a (add_event a e c0)"
  have 0: "bc_inv c0 acc" "length (bc_heap c0) = length (bc_heap c)"
  proof -
    show "bc_inv c0 acc"
    proof (cases "pb_dateKey (batch_at a c) = day now")
      case False
      with assms show ?thesis unfolding c0_def by (intro emptied_inv [OF _ _ assms(2) day_emptied]) (auto simp: bc_inv_def)
    qed (use assms in \<open>simp add: c0_def day_change_def\<close>)
    show "length (bc_heap c0) = length (bc_heap c)"
      using emptied_heap(1) [OF day_emptied [of a c day now]] assms(2) by (cases "pb_dateKey (batch_at a c) = day now") (simp_all add: c0_def day_change_def)
  qed
  have 1: "bc_ok c1 (acc @ [(a, now, e)])" "length (bc_heap c1) = length (bc_heap c)"
    using collect_ok [of c0 acc a now e] 0 assms(2) by (auto simp: c1_def bc_inv_def)
  have same: "batch_at k c1 = batch_at k c0" if "k \<noteq> a" for k
    using that by (simp add: c1_def start_timer_def add_event_def batch_at_def put_batch_def Let_def)
  with 0 1 have below: "\<forall>k < length (bc_heap c1). k \<noteq> a \<longrightarrow> below_bound c1 k" by (simp add: bc_inv_def below_bound_def)
  show ?thesis
  proof (cases "int (length (pb_collected (batch_at a c1))) \<ge> bt_minCount (pb_config (batch_at a c1))")
    case True
    with emptied_inv [OF 1(1) below _ fire_emptied] 1(2) assms(2) show ?thesis
      by (simp add: offer_event_def Let_def c0_def c1_def)
  next
    case False
    then have "below_bound c1 a" by (simp add: below_bound_def bound_of_def)
    with False below 1(1) show ?thesis by (auto simp: offer_event_def Let_def c0_def c1_def bc_inv_def)
  qed
qed

text \<open>A timer that runs empties its batch.\<close>

lemma timeout_emptied:
  assumes "timers_ok c" "t \<in> set (bc_timers c)" "tm_due t \<le> now"
  shows "emptied (tm_batch t) c (batch_timeout day now (tm_id t) c)"
    and "batch_timeout day now (tm_id t) c
      = fireBatch day now (tm_batch t) (c\<lparr>bc_timers := filter (\<lambda>x. tm_id x \<noteq> tm_id t) (bc_timers c)\<rparr>)"
proof -
  have "List.find (\<lambda>x. tm_id x = tm_id t) (bc_timers c) = Some t"
  proof (cases "List.find (\<lambda>x. tm_id x = tm_id t) (bc_timers c)")
    case None
    with assms(2) show ?thesis by (auto simp: find_None_iff)
  next
    case (Some x)
    then have "x \<in> set (bc_timers c)" "tm_id x = tm_id t" by (auto simp: find_Some_iff)
    with assms(1,2) Some show ?thesis by (auto simp: timers_ok_def distinct_map dest: inj_onD)
  qed
  with assms(3) show f: "batch_timeout day now (tm_id t) c
      = fireBatch day now (tm_batch t) (c\<lparr>bc_timers := filter (\<lambda>x. tm_id x \<noteq> tm_id t) (bc_timers c)\<rparr>)" by (simp add: batch_timeout_def)
  have "pb_timer (batch_at (tm_batch t) c) = Some (tm_id t)" using assms(1,2) by (simp add: timers_ok_def timer_of_def)
  then show "emptied (tm_batch t) c (batch_timeout day now (tm_id t) c)"
    unfolding f using fire_emptied [of "tm_batch t" "c\<lparr>bc_timers := filter (\<lambda>x. tm_id x \<noteq> tm_id t) (bc_timers c)\<rparr>" day now]
    by (auto simp: emptied_def clear_timer_def batch_at_def settled_at_def)
qed

lemma timer_inv:
  assumes "bc_inv c acc"
  shows "bc_inv (batch_timeout day now i c) acc"
proof (cases "\<exists>t \<in> set (bc_timers c). tm_id t = i \<and> tm_due t \<le> now")
  case True
  then obtain t where t: "t \<in> set (bc_timers c)" "tm_id t = i" "tm_due t \<le> now" by blast
  have ok: "timers_ok c" using assms by (simp add: bc_inv_def bc_ok_def)
  with t assms have "tm_batch t < length (bc_heap c)" by (auto simp: timers_ok_def)
  with emptied_inv [OF _ _ this timeout_emptied(1) [OF ok t(1,3)]] assms t show ?thesis by (auto simp: bc_inv_def)
next
  case False
  have "batch_timeout day now i c = c"
    using False by (auto simp: batch_timeout_def find_Some_iff split: option.splits)
  with assms show ?thesis by simp
qed

lemma register_inv:
  assumes "bc_inv c acc"
  shows "bc_inv (snd (register_batch day now config c)) acc"
proof -
  let ?c1 = "snd (register_batch day now config c)" and ?n = "length (bc_heap c)"
  have at: "batch_at k ?c1 = (if k = ?n then \<lparr>pb_config = config, pb_collected = [], pb_timer = None, pb_dateKey = day now\<rparr> else batch_at k c)"
    if "k \<le> ?n" for k
    using that by (auto simp: register_batch_def batch_at_def nth_append)
  have same: "bc_timers ?c1 = bc_timers c" "bc_nextTimer ?c1 = bc_nextTimer c" "settled_at k ?c1 = settled_at k c" "length (bc_heap ?c1) = Suc ?n" for k
    by (simp_all add: register_batch_def settled_at_def)
  have ok: "timers_ok c" "\<forall>x \<in> set acc. fst x < ?n" "\<forall>a \<ge> ?n. settled_at a c = []" using assms by (auto simp: bc_inv_def bc_ok_def)
  have timer: "timer_of ?c1 k x \<longleftrightarrow> timer_of c k x" if "k < ?n" for k x using that by (simp add: timer_of_def same at)
  have "timers_ok ?c1" using ok(1) timer by (auto simp: timers_ok_def same)
  moreover have "batch_ok ?c1 acc k \<and> below_bound ?c1 k" if "k \<le> ?n" for k
  proof (cases "k = ?n")
    case True
    have "at_batch ?n acc = []" using ok(2) by (auto simp: at_batch_def filter_empty_conv)
    moreover have "0 < max 1 (bt_minCount config)" by (simp add: less_max_iff_disj)
    ultimately show ?thesis using True ok(3) by (simp add: batch_ok_def below_bound_def bound_of_def at same Let_def less_imp_le)
  next
    case False
    with that assms timer show ?thesis by (auto simp: bc_inv_def bc_ok_def batch_ok_def below_bound_def at same Let_def waiting_at_def)
  qed
  ultimately show ?thesis using ok by (auto simp: bc_inv_def bc_ok_def same less_Suc_eq_le)
qed

lemma start_inv: "bc_inv new_collector []"
  by (simp add: bc_inv_def bc_ok_def new_collector_def timers_ok_def settled_at_def)

lemma exec_inv:
  assumes "bc_exec day cs = (c, acc)"
  shows "bc_inv c acc"
proof -
  have "bc_inv (fst (fold (bc_step day) cs s)) (snd (fold (bc_step day) cs s))" if "bc_inv (fst s) (snd s)" for s
    using that
  proof (induction cs arbitrary: s)
    case (Cons x cs)
    obtain c0 acc0 where s: "s = (c0, acc0)" by fastforce
    with Cons.prems have "bc_inv (fst (bc_step day x s)) (snd (bc_step day x s))"
      by (cases x) (auto intro: register_inv offer_inv timer_inv)
    from Cons.IH [OF this] show ?case by simp
  qed simp
  from this [of "(new_collector, [])"] start_inv assms show ?thesis by (simp add: bc_exec_def)
qed

section \<open>Properties\<close>

text \<open>
  C21: no event that a batch accepts is lost or used twice: whatever registrations, events and timers come, the executions and the droppings at
  a change of day of a batch, followed by what it collects, are what it accepted, in order; less than the minimum waits; and what waits has a timer that is due the timeout
  after the first of it and whose run hands exactly that to the agent.
\<close>
theorem collected_events_fire_once:
  assumes "bc_exec day cs = (c, acc)" "a < length (bc_heap c)"
  shows "concat (map (outcome_at a) (bc_history c)) @ pb_collected (bc_heap c ! a) = map snd (at_batch a acc)
    \<and> int (length (pb_collected (bc_heap c ! a))) < max 1 (bt_minCount (pb_config (bc_heap c ! a)))
    \<and> (pb_collected (bc_heap c ! a) = [] \<or> (\<exists>t \<in> set (bc_timers c). tm_batch t = a
          \<and> tm_due t = fst (hd (waiting_at a c acc)) + bt_timeoutMs (pb_config (bc_heap c ! a))
          \<and> (\<exists>r. bc_history (batch_timeout day (tm_due t) (tm_id t) c) = bc_history c @ [Fired r]
                \<and> br_batch r = a \<and> br_events r = pb_collected (bc_heap c ! a))))"
proof -
  have inv: "bc_inv c acc" by (rule exec_inv [OF assms(1)])
  with assms(2) have ok: "batch_ok c acc a" "timers_ok c" "below_bound c a" by (auto simp: bc_inv_def bc_ok_def)
  have "\<exists>t \<in> set (bc_timers c). tm_batch t = a \<and> tm_due t = fst (hd (waiting_at a c acc)) + bt_timeoutMs (pb_config (batch_at a c))
      \<and> (\<exists>r. bc_history (batch_timeout day (tm_due t) (tm_id t) c) = bc_history c @ [Fired r] \<and> br_batch r = a \<and> br_events r = pb_collected (batch_at a c))"
    if ne: "pb_collected (batch_at a c) \<noteq> []"
  proof -
    from ok(1) ne obtain t where t: "timer_of c a t" "tm_due t = fst (hd (waiting_at a c acc)) + bt_timeoutMs (pb_config (batch_at a c))"
      by (auto simp: batch_ok_def Let_def)
    then have m: "t \<in> set (bc_timers c)" "tm_batch t = a" by (auto simp: timer_of_def)
    have "\<exists>r. bc_history (batch_timeout day (tm_due t) (tm_id t) c) = bc_history c @ [Fired r] \<and> br_batch r = a \<and> br_events r = pb_collected (batch_at a c)"
      using ne m unfolding timeout_emptied(2) [OF ok(2) m(1) order.refl] by (auto simp: fireBatch_def Let_def batch_at_def put_batch_def)
    with m t show ?thesis by blast
  qed
  with ok show ?thesis by (auto simp: batch_ok_def below_bound_def bound_of_def Let_def batch_at_def settled_at_def)
qed

definition sample_batch_config :: batch_config where
  "sample_batch_config = \<lparr>bt_agent = \<lparr>ag_name = ''strategist'', ag_department = ''executive'', ag_model = \<lparr>mc_provider = ''p'', mc_model = ''m''\<rparr>,
     ag_triggers = [], ag_actions = [], ag_event_subscriptions = [], ag_review_bypass = [], ag_humanize = False\<rparr>,
     bt_task = ''standup'', bt_events = [''*:standup_report''], bt_minCount = 3, bt_timeoutMs = 1000, bt_model = None\<rparr>"

definition sample_report :: "string \<Rightarrow> batch_event" where
  "sample_report who = \<lparr>be_source = who, be_type = ''standup_report'', be_payload = JNull, be_timestamp = ''''\<rparr>"

definition day_of_hundred :: "int \<Rightarrow> string" where "day_of_hundred t = dec_int (t div 100)"

theorem collected_events_fire_once_witness:
  "\<exists>t \<in> set (bc_timers (fst (bc_exec day_of_hundred [Bc_register 0 sample_batch_config, Bc_offer 5 0 (sample_report ''ann''), Bc_offer 7 0 (sample_report ''bob'')]))).
     tm_batch t = 0 \<and> tm_due t = 1005"
proof -
  let ?cs = "[Bc_register 0 sample_batch_config, Bc_offer 5 0 (sample_report ''ann''), Bc_offer 7 0 (sample_report ''bob'')]"
  obtain c acc where e: "bc_exec day_of_hundred ?cs = (c, acc)" by fastforce
  have "pb_collected (bc_heap (fst (bc_exec day_of_hundred ?cs)) ! 0) \<noteq> []" "0 < length (bc_heap (fst (bc_exec day_of_hundred ?cs)))"
    "fst (hd (waiting_at 0 (fst (bc_exec day_of_hundred ?cs)) (snd (bc_exec day_of_hundred ?cs)))) = 5"
    "bt_timeoutMs (pb_config (bc_heap (fst (bc_exec day_of_hundred ?cs)) ! 0)) = 1000" by code_simp+
  with e have s: "pb_collected (bc_heap c ! 0) \<noteq> []" "0 < length (bc_heap c)" "fst (hd (waiting_at 0 c acc)) = 5"
    "bt_timeoutMs (pb_config (bc_heap c ! 0)) = 1000" by simp_all
  from collected_events_fire_once [OF e s(2)] s(1,3,4) e show ?thesis by auto
qed

section \<open>The matching agrees with the bus\<close>

text \<open>The collector has its own copy of the bus's pattern matching; the two decide alike.\<close>

lemma matchesPattern_is_matches: "matchesPattern = matches"
  by (intro ext) (simp add: matchesPattern_def matches_def Let_def)

section \<open>What gets lost\<close>

text \<open>Reports of the evening are dropped by the first report of the next day, before their timer.\<close>

lemma day_change_drops_reports:
  "bc_history (fst (bc_exec day_of_hundred [Bc_register 0 sample_batch_config, Bc_offer 98 0 (sample_report ''ann''),
     Bc_offer 99 0 (sample_report ''bob''), Bc_offer 100 0 (sample_report ''cid'')])) = [Dropped 0 [sample_report ''ann'', sample_report ''bob'']]"
  by code_simp

text \<open>A second trigger of an agent with the same task takes the place of the first.\<close>

lemma same_task_replaces:
  "map snd (bc_batches (snd (register_batch day 0 (c2\<lparr>bt_agent := bt_agent c1, bt_task := bt_task c1\<rparr>) (snd (register_batch day 0 c1 new_collector))))) = [1]"
  by (simp add: register_batch_def new_collector_def mset_at_def)

text \<open>An event whose look at the overlay ends after the collector was closed waits for a timer that is gone.\<close>

lemma late_offer_after_close:
  "let c = close_collector (fst (bc_exec day_of_hundred [Bc_register 0 sample_batch_config, Bc_offer 5 0 (sample_report ''ann'')]));
       c1 = offer_event day_of_hundred 6 0 (sample_report ''bob'') c
   in length (pb_collected (batch_at 0 c1)) = 2 \<and> bc_timers c1 = []"
  by code_simp

section \<open>The overlay\<close>

text \<open>What the overlay answers was read from the database at most five minutes ago, when it was so at the start.\<close>

lemma overlay_is_fresh:
  assumes "getDepartmentOverrides db now d cache = (Some o1, cache1)"
  shows "\<exists>t. mget cache1 d = Some (o1, t) \<and> now - t < OVERLAY_CACHE_TTL_MS"
proof -
  have "0 < OVERLAY_CACHE_TTL_MS" by (simp add: OVERLAY_CACHE_TTL_MS_def)
  with assms show ?thesis by (auto simp: getDepartmentOverrides_def split: option.splits if_splits)
qed

end
