(* ===== verification/AoBridge.thy ===== *)
theory AoBridge
  imports Redis JsonText
begin

text \<open>
  The client of the agent orchestrator (\<open>ao/bridge.ts\<close>) with a circuit breaker for each repository, and the queue of directives
  for the time a circuit is open (\<open>ao/queue.ts\<close>).

  A call is split at its requests: it begins with the look at the circuit, and ends with the replies that came, by when other calls may have begun and
  ended.  The replies of the service are arguments.  The queue uses a list of the key-value server; popping from its head is a
  command of its own, with its law in \<open>redis_pops\<close>, and the expiry of the list is a step of the environment.  The requests of the queue are JSON values.
\<close>

section \<open>The circuit\<close>

definition MAX_SPAWN_RETRIES :: nat where "MAX_SPAWN_RETRIES = 1"
definition CIRCUIT_THRESHOLD :: nat where "CIRCUIT_THRESHOLD = 3"
definition CIRCUIT_RESET_MS :: int where "CIRCUIT_RESET_MS = 60000"

record circuit =
  ci_failures :: nat
  ci_openUntil :: int

record ao_bridge =
  ab_circuits :: "(string, circuit) jsmap"
  ab_changes :: "(string \<times> bool) list"
  ab_audit :: "(string \<times> string \<times> string) list"

text \<open>\<open>ab_changes\<close> are the calls of the callback, \<open>ab_audit\<close> the action, outcome and repository of the audit records.\<close>

definition new_bridge :: ao_bridge where
  "new_bridge = \<lparr>ab_circuits = [], ab_changes = [], ab_audit = []\<rparr>"

definition getCircuitState :: "string \<Rightarrow> ao_bridge \<Rightarrow> circuit" where
  "getCircuitState repo b = (case mget (ab_circuits b) repo of None \<Rightarrow> \<lparr>ci_failures = 0, ci_openUntil = 0\<rparr> | Some c \<Rightarrow> c)"

definition set_circuit :: "string \<Rightarrow> circuit \<Rightarrow> ao_bridge \<Rightarrow> ao_bridge" where
  "set_circuit repo c b = b\<lparr>ab_circuits := mset_at repo c (ab_circuits b)\<rparr>"

definition isCircuitOpen :: "int \<Rightarrow> string option \<Rightarrow> ao_bridge \<Rightarrow> bool \<times> ao_bridge" where
  "isCircuitOpen now repo b = (case repo of
     None \<Rightarrow> (False, b)
   | Some [] \<Rightarrow> (False, b)
   | Some (x # xs) \<Rightarrow>
       (let r = x # xs; st = getCircuitState r b; b1 = set_circuit r st b
        in if ci_failures st \<ge> CIRCUIT_THRESHOLD \<and> now < ci_openUntil st then (True, b1)
           else (False, if ci_openUntil st > 0 \<and> now \<ge> ci_openUntil st then set_circuit r \<lparr>ci_failures = 0, ci_openUntil = 0\<rparr> b1 else b1)))"

definition recordFailure :: "int \<Rightarrow> string \<Rightarrow> ao_bridge \<Rightarrow> ao_bridge" where
  "recordFailure now repo b =
     (let st = getCircuitState repo b; n = ci_failures st + 1
      in if n \<ge> CIRCUIT_THRESHOLD
         then (let b1 = set_circuit repo \<lparr>ci_failures = n, ci_openUntil = now + CIRCUIT_RESET_MS\<rparr> b
               in if ci_openUntil st = 0 then b1\<lparr>ab_changes := ab_changes b1 @ [(repo, True)]\<rparr> else b1)
         else set_circuit repo (st\<lparr>ci_failures := n\<rparr>) b)"

definition recordSuccess :: "string \<Rightarrow> ao_bridge \<Rightarrow> ao_bridge" where
  "recordSuccess repo b =
     (let st = getCircuitState repo b; wasOpen = (ci_openUntil st > 0 \<and> ci_failures st \<ge> CIRCUIT_THRESHOLD);
          b1 = set_circuit repo \<lparr>ci_failures = 0, ci_openUntil = 0\<rparr> b
      in if wasOpen then b1\<lparr>ab_changes := ab_changes b1 @ [(repo, False)]\<rparr> else b1)"

definition ao_audit :: "string \<Rightarrow> string \<Rightarrow> string \<Rightarrow> ao_bridge \<Rightarrow> ao_bridge" where
  "ao_audit act outcome repo b = b\<lparr>ab_audit := ab_audit b @ [(act, outcome, repo)]\<rparr>"

section \<open>Calls\<close>

definition classifyNetworkError :: "string \<Rightarrow> string" where
  "classifyNetworkError message =
     (let n = to_lower message in
      if str_includes n ''enotfound'' \<or> str_includes n ''getaddrinfo'' then ''dns_failure''
      else if str_includes n ''econnrefused'' then ''connection_refused''
      else if str_includes n ''econnreset'' then ''connection_reset''
      else if str_includes n ''aborted'' \<or> str_includes n ''timeout'' then ''timeout''
      else ''network_error'')"

record spawn_response =
  sr_id :: string
  sr_status :: string
  sr_error :: "string option"

text \<open>A reply: a status with the text of its body and what that parses to, or an exception with its message.\<close>

datatype 'r ao_reply = Http nat string "string + 'r" | Net_error string

definition failed_spawn :: "string \<Rightarrow> spawn_response" where
  "failed_spawn err = \<lparr>sr_id = '''', sr_status = ''failed'', sr_error = Some err\<rparr>"

definition normal_status :: "spawn_response \<Rightarrow> spawn_response" where
  "normal_status r = (if sr_status r = ''spawning'' \<or> sr_status r = ''queued'' then r\<lparr>sr_status := ''spawned''\<rparr> else r)"

text \<open>The loop over the attempts: what it answers, and how many requests it sent; a parse error of the body is an exception like the others.\<close>

fun spawn_loop :: "int \<Rightarrow> string \<Rightarrow> nat \<Rightarrow> spawn_response ao_reply list \<Rightarrow> ao_bridge \<Rightarrow> spawn_response option \<times> nat \<times> ao_bridge" where
  "spawn_loop now repo attempt [] b = (None, attempt, b)"
| "spawn_loop now repo attempt (r # rs) b =
     (let caught = (\<lambda>msg. if attempt < MAX_SPAWN_RETRIES then spawn_loop now repo (attempt + 1) rs b
             else (Some (failed_spawn (classifyNetworkError msg @ '': '' @ msg)), attempt + 1,
                   ao_audit ''spawn'' ''failed'' repo (recordFailure now repo b)))
      in case r of
           Http status text body \<Rightarrow>
             (if 400 \<le> status \<and> status < 500
              then (Some (failed_spawn (''HTTP '' @ dec_nat status @ '': '' @ text)), attempt + 1, ao_audit ''spawn'' ''failed'' repo b)
              else if \<not> (200 \<le> status \<and> status < 300)
              then (if attempt < MAX_SPAWN_RETRIES then spawn_loop now repo (attempt + 1) rs b
                    else (Some (failed_spawn (''HTTP '' @ dec_nat status @ '': '' @ text)), attempt + 1,
                          ao_audit ''spawn'' ''failed'' repo (recordFailure now repo b)))
              else (case body of
                  Inr res \<Rightarrow> (Some (normal_status res), attempt + 1, ao_audit ''spawn'' ''success'' repo (recordSuccess repo b))
                | Inl msg \<Rightarrow> caught msg))
         | Net_error msg \<Rightarrow> caught msg)"

fun batch_loop :: "int \<Rightarrow> string \<Rightarrow> nat \<Rightarrow> spawn_response list ao_reply list \<Rightarrow> ao_bridge \<Rightarrow> spawn_response list option \<times> nat \<times> ao_bridge" where
  "batch_loop now repo attempt [] b = (None, attempt, b)"
| "batch_loop now repo attempt (r # rs) b =
     (let caught = (if attempt < MAX_SPAWN_RETRIES then batch_loop now repo (attempt + 1) rs b
             else (None, attempt + 1, ao_audit ''batch-spawn'' ''failed'' repo (recordFailure now repo b)))
      in case r of
           Http status text body \<Rightarrow>
             (if \<not> (200 \<le> status \<and> status < 300)
              then (if attempt < MAX_SPAWN_RETRIES \<and> status \<ge> 500 then batch_loop now repo (attempt + 1) rs b
                    else (None, attempt + 1, ao_audit ''batch-spawn'' ''failed'' repo (recordFailure now repo b)))
              else (case body of
                  Inr res \<Rightarrow> (Some res, attempt + 1, ao_audit ''batch-spawn'' ''success'' repo (recordSuccess repo b))
                | Inl msg \<Rightarrow> caught))
         | Net_error msg \<Rightarrow> caught)"

text \<open>A whole call: the time it begins, the time it ends, and the replies.\<close>

definition ao_spawn ::
  "int \<Rightarrow> int \<Rightarrow> string \<Rightarrow> spawn_response ao_reply list \<Rightarrow> ao_bridge \<Rightarrow> spawn_response option \<times> ao_bridge" where
  "ao_spawn now1 now2 repo rs b =
     (let (open_now, b1) = isCircuitOpen now1 (Some repo) b
      in if open_now then (None, b1) else (let (r, n, b2) = spawn_loop now2 repo 0 rs b1 in (r, b2)))"

definition ao_batchSpawn ::
  "int \<Rightarrow> int \<Rightarrow> string \<Rightarrow> spawn_response list ao_reply list \<Rightarrow> ao_bridge \<Rightarrow> spawn_response list option \<times> ao_bridge" where
  "ao_batchSpawn now1 now2 repo rs b =
     (let (open_now, b1) = isCircuitOpen now1 (Some repo) b
      in if open_now then (None, b1) else (let (r, n, b2) = batch_loop now2 repo 0 rs b1 in (r, b2)))"

definition ao_health :: "'r ao_reply \<Rightarrow> bool" where
  "ao_health r = (case r of Http status text body \<Rightarrow> 200 \<le> status \<and> status < 300 | Net_error msg \<Rightarrow> False)"

definition ao_deepHealth :: "'r ao_reply \<Rightarrow> 'r option" where
  "ao_deepHealth r = (case r of
     Http status text body \<Rightarrow> if 200 \<le> status \<and> status < 300 then (case body of Inr x \<Rightarrow> Some x | Inl msg \<Rightarrow> None) else None
   | Net_error msg \<Rightarrow> None)"

section \<open>The queue of directives\<close>

definition PENDING_DIRECTIVES_KEY :: string where "PENDING_DIRECTIVES_KEY = ''yclaw:ao:pending_directives''"
definition MAX_DIRECTIVES :: nat where "MAX_DIRECTIVES = 50"
definition DIRECTIVES_TTL_SECONDS :: int where "DIRECTIVES_TTL_SECONDS = 3600"

type_synonym 's popper = "string \<Rightarrow> 's \<Rightarrow> string option \<times> 's"

definition directive_text :: "json \<Rightarrow> string \<Rightarrow> string" where
  "directive_text request enqueuedAt = json_stringify (JObj [(''request'', request), (''enqueuedAt'', JStr enqueuedAt)])"

text \<open>\<open>enqueue\<close> in its two turns: the depth that it reads, and what it does with that.\<close>

definition directive_depth :: "'s redis \<Rightarrow> 's \<Rightarrow> nat" where
  "directive_depth R s = length (LRANGE R PENDING_DIRECTIVES_KEY s)"

definition enqueue_write :: "'s redis \<Rightarrow> string \<Rightarrow> json \<Rightarrow> nat \<Rightarrow> 's \<Rightarrow> bool \<times> 's" where
  "enqueue_write R stamp request d s =
     (if d \<ge> MAX_DIRECTIVES then (False, s)
      else (True, EXPIRE R PENDING_DIRECTIVES_KEY DIRECTIVES_TTL_SECONDS (RPUSH R PENDING_DIRECTIVES_KEY [directive_text request stamp] s)))"

definition enqueueDirective :: "'s redis \<Rightarrow> string \<Rightarrow> json \<Rightarrow> 's \<Rightarrow> bool \<times> 's" where
  "enqueueDirective R stamp request s = enqueue_write R stamp request (directive_depth R s) s"

text \<open>The pops of a drain; a text that does not parse is skipped.\<close>

fun directive_drain :: "'s popper \<Rightarrow> nat \<Rightarrow> 's \<Rightarrow> json list \<times> 's" where
  "directive_drain pop 0 s = ([], s)"
| "directive_drain pop (Suc n) s = (case pop PENDING_DIRECTIVES_KEY s of
     (None, s1) \<Rightarrow> ([], s1)
   | (Some raw, s1) \<Rightarrow>
       (if raw = '''' then ([], s1)
        else (let (ds, s2) = directive_drain pop n s1 in (case json_parse raw of None \<Rightarrow> ds | Some d \<Rightarrow> d # ds, s2))))"

definition drainDirectives :: "'s redis \<Rightarrow> 's popper \<Rightarrow> 's \<Rightarrow> json list \<times> 's" where
  "drainDirectives R pop s = directive_drain pop (directive_depth R s) s"

end
