(* ===== verification/AoBridge_Correct.thy ===== *)
theory AoBridge_Correct
  imports AoBridge
begin

text \<open>
  A circuit is open exactly while the streak of failures of its repository is three long or longer and its last failure less than a minute
  old, however the calls overlap; directives are replayed in the order they were queued.  The evaluated lemmas show that the recovery of a circuit is hardly ever
  announced and that one spawn may be posted twice.
\<close>

section \<open>Circuits\<close>

text \<open>The calls that touch a circuit; those of several spawns come in any order.\<close>

datatype circuit_event = Looked int string | Failed_at int string | Succeeded string

fun circuit_step :: "circuit_event \<Rightarrow> ao_bridge \<Rightarrow> ao_bridge" where
  "circuit_step (Looked now repo) b = snd (isCircuitOpen now (Some repo) b)"
| "circuit_step (Failed_at now repo) b = recordFailure now repo b"
| "circuit_step (Succeeded repo) b = recordSuccess repo b"

text \<open>The results of a repository, the last first: the time of a failure, or none for a success.\<close>

fun result_of :: "string \<Rightarrow> circuit_event \<Rightarrow> int option list" where
  "result_of repo (Looked now r) = []"
| "result_of repo (Failed_at now r) = (if r = repo then [Some now] else [])"
| "result_of repo (Succeeded r) = (if r = repo then [None] else [])"

definition results :: "string \<Rightarrow> circuit_event list \<Rightarrow> int option list" where
  "results repo es = rev (concat (map (result_of repo) es))"

definition circuit_ok :: "int option list \<Rightarrow> circuit \<Rightarrow> bool" where
  "circuit_ok rs c \<longleftrightarrow> ci_failures c \<le> length (takeWhile (\<lambda>r. r \<noteq> None) rs)
     \<and> (ci_openUntil c \<noteq> 0 \<longrightarrow> CIRCUIT_THRESHOLD \<le> ci_failures c \<and> (\<exists>t rest. rs = Some t # rest \<and> ci_openUntil c = t + CIRCUIT_RESET_MS))"

lemma state_set [simp]: "getCircuitState r (set_circuit r1 c b) = (if r1 = r then c else getCircuitState r b)"
  by (simp add: getCircuitState_def set_circuit_def)

lemma state_changes [simp]: "getCircuitState r (b\<lparr>ab_changes := x\<rparr>) = getCircuitState r b" "getCircuitState r (ao_audit act out repo b) = getCircuitState r b"
  by (simp_all add: getCircuitState_def ao_audit_def)

lemma look_state:
  "getCircuitState r (snd (isCircuitOpen now (Some repo) b)) = (let c = getCircuitState r b
     in if r = repo \<and> r \<noteq> [] \<and> \<not> (CIRCUIT_THRESHOLD \<le> ci_failures c \<and> now < ci_openUntil c) \<and> 0 < ci_openUntil c \<and> ci_openUntil c \<le> now
        then \<lparr>ci_failures = 0, ci_openUntil = 0\<rparr> else c)"
  by (cases repo) (auto simp: isCircuitOpen_def Let_def)

lemma look_open: "fst (isCircuitOpen now (Some repo) b) \<longleftrightarrow> repo \<noteq> []
     \<and> CIRCUIT_THRESHOLD \<le> ci_failures (getCircuitState repo b) \<and> now < ci_openUntil (getCircuitState repo b)"
  by (cases repo) (auto simp: isCircuitOpen_def Let_def)

lemma failure_state:
  "getCircuitState r (recordFailure now repo b) = (let c = getCircuitState r b; n = ci_failures c + 1
     in if r \<noteq> repo then c else if CIRCUIT_THRESHOLD \<le> n then \<lparr>ci_failures = n, ci_openUntil = now + CIRCUIT_RESET_MS\<rparr> else c\<lparr>ci_failures := n\<rparr>)"
  by (auto simp: recordFailure_def Let_def)

lemma success_state:
  "getCircuitState r (recordSuccess repo b) = (if r \<noteq> repo then getCircuitState r b else \<lparr>ci_failures = 0, ci_openUntil = 0\<rparr>)"
  by (auto simp: recordSuccess_def Let_def)

lemma bridge_circuit_step_ok:
  assumes "circuit_ok rs (getCircuitState repo b)"
  shows "circuit_ok (rev (result_of repo e) @ rs) (getCircuitState repo (circuit_step e b))"
  using assms by (cases e) (auto simp: circuit_ok_def look_state failure_state success_state Let_def)

lemma circuit_run_ok: "circuit_ok (results repo es) (getCircuitState repo (fold circuit_step es new_bridge))"
proof (induction es rule: rev_induct)
  case Nil
  then show ?case by (simp add: circuit_ok_def getCircuitState_def new_bridge_def results_def)
next
  case (snoc e es)
  then show ?case using bridge_circuit_step_ok [of "results repo es" repo _ e] by (simp add: results_def)
qed

text \<open>The streak of a repository: the times of the failures in a row that count, the last first.\<close>

fun next_streak :: "string \<Rightarrow> circuit_event \<Rightarrow> int list \<Rightarrow> int list" where
  "next_streak repo (Looked now r) s = (if r = repo \<and> 3 \<le> length s \<and> hd s + 60 * 1000 \<le> now then [] else s)"
| "next_streak repo (Failed_at now r) s = (if r = repo then now # s else s)"
| "next_streak repo (Succeeded r) s = (if r = repo then [] else s)"

definition streak :: "string \<Rightarrow> circuit_event list \<Rightarrow> int list" where
  "streak repo es = fold (next_streak repo) es []"

definition circuit_counts :: "int list \<Rightarrow> circuit \<Rightarrow> bool" where
  "circuit_counts s c \<longleftrightarrow> ci_failures c = length s \<and> list_all (\<lambda>t. 0 \<le> t) s
     \<and> ci_openUntil c = (if 3 \<le> length s then hd s + CIRCUIT_RESET_MS else 0)"

lemma streak_step:
  assumes "circuit_counts s (getCircuitState repo b)" "repo \<noteq> ''''" "case e of Failed_at t r \<Rightarrow> 0 \<le> t | _ \<Rightarrow> True"
  shows "circuit_counts (next_streak repo e s) (getCircuitState repo (circuit_step e b))"
  using assms by (cases e; cases s)
    (auto simp: circuit_counts_def look_state failure_state success_state Let_def CIRCUIT_THRESHOLD_def CIRCUIT_RESET_MS_def)

lemma circuit_streak:
  assumes "repo \<noteq> ''''" "list_all (\<lambda>e. case e of Failed_at t r \<Rightarrow> 0 \<le> t | _ \<Rightarrow> True) es"
  shows "circuit_counts (streak repo es) (getCircuitState repo (fold circuit_step es new_bridge))"
  using assms(2)
proof (induction es rule: rev_induct)
  case Nil
  then show ?case by (simp add: circuit_counts_def getCircuitState_def new_bridge_def streak_def)
next
  case (snoc e es)
  then show ?case using streak_step [OF _ assms(1), of "streak repo es" _ e] by (simp add: streak_def)
qed

text \<open>What the requests of a call do to the circuits, once it has looked: nothing, or one failure or one success of its repository.\<close>

lemma spawn_ends: "snd (snd (spawn_loop now repo k rs b)) \<in> {b, ao_audit ''spawn'' ''failed'' repo b,
     ao_audit ''spawn'' ''failed'' repo (recordFailure now repo b), ao_audit ''spawn'' ''success'' repo (recordSuccess repo b)}"
  by (induction now repo k rs b rule: spawn_loop.induct) (auto simp: Let_def split: sum.splits ao_reply.splits)

lemma batch_ends: "snd (snd (batch_loop now repo k rs b)) \<in> {b,
     ao_audit ''batch-spawn'' ''failed'' repo (recordFailure now repo b), ao_audit ''batch-spawn'' ''success'' repo (recordSuccess repo b)}"
  by (induction now repo k rs b rule: batch_loop.induct) (auto simp: Let_def split: sum.splits ao_reply.splits)

text \<open>A call that succeeds without overlap never announces the recovery: its look has already closed the circuit.\<close>

lemma recovery_is_not_announced:
  assumes "repo \<noteq> ''''"
  shows "ab_changes (snd (ao_spawn now1 now2 repo rs b)) \<in> {ab_changes b, ab_changes b @ [(repo, True)]}"
proof -
  have look: "ab_changes (snd (isCircuitOpen now1 (Some repo) b)) = ab_changes b"
    by (cases repo) (auto simp: isCircuitOpen_def Let_def set_circuit_def)
  have closed: "\<not> (0 < ci_openUntil c \<and> CIRCUIT_THRESHOLD \<le> ci_failures c)"
    if "\<not> fst (isCircuitOpen now1 (Some repo) b)" "c = getCircuitState repo (snd (isCircuitOpen now1 (Some repo) b))" "repo \<noteq> []" for c
    using that by (auto simp: look_open look_state Let_def)
  show ?thesis
    using look closed [OF _ refl assms] spawn_ends [of now2 repo 0 rs "snd (isCircuitOpen now1 (Some repo) b)"]
    by (auto simp: ao_spawn_def recordFailure_def recordSuccess_def ao_audit_def set_circuit_def Let_def split: prod.splits if_splits)
qed

text \<open>A reply that does not parse is an exception like a broken connection: the spawn that was accepted is posted again.\<close>

lemma accepted_spawn_is_posted_twice:
  "fst (snd (spawn_loop 0 ''o/r'' 0 [Http 202 '''' (Inl ''Unexpected end of JSON input''), Http 202 '''' (Inr \<lparr>sr_id = ''s2'', sr_status = ''spawning'', sr_error = None\<rparr>)]
     new_bridge)) = 2"
  by code_simp

text \<open>A refused request counts against the service in a batch, and not otherwise.\<close>

lemma refused_batches_open_the_circuit:
  "let refuse = (\<lambda>b. snd (ao_batchSpawn 5 5 ''o/r'' [Http 400 ''bad'' (Inl '''')] b)); refuse1 = (\<lambda>b. snd (ao_spawn 5 5 ''o/r'' [Http 400 ''bad'' (Inl '''')] b))
   in fst (isCircuitOpen 6 (Some ''o/r'') (refuse (refuse (refuse new_bridge)))) \<and> \<not> fst (isCircuitOpen 6 (Some ''o/r'') (refuse1 (refuse1 (refuse1 new_bridge))))"
  by code_simp

section \<open>The queue of directives\<close>

locale redis_pops = redis_lists R for R :: "'s redis" +
  fixes pop :: "'s popper"
  assumes lpop: "pop k s = (x, s1) \<Longrightarrow> x = (case LRANGE R k s of [] \<Rightarrow> None | y # ys \<Rightarrow> Some y) \<and> LRANGE R k s1 = tl (LRANGE R k s)"
begin

definition waiting_directives :: "'s \<Rightarrow> string list" where
  "waiting_directives s = LRANGE R PENDING_DIRECTIVES_KEY s"

lemma enqueue_waits:
  "enqueueDirective R stamp request s = (b, s1) \<Longrightarrow> b = (length (waiting_directives s) < MAX_DIRECTIVES)
     \<and> waiting_directives s1 = waiting_directives s @ (if b then [directive_text request stamp] else [])"
  by (auto simp: enqueueDirective_def enqueue_write_def directive_depth_def waiting_directives_def lrange_expire lrange_rpush DIRECTIVES_TTL_SECONDS_def
      split: if_splits)

lemma drain_all:
  "length (waiting_directives s) = n \<Longrightarrow> list_all (\<lambda>t. t \<noteq> '''') (waiting_directives s) \<Longrightarrow> directive_drain pop n s = (ds, s1)
     \<Longrightarrow> ds = List.map_filter json_parse (waiting_directives s) \<and> waiting_directives s1 = []"
proof (induction n arbitrary: s ds s1)
  case (Suc n)
  obtain t ts where w: "waiting_directives s = t # ts" using Suc.prems(1) by (cases "waiting_directives s") auto
  obtain x s2 where p: "pop PENDING_DIRECTIVES_KEY s = (x, s2)" by fastforce
  with lpop [OF p] w have x: "x = Some t" "waiting_directives s2 = ts" by (auto simp: waiting_directives_def)
  obtain ds2 s3 where d: "directive_drain pop n s2 = (ds2, s3)" by fastforce
  have "ds2 = List.map_filter json_parse ts \<and> waiting_directives s3 = []"
    using Suc.IH [OF _ _ d] Suc.prems w x by auto
  with Suc.prems w x p d show ?case by (auto simp: map_filter_simps split: option.splits)
qed (simp add: map_filter_simps)

lemma overlapping_enqueues_overfill:
  assumes "length (waiting_directives s) = 49"
  shows "length (waiting_directives (snd (enqueue_write R x2 r2 (directive_depth R s) (snd (enqueue_write R x1 r1 (directive_depth R s) s))))) = 51"
  using assms by (simp add: enqueue_write_def directive_depth_def waiting_directives_def lrange_expire lrange_rpush DIRECTIVES_TTL_SECONDS_def MAX_DIRECTIVES_def)

end

text \<open>Calls of the queue, and the expiry of the list; what left the queue is kept, with whether it expired.\<close>

datatype directive_call = Dc_enqueue string json | Dc_drain | Dc_expire

definition queued_directive :: "string \<Rightarrow> json \<Rightarrow> json" where
  "queued_directive stamp request = JObj [(''request'', request), (''enqueuedAt'', JStr stamp)]"

fun dq_step :: "'s redis \<Rightarrow> 's popper \<Rightarrow> directive_call \<Rightarrow> 's \<times> json list \<times> (bool \<times> json) list \<Rightarrow> 's \<times> json list \<times> (bool \<times> json) list" where
  "dq_step R pop (Dc_enqueue stamp request) (s, accepted, gone) =
     (let (b, s1) = enqueueDirective R stamp request s in (s1, if b then accepted @ [queued_directive stamp request] else accepted, gone))"
| "dq_step R pop Dc_drain (s, accepted, gone) = (let (ds, s1) = drainDirectives R pop s in (s1, accepted, gone @ map (Pair False) ds))"
| "dq_step R pop Dc_expire (s, accepted, gone) =
     (snd (DEL R PENDING_DIRECTIVES_KEY s), accepted, gone @ map (Pair True) (fst (drainDirectives R pop s)))"

definition dq_run :: "'s redis \<Rightarrow> 's popper \<Rightarrow> directive_call list \<Rightarrow> 's \<Rightarrow> 's \<times> json list \<times> (bool \<times> json) list" where
  "dq_run R pop cs s = fold (dq_step R pop) cs (s, [], [])"

fun plain_call :: "directive_call \<Rightarrow> bool" where
  "plain_call (Dc_enqueue stamp request) = json_plain request"
| "plain_call _ = True"

context redis_pops
begin

definition dq_ok :: "'s \<times> json list \<times> (bool \<times> json) list \<Rightarrow> bool" where
  "dq_ok x = (case x of (s, accepted, gone) \<Rightarrow> length (waiting_directives s) \<le> MAX_DIRECTIVES \<and> list_all (\<lambda>t. t \<noteq> '''') (waiting_directives s)
     \<and> accepted = map snd gone @ List.map_filter json_parse (waiting_directives s))"

lemma directive_reads: "json_plain request \<Longrightarrow> json_parse (directive_text request stamp) = Some (queued_directive stamp request)"
  unfolding directive_text_def queued_directive_def by (rule json_parse_stringify) simp

lemma directive_nonempty: "directive_text request stamp \<noteq> ''''"
  by (simp add: directive_text_def)

lemma drain_directives:
  assumes "list_all (\<lambda>t. t \<noteq> '''') (waiting_directives s)"
  shows "fst (drainDirectives R pop s) = List.map_filter json_parse (waiting_directives s)" "waiting_directives (snd (drainDirectives R pop s)) = []"
proof -
  obtain ds s1 where d: "directive_drain pop (directive_depth R s) s = (ds, s1)" by fastforce
  from drain_all [OF _ assms d] show "fst (drainDirectives R pop s) = List.map_filter json_parse (waiting_directives s)"
    "waiting_directives (snd (drainDirectives R pop s)) = []" using d by (simp_all add: drainDirectives_def directive_depth_def waiting_directives_def)
qed

lemma map_filter_append: "List.map_filter f (xs @ ys) = List.map_filter f xs @ List.map_filter f ys"
  by (induction xs) (simp_all add: map_filter_simps split: option.splits)

lemma dq_step_ok: "dq_ok x \<Longrightarrow> plain_call c \<Longrightarrow> dq_ok (dq_step R pop c x)"
proof -
  assume ok: "dq_ok x" and p: "plain_call c"
  obtain s acc gone where x: "x = (s, acc, gone)" by (metis prod_cases3)
  with ok have ne: "list_all (\<lambda>t. t \<noteq> '''') (waiting_directives s)" by (simp add: dq_ok_def)
  show ?thesis
  proof (cases c)
    case (Dc_enqueue stamp request)
    obtain b s1 where e: "enqueueDirective R stamp request s = (b, s1)" by fastforce
    from enqueue_waits [OF e] ok p x e Dc_enqueue directive_reads [of request stamp] show ?thesis
      by (auto simp: dq_ok_def directive_nonempty map_filter_append map_filter_simps)
  next
    case Dc_drain
    with drain_directives [OF ne] ok x show ?thesis by (auto simp: dq_ok_def map_filter_simps comp_def split: prod.splits)
  next
    case Dc_expire
    obtain n s1 where "DEL R PENDING_DIRECTIVES_KEY s = (n, s1)" by fastforce
    with lrange_del [OF this, of PENDING_DIRECTIVES_KEY] drain_directives [OF ne] ok x Dc_expire show ?thesis
      by (auto simp: dq_ok_def map_filter_simps comp_def waiting_directives_def)
  qed
qed

lemma dq_run_ok: "waiting_directives s = [] \<Longrightarrow> list_all plain_call cs \<Longrightarrow> dq_ok (dq_run R pop cs s)"
proof (induction cs rule: rev_induct)
  case Nil
  then show ?case by (simp add: dq_run_def dq_ok_def map_filter_simps)
next
  case (snoc c cs)
  then show ?case by (simp add: dq_run_def dq_step_ok)
qed

end

section \<open>A reference server\<close>

definition ref_pop :: "ref_db popper" where
  "ref_pop k s = (case db_lists s k of [] \<Rightarrow> (None, s) | x # xs \<Rightarrow> (Some x, s\<lparr>db_lists := (db_lists s)(k := xs)\<rparr>))"

interpretation ref_pops: redis_pops ref_redis ref_pop
  by unfold_locales (auto simp: ref_redis_def ref_pop_def split: list.splits)

section \<open>Properties\<close>

lemma three_failures: "3 \<le> length (takeWhile (\<lambda>r. r \<noteq> None) rs) \<Longrightarrow> \<exists>x3 x2 x1 rest. rs = Some x3 # Some x2 # Some x1 # (rest :: 'a option list)"
proof -
  assume l: "3 \<le> length (takeWhile (\<lambda>r. r \<noteq> None) rs)"
  then obtain x3 rs1 where 1: "rs = Some x3 # rs1" by (cases rs) (auto split: if_splits)
  with l obtain x2 rs2 where 2: "rs1 = Some x2 # rs2" by (cases rs1) (auto split: if_splits)
  with 1 l obtain x1 rest where "rs2 = Some x1 # rest" by (cases rs2) (auto split: if_splits)
  with 1 2 show ?thesis by blast
qed

text \<open>
  C37: the circuit of a repository is open exactly when its streak of failures is at least three long and the last failure of it is less than a
  minute old, however calls overlap.  The streak is read off the events alone: a failure of the repository lengthens it, a success ends it,
  and so does a look at the circuit a minute or more after the failure that opened it; looks before do not touch it, so that a spawn that
  looks, fails, looks, fails, looks and fails finds the circuit open next.  When a spawn is refused the last three results of the
  repository are failures.  Times are milliseconds since 1970, not negative.
\<close>
theorem circuit_opens_for_a_reason:
  fixes es repo
  defines "b \<equiv> fold circuit_step es new_bridge"
  assumes "repo \<noteq> ''''" and "list_all (\<lambda>e. case e of Failed_at t r \<Rightarrow> 0 \<le> t | _ \<Rightarrow> True) es" and "0 \<le> now"
  shows "(fst (isCircuitOpen now (Some repo) b) \<longleftrightarrow> 3 \<le> length (streak repo es) \<and> now < hd (streak repo es) + 60 * 1000)
    \<and> (fst (isCircuitOpen now (Some repo) b) \<longrightarrow>
       (\<exists>t3 t2 t1 rest. results repo es = Some t3 # Some t2 # Some t1 # rest \<and> now < t3 + 60 * 1000))"
proof (intro conjI impI)
  let ?c = "getCircuitState repo b"
  from circuit_streak [OF assms(2,3)] show "fst (isCircuitOpen now (Some repo) b) \<longleftrightarrow> 3 \<le> length (streak repo es) \<and> now < hd (streak repo es) + 60 * 1000"
    using assms(2,4) by (auto simp: look_open b_def circuit_counts_def CIRCUIT_THRESHOLD_def CIRCUIT_RESET_MS_def)
  assume "fst (isCircuitOpen now (Some repo) b)"
  with assms(4) have o: "0 \<le> now" "CIRCUIT_THRESHOLD \<le> ci_failures ?c" "now < ci_openUntil ?c" by (simp_all add: look_open)
  have ok: "circuit_ok (results repo es) ?c" unfolding b_def by (rule circuit_run_ok)
  with o have l: "3 \<le> length (takeWhile (\<lambda>r. r \<noteq> None) (results repo es))" by (simp add: circuit_ok_def CIRCUIT_THRESHOLD_def)
  obtain x3 x2 x1 rest where r: "results repo es = Some x3 # Some x2 # Some x1 # rest" using three_failures [OF l] by blast
  show "\<exists>t3 t2 t1 rest. results repo es = Some t3 # Some t2 # Some t1 # rest \<and> now < t3 + 60 * 1000"
    using ok o r by (auto simp: circuit_ok_def CIRCUIT_RESET_MS_def)
qed

definition sample_circuit :: "circuit_event list" where
  "sample_circuit = [Looked 1 ''o/r'', Failed_at 1 ''o/r'', Looked 2 ''o/r'', Failed_at 2 ''o/r'', Failed_at 2 ''o/s'', Looked 3 ''o/r'', Failed_at 3 ''o/r'']"

theorem circuit_opens_for_a_reason_witness:
  "fst (isCircuitOpen 60002 (Some ''o/r'') (fold circuit_step sample_circuit new_bridge))
   \<and> \<not> fst (isCircuitOpen 60003 (Some ''o/r'') (fold circuit_step sample_circuit new_bridge))
   \<and> \<not> fst (isCircuitOpen 4 (Some ''o/r'') (fold circuit_step (sample_circuit @ [Looked 70000 ''o/r'', Failed_at 70001 ''o/r'']) new_bridge))"
  using circuit_opens_for_a_reason [of "''o/r''" sample_circuit 60002] circuit_opens_for_a_reason [of "''o/r''" sample_circuit 60003]
    circuit_opens_for_a_reason [of "''o/r''" "sample_circuit @ [Looked 70000 ''o/r'', Failed_at 70001 ''o/r'']" 4]
  by (simp add: sample_circuit_def streak_def CIRCUIT_RESET_MS_def)

text \<open>
  Directives are replayed once and in the order they were queued, and at most fifty wait: in any sequence of enqueues, drains and expiries, the directives that were
  accepted are those replayed or expired, followed by what the next drain will return.
\<close>
theorem directives_replayed_in_order:
  assumes "redis_pops R pop" "LRANGE R PENDING_DIRECTIVES_KEY s0 = []" "list_all plain_call cs" "dq_run R pop cs s0 = (s, accepted, gone)"
  shows "accepted = map snd gone @ fst (drainDirectives R pop s) \<and> directive_depth R s \<le> MAX_DIRECTIVES"
proof -
  note L = redis_pops.waiting_directives_def [OF assms(1)]
  have ok: "redis_pops.dq_ok R (s, accepted, gone)"
    using redis_pops.dq_run_ok [OF assms(1) _ assms(3), of s0] assms(2,4) by (simp add: L)
  then have "list_all (\<lambda>t. t \<noteq> '''') (redis_pops.waiting_directives R s)" by (simp add: redis_pops.dq_ok_def [OF assms(1)])
  from redis_pops.drain_directives(1) [OF assms(1) this] ok show ?thesis
    by (simp add: redis_pops.dq_ok_def [OF assms(1)] directive_depth_def L)
qed

definition sample_directives :: "directive_call list" where
  "sample_directives = [Dc_enqueue ''t1'' (JObj [(''repo'', JStr ''o/r''), (''issueNumber'', JNum 1)]), Dc_enqueue ''t2'' (JObj [(''repo'', JStr ''o/r'')]),
     Dc_drain, Dc_enqueue ''t3'' (JObj [(''repo'', JStr ''o/s'')])]"

theorem directives_replayed_in_order_witness:
  "case dq_run ref_redis ref_pop sample_directives db_empty of (s, accepted, gone) \<Rightarrow>
     accepted = map snd gone @ fst (drainDirectives ref_redis ref_pop s) \<and> directive_depth ref_redis s \<le> MAX_DIRECTIVES"
proof -
  obtain s accepted gone where r: "dq_run ref_redis ref_pop sample_directives db_empty = (s, accepted, gone)" by (metis prod_cases3)
  have "LRANGE ref_redis PENDING_DIRECTIVES_KEY db_empty = []" by (simp add: ref_redis_def db_empty_def)
  moreover have "list_all plain_call sample_directives" by (simp add: sample_directives_def)
  ultimately show ?thesis using directives_replayed_in_order [OF ref_pops.redis_pops_axioms _ _ r] r by simp
qed

end
