(* ===== verification/Discord.thy ===== *)
theory Discord
  imports Routing Redis Regex
begin

text \<open>
  The executor of Discord actions (\<open>packages/core/src/actions/discord/\<close>) and the adapter it posts through
  (\<open>adapters/channels/DiscordChannelAdapter.ts\<close>): channels, fingerprints and limits over the server interface of
  \<open>Redis\<close>, webhooks, threads and chunks, messages, alerts, reactions and histories.

  The client library and the service are an argument that answers each call, from the calls made before it; every
  call is kept, in order.  The methods of the adapter are those of its class, so the tests whether it has them are
  left out, as are log lines, the connection of the client and the encoding of the request.  Characters beyond the code
  unit 255 stand as names between colons, as emoji do in \<open>Routing\<close>; arguments of an action that are to be texts
  are texts.  An operation with an option as its result does not return when that is \<open>None\<close>.
\<close>

section \<open>Chunks\<close>

text \<open>\<open>s.lastIndexOf(c, n)\<close>; \<open>None\<close> stands for -1.\<close>

fun last_index :: "char \<Rightarrow> string \<Rightarrow> nat option" where
  "last_index c [] = None"
| "last_index c (x # xs) = (case last_index c xs of
     Some i \<Rightarrow> Some (Suc i)
   | None \<Rightarrow> (if x = c then Some 0 else None))"

definition lastIndexOf :: "string \<Rightarrow> char \<Rightarrow> nat \<Rightarrow> nat option" where
  "lastIndexOf s c n = last_index c (take (Suc n) s)"

text \<open>\<open>breakAt < maxLen * (k / 10)\<close>, where -1 is below everything.\<close>

definition index_below :: "nat option \<Rightarrow> nat \<Rightarrow> nat \<Rightarrow> bool" where
  "index_below i k maxLen = (case i of None \<Rightarrow> True | Some b \<Rightarrow> 10 * b < k * maxLen)"

definition break_at :: "string \<Rightarrow> nat \<Rightarrow> nat" where
  "break_at remaining maxLen =
     (let b0 = lastIndexOf remaining (CHR 0x0A) maxLen;
          b1 = (if index_below b0 5 maxLen then lastIndexOf remaining (CHR '' '') maxLen else b0)
      in if index_below b1 3 maxLen then maxLen else the b1)"

partial_function (option) chunk_loop :: "nat \<Rightarrow> string list \<Rightarrow> string \<Rightarrow> string list option" where
  "chunk_loop maxLen chunks remaining =
     (if remaining = [] then Some chunks
      else if length remaining \<le> maxLen then Some (chunks @ [remaining])
      else (let b = break_at remaining maxLen
            in chunk_loop maxLen (chunks @ [take b remaining]) (dropWhile js_space (drop b remaining))))"

declare chunk_loop.simps [code]

definition chunkText :: "string \<Rightarrow> nat \<Rightarrow> string list option" where
  "chunkText text maxLen = (if length text \<le> maxLen then Some [text] else chunk_loop maxLen [] text)"

section \<open>Fingerprints\<close>

text \<open>
  \<open>s.replace(r, f)\<close> with the \<open>g\<close> flag, for expressions that match no empty text and whose greedy match is the longest,
  as in those below.
\<close>

definition longest_end :: "position list \<Rightarrow> nat option" where
  "longest_end ys = (if ys = [] then None else Some (Min (set (map (\<lambda>y. length (snd y)) ys))))"

function rx_replace :: "rx \<Rightarrow> (string \<Rightarrow> string) \<Rightarrow> char option \<Rightarrow> string \<Rightarrow> string" where
  "rx_replace r f p s = (case s of [] \<Rightarrow> []
     | c # t \<Rightarrow> (case longest_end (ends r (p, s)) of
          Some n \<Rightarrow> (if n < length s
              then (let m = take (length s - n) s in f m @ rx_replace r f (Some (last m)) (drop (length s - n) s))
              else c # rx_replace r f (Some c) t)
        | None \<Rightarrow> c # rx_replace r f (Some c) t))"
  by pat_completeness auto
termination by (relation "measure (\<lambda>(r, f, p, s). length s)") auto

declare rx_replace.simps [simp del]

definition digit_rx :: rx where "digit_rx = One True [(CHR ''0'', CHR ''9'')]"
definition hexes :: "nat \<Rightarrow> rx" where "hexes n = times_rx n (One True [(CHR ''0'', CHR ''9''), (CHR ''a'', CHR ''f'')])"

definition upto_times :: "nat \<Rightarrow> rx \<Rightarrow> rx" where
  "upto_times n r = times_rx n (opt_rx r)"

definition DEP_ID_RX :: rx where
  "DEP_ID_RX = cats [lit ''dep-'', plus_rx digit_rx, lit ''-'', plus_rx (One True [(CHR ''a'', CHR ''z''), (CHR ''0'', CHR ''9'')])]"

definition UUID_RX :: rx where
  "UUID_RX = cats [hexes 8, lit ''-'', hexes 4, lit ''-'', hexes 4, lit ''-'', hexes 4, lit ''-'', hexes 12]"

definition TIMESTAMP_RX :: rx where
  "TIMESTAMP_RX = cats [times_rx 4 digit_rx, lit ''-'', times_rx 2 digit_rx, lit ''-'', times_rx 2 digit_rx, any_of ''tT '',
     times_rx 2 digit_rx, lit '':'', times_rx 2 digit_rx,
     Star (One True [(CHR '':'', CHR '':''), (CHR ''0'', CHR ''9''), (CHR ''.'', CHR ''.'')])]"

definition COMMIT_RX :: rx where
  "COMMIT_RX = cats [lit [CHR 0x60], hexes 7, upto_times 5 (One True [(CHR ''a'', CHR ''f''), (CHR ''0'', CHR ''9'')]), lit [CHR 0x60]]"

definition TIME_RX :: rx where
  "TIME_RX = cats [times_rx 2 digit_rx, lit '':'', times_rx 2 digit_rx, opt_rx (cats [lit '':'', times_rx 2 digit_rx]),
     opt_rx (cats [lit ''.'', plus_rx digit_rx])]"

definition COUNT_RX :: rx where
  "COUNT_RX = cats [plus_rx digit_rx, lit '' '', ors (map lit [''task'', ''minute'', ''hour'', ''day'', ''pr'', ''issue''])]"

definition SNOWFLAKE_RX :: rx where
  "SNOWFLAKE_RX = cats [Wordb, times_rx 17 digit_rx, upto_times 3 digit_rx, Wordb]"

text \<open>\<open>'N $1'\<close>: what follows the number and its space.\<close>

definition count_text :: "string \<Rightarrow> string" where
  "count_text m = ''N '' @ tl (dropWhile is_digit m)"

definition normalized :: "string \<Rightarrow> string" where
  "normalized text = js_trim
     (rx_replace SNOWFLAKE_RX (\<lambda>m. ''SNOWFLAKE'') None
     (rx_replace COUNT_RX count_text None
     (rx_replace TIME_RX (\<lambda>m. ''TIME'') None
     (rx_replace COMMIT_RX (\<lambda>m. [CHR 0x60] @ ''COMMIT'' @ [CHR 0x60]) None
     (rx_replace TIMESTAMP_RX (\<lambda>m. ''TIMESTAMP'') None
     (rx_replace UUID_RX (\<lambda>m. ''UUID'') None
     (rx_replace DEP_ID_RX (\<lambda>m. ''dep-ID'') None (to_lower text))))))))"

definition post_fingerprint :: "(string \<Rightarrow> string) \<Rightarrow> string \<Rightarrow> string \<Rightarrow> string" where
  "post_fingerprint sha256 channel text = take 32 (sha256 (channel @ '':'' @ normalized text))"

section \<open>Calls of the client and the environment\<close>

datatype discord_call =
    Webhook_send string string string "string option"
  | Webhook_execute string string string string "string option"
  | Channels_fetch string
  | Channel_send string string "string option"
  | Messages_fetch string int
  | Message_fetch string string
  | Start_thread string string string
  | Message_react string string string

text \<open>
  \<open>Webhook_send url content username thread\<close>, \<open>Webhook_execute id token content username thread\<close>,
  \<open>Channels_fetch channel\<close>, \<open>Channel_send channel content repliedTo\<close>, \<open>Messages_fetch channel limit\<close>,
  \<open>Message_fetch channel message\<close>, \<open>Start_thread channel message name\<close>, \<open>Message_react channel message emoji\<close>;
  the answer is a value, or the text of an error.
\<close>

record webhooks =
  wm_initialized :: bool
  wm_clients :: "(string, string) jsmap"
  wm_credentials :: "(string, string \<times> string) jsmap"
  wm_channels :: "(string, string) jsmap"

record 'r discord =
  ds_connected :: bool
  ds_webhooks :: webhooks
  ds_calls :: "discord_call list"
  ds_redis :: 'r

text \<open>
  The environment: variables, identities, the hash, the UTC hour and the ISO text of a time, the server (or none) and
  the times at which its commands are rejected, the URLs the client library takes, and the answers.
\<close>

record 'r discord_env =
  de_getenv :: "string \<Rightarrow> string option"
  de_agents :: agent_registry
  de_sha256 :: "string \<Rightarrow> string"
  de_hour :: "int \<Rightarrow> string"
  de_iso :: "int \<Rightarrow> string"
  de_server :: "'r redis option"
  de_fails :: "int \<Rightarrow> bool"
  de_client_ok :: "string \<Rightarrow> bool"
  de_answer :: "discord_call list \<Rightarrow> discord_call \<Rightarrow> string + json"

definition client_call :: "'r discord_env \<Rightarrow> discord_call \<Rightarrow> 'r discord \<Rightarrow> (string + json) \<times> 'r discord" where
  "client_call E c st = (de_answer E (ds_calls st) c, st\<lparr>ds_calls := ds_calls st @ [c]\<rparr>)"

section \<open>Channels\<close>

definition is_snowflake :: "string \<Rightarrow> bool" where
  "is_snowflake s \<longleftrightarrow> 17 \<le> length s \<and> length s \<le> 20 \<and> list_all is_digit s"

definition resolveChannelId :: "'r discord_env \<Rightarrow> string \<Rightarrow> string + string" where
  "resolveChannelId E input =
     (let trimmed = js_trim input in
      if is_snowflake trimmed then Inr trimmed
      else (case getChannelForDepartment (de_getenv E) trimmed ''discord'' of
          Some c \<Rightarrow> Inr c
        | None \<Rightarrow> (case getChannelForAgent (de_getenv E) (de_agents E) trimmed ''discord'' of
            Some c \<Rightarrow> Inr c
          | None \<Rightarrow> (case getChannelForDepartment (de_getenv E) ''general'' ''discord'' of
              Some c \<Rightarrow> Inr c
            | None \<Rightarrow> Inl (''Unknown Discord channel: '' @ [CHR 0x22] @ input @ [CHR 0x22]
                @ ''. Set DISCORD_CHANNEL_<DEPT> env vars or use a snowflake ID.'')))))"

section \<open>Limits\<close>

definition CHANNEL_COOLDOWN_S :: int where "CHANNEL_COOLDOWN_S = 30"
definition THREAD_COOLDOWN_S :: int where "THREAD_COOLDOWN_S = 15"
definition HOURLY_CAP :: int where "HOURLY_CAP = 20"
definition HOURLY_WINDOW_S :: int where "HOURLY_WINDOW_S = 3600"
definition DEDUP_TTL_S :: int where "DEDUP_TTL_S = 3600"

definition DEDUP_PREFIX :: string where "DEDUP_PREFIX = ''discord:dedup:''"
definition COOLDOWN_PREFIX :: string where "COOLDOWN_PREFIX = ''discord:cooldown:''"
definition COOLDOWN_THREAD_PREFIX :: string where "COOLDOWN_THREAD_PREFIX = ''discord:cooldown:thread:''"
definition HOURLY_PREFIX :: string where "HOURLY_PREFIX = ''discord:hourly:''"

text \<open>Whether the key was there; a rejected command counts as no duplicate.\<close>

definition isDuplicate :: "'r discord_env \<Rightarrow> int \<Rightarrow> string \<Rightarrow> string \<Rightarrow> 'r discord \<Rightarrow> bool \<times> 'r discord" where
  "isDuplicate E now channelId text st = (case de_server E of
     None \<Rightarrow> (False, st)
   | Some R \<Rightarrow>
       (let key = DEDUP_PREFIX @ post_fingerprint (de_sha256 E) channelId text in
        if de_fails E now then (False, st)
        else (let (new, s1) = SETNX R key DEDUP_TTL_S (ds_redis st) in (\<not> new, st\<lparr>ds_redis := s1\<rparr>))))"

text \<open>The script: what it returns; \<open>None\<close> when it ends with an error, on a counter that is no number.\<close>

definition rate_limit_script ::
  "'r redis \<Rightarrow> string \<Rightarrow> string \<Rightarrow> int \<Rightarrow> int \<Rightarrow> int \<Rightarrow> 'r \<Rightarrow> string option \<times> 'r" where
  "rate_limit_script R hourKey cooldownKey cap cooldownSeconds windowSeconds s = (case counter R hourKey s of
     None \<Rightarrow> (None, s)
   | Some hourCount \<Rightarrow>
       (if hourCount \<ge> cap then (Some ''hourly_cap'', s)
        else (let (cooldownSet, s1) = SETNX R cooldownKey cooldownSeconds s in
          if \<not> cooldownSet then (Some ''cooldown'', s1)
          else (let (newHourCount, s2) = INCRBY R hourKey 1 s1;
                    s3 = (if newHourCount = 1 then EXPIRE R hourKey windowSeconds s2 else s2)
                in (Some ''ok'', s3)))))"

definition hour_key :: "'r discord_env \<Rightarrow> int \<Rightarrow> string \<Rightarrow> string" where
  "hour_key E now agentName = HOURLY_PREFIX @ agentName @ '':'' @ de_hour E now"

definition checkRateLimits ::
  "'r discord_env \<Rightarrow> int \<Rightarrow> string \<Rightarrow> string \<Rightarrow> int \<Rightarrow> string \<Rightarrow> 'r redis \<Rightarrow> 'r discord \<Rightarrow> string option \<times> 'r discord" where
  "checkRateLimits E now agentName cooldownKey cooldownSeconds cooldownMessage R st =
     (if de_fails E now then (None, st)
      else (case rate_limit_script R (hour_key E now agentName) cooldownKey HOURLY_CAP cooldownSeconds HOURLY_WINDOW_S (ds_redis st) of
          (None, s1) \<Rightarrow> (None, st\<lparr>ds_redis := s1\<rparr>)
        | (Some result, s1) \<Rightarrow>
            (if result = ''ok'' then None
             else if result = ''hourly_cap'' then Some (''global hourly cap of '' @ dec_int HOURLY_CAP @ '' msgs reached for '' @ agentName)
             else if result = ''cooldown'' then Some cooldownMessage
             else None, st\<lparr>ds_redis := s1\<rparr>)))"

definition checkChannelRateLimits :: "'r discord_env \<Rightarrow> int \<Rightarrow> string \<Rightarrow> string \<Rightarrow> 'r discord \<Rightarrow> string option \<times> 'r discord" where
  "checkChannelRateLimits E now agentName channelId st = (case de_server E of
     None \<Rightarrow> (None, st)
   | Some R \<Rightarrow> checkRateLimits E now agentName (COOLDOWN_PREFIX @ agentName @ '':'' @ channelId) CHANNEL_COOLDOWN_S
       (''channel cooldown active ('' @ dec_int CHANNEL_COOLDOWN_S @ ''s) for '' @ agentName @ '' in '' @ channelId) R st)"

definition checkThreadRateLimits :: "'r discord_env \<Rightarrow> int \<Rightarrow> string \<Rightarrow> string \<Rightarrow> 'r discord \<Rightarrow> string option \<times> 'r discord" where
  "checkThreadRateLimits E now agentName threadId st = (case de_server E of
     None \<Rightarrow> (None, st)
   | Some R \<Rightarrow> checkRateLimits E now agentName (COOLDOWN_THREAD_PREFIX @ agentName @ '':'' @ threadId) THREAD_COOLDOWN_S
       (''thread cooldown active ('' @ dec_int THREAD_COOLDOWN_S @ ''s) for '' @ agentName @ '' in '' @ threadId) R st)"

section \<open>Webhooks\<close>

definition WEBHOOK_DEPARTMENTS :: "string list" where
  "WEBHOOK_DEPARTMENTS = [''executive'', ''development'', ''operations'', ''marketing'', ''finance'', ''support'',
     ''audit'', ''alerts'', ''general'']"

definition webhook_path :: string where "webhook_path = ''/webhooks/''"

definition webhook_token_char :: "char \<Rightarrow> bool" where
  "webhook_token_char c \<longleftrightarrow> is_word (Some c) \<or> c = CHR ''-''"

text \<open>The first match of \<open>/webhooks/(\d+)/([A-Za-z0-9_-]+)\<close>: its two groups.\<close>

fun webhook_match :: "string \<Rightarrow> (string \<times> string) option" where
  "webhook_match url =
     (let rest = drop (length webhook_path) url; i = takeWhile is_digit rest; rest2 = dropWhile is_digit rest;
          token = takeWhile webhook_token_char (tl rest2)
      in if starts_with url webhook_path \<and> i \<noteq> [] \<and> starts_with rest2 ''/'' \<and> token \<noteq> [] then Some (i, token)
         else (case url of [] \<Rightarrow> None | c # u \<Rightarrow> webhook_match u))"

declare webhook_match.simps [simp del]

definition env_text :: "'r discord_env \<Rightarrow> string \<Rightarrow> string" where
  "env_text E name = (case map_option js_trim (de_getenv E name) of None \<Rightarrow> [] | Some t \<Rightarrow> t)"

text \<open>A text that is absent or empty does not count.\<close>

definition non_empty :: "string option \<Rightarrow> string option" where
  "non_empty t = (case t of Some (c # cs) \<Rightarrow> Some (c # cs) | _ \<Rightarrow> None)"

definition note_channel :: "'r discord_env \<Rightarrow> string \<Rightarrow> webhooks \<Rightarrow> webhooks" where
  "note_channel E dept w = (let channelId = env_text E (''DISCORD_CHANNEL_'' @ to_upper dept)
     in if channelId \<noteq> [] then w\<lparr>wm_channels := mset_at channelId dept (wm_channels w)\<rparr> else w)"

definition note_webhook :: "'r discord_env \<Rightarrow> string \<Rightarrow> webhooks \<Rightarrow> webhooks" where
  "note_webhook E dept w = (let url = env_text E (''DISCORD_WEBHOOK_'' @ to_upper dept)
     in if url = [] then w
        else (let w1 = (case webhook_match url of Some ids \<Rightarrow> w\<lparr>wm_credentials := mset_at dept ids (wm_credentials w)\<rparr> | None \<Rightarrow> w)
              in if de_client_ok E url then w1\<lparr>wm_clients := mset_at dept url (wm_clients w1)\<rparr> else w1))"

definition webhooks_init :: "'r discord_env \<Rightarrow> 'r discord \<Rightarrow> 'r discord" where
  "webhooks_init E st = (let w = ds_webhooks st in
     if wm_initialized w then st
     else st\<lparr>ds_webhooks := fold (note_webhook E) WEBHOOK_DEPARTMENTS
            (fold (note_channel E) WEBHOOK_DEPARTMENTS (w\<lparr>wm_initialized := True\<rparr>))\<rparr>)"

definition getWebhookForChannel :: "string \<Rightarrow> webhooks \<Rightarrow> string option" where
  "getWebhookForChannel channelId w = Option.bind (mget (wm_channels w) channelId) (mget (wm_clients w))"

definition getCredentialsForChannel :: "string \<Rightarrow> webhooks \<Rightarrow> (string \<times> string) option" where
  "getCredentialsForChannel channelId w = Option.bind (mget (wm_channels w) channelId) (mget (wm_credentials w))"

text \<open>The id of the message a webhook or the bot created.\<close>

definition created_id :: "string + json \<Rightarrow> string + string option" where
  "created_id r = (case r of Inl e \<Rightarrow> Inl e | Inr v \<Rightarrow> Inr (text_arg ''id'' v))"

text \<open>The answer of the HTTP request is its status, whether that is a success, its text and its JSON.\<close>

definition executeRaw ::
  "'r discord_env \<Rightarrow> string \<times> string \<Rightarrow> string \<Rightarrow> string \<Rightarrow> string option \<Rightarrow> 'r discord \<Rightarrow> (string + string option) \<times> 'r discord" where
  "executeRaw E ids content username threadId st =
     (case client_call E (Webhook_execute (fst ids) (snd ids) content username (non_empty threadId)) st of
        (Inl e, st1) \<Rightarrow> (Inl e, st1)
      | (Inr response, st1) \<Rightarrow>
          (if get_prop ''ok'' response = JBool True then (Inr (text_arg ''id'' (get_prop ''json'' response)), st1)
           else (Inl (''Discord webhook execute failed ('' @ dec_int (case get_prop ''status'' response of JNum n \<Rightarrow> n | _ \<Rightarrow> 0) @ ''): ''
             @ take 200 (or_text (text_arg ''text'' response) [])), st1)))"

section \<open>The adapter\<close>

definition created_id_of_call :: "'r discord_env \<Rightarrow> discord_call \<Rightarrow> 'r discord \<Rightarrow> (string + string option) \<times> 'r discord" where
  "created_id_of_call E c st = (case client_call E c st of (r, st1) \<Rightarrow> (created_id r, st1))"

definition requireNonDmChannel :: "'r discord_env \<Rightarrow> string \<Rightarrow> 'r discord \<Rightarrow> (string + json) \<times> 'r discord" where
  "requireNonDmChannel E channelId st = (case client_call E (Channels_fetch channelId) st of
     (Inl e, st1) \<Rightarrow> (Inl e, st1)
   | (Inr channel, st1) \<Rightarrow>
       (if \<not> js_truthy channel then (Inl (''Channel not found: '' @ channelId), st1)
        else if get_prop ''isDMBased'' channel = JBool True then (Inl (''Discord DMs are not supported: '' @ channelId), st1)
        else (Inr channel, st1)))"

definition channel_send ::
  "'r discord_env \<Rightarrow> string \<Rightarrow> string \<Rightarrow> string option \<Rightarrow> 'r discord \<Rightarrow> (string + string option) \<times> 'r discord" where
  "channel_send E channel text replyTo st = (case created_id_of_call E (Channel_send channel text replyTo) st of
     (Inl e, st1) \<Rightarrow> (Inl (''Failed to send message: '' @ e), st1)
   | (Inr i, st1) \<Rightarrow> (Inr i, st1))"

text \<open>The thread of a message is sent to as a channel of its own.\<close>

definition adapter_send ::
  "'r discord_env \<Rightarrow> string \<Rightarrow> string option \<Rightarrow> string \<Rightarrow> string option \<Rightarrow> 'r discord \<Rightarrow> (string + string option) \<times> 'r discord" where
  "adapter_send E channelId threadId text replyTo st =
     (if \<not> ds_connected st then (Inl ''Discord adapter not connected'', st)
      else if channelId = [] then (Inl ''No channelId or userId provided'', st)
      else (case requireNonDmChannel E channelId st of
          (Inl e, st1) \<Rightarrow> (Inl (''Failed to send message: '' @ e), st1)
        | (Inr channel, st1) \<Rightarrow> (case non_empty threadId of
            None \<Rightarrow> channel_send E channelId text replyTo st1
          | Some t \<Rightarrow> (case client_call E (Channels_fetch t) st1 of
              (Inl e, st2) \<Rightarrow> (Inl (''Failed to fetch thread: '' @ t), st2)
            | (Inr thread, st2) \<Rightarrow> (if js_truthy thread then channel_send E t text replyTo st2
                else (Inl (''Thread not found: '' @ t), st2))))))"

text \<open>Errors of a reaction are logged and do not reach the caller.\<close>

definition adapter_react :: "'r discord_env \<Rightarrow> string \<Rightarrow> string \<Rightarrow> string \<Rightarrow> 'r discord \<Rightarrow> 'r discord" where
  "adapter_react E channelId messageId emoji st =
     (if \<not> ds_connected st then st
      else (case requireNonDmChannel E channelId st of
          (Inl e, st1) \<Rightarrow> st1
        | (Inr channel, st1) \<Rightarrow> (case client_call E (Message_fetch channelId messageId) st1 of
            (Inl e, st2) \<Rightarrow> st2
          | (Inr message, st2) \<Rightarrow> snd (client_call E (Message_react channelId messageId emoji) st2))))"

definition adapter_createThread ::
  "'r discord_env \<Rightarrow> string \<Rightarrow> string \<Rightarrow> string \<Rightarrow> 'r discord \<Rightarrow> (string + json) \<times> 'r discord" where
  "adapter_createThread E channelId messageId threadName st =
     (if \<not> ds_connected st then (Inl ''Discord adapter not connected'', st)
      else (case requireNonDmChannel E channelId st of
          (Inl e, st1) \<Rightarrow> (Inl e, st1)
        | (Inr channel, st1) \<Rightarrow> (case client_call E (Message_fetch channelId messageId) st1 of
            (Inl e, st2) \<Rightarrow> (Inl e, st2)
          | (Inr message, st2) \<Rightarrow> (case client_call E (Start_thread channelId messageId threadName) st2 of
              (Inl e, st3) \<Rightarrow> (Inl e, st3)
            | (Inr thread, st3) \<Rightarrow> (Inr (get_prop ''id'' thread), st3)))))"

text \<open>\<open>x ?? d\<close>.\<close>

definition json_or :: "json \<Rightarrow> json \<Rightarrow> json" where
  "json_or x d = (if x = JUndef \<or> x = JNull then d else x)"

text \<open>A property of a value that may be missing (\<open>x?.f\<close>); what is missing is undefined.\<close>

definition normalized_message :: "string \<Rightarrow> json \<Rightarrow> json" where
  "normalized_message now_iso msg = (let author = get_prop ''author'' msg in
     JObj [(''id'', get_prop ''id'' msg),
       (''author'', JObj [(''id'', json_or (get_prop ''id'' author) (JStr [])),
          (''username'', json_or (get_prop ''username'' author) (JStr [])),
          (''bot'', JBool (get_prop ''bot'' author = JBool True))]),
       (''content'', json_or (get_prop ''content'' msg) (JStr [])),
       (''createdAt'', json_or (get_prop ''createdAt'' msg) (JStr now_iso)),
       (''threadId'', json_or (get_prop ''id'' (get_prop ''thread'' msg)) JNull)])"

definition fetchChannelHistory ::
  "'r discord_env \<Rightarrow> int \<Rightarrow> string \<Rightarrow> int \<Rightarrow> 'r discord \<Rightarrow> (string + json) \<times> 'r discord" where
  "fetchChannelHistory E now channelId limit st =
     (if \<not> ds_connected st then (Inl ''Discord adapter not connected'', st)
      else (case requireNonDmChannel E channelId st of
          (Inl e, st1) \<Rightarrow> (Inl e, st1)
        | (Inr channel, st1) \<Rightarrow>
            (if get_prop ''messages'' channel \<noteq> JBool True then (Inl (''Channel '' @ channelId @ '' is not a text channel''), st1)
             else (case client_call E (Messages_fetch channelId (min (max limit 1) 100)) st1 of
                (Inl e, st2) \<Rightarrow> (Inl e, st2)
              | (Inr collection, st2) \<Rightarrow>
                  (Inr (JArr (map (normalized_message (de_iso E now)) (case collection of JArr ms \<Rightarrow> ms | _ \<Rightarrow> []))), st2)))))"

definition fetchThreadReplies ::
  "'r discord_env \<Rightarrow> int \<Rightarrow> string \<Rightarrow> int \<Rightarrow> 'r discord \<Rightarrow> (string + json) \<times> 'r discord" where
  "fetchThreadReplies E now threadId limit st = fetchChannelHistory E now threadId limit st"

section \<open>Who posts\<close>

definition DISPLAY_EMOJI :: "(string \<times> string) list" where
  "DISPLAY_EMOJI = [(''strategist'', '':brain:''), (''architect'', '':building_construction:''), (''designer'', '':art:''),
     (''reviewer'', '':mag:''), (''ember'', '':fire:''), (''treasurer'', '':moneybag:''), (''scout'', '':telescope:''),
     (''keeper'', '':shield:''), (''sentinel'', '':closed_lock_with_key:''), (''forge'', '':hammer_and_pick:''),
     (''guide'', '':blue_book:''), (''signal'', '':bar_chart:''), (''librarian'', '':books:''), (''mechanic'', '':wrench:'')]"

text \<open>An agent that is not registered has the default, whatever its name.\<close>

definition identity_emoji :: "agent_registry \<Rightarrow> string \<Rightarrow> string" where
  "identity_emoji reg agentId = (case mget reg agentId of
     None \<Rightarrow> '':bell:''
   | Some i \<Rightarrow> (case map_of DISPLAY_EMOJI agentId of Some e \<Rightarrow> e | None \<Rightarrow> '':bell:''))"

definition persona :: "'r discord_env \<Rightarrow> string \<Rightarrow> string" where
  "persona E agentName = identity_emoji (de_agents E) agentName @ '' '' @ id_name (getAgentIdentity (de_agents E) agentName)"

text \<open>The bot names the agent in the text.\<close>

definition named_text :: "string \<Rightarrow> string \<Rightarrow> string" where
  "named_text name text = ''**'' @ name @ ''**'' @ [CHR 0x0A] @ text"

section \<open>Threads\<close>

definition detail_name :: "string \<Rightarrow> string" where
  "detail_name threadName = (if length threadName > 90 then take 90 threadName @ '':ellipsis:'' else threadName) @ '' :dash: Details''"

definition ensureThreadExists ::
  "'r discord_env \<Rightarrow> int \<Rightarrow> string \<Rightarrow> string \<Rightarrow> string \<Rightarrow> 'r discord \<Rightarrow> (string + string) \<times> 'r discord" where
  "ensureThreadExists E now channelId threadIdOrMessageId threadName st =
     (case fetchThreadReplies E now threadIdOrMessageId 1 st of
        (Inr replies, st1) \<Rightarrow> (Inr threadIdOrMessageId, st1)
      | (Inl e, st1) \<Rightarrow> (case adapter_createThread E channelId threadIdOrMessageId (detail_name threadName) st1 of
          (Inl e, st2) \<Rightarrow> (Inl e, st2)
        | (Inr i, st2) \<Rightarrow> (Inr (case i of JStr t \<Rightarrow> t | _ \<Rightarrow> []), st2)))"

text \<open>Chunks through the webhook, until one is refused: the id of the last message, or the error.\<close>

fun raw_chunks ::
  "'r discord_env \<Rightarrow> string \<times> string \<Rightarrow> string \<Rightarrow> string \<Rightarrow> string list \<Rightarrow> string option \<Rightarrow> 'r discord \<Rightarrow> (string + string option) \<times> 'r discord" where
  "raw_chunks E ids name threadId [] lastMsgId st = (Inr lastMsgId, st)"
| "raw_chunks E ids name threadId (c # cs) lastMsgId st = (case executeRaw E ids c name (Some threadId) st of
     (Inl e, st1) \<Rightarrow> (Inl e, st1)
   | (Inr i, st1) \<Rightarrow> raw_chunks E ids name threadId cs i st1)"

text \<open>Chunks through the bot; one that is refused is passed over.\<close>

fun bot_chunks ::
  "'r discord_env \<Rightarrow> string \<Rightarrow> (string \<Rightarrow> string) \<Rightarrow> string \<Rightarrow> string list \<Rightarrow> string option \<Rightarrow> 'r discord \<Rightarrow> string option \<times> 'r discord" where
  "bot_chunks E channelId named threadId [] lastMsgId st = (lastMsgId, st)"
| "bot_chunks E channelId named threadId (c # cs) lastMsgId st = (case adapter_send E channelId (Some threadId) (named c) None st of
     (Inl e, st1) \<Rightarrow> bot_chunks E channelId named threadId cs lastMsgId st1
   | (Inr i, st1) \<Rightarrow> bot_chunks E channelId named threadId cs i st1)"

definition webhook_chunks ::
  "'r discord_env \<Rightarrow> string \<Rightarrow> string \<Rightarrow> string \<Rightarrow> string \<Rightarrow> 'r discord \<Rightarrow> ((string + string option) \<times> 'r discord) option" where
  "webhook_chunks E channelId threadId text agentName st = (case getCredentialsForChannel channelId (ds_webhooks st) of
     None \<Rightarrow> Some (Inl [], st)
   | Some ids \<Rightarrow> map_option (\<lambda>cs. raw_chunks E ids (persona E agentName) threadId cs None st) (chunkText text 1950))"

text \<open>The message, and whether the bot posted it.\<close>

definition sendToThreadWithFallback ::
  "'r discord_env \<Rightarrow> string \<Rightarrow> string \<Rightarrow> string \<Rightarrow> string \<Rightarrow> 'r discord \<Rightarrow> ((string option \<times> bool) \<times> 'r discord) option" where
  "sendToThreadWithFallback E channelId threadId text agentName st =
     Option.bind (webhook_chunks E channelId threadId text agentName (webhooks_init E st)) (\<lambda>(r, st1).
       (case r of
          Inr i \<Rightarrow> Some ((i, False), st1)
        | Inl e \<Rightarrow>
            (let named = (if agentName \<noteq> ''system'' then named_text (persona E agentName) else (\<lambda>t. t))
             in map_option (\<lambda>cs. case bot_chunks E channelId named threadId cs None st1 of (i, st2) \<Rightarrow> ((i, True), st2))
                  (chunkText text 1900))))"

section \<open>Actions\<close>

definition done_with :: "json \<Rightarrow> action_result" where
  "done_with data = \<lparr>ar_success = True, ar_data = data, ar_error = None\<rparr>"

definition suppressed_duplicate :: action_result where
  "suppressed_duplicate = done_with (JObj [(''suppressed'', JBool True), (''reason'', JStr ''duplicate_within_window'')])"

definition suppressed_limited :: "string \<Rightarrow> action_result" where
  "suppressed_limited detail = done_with (JObj [(''suppressed'', JBool True), (''reason'', JStr ''rate_limited''), (''detail'', JStr detail)])"

definition id_json :: "string option \<Rightarrow> json" where
  "id_json i = (case i of None \<Rightarrow> JUndef | Some t \<Rightarrow> JStr t)"

text \<open>\<open>params.agentName ?? 'system'\<close>.\<close>

definition agent_arg :: "json \<Rightarrow> string" where
  "agent_arg params = or_text (text_arg ''agentName'' params) ''system''"

text \<open>Through the webhook of a channel, when there is one: the id of the message, if it arrived.\<close>

definition post_as_agent ::
  "'r discord_env \<Rightarrow> string \<Rightarrow> string \<Rightarrow> string \<Rightarrow> string option \<Rightarrow> 'r discord \<Rightarrow> string option option \<times> 'r discord" where
  "post_as_agent E channelId agentName content threadId st = (case getWebhookForChannel channelId (ds_webhooks st) of
     None \<Rightarrow> (None, st)
   | Some url \<Rightarrow> (case created_id_of_call E (Webhook_send url content (persona E agentName) threadId) st of
       (Inl e, st1) \<Rightarrow> (None, st1)
     | (Inr i, st1) \<Rightarrow> (Some i, st1)))"

definition newline_as_space :: "char \<Rightarrow> char" where
  "newline_as_space c = (if c = CHR 0x0A then CHR '' '' else c)"

definition teaser :: "'r discord_env \<Rightarrow> string \<Rightarrow> string \<Rightarrow> string" where
  "teaser E agentName text = '':clipboard: **Agent Report** :bullet: '' @ persona E agentName @ [CHR 0x0A, CHR 0x0A]
     @ ''Full output posted in thread below.'' @ [CHR 0x0A]
     @ ''**Preview:** '' @ map newline_as_space (take 200 text) @ '':ellipsis:''"

definition overflow_thread ::
  "'r discord_env \<Rightarrow> string \<Rightarrow> string \<Rightarrow> string \<Rightarrow> string \<Rightarrow> 'r discord \<Rightarrow> (action_result \<times> 'r discord) option" where
  "overflow_thread E channelId text agentName parentMessageId st =
     (case adapter_createThread E channelId parentMessageId (persona E agentName @ '' :dash: Full Report'') st of
        (Inl e, st1) \<Rightarrow> Some (done_with (JObj [(''messageId'', JStr parentMessageId), (''channelId'', JStr channelId),
            (''agentName'', JStr agentName), (''threadCreationFailed'', JBool True)]), st1)
      | (Inr i, st1) \<Rightarrow> (let threadId = (case i of JStr t \<Rightarrow> t | _ \<Rightarrow> []) in
          map_option (\<lambda>((messageId, botFallback), st2).
              (done_with (JObj [(''messageId'', JStr parentMessageId), (''channelId'', JStr channelId), (''threadId'', i),
                 (''agentName'', JStr agentName), (''botFallback'', JBool botFallback)]), st2))
            (sendToThreadWithFallback E channelId threadId text agentName st1)))"

definition post_teaser :: "'r discord_env \<Rightarrow> string \<Rightarrow> string \<Rightarrow> string \<Rightarrow> 'r discord \<Rightarrow> string option \<times> 'r discord" where
  "post_teaser E channelId agentName content st =
     (case post_as_agent E channelId agentName content None (webhooks_init E st) of
        (Some (Some (c # i)), st1) \<Rightarrow> (Some (c # i), st1)
      | (r, st1) \<Rightarrow> (case adapter_send E channelId None (named_text (persona E agentName) content) None st1 of
          (Inr i, st2) \<Rightarrow> (non_empty i, st2)
        | (Inl e, st2) \<Rightarrow> (None, st2)))"

definition postWithThreadOverflow ::
  "'r discord_env \<Rightarrow> int \<Rightarrow> string \<Rightarrow> string \<Rightarrow> string \<Rightarrow> 'r discord \<Rightarrow> (action_result \<times> 'r discord) option" where
  "postWithThreadOverflow E now channelId text agentName st =
     (let (duplicate, st1) = isDuplicate E now channelId (teaser E agentName text) st in
      if duplicate then Some (suppressed_duplicate, st1)
      else (case checkChannelRateLimits E now agentName channelId st1 of
          (Some why, st2) \<Rightarrow> Some (suppressed_limited why, st2)
        | (None, st2) \<Rightarrow> (case post_teaser E channelId agentName (teaser E agentName text) st2 of
            (None, st3) \<Rightarrow> Some (failed_with ''Failed to post overflow teaser to channel'', st3)
          | (Some parentMessageId, st3) \<Rightarrow> overflow_thread E channelId text agentName parentMessageId st3)))"

definition PUBLIC_MESSAGE_MAX_LEN :: nat where "PUBLIC_MESSAGE_MAX_LEN = 2000"
definition MESSAGE_SUPPORT_AGENTS :: "string list" where "MESSAGE_SUPPORT_AGENTS = [''keeper'', ''guide'']"

text \<open>The channel a message goes to: an agent is kept to the channel of its department.\<close>

definition enforced_channel :: "'r discord_env \<Rightarrow> string \<Rightarrow> string option \<Rightarrow> string option" where
  "enforced_channel E agentName channelInput =
     (if agentName \<noteq> [] \<and> agentName \<noteq> ''system'' \<and> agentName \<notin> set MESSAGE_SUPPORT_AGENTS
      then (case getChannelForAgent (de_getenv E) (de_agents E) agentName ''discord'' of
          Some deptChannel \<Rightarrow> Some deptChannel
        | None \<Rightarrow> channelInput)
      else channelInput)"

text \<open>
  A text in a channel, under the agent's name or, for the system, by the bot.  \<open>content\<close> is what is posted and
  \<open>kind\<close> the words the errors name it with.
\<close>

definition post_or_block ::
  "'r discord_env \<Rightarrow> string \<Rightarrow> string \<Rightarrow> string \<Rightarrow> string \<Rightarrow> string \<Rightarrow> string option \<Rightarrow> (string \<times> json) list \<Rightarrow> 'r discord \<Rightarrow> action_result \<times> 'r discord" where
  "post_or_block E post alert channelId agentName content replyTo extra st =
     (let data = (\<lambda>i. done_with (JObj ([(''messageId'', id_json i), (''channelId'', JStr channelId)] @ extra @ [(''agentName'', JStr agentName)]))) in
      case post_as_agent E channelId agentName content replyTo (webhooks_init E st) of
        (Some i, st1) \<Rightarrow> (data i, st1)
      | (None, st1) \<Rightarrow>
          (if agentName \<noteq> ''system'' then
             (failed_with (''No webhook configured for channel '' @ channelId @ ''. Agent '' @ agentName @ '' cannot post ''
                @ alert @ ''without webhook identity.''), st1)
           else (case adapter_send E channelId None (named_text (persona E agentName) content) replyTo st1 of
               (Inl e, st2) \<Rightarrow> (failed_with (''Failed to post '' @ post @ '': '' @ e), st2)
             | (Inr i, st2) \<Rightarrow> (data i, st2))))"

definition postMessage :: "'r discord_env \<Rightarrow> int \<Rightarrow> json \<Rightarrow> 'r discord \<Rightarrow> (action_result \<times> 'r discord) option" where
  "postMessage E now params st =
     (let agentName = agent_arg params; channelInput = enforced_channel E agentName (text_arg ''channel'' params) in
      case (non_empty channelInput, non_empty (text_arg ''text'' params)) of
        (Some channel, Some text) \<Rightarrow> (case resolveChannelId E channel of
          Inl e \<Rightarrow> Some (failed_with e, st)
        | Inr channelId \<Rightarrow>
            (if length text > PUBLIC_MESSAGE_MAX_LEN then postWithThreadOverflow E now channelId text agentName st
             else (let (duplicate, st1) = isDuplicate E now channelId text st in
               if duplicate then Some (suppressed_duplicate, st1)
               else (case checkChannelRateLimits E now agentName channelId st1 of
                   (Some why, st2) \<Rightarrow> Some (suppressed_limited why, st2)
                 | (None, st2) \<Rightarrow> Some (post_or_block E ''message'' [] channelId agentName text
                     (non_empty (text_arg ''replyToMessageId'' params)) [] st2)))))
      | _ \<Rightarrow> Some (failed_with ''Missing required parameters: channel, text'', st))"

definition SEVERITY_EMOJI :: "(string \<times> string) list" where
  "SEVERITY_EMOJI = [(''info'', '':information_source:''), (''warning'', '':warning:''), (''error'', '':x:''),
     (''critical'', '':rotating_light:''), (''success'', '':white_check_mark:'')]"

definition alert_text :: "string \<Rightarrow> string option \<Rightarrow> string \<Rightarrow> string" where
  "alert_text severity title text = or_text (map_of SEVERITY_EMOJI severity) '':warning:'' @ '' **''
     @ or_text title (to_upper severity @ '' alert'') @ ''**'' @ [CHR 0x0A] @ text"

definition postAlert :: "'r discord_env \<Rightarrow> int \<Rightarrow> json \<Rightarrow> 'r discord \<Rightarrow> action_result \<times> 'r discord" where
  "postAlert E now params st =
     (let agentName = agent_arg params; severity = or_text (text_arg ''severity'' params) ''warning'' in
      case (non_empty (text_arg ''channel'' params), non_empty (text_arg ''text'' params)) of
        (Some channel, Some text) \<Rightarrow> (case resolveChannelId E channel of
          Inl e \<Rightarrow> (failed_with e, st)
        | Inr channelId \<Rightarrow> (let (duplicate, st1) = isDuplicate E now channelId text st in
            if duplicate then (suppressed_duplicate, st1)
            else (case checkChannelRateLimits E now agentName channelId st1 of
                (Some why, st2) \<Rightarrow> (suppressed_limited why, st2)
              | (None, st2) \<Rightarrow> post_or_block E ''alert'' ''alert '' channelId agentName
                  (alert_text severity (text_arg ''title'' params) text) None [(''severity'', JStr severity)] st2)))
      | _ \<Rightarrow> (failed_with ''Missing required parameters: channel, text'', st))"

definition threadReply :: "'r discord_env \<Rightarrow> int \<Rightarrow> json \<Rightarrow> 'r discord \<Rightarrow> (action_result \<times> 'r discord) option" where
  "threadReply E now params st =
     (let agentName = agent_arg params in
      case (non_empty (text_arg ''channel'' params), non_empty (text_arg ''threadId'' params), non_empty (text_arg ''text'' params)) of
        (Some channel, Some target, Some text) \<Rightarrow> (case resolveChannelId E channel of
          Inl e \<Rightarrow> Some (failed_with e, st)
        | Inr channelId \<Rightarrow> (let (duplicate, st1) = isDuplicate E now target text st in
            if duplicate then Some (suppressed_duplicate, st1)
            else (case checkThreadRateLimits E now agentName target st1 of
                (Some why, st2) \<Rightarrow> Some (suppressed_limited why, st2)
              | (None, st2) \<Rightarrow> (case ensureThreadExists E now channelId target (persona E agentName) st2 of
                  (Inl e, st3) \<Rightarrow> Some (failed_with (''Failed to create/resolve thread: '' @ e), st3)
                | (Inr threadId, st3) \<Rightarrow>
                    map_option (\<lambda>((messageId, botFallback), st4). (case non_empty messageId of
                        None \<Rightarrow> failed_with ''Failed to post thread reply via both webhook and bot''
                      | Some i \<Rightarrow> done_with (JObj [(''messageId'', JStr i), (''channelId'', JStr channelId), (''threadId'', JStr threadId),
                          (''agentName'', JStr agentName), (''botFallback'', JBool botFallback)]), st4))
                      (sendToThreadWithFallback E channelId threadId text agentName st3)))))
      | _ \<Rightarrow> Some (failed_with ''Missing required parameters: channel, threadId, text'', st))"

section \<open>Reactions, threads and histories\<close>

definition react :: "'r discord_env \<Rightarrow> json \<Rightarrow> 'r discord \<Rightarrow> action_result \<times> 'r discord" where
  "react E params st = (case (non_empty (text_arg ''channel'' params), non_empty (text_arg ''messageId'' params), non_empty (text_arg ''emoji'' params)) of
     (Some channel, Some messageId, Some emoji) \<Rightarrow> (case resolveChannelId E channel of
       Inl e \<Rightarrow> (failed_with e, st)
     | Inr channelId \<Rightarrow> (done_with (JObj [(''channelId'', JStr channelId), (''messageId'', JStr messageId), (''emoji'', JStr emoji)]),
         adapter_react E channelId messageId emoji st))
   | _ \<Rightarrow> (failed_with ''Missing required parameters: channel, messageId, emoji'', st))"

definition createThread :: "'r discord_env \<Rightarrow> json \<Rightarrow> 'r discord \<Rightarrow> action_result \<times> 'r discord" where
  "createThread E params st = (case (non_empty (text_arg ''channel'' params), non_empty (text_arg ''messageId'' params), non_empty (text_arg ''name'' params)) of
     (Some channel, Some messageId, Some name) \<Rightarrow> (case resolveChannelId E channel of
       Inl e \<Rightarrow> (failed_with e, st)
     | Inr channelId \<Rightarrow> (case adapter_createThread E channelId messageId name st of
         (Inl e, st1) \<Rightarrow> (failed_with (''Failed to create thread: '' @ e), st1)
       | (Inr i, st1) \<Rightarrow> (done_with (JObj [(''threadId'', i), (''channelId'', JStr channelId), (''name'', JStr name)]), st1)))
   | _ \<Rightarrow> (failed_with ''Missing required parameters: channel, messageId, name'', st))"

definition history_limit :: "json \<Rightarrow> int" where
  "history_limit params = (case get_prop ''limit'' params of JNum n \<Rightarrow> min (max n 1) 100 | _ \<Rightarrow> 50)"

definition getChannelHistory :: "'r discord_env \<Rightarrow> int \<Rightarrow> json \<Rightarrow> 'r discord \<Rightarrow> action_result \<times> 'r discord" where
  "getChannelHistory E now params st = (case non_empty (text_arg ''channel'' params) of
     None \<Rightarrow> (failed_with ''Missing required parameter: channel'', st)
   | Some channel \<Rightarrow> (case resolveChannelId E channel of
       Inl e \<Rightarrow> (failed_with e, st)
     | Inr channelId \<Rightarrow> (case fetchChannelHistory E now channelId (history_limit params) st of
         (Inl e, st1) \<Rightarrow> (failed_with (''Failed to fetch channel history: '' @ e), st1)
       | (Inr ms, st1) \<Rightarrow> (done_with (JObj [(''channel'', JStr channel), (''channelId'', JStr channelId), (''messages'', ms)]), st1))))"

definition getThread :: "'r discord_env \<Rightarrow> int \<Rightarrow> json \<Rightarrow> 'r discord \<Rightarrow> action_result \<times> 'r discord" where
  "getThread E now params st = (case non_empty (text_arg ''threadId'' params) of
     None \<Rightarrow> (failed_with ''Missing required parameter: threadId'', st)
   | Some threadId \<Rightarrow> (case fetchThreadReplies E now threadId (history_limit params) st of
       (Inl e, st1) \<Rightarrow> (failed_with (''Failed to fetch thread: '' @ e), st1)
     | (Inr ms, st1) \<Rightarrow> (done_with (JObj [(''threadId'', JStr threadId), (''messages'', ms)]), st1)))"

section \<open>The executor\<close>

definition discord_execute :: "'r discord_env \<Rightarrow> int \<Rightarrow> string \<Rightarrow> json \<Rightarrow> 'r discord \<Rightarrow> (action_result \<times> 'r discord) option" where
  "discord_execute E now action params st =
     (if js_truthy (get_prop ''userId'' params) \<and> \<not> js_truthy (get_prop ''channel'' params)
      then Some (failed_with ''Discord DMs are not supported. Use a channel or thread.'', st)
      else if action = ''message'' then postMessage E now params st
      else if action = ''thread_reply'' then threadReply E now params st
      else if action = ''create_thread'' then Some (createThread E params st)
      else if action = ''get_channel_history'' then Some (getChannelHistory E now params st)
      else if action = ''get_thread'' then Some (getThread E now params st)
      else if action = ''react'' then Some (react E params st)
      else if action = ''alert'' then Some (postAlert E now params st)
      else Some (failed_with (''Unknown Discord action: '' @ action), st))"

end
