(* ===== verification/Discord_Correct.thy ===== *)
theory Discord_Correct
  imports Discord
begin

text \<open>
  Properties of the executor of Discord actions: texts are cut into chunks that fit and keep the text, an action always
  returns, an agent posts at most the hourly number of times, and a short message of an agent is posted once, under its
  name, through the webhook of its department's channel.
\<close>

section \<open>Chunks\<close>

lemma last_index_bound: "last_index c xs = Some i \<Longrightarrow> i < length xs"
  by (induction xs arbitrary: i) (auto split: option.splits if_splits)

lemma lastIndexOf_bound: "lastIndexOf s c n = Some i \<Longrightarrow> i \<le> n"
  using last_index_bound [of c "take (Suc n) s" i] by (auto simp: lastIndexOf_def)

lemma break_at_bounds:
  assumes "0 < maxLen"
  shows "0 < break_at s maxLen \<and> break_at s maxLen \<le> maxLen"
  using assms lastIndexOf_bound [of s _ maxLen]
  by (auto simp: break_at_def index_below_def Let_def split: option.splits)

text \<open>The chunks and the spaces dropped after each.\<close>

lemma chunk_loop_cuts:
  assumes "0 < maxLen"
  shows "\<exists>cs ws. chunk_loop maxLen acc s = Some (acc @ cs) \<and> length ws = length cs
    \<and> list_all (\<lambda>c. c \<noteq> [] \<and> length c \<le> maxLen) cs \<and> list_all (list_all js_space) ws
    \<and> s = concat (map2 (@) cs ws)"
proof (induction s arbitrary: acc rule: length_induct)
  case (1 s)
  consider "s = []" | "s \<noteq> []" "length s \<le> maxLen" | "s \<noteq> []" "maxLen < length s" by linarith
  then show ?case
  proof cases
    case 1
    then show ?thesis by (intro exI [of _ "[]"]) (simp add: chunk_loop.simps)
  next
    case 2
    then show ?thesis by (intro exI [of _ "[s]"] exI [of _ "[[]]"]) (simp add: chunk_loop.simps)
  next
    case 3
    let ?b = "break_at s maxLen" let ?t = "dropWhile js_space (drop ?b s)" let ?w = "takeWhile js_space (drop ?b s)"
    have b: "0 < ?b" "?b \<le> maxLen" using break_at_bounds [OF assms, of s] by simp_all
    then have "length ?t < length s"
      using 3(2) length_dropWhile_le [of js_space "drop ?b s"] by simp
    then obtain cs ws where IH: "chunk_loop maxLen (acc @ [take ?b s]) ?t = Some ((acc @ [take ?b s]) @ cs)"
        "length ws = length cs" "list_all (\<lambda>c. c \<noteq> [] \<and> length c \<le> maxLen) cs" "list_all (list_all js_space) ws"
        "?t = concat (map2 (@) cs ws)"
      using 1 by blast
    have "s = take ?b s @ ?w @ ?t" by simp
    with IH(5) have "s = concat (map2 (@) (take ?b s # cs) (?w # ws))" by simp
    moreover have "chunk_loop maxLen acc s = Some (acc @ (take ?b s # cs))"
      using 3 IH(1) by (subst chunk_loop.simps) (simp add: Let_def)
    moreover have "list_all js_space ?w" by (metis list_all_iff set_takeWhileD)
    ultimately show ?thesis
      using IH(2,3,4) b 3 by (intro exI [of _ "take ?b s # cs"] exI [of _ "?w # ws"]) simp
  qed
qed

lemma chunks_returned: "0 < maxLen \<Longrightarrow> \<exists>cs. chunkText text maxLen = Some cs"
  using chunk_loop_cuts [of maxLen "[]" "text"] by (auto simp: chunkText_def)

text \<open>C25: a text is always cut into chunks that fit: none is longer than the limit or, for a text that is not empty, empty,
  and the chunks in order are the text but for the spaces dropped between them.\<close>

theorem chunks_fit_and_keep_text:
  assumes "0 < maxLen"
  shows "\<exists>cs ws. chunkText text maxLen = Some cs \<and> list_all (\<lambda>c. length c \<le> maxLen \<and> (c = [] \<longrightarrow> text = [])) cs
    \<and> length ws = length cs \<and> list_all (list_all js_space) ws \<and> text = concat (map2 (@) cs ws)"
proof (cases "length text \<le> maxLen")
  case True
  then show ?thesis by (intro exI [of _ "[text]"] exI [of _ "[[]]"]) (simp add: chunkText_def)
next
  case False
  obtain cs ws where *: "chunk_loop maxLen [] text = Some ([] @ cs)" "length ws = length cs"
      "list_all (\<lambda>c. c \<noteq> [] \<and> length c \<le> maxLen) cs" "list_all (list_all js_space) ws" "text = concat (map2 (@) cs ws)"
    using chunk_loop_cuts [OF assms, of "[]" "text"] by blast
  have "list_all (\<lambda>c. length c \<le> maxLen \<and> (c = [] \<longrightarrow> text = [])) cs" using *(3) by (auto simp: list_all_iff)
  with * False show ?thesis by (auto simp: chunkText_def)
qed

text \<open>Two words of a text too long for one chunk.\<close>

lemma chunks_fit_and_keep_text_witness:
  "\<exists>cs ws. chunkText ''status report'' 10 = Some cs \<and> list_all (\<lambda>c. length c \<le> 10 \<and> (c = [] \<longrightarrow> ''status report'' = [])) cs
    \<and> length ws = length cs \<and> list_all (list_all js_space) ws \<and> ''status report'' = concat (map2 (@) cs ws)"
  by (rule chunks_fit_and_keep_text) simp

lemma chunk_example: "chunkText ''status report'' 10 = Some [''status'', ''report'']"
  by (simp add: chunkText_def chunk_loop.simps break_at_def lastIndexOf_def index_below_def js_space_def of_char_of)

section \<open>Frames\<close>

text \<open>The webhooks are those of the environment.\<close>

definition channel_of :: "'r discord_env \<Rightarrow> string \<Rightarrow> string" where
  "channel_of E dept = env_text E (''DISCORD_CHANNEL_'' @ to_upper dept)"

definition webhook_of :: "'r discord_env \<Rightarrow> string \<Rightarrow> string" where
  "webhook_of E dept = env_text E (''DISCORD_WEBHOOK_'' @ to_upper dept)"

definition webhooks_fit :: "'r discord_env \<Rightarrow> webhooks \<Rightarrow> bool" where
  "webhooks_fit E w \<longleftrightarrow> (\<forall>ch dept. mget (wm_channels w) ch = Some dept \<longrightarrow> channel_of E dept = ch)
     \<and> (\<forall>dept url. mget (wm_clients w) dept = Some url \<longrightarrow> webhook_of E dept = url)"

lemma note_channel_fit: "webhooks_fit E w \<Longrightarrow> webhooks_fit E (note_channel E dept w)"
  by (auto simp: note_channel_def webhooks_fit_def channel_of_def Let_def)

lemma note_webhook_fit: "webhooks_fit E w \<Longrightarrow> webhooks_fit E (note_webhook E dept w)"
  by (auto simp: note_webhook_def webhooks_fit_def webhook_of_def Let_def split: option.splits)

lemma fold_keeps: "(\<And>x s. Q s \<Longrightarrow> Q (f x s)) \<Longrightarrow> Q s \<Longrightarrow> Q (fold f xs s)"
  by (induction xs arbitrary: s) simp_all

lemma init_fit: "webhooks_fit E (ds_webhooks st) \<Longrightarrow> webhooks_fit E (ds_webhooks (webhooks_init E st))"
  by (auto simp: webhooks_init_def Let_def intro!: fold_keeps [of "webhooks_fit E"] note_channel_fit note_webhook_fit)
    (simp add: webhooks_fit_def)

text \<open>From a state to one where the server and the connection are as before, the webhooks still fit, and all calls since
  satisfy a predicate.\<close>

definition made :: "'r discord_env \<Rightarrow> (discord_call \<Rightarrow> bool) \<Rightarrow> 'r discord \<Rightarrow> 'r discord \<Rightarrow> bool" where
  "made E P st st' \<longleftrightarrow> ds_redis st' = ds_redis st \<and> ds_connected st' = ds_connected st
     \<and> (webhooks_fit E (ds_webhooks st) \<longrightarrow> webhooks_fit E (ds_webhooks st'))
     \<and> (\<exists>cs. ds_calls st' = ds_calls st @ cs \<and> list_all P cs)"

named_theorems made_intro \<open>what the operations do to the state\<close>

lemma made_refl [simp]: "made E P st st"
  by (simp add: made_def)

lemma made_trans: "made E P st st1 \<Longrightarrow> made E P st1 st2 \<Longrightarrow> made E P st st2"
  by (auto simp: made_def)

lemma made_weaken: "made E P st st' \<Longrightarrow> (\<And>c. P c \<Longrightarrow> Q c) \<Longrightarrow> made E Q st st'"
  by (auto simp: made_def list_all_iff)

lemma client_call_made [made_intro]: "client_call E c st = (r, st') \<Longrightarrow> P c \<Longrightarrow> made E P st st'"
  by (auto simp: client_call_def made_def)

text \<open>A call that only looks, and one that posts a text.\<close>

fun is_post :: "discord_call \<Rightarrow> bool" where
  "is_post (Webhook_send u c n t) = True"
| "is_post (Webhook_execute i k c n t) = True"
| "is_post (Channel_send ch c r) = True"
| "is_post _ = False"

abbreviation silent :: "discord_call \<Rightarrow> bool" where "silent c \<equiv> \<not> is_post c"

abbreviation any_call :: "discord_call \<Rightarrow> bool" where "any_call c \<equiv> True"

lemma silent_any: "made E silent st st' \<Longrightarrow> made E any_call st st'"
  by (rule made_weaken) simp_all

lemma require_silent: "requireNonDmChannel E ch st = (r, st') \<Longrightarrow> made E silent st st'"
  by (auto simp: requireNonDmChannel_def split: prod.splits sum.splits if_splits intro: client_call_made)

lemma createThread_silent: "adapter_createThread E ch m n st = (r, st') \<Longrightarrow> made E silent st st'"
  by (auto simp: adapter_createThread_def split: prod.splits sum.splits if_splits
      dest!: require_silent client_call_made [where P = silent] intro: made_trans)

lemma history_silent: "fetchChannelHistory E now ch n st = (r, st') \<Longrightarrow> made E silent st st'"
  by (auto simp: fetchChannelHistory_def split: prod.splits sum.splits if_splits
      dest!: require_silent client_call_made [where P = silent] intro: made_trans)

lemma react_silent: "made E silent st (adapter_react E ch m e st)"
  by (auto simp: adapter_react_def split: prod.splits sum.splits if_splits
      dest!: require_silent client_call_made [where P = silent] intro: made_trans)
    (metis client_call_made is_post.simps(8) made_trans prod.collapse)

lemma ensureThread_silent: "ensureThreadExists E now ch i n st = (r, st') \<Longrightarrow> made E silent st st'"
  by (auto simp: ensureThreadExists_def fetchThreadReplies_def split: prod.splits sum.splits
      dest!: history_silent createThread_silent intro: made_trans)

lemma executeRaw_made: "executeRaw E ids c n t st = (r, st') \<Longrightarrow> made E any_call st st'"
  by (auto simp: executeRaw_def split: prod.splits sum.splits if_splits intro: client_call_made)

lemma created_made: "created_id_of_call E c st = (r, st') \<Longrightarrow> P c \<Longrightarrow> made E P st st'"
  by (auto simp: created_id_of_call_def split: prod.splits intro: client_call_made)

lemma channel_send_made: "channel_send E ch t r st = (x, st') \<Longrightarrow> made E any_call st st'"
  by (auto simp: channel_send_def split: prod.splits sum.splits intro: created_made)

lemma adapter_send_made: "adapter_send E ch th t r st = (x, st') \<Longrightarrow> made E any_call st st'"
  by (auto simp: adapter_send_def split: prod.splits sum.splits option.splits if_splits
      dest!: require_silent silent_any client_call_made [where P = any_call] channel_send_made intro: made_trans)

lemma raw_chunks_made: "raw_chunks E ids n t cs l st = (r, st') \<Longrightarrow> made E any_call st st'"
  by (induction cs arbitrary: l st) (auto split: prod.splits sum.splits dest: executeRaw_made intro: made_trans)

lemma bot_chunks_made: "bot_chunks E ch f t cs l st = (r, st') \<Longrightarrow> made E any_call st st'"
  by (induction cs arbitrary: l st) (auto split: prod.splits sum.splits dest: adapter_send_made intro: made_trans)

lemma init_made [simp]: "made E P st (webhooks_init E st)"
  using init_fit [of E st] by (auto simp: webhooks_init_def Let_def made_def)

lemma webhook_chunks_made: "webhook_chunks E ch t x a st = Some (r, st') \<Longrightarrow> made E any_call st st'"
  by (auto simp: webhook_chunks_def split: option.splits intro: raw_chunks_made)

lemma sendToThread_made:
  assumes "sendToThreadWithFallback E ch t x a st = Some (r, st')"
  shows "made E any_call st st'"
proof -
  obtain q st1 where 1: "webhook_chunks E ch t x a (webhooks_init E st) = Some (q, st1)"
    using assms by (auto simp: sendToThreadWithFallback_def bind_eq_Some_conv)
  have "made E any_call st st1" by (rule made_trans [OF init_made webhook_chunks_made [OF 1]])
  moreover have "made E any_call st1 st'"
    using assms 1 by (auto simp: sendToThreadWithFallback_def Let_def split: sum.splits prod.splits)
      (metis bot_chunks_made surj_pair)
  ultimately show ?thesis by (rule made_trans)
qed

lemma post_as_agent_made: "post_as_agent E ch a c t st = (r, st') \<Longrightarrow> made E any_call st st'"
  by (auto simp: post_as_agent_def split: option.splits prod.splits sum.splits intro: created_made)

lemma post_teaser_made: "post_teaser E ch a c st = (r, st') \<Longrightarrow> made E any_call st st'"
  by (auto simp: post_teaser_def split: option.splits prod.splits sum.splits list.splits
      dest!: post_as_agent_made adapter_send_made intro: made_trans [OF init_made] made_trans)

lemma overflow_thread_made: "overflow_thread E ch x a p st = Some (r, st') \<Longrightarrow> made E any_call st st'"
  by (auto simp: overflow_thread_def Let_def split: prod.splits sum.splits
      dest!: createThread_silent silent_any sendToThread_made intro: made_trans)

lemma post_or_block_made: "post_or_block E p al ch a c rep ex st = (r, st') \<Longrightarrow> made E any_call st st'"
  by (auto simp: post_or_block_def Let_def split: option.splits prod.splits sum.splits if_splits
      dest!: post_as_agent_made adapter_send_made intro: made_trans [OF init_made] made_trans)

section \<open>An action always returns\<close>

lemma webhook_chunks_returns: "\<exists>r st'. webhook_chunks E ch t x a st = Some (r, st')"
  using chunks_returned [of 1950 x] by (auto simp: webhook_chunks_def split: option.splits)

lemma sendToThread_returns: "\<exists>r st'. sendToThreadWithFallback E ch t x a st = Some (r, st')"
  using webhook_chunks_returns [of E ch t x a "webhooks_init E st"] chunks_returned [of 1900 x]
  by (auto simp: sendToThreadWithFallback_def Let_def split: sum.splits prod.splits)

lemma overflow_returns: "\<exists>r st'. overflow_thread E ch x a p st = Some (r, st')"
  using sendToThread_returns by (fastforce simp: overflow_thread_def Let_def split: sum.splits prod.splits)

lemma postWithThreadOverflow_returns: "\<exists>r st'. postWithThreadOverflow E now ch x a st = Some (r, st')"
  using overflow_returns by (auto simp: postWithThreadOverflow_def split: option.splits prod.splits)

lemma postMessage_returns: "\<exists>r st'. postMessage E now params st = Some (r, st')"
  using postWithThreadOverflow_returns by (auto simp: postMessage_def Let_def split: option.splits prod.splits sum.splits)

lemma threadReply_returns: "\<exists>r st'. threadReply E now params st = Some (r, st')"
  using sendToThread_returns by (fastforce simp: threadReply_def Let_def split: option.splits prod.splits sum.splits)

text \<open>Every action, with any arguments and whatever the service answers, returns a result.\<close>

lemma discord_action_returns: "\<exists>r st'. discord_execute E now action params st = Some (r, st')"
  using postMessage_returns [of E now params st] threadReply_returns [of E now params st]
  by (auto simp: discord_execute_def)

section \<open>Fingerprints in the server\<close>

lemma isDuplicate_keeps:
  "isDuplicate E now ch x st = (b, st') \<Longrightarrow> ds_calls st' = ds_calls st \<and> ds_webhooks st' = ds_webhooks st \<and> ds_connected st' = ds_connected st"
  by (auto simp: isDuplicate_def Let_def split: option.splits prod.splits if_splits)

lemma limits_keep:
  "checkRateLimits E now a k n m R st = (r, st') \<Longrightarrow> ds_calls st' = ds_calls st \<and> ds_webhooks st' = ds_webhooks st \<and> ds_connected st' = ds_connected st"
  by (auto simp: checkRateLimits_def Let_def split: option.splits prod.splits if_splits)

lemma channel_limits_keep:
  "checkChannelRateLimits E now a ch st = (r, st') \<Longrightarrow> ds_calls st' = ds_calls st \<and> ds_webhooks st' = ds_webhooks st \<and> ds_connected st' = ds_connected st"
  by (auto simp: checkChannelRateLimits_def split: option.splits dest: limits_keep)

lemma thread_limits_keep:
  "checkThreadRateLimits E now a ch st = (r, st') \<Longrightarrow> ds_calls st' = ds_calls st \<and> ds_webhooks st' = ds_webhooks st \<and> ds_connected st' = ds_connected st"
  by (auto simp: checkThreadRateLimits_def split: option.splits dest: limits_keep)

section \<open>The hourly cap\<close>

text \<open>The three families of keys do not meet.\<close>

lemma hour_key_apart [simp]:
  "HOURLY_PREFIX @ u \<noteq> DEDUP_PREFIX @ x" "HOURLY_PREFIX @ u \<noteq> COOLDOWN_PREFIX @ x" "HOURLY_PREFIX @ u \<noteq> COOLDOWN_THREAD_PREFIX @ x"
  by (simp_all add: HOURLY_PREFIX_def DEDUP_PREFIX_def COOLDOWN_PREFIX_def COOLDOWN_THREAD_PREFIX_def)

text \<open>Whether a text was posted, and what an action does to a counter: it only grows, up to the cap, and by a post of its own.\<close>

definition has_posted :: "'r discord \<Rightarrow> 'r discord \<Rightarrow> bool" where
  "has_posted st st' = list_ex is_post (drop (length (ds_calls st)) (ds_calls st'))"

definition counted :: "'r redis \<Rightarrow> string \<Rightarrow> bool \<Rightarrow> int \<Rightarrow> 'r discord \<Rightarrow> 'r discord \<Rightarrow> bool" where
  "counted R k own v st st' \<longleftrightarrow> (\<exists>v'. counter R k (ds_redis st') = Some v' \<and> v \<le> v' \<and> (v' = v \<or> v' \<le> HOURLY_CAP)
     \<and> (own \<and> has_posted st st' \<longrightarrow> v < v'))"

lemma silent_counted:
  "counter R k (ds_redis st) = Some v \<Longrightarrow> made E silent st st' \<Longrightarrow> counted R k own v st st'"
  by (auto simp: made_def counted_def has_posted_def list_all_iff list_ex_iff)

text \<open>The channel and the text of a message or an alert, when they are given.\<close>

definition postMessage_target :: "'r discord_env \<Rightarrow> json \<Rightarrow> (string \<times> string) option" where
  "postMessage_target E params =
     (case (non_empty (enforced_channel E (agent_arg params) (text_arg ''channel'' params)), non_empty (text_arg ''text'' params)) of
        (Some c, Some x) \<Rightarrow> (case resolveChannelId E c of Inr ch \<Rightarrow> Some (ch, x) | Inl e \<Rightarrow> None)
      | _ \<Rightarrow> None)"

lemma postMessage_untargeted: "postMessage_target E params = None \<Longrightarrow> postMessage E now params st = Some (r, st') \<Longrightarrow> st' = st"
  by (auto simp: postMessage_target_def postMessage_def split: option.splits sum.splits)

lemma postMessage_targeted:
  "postMessage_target E params = Some (ch, x) \<Longrightarrow> postMessage E now params st =
    (if length x > PUBLIC_MESSAGE_MAX_LEN then postWithThreadOverflow E now ch x (agent_arg params) st
     else (case isDuplicate E now ch x st of (d, st1) \<Rightarrow>
       if d then Some (suppressed_duplicate, st1)
       else (case checkChannelRateLimits E now (agent_arg params) ch st1 of
           (Some why, st2) \<Rightarrow> Some (suppressed_limited why, st2)
         | (None, st2) \<Rightarrow> Some (post_or_block E ''message'' [] ch (agent_arg params) x
             (non_empty (text_arg ''replyToMessageId'' params)) [] st2))))"
  by (clarsimp simp: postMessage_target_def postMessage_def Let_def split: option.splits sum.splits)

definition postAlert_target :: "'r discord_env \<Rightarrow> json \<Rightarrow> (string \<times> string) option" where
  "postAlert_target E params = (case (non_empty (text_arg ''channel'' params), non_empty (text_arg ''text'' params)) of
     (Some c, Some x) \<Rightarrow> (case resolveChannelId E c of Inr ch \<Rightarrow> Some (ch, x) | Inl e \<Rightarrow> None)
   | _ \<Rightarrow> None)"

lemma postAlert_untargeted: "postAlert_target E params = None \<Longrightarrow> postAlert E now params st = (r, st') \<Longrightarrow> st' = st"
  by (auto simp: postAlert_target_def postAlert_def split: option.splits sum.splits)

lemma postAlert_targeted:
  "postAlert_target E params = Some (ch, x) \<Longrightarrow> postAlert E now params st =
    (let severity = or_text (text_arg ''severity'' params) ''warning'' in
     case isDuplicate E now ch x st of (d, st1) \<Rightarrow>
       if d then (suppressed_duplicate, st1)
       else (case checkChannelRateLimits E now (agent_arg params) ch st1 of
           (Some why, st2) \<Rightarrow> (suppressed_limited why, st2)
         | (None, st2) \<Rightarrow> post_or_block E ''alert'' ''alert '' ch (agent_arg params)
             (alert_text severity (text_arg ''title'' params) x) None [(''severity'', JStr severity)] st2))"
  by (clarsimp simp: postAlert_target_def postAlert_def Let_def split: option.splits sum.splits)

definition threadReply_target :: "'r discord_env \<Rightarrow> json \<Rightarrow> (string \<times> string \<times> string) option" where
  "threadReply_target E params =
     (case (non_empty (text_arg ''channel'' params), non_empty (text_arg ''threadId'' params), non_empty (text_arg ''text'' params)) of
        (Some c, Some i, Some x) \<Rightarrow> (case resolveChannelId E c of Inr ch \<Rightarrow> Some (ch, i, x) | Inl e \<Rightarrow> None)
      | _ \<Rightarrow> None)"

lemma threadReply_untargeted: "threadReply_target E params = None \<Longrightarrow> threadReply E now params st = Some (r, st') \<Longrightarrow> st' = st"
  by (auto simp: threadReply_target_def threadReply_def split: option.splits sum.splits)

text \<open>What follows the checks of a reply.\<close>

definition reply_posts ::
  "'r discord_env \<Rightarrow> int \<Rightarrow> string \<Rightarrow> string \<Rightarrow> string \<Rightarrow> string \<Rightarrow> 'r discord \<Rightarrow> (action_result \<times> 'r discord) option" where
  "reply_posts E now ch i x a st = (case ensureThreadExists E now ch i (persona E a) st of
     (Inl e, st3) \<Rightarrow> Some (failed_with (''Failed to create/resolve thread: '' @ e), st3)
   | (Inr threadId, st3) \<Rightarrow>
       map_option (\<lambda>((messageId, botFallback), st4). (case non_empty messageId of
           None \<Rightarrow> failed_with ''Failed to post thread reply via both webhook and bot''
         | Some m \<Rightarrow> done_with (JObj [(''messageId'', JStr m), (''channelId'', JStr ch), (''threadId'', JStr threadId),
             (''agentName'', JStr a), (''botFallback'', JBool botFallback)]), st4))
         (sendToThreadWithFallback E ch threadId x a st3))"

lemma reply_posts_made: "reply_posts E now ch i x a st = Some (r, st') \<Longrightarrow> made E any_call st st'"
  by (auto simp: reply_posts_def split: prod.splits sum.splits
      dest!: ensureThread_silent silent_any sendToThread_made intro: made_trans)

lemma threadReply_targeted:
  "threadReply_target E params = Some (ch, i, x) \<Longrightarrow> threadReply E now params st =
    (case isDuplicate E now i x st of (d, st1) \<Rightarrow>
       if d then Some (suppressed_duplicate, st1)
       else (case checkThreadRateLimits E now (agent_arg params) i st1 of
           (Some why, st2) \<Rightarrow> Some (suppressed_limited why, st2)
         | (None, st2) \<Rightarrow> reply_posts E now ch i x (agent_arg params) st2))"
  unfolding reply_posts_def
  by (clarsimp simp: threadReply_target_def threadReply_def Let_def split: option.splits sum.splits)

text \<open>The other actions post no text.\<close>

lemma discord_silent:
  "discord_execute E now action params st = Some (r, st') \<Longrightarrow> action \<notin> {''message'', ''thread_reply'', ''alert''} \<Longrightarrow> made E silent st st'"
  by (auto simp: discord_execute_def createThread_def getChannelHistory_def getThread_def react_def fetchThreadReplies_def
      split: if_splits option.splits sum.splits prod.splits intro: createThread_silent history_silent react_silent)

text \<open>An action that posts: duplicates, then limits, then the rest.\<close>

definition guarded :: "'r discord_env \<Rightarrow> int \<Rightarrow> string \<Rightarrow> 'r discord \<Rightarrow> 'r discord \<Rightarrow> bool" where
  "guarded E now a st st' \<longleftrightarrow> (\<exists>x y d st1 check ch q st2. isDuplicate E now x y st = (d, st1)
     \<and> check \<in> {checkChannelRateLimits, checkThreadRateLimits} \<and> check E now a ch st1 = (q, st2)
     \<and> (if d then st' = st1 else if q = None then made E any_call st2 st' else st' = st2))"

lemma channel_guardedI:
  "isDuplicate E now x y st = (d, st1) \<Longrightarrow> checkChannelRateLimits E now a ch st1 = (q, st2)
    \<Longrightarrow> (if d then st' = st1 else if q = None then made E any_call st2 st' else st' = st2) \<Longrightarrow> guarded E now a st st'"
  unfolding guarded_def by blast

lemma thread_guardedI:
  "isDuplicate E now x y st = (d, st1) \<Longrightarrow> checkThreadRateLimits E now a ch st1 = (q, st2)
    \<Longrightarrow> (if d then st' = st1 else if q = None then made E any_call st2 st' else st' = st2) \<Longrightarrow> guarded E now a st st'"
  unfolding guarded_def by blast

lemma overflow_guarded:
  assumes "postWithThreadOverflow E now ch x a st = Some (r, st')"
  shows "guarded E now a st st'"
proof -
  obtain d st1 where d: "isDuplicate E now ch (teaser E a x) st = (d, st1)" by fastforce
  obtain q st2 where q: "checkChannelRateLimits E now a ch st1 = (q, st2)" by fastforce
  show ?thesis
    by (rule channel_guardedI [OF d q])
      (use assms d q in \<open>auto simp: postWithThreadOverflow_def split: option.splits prod.splits
        dest!: post_teaser_made overflow_thread_made intro: made_trans\<close>)
qed

lemma message_guarded:
  assumes "postMessage_target E params = Some (ch, x)" "postMessage E now params st = Some (r, st')"
  shows "guarded E now (agent_arg params) st st'"
proof -
  obtain d st1 where d: "isDuplicate E now ch x st = (d, st1)" by fastforce
  obtain q st2 where q: "checkChannelRateLimits E now (agent_arg params) ch st1 = (q, st2)" by fastforce
  note run = assms(2) [unfolded postMessage_targeted [OF assms(1)]]
  show ?thesis
  proof (cases "length x > PUBLIC_MESSAGE_MAX_LEN")
    case True
    with run show ?thesis by (auto intro: overflow_guarded)
  next
    case False
    show ?thesis
      by (rule channel_guardedI [OF d q])
        (use run d q False in \<open>auto split: option.splits dest: post_or_block_made\<close>)
  qed
qed

lemma alert_guarded:
  assumes "postAlert_target E params = Some (ch, x)" "postAlert E now params st = (r, st')"
  shows "guarded E now (agent_arg params) st st'"
proof -
  obtain d st1 where d: "isDuplicate E now ch x st = (d, st1)" by fastforce
  obtain q st2 where q: "checkChannelRateLimits E now (agent_arg params) ch st1 = (q, st2)" by fastforce
  show ?thesis
    by (rule channel_guardedI [OF d q])
      (use assms(2) [unfolded postAlert_targeted [OF assms(1)]] d q in \<open>auto simp: Let_def split: option.splits dest: post_or_block_made\<close>)
qed

lemma reply_guarded:
  assumes "threadReply_target E params = Some (ch, i, x)" "threadReply E now params st = Some (r, st')"
  shows "guarded E now (agent_arg params) st st'"
proof -
  obtain d st1 where d: "isDuplicate E now i x st = (d, st1)" by fastforce
  obtain q st2 where q: "checkThreadRateLimits E now (agent_arg params) i st1 = (q, st2)" by fastforce
  show ?thesis
    by (rule thread_guardedI [OF d q])
      (use assms(2) [unfolded threadReply_targeted [OF assms(1)]] d q in \<open>auto split: option.splits dest: reply_posts_made\<close>)
qed

text \<open>Every action looks only, or is guarded.\<close>

lemma action_shape:
  assumes "discord_execute E now action params st = Some (r, st')"
  shows "made E silent st st' \<or> guarded E now (agent_arg params) st st'"
proof -
  consider "made E silent st st'" | "postMessage E now params st = Some (r, st')" | "threadReply E now params st = Some (r, st')"
    | "postAlert E now params st = (r, st')"
    using assms discord_silent [OF assms] by (auto simp: discord_execute_def split: if_splits)
  then show ?thesis
  proof cases
    case 1
    then show ?thesis by simp
  next
    case 2
    then show ?thesis
      by (cases "postMessage_target E params") (auto dest: postMessage_untargeted message_guarded)
  next
    case 3
    then show ?thesis
      by (cases "threadReply_target E params") (auto dest: threadReply_untargeted reply_guarded)
  next
    case 4
    then show ?thesis
      by (cases "postAlert_target E params") (auto dest: postAlert_untargeted alert_guarded)
  qed
qed

lemma action_keeps_fit:
  assumes "discord_execute E now action params st = Some (r, st')" "webhooks_fit E (ds_webhooks st)"
  shows "webhooks_fit E (ds_webhooks st')"
  using action_shape [OF assms(1)]
proof
  assume "made E silent st st'"
  with assms(2) show ?thesis by (simp add: made_def)
next
  assume "guarded E now (agent_arg params) st st'"
  then obtain x y d st1 check ch q st2 where 1: "isDuplicate E now x y st = (d, st1)"
      "check \<in> {checkChannelRateLimits, checkThreadRateLimits}" "check E now (agent_arg params) ch st1 = (q, st2)"
      "if d then st' = st1 else if q = None then made E any_call st2 st' else st' = st2"
    unfolding guarded_def by blast
  have "ds_webhooks st1 = ds_webhooks st" "ds_webhooks st2 = ds_webhooks st1"
    using isDuplicate_keeps [OF 1(1)] 1(2,3) channel_limits_keep [of E now _ ch st1 q st2] thread_limits_keep [of E now _ ch st1 q st2] by auto
  with 1(4) assms(2) show ?thesis by (auto simp: made_def split: if_splits)
qed

context redis_counters begin

lemma counter_setnx: "SETNX R k' secs s = (b, s') \<Longrightarrow> k \<noteq> k' \<Longrightarrow> counter R k s' = counter R k s"
  by (simp add: counter_def get_setnx)

text \<open>The script lets a caller through only below the cap, and then counts it; it changes no other counter.\<close>

lemma script_counts:
  assumes "counter R k s = Some v" "k \<noteq> c" "hk \<noteq> c" "0 < w" "rate_limit_script R hk c cap cd w s = (r, s')"
  shows "(if hk = k \<and> r = Some ''ok'' then v < cap \<and> counter R k s' = Some (v + 1) else counter R k s' = Some v)
    \<and> (hk = k \<longrightarrow> r \<noteq> None) \<and> r \<in> {None, Some ''ok'', Some ''hourly_cap'', Some ''cooldown''}"
proof (cases "counter R hk s")
  case None
  with assms show ?thesis by (auto simp: rate_limit_script_def)
next
  case (Some n)
  obtain b s1 where 1: "SETNX R c cd s = (b, s1)" by fastforce
  obtain m s2 where 2: "INCRBY R hk 1 s1 = (m, s2)" by fastforce
  have h: "counter R hk s1 = Some n" "counter R k s1 = Some v"
    using counter_setnx [OF 1] assms(1,2,3) Some by simp_all
  have "counter R k s2 = (if k = hk then Some (n + 1) else Some v)"
    using counter_incrby [OF h(1) 2, of k] h(2) by simp
  moreover have "counter R k (EXPIRE R hk w s2) = counter R k s2" by (rule counter_expire [OF assms(4)])
  ultimately show ?thesis
    using assms(1,5) Some 1 2 h by (auto simp: rate_limit_script_def Let_def split: if_splits)
qed

lemma limits_count:
  assumes "checkRateLimits E now a c secs m R st = (r, st')" "\<not> de_fails E now"
    "counter R k (ds_redis st) = Some v" "k \<noteq> c" "hour_key E now a \<noteq> c"
  shows "if hour_key E now a = k \<and> r = None then v < HOURLY_CAP \<and> counter R k (ds_redis st') = Some (v + 1)
    else counter R k (ds_redis st') = Some v \<or> v < HOURLY_CAP \<and> counter R k (ds_redis st') = Some (v + 1)"
proof -
  obtain q s1 where q: "rate_limit_script R (hour_key E now a) c HOURLY_CAP secs HOURLY_WINDOW_S (ds_redis st) = (q, s1)" by fastforce
  from script_counts [OF assms(3,4,5) _ q] assms(1,2) q show ?thesis
    by (auto simp: checkRateLimits_def HOURLY_WINDOW_S_def split: if_splits)
qed

lemma duplicate_count:
  assumes server: "de_server E = Some R" "\<not> de_fails E now" and v: "counter R k (ds_redis st) = Some v" "k = HOURLY_PREFIX @ u"
    and dup: "isDuplicate E now x y st = (d, st1)"
  shows "counter R k (ds_redis st1) = Some v"
proof -
  obtain n s1 where 1: "SETNX R (DEDUP_PREFIX @ post_fingerprint (de_sha256 E) x y) DEDUP_TTL_S (ds_redis st) = (n, s1)" by fastforce
  then have "ds_redis st1 = s1" using dup server by (auto simp: isDuplicate_def)
  with counter_setnx [OF 1, of k] v show ?thesis by simp
qed

lemma duplicate_counted:
  assumes "de_server E = Some R" "\<not> de_fails E now" "counter R k (ds_redis st) = Some v" "k = HOURLY_PREFIX @ u"
    "isDuplicate E now x y st = (d, st1)"
  shows "counted R k own v st st1"
  using duplicate_count [OF assms] isDuplicate_keeps [OF assms(5)] by (simp add: counted_def has_posted_def)

text \<open>An action that posts does so after its checks.\<close>

lemma guarded_counted:
  assumes server: "de_server E = Some R" "\<not> de_fails E now" and v: "counter R k (ds_redis st) = Some v" "k = HOURLY_PREFIX @ u"
    and dup: "isDuplicate E now x y st = (d, st1)"
    and check: "check \<in> {checkChannelRateLimits, checkThreadRateLimits}" "check E now a ch st1 = (r, st2)"
    and rest: "made E any_call st2 st'" "r \<noteq> None \<Longrightarrow> st' = st2"
  shows "counted R k (hour_key E now a = k) v st st'"
proof -
  have v1: "counter R k (ds_redis st1) = Some v" by (rule duplicate_count [OF server v dup])
  have c: "if hour_key E now a = k \<and> r = None then v < HOURLY_CAP \<and> counter R k (ds_redis st2) = Some (v + 1)
    else counter R k (ds_redis st2) = Some v \<or> v < HOURLY_CAP \<and> counter R k (ds_redis st2) = Some (v + 1)"
  proof -
    obtain c secs m where 1: "checkRateLimits E now a c secs m R st1 = (r, st2)" and apart: "\<And>u. HOURLY_PREFIX @ u \<noteq> c"
      using that check(1)
    proof (elim insertE emptyE)
      assume *: "check = checkChannelRateLimits"
      show thesis by (rule that [OF _ hour_key_apart(2)]) (use * check(2) server(1) in \<open>simp add: checkChannelRateLimits_def\<close>)
    next
      assume *: "check = checkThreadRateLimits"
      show thesis by (rule that [OF _ hour_key_apart(3)]) (use * check(2) server(1) in \<open>simp add: checkThreadRateLimits_def\<close>)
    qed
    have "hour_key E now a \<noteq> c" using apart by (simp add: hour_key_def)
    then show ?thesis unfolding v(2) by (rule limits_count [OF 1 server(2) v1 [unfolded v(2)] apart])
  qed
  have "ds_calls st2 = ds_calls st"
    using isDuplicate_keeps [OF dup] check channel_limits_keep [of E now a ch st1 r st2] thread_limits_keep [of E now a ch st1 r st2] by auto
  with c rest show ?thesis
    by (cases "r = None") (auto simp: counted_def made_def has_posted_def list_ex_iff split: if_splits)
qed

lemma body_counted:
  assumes server: "de_server E = Some R" "\<not> de_fails E now" and v: "counter R k (ds_redis st) = Some v" "k = HOURLY_PREFIX @ u"
    and dup: "isDuplicate E now x y st = (d, st1)"
    and check: "check \<in> {checkChannelRateLimits, checkThreadRateLimits}" "check E now a ch st1 = (r, st2)"
    and run: "(if d then st' = st1 else if r = None then made E any_call st2 st' else st' = st2)"
  shows "counted R k (hour_key E now a = k) v st st'"
proof (cases d)
  case True
  with run duplicate_counted [OF server v dup] show ?thesis by simp
next
  case False
  with run show ?thesis by (intro guarded_counted [OF server v dup check]) (auto split: if_splits)
qed

lemma action_counted:
  assumes server: "de_server E = Some R" "\<not> de_fails E now" and v: "counter R k (ds_redis st) = Some v" "k = HOURLY_PREFIX @ u"
    and run: "discord_execute E now action params st = Some (r, st')"
  shows "counted R k (hour_key E now (agent_arg params) = k) v st st'"
  using action_shape [OF run]
proof
  assume "made E silent st st'"
  then show ?thesis by (rule silent_counted [OF v(1)])
next
  assume "guarded E now (agent_arg params) st st'"
  then obtain x y d st1 check ch q st2 where "isDuplicate E now x y st = (d, st1)"
      "check \<in> {checkChannelRateLimits, checkThreadRateLimits}" "check E now (agent_arg params) ch st1 = (q, st2)"
      "if d then st' = st1 else if q = None then made E any_call st2 st' else st' = st2"
    unfolding guarded_def by blast
  then show ?thesis by (rule body_counted [OF server v])
qed

end

text \<open>How many actions of a run post a text for an agent in an hour; an action is its time, its name and its arguments.\<close>

fun posts_in_hour :: "'r discord_env \<Rightarrow> string \<Rightarrow> string \<Rightarrow> (int \<times> string \<times> json) list \<Rightarrow> 'r discord \<Rightarrow> nat" where
  "posts_in_hour E agent hour [] st = 0"
| "posts_in_hour E agent hour ((now, action, params) # acts) st = (case discord_execute E now action params st of
     None \<Rightarrow> 0
   | Some (r, st') \<Rightarrow>
       (if agent_arg params = agent \<and> de_hour E now = hour \<and> has_posted st st' then 1 else 0) + posts_in_hour E agent hour acts st')"

lemma posts_bounded:
  assumes "redis_counters R" "de_server E = Some R" "list_all (\<lambda>(now, action, params). \<not> de_fails E now) acts"
    "counter R (HOURLY_PREFIX @ agent @ '':'' @ hour) (ds_redis st) = Some v"
  shows "int (posts_in_hour E agent hour acts st) \<le> max 0 (HOURLY_CAP - v)"
  using assms(3,4)
proof (induction acts arbitrary: st v)
  case Nil
  then show ?case by simp
next
  case (Cons act acts)
  let ?k = "HOURLY_PREFIX @ agent @ '':'' @ hour"
  obtain now action params where act: "act = (now, action, params)" by (cases act)
  obtain r st' where run: "discord_execute E now action params st = Some (r, st')" using discord_action_returns by blast
  have "counted R ?k (hour_key E now (agent_arg params) = ?k) v st st'"
    using redis_counters.action_counted [OF assms(1,2) _ Cons.prems(2) refl run] Cons.prems(1) act by simp
  then obtain v' where v': "counter R ?k (ds_redis st') = Some v'" "v \<le> v'" "v' = v \<or> v' \<le> HOURLY_CAP"
      "hour_key E now (agent_arg params) = ?k \<Longrightarrow> has_posted st st' \<Longrightarrow> v < v'"
    by (auto simp: counted_def)
  have "int (posts_in_hour E agent hour acts st') \<le> max 0 (HOURLY_CAP - v')"
    using Cons.IH Cons.prems(1) v'(1) by simp
  with v' run act show ?case by (auto simp: hour_key_def)
qed

text \<open>C22: while the server answers, an agent posts in an hour at most as often as the cap leaves after what the hour's counter
  already holds: messages, alerts and thread replies together, whatever else happens in between.\<close>

theorem hourly_cap_holds:
  assumes "redis_counters R" "de_server E = Some R" "list_all (\<lambda>(now, action, params). \<not> de_fails E now) acts"
    "counter R (HOURLY_PREFIX @ agent @ '':'' @ hour) (ds_redis st) = Some v"
  shows "int (posts_in_hour E agent hour acts st) \<le> max 0 (HOURLY_CAP - v)"
  by (rule posts_bounded [OF assms])

section \<open>Messages of agents\<close>

definition fresh_webhooks :: webhooks where
  "fresh_webhooks = \<lparr>wm_initialized = False, wm_clients = [], wm_credentials = [], wm_channels = []\<rparr>"

text \<open>The state after a run.\<close>

fun discord_after :: "'r discord_env \<Rightarrow> (int \<times> string \<times> json) list \<Rightarrow> 'r discord \<Rightarrow> 'r discord" where
  "discord_after E [] st = st"
| "discord_after E ((now, action, params) # acts) st = (case discord_execute E now action params st of
     None \<Rightarrow> st
   | Some (r, st') \<Rightarrow> discord_after E acts st')"

lemma after_fits: "webhooks_fit E (ds_webhooks st) \<Longrightarrow> webhooks_fit E (ds_webhooks (discord_after E acts st))"
proof (induction acts arbitrary: st)
  case Nil
  then show ?case by simp
next
  case (Cons act acts)
  obtain now action params where act: "act = (now, action, params)" by (cases act)
  with Cons show ?case by (auto split: option.splits dest: action_keeps_fit)
qed

lemma fresh_fits: "webhooks_fit E fresh_webhooks"
  by (simp add: webhooks_fit_def fresh_webhooks_def)

lemma webhook_fits:
  assumes "webhooks_fit E w" "getWebhookForChannel ch w = Some url"
  shows "\<exists>dept. channel_of E dept = ch \<and> webhook_of E dept = url"
  using assms unfolding getWebhookForChannel_def webhooks_fit_def bind_eq_Some_conv by blast

lemma init_same [simp]: "ds_calls (webhooks_init E st) = ds_calls st"
  by (simp add: webhooks_init_def Let_def)

definition suppressed_result :: "action_result \<Rightarrow> bool" where
  "suppressed_result r \<longleftrightarrow> get_prop ''suppressed'' (ar_data r) = JBool True"

lemma agent_post:
  assumes "post_or_block E p al ch a x rep ex st = (r, st')" "a \<noteq> ''system''" "webhooks_fit E (ds_webhooks st)"
  shows "ds_calls st' = ds_calls st \<and> \<not> ar_success r
    \<or> (\<exists>dept. channel_of E dept = ch \<and> ds_calls st' = ds_calls st @ [Webhook_send (webhook_of E dept) x (persona E a) rep])"
proof (cases "getWebhookForChannel ch (ds_webhooks (webhooks_init E st))")
  case None
  then show ?thesis using assms(1,2) by (auto simp: post_or_block_def post_as_agent_def failed_with_def)
next
  case (Some url)
  obtain dept where "channel_of E dept = ch" "webhook_of E dept = url"
    using webhook_fits [OF init_fit [OF assms(3)] Some] by blast
  then show ?thesis using Some assms(1,2)
    by (auto simp: post_or_block_def post_as_agent_def created_id_of_call_def client_call_def Let_def split: sum.splits)
qed

lemma message_of_agent:
  assumes "postMessage_target E params = Some (c, x)" "length x \<le> PUBLIC_MESSAGE_MAX_LEN" "agent_arg params \<noteq> ''system''"
    "webhooks_fit E (ds_webhooks st)" "postMessage E now params st = Some (r, st')"
  shows "ds_calls st' = ds_calls st \<and> (\<not> ar_success r \<or> suppressed_result r)
    \<or> (\<exists>dept rep. channel_of E dept = c \<and> ds_calls st' = ds_calls st @ [Webhook_send (webhook_of E dept) x (persona E (agent_arg params)) rep])"
proof -
  obtain d st1 where d: "isDuplicate E now c x st = (d, st1)" by fastforce
  obtain q st2 where q: "checkChannelRateLimits E now (agent_arg params) c st1 = (q, st2)" by fastforce
  have k: "ds_calls st1 = ds_calls st" "ds_calls st2 = ds_calls st" "ds_webhooks st2 = ds_webhooks st"
    using isDuplicate_keeps [OF d] channel_limits_keep [OF q] by auto
  have s: "suppressed_result suppressed_duplicate" "\<And>why. suppressed_result (suppressed_limited why)"
    by (simp_all add: suppressed_result_def suppressed_duplicate_def suppressed_limited_def done_with_def)
  note run = assms(5) [unfolded postMessage_targeted [OF assms(1)]]
  show ?thesis
  proof (cases "\<not> d \<and> q = None")
    case True
    then have "post_or_block E ''message'' [] c (agent_arg params) x (non_empty (text_arg ''replyToMessageId'' params)) [] st2 = (r, st')"
      using run d q assms(2) by simp
    from agent_post [OF this assms(3)] k assms(4) show ?thesis by auto
  next
    case False
    then show ?thesis using run d q assms(2) k s by (auto split: option.splits if_splits)
  qed
qed

text \<open>C23: a message of at most 2000 characters by an agent that is kept to its department is sent at most once, whatever channel
  it asks for and after any run of actions: through the webhook of a department whose channel is the one its own department has,
  under its own name.  If nothing was sent, the result says so.\<close>

theorem agent_messages_stay_home:
  assumes "ds_webhooks st0 = fresh_webhooks" "st = discord_after E acts st0"
    and "agent_arg params \<notin> {[], ''system'', ''keeper'', ''guide''}"
    and "getChannelForAgent (de_getenv E) (de_agents E) (agent_arg params) ''discord'' = Some home" "resolveChannelId E home = Inr c"
    and "text_arg ''text'' params = Some x" "length x \<le> PUBLIC_MESSAGE_MAX_LEN"
    and "postMessage E now params st = Some (r, st')"
  shows "ds_calls st' = ds_calls st \<and> (\<not> ar_success r \<or> suppressed_result r)
    \<or> (\<exists>dept rep. channel_of E dept = c \<and> ds_calls st' = ds_calls st @ [Webhook_send (webhook_of E dept) x (persona E (agent_arg params)) rep])"
proof -
  have fits: "webhooks_fit E (ds_webhooks st)" using assms(1,2) after_fits fresh_fits by metis
  have home: "enforced_channel E (agent_arg params) asked = Some home" for asked
    using assms(3,4) by (simp add: enforced_channel_def MESSAGE_SUPPORT_AGENTS_def)
  show ?thesis
  proof (cases "postMessage_target E params")
    case None
    then have "home = [] \<or> x = []" using home assms(5,6) by (auto simp: postMessage_target_def non_empty_def split: list.splits)
    then have "\<not> ar_success r \<and> st' = st"
      using assms(8) home assms(6) by (auto simp: postMessage_def non_empty_def failed_with_def split: list.splits)
    then show ?thesis by simp
  next
    case (Some p)
    then have "postMessage_target E params = Some (c, x)"
      using home assms(5,6) by (auto simp: postMessage_target_def non_empty_def split: list.splits option.splits)
    from message_of_agent [OF this assms(7) _ fits assms(8)] assms(3) show ?thesis by simp
  qed
qed

section \<open>An example\<close>

definition ex_discord :: "ref_db discord_env" where
  "ex_discord = \<lparr>de_getenv = (\<lambda>n. if n = ''DISCORD_CHANNEL_DEVELOPMENT'' then Some ''12345678901234567''
       else if n = ''DISCORD_WEBHOOK_DEVELOPMENT'' then Some ''https://discord.com/api/webhooks/1/t'' else None),
     de_agents = [(''scout'', \<lparr>id_name = ''Scout'', id_department = ''development''\<rparr>)], de_sha256 = (\<lambda>s. []),
     de_hour = (\<lambda>t. ''h''), de_iso = dec_int, de_server = Some ref_redis, de_fails = (\<lambda>t. False), de_client_ok = (\<lambda>u. True),
     de_answer = (\<lambda>cs c. Inr (JObj [(''id'', JStr ''1'')]))\<rparr>"

definition ex_discord_start :: "ref_db discord" where
  "ex_discord_start = \<lparr>ds_connected = True, ds_webhooks = fresh_webhooks, ds_calls = [], ds_redis = db_empty\<rparr>"

definition ex_hello :: json where
  "ex_hello = JObj [(''agentName'', JStr ''scout''), (''channel'', JStr ''general''), (''text'', JStr ''hello'')]"

definition ex_channel :: string where "ex_channel = ''12345678901234567''"

definition ex_marked :: "ref_db discord" where
  "ex_marked = ex_discord_start\<lparr>ds_redis := db_empty\<lparr>db_strings := [(DEDUP_PREFIX, ''1'')]\<rparr>\<rparr>"

lemma ex_target: "postMessage_target ex_discord ex_hello = Some (ex_channel, ''hello'')"
  by code_simp

text \<open>The hash of the example is constant, so that the text need not be normalised.\<close>

lemma ex_duplicate: "isDuplicate ex_discord now ch x ex_discord_start = (False, ex_marked)"
  by (simp add: isDuplicate_def post_fingerprint_def ex_discord_def ex_discord_start_def ex_marked_def ref_redis_def db_empty_def
      db_exists_def mhas_def mget_def mset_at_def)

definition ex_sent :: "action_result \<times> ref_db discord" where
  "ex_sent = (case checkChannelRateLimits ex_discord 0 ''scout'' ex_channel ex_marked of
     (q, st2) \<Rightarrow> post_or_block ex_discord ''message'' [] ex_channel ''scout'' ''hello'' None [] st2)"

lemma ex_limits: "fst (checkChannelRateLimits ex_discord 0 ''scout'' ex_channel ex_marked) = None"
  by code_simp

lemma ex_agent: "agent_arg ex_hello = ''scout''" "text_arg ''replyToMessageId'' ex_hello = None" "text_arg ''text'' ex_hello = Some ''hello''"
  by code_simp+

lemma ex_message: "postMessage ex_discord 0 ex_hello ex_discord_start = Some ex_sent"
  using ex_limits
  by (auto simp: postMessage_targeted [OF ex_target] ex_duplicate ex_sent_def ex_agent PUBLIC_MESSAGE_MAX_LEN_def non_empty_def
      split: prod.splits)

lemma ex_calls: "ds_calls (snd ex_sent) = [Webhook_send ''https://discord.com/api/webhooks/1/t'' ''hello'' '':telescope: Scout'' None]"
  by code_simp

lemma ex_posted: "has_posted ex_discord_start (snd ex_sent)"
  by (simp add: has_posted_def ex_calls ex_discord_start_def)

lemma ex_execute: "discord_execute ex_discord 0 ''message'' ex_hello ex_discord_start = Some ex_sent"
proof -
  have "get_prop ''userId'' ex_hello = JUndef" by code_simp
  then show ?thesis by (simp add: discord_execute_def ex_message)
qed

lemma ex_fresh: "ds_webhooks ex_discord_start = fresh_webhooks"
  by (simp add: ex_discord_start_def)

lemma ex_hour: "de_hour ex_discord t = ''h''" "de_server ex_discord = Some ref_redis" "de_fails ex_discord t = False"
  by (simp_all add: ex_discord_def)

lemma ex_posts: "posts_in_hour ex_discord ''scout'' ''h'' [(0, ''message'', ex_hello)] ex_discord_start = 1"
  using ex_posted by (simp add: ex_execute ex_agent ex_hour case_prod_unfold)

text \<open>The example posts once; the bound holds of it.\<close>

lemma hourly_cap_holds_witness:
  "posts_in_hour ex_discord ''scout'' ''h'' [(0, ''message'', ex_hello)] ex_discord_start = 1
   \<and> int (posts_in_hour ex_discord ''scout'' ''h'' [(0, ''message'', ex_hello)] ex_discord_start) \<le> max 0 (HOURLY_CAP - 0)"
proof (rule conjI [OF ex_posts])
  have "counter ref_redis (HOURLY_PREFIX @ ''scout'' @ '':'' @ ''h'') (ds_redis ex_discord_start) = Some 0"
    by (simp add: counter_def ref_redis_def ex_discord_start_def db_empty_def)
  then show "int (posts_in_hour ex_discord ''scout'' ''h'' [(0, ''message'', ex_hello)] ex_discord_start) \<le> max 0 (HOURLY_CAP - 0)"
    by (intro hourly_cap_holds [OF ref_counters.redis_counters_axioms]) (simp_all add: ex_hour)
qed

text \<open>The example asks for another channel and is sent to its own.\<close>

lemma agent_messages_stay_home_witness:
  "ds_calls (snd ex_sent) = [Webhook_send ''https://discord.com/api/webhooks/1/t'' ''hello'' '':telescope: Scout'' None]
   \<and> (ds_calls (snd ex_sent) = ds_calls ex_discord_start \<and> (\<not> ar_success (fst ex_sent) \<or> suppressed_result (fst ex_sent))
     \<or> (\<exists>dept rep. channel_of ex_discord dept = ex_channel \<and> ds_calls (snd ex_sent)
         = ds_calls ex_discord_start @ [Webhook_send (webhook_of ex_discord dept) ''hello'' (persona ex_discord (agent_arg ex_hello)) rep]))"
proof (rule conjI [OF ex_calls])
  have home: "getChannelForAgent (de_getenv ex_discord) (de_agents ex_discord) (agent_arg ex_hello) ''discord'' = Some ex_channel"
    "resolveChannelId ex_discord ex_channel = Inr ex_channel"
    by code_simp+
  show "ds_calls (snd ex_sent) = ds_calls ex_discord_start \<and> (\<not> ar_success (fst ex_sent) \<or> suppressed_result (fst ex_sent))
     \<or> (\<exists>dept rep. channel_of ex_discord dept = ex_channel \<and> ds_calls (snd ex_sent)
         = ds_calls ex_discord_start @ [Webhook_send (webhook_of ex_discord dept) ''hello'' (persona ex_discord (agent_arg ex_hello)) rep])"
    by (rule agent_messages_stay_home [where acts = "[]" and ?st0.0 = ex_discord_start and now = 0, OF _ _ _ home])
      (simp_all add: ex_agent ex_message ex_fresh PUBLIC_MESSAGE_MAX_LEN_def)
qed

section \<open>Messages that are never posted\<close>

text \<open>The fingerprint is kept before the limits are asked: a message the limits refuse is a duplicate when it is tried
  again, so that it is reported as suppressed and nothing is sent.\<close>

lemma refused_text_is_a_duplicate:
  assumes "redis_keys R" "de_server E = Some R" "\<not> de_fails E now" "\<not> de_fails E later"
    "isDuplicate E now ch x st = (d, st1)" "checkChannelRateLimits E now a ch st1 = (Some why, st2)"
  shows "fst (isDuplicate E later ch x st2)"
proof -
  let ?k = "DEDUP_PREFIX @ post_fingerprint (de_sha256 E) ch x"
  have there: "EXISTS R ?k (ds_redis st1)"
    using assms(2,3,5) redis_keys.setnx [OF assms(1), of ?k DEDUP_TTL_S "ds_redis st"] by (auto simp: isDuplicate_def split: prod.splits)
  have "EXISTS R ?k (ds_redis st2)"
  proof -
    obtain q s1 where q: "rate_limit_script R (hour_key E now a) (COOLDOWN_PREFIX @ a @ '':'' @ ch) HOURLY_CAP CHANNEL_COOLDOWN_S
        HOURLY_WINDOW_S (ds_redis st1) = (q, s1)" by fastforce
    then have "ds_redis st2 = s1" "q \<noteq> Some ''ok''" using assms(2,3,6)
      by (auto simp: checkChannelRateLimits_def checkRateLimits_def split: option.splits if_splits)
    moreover have "EXISTS R ?k s1" if "q \<noteq> Some ''ok''"
      using q that there redis_keys.setnx [OF assms(1), of "COOLDOWN_PREFIX @ a @ '':'' @ ch" CHANNEL_COOLDOWN_S "ds_redis st1"]
      by (auto simp: rate_limit_script_def Let_def split: option.splits if_splits prod.splits)
    ultimately show ?thesis by simp
  qed
  then show ?thesis
    using assms(2,4) redis_keys.setnx [OF assms(1), of ?k DEDUP_TTL_S "ds_redis st2"] by (auto simp: isDuplicate_def split: prod.splits)
qed

lemma refused_message_is_lost:
  assumes "redis_keys R" "de_server E = Some R" "\<not> de_fails E now" "\<not> de_fails E later"
    "postMessage_target E params = Some (ch, x)" "length x \<le> PUBLIC_MESSAGE_MAX_LEN"
    "postMessage E now params st = Some (suppressed_limited why, st')"
    "fst (checkChannelRateLimits E now (agent_arg params) ch (snd (isDuplicate E now ch x st))) = Some why"
    "\<not> fst (isDuplicate E now ch x st)"
  shows "\<exists>st''. postMessage E later params st' = Some (suppressed_duplicate, st'') \<and> ds_calls st'' = ds_calls st'"
proof -
  obtain d st1 where d: "isDuplicate E now ch x st = (d, st1)" by fastforce
  obtain q st2 where q: "checkChannelRateLimits E now (agent_arg params) ch st1 = (q, st2)" by fastforce
  have "q = Some why" "\<not> d" using assms(8,9) d q by simp_all
  then have st': "st' = st2" using assms(6,7) postMessage_targeted [OF assms(5), of now st] d q by simp
  obtain d2 st3 where d2: "isDuplicate E later ch x st2 = (d2, st3)" by fastforce
  have d2t: "d2" using refused_text_is_a_duplicate [OF assms(1-4) d, of "agent_arg params" why st2] q \<open>q = Some why\<close> d2 by simp
  have "postMessage E later params st2 = Some (suppressed_duplicate, st3)"
    using postMessage_targeted [OF assms(5), of later st2] assms(6) d2 d2t by simp
  with st' isDuplicate_keeps [OF d2] show ?thesis by simp
qed

text \<open>Two long texts of an agent that agree in their first 200 characters have one teaser, and so one fingerprint.\<close>

lemma long_reports_collide: "take 200 x = take 200 y \<Longrightarrow> teaser E a x = teaser E a y"
  by (simp add: teaser_def)

text \<open>A long text is reported as posted once its teaser is, whether or not a chunk of it arrived.\<close>

lemma overflow_always_succeeds: "overflow_thread E ch x a p st = Some (r, st') \<Longrightarrow> ar_success r"
  by (auto simp: overflow_thread_def done_with_def Let_def split: sum.splits prod.splits)

text \<open>A reaction is reported as made whatever the service answers, and when the bot is not connected.\<close>

lemma reactions_always_succeed:
  "\<lbrakk>text_arg ''channel'' params = Some channel; channel \<noteq> []; resolveChannelId E channel = Inr ch;
    text_arg ''messageId'' params = Some (m # ms); text_arg ''emoji'' params = Some (e # es)\<rbrakk>
    \<Longrightarrow> ar_success (fst (react E params st))"
  by (cases channel) (simp_all add: react_def non_empty_def done_with_def)

end
