(* ===== verification/Spec2Isabelle.thy ===== *)
theory Spec2Isabelle
  imports EventBus_Correct CircuitBreaker Permission TaskLocks AgentQueue Dispatcher_Correct
    CrossDept Approvals_Correct Budget RateLimiter AgentBus_Correct HardGates_Correct RiskClassifier Deploy_Correct
    SelfMod_Correct OutboundSafety_Correct Executor_Correct OperatorAuth_Correct OperatorTasks_Correct
    OperatorEvents_Correct BatchCollector_Correct AoBridge_Correct Discord_Correct
begin

text \<open>
  YClaw runs a company of language-model agents: events drive agents, agents ask for actions, a builder executes
  coding tasks on a pool of workers, operators trigger and supervise, and several gates keep the whole within
  budgets, rates, permissions and approvals.  This development models the part of
  \<open>packages/core\<close> that decides: what is admitted, in which order, by whom, how often, and what survives a crash.

  \<^bold>\<open>Conventions.\<close>  Code is translated function by function: interfaces and classes are records, string
  unions are datatypes, \<open>undefined\<close> and \<open>null\<close> are \<open>None\<close> (or \<open>JUndef\<close> and \<open>JNull\<close>
  where the code tells them apart), thrown errors are values of a sum, option or error type, a
  method that changes its object returns the changed record.  A JavaScript \<open>Map\<close> is an association list in
  insertion order.  Numbers are the integral ones the code works with.  Each class method runs atomically
  unless a theory says otherwise; \<open>Approvals_Correct\<close> and \<open>Deploy_Correct\<close> split the methods at their awaits
  and interleave them.
  Log lines, metrics labels and the wording of messages to people are left out.

  \<^bold>\<open>Outside the sources.\<close>  Redis, MongoDB, cryptography, clocks, dates, identifiers, event handlers and HTTP
  services are arguments of the definitions.  What the code relies on is stated as locales: \<open>redis_hashes\<close>,
  \<open>redis_queues\<close>, \<open>redis_lists\<close>, \<open>redis_keys\<close>, \<open>redis_counters\<close>, \<open>redis_windows\<close>, \<open>redis_exec_locks\<close> in \<open>Redis\<close>
  (server-side scripts run as one step, as the server documents) and \<open>mongo_collection\<close> in \<open>Mongo\<close> (one update is
  one step, the unique index rejects duplicates).  Reference instances, a database of lists and association
  lists, interpret every one of them and let the witnesses run.

  \<^bold>\<open>Parts, and the theories that model them.\<close>

  \<^item> \<open>Prelude\<close>, \<open>Json\<close>, \<open>JsonText\<close>: the string and map operations of the runtime, JSON values, the canonical
    text, \<open>JSON.stringify\<close> and \<open>JSON.parse\<close> with their round trip.
  \<^item> Secure event bus (\<open>security/eventbus\<close>): \<open>Envelope\<close> (canonical content, signatures, keys, publisher),
    \<open>EventBus\<close> (policy, schemas, the validation pipeline), \<open>EventBus_Correct\<close>: a signature pins the signed content,
    accepted events passed every stage, an event is accepted at most once while the cache outlives the
    accepted age, published events are accepted, unauthenticated ones have no effect.
  \<^item> Agent event bus (\<open>triggers/event.ts\<close>, \<open>event-acl.ts\<close>, \<open>event-schemas.ts\<close>): \<open>AgentAcl\<close>, \<open>AgentBus\<close>,
    \<open>AgentBus_Correct\<close>: delivery equals a specification that runs all matching handlers; only listed
    publications have an effect, and sixteen publications of the sources are never listed.
  \<^item> \<open>CircuitBreaker\<close> (\<open>security/circuit-breaker.ts\<close>): daily budgets, cooldowns.
  \<^item> \<open>Permission\<close> (\<open>operators/permission-engine.ts\<close>, \<open>roles.ts\<close>): the engine decides the declared policy.
  \<^item> \<open>TaskLocks\<close>, \<open>AgentQueue\<close>, \<open>CrossDept\<close>, \<open>RateLimiter\<close> (\<open>operators/\<close>): priority locks refine an abstract
    lock; the per-agent queue runs everything once, in order; a request is resolved once; a sliding window.
  \<^item> Builder (\<open>builder/\<close>): \<open>BuilderTypes\<close>, \<open>TaskQueue\<close> (all of the queue), \<open>TaskQueue_Levels\<close> (its contract),
    \<open>TaskQueue_Redis\<close>, \<open>TaskQueue_Correct\<close>, \<open>TaskQueue_Props\<close>, \<open>DeadLetters\<close>, \<open>DeadLetters_Correct\<close>,
    \<open>Recovery_Correct\<close>, \<open>Worker\<close>, \<open>ProjectCircuit\<close>, \<open>Dispatcher\<close>, \<open>Dispatcher_Correct\<close>: the Redis and the in-memory queue
    agree with first-in-first-out levels, tasks survive their encoding, retries and recovery account for
    every entry, dispatch fills idle workers and never overfills one.
  \<^item> \<open>Approvals\<close>, \<open>Approvals_Correct\<close> (\<open>approvals/\<close>): the human gate holds under every interleaving; decisions are
    unique unless they overlap, and two overlapping ones both win.
  \<^item> \<open>Costs\<close>, \<open>Budget\<close> (\<open>costs/\<close>): the enforcing check blocks exactly at the spend the recorded calls add up to.
  \<^item> Deployment governance (\<open>actions/deploy\<close>, \<open>deploy/\<close>, \<open>safety/hard-gate-runner.ts\<close>, the records of
    \<open>logging/audit.ts\<close>): \<open>Regex\<close> (the expressions the tables use, matched with context for anchors and
    word boundaries), \<open>HardGates\<close>, \<open>HardGates_Correct\<close> (which added lines block a diff, and what is never
    looked at), \<open>RiskClassifier\<close>, \<open>Deploy\<close>, \<open>Deploy_Correct\<close>: under every interleaving a critical deployment only
    runs after the gates and the architect's approval, one production deployment per repository runs at a time while
    locks do not expire, the canary decides within eleven rounds.
  \<^item> Agents: \<open>SelfMod\<close>, \<open>SelfMod_Correct\<close> (\<open>self/safety.ts\<close>, \<open>self/tools.ts\<close>: protected keys survive, the tools write
    nothing else, and the ways around the gate), \<open>OutboundSafety\<close>, \<open>OutboundSafety_Correct\<close>
    (\<open>review/outbound-safety.ts\<close>, \<open>content-dedup.ts\<close>: what is let out, and that no text is posted twice).
  \<^item> \<open>Objectives\<close>, \<open>Objectives_Correct\<close> (\<open>objectives/\<close>): the life of an objective, the roll-up of costs and its warning,
    the detector of stale loops.
  \<^item> Execution (\<open>agent/\<close>, \<open>checkpoint/\<close>, the tables of \<open>actions/registry.ts\<close>): \<open>Routing\<close> (configurations, router, registry, channels,
    the actions on the event bus), \<open>Conversation\<close>, \<open>Conversation_Correct\<close> (messages, token estimates, the compressor, prompt
    snapshots: conversations stay well-formed), \<open>Checkpoint\<close> (what was saved is what is loaded), \<open>ToolCalls\<close>, \<open>ToolCalls_Correct\<close>
    (tool names, the gates in front of an action, reviews), \<open>Executor\<close>, \<open>Executor_Correct\<close> (\<open>agent/executor.ts\<close>: an execution ends after at
    most twenty-five rounds, its calls passed the gates, a refused one does nothing).  The answers of the model, the texts of
    the prompts, the settings overlay, the working memory, the summariser and the scanner of memories are arguments; the
    event that reports a compression is left out.  What the code starts and does not await happens at once, and one
    execution runs at a time; what two of them do to the record they share is stated in lemmas.
  \<^item> Operators (\<open>operators/\<close>): \<open>OperatorAuth\<close>, \<open>OperatorRoutes\<close>, \<open>OperatorAuth_Correct\<close> (accounts, invitations, keys, the
    middlewares and the routes that admit and revoke: authority has an origin in the first root operator, a revocation is
    final, a new key opens its account), \<open>OperatorTasks\<close>, \<open>OperatorTasks_Correct\<close> (tasks, their execution on the queues of the agents, locks
    and requests between departments: new work is authorised, and what is shown as queued waits behind a running
    task), \<open>OperatorEvents\<close>, \<open>OperatorEvents_Correct\<close> (the stream of events: a reader who follows the cursor misses
    nothing, as long as insertions arrive in order).
  \<^item> \<open>BatchCollector\<close>, \<open>BatchCollector_Correct\<close> (\<open>triggers/batch-collector.ts\<close>, \<open>config/settings-overlay.ts\<close>): collected events are used
    once and a timer stands behind those that wait.
  \<^item> \<open>AoBridge\<close>, \<open>AoBridge_Correct\<close> (\<open>ao/bridge.ts\<close>, \<open>ao/queue.ts\<close>): when the circuit of a repository is open, and the replay of
    queued directives.
  \<^item> \<open>Discord\<close>, \<open>Discord_Correct\<close> (\<open>actions/discord/\<close>, \<open>adapters/channels/DiscordChannelAdapter.ts\<close>): the actions of agents on
    Discord return whatever the service answers, keep the hourly cap, send the messages of an agent to the channel of its
    department under its name, and cut long texts into chunks that keep the text.

  \<^bold>\<open>Fuel and bounds.\<close>  The JSON parser recurses on a fuel of twice the length of its text, enough for every printed
  value (\<open>json_parse_stringify\<close>).  Loops over queues recurse on the length of the set they pop from; that a
  dequeue returns on any server is a theorem (\<open>dequeue_always_returns\<close>), as is that the loop over the chunks of a text
  ends (\<open>chunks_fit_and_keep_text\<close>).  All other recursion is structural or
  has a termination proof.  The entropy of the secrets gate is computed in the reals, where the code uses doubles.

  \<^bold>\<open>Not modelled.\<close>  The language-model clients (their behaviour is that of external services),
  actions on third-party platforms other than Discord, the HTTP routes outside \<open>operators/\<close> and process bootstrap (glue), the AO bridge server and code
  generation (processes, shell, git), the reconciler and the webhooks of GitHub (their logic is that of third-party replies), knowledge stores and onboarding (files, model calls), zod schemas of
  configuration files, the PostgreSQL memory package, and Mission Control (a React interface).
\<close>

end
